(* ===== verification/GoLang.thy ===== *)
theory GoLang
  imports Main "HOL-Library.List_Lexorder" "HOL-Library.Char_ord"
begin

text \<open>
  The part of Go and of its standard library that the modelled sources use: strings
  (package \<^verbatim>\<open>strings\<close>, the \<^verbatim>\<open>%s\<close>, \<^verbatim>\<open>%d\<close> and \<^verbatim>\<open>%q\<close> verbs of \<^verbatim>\<open>fmt\<close>), string maps,
  64-bit integers with wrap-around, instants and durations (package \<^verbatim>\<open>time\<close>) and errors.

  Conventions.
  \<^item> A Go string is its list of bytes. White space and letter case are the ASCII ones.
  \<^item> A nil slice and an empty slice are both \<open>[]\<close>; a pointer is an \<open>option\<close>.
  \<^item> A \<^verbatim>\<open>map[string]string\<close> is an association list; iteration follows the list.
  \<^item> An instant is the number of nanoseconds since Go's zero time (January 1 of year 1, UTC),
    so \<^verbatim>\<open>IsZero\<close> is \<open>t = 0\<close> and \<^verbatim>\<open>Truncate\<close>, which Go defines from the zero time, is
    integer arithmetic. A duration is a signed 64-bit number of nanoseconds: products wrap
    around and \<^verbatim>\<open>Sub\<close> saturates, as in Go.
\<close>

named_theorems go_simps \<open>rewrite rules for the Go string and time primitives\<close>

subsection \<open>Strings\<close>

definition is_space :: "char \<Rightarrow> bool" where
  "is_space c \<longleftrightarrow> c \<in> {CHR 0x09, CHR 0x0A, CHR 0x0B, CHR 0x0C, CHR 0x0D, CHR 0x20}"

definition trim_by :: "(char \<Rightarrow> bool) \<Rightarrow> string \<Rightarrow> string" where
  "trim_by P s = rev (dropWhile P (rev (dropWhile P s)))"

definition TrimSpace :: "string \<Rightarrow> string" where
  "TrimSpace s = trim_by is_space s"

definition Trim :: "string \<Rightarrow> char \<Rightarrow> string" where
  "Trim s c = trim_by (\<lambda>x. x = c) s"

definition char_lower :: "char \<Rightarrow> char" where
  "char_lower c = (let n = (of_char c :: nat) in
     if 65 \<le> n \<and> n \<le> 90 then char_of (n + 32) else c)"

definition ToLower :: "string \<Rightarrow> string" where
  "ToLower s = map char_lower s"

definition EqualFold :: "string \<Rightarrow> string \<Rightarrow> bool" where
  "EqualFold a b \<longleftrightarrow> ToLower a = ToLower b"

definition HasPrefix :: "string \<Rightarrow> string \<Rightarrow> bool" where
  "HasPrefix s p \<longleftrightarrow> take (length p) s = p"

definition HasSuffix :: "string \<Rightarrow> string \<Rightarrow> bool" where
  "HasSuffix s p \<longleftrightarrow> length p \<le> length s \<and> drop (length s - length p) s = p"

text \<open>\<^verbatim>\<open>strings.Index\<close> (\<open>None\<close> for -1), \<^verbatim>\<open>strings.Split\<close> at a one-byte separator and the like.\<close>

fun Index :: "string \<Rightarrow> string \<Rightarrow> nat option" where
  "Index [] pat = (if pat = [] then Some 0 else None)"
| "Index (c # cs) pat = (if HasPrefix (c # cs) pat then Some 0 else map_option Suc (Index cs pat))"

fun Split :: "string \<Rightarrow> char \<Rightarrow> string list" where
  "Split [] sep = [[]]"
| "Split (c # cs) sep =
     (if c = sep then [] # Split cs sep
      else (case Split cs sep of [] \<Rightarrow> [[c]] | l # ls \<Rightarrow> (c # l) # ls))"

definition TrimSet :: "string \<Rightarrow> string \<Rightarrow> string" where
  "TrimSet s cutset = trim_by (\<lambda>x. x \<in> set cutset) s"

definition TrimRight :: "string \<Rightarrow> char \<Rightarrow> string" where
  "TrimRight s c = rev (dropWhile (\<lambda>x. x = c) (rev s))"

definition TrimPrefix :: "string \<Rightarrow> string \<Rightarrow> string" where
  "TrimPrefix s p = (if HasPrefix s p then drop (length p) s else s)"

definition ContainsAny :: "string \<Rightarrow> string \<Rightarrow> bool" where
  "ContainsAny s chars \<longleftrightarrow> (\<exists>c \<in> set s. c \<in> set chars)"

definition FormatBool :: "bool \<Rightarrow> string" where
  "FormatBool b = (if b then ''true'' else ''false'')"

fun Join :: "string list \<Rightarrow> string \<Rightarrow> string" where
  "Join [] sep = []"
| "Join [x] sep = x"
| "Join (x # y # xs) sep = x @ sep @ Join (y # xs) sep"

fun itoa_nat :: "nat \<Rightarrow> string" where
  "itoa_nat n =
     (if n < 10 then [char_of (48 + n)] else itoa_nat (n div 10) @ [char_of (48 + n mod 10)])"

declare itoa_nat.simps [simp del]

definition Itoa :: "int \<Rightarrow> string" where
  "Itoa i = (if i < 0 then CHR ''-'' # itoa_nat (nat (- i)) else itoa_nat (nat i))"

definition hex_digit :: "nat \<Rightarrow> char" where
  "hex_digit n = (if n < 10 then char_of (48 + n) else char_of (87 + n))"

text \<open>The escapes of \<^verbatim>\<open>strconv.Quote\<close>, which the verb \<^verbatim>\<open>%q\<close> uses.\<close>

definition quote_char :: "char \<Rightarrow> string" where
  "quote_char c = (let n = (of_char c :: nat) in
     if n = 34 then [CHR 0x5C, CHR 0x22]
     else if n = 92 then [CHR 0x5C, CHR 0x5C]
     else if n = 7 then [CHR 0x5C, CHR ''a'']
     else if n = 8 then [CHR 0x5C, CHR ''b'']
     else if n = 12 then [CHR 0x5C, CHR ''f'']
     else if n = 10 then [CHR 0x5C, CHR ''n'']
     else if n = 13 then [CHR 0x5C, CHR ''r'']
     else if n = 9 then [CHR 0x5C, CHR ''t'']
     else if n = 11 then [CHR 0x5C, CHR ''v'']
     else if n < 32 \<or> n = 127 then [CHR 0x5C, CHR ''x'', hex_digit (n div 16), hex_digit (n mod 16)]
     else [c])"

definition Quote :: "string \<Rightarrow> string" where
  "Quote s = CHR 0x22 # concat (map quote_char s) @ [CHR 0x22]"

lemma dropWhile_idem [simp]: "dropWhile P (dropWhile P xs) = dropWhile P xs"
  by (induction xs) auto

lemma dropWhile_rev_dropWhile:
  "dropWhile P (rev (dropWhile P (rev (dropWhile P xs)))) = rev (dropWhile P (rev (dropWhile P xs)))"
proof (cases "dropWhile P xs")
  case Nil
  then show ?thesis by (simp only: Nil) simp
next
  case (Cons y ys)
  then obtain z zs where z: "dropWhile P xs = z # zs" "\<not> P z"
    by (metis dropWhile_eq_Cons_conv list.exhaust)
  have "dropWhile P (rev zs @ [z]) = dropWhile P (rev zs) @ [z]"
    using z(2) by (cases "\<exists>x\<in>set (rev zs). \<not> P x") (auto simp: dropWhile_append)
  then show ?thesis using z by simp
qed

lemma trim_by_idem [simp]: "trim_by P (trim_by P s) = trim_by P s"
  unfolding trim_by_def by (simp add: dropWhile_rev_dropWhile)

lemma TrimSpace_idem [simp, go_simps]: "TrimSpace (TrimSpace s) = TrimSpace s"
  by (simp add: TrimSpace_def)

lemma TrimSpace_Nil [simp, go_simps]: "TrimSpace [] = []"
  by (simp add: TrimSpace_def trim_by_def)

lemma trim_by_Nil_iff: "trim_by P s = [] \<longleftrightarrow> (\<forall>c \<in> set s. P c)"
proof
  have keep: "c \<in> set (dropWhile P s) \<or> P c" if "c \<in> set s" for c
    using that by (induction s) auto
  assume "trim_by P s = []"
  then have "\<forall>c \<in> set (dropWhile P s). P c"
    unfolding trim_by_def by (auto simp: dropWhile_eq_Nil_conv)
  then show "\<forall>c \<in> set s. P c" using keep by blast
next
  assume "\<forall>c \<in> set s. P c"
  then have none: "dropWhile P s = []" by simp
  show "trim_by P s = []" unfolding trim_by_def none by simp
qed

lemma set_trim_by: "set (trim_by P s) \<subseteq> set s"
  unfolding trim_by_def by (auto dest!: set_dropWhileD)

lemma length_trim_by: "length (trim_by P s) \<le> length s"
proof -
  have "length (trim_by P s) \<le> length (dropWhile P s)"
    unfolding trim_by_def by (metis length_dropWhile_le length_rev)
  then show ?thesis using length_dropWhile_le [of P s] by linarith
qed

lemma hd_dropWhile_rev:
  assumes "trim_by P s \<noteq> []"
  shows "\<not> P (hd (trim_by P s))" and "\<not> P (last (trim_by P s))"
proof -
  have "dropWhile P (trim_by P s) = trim_by P s"
    unfolding trim_by_def by (rule dropWhile_rev_dropWhile)
  then show "\<not> P (hd (trim_by P s))"
    using assms by (metis hd_dropWhile)
  have "last (trim_by P s) = hd (dropWhile P (rev (dropWhile P s)))"
    using assms unfolding trim_by_def by (simp add: last_rev)
  then show "\<not> P (last (trim_by P s))"
    using assms unfolding trim_by_def by (metis hd_dropWhile rev.simps(1))
qed

lemma EqualFold_refl [simp]: "EqualFold a a"
  by (simp add: EqualFold_def)

lemma Split_not_Nil [simp]: "Split s sep \<noteq> []"
  by (cases s) (auto split: list.splits)

lemma Join_Cons_Cons: "xs \<noteq> [] \<Longrightarrow> Join (x # xs) sep = x @ sep @ Join xs sep"
  by (cases xs) auto

lemma Join_Split [simp]: "Join (Split s sep) [sep] = s"
proof (induction s)
  case (Cons c cs)
  obtain l ls where l: "Split cs sep = l # ls" by (cases "Split cs sep") auto
  then have "Join (l # ls) [sep] = cs" using Cons by simp
  then show ?case using l by (cases ls) (auto simp: Join_Cons_Cons)
qed simp

lemma Split_no_sep: "part \<in> set (Split s sep) \<Longrightarrow> sep \<notin> set part"
  by (induction s arbitrary: part) (auto split: if_splits list.splits)

subsection \<open>String maps\<close>

type_synonym strmap = "(string \<times> string) list"

text \<open>\<^verbatim>\<open>m[k]\<close> reads the empty string when the key is absent.\<close>

definition map_get :: "strmap \<Rightarrow> string \<Rightarrow> string" where
  "map_get m k = (case map_of m k of None \<Rightarrow> [] | Some v \<Rightarrow> v)"

fun map_set :: "strmap \<Rightarrow> string \<Rightarrow> string \<Rightarrow> strmap" where
  "map_set [] k v = [(k, v)]"
| "map_set ((k', v') # m) k v = (if k' = k then (k, v) # m else (k', v') # map_set m k v)"

definition map_union :: "strmap \<Rightarrow> strmap \<Rightarrow> strmap" where
  "map_union m n = foldl (\<lambda>acc (k, v). map_set acc k v) m n"

lemma map_of_map_set [simp]: "map_of (map_set m k v) = (map_of m)(k \<mapsto> v)"
  by (induction m) auto

lemma map_get_map_set [simp, go_simps]:
  "map_get (map_set m k v) k' = (if k' = k then v else map_get m k')"
  by (simp add: map_get_def)

lemma distinct_map_set: "distinct (map fst m) \<Longrightarrow> distinct (map fst (map_set m k v))"
proof (induction m k v rule: map_set.induct)
  case (2 k' v' m k v)
  have "set (map fst (map_set m k v)) = insert k (set (map fst m))" for m :: strmap
    by (induction m k v rule: map_set.induct) auto
  with 2 show ?case by auto
qed simp

subsection \<open>64-bit integers, durations and instants\<close>

type_synonym duration = int
type_synonym instant = int

definition wrap64 :: "int \<Rightarrow> int" where
  "wrap64 x = (x + 2 ^ 63) mod 2 ^ 64 - 2 ^ 63"

definition saturate64 :: "int \<Rightarrow> int" where
  "saturate64 x = (if x < - (2 ^ 63) then - (2 ^ 63) else if 2 ^ 63 - 1 < x then 2 ^ 63 - 1 else x)"

abbreviation Second :: duration where "Second \<equiv> 1000000000"

definition Hour24 :: duration where "Hour24 = 86400000000000"

text \<open>\<^verbatim>\<open>time.Duration(n) * time.Second\<close>: a 64-bit product.\<close>

definition seconds :: "int \<Rightarrow> duration" where
  "seconds n = wrap64 (n * Second)"

definition time_sub :: "instant \<Rightarrow> instant \<Rightarrow> duration" where
  "time_sub a b = saturate64 (a - b)"

definition time_trunc :: "instant \<Rightarrow> duration \<Rightarrow> instant" where
  "time_trunc t d = (if d \<le> 0 then t else t - t mod d)"

text \<open>Integer division of Go truncates towards zero; a zero divisor panics.\<close>

definition go_div :: "int \<Rightarrow> int \<Rightarrow> int option" where
  "go_div a b = (if b = 0 then None else Some (wrap64 (sgn a * sgn b * (\<bar>a\<bar> div \<bar>b\<bar>))))"

lemma wrap64_id: "- (2 ^ 63) \<le> x \<Longrightarrow> x < 2 ^ 63 \<Longrightarrow> wrap64 x = x"
  unfolding wrap64_def by (simp add: mod_pos_pos_trivial)

lemma wrap64_range: "- (2 ^ 63) \<le> wrap64 x" "wrap64 x < 2 ^ 63"
  unfolding wrap64_def by (simp_all add: algebra_simps)

text \<open>The largest number of seconds whose duration does not overflow, about 292 years.\<close>

definition max_seconds :: int where "max_seconds = 9223372036"

lemma seconds_exact [go_simps]: "0 \<le> n \<Longrightarrow> n \<le> max_seconds \<Longrightarrow> seconds n = n * Second"
  unfolding seconds_def max_seconds_def by (rule wrap64_id) simp_all

lemma seconds_pos: "0 < n \<Longrightarrow> n \<le> max_seconds \<Longrightarrow> 0 < seconds n"
  by (simp add: seconds_exact)

lemma time_trunc_le: "0 < d \<Longrightarrow> time_trunc t d \<le> t \<and> t < time_trunc t d + d"
  unfolding time_trunc_def by (simp add: pos_mod_bound)

lemma saturate64_id: "- (2 ^ 63) \<le> x \<Longrightarrow> x < 2 ^ 63 \<Longrightarrow> saturate64 x = x"
  by (simp add: saturate64_def)

lemma go_div_pos:
  assumes "0 \<le> a" and "a < 2 ^ 63" and "0 < b"
  shows "go_div a b = Some (a div b)"
proof -
  have "a div b \<le> a" using zdiv_mono2 [of a 1 b] assms by simp
  moreover have "0 \<le> a div b" using assms by (simp add: pos_imp_zdiv_nonneg_iff)
  ultimately have "wrap64 (a div b) = a div b"
    using assms(2) by (intro wrap64_id) linarith+
  moreover have "sgn a * sgn b * (\<bar>a\<bar> div \<bar>b\<bar>) = a div b"
    using assms by (cases "a = 0") (simp_all add: sgn_if)
  ultimately show ?thesis using assms(3) by (simp only: go_div_def) simp
qed

subsection \<open>Formatting of instants\<close>

definition pad0 :: "nat \<Rightarrow> int \<Rightarrow> string" where
  "pad0 w i = (let d = itoa_nat (nat i) in replicate (w - length d) (CHR ''0'') @ d)"

text \<open>The proleptic Gregorian date of a day number (day 0 is January 1 of year 1).\<close>

definition civil :: "int \<Rightarrow> int \<times> int \<times> int" where
  "civil days =
     (let z = days + 306; era = z div 146097; doe = z mod 146097;
          yoe = (doe - doe div 1460 + doe div 36524 - doe div 146096) div 365;
          doy = doe - (365 * yoe + yoe div 4 - yoe div 100);
          mp = (5 * doy + 2) div 153;
          d = doy - (153 * mp + 2) div 5 + 1;
          m = (if mp < 10 then mp + 3 else mp - 9);
          y = yoe + era * 400 + (if m \<le> 2 then 1 else 0)
      in (y, m, d))"

definition secs_of_day :: "instant \<Rightarrow> int" where
  "secs_of_day t = (t mod Hour24) div Second"

definition fmt_date_time :: "string \<Rightarrow> string \<Rightarrow> string \<Rightarrow> instant \<Rightarrow> string" where
  "fmt_date_time dsep sep tsep t =
     (case civil (t div Hour24) of (y, m, d) \<Rightarrow>
       (let s = secs_of_day t in
        pad0 4 y @ dsep @ pad0 2 m @ dsep @ pad0 2 d @ sep @
        pad0 2 (s div 3600) @ tsep @ pad0 2 ((s div 60) mod 60) @ tsep @ pad0 2 (s mod 60)))"

text \<open>\<^verbatim>\<open>t.UTC().Format(time.RFC3339)\<close> and \<^verbatim>\<open>t.UTC().Format("20060102-150405")\<close>.\<close>

definition RFC3339 :: "instant \<Rightarrow> string" where
  "RFC3339 t = fmt_date_time ''-'' ''T'' '':'' t @ ''Z''"

definition compact_stamp :: "instant \<Rightarrow> string" where
  "compact_stamp t = fmt_date_time [] ''-'' [] t"

text \<open>
  \<^verbatim>\<open>t.Format(time.RFC3339Nano)\<close> in a zone that is \<open>off\<close> seconds east of UTC: the fraction
  is written without its trailing zeros, and the zone as \<^verbatim>\<open>Z\<close> or \<^verbatim>\<open>+hh:mm\<close>.
\<close>

definition fmt_fraction :: "instant \<Rightarrow> string" where
  "fmt_fraction t = (let n = t mod Second in
     if n = 0 then [] else CHR ''.'' # rev (dropWhile (\<lambda>c. c = CHR ''0'') (rev (pad0 9 n))))"

definition fmt_zone :: "int \<Rightarrow> string" where
  "fmt_zone off = (if off = 0 then ''Z'' else
     (let m = \<bar>off\<bar> div 60 in
      (if off < 0 then ''-'' else ''+'') @ pad0 2 (m div 60) @ '':'' @ pad0 2 (m mod 60)))"

definition RFC3339Nano :: "int \<Rightarrow> instant \<Rightarrow> string" where
  "RFC3339Nano off t =
     (let u = t + off * Second in
      fmt_date_time ''-'' ''T'' '':'' u @ fmt_fraction u @ fmt_zone off)"

subsection \<open>Errors\<close>

text \<open>
  The errors the controllers handle. \<open>ApiError\<close> is an API-server status error with its
  reason and text; \<open>Errorf\<close> an error made from a text; \<open>Wrapf\<close> one made with the verb
  \<^verbatim>\<open>%w\<close>; \<open>ScopeConflict\<close> the typed error \<^verbatim>\<open>agentRunScopeConflict\<close>; \<open>ProvenanceMismatch\<close>
  an error that wraps \<^verbatim>\<open>errAgentChainRunProvenance\<close>; \<open>Panic\<close> a run-time panic, which
  unwinds to the controller runtime.
\<close>

datatype api_reason = NotFound | AlreadyExists | Conflict | OtherReason

datatype go_error =
    ApiError api_reason string
  | Errorf string
  | Wrapf string go_error
  | ScopeConflict string string
  | ProvenanceMismatch string
  | Panic string

fun api_reason_of :: "go_error \<Rightarrow> api_reason option" where
  "api_reason_of (ApiError r m) = Some r"
| "api_reason_of (Wrapf m e) = api_reason_of e"
| "api_reason_of _ = None"

definition IsNotFound :: "go_error \<Rightarrow> bool" where
  "IsNotFound e \<longleftrightarrow> api_reason_of e = Some NotFound"

definition IsAlreadyExists :: "go_error \<Rightarrow> bool" where
  "IsAlreadyExists e \<longleftrightarrow> api_reason_of e = Some AlreadyExists"

definition IsConflict :: "go_error \<Rightarrow> bool" where
  "IsConflict e \<longleftrightarrow> api_reason_of e = Some Conflict"

fun error_text :: "go_error \<Rightarrow> string" where
  "error_text (ApiError r m) = m"
| "error_text (Errorf m) = m"
| "error_text (Wrapf m e) = m @ '': '' @ error_text e"
| "error_text (ScopeConflict d p) =
     ''run scope applicationRef '' @ Quote d @ '' conflicts with AgentRunProfile applicationRef '' @ Quote p"
| "error_text (ProvenanceMismatch m) = ''AgentRun provenance mismatch: '' @ m"
| "error_text (Panic m) = ''panic: '' @ m"

fun scope_conflict_of :: "go_error \<Rightarrow> (string \<times> string) option" where
  "scope_conflict_of (ScopeConflict d p) = Some (d, p)"
| "scope_conflict_of (Wrapf m e) = scope_conflict_of e"
| "scope_conflict_of _ = None"

type_synonym 'a result = "go_error + 'a"

end
