(* ===== verification/ApiTypes.thy ===== *)
theory ApiTypes
  imports GoLang
begin

text \<open>
  The API objects of \<^verbatim>\<open>api/v1alpha1\<close> as records, one per Go struct and with the struct's
  fields, and the string enumerations as datatypes. A string enumeration has the empty
  string as \<open>...Unset\<close> and every other unlisted value as \<open>...Other\<close>, because the code
  receives and compares strings that the CRD validation may not have seen.

  Kubernetes' own structs (object metadata, conditions, pod fields) are kept to the fields
  the controllers read; a pod field that is only copied is \<open>opaque\<close>.
  \<open>zero_...\<close> is the Go zero value of a struct.
\<close>

type_synonym opaque = string

subsection \<open>Kubernetes metadata\<close>

record OwnerReference =
  own_APIVersion :: string
  own_Kind :: string
  own_Name :: string
  own_UID :: string
  own_Controller :: "bool option"

record ObjectMeta =
  om_Name :: string
  om_Namespace :: string
  om_UID :: string
  om_Generation :: int
  om_ResourceVersion :: string
  om_Labels :: strmap
  om_Annotations :: strmap
  om_CreationTimestamp :: instant
  om_DeletionTimestamp :: "instant option"
  om_OwnerReferences :: "OwnerReference list"
  om_Finalizers :: "string list"

definition zero_ObjectMeta :: ObjectMeta where
  "zero_ObjectMeta = \<lparr>om_Name = [], om_Namespace = [], om_UID = [], om_Generation = 0, om_ResourceVersion = [],
     om_Labels = [], om_Annotations = [], om_CreationTimestamp = 0, om_DeletionTimestamp = None,
     om_OwnerReferences = [], om_Finalizers = []\<rparr>"

datatype ConditionStatus = ConditionTrue | ConditionFalse | ConditionUnknown

record Condition =
  cond_Type :: string
  cond_Status :: ConditionStatus
  cond_ObservedGeneration :: int
  cond_LastTransitionTime :: instant
  cond_Reason :: string
  cond_Message :: string

record LocalObjectReference =
  lor_Name :: string

record FileKeySelector =
  fks_Selector :: opaque
  fks_Optional :: "bool option"

record ObjectFieldSelector =
  ofs_APIVersion :: string
  ofs_FieldPath :: string

record EnvVarSource =
  evs_Other :: opaque
  evs_FieldRef :: "ObjectFieldSelector option"
  evs_FileKeyRef :: "FileKeySelector option"

record EnvVar =
  env_Name :: string
  env_Value :: string
  env_ValueFrom :: "EnvVarSource option"

record ContainerCapabilities =
  cap_Add :: "string list"
  cap_Drop :: "string list"

record SecurityContext =
  sec_AllowPrivilegeEscalation :: "bool option"
  sec_RunAsNonRoot :: "bool option"
  sec_Capabilities :: "ContainerCapabilities option"
  sec_Other :: opaque

record PodSecurityContext =
  psc_RunAsNonRoot :: "bool option"
  psc_SeccompProfile :: "opaque option"
  psc_FSGroup :: "int option"
  psc_Other :: opaque

record ResourceRequirements =
  res_Requests :: "opaque list"
  res_Limits :: "opaque list"
  res_Claims :: "opaque list"

subsection \<open>References\<close>

record NamespacedObjectReference =
  nor_Name :: string
  nor_Namespace :: string

record SecretKeyReference =
  skr_Name :: string
  skr_Namespace :: string
  skr_Key :: string

record ApplicationReferenceSpec =
  app_Name :: string

record ApplicationTargetReferenceSpec =
  apptarget_Name :: string

subsection \<open>Enumerations of an agent run\<close>

datatype AgentRunPhase =
    AgentRunPhaseUnset
  | AgentRunPhasePending
  | AgentRunPhaseRunning
  | AgentRunPhaseNeedsHuman
  | AgentRunPhaseSucceeded
  | AgentRunPhaseFailed
  | AgentRunPhaseOther string

fun phase_text :: "AgentRunPhase \<Rightarrow> string" where
  "phase_text AgentRunPhaseUnset = []"
| "phase_text AgentRunPhasePending = ''Pending''"
| "phase_text AgentRunPhaseRunning = ''Running''"
| "phase_text AgentRunPhaseNeedsHuman = ''NeedsHuman''"
| "phase_text AgentRunPhaseSucceeded = ''Succeeded''"
| "phase_text AgentRunPhaseFailed = ''Failed''"
| "phase_text (AgentRunPhaseOther s) = s"

datatype AgentRunPurpose =
    AgentRunPurposeUnset
  | AgentRunPurposeManual
  | AgentRunPurposeAdverseSituation
  | AgentRunPurposeScheduledHealthCheck
  | AgentRunPurposeChained
  | AgentRunPurposeInteractive
  | AgentRunPurposeOther string

fun purpose_text :: "AgentRunPurpose \<Rightarrow> string" where
  "purpose_text AgentRunPurposeUnset = []"
| "purpose_text AgentRunPurposeManual = ''manual''"
| "purpose_text AgentRunPurposeAdverseSituation = ''adverseSituation''"
| "purpose_text AgentRunPurposeScheduledHealthCheck = ''scheduledHealthCheck''"
| "purpose_text AgentRunPurposeChained = ''chained''"
| "purpose_text AgentRunPurposeInteractive = ''interactive''"
| "purpose_text (AgentRunPurposeOther s) = s"

definition ParticipatesInChatMailbox :: "AgentRunPurpose \<Rightarrow> bool" where
  "ParticipatesInChatMailbox p \<longleftrightarrow> p = AgentRunPurposeInteractive"

definition PublicCreateError :: "AgentRunPurpose \<Rightarrow> string" where
  "PublicCreateError p =
     (case p of
        AgentRunPurposeManual \<Rightarrow> []
      | AgentRunPurposeAdverseSituation \<Rightarrow> []
      | AgentRunPurposeScheduledHealthCheck \<Rightarrow> []
      | AgentRunPurposeChained \<Rightarrow> ''purpose '' @ Quote ''chained'' @ '' is controller-only (AgentChain)''
      | AgentRunPurposeInteractive \<Rightarrow>
          ''purpose '' @ Quote ''interactive'' @ '' is reserved for the chat session API''
      | _ \<Rightarrow> ''invalid purpose '' @ Quote (purpose_text p))"

datatype AgentRunIntent =
    AgentRunIntentUnset
  | AgentRunIntentObserve
  | AgentRunIntentFixTransient
  | AgentRunIntentProposeChange
  | AgentRunIntentCleanup
  | AgentRunIntentOther string

fun intent_text :: "AgentRunIntent \<Rightarrow> string" where
  "intent_text AgentRunIntentUnset = []"
| "intent_text AgentRunIntentObserve = ''observe''"
| "intent_text AgentRunIntentFixTransient = ''fixTransient''"
| "intent_text AgentRunIntentProposeChange = ''proposeChange''"
| "intent_text AgentRunIntentCleanup = ''cleanup''"
| "intent_text (AgentRunIntentOther s) = s"

datatype AgentRunHarnessBackendKind =
    AgentRunHarnessBackendUnset
  | AgentRunHarnessBackendCodex
  | AgentRunHarnessBackendOpenCode
  | AgentRunHarnessBackendHermesAgent
  | AgentRunHarnessBackendOpenClaw
  | AgentRunHarnessBackendGrokBuild
  | AgentRunHarnessBackendPiAgent
  | AgentRunHarnessBackendPrimeAgent
  | AgentRunHarnessBackendAgy
  | AgentRunHarnessBackendCustom
  | AgentRunHarnessBackendOther string

fun backend_text :: "AgentRunHarnessBackendKind \<Rightarrow> string" where
  "backend_text AgentRunHarnessBackendUnset = []"
| "backend_text AgentRunHarnessBackendCodex = ''codex''"
| "backend_text AgentRunHarnessBackendOpenCode = ''openCode''"
| "backend_text AgentRunHarnessBackendHermesAgent = ''hermesAgent''"
| "backend_text AgentRunHarnessBackendOpenClaw = ''openClaw''"
| "backend_text AgentRunHarnessBackendGrokBuild = ''grokBuild''"
| "backend_text AgentRunHarnessBackendPiAgent = ''piAgent''"
| "backend_text AgentRunHarnessBackendPrimeAgent = ''primeAgent''"
| "backend_text AgentRunHarnessBackendAgy = ''agy''"
| "backend_text AgentRunHarnessBackendCustom = ''custom''"
| "backend_text (AgentRunHarnessBackendOther s) = s"

datatype AgentRunModelProvider =
    AgentRunModelProviderUnset
  | AgentRunModelProviderOpenAICodex
  | AgentRunModelProviderOpenAI
  | AgentRunModelProviderXAI
  | AgentRunModelProviderDeepSeek
  | AgentRunModelProviderOther string

fun provider_text :: "AgentRunModelProvider \<Rightarrow> string" where
  "provider_text AgentRunModelProviderUnset = []"
| "provider_text AgentRunModelProviderOpenAICodex = ''openai-codex''"
| "provider_text AgentRunModelProviderOpenAI = ''openai''"
| "provider_text AgentRunModelProviderXAI = ''xai''"
| "provider_text AgentRunModelProviderDeepSeek = ''deepseek''"
| "provider_text (AgentRunModelProviderOther s) = s"

datatype AgentRunProviderAuthMode =
    AgentRunProviderAuthModeUnset
  | AgentRunProviderAuthModeAPIKey
  | AgentRunProviderAuthModeOAuth
  | AgentRunProviderAuthModeOther string

fun auth_mode_text :: "AgentRunProviderAuthMode \<Rightarrow> string" where
  "auth_mode_text AgentRunProviderAuthModeUnset = []"
| "auth_mode_text AgentRunProviderAuthModeAPIKey = ''apiKey''"
| "auth_mode_text AgentRunProviderAuthModeOAuth = ''oauth''"
| "auth_mode_text (AgentRunProviderAuthModeOther s) = s"

datatype AgentRunDocsPolicy =
    AgentRunDocsPolicyUnset
  | AgentRunDocsPolicyDisabled
  | AgentRunDocsPolicyReview
  | AgentRunDocsPolicyRequired
  | AgentRunDocsPolicyOther string

datatype AgentRunIssueTrackingProvider =
    AgentRunIssueTrackingProviderUnset
  | AgentRunIssueTrackingProviderGitHub
  | AgentRunIssueTrackingProviderOther string

datatype AgentRunIssueUpdatePolicy =
    AgentRunIssueUpdatePolicyUnset
  | AgentRunIssueUpdatePolicyReadOnly
  | AgentRunIssueUpdatePolicyComment
  | AgentRunIssueUpdatePolicyTriage
  | AgentRunIssueUpdatePolicyOther string

datatype AgentSkillCompositionMode =
    AgentSkillCompositionUnset
  | AgentSkillCompositionAppend
  | AgentSkillCompositionReplace
  | AgentSkillCompositionOther string

datatype AgentSkillOverrideOperation =
    AgentSkillOverrideAdd
  | AgentSkillOverrideAugment
  | AgentSkillOverrideReplace
  | AgentSkillOverrideDisable
  | AgentSkillOverrideOther string

datatype AgentToolCompositionMode =
    AgentToolCompositionUnset
  | AgentToolCompositionAppend
  | AgentToolCompositionReplace
  | AgentToolCompositionOther string

subsection \<open>Scope, documentation, issue tracking\<close>

record AgentRunSourceRef =
  src_APIVersion :: string
  src_Kind :: string
  src_Namespace :: string
  src_Name :: string

record AgentRunTriggerSnapshot =
  trig_Phase :: string
  trig_ConditionType :: string
  trig_ConditionStatus :: string
  trig_Reason :: string
  trig_Message :: string
  trig_ObservedGeneration :: int
  trig_ResourceVersion :: string
  trig_DetectedAt :: "instant option"

record AgentRunRepositorySpec =
  repo_Name :: string
  repo_URL :: string
  repo_Ref :: string
  repo_DestinationBranch :: string
  repo_AllowedBranches :: "string list"

record AgentRunScopeSpec =
  scope_Summary :: string
  scope_ApplicationRef :: "ApplicationReferenceSpec option"
  scope_ApplicationTargetRef :: "ApplicationTargetReferenceSpec option"
  scope_Namespaces :: "string list"
  scope_ResourceKinds :: "string list"
  scope_Repository :: "AgentRunRepositorySpec option"

record AgentRunDocsSpec =
  docs_Policy :: AgentRunDocsPolicy
  docs_Paths :: "string list"
  docs_RuntimePaths :: "string list"
  docs_Notes :: string

record AgentRunIssueRef =
  issue_Repository :: string
  issue_Number :: int

record AgentRunIssueTrackingSpec =
  it_Provider :: AgentRunIssueTrackingProvider
  it_Repository :: string
  it_Issues :: "AgentRunIssueRef list"
  it_SearchQuery :: string
  it_UpdatePolicy :: AgentRunIssueUpdatePolicy

subsection \<open>Harness backends\<close>

record AgentRunCodexBackendSpec =
  codex_Model :: string
  codex_ReasoningEffort :: string
  codex_Verbosity :: string
  codex_ServiceTier :: string
  codex_GoalMode :: bool
  codex_Goal :: string
  codex_Sandbox :: string
  codex_AdditionalArgs :: "string list"

record AgentRunOpenCodeBackendSpec =
  oc_Model :: string
  oc_Agent :: string
  oc_Variant :: string
  oc_Format :: string
  oc_Auto :: "bool option"
  oc_Pure :: "bool option"
  oc_AdditionalArgs :: "string list"

record AgentRunHermesBackendSpec =
  hermes_Model :: string
  hermes_ReasoningEffort :: string
  hermes_ServiceTier :: string
  hermes_Profile :: string
  hermes_UseCodexAppServer :: bool
  hermes_AdditionalArgs :: "string list"

record AgentRunOpenClawBackendSpec =
  claw_AgentID :: string
  claw_Model :: string
  claw_Thinking :: string
  claw_ServiceTier :: string
  claw_Local :: "bool option"
  claw_AdditionalArgs :: "string list"

record AgentRunGrokBuildBackendSpec =
  grok_Model :: string
  grok_ReasoningEffort :: string
  grok_ServiceTier :: string
  grok_Profile :: string
  grok_Command :: string
  grok_AdditionalArgs :: "string list"

record AgentRunPiBackendSpec =
  pi_Provider :: string
  pi_Model :: string
  pi_Thinking :: string
  pi_Mode :: string
  pi_NoSession :: bool
  pi_AdditionalArgs :: "string list"

record AgentRunPrimeBackendSpec =
  prime_Provider :: string
  prime_Model :: string
  prime_Thinking :: string
  prime_Mode :: string
  prime_NoSession :: bool
  prime_AdditionalArgs :: "string list"

record AgentRunAgyBackendSpec =
  agy_Model :: string
  agy_Mode :: string
  agy_Thinking :: string
  agy_AdditionalArgs :: "string list"

record AgentRunCustomBackendSpec =
  custom_Command :: "string list"
  custom_Args :: "string list"

record AgentRunHarnessBackendSpec =
  be_Kind :: AgentRunHarnessBackendKind
  be_Image :: string
  be_ModelProvider :: AgentRunModelProvider
  be_ProviderAuthMode :: AgentRunProviderAuthMode
  be_ImagePullPolicy :: string
  be_Codex :: "AgentRunCodexBackendSpec option"
  be_OpenCode :: "AgentRunOpenCodeBackendSpec option"
  be_HermesAgent :: "AgentRunHermesBackendSpec option"
  be_OpenClaw :: "AgentRunOpenClawBackendSpec option"
  be_GrokBuild :: "AgentRunGrokBuildBackendSpec option"
  be_PiAgent :: "AgentRunPiBackendSpec option"
  be_PrimeAgent :: "AgentRunPrimeBackendSpec option"
  be_Agy :: "AgentRunAgyBackendSpec option"
  be_Custom :: "AgentRunCustomBackendSpec option"

subsection \<open>Skills, tools, subagents\<close>

record AgentRunGitHubSkillSourceSpec =
  gh_Repository :: string
  gh_Ref :: string
  gh_Path :: string
  gh_APIBaseURL :: string

record AgentRunSkillSourceRef =
  ssr_GitHub :: "AgentRunGitHubSkillSourceSpec option"

record AgentRunSkillInjectionSpec =
  skill_Name :: string
  skill_Description :: string
  skill_Content :: string
  skill_SourceRefs :: "AgentRunSkillSourceRef list"
  skill_Paths :: "string list"

record AgentSkillOverrideSpec =
  ovr_Name :: string
  ovr_Operation :: AgentSkillOverrideOperation
  ovr_Description :: string
  ovr_Content :: string
  ovr_SourceRefs :: "AgentRunSkillSourceRef list"
  ovr_Paths :: "string list"

record AgentSkillCompositionSpec =
  sc_Mode :: AgentSkillCompositionMode
  sc_Refs :: "NamespacedObjectReference list"
  sc_Overrides :: "AgentSkillOverrideSpec list"
  sc_ExcludeGlobal :: bool

record AgentToolCompositionSpec =
  tc_Mode :: AgentToolCompositionMode
  tc_Refs :: "NamespacedObjectReference list"
  tc_ExcludeGlobal :: bool

record AgentRunGitHubSkillCredential =
  ghc_APIHost :: string
  ghc_TokenSecretRef :: SecretKeyReference

record AgentRunSubagentSpec =
  sub_Name :: string
  sub_Description :: string
  sub_When :: string
  sub_ToolNames :: "string list"
  sub_SystemPrompt :: string

record AgentRunToolImageInitializerSpec =
  tii_Image :: string
  tii_Command :: "string list"
  tii_Args :: "string list"

record AgentRunToolSpec =
  tool_Name :: string
  tool_Description :: string
  tool_SetupScript :: string
  tool_ImageInitializer :: "AgentRunToolImageInitializerSpec option"
  tool_VerifyCommand :: "string list"

subsection \<open>Execution\<close>

record AgentRunDataVolumeRef =
  dvr_Name :: string
  dvr_Namespace :: string
  dvr_MountPath :: string
  dvr_SubPath :: string
  dvr_ReadOnly :: bool

record AgentRunExternalSecretRefreshRef =
  esr_Name :: string
  esr_TargetSecretRef :: NamespacedObjectReference

record AgentRunSpiffeWorkloadAPISpec =
  spiffe_Enabled :: bool
  spiffe_SPIFFEID :: string

record AgentRunSubstrateActorSpec =
  sas_ActorClass :: string
  sas_Pool :: string
  sas_SuspendOnIdle :: "bool option"

record AgentRunHarnessExecutionSpec =
  ex_ServiceAccountName :: string
  ex_EnvSecretRefs :: "NamespacedObjectReference list"
  ex_SkillSourceCredentials :: "AgentRunGitHubSkillCredential list"
  ex_ExternalSecretRefreshRefs :: "AgentRunExternalSecretRefreshRef list"
  ex_ExtraEnv :: "EnvVar list"
  ex_DataVolumeRefs :: "AgentRunDataVolumeRef list"
  ex_SpiffeWorkloadAPI :: AgentRunSpiffeWorkloadAPISpec
  ex_Resources :: ResourceRequirements
  ex_NodeSelector :: strmap
  ex_Affinity :: "opaque option"
  ex_Tolerations :: "opaque list"
  ex_ImagePullSecrets :: "LocalObjectReference list"
  ex_PodSecurityContext :: "PodSecurityContext option"
  ex_SecurityContext :: "SecurityContext option"
  ex_Workdir :: string
  ex_Runtime :: string
  ex_Substrate :: "AgentRunSubstrateActorSpec option"
  ex_TimeoutSeconds :: int
  ex_TTLSecondsAfterFinished :: "int option"

record AgentRunHarnessSpec =
  har_Intent :: AgentRunIntent
  har_Backend :: AgentRunHarnessBackendSpec
  har_Execution :: AgentRunHarnessExecutionSpec
  har_SkillInjections :: "AgentRunSkillInjectionSpec list"
  har_Subagents :: "AgentRunSubagentSpec list"
  har_Tools :: "AgentRunToolSpec list"
  har_SystemPrompt :: string

record AgentRunTelegramNotificationSpec =
  tg_BotTokenRef :: SecretKeyReference
  tg_ChatIDRef :: SecretKeyReference
  tg_APIBaseURL :: string

record AgentRunDiscordNotificationSpec =
  dc_WebhookURLRef :: SecretKeyReference

record AgentRunNotificationSpec =
  notif_MobileOps :: bool
  notif_Telegram :: "AgentRunTelegramNotificationSpec option"
  notif_Discord :: "AgentRunDiscordNotificationSpec option"

subsection \<open>AgentRun\<close>

record AgentRunSpec =
  spec_Purpose :: AgentRunPurpose
  spec_SourceRef :: AgentRunSourceRef
  spec_SourceUID :: string
  spec_SourceGeneration :: int
  spec_SourceDigest :: string
  spec_Trigger :: AgentRunTriggerSnapshot
  spec_Prompt :: string
  spec_ProfileRef :: "NamespacedObjectReference option"
  spec_HarnessProfileRef :: "NamespacedObjectReference option"
  spec_SkillSets :: "AgentSkillCompositionSpec option"
  spec_ToolSets :: "AgentToolCompositionSpec option"
  spec_CouncilRef :: "NamespacedObjectReference option"
  spec_Scope :: AgentRunScopeSpec
  spec_Docs :: "AgentRunDocsSpec option"
  spec_IssueTracking :: "AgentRunIssueTrackingSpec option"
  spec_ScheduleRef :: "NamespacedObjectReference option"
  spec_SituationRef :: "NamespacedObjectReference option"
  spec_Harness :: AgentRunHarnessSpec
  spec_Notifications :: "AgentRunNotificationSpec option"

record AgentRunDecisionStatus =
  dec_Classification :: string
  dec_Action :: string
  dec_Summary :: string
  dec_ResidualRisk :: string

record AgentRunStatusReport =
  rep_Type :: string
  rep_ObservedAt :: "instant option"
  rep_Level :: string
  rep_Stage :: string
  rep_Classification :: string
  rep_Action :: string
  rep_Summary :: string
  rep_Detail :: string
  rep_PullRequestURL :: string
  rep_ResidualRisk :: string
  rep_NeedsHuman :: bool
  rep_HumanFollowUp :: string

record AgentRunDataVolumeStatus =
  dvs_Name :: string
  dvs_Namespace :: string
  dvs_ClaimName :: string
  dvs_MountPath :: string
  dvs_ReadOnly :: bool

record AgentRunExternalSecretRefreshStatus =
  ess_Name :: string
  ess_Namespace :: string
  ess_TargetSecret :: string
  ess_RequestedAt :: "instant option"
  ess_PreviousRefreshTime :: "instant option"
  ess_RefreshedAt :: "instant option"

record AgentRunArchiveStatus =
  arc_Store :: string
  arc_ArchivedAt :: "instant option"
  arc_Digest :: string
  arc_Error :: string

record AgentRunResolvedObjectReferenceStatus =
  ror_Name :: string
  ror_Namespace :: string
  ror_UID :: string
  ror_Generation :: int
  ror_ResourceVersion :: string
  ror_Digest :: string
  ror_Global :: bool

record AgentRunResolvedScopeStatus =
  rsc_Application :: string
  rsc_ApplicationTarget :: string
  rsc_Repository :: string
  rsc_RepositoryRef :: string
  rsc_DestinationBranch :: string
  rsc_AllowedBranches :: "string list"

record AgentRunResolvedCompositionStatus =
  rcs_ResolvedAt :: "instant option"
  rcs_ProfileRef :: "AgentRunResolvedObjectReferenceStatus option"
  rcs_HarnessProfileRef :: "AgentRunResolvedObjectReferenceStatus option"
  rcs_CouncilRef :: "AgentRunResolvedObjectReferenceStatus option"
  rcs_SkillSetRefs :: "AgentRunResolvedObjectReferenceStatus list"
  rcs_ToolSetRefs :: "AgentRunResolvedObjectReferenceStatus list"
  rcs_Scope :: "AgentRunResolvedScopeStatus option"
  rcs_EffectiveDigest :: string
  rcs_PayloadDigest :: string

record AgentRunSubstrateActorStatus =
  sact_ActorName :: string
  sact_ActorID :: string
  sact_State :: string

text \<open>\<^verbatim>\<open>Result\<close> is a \<^verbatim>\<open>runtime.RawExtension\<close>: the raw bytes of a JSON document.\<close>

record AgentRunStatus =
  rs_ObservedGeneration :: int
  rs_Conditions :: "Condition list"
  rs_Phase :: AgentRunPhase
  rs_Backend :: string
  rs_Model :: string
  rs_Intent :: string
  rs_Image :: string
  rs_ExecutionRuntime :: string
  rs_SubstrateActor :: "AgentRunSubstrateActorStatus option"
  rs_PlannedJobRef :: "NamespacedObjectReference option"
  rs_JobCreateAttemptedAt :: "instant option"
  rs_JobRef :: "NamespacedObjectReference option"
  rs_JobUID :: string
  rs_JobSpecDigest :: string
  rs_PayloadRef :: "NamespacedObjectReference option"
  rs_PayloadUID :: string
  rs_RunnerPodRef :: "NamespacedObjectReference option"
  rs_RunnerPodUID :: string
  rs_RunnerNode :: string
  rs_DataVolumes :: "AgentRunDataVolumeStatus list"
  rs_ExternalSecretRefreshes :: "AgentRunExternalSecretRefreshStatus list"
  rs_Archive :: "AgentRunArchiveStatus option"
  rs_ResolvedComposition :: "AgentRunResolvedCompositionStatus option"
  rs_StartedAt :: "instant option"
  rs_CompletedAt :: "instant option"
  rs_PromptHash :: string
  rs_Decision :: "AgentRunDecisionStatus option"
  rs_Reports :: "AgentRunStatusReport list"
  rs_Result :: opaque
  rs_Output :: string
  rs_PullRequestURL :: string
  rs_Error :: string

record AgentRun =
  run_Meta :: ObjectMeta
  run_Spec :: AgentRunSpec
  run_Status :: AgentRunStatus

subsection \<open>AgentRunProfile and AgentHarnessProfile\<close>

record AgentRunProfileSpec =
  prof_Description :: string
  prof_Scope :: AgentRunScopeSpec
  prof_Docs :: "AgentRunDocsSpec option"
  prof_IssueTracking :: "AgentRunIssueTrackingSpec option"
  prof_Harness :: AgentRunHarnessSpec
  prof_HarnessProfileRef :: "NamespacedObjectReference option"
  prof_SkillSets :: "AgentSkillCompositionSpec option"
  prof_ToolSets :: "AgentToolCompositionSpec option"
  prof_CouncilRef :: "NamespacedObjectReference option"
  prof_Notifications :: "AgentRunNotificationSpec option"

record AgentRunProfile =
  profile_Meta :: ObjectMeta
  profile_Spec :: AgentRunProfileSpec

record AgentHarnessProfileSpec =
  hp_Description :: string
  hp_Backend :: AgentRunHarnessBackendSpec
  hp_Execution :: AgentRunHarnessExecutionSpec

record AgentHarnessProfile =
  hprofile_Meta :: ObjectMeta
  hprofile_Spec :: AgentHarnessProfileSpec

subsection \<open>AgentSkillSet, AgentToolSet and AgentCouncil\<close>

record AgentSkillSetSpec =
  sset_Description :: string
  sset_Global :: bool
  sset_Skills :: "AgentRunSkillInjectionSpec list"
  sset_Tools :: "AgentRunToolSpec list"
  sset_Subagents :: "AgentRunSubagentSpec list"

record AgentSkillSet =
  skillset_Meta :: ObjectMeta
  skillset_Spec :: AgentSkillSetSpec

record AgentToolSetSpec =
  tset_Description :: string
  tset_Global :: bool
  tset_Tools :: "AgentRunToolSpec list"

record AgentToolSet =
  toolset_Meta :: ObjectMeta
  toolset_Spec :: AgentToolSetSpec

record AgentCouncilMemberSpec =
  member_Role :: string
  member_ProfileRef :: NamespacedObjectReference
  member_Description :: string

record AgentCouncilSpec =
  council_Description :: string
  council_Members :: "AgentCouncilMemberSpec list"
  council_Prompt :: string

record AgentCouncil =
  council_Meta :: ObjectMeta
  council_Spec :: AgentCouncilSpec

end
