(* ===== verification/WorkloadTypes.thy ===== *)
theory WorkloadTypes
  imports ApiTypes
begin

text \<open>
  The API objects that create and gate agent runs: \<^verbatim>\<open>AgentRunControl\<close> (launch holds and
  concurrency limits), \<^verbatim>\<open>AgentSchedule\<close> (interval and manual starts) and \<^verbatim>\<open>AgentChain\<close>
  (linear completion-driven workflows), from \<^verbatim>\<open>api/v1alpha1/agent_run_control_types.go\<close>,
  \<^verbatim>\<open>agent_schedule_types.go\<close> and \<^verbatim>\<open>agent_chain_types.go\<close>; and the zero values of the structs
  the controllers build.
\<close>

subsection \<open>AgentRunControl\<close>

datatype AgentRunControlLaunchPolicy =
    AgentRunControlLaunchPolicyAllowed
  | AgentRunControlLaunchPolicyPaused
  | AgentRunControlLaunchPolicyOther string

fun launch_policy_text :: "AgentRunControlLaunchPolicy \<Rightarrow> string" where
  "launch_policy_text AgentRunControlLaunchPolicyAllowed = ''Allowed''"
| "launch_policy_text AgentRunControlLaunchPolicyPaused = ''Paused''"
| "launch_policy_text (AgentRunControlLaunchPolicyOther s) = s"

datatype AgentRunControlPhase =
    AgentRunControlPhaseUnset
  | AgentRunControlPhaseAllowed
  | AgentRunControlPhasePaused
  | AgentRunControlPhaseExpired
  | AgentRunControlPhaseBlocked

record AgentRunControlSourceSpec =
  cs_Kind :: string
  cs_Name :: string
  cs_URL :: string
  cs_Actor :: string

record AgentRunControlSpec =
  ctl_ApplicationRef :: ApplicationReferenceSpec
  ctl_LaunchPolicy :: AgentRunControlLaunchPolicy
  ctl_MaxConcurrentRuns :: int
  ctl_Reason :: string
  ctl_Source :: "AgentRunControlSourceSpec option"
  ctl_ExpiresAt :: "instant option"

record AgentRunControlStatus =
  cst_ObservedGeneration :: int
  cst_Conditions :: "Condition list"
  cst_Phase :: AgentRunControlPhase
  cst_AffectedScheduleCount :: int
  cst_PendingRunCount :: int
  cst_ActiveRunCount :: int

record AgentRunControl =
  control_Meta :: ObjectMeta
  control_Spec :: AgentRunControlSpec
  control_Status :: AgentRunControlStatus

subsection \<open>AgentSchedule\<close>

datatype AgentSchedulePhase =
    AgentSchedulePhaseUnset
  | AgentSchedulePhasePending
  | AgentSchedulePhaseScheduled
  | AgentSchedulePhaseRunning
  | AgentSchedulePhaseSuspended
  | AgentSchedulePhaseBlocked

datatype AgentScheduleConcurrencyPolicy =
    AgentScheduleConcurrencyUnset
  | AgentScheduleConcurrencyForbid
  | AgentScheduleConcurrencyAllow
  | AgentScheduleConcurrencyQueue
  | AgentScheduleConcurrencyOther string

definition AgentScheduleRunNowAnnotation :: string where
  "AgentScheduleRunNowAnnotation = ''control.anvil.hazyforge.io/run-now''"

definition AgentScheduleRunTemplateAnnotation :: string where
  "AgentScheduleRunTemplateAnnotation = ''control.anvil.hazyforge.io/run-template''"

record AgentScheduleRunTemplateSpec =
  tmpl_Name :: string
  tmpl_Template :: AgentRunSpec

record AgentScheduleBackoffSpec =
  bo_FailedSeconds :: int
  bo_NeedsHumanSeconds :: int

record AgentScheduleSpec =
  ss_ApplicationRef :: "ApplicationReferenceSpec option"
  ss_Suspend :: bool
  ss_IntervalSeconds :: int
  ss_InitialDelaySeconds :: int
  ss_Backoff :: "AgentScheduleBackoffSpec option"
  ss_ConcurrencyPolicy :: AgentScheduleConcurrencyPolicy
  ss_MaxConcurrentRuns :: int
  ss_MaxRunsPerDay :: int
  ss_RunTemplate :: AgentRunSpec
  ss_RunTemplates :: "AgentScheduleRunTemplateSpec list"
  ss_TemplateSelectionPolicy :: string

record AgentScheduleStatus =
  sst_ObservedGeneration :: int
  sst_Conditions :: "Condition list"
  sst_Phase :: AgentSchedulePhase
  sst_LastRunAt :: "instant option"
  sst_NextRunAt :: "instant option"
  sst_ActiveRunRef :: "NamespacedObjectReference option"
  sst_ActiveRunCount :: int
  sst_LastRunRef :: "NamespacedObjectReference option"
  sst_LastRunPhase :: AgentRunPhase
  sst_LastRunTemplate :: string
  sst_LastManualRunToken :: string
  sst_LastError :: string

record AgentSchedule =
  sched_Meta :: ObjectMeta
  sched_Spec :: AgentScheduleSpec
  sched_Status :: AgentScheduleStatus

subsection \<open>AgentChain\<close>

datatype AgentChainPhase =
    AgentChainPhaseUnset
  | AgentChainPhasePending
  | AgentChainPhaseIdle
  | AgentChainPhaseRunning
  | AgentChainPhaseCancelling
  | AgentChainPhaseWaitingHuman
  | AgentChainPhaseSuspended
  | AgentChainPhaseBlocked

datatype AgentChainConcurrencyPolicy =
    AgentChainConcurrencyUnset
  | AgentChainConcurrencyForbid
  | AgentChainConcurrencyQueue
  | AgentChainConcurrencyOther string

definition AgentChainStartNowAnnotation :: string where
  "AgentChainStartNowAnnotation = ''control.anvil.hazyforge.io/chain-start-now''"

definition AgentChainCancelInstanceAnnotation :: string where
  "AgentChainCancelInstanceAnnotation = ''control.anvil.hazyforge.io/chain-cancel-instance''"

record AgentChainWhenSpec =
  when_PreviousStep :: string
  when_OnPhases :: "AgentRunPhase list"
  when_OnDecisionActions :: "string list"

record AgentChainHandoffSpec =
  ho_IncludeDecision :: bool
  ho_IncludeLatestReports :: bool
  ho_IncludePullRequestURL :: bool
  ho_IncludeOutputExcerptBytes :: int
  ho_IncludeAncestorSteps :: "string list"

record AgentChainStepSpec =
  step_Name :: string
  step_When :: "AgentChainWhenSpec option"
  step_RunTemplate :: AgentRunSpec
  step_Handoff :: "AgentChainHandoffSpec option"

record AgentChainBackoffSpec =
  cbo_FailedSeconds :: int
  cbo_NeedsHumanSeconds :: int

record AgentChainCompletionSpec =
  comp_OnDecisionActions :: "string list"

record AgentChainSpec =
  ch_ApplicationRef :: "ApplicationReferenceSpec option"
  ch_Suspend :: bool
  ch_StartIntervalSeconds :: int
  ch_StartInitialDelaySeconds :: int
  ch_ConcurrencyPolicy :: AgentChainConcurrencyPolicy
  ch_MaxInstancesPerDay :: int
  ch_Backoff :: "AgentChainBackoffSpec option"
  ch_Completion :: "AgentChainCompletionSpec option"
  ch_Steps :: "AgentChainStepSpec list"

record AgentChainStepRunStatus =
  sr_InstanceID :: string
  sr_Step :: string
  sr_RunRef :: "NamespacedObjectReference option"
  sr_RunUID :: string
  sr_Phase :: AgentRunPhase
  sr_SourceGeneration :: int
  sr_WorkflowDigest :: string

record AgentChainStatus =
  chst_ObservedGeneration :: int
  chst_Conditions :: "Condition list"
  chst_Phase :: AgentChainPhase
  chst_ActiveInstanceID :: string
  chst_ActiveStep :: string
  chst_ActiveRunRef :: "NamespacedObjectReference option"
  chst_ActiveRunUID :: string
  chst_ActiveSourceGeneration :: int
  chst_ActiveWorkflowDigest :: string
  chst_CancelRequestedInstanceID :: string
  chst_LastInstanceID :: string
  chst_LastStartToken :: string
  chst_LastCancelToken :: string
  chst_StepRuns :: "AgentChainStepRunStatus list"
  chst_NextStartAt :: "instant option"
  chst_InstancesToday :: int
  chst_LastError :: string

record AgentChain =
  chain_Meta :: ObjectMeta
  chain_Spec :: AgentChainSpec
  chain_Status :: AgentChainStatus

subsection \<open>Zero values\<close>

definition zero_SourceRef :: AgentRunSourceRef where
  "zero_SourceRef = \<lparr>src_APIVersion = [], src_Kind = [], src_Namespace = [], src_Name = []\<rparr>"

definition zero_Trigger :: AgentRunTriggerSnapshot where
  "zero_Trigger = \<lparr>trig_Phase = [], trig_ConditionType = [], trig_ConditionStatus = [],
     trig_Reason = [], trig_Message = [], trig_ObservedGeneration = 0, trig_ResourceVersion = [],
     trig_DetectedAt = None\<rparr>"

definition zero_Scope :: AgentRunScopeSpec where
  "zero_Scope = \<lparr>scope_Summary = [], scope_ApplicationRef = None, scope_ApplicationTargetRef = None,
     scope_Namespaces = [], scope_ResourceKinds = [], scope_Repository = None\<rparr>"

definition zero_Backend :: AgentRunHarnessBackendSpec where
  "zero_Backend = \<lparr>be_Kind = AgentRunHarnessBackendUnset, be_Image = [],
     be_ModelProvider = AgentRunModelProviderUnset, be_ProviderAuthMode = AgentRunProviderAuthModeUnset,
     be_ImagePullPolicy = [], be_Codex = None, be_OpenCode = None, be_HermesAgent = None,
     be_OpenClaw = None, be_GrokBuild = None, be_PiAgent = None, be_PrimeAgent = None,
     be_Agy = None, be_Custom = None\<rparr>"

definition zero_Execution :: AgentRunHarnessExecutionSpec where
  "zero_Execution = \<lparr>ex_ServiceAccountName = [], ex_EnvSecretRefs = [], ex_SkillSourceCredentials = [],
     ex_ExternalSecretRefreshRefs = [], ex_ExtraEnv = [], ex_DataVolumeRefs = [],
     ex_SpiffeWorkloadAPI = \<lparr>spiffe_Enabled = False, spiffe_SPIFFEID = []\<rparr>,
     ex_Resources = \<lparr>res_Requests = [], res_Limits = [], res_Claims = []\<rparr>, ex_NodeSelector = [],
     ex_Affinity = None, ex_Tolerations = [], ex_ImagePullSecrets = [], ex_PodSecurityContext = None,
     ex_SecurityContext = None, ex_Workdir = [], ex_Runtime = [], ex_Substrate = None,
     ex_TimeoutSeconds = 0, ex_TTLSecondsAfterFinished = None\<rparr>"

definition zero_Harness :: AgentRunHarnessSpec where
  "zero_Harness = \<lparr>har_Intent = AgentRunIntentUnset, har_Backend = zero_Backend,
     har_Execution = zero_Execution, har_SkillInjections = [], har_Subagents = [], har_Tools = [],
     har_SystemPrompt = []\<rparr>"

definition zero_RunSpec :: AgentRunSpec where
  "zero_RunSpec = \<lparr>spec_Purpose = AgentRunPurposeUnset, spec_SourceRef = zero_SourceRef,
     spec_SourceUID = [], spec_SourceGeneration = 0, spec_SourceDigest = [],
     spec_Trigger = zero_Trigger, spec_Prompt = [], spec_ProfileRef = None,
     spec_HarnessProfileRef = None, spec_SkillSets = None, spec_ToolSets = None,
     spec_CouncilRef = None, spec_Scope = zero_Scope, spec_Docs = None, spec_IssueTracking = None,
     spec_ScheduleRef = None, spec_SituationRef = None, spec_Harness = zero_Harness,
     spec_Notifications = None\<rparr>"

definition zero_RunStatus :: AgentRunStatus where
  "zero_RunStatus = \<lparr>rs_ObservedGeneration = 0, rs_Conditions = [], rs_Phase = AgentRunPhaseUnset,
     rs_Backend = [], rs_Model = [], rs_Intent = [], rs_Image = [], rs_ExecutionRuntime = [],
     rs_SubstrateActor = None, rs_PlannedJobRef = None, rs_JobCreateAttemptedAt = None,
     rs_JobRef = None, rs_JobUID = [], rs_JobSpecDigest = [], rs_PayloadRef = None,
     rs_PayloadUID = [], rs_RunnerPodRef = None, rs_RunnerPodUID = [], rs_RunnerNode = [],
     rs_DataVolumes = [], rs_ExternalSecretRefreshes = [], rs_Archive = None,
     rs_ResolvedComposition = None, rs_StartedAt = None, rs_CompletedAt = None, rs_PromptHash = [],
     rs_Decision = None, rs_Reports = [], rs_Result = [], rs_Output = [], rs_PullRequestURL = [],
     rs_Error = []\<rparr>"

definition zero_Run :: AgentRun where
  "zero_Run = \<lparr>run_Meta = zero_ObjectMeta, run_Spec = zero_RunSpec, run_Status = zero_RunStatus\<rparr>"

definition zero_ScheduleStatus :: AgentScheduleStatus where
  "zero_ScheduleStatus = \<lparr>sst_ObservedGeneration = 0, sst_Conditions = [],
     sst_Phase = AgentSchedulePhaseUnset, sst_LastRunAt = None, sst_NextRunAt = None,
     sst_ActiveRunRef = None, sst_ActiveRunCount = 0, sst_LastRunRef = None,
     sst_LastRunPhase = AgentRunPhaseUnset, sst_LastRunTemplate = [], sst_LastManualRunToken = [],
     sst_LastError = []\<rparr>"

definition zero_ScheduleSpec :: AgentScheduleSpec where
  "zero_ScheduleSpec = \<lparr>ss_ApplicationRef = None, ss_Suspend = False, ss_IntervalSeconds = 0,
     ss_InitialDelaySeconds = 0, ss_Backoff = None,
     ss_ConcurrencyPolicy = AgentScheduleConcurrencyUnset, ss_MaxConcurrentRuns = 0,
     ss_MaxRunsPerDay = 0, ss_RunTemplate = zero_RunSpec, ss_RunTemplates = [],
     ss_TemplateSelectionPolicy = []\<rparr>"

definition zero_ChainStatus :: AgentChainStatus where
  "zero_ChainStatus = \<lparr>chst_ObservedGeneration = 0, chst_Conditions = [],
     chst_Phase = AgentChainPhaseUnset, chst_ActiveInstanceID = [], chst_ActiveStep = [],
     chst_ActiveRunRef = None, chst_ActiveRunUID = [], chst_ActiveSourceGeneration = 0,
     chst_ActiveWorkflowDigest = [], chst_CancelRequestedInstanceID = [], chst_LastInstanceID = [],
     chst_LastStartToken = [], chst_LastCancelToken = [], chst_StepRuns = [],
     chst_NextStartAt = None, chst_InstancesToday = 0, chst_LastError = []\<rparr>"

definition zero_ChainSpec :: AgentChainSpec where
  "zero_ChainSpec = \<lparr>ch_ApplicationRef = None, ch_Suspend = False, ch_StartIntervalSeconds = 0,
     ch_StartInitialDelaySeconds = 0, ch_ConcurrencyPolicy = AgentChainConcurrencyUnset,
     ch_MaxInstancesPerDay = 0, ch_Backoff = None, ch_Completion = None, ch_Steps = []\<rparr>"

text \<open>The identity of an object and abbreviations for the metadata the code reads.\<close>

abbreviation "run_Name r \<equiv> om_Name (run_Meta r)"
abbreviation "run_Namespace r \<equiv> om_Namespace (run_Meta r)"
abbreviation "run_UID r \<equiv> om_UID (run_Meta r)"
abbreviation "run_Labels r \<equiv> om_Labels (run_Meta r)"
abbreviation "run_Annotations r \<equiv> om_Annotations (run_Meta r)"
abbreviation "run_CreationTimestamp r \<equiv> om_CreationTimestamp (run_Meta r)"
abbreviation "run_Phase r \<equiv> rs_Phase (run_Status r)"
abbreviation "sched_Name s \<equiv> om_Name (sched_Meta s)"
abbreviation "sched_Namespace s \<equiv> om_Namespace (sched_Meta s)"
abbreviation "sched_UID s \<equiv> om_UID (sched_Meta s)"
abbreviation "sched_Generation s \<equiv> om_Generation (sched_Meta s)"
abbreviation "chain_Name c \<equiv> om_Name (chain_Meta c)"
abbreviation "chain_Namespace c \<equiv> om_Namespace (chain_Meta c)"
abbreviation "chain_UID c \<equiv> om_UID (chain_Meta c)"
abbreviation "chain_Generation c \<equiv> om_Generation (chain_Meta c)"
abbreviation "control_Name c \<equiv> om_Name (control_Meta c)"

end
