(* ===== verification/GoHash.thy ===== *)
theory GoHash
  imports GoLang "HOL-Library.Word"
begin

text \<open>
  SHA-256 (Go's \<^verbatim>\<open>crypto/sha256\<close>, FIPS 180-4) and \<^verbatim>\<open>encoding/hex\<close>, which the controllers use
  to derive object names and digests. The compression function works on \<open>32 word\<close>, so
  addition wraps around as it does on Go's \<^verbatim>\<open>uint32\<close>.
\<close>

unbundle bit_operations_syntax

type_synonym u32 = "32 word"

definition rotr :: "nat \<Rightarrow> u32 \<Rightarrow> u32" where
  "rotr n x = drop_bit n x OR push_bit (32 - n) x"

definition sha_k :: "u32 list" where
  "sha_k = [
    1116352408, 1899447441, 3049323471, 3921009573, 961987163, 1508970993, 2453635748, 2870763221,
    3624381080, 310598401, 607225278, 1426881987, 1925078388, 2162078206, 2614888103, 3248222580,
    3835390401, 4022224774, 264347078, 604807628, 770255983, 1249150122, 1555081692, 1996064986,
    2554220882, 2821834349, 2952996808, 3210313671, 3336571891, 3584528711, 113926993, 338241895,
    666307205, 773529912, 1294757372, 1396182291, 1695183700, 1986661051, 2177026350, 2456956037,
    2730485921, 2820302411, 3259730800, 3345764771, 3516065817, 3600352804, 4094571909, 275423344,
    430227734, 506948616, 659060556, 883997877, 958139571, 1322822218, 1537002063, 1747873779,
    1955562222, 2024104815, 2227730452, 2361852424, 2428436474, 2756734187, 3204031479, 3329325298]"

definition sha_init :: "u32 list" where
  "sha_init = [1779033703, 3144134277, 1013904242, 2773480762,
               1359893119, 2600822924, 528734635, 1541459225]"

text \<open>Padding: the bit 1, zeros up to 56 modulo 64 bytes, then the length in bits.\<close>

definition be_bytes :: "nat \<Rightarrow> nat \<Rightarrow> nat list" where
  "be_bytes w n = map (\<lambda>i. (n div 256 ^ i) mod 256) (rev [0..<w])"

definition sha_pad :: "nat list \<Rightarrow> nat list" where
  "sha_pad bs = (let n = length bs in
     bs @ [128] @ replicate ((119 - n mod 64) mod 64) 0 @ be_bytes 8 (8 * n))"

fun be_words :: "nat list \<Rightarrow> u32 list" where
  "be_words (a # b # c # d # bs) =
     of_nat (a * 16777216 + b * 65536 + c * 256 + d) # be_words bs"
| "be_words _ = []"

fun sha_extend :: "nat \<Rightarrow> u32 list \<Rightarrow> u32 list" where
  "sha_extend 0 w = w"
| "sha_extend (Suc n) w =
     (let l = length w; a = w ! (l - 15); b = w ! (l - 2);
          s0 = rotr 7 a XOR rotr 18 a XOR drop_bit 3 a;
          s1 = rotr 17 b XOR rotr 19 b XOR drop_bit 10 b
      in sha_extend n (w @ [w ! (l - 16) + s0 + w ! (l - 7) + s1]))"

fun sha_round :: "u32 list \<Rightarrow> u32 \<times> u32 \<Rightarrow> u32 list" where
  "sha_round [a, b, c, d, e, f, g, h] (k, w) =
     (let s1 = rotr 6 e XOR rotr 11 e XOR rotr 25 e;
          ch = (e AND f) XOR (NOT e AND g);
          t1 = h + s1 + ch + k + w;
          s0 = rotr 2 a XOR rotr 13 a XOR rotr 22 a;
          maj = (a AND b) XOR (a AND c) XOR (b AND c);
          t2 = s0 + maj
      in [t1 + t2, a, b, c, d + t1, e, f, g])"
| "sha_round hs _ = hs"

definition sha_block :: "u32 list \<Rightarrow> nat list \<Rightarrow> u32 list" where
  "sha_block hs bytes =
     map2 (+) hs (foldl sha_round hs (zip sha_k (sha_extend 48 (be_words bytes))))"

fun sha_blocks :: "u32 list \<Rightarrow> nat list \<Rightarrow> nat \<Rightarrow> u32 list" where
  "sha_blocks hs bs 0 = hs"
| "sha_blocks hs bs (Suc n) = sha_blocks (sha_block hs (take 64 bs)) (drop 64 bs) n"

definition Sum256 :: "string \<Rightarrow> nat list" where
  "Sum256 s = (let bs = sha_pad (map of_char s) in
     concat (map (\<lambda>w. be_bytes 4 (unat w)) (sha_blocks sha_init bs (length bs div 64))))"

definition EncodeToString :: "nat list \<Rightarrow> string" where
  "EncodeToString bs = concat (map (\<lambda>b. [hex_digit (b div 16), hex_digit (b mod 16)]) bs)"

subsection \<open>Shape of a digest\<close>

definition is_hex_char :: "char \<Rightarrow> bool" where
  "is_hex_char c \<longleftrightarrow> c \<in> hex_digit ` {..<16}"

lemma length_be_bytes [simp]: "length (be_bytes w n) = w"
  by (simp add: be_bytes_def)

lemma length_sha_round [simp]: "length (sha_round hs p) = length hs"
  by (induction hs p rule: sha_round.induct) (auto simp: Let_def)

lemma length_foldl_sha_round [simp]: "length (foldl sha_round hs ps) = length hs"
  by (induction ps arbitrary: hs) auto

lemma length_sha_blocks [simp]: "length (sha_blocks hs bs n) = length hs"
  by (induction hs bs n rule: sha_blocks.induct) (auto simp: sha_block_def)

lemma length_Sum256 [simp]: "length (Sum256 s) = 32"
proof -
  have "length (concat (map (\<lambda>w. be_bytes 4 (unat w)) ws)) = 4 * length ws" for ws :: "u32 list"
    by (induction ws) auto
  then show ?thesis by (simp add: Sum256_def Let_def sha_init_def)
qed

lemma Sum256_byte: "b \<in> set (Sum256 s) \<Longrightarrow> b < 256"
  by (auto simp: Sum256_def Let_def be_bytes_def)

lemma length_EncodeToString [simp]: "length (EncodeToString bs) = 2 * length bs"
  by (induction bs) (auto simp: EncodeToString_def)

lemma EncodeToString_hex:
  assumes "\<And>b. b \<in> set bs \<Longrightarrow> b < 256" and "c \<in> set (EncodeToString bs)"
  shows "is_hex_char c"
  using assms unfolding EncodeToString_def is_hex_char_def by fastforce

end
