(* ===== verification/Names.thy ===== *)
theory Names
  imports GoHash "HOL-Library.Sublist"
begin

text \<open>
  Object names and label values of \<^verbatim>\<open>internal/controller/agent_run_controller.go\<close>:
  \<^verbatim>\<open>sanitizeDNSLabel\<close>, \<^verbatim>\<open>sanitizeLabelValue\<close>, \<^verbatim>\<open>agentRunChildName\<close>, \<^verbatim>\<open>shortHash\<close>, the string
  helper \<^verbatim>\<open>firstNonEmpty\<close> of \<^verbatim>\<open>support.go\<close> and \<^verbatim>\<open>digestJSON\<close> of \<^verbatim>\<open>agent_run_composition.go\<close>.
  The lemmas show that a sanitized name is a DNS label, that sanitizing is idempotent, and
  that a child name always fits the 63 bytes of a DNS label and keeps its last token.
\<close>

subsection \<open>Definitions\<close>

definition firstNonEmpty :: "string \<Rightarrow> string \<Rightarrow> string" where
  "firstNonEmpty a b = (if TrimSpace a \<noteq> [] then a else if TrimSpace b \<noteq> [] then b else [])"

definition dns_char :: "char \<Rightarrow> bool" where
  "dns_char c \<longleftrightarrow> (let n = (of_char c :: nat) in (97 \<le> n \<and> n \<le> 122) \<or> (48 \<le> n \<and> n \<le> 57))"

text \<open>The loop of \<^verbatim>\<open>sanitizeDNSLabel\<close>; the flag is \<^verbatim>\<open>lastDash\<close>.\<close>

fun sanitize_loop :: "bool \<Rightarrow> string \<Rightarrow> string" where
  "sanitize_loop lastDash [] = []"
| "sanitize_loop lastDash (r # rs) =
     (if dns_char r then r # sanitize_loop False rs
      else if \<not> lastDash then CHR ''-'' # sanitize_loop True rs
      else sanitize_loop lastDash rs)"

definition sanitizeDNSLabel :: "string \<Rightarrow> string" where
  "sanitizeDNSLabel value =
     (let value = TrimSpace (ToLower value) in
      if value = [] then [] else Trim (sanitize_loop False value) (CHR ''-''))"

definition sanitizeLabelValue :: "string \<Rightarrow> string" where
  "sanitizeLabelValue value =
     (let value = sanitizeDNSLabel value in
      if length value > 63 then take 63 value else value)"

definition shortHash :: "string \<Rightarrow> string" where
  "shortHash value = take 12 (EncodeToString (Sum256 value))"

text \<open>
  \<^verbatim>\<open>json.Marshal\<close> of a value with Kubernetes types is the parameter \<open>marshal\<close>, \<open>None\<close>
  where it returns an error.
\<close>

definition digestJSON :: "('a \<Rightarrow> string option) \<Rightarrow> 'a \<Rightarrow> string" where
  "digestJSON marshal value =
     (case marshal value of
        None \<Rightarrow> []
      | Some contents \<Rightarrow> ''sha256:'' @ EncodeToString (Sum256 contents))"

definition agentRunChildName :: "string list \<Rightarrow> string" where
  "agentRunChildName parts =
     (let tokens = filter (\<lambda>t. t \<noteq> []) (map sanitizeDNSLabel parts);
          name = Join tokens ''-''
      in if length name \<le> 63 then name
         else let sfx = last tokens in
           if length sfx < 63 then
             (let prefixMax = 63 - length sfx - 1;
                  pfx = Trim (take prefixMax name) (CHR ''-'')
              in if pfx \<noteq> [] then pfx @ ''-'' @ sfx else sfx)
           else
             (let hash = shortHash name;
                  prefixMax = 63 - length hash - 1;
                  pfx = Trim (take prefixMax name) (CHR ''-'')
              in if pfx = [] then hash else pfx @ ''-'' @ hash))"

text \<open>What Kubernetes asks of a DNS label: 1 to 63 bytes \<^verbatim>\<open>[a-z0-9-]\<close>, no dash at either end.\<close>

definition dns_chars :: "string \<Rightarrow> bool" where
  "dns_chars s \<longleftrightarrow> (\<forall>c \<in> set s. dns_char c \<or> c = CHR ''-'')"

definition dash_free_ends :: "string \<Rightarrow> bool" where
  "dash_free_ends s \<longleftrightarrow> (s \<noteq> [] \<longrightarrow> hd s \<noteq> CHR ''-'' \<and> last s \<noteq> CHR ''-'')"

definition dns_token :: "string \<Rightarrow> bool" where
  "dns_token s \<longleftrightarrow> dns_chars s \<and> dash_free_ends s"

definition dns_label :: "string \<Rightarrow> bool" where
  "dns_label s \<longleftrightarrow> s \<noteq> [] \<and> length s \<le> 63 \<and> dns_token s"

fun no_double_dash :: "string \<Rightarrow> bool" where
  "no_double_dash (a # b # s) \<longleftrightarrow> \<not> (a = CHR ''-'' \<and> b = CHR ''-'') \<and> no_double_dash (b # s)"
| "no_double_dash _ \<longleftrightarrow> True"

subsection \<open>Sanitizing\<close>

lemma dash_not_dns [simp]: "\<not> dns_char (CHR ''-'')"
  by (simp add: dns_char_def)

lemma sanitize_loop_chars: "dns_chars (sanitize_loop d s)"
  by (induction d s rule: sanitize_loop.induct) (auto simp: dns_chars_def)

lemma sanitize_loop_hd_True: "sanitize_loop True s = [] \<or> hd (sanitize_loop True s) \<noteq> CHR ''-''"
  by (induction s) auto

lemma no_double_dash_Cons:
  "no_double_dash (c # s) \<longleftrightarrow> (s = [] \<or> \<not> (c = CHR ''-'' \<and> hd s = CHR ''-'')) \<and> no_double_dash s"
  by (cases s) auto

lemma sanitize_loop_no_double_dash: "no_double_dash (sanitize_loop d s)"
proof (induction d s rule: sanitize_loop.induct)
  case (2 d r rs)
  then show ?case
    using sanitize_loop_hd_True [of rs] by (auto simp: no_double_dash_Cons)
qed simp

lemma no_double_dash_appendD: "no_double_dash (xs @ ys) \<Longrightarrow> no_double_dash xs \<and> no_double_dash ys"
proof (induction xs)
  case (Cons c xs)
  then show ?case by (cases xs) (auto simp: no_double_dash_Cons)
qed simp

lemma trim_by_split: "\<exists>xs ys. s = xs @ trim_by P s @ ys"
proof -
  have "s = takeWhile P s @ dropWhile P s" by simp
  moreover have "dropWhile P s = trim_by P s @ rev (takeWhile P (rev (dropWhile P s)))"
    unfolding trim_by_def by (metis rev_append rev_rev_ident takeWhile_dropWhile_id)
  ultimately show ?thesis by metis
qed

lemma Trim_dns:
  assumes "dns_chars s"
  shows "dns_token (Trim s (CHR ''-''))"
  unfolding dns_token_def dash_free_ends_def Trim_def
  using assms set_trim_by [of "\<lambda>x. x = CHR ''-''" s] hd_dropWhile_rev [of "\<lambda>x. x = CHR ''-''" s]
  by (auto simp: dns_chars_def)

lemma Trim_no_double_dash: "no_double_dash s \<Longrightarrow> no_double_dash (Trim s c)"
  unfolding Trim_def by (metis no_double_dash_appendD trim_by_split)

lemma sanitizeDNSLabel_token: "dns_token (sanitizeDNSLabel s)"
  by (simp add: sanitizeDNSLabel_def Let_def Trim_dns sanitize_loop_chars dns_token_def
      dns_chars_def dash_free_ends_def)
     (use Trim_dns [OF sanitize_loop_chars] in \<open>auto simp: dns_token_def dns_chars_def dash_free_ends_def\<close>)

lemma sanitizeDNSLabel_no_double_dash: "no_double_dash (sanitizeDNSLabel s)"
  by (auto simp: sanitizeDNSLabel_def Let_def intro: Trim_no_double_dash sanitize_loop_no_double_dash)

lemma char_lower_dns: "dns_char c \<or> c = CHR ''-'' \<Longrightarrow> char_lower c = c"
  by (auto simp: char_lower_def dns_char_def Let_def)

lemma ToLower_dns: "dns_chars s \<Longrightarrow> ToLower s = s"
  by (simp add: ToLower_def dns_chars_def map_idI char_lower_dns)

lemma dns_char_not_space: "dns_char c \<or> c = CHR ''-'' \<Longrightarrow> \<not> is_space c"
  by (auto simp: dns_char_def is_space_def Let_def)

lemma trim_by_ends: "s = [] \<or> \<not> P (hd s) \<and> \<not> P (last s) \<Longrightarrow> trim_by P s = s"
proof (cases "s = []")
  case True
  then show ?thesis by (simp add: trim_by_def)
next
  case False
  assume "s = [] \<or> \<not> P (hd s) \<and> \<not> P (last s)"
  with False have "dropWhile P s = s" and "dropWhile P (rev s) = rev s"
    by (simp_all add: dropWhile_eq_self_iff hd_rev)
  then show ?thesis by (simp add: trim_by_def)
qed

lemma TrimSpace_dns: "dns_chars s \<Longrightarrow> TrimSpace s = s"
  unfolding TrimSpace_def
  by (rule trim_by_ends) (metis dns_char_not_space dns_chars_def hd_in_set last_in_set)

lemma sanitize_loop_id:
  assumes "dns_chars s" and "no_double_dash s" and "d \<Longrightarrow> s = [] \<or> hd s \<noteq> CHR ''-''"
  shows "sanitize_loop d s = s"
  using assms
proof (induction d s rule: sanitize_loop.induct)
  case (2 d r rs)
  then show ?case
    by (cases "dns_char r") (auto simp: dns_chars_def no_double_dash_Cons)
qed simp

lemma Trim_id: "dash_free_ends s \<Longrightarrow> Trim s (CHR ''-'') = s"
  unfolding Trim_def dash_free_ends_def by (rule trim_by_ends) blast

text \<open>A normalized name (a DNS token with no two dashes in a row) is a fixed point.\<close>

lemma sanitizeDNSLabel_fixed: "dns_token s \<Longrightarrow> no_double_dash s \<Longrightarrow> sanitizeDNSLabel s = s"
  by (auto simp: sanitizeDNSLabel_def Let_def dns_token_def ToLower_dns TrimSpace_dns
      sanitize_loop_id Trim_id)

lemma sanitizeDNSLabel_idem: "sanitizeDNSLabel (sanitizeDNSLabel s) = sanitizeDNSLabel s"
  by (simp add: sanitizeDNSLabel_fixed sanitizeDNSLabel_token sanitizeDNSLabel_no_double_dash)

lemma length_sanitizeLabelValue: "length (sanitizeLabelValue s) \<le> 63"
  by (simp add: sanitizeLabelValue_def Let_def)

lemma sanitizeLabelValue_Nil [simp]: "sanitizeLabelValue [] = []"
  by (simp add: sanitizeLabelValue_def sanitizeDNSLabel_def ToLower_def)

subsection \<open>Child names\<close>

lemma length_shortHash [simp]: "length (shortHash s) = 12"
  by (simp add: shortHash_def)

lemma hex_digit_dns: "n < 16 \<Longrightarrow> dns_char (hex_digit n)"
  by (auto simp: hex_digit_def dns_char_def Let_def)

lemma shortHash_dns: "c \<in> set (shortHash s) \<Longrightarrow> dns_char c"
proof -
  assume "c \<in> set (shortHash s)"
  then have "c \<in> set (EncodeToString (Sum256 s))"
    unfolding shortHash_def by (rule in_set_takeD)
  then have "is_hex_char c" using EncodeToString_hex Sum256_byte by blast
  then show ?thesis by (auto simp: is_hex_char_def hex_digit_dns)
qed

lemma shortHash_token: "dns_token (shortHash s)"
proof -
  have ne: "shortHash s \<noteq> []" using length_shortHash [of s] by force
  have "dns_char (hd (shortHash s))" using ne hd_in_set shortHash_dns by blast
  moreover have "dns_char (last (shortHash s))" using ne last_in_set shortHash_dns by blast
  ultimately show ?thesis
    by (auto simp: dns_token_def dns_chars_def dash_free_ends_def intro: shortHash_dns)
qed

lemma dns_token_dash_join:
  assumes "dns_token p" and "dns_token q" and "p \<noteq> []" and "q \<noteq> []"
  shows "dns_token (p @ ''-'' @ q)"
  using assms by (auto simp: dns_token_def dns_chars_def dash_free_ends_def)

lemma Join_dns:
  "(\<And>t. t \<in> set ts \<Longrightarrow> t \<noteq> [] \<and> dns_token t) \<Longrightarrow>
     dns_token (Join ts ''-'') \<and> (ts \<noteq> [] \<longrightarrow> Join ts ''-'' \<noteq> [])"
proof (induction ts "''-''" rule: Join.induct)
  case 1
  then show ?case by (simp add: dns_token_def dns_chars_def dash_free_ends_def)
next
  case (2 x)
  then show ?case by simp
next
  case (3 x y xs)
  then have "dns_token (Join (y # xs) ''-'')" and "Join (y # xs) ''-'' \<noteq> []" by simp_all
  with 3 show ?case using dns_token_dash_join [of x "Join (y # xs) ''-''"] by simp
qed

lemma dns_chars_take: "dns_token s \<Longrightarrow> dns_chars (take n s)"
  by (auto simp: dns_token_def dns_chars_def dest: in_set_takeD)

lemma length_Trim: "length (Trim s c) \<le> length s"
  unfolding Trim_def by (rule length_trim_by)

text \<open>One token of a prefix, a dash and a token that ends the name: the shape of a truncated name.\<close>

lemma cut_name:
  assumes name: "dns_token name" and sfx: "dns_token sfx" "sfx \<noteq> []" "length sfx < 63"
    and pfx: "pfx = Trim (take (63 - length sfx - 1) name) (CHR ''-'')"
  shows "dns_label (if pfx \<noteq> [] then pfx @ ''-'' @ sfx else sfx)"
proof -
  have "length pfx \<le> 63 - length sfx - 1"
    using length_Trim [of "take (63 - length sfx - 1) name" "CHR ''-''"] pfx by simp
  moreover have "dns_token pfx"
    unfolding pfx by (intro Trim_dns dns_chars_take name)
  ultimately show ?thesis
    using sfx dns_token_dash_join [of pfx sfx] by (auto simp: dns_label_def)
qed

lemma child_tokens:
  "t \<in> set (filter (\<lambda>t. t \<noteq> []) (map sanitizeDNSLabel parts)) \<Longrightarrow> t \<noteq> [] \<and> dns_token t"
  by (auto simp: sanitizeDNSLabel_token)

lemma agentRunChildName_label:
  assumes "\<exists>p \<in> set parts. sanitizeDNSLabel p \<noteq> []"
  shows "dns_label (agentRunChildName parts)"
proof -
  define tokens where "tokens = filter (\<lambda>t. t \<noteq> []) (map sanitizeDNSLabel parts)"
  define name where "name = Join tokens ''-''"
  have ne: "tokens \<noteq> []" using assms by (auto simp: tokens_def filter_empty_conv)
  have tok: "t \<noteq> [] \<and> dns_token t" if "t \<in> set tokens" for t
    using that child_tokens unfolding tokens_def by blast
  have name: "dns_token name" "name \<noteq> []"
    using Join_dns [OF tok, of tokens] ne by (auto simp: name_def)
  have last: "last tokens \<noteq> [] \<and> dns_token (last tokens)"
    using tok ne by simp
  have hash: "shortHash name \<noteq> []" using length_shortHash [of name] by force
  have cut1: "length (last tokens) < 63 \<Longrightarrow>
    dns_label (let pfx = Trim (take (63 - length (last tokens) - 1) name) (CHR ''-'')
               in if pfx \<noteq> [] then pfx @ ''-'' @ last tokens else last tokens)"
    using cut_name [OF name(1), of "last tokens"] last by (simp add: Let_def)
  have cut2: "dns_label (let pfx = Trim (take (63 - length (shortHash name) - 1) name) (CHR ''-'')
               in if pfx \<noteq> [] then pfx @ ''-'' @ shortHash name else shortHash name)"
    using cut_name [OF name(1) shortHash_token hash] by (simp add: Let_def)
  show ?thesis
    using name cut1 cut2
    unfolding agentRunChildName_def tokens_def [symmetric] Let_def name_def [symmetric]
    by (simp add: dns_label_def split: if_splits)
qed

text \<open>The last token ends the name unless it alone fills a label.\<close>

lemma Join_suffix: "ts \<noteq> [] \<Longrightarrow> suffix (last ts) (Join ts sep)"
proof (induction ts sep rule: Join.induct)
  case (3 x y xs sep)
  then show ?case
    using suffix_appendI [of "last (y # xs)" "Join (y # xs) sep" "x @ sep"] by simp
qed simp_all

lemma agentRunChildName_suffix:
  assumes "parts \<noteq> []" and "sanitizeDNSLabel (last parts) \<noteq> []"
    and "length (sanitizeDNSLabel (last parts)) < 63"
  shows "suffix (sanitizeDNSLabel (last parts)) (agentRunChildName parts)"
proof -
  obtain qs where parts: "parts = qs @ [last parts]"
    using assms(1) by (metis append_butlast_last_id)
  define tokens where "tokens = filter (\<lambda>t. t \<noteq> []) (map sanitizeDNSLabel parts)"
  have "tokens = filter (\<lambda>t. t \<noteq> []) (map sanitizeDNSLabel qs) @ [sanitizeDNSLabel (last parts)]"
    unfolding tokens_def by (subst parts) (simp add: assms(2))
  then have ne: "tokens \<noteq> []" and last: "last tokens = sanitizeDNSLabel (last parts)"
    by simp_all
  have "suffix (last tokens) (Join tokens ''-'')" by (rule Join_suffix [OF ne])
  moreover have "suffix (last tokens) (p @ ''-'' @ last tokens)" for p
    using suffix_appendI [OF suffix_order.refl, of "last tokens" "p @ ''-''"] by simp
  ultimately show ?thesis
    using assms(3) unfolding agentRunChildName_def tokens_def [symmetric] Let_def last
    by (auto simp: last [symmetric])
qed

lemma no_dash_no_double_dash: "(\<And>c. c \<in> set s \<Longrightarrow> dns_char c) \<Longrightarrow> no_double_dash s"
proof (induction s)
  case (Cons c s)
  have "c \<noteq> CHR ''-''" using Cons.prems [of c] by auto
  then show ?case using Cons by (simp add: no_double_dash_Cons)
qed simp

lemma sanitizeDNSLabel_shortHash [simp]: "sanitizeDNSLabel (shortHash s) = shortHash s"
  by (rule sanitizeDNSLabel_fixed [OF shortHash_token no_dash_no_double_dash]) (rule shortHash_dns)

lemma shortHash_nonempty [simp]: "shortHash s \<noteq> []"
  using length_shortHash [of s] by force

subsection \<open>Properties\<close>

text \<open>
  Sanitizing. Every sanitized name consists of lower-case letters, digits and single dashes
  and neither starts nor ends with a dash; sanitizing it again changes nothing; and a name
  that already has this form is kept.
\<close>

theorem sanitize_correct:
  "dns_token (sanitizeDNSLabel s) \<and> no_double_dash (sanitizeDNSLabel s) \<and>
   sanitizeDNSLabel (sanitizeDNSLabel s) = sanitizeDNSLabel s \<and>
   (dns_token s \<and> no_double_dash s \<longleftrightarrow> sanitizeDNSLabel s = s)"
  using sanitizeDNSLabel_token sanitizeDNSLabel_no_double_dash sanitizeDNSLabel_idem sanitizeDNSLabel_fixed
  by metis

text \<open>
  Child names. A child name made of any parts and a short hash is a valid DNS label of at most
  63 bytes that ends with the hash, however long the parts are; so two child names can only be
  equal if their hashes are.
\<close>

theorem child_name_valid_and_distinct:
  "dns_label (agentRunChildName (parts @ [shortHash a])) \<and>
   suffix (shortHash a) (agentRunChildName (parts @ [shortHash a])) \<and>
   (agentRunChildName (parts @ [shortHash a]) = agentRunChildName (parts' @ [shortHash b]) \<longrightarrow>
      shortHash a = shortHash b)"
proof (intro conjI impI)
  show "dns_label (agentRunChildName (parts @ [shortHash a]))"
    by (rule agentRunChildName_label) simp
  have sfx: "suffix (shortHash h) (agentRunChildName (ps @ [shortHash h]))" for ps h
    using agentRunChildName_suffix [of "ps @ [shortHash h]"] by simp
  then show "suffix (shortHash a) (agentRunChildName (parts @ [shortHash a]))" .
  assume "agentRunChildName (parts @ [shortHash a]) = agentRunChildName (parts' @ [shortHash b])"
  then obtain u v where "u @ shortHash a = v @ shortHash b"
    using sfx [of a parts] sfx [of b parts'] by (auto elim!: suffixE)
  then show "shortHash a = shortHash b" by (simp add: append_eq_append_conv)
qed

theorem child_name_valid_and_distinct_witness:
  "dns_label (agentRunChildName ([''agentrun'', ''Nightly'', ''20260101''] @ [shortHash ''a''])) \<and>
   (agentRunChildName ([''agentrun''] @ [shortHash ''a'']) = agentRunChildName ([''agentrun''] @ [shortHash ''a'']))"
  using child_name_valid_and_distinct [of "[''agentrun'', ''Nightly'', ''20260101'']" "''a''"] by blast

end
