(* ===== verification/Kube.thy ===== *)
theory Kube
  imports WorkloadTypes Names
begin

text \<open>
  The Kubernetes side of a reconciler: the API client and the library functions that are
  not part of the repository, as a record of functions over an abstract cluster \<open>'w\<close>. The
  controllers take it as a parameter; nothing is assumed of it in their definitions. A read
  does not change the cluster; a write returns the API server's answer and the next
  cluster, in which other clients may have acted too. \<open>k_SetStatusCondition\<close> is
  \<^verbatim>\<open>apimeta.SetStatusCondition\<close>, the finalizer functions are those of \<^verbatim>\<open>controllerutil\<close>,
  \<open>k_TZOffset\<close> is the process's time zone and \<open>k_TimeParse\<close> is \<^verbatim>\<open>time.Parse\<close> of a layout.
\<close>

record AgentChainWorkflow =
  wf_ApplicationRef :: "ApplicationReferenceSpec option"
  wf_Completion :: "AgentChainCompletionSpec option"
  wf_PolicyLabels :: strmap
  wf_Steps :: "AgentChainStepSpec list"

record 'w kube =
  k_GetRun :: "'w \<Rightarrow> string \<Rightarrow> string \<Rightarrow> AgentRun result"
  k_ListRuns :: "'w \<Rightarrow> string option \<Rightarrow> strmap \<Rightarrow> AgentRun list result"
  k_CreateRun :: "'w \<Rightarrow> AgentRun \<Rightarrow> AgentRun result \<times> 'w"
  k_PatchRun :: "'w \<Rightarrow> AgentRun \<Rightarrow> AgentRun \<Rightarrow> AgentRun result \<times> 'w"
  k_GetProfile :: "'w \<Rightarrow> string \<Rightarrow> string \<Rightarrow> AgentRunProfile result"
  k_GetControl :: "'w \<Rightarrow> string \<Rightarrow> AgentRunControl result"
  k_ListControls :: "'w \<Rightarrow> AgentRunControl list result"
  k_PatchControlStatus :: "'w \<Rightarrow> AgentRunControl \<Rightarrow> AgentRunControl \<Rightarrow> go_error option \<times> 'w"
  k_GetSchedule :: "'w \<Rightarrow> string \<Rightarrow> string \<Rightarrow> AgentSchedule result"
  k_ListSchedules :: "'w \<Rightarrow> AgentSchedule list result"
  k_PatchScheduleStatus :: "'w \<Rightarrow> AgentSchedule \<Rightarrow> AgentSchedule \<Rightarrow> go_error option \<times> 'w"
  k_GetChain :: "'w \<Rightarrow> string \<Rightarrow> string \<Rightarrow> AgentChain result"
  k_PatchChain :: "'w \<Rightarrow> AgentChain \<Rightarrow> AgentChain \<Rightarrow> go_error option \<times> 'w"
  k_PatchChainStatus :: "'w \<Rightarrow> AgentChain \<Rightarrow> AgentChain \<Rightarrow> go_error option \<times> 'w"
  k_SetStatusCondition :: "Condition list \<Rightarrow> Condition \<Rightarrow> Condition list"
  k_ContainsFinalizer :: "string list \<Rightarrow> string \<Rightarrow> bool"
  k_AddFinalizer :: "string list \<Rightarrow> string \<Rightarrow> string list"
  k_RemoveFinalizer :: "string list \<Rightarrow> string \<Rightarrow> string list"
  k_MarshalRunSpec :: "AgentRunSpec \<Rightarrow> string option"
  k_MarshalWorkflow :: "AgentChainWorkflow \<Rightarrow> string option"
  k_TZOffset :: "instant \<Rightarrow> int"
  k_TimeParse :: "string \<Rightarrow> string \<Rightarrow> instant option"

text \<open>What a reconciler returns: \<^verbatim>\<open>ctrl.Result\<close> or an error.\<close>

record Result =
  rq_Requeue :: bool
  rq_RequeueAfter :: duration

definition no_requeue :: Result where
  "no_requeue = \<lparr>rq_Requeue = False, rq_RequeueAfter = 0\<rparr>"

definition requeue_now :: Result where
  "requeue_now = \<lparr>rq_Requeue = True, rq_RequeueAfter = 0\<rparr>"

definition requeue_after :: "duration \<Rightarrow> Result" where
  "requeue_after d = \<lparr>rq_Requeue = False, rq_RequeueAfter = d\<rparr>"

type_synonym 'w reconciled = "Result result \<times> 'w"

definition IgnoreNotFound :: "go_error \<Rightarrow> Result result" where
  "IgnoreNotFound e = (if IsNotFound e then Inr no_requeue else Inl e)"

text \<open>\<^verbatim>\<open>!obj.GetDeletionTimestamp().IsZero()\<close>: the timestamp is set and is not the zero time.\<close>

definition being_deleted :: "ObjectMeta \<Rightarrow> bool" where
  "being_deleted meta \<longleftrightarrow> (case om_DeletionTimestamp meta of None \<Rightarrow> False | Some t \<Rightarrow> t \<noteq> 0)"

text \<open>
  The three controllers end with the same function (\<^verbatim>\<open>patchAgentRunControlStatus\<close>,
  \<^verbatim>\<open>patchAgentScheduleStatus\<close>, \<^verbatim>\<open>patchAgentChainStatus\<close>): patch the status, requeue at once on
  a conflict, return any other error, else requeue after the given time if it is positive.
\<close>

definition patch_status ::
  "('w \<Rightarrow> 'o \<Rightarrow> 'o \<Rightarrow> go_error option \<times> 'w) \<Rightarrow> 'w \<Rightarrow> 'o \<Rightarrow> 'o \<Rightarrow> duration \<Rightarrow> 'w reconciled" where
  "patch_status patch w original obj requeueAfter =
     (case patch w original obj of
        (Some e, w') \<Rightarrow> (if IsConflict e then (Inr requeue_now, w') else (Inl e, w'))
      | (None, w') \<Rightarrow>
          (if requeueAfter > 0 then (Inr (requeue_after requeueAfter), w') else (Inr no_requeue, w')))"

subsection \<open>Observing the writes of a reconciler\<close>

text \<open>
  \<open>observe k\<close> is the client \<open>k\<close> with a log of the runs passed to \<^verbatim>\<open>Create\<close>. It answers every
  call as \<open>k\<close> does, so a statement about the log of \<open>f (observe k) (w, [])\<close> is a statement
  about the \<^verbatim>\<open>Create\<close> calls that \<open>f k w\<close> makes, whatever the API server answers.
\<close>

definition observe :: "'w kube \<Rightarrow> ('w \<times> AgentRun list) kube" where
  "observe k = \<lparr>
     k_GetRun = (\<lambda>(w, l). k_GetRun k w),
     k_ListRuns = (\<lambda>(w, l). k_ListRuns k w),
     k_CreateRun = (\<lambda>(w, l) r. case k_CreateRun k w r of (a, w') \<Rightarrow> (a, (w', l @ [r]))),
     k_PatchRun = (\<lambda>(w, l) o1 o2. case k_PatchRun k w o1 o2 of (a, w') \<Rightarrow> (a, (w', l))),
     k_GetProfile = (\<lambda>(w, l). k_GetProfile k w),
     k_GetControl = (\<lambda>(w, l). k_GetControl k w),
     k_ListControls = (\<lambda>(w, l). k_ListControls k w),
     k_PatchControlStatus = (\<lambda>(w, l) o1 o2. case k_PatchControlStatus k w o1 o2 of (a, w') \<Rightarrow> (a, (w', l))),
     k_GetSchedule = (\<lambda>(w, l). k_GetSchedule k w),
     k_ListSchedules = (\<lambda>(w, l). k_ListSchedules k w),
     k_PatchScheduleStatus = (\<lambda>(w, l) o1 o2. case k_PatchScheduleStatus k w o1 o2 of (a, w') \<Rightarrow> (a, (w', l))),
     k_GetChain = (\<lambda>(w, l). k_GetChain k w),
     k_PatchChain = (\<lambda>(w, l) o1 o2. case k_PatchChain k w o1 o2 of (a, w') \<Rightarrow> (a, (w', l))),
     k_PatchChainStatus = (\<lambda>(w, l) o1 o2. case k_PatchChainStatus k w o1 o2 of (a, w') \<Rightarrow> (a, (w', l))),
     k_SetStatusCondition = k_SetStatusCondition k,
     k_ContainsFinalizer = k_ContainsFinalizer k,
     k_AddFinalizer = k_AddFinalizer k,
     k_RemoveFinalizer = k_RemoveFinalizer k,
     k_MarshalRunSpec = k_MarshalRunSpec k,
     k_MarshalWorkflow = k_MarshalWorkflow k,
     k_TZOffset = k_TZOffset k,
     k_TimeParse = k_TimeParse k\<rparr>"

lemma observe_reads [simp]:
  "k_GetRun (observe k) (w, l) = k_GetRun k w"
  "k_ListRuns (observe k) (w, l) = k_ListRuns k w"
  "k_GetProfile (observe k) (w, l) = k_GetProfile k w"
  "k_GetControl (observe k) (w, l) = k_GetControl k w"
  "k_ListControls (observe k) (w, l) = k_ListControls k w"
  "k_GetSchedule (observe k) (w, l) = k_GetSchedule k w"
  "k_ListSchedules (observe k) (w, l) = k_ListSchedules k w"
  "k_GetChain (observe k) (w, l) = k_GetChain k w"
  "k_SetStatusCondition (observe k) = k_SetStatusCondition k"
  "k_ContainsFinalizer (observe k) = k_ContainsFinalizer k"
  "k_AddFinalizer (observe k) = k_AddFinalizer k"
  "k_RemoveFinalizer (observe k) = k_RemoveFinalizer k"
  "k_MarshalRunSpec (observe k) = k_MarshalRunSpec k"
  "k_MarshalWorkflow (observe k) = k_MarshalWorkflow k"
  "k_TZOffset (observe k) = k_TZOffset k"
  "k_TimeParse (observe k) = k_TimeParse k"
  by (simp_all add: observe_def)

text \<open>The log after a result: what a reconciler passed to \<^verbatim>\<open>Create\<close>.\<close>

definition creates :: "('a \<times> ('w \<times> AgentRun list)) \<Rightarrow> AgentRun list" where
  "creates x = snd (snd x)"

lemma creates_pair [simp]: "creates (a, (w, l)) = l"
  by (simp add: creates_def)

text \<open>A status write that keeps the log.\<close>

definition log_neutral :: "(('w \<times> AgentRun list) \<Rightarrow> 'o \<Rightarrow> 'o \<Rightarrow> 'a \<times> ('w \<times> AgentRun list)) \<Rightarrow> bool" where
  "log_neutral patch \<longleftrightarrow> (\<forall>w a b. snd (snd (patch w a b)) = snd w)"

lemma log_neutral_patches [simp]:
  "log_neutral (k_PatchControlStatus (observe k))"
  "log_neutral (k_PatchScheduleStatus (observe k))"
  "log_neutral (k_PatchChainStatus (observe k))"
  "log_neutral (k_PatchChain (observe k))"
  by (auto simp: log_neutral_def observe_def split: prod.splits)

lemma creates_patch_status [simp]:
  "log_neutral patch \<Longrightarrow> creates (patch_status patch w original obj d) = snd w"
proof -
  assume "log_neutral patch"
  then have "snd (snd (patch w original obj)) = snd w" by (simp only: log_neutral_def)
  then show ?thesis
    unfolding patch_status_def creates_def by (cases "patch w original obj") (auto split: option.splits)
qed

lemma log_PatchRun [simp]: "snd (snd (k_PatchRun (observe k) w a b)) = snd w"
  by (auto simp: observe_def split: prod.splits)

lemma log_CreateRun [simp]: "snd (snd (k_CreateRun (observe k) w r)) = snd w @ [r]"
  by (auto simp: observe_def split: prod.splits)

lemma patch_status_requeue:
  assumes "patch_status patch w original obj d = (Inr r, w')" and "rq_RequeueAfter r \<noteq> 0"
  shows "rq_RequeueAfter r = d \<and> 0 < d \<and> \<not> rq_Requeue r"
  using assms unfolding patch_status_def
  by (auto simp: requeue_now_def requeue_after_def no_requeue_def
      split: prod.splits option.splits if_splits)

end
