(* ===== verification/MemKube.thy ===== *)
theory MemKube
  imports Kube
begin

text \<open>
  One concrete client: an in-memory API server over lists of objects, of the kind the
  repository's controller tests use. It gives the parameter \<open>'w kube\<close> of the controllers a
  concrete value on which their theorems are exercised, and it satisfies the documented
  behaviour of a client (\<open>mem_create_get\<close>, \<open>mem_create_twice\<close>).
\<close>

record mem =
  mem_Runs :: "AgentRun list"
  mem_Profiles :: "AgentRunProfile list"
  mem_Controls :: "AgentRunControl list"
  mem_Schedules :: "AgentSchedule list"
  mem_Chains :: "AgentChain list"

definition mem_empty :: mem where
  "mem_empty = \<lparr>mem_Runs = [], mem_Profiles = [], mem_Controls = [], mem_Schedules = [], mem_Chains = []\<rparr>"

definition found :: "string \<Rightarrow> 'a option \<Rightarrow> 'a result" where
  "found name x = (case x of None \<Rightarrow> Inl (ApiError NotFound name) | Some y \<Rightarrow> Inr y)"

definition keyed :: "('a \<Rightarrow> ObjectMeta) \<Rightarrow> string \<Rightarrow> string \<Rightarrow> 'a \<Rightarrow> bool" where
  "keyed meta ns name x \<longleftrightarrow> om_Namespace (meta x) = ns \<and> om_Name (meta x) = name"

definition replace_by :: "('a \<Rightarrow> ObjectMeta) \<Rightarrow> 'a \<Rightarrow> 'a list \<Rightarrow> 'a list" where
  "replace_by meta x xs =
     map (\<lambda>y. if keyed meta (om_Namespace (meta x)) (om_Name (meta x)) y then x else y) xs"

definition matches_labels :: "strmap \<Rightarrow> strmap \<Rightarrow> bool" where
  "matches_labels sel labels \<longleftrightarrow> (\<forall>(key, v) \<in> set sel. map_of labels key = Some v)"

definition mem_list_runs :: "mem \<Rightarrow> string option \<Rightarrow> strmap \<Rightarrow> AgentRun list" where
  "mem_list_runs w ns sel =
     filter (\<lambda>r. (case ns of None \<Rightarrow> True | Some n \<Rightarrow> run_Namespace r = n) \<and>
       matches_labels sel (run_Labels r)) (mem_Runs w)"

definition mem_create :: "mem \<Rightarrow> AgentRun \<Rightarrow> AgentRun result \<times> mem" where
  "mem_create w r =
     (if \<exists>x \<in> set (mem_Runs w). keyed run_Meta (run_Namespace r) (run_Name r) x
      then (Inl (ApiError AlreadyExists (run_Name r)), w)
      else (Inr r, w\<lparr>mem_Runs := mem_Runs w @ [r]\<rparr>))"

definition set_condition :: "Condition list \<Rightarrow> Condition \<Rightarrow> Condition list" where
  "set_condition cs c =
     (if \<exists>d \<in> set cs. cond_Type d = cond_Type c
      then map (\<lambda>d. if cond_Type d = cond_Type c then c else d) cs else cs @ [c])"

definition mem_kube :: "mem kube" where
  "mem_kube = \<lparr>
     k_GetRun = (\<lambda>w ns n. found n (find (keyed run_Meta ns n) (mem_Runs w))),
     k_ListRuns = (\<lambda>w ns sel. Inr (mem_list_runs w ns sel)),
     k_CreateRun = mem_create,
     k_PatchRun = (\<lambda>w a b. (Inr b, w\<lparr>mem_Runs := replace_by run_Meta b (mem_Runs w)\<rparr>)),
     k_GetProfile = (\<lambda>w ns n. found n (find (keyed profile_Meta ns n) (mem_Profiles w))),
     k_GetControl = (\<lambda>w n. found n (find (\<lambda>c. control_Name c = n) (mem_Controls w))),
     k_ListControls = (\<lambda>w. Inr (mem_Controls w)),
     k_PatchControlStatus = (\<lambda>w a b. (None, w\<lparr>mem_Controls := replace_by control_Meta b (mem_Controls w)\<rparr>)),
     k_GetSchedule = (\<lambda>w ns n. found n (find (keyed sched_Meta ns n) (mem_Schedules w))),
     k_ListSchedules = (\<lambda>w. Inr (mem_Schedules w)),
     k_PatchScheduleStatus = (\<lambda>w a b. (None, w\<lparr>mem_Schedules := replace_by sched_Meta b (mem_Schedules w)\<rparr>)),
     k_GetChain = (\<lambda>w ns n. found n (find (keyed chain_Meta ns n) (mem_Chains w))),
     k_PatchChain = (\<lambda>w a b. (None, w\<lparr>mem_Chains := replace_by chain_Meta b (mem_Chains w)\<rparr>)),
     k_PatchChainStatus = (\<lambda>w a b. (None, w\<lparr>mem_Chains := replace_by chain_Meta b (mem_Chains w)\<rparr>)),
     k_SetStatusCondition = set_condition,
     k_ContainsFinalizer = (\<lambda>fs f. f \<in> set fs),
     k_AddFinalizer = (\<lambda>fs f. if f \<in> set fs then fs else fs @ [f]),
     k_RemoveFinalizer = (\<lambda>fs f. filter (\<lambda>x. x \<noteq> f) fs),
     k_MarshalRunSpec = (\<lambda>s. Some ''{}''),
     k_MarshalWorkflow = (\<lambda>s. Some ''{}''),
     k_TZOffset = (\<lambda>t. 0),
     k_TimeParse = (\<lambda>layout s. None)\<rparr>"

lemma mem_kube_simps [simp]:
  "k_GetRun mem_kube w ns n = found n (find (keyed run_Meta ns n) (mem_Runs w))"
  "k_ListRuns mem_kube w x sel = Inr (mem_list_runs w x sel)"
  "k_CreateRun mem_kube = mem_create"
  "k_GetProfile mem_kube w ns n = found n (find (keyed profile_Meta ns n) (mem_Profiles w))"
  "k_GetControl mem_kube w n = found n (find (\<lambda>c. control_Name c = n) (mem_Controls w))"
  "k_ListControls mem_kube w = Inr (mem_Controls w)"
  "k_GetSchedule mem_kube w ns n = found n (find (keyed sched_Meta ns n) (mem_Schedules w))"
  "k_ListSchedules mem_kube w = Inr (mem_Schedules w)"
  "k_GetChain mem_kube w ns n = found n (find (keyed chain_Meta ns n) (mem_Chains w))"
  "k_MarshalRunSpec mem_kube s = Some ''{}''"
  "k_MarshalWorkflow mem_kube f = Some ''{}''"
  "k_TZOffset mem_kube t = 0"
  "k_TimeParse mem_kube layout str = None"
  by (simp_all add: mem_kube_def)

lemma found_simps [simp]: "found n None = Inl (ApiError NotFound n)" "found n (Some y) = Inr y"
  by (simp_all add: found_def)

lemma find_snoc: "\<forall>x \<in> set xs. \<not> P x \<Longrightarrow> P r \<Longrightarrow> find P (xs @ [r]) = Some r"
  by (induction xs) auto

lemma mem_create_get:
  assumes "mem_create w r = (Inr r', w')"
  shows "k_GetRun mem_kube w' (run_Namespace r) (run_Name r) = Inr r"
proof -
  have new: "\<not> (\<exists>x \<in> set (mem_Runs w). keyed run_Meta (run_Namespace r) (run_Name r) x)"
    and w': "mem_Runs w' = mem_Runs w @ [r]"
    using assms by (auto simp: mem_create_def split: if_splits)
  have "find (keyed run_Meta (run_Namespace r) (run_Name r)) (mem_Runs w @ [r]) = Some r"
    by (rule find_snoc) (use new in \<open>auto simp: keyed_def\<close>)
  then show ?thesis
    by (simp add: w')
qed

lemma mem_create_twice:
  assumes "mem_create w r = (Inr r', w')" "run_Name s = run_Name r" "run_Namespace s = run_Namespace r"
  shows "\<exists>e. mem_create w' s = (Inl e, w') \<and> IsAlreadyExists e"
  using assms by (auto simp: mem_create_def keyed_def IsAlreadyExists_def split: if_splits)

end
