(* ===== verification/RunControl.thy ===== *)
theory RunControl
  imports MemKube
begin

text \<open>
  \<^verbatim>\<open>internal/controller/agent_run_control_controller.go\<close>: launch holds of an application. The
  reconciler reports the phase of one \<^verbatim>\<open>AgentRunControl\<close>; the schedule, chain and run
  controllers ask \<^verbatim>\<open>activeAgentRunPauseForApplication\<close> whether a hold is in force. The
  application of a run or schedule is resolved from its scope and its profile.
  The lemmas characterise the hold that is selected and show that the phase a control
  reports agrees with whether it holds launches.
\<close>

subsection \<open>Definitions\<close>

definition agentRunControlReady :: string where "agentRunControlReady = ''Ready''"
definition agentRunControlPollInterval :: duration where "agentRunControlPollInterval = 30 * Second"

definition agentRunPhaseTerminal :: "AgentRunPhase \<Rightarrow> bool" where
  "agentRunPhaseTerminal phase \<longleftrightarrow>
     (case phase of
        AgentRunPhaseSucceeded \<Rightarrow> True
      | AgentRunPhaseFailed \<Rightarrow> True
      | AgentRunPhaseNeedsHuman \<Rightarrow> True
      | _ \<Rightarrow> False)"

definition agentRunControlExpired :: "AgentRunControl \<Rightarrow> instant \<Rightarrow> bool" where
  "agentRunControlExpired control now \<longleftrightarrow>
     (case ctl_ExpiresAt (control_Spec control) of None \<Rightarrow> False | Some t \<Rightarrow> \<not> now < t)"

record activeAgentRunPause =
  pause_ControlName :: string
  pause_Reason :: string
  pause_ExpiresAt :: "instant option"

text \<open>The condition under which the loop over the controls does not \<^verbatim>\<open>continue\<close>.\<close>

definition pause_holds :: "string \<Rightarrow> instant \<Rightarrow> AgentRunControl \<Rightarrow> bool" where
  "pause_holds applicationName now control \<longleftrightarrow>
     \<not> (TrimSpace (app_Name (ctl_ApplicationRef (control_Spec control))) \<noteq> applicationName \<or>
        ctl_LaunchPolicy (control_Spec control) \<noteq> AgentRunControlLaunchPolicyPaused \<or>
        TrimSpace (ctl_Reason (control_Spec control)) = [] \<or>
        agentRunControlExpired control now)"

fun select_pause ::
  "string \<Rightarrow> instant \<Rightarrow> AgentRunControl option \<Rightarrow> AgentRunControl list \<Rightarrow> AgentRunControl option" where
  "select_pause app now selected [] = selected"
| "select_pause app now selected (control # controls) =
     (if \<not> pause_holds app now control then select_pause app now selected controls
      else select_pause app now
        (case selected of
           None \<Rightarrow> Some control
         | Some s \<Rightarrow> if control_Name control < control_Name s then Some control else Some s) controls)"

definition activeAgentRunPauseForApplication ::
  "'w kube \<Rightarrow> 'w \<Rightarrow> string \<Rightarrow> instant \<Rightarrow> activeAgentRunPause option result" where
  "activeAgentRunPauseForApplication k w applicationName now =
     (let applicationName = TrimSpace applicationName in
      if applicationName = [] then Inr None
      else case k_ListControls k w of
        Inl e \<Rightarrow> Inl (Wrapf ''list AgentRunControls'' e)
      | Inr controls \<Rightarrow>
          (case select_pause applicationName now None controls of
             None \<Rightarrow> Inr None
           | Some selected \<Rightarrow>
               Inr (Some \<lparr>pause_ControlName = control_Name selected,
                          pause_Reason = TrimSpace (ctl_Reason (control_Spec selected)),
                          pause_ExpiresAt = ctl_ExpiresAt (control_Spec selected)\<rparr>)))"

definition agentRunPauseRequeueAfter :: "activeAgentRunPause option \<Rightarrow> instant \<Rightarrow> duration" where
  "agentRunPauseRequeueAfter pause now =
     (case Option.bind pause pause_ExpiresAt of
        None \<Rightarrow> agentRunControlPollInterval
      | Some t \<Rightarrow>
          (let untilExpiry = time_sub t now in
           if untilExpiry > 0 \<and> untilExpiry < agentRunControlPollInterval then untilExpiry
           else agentRunControlPollInterval))"

text \<open>The name in an optional application reference, trimmed; empty when the pointer is nil.\<close>

definition app_ref_name :: "ApplicationReferenceSpec option \<Rightarrow> string" where
  "app_ref_name ref = (case ref of None \<Rightarrow> [] | Some a \<Rightarrow> TrimSpace (app_Name a))"

definition resolveAgentRunSpecApplicationNameWithProfilePolicy ::
  "'w kube \<Rightarrow> 'w \<Rightarrow> string \<Rightarrow> AgentRunSpec \<Rightarrow> bool \<Rightarrow> string result" where
  "resolveAgentRunSpecApplicationNameWithProfilePolicy k w namespace spec requireProfile =
     (let direct = app_ref_name (scope_ApplicationRef (spec_Scope spec)) in
      case spec_ProfileRef spec of
        None \<Rightarrow> Inr direct
      | Some ref \<Rightarrow>
          if TrimSpace (nor_Name ref) = [] then Inr direct
          else
            let profileNamespace = firstNonEmpty (TrimSpace (nor_Namespace ref)) namespace in
            if profileNamespace \<noteq> namespace then
              (if \<not> requireProfile then Inr direct
               else Inl (Errorf (''profileRef must reference an AgentRunProfile in namespace '' @ Quote namespace)))
            else
              (case k_GetProfile k w profileNamespace (TrimSpace (nor_Name ref)) of
                 Inl e \<Rightarrow>
                   (if IsNotFound e \<and> \<not> requireProfile then Inr direct
                    else Inl (Wrapf (''get AgentRunProfile '' @ profileNamespace @ ''/'' @ TrimSpace (nor_Name ref)) e))
               | Inr profile \<Rightarrow>
                   (let profileApplication =
                          app_ref_name (scope_ApplicationRef (prof_Scope (profile_Spec profile))) in
                    if direct \<noteq> [] \<and> profileApplication \<noteq> [] \<and> direct \<noteq> profileApplication
                    then Inl (ScopeConflict direct profileApplication)
                    else Inr (firstNonEmpty direct profileApplication))))"

definition resolveAgentRunSpecApplicationName :: "'w kube \<Rightarrow> 'w \<Rightarrow> string \<Rightarrow> AgentRunSpec \<Rightarrow> string result" where
  "resolveAgentRunSpecApplicationName k w namespace spec =
     resolveAgentRunSpecApplicationNameWithProfilePolicy k w namespace spec False"

definition resolveAgentRunSpecApplicationNameStrict :: "'w kube \<Rightarrow> 'w \<Rightarrow> string \<Rightarrow> AgentRunSpec \<Rightarrow> string result" where
  "resolveAgentRunSpecApplicationNameStrict k w namespace spec =
     resolveAgentRunSpecApplicationNameWithProfilePolicy k w namespace spec True"

definition resolveAgentRunApplicationName :: "'w kube \<Rightarrow> 'w \<Rightarrow> AgentRun \<Rightarrow> string result" where
  "resolveAgentRunApplicationName k w obj =
     resolveAgentRunSpecApplicationName k w (run_Namespace obj) (run_Spec obj)"

text \<open>The loop over the run templates; \<open>i\<close> is the index of the next template.\<close>

fun resolve_templates ::
  "'w kube \<Rightarrow> 'w \<Rightarrow> string \<Rightarrow> string \<Rightarrow> int \<Rightarrow> string \<Rightarrow> AgentRunSpec list \<Rightarrow> string result" where
  "resolve_templates k w namespace explicit i resolved [] = Inr resolved"
| "resolve_templates k w namespace explicit i resolved (t # ts) =
     (case resolveAgentRunSpecApplicationNameStrict k w namespace t of
        Inl e \<Rightarrow> Inl (Wrapf (''resolve run template '' @ Itoa i @ '' application'') e)
      | Inr name \<Rightarrow>
          if name = [] then resolve_templates k w namespace explicit (i + 1) resolved ts
          else if explicit \<noteq> [] \<and> name \<noteq> explicit then
            Inl (Errorf (''spec.applicationRef '' @ Quote explicit @
              '' conflicts with run template applicationRef '' @ Quote name))
          else if resolved \<noteq> [] \<and> name \<noteq> resolved then
            Inl (Errorf (''run templates resolve to multiple Applications '' @ Quote resolved @ '' and '' @ Quote name))
          else resolve_templates k w namespace explicit (i + 1) name ts)"

definition schedule_templates :: "AgentSchedule \<Rightarrow> AgentRunSpec list" where
  "schedule_templates schedule =
     (if length (ss_RunTemplates (sched_Spec schedule)) > 0
      then map tmpl_Template (ss_RunTemplates (sched_Spec schedule))
      else [ss_RunTemplate (sched_Spec schedule)])"

definition resolveAgentScheduleApplicationName :: "'w kube \<Rightarrow> 'w \<Rightarrow> AgentSchedule \<Rightarrow> string result" where
  "resolveAgentScheduleApplicationName k w schedule =
     (let explicit = app_ref_name (ss_ApplicationRef (sched_Spec schedule)) in
      if ss_ApplicationRef (sched_Spec schedule) \<noteq> None \<and> explicit = [] then
        Inl (Errorf ''spec.applicationRef.name is required when applicationRef is set'')
      else
        case resolve_templates k w (sched_Namespace schedule) explicit 0 [] (schedule_templates schedule) of
          Inl e \<Rightarrow> Inl e
        | Inr resolved \<Rightarrow> Inr (if explicit \<noteq> [] then explicit else resolved))"

subsection \<open>The reconciler of a control\<close>

definition control_condition ::
  "AgentRunControl \<Rightarrow> instant \<Rightarrow> ConditionStatus \<Rightarrow> string \<Rightarrow> string \<Rightarrow> Condition" where
  "control_condition obj now st reason message =
     \<lparr>cond_Type = agentRunControlReady, cond_Status = st,
      cond_ObservedGeneration = om_Generation (control_Meta obj),
      cond_LastTransitionTime = now, cond_Reason = reason, cond_Message = message\<rparr>"

fun count_schedules :: "'w kube \<Rightarrow> 'w \<Rightarrow> string \<Rightarrow> AgentSchedule list \<Rightarrow> int" where
  "count_schedules k w app [] = 0"
| "count_schedules k w app (s # ss) =
     (case resolveAgentScheduleApplicationName k w s of
        Inl e \<Rightarrow> count_schedules k w app ss
      | Inr name \<Rightarrow> (if name = app then 1 + count_schedules k w app ss else count_schedules k w app ss))"

text \<open>The pending and active counts of the runs of an application.\<close>

fun count_runs :: "'w kube \<Rightarrow> 'w \<Rightarrow> string \<Rightarrow> AgentRun list \<Rightarrow> int \<times> int" where
  "count_runs k w app [] = (0, 0)"
| "count_runs k w app (run # runs) =
     (case count_runs k w app runs of (pending, active) \<Rightarrow>
        if agentRunPhaseTerminal (run_Phase run) then (pending, active)
        else case resolveAgentRunApplicationName k w run of
          Inl e \<Rightarrow> (pending, active)
        | Inr name \<Rightarrow>
            if name \<noteq> app then (pending, active)
            else if rs_JobRef (run_Status run) = None \<and> rs_JobCreateAttemptedAt (run_Status run) = None
            then (pending + 1, active) else (pending, active + 1))"

definition countAgentRunControlSubjects ::
  "'w kube \<Rightarrow> 'w \<Rightarrow> string \<Rightarrow> AgentRunControlStatus \<Rightarrow> AgentRunControlStatus result" where
  "countAgentRunControlSubjects k w applicationName status =
     (case k_ListSchedules k w of
        Inl e \<Rightarrow> Inl (Wrapf ''list AgentSchedules for AgentRunControl'' e)
      | Inr schedules \<Rightarrow>
          (case k_ListRuns k w None [] of
             Inl e \<Rightarrow> Inl (Wrapf ''list AgentRuns for AgentRunControl'' e)
           | Inr runs \<Rightarrow>
               (case count_runs k w applicationName runs of (pending, active) \<Rightarrow>
                  Inr (status\<lparr>
                    cst_AffectedScheduleCount :=
                      cst_AffectedScheduleCount status + count_schedules k w applicationName schedules,
                    cst_PendingRunCount := cst_PendingRunCount status + pending,
                    cst_ActiveRunCount := cst_ActiveRunCount status + active\<rparr>))))"

text \<open>The switch of \<^verbatim>\<open>Reconcile\<close>: phase, condition status, reason, message and requeue time.
  \<open>now2\<close> is the instant that \<^verbatim>\<open>time.Until\<close> reads.\<close>

definition control_verdict ::
  "AgentRunControl \<Rightarrow> string \<Rightarrow> instant \<Rightarrow> instant \<Rightarrow>
     AgentRunControlPhase \<times> ConditionStatus \<times> string \<times> string \<times> duration" where
  "control_verdict obj app now now2 =
     (let poll = agentRunControlPollInterval; policy = ctl_LaunchPolicy (control_Spec obj);
          reason = TrimSpace (ctl_Reason (control_Spec obj)) in
      if agentRunControlExpired obj now then
        (AgentRunControlPhaseExpired, ConditionTrue, ''ControlExpired'',
         ''AgentRunControl expired; launches for Application '' @ Quote app @ '' are allowed.'', poll)
      else if policy = AgentRunControlLaunchPolicyPaused \<and> reason = [] then
        (AgentRunControlPhaseBlocked, ConditionFalse, ''PauseReasonRequired'',
         ''spec.reason is required when launchPolicy is Paused.'', poll)
      else if policy = AgentRunControlLaunchPolicyPaused then
        (AgentRunControlPhasePaused, ConditionTrue, ''LaunchPaused'',
         ''AgentRun launches for Application '' @ Quote app @ '' are paused: '' @ reason,
         (case ctl_ExpiresAt (control_Spec obj) of
            None \<Rightarrow> poll
          | Some t \<Rightarrow> (let untilExpiry = time_sub t now2 in
              if untilExpiry > 0 \<and> untilExpiry < poll then untilExpiry else poll)))
      else if policy = AgentRunControlLaunchPolicyAllowed then
        (AgentRunControlPhaseAllowed, ConditionTrue, ''LaunchAllowed'',
         ''AgentRun launches for Application '' @ Quote app @ '' are allowed.'', poll)
      else
        (AgentRunControlPhaseBlocked, ConditionFalse, ''InvalidLaunchPolicy'',
         ''Unsupported launchPolicy '' @ Quote (launch_policy_text policy) @ ''.'', poll))"

definition control_reset :: "AgentRunControl \<Rightarrow> AgentRunControlStatus" where
  "control_reset obj = (control_Status obj)\<lparr>
     cst_ObservedGeneration := om_Generation (control_Meta obj),
     cst_AffectedScheduleCount := 0, cst_PendingRunCount := 0, cst_ActiveRunCount := 0\<rparr>"

text \<open>The status that a live control gets, with the requeue time.\<close>

definition control_next_status ::
  "'w kube \<Rightarrow> 'w \<Rightarrow> AgentRunControl \<Rightarrow> instant \<Rightarrow> instant \<Rightarrow> (AgentRunControlStatus \<times> duration) result" where
  "control_next_status k w obj now now2 =
     (let status = control_reset obj;
          app = TrimSpace (app_Name (ctl_ApplicationRef (control_Spec obj))) in
      if app = [] then
        Inr (status\<lparr>
          cst_Phase := AgentRunControlPhaseBlocked,
          cst_Conditions := k_SetStatusCondition k (cst_Conditions status)
            (control_condition obj now ConditionFalse ''ApplicationRequired''
               ''spec.applicationRef.name is required.'')\<rparr>, 0)
      else
        case countAgentRunControlSubjects k w app status of
          Inl e \<Rightarrow> Inl e
        | Inr status \<Rightarrow>
            (case control_verdict obj app now now2 of (phase, st, reason, message, requeueAfter) \<Rightarrow>
               Inr (status\<lparr>
                 cst_Phase := phase,
                 cst_Conditions := k_SetStatusCondition k (cst_Conditions status)
                   (control_condition obj now st reason message)\<rparr>, requeueAfter)))"

definition AgentRunControlReconcile ::
  "'w kube \<Rightarrow> 'w \<Rightarrow> string \<Rightarrow> instant \<Rightarrow> instant \<Rightarrow> 'w reconciled" where
  "AgentRunControlReconcile k w name now now2 =
     (case k_GetControl k w name of
        Inl e \<Rightarrow> (IgnoreNotFound e, w)
      | Inr obj \<Rightarrow>
          if being_deleted (control_Meta obj) then (Inr no_requeue, w)
          else case control_next_status k w obj now now2 of
            Inl e \<Rightarrow> (Inl e, w)
          | Inr (status, requeueAfter) \<Rightarrow>
              patch_status (k_PatchControlStatus k) w obj (obj\<lparr>control_Status := status\<rparr>) requeueAfter)"

subsection \<open>Selection of a hold\<close>

lemma pause_holds_iff:
  "pause_holds app now c \<longleftrightarrow>
     TrimSpace (app_Name (ctl_ApplicationRef (control_Spec c))) = app \<and>
     ctl_LaunchPolicy (control_Spec c) = AgentRunControlLaunchPolicyPaused \<and>
     TrimSpace (ctl_Reason (control_Spec c)) \<noteq> [] \<and> \<not> agentRunControlExpired c now"
  by (auto simp: pause_holds_def)

lemma select_pause_member:
  "select_pause app now sel cs = Some c \<Longrightarrow> sel = Some c \<or> c \<in> set cs \<and> pause_holds app now c"
  by (induction app now sel cs rule: select_pause.induct) (auto split: if_splits option.splits)

lemma select_pause_least:
  "select_pause app now sel cs = Some c \<Longrightarrow>
     (\<forall>d \<in> set cs. pause_holds app now d \<longrightarrow> control_Name c \<le> control_Name d) \<and>
     (\<forall>s. sel = Some s \<longrightarrow> control_Name c \<le> control_Name s)"
proof (induction app now sel cs rule: select_pause.induct)
  case (2 app now sel control controls)
  then show ?case
    by (cases sel) (fastforce split: if_splits)+
qed simp

lemma select_pause_None:
  "select_pause app now sel cs = None \<longleftrightarrow> sel = None \<and> (\<forall>c \<in> set cs. \<not> pause_holds app now c)"
  by (induction app now sel cs rule: select_pause.induct) (auto split: option.splits)

lemma pause_requeue_bounds:
  "0 < agentRunPauseRequeueAfter pause now \<and> agentRunPauseRequeueAfter pause now \<le> agentRunControlPollInterval"
  by (auto simp: agentRunPauseRequeueAfter_def agentRunControlPollInterval_def Let_def
      split: option.splits)

lemma control_verdict_Paused:
  "fst (control_verdict obj app now now2) = AgentRunControlPhasePaused \<longleftrightarrow>
     ctl_LaunchPolicy (control_Spec obj) = AgentRunControlLaunchPolicyPaused \<and>
     TrimSpace (ctl_Reason (control_Spec obj)) \<noteq> [] \<and> \<not> agentRunControlExpired obj now"
  by (simp add: control_verdict_def Let_def)

lemma countAgentRunControlSubjects_Phase:
  "countAgentRunControlSubjects k w app st = Inr st' \<Longrightarrow> cst_Phase st' = cst_Phase st"
  by (auto simp: countAgentRunControlSubjects_def split: sum.splits prod.splits)

lemma control_next_status_total:
  assumes "countAgentRunControlSubjects k w (TrimSpace (app_Name (ctl_ApplicationRef (control_Spec obj))))
      (control_reset obj) = Inr st'"
  shows "\<exists>st d. control_next_status k w obj now now2 = Inr (st, d)"
  using assms by (auto simp: control_next_status_def Let_def split: prod.splits)

subsection \<open>Resolution of the application\<close>

lemma app_ref_name_trimmed [simp]: "TrimSpace (app_ref_name r) = app_ref_name r"
  by (cases r) (simp_all add: app_ref_name_def)

lemma firstNonEmpty_cases: "firstNonEmpty a b \<in> {a, b, []}"
  by (simp add: firstNonEmpty_def)

text \<open>A resolved name is one of the two names in play: the run's own or its profile's.\<close>

lemma resolve_spec_member:
  assumes "resolveAgentRunSpecApplicationNameWithProfilePolicy k w ns spec req = Inr name"
  shows "name = app_ref_name (scope_ApplicationRef (spec_Scope spec)) \<or>
    (\<exists>ref profile. spec_ProfileRef spec = Some ref \<and>
       k_GetProfile k w ns (TrimSpace (nor_Name ref)) = Inr profile \<and>
       name = app_ref_name (scope_ApplicationRef (prof_Scope (profile_Spec profile))))"
  using assms unfolding resolveAgentRunSpecApplicationNameWithProfilePolicy_def
  by (auto simp: Let_def firstNonEmpty_def split: option.splits if_splits sum.splits)

lemma resolve_spec_direct:
  assumes "resolveAgentRunSpecApplicationNameWithProfilePolicy k w ns spec req = Inr name"
    and "app_ref_name (scope_ApplicationRef (spec_Scope spec)) \<noteq> []"
  shows "name = app_ref_name (scope_ApplicationRef (spec_Scope spec))"
  using assms unfolding resolveAgentRunSpecApplicationNameWithProfilePolicy_def
  by (auto simp: Let_def firstNonEmpty_def split: option.splits if_splits sum.splits)

lemma resolve_templates_agree:
  assumes "resolve_templates k w ns explicit i resolved ts = Inr name"
  shows "(resolved \<noteq> [] \<longrightarrow> name = resolved) \<and>
    (\<forall>t \<in> set ts. \<forall>n. resolveAgentRunSpecApplicationNameStrict k w ns t = Inr n \<longrightarrow>
       n \<noteq> [] \<longrightarrow> n = name \<and> (explicit \<noteq> [] \<longrightarrow> n = explicit)) \<and>
    (\<forall>t \<in> set ts. \<exists>n. resolveAgentRunSpecApplicationNameStrict k w ns t = Inr n)"
  using assms
proof (induction k w ns explicit i resolved ts rule: resolve_templates.induct)
  case (2 k w ns explicit i resolved t ts)
  then show ?case
    by (cases "resolveAgentRunSpecApplicationNameStrict k w ns t") (auto split: if_splits)
qed simp

subsection \<open>Properties\<close>

text \<open>
  A launch hold is found exactly when it exists. When the controls can be listed, the lookup
  for a non-empty application name never fails; it returns no hold iff no listed control
  pauses that application with a reason and without having expired; and a returned hold is
  that of a listed control in force whose name is the least among those in force. When the
  list fails, the lookup is an error, so a caller cannot mistake it for "no hold".
\<close>

theorem pause_lookup_correct:
  assumes "TrimSpace app \<noteq> []"
  shows "(case k_ListControls k w of
      Inl e \<Rightarrow> activeAgentRunPauseForApplication k w app now = Inl (Wrapf ''list AgentRunControls'' e)
    | Inr controls \<Rightarrow>
        (activeAgentRunPauseForApplication k w app now = Inr None \<longleftrightarrow>
          (\<forall>c \<in> set controls. \<not> pause_holds (TrimSpace app) now c)) \<and>
        (\<forall>p. activeAgentRunPauseForApplication k w app now = Inr (Some p) \<longrightarrow>
          (\<exists>c \<in> set controls. pause_holds (TrimSpace app) now c \<and>
            pause_ControlName p = control_Name c \<and>
            pause_Reason p = TrimSpace (ctl_Reason (control_Spec c)) \<and> pause_Reason p \<noteq> [] \<and>
            pause_ExpiresAt p = ctl_ExpiresAt (control_Spec c) \<and>
            (\<forall>d \<in> set controls. pause_holds (TrimSpace app) now d \<longrightarrow> control_Name c \<le> control_Name d))) \<and>
        (\<exists>r. activeAgentRunPauseForApplication k w app now = Inr r))"
proof (cases "k_ListControls k w")
  case (Inl e)
  then show ?thesis
    using assms by (simp add: activeAgentRunPauseForApplication_def)
next
  case (Inr controls)
  show ?thesis
  proof (cases "select_pause (TrimSpace app) now None controls")
    case None
    then show ?thesis
      using assms Inr select_pause_None [of "TrimSpace app" now None controls]
      by (simp add: activeAgentRunPauseForApplication_def)
  next
    case (Some c)
    have "c \<in> set controls" "pause_holds (TrimSpace app) now c"
      using select_pause_member [OF Some] by auto
    moreover have "\<forall>d \<in> set controls. pause_holds (TrimSpace app) now d \<longrightarrow> control_Name c \<le> control_Name d"
      using select_pause_least [OF Some] by blast
    ultimately show ?thesis
      using assms Inr Some by (auto simp: activeAgentRunPauseForApplication_def pause_holds_iff)
  qed
qed

definition demo_control :: "string \<Rightarrow> string \<Rightarrow> AgentRunControl" where
  "demo_control name reason = \<lparr>
     control_Meta = zero_ObjectMeta\<lparr>om_Name := name\<rparr>,
     control_Spec = \<lparr>ctl_ApplicationRef = \<lparr>app_Name = ''shop''\<rparr>,
       ctl_LaunchPolicy = AgentRunControlLaunchPolicyPaused, ctl_MaxConcurrentRuns = 0,
       ctl_Reason = reason, ctl_Source = None, ctl_ExpiresAt = Some 1000\<rparr>,
     control_Status = \<lparr>cst_ObservedGeneration = 0, cst_Conditions = [],
       cst_Phase = AgentRunControlPhaseUnset, cst_AffectedScheduleCount = 0,
       cst_PendingRunCount = 0, cst_ActiveRunCount = 0\<rparr>\<rparr>"

definition demo_controls :: mem where
  "demo_controls = mem_empty\<lparr>mem_Controls := [demo_control ''b'' ''freeze'', demo_control ''a'' ''freeze'']\<rparr>"

lemma demo_controls_list [simp]:
  "mem_Controls demo_controls = [demo_control ''b'' ''freeze'', demo_control ''a'' ''freeze'']"
  by (simp add: demo_controls_def)

lemma demo_TrimSpace [simp]: "TrimSpace ''shop'' = ''shop''" "TrimSpace ''freeze'' = ''freeze''"
  by code_simp+

theorem pause_lookup_correct_witness:
  "activeAgentRunPauseForApplication mem_kube demo_controls ''shop'' 0 =
     Inr (Some \<lparr>pause_ControlName = ''a'', pause_Reason = ''freeze'', pause_ExpiresAt = Some 1000\<rparr>) \<and>
   activeAgentRunPauseForApplication mem_kube demo_controls ''shop'' 1000 = Inr None"
proof
  show "activeAgentRunPauseForApplication mem_kube demo_controls ''shop'' 1000 = Inr None"
    using pause_lookup_correct [of "''shop''" mem_kube demo_controls 1000]
    by (simp add: pause_holds_iff agentRunControlExpired_def demo_control_def)
qed code_simp

text \<open>
  A control reports exactly the holds that gate launches. The status computed for a listed
  control of a named application is \<open>Paused\<close> iff that control is in force for it at that
  instant, and then every launch gate of that application finds a hold; the control is
  reconciled again within 30 seconds, in positive time.
\<close>

theorem control_status_matches_gate:
  assumes "control_next_status k w obj now now2 = Inr (st, d)"
    and "TrimSpace (app_Name (ctl_ApplicationRef (control_Spec obj))) = app" "app \<noteq> []"
    and "k_ListControls k w = Inr controls" "obj \<in> set controls"
  shows "(cst_Phase st = AgentRunControlPhasePaused \<longleftrightarrow> pause_holds app now obj) \<and>
    (cst_Phase st = AgentRunControlPhasePaused \<longrightarrow>
      (\<exists>p. activeAgentRunPauseForApplication k w app now = Inr (Some p))) \<and>
    0 < d \<and> d \<le> 30 * Second"
proof -
  obtain ph cs reason message where verdict: "control_verdict obj app now now2 = (ph, cs, reason, message, d)"
    and phase: "cst_Phase st = ph"
    using assms(1-3) by (auto simp: control_next_status_def Let_def split: sum.splits prod.splits)
  have paused: "ph = AgentRunControlPhasePaused \<longleftrightarrow> pause_holds app now obj"
    using control_verdict_Paused [of obj app now now2] assms(2) by (auto simp: verdict pause_holds_iff)
  have d: "0 < d \<and> d \<le> 30 * Second"
    using verdict by (auto simp: control_verdict_def Let_def agentRunControlPollInterval_def
        split: if_splits option.splits)
  have trimmed: "TrimSpace app = app" using assms(2) by auto
  have "\<exists>p. activeAgentRunPauseForApplication k w app now = Inr (Some p)" if "pause_holds app now obj"
    using that assms(3-5) select_pause_None [of app now None controls]
    by (auto simp: activeAgentRunPauseForApplication_def trimmed split: option.splits)
  then show ?thesis
    using paused phase d by simp
qed

lemma demo_counts:
  "countAgentRunControlSubjects mem_kube demo_controls ''shop'' st = Inr (st\<lparr>
     cst_AffectedScheduleCount := cst_AffectedScheduleCount st,
     cst_PendingRunCount := cst_PendingRunCount st, cst_ActiveRunCount := cst_ActiveRunCount st\<rparr>)"
  by (simp add: countAgentRunControlSubjects_def demo_controls_def mem_empty_def mem_list_runs_def)

theorem control_status_matches_gate_witness:
  "\<exists>st d. control_next_status mem_kube demo_controls (demo_control ''a'' ''freeze'') 0 400 = Inr (st, d) \<and>
     cst_Phase st = AgentRunControlPhasePaused \<and> 0 < d \<and> d \<le> 30 * Second"
proof -
  obtain st d where st: "control_next_status mem_kube demo_controls (demo_control ''a'' ''freeze'') 0 400 = Inr (st, d)"
    using control_next_status_total [of mem_kube demo_controls "demo_control ''a'' ''freeze''" _ 0 400]
    by (auto simp: demo_counts demo_control_def)
  have "pause_holds ''shop'' 0 (demo_control ''a'' ''freeze'')"
    by (simp add: pause_holds_iff demo_control_def agentRunControlExpired_def)
  then show ?thesis
    using control_status_matches_gate [OF st, of "''shop''"] st by (simp add: demo_control_def)
qed

text \<open>
  The application of a schedule is unambiguous. When a schedule resolves to an application,
  every run template resolves under the strict profile policy, and every template that
  names an application, directly or through its profile, names that one; so a launch hold
  or concurrency limit looked up by the resolved name governs each run the schedule can start.
\<close>

theorem schedule_application_unambiguous:
  assumes "resolveAgentScheduleApplicationName k w s = Inr name" "t \<in> set (schedule_templates s)"
  shows "\<exists>n. resolveAgentRunSpecApplicationNameStrict k w (sched_Namespace s) t = Inr n \<and> (n = [] \<or> n = name)"
  using assms resolve_templates_agree [of k w "sched_Namespace s" "app_ref_name (ss_ApplicationRef (sched_Spec s))"
      0 "[]" "schedule_templates s"]
  by (fastforce simp: resolveAgentScheduleApplicationName_def Let_def split: sum.splits if_splits)

definition demo_schedule :: AgentSchedule where
  "demo_schedule = \<lparr>
     sched_Meta = zero_ObjectMeta\<lparr>om_Name := ''nightly'', om_Namespace := ''agents'', om_UID := ''u1''\<rparr>,
     sched_Spec = zero_ScheduleSpec\<lparr>ss_IntervalSeconds := 60,
       ss_RunTemplate := zero_RunSpec\<lparr>spec_Scope := zero_Scope\<lparr>scope_ApplicationRef := Some \<lparr>app_Name = ''shop''\<rparr>\<rparr>\<rparr>\<rparr>,
     sched_Status = zero_ScheduleStatus\<rparr>"

theorem schedule_application_unambiguous_witness:
  "\<exists>n. resolveAgentRunSpecApplicationNameStrict mem_kube mem_empty ''agents'' (ss_RunTemplate (sched_Spec demo_schedule)) = Inr n \<and>
     (n = [] \<or> n = ''shop'')"
proof -
  have "resolveAgentScheduleApplicationName mem_kube mem_empty demo_schedule = Inr ''shop''"
    by (simp add: resolveAgentScheduleApplicationName_def schedule_templates_def demo_schedule_def
        zero_ScheduleSpec_def zero_RunSpec_def zero_Scope_def app_ref_name_def Let_def
        resolveAgentRunSpecApplicationNameStrict_def resolveAgentRunSpecApplicationNameWithProfilePolicy_def)
  from schedule_application_unambiguous [OF this, of "ss_RunTemplate (sched_Spec demo_schedule)"]
  show ?thesis by (simp add: schedule_templates_def demo_schedule_def zero_ScheduleSpec_def)
qed

end
