(* ===== verification/RunOrder.thy ===== *)
theory RunOrder
  imports RunControl "HOL-Library.Product_Lexorder"
begin

text \<open>
  The queue order of agent runs and the schedule policies that use it:
  \<^verbatim>\<open>agentRunPrecedes\<close> (\<^verbatim>\<open>agent_run_controller.go\<close>) and the selection, membership and limit
  helpers of \<^verbatim>\<open>agent_schedule_controller.go\<close>. The locale \<open>keyed_queue\<close> states what the launch
  gates need of an order, that it compares a key of a linear order, and derives from it that
  a gate which counts predecessors admits at most its limit and never blocks the head. It
  is interpreted on \<^verbatim>\<open>agentRunPrecedes\<close> over runs that the API server has stamped.
\<close>

subsection \<open>Definitions\<close>

definition agentRunPrecedes :: "AgentRun \<Rightarrow> AgentRun \<Rightarrow> bool" where
  "agentRunPrecedes candidate target \<longleftrightarrow>
     (let candidateTime = run_CreationTimestamp candidate; targetTime = run_CreationTimestamp target in
      if candidateTime \<noteq> 0 \<and> targetTime \<noteq> 0 \<and> candidateTime < targetTime then True
      else if candidateTime \<noteq> 0 \<and> targetTime \<noteq> 0 \<and> candidateTime > targetTime then False
      else run_Name candidate < run_Name target)"

definition agentRunScheduleLabel :: string where
  "agentRunScheduleLabel = ''control.anvil.hazyforge.io/agent-schedule''"

definition agentScheduleConcurrencyPolicy :: "AgentSchedule \<Rightarrow> AgentScheduleConcurrencyPolicy" where
  "agentScheduleConcurrencyPolicy schedule =
     (if ss_ConcurrencyPolicy (sched_Spec schedule) = AgentScheduleConcurrencyUnset
      then AgentScheduleConcurrencyForbid else ss_ConcurrencyPolicy (sched_Spec schedule))"

definition agentScheduleMaxConcurrentRuns :: "AgentSchedule \<Rightarrow> int" where
  "agentScheduleMaxConcurrentRuns schedule =
     (let policy = agentScheduleConcurrencyPolicy schedule in
      if policy = AgentScheduleConcurrencyForbid then 1
      else if ss_MaxConcurrentRuns (sched_Spec schedule) \<le> 0
      then (if policy = AgentScheduleConcurrencyQueue then 1 else 0)
      else ss_MaxConcurrentRuns (sched_Spec schedule))"

definition agentRunBelongsToSchedule :: "AgentRun \<Rightarrow> AgentSchedule \<Rightarrow> bool" where
  "agentRunBelongsToSchedule run schedule \<longleftrightarrow>
     (case spec_ScheduleRef (run_Spec run) of
        None \<Rightarrow> False
      | Some ref \<Rightarrow>
          if firstNonEmpty (TrimSpace (nor_Namespace ref)) (run_Namespace run) \<noteq> sched_Namespace schedule \<or>
             TrimSpace (nor_Name ref) \<noteq> sched_Name schedule
          then False
          else TrimSpace (spec_SourceUID (run_Spec run)) \<noteq> [] \<and>
               spec_SourceUID (run_Spec run) = sched_UID schedule)"

fun oldest_loop :: "AgentRun option \<Rightarrow> AgentRun list \<Rightarrow> AgentRun option" where
  "oldest_loop selected [] = selected"
| "oldest_loop selected (run # runs) =
     oldest_loop (case selected of None \<Rightarrow> Some run
       | Some s \<Rightarrow> if agentRunPrecedes run s then Some run else Some s) runs"

definition agentScheduleOldestRun :: "AgentRun list \<Rightarrow> AgentRun option" where
  "agentScheduleOldestRun runs = oldest_loop None runs"

fun newest_loop :: "AgentRun option \<Rightarrow> AgentRun list \<Rightarrow> AgentRun option" where
  "newest_loop selected [] = selected"
| "newest_loop selected (run # runs) =
     newest_loop (case selected of None \<Rightarrow> Some run
       | Some s \<Rightarrow> if agentRunPrecedes s run then Some run else Some s) runs"

definition agentScheduleNewestRun :: "AgentRun list \<Rightarrow> AgentRun option" where
  "agentScheduleNewestRun runs = newest_loop None runs"

definition agentScheduleActiveRunForStatus ::
  "AgentScheduleConcurrencyPolicy \<Rightarrow> AgentRun list \<Rightarrow> AgentRun option" where
  "agentScheduleActiveRunForStatus policy runs =
     (if policy = AgentScheduleConcurrencyQueue then agentScheduleOldestRun runs
      else agentScheduleNewestRun runs)"

definition agentScheduleRunInList :: "AgentRun list \<Rightarrow> AgentRun \<Rightarrow> bool" where
  "agentScheduleRunInList runs candidate \<longleftrightarrow>
     (\<exists>run \<in> set runs. run_Namespace run = run_Namespace candidate \<and> run_Name run = run_Name candidate)"

subsection \<open>Queues ordered by a key\<close>

text \<open>
  A gate admits \<open>x\<close> from a set of waiting elements \<open>S\<close> with limit \<open>n\<close> when fewer than \<open>n\<close>
  elements of \<open>S\<close> precede it.
\<close>

locale keyed_queue =
  fixes prec :: "'a \<Rightarrow> 'a \<Rightarrow> bool" and key :: "'a \<Rightarrow> 'k :: linorder" and valid :: "'a \<Rightarrow> bool"
  assumes prec_key: "\<lbrakk>valid a; valid b\<rbrakk> \<Longrightarrow> prec a b \<longleftrightarrow> key a < key b"
begin

lemma prec_irrefl: "valid a \<Longrightarrow> \<not> prec a a"
  by (simp add: prec_key)

lemma prec_trans: "\<lbrakk>valid a; valid b; valid c; prec a b; prec b c\<rbrakk> \<Longrightarrow> prec a c"
  by (auto simp: prec_key)

lemma prec_total: "\<lbrakk>valid a; valid b; key a \<noteq> key b\<rbrakk> \<Longrightarrow> prec a b \<or> prec b a"
  by (auto simp: prec_key)

lemma admitted_bound:
  assumes "finite S" "\<forall>x \<in> S. valid x" "inj_on key S" "A \<subseteq> S" "0 < n"
    and few: "\<forall>x \<in> A. card {y \<in> S. prec y x} < n"
  shows "card A \<le> n"
proof (cases "A = {}")
  case False
  have fin: "finite A" using assms(1,4) finite_subset by blast
  then have "Max (key ` A) \<in> key ` A" using False by simp
  then obtain m where m: "m \<in> A" "key m = Max (key ` A)" by auto
  have greatest: "\<forall>x \<in> A. key x \<le> key m" using m(2) fin by simp
  have "A - {m} \<subseteq> {y \<in> S. prec y m}"
  proof
    fix y assume y: "y \<in> A - {m}"
    then have "key y \<noteq> key m" using assms(3,4) m(1) by (auto dest: inj_onD)
    then show "y \<in> {y \<in> S. prec y m}"
      using y m(1) greatest assms(2,4) by (auto simp: prec_key subset_iff order_le_less)
  qed
  then have "card (A - {m}) \<le> card {y \<in> S. prec y m}"
    using assms(1) by (intro card_mono) auto
  then have "card (A - {m}) < n" using few m(1) by fastforce
  then show ?thesis using fin m(1) by simp
qed simp

lemma head_admitted:
  assumes "\<forall>x \<in> S. valid x" "m \<in> S" "\<forall>x \<in> S. key m \<le> key x"
  shows "{y \<in> S. prec y m} = {}"
  using assms by (auto simp: prec_key leD)

end

definition queue_key :: "AgentRun \<Rightarrow> instant \<times> string" where
  "queue_key r = (run_CreationTimestamp r, run_Name r)"

definition stamped :: "AgentRun \<Rightarrow> bool" where
  "stamped r \<longleftrightarrow> run_CreationTimestamp r \<noteq> 0"

interpretation run_queue: keyed_queue agentRunPrecedes queue_key stamped
  by unfold_locales
    (auto simp: agentRunPrecedes_def queue_key_def stamped_def Let_def less_prod_def)

subsection \<open>Selection of the oldest and the newest run\<close>

lemma oldest_loop_spec:
  assumes "\<forall>r \<in> set runs. stamped r" "\<forall>s. sel = Some s \<longrightarrow> stamped s" "oldest_loop sel runs = Some m"
  shows "(sel = Some m \<or> m \<in> set runs) \<and> (\<forall>r \<in> set runs. queue_key m \<le> queue_key r) \<and>
    (\<forall>s. sel = Some s \<longrightarrow> queue_key m \<le> queue_key s)"
  using assms
proof (induction sel runs rule: oldest_loop.induct)
  case (2 sel run runs)
  then show ?case
    by (cases sel) (fastforce simp: run_queue.prec_key split: if_splits)+
qed simp

lemma newest_loop_spec:
  assumes "\<forall>r \<in> set runs. stamped r" "\<forall>s. sel = Some s \<longrightarrow> stamped s" "newest_loop sel runs = Some m"
  shows "(sel = Some m \<or> m \<in> set runs) \<and> (\<forall>r \<in> set runs. queue_key r \<le> queue_key m) \<and>
    (\<forall>s. sel = Some s \<longrightarrow> queue_key s \<le> queue_key m)"
  using assms
proof (induction sel runs rule: newest_loop.induct)
  case (2 sel run runs)
  then show ?case
    by (cases sel) (fastforce simp: run_queue.prec_key split: if_splits)+
qed simp

lemma loop_None [simp]:
  "oldest_loop sel runs = None \<longleftrightarrow> sel = None \<and> runs = []"
  "newest_loop sel runs = None \<longleftrightarrow> sel = None \<and> runs = []"
  by (induction runs arbitrary: sel) (auto split: option.splits)

lemma oldest_loop_mem: "oldest_loop sel runs = Some m \<Longrightarrow> sel = Some m \<or> m \<in> set runs"
  by (induction sel runs rule: oldest_loop.induct) (auto split: option.splits if_splits)

lemma newest_loop_mem: "newest_loop sel runs = Some m \<Longrightarrow> sel = Some m \<or> m \<in> set runs"
  by (induction sel runs rule: newest_loop.induct) (auto split: option.splits if_splits)

lemma active_for_status_None [simp]:
  "agentScheduleActiveRunForStatus policy runs = None \<longleftrightarrow> runs = []"
  by (simp add: agentScheduleActiveRunForStatus_def agentScheduleOldestRun_def agentScheduleNewestRun_def)

lemma active_for_status_Nil [simp]: "agentScheduleActiveRunForStatus policy [] = None"
  by simp

lemma active_for_status_mem:
  "agentScheduleActiveRunForStatus policy runs = Some r \<Longrightarrow> r \<in> set runs"
  using oldest_loop_mem [of None runs r] newest_loop_mem [of None runs r]
  by (auto simp: agentScheduleActiveRunForStatus_def agentScheduleOldestRun_def agentScheduleNewestRun_def
      split: if_splits)

end
