(* ===== verification/LaunchGate.thy ===== *)
theory LaunchGate
  imports RunOrder
begin

text \<open>
  The launch gates of \<^verbatim>\<open>internal/controller/agent_run_controller.go\<close>: a run waits while its
  schedule is suspended or its application is held, while too many runs of its schedule
  precede it, and while too many runs of its application precede it
  (\<^verbatim>\<open>agent_run_application_membership.go\<close> decides which runs count). The properties are about
  the whole set of runs of a cluster: a gate lets at most its limit of them through, and it
  never blocks the head of the queue.
\<close>

subsection \<open>Definitions\<close>

definition agentRunPollInterval :: duration where "agentRunPollInterval = 10 * Second"
definition defaultApplicationConcurrency :: int where "defaultApplicationConcurrency = 1"

definition agentRunMayUseApplication :: "'w kube \<Rightarrow> 'w \<Rightarrow> AgentRun \<Rightarrow> string \<Rightarrow> bool result" where
  "agentRunMayUseApplication k w run application =
     (case resolveAgentRunApplicationName k w run of
        Inr name \<Rightarrow> Inr (name = application)
      | Inl e \<Rightarrow>
          (case scope_conflict_of e of
             Some (direct, profile) \<Rightarrow> Inr (direct = application \<or> profile = application)
           | None \<Rightarrow> Inl e))"

text \<open>
  The result of the pause gates: whether the run waits, the reason, the message and the
  requeue time. \<open>now\<close> and \<open>now2\<close> are the two instants the function reads.
\<close>

type_synonym pause_gate = "(bool \<times> string \<times> string \<times> duration) result"

definition application_pause_gate :: "'w kube \<Rightarrow> 'w \<Rightarrow> AgentRun \<Rightarrow> instant \<Rightarrow> instant \<Rightarrow> pause_gate" where
  "application_pause_gate k w obj now now2 =
     (case resolveAgentRunApplicationName k w obj of
        Inl e \<Rightarrow> Inl e
      | Inr applicationName \<Rightarrow>
          (case activeAgentRunPauseForApplication k w applicationName now of
             Inl e \<Rightarrow> Inl e
           | Inr None \<Rightarrow> Inr (False, [], [], 0)
           | Inr (Some pause) \<Rightarrow>
               (let message = ''Waiting because Application '' @ Quote applicationName @
                      '' is paused by AgentRunControl '' @ Quote (pause_ControlName pause) @ ''.'';
                    message = (if pause_Reason pause \<noteq> [] then message @ '' Reason: '' @ pause_Reason pause else message);
                    untilExpiry = agentRunPauseRequeueAfter (Some pause) now2
                in Inr (True, ''ApplicationPaused'', message,
                     if untilExpiry < agentRunPollInterval then untilExpiry else agentRunPollInterval))))"

definition agentRunLaunchPausedWithReader :: "'w kube \<Rightarrow> 'w \<Rightarrow> AgentRun \<Rightarrow> instant \<Rightarrow> instant \<Rightarrow> pause_gate" where
  "agentRunLaunchPausedWithReader k w obj now now2 =
     (case spec_ScheduleRef (run_Spec obj) of
        None \<Rightarrow> application_pause_gate k w obj now now2
      | Some ref \<Rightarrow>
          if TrimSpace (nor_Name ref) = [] then application_pause_gate k w obj now now2
          else
            let namespace = firstNonEmpty (TrimSpace (nor_Namespace ref)) (run_Namespace obj) in
            case k_GetSchedule k w namespace (TrimSpace (nor_Name ref)) of
              Inl e \<Rightarrow>
                if \<not> IsNotFound e then Inl (Wrapf ''get AgentSchedule launch policy'' e)
                else application_pause_gate k w obj now now2
            | Inr schedule \<Rightarrow>
                if ss_Suspend (sched_Spec schedule) then
                  Inr (True, ''ScheduleSuspended'', ''Waiting because AgentSchedule '' @ sched_Namespace schedule @
                    ''/'' @ sched_Name schedule @ '' is suspended.'', agentRunPollInterval)
                else application_pause_gate k w obj now now2)"

definition agentRunLaunchPaused :: "'w kube \<Rightarrow> 'w \<Rightarrow> AgentRun \<Rightarrow> instant \<Rightarrow> instant \<Rightarrow> pause_gate" where
  "agentRunLaunchPaused k w obj now now2 = agentRunLaunchPausedWithReader k w obj now now2"

text \<open>The authoritative gate reads the API server where the reconciler has such a reader.\<close>

definition agentRunLaunchPausedAuthoritative ::
  "'w kube \<Rightarrow> 'w kube option \<Rightarrow> 'w \<Rightarrow> AgentRun \<Rightarrow> instant \<Rightarrow> instant \<Rightarrow> pause_gate" where
  "agentRunLaunchPausedAuthoritative k apiReader w obj now now2 =
     agentRunLaunchPausedWithReader (case apiReader of None \<Rightarrow> k | Some r \<Rightarrow> r) w obj now now2"

text \<open>The loop over the runs of a schedule: the count of preceding runs and the blocker so far.\<close>

fun schedule_queue_loop ::
  "AgentSchedule \<Rightarrow> AgentRun \<Rightarrow> int \<Rightarrow> int \<Rightarrow> AgentRun option \<Rightarrow> AgentRun list \<Rightarrow> AgentRun option" where
  "schedule_queue_loop schedule obj maxConcurrent precedingRuns blockedBy [] = blockedBy"
| "schedule_queue_loop schedule obj maxConcurrent precedingRuns blockedBy (run # runs) =
     (if \<not> agentRunBelongsToSchedule run schedule
      then schedule_queue_loop schedule obj maxConcurrent precedingRuns blockedBy runs
      else if run_Name run = run_Name obj
      then schedule_queue_loop schedule obj maxConcurrent precedingRuns blockedBy runs
      else if agentRunPhaseTerminal (run_Phase run)
      then schedule_queue_loop schedule obj maxConcurrent precedingRuns blockedBy runs
      else if \<not> agentRunPrecedes run obj
      then schedule_queue_loop schedule obj maxConcurrent precedingRuns blockedBy runs
      else
        let precedingRuns = precedingRuns + 1;
            blockedBy =
              (if precedingRuns \<ge> maxConcurrent
               then (case blockedBy of None \<Rightarrow> Some run
                     | Some b \<Rightarrow> if agentRunPrecedes run b then Some run else Some b)
               else blockedBy)
        in schedule_queue_loop schedule obj maxConcurrent precedingRuns blockedBy runs)"

definition agentRunQueuedBehindSchedule :: "'w kube \<Rightarrow> 'w \<Rightarrow> AgentRun \<Rightarrow> AgentRun option result" where
  "agentRunQueuedBehindSchedule k w obj =
     (case spec_ScheduleRef (run_Spec obj) of
        None \<Rightarrow> Inr None
      | Some ref \<Rightarrow>
          if TrimSpace (nor_Name ref) = [] then Inr None
          else
            let namespace = firstNonEmpty (TrimSpace (nor_Namespace ref)) (run_Namespace obj) in
            case k_GetSchedule k w namespace (TrimSpace (nor_Name ref)) of
              Inl e \<Rightarrow> if IsNotFound e then Inr None else Inl (Wrapf ''get agent schedule for queue policy'' e)
            | Inr schedule \<Rightarrow>
                if agentScheduleConcurrencyPolicy schedule = AgentScheduleConcurrencyAllow then Inr None
                else if agentScheduleMaxConcurrentRuns schedule \<le> 0 then Inr None
                else
                  case k_ListRuns k w (Some (run_Namespace obj))
                         [(agentRunScheduleLabel, sanitizeLabelValue (sched_Name schedule))] of
                    Inl e \<Rightarrow> Inl (Wrapf ''list queued scheduled agent runs'' e)
                  | Inr runs \<Rightarrow>
                      Inr (schedule_queue_loop schedule obj (agentScheduleMaxConcurrentRuns schedule) 0 None runs))"

fun lowest_limit :: "string \<Rightarrow> int \<Rightarrow> AgentRunControl list \<Rightarrow> int" where
  "lowest_limit app limit [] = limit"
| "lowest_limit app limit (control # controls) =
     (let candidate = ctl_MaxConcurrentRuns (control_Spec control) in
      if TrimSpace (app_Name (ctl_ApplicationRef (control_Spec control))) \<noteq> TrimSpace app \<or> candidate \<le> 0
      then lowest_limit app limit controls
      else if limit = 0 \<or> candidate < limit then lowest_limit app candidate controls
      else lowest_limit app limit controls)"

text \<open>\<open>configured\<close> is \<^verbatim>\<open>r.Options.ApplicationMaxConcurrentRuns\<close>, \<open>None\<close> when \<^verbatim>\<open>r.Options\<close> is nil.\<close>

definition agentRunApplicationMaxConcurrentRuns ::
  "'w kube \<Rightarrow> 'w \<Rightarrow> int option \<Rightarrow> string \<Rightarrow> int result" where
  "agentRunApplicationMaxConcurrentRuns k w configured applicationName =
     (if TrimSpace applicationName = [] then Inr 0
      else case k_ListControls k w of
        Inl e \<Rightarrow> Inl (Wrapf ''list AgentRunControls for application concurrency'' e)
      | Inr controls \<Rightarrow>
          (let limit = lowest_limit applicationName 0 controls in
           if limit > 0 then Inr limit
           else case configured of
             Some n \<Rightarrow> if n > 0 then Inr n else Inr defaultApplicationConcurrency
           | None \<Rightarrow> Inr defaultApplicationConcurrency))"

fun application_queue_loop ::
  "'w kube \<Rightarrow> 'w \<Rightarrow> AgentRun \<Rightarrow> string \<Rightarrow> int \<Rightarrow> int \<Rightarrow> AgentRun option \<Rightarrow> AgentRun list \<Rightarrow>
     AgentRun option result" where
  "application_queue_loop k w obj app maxConcurrent precedingRuns blockedBy [] = Inr blockedBy"
| "application_queue_loop k w obj app maxConcurrent precedingRuns blockedBy (run # runs) =
     (if run_Namespace run = run_Namespace obj \<and> run_Name run = run_Name obj
      then application_queue_loop k w obj app maxConcurrent precedingRuns blockedBy runs
      else if agentRunPhaseTerminal (run_Phase run)
      then application_queue_loop k w obj app maxConcurrent precedingRuns blockedBy runs
      else case agentRunMayUseApplication k w run app of
        Inl e \<Rightarrow> Inl e
      | Inr False \<Rightarrow> application_queue_loop k w obj app maxConcurrent precedingRuns blockedBy runs
      | Inr True \<Rightarrow>
          if \<not> agentRunPrecedes run obj
          then application_queue_loop k w obj app maxConcurrent precedingRuns blockedBy runs
          else
            let precedingRuns = precedingRuns + 1;
                blockedBy =
                  (if precedingRuns \<ge> maxConcurrent
                   then (case blockedBy of None \<Rightarrow> Some run
                         | Some b \<Rightarrow> if agentRunPrecedes run b then Some run else Some b)
                   else blockedBy)
            in application_queue_loop k w obj app maxConcurrent precedingRuns blockedBy runs)"

definition agentRunQueuedBehindApplication ::
  "'w kube \<Rightarrow> 'w \<Rightarrow> int option \<Rightarrow> AgentRun \<Rightarrow> AgentRun option result" where
  "agentRunQueuedBehindApplication k w configured obj =
     (case resolveAgentRunApplicationName k w obj of
        Inl e \<Rightarrow> Inl e
      | Inr applicationName \<Rightarrow>
          if applicationName = [] then Inr None
          else case agentRunApplicationMaxConcurrentRuns k w configured applicationName of
            Inl e \<Rightarrow> Inl e
          | Inr maxConcurrent \<Rightarrow>
              if maxConcurrent \<le> 0 then Inr None
              else case k_ListRuns k w None [] of
                Inl e \<Rightarrow> Inl (Wrapf ''list application-scoped agent runs'' e)
              | Inr runs \<Rightarrow> application_queue_loop k w obj applicationName maxConcurrent 0 None runs)"

definition agentRunQueuedBehind ::
  "'w kube \<Rightarrow> 'w \<Rightarrow> int option \<Rightarrow> AgentRun \<Rightarrow> (AgentRun option \<times> string) result" where
  "agentRunQueuedBehind k w configured obj =
     (case agentRunQueuedBehindSchedule k w obj of
        Inl e \<Rightarrow> Inl e
      | Inr (Some run) \<Rightarrow> Inr (Some run, ''QueuedBehindScheduledRun'')
      | Inr None \<Rightarrow>
          (case agentRunQueuedBehindApplication k w configured obj of
             Inl e \<Rightarrow> Inl e
           | Inr (Some run) \<Rightarrow> Inr (Some run, ''QueuedBehindApplicationRun'')
           | Inr None \<Rightarrow> Inr (None, [])))"

subsection \<open>The loops count predecessors\<close>

text \<open>Both loops are the same scan over the runs that count; it finds a blocker iff there are
  at least as many as the limit.\<close>

fun blocker_scan :: "int \<Rightarrow> int \<Rightarrow> AgentRun option \<Rightarrow> AgentRun list \<Rightarrow> AgentRun option" where
  "blocker_scan m n b [] = b"
| "blocker_scan m n b (r # rs) =
     blocker_scan m (n + 1)
       (if n + 1 \<ge> m then (case b of None \<Rightarrow> Some r | Some c \<Rightarrow> if agentRunPrecedes r c then Some r else Some c)
        else b) rs"

lemma blocker_scan_None:
  "blocker_scan m n b rs = None \<longleftrightarrow> b = None \<and> (n + int (length rs) < m \<or> rs = [])"
  by (induction m n b rs rule: blocker_scan.induct) (auto split: option.splits)

lemma blocker_scan_mem: "blocker_scan m n b rs = Some r \<Longrightarrow> b = Some r \<or> r \<in> set rs"
  by (induction m n b rs rule: blocker_scan.induct) (auto split: option.splits if_splits)

definition schedule_rival :: "AgentSchedule \<Rightarrow> AgentRun \<Rightarrow> AgentRun \<Rightarrow> bool" where
  "schedule_rival schedule obj run \<longleftrightarrow>
     agentRunBelongsToSchedule run schedule \<and> run_Name run \<noteq> run_Name obj \<and>
     \<not> agentRunPhaseTerminal (run_Phase run) \<and> agentRunPrecedes run obj"

lemma schedule_queue_loop_scan:
  "schedule_queue_loop s obj m n b runs = blocker_scan m n b (filter (schedule_rival s obj) runs)"
proof (induction runs arbitrary: n b)
  case (Cons run runs)
  then show ?case
    by (cases "schedule_rival s obj run") (simp_all add: schedule_rival_def Let_def)
qed simp

definition application_rival :: "'w kube \<Rightarrow> 'w \<Rightarrow> AgentRun \<Rightarrow> string \<Rightarrow> AgentRun \<Rightarrow> bool" where
  "application_rival k w obj app run \<longleftrightarrow>
     \<not> (run_Namespace run = run_Namespace obj \<and> run_Name run = run_Name obj) \<and>
     \<not> agentRunPhaseTerminal (run_Phase run) \<and>
     agentRunMayUseApplication k w run app = Inr True \<and> agentRunPrecedes run obj"

lemma application_queue_loop_scan:
  "application_queue_loop k w obj app m n b runs = Inr r \<Longrightarrow>
     r = blocker_scan m n b (filter (application_rival k w obj app) runs)"
proof (induction runs arbitrary: n b)
  case (Cons run runs)
  show ?case
  proof (cases "application_rival k w obj app run")
    case True
    then have "application_queue_loop k w obj app m n b (run # runs) =
        application_queue_loop k w obj app m (n + 1)
          (if n + 1 \<ge> m then (case b of None \<Rightarrow> Some run | Some c \<Rightarrow> if agentRunPrecedes run c then Some run else Some c)
           else b) runs"
      by (auto simp: application_rival_def Let_def)
    then show ?thesis using Cons True by simp
  next
    case False
    then have "application_queue_loop k w obj app m n b runs = Inr r"
      using Cons.prems
      by (simp add: application_rival_def Let_def split: if_splits sum.splits bool.splits)
    then show ?thesis using Cons.IH False by simp
  qed
qed simp

lemma card_filter_le: "card {y \<in> set xs. P y} \<le> length (filter P xs)"
  using card_length [of "filter P xs"] by simp

lemma agentRunBelongsToSchedule_ref:
  assumes "agentRunBelongsToSchedule r s"
  obtains ref where "spec_ScheduleRef (run_Spec r) = Some ref" "TrimSpace (nor_Name ref) = sched_Name s"
    "firstNonEmpty (TrimSpace (nor_Namespace ref)) (run_Namespace r) = sched_Namespace s"
  using assms by (auto simp: agentRunBelongsToSchedule_def split: option.splits if_splits)

lemma schedule_gate_eq:
  assumes "agentRunBelongsToSchedule r s" "sched_Name s \<noteq> []"
    and "k_GetSchedule k w (sched_Namespace s) (sched_Name s) = Inr s"
    and "agentScheduleConcurrencyPolicy s \<noteq> AgentScheduleConcurrencyAllow" "0 < agentScheduleMaxConcurrentRuns s"
    and "k_ListRuns k w (Some (run_Namespace r)) [(agentRunScheduleLabel, sanitizeLabelValue (sched_Name s))] = Inr runs"
  shows "agentRunQueuedBehindSchedule k w r =
    Inr (blocker_scan (agentScheduleMaxConcurrentRuns s) 0 None (filter (schedule_rival s r) runs))"
  using assms(1) by (rule agentRunBelongsToSchedule_ref)
    (use assms(2-) in \<open>simp add: agentRunQueuedBehindSchedule_def schedule_queue_loop_scan Let_def\<close>)

lemma application_gate_eq:
  assumes "resolveAgentRunApplicationName k w r = Inr app" "app \<noteq> []"
    and "agentRunApplicationMaxConcurrentRuns k w configured app = Inr m" "0 < m"
    and "k_ListRuns k w None [] = Inr runs" "agentRunQueuedBehindApplication k w configured r = Inr x"
  shows "x = blocker_scan m 0 None (filter (application_rival k w r app) runs)"
  using assms by (auto simp: agentRunQueuedBehindApplication_def intro: application_queue_loop_scan)

lemma lowest_limit_spec:
  defines "limits app cs \<equiv> {n. \<exists>c \<in> set cs. n = ctl_MaxConcurrentRuns (control_Spec c) \<and> 0 < n \<and>
     TrimSpace (app_Name (ctl_ApplicationRef (control_Spec c))) = TrimSpace app}"
  assumes "0 \<le> limit"
  shows "(lowest_limit app limit cs = 0 \<longleftrightarrow> limit = 0 \<and> limits app cs = {}) \<and>
    (lowest_limit app limit cs \<noteq> 0 \<longrightarrow>
       lowest_limit app limit cs \<in> limits app cs \<union> {limit} \<and> 0 < lowest_limit app limit cs \<and>
       (\<forall>n \<in> limits app cs. lowest_limit app limit cs \<le> n) \<and> (0 < limit \<longrightarrow> lowest_limit app limit cs \<le> limit))"
  using assms(2)
proof (induction cs arbitrary: limit)
  case Nil
  then show ?case by (simp add: limits_def)
next
  case (Cons c cs)
  define n where "n = ctl_MaxConcurrentRuns (control_Spec c)"
  define hit where "hit \<longleftrightarrow> TrimSpace (app_Name (ctl_ApplicationRef (control_Spec c))) = TrimSpace app \<and> 0 < n"
  have lims: "limits app (c # cs) = (if hit then insert n (limits app cs) else limits app cs)"
    unfolding limits_def hit_def n_def by auto
  have step: "lowest_limit app limit (c # cs) =
      lowest_limit app (if hit \<and> (limit = 0 \<or> n < limit) then n else limit) cs"
    unfolding hit_def n_def by (auto simp: Let_def not_less)
  show ?case
  proof (cases "hit \<and> (limit = 0 \<or> n < limit)")
    case True
    then have "0 < n" by (simp add: hit_def)
    then show ?thesis using Cons.IH [of n] True Cons.prems by (auto simp: step lims simp del: lowest_limit.simps)
  next
    case False
    then show ?thesis using Cons.IH [of limit] Cons.prems by (auto simp: step lims simp del: lowest_limit.simps)
  qed
qed

lemma admitted_by_scan:
  assumes "\<forall>r \<in> set runs. stamped r" "S \<subseteq> set runs" "inj_on queue_key S" "A \<subseteq> S" "0 < m"
    and rivals: "\<And>x y. x \<in> A \<Longrightarrow> y \<in> S \<Longrightarrow> agentRunPrecedes y x \<Longrightarrow> rival x y"
    and admitted: "\<And>x. x \<in> A \<Longrightarrow> blocker_scan m 0 None (filter (rival x) runs) = None"
  shows "int (card A) \<le> m"
proof -
  have "card {y \<in> S. agentRunPrecedes y x} < nat m" if x: "x \<in> A" for x
  proof -
    have "{y \<in> S. agentRunPrecedes y x} \<subseteq> {y \<in> set runs. rival x y}"
      using rivals x assms(2) by blast
    then have "card {y \<in> S. agentRunPrecedes y x} \<le> card {y \<in> set runs. rival x y}"
      by (intro card_mono) simp_all
    also have "\<dots> \<le> length (filter (rival x) runs)" by (rule card_filter_le)
    also have "\<dots> < nat m" using admitted [OF x] assms(5) by (auto simp: blocker_scan_None)
    finally show ?thesis .
  qed
  moreover have "finite S" using assms(2) finite_subset by blast
  moreover have "\<forall>r \<in> S. stamped r" using assms(1,2) by blast
  ultimately have "card A \<le> nat m"
    using run_queue.admitted_bound [of S A "nat m"] assms(3-5) by simp
  then show ?thesis using assms(5) by linarith
qed

subsection \<open>Properties\<close>


definition demo_run :: "string \<Rightarrow> string \<Rightarrow> instant \<Rightarrow> AgentRun" where
  "demo_run ns name t = zero_Run\<lparr>
     run_Meta := zero_ObjectMeta\<lparr>om_Name := name, om_Namespace := ns, om_CreationTimestamp := t,
       om_Labels := [(agentRunScheduleLabel, ''nightly'')]\<rparr>,
     run_Spec := zero_RunSpec\<lparr>spec_SourceUID := ''u1'',
       spec_ScheduleRef := Some \<lparr>nor_Name = ''nightly'', nor_Namespace = ''agents''\<rparr>,
       spec_Scope := zero_Scope\<lparr>scope_ApplicationRef := Some \<lparr>app_Name = ''shop''\<rparr>\<rparr>\<rparr>\<rparr>"

definition demo_queue :: mem where
  "demo_queue = mem_empty\<lparr>mem_Schedules := [demo_schedule],
     mem_Runs := [demo_run ''agents'' ''a'' 10, demo_run ''agents'' ''b'' 20]\<rparr>"

lemma demo_texts [simp]:
  "sanitizeLabelValue ''nightly'' = ''nightly''" "TrimSpace ''nightly'' = ''nightly''"
  "TrimSpace ''agents'' = ''agents''" "TrimSpace ''u1'' = ''u1''"
  by code_simp+

lemma demo_run_simps [simp]:
  "run_Name (demo_run ns n t) = n" "run_Namespace (demo_run ns n t) = ns"
  "run_CreationTimestamp (demo_run ns n t) = t" "run_Phase (demo_run ns n t) = AgentRunPhaseUnset"
  "run_Labels (demo_run ns n t) = [(agentRunScheduleLabel, ''nightly'')]"
  "spec_ScheduleRef (run_Spec (demo_run ns n t)) = Some \<lparr>nor_Name = ''nightly'', nor_Namespace = ''agents''\<rparr>"
  "spec_SourceUID (run_Spec (demo_run ns n t)) = ''u1''"
  "spec_ProfileRef (run_Spec (demo_run ns n t)) = None"
  "scope_ApplicationRef (spec_Scope (run_Spec (demo_run ns n t))) = Some \<lparr>app_Name = ''shop''\<rparr>"
  by (simp_all add: demo_run_def zero_Run_def zero_RunStatus_def zero_RunSpec_def zero_ObjectMeta_def zero_Scope_def)

lemma demo_schedule_simps [simp]:
  "sched_Name demo_schedule = ''nightly''" "sched_Namespace demo_schedule = ''agents''"
  "sched_UID demo_schedule = ''u1''"
  "agentScheduleConcurrencyPolicy demo_schedule = AgentScheduleConcurrencyForbid"
  "agentScheduleMaxConcurrentRuns demo_schedule = 1"
  by (simp_all add: demo_schedule_def agentScheduleConcurrencyPolicy_def agentScheduleMaxConcurrentRuns_def
      zero_ScheduleSpec_def zero_ObjectMeta_def)

lemma demo_belongs [simp]: "agentRunBelongsToSchedule (demo_run ns n t) demo_schedule"
  by (simp add: agentRunBelongsToSchedule_def firstNonEmpty_def)

lemma demo_terminal [simp]: "\<not> agentRunPhaseTerminal AgentRunPhaseUnset"
  by (simp add: agentRunPhaseTerminal_def)

lemma demo_resolve [simp]: "resolveAgentRunApplicationName k w (demo_run ns n t) = Inr ''shop''"
  by (simp add: resolveAgentRunApplicationName_def resolveAgentRunSpecApplicationName_def
      resolveAgentRunSpecApplicationNameWithProfilePolicy_def app_ref_name_def)

lemma demo_queue_simps [simp]:
  "mem_list_runs demo_queue (Some ''agents'') [(agentRunScheduleLabel, ''nightly'')] =
     [demo_run ''agents'' ''a'' 10, demo_run ''agents'' ''b'' 20]"
  "mem_list_runs demo_queue None [] = [demo_run ''agents'' ''a'' 10, demo_run ''agents'' ''b'' 20]"
  "mem_Controls demo_queue = []"
  "found ''nightly'' (find (keyed sched_Meta ''agents'' ''nightly'') (mem_Schedules demo_queue)) = Inr demo_schedule"
  by (simp_all add: demo_queue_def mem_list_runs_def matches_labels_def mem_empty_def keyed_def)

lemma demo_schedule_rival [simp]:
  "schedule_rival demo_schedule (demo_run ns n t) (demo_run ns' n' t') \<longleftrightarrow>
     n' \<noteq> n \<and> agentRunPrecedes (demo_run ns' n' t') (demo_run ns n t)"
  by (simp add: schedule_rival_def)

lemma demo_gate:
  "agentRunQueuedBehindSchedule mem_kube demo_queue (demo_run ''agents'' n t) = Inr (blocker_scan 1 0 None
     (filter (schedule_rival demo_schedule (demo_run ''agents'' n t))
       [demo_run ''agents'' ''a'' 10, demo_run ''agents'' ''b'' 20]))"
  using schedule_gate_eq [OF demo_belongs [of "''agents''" n t], of mem_kube demo_queue
      "[demo_run ''agents'' ''a'' 10, demo_run ''agents'' ''b'' 20]"] by simp



lemma demo_application_limit [simp]:
  "agentRunApplicationMaxConcurrentRuns mem_kube demo_queue None ''shop'' = Inr 1"
  by (simp add: agentRunApplicationMaxConcurrentRuns_def defaultApplicationConcurrency_def)

lemma demo_uses [simp]: "agentRunMayUseApplication k w (demo_run ns n t) ''shop'' = Inr True"
  by (simp add: agentRunMayUseApplication_def)


text \<open>
  The distinct queue keys are needed: of two runs with the same name and creation second in
  two namespaces neither precedes the other, and both pass a gate whose limit is 1.
\<close>

lemma application_gate_tie:
  "\<exists>(w :: mem) r1 r2. r1 \<noteq> r2 \<and> k_ListRuns mem_kube w None [] = Inr [r1, r2] \<and>
     resolveAgentRunApplicationName mem_kube w r1 = Inr ''shop'' \<and>
     resolveAgentRunApplicationName mem_kube w r2 = Inr ''shop'' \<and>
     agentRunApplicationMaxConcurrentRuns mem_kube w None ''shop'' = Inr 1 \<and>
     agentRunQueuedBehindApplication mem_kube w None r1 = Inr None \<and>
     agentRunQueuedBehindApplication mem_kube w None r2 = Inr None"
proof (intro exI conjI)
  let ?w = "mem_empty\<lparr>mem_Runs := [demo_run ''x'' ''a'' 10, demo_run ''y'' ''a'' 10]\<rparr>"
  have runs [simp]: "mem_list_runs ?w None [] = [demo_run ''x'' ''a'' 10, demo_run ''y'' ''a'' 10]"
    by (simp add: mem_list_runs_def matches_labels_def)
  have limit [simp]: "agentRunApplicationMaxConcurrentRuns mem_kube ?w None ''shop'' = Inr 1"
    by (simp add: agentRunApplicationMaxConcurrentRuns_def defaultApplicationConcurrency_def mem_empty_def)
  show "k_ListRuns mem_kube ?w None [] = Inr [demo_run ''x'' ''a'' 10, demo_run ''y'' ''a'' 10]"
    by simp
  show "agentRunApplicationMaxConcurrentRuns mem_kube ?w None ''shop'' = Inr 1" by simp
  show "agentRunQueuedBehindApplication mem_kube ?w None (demo_run ''x'' ''a'' 10) = Inr None"
    "agentRunQueuedBehindApplication mem_kube ?w None (demo_run ''y'' ''a'' 10) = Inr None"
    by (simp_all add: agentRunQueuedBehindApplication_def agentRunPrecedes_def)
  have "run_Namespace (demo_run ''x'' ''a'' 10) \<noteq> run_Namespace (demo_run ''y'' ''a'' 10)" by simp
  then show "demo_run ''x'' ''a'' 10 \<noteq> demo_run ''y'' ''a'' 10" by metis
qed simp_all

text \<open>
  C31. No deadlock of the queues. If some unfinished run is listed, all runs are stamped and every
  list is part of the full list, then some unfinished run is not queued: whenever the gate
  answers for it, the answer is that nothing blocks it.
\<close>

theorem queue_has_unblocked_head:
  assumes runs: "k_ListRuns k w None [] = Inr runs"
    and selected: "\<And>ns sel rs. k_ListRuns k w ns sel = Inr rs \<Longrightarrow> set rs \<subseteq> set runs"
    and stamps: "\<forall>r \<in> set runs. stamped r"
    and waiting: "r0 \<in> set runs" "\<not> agentRunPhaseTerminal (run_Phase r0)"
  shows "\<exists>r \<in> set runs. \<not> agentRunPhaseTerminal (run_Phase r) \<and>
    (\<forall>x. agentRunQueuedBehind k w configured r = Inr x \<longrightarrow> x = (None, []))"
proof -
  define S where "S = {r \<in> set runs. \<not> agentRunPhaseTerminal (run_Phase r)}"
  have "finite S" "S \<noteq> {}" using waiting by (auto simp: S_def)
  then have "Min (queue_key ` S) \<in> queue_key ` S" by simp
  then obtain m where m: "m \<in> S" "queue_key m = Min (queue_key ` S)" by auto
  have "\<forall>x \<in> S. queue_key m \<le> queue_key x" using m(2) \<open>finite S\<close> by simp
  then have "{y \<in> S. agentRunPrecedes y m} = {}"
    using run_queue.head_admitted [of S m] stamps m(1) by (simp add: S_def)
  then have least: "\<not> agentRunPrecedes y m" if "y \<in> set runs" "\<not> agentRunPhaseTerminal (run_Phase y)" for y
    using that by (auto simp: S_def)
  have sched: "x = None" if "agentRunQueuedBehindSchedule k w m = Inr x" for x
  proof -
    have none: "blocker_scan n 0 None (filter (schedule_rival s m) rs) = None"
      if "k_ListRuns k w ns sel = Inr rs" for n s rs ns sel
      using selected [OF that] least by (auto simp: blocker_scan_None schedule_rival_def filter_empty_conv)
    show ?thesis using that none
      by (auto simp: agentRunQueuedBehindSchedule_def schedule_queue_loop_scan Let_def
          split: option.splits if_splits sum.splits)
  qed
  have app: "x = None" if "agentRunQueuedBehindApplication k w configured m = Inr x" for x
  proof -
    have none: "blocker_scan n 0 None (filter (application_rival k w m a) runs) = None" for n a
      using least by (auto simp: blocker_scan_None application_rival_def filter_empty_conv)
    show ?thesis using that none runs
      by (auto simp: agentRunQueuedBehindApplication_def dest!: application_queue_loop_scan
          split: if_splits sum.splits)
  qed
  have "x = (None, [])" if "agentRunQueuedBehind k w configured m = Inr x" for x
    using that sched app by (auto simp: agentRunQueuedBehind_def split: sum.splits option.splits)
  then show ?thesis using m(1) by (auto simp: S_def)
qed

lemma mem_list_runs_subset: "k_ListRuns mem_kube w ns sel = Inr rs \<Longrightarrow> set rs \<subseteq> set (mem_list_runs w None [])"
  by (auto simp: mem_list_runs_def matches_labels_def)

theorem queue_has_unblocked_head_witness:
  "\<exists>r \<in> {demo_run ''agents'' ''a'' 10, demo_run ''agents'' ''b'' 20}.
     \<forall>x. agentRunQueuedBehind mem_kube demo_queue None r = Inr x \<longrightarrow> x = (None, [])"
  using queue_has_unblocked_head [of mem_kube demo_queue "mem_list_runs demo_queue None []"
      "demo_run ''agents'' ''a'' 10" None] mem_list_runs_subset [of demo_queue]
  by (simp add: stamped_def)

lemma resolved_name_trimmed:
  "resolveAgentRunApplicationName k w r = Inr app \<Longrightarrow> TrimSpace app = app"
  using resolve_spec_member
  by (fastforce simp: resolveAgentRunApplicationName_def resolveAgentRunSpecApplicationName_def)

text \<open>
  C32. The pause gate fails closed. When it lets a run through, the run's schedule, if it can be
  read, is not suspended, and no control in force at that instant holds the run's
  application; when it does not, the run is looked at again in positive time of at most ten
  seconds. An API error of either lookup is an error of the gate, not a launch.
\<close>

theorem pause_gate_fails_closed:
  assumes "agentRunLaunchPausedWithReader k w obj now now2 = Inr (paused, reason, message, d)"
  shows "if paused then 0 < d \<and> d \<le> 10 * Second
    else (\<forall>ref s. spec_ScheduleRef (run_Spec obj) = Some ref \<longrightarrow> TrimSpace (nor_Name ref) \<noteq> [] \<longrightarrow>
           k_GetSchedule k w (firstNonEmpty (TrimSpace (nor_Namespace ref)) (run_Namespace obj))
             (TrimSpace (nor_Name ref)) = Inr s \<longrightarrow> \<not> ss_Suspend (sched_Spec s)) \<and>
      (\<exists>app. resolveAgentRunApplicationName k w obj = Inr app \<and>
        (app \<noteq> [] \<longrightarrow> (\<exists>controls. k_ListControls k w = Inr controls \<and>
          (\<forall>c \<in> set controls. \<not> pause_holds app now c))))"
proof -
  have app: "if paused then 0 < d \<and> d \<le> 10 * Second
    else (\<exists>app. resolveAgentRunApplicationName k w obj = Inr app \<and>
        (app \<noteq> [] \<longrightarrow> (\<exists>controls. k_ListControls k w = Inr controls \<and>
          (\<forall>c \<in> set controls. \<not> pause_holds app now c))))"
    if "application_pause_gate k w obj now now2 = Inr (paused, reason, message, d)"
    using that pause_requeue_bounds [of _ now2]
    by (auto simp: application_pause_gate_def activeAgentRunPauseForApplication_def Let_def
        agentRunPollInterval_def resolved_name_trimmed select_pause_None
        split: sum.splits option.splits if_splits)
  show ?thesis
    using assms app
    by (auto simp: agentRunLaunchPausedWithReader_def Let_def agentRunPollInterval_def
        split: option.splits if_splits sum.splits)
qed

definition demo_held :: mem where
  "demo_held = demo_queue\<lparr>mem_Controls := [demo_control ''a'' ''freeze'']\<rparr>"

theorem pause_gate_fails_closed_witness:
  "\<exists>reason message d. agentRunLaunchPausedWithReader mem_kube demo_held (demo_run ''agents'' ''a'' 10) 0 0 =
     Inr (True, reason, message, d) \<and> 0 < d \<and> d \<le> 10 * Second"
proof -
  have "\<not> ss_Suspend (sched_Spec demo_schedule)" by (simp add: demo_schedule_def zero_ScheduleSpec_def)
  then obtain reason message d where gate:
    "agentRunLaunchPausedWithReader mem_kube demo_held (demo_run ''agents'' ''a'' 10) 0 0 = Inr (True, reason, message, d)"
    by (simp add: agentRunLaunchPausedWithReader_def application_pause_gate_def demo_held_def Let_def
        firstNonEmpty_def activeAgentRunPauseForApplication_def pause_holds_iff agentRunControlExpired_def
        demo_control_def)
  from pause_gate_fails_closed [OF gate] gate show ?thesis by simp
qed

text \<open>
  The application limit. For a named application the concurrency limit is positive; it is the
  least positive limit among the controls of that application if there is one, else the
  configured default if that is positive, else 1.
\<close>

theorem application_limit_correct:
  assumes "TrimSpace app \<noteq> []" "k_ListControls k w = Inr controls"
  defines "limits \<equiv> {n. \<exists>c \<in> set controls. n = ctl_MaxConcurrentRuns (control_Spec c) \<and> 0 < n \<and>
     TrimSpace (app_Name (ctl_ApplicationRef (control_Spec c))) = TrimSpace app}"
  shows "agentRunApplicationMaxConcurrentRuns k w configured app =
    Inr (if limits \<noteq> {} then Min limits
         else case configured of Some n \<Rightarrow> if 0 < n then n else 1 | None \<Rightarrow> 1)"
proof -
  have fin: "finite limits"
    by (rule finite_subset [of _ "(\<lambda>c. ctl_MaxConcurrentRuns (control_Spec c)) ` set controls"])
      (auto simp: limits_def)
  note spec = lowest_limit_spec [of 0 app controls, folded limits_def, simplified]
  show ?thesis
  proof (cases "limits = {}")
    case True
    then show ?thesis using spec assms(1,2)
      by (simp add: agentRunApplicationMaxConcurrentRuns_def defaultApplicationConcurrency_def split: option.splits)
  next
    case False
    then have "lowest_limit app 0 controls = Min limits" "0 < lowest_limit app 0 controls"
      using spec fin by (auto intro!: Min_eqI [symmetric])
    then show ?thesis using assms(1,2) False
      by (simp add: agentRunApplicationMaxConcurrentRuns_def)
  qed
qed

definition demo_limited :: "string \<Rightarrow> int \<Rightarrow> AgentRunControl" where
  "demo_limited name n = demo_control name ''freeze''\<lparr>control_Spec :=
     (control_Spec (demo_control name ''freeze''))\<lparr>ctl_MaxConcurrentRuns := n\<rparr>\<rparr>"

theorem application_limit_correct_witness:
  "agentRunApplicationMaxConcurrentRuns mem_kube
     (mem_empty\<lparr>mem_Controls := [demo_limited ''a'' 5, demo_limited ''b'' 3, demo_limited ''c'' 0]\<rparr>) (Some 9) ''shop'' = Inr 3"
proof -
  let ?cs = "[demo_limited ''a'' 5, demo_limited ''b'' 3, demo_limited ''c'' 0]"
  have lims: "{n. \<exists>c \<in> set ?cs. n = ctl_MaxConcurrentRuns (control_Spec c) \<and> 0 < n \<and>
      TrimSpace (app_Name (ctl_ApplicationRef (control_Spec c))) = TrimSpace ''shop''} = {5, 3}"
    by (auto simp: demo_limited_def demo_control_def)
  show ?thesis
    using application_limit_correct [of "''shop''" mem_kube "mem_empty\<lparr>mem_Controls := ?cs\<rparr>" ?cs "Some 9",
        unfolded lims] by simp
qed

end
