(* ===== verification/Cadence.thy ===== *)
theory Cadence
  imports Kube
begin

text \<open>
  The contract of a cadence, shared by the schedule and the chain controller. Starts are due on
  the grid \<open>anchor\<close>, \<open>anchor + d\<close>, \<open>anchor + 2 d\<close>, ...; after an activation the next start is the
  first grid point after the current instant. The locale states that contract of a function
  that advances a cadence and derives what the controllers rely on: the next start is in
  the future, at most one interval away, advancing again changes nothing, and missed starts
  are skipped rather than replayed.
\<close>

definition on_grid :: "duration \<Rightarrow> instant \<Rightarrow> instant \<Rightarrow> bool" where
  "on_grid d anchor t \<longleftrightarrow> anchor \<le> t \<and> d dvd (t - anchor)"

definition first_after :: "duration \<Rightarrow> instant \<Rightarrow> instant \<Rightarrow> instant \<Rightarrow> bool" where
  "first_after d anchor now t \<longleftrightarrow>
     on_grid d anchor t \<and> now < t \<and> (\<forall>u. on_grid d anchor u \<longrightarrow> now < u \<longrightarrow> t \<le> u)"

lemma first_after_unique: "first_after d a now t \<Longrightarrow> first_after d a now u \<Longrightarrow> t = u"
  by (auto simp: first_after_def intro: antisym)

lemma first_after_anchor: "now < a \<Longrightarrow> first_after d a now a"
  by (auto simp: first_after_def on_grid_def)

lemma first_after_step:
  assumes "0 < d" "a \<le> now"
  shows "first_after d a now (a + ((now - a) div d + 1) * d)"
proof -
  let ?q = "(now - a) div d"
  have now: "now = a + ?q * d + (now - a) mod d" using div_mult_mod_eq [of "now - a" d] by linarith
  have rem: "0 \<le> (now - a) mod d" "(now - a) mod d < d" using assms(1) by simp_all
  have q: "0 \<le> ?q" using assms by (simp add: pos_imp_zdiv_nonneg_iff)
  have "a + (?q + 1) * d \<le> u" if u: "on_grid d a u" "now < u" for u
  proof -
    obtain m where m: "u - a = d * m" using u(1) by (auto simp: on_grid_def)
    have "?q * d \<le> now - a" using now rem by linarith
    moreover have "now - a < m * d" using u(2) m by (simp add: mult.commute)
    ultimately have "?q * d < m * d" by linarith
    then have "?q < m" using assms(1) by (simp add: mult_less_cancel_right)
    then have "(?q + 1) * d \<le> m * d" using assms(1) by (intro mult_right_mono) simp_all
    then show ?thesis using m by (simp add: mult.commute)
  qed
  moreover have "now < a + (?q + 1) * d" unfolding distrib_right using now rem by linarith
  moreover have "on_grid d a (a + (?q + 1) * d)" using q assms(1) by (simp add: on_grid_def)
  ultimately show ?thesis by (simp add: first_after_def)
qed

lemma first_after_shift:
  assumes "0 < d" "a \<le> now" "first_after d a now t"
  shows "first_after d (a + d) now t"
proof -
  have "a + d \<le> t"
    using assms by (auto simp: first_after_def on_grid_def dest!: zdvd_imp_le)
  then show ?thesis
    using assms by (auto simp: first_after_def on_grid_def algebra_simps dvd_diff_right_iff)
qed

lemma first_after_within:
  assumes "0 < d" "a \<le> now" "first_after d a now t"
  shows "t \<le> now + d"
proof -
  have "t = a + ((now - a) div d + 1) * d"
    using first_after_unique [OF assms(3) first_after_step [OF assms(1,2)]] .
  moreover have "(now - a) div d * d \<le> now - a"
    using div_mult_mod_eq [of "now - a" d] pos_mod_sign [OF assms(1), of "now - a"] by linarith
  ultimately show ?thesis by (simp add: distrib_right)
qed

text \<open>
  \<open>exact d e\<close> says that the arithmetic of the implementation is exact when \<open>e\<close> has passed since
  the anchor: a subtraction of instants saturates at \<open>2 ^ 63\<close> nanoseconds (292 years), an
  implementation that only adds the interval has no such bound.
\<close>

locale cadence =
  fixes exact :: "duration \<Rightarrow> duration \<Rightarrow> bool"
    and advance :: "duration \<Rightarrow> instant \<Rightarrow> instant \<Rightarrow> instant option"
  assumes exact_mono: "\<lbrakk>exact d e; e' \<le> e\<rbrakk> \<Longrightarrow> exact d e'"
    and advance_first: "\<lbrakk>0 < d; exact d (now - a)\<rbrakk> \<Longrightarrow> \<exists>t. advance d a now = Some t \<and> first_after d a now t"
begin

lemma advance_future: "\<lbrakk>0 < d; exact d (now - a); advance d a now = Some t\<rbrakk> \<Longrightarrow> now < t"
  using advance_first [of d now a] by (auto simp: first_after_def)

lemma advance_within_interval:
  assumes "0 < d" "exact d (now - a)" "a \<le> now" "advance d a now = Some t"
  shows "t \<le> now + d"
  using advance_first [OF assms(1,2)] first_after_within [OF assms(1,3)] assms(4) by auto

lemma advance_idem:
  assumes "0 < d" "exact d (now - a)" "advance d a now = Some t"
  shows "advance d t now = Some t"
proof (cases "now < a")
  case True
  then have "t = a"
    using advance_first [OF assms(1,2)] first_after_anchor [of now a d] assms(3) first_after_unique by fastforce
  then show ?thesis using assms(3) by simp
next
  case False
  have "now < t" using assms by (rule advance_future)
  then have "exact d (now - t)" using False exact_mono [OF assms(2), of "now - t"] by simp
  then show ?thesis
    using advance_first [of d now t] first_after_anchor [OF \<open>now < t\<close>, of d] assms(1) first_after_unique by fastforce
qed

lemma advance_skips:
  assumes "0 < d" "exact d (now - a)" "advance d a now = Some t" "on_grid d a u" "u < t"
  shows "u \<le> now"
  using advance_first [OF assms(1,2)] assms(3-5) by (fastforce simp: first_after_def not_less)

end

end
