(* ===== verification/ScheduleTiming.thy ===== *)
theory ScheduleTiming
  imports LaunchGate Cadence
begin

text \<open>
  When a schedule starts its next run and from which template: the time functions and the
  template rotation of \<^verbatim>\<open>internal/controller/agent_schedule_controller.go\<close>.
  The loop of \<^verbatim>\<open>agentScheduleNextRunAfterCreation\<close> is a partial function whose value \<open>None\<close>
  means that it does not return; it is a \<open>cadence\<close>.
\<close>

subsection \<open>Definitions\<close>

definition agentScheduleManualRunToken :: "AgentSchedule \<Rightarrow> string" where
  "agentScheduleManualRunToken schedule =
     TrimSpace (map_get (om_Annotations (sched_Meta schedule)) AgentScheduleRunNowAnnotation)"

definition agentScheduleManualRunTemplateName :: "AgentSchedule \<Rightarrow> string" where
  "agentScheduleManualRunTemplateName schedule =
     TrimSpace (map_get (om_Annotations (sched_Meta schedule)) AgentScheduleRunTemplateAnnotation)"

text \<open>The loop over the templates with its index; \<open>all\<close> is \<^verbatim>\<open>schedule.Spec.RunTemplates\<close>.\<close>

fun next_template_loop ::
  "AgentScheduleRunTemplateSpec list \<Rightarrow> string \<Rightarrow> nat \<Rightarrow> AgentScheduleRunTemplateSpec list \<Rightarrow> string option" where
  "next_template_loop all lastTemplateName index [] = None"
| "next_template_loop all lastTemplateName index (template # templates) =
     (if tmpl_Name template = lastTemplateName
      then Some (tmpl_Name (all ! ((index + 1) mod length all)))
      else next_template_loop all lastTemplateName (index + 1) templates)"

definition agentScheduleNextTemplateName :: "AgentSchedule \<Rightarrow> string \<Rightarrow> string" where
  "agentScheduleNextTemplateName schedule lastTemplateName =
     (case ss_RunTemplates (sched_Spec schedule) of
        [] \<Rightarrow> []
      | first # rest \<Rightarrow>
          if TrimSpace lastTemplateName = [] then tmpl_Name first
          else case next_template_loop (first # rest) lastTemplateName 0 (first # rest) of
            Some name \<Rightarrow> name
          | None \<Rightarrow> tmpl_Name first)"

definition agentScheduleSelectedRunTemplate ::
  "AgentSchedule \<Rightarrow> string \<Rightarrow> (AgentRunSpec \<times> string) result" where
  "agentScheduleSelectedRunTemplate schedule templateName =
     (let templateName = TrimSpace templateName in
      case ss_RunTemplates (sched_Spec schedule) of
        [] \<Rightarrow>
          if templateName \<noteq> [] then
            Inl (Errorf (''run template '' @ Quote templateName @ '' was requested, but spec.runTemplates is empty''))
          else Inr (ss_RunTemplate (sched_Spec schedule), [])
      | first # rest \<Rightarrow>
          let templateName = (if templateName = [] then tmpl_Name first else templateName) in
          case find (\<lambda>t. tmpl_Name t = templateName) (first # rest) of
            Some t \<Rightarrow> Inr (tmpl_Template t, tmpl_Name t)
          | None \<Rightarrow> Inl (Errorf (''run template '' @ Quote templateName @ '' was not found in AgentSchedule '' @
              sched_Namespace schedule @ ''/'' @ sched_Name schedule)))"

definition agentScheduleNextRunTime ::
  "AgentSchedule \<Rightarrow> AgentScheduleStatus \<Rightarrow> instant \<Rightarrow> bool \<Rightarrow> instant" where
  "agentScheduleNextRunTime schedule status now generationChanged =
     (if \<not> generationChanged \<and> sst_NextRunAt status \<noteq> None then the (sst_NextRunAt status)
      else case sst_LastRunAt status of
        Some t \<Rightarrow> t + seconds (ss_IntervalSeconds (sched_Spec schedule))
      | None \<Rightarrow>
          if ss_InitialDelaySeconds (sched_Spec schedule) > 0
          then om_CreationTimestamp (sched_Meta schedule) + seconds (ss_InitialDelaySeconds (sched_Spec schedule))
          else now)"

definition terminal_backoff_seconds :: "AgentScheduleBackoffSpec \<Rightarrow> AgentRunPhase \<Rightarrow> int option" where
  "terminal_backoff_seconds backoff phase =
     (case phase of
        AgentRunPhaseFailed \<Rightarrow> Some (bo_FailedSeconds backoff)
      | AgentRunPhaseNeedsHuman \<Rightarrow> Some (bo_NeedsHumanSeconds backoff)
      | _ \<Rightarrow> None)"

text \<open>\<^verbatim>\<open>CompletedAt\<close> if it is set and not zero, else the creation time.\<close>

definition run_terminal_at :: "AgentRun \<Rightarrow> instant" where
  "run_terminal_at run =
     (case rs_CompletedAt (run_Status run) of
        Some t \<Rightarrow> if t \<noteq> 0 then t else run_CreationTimestamp run
      | None \<Rightarrow> run_CreationTimestamp run)"

definition agentScheduleNextRunWithTerminalBackoff ::
  "AgentSchedule \<Rightarrow> AgentRun option \<Rightarrow> instant \<Rightarrow> instant \<times> bool" where
  "agentScheduleNextRunWithTerminalBackoff schedule newest existing =
     (case (ss_Backoff (sched_Spec schedule), newest) of
        (Some backoff, Some run) \<Rightarrow>
          (case terminal_backoff_seconds backoff (run_Phase run) of
             None \<Rightarrow> (existing, False)
           | Some secs \<Rightarrow>
               if secs \<le> 0 then (existing, False)
               else
                 let terminalAt = run_terminal_at run in
                 if terminalAt = 0 then (existing, False)
                 else
                   let backoffUntil = terminalAt + seconds secs in
                   if backoffUntil > existing then (backoffUntil, True)
                   else (existing, backoffUntil = existing))
      | _ \<Rightarrow> (existing, False))"

partial_function (option) next_run_loop :: "duration \<Rightarrow> instant \<Rightarrow> instant \<Rightarrow> instant option" where
  "next_run_loop interval now nxt =
     (if nxt \<le> now then next_run_loop interval now (nxt + interval) else Some nxt)"

definition agentScheduleNextRunAfterCreation ::
  "AgentSchedule \<Rightarrow> instant \<Rightarrow> instant \<Rightarrow> bool \<Rightarrow> instant option" where
  "agentScheduleNextRunAfterCreation schedule scheduledNext now manual =
     (if manual then Some scheduledNext
      else next_run_loop (seconds (ss_IntervalSeconds (sched_Spec schedule))) now scheduledNext)"

subsection \<open>The loop\<close>

lemma next_run_loop_first_after:
  assumes "0 < d"
  shows "\<exists>t. next_run_loop d now nxt = Some t \<and> first_after d nxt now t"
proof (induction "nat (now + 1 - nxt)" arbitrary: nxt rule: less_induct)
  case less
  show ?case
  proof (cases "nxt \<le> now")
    case True
    then have "nat (now + 1 - (nxt + d)) < nat (now + 1 - nxt)" using assms by linarith
    from less [OF this] obtain t where t: "next_run_loop d now (nxt + d) = Some t"
      "first_after d (nxt + d) now t" by blast
    have "first_after d nxt now (nxt + ((now - nxt) div d + 1) * d)"
      using assms True by (rule first_after_step)
    moreover from this have "first_after d (nxt + d) now (nxt + ((now - nxt) div d + 1) * d)"
      using assms True first_after_shift by blast
    ultimately have "first_after d nxt now t" using t(2) first_after_unique by metis
    then show ?thesis using t(1) True by (subst next_run_loop.simps) simp
  next
    case False
    then show ?thesis by (subst next_run_loop.simps) (simp add: first_after_anchor)
  qed
qed

lemma next_run_loop_returns_cases:
  assumes "next_run_loop d now nxt = Some t"
  shows "now < t \<and> (0 < d \<or> now < nxt)"
  using next_run_loop.raw_induct [of "\<lambda>d now nxt t. now < t \<and> (0 < d \<or> now < nxt)", OF _ assms]
  by (fastforce split: if_splits)

interpretation schedule_cadence: cadence "\<lambda>d e. True" "\<lambda>d a now. next_run_loop d now a"
  by unfold_locales (simp_all add: next_run_loop_first_after)

subsection \<open>Rotation\<close>

lemma next_template_loop_index:
  assumes "i < length ts" "\<forall>j < i. tmpl_Name (ts ! j) \<noteq> name" "tmpl_Name (ts ! i) = name"
  shows "next_template_loop all name n ts = Some (tmpl_Name (all ! ((n + i + 1) mod length all)))"
  using assms
proof (induction ts arbitrary: i n)
  case (Cons t ts)
  show ?case
  proof (cases i)
    case 0
    then show ?thesis using Cons.prems by simp
  next
    case (Suc j)
    then have "tmpl_Name t \<noteq> name" using Cons.prems by (metis nth_Cons_0 zero_less_Suc)
    moreover have "\<forall>k < j. tmpl_Name (ts ! k) \<noteq> name" using Cons.prems(2) Suc by auto
    ultimately show ?thesis using Cons.IH [of j "Suc n"] Cons.prems Suc by simp
  qed
qed simp

lemma next_template_loop_None:
  "next_template_loop all name n ts = None \<longleftrightarrow> (\<forall>t \<in> set ts. tmpl_Name t \<noteq> name)"
  by (induction ts arbitrary: n) auto

lemma selected_template_find:
  assumes "find (\<lambda>t. tmpl_Name t = name) (ss_RunTemplates (sched_Spec s)) = Some t"
    "name \<noteq> []" "TrimSpace name = name"
  shows "agentScheduleSelectedRunTemplate s name = Inr (tmpl_Template t, tmpl_Name t)"
  using assms
  by (cases "ss_RunTemplates (sched_Spec s)")
    (simp_all add: agentScheduleSelectedRunTemplate_def Let_def del: find.simps(2))

subsection \<open>Properties\<close>

text \<open>
  C33. The next run after an interval run. Let \<open>d\<close> be the interval as the code computes it, the
  64-bit product of the seconds of the spec and a second; for at most 292 years it is exact. After
  a manual run, and when the due time is still to come, the due time stays. Otherwise the loop of
  \<^verbatim>\<open>agentScheduleNextRunAfterCreation\<close> returns exactly when \<open>d\<close> is positive (also when it
  is positive after wrapping), and it returns the first instant after now on the grid of
  the due time and \<open>d\<close>: at most \<open>d\<close> away, with every start that was missed in between skipped. The
  loop runs forever exactly when \<open>d\<close> is not positive and the due time has come.
\<close>

theorem next_run_after_creation:
  "let n = ss_IntervalSeconds (sched_Spec s); d = seconds n;
       result = agentScheduleNextRunAfterCreation s due now False
   in agentScheduleNextRunAfterCreation s due now True = Some due \<and>
      (result = None \<longleftrightarrow> d \<le> 0 \<and> due \<le> now) \<and>
      (\<forall>t. result = Some t \<longleftrightarrow> (if due \<le> now then 0 < d \<and> first_after d due now t else t = due)) \<and>
      (\<forall>t. result = Some t \<and> due \<le> now \<longrightarrow> t \<le> now + d) \<and>
      (0 \<le> n \<and> n \<le> max_seconds \<longrightarrow> d = n * Second)"
proof -
  let ?d = "seconds (ss_IntervalSeconds (sched_Spec s))"
  let ?r = "agentScheduleNextRunAfterCreation s due now False"
  have r: "?r = next_run_loop ?d now due" by (simp add: agentScheduleNextRunAfterCreation_def)
  have future: "?r = Some due" if "now < due" using that by (simp add: r next_run_loop.simps)
  have stuck: "?r = None" if "?d \<le> 0" "due \<le> now"
    using that next_run_loop_returns_cases [of ?d now due] by (cases "next_run_loop ?d now due") (auto simp: r)
  have returns: "\<exists>t. ?r = Some t \<and> first_after ?d due now t" if "0 < ?d"
    using next_run_loop_first_after [OF that] by (simp add: r)
  have some: "?r = Some t \<longleftrightarrow> (if due \<le> now then 0 < ?d \<and> first_after ?d due now t else t = due)" for t
    using future stuck returns first_after_unique by (cases "now < due"; cases "0 < ?d") fastforce+
  have near: "t \<le> now + ?d" if "?r = Some t" "due \<le> now" for t
    by (rule schedule_cadence.advance_within_interval [of ?d due now]) (use some that in \<open>auto simp: r\<close>)
  have none: "?r = None \<longleftrightarrow> ?d \<le> 0 \<and> due \<le> now"
    using future stuck returns by (cases "now < due"; cases "0 < ?d") fastforce+
  show ?thesis
    using some near none seconds_exact [of "ss_IntervalSeconds (sched_Spec s)"]
    by (simp add: Let_def agentScheduleNextRunAfterCreation_def)
qed

theorem next_run_after_creation_witness:
  "agentScheduleNextRunAfterCreation demo_schedule 0 (90 * Second) False = Some (120 * Second) \<and>
   agentScheduleNextRunAfterCreation
     (demo_schedule\<lparr>sched_Spec := zero_ScheduleSpec\<lparr>ss_IntervalSeconds := 9223372037\<rparr>\<rparr>) 0 1 False = None"
proof
  have n: "ss_IntervalSeconds (sched_Spec demo_schedule) = 60" by (simp add: demo_schedule_def)
  have "first_after (60 * Second) 0 (90 * Second) (120 * Second)"
    using first_after_step [of "60 * Second" 0 "90 * Second"] by simp
  then show "agentScheduleNextRunAfterCreation demo_schedule 0 (90 * Second) False = Some (120 * Second)"
    using next_run_after_creation [of demo_schedule 0 "90 * Second"] by (simp add: n max_seconds_def Let_def)
  show "agentScheduleNextRunAfterCreation
      (demo_schedule\<lparr>sched_Spec := zero_ScheduleSpec\<lparr>ss_IntervalSeconds := 9223372037\<rparr>\<rparr>) 0 1 False = None"
    using next_run_after_creation
      [of "demo_schedule\<lparr>sched_Spec := zero_ScheduleSpec\<lparr>ss_IntervalSeconds := 9223372037\<rparr>\<rparr>" 0 1]
    by (simp add: seconds_def wrap64_def Let_def)
qed

text \<open>
  Terminal backoff. It never brings a run forward; the flag it returns says that the returned
  time is the end of the backoff of the newest run, which is set only for a newest run
  that failed or needs a human and with a positive delay for that phase.
\<close>

theorem terminal_backoff_correct:
  assumes "agentScheduleNextRunWithTerminalBackoff s newest existing = (t, applied)"
  shows "existing \<le> t \<and> (\<not> applied \<longrightarrow> t = existing) \<and>
    (applied \<longrightarrow> (\<exists>backoff run secs. ss_Backoff (sched_Spec s) = Some backoff \<and> newest = Some run \<and>
       0 < secs \<and> t = run_terminal_at run + seconds secs \<and>
       (run_Phase run = AgentRunPhaseFailed \<and> secs = bo_FailedSeconds backoff \<or>
        run_Phase run = AgentRunPhaseNeedsHuman \<and> secs = bo_NeedsHumanSeconds backoff)))"
  using assms
  by (auto simp: agentScheduleNextRunWithTerminalBackoff_def terminal_backoff_seconds_def Let_def
      split: option.splits if_splits AgentRunPhase.splits)

definition demo_failed :: AgentRun where
  "demo_failed = (demo_run ''agents'' ''a'' 10)\<lparr>run_Status := zero_RunStatus\<lparr>rs_Phase := AgentRunPhaseFailed\<rparr>\<rparr>"

theorem terminal_backoff_correct_witness:
  "agentScheduleNextRunWithTerminalBackoff
     (demo_schedule\<lparr>sched_Spec := zero_ScheduleSpec\<lparr>ss_Backoff := Some \<lparr>bo_FailedSeconds = 7, bo_NeedsHumanSeconds = 0\<rparr>\<rparr>\<rparr>)
     (Some demo_failed) 20 = (10 + 7 * Second, True) \<and> (20 :: instant) \<le> 10 + 7 * Second"
proof
  show eq: "agentScheduleNextRunWithTerminalBackoff
     (demo_schedule\<lparr>sched_Spec := zero_ScheduleSpec\<lparr>ss_Backoff := Some \<lparr>bo_FailedSeconds = 7, bo_NeedsHumanSeconds = 0\<rparr>\<rparr>\<rparr>)
     (Some demo_failed) 20 = (10 + 7 * Second, True)"
    by (simp add: agentScheduleNextRunWithTerminalBackoff_def terminal_backoff_seconds_def demo_failed_def
        run_terminal_at_def zero_RunStatus_def demo_run_def zero_Run_def zero_ObjectMeta_def seconds_def wrap64_def)
  from terminal_backoff_correct [OF eq] show "(20 :: instant) \<le> 10 + 7 * Second" by blast
qed

text \<open>
  Rotation. When the templates have distinct, non-blank names, the template after the
  \<open>i\<close>-th one is the next in the list, cyclically, and it can be selected; so \<open>n\<close> interval runs
  in a row use each of \<open>n\<close> templates once.
\<close>

theorem template_rotation:
  assumes ts: "ss_RunTemplates (sched_Spec s) = ts" and "distinct (map tmpl_Name ts)" "i < length ts"
    and "\<forall>t \<in> set ts. tmpl_Name t \<noteq> [] \<and> TrimSpace (tmpl_Name t) = tmpl_Name t"
  defines "j \<equiv> (i + 1) mod length ts"
  shows "agentScheduleNextTemplateName s (tmpl_Name (ts ! i)) = tmpl_Name (ts ! j) \<and>
    agentScheduleSelectedRunTemplate s (tmpl_Name (ts ! j)) = Inr (tmpl_Template (ts ! j), tmpl_Name (ts ! j))"
proof
  obtain first rest where cons: "ts = first # rest" using assms(3) by (cases ts) auto
  have earlier: "\<forall>k < i. tmpl_Name (ts ! k) \<noteq> tmpl_Name (ts ! i)"
    using assms(2,3) by (auto simp: distinct_conv_nth)
  have trimmed: "TrimSpace (tmpl_Name (ts ! i)) \<noteq> []" using assms(3,4) by auto
  show "agentScheduleNextTemplateName s (tmpl_Name (ts ! i)) = tmpl_Name (ts ! j)"
    using next_template_loop_index [of i ts "tmpl_Name (ts ! i)" ts 0] earlier trimmed assms(3) ts cons
    by (simp add: agentScheduleNextTemplateName_def j_def)
  have j: "j < length ts" unfolding j_def by (rule mod_less_divisor) (simp add: cons)
  have "find (\<lambda>t. tmpl_Name t = tmpl_Name (ts ! j)) ts = Some (ts ! j)"
    using j assms(2) by (auto simp: find_Some_iff distinct_conv_nth intro!: exI [of _ j])
  moreover have "tmpl_Name (ts ! j) \<noteq> []" "TrimSpace (tmpl_Name (ts ! j)) = tmpl_Name (ts ! j)"
    using j assms(4) by auto
  ultimately show "agentScheduleSelectedRunTemplate s (tmpl_Name (ts ! j)) = Inr (tmpl_Template (ts ! j), tmpl_Name (ts ! j))"
    using selected_template_find ts by blast
qed

definition demo_rotation :: AgentSchedule where
  "demo_rotation = demo_schedule\<lparr>sched_Spec := zero_ScheduleSpec\<lparr>ss_RunTemplates :=
     [\<lparr>tmpl_Name = ''grok'', tmpl_Template = zero_RunSpec\<rparr>, \<lparr>tmpl_Name = ''codex'', tmpl_Template = zero_RunSpec\<rparr>]\<rparr>\<rparr>"

theorem template_rotation_witness:
  "agentScheduleNextTemplateName demo_rotation ''codex'' = ''grok'' \<and>
   agentScheduleSelectedRunTemplate demo_rotation ''grok'' = Inr (zero_RunSpec, ''grok'')"
proof -
  have "TrimSpace ''grok'' = ''grok''" "TrimSpace ''codex'' = ''codex''" by code_simp+
  then show ?thesis
    using template_rotation [of demo_rotation "ss_RunTemplates (sched_Spec demo_rotation)" 1]
    by (simp add: demo_rotation_def)
qed

text \<open>
  The schedule controller reads the last template back from a run's label, which holds the
  sanitized name. A template whose name is not its own label value is therefore not found,
  and the rotation stays on the first template.
\<close>

lemma rotation_stuck_on_unsanitized_name:
  fixes t1 t2 :: AgentRunSpec
  defines "s \<equiv> demo_schedule\<lparr>sched_Spec := zero_ScheduleSpec\<lparr>ss_RunTemplates :=
     [\<lparr>tmpl_Name = ''Alpha'', tmpl_Template = t1\<rparr>, \<lparr>tmpl_Name = ''Beta'', tmpl_Template = t2\<rparr>]\<rparr>\<rparr>"
  shows "agentScheduleNextTemplateName s (sanitizeLabelValue ''Alpha'') = ''Alpha''"
proof -
  have "sanitizeLabelValue ''Alpha'' = ''alpha''" "TrimSpace ''alpha'' = ''alpha''" by code_simp+
  then show ?thesis by (simp add: s_def agentScheduleNextTemplateName_def)
qed

end
