(* ===== verification/ScheduleRuns.thy ===== *)
theory ScheduleRuns
  imports ScheduleTiming
begin

text \<open>
  The runs of a schedule in the cluster (\<^verbatim>\<open>internal/controller/agent_schedule_controller.go\<close>):
  listing and detaching them, finding the run of a due interval, and creating the next run
  with its provenance checks. The lemmas show that detaching removes exactly the controller
  reference of the schedule, what every created run carries, that one call creates at most
  one run, and that an existing object is adopted only if it has the schedule's provenance.
\<close>

subsection \<open>Definitions\<close>

definition agentScheduleReady :: string where "agentScheduleReady = ''Ready''"
definition agentSchedulePollInterval :: duration where "agentSchedulePollInterval = 30 * Second"

definition agentRunTemplateLabel :: string where
  "agentRunTemplateLabel = ''control.anvil.hazyforge.io/agent-schedule-template''"
definition agentManagedByLabel :: string where
  "agentManagedByLabel = ''app.kubernetes.io/managed-by''"
definition agentApplicationLabel :: string where
  "agentApplicationLabel = ''control.anvil.hazyforge.io/application''"
definition agentDynamicLabel :: string where
  "agentDynamicLabel = ''control.anvil.hazyforge.io/agent-dynamic''"
definition agentManagerRepositoryLabel :: string where
  "agentManagerRepositoryLabel = ''control.anvil.hazyforge.io/agent-manager-repository''"

definition GroupVersion :: string where
  "GroupVersion = ''control.anvil.hazyforge.io/v1alpha1''"

record agentScheduleRunRequest =
  req_ApplicationName :: string
  req_NameSegment :: string
  req_NameTimestamp :: string
  req_NameIdentityKey :: string
  req_TemplateName :: string
  req_TriggerReason :: string
  req_TriggerMessage :: string
  req_ForceTrigger :: bool
  req_Token :: string
  req_NameTime :: instant

definition owned_by :: "string \<Rightarrow> string \<Rightarrow> string \<Rightarrow> string \<Rightarrow> OwnerReference \<Rightarrow> bool" where
  "owned_by apiVersion kind name uid owner \<longleftrightarrow>
     own_Controller owner = Some True \<and> own_APIVersion owner = apiVersion \<and> own_Kind owner = kind \<and>
     own_Name owner = name \<and> own_UID owner = uid"

text \<open>The run after the call and whether a reference was removed.\<close>

definition detachAgentRunControllerOwner ::
  "AgentRun \<Rightarrow> string \<Rightarrow> string \<Rightarrow> string \<Rightarrow> string \<Rightarrow> AgentRun \<times> bool" where
  "detachAgentRunControllerOwner run apiVersion kind name uid =
     (let owners = om_OwnerReferences (run_Meta run);
          filtered = filter (\<lambda>owner. \<not> owned_by apiVersion kind name uid owner) owners;
          removed = (\<exists>owner \<in> set owners. owned_by apiVersion kind name uid owner)
      in (if removed then run\<lparr>run_Meta := (run_Meta run)\<lparr>om_OwnerReferences := filtered\<rparr>\<rparr> else run, removed))"

record schedule_scan =
  scan_active :: "AgentRun list"
  scan_last :: "AgentRun option"
  scan_lastInterval :: "AgentRun option"
  scan_runsToday :: int

text \<open>One iteration after the ownership patch: \<open>run\<close> is the object the API server returned.\<close>

definition scan_run :: "instant \<Rightarrow> AgentRun \<Rightarrow> schedule_scan \<Rightarrow> schedule_scan" where
  "scan_run dayStart run acc =
     (let acc = (if \<not> run_CreationTimestamp run < dayStart \<and> run_CreationTimestamp run < dayStart + Hour24
                 then acc\<lparr>scan_runsToday := scan_runsToday acc + 1\<rparr> else acc);
          acc = (if (case scan_last acc of None \<Rightarrow> True
                     | Some l \<Rightarrow> run_CreationTimestamp run > run_CreationTimestamp l)
                 then acc\<lparr>scan_last := Some run\<rparr> else acc);
          acc = (if trig_Reason (spec_Trigger (run_Spec run)) = ''ScheduledAgentRun'' \<and>
                    (case scan_lastInterval acc of None \<Rightarrow> True | Some l \<Rightarrow> agentRunPrecedes l run)
                 then acc\<lparr>scan_lastInterval := Some run\<rparr> else acc)
      in if agentRunPhaseTerminal (run_Phase run) then acc
         else acc\<lparr>scan_active := scan_active acc @ [run]\<rparr>)"

fun schedule_runs_loop ::
  "'w kube \<Rightarrow> AgentSchedule \<Rightarrow> instant \<Rightarrow> 'w \<Rightarrow> schedule_scan \<Rightarrow> AgentRun list \<Rightarrow> schedule_scan result \<times> 'w" where
  "schedule_runs_loop k schedule dayStart w acc [] = (Inr acc, w)"
| "schedule_runs_loop k schedule dayStart w acc (run # runs) =
     (if \<not> agentRunBelongsToSchedule run schedule then schedule_runs_loop k schedule dayStart w acc runs
      else case detachAgentRunControllerOwner run GroupVersion ''AgentSchedule''
                  (sched_Name schedule) (sched_UID schedule) of
        (run', False) \<Rightarrow> schedule_runs_loop k schedule dayStart w (scan_run dayStart run' acc) runs
      | (run', True) \<Rightarrow>
          (case k_PatchRun k w run run' of
             (Inl e, w') \<Rightarrow>
               (Inl (Wrapf (''detach durable AgentRun '' @ run_Namespace run @ ''/'' @ run_Name run @
                  '' from AgentSchedule garbage collection'') e), w')
           | (Inr patched, w') \<Rightarrow>
               schedule_runs_loop k schedule dayStart w' (scan_run dayStart patched acc) runs))"

definition schedule_list :: "'w kube \<Rightarrow> 'w \<Rightarrow> AgentSchedule \<Rightarrow> AgentRun list result" where
  "schedule_list k w schedule =
     k_ListRuns k w (Some (sched_Namespace schedule))
       [(agentRunScheduleLabel, sanitizeLabelValue (sched_Name schedule))]"

text \<open>The active runs, the newest run, the template of the newest interval run and today's count.\<close>

definition agentScheduleRuns ::
  "'w kube \<Rightarrow> 'w \<Rightarrow> AgentSchedule \<Rightarrow> instant \<Rightarrow>
     (AgentRun list \<times> AgentRun option \<times> string \<times> int) result \<times> 'w" where
  "agentScheduleRuns k w schedule now =
     (case schedule_list k w schedule of
        Inl e \<Rightarrow> (Inl (Wrapf ''list scheduled agent runs'' e), w)
      | Inr runs \<Rightarrow>
          (case schedule_runs_loop k schedule (time_trunc now Hour24) w
                  \<lparr>scan_active = [], scan_last = None, scan_lastInterval = None, scan_runsToday = 0\<rparr> runs of
             (Inl e, w') \<Rightarrow> (Inl e, w')
           | (Inr acc, w') \<Rightarrow>
               (Inr (scan_active acc, scan_last acc,
                  case scan_lastInterval acc of None \<Rightarrow> []
                  | Some r \<Rightarrow> map_get (run_Labels r) agentRunTemplateLabel,
                  scan_runsToday acc), w')))"

fun provenance_loop :: "strmap \<Rightarrow> strmap \<Rightarrow> string list \<Rightarrow> strmap" where
  "provenance_loop source labels [] = labels"
| "provenance_loop source labels (key # keys) =
     (let value = TrimSpace (map_get source key) in
      provenance_loop source (if value \<noteq> [] then map_set labels key value else labels) keys)"

definition agentScheduleProvenanceLabels :: "AgentSchedule \<Rightarrow> strmap" where
  "agentScheduleProvenanceLabels schedule =
     provenance_loop (om_Labels (sched_Meta schedule)) []
       [agentManagedByLabel, agentApplicationLabel, agentDynamicLabel, agentManagerRepositoryLabel]"

definition agentScheduleIntervalTriggerMessage :: "AgentSchedule \<Rightarrow> instant \<Rightarrow> string" where
  "agentScheduleIntervalTriggerMessage schedule dueAt =
     ''AgentSchedule '' @ sched_Namespace schedule @ ''/'' @ sched_Name schedule @
     '' reached its interval due at '' @ RFC3339 dueAt @ ''.''"

definition agentScheduleIntervalRunRequest ::
  "'w kube \<Rightarrow> AgentSchedule \<Rightarrow> instant \<Rightarrow> string \<Rightarrow> agentScheduleRunRequest" where
  "agentScheduleIntervalRunRequest k schedule dueAt lastTemplateName =
     \<lparr>req_ApplicationName = [], req_NameSegment = [], req_NameTimestamp = [], req_NameIdentityKey = [],
      req_TemplateName = agentScheduleNextTemplateName schedule lastTemplateName,
      req_TriggerReason = ''ScheduledAgentRun'',
      req_TriggerMessage = agentScheduleIntervalTriggerMessage schedule dueAt,
      req_ForceTrigger = False,
      req_Token = RFC3339Nano (k_TZOffset k dueAt) dueAt,
      req_NameTime = dueAt\<rparr>"

fun parse_layouts :: "'w kube \<Rightarrow> string \<Rightarrow> string list \<Rightarrow> instant option" where
  "parse_layouts k token [] = None"
| "parse_layouts k token (layout # layouts) =
     (case k_TimeParse k layout token of Some t \<Rightarrow> Some t | None \<Rightarrow> parse_layouts k token layouts)"

definition agentScheduleManualNameTimestamp :: "'w kube \<Rightarrow> string \<Rightarrow> instant \<Rightarrow> string" where
  "agentScheduleManualNameTimestamp k token fallback =
     (let token = TrimSpace token in
      case parse_layouts k token
             [''20060102T150405Z'', ''2006-01-02T15:04:05.999999999Z07:00'', ''2006-01-02T15:04:05Z07:00''] of
        Some parsed \<Rightarrow> compact_stamp parsed
      | None \<Rightarrow>
          (let sanitized = sanitizeDNSLabel token in
           if sanitized \<noteq> [] then (if length sanitized > 24 then take 24 sanitized else sanitized)
           else compact_stamp fallback))"

definition agentScheduleManualRunRequest ::
  "'w kube \<Rightarrow> AgentSchedule \<Rightarrow> string \<Rightarrow> string \<Rightarrow> instant \<Rightarrow> agentScheduleRunRequest" where
  "agentScheduleManualRunRequest k schedule token templateName now =
     \<lparr>req_ApplicationName = [], req_NameSegment = ''manual'',
      req_NameTimestamp = agentScheduleManualNameTimestamp k token now,
      req_NameIdentityKey = ''manual|'' @ TrimSpace token,
      req_TemplateName = TrimSpace templateName,
      req_TriggerReason = ''ManualAgentScheduleNudge'',
      req_TriggerMessage = ''AgentSchedule '' @ sched_Namespace schedule @ ''/'' @ sched_Name schedule @
        '' was manually nudged with token '' @ Quote token @ ''.'',
      req_ForceTrigger = True,
      req_Token = TrimSpace token,
      req_NameTime = 0\<rparr>"

fun interval_run_loop :: "AgentSchedule \<Rightarrow> string \<Rightarrow> AgentRun option \<Rightarrow> AgentRun list \<Rightarrow> AgentRun option" where
  "interval_run_loop schedule message match [] = match"
| "interval_run_loop schedule message match (run # runs) =
     (if \<not> agentRunBelongsToSchedule run schedule then interval_run_loop schedule message match runs
      else if trig_Reason (spec_Trigger (run_Spec run)) \<noteq> ''ScheduledAgentRun''
      then interval_run_loop schedule message match runs
      else if TrimSpace (trig_Message (spec_Trigger (run_Spec run))) \<noteq> message
      then interval_run_loop schedule message match runs
      else interval_run_loop schedule message
        (case match of None \<Rightarrow> Some run | Some m \<Rightarrow> if agentRunPrecedes m run then Some run else Some m) runs)"

definition agentScheduleIntervalRunForMessage ::
  "'w kube \<Rightarrow> 'w \<Rightarrow> AgentSchedule \<Rightarrow> string \<Rightarrow> AgentRun option result" where
  "agentScheduleIntervalRunForMessage k w schedule message =
     (let message = TrimSpace message in
      if message = [] then Inr None
      else case schedule_list k w schedule of
        Inl e \<Rightarrow> Inl (Wrapf ''list scheduled agent runs for due interval'' e)
      | Inr runs \<Rightarrow> Inr (interval_run_loop schedule message None runs))"

text \<open>\<^verbatim>\<open>createScheduledAgentRun\<close>: the application of the new run.\<close>

definition scheduled_scope :: "AgentSchedule \<Rightarrow> string \<Rightarrow> AgentRunSpec \<Rightarrow> AgentRunSpec result" where
  "scheduled_scope schedule requested spec =
     (let applicationName = TrimSpace requested;
          applicationName = (if applicationName = [] then app_ref_name (ss_ApplicationRef (sched_Spec schedule))
                             else applicationName) in
      if applicationName = [] then Inr spec
      else case scope_ApplicationRef (spec_Scope spec) of
        None \<Rightarrow> Inr (spec\<lparr>spec_Scope := (spec_Scope spec)\<lparr>scope_ApplicationRef := Some \<lparr>app_Name = applicationName\<rparr>\<rparr>\<rparr>)
      | Some ref \<Rightarrow>
          if TrimSpace (app_Name ref) \<noteq> applicationName then
            Inl (Errorf (''resolved schedule applicationRef '' @ Quote applicationName @
              '' conflicts with selected run template applicationRef '' @ Quote (TrimSpace (app_Name ref))))
          else Inr spec)"

definition schedule_source :: "AgentSchedule \<Rightarrow> AgentRunSourceRef" where
  "schedule_source schedule = \<lparr>src_APIVersion = GroupVersion, src_Kind = ''AgentSchedule'',
     src_Namespace = sched_Namespace schedule, src_Name = sched_Name schedule\<rparr>"

definition default_purpose :: "AgentRunSpec \<Rightarrow> AgentRunSpec" where
  "default_purpose spec =
     (if TrimSpace (purpose_text (spec_Purpose spec)) = []
      then spec\<lparr>spec_Purpose := AgentRunPurposeScheduledHealthCheck\<rparr> else spec)"

definition default_source :: "AgentSchedule \<Rightarrow> AgentRunSpec \<Rightarrow> AgentRunSpec" where
  "default_source schedule spec =
     (if TrimSpace (src_Kind (spec_SourceRef spec)) = []
      then spec\<lparr>spec_SourceRef := schedule_source schedule\<rparr> else spec)"

definition default_schedule_ref :: "AgentSchedule \<Rightarrow> AgentRunSpec \<Rightarrow> AgentRunSpec" where
  "default_schedule_ref schedule spec =
     (if spec_ScheduleRef spec = None
      then spec\<lparr>spec_ScheduleRef := Some \<lparr>nor_Name = sched_Name schedule, nor_Namespace = sched_Namespace schedule\<rparr>\<rparr>
      else spec)"

text \<open>Provenance, trigger and schedule reference.\<close>

definition scheduled_provenance ::
  "AgentSchedule \<Rightarrow> instant \<Rightarrow> agentScheduleRunRequest \<Rightarrow> AgentRunSpec \<Rightarrow> AgentRunSpec result" where
  "scheduled_provenance schedule now request spec =
     (let spec = default_source schedule (default_purpose spec) in
      if TrimSpace (spec_SourceUID spec) \<noteq> [] \<and> spec_SourceUID spec \<noteq> sched_UID schedule then
        Inl (Errorf ''selected run template sourceUID does not match AgentSchedule UID'')
      else
        let spec = (if TrimSpace (spec_SourceUID spec) = [] then spec\<lparr>spec_SourceUID := sched_UID schedule\<rparr> else spec) in
        if spec_SourceGeneration spec \<noteq> 0 \<and> spec_SourceGeneration spec \<noteq> sched_Generation schedule then
          Inl (Errorf ''selected run template sourceGeneration does not match AgentSchedule generation'')
        else
          let spec = (if spec_SourceGeneration spec = 0
                      then spec\<lparr>spec_SourceGeneration := sched_Generation schedule\<rparr> else spec);
              spec = (if req_ForceTrigger request \<or> TrimSpace (trig_Reason (spec_Trigger spec)) = []
                      then spec\<lparr>spec_Trigger := (spec_Trigger spec)\<lparr>
                        trig_Reason := req_TriggerReason request, trig_Message := req_TriggerMessage request,
                        trig_DetectedAt := Some now\<rparr>\<rparr>
                      else spec)
          in Inr (default_schedule_ref schedule spec))"

definition scheduled_spec ::
  "AgentSchedule \<Rightarrow> instant \<Rightarrow> agentScheduleRunRequest \<Rightarrow> (AgentRunSpec \<times> string) result" where
  "scheduled_spec schedule now request =
     (case agentScheduleSelectedRunTemplate schedule (req_TemplateName request) of
        Inl e \<Rightarrow> Inl e
      | Inr (spec, templateName) \<Rightarrow>
          (case scheduled_scope schedule (req_ApplicationName request) spec of
             Inl e \<Rightarrow> Inl e
           | Inr spec \<Rightarrow>
               (case scheduled_provenance schedule now request spec of
                  Inl e \<Rightarrow> Inl e
                | Inr spec \<Rightarrow> Inr (spec, templateName))))"

text \<open>The name of the run. \<open>request\<close> has the selected template's name.\<close>

definition scheduled_name :: "'w kube \<Rightarrow> AgentSchedule \<Rightarrow> instant \<Rightarrow> agentScheduleRunRequest \<Rightarrow> string" where
  "scheduled_name k schedule now request =
     (let nameTime = (if req_NameTime request \<noteq> 0 then req_NameTime request else now);
          nameTimestamp = (if TrimSpace (req_NameTimestamp request) \<noteq> [] then TrimSpace (req_NameTimestamp request)
                           else compact_stamp nameTime);
          nameIdentityKey = (if TrimSpace (req_NameIdentityKey request) \<noteq> [] then TrimSpace (req_NameIdentityKey request)
                             else RFC3339Nano (k_TZOffset k nameTime) nameTime);
          part = (if req_TriggerReason request = ''ScheduledAgentRun'' \<and> TrimSpace (req_NameSegment request) = []
                  then [] else req_TemplateName request);
          nameHashInput = Join [nameIdentityKey, req_Token request, req_TriggerReason request, part] ''|''
      in agentRunChildName [''agentrun'', sched_Name schedule, req_NameSegment request, part, nameTimestamp,
           shortHash nameHashInput])"

definition scheduled_labels :: "AgentSchedule \<Rightarrow> string \<Rightarrow> strmap" where
  "scheduled_labels schedule templateName =
     (let labels = map_union [(agentRunScheduleLabel, sanitizeLabelValue (sched_Name schedule))]
                     (agentScheduleProvenanceLabels schedule)
      in if templateName \<noteq> [] then map_set labels agentRunTemplateLabel (sanitizeLabelValue templateName)
         else labels)"

definition scheduled_run :: "'w kube \<Rightarrow> AgentSchedule \<Rightarrow> instant \<Rightarrow> agentScheduleRunRequest \<Rightarrow> AgentRunSpec \<Rightarrow> AgentRun" where
  "scheduled_run k schedule now request spec =
     \<lparr>run_Meta = zero_ObjectMeta\<lparr>
        om_Name := scheduled_name k schedule now request,
        om_Namespace := sched_Namespace schedule,
        om_Labels := scheduled_labels schedule (req_TemplateName request)\<rparr>,
      run_Spec = spec, run_Status = zero_RunStatus\<rparr>"

definition scheduledAgentRunSpecMatches :: "'w kube \<Rightarrow> AgentRunSpec \<Rightarrow> AgentRunSpec \<Rightarrow> bool" where
  "scheduledAgentRunSpecMatches k actual expected \<longleftrightarrow>
     (let expected = expected\<lparr>spec_Trigger := (spec_Trigger expected)\<lparr>
            trig_DetectedAt := trig_DetectedAt (spec_Trigger actual)\<rparr>\<rparr>
      in digestJSON (k_MarshalRunSpec k) actual = digestJSON (k_MarshalRunSpec k) expected)"

text \<open>The body of the loop over the templates: \<open>None\<close> is \<^verbatim>\<open>continue\<close>.\<close>

definition template_candidate ::
  "AgentSchedule \<Rightarrow> AgentRun \<Rightarrow> AgentRun \<Rightarrow> AgentRunSpec \<Rightarrow> AgentRunSpec option" where
  "template_candidate schedule run expected spec =
     (let candidate = default_purpose spec;
          wanted = scope_ApplicationRef (spec_Scope (run_Spec expected)) in
      if wanted \<noteq> None \<and> scope_ApplicationRef (spec_Scope candidate) \<noteq> None \<and>
         app_ref_name (scope_ApplicationRef (spec_Scope candidate)) \<noteq> app_ref_name wanted then None
      else
        let candidate = (if wanted \<noteq> None \<and> scope_ApplicationRef (spec_Scope candidate) = None
              then candidate\<lparr>spec_Scope := (spec_Scope candidate)\<lparr>scope_ApplicationRef := wanted\<rparr>\<rparr> else candidate);
            candidate = default_source schedule candidate in
        if spec_SourceUID candidate \<noteq> [] \<and> spec_SourceUID candidate \<noteq> sched_UID schedule then None
        else if spec_SourceGeneration candidate \<noteq> 0 \<and> spec_SourceGeneration candidate \<noteq> sched_Generation schedule
        then None
        else Some (default_schedule_ref schedule (candidate\<lparr>
          spec_SourceUID := sched_UID schedule,
          spec_SourceGeneration := sched_Generation schedule,
          spec_Trigger := (spec_Trigger (run_Spec expected))\<lparr>
            trig_DetectedAt := trig_DetectedAt (spec_Trigger (run_Spec run))\<rparr>\<rparr>)))"

definition scheduledAgentRunMatchesSelectedTemplate ::
  "'w kube \<Rightarrow> AgentRun \<Rightarrow> AgentSchedule \<Rightarrow> AgentRun \<Rightarrow> bool" where
  "scheduledAgentRunMatchesSelectedTemplate k run schedule expected \<longleftrightarrow>
     (if trig_Reason (spec_Trigger (run_Spec run)) \<noteq> ''ScheduledAgentRun'' then False
      else
        let templateLabel = TrimSpace (map_get (run_Labels run) agentRunTemplateLabel);
            templates = ([], ss_RunTemplate (sched_Spec schedule)) #
              map (\<lambda>t. (tmpl_Name t, tmpl_Template t)) (ss_RunTemplates (sched_Spec schedule))
        in \<exists>(name, spec) \<in> set templates.
             sanitizeLabelValue name = templateLabel \<and>
             (case template_candidate schedule run expected spec of
                None \<Rightarrow> False
              | Some candidate \<Rightarrow> scheduledAgentRunSpecMatches k (run_Spec run) candidate))"

text \<open>The label whose value differs, if any; the template label is not compared.\<close>

definition label_mismatch :: "AgentRun \<Rightarrow> strmap \<Rightarrow> (string \<times> string) option" where
  "label_mismatch run expected =
     find (\<lambda>(key, value). key \<noteq> agentRunTemplateLabel \<and> map_get (run_Labels run) key \<noteq> value) expected"

definition collision_error :: "AgentRun \<Rightarrow> AgentSchedule \<Rightarrow> go_error" where
  "collision_error run schedule = Errorf (''AgentRun '' @ run_Namespace run @ ''/'' @ run_Name run @
     '' collides with the expected child for AgentSchedule '' @ sched_Namespace schedule @ ''/'' @ sched_Name schedule)"

definition validateScheduledAgentRun ::
  "'w kube \<Rightarrow> AgentRun \<Rightarrow> AgentRun \<Rightarrow> AgentSchedule \<Rightarrow> go_error option" where
  "validateScheduledAgentRun k run expected schedule =
     (if run_Namespace run \<noteq> run_Namespace expected \<or> run_Name run \<noteq> run_Name expected \<or>
         spec_SourceUID (run_Spec run) \<noteq> sched_UID schedule
      then Some (collision_error run schedule)
      else case label_mismatch run (run_Labels expected) of
        Some (key, value) \<Rightarrow>
          Some (Errorf (''AgentRun '' @ run_Namespace run @ ''/'' @ run_Name run @
            '' has invalid AgentSchedule provenance label '' @ key))
      | None \<Rightarrow>
          if scheduledAgentRunSpecMatches k (run_Spec run) (run_Spec expected) \<or>
             scheduledAgentRunMatchesSelectedTemplate k run schedule expected
          then None else Some (collision_error run schedule))"

definition createScheduledAgentRun ::
  "'w kube \<Rightarrow> 'w \<Rightarrow> AgentSchedule \<Rightarrow> instant \<Rightarrow> agentScheduleRunRequest \<Rightarrow> (AgentRun \<times> string) result \<times> 'w" where
  "createScheduledAgentRun k w schedule now request =
     (case scheduled_spec schedule now request of
        Inl e \<Rightarrow> (Inl e, w)
      | Inr (spec, templateName) \<Rightarrow>
          (let request = request\<lparr>req_TemplateName := templateName\<rparr>;
               expected = scheduled_run k schedule now request spec in
           case k_CreateRun k w expected of
             (Inr run, w') \<Rightarrow> (Inr (run, templateName), w')
           | (Inl e, w') \<Rightarrow>
               if \<not> IsAlreadyExists e then (Inl e, w')
               else case k_GetRun k w' (run_Namespace expected) (run_Name expected) of
                 Inl e \<Rightarrow> (Inl e, w')
               | Inr run \<Rightarrow>
                   (case validateScheduledAgentRun k run expected schedule of
                      Some e \<Rightarrow> (Inl e, w')
                    | None \<Rightarrow> (Inr (run, templateName), w'))))"

subsection \<open>Observation\<close>

text \<open>The functions that only read answer alike under \<open>observe\<close>; the others carry the log.\<close>

lemma observe_resolve [simp]:
  "resolveAgentRunSpecApplicationNameWithProfilePolicy (observe k) (w, l) ns spec b =
     resolveAgentRunSpecApplicationNameWithProfilePolicy k w ns spec b"
  "resolveAgentRunSpecApplicationName (observe k) (w, l) ns spec = resolveAgentRunSpecApplicationName k w ns spec"
  "resolveAgentRunSpecApplicationNameStrict (observe k) (w, l) ns spec = resolveAgentRunSpecApplicationNameStrict k w ns spec"
  "resolveAgentRunApplicationName (observe k) (w, l) run = resolveAgentRunApplicationName k w run"
  unfolding resolveAgentRunApplicationName_def resolveAgentRunSpecApplicationName_def
    resolveAgentRunSpecApplicationNameStrict_def resolveAgentRunSpecApplicationNameWithProfilePolicy_def observe_reads
  by (rule refl)+

lemma observe_resolve_templates [simp]:
  "resolve_templates (observe k) (w, l) ns explicit i resolved ts = resolve_templates k w ns explicit i resolved ts"
proof (induction ts arbitrary: i resolved)
  case (Cons t ts)
  show ?case unfolding resolve_templates.simps observe_resolve Cons.IH by (rule refl)
qed simp

lemma observe_resolve_schedule [simp]:
  "resolveAgentScheduleApplicationName (observe k) (w, l) s = resolveAgentScheduleApplicationName k w s"
  unfolding resolveAgentScheduleApplicationName_def observe_resolve_templates by (rule refl)

lemma observe_pause [simp]:
  "activeAgentRunPauseForApplication (observe k) (w, l) app now = activeAgentRunPauseForApplication k w app now"
  unfolding activeAgentRunPauseForApplication_def observe_reads by (rule refl)

lemma observe_schedule_list [simp]: "schedule_list (observe k) (w, l) s = schedule_list k w s"
  unfolding schedule_list_def observe_reads by (rule refl)

lemma observe_interval_run [simp]:
  "agentScheduleIntervalRunForMessage (observe k) (w, l) s m = agentScheduleIntervalRunForMessage k w s m"
  unfolding agentScheduleIntervalRunForMessage_def observe_schedule_list by (rule refl)

lemma observe_parse_layouts [simp]: "parse_layouts (observe k) token ls = parse_layouts k token ls"
proof (induction ls)
  case (Cons layout ls)
  show ?case unfolding parse_layouts.simps observe_reads Cons.IH by (rule refl)
qed simp

lemma observe_requests [simp]:
  "agentScheduleIntervalRunRequest (observe k) s due lt = agentScheduleIntervalRunRequest k s due lt"
  "agentScheduleManualRunRequest (observe k) s token tn now = agentScheduleManualRunRequest k s token tn now"
  "scheduled_run (observe k) s now req spec = scheduled_run k s now req spec"
  unfolding agentScheduleIntervalRunRequest_def agentScheduleManualRunRequest_def
    agentScheduleManualNameTimestamp_def scheduled_run_def scheduled_name_def observe_reads observe_parse_layouts
  by (rule refl)+

lemma observe_validate [simp]:
  "validateScheduledAgentRun (observe k) run expected s = validateScheduledAgentRun k run expected s"
  unfolding validateScheduledAgentRun_def scheduledAgentRunSpecMatches_def
    scheduledAgentRunMatchesSelectedTemplate_def observe_reads by (rule refl)

lemma observe_writes:
  "k_PatchRun (observe k) (w, l) a b = (case k_PatchRun k w a b of (r, w') \<Rightarrow> (r, (w', l)))"
  "k_CreateRun (observe k) (w, l) a = (case k_CreateRun k w a of (r, w') \<Rightarrow> (r, (w', l @ [a])))"
  by (simp_all add: observe_def)

lemma observe_schedule_runs_loop:
  "schedule_runs_loop (observe k) s day (w, l) acc runs =
     (case schedule_runs_loop k s day w acc runs of (r, w') \<Rightarrow> (r, (w', l)))"
  by (induction runs arbitrary: w acc)
    (simp_all add: observe_writes split: prod.splits bool.splits sum.splits)

lemma observe_agentScheduleRuns:
  "agentScheduleRuns (observe k) (w, l) s now = (case agentScheduleRuns k w s now of (r, w') \<Rightarrow> (r, (w', l)))"
  by (simp add: agentScheduleRuns_def observe_schedule_runs_loop split: sum.splits prod.splits)

lemma observe_create:
  "createScheduledAgentRun (observe k) (w, l) s now req =
     (case createScheduledAgentRun k w s now req of (r, w') \<Rightarrow>
        (r, (w', l @ (case scheduled_spec s now req of
           Inl e \<Rightarrow> []
         | Inr (spec, t) \<Rightarrow> [scheduled_run k s now (req\<lparr>req_TemplateName := t\<rparr>) spec]))))"
  by (simp add: createScheduledAgentRun_def observe_writes Let_def
      split: sum.splits prod.splits option.splits)

subsection \<open>Ownership\<close>

lemma detach_owners:
  "detachAgentRunControllerOwner run av kind name uid = (run', removed) \<Longrightarrow>
     om_OwnerReferences (run_Meta run') = filter (\<lambda>o1. \<not> owned_by av kind name uid o1) (om_OwnerReferences (run_Meta run)) \<and>
     (removed \<longleftrightarrow> run' \<noteq> run) \<and> run_Spec run' = run_Spec run \<and> run_Status run' = run_Status run"
proof -
  assume d: "detachAgentRunControllerOwner run av kind name uid = (run', removed)"
  let ?f = "filter (\<lambda>o1. \<not> owned_by av kind name uid o1) (om_OwnerReferences (run_Meta run))"
  have changed: "run\<lparr>run_Meta := (run_Meta run)\<lparr>om_OwnerReferences := ?f\<rparr>\<rparr> \<noteq> run"
    if "\<exists>o1 \<in> set (om_OwnerReferences (run_Meta run)). owned_by av kind name uid o1"
  proof
    assume "run\<lparr>run_Meta := (run_Meta run)\<lparr>om_OwnerReferences := ?f\<rparr>\<rparr> = run"
    then have "om_OwnerReferences (run_Meta (run\<lparr>run_Meta := (run_Meta run)\<lparr>om_OwnerReferences := ?f\<rparr>\<rparr>)) =
        om_OwnerReferences (run_Meta run)" by simp
    then have "?f = om_OwnerReferences (run_Meta run)" by simp
    then show False using that by (simp add: filter_id_conv)
  qed
  show ?thesis
  proof (cases "\<exists>o1 \<in> set (om_OwnerReferences (run_Meta run)). owned_by av kind name uid o1")
    case True
    then show ?thesis using d changed [OF True] by (auto simp: detachAgentRunControllerOwner_def Let_def)
  next
    case False
    then have "?f = om_OwnerReferences (run_Meta run)" by (auto simp: filter_id_conv)
    then show ?thesis using d False by (auto simp: detachAgentRunControllerOwner_def Let_def)
  qed
qed

subsection \<open>What the scan finds\<close>

definition empty_scan :: schedule_scan where
  "empty_scan = \<lparr>scan_active = [], scan_last = None, scan_lastInterval = None, scan_runsToday = 0\<rparr>"

lemma schedule_runs_loop_fold:
  assumes "schedule_runs_loop k s day w acc runs = (Inr acc', w')"
    and keep: "\<And>w a b c w'. k_PatchRun k w a b = (Inr c, w') \<Longrightarrow> c = b"
  shows "acc' = fold (scan_run day)
    (map (\<lambda>r. fst (detachAgentRunControllerOwner r GroupVersion ''AgentSchedule'' (sched_Name s) (sched_UID s)))
      (filter (\<lambda>r. agentRunBelongsToSchedule r s) runs)) acc"
  using assms(1)
proof (induction runs arbitrary: w acc)
  case (Cons r rs)
  show ?case
  proof (cases "agentRunBelongsToSchedule r s")
    case False
    then show ?thesis using Cons by simp
  next
    case True
    then show ?thesis using Cons
      by (cases "detachAgentRunControllerOwner r GroupVersion ''AgentSchedule'' (sched_Name s) (sched_UID s)")
        (auto split: bool.splits prod.splits sum.splits dest!: keep)
  qed
qed simp

lemma scan_active_fold:
  "scan_active (fold (scan_run day) rs acc) =
     scan_active acc @ filter (\<lambda>r. \<not> agentRunPhaseTerminal (run_Phase r)) rs"
  by (induction rs arbitrary: acc) (simp_all add: scan_run_def Let_def)

lemma scan_today_fold:
  "scan_runsToday (fold (scan_run day) rs acc) = scan_runsToday acc +
     int (length (filter (\<lambda>r. day \<le> run_CreationTimestamp r \<and> run_CreationTimestamp r < day + Hour24) rs))"
  by (induction rs arbitrary: acc) (simp_all add: scan_run_def Let_def not_less)

lemma interval_run_loop_None:
  "interval_run_loop s m match runs = None \<longleftrightarrow> match = None \<and>
     (\<forall>r \<in> set runs. \<not> (agentRunBelongsToSchedule r s \<and>
        trig_Reason (spec_Trigger (run_Spec r)) = ''ScheduledAgentRun'' \<and>
        TrimSpace (trig_Message (spec_Trigger (run_Spec r))) = m))"
  by (induction s m match runs rule: interval_run_loop.induct) (auto split: option.splits)

subsection \<open>What a created run carries\<close>

lemma map_of_map_union:
  "map_of (map_union m n) x = (case map_of (rev n) x of None \<Rightarrow> map_of m x | Some v \<Rightarrow> Some v)"
proof (induction n arbitrary: m)
  case (Cons p n)
  obtain a b where p: "p = (a, b)" by (cases p)
  have "map_union m (p # n) = map_union (map_set m a b) n" by (simp add: map_union_def p)
  then show ?case using Cons [of "map_set m a b"] by (auto simp: p map_add_def split: option.splits)
qed (simp add: map_union_def)

lemma map_set_keys: "fst ` set (map_set m key v) = insert key (fst ` set m)"
  by (induction m key v rule: map_set.induct) auto

lemma provenance_loop_keys: "fst ` set (provenance_loop src acc keys) \<subseteq> fst ` set acc \<union> set keys"
proof (induction keys arbitrary: acc)
  case (Cons key keys)
  then show ?case
    using Cons [of "map_set acc key (TrimSpace (map_get src key))"] Cons [of acc]
    by (auto simp: Let_def map_set_keys split: if_splits)
qed simp

lemma provenance_labels_keys:
  "fst ` set (agentScheduleProvenanceLabels s) \<subseteq>
     {agentManagedByLabel, agentApplicationLabel, agentDynamicLabel, agentManagerRepositoryLabel}"
  using provenance_loop_keys [of "om_Labels (sched_Meta s)" "[]"
      "[agentManagedByLabel, agentApplicationLabel, agentDynamicLabel, agentManagerRepositoryLabel]"]
  by (simp add: agentScheduleProvenanceLabels_def)

lemma scheduled_labels_schedule:
  "map_of (scheduled_labels s t) agentRunScheduleLabel = Some (sanitizeLabelValue (sched_Name s))"
proof -
  have "agentRunScheduleLabel \<notin> fst ` set (agentScheduleProvenanceLabels s)"
    using provenance_labels_keys [of s]
    by (auto simp: agentRunScheduleLabel_def agentManagedByLabel_def agentApplicationLabel_def
        agentDynamicLabel_def agentManagerRepositoryLabel_def)
  then have none: "map_of (rev (agentScheduleProvenanceLabels s)) agentRunScheduleLabel = None"
    by (simp add: map_of_eq_None_iff)
  have "agentRunScheduleLabel \<noteq> agentRunTemplateLabel"
    by (simp add: agentRunScheduleLabel_def agentRunTemplateLabel_def)
  then show ?thesis by (simp add: scheduled_labels_def Let_def map_of_map_union none)
qed

lemma default_fields [simp]:
  "spec_SourceUID (default_purpose x) = spec_SourceUID x"
  "spec_SourceGeneration (default_purpose x) = spec_SourceGeneration x"
  "spec_ScheduleRef (default_purpose x) = spec_ScheduleRef x"
  "spec_Scope (default_purpose x) = spec_Scope x"
  "spec_Trigger (default_purpose x) = spec_Trigger x"
  "spec_SourceUID (default_source s x) = spec_SourceUID x"
  "spec_SourceGeneration (default_source s x) = spec_SourceGeneration x"
  "spec_ScheduleRef (default_source s x) = spec_ScheduleRef x"
  "spec_Scope (default_source s x) = spec_Scope x"
  "spec_Trigger (default_source s x) = spec_Trigger x"
  "spec_SourceUID (default_schedule_ref s x) = spec_SourceUID x"
  "spec_SourceGeneration (default_schedule_ref s x) = spec_SourceGeneration x"
  "spec_Scope (default_schedule_ref s x) = spec_Scope x"
  "spec_Trigger (default_schedule_ref s x) = spec_Trigger x"
  "spec_ScheduleRef (default_schedule_ref s x) = (if spec_ScheduleRef x = None
     then Some \<lparr>nor_Name = sched_Name s, nor_Namespace = sched_Namespace s\<rparr> else spec_ScheduleRef x)"
  by (simp_all add: default_purpose_def default_source_def default_schedule_ref_def)

lemma scheduled_provenance_fields:
  assumes "scheduled_provenance s now req x = Inr y"
  shows "spec_SourceUID y = sched_UID s" "spec_SourceGeneration y = sched_Generation s"
    "spec_Scope y = spec_Scope x"
    "spec_ScheduleRef y = (if spec_ScheduleRef x = None
       then Some \<lparr>nor_Name = sched_Name s, nor_Namespace = sched_Namespace s\<rparr> else spec_ScheduleRef x)"
proof -
  let ?x = "default_source s (default_purpose x)"
  let ?x1 = "if TrimSpace (spec_SourceUID ?x) = [] then ?x\<lparr>spec_SourceUID := sched_UID s\<rparr> else ?x"
  let ?x2 = "if spec_SourceGeneration ?x1 = 0 then ?x1\<lparr>spec_SourceGeneration := sched_Generation s\<rparr> else ?x1"
  have uid: "spec_SourceUID ?x1 = sched_UID s" and gen: "spec_SourceGeneration ?x2 = sched_Generation s"
    and y: "y = default_schedule_ref s (if req_ForceTrigger req \<or> TrimSpace (trig_Reason (spec_Trigger ?x2)) = []
      then ?x2\<lparr>spec_Trigger := (spec_Trigger ?x2)\<lparr>trig_Reason := req_TriggerReason req,
        trig_Message := req_TriggerMessage req, trig_DetectedAt := Some now\<rparr>\<rparr> else ?x2)"
    using assms unfolding scheduled_provenance_def Let_def by (auto split: if_splits)
  have x2: "spec_SourceUID ?x2 = spec_SourceUID ?x1" "spec_Scope ?x2 = spec_Scope x"
    "spec_ScheduleRef ?x2 = spec_ScheduleRef x" by simp_all
  show "spec_SourceUID y = sched_UID s" unfolding y using uid x2(1) by (simp only: default_fields) simp
  show "spec_SourceGeneration y = sched_Generation s" unfolding y using gen by (simp only: default_fields) simp
  show "spec_Scope y = spec_Scope x" unfolding y using x2(2) by (simp only: default_fields) simp
  show "spec_ScheduleRef y = (if spec_ScheduleRef x = None
       then Some \<lparr>nor_Name = sched_Name s, nor_Namespace = sched_Namespace s\<rparr> else spec_ScheduleRef x)"
    unfolding y using x2(3) by (simp only: default_fields) simp
qed

lemma scheduled_spec_provenance:
  assumes "scheduled_spec s now req = Inr (spec, t)"
  obtains tspec where "agentScheduleSelectedRunTemplate s (req_TemplateName req) = Inr (tspec, t)"
    "spec_SourceUID spec = sched_UID s" "spec_SourceGeneration spec = sched_Generation s"
    "spec_ScheduleRef spec = (if spec_ScheduleRef tspec = None
       then Some \<lparr>nor_Name = sched_Name s, nor_Namespace = sched_Namespace s\<rparr> else spec_ScheduleRef tspec)"
proof -
  obtain tspec mid where sel: "agentScheduleSelectedRunTemplate s (req_TemplateName req) = Inr (tspec, t)"
    and scope: "scheduled_scope s (req_ApplicationName req) tspec = Inr mid"
    and prov: "scheduled_provenance s now req mid = Inr spec"
    using assms by (auto simp: scheduled_spec_def split: sum.splits)
  have mid: "spec_ScheduleRef mid = spec_ScheduleRef tspec"
    using scope by (auto simp: scheduled_scope_def Let_def split: if_splits option.splits)
  show thesis using that [OF sel] scheduled_provenance_fields [OF prov] mid by simp
qed

lemma scheduled_spec_application:
  assumes "scheduled_spec s now req = Inr (spec, t)" "TrimSpace (req_ApplicationName req) \<noteq> []"
  shows "app_ref_name (scope_ApplicationRef (spec_Scope spec)) = TrimSpace (req_ApplicationName req)"
proof -
  obtain tspec mid where scope: "scheduled_scope s (req_ApplicationName req) tspec = Inr mid"
    and prov: "scheduled_provenance s now req mid = Inr spec"
    using assms(1) by (auto simp: scheduled_spec_def split: sum.splits)
  have "app_ref_name (scope_ApplicationRef (spec_Scope mid)) = TrimSpace (req_ApplicationName req)"
    using scope assms(2)
    by (auto simp: scheduled_scope_def app_ref_name_def Let_def split: if_splits option.splits)
  then show ?thesis using scheduled_provenance_fields [OF prov] by simp
qed

lemma scheduled_name_label: "dns_label (scheduled_name k s now req)"
  unfolding scheduled_name_def Let_def by (rule agentRunChildName_label) simp

lemma validate_None:
  assumes "validateScheduledAgentRun k run expected s = None"
  shows "run_Namespace run = run_Namespace expected \<and> run_Name run = run_Name expected \<and>
    spec_SourceUID (run_Spec run) = sched_UID s \<and>
    (\<forall>(key, v) \<in> set (run_Labels expected). key \<noteq> agentRunTemplateLabel \<longrightarrow> map_get (run_Labels run) key = v) \<and>
    (scheduledAgentRunSpecMatches k (run_Spec run) (run_Spec expected) \<or>
     scheduledAgentRunMatchesSelectedTemplate k run s expected)"
proof -
  have "label_mismatch run (run_Labels expected) = None"
    using assms by (auto simp: validateScheduledAgentRun_def split: if_splits option.splits)
  then have "\<forall>(key, v) \<in> set (run_Labels expected). key \<noteq> agentRunTemplateLabel \<longrightarrow> map_get (run_Labels run) key = v"
    by (auto simp: label_mismatch_def find_None_iff)
  then show ?thesis
    using assms by (simp add: validateScheduledAgentRun_def split: if_splits option.splits prod.splits)
qed

lemma create_cases:
  assumes "createScheduledAgentRun k w s now req = (Inr (run, t), w')"
  obtains spec expected where "scheduled_spec s now req = Inr (spec, t)"
    "expected = scheduled_run k s now (req\<lparr>req_TemplateName := t\<rparr>) spec"
    "k_CreateRun k w expected = (Inr run, w') \<or>
     (\<exists>e. k_CreateRun k w expected = (Inl e, w') \<and> IsAlreadyExists e) \<and>
     k_GetRun k w' (run_Namespace expected) (run_Name expected) = Inr run \<and>
     validateScheduledAgentRun k run expected s = None"
  using assms
  by (auto simp: createScheduledAgentRun_def Let_def split: sum.splits prod.splits if_splits option.splits)

subsection \<open>Properties\<close>

text \<open>
  Detaching. The call removes exactly the controller references of the given owner, keeps the
  order of the others and everything else of the run, reports a removal iff the run changed,
  and does nothing a second time.
\<close>

theorem detach_exact:
  assumes "detachAgentRunControllerOwner run av kind name uid = (run', removed)"
  shows "om_OwnerReferences (run_Meta run') =
      filter (\<lambda>o1. \<not> owned_by av kind name uid o1) (om_OwnerReferences (run_Meta run)) \<and>
    (removed \<longleftrightarrow> run' \<noteq> run) \<and> run_Spec run' = run_Spec run \<and> run_Status run' = run_Status run \<and>
    detachAgentRunControllerOwner run' av kind name uid = (run', False)"
proof -
  have "detachAgentRunControllerOwner run' av kind name uid = (run', False)"
    using detach_owners [OF assms] by (auto simp: detachAgentRunControllerOwner_def Let_def)
  then show ?thesis using detach_owners [OF assms] by blast
qed

definition demo_owned :: AgentRun where
  "demo_owned = (demo_run ''agents'' ''a'' 10)\<lparr>run_Meta := zero_ObjectMeta\<lparr>om_OwnerReferences :=
     [\<lparr>own_APIVersion = GroupVersion, own_Kind = ''AgentSchedule'', own_Name = ''nightly'', own_UID = ''u1'',
       own_Controller = Some True\<rparr>]\<rparr>\<rparr>"

theorem detach_exact_witness:
  "\<exists>run'. detachAgentRunControllerOwner demo_owned GroupVersion ''AgentSchedule'' ''nightly'' ''u1'' = (run', True) \<and>
     run' \<noteq> demo_owned \<and> om_OwnerReferences (run_Meta run') = []"
proof -
  obtain run' where run': "detachAgentRunControllerOwner demo_owned GroupVersion ''AgentSchedule'' ''nightly'' ''u1'' = (run', True)"
    by (simp add: detachAgentRunControllerOwner_def demo_owned_def owned_by_def Let_def)
  from detach_exact [OF run'] run' show ?thesis by (simp add: demo_owned_def owned_by_def)
qed

text \<open>
  A created run is one the schedule will count. If the selected template does not point to
  another schedule, the run that the controller passes to Create belongs to the schedule and
  carries the label that the controller lists by; its name is a valid DNS label, its namespace
  and provenance are those of the schedule, and it is scoped to the application whose holds
  were checked. So the next reconciliation sees it in its concurrency and budget counts.
\<close>

theorem created_run_is_counted:
  assumes spec: "scheduled_spec s now req = Inr (spec, t)"
    and own: "\<And>tspec. agentScheduleSelectedRunTemplate s (req_TemplateName req) = Inr (tspec, t) \<Longrightarrow>
      spec_ScheduleRef tspec = None"
    and ids: "TrimSpace (sched_UID s) \<noteq> []" "TrimSpace (sched_Name s) = sched_Name s"
      "TrimSpace (sched_Namespace s) = sched_Namespace s" "sched_Namespace s \<noteq> []"
  shows "let run = scheduled_run k s now (req\<lparr>req_TemplateName := t\<rparr>) spec in
    agentRunBelongsToSchedule run s \<and>
    map_of (run_Labels run) agentRunScheduleLabel = Some (sanitizeLabelValue (sched_Name s)) \<and>
    run_Namespace run = sched_Namespace s \<and> dns_label (run_Name run) \<and>
    spec_SourceUID (run_Spec run) = sched_UID s \<and> spec_SourceGeneration (run_Spec run) = sched_Generation s \<and>
    \<not> agentRunPhaseTerminal (run_Phase run) \<and>
    (TrimSpace (req_ApplicationName req) \<noteq> [] \<longrightarrow>
       app_ref_name (scope_ApplicationRef (spec_Scope (run_Spec run))) = TrimSpace (req_ApplicationName req))"
proof -
  obtain tspec where tspec: "agentScheduleSelectedRunTemplate s (req_TemplateName req) = Inr (tspec, t)"
    and uid: "spec_SourceUID spec = sched_UID s" "spec_SourceGeneration spec = sched_Generation s"
    and ref: "spec_ScheduleRef spec = (if spec_ScheduleRef tspec = None
       then Some \<lparr>nor_Name = sched_Name s, nor_Namespace = sched_Namespace s\<rparr> else spec_ScheduleRef tspec)"
    using scheduled_spec_provenance [OF spec] by blast
  show ?thesis
    using uid ref own [OF tspec] ids scheduled_labels_schedule scheduled_name_label scheduled_spec_application [OF spec]
    by (simp add: scheduled_run_def agentRunBelongsToSchedule_def firstNonEmpty_def Let_def
        zero_RunStatus_def zero_ObjectMeta_def)
qed

lemma demo_scheduled_spec:
  "\<exists>spec. scheduled_spec demo_schedule 5 (agentScheduleIntervalRunRequest mem_kube demo_schedule 5 []) = Inr (spec, [])"
  by (simp add: scheduled_spec_def agentScheduleSelectedRunTemplate_def agentScheduleIntervalRunRequest_def
      agentScheduleNextTemplateName_def demo_schedule_def zero_ScheduleSpec_def scheduled_scope_def app_ref_name_def
      scheduled_provenance_def default_source_def default_purpose_def zero_RunSpec_def zero_SourceRef_def
      zero_ObjectMeta_def Let_def)

theorem created_run_is_counted_witness:
  "\<exists>spec. agentRunBelongsToSchedule (scheduled_run mem_kube demo_schedule 5
      (agentScheduleIntervalRunRequest mem_kube demo_schedule 5 []) spec) demo_schedule"
proof -
  let ?req = "agentScheduleIntervalRunRequest mem_kube demo_schedule 5 []"
  obtain spec where spec: "scheduled_spec demo_schedule 5 ?req = Inr (spec, [])"
    using demo_scheduled_spec by blast
  have own: "spec_ScheduleRef tspec = None"
    if "agentScheduleSelectedRunTemplate demo_schedule (req_TemplateName ?req) = Inr (tspec, [])" for tspec
    using that by (auto simp: agentScheduleSelectedRunTemplate_def agentScheduleIntervalRunRequest_def
        agentScheduleNextTemplateName_def demo_schedule_def zero_ScheduleSpec_def zero_RunSpec_def)
  have "req_TemplateName ?req = []"
    by (simp add: agentScheduleIntervalRunRequest_def agentScheduleNextTemplateName_def demo_schedule_def
        zero_ScheduleSpec_def)
  then have "?req\<lparr>req_TemplateName := []\<rparr> = ?req" by (cases ?req) simp
  then show ?thesis using created_run_is_counted [OF spec own, of mem_kube] by (auto simp: Let_def)
qed

text \<open>
  Adoption needs provenance. When \<^verbatim>\<open>createScheduledAgentRun\<close> returns a run that it did not
  create, because an object of that name exists, that object has the name, namespace, source
  UID and every provenance label of the run it would have created, and its spec is the
  expected one or that of the template its label names; any other object is an error.
\<close>

theorem adopted_run_has_provenance:
  assumes "createScheduledAgentRun k w s now req = (Inr (run, t), w')"
  shows "\<exists>spec. scheduled_spec s now req = Inr (spec, t) \<and>
    (let expected = scheduled_run k s now (req\<lparr>req_TemplateName := t\<rparr>) spec in
      k_CreateRun k w expected = (Inr run, w') \<or>
      (\<exists>e. k_CreateRun k w expected = (Inl e, w') \<and> IsAlreadyExists e) \<and>
      k_GetRun k w' (run_Namespace expected) (run_Name expected) = Inr run \<and>
      run_Namespace run = sched_Namespace s \<and> run_Name run = run_Name expected \<and>
      spec_SourceUID (run_Spec run) = sched_UID s \<and>
      (\<forall>(key, v) \<in> set (run_Labels expected). key \<noteq> agentRunTemplateLabel \<longrightarrow> map_get (run_Labels run) key = v) \<and>
      (scheduledAgentRunSpecMatches k (run_Spec run) (run_Spec expected) \<or>
       scheduledAgentRunMatchesSelectedTemplate k run s expected))"
proof -
  obtain spec expected where spec: "scheduled_spec s now req = Inr (spec, t)"
    and expected: "expected = scheduled_run k s now (req\<lparr>req_TemplateName := t\<rparr>) spec"
    and how: "k_CreateRun k w expected = (Inr run, w') \<or>
     (\<exists>e. k_CreateRun k w expected = (Inl e, w') \<and> IsAlreadyExists e) \<and>
     k_GetRun k w' (run_Namespace expected) (run_Name expected) = Inr run \<and>
     validateScheduledAgentRun k run expected s = None"
    using create_cases [OF assms] by blast
  have "run_Namespace expected = sched_Namespace s" by (simp add: expected scheduled_run_def)
  then show ?thesis
    using spec how validate_None [of k run expected s] unfolding Let_def expected [symmetric]
    by (intro exI [of _ spec]) (auto simp: expected [symmetric])
qed

theorem adopted_run_has_provenance_witness:
  "\<exists>run t w'. createScheduledAgentRun mem_kube mem_empty demo_schedule 5
      (agentScheduleIntervalRunRequest mem_kube demo_schedule 5 []) = (Inr (run, t), w') \<and>
    (\<exists>spec. scheduled_spec demo_schedule 5 (agentScheduleIntervalRunRequest mem_kube demo_schedule 5 []) = Inr (spec, t))"
proof -
  obtain spec where spec: "scheduled_spec demo_schedule 5
      (agentScheduleIntervalRunRequest mem_kube demo_schedule 5 []) = Inr (spec, [])"
    using demo_scheduled_spec by blast
  then obtain run w' where "createScheduledAgentRun mem_kube mem_empty demo_schedule 5
      (agentScheduleIntervalRunRequest mem_kube demo_schedule 5 []) = (Inr (run, []), w')"
    by (simp add: createScheduledAgentRun_def mem_create_def mem_empty_def Let_def)
  with adopted_run_has_provenance [OF this] show ?thesis by blast
qed

end
