(* ===== verification/Schedule.thy ===== *)
theory Schedule
  imports ScheduleRuns
begin

text \<open>
  \<^verbatim>\<open>AgentScheduleReconciler.Reconcile\<close> (\<^verbatim>\<open>internal/controller/agent_schedule_controller.go\<close>) as a
  chain of stages, each of which ends the reconciliation with a status patch or calls the
  next: validation, observation of the runs and holds, the concurrency and time decisions,
  the idempotence check of a due interval, and creation. The result is \<open>None\<close> where the loop
  of \<^verbatim>\<open>agentScheduleNextRunAfterCreation\<close> does not return. \<open>now\<close> is \<^verbatim>\<open>metav1.Now()\<close>.
\<close>

subsection \<open>Definitions\<close>

definition run_ref :: "AgentRun \<Rightarrow> NamespacedObjectReference" where
  "run_ref r = \<lparr>nor_Name = run_Name r, nor_Namespace = run_Namespace r\<rparr>"

definition run_path :: "AgentRun \<Rightarrow> string" where
  "run_path r = run_Namespace r @ ''/'' @ run_Name r"

definition manual_pending :: "AgentSchedule \<Rightarrow> bool" where
  "manual_pending obj \<longleftrightarrow> agentScheduleManualRunToken obj \<noteq> [] \<and>
     agentScheduleManualRunToken obj \<noteq> sst_LastManualRunToken (sched_Status obj)"

text \<open>Set the Ready condition on \<open>status\<close> and patch it.\<close>

definition schedule_finish ::
  "'w kube \<Rightarrow> 'w \<Rightarrow> AgentSchedule \<Rightarrow> instant \<Rightarrow> AgentScheduleStatus \<Rightarrow> ConditionStatus \<Rightarrow> string \<Rightarrow> string \<Rightarrow>
     duration \<Rightarrow> 'w reconciled" where
  "schedule_finish k w obj now status st reason message requeueAfter =
     patch_status (k_PatchScheduleStatus k) w obj
       (obj\<lparr>sched_Status := status\<lparr>sst_Conditions := k_SetStatusCondition k (sst_Conditions status)
          \<lparr>cond_Type = agentScheduleReady, cond_Status = st, cond_ObservedGeneration = sched_Generation obj,
           cond_LastTransitionTime = now, cond_Reason = reason, cond_Message = message\<rparr>\<rparr>\<rparr>) requeueAfter"

definition token_clause :: "AgentSchedule \<Rightarrow> string" where
  "token_clause obj = ''Manual run token '' @ Quote (agentScheduleManualRunToken obj) @ '' is pending; ''"

definition suspended_message :: "AgentSchedule \<Rightarrow> string" where
  "suspended_message obj =
     (if manual_pending obj
      then ''AgentSchedule is suspended; manual run token '' @ Quote (agentScheduleManualRunToken obj) @ '' remains pending.''
      else ''AgentSchedule is suspended.'')"

text \<open>The reason and message of the first invalid field.\<close>

definition schedule_invalid :: "AgentScheduleSpec \<Rightarrow> (string \<times> string) option" where
  "schedule_invalid spec =
     (if ss_IntervalSeconds spec \<le> 0 then
        Some (''InvalidInterval'', ''spec.intervalSeconds must be greater than zero.'')
      else if ss_MaxConcurrentRuns spec < 0 then
        Some (''InvalidMaxConcurrentRuns'', ''spec.maxConcurrentRuns cannot be negative.'')
      else if ss_MaxRunsPerDay spec < 0 then
        Some (''InvalidMaxRunsPerDay'', ''spec.maxRunsPerDay cannot be negative.'')
      else case ss_Backoff spec of
        Some b \<Rightarrow>
          if bo_FailedSeconds b < 0 \<or> bo_NeedsHumanSeconds b < 0 then
            Some (''InvalidBackoff'', ''spec.backoff failedSeconds and needsHumanSeconds cannot be negative.'')
          else None
      | None \<Rightarrow> None)"

definition pause_message :: "string \<Rightarrow> activeAgentRunPause \<Rightarrow> string" where
  "pause_message app pause =
     (let message = ''Application '' @ Quote app @ '' is paused by AgentRunControl '' @ Quote (pause_ControlName pause) @ ''.''
      in if pause_Reason pause \<noteq> [] then message @ '' Reason: '' @ pause_Reason pause else message)"

definition forbid_message :: "AgentSchedule \<Rightarrow> AgentRun \<Rightarrow> string" where
  "forbid_message obj active =
     (if manual_pending obj then token_clause obj @ ''waiting for active AgentRun '' @ run_path active @ '' to finish.''
      else ''Waiting for active AgentRun '' @ run_path active @ '' to finish.'')"

definition allow_message :: "AgentSchedule \<Rightarrow> int \<Rightarrow> int \<Rightarrow> string" where
  "allow_message obj active maxConcurrent =
     (if manual_pending obj then token_clause obj @ ''waiting for '' else ''Waiting for '') @
     Itoa active @ '' active AgentRuns to drop below maxConcurrentRuns='' @ Itoa maxConcurrent @ ''.''"

definition queue_message :: "int \<Rightarrow> int \<Rightarrow> AgentRun \<Rightarrow> instant \<Rightarrow> string" where
  "queue_message active maxConcurrent head nextRunAt =
     ''Waiting for '' @ Itoa active @ '' non-terminal AgentRuns to drain'' @
     (if maxConcurrent > 1 then '' with maxConcurrentRuns='' @ Itoa maxConcurrent else []) @
     ''; queue head is '' @ run_path head @ ''. Next AgentRun is scheduled for '' @ RFC3339 nextRunAt @ ''.''"

definition scheduled_message :: "bool \<Rightarrow> AgentRun option \<Rightarrow> instant \<Rightarrow> string" where
  "scheduled_message backoff newest nextRunAt =
     (case (backoff, newest) of
        (True, Some l) \<Rightarrow>
          ''Newest AgentRun '' @ run_path l @ '' is '' @ phase_text (run_Phase l) @
          ''; automatic runs are backed off until '' @ RFC3339 nextRunAt @ ''.''
      | _ \<Rightarrow> ''Next AgentRun is scheduled for '' @ RFC3339 nextRunAt @ ''.'')"

definition budget_message :: "AgentSchedule \<Rightarrow> int \<Rightarrow> string" where
  "budget_message obj runsToday =
     (if manual_pending obj then
        token_clause obj @ ''created '' @ Itoa runsToday @ '' AgentRuns today and is waiting for the UTC daily maxRunsPerDay=''
      else ''Created '' @ Itoa runsToday @ '' AgentRuns today; waiting for the UTC daily maxRunsPerDay='') @
     Itoa (ss_MaxRunsPerDay (sched_Spec obj)) @ '' budget to reset.''"

definition existing_message ::
  "AgentRun option \<Rightarrow> AgentScheduleConcurrencyPolicy \<Rightarrow> instant \<Rightarrow> AgentRun \<Rightarrow> instant \<Rightarrow> string" where
  "existing_message active policy nextRunAt existingDue nxt =
     ''Interval due at '' @ RFC3339 nextRunAt @ '' already created AgentRun '' @ run_path existingDue @
     (case active of
        Some a \<Rightarrow>
          if policy = AgentScheduleConcurrencyQueue then
            ''; waiting for queue head '' @ run_path a @ ''. Next AgentRun is scheduled for '' @ RFC3339 nxt @ ''.''
          else ''; advanced next run to '' @ RFC3339 nxt @ ''.''
      | None \<Rightarrow> ''; advanced next run to '' @ RFC3339 nxt @ ''.'')"

definition created_message :: "AgentSchedule \<Rightarrow> AgentRun \<Rightarrow> string \<Rightarrow> string" where
  "created_message obj run template =
     ''Created '' @ (if manual_pending obj then ''manually nudged'' else ''scheduled'') @ '' AgentRun '' @ run_path run @
     (if template \<noteq> [] then '' from template '' @ Quote template else []) @
     (if manual_pending obj then '' for token '' @ Quote (agentScheduleManualRunToken obj) else []) @ ''.''"

text \<open>The request for the new run.\<close>

definition schedule_request ::
  "'w kube \<Rightarrow> AgentSchedule \<Rightarrow> instant \<Rightarrow> string \<Rightarrow> string \<Rightarrow> instant \<Rightarrow> agentScheduleRunRequest" where
  "schedule_request k obj now app lastIntervalTemplate nextRunAt =
     (if manual_pending obj
      then agentScheduleManualRunRequest k obj (agentScheduleManualRunToken obj)
             (agentScheduleManualRunTemplateName obj) now
      else agentScheduleIntervalRunRequest k obj nextRunAt lastIntervalTemplate)\<lparr>req_ApplicationName := app\<rparr>"

text \<open>The status after a creation.\<close>

definition created_status ::
  "AgentSchedule \<Rightarrow> AgentScheduleStatus \<Rightarrow> instant \<Rightarrow> AgentRun list \<Rightarrow> AgentRun \<Rightarrow> string \<Rightarrow> instant \<Rightarrow> AgentScheduleStatus" where
  "created_status obj status now activeRuns run template nxt =
     (let policy = agentScheduleConcurrencyPolicy obj;
          activeForStatus = (case agentScheduleActiveRunForStatus policy activeRuns of
              Some a \<Rightarrow> if policy = AgentScheduleConcurrencyQueue then a else run
            | None \<Rightarrow> run)
      in status\<lparr>
           sst_Phase := AgentSchedulePhaseRunning,
           sst_ActiveRunRef := Some (run_ref activeForStatus),
           sst_LastRunRef := Some (run_ref run),
           sst_ActiveRunCount :=
             (if \<not> agentRunPhaseTerminal (run_Phase run) \<and> \<not> agentScheduleRunInList activeRuns run
              then int (length activeRuns) + 1 else sst_ActiveRunCount status),
           sst_LastRunAt := Some now,
           sst_LastRunTemplate := template,
           sst_NextRunAt := Some nxt,
           sst_LastManualRunToken :=
             (if manual_pending obj then agentScheduleManualRunToken obj else sst_LastManualRunToken status),
           sst_LastError := []\<rparr>)"

text \<open>The creation stage: create the run and record it.\<close>

definition schedule_create ::
  "'w kube \<Rightarrow> 'w \<Rightarrow> AgentSchedule \<Rightarrow> instant \<Rightarrow> AgentScheduleStatus \<Rightarrow> string \<Rightarrow> AgentRun list \<Rightarrow> string \<Rightarrow> instant \<Rightarrow>
     'w reconciled option" where
  "schedule_create k w obj now status app activeRuns lastIntervalTemplate nextRunAt =
     (case createScheduledAgentRun k w obj now
             (schedule_request k obj now app lastIntervalTemplate nextRunAt) of
        (Inl e, w') \<Rightarrow> Some (Inl e, w')
      | (Inr (run, template), w') \<Rightarrow>
          (case agentScheduleNextRunAfterCreation obj nextRunAt now (manual_pending obj) of
             None \<Rightarrow> None
           | Some nxt \<Rightarrow>
               Some (schedule_finish k w' obj now (created_status obj status now activeRuns run template nxt)
                 ConditionFalse ''RunCreated'' (created_message obj run template) agentSchedulePollInterval)))"

text \<open>The idempotence stage: an interval that already has its run is not created again.\<close>

definition schedule_tick ::
  "'w kube \<Rightarrow> 'w \<Rightarrow> AgentSchedule \<Rightarrow> instant \<Rightarrow> AgentScheduleStatus \<Rightarrow> string \<Rightarrow> AgentRun list \<Rightarrow> string \<Rightarrow> instant \<Rightarrow>
     'w reconciled option" where
  "schedule_tick k w obj now status app activeRuns lastIntervalTemplate nextRunAt =
     (let policy = agentScheduleConcurrencyPolicy obj;
          active = agentScheduleActiveRunForStatus policy activeRuns in
      if manual_pending obj then schedule_create k w obj now status app activeRuns lastIntervalTemplate nextRunAt
      else case agentScheduleIntervalRunForMessage k w obj (agentScheduleIntervalTriggerMessage obj nextRunAt) of
        Inl e \<Rightarrow> Some (Inl e, w)
      | Inr None \<Rightarrow> schedule_create k w obj now status app activeRuns lastIntervalTemplate nextRunAt
      | Inr (Some existingDue) \<Rightarrow>
          (case agentScheduleNextRunAfterCreation obj nextRunAt now False of
             None \<Rightarrow> None
           | Some nxt \<Rightarrow>
               (let template = map_get (run_Labels existingDue) agentRunTemplateLabel;
                    status = status\<lparr>
                      sst_Phase := AgentSchedulePhaseRunning,
                      sst_ActiveRunRef := (case active of
                          Some a \<Rightarrow> Some (run_ref a)
                        | None \<Rightarrow> if \<not> agentRunPhaseTerminal (run_Phase existingDue) then Some (run_ref existingDue)
                            else sst_ActiveRunRef status),
                      sst_LastRunRef := Some (run_ref existingDue),
                      sst_LastRunPhase := run_Phase existingDue,
                      sst_LastRunAt := (case rs_StartedAt (run_Status existingDue) of
                          Some t \<Rightarrow> Some t
                        | None \<Rightarrow> if sst_LastRunAt status = None then Some now else sst_LastRunAt status),
                      sst_LastRunTemplate := (if template \<noteq> [] then template else sst_LastRunTemplate status),
                      sst_NextRunAt := Some nxt,
                      sst_LastError := []\<rparr>
                in Some (schedule_finish k w obj now status ConditionFalse ''IntervalAlreadyCreated''
                     (existing_message active policy nextRunAt existingDue nxt) agentSchedulePollInterval))))"

text \<open>The waiting stages: not yet due, and the daily budget.\<close>

definition schedule_wait ::
  "'w kube \<Rightarrow> 'w \<Rightarrow> AgentSchedule \<Rightarrow> instant \<Rightarrow> AgentScheduleStatus \<Rightarrow> string \<Rightarrow> AgentRun list \<Rightarrow> AgentRun option \<Rightarrow>
     string \<Rightarrow> int \<Rightarrow> instant \<Rightarrow> bool \<Rightarrow> 'w reconciled option" where
  "schedule_wait k w obj now status app activeRuns newest lastIntervalTemplate runsToday nextRunAt backoff =
     (let policy = agentScheduleConcurrencyPolicy obj;
          active = agentScheduleActiveRunForStatus policy activeRuns;
          maxDay = ss_MaxRunsPerDay (sched_Spec obj) in
      if \<not> manual_pending obj \<and> nextRunAt > now then
        (if active \<noteq> None \<and> policy = AgentScheduleConcurrencyQueue then
           Some (schedule_finish k w obj now
             (status\<lparr>sst_Phase := AgentSchedulePhaseRunning, sst_LastError := []\<rparr>) ConditionFalse ''QueueActive''
             (queue_message (int (length activeRuns)) (agentScheduleMaxConcurrentRuns obj) (the active) nextRunAt)
             agentSchedulePollInterval)
         else
           Some (schedule_finish k w obj now
             (status\<lparr>sst_Phase := AgentSchedulePhaseScheduled, sst_LastError := []\<rparr>) ConditionTrue
             (if backoff then ''TerminalBackoff'' else ''NextRunScheduled'')
             (scheduled_message backoff newest nextRunAt) (time_sub nextRunAt now)))
      else if maxDay > 0 \<and> runsToday \<ge> maxDay then
        Some (schedule_finish k w obj now
          (status\<lparr>sst_Phase := AgentSchedulePhaseBlocked, sst_LastError := []\<rparr>) ConditionFalse
          ''DailyRunBudgetReached'' (budget_message obj runsToday)
          (time_sub (time_trunc now Hour24 + Hour24) now))
      else schedule_tick k w obj now status app activeRuns lastIntervalTemplate nextRunAt)"

text \<open>The concurrency stages: the next run time and the concurrency policies.\<close>

definition schedule_due ::
  "'w kube \<Rightarrow> 'w \<Rightarrow> AgentSchedule \<Rightarrow> instant \<Rightarrow> AgentScheduleStatus \<Rightarrow> string \<Rightarrow> AgentRun list \<Rightarrow> AgentRun option \<Rightarrow>
     string \<Rightarrow> int \<Rightarrow> 'w reconciled option" where
  "schedule_due k w obj now status app activeRuns newest lastIntervalTemplate runsToday =
     (let policy = agentScheduleConcurrencyPolicy obj;
          active = agentScheduleActiveRunForStatus policy activeRuns;
          previous = sst_ObservedGeneration (sched_Status obj);
          generationChanged = (previous \<noteq> 0 \<and> previous \<noteq> sched_Generation obj);
          (nextRunAt, backoff) = agentScheduleNextRunWithTerminalBackoff obj newest
            (agentScheduleNextRunTime obj status now generationChanged);
          status = status\<lparr>sst_NextRunAt := Some nextRunAt\<rparr>;
          maxConcurrent = agentScheduleMaxConcurrentRuns obj in
      if active \<noteq> None \<and> policy = AgentScheduleConcurrencyForbid then
        (case (if \<not> manual_pending obj \<and> \<not> nextRunAt > now
               then agentScheduleNextRunAfterCreation obj nextRunAt now False else Some nextRunAt) of
           None \<Rightarrow> None
         | Some nxt \<Rightarrow>
             Some (schedule_finish k w obj now
               (status\<lparr>sst_NextRunAt := Some nxt, sst_Phase := AgentSchedulePhaseRunning, sst_LastError := []\<rparr>)
               ConditionFalse ''RunActive'' (forbid_message obj (the active)) agentSchedulePollInterval))
      else if policy = AgentScheduleConcurrencyAllow \<and> maxConcurrent > 0 \<and> int (length activeRuns) \<ge> maxConcurrent then
        Some (schedule_finish k w obj now
          (status\<lparr>sst_Phase := AgentSchedulePhaseRunning, sst_LastError := []\<rparr>) ConditionFalse
          ''MaxConcurrentRunsReached'' (allow_message obj (int (length activeRuns)) maxConcurrent)
          agentSchedulePollInterval)
      else schedule_wait k w obj now status app activeRuns newest lastIntervalTemplate runsToday nextRunAt backoff)"

text \<open>The observation stages: the runs of the schedule, then the launch holds.\<close>

definition observed_status ::
  "AgentSchedule \<Rightarrow> AgentScheduleStatus \<Rightarrow> AgentRun list \<Rightarrow> AgentRun option \<Rightarrow> AgentScheduleStatus" where
  "observed_status obj status activeRuns newest =
     (let active = agentScheduleActiveRunForStatus (agentScheduleConcurrencyPolicy obj) activeRuns;
          status = status\<lparr>sst_ActiveRunRef := map_option run_ref active,
                          sst_ActiveRunCount := int (length activeRuns)\<rparr> in
      case newest of
        None \<Rightarrow> status
      | Some l \<Rightarrow> status\<lparr>sst_LastRunRef := Some (run_ref l), sst_LastRunPhase := run_Phase l,
          sst_LastRunAt := (case rs_StartedAt (run_Status l) of Some t \<Rightarrow> Some t | None \<Rightarrow> sst_LastRunAt status)\<rparr>)"

definition schedule_observe ::
  "'w kube \<Rightarrow> 'w \<Rightarrow> AgentSchedule \<Rightarrow> instant \<Rightarrow> AgentScheduleStatus \<Rightarrow> string \<Rightarrow> 'w reconciled option" where
  "schedule_observe k w obj now status app =
     (case agentScheduleRuns k w obj now of
        (Inl e, w') \<Rightarrow> Some (Inl e, w')
      | (Inr (activeRuns, newest, lastIntervalTemplate, runsToday), w') \<Rightarrow>
          (let status = observed_status obj status activeRuns newest in
           case activeAgentRunPauseForApplication k w' app now of
             Inl e \<Rightarrow> Some (Inl e, w')
           | Inr (Some pause) \<Rightarrow>
               Some (schedule_finish k w' obj now
                 (status\<lparr>sst_Phase := AgentSchedulePhaseSuspended, sst_NextRunAt := None, sst_LastError := []\<rparr>)
                 ConditionFalse ''ApplicationPaused'' (pause_message app pause)
                 (agentRunPauseRequeueAfter (Some pause) now))
           | Inr None \<Rightarrow> schedule_due k w' obj now status app activeRuns newest lastIntervalTemplate runsToday))"

text \<open>The first stages: suspension, validation and the application of the schedule.\<close>

definition schedule_validate :: "'w kube \<Rightarrow> 'w \<Rightarrow> AgentSchedule \<Rightarrow> instant \<Rightarrow> 'w reconciled option" where
  "schedule_validate k w obj now =
     (let status = (sched_Status obj)\<lparr>sst_ObservedGeneration := sched_Generation obj\<rparr> in
      if ss_Suspend (sched_Spec obj) then
        Some (schedule_finish k w obj now
          (status\<lparr>sst_Phase := AgentSchedulePhaseSuspended, sst_NextRunAt := None\<rparr>) ConditionFalse
          ''Suspended'' (suspended_message obj) 0)
      else case schedule_invalid (sched_Spec obj) of
        Some (reason, message) \<Rightarrow>
          Some (schedule_finish k w obj now
            (status\<lparr>sst_Phase := AgentSchedulePhaseBlocked, sst_LastError := message\<rparr>) ConditionFalse reason message 0)
      | None \<Rightarrow>
          (case resolveAgentScheduleApplicationName k w obj of
             Inl e \<Rightarrow>
               Some (schedule_finish k w obj now
                 (status\<lparr>sst_Phase := AgentSchedulePhaseBlocked, sst_NextRunAt := None, sst_LastError := error_text e\<rparr>)
                 ConditionFalse ''InvalidApplicationIdentity'' (error_text e) agentSchedulePollInterval)
           | Inr app \<Rightarrow> schedule_observe k w obj now status app))"

definition AgentScheduleReconcile ::
  "'w kube \<Rightarrow> 'w \<Rightarrow> string \<Rightarrow> string \<Rightarrow> instant \<Rightarrow> 'w reconciled option" where
  "AgentScheduleReconcile k w ns name now =
     (case k_GetSchedule k w ns name of
        Inl e \<Rightarrow> Some (IgnoreNotFound e, w)
      | Inr obj \<Rightarrow>
          if being_deleted (sched_Meta obj) then Some (Inr no_requeue, w)
          else schedule_validate k w obj now)"

subsection \<open>The Create calls of each stage\<close>

lemma creates_finish [simp]: "creates (schedule_finish (observe k) w obj now st cs reason m d) = snd w"
  by (simp add: schedule_finish_def)

lemma observe_request [simp]:
  "schedule_request (observe k) obj now app lt nx = schedule_request k obj now app lt nx"
  by (simp add: schedule_request_def)

text \<open>The run that a reconciliation passes to Create.\<close>

definition new_run :: "'w kube \<Rightarrow> AgentSchedule \<Rightarrow> instant \<Rightarrow> string \<Rightarrow> string \<Rightarrow> instant \<Rightarrow> AgentRun \<Rightarrow> bool" where
  "new_run k obj now app lastIntervalTemplate nextRunAt run \<longleftrightarrow>
     (let request = schedule_request k obj now app lastIntervalTemplate nextRunAt in
      \<exists>spec t. scheduled_spec obj now request = Inr (spec, t) \<and>
        run = scheduled_run k obj now (request\<lparr>req_TemplateName := t\<rparr>) spec)"

lemma create_stage:
  assumes "schedule_create (observe k) (w, l) obj now st app act lt nx = Some r"
  shows "creates r = l \<or> (\<exists>run. new_run k obj now app lt nx run \<and> creates r = l @ [run])"
proof -
  obtain a w' where c: "createScheduledAgentRun k w obj now (schedule_request k obj now app lt nx) = (a, w')"
    by fastforce
  show ?thesis
    using assms c
    by (auto simp: schedule_create_def observe_create new_run_def Let_def
        split: sum.splits option.splits prod.splits)
qed

lemma tick_stage:
  assumes "schedule_tick (observe k) (w, l) obj now st app act lt nx = Some r" "creates r \<noteq> l"
  shows "schedule_create (observe k) (w, l) obj now st app act lt nx = Some r \<and>
    (manual_pending obj \<or>
     agentScheduleIntervalRunForMessage k w obj (agentScheduleIntervalTriggerMessage obj nx) = Inr None)"
  using assms
  by (auto simp: schedule_tick_def Let_def split: if_splits sum.splits option.splits)

lemma wait_stage:
  assumes "schedule_wait (observe k) (w, l) obj now st app act newest lt today nx b = Some r" "creates r \<noteq> l"
  shows "schedule_tick (observe k) (w, l) obj now st app act lt nx = Some r \<and>
    (manual_pending obj \<or> nx \<le> now) \<and>
    (0 < ss_MaxRunsPerDay (sched_Spec obj) \<longrightarrow> today < ss_MaxRunsPerDay (sched_Spec obj))"
  using assms by (auto simp: schedule_wait_def Let_def split: if_splits)

text \<open>The due time the controller works with: the next run time after the terminal backoff.\<close>

definition due_time :: "AgentSchedule \<Rightarrow> AgentScheduleStatus \<Rightarrow> instant \<Rightarrow> AgentRun option \<Rightarrow> instant" where
  "due_time obj status now newest =
     fst (agentScheduleNextRunWithTerminalBackoff obj newest (agentScheduleNextRunTime obj status now
       (sst_ObservedGeneration (sched_Status obj) \<noteq> 0 \<and>
        sst_ObservedGeneration (sched_Status obj) \<noteq> sched_Generation obj)))"

lemma due_stage:
  assumes "schedule_due (observe k) (w, l) obj now st app act newest lt today = Some r" "creates r \<noteq> l"
  shows "(\<exists>st' b. schedule_wait (observe k) (w, l) obj now st' app act newest lt today (due_time obj st now newest) b = Some r) \<and>
    (agentScheduleConcurrencyPolicy obj = AgentScheduleConcurrencyForbid \<longrightarrow> act = []) \<and>
    (agentScheduleConcurrencyPolicy obj = AgentScheduleConcurrencyAllow \<longrightarrow> 0 < agentScheduleMaxConcurrentRuns obj \<longrightarrow>
       int (length act) < agentScheduleMaxConcurrentRuns obj)"
proof -
  obtain nx b where nx: "agentScheduleNextRunWithTerminalBackoff obj newest (agentScheduleNextRunTime obj st now
       (sst_ObservedGeneration (sched_Status obj) \<noteq> 0 \<and>
        sst_ObservedGeneration (sched_Status obj) \<noteq> sched_Generation obj)) = (nx, b)"
    by fastforce
  then have due: "due_time obj st now newest = nx" by (simp add: due_time_def)
  show ?thesis
    using assms unfolding due
    by (auto simp: schedule_due_def nx Let_def split: if_splits option.splits)
qed

lemma observe_stage:
  assumes "schedule_observe (observe k) (w, l) obj now st app = Some r" "creates r \<noteq> l"
  obtains act newest lt today w1 where "agentScheduleRuns k w obj now = (Inr (act, newest, lt, today), w1)"
    "activeAgentRunPauseForApplication k w1 app now = Inr None"
    "schedule_due (observe k) (w1, l) obj now (observed_status obj st act newest) app act newest lt today = Some r"
proof -
  obtain a w1 where a: "agentScheduleRuns k w obj now = (a, w1)" by fastforce
  show thesis
    using assms a that
    by (auto simp: schedule_observe_def observe_agentScheduleRuns Let_def split: sum.splits option.splits)
qed

lemma validate_stage:
  assumes "schedule_validate (observe k) (w, l) obj now = Some r" "creates r \<noteq> l"
  obtains app where "\<not> ss_Suspend (sched_Spec obj)" "schedule_invalid (sched_Spec obj) = None"
    "resolveAgentScheduleApplicationName k w obj = Inr app"
    "schedule_observe (observe k) (w, l) obj now
       ((sched_Status obj)\<lparr>sst_ObservedGeneration := sched_Generation obj\<rparr>) app = Some r"
  using assms by (auto simp: schedule_validate_def Let_def split: if_splits sum.splits option.splits)

lemma reconcile_stage:
  assumes "AgentScheduleReconcile (observe k) (w, l) ns name now = Some r" "creates r \<noteq> l"
  obtains obj where "k_GetSchedule k w ns name = Inr obj" "\<not> being_deleted (sched_Meta obj)"
    "schedule_validate (observe k) (w, l) obj now = Some r"
  using assms by (auto simp: AgentScheduleReconcile_def split: if_splits sum.splits)

subsection \<open>A permitted schedule creates\<close>

lemma agentScheduleNextRunAfterCreation_returns:
  assumes "0 < ss_IntervalSeconds (sched_Spec obj)" "ss_IntervalSeconds (sched_Spec obj) \<le> max_seconds"
  shows "\<exists>t. agentScheduleNextRunAfterCreation obj nx now m = Some t"
  using next_run_loop_first_after [OF seconds_pos [OF assms]] by (auto simp: agentScheduleNextRunAfterCreation_def)

lemma schedule_valid_interval: "schedule_invalid spec = None \<Longrightarrow> 0 < ss_IntervalSeconds spec"
  by (simp add: schedule_invalid_def split: if_splits)

lemma create_forward:
  assumes "0 < ss_IntervalSeconds (sched_Spec obj)" "ss_IntervalSeconds (sched_Spec obj) \<le> max_seconds"
    and "scheduled_spec obj now (schedule_request k obj now app lt nx) = Inr (spec, t)"
  shows "\<exists>r run. schedule_create (observe k) (w, l) obj now st app act lt nx = Some r \<and>
    new_run k obj now app lt nx run \<and> creates r = l @ [run]"
proof -
  obtain nxt where nxt: "agentScheduleNextRunAfterCreation obj nx now (manual_pending obj) = Some nxt"
    using agentScheduleNextRunAfterCreation_returns [OF assms(1,2)] by blast
  obtain a w' where c: "createScheduledAgentRun k w obj now (schedule_request k obj now app lt nx) = (a, w')"
    by fastforce
  let ?run = "scheduled_run k obj now (schedule_request k obj now app lt nx\<lparr>req_TemplateName := t\<rparr>) spec"
  let ?r = "schedule_create (observe k) (w, l) obj now st app act lt nx"
  have "case ?r of None \<Rightarrow> False | Some r \<Rightarrow> creates r = l @ [?run]"
    using assms(3) c nxt by (cases a) (auto simp: schedule_create_def observe_create Let_def)
  then obtain r where "?r = Some r" "creates r = l @ [?run]" by (cases ?r) simp_all
  moreover have "new_run k obj now app lt nx ?run" using assms(3) by (simp add: new_run_def Let_def)
  ultimately show ?thesis by blast
qed

lemma due_forward:
  assumes "agentScheduleNextRunWithTerminalBackoff obj newest (agentScheduleNextRunTime obj st now
       (sst_ObservedGeneration (sched_Status obj) \<noteq> 0 \<and>
        sst_ObservedGeneration (sched_Status obj) \<noteq> sched_Generation obj)) = (nx, b)"
    and "agentScheduleConcurrencyPolicy obj = AgentScheduleConcurrencyForbid \<longrightarrow> act = []"
    and "\<not> (agentScheduleConcurrencyPolicy obj = AgentScheduleConcurrencyAllow \<and> 0 < agentScheduleMaxConcurrentRuns obj \<and>
      agentScheduleMaxConcurrentRuns obj \<le> int (length act))"
  shows "schedule_due k w obj now st app act newest lt today =
    schedule_wait k w obj now (st\<lparr>sst_NextRunAt := Some nx\<rparr>) app act newest lt today nx b"
proof -
  have "\<not> (agentScheduleActiveRunForStatus (agentScheduleConcurrencyPolicy obj) act \<noteq> None \<and>
      agentScheduleConcurrencyPolicy obj = AgentScheduleConcurrencyForbid)"
    using assms(2) by auto
  then show ?thesis
    unfolding schedule_due_def Let_def assms(1) prod.case by (simp only: assms(3) if_False)
qed

lemma backoff_no_run: "agentScheduleNextRunWithTerminalBackoff s None existing = (existing, False)"
  by (simp add: agentScheduleNextRunWithTerminalBackoff_def split: option.splits)

lemma observed_no_run:
  "sst_NextRunAt (observed_status obj (st\<lparr>sst_ObservedGeneration := g\<rparr>) act None) = sst_NextRunAt st"
  "sst_LastRunAt (observed_status obj (st\<lparr>sst_ObservedGeneration := g\<rparr>) act None) = sst_LastRunAt st"
  by (simp_all add: observed_status_def Let_def)

lemma permitted_creates:
  assumes obj: "k_GetSchedule k w ns name = Inr obj" "\<not> being_deleted (sched_Meta obj)" "\<not> ss_Suspend (sched_Spec obj)"
    and valid: "schedule_invalid (sched_Spec obj) = None" "ss_IntervalSeconds (sched_Spec obj) \<le> max_seconds"
    and app: "resolveAgentScheduleApplicationName k w obj = Inr app"
    and runs: "agentScheduleRuns k w obj now = (Inr (act, newest, lt, today), w1)"
    and pause: "activeAgentRunPauseForApplication k w1 app now = Inr None"
    and forbid: "agentScheduleConcurrencyPolicy obj = AgentScheduleConcurrencyForbid \<longrightarrow> act = []"
    and allow: "agentScheduleConcurrencyPolicy obj = AgentScheduleConcurrencyAllow \<and> 0 < agentScheduleMaxConcurrentRuns obj \<longrightarrow>
      int (length act) < agentScheduleMaxConcurrentRuns obj"
    and budget: "0 < ss_MaxRunsPerDay (sched_Spec obj) \<longrightarrow> today < ss_MaxRunsPerDay (sched_Spec obj)"
    and due: "nx = due_time obj (observed_status obj ((sched_Status obj)\<lparr>sst_ObservedGeneration := sched_Generation obj\<rparr>)
        act newest) now newest"
      "manual_pending obj \<or> nx \<le> now \<and>
       agentScheduleIntervalRunForMessage k w1 obj (agentScheduleIntervalTriggerMessage obj nx) = Inr None"
    and spec: "scheduled_spec obj now (schedule_request k obj now app lt nx) = Inr (spec, t)"
  shows "\<exists>r run. AgentScheduleReconcile (observe k) (w, []) ns name now = Some r \<and>
    new_run k obj now app lt nx run \<and> creates r = [run]"
proof -
  let ?st = "observed_status obj ((sched_Status obj)\<lparr>sst_ObservedGeneration := sched_Generation obj\<rparr>) act newest"
  obtain b where nxb: "agentScheduleNextRunWithTerminalBackoff obj newest (agentScheduleNextRunTime obj ?st now
       (sst_ObservedGeneration (sched_Status obj) \<noteq> 0 \<and>
        sst_ObservedGeneration (sched_Status obj) \<noteq> sched_Generation obj)) = (nx, b)"
    using due(1) unfolding due_time_def by (metis prod.collapse)
  let ?st2 = "?st\<lparr>sst_NextRunAt := Some nx\<rparr>"
  have allow': "\<not> (agentScheduleConcurrencyPolicy obj = AgentScheduleConcurrencyAllow \<and>
      0 < agentScheduleMaxConcurrentRuns obj \<and> agentScheduleMaxConcurrentRuns obj \<le> int (length act))"
    using allow by auto
  obtain r run where r: "schedule_create (observe k) (w1, []) obj now ?st2 app act lt nx = Some r"
      "new_run k obj now app lt nx run" "creates r = [run]"
    using create_forward [OF schedule_valid_interval [OF valid(1)] valid(2) spec, of w1 "[]" ?st2 act] by auto
  have "schedule_tick (observe k) (w1, []) obj now ?st2 app act lt nx = Some r"
    using due(2) r(1) by (auto simp: schedule_tick_def Let_def)
  then have "schedule_wait (observe k) (w1, []) obj now ?st2 app act newest lt today nx b = Some r"
    using due(2) budget by (auto simp: schedule_wait_def Let_def)
  then have "schedule_due (observe k) (w1, []) obj now ?st app act newest lt today = Some r"
    by (simp only: due_forward [OF nxb forbid allow'])
  then have "schedule_validate (observe k) (w, []) obj now = Some r"
    using obj(3) valid(1) app runs pause
    by (simp add: schedule_validate_def schedule_observe_def observe_agentScheduleRuns Let_def)
  then show ?thesis using r obj(1,2) by (auto simp: AgentScheduleReconcile_def)
qed

lemma create_guards:
  assumes "AgentScheduleReconcile (observe k) (w, []) ns name now = Some r" "creates r \<noteq> []"
  obtains obj app act newest lt today w1 nx run where
    "k_GetSchedule k w ns name = Inr obj" "\<not> being_deleted (sched_Meta obj)" "\<not> ss_Suspend (sched_Spec obj)"
    "schedule_invalid (sched_Spec obj) = None"
    "resolveAgentScheduleApplicationName k w obj = Inr app"
    "agentScheduleRuns k w obj now = (Inr (act, newest, lt, today), w1)"
    "activeAgentRunPauseForApplication k w1 app now = Inr None"
    "agentScheduleConcurrencyPolicy obj = AgentScheduleConcurrencyForbid \<longrightarrow> act = []"
    "agentScheduleConcurrencyPolicy obj = AgentScheduleConcurrencyAllow \<longrightarrow> 0 < agentScheduleMaxConcurrentRuns obj \<longrightarrow>
       int (length act) < agentScheduleMaxConcurrentRuns obj"
    "0 < ss_MaxRunsPerDay (sched_Spec obj) \<longrightarrow> today < ss_MaxRunsPerDay (sched_Spec obj)"
    "manual_pending obj \<or> nx \<le> now \<and>
       agentScheduleIntervalRunForMessage k w1 obj (agentScheduleIntervalTriggerMessage obj nx) = Inr None"
    "nx = due_time obj (observed_status obj
       ((sched_Status obj)\<lparr>sst_ObservedGeneration := sched_Generation obj\<rparr>) act newest) now newest"
    "new_run k obj now app lt nx run" "creates r = [run]"
proof -
  obtain obj where obj: "k_GetSchedule k w ns name = Inr obj" "\<not> being_deleted (sched_Meta obj)"
      "schedule_validate (observe k) (w, []) obj now = Some r"
    using reconcile_stage [OF assms] by blast
  let ?st = "(sched_Status obj)\<lparr>sst_ObservedGeneration := sched_Generation obj\<rparr>"
  obtain app where app: "\<not> ss_Suspend (sched_Spec obj)" "schedule_invalid (sched_Spec obj) = None"
      "resolveAgentScheduleApplicationName k w obj = Inr app" and
      st1: "schedule_observe (observe k) (w, []) obj now ?st app = Some r"
    using validate_stage [OF obj(3) assms(2)] by blast
  obtain act newest lt today w1 where runs: "agentScheduleRuns k w obj now = (Inr (act, newest, lt, today), w1)"
      "activeAgentRunPauseForApplication k w1 app now = Inr None" and
      st2: "schedule_due (observe k) (w1, []) obj now (observed_status obj ?st act newest) app act newest lt today = Some r"
    using observe_stage [OF st1 assms(2)] by blast
  note due = due_stage [OF st2 assms(2)]
  obtain st' b nx where nx: "nx = due_time obj (observed_status obj ?st act newest) now newest"
    and st3: "schedule_wait (observe k) (w1, []) obj now st' app act newest lt today nx b = Some r"
    using due by blast
  note wait = wait_stage [OF st3 assms(2)]
  then have st4: "schedule_tick (observe k) (w1, []) obj now st' app act lt nx = Some r" by blast
  note tick = tick_stage [OF st4 assms(2)]
  then obtain run where run: "new_run k obj now app lt nx run" "creates r = [run]"
    using create_stage [of k w1 "[]" obj now st' app act lt nx r] assms(2) by auto
  show thesis
    by (rule that [OF obj(1,2) app runs _ _ _ _ nx run]) (use due wait tick in blast)+
qed

subsection \<open>The counts of the scan\<close>

lemma detach_keeps [simp]:
  "run_CreationTimestamp (fst (detachAgentRunControllerOwner r av kd nm uid)) = run_CreationTimestamp r"
  "run_Phase (fst (detachAgentRunControllerOwner r av kd nm uid)) = run_Phase r"
  by (simp_all add: detachAgentRunControllerOwner_def Let_def)

lemma filter_map_filter:
  "(\<And>x. P (f x) = P x) \<Longrightarrow> length (filter P (map f (filter Q xs))) = length (filter (\<lambda>x. Q x \<and> P x) xs)"
  by (induction xs) auto

lemma scan_counts:
  assumes runs: "agentScheduleRuns k w obj now = (Inr (act, newest, lt, today), w1)" "schedule_list k w obj = Inr rs"
    and keep: "\<And>w a b c w'. k_PatchRun k w a b = (Inr c, w') \<Longrightarrow> c = b"
  shows "length act = length (filter (\<lambda>r. agentRunBelongsToSchedule r obj \<and> \<not> agentRunPhaseTerminal (run_Phase r)) rs)"
    and "today = int (length (filter (\<lambda>r. agentRunBelongsToSchedule r obj \<and>
      time_trunc now Hour24 \<le> run_CreationTimestamp r \<and> run_CreationTimestamp r < time_trunc now Hour24 + Hour24) rs))"
proof -
  obtain acc where acc: "schedule_runs_loop k obj (time_trunc now Hour24) w empty_scan rs = (Inr acc, w1)"
    and act: "act = scan_active acc" and today: "today = scan_runsToday acc"
    using runs by (auto simp: agentScheduleRuns_def empty_scan_def split: prod.splits sum.splits)
  have fold: "acc = fold (scan_run (time_trunc now Hour24))
    (map (\<lambda>r. fst (detachAgentRunControllerOwner r GroupVersion ''AgentSchedule'' (sched_Name obj) (sched_UID obj)))
      (filter (\<lambda>r. agentRunBelongsToSchedule r obj) rs)) empty_scan"
    by (rule schedule_runs_loop_fold [OF acc]) (rule keep)
  show "length act = length (filter (\<lambda>r. agentRunBelongsToSchedule r obj \<and> \<not> agentRunPhaseTerminal (run_Phase r)) rs)"
    unfolding act fold scan_active_fold by (simp add: filter_map_filter empty_scan_def)
  show "today = int (length (filter (\<lambda>r. agentRunBelongsToSchedule r obj \<and>
      time_trunc now Hour24 \<le> run_CreationTimestamp r \<and> run_CreationTimestamp r < time_trunc now Hour24 + Hour24) rs))"
    unfolding today fold scan_today_fold by (simp add: filter_map_filter empty_scan_def)
qed

subsection \<open>The reconciliation returns\<close>

lemma reconcile_returns:
  assumes "\<And>obj. k_GetSchedule k w ns name = Inr obj \<Longrightarrow> ss_IntervalSeconds (sched_Spec obj) \<le> max_seconds"
  shows "\<exists>r. AgentScheduleReconcile k w ns name now = Some r"
proof -
  have some: "AgentScheduleReconcile k w ns name now \<noteq> None"
    if obj: "k_GetSchedule k w ns name = Inr obj" for obj
  proof (cases "schedule_invalid (sched_Spec obj) = None")
    case False
    then show ?thesis by (auto simp: AgentScheduleReconcile_def schedule_validate_def obj Let_def)
  next
    case True
    have "\<forall>nx m. \<exists>t. agentScheduleNextRunAfterCreation obj nx now m = Some t"
      using agentScheduleNextRunAfterCreation_returns [OF schedule_valid_interval [OF True] assms [OF obj]] by blast
    then obtain f where f: "\<And>nx m. agentScheduleNextRunAfterCreation obj nx now m = Some (f nx m)" by metis
    have create: "schedule_create k w1 obj now st app act lt nx \<noteq> None" for w1 st app act lt nx
      by (simp add: schedule_create_def f Let_def split: prod.splits sum.splits)
    have tick: "schedule_tick k w1 obj now st app act lt nx \<noteq> None" for w1 st app act lt nx
      by (simp add: schedule_tick_def f create Let_def split: sum.splits option.splits del: not_None_eq)
    have wait: "schedule_wait k w1 obj now st app act newest lt today nx b \<noteq> None" for w1 st app act newest lt today nx b
      by (simp add: schedule_wait_def tick Let_def del: not_None_eq)
    have due: "schedule_due k w1 obj now st app act newest lt today \<noteq> None" for w1 st app act newest lt today
      by (simp add: schedule_due_def f wait Let_def split: prod.splits del: not_None_eq)
    have "schedule_observe k w1 obj now st app \<noteq> None" for w1 st app
      by (simp add: schedule_observe_def due Let_def split: prod.splits sum.splits option.splits del: not_None_eq)
    then show ?thesis
      by (simp add: AgentScheduleReconcile_def schedule_validate_def obj True Let_def split: sum.splits del: not_None_eq)
  qed
  show ?thesis
    using some by (cases "k_GetSchedule k w ns name") (auto simp: AgentScheduleReconcile_def)
qed

lemma scheduled_provenance_trigger:
  assumes "scheduled_provenance s now req x = Inr y" "TrimSpace (trig_Reason (spec_Trigger x)) = []"
  shows "trig_Reason (spec_Trigger y) = req_TriggerReason req \<and> trig_Message (spec_Trigger y) = req_TriggerMessage req"
proof -
  let ?x = "default_source s (default_purpose x)"
  let ?x1 = "if TrimSpace (spec_SourceUID ?x) = [] then ?x\<lparr>spec_SourceUID := sched_UID s\<rparr> else ?x"
  let ?x2 = "if spec_SourceGeneration ?x1 = 0 then ?x1\<lparr>spec_SourceGeneration := sched_Generation s\<rparr> else ?x1"
  have y: "y = default_schedule_ref s (if req_ForceTrigger req \<or> TrimSpace (trig_Reason (spec_Trigger ?x2)) = []
      then ?x2\<lparr>spec_Trigger := (spec_Trigger ?x2)\<lparr>trig_Reason := req_TriggerReason req,
        trig_Message := req_TriggerMessage req, trig_DetectedAt := Some now\<rparr>\<rparr> else ?x2)"
    using assms(1) unfolding scheduled_provenance_def Let_def by (auto split: if_splits)
  have "spec_Trigger ?x2 = spec_Trigger x" by simp
  then show ?thesis unfolding y using assms(2) by (simp only: default_fields) simp
qed

lemma new_run_trigger:
  assumes "new_run k obj now app lt nx run" "\<not> manual_pending obj"
    and trigger: "\<And>name spec t. agentScheduleSelectedRunTemplate obj name = Inr (spec, t) \<Longrightarrow>
      TrimSpace (trig_Reason (spec_Trigger spec)) = []"
  shows "trig_Message (spec_Trigger (run_Spec run)) = agentScheduleIntervalTriggerMessage obj nx \<and>
      trig_Reason (spec_Trigger (run_Spec run)) = ''ScheduledAgentRun''"
proof -
  let ?req = "schedule_request k obj now app lt nx"
  obtain spec t where spec: "scheduled_spec obj now ?req = Inr (spec, t)" and run: "run_Spec run = spec"
    using assms(1) by (auto simp: new_run_def scheduled_run_def Let_def)
  obtain tspec mid where sel: "agentScheduleSelectedRunTemplate obj (req_TemplateName ?req) = Inr (tspec, t)"
    and scope: "scheduled_scope obj (req_ApplicationName ?req) tspec = Inr mid"
    and prov: "scheduled_provenance obj now ?req mid = Inr spec"
    using spec by (auto simp: scheduled_spec_def split: sum.splits)
  have "spec_Trigger mid = spec_Trigger tspec"
    using scope by (auto simp: scheduled_scope_def Let_def split: if_splits option.splits)
  then have "TrimSpace (trig_Reason (spec_Trigger mid)) = []" using trigger [OF sel] by simp
  then have "trig_Reason (spec_Trigger spec) = req_TriggerReason ?req \<and> trig_Message (spec_Trigger spec) = req_TriggerMessage ?req"
    using scheduled_provenance_trigger [OF prov] by simp
  then show ?thesis
    using assms(2) by (simp add: run schedule_request_def agentScheduleIntervalRunRequest_def)
qed

subsection \<open>Properties\<close>

text \<open>
  C3. A schedule creates a run only when every guard allows it, and then one run. Whatever the API
  server answers, one reconciliation makes at most one Create call, and if it makes one: the
  schedule is not deleted or suspended and its spec is valid; it resolves to one application
  and no launch hold of that application is in force; under Forbid it has no unfinished run,
  under Allow fewer than its limit; its daily budget is not used up; and either a new
  manual token is pending, or the due time has come and no run of that due time exists. The due
  time is the one that the stored status, the newest run and the terminal backoff give, and the
  run is the one that the request of that token or due time describes.
\<close>

theorem schedule_create_guarded:
  assumes "AgentScheduleReconcile (observe k) (w, []) ns name now = Some r"
  shows "creates r = [] \<or>
    (\<exists>obj app act newest lt today w1 nx run.
      k_GetSchedule k w ns name = Inr obj \<and> \<not> being_deleted (sched_Meta obj) \<and> \<not> ss_Suspend (sched_Spec obj) \<and>
      schedule_invalid (sched_Spec obj) = None \<and>
      resolveAgentScheduleApplicationName k w obj = Inr app \<and>
      agentScheduleRuns k w obj now = (Inr (act, newest, lt, today), w1) \<and>
      activeAgentRunPauseForApplication k w1 app now = Inr None \<and>
      (agentScheduleConcurrencyPolicy obj = AgentScheduleConcurrencyForbid \<longrightarrow> act = []) \<and>
      (agentScheduleConcurrencyPolicy obj = AgentScheduleConcurrencyAllow \<longrightarrow> 0 < agentScheduleMaxConcurrentRuns obj \<longrightarrow>
        int (length act) < agentScheduleMaxConcurrentRuns obj) \<and>
      (0 < ss_MaxRunsPerDay (sched_Spec obj) \<longrightarrow> today < ss_MaxRunsPerDay (sched_Spec obj)) \<and>
      (manual_pending obj \<or> nx \<le> now \<and>
        agentScheduleIntervalRunForMessage k w1 obj (agentScheduleIntervalTriggerMessage obj nx) = Inr None) \<and>
      nx = due_time obj (observed_status obj
        ((sched_Status obj)\<lparr>sst_ObservedGeneration := sched_Generation obj\<rparr>) act newest) now newest \<and>
      new_run k obj now app lt nx run \<and> creates r = [run])"
proof (cases "creates r = []")
  case False
  show ?thesis by (rule create_guards [OF assms False]) blast
qed simp

definition demo_idle :: mem where
  "demo_idle = mem_empty\<lparr>mem_Schedules := [demo_schedule]\<rparr>"

lemma demo_schedule_ok [simp]:
  "\<not> being_deleted (sched_Meta demo_schedule)" "\<not> ss_Suspend (sched_Spec demo_schedule)"
  "schedule_invalid (sched_Spec demo_schedule) = None" "ss_IntervalSeconds (sched_Spec demo_schedule) = 60"
  "ss_MaxRunsPerDay (sched_Spec demo_schedule) = 0" "\<not> manual_pending demo_schedule"
  "sched_Status demo_schedule = zero_ScheduleStatus"
  by (simp_all add: demo_schedule_def being_deleted_def zero_ObjectMeta_def zero_ScheduleSpec_def
      schedule_invalid_def manual_pending_def agentScheduleManualRunToken_def map_get_def)

lemma demo_schedule_spec:
  "sched_Spec demo_schedule = zero_ScheduleSpec\<lparr>ss_IntervalSeconds := 60,
     ss_RunTemplate := zero_RunSpec\<lparr>spec_Scope := zero_Scope\<lparr>scope_ApplicationRef := Some \<lparr>app_Name = ''shop''\<rparr>\<rparr>\<rparr>\<rparr>"
  "ss_RunTemplates zero_ScheduleSpec = []" "ss_ApplicationRef zero_ScheduleSpec = None"
  "ss_InitialDelaySeconds zero_ScheduleSpec = 0"
  by (simp_all add: demo_schedule_def zero_ScheduleSpec_def)

lemma demo_resolve_schedule [simp]: "resolveAgentScheduleApplicationName k w demo_schedule = Inr ''shop''"
  by (simp add: resolveAgentScheduleApplicationName_def schedule_templates_def demo_schedule_def
      zero_ScheduleSpec_def zero_RunSpec_def zero_Scope_def app_ref_name_def Let_def
      resolveAgentRunSpecApplicationNameStrict_def resolveAgentRunSpecApplicationNameWithProfilePolicy_def)

lemma demo_idle_runs [simp]: "agentScheduleRuns mem_kube demo_idle demo_schedule now = (Inr ([], None, [], 0), demo_idle)"
  by (simp add: agentScheduleRuns_def schedule_list_def demo_idle_def mem_list_runs_def mem_empty_def)

lemma demo_idle_creates:
  "\<exists>r run. AgentScheduleReconcile (observe mem_kube) (demo_idle, []) ''agents'' ''nightly'' 5 = Some r \<and> creates r = [run]"
proof -
  have get: "k_GetSchedule mem_kube demo_idle ''agents'' ''nightly'' = Inr demo_schedule"
    by (simp add: demo_idle_def keyed_def)
  have due: "due_time demo_schedule (observed_status demo_schedule
      ((sched_Status demo_schedule)\<lparr>sst_ObservedGeneration := sched_Generation demo_schedule\<rparr>) [] None) 5 None = 5"
    by (simp add: due_time_def agentScheduleNextRunWithTerminalBackoff_def agentScheduleNextRunTime_def
        observed_status_def zero_ScheduleStatus_def demo_schedule_def zero_ScheduleSpec_def
        agentScheduleActiveRunForStatus_def agentScheduleNewestRun_def Let_def)
  obtain spec where spec: "scheduled_spec demo_schedule 5
      (agentScheduleIntervalRunRequest mem_kube demo_schedule 5 []\<lparr>req_ApplicationName := ''shop''\<rparr>) = Inr (spec, [])"
    by (simp add: scheduled_spec_def agentScheduleSelectedRunTemplate_def agentScheduleIntervalRunRequest_def
        agentScheduleNextTemplateName_def demo_schedule_def zero_ScheduleSpec_def scheduled_scope_def app_ref_name_def
        scheduled_provenance_def default_source_def default_purpose_def zero_RunSpec_def zero_SourceRef_def
        zero_ObjectMeta_def zero_Scope_def Let_def)
  have none: "agentScheduleIntervalRunForMessage mem_kube demo_idle demo_schedule m = Inr None" for m
    by (simp add: agentScheduleIntervalRunForMessage_def schedule_list_def demo_idle_def mem_list_runs_def mem_empty_def Let_def)
  have pause: "activeAgentRunPauseForApplication mem_kube demo_idle ''shop'' 5 = Inr None"
    by (simp add: activeAgentRunPauseForApplication_def demo_idle_def mem_empty_def)
  have "\<exists>r run. AgentScheduleReconcile (observe mem_kube) (demo_idle, []) ''agents'' ''nightly'' 5 = Some r \<and>
      new_run mem_kube demo_schedule 5 ''shop'' [] 5 run \<and> creates r = [run]"
    by (rule permitted_creates [OF get, of "''shop''" 5 "[]" None "[]" 0 demo_idle 5 spec "[]"])
      (simp_all add: due [simplified] none pause spec schedule_request_def max_seconds_def)
  then show ?thesis by blast
qed

theorem schedule_create_guarded_witness:
  "\<exists>r run. AgentScheduleReconcile (observe mem_kube) (demo_idle, []) ''agents'' ''nightly'' 5 = Some r \<and>
     creates r = [run] \<and> (\<exists>obj. k_GetSchedule mem_kube demo_idle ''agents'' ''nightly'' = Inr obj \<and> \<not> ss_Suspend (sched_Spec obj))"
proof -
  obtain r run where r: "AgentScheduleReconcile (observe mem_kube) (demo_idle, []) ''agents'' ''nightly'' 5 = Some r"
    "creates r = [run]" using demo_idle_creates by blast
  from schedule_create_guarded [OF r(1)] r show ?thesis by auto
qed

text \<open>
  The limits hold for the cluster. Let the API server return a patched run as it was sent. If
  the runs listed for the schedule include an unfinished one of a Forbid schedule, or as
  many unfinished ones as an Allow schedule with a limit may have, or as many created on this
  UTC day as the daily budget, then the reconciliation makes no Create call.
\<close>

theorem schedule_limits_hold:
  assumes "AgentScheduleReconcile (observe k) (w, []) ns name now = Some r"
    and obj: "k_GetSchedule k w ns name = Inr obj" and list: "schedule_list k w obj = Inr rs"
    and keep: "\<And>w a b c w'. k_PatchRun k w a b = (Inr c, w') \<Longrightarrow> c = b"
    and full: "let unfinished = int (length (filter (\<lambda>r. agentRunBelongsToSchedule r obj \<and> \<not> agentRunPhaseTerminal (run_Phase r)) rs));
        today = int (length (filter (\<lambda>r. agentRunBelongsToSchedule r obj \<and>
          time_trunc now Hour24 \<le> run_CreationTimestamp r \<and> run_CreationTimestamp r < time_trunc now Hour24 + Hour24) rs))
      in agentScheduleConcurrencyPolicy obj = AgentScheduleConcurrencyForbid \<and> 0 < unfinished \<or>
         agentScheduleConcurrencyPolicy obj = AgentScheduleConcurrencyAllow \<and> 0 < agentScheduleMaxConcurrentRuns obj \<and>
           agentScheduleMaxConcurrentRuns obj \<le> unfinished \<or>
         0 < ss_MaxRunsPerDay (sched_Spec obj) \<and> ss_MaxRunsPerDay (sched_Spec obj) \<le> today"
  shows "creates r = []"
proof (rule ccontr)
  assume created: "creates r \<noteq> []"
  obtain act newest lt today w1 where
    runs: "agentScheduleRuns k w obj now = (Inr (act, newest, lt, today), w1)" and
    forbid: "agentScheduleConcurrencyPolicy obj = AgentScheduleConcurrencyForbid \<longrightarrow> act = []" and
    allow: "agentScheduleConcurrencyPolicy obj = AgentScheduleConcurrencyAllow \<longrightarrow> 0 < agentScheduleMaxConcurrentRuns obj \<longrightarrow>
       int (length act) < agentScheduleMaxConcurrentRuns obj" and
    budget: "0 < ss_MaxRunsPerDay (sched_Spec obj) \<longrightarrow> today < ss_MaxRunsPerDay (sched_Spec obj)"
    by (rule create_guards [OF assms(1) created]) (use obj in auto)
  have unfinished: "length (filter (\<lambda>r. agentRunBelongsToSchedule r obj \<and> \<not> agentRunPhaseTerminal (run_Phase r)) rs) = length act"
    by (rule scan_counts(1) [OF runs list, symmetric]) (rule keep)
  have today: "int (length (filter (\<lambda>r. agentRunBelongsToSchedule r obj \<and>
      time_trunc now Hour24 \<le> run_CreationTimestamp r \<and> run_CreationTimestamp r < time_trunc now Hour24 + Hour24) rs)) = today"
    by (rule scan_counts(2) [OF runs list, symmetric]) (rule keep)
  show False using full forbid allow budget unfolding Let_def unfinished today by auto
qed

lemma mem_patch_keeps: "k_PatchRun mem_kube w a b = (Inr c, w') \<Longrightarrow> c = b"
  by (simp add: mem_kube_def)

theorem schedule_limits_hold_witness:
  "\<exists>r. AgentScheduleReconcile (observe mem_kube) (demo_queue, []) ''agents'' ''nightly'' 5 = Some r \<and> creates r = []"
proof -
  have get: "k_GetSchedule mem_kube demo_queue ''agents'' ''nightly'' = Inr demo_schedule" by simp
  have list: "schedule_list mem_kube demo_queue demo_schedule = Inr [demo_run ''agents'' ''a'' 10, demo_run ''agents'' ''b'' 20]"
    by (simp add: schedule_list_def)
  have "\<exists>r. AgentScheduleReconcile (observe mem_kube) (demo_queue, []) ''agents'' ''nightly'' 5 = Some r"
    using get reconcile_returns [of "observe mem_kube" "(demo_queue, [])" "''agents''" "''nightly''" 5]
    by (simp add: max_seconds_def)
  then obtain r where r: "AgentScheduleReconcile (observe mem_kube) (demo_queue, []) ''agents'' ''nightly'' 5 = Some r"
    by blast
  have "creates r = []" by (rule schedule_limits_hold [OF r get list]) (simp_all add: Let_def mem_patch_keeps)
  then show ?thesis using r by blast
qed


lemma demo_idle_list: "schedule_list mem_kube demo_idle demo_schedule = Inr []"
  by (simp add: schedule_list_def demo_idle_def mem_list_runs_def mem_empty_def)

lemma demo_idle_scanned:
  "schedule_list mem_kube (snd (agentScheduleRuns mem_kube demo_idle demo_schedule 5)) demo_schedule = Inr []"
  by (simp add: demo_idle_list)

lemma demo_idle_get: "k_GetSchedule mem_kube demo_idle ''agents'' ''nightly'' = Inr demo_schedule"
  by (simp add: demo_idle_def keyed_def)

lemma demo_trigger:
  "agentScheduleSelectedRunTemplate demo_schedule name = Inr (spec, t) \<Longrightarrow> TrimSpace (trig_Reason (spec_Trigger spec)) = []"
  by (auto simp: agentScheduleSelectedRunTemplate_def demo_schedule_def zero_ScheduleSpec_def zero_RunSpec_def
      zero_Trigger_def Let_def split: if_splits)


text \<open>
  An idle schedule starts. A valid, running schedule with no listed runs, whose application
  resolves and is not held, whose next run time has come, and whose template can be selected,
  makes exactly one Create call: the guards are not stronger than the specification.
\<close>

theorem idle_schedule_starts:
  assumes "k_GetSchedule k w ns name = Inr obj" "\<not> being_deleted (sched_Meta obj)" "\<not> ss_Suspend (sched_Spec obj)"
    and "schedule_invalid (sched_Spec obj) = None" "ss_IntervalSeconds (sched_Spec obj) \<le> max_seconds"
    and "resolveAgentScheduleApplicationName k w obj = Inr app"
    and list: "schedule_list k w obj = Inr []" and "activeAgentRunPauseForApplication k w app now = Inr None"
    and due: "nx = agentScheduleNextRunTime obj (sched_Status obj) now
        (sst_ObservedGeneration (sched_Status obj) \<noteq> 0 \<and> sst_ObservedGeneration (sched_Status obj) \<noteq> sched_Generation obj)"
      "nx \<le> now"
    and "scheduled_spec obj now (schedule_request k obj now app [] nx) = Inr (spec, t)"
  shows "\<exists>r run. AgentScheduleReconcile (observe k) (w, []) ns name now = Some r \<and>
    new_run k obj now app [] nx run \<and> creates r = [run]"
proof (rule permitted_creates)
  show "agentScheduleRuns k w obj now = (Inr ([], None, [], 0), w)"
    by (simp add: agentScheduleRuns_def list)
  show "nx = due_time obj (observed_status obj ((sched_Status obj)\<lparr>sst_ObservedGeneration := sched_Generation obj\<rparr>)
      [] None) now None"
    unfolding due_time_def backoff_no_run fst_conv due(1) agentScheduleNextRunTime_def observed_no_run by (rule refl)
  show "manual_pending obj \<or> nx \<le> now \<and>
      agentScheduleIntervalRunForMessage k w obj (agentScheduleIntervalTriggerMessage obj nx) = Inr None"
    using due(2) list by (simp add: agentScheduleIntervalRunForMessage_def Let_def)
qed (use assms in simp_all)

theorem idle_schedule_starts_witness:
  "\<exists>r run. AgentScheduleReconcile (observe mem_kube) (demo_idle, []) ''agents'' ''nightly'' 5 = Some r \<and> creates r = [run]"
proof -
  let ?req = "schedule_request mem_kube demo_schedule 5 ''shop'' [] 5"
  obtain spec where spec: "scheduled_spec demo_schedule 5 ?req = Inr (spec, [])"
    by (simp add: schedule_request_def scheduled_spec_def agentScheduleSelectedRunTemplate_def
        agentScheduleIntervalRunRequest_def agentScheduleNextTemplateName_def scheduled_scope_def app_ref_name_def
        scheduled_provenance_def default_source_def default_purpose_def zero_RunSpec_def zero_SourceRef_def
        zero_ObjectMeta_def zero_Scope_def demo_schedule_spec Let_def)
  have "\<exists>r run. AgentScheduleReconcile (observe mem_kube) (demo_idle, []) ''agents'' ''nightly'' 5 = Some r \<and>
      new_run mem_kube demo_schedule 5 ''shop'' [] 5 run \<and> creates r = [run]"
    by (rule idle_schedule_starts [OF demo_idle_get _ _ _ _ _ demo_idle_list _ _ _ spec])
      (simp_all add: max_seconds_def activeAgentRunPauseForApplication_def demo_idle_def mem_empty_def
        agentScheduleNextRunTime_def zero_ScheduleStatus_def demo_schedule_spec schedule_invalid_def zero_ScheduleSpec_def)
  then show ?thesis by blast
qed

text \<open>
  A manual token is used once. When a pending manual token leads to a created run, the status
  that the controller then writes records the token, so the same annotation is no longer pending;
  and the interval cadence is not moved by a manual run.
\<close>

theorem manual_token_consumed:
  assumes "manual_pending obj"
    and "createScheduledAgentRun k w obj now (schedule_request k obj now app lt nx) = (Inr (run, t), w')"
  shows "\<exists>st' cs m. schedule_create k w obj now st app act lt nx =
      Some (schedule_finish k w' obj now st' cs ''RunCreated'' m agentSchedulePollInterval) \<and>
    sst_LastManualRunToken st' = agentScheduleManualRunToken obj \<and> sst_NextRunAt st' = Some nx \<and>
    sst_LastRunRef st' = Some (run_ref run) \<and> \<not> manual_pending (obj\<lparr>sched_Status := st'\<rparr>)"
proof (intro exI conjI)
  let ?st = "created_status obj st now act run t nx"
  show "schedule_create k w obj now st app act lt nx =
      Some (schedule_finish k w' obj now ?st ConditionFalse ''RunCreated'' (created_message obj run t) agentSchedulePollInterval)"
    using assms by (simp add: schedule_create_def agentScheduleNextRunAfterCreation_def)
  show token: "sst_LastManualRunToken ?st = agentScheduleManualRunToken obj"
    using assms(1) by (simp add: created_status_def Let_def)
  show "\<not> manual_pending (obj\<lparr>sched_Status := ?st\<rparr>)"
    using token by (simp add: manual_pending_def agentScheduleManualRunToken_def)
qed (simp_all add: created_status_def Let_def)

definition demo_nudged :: AgentSchedule where
  "demo_nudged = demo_schedule\<lparr>sched_Meta := (sched_Meta demo_schedule)\<lparr>
     om_Annotations := [(AgentScheduleRunNowAnnotation, ''nightly'')]\<rparr>\<rparr>"

theorem manual_token_consumed_witness:
  "\<exists>run t w' st'. createScheduledAgentRun mem_kube demo_idle demo_nudged 5
       (schedule_request mem_kube demo_nudged 5 ''shop'' [] 5) = (Inr (run, t), w') \<and>
     sst_LastManualRunToken st' = ''nightly'' \<and> \<not> manual_pending (demo_nudged\<lparr>sched_Status := st'\<rparr>)"
proof -
  have pending: "manual_pending demo_nudged" and token: "agentScheduleManualRunToken demo_nudged = ''nightly''"
    by (simp_all add: demo_nudged_def manual_pending_def agentScheduleManualRunToken_def map_get_def zero_ScheduleStatus_def)
  have "TrimSpace [] = []" by simp
  obtain spec where spec: "scheduled_spec demo_nudged 5 (schedule_request mem_kube demo_nudged 5 ''shop'' [] 5) = Inr (spec, [])"
    using pending
    by (simp add: schedule_request_def scheduled_spec_def agentScheduleSelectedRunTemplate_def
        agentScheduleManualRunRequest_def agentScheduleManualRunTemplateName_def scheduled_scope_def app_ref_name_def
        scheduled_provenance_def default_source_def default_purpose_def zero_RunSpec_def zero_SourceRef_def
        zero_ObjectMeta_def zero_Scope_def demo_nudged_def demo_schedule_spec map_get_def
        AgentScheduleRunTemplateAnnotation_def AgentScheduleRunNowAnnotation_def Let_def)
  then obtain run w' where c: "createScheduledAgentRun mem_kube demo_idle demo_nudged 5
      (schedule_request mem_kube demo_nudged 5 ''shop'' [] 5) = (Inr (run, []), w')"
    by (simp add: createScheduledAgentRun_def mem_create_def demo_idle_def mem_empty_def Let_def)
  from manual_token_consumed [OF pending c] c token show ?thesis by metis
qed

text \<open>
  When the reconciliation returns. For every schedule whose interval is at most 292 years (the
  largest number of seconds that a 64-bit duration can hold), and whatever the API server
  answers, the reconciliation returns a result. With a longer interval whose duration overflows
  to a value that is not positive, the stage that creates a due interval run does not return
  once the run exists.
\<close>

theorem schedule_reconcile_returns:
  "((\<forall>obj. k_GetSchedule k w ns name = Inr obj \<longrightarrow> ss_IntervalSeconds (sched_Spec obj) \<le> max_seconds) \<longrightarrow>
     (\<exists>r. AgentScheduleReconcile k w ns name now = Some r)) \<and>
   (\<not> manual_pending obj \<and> nx \<le> now \<and> seconds (ss_IntervalSeconds (sched_Spec obj)) \<le> 0 \<and>
    createScheduledAgentRun k w obj now (schedule_request k obj now app lt nx) = (Inr (run, t), w') \<longrightarrow>
     schedule_create k w obj now st app act lt nx = None)"
proof (intro conjI impI)
  assume "\<forall>obj. k_GetSchedule k w ns name = Inr obj \<longrightarrow> ss_IntervalSeconds (sched_Spec obj) \<le> max_seconds"
  then show "\<exists>r. AgentScheduleReconcile k w ns name now = Some r" by (intro reconcile_returns) blast
next
  assume hang: "\<not> manual_pending obj \<and> nx \<le> now \<and> seconds (ss_IntervalSeconds (sched_Spec obj)) \<le> 0 \<and>
    createScheduledAgentRun k w obj now (schedule_request k obj now app lt nx) = (Inr (run, t), w')"
  then have "next_run_loop (seconds (ss_IntervalSeconds (sched_Spec obj))) now nx = None"
    using next_run_loop_returns_cases [of "seconds (ss_IntervalSeconds (sched_Spec obj))" now nx]
    by (cases "next_run_loop (seconds (ss_IntervalSeconds (sched_Spec obj))) now nx") auto
  then show "schedule_create k w obj now st app act lt nx = None"
    using hang by (simp add: schedule_create_def agentScheduleNextRunAfterCreation_def)
qed

theorem schedule_reconcile_returns_witness:
  "\<exists>r. AgentScheduleReconcile mem_kube demo_queue ''agents'' ''nightly'' 5 = Some r"
  using schedule_reconcile_returns [of mem_kube demo_queue "''agents''" "''nightly''" 5]
  by (simp add: max_seconds_def)

end
