(* ===== verification/Runes.thy ===== *)
theory Runes
  imports Main
begin

text \<open>
  UTF-8 decoding as \<^verbatim>\<open>unicode/utf8\<close> and the conversion to \<^verbatim>\<open>[]rune\<close> do it. Strings are
  bytes. \<open>rune_width\<close> is the number of bytes of the first rune of a string as
  \<^verbatim>\<open>unicode/utf8\<close> decodes it, 0 where the bytes are not the encoding of a rune; the
  conversion to \<^verbatim>\<open>[]rune\<close> makes one replacement character (EF BF BD) of each such byte.
\<close>

definition byte_in :: "nat \<Rightarrow> nat \<Rightarrow> char \<Rightarrow> bool" where
  "byte_in lo hi c \<longleftrightarrow> lo \<le> (of_char c :: nat) \<and> (of_char c :: nat) \<le> hi"

fun continuation :: "nat \<Rightarrow> nat \<Rightarrow> nat \<Rightarrow> string \<Rightarrow> bool" where
  "continuation lo hi 0 s \<longleftrightarrow> True"
| "continuation lo hi (Suc n) [] \<longleftrightarrow> False"
| "continuation lo hi (Suc n) (c # s) \<longleftrightarrow> byte_in lo hi c \<and> continuation 128 191 n s"

text \<open>The number of continuation bytes of a first byte and the range of the first of them.\<close>

definition lead_byte :: "nat \<Rightarrow> (nat \<times> nat \<times> nat) option" where
  "lead_byte n =
     (if n < 128 then Some (0, 0, 0)
      else if n < 194 then None
      else if n < 224 then Some (1, 128, 191)
      else if n = 224 then Some (2, 160, 191)
      else if n = 237 then Some (2, 128, 159)
      else if n < 240 then Some (2, 128, 191)
      else if n = 240 then Some (3, 144, 191)
      else if n < 244 then Some (3, 128, 191)
      else if n = 244 then Some (3, 128, 143)
      else None)"

definition rune_width :: "string \<Rightarrow> nat" where
  "rune_width s =
     (case s of
        [] \<Rightarrow> 0
      | c # cs \<Rightarrow>
          (case lead_byte (of_char c) of
             None \<Rightarrow> 0
           | Some (n, lo, hi) \<Rightarrow> if continuation lo hi n cs then Suc n else 0))"

definition RuneError :: string where "RuneError = [CHR 0xEF, CHR 0xBF, CHR 0xBD]"

text \<open>\<^verbatim>\<open>[]rune(s)\<close>, each rune as its encoding.\<close>

function runes :: "string \<Rightarrow> string list" where
  "runes s =
     (if s = [] then []
      else if rune_width s = 0 then RuneError # runes (drop 1 s)
      else take (rune_width s) s # runes (drop (rune_width s) s))"
  by pat_completeness auto
termination by (relation "measure length") auto

declare runes.simps [simp del]

text \<open>\<^verbatim>\<open>utf8.ValidString\<close>: no byte is replaced.\<close>

definition valid_utf8 :: "string \<Rightarrow> bool" where
  "valid_utf8 s \<longleftrightarrow> concat (runes s) = s"

text \<open>A rune of the decoding is the encoding of one rune, so decoding a concatenation of runes gives them back.\<close>

definition whole_rune :: "string \<Rightarrow> bool" where
  "whole_rune r \<longleftrightarrow> r \<noteq> [] \<and> rune_width r = length r"

lemma continuation_append: "continuation lo hi n cs \<Longrightarrow> continuation lo hi n (cs @ s)"
  by (induction lo hi n cs rule: continuation.induct) auto

lemma continuation_take: "continuation lo hi n cs \<Longrightarrow> n \<le> length cs \<and> continuation lo hi n (take n cs)"
  by (induction lo hi n cs rule: continuation.induct) auto

lemma rune_width_append: "whole_rune r \<Longrightarrow> rune_width (r @ s) = length r"
  by (cases r) (auto simp: whole_rune_def rune_width_def continuation_append split: option.splits prod.splits if_splits)

lemma rune_width_take:
  assumes "0 < rune_width s"
  shows "whole_rune (take (rune_width s) s)"
  using assms by (cases s) (auto simp: whole_rune_def rune_width_def min_def dest: continuation_take
      split: option.splits prod.splits if_splits)

lemma whole_RuneError: "whole_rune RuneError"
  by code_simp

lemma runes_whole: "r \<in> set (runes s) \<Longrightarrow> whole_rune r"
proof (induction s rule: runes.induct)
  case (1 s)
  show ?case
    using 1 rune_width_take [of s] whole_RuneError
    by (subst (asm) (2) runes.simps) (auto split: if_splits)
qed

lemma runes_concat: "\<forall>r \<in> set rs. whole_rune r \<Longrightarrow> runes (concat rs) = rs"
proof (induction rs)
  case Nil
  then show ?case by (simp add: runes.simps)
next
  case (Cons r rs)
  have r: "whole_rune r" "r \<noteq> []" using Cons.prems by (auto simp: whole_rune_def)
  have "runes (r @ concat rs) = r # runes (concat rs)"
    using r rune_width_append [OF r(1), of "concat rs"] by (subst runes.simps) simp
  then show ?case using Cons by simp
qed

end
