(* ===== verification/ChainCore.thy ===== *)
theory ChainCore
  imports Schedule Runes
begin

text \<open>
  The pure part of \<^verbatim>\<open>internal/controller/agent_chain_controller.go\<close>: validation of a chain, its
  application and workflow digest, labels and instance identities, the start cadence and
  the terminal backoff, the conditions under which a step follows another, and the handoff
  text. A division by a zero interval is a panic of the code and an \<open>Inl (Panic ...)\<close> here.
\<close>

subsection \<open>Constants\<close>

definition agentChainReady :: string where "agentChainReady = ''Ready''"
definition agentChainPollInterval :: duration where "agentChainPollInterval = 30 * Second"
definition agentRunChainLabel :: string where
  "agentRunChainLabel = ''control.anvil.hazyforge.io/agent-chain''"
definition agentRunChainInstLabel :: string where
  "agentRunChainInstLabel = ''control.anvil.hazyforge.io/agent-chain-instance''"
definition agentRunChainStepLabel :: string where
  "agentRunChainStepLabel = ''control.anvil.hazyforge.io/agent-chain-step''"
definition agentRunChainDigestAnnotation :: string where
  "agentRunChainDigestAnnotation = ''control.anvil.hazyforge.io/agent-chain-workflow-digest''"
definition agentChainDrainFinalizer :: string where
  "agentChainDrainFinalizer = ''control.anvil.hazyforge.io/agent-chain-active-drain''"
definition agentChainHandoffMax :: int where "agentChainHandoffMax = 8192"

definition agentChainClearActive :: "AgentChainStatus \<Rightarrow> AgentChainStatus" where
  "agentChainClearActive status = status\<lparr>
     chst_ActiveInstanceID := [], chst_ActiveStep := [], chst_ActiveRunRef := None, chst_ActiveRunUID := [],
     chst_ActiveSourceGeneration := 0, chst_ActiveWorkflowDigest := [], chst_CancelRequestedInstanceID := []\<rparr>"

subsection \<open>Validation\<close>

text \<open>The index of the first element with a property, counted from \<open>i\<close>.\<close>

fun index_from :: "('a \<Rightarrow> bool) \<Rightarrow> int \<Rightarrow> 'a list \<Rightarrow> (int \<times> 'a) option" where
  "index_from P i [] = None"
| "index_from P i (x # xs) = (if P x then Some (i, x) else index_from P (i + 1) xs)"

definition blank :: "string \<Rightarrow> bool" where
  "blank s \<longleftrightarrow> TrimSpace s = []"

definition chain_policy_text :: "AgentChainConcurrencyPolicy \<Rightarrow> string" where
  "chain_policy_text p =
     (case p of AgentChainConcurrencyUnset \<Rightarrow> [] | AgentChainConcurrencyForbid \<Rightarrow> ''Forbid''
      | AgentChainConcurrencyQueue \<Rightarrow> ''Queue'' | AgentChainConcurrencyOther s \<Rightarrow> s)"

text \<open>The checks of a step after the first; \<open>prevName\<close> is the name of the step before it.\<close>

definition validate_later_step :: "string \<Rightarrow> AgentChainStepSpec \<Rightarrow> go_error option" where
  "validate_later_step prevName step =
     (let name = TrimSpace (step_Name step) in
      case step_When step of
        None \<Rightarrow> Some (Errorf (''step '' @ Quote name @ '' requires when.previousStep''))
      | Some when \<Rightarrow>
          if blank (when_PreviousStep when) then
            Some (Errorf (''step '' @ Quote name @ '' requires when.previousStep''))
          else case index_from blank 0 (when_OnDecisionActions when) of
            Some (j, action) \<Rightarrow>
              Some (Errorf (''step '' @ Quote name @ '' when.onDecisionActions['' @ Itoa j @ ''] must not be blank''))
          | None \<Rightarrow>
              (case index_from (\<lambda>p. p \<noteq> AgentRunPhaseSucceeded \<and> p \<noteq> AgentRunPhaseFailed) 0 (when_OnPhases when) of
                 Some (j, phase) \<Rightarrow>
                   Some (Errorf (''step '' @ Quote name @ '' when.onPhases['' @ Itoa j @ '']='' @ Quote (phase_text phase) @
                     '' is not a terminal AgentRun phase''))
               | None \<Rightarrow>
                   (let prev = TrimSpace (when_PreviousStep when) in
                    if prev \<noteq> prevName then
                      Some (Errorf (''step '' @ Quote name @ '' when.previousStep must be the immediately previous step '' @
                        Quote prevName @ '' (got '' @ Quote prev @ ''); v1 is linear only''))
                    else None)))"

text \<open>The loop over the steps: the index, the names seen and the name of the previous step.\<close>

fun validate_steps :: "int \<Rightarrow> string list \<Rightarrow> string \<Rightarrow> AgentChainStepSpec list \<Rightarrow> go_error option" where
  "validate_steps i seen prevName [] = None"
| "validate_steps i seen prevName (step # steps) =
     (let name = TrimSpace (step_Name step) in
      if name = [] then Some (Errorf (''spec.steps['' @ Itoa i @ ''].name is required''))
      else if name \<in> set seen then Some (Errorf (''duplicate step name '' @ Quote name))
      else if i = 0 then
        (if (case step_When step of None \<Rightarrow> False | Some when \<Rightarrow> \<not> blank (when_PreviousStep when))
         then Some (Errorf (''first step '' @ Quote name @ '' must not set when.previousStep''))
         else validate_steps (i + 1) (name # seen) (step_Name step) steps)
      else case validate_later_step prevName step of
        Some e \<Rightarrow> Some e
      | None \<Rightarrow> validate_steps (i + 1) (name # seen) (step_Name step) steps)"

definition validateAgentChainSpec :: "AgentChain \<Rightarrow> go_error option" where
  "validateAgentChainSpec chain =
     (let spec = chain_Spec chain;
          policy = (if ch_ConcurrencyPolicy spec = AgentChainConcurrencyUnset then AgentChainConcurrencyForbid
                    else ch_ConcurrencyPolicy spec) in
      if ch_Steps spec = [] then Some (Errorf ''spec.steps must contain at least one step'')
      else if policy = AgentChainConcurrencyQueue then
        Some (Errorf ''spec.concurrencyPolicy=Queue is not implemented yet; use Forbid'')
      else if policy \<noteq> AgentChainConcurrencyForbid then
        Some (Errorf (''spec.concurrencyPolicy '' @ Quote (chain_policy_text policy) @ '' is not supported''))
      else if ch_StartIntervalSeconds spec < 0 \<or> ch_StartInitialDelaySeconds spec < 0 then
        Some (Errorf ''start interval/delay cannot be negative'')
      else if ch_MaxInstancesPerDay spec < 0 then
        Some (Errorf ''spec.maxInstancesPerDay cannot be negative'')
      else if (case ch_Backoff spec of None \<Rightarrow> False | Some b \<Rightarrow> cbo_FailedSeconds b < 0 \<or> cbo_NeedsHumanSeconds b < 0) then
        Some (Errorf ''spec.backoff values cannot be negative'')
      else case (case ch_Completion spec of None \<Rightarrow> None | Some c \<Rightarrow> index_from blank 0 (comp_OnDecisionActions c)) of
        Some (i, action) \<Rightarrow>
          Some (Errorf (''spec.completion.onDecisionActions['' @ Itoa i @ ''] must not be blank''))
      | None \<Rightarrow> validate_steps 0 [] [] (ch_Steps spec))"

subsection \<open>Identity\<close>

definition chain_application_names :: "AgentChainSpec \<Rightarrow> string list" where
  "chain_application_names spec =
     filter (\<lambda>n. n \<noteq> []) (map app_ref_name
       (ch_ApplicationRef spec # map (\<lambda>s. scope_ApplicationRef (spec_Scope (step_RunTemplate s))) (ch_Steps spec)))"

definition resolveAgentChainApplicationName :: "AgentChain \<Rightarrow> string result" where
  "resolveAgentChainApplicationName chain =
     (case chain_application_names (chain_Spec chain) of
        [] \<Rightarrow> Inl (Errorf ''AgentChain requires applicationRef or step runTemplate.scope.applicationRef'')
      | canonical # rest \<Rightarrow>
          (case find (\<lambda>n. n \<noteq> canonical) rest of
             Some name \<Rightarrow> Inl (Errorf (''AgentChain application identity conflicts: '' @ Quote canonical @ '' vs '' @ Quote name))
           | None \<Rightarrow> Inr canonical))"

definition agentChainWorkflowDigest :: "'w kube \<Rightarrow> AgentChain \<Rightarrow> string" where
  "agentChainWorkflowDigest k chain =
     (let labels = om_Labels (chain_Meta chain) in
      digestJSON (k_MarshalWorkflow k)
        \<lparr>wf_ApplicationRef = ch_ApplicationRef (chain_Spec chain),
         wf_Completion = ch_Completion (chain_Spec chain),
         wf_PolicyLabels = filter (\<lambda>(key, value). value \<noteq> [])
           [(agentDynamicLabel, map_get labels agentDynamicLabel),
            (agentManagerRepositoryLabel, map_get labels agentManagerRepositoryLabel)],
         wf_Steps = ch_Steps (chain_Spec chain)\<rparr>)"

definition agentChainChildLabels :: "AgentChain \<Rightarrow> string \<Rightarrow> string \<Rightarrow> string \<Rightarrow> strmap" where
  "agentChainChildLabels chain applicationName instanceID step =
     (let source = om_Labels (chain_Meta chain);
          labels = [(agentRunChainLabel, sanitizeLabelValue (chain_Name chain)),
                    (agentRunChainInstLabel, sanitizeLabelValue instanceID),
                    (agentRunChainStepLabel, sanitizeLabelValue step),
                    (agentManagedByLabel, ''anvil-agents'')];
          labels = (if applicationName \<noteq> [] then map_set labels agentApplicationLabel (sanitizeLabelValue applicationName) else labels);
          labels = (if map_get source agentDynamicLabel \<noteq> []
                    then map_set labels agentDynamicLabel (map_get source agentDynamicLabel) else labels)
      in if map_get source agentManagerRepositoryLabel \<noteq> []
         then map_set labels agentManagerRepositoryLabel (map_get source agentManagerRepositoryLabel) else labels)"

text \<open>The index of a step, \<open>None\<close> for \<open>-1\<close>.\<close>

fun step_index_from :: "string \<Rightarrow> nat \<Rightarrow> AgentChainStepSpec list \<Rightarrow> nat option" where
  "step_index_from name i [] = None"
| "step_index_from name i (step # steps) = (if step_Name step = name then Some i else step_index_from name (i + 1) steps)"

definition agentChainStepIndex :: "AgentChain \<Rightarrow> string \<Rightarrow> nat option" where
  "agentChainStepIndex chain stepName = step_index_from (TrimSpace stepName) 0 (ch_Steps (chain_Spec chain))"

definition agentChainInstanceID :: "AgentChain \<Rightarrow> bool \<Rightarrow> string \<Rightarrow> instant \<Rightarrow> string" where
  "agentChainInstanceID chain manual startToken dueAt =
     (if manual then
        (let token = TrimSpace startToken; token = (if token = [] then RFC3339Nano 0 dueAt else token)
         in ''m-'' @ take 12 (shortHash (Join [chain_UID chain, ''manual'', token] ''|'')))
      else ''i-'' @ take 12 (shortHash (Join [chain_UID chain, ''interval'', RFC3339 dueAt] ''|'')))"

subsection \<open>Cadence and backoff\<close>

definition panic_div :: "go_error" where "panic_div = Panic ''runtime error: integer divide by zero''"

text \<open>\<^verbatim>\<open>base\<close> plus the number of whole intervals since it: the latest boundary not after \<open>now\<close>.\<close>

definition latest_boundary :: "instant \<Rightarrow> duration \<Rightarrow> instant \<Rightarrow> instant result" where
  "latest_boundary base interval now =
     (case go_div (time_sub now base) interval of
        None \<Rightarrow> Inl panic_div
      | Some period \<Rightarrow> Inr (base + wrap64 (period * interval)))"

definition first_start_base :: "AgentChain \<Rightarrow> instant" where
  "first_start_base chain =
     om_CreationTimestamp (chain_Meta chain) +
     (if ch_StartInitialDelaySeconds (chain_Spec chain) > 0 then seconds (ch_StartInitialDelaySeconds (chain_Spec chain)) else 0)"

definition agentChainStartDueAt :: "AgentChain \<Rightarrow> bool \<Rightarrow> instant option \<Rightarrow> instant \<Rightarrow> instant result" where
  "agentChainStartDueAt chain manual nextStart now =
     (if manual then Inr (time_trunc now Second)
      else case nextStart of
        Some t \<Rightarrow> Inr (time_trunc t Second)
      | None \<Rightarrow>
          if ch_StartIntervalSeconds (chain_Spec chain) > 0 then
            (let base = first_start_base chain in
             if now < base then Inr base
             else latest_boundary base (seconds (ch_StartIntervalSeconds (chain_Spec chain))) now)
          else Inr (time_trunc now Second))"

definition agentChainNextCadenceAfter :: "instant \<Rightarrow> duration \<Rightarrow> instant \<Rightarrow> instant" where
  "agentChainNextCadenceAfter base interval now =
     (let nxt = base + interval in
      if interval \<le> 0 \<or> nxt > now then nxt
      else case go_div (time_sub now nxt) interval of
        None \<Rightarrow> nxt
      | Some q \<Rightarrow> nxt + wrap64 (wrap64 (q + 1) * interval))"

definition chain_backoff_seconds :: "AgentChainBackoffSpec \<Rightarrow> AgentRunPhase \<Rightarrow> int option" where
  "chain_backoff_seconds backoff phase =
     (case phase of
        AgentRunPhaseFailed \<Rightarrow> Some (cbo_FailedSeconds backoff)
      | AgentRunPhaseNeedsHuman \<Rightarrow> Some (cbo_NeedsHumanSeconds backoff)
      | _ \<Rightarrow> None)"

definition agentChainApplyTerminalBackoffDeadline ::
  "AgentChain \<Rightarrow> AgentChainStatus \<Rightarrow> AgentRun \<Rightarrow> instant \<Rightarrow> AgentChainStatus" where
  "agentChainApplyTerminalBackoffDeadline chain status terminal now =
     (case Option.bind (ch_Backoff (chain_Spec chain)) (\<lambda>b. chain_backoff_seconds b (run_Phase terminal)) of
        None \<Rightarrow> status
      | Some delay \<Rightarrow>
          if delay \<le> 0 then status
          else
            let until = run_terminal_at terminal + seconds delay in
            if until < now then status
            else if (case chst_NextStartAt status of None \<Rightarrow> False | Some t \<Rightarrow> t > until) then status
            else status\<lparr>chst_NextStartAt := Some until\<rparr>)"

definition agentChainNextStartTime :: "AgentChain \<Rightarrow> AgentChainStatus \<Rightarrow> instant \<Rightarrow> instant option result" where
  "agentChainNextStartTime chain status now =
     (if ch_StartIntervalSeconds (chain_Spec chain) \<le> 0 then Inr None
      else case chst_NextStartAt status of
        Some t \<Rightarrow> Inr (Some t)
      | None \<Rightarrow>
          (let base = first_start_base chain in
           if base < now then
             (case latest_boundary base (seconds (ch_StartIntervalSeconds (chain_Spec chain))) now of
                Inl e \<Rightarrow> Inl e
              | Inr t \<Rightarrow> Inr (Some t))
           else Inr (Some base)))"

definition step_run_is :: "AgentChainStepRunStatus \<Rightarrow> AgentRun \<Rightarrow> bool" where
  "step_run_is sr run \<longleftrightarrow>
     (case sr_RunRef sr of None \<Rightarrow> False | Some ref \<Rightarrow> run_Name run = nor_Name ref \<and> run_Namespace run = nor_Namespace ref)"

definition agentChainTerminalBackoffUntil ::
  "AgentChain \<Rightarrow> AgentChainStatus \<Rightarrow> AgentRun list \<Rightarrow> instant \<Rightarrow> instant option" where
  "agentChainTerminalBackoffUntil chain status runs now =
     (case ch_Backoff (chain_Spec chain) of
        None \<Rightarrow> None
      | Some backoff \<Rightarrow>
          if chst_StepRuns status = [] then None
          else
            let final = last (chst_StepRuns status);
                failed = (sr_Phase final = AgentRunPhaseFailed \<or> sr_Phase final = AgentRunPhaseNeedsHuman) in
            if (case chst_NextStartAt status of None \<Rightarrow> False | Some t \<Rightarrow> t > now) \<and> failed then chst_NextStartAt status
            else case chain_backoff_seconds backoff (sr_Phase final) of
              None \<Rightarrow> None
            | Some delay \<Rightarrow>
                if delay \<le> 0 then None
                else
                  let terminalAt = (case find (step_run_is final) runs of None \<Rightarrow> now | Some run \<Rightarrow> run_terminal_at run);
                      until = terminalAt + seconds delay
                  in if \<not> until > now then None else Some until)"

subsection \<open>Advancing\<close>

fun agentChainUpsertStepRun_loop ::
  "AgentChainStepRunStatus \<Rightarrow> bool \<Rightarrow> AgentChainStepRunStatus list \<Rightarrow> AgentChainStepRunStatus list" where
  "agentChainUpsertStepRun_loop nxt replaced [] = (if \<not> replaced then [nxt] else [])"
| "agentChainUpsertStepRun_loop nxt replaced (item # items) =
     (if sr_InstanceID item = sr_InstanceID nxt \<and> sr_Step item = sr_Step nxt
      then nxt # agentChainUpsertStepRun_loop nxt True items
      else if sr_InstanceID item \<noteq> sr_InstanceID nxt then agentChainUpsertStepRun_loop nxt replaced items
      else item # agentChainUpsertStepRun_loop nxt replaced items)"

definition agentChainUpsertStepRun ::
  "AgentChainStepRunStatus list \<Rightarrow> AgentChainStepRunStatus \<Rightarrow> AgentChainStepRunStatus list" where
  "agentChainUpsertStepRun existing nxt = agentChainUpsertStepRun_loop nxt False existing"

definition agentRunDecisionAction :: "AgentRun \<Rightarrow> string" where
  "agentRunDecisionAction run =
     (case rs_Decision (run_Status run) of None \<Rightarrow> [] | Some d \<Rightarrow> TrimSpace (dec_Action d))"

definition action_allowed :: "string list \<Rightarrow> AgentRun \<Rightarrow> bool" where
  "action_allowed actions run \<longleftrightarrow>
     (\<exists>allowed \<in> set actions. EqualFold (TrimSpace allowed) (agentRunDecisionAction run))"

definition agentChainWhenMatches :: "AgentChainWhenSpec option \<Rightarrow> string \<Rightarrow> AgentRun \<Rightarrow> bool" where
  "agentChainWhenMatches when expectedPrev prior \<longleftrightarrow>
     (if expectedPrev \<noteq> [] \<and> map_get (run_Labels prior) agentRunChainStepLabel \<noteq> sanitizeLabelValue expectedPrev then False
      else
        let phases = (case when of
                        Some wh \<Rightarrow> if when_OnPhases wh \<noteq> [] then when_OnPhases wh else [AgentRunPhaseSucceeded]
                      | None \<Rightarrow> [AgentRunPhaseSucceeded]) in
        if run_Phase prior \<notin> set phases then False
        else case when of
          None \<Rightarrow> True
        | Some wh \<Rightarrow> when_OnDecisionActions wh = [] \<or> action_allowed (when_OnDecisionActions wh) prior)"

definition agentChainCompletionMatches :: "AgentChainCompletionSpec option \<Rightarrow> AgentRun \<Rightarrow> bool" where
  "agentChainCompletionMatches completion run \<longleftrightarrow>
     (if run_Phase run \<noteq> AgentRunPhaseSucceeded then False
      else case completion of
        None \<Rightarrow> True
      | Some c \<Rightarrow> comp_OnDecisionActions c = [] \<or> action_allowed (comp_OnDecisionActions c) run)"

subsection \<open>Handoff\<close>

definition ellipsis :: string where "ellipsis = [CHR 0xE2, CHR 0x80, CHR 0xA6]"
definition arrow :: string where "arrow = [CHR 0xE2, CHR 0x86, CHR 0x92]"
definition newline :: string where "newline = [CHR 0x0A]"

definition truncateRunes :: "string \<Rightarrow> int \<Rightarrow> string" where
  "truncateRunes value limit =
     (if limit \<le> 0 then value
      else if int (length (runes value)) \<le> limit then value
      else concat (take (nat limit) (runes value)) @ ellipsis)"

definition handoff_ancestors :: "AgentChainStepSpec \<Rightarrow> AgentChainHandoffSpec \<Rightarrow> string list" where
  "handoff_ancestors step handoff =
     (if ho_IncludeAncestorSteps handoff = [] then
        (case step_When step of
           Some when \<Rightarrow> if \<not> blank (when_PreviousStep when) then [when_PreviousStep when] else []
         | None \<Rightarrow> [])
      else ho_IncludeAncestorSteps handoff)"

definition prior_run :: "(string \<times> AgentRun) list \<Rightarrow> string \<Rightarrow> AgentRun option" where
  "prior_run priorByStep name =
     (case map_of priorByStep name of
        Some run \<Rightarrow> Some run
      | None \<Rightarrow> map_of priorByStep (sanitizeLabelValue name))"

definition handoff_excerpt :: "int \<Rightarrow> string \<Rightarrow> string" where
  "handoff_excerpt requested output =
     (let limit = (if requested > agentChainHandoffMax then agentChainHandoffMax else requested)
      in if int (length output) > limit then take (nat limit) output @ ellipsis else output)"

text \<open>The text of one ancestor.\<close>

definition handoff_section :: "AgentChainHandoffSpec \<Rightarrow> string \<Rightarrow> AgentRun option \<Rightarrow> string" where
  "handoff_section handoff name prior =
     (case prior of
        None \<Rightarrow> newline @ ''### Step '' @ Quote name @ newline @ ''- missing prior AgentRun'' @ newline
      | Some run \<Rightarrow>
          newline @ ''### Step '' @ Quote name @ '' '' @ arrow @ '' AgentRun '' @ run_path run @ newline @
          ''- phase: '' @ phase_text (run_Phase run) @ newline @
          (if ho_IncludePullRequestURL handoff \<and> \<not> blank (rs_PullRequestURL (run_Status run))
           then ''- pullRequestURL: '' @ TrimSpace (rs_PullRequestURL (run_Status run)) @ newline else []) @
          (case rs_Decision (run_Status run) of
             Some d \<Rightarrow>
               if ho_IncludeDecision handoff then
                 ''- decision.classification: '' @ dec_Classification d @ newline @
                 ''- decision.action: '' @ dec_Action d @ newline @
                 (if \<not> blank (dec_Summary d)
                  then ''- decision.summary: '' @ truncateRunes (TrimSpace (dec_Summary d)) 1024 @ newline else [])
               else []
           | None \<Rightarrow> []) @
          (if ho_IncludeLatestReports handoff then
             concat (map (\<lambda>report. ''- report['' @ rep_Type report @ '']: '' @
               truncateRunes (rep_Summary report) 512 @ newline) (rs_Reports (run_Status run)))
           else []) @
          (if ho_IncludeOutputExcerptBytes handoff > 0 \<and> \<not> blank (rs_Output (run_Status run)) then
             ''- outputExcerpt:'' @ newline @ ''```'' @ newline @
             handoff_excerpt (ho_IncludeOutputExcerptBytes handoff) (rs_Output (run_Status run)) @
             newline @ ''```'' @ newline
           else []))"

definition renderAgentChainHandoff :: "AgentChainStepSpec \<Rightarrow> (string \<times> AgentRun) list \<Rightarrow> string" where
  "renderAgentChainHandoff step priorByStep =
     (case step_Handoff step of
        None \<Rightarrow> []
      | Some handoff \<Rightarrow>
          TrimSpace (
            ''## AgentChain handoff (controller-injected, status only)'' @ newline @
            ''This context is derived from prior AgentRun status. It is not release authority and does not grant credentials.'' @
            newline @
            concat (map (\<lambda>name. handoff_section handoff name (prior_run priorByStep name))
              (handoff_ancestors step handoff))))"

subsection \<open>Validation is linearity\<close>

lemma index_from_None [simp]: "index_from P i xs = None \<longleftrightarrow> (\<forall>x \<in> set xs. \<not> P x)"
  by (induction xs arbitrary: i) auto

lemma index_from_Some: "index_from P i xs = Some (j, x) \<Longrightarrow> x \<in> set xs \<and> P x"
  by (induction xs arbitrary: i) (auto split: if_splits)

text \<open>The conditions on a step that follows the step named \<open>prevName\<close>.\<close>

definition follows :: "string \<Rightarrow> AgentChainStepSpec \<Rightarrow> bool" where
  "follows prevName step \<longleftrightarrow>
     (case step_When step of
        None \<Rightarrow> False
      | Some when \<Rightarrow> \<not> blank (when_PreviousStep when) \<and> TrimSpace (when_PreviousStep when) = prevName \<and>
          (\<forall>a \<in> set (when_OnDecisionActions when). \<not> blank a) \<and>
          set (when_OnPhases when) \<subseteq> {AgentRunPhaseSucceeded, AgentRunPhaseFailed})"

lemma validate_later_step_None: "validate_later_step prevName step = None \<longleftrightarrow> follows prevName step"
  by (auto simp: validate_later_step_def follows_def Let_def split: option.splits dest!: index_from_Some)

fun linear_from :: "string \<Rightarrow> AgentChainStepSpec list \<Rightarrow> bool" where
  "linear_from prevName [] \<longleftrightarrow> True"
| "linear_from prevName (step # steps) \<longleftrightarrow> follows prevName step \<and> linear_from (step_Name step) steps"

abbreviation step_names :: "AgentChainStepSpec list \<Rightarrow> string list" where
  "step_names steps \<equiv> map (\<lambda>s. TrimSpace (step_Name s)) steps"

lemma validate_steps_later:
  "0 < i \<Longrightarrow> distinct seen \<Longrightarrow>
   validate_steps i seen prevName steps = None \<longleftrightarrow>
     [] \<notin> set (step_names steps) \<and> distinct (step_names steps) \<and> set (step_names steps) \<inter> set seen = {} \<and>
     linear_from prevName steps"
proof (induction steps arbitrary: i seen prevName)
  case (Cons s ss)
  show ?case
    using Cons.IH [of "i + 1" "TrimSpace (step_Name s) # seen" "step_Name s"] Cons.prems
      validate_later_step_None [of prevName s]
    by (auto simp: Let_def split: option.splits)
qed simp

lemma validate_steps_first:
  "validate_steps 0 [] [] (s # ss) = None \<longleftrightarrow>
     [] \<notin> set (step_names (s # ss)) \<and> distinct (step_names (s # ss)) \<and>
     (case step_When s of None \<Rightarrow> True | Some when \<Rightarrow> blank (when_PreviousStep when)) \<and>
     linear_from (step_Name s) ss"
  using validate_steps_later [of 1 "[TrimSpace (step_Name s)]" "step_Name s" ss]
  by (auto simp: Let_def split: option.splits)

lemma linear_from_iff:
  "linear_from prevName steps \<longleftrightarrow>
     (\<forall>i < length steps. follows (case i of 0 \<Rightarrow> prevName | Suc j \<Rightarrow> step_Name (steps ! j)) (steps ! i))"
proof (induction steps arbitrary: prevName)
  case (Cons s ss)
  have all: "(\<forall>i < length (s # ss). P i) \<longleftrightarrow> P 0 \<and> (\<forall>i < length ss. P (Suc i))" for P
    by (auto simp: less_Suc_eq_0_disj)
  have nth: "(case i of 0 \<Rightarrow> step_Name s | Suc j \<Rightarrow> step_Name (ss ! j)) = step_Name ((s # ss) ! i)" for i
    by (cases i) simp_all
  show ?case unfolding all using Cons.IH [of "step_Name s"] by (simp add: nth)
qed simp

text \<open>
  A chain passes validation exactly if it is a line: it has a step, the policy is
  \<^verbatim>\<open>Forbid\<close> (or unset), no time or budget is negative, the trimmed step names are non-blank
  and pairwise distinct, the first step names no predecessor and every other step names the
  step just before it and advances on success or failure only.
\<close>

theorem validated_chain_is_linear:
  "validateAgentChainSpec chain = None \<longleftrightarrow>
     ch_Steps (chain_Spec chain) \<noteq> [] \<and>
     ch_ConcurrencyPolicy (chain_Spec chain) \<in> {AgentChainConcurrencyUnset, AgentChainConcurrencyForbid} \<and>
     0 \<le> ch_StartIntervalSeconds (chain_Spec chain) \<and> 0 \<le> ch_StartInitialDelaySeconds (chain_Spec chain) \<and>
     0 \<le> ch_MaxInstancesPerDay (chain_Spec chain) \<and>
     (case ch_Backoff (chain_Spec chain) of None \<Rightarrow> True
      | Some b \<Rightarrow> 0 \<le> cbo_FailedSeconds b \<and> 0 \<le> cbo_NeedsHumanSeconds b) \<and>
     (case ch_Completion (chain_Spec chain) of None \<Rightarrow> True
      | Some c \<Rightarrow> (\<forall>a \<in> set (comp_OnDecisionActions c). \<not> blank a)) \<and>
     [] \<notin> set (step_names (ch_Steps (chain_Spec chain))) \<and>
     distinct (step_names (ch_Steps (chain_Spec chain))) \<and>
     (case step_When (hd (ch_Steps (chain_Spec chain))) of None \<Rightarrow> True
      | Some when \<Rightarrow> blank (when_PreviousStep when)) \<and>
     (\<forall>i. Suc i < length (ch_Steps (chain_Spec chain)) \<longrightarrow>
        follows (step_Name (ch_Steps (chain_Spec chain) ! i)) (ch_Steps (chain_Spec chain) ! Suc i))"
proof (cases "ch_Steps (chain_Spec chain)")
  case Nil
  then show ?thesis by (simp add: validateAgentChainSpec_def)
next
  case (Cons s ss)
  have line: "linear_from (step_Name s) ss \<longleftrightarrow>
      (\<forall>i. Suc i < length (s # ss) \<longrightarrow> follows (step_Name ((s # ss) ! i)) ((s # ss) ! Suc i))"
    unfolding linear_from_iff by (auto simp: nth_Cons split: nat.splits)
  show ?thesis
    unfolding Cons list.sel line [symmetric]
    using validate_steps_first [of s ss]
    by (auto simp: validateAgentChainSpec_def Let_def Cons simp del: validate_steps.simps
        split: option.splits if_splits dest!: index_from_Some)
qed

definition demo_step :: "string \<Rightarrow> string \<Rightarrow> AgentChainStepSpec" where
  "demo_step name prev =
     \<lparr>step_Name = name,
      step_When = (if prev = [] then None
                   else Some \<lparr>when_PreviousStep = prev, when_OnPhases = [], when_OnDecisionActions = []\<rparr>),
      step_RunTemplate = zero_RunSpec, step_Handoff = None\<rparr>"

definition demo_chain :: AgentChain where
  "demo_chain =
     \<lparr>chain_Meta = zero_ObjectMeta\<lparr>om_Name := ''release'', om_Namespace := ''agents'', om_UID := ''c1'',
        om_Generation := 1, om_Finalizers := [agentChainDrainFinalizer]\<rparr>,
      chain_Spec = zero_ChainSpec\<lparr>ch_ApplicationRef := Some \<lparr>app_Name = ''shop''\<rparr>, ch_StartIntervalSeconds := 60,
        ch_Steps := [demo_step ''plan'' [], demo_step ''build'' ''plan'']\<rparr>,
      chain_Status = zero_ChainStatus\<rparr>"

theorem validated_chain_is_linear_witness:
  "validateAgentChainSpec demo_chain = None \<and> distinct (step_names (ch_Steps (chain_Spec demo_chain)))"
proof -
  have "validateAgentChainSpec demo_chain = None"
    by code_simp
  with validated_chain_is_linear [of demo_chain] show ?thesis by blast
qed

subsection \<open>Cadence\<close>

lemma whole_intervals:
  assumes "0 < (d :: int)" "0 \<le> x" "x < 2 ^ 63"
  shows "x div d * d \<le> x" "0 \<le> x div d" "x div d * d < 2 ^ 63" "x < x div d * d + d"
proof -
  have x: "x = x div d * d + x mod d" by simp
  have m: "0 \<le> x mod d" "x mod d < d" using assms(1) by simp_all
  show "x div d * d \<le> x" "x < x div d * d + d" using x m by linarith+
  then show "x div d * d < 2 ^ 63" using assms(3) by linarith
  show "0 \<le> x div d" using assms by (simp add: pos_imp_zdiv_nonneg_iff)
qed

lemma next_cadence_first_after:
  assumes "0 < d" "now - a < 2 ^ 63 - d"
  shows "first_after d a now (agentChainNextCadenceAfter (a - d) d now)"
proof (cases "now < a")
  case True
  then show ?thesis using assms first_after_anchor by (simp add: agentChainNextCadenceAfter_def)
next
  case False
  let ?x = "now - a"
  have x: "0 \<le> ?x" "?x < 2 ^ 63" using False assms by linarith+
  note wi = whole_intervals [OF assms(1) x]
  have sub: "time_sub now a = ?x" using x by (simp add: time_sub_def saturate64_def)
  have q: "go_div ?x d = Some (?x div d)" using assms(1) x by (intro go_div_pos) simp_all
  have nxt: "(?x div d + 1) * d < 2 ^ 63" using wi(1) assms(2) by (simp add: distrib_right)
  have "1 \<le> d" using assms(1) by simp
  then have "(?x div d + 1) * 1 \<le> (?x div d + 1) * d" using wi(2) by (intro mult_left_mono) simp_all
  then have "?x div d + 1 \<le> (?x div d + 1) * d" by (simp only: mult_1_right)
  from this nxt have "?x div d + 1 < 2 ^ 63" by (rule le_less_trans)
  then have "wrap64 (?x div d + 1) = ?x div d + 1" using wi(2) by (intro wrap64_id) simp_all
  moreover have "wrap64 ((?x div d + 1) * d) = (?x div d + 1) * d"
    using nxt mult_nonneg_nonneg [of "?x div d + 1" d] wi(2) assms(1) by (intro wrap64_id) linarith+
  ultimately have "agentChainNextCadenceAfter (a - d) d now = a + (?x div d + 1) * d"
    using False assms(1) by (simp add: agentChainNextCadenceAfter_def sub q not_less)
  then show ?thesis using first_after_step [OF assms(1)] False by simp
qed

interpretation chain_cadence: cadence "\<lambda>d e. e < 2 ^ 63 - d" "\<lambda>d a now. Some (agentChainNextCadenceAfter (a - d) d now)"
  by unfold_locales (simp_all add: next_cadence_first_after)

text \<open>
  The cadence of a recovered chain: the next automatic start after a start at \<open>base\<close> is the
  first of \<open>base + d\<close>, \<open>base + 2 d\<close>, ... that lies after \<open>now\<close>; it is at most one interval
  away, and advancing again at the same instant does not move it.
\<close>

theorem chain_next_cadence:
  assumes "0 < d" "base \<le> now" "now - base < 2 ^ 63"
  shows "first_after d (base + d) now (agentChainNextCadenceAfter base d now) \<and>
     agentChainNextCadenceAfter base d now \<le> now + d \<and>
     agentChainNextCadenceAfter (agentChainNextCadenceAfter base d now - d) d now = agentChainNextCadenceAfter base d now"
proof -
  let ?a = "base + d" and ?t = "agentChainNextCadenceAfter base d now"
  have span: "now - ?a < 2 ^ 63 - d" using assms by linarith
  have adv: "Some (agentChainNextCadenceAfter (?a - d) d now) = Some ?t" by simp
  have "?t \<le> now + d"
  proof (cases "?a \<le> now")
    case True
    show ?thesis by (rule chain_cadence.advance_within_interval [OF assms(1) span True adv])
  next
    case False
    then show ?thesis using assms by (simp add: agentChainNextCadenceAfter_def)
  qed
  then show ?thesis
    using next_cadence_first_after [OF assms(1) span] chain_cadence.advance_idem [OF assms(1) span adv] by simp
qed

theorem chain_next_cadence_witness:
  "agentChainNextCadenceAfter 0 10 35 = 40 \<and> first_after 10 10 35 40"
  using chain_next_cadence [of 10 0 35]
  by (simp add: agentChainNextCadenceAfter_def time_sub_def saturate64_def go_div_def wrap64_def)

lemma latest_boundary_in_slot:
  assumes "0 < d" "base \<le> now" "now - base < 2 ^ 63" "on_grid d base t" "t \<le> now" "now < t + d"
  shows "latest_boundary base d now = Inr t"
proof -
  let ?x = "now - base"
  obtain m where m: "t - base = d * m" using assms(4) by (auto simp: on_grid_def)
  have x: "0 \<le> ?x" using assms by simp
  note wi = whole_intervals [OF assms(1) x assms(3)]
  have sub: "time_sub now base = ?x" using x assms by (simp add: time_sub_def saturate64_def)
  have q: "go_div ?x d = Some (?x div d)" using assms x by (intro go_div_pos) simp_all
  have "?x = (now - t) + d * m" using m by simp
  then have "?x div d = m + (now - t) div d" using assms(1) by (simp only: div_mult_self2)
  moreover have "(now - t) div d = 0" using assms by (simp add: div_pos_pos_trivial)
  ultimately have dm: "?x div d = m" by simp
  have "0 \<le> ?x div d * d" using wi(2) assms(1) by simp
  then have "wrap64 (?x div d * d) = ?x div d * d" using wi by (intro wrap64_id) linarith+
  then show ?thesis using m dm by (simp add: latest_boundary_def sub q mult.commute)
qed

text \<open>
  The slot of an automatic start is stable. While no deadline is stored, every
  reconciliation between two boundaries of the interval gets the same due time, the earlier
  boundary, and so the same instance identity: a retry within the interval does not start a
  second instance, and a chain first seen long after its creation starts once, at the latest
  boundary.
\<close>

theorem start_slot_stable:
  assumes "0 < ch_StartIntervalSeconds (chain_Spec chain)" "ch_StartIntervalSeconds (chain_Spec chain) \<le> max_seconds"
    and "chst_NextStartAt status = None"
    and "on_grid (ch_StartIntervalSeconds (chain_Spec chain) * Second) (first_start_base chain) t"
    and "t \<le> now" "now < t + ch_StartIntervalSeconds (chain_Spec chain) * Second"
    and "now - first_start_base chain < 2 ^ 63"
  shows "agentChainNextStartTime chain status now = Inr (Some t) \<and>
     agentChainStartDueAt chain False None now = Inr t \<and>
     agentChainStartDueAt chain False (Some t) now = Inr (time_trunc t Second)"
proof -
  let ?n = "ch_StartIntervalSeconds (chain_Spec chain)" and ?b = "first_start_base chain"
  have d: "seconds ?n = ?n * Second" "0 < ?n * Second" using assms(1,2) by (simp_all add: seconds_exact)
  have b: "?b \<le> t" "?b \<le> now" using assms(4,5) by (simp_all add: on_grid_def)
  have lb: "latest_boundary ?b (?n * Second) now = Inr t"
    by (rule latest_boundary_in_slot [OF d(2) b(2) assms(7,4,5,6)])
  have "t = ?b" if "?b = now" using that b assms(5) by simp
  then show ?thesis
    using assms(1,3) b lb by (auto simp: agentChainNextStartTime_def agentChainStartDueAt_def d Let_def)
qed

theorem start_slot_stable_witness:
  "agentChainNextStartTime demo_chain zero_ChainStatus (150 * Second) = Inr (Some (120 * Second))"
proof -
  have "ch_StartIntervalSeconds (chain_Spec demo_chain) = 60" "first_start_base demo_chain = 0"
    "chst_NextStartAt zero_ChainStatus = None"
    by (simp_all add: demo_chain_def first_start_base_def zero_ChainSpec_def zero_ObjectMeta_def zero_ChainStatus_def)
  then show ?thesis
    using start_slot_stable [of demo_chain zero_ChainStatus "120 * Second" "150 * Second"]
    by (simp add: max_seconds_def on_grid_def)
qed

subsection \<open>Step status and backoff\<close>

abbreviation same_step :: "AgentChainStepRunStatus \<Rightarrow> AgentChainStepRunStatus \<Rightarrow> bool" where
  "same_step nxt item \<equiv> sr_InstanceID item = sr_InstanceID nxt \<and> sr_Step item = sr_Step nxt"

lemma upsert_loop:
  "agentChainUpsertStepRun_loop nxt replaced items =
     map (\<lambda>item. if sr_Step item = sr_Step nxt then nxt else item)
       (filter (\<lambda>item. sr_InstanceID item = sr_InstanceID nxt) items) @
     (if replaced \<or> (\<exists>item \<in> set items. same_step nxt item) then [] else [nxt])"
  by (induction nxt replaced items rule: agentChainUpsertStepRun_loop.induct) auto

lemma upsert_steps:
  "map sr_Step (agentChainUpsertStepRun items nxt) =
     (let old = map sr_Step (filter (\<lambda>item. sr_InstanceID item = sr_InstanceID nxt) items)
      in if sr_Step nxt \<in> set old then old else old @ [sr_Step nxt])"
  by (auto simp: agentChainUpsertStepRun_def upsert_loop Let_def comp_def image_iff intro!: map_cong)

lemma distinct_singleton: "distinct xs \<Longrightarrow> set xs = {x} \<Longrightarrow> xs = [x]"
proof (cases xs)
  case (Cons y ys)
  assume "distinct xs" "set xs = {x}"
  then show ?thesis using Cons by (cases ys) auto
qed simp

text \<open>
  The step list of a chain's status stays a table keyed by step: after an update it holds
  entries of the current instance only, the updated step has exactly the new entry, every
  other entry of the instance is kept in order, and the steps stay pairwise distinct.
\<close>

theorem step_runs_stay_keyed:
  assumes "distinct (map sr_Step (filter (\<lambda>item. sr_InstanceID item = sr_InstanceID nxt) items))"
  shows "distinct (map sr_Step (agentChainUpsertStepRun items nxt)) \<and>
     (\<forall>item \<in> set (agentChainUpsertStepRun items nxt). sr_InstanceID item = sr_InstanceID nxt) \<and>
     filter (same_step nxt) (agentChainUpsertStepRun items nxt) = [nxt] \<and>
     filter (\<lambda>item. \<not> same_step nxt item) (agentChainUpsertStepRun items nxt) =
       filter (\<lambda>item. sr_InstanceID item = sr_InstanceID nxt \<and> sr_Step item \<noteq> sr_Step nxt) items"
proof (intro conjI)
  let ?u = "agentChainUpsertStepRun items nxt"
  have steps: "distinct (map sr_Step ?u)"
    using assms by (simp add: upsert_steps Let_def)
  show "distinct (map sr_Step ?u)" by (rule steps)
  show "\<forall>item \<in> set ?u. sr_InstanceID item = sr_InstanceID nxt"
    by (auto simp: agentChainUpsertStepRun_def upsert_loop)
  show "filter (\<lambda>item. \<not> same_step nxt item) ?u =
      filter (\<lambda>item. sr_InstanceID item = sr_InstanceID nxt \<and> sr_Step item \<noteq> sr_Step nxt) items"
    unfolding agentChainUpsertStepRun_def upsert_loop by (induction items) auto
  have only: "item = nxt" if "item \<in> set ?u" "same_step nxt item" for item
    using that by (auto simp: agentChainUpsertStepRun_def upsert_loop split: if_splits)
  have mem: "nxt \<in> set ?u"
    by (auto simp: agentChainUpsertStepRun_def upsert_loop image_iff)
  have "distinct (filter (same_step nxt) ?u)"
    using steps by (simp add: distinct_map)
  moreover have "set (filter (same_step nxt) ?u) = {nxt}" using only mem by auto
  ultimately show "filter (same_step nxt) ?u = [nxt]"
    by (rule distinct_singleton)
qed

definition demo_step_run :: "string \<Rightarrow> string \<Rightarrow> AgentRunPhase \<Rightarrow> AgentChainStepRunStatus" where
  "demo_step_run inst step phase =
     \<lparr>sr_InstanceID = inst, sr_Step = step, sr_RunRef = None, sr_RunUID = [], sr_Phase = phase,
      sr_SourceGeneration = 1, sr_WorkflowDigest = []\<rparr>"

theorem step_runs_stay_keyed_witness:
  "distinct (map sr_Step (agentChainUpsertStepRun
     [demo_step_run ''i-0'' ''plan'' AgentRunPhaseFailed, demo_step_run ''i-1'' ''plan'' AgentRunPhaseRunning]
     (demo_step_run ''i-1'' ''plan'' AgentRunPhaseSucceeded)))"
  using step_runs_stay_keyed [of "demo_step_run ''i-1'' ''plan'' AgentRunPhaseSucceeded"
      "[demo_step_run ''i-0'' ''plan'' AgentRunPhaseFailed, demo_step_run ''i-1'' ''plan'' AgentRunPhaseRunning]"]
  by (simp add: demo_step_run_def)

text \<open>
  The backoff after a stopped instance: for a run that ended in \<^verbatim>\<open>Failed\<close> or
  \<^verbatim>\<open>NeedsHuman\<close> with a positive delay that has not yet expired, no automatic start is due
  before the end of the delay, an already stored later deadline is kept, and nothing else
  in the status changes.
\<close>

theorem chain_backoff_deadline:
  assumes "ch_Backoff (chain_Spec chain) = Some b" "chain_backoff_seconds b (run_Phase terminal) = Some delay"
    and "0 < delay" "delay \<le> max_seconds" "now \<le> run_terminal_at terminal + delay * Second"
  shows "\<exists>t. agentChainApplyTerminalBackoffDeadline chain status terminal now = status\<lparr>chst_NextStartAt := Some t\<rparr> \<and>
     run_terminal_at terminal + delay * Second \<le> t \<and>
     (case chst_NextStartAt status of None \<Rightarrow> t = run_terminal_at terminal + delay * Second
      | Some s \<Rightarrow> t = max s (run_terminal_at terminal + delay * Second))"
proof -
  let ?u = "run_terminal_at terminal + delay * Second"
  have same: "status\<lparr>chst_NextStartAt := Some s\<rparr> = status" if "chst_NextStartAt status = Some s" for s
    using that by (cases status) simp
  have d: "seconds delay = delay * Second" using assms(3,4) by (simp add: seconds_exact)
  have "agentChainApplyTerminalBackoffDeadline chain status terminal now =
      (if (case chst_NextStartAt status of None \<Rightarrow> False | Some t \<Rightarrow> ?u < t) then status
       else status\<lparr>chst_NextStartAt := Some ?u\<rparr>)"
    using assms by (simp add: agentChainApplyTerminalBackoffDeadline_def Let_def d)
  then show ?thesis
  proof (cases "chst_NextStartAt status")
    case (Some s)
    with same [OF Some] \<open>_ = (if _ then _ else _)\<close> show ?thesis
      by (intro exI [of _ "max s ?u"]) (simp add: max_def)
  qed simp
qed

theorem chain_backoff_deadline_witness:
  "\<exists>t. agentChainApplyTerminalBackoffDeadline
       (demo_chain\<lparr>chain_Spec := (chain_Spec demo_chain)\<lparr>
          ch_Backoff := Some \<lparr>cbo_FailedSeconds = 7, cbo_NeedsHumanSeconds = 0\<rparr>\<rparr>\<rparr>)
       zero_ChainStatus demo_failed 20 = zero_ChainStatus\<lparr>chst_NextStartAt := Some t\<rparr> \<and> 10 + 7 * Second \<le> t"
proof -
  have run: "run_Phase demo_failed = AgentRunPhaseFailed" "run_terminal_at demo_failed = 10"
    by (simp_all add: demo_failed_def zero_RunStatus_def run_terminal_at_def demo_run_def zero_Run_def zero_ObjectMeta_def)
  show ?thesis
    using chain_backoff_deadline [of "demo_chain\<lparr>chain_Spec := (chain_Spec demo_chain)\<lparr>
          ch_Backoff := Some \<lparr>cbo_FailedSeconds = 7, cbo_NeedsHumanSeconds = 0\<rparr>\<rparr>\<rparr>"
        "\<lparr>cbo_FailedSeconds = 7, cbo_NeedsHumanSeconds = 0\<rparr>" demo_failed 7 20 zero_ChainStatus]
    by (auto simp: run chain_backoff_seconds_def max_seconds_def)
qed

subsection \<open>Runes\<close>

lemma whole_ellipsis: "whole_rune ellipsis"
  by code_simp

text \<open>
  Truncation counts runes and cuts between them: a text of at most \<open>n\<close> runes is unchanged, a
  longer one becomes its first \<open>n\<close> runes and an ellipsis, and decoding the result gives back
  exactly these runes, so the handoff never carries a broken character that was not already
  in the text.
\<close>

theorem truncate_keeps_runes:
  assumes "0 < n"
  shows "if length (runes value) \<le> n then truncateRunes value (int n) = value
     else runes (truncateRunes value (int n)) = take n (runes value) @ [ellipsis]"
proof -
  have "runes (concat (take n (runes value) @ [ellipsis])) = take n (runes value) @ [ellipsis]"
    using runes_whole whole_ellipsis by (intro runes_concat) (auto dest: in_set_takeD)
  then show ?thesis using assms by (simp add: truncateRunes_def)
qed

theorem truncate_keeps_runes_witness:
  "runes (truncateRunes [CHR 0xC3, CHR 0xA9, CHR 0x41] (int 1)) = [[CHR 0xC3, CHR 0xA9], ellipsis]"
proof -
  have "runes [CHR 0xC3, CHR 0xA9, CHR 0x41] = [[CHR 0xC3, CHR 0xA9], [CHR 0x41]]"
    by code_simp
  then show ?thesis using truncate_keeps_runes [of 1 "[CHR 0xC3, CHR 0xA9, CHR 0x41]"] by simp
qed

end
