(* ===== verification/ChainRuns.thy ===== *)
theory ChainRuns
  imports ChainCore
begin

text \<open>
  The runs of a chain in the cluster (\<^verbatim>\<open>internal/controller/agent_chain_controller.go\<close>): the
  scan that counts instances, the scan for nonterminal runs of the chain that ignores
  labels, the lookup of the exact run a status refers to, and the creation of a step's run.
  The lemmas show what a run resolved from a status reference carries, what every created
  run carries, and that a created run is found again by all three.
\<close>

subsection \<open>Definitions\<close>

definition chain_source :: "AgentChain \<Rightarrow> AgentRunSourceRef" where
  "chain_source chain = \<lparr>src_APIVersion = GroupVersion, src_Kind = ''AgentChain'',
     src_Namespace = chain_Namespace chain, src_Name = chain_Name chain\<rparr>"

definition frozen_identity :: "AgentChain \<Rightarrow> AgentChainStatus \<Rightarrow> string \<Rightarrow> AgentRun \<Rightarrow> bool" where
  "frozen_identity chain status step run \<longleftrightarrow>
     src_APIVersion (spec_SourceRef (run_Spec run)) = GroupVersion \<and>
     src_Kind (spec_SourceRef (run_Spec run)) = ''AgentChain'' \<and>
     src_Namespace (spec_SourceRef (run_Spec run)) = chain_Namespace chain \<and>
     src_Name (spec_SourceRef (run_Spec run)) = chain_Name chain \<and>
     spec_SourceUID (run_Spec run) = chain_UID chain \<and>
     spec_SourceGeneration (run_Spec run) = chst_ActiveSourceGeneration status \<and>
     spec_SourceDigest (run_Spec run) = chst_ActiveWorkflowDigest status \<and>
     map_get (om_Annotations (run_Meta run)) agentRunChainDigestAnnotation = chst_ActiveWorkflowDigest status \<and>
     map_get (run_Labels run) agentRunChainLabel = sanitizeLabelValue (chain_Name chain) \<and>
     map_get (run_Labels run) agentRunChainInstLabel = sanitizeLabelValue (chst_ActiveInstanceID status) \<and>
     map_get (run_Labels run) agentRunChainStepLabel = sanitizeLabelValue step"

text \<open>
  The loop over the expected labels stops at the first that differs. Go visits the keys of a
  map in no fixed order; which key the message names is the first of the list here.
\<close>

definition agentChainRunByRef ::
  "'w kube \<Rightarrow> 'w \<Rightarrow> AgentChain \<Rightarrow> AgentChainStatus \<Rightarrow> string \<Rightarrow> NamespacedObjectReference \<Rightarrow> string \<Rightarrow> AgentRun result" where
  "agentChainRunByRef k w chain status step ref expectedUID =
     (if blank (nor_Name ref) then Inl (Errorf ''run reference is incomplete'')
      else
        let namespace = (if TrimSpace (nor_Namespace ref) = [] then chain_Namespace chain else TrimSpace (nor_Namespace ref)) in
        if namespace \<noteq> chain_Namespace chain then
          Inl (Errorf (''run reference namespace '' @ Quote namespace @ '' differs from chain namespace '' @
            Quote (chain_Namespace chain)))
        else case k_GetRun k w namespace (nor_Name ref) of
          Inl e \<Rightarrow> Inl e
        | Inr run \<Rightarrow>
            if expectedUID \<noteq> [] \<and> run_UID run \<noteq> expectedUID then
              Inl (ProvenanceMismatch (''AgentRun '' @ run_path run @ '' UID '' @ Quote (run_UID run) @
                '' differs from frozen UID '' @ Quote expectedUID))
            else case resolveAgentChainApplicationName chain of
              Inl e \<Rightarrow> Inl e
            | Inr applicationName \<Rightarrow>
                if \<not> frozen_identity chain status step run then
                  Inl (ProvenanceMismatch (''AgentRun '' @ run_path run @ '' identity does not match frozen instance '' @
                    chst_ActiveInstanceID status @ '' step '' @ step))
                else case find (\<lambda>(key, value). map_get (run_Labels run) key \<noteq> value)
                            (agentChainChildLabels chain applicationName (chst_ActiveInstanceID status) step) of
                  Some (key, value) \<Rightarrow>
                    Inl (ProvenanceMismatch (''AgentRun '' @ run_path run @ '' controller label '' @ Quote key @
                      '' does not match frozen instance''))
                | None \<Rightarrow> Inr run)"

definition agentChainActiveRun :: "'w kube \<Rightarrow> 'w \<Rightarrow> AgentChain \<Rightarrow> AgentChainStatus \<Rightarrow> AgentRun result" where
  "agentChainActiveRun k w chain status =
     (case chst_ActiveRunRef status of
        None \<Rightarrow> Inl (Errorf ''status.activeRunRef is missing'')
      | Some ref \<Rightarrow> agentChainRunByRef k w chain status (chst_ActiveStep status) ref (chst_ActiveRunUID status))"

definition canonical_env :: "EnvVar \<Rightarrow> EnvVar" where
  "canonical_env env =
     (case env_ValueFrom env of
        None \<Rightarrow> env
      | Some source \<Rightarrow>
          (case evs_FileKeyRef source of
             None \<Rightarrow> env
           | Some ref \<Rightarrow>
               if fks_Optional ref = None
               then env\<lparr>env_ValueFrom := Some (source\<lparr>evs_FileKeyRef := Some (ref\<lparr>fks_Optional := Some False\<rparr>)\<rparr>)\<rparr>
               else env))"

definition agentChainCanonicalRunSpec :: "AgentRunSpec \<Rightarrow> AgentRunSpec" where
  "agentChainCanonicalRunSpec spec =
     (let harness = spec_Harness spec; execution = har_Execution harness in
      spec\<lparr>spec_Harness := harness\<lparr>har_Execution := execution\<lparr>
        ex_ExtraEnv := map canonical_env (ex_ExtraEnv execution)\<rparr>\<rparr>\<rparr>)"

definition agentChainRunSpecsEqual :: "'w kube \<Rightarrow> AgentRunSpec \<Rightarrow> AgentRunSpec \<Rightarrow> bool" where
  "agentChainRunSpecsEqual k actual expected \<longleftrightarrow>
     digestJSON (k_MarshalRunSpec k) (agentChainCanonicalRunSpec actual) =
     digestJSON (k_MarshalRunSpec k) (agentChainCanonicalRunSpec expected)"

definition agentChainExpectedMetadataMatches :: "AgentRun \<Rightarrow> AgentRun \<Rightarrow> bool" where
  "agentChainExpectedMetadataMatches actual expected \<longleftrightarrow>
     (\<forall>(key, value) \<in> set (run_Labels expected). map_get (run_Labels actual) key = value) \<and>
     (\<forall>(key, value) \<in> set (om_Annotations (run_Meta expected)). map_get (om_Annotations (run_Meta actual)) key = value)"

text \<open>\<^verbatim>\<open>createChainedAgentRun\<close>: the application, then the rest of the spec.\<close>

definition chained_scope :: "string \<Rightarrow> AgentChainStepSpec \<Rightarrow> AgentRunSpec result" where
  "chained_scope applicationName step =
     (let spec = step_RunTemplate step in
      if applicationName = [] then Inr spec
      else case scope_ApplicationRef (spec_Scope spec) of
        None \<Rightarrow> Inr (spec\<lparr>spec_Scope := (spec_Scope spec)\<lparr>scope_ApplicationRef := Some \<lparr>app_Name = applicationName\<rparr>\<rparr>\<rparr>)
      | Some ref \<Rightarrow>
          if TrimSpace (app_Name ref) \<noteq> applicationName then
            Inl (Errorf (''chain applicationRef '' @ Quote applicationName @ '' conflicts with step '' @
              Quote (step_Name step) @ '' applicationRef '' @ Quote (TrimSpace (app_Name ref))))
          else Inr spec)"

definition with_handoff :: "AgentChainStepSpec \<Rightarrow> (string \<times> AgentRun) list option \<Rightarrow> AgentRunSpec \<Rightarrow> AgentRunSpec" where
  "with_handoff step priorByStep spec =
     (case priorByStep of
        None \<Rightarrow> spec
      | Some prior \<Rightarrow>
          let handoff = renderAgentChainHandoff step prior in
          if step_Handoff step = None \<or> handoff = [] then spec
          else spec\<lparr>spec_Prompt := (if blank (spec_Prompt spec) then handoff
                                    else TrimSpace (spec_Prompt spec) @ newline @ newline @ handoff)\<rparr>)"

definition chained_spec ::
  "AgentChain \<Rightarrow> int \<Rightarrow> string \<Rightarrow> AgentChainStepSpec \<Rightarrow> (string \<times> AgentRun) list option \<Rightarrow> instant option \<Rightarrow>
     string \<Rightarrow> string \<Rightarrow> AgentRunSpec \<Rightarrow> AgentRunSpec" where
  "chained_spec chain sourceGeneration workflowDigest step priorByStep detectedAt triggerReason triggerMessage spec =
     with_handoff step priorByStep (spec\<lparr>
       spec_Purpose := AgentRunPurposeChained,
       spec_SourceRef := chain_source chain,
       spec_SourceUID := chain_UID chain,
       spec_SourceGeneration := sourceGeneration,
       spec_SourceDigest := workflowDigest,
       spec_Trigger := (spec_Trigger spec)\<lparr>
         trig_Reason := triggerReason, trig_Message := triggerMessage, trig_DetectedAt := detectedAt\<rparr>,
       spec_ScheduleRef := None\<rparr>)"

definition chained_name :: "AgentChain \<Rightarrow> string \<Rightarrow> string \<Rightarrow> string" where
  "chained_name chain instanceID stepName =
     agentRunChildName [''agentrun'', chain_Name chain, instanceID, stepName,
       shortHash (Join [chain_UID chain, instanceID, stepName] ''|'')]"

definition chained_run :: "AgentChain \<Rightarrow> string \<Rightarrow> string \<Rightarrow> string \<Rightarrow> string \<Rightarrow> AgentRunSpec \<Rightarrow> AgentRun" where
  "chained_run chain applicationName instanceID workflowDigest stepName spec =
     \<lparr>run_Meta = zero_ObjectMeta\<lparr>
        om_Name := chained_name chain instanceID stepName,
        om_Namespace := chain_Namespace chain,
        om_Labels := agentChainChildLabels chain applicationName instanceID stepName,
        om_Annotations := [(agentRunChainDigestAnnotation, workflowDigest)]\<rparr>,
      run_Spec = spec, run_Status = zero_RunStatus\<rparr>"

text \<open>The checks of an object that already has the name; \<open>None\<close> accepts it.\<close>

definition validate_chained_run ::
  "'w kube \<Rightarrow> AgentChain \<Rightarrow> string \<Rightarrow> int \<Rightarrow> string \<Rightarrow> string \<Rightarrow> AgentRun \<Rightarrow> AgentRun \<Rightarrow> go_error option" where
  "validate_chained_run k chain instanceID sourceGeneration workflowDigest stepName expected run =
     (if spec_SourceUID (run_Spec run) \<noteq> chain_UID chain \<or>
         map_get (run_Labels run) agentRunChainLabel \<noteq> sanitizeLabelValue (chain_Name chain) then
        Some (Errorf (''AgentRun '' @ run_path run @ '' collides with the expected child for AgentChain '' @
          chain_Namespace chain @ ''/'' @ chain_Name chain))
      else if map_get (run_Labels run) agentRunChainInstLabel \<noteq> sanitizeLabelValue instanceID \<or>
         map_get (run_Labels run) agentRunChainStepLabel \<noteq> sanitizeLabelValue stepName then
        Some (Errorf (''AgentRun '' @ run_path run @ '' has mismatched chain instance/step labels''))
      else if map_get (om_Annotations (run_Meta run)) agentRunChainDigestAnnotation \<noteq> workflowDigest \<or>
         spec_SourceGeneration (run_Spec run) \<noteq> sourceGeneration \<or> spec_SourceDigest (run_Spec run) \<noteq> workflowDigest \<or>
         \<not> agentChainRunSpecsEqual k (run_Spec run) (run_Spec expected) \<or>
         \<not> agentChainExpectedMetadataMatches run expected then
        Some (Errorf (''AgentRun '' @ run_path run @
          '' already exists with a different immutable chain step spec or provenance''))
      else None)"

definition createChainedAgentRun ::
  "'w kube \<Rightarrow> 'w \<Rightarrow> AgentChain \<Rightarrow> string \<Rightarrow> string \<Rightarrow> int \<Rightarrow> string \<Rightarrow> AgentChainStepSpec \<Rightarrow>
     (string \<times> AgentRun) list option \<Rightarrow> instant option \<Rightarrow> string \<Rightarrow> string \<Rightarrow> AgentRun result \<times> 'w" where
  "createChainedAgentRun k w chain applicationName instanceID sourceGeneration workflowDigest step priorByStep
     detectedAt triggerReason triggerMessage =
     (case chained_scope applicationName step of
        Inl e \<Rightarrow> (Inl e, w)
      | Inr scoped \<Rightarrow>
          let spec = chained_spec chain sourceGeneration workflowDigest step priorByStep detectedAt
                       triggerReason triggerMessage scoped;
              expected = chained_run chain applicationName instanceID workflowDigest (step_Name step) spec in
          case k_CreateRun k w expected of
            (Inr run, w') \<Rightarrow> (Inr run, w')
          | (Inl e, w') \<Rightarrow>
              if \<not> IsAlreadyExists e then (Inl e, w')
              else case k_GetRun k w' (run_Namespace expected) (run_Name expected) of
                Inl e \<Rightarrow> (Inl e, w')
              | Inr run \<Rightarrow>
                  (case validate_chained_run k chain instanceID sourceGeneration workflowDigest (step_Name step) expected run of
                     Some e \<Rightarrow> (Inl e, w')
                   | None \<Rightarrow> (Inr run, w')))"

text \<open>
  \<open>agentChainRuns\<close>: the runs with the chain's label and the distinct instances whose first step
  was created in the current UTC day.
\<close>

definition counts_today :: "AgentChain \<Rightarrow> instant \<Rightarrow> AgentRun \<Rightarrow> bool" where
  "counts_today chain dayStart run \<longleftrightarrow>
     map_get (run_Labels run) agentRunChainInstLabel \<noteq> [] \<and>
     (case ch_Steps (chain_Spec chain) of
        [] \<Rightarrow> False
      | first # rest \<Rightarrow>
          sanitizeLabelValue (step_Name first) \<noteq> [] \<and>
          map_get (run_Labels run) agentRunChainStepLabel = sanitizeLabelValue (step_Name first)) \<and>
     \<not> run_CreationTimestamp run < dayStart \<and> run_CreationTimestamp run < dayStart + Hour24"

fun chain_runs_loop ::
  "'w kube \<Rightarrow> AgentChain \<Rightarrow> instant \<Rightarrow> 'w \<Rightarrow> AgentRun list \<Rightarrow> string list \<Rightarrow> AgentRun list \<Rightarrow>
     (AgentRun list \<times> string list) result \<times> 'w" where
  "chain_runs_loop k chain dayStart w acc insts [] = (Inr (acc, insts), w)"
| "chain_runs_loop k chain dayStart w acc insts (run # runs) =
     (if map_get (run_Labels run) agentRunChainLabel \<noteq> sanitizeLabelValue (chain_Name chain)
      then chain_runs_loop k chain dayStart w acc insts runs
      else
        case (case detachAgentRunControllerOwner run GroupVersion ''AgentChain'' (chain_Name chain) (chain_UID chain) of
                (run', False) \<Rightarrow> (Inr run', w)
              | (run', True) \<Rightarrow> k_PatchRun k w run run') of
          (Inl e, w') \<Rightarrow>
            (Inl (Wrapf (''detach durable AgentRun '' @ run_path run @ '' from AgentChain garbage collection'') e), w')
        | (Inr run', w') \<Rightarrow>
            chain_runs_loop k chain dayStart w' (acc @ [run'])
              (if counts_today chain dayStart run'
               then List.insert (map_get (run_Labels run') agentRunChainInstLabel) insts else insts) runs)"

definition agentChainRuns ::
  "'w kube \<Rightarrow> 'w \<Rightarrow> AgentChain \<Rightarrow> instant \<Rightarrow> (AgentRun list \<times> int) result \<times> 'w" where
  "agentChainRuns k w chain now =
     (case k_ListRuns k w (Some (chain_Namespace chain)) [(agentRunChainLabel, sanitizeLabelValue (chain_Name chain))] of
        Inl e \<Rightarrow> (Inl (Wrapf ''list chained agent runs'' e), w)
      | Inr items \<Rightarrow>
          (case chain_runs_loop k chain (time_trunc now Hour24) w [] [] items of
             (Inl e, w') \<Rightarrow> (Inl e, w')
           | (Inr (runs, insts), w') \<Rightarrow> (Inr (runs, int (length insts)), w')))"

definition owned_nonterminal :: "AgentChain \<Rightarrow> AgentRun \<Rightarrow> bool" where
  "owned_nonterminal chain run \<longleftrightarrow>
     \<not> agentRunPhaseTerminal (run_Phase run) \<and>
     spec_Purpose (run_Spec run) = AgentRunPurposeChained \<and>
     src_APIVersion (spec_SourceRef (run_Spec run)) = GroupVersion \<and>
     src_Kind (spec_SourceRef (run_Spec run)) = ''AgentChain'' \<and>
     src_Namespace (spec_SourceRef (run_Spec run)) = chain_Namespace chain \<and>
     src_Name (spec_SourceRef (run_Spec run)) = chain_Name chain \<and>
     spec_SourceUID (run_Spec run) = chain_UID chain"

definition agentChainOwnedNonterminalRuns :: "'w kube \<Rightarrow> 'w \<Rightarrow> AgentChain \<Rightarrow> AgentRun list result" where
  "agentChainOwnedNonterminalRuns k w chain =
     (case k_ListRuns k w (Some (chain_Namespace chain)) [] of
        Inl e \<Rightarrow> Inl (Wrapf ''list AgentRuns for orphan ownership recovery'' e)
      | Inr items \<Rightarrow> Inr (filter (owned_nonterminal chain) items))"

definition validateAgentChainRecoverableRun :: "AgentChain \<Rightarrow> AgentRun \<Rightarrow> go_error option" where
  "validateAgentChainRecoverableRun chain run =
     (let applicationName = app_ref_name (scope_ApplicationRef (spec_Scope (run_Spec run))) in
      if spec_SourceGeneration (run_Spec run) \<le> 0 \<or> blank (spec_SourceDigest (run_Spec run)) \<or>
         map_get (om_Annotations (run_Meta run)) agentRunChainDigestAnnotation \<noteq> spec_SourceDigest (run_Spec run) \<or>
         map_get (run_Labels run) agentRunChainLabel \<noteq> sanitizeLabelValue (chain_Name chain) \<or>
         blank (map_get (run_Labels run) agentRunChainInstLabel) \<or>
         blank (map_get (run_Labels run) agentRunChainStepLabel) \<or>
         map_get (run_Labels run) agentManagedByLabel \<noteq> ''anvil-agents'' \<or> applicationName = [] \<or>
         map_get (run_Labels run) agentApplicationLabel \<noteq> sanitizeLabelValue applicationName then
        Some (Errorf ''immutable source provenance or controller-owned identity metadata is incomplete or inconsistent'')
      else None)"

subsection \<open>Observation\<close>

lemma observe_chain_reads [simp]:
  "agentChainRunByRef (observe k) (w, l) chain status step ref uid = agentChainRunByRef k w chain status step ref uid"
  "agentChainActiveRun (observe k) (w, l) chain status = agentChainActiveRun k w chain status"
  "agentChainOwnedNonterminalRuns (observe k) (w, l) chain = agentChainOwnedNonterminalRuns k w chain"
  "agentChainWorkflowDigest (observe k) chain = agentChainWorkflowDigest k chain"
  "validate_chained_run (observe k) chain inst gen digest stepName expected run =
     validate_chained_run k chain inst gen digest stepName expected run"
  unfolding agentChainActiveRun_def agentChainRunByRef_def agentChainOwnedNonterminalRuns_def
    agentChainWorkflowDigest_def validate_chained_run_def agentChainRunSpecsEqual_def observe_reads
  by (rule refl)+

lemma observe_chain_runs_loop:
  "chain_runs_loop (observe k) chain day (w, l) acc insts runs =
     (case chain_runs_loop k chain day w acc insts runs of (r, w') \<Rightarrow> (r, (w', l)))"
  by (induction runs arbitrary: w acc insts)
    (simp_all add: observe_writes split: prod.splits bool.splits sum.splits)

lemma observe_agentChainRuns:
  "agentChainRuns (observe k) (w, l) chain now = (case agentChainRuns k w chain now of (r, w') \<Rightarrow> (r, (w', l)))"
  by (simp add: agentChainRuns_def observe_chain_runs_loop split: sum.splits prod.splits)

text \<open>The run a call passes to \<^verbatim>\<open>Create\<close>.\<close>

definition chained_expected ::
  "AgentChain \<Rightarrow> string \<Rightarrow> string \<Rightarrow> int \<Rightarrow> string \<Rightarrow> AgentChainStepSpec \<Rightarrow>
     (string \<times> AgentRun) list option \<Rightarrow> instant option \<Rightarrow> string \<Rightarrow> string \<Rightarrow> AgentRun list" where
  "chained_expected chain app inst gen digest step prior detected reason message =
     (case chained_scope app step of
        Inl e \<Rightarrow> []
      | Inr scoped \<Rightarrow>
          [chained_run chain app inst digest (step_Name step)
             (chained_spec chain gen digest step prior detected reason message scoped)])"

lemma observe_createChained:
  "createChainedAgentRun (observe k) (w, l) chain app inst gen digest step prior detected reason message =
     (case createChainedAgentRun k w chain app inst gen digest step prior detected reason message of
        (r, w') \<Rightarrow> (r, (w', l @ chained_expected chain app inst gen digest step prior detected reason message)))"
  by (simp add: createChainedAgentRun_def chained_expected_def observe_writes Let_def
      split: sum.splits prod.splits option.splits)

subsection \<open>Counting instances\<close>

lemma chain_runs_loop_count:
  assumes "chain_runs_loop k chain day w acc insts runs = (Inr (acc', insts'), w')" "distinct insts"
  shows "distinct insts' \<and> (\<exists>new. acc' = acc @ new \<and>
     set insts' = set insts \<union> (\<lambda>r. map_get (run_Labels r) agentRunChainInstLabel) ` {r \<in> set new. counts_today chain day r})"
  using assms
proof (induction runs arbitrary: w acc insts)
  case (Cons run runs)
  show ?case
  proof (cases "map_get (run_Labels run) agentRunChainLabel \<noteq> sanitizeLabelValue (chain_Name chain)")
    case True
    then show ?thesis using Cons by simp
  next
    case False
    then obtain run' w1 where
      loop: "chain_runs_loop k chain day w1 (acc @ [run'])
        (if counts_today chain day run' then List.insert (map_get (run_Labels run') agentRunChainInstLabel) insts else insts)
        runs = (Inr (acc', insts'), w')"
      using Cons.prems(1)
      by (cases "detachAgentRunControllerOwner run GroupVersion ''AgentChain'' (chain_Name chain) (chain_UID chain)")
        (auto split: prod.splits bool.splits sum.splits)
    have "distinct (if counts_today chain day run'
        then List.insert (map_get (run_Labels run') agentRunChainInstLabel) insts else insts)"
      using Cons.prems(2) by simp
    from Cons.IH [OF loop this] obtain new where "distinct insts'" "acc' = acc @ run' # new"
      and insts: "set insts' =
        set (if counts_today chain day run' then List.insert (map_get (run_Labels run') agentRunChainInstLabel) insts else insts) \<union>
        (\<lambda>r. map_get (run_Labels r) agentRunChainInstLabel) ` {r \<in> set new. counts_today chain day r}"
      by auto
    moreover have "{r \<in> set (run' # new). counts_today chain day r} =
        (if counts_today chain day run' then {run'} else {}) \<union> {r \<in> set new. counts_today chain day r}" by auto
    ultimately show ?thesis by (intro conjI exI [of _ "run' # new"]) (simp_all add: insts)
  qed
qed auto

text \<open>
  The daily budget counts instances, not runs: the number that \<^verbatim>\<open>agentChainRuns\<close> returns is
  the number of distinct instance labels among the returned runs that are a first step
  created in the current UTC day.
\<close>

theorem instances_counted_once:
  assumes "agentChainRuns k w chain now = (Inr (runs, n), w')"
  shows "n = int (card ((\<lambda>r. map_get (run_Labels r) agentRunChainInstLabel) `
     {r \<in> set runs. counts_today chain (time_trunc now Hour24) r}))"
proof -
  from assms obtain items insts where
    loop: "chain_runs_loop k chain (time_trunc now Hour24) w [] [] items = (Inr (runs, insts), w')"
    and n: "n = int (length insts)"
    by (auto simp: agentChainRuns_def split: sum.splits prod.splits)
  from chain_runs_loop_count [OF loop] have "distinct insts"
    and "set insts = (\<lambda>r. map_get (run_Labels r) agentRunChainInstLabel) ` {r \<in> set runs. counts_today chain (time_trunc now Hour24) r}"
    by auto
  with n distinct_card [of insts] show ?thesis by simp
qed

definition demo_chain_run :: "string \<Rightarrow> string \<Rightarrow> string \<Rightarrow> AgentRun" where
  "demo_chain_run name inst step =
     (demo_run ''agents'' name 10)\<lparr>run_Meta := (run_Meta (demo_run ''agents'' name 10))\<lparr>
        om_Labels := [(agentRunChainLabel, ''release''), (agentRunChainInstLabel, inst), (agentRunChainStepLabel, step)]\<rparr>\<rparr>"

definition demo_chain_world :: mem where
  "demo_chain_world = mem_empty\<lparr>mem_Runs :=
     [demo_chain_run ''a'' ''i-1'' ''plan'', demo_chain_run ''b'' ''i-1'' ''build'',
      demo_chain_run ''c'' ''i-2'' ''plan'', demo_chain_run ''d'' ''i-2'' ''plan'']\<rparr>"

theorem instances_counted_once_witness:
  "\<exists>runs w'. agentChainRuns mem_kube demo_chain_world demo_chain 20 = (Inr (runs, 2), w') \<and>
     card ((\<lambda>r. map_get (run_Labels r) agentRunChainInstLabel) `
       {r \<in> set runs. counts_today demo_chain (time_trunc 20 Hour24) r}) = 2"
proof -
  have "(case agentChainRuns mem_kube demo_chain_world demo_chain 20 of (Inr (runs, n), w') \<Rightarrow> n = 2 | _ \<Rightarrow> False)"
    by code_simp
  then obtain runs w' where r: "agentChainRuns mem_kube demo_chain_world demo_chain 20 = (Inr (runs, 2), w')"
    by (auto split: prod.splits sum.splits)
  from instances_counted_once [OF r] r show ?thesis by fastforce
qed

subsection \<open>What a created run carries\<close>

lemma chain_label_distinct [simp]:
  "agentRunChainLabel \<noteq> agentRunChainInstLabel" "agentRunChainLabel \<noteq> agentRunChainStepLabel"
  "agentRunChainLabel \<noteq> agentManagedByLabel" "agentRunChainInstLabel \<noteq> agentRunChainStepLabel"
  "agentRunChainInstLabel \<noteq> agentManagedByLabel" "agentRunChainStepLabel \<noteq> agentManagedByLabel"
  "agentRunChainLabel \<noteq> agentApplicationLabel" "agentRunChainInstLabel \<noteq> agentApplicationLabel"
  "agentRunChainStepLabel \<noteq> agentApplicationLabel" "agentManagedByLabel \<noteq> agentApplicationLabel"
  "agentRunChainLabel \<noteq> agentDynamicLabel" "agentRunChainInstLabel \<noteq> agentDynamicLabel"
  "agentRunChainStepLabel \<noteq> agentDynamicLabel" "agentManagedByLabel \<noteq> agentDynamicLabel"
  "agentApplicationLabel \<noteq> agentDynamicLabel"
  "agentRunChainLabel \<noteq> agentManagerRepositoryLabel" "agentRunChainInstLabel \<noteq> agentManagerRepositoryLabel"
  "agentRunChainStepLabel \<noteq> agentManagerRepositoryLabel" "agentManagedByLabel \<noteq> agentManagerRepositoryLabel"
  "agentApplicationLabel \<noteq> agentManagerRepositoryLabel" "agentDynamicLabel \<noteq> agentManagerRepositoryLabel"
  by code_simp+

lemmas chain_label_distinct_sym [simp] = chain_label_distinct [symmetric]

lemma child_labels_get [simp]:
  "map_get (agentChainChildLabels chain app inst step) agentRunChainLabel = sanitizeLabelValue (chain_Name chain)"
  "map_get (agentChainChildLabels chain app inst step) agentRunChainInstLabel = sanitizeLabelValue inst"
  "map_get (agentChainChildLabels chain app inst step) agentRunChainStepLabel = sanitizeLabelValue step"
  "map_get (agentChainChildLabels chain app inst step) agentManagedByLabel = ''anvil-agents''"
  "app \<noteq> [] \<Longrightarrow> map_get (agentChainChildLabels chain app inst step) agentApplicationLabel = sanitizeLabelValue app"
  by (simp_all add: agentChainChildLabels_def Let_def, simp_all add: map_get_def)

lemma distinct_child_labels: "distinct (map fst (agentChainChildLabels chain app inst step))"
  by (simp add: agentChainChildLabels_def Let_def distinct_map_set)

lemma map_get_own: "distinct (map fst m) \<Longrightarrow> (key, v) \<in> set m \<Longrightarrow> map_get m key = v"
  by (simp add: map_get_def)

lemma with_handoff_fields [simp]:
  "spec_Purpose (with_handoff step prior spec) = spec_Purpose spec"
  "spec_SourceRef (with_handoff step prior spec) = spec_SourceRef spec"
  "spec_SourceUID (with_handoff step prior spec) = spec_SourceUID spec"
  "spec_SourceGeneration (with_handoff step prior spec) = spec_SourceGeneration spec"
  "spec_SourceDigest (with_handoff step prior spec) = spec_SourceDigest spec"
  "spec_Trigger (with_handoff step prior spec) = spec_Trigger spec"
  "spec_ScheduleRef (with_handoff step prior spec) = spec_ScheduleRef spec"
  "spec_Scope (with_handoff step prior spec) = spec_Scope spec"
  by (simp_all add: with_handoff_def Let_def split: option.splits)

lemma chained_spec_fields [simp]:
  "spec_Purpose (chained_spec chain gen digest step prior detected reason message spec) = AgentRunPurposeChained"
  "spec_SourceRef (chained_spec chain gen digest step prior detected reason message spec) = chain_source chain"
  "spec_SourceUID (chained_spec chain gen digest step prior detected reason message spec) = chain_UID chain"
  "spec_SourceGeneration (chained_spec chain gen digest step prior detected reason message spec) = gen"
  "spec_SourceDigest (chained_spec chain gen digest step prior detected reason message spec) = digest"
  "spec_ScheduleRef (chained_spec chain gen digest step prior detected reason message spec) = None"
  "spec_Scope (chained_spec chain gen digest step prior detected reason message spec) = spec_Scope spec"
  by (simp_all add: chained_spec_def)

lemma chained_run_fields [simp]:
  "run_Name (chained_run chain app inst digest stepName spec) = chained_name chain inst stepName"
  "run_Namespace (chained_run chain app inst digest stepName spec) = chain_Namespace chain"
  "run_Labels (chained_run chain app inst digest stepName spec) = agentChainChildLabels chain app inst stepName"
  "om_Annotations (run_Meta (chained_run chain app inst digest stepName spec)) = [(agentRunChainDigestAnnotation, digest)]"
  "run_Spec (chained_run chain app inst digest stepName spec) = spec"
  "run_Phase (chained_run chain app inst digest stepName spec) = AgentRunPhaseUnset"
  "run_UID (chained_run chain app inst digest stepName spec) = []"
  by (simp_all add: chained_run_def zero_ObjectMeta_def zero_RunStatus_def)

lemma chain_application_nonempty:
  assumes "resolveAgentChainApplicationName chain = Inr app"
  shows "app \<noteq> [] \<and> TrimSpace app = app"
proof -
  have "app \<in> set (chain_application_names (chain_Spec chain))"
    using assms by (auto simp: resolveAgentChainApplicationName_def split: list.splits option.splits)
  moreover have "TrimSpace (app_ref_name ref) = app_ref_name ref" for ref
    by (simp add: app_ref_name_def split: option.splits)
  ultimately show ?thesis
    unfolding chain_application_names_def set_filter set_map by auto
qed

lemma chained_scope_app:
  "chained_scope app step = Inr spec \<Longrightarrow> app \<noteq> [] \<Longrightarrow> TrimSpace app = app \<Longrightarrow>
     app_ref_name (scope_ApplicationRef (spec_Scope spec)) = app"
  by (auto simp: chained_scope_def app_ref_name_def Let_def split: option.splits if_splits)

lemma blank_label: "blank (sanitizeLabelValue x) \<longleftrightarrow> sanitizeLabelValue x = []"
proof -
  have "dns_chars (sanitizeLabelValue x)"
    using sanitizeDNSLabel_token [of x] dns_chars_take [of "sanitizeDNSLabel x" 63]
    by (auto simp: sanitizeLabelValue_def Let_def dns_token_def)
  then show ?thesis by (simp add: blank_def TrimSpace_dns)
qed

lemma run_by_ref_Inr:
  assumes "agentChainRunByRef k w chain status step ref uid = Inr run"
  shows "frozen_identity chain status step run" and "uid \<noteq> [] \<longrightarrow> run_UID run = uid"
    and "k_GetRun k w (chain_Namespace chain) (nor_Name ref) = Inr run"
  using assms
  by (auto simp: agentChainRunByRef_def Let_def split: if_splits sum.splits option.splits prod.splits)

lemma run_by_ref_found:
  assumes "k_GetRun k w (chain_Namespace chain) (nor_Name ref) = Inr run" "\<not> blank (nor_Name ref)"
    and "TrimSpace (nor_Namespace ref) \<in> {[], chain_Namespace chain}"
    and "uid = [] \<or> run_UID run = uid" "resolveAgentChainApplicationName chain = Inr app"
    and "frozen_identity chain status step run"
    and "\<And>key v. (key, v) \<in> set (agentChainChildLabels chain app (chst_ActiveInstanceID status) step) \<Longrightarrow>
       map_get (run_Labels run) key = v"
  shows "agentChainRunByRef k w chain status step ref uid = Inr run"
proof -
  let ?L = "agentChainChildLabels chain app (chst_ActiveInstanceID status) step"
  have "find (\<lambda>(key, value). map_get (run_Labels run) key \<noteq> value) ?L = None"
    using assms(7) by (auto simp: find_None_iff)
  then show ?thesis
    using assms(1-6) unfolding agentChainRunByRef_def by (auto simp: Let_def)
qed

text \<open>
  C36. A created step run can always be found again. The run that the controller passes to
  \<^verbatim>\<open>Create\<close> is seen by the label-free scan for nonterminal runs of the chain, it carries the
  provenance that recovery after a lost status asks for, and once the API server returns it
  with some UID, the status reference to it resolves to exactly that run.
\<close>

theorem created_chain_run_found_again:
  assumes "resolveAgentChainApplicationName chain = Inr app" "chained_scope app step = Inr scoped"
    and "0 < gen" "\<not> blank digest" "sanitizeLabelValue inst \<noteq> []" "sanitizeLabelValue (step_Name step) \<noteq> []"
    and "run = chained_run chain app inst digest (step_Name step)
           (chained_spec chain gen digest step prior detected reason message scoped)"
    and "TrimSpace (chain_Namespace chain) = chain_Namespace chain"
  shows "owned_nonterminal chain run \<and> validateAgentChainRecoverableRun chain run = None \<and>
     (\<forall>k w uid status.
        k_GetRun k w (chain_Namespace chain) (run_Name run) = Inr (run\<lparr>run_Meta := (run_Meta run)\<lparr>om_UID := uid\<rparr>\<rparr>) \<longrightarrow>
        chst_ActiveInstanceID status = inst \<longrightarrow> chst_ActiveSourceGeneration status = gen \<longrightarrow>
        chst_ActiveWorkflowDigest status = digest \<longrightarrow>
        agentChainRunByRef k w chain status (step_Name step) (run_ref run) uid =
          Inr (run\<lparr>run_Meta := (run_Meta run)\<lparr>om_UID := uid\<rparr>\<rparr>))"
proof (intro conjI allI impI)
  note app = chain_application_nonempty [OF assms(1)]
  have digest: "map_get [(agentRunChainDigestAnnotation, digest)] agentRunChainDigestAnnotation = digest"
    by (simp add: map_get_def)
  show "owned_nonterminal chain run"
    by (simp add: assms(7) owned_nonterminal_def chain_source_def agentRunPhaseTerminal_def)
  show "validateAgentChainRecoverableRun chain run = None"
    using app assms(3-6) chained_scope_app [OF assms(2)]
    by (simp add: assms(7) validateAgentChainRecoverableRun_def Let_def blank_label digest)
  fix k :: "'w kube" and w uid and status :: AgentChainStatus
  let ?run = "run\<lparr>run_Meta := (run_Meta run)\<lparr>om_UID := uid\<rparr>\<rparr>"
  assume get: "k_GetRun k w (chain_Namespace chain) (run_Name run) = Inr ?run"
    and st: "chst_ActiveInstanceID status = inst" "chst_ActiveSourceGeneration status = gen"
      "chst_ActiveWorkflowDigest status = digest"
  have "dns_label (run_Name run)"
    unfolding assms(7) chained_run_fields chained_name_def by (rule agentRunChildName_label) simp
  then have name: "\<not> blank (run_Name run)"
    by (simp add: blank_def dns_label_def dns_token_def TrimSpace_dns)
  have id: "frozen_identity chain status (step_Name step) ?run"
    using st by (simp add: frozen_identity_def assms(7) chain_source_def digest)
  have labels: "map_get (run_Labels ?run) key = v"
    if "(key, v) \<in> set (agentChainChildLabels chain app (chst_ActiveInstanceID status) (step_Name step))" for key v
    using that st map_get_own [OF distinct_child_labels] by (simp add: assms(7))
  show "agentChainRunByRef k w chain status (step_Name step) (run_ref run) uid = Inr ?run"
    by (rule run_by_ref_found [OF _ _ _ _ assms(1) id labels])
      (use get name assms(8) in \<open>simp_all add: run_ref_def assms(7)\<close>)
qed

theorem created_chain_run_found_again_witness:
  "\<exists>scoped. chained_scope ''shop'' (demo_step ''plan'' []) = Inr scoped \<and>
     validateAgentChainRecoverableRun demo_chain
       (chained_run demo_chain ''shop'' ''i-1'' ''sha256:0'' ''plan''
         (chained_spec demo_chain 1 ''sha256:0'' (demo_step ''plan'' []) None None ''AgentChainStart'' [] scoped)) = None"
proof -
  have app: "resolveAgentChainApplicationName demo_chain = Inr ''shop''" by code_simp
  have facts: "\<not> blank ''sha256:0''" "sanitizeLabelValue ''i-1'' \<noteq> []"
    "sanitizeLabelValue (step_Name (demo_step ''plan'' [])) \<noteq> []"
    "TrimSpace (chain_Namespace demo_chain) = chain_Namespace demo_chain"
    by code_simp+
  have "(case chained_scope ''shop'' (demo_step ''plan'' []) of Inl e \<Rightarrow> False | Inr s \<Rightarrow> True)" by code_simp
  then obtain scoped where scope: "chained_scope ''shop'' (demo_step ''plan'' []) = Inr scoped"
    by (auto split: sum.splits)
  have name: "step_Name (demo_step ''plan'' []) = ''plan''" by (simp add: demo_step_def)
  from created_chain_run_found_again [OF app scope zero_less_one facts(1-3) refl facts(4)]
  show ?thesis unfolding name using scope by blast
qed

end
