(* ===== verification/Chain.thy ===== *)
theory Chain
  imports ChainRuns
begin

text \<open>
  \<^verbatim>\<open>AgentChainReconciler.Reconcile\<close> and \<^verbatim>\<open>reconcileActiveInstance\<close>
  (\<^verbatim>\<open>internal/controller/agent_chain_controller.go\<close>) as consecutive stages: deletion and the
  drain finalizer, validation and holds, recovery of a run whose status was lost,
  cancellation, the active instance, and the start of a new one. \<open>now\<close> is \<^verbatim>\<open>metav1.Now()\<close>.
\<close>

subsection \<open>Definitions\<close>

definition chain_ready ::
  "'w kube \<Rightarrow> AgentChain \<Rightarrow> instant \<Rightarrow> ConditionStatus \<Rightarrow> string \<Rightarrow> string \<Rightarrow> AgentChainStatus \<Rightarrow> AgentChainStatus" where
  "chain_ready k chain now st reason message status =
     status\<lparr>chst_Conditions := k_SetStatusCondition k (chst_Conditions status)
       \<lparr>cond_Type = agentChainReady, cond_Status = st, cond_ObservedGeneration = chain_Generation chain,
        cond_LastTransitionTime = now, cond_Reason = reason, cond_Message = message\<rparr>\<rparr>"

definition patchAgentChainStatus :: "'w kube \<Rightarrow> 'w \<Rightarrow> AgentChain \<Rightarrow> AgentChainStatus \<Rightarrow> duration \<Rightarrow> 'w reconciled" where
  "patchAgentChainStatus k w obj status requeueAfter =
     patch_status (k_PatchChainStatus k) w obj (obj\<lparr>chain_Status := status\<rparr>) requeueAfter"

text \<open>Block with an error: the phase, the error and the condition carry the same message.\<close>

definition chain_blocked ::
  "'w kube \<Rightarrow> AgentChain \<Rightarrow> instant \<Rightarrow> string \<Rightarrow> string \<Rightarrow> AgentChainStatus \<Rightarrow> AgentChainStatus" where
  "chain_blocked k chain now reason message status =
     chain_ready k chain now ConditionFalse reason message
       (status\<lparr>chst_Phase := AgentChainPhaseBlocked, chst_LastError := message\<rparr>)"

definition step_status :: "string \<Rightarrow> string \<Rightarrow> AgentRun \<Rightarrow> int \<Rightarrow> string \<Rightarrow> AgentChainStepRunStatus" where
  "step_status instanceID step run generation digest =
     \<lparr>sr_InstanceID = instanceID, sr_Step = step, sr_RunRef = Some (run_ref run), sr_RunUID = run_UID run,
      sr_Phase = run_Phase run, sr_SourceGeneration = generation, sr_WorkflowDigest = digest\<rparr>"

subsubsection \<open>The active instance\<close>

text \<open>The exact ancestor runs of the instance, or the step that cannot be resolved.\<close>

fun handoff_priors ::
  "'w kube \<Rightarrow> 'w \<Rightarrow> AgentChain \<Rightarrow> AgentChainStatus \<Rightarrow> string \<Rightarrow> (string \<times> AgentRun) list \<Rightarrow> AgentChainStepRunStatus list \<Rightarrow>
     (string \<times> go_error) + (string \<times> AgentRun) list" where
  "handoff_priors k w chain status instanceID prior [] = Inr prior"
| "handoff_priors k w chain status instanceID prior (stepRun # stepRuns) =
     (case sr_RunRef stepRun of
        None \<Rightarrow> handoff_priors k w chain status instanceID prior stepRuns
      | Some ref \<Rightarrow>
          if sr_InstanceID stepRun \<noteq> instanceID then handoff_priors k w chain status instanceID prior stepRuns
          else case agentChainRunByRef k w chain status (sr_Step stepRun) ref (sr_RunUID stepRun) of
            Inl e \<Rightarrow> Inl (sr_Step stepRun, e)
          | Inr run \<Rightarrow> handoff_priors k w chain status instanceID ((sr_Step stepRun, run) # prior) stepRuns)"

definition advanced_status :: "string \<Rightarrow> AgentChainStepSpec \<Rightarrow> AgentRun \<Rightarrow> AgentChainStatus \<Rightarrow> AgentChainStatus" where
  "advanced_status instanceID nextStep run status =
     status\<lparr>
       chst_Phase := AgentChainPhaseRunning,
       chst_ActiveStep := step_Name nextStep,
       chst_ActiveRunRef := Some (run_ref run),
       chst_ActiveRunUID := run_UID run,
       chst_StepRuns := agentChainUpsertStepRun (chst_StepRuns status)
         (step_status instanceID (step_Name nextStep) run (chst_ActiveSourceGeneration status) (chst_ActiveWorkflowDigest status)),
       chst_LastError := []\<rparr>"

text \<open>The next step follows: collect the ancestors, create its run and move the status to it.\<close>

definition active_advance ::
  "'w kube \<Rightarrow> 'w \<Rightarrow> AgentChain \<Rightarrow> AgentChainStatus \<Rightarrow> string \<Rightarrow> instant \<Rightarrow> AgentChainStepSpec \<Rightarrow> AgentChainStepSpec \<Rightarrow> AgentRun \<Rightarrow>
     (bool \<times> duration \<times> AgentChainStatus) result \<times> 'w" where
  "active_advance k w chain status applicationName now thisStep nextStep current =
     (let instanceID = chst_ActiveInstanceID status in
      case handoff_priors k w chain status instanceID [] (chst_StepRuns status) of
        Inl (step, e) \<Rightarrow>
          (Inr (False, 0, chain_blocked k chain now ''HandoffProvenanceMismatch''
             (''cannot resolve exact handoff AgentRun for instance '' @ instanceID @ '' step '' @ step @ '': '' @ error_text e)
             status), w)
      | Inr prior \<Rightarrow>
          (case createChainedAgentRun k w chain applicationName instanceID (chst_ActiveSourceGeneration status)
                  (chst_ActiveWorkflowDigest status) nextStep (Some ((step_Name thisStep, current) # prior))
                  (Some (run_terminal_at current)) ''AgentChainStep''
                  (''instance='' @ instanceID @ '' step='' @ step_Name nextStep @ '' previousRun='' @ run_path current @
                   '' previousPhase='' @ phase_text (run_Phase current)) of
             (Inl e, w') \<Rightarrow> (Inl e, w')
           | (Inr run, w') \<Rightarrow>
               (Inr (True, agentChainPollInterval,
                  chain_ready k chain now ConditionFalse ''StepAdvanced''
                    (''Instance '' @ instanceID @ '' advanced to step '' @ Quote (step_Name nextStep) @ '' as AgentRun '' @
                     run_path run @ ''.'')
                    (advanced_status instanceID nextStep run status)), w')))"

text \<open>The instance ends: release it and, unless it completed, set the backoff deadline.\<close>

definition stopped_status :: "AgentChain \<Rightarrow> AgentRun \<Rightarrow> instant \<Rightarrow> AgentChainPhase \<Rightarrow> bool \<Rightarrow> AgentChainStatus \<Rightarrow> AgentChainStatus" where
  "stopped_status chain current now phase backoff status =
     (let status = agentChainClearActive (status\<lparr>chst_LastInstanceID := chst_ActiveInstanceID status\<rparr>);
          status = status\<lparr>chst_Phase := phase, chst_LastError := []\<rparr>
      in if backoff then agentChainApplyTerminalBackoffDeadline chain status current now else status)"

definition active_final ::
  "'w kube \<Rightarrow> AgentChain \<Rightarrow> AgentChainStatus \<Rightarrow> instant \<Rightarrow> AgentChainStepSpec \<Rightarrow> AgentRun \<Rightarrow> AgentChainStatus" where
  "active_final k chain status now thisStep current =
     (let instanceID = chst_ActiveInstanceID status in
      if agentChainCompletionMatches (ch_Completion (chain_Spec chain)) current then
        chain_ready k chain now ConditionTrue ''InstanceCompleted''
          (''Instance '' @ instanceID @ '' completed successfully at final step '' @ Quote (step_Name thisStep) @ ''.'')
          (stopped_status chain current now AgentChainPhaseIdle False status)
      else
        chain_ready k chain now ConditionTrue
          (if run_Phase current \<noteq> AgentRunPhaseSucceeded then ''InstanceFailed'' else ''InstanceCompletionCriteriaUnmet'')
          (''Instance '' @ instanceID @ '' stopped at final step '' @ Quote (step_Name thisStep) @ '' with phase '' @
           phase_text (run_Phase current) @ '' and decision action '' @ Quote (agentRunDecisionAction current) @
           ''; completion criteria did not match.'')
          (stopped_status chain current now AgentChainPhaseIdle True status))"

text \<open>The current step's run is terminal.\<close>

definition active_terminal ::
  "'w kube \<Rightarrow> 'w \<Rightarrow> AgentChain \<Rightarrow> AgentChainStatus \<Rightarrow> string \<Rightarrow> instant \<Rightarrow> nat \<Rightarrow> AgentRun \<Rightarrow>
     (bool \<times> duration \<times> AgentChainStatus) result \<times> 'w" where
  "active_terminal k w chain status applicationName now stepIndex current =
     (let instanceID = chst_ActiveInstanceID status; steps = ch_Steps (chain_Spec chain); thisStep = steps ! stepIndex in
      if run_Phase current = AgentRunPhaseNeedsHuman then
        (Inr (True, agentChainPollInterval,
           chain_ready k chain now ConditionFalse ''WaitingHuman''
             (''Instance '' @ instanceID @ '' stopped at step '' @ Quote (map_get (run_Labels current) agentRunChainStepLabel) @
              '' with NeedsHuman on AgentRun '' @ run_path current @ ''.'')
             (stopped_status chain current now AgentChainPhaseWaitingHuman True status)), w)
      else if stepIndex + 1 \<ge> length steps then
        (Inr (True, agentChainPollInterval, active_final k chain status now thisStep current), w)
      else
        let nextStep = steps ! (stepIndex + 1) in
        if \<not> agentChainWhenMatches (step_When nextStep) (step_Name thisStep) current then
          (Inr (True, agentChainPollInterval,
             chain_ready k chain now ConditionTrue ''InstanceStopped''
               (''Instance '' @ instanceID @ '' stopped after step '' @ Quote (step_Name thisStep) @ '' phase '' @
                phase_text (run_Phase current) @ ''; next step '' @ Quote (step_Name nextStep) @ '' when-clause did not match.'')
               (stopped_status chain current now AgentChainPhaseIdle True status)), w)
        else active_advance k w chain status applicationName now thisStep nextStep current)"

definition revalidation_message :: "AgentChain \<Rightarrow> AgentChainStatus \<Rightarrow> string \<Rightarrow> string" where
  "revalidation_message chain status workflowDigest =
     ''active instance '' @ chst_ActiveInstanceID status @ '' is frozen at source generation '' @
     Itoa (chst_ActiveSourceGeneration status) @ '' digest '' @ Quote (chst_ActiveWorkflowDigest status) @
     ''; current AgentChain is generation '' @ Itoa (chain_Generation chain) @ '' digest '' @ Quote workflowDigest"

definition is_provenance_error :: "go_error \<Rightarrow> bool" where
  "is_provenance_error e \<longleftrightarrow> (case e of ProvenanceMismatch m \<Rightarrow> True | _ \<Rightarrow> False)"

definition reconcileActiveInstance ::
  "'w kube \<Rightarrow> 'w \<Rightarrow> AgentChain \<Rightarrow> AgentChainStatus \<Rightarrow> string \<Rightarrow> instant \<Rightarrow>
     (bool \<times> duration \<times> AgentChainStatus) result \<times> 'w" where
  "reconcileActiveInstance k w chain status applicationName now =
     (let instanceID = chst_ActiveInstanceID status; workflowDigest = agentChainWorkflowDigest k chain in
      if chst_ActiveSourceGeneration status = 0 \<or> chst_ActiveWorkflowDigest status = [] then
        (Inr (False, 0, chain_blocked k chain now ''MissingInstanceSnapshot''
           (''active instance '' @ instanceID @ '' has no frozen source generation/workflow digest'') status), w)
      else if chst_ActiveWorkflowDigest status \<noteq> workflowDigest then
        (Inr (False, 0, chain_blocked k chain now ''InstanceNeedsRevalidation''
           (revalidation_message chain status workflowDigest) status), w)
      else case agentChainStepIndex chain (chst_ActiveStep status) of
        None \<Rightarrow>
          (Inr (False, 0, chain_blocked k chain now ''InvalidActiveStep''
             (''active step '' @ Quote (chst_ActiveStep status) @ '' is not in the chain spec'') status), w)
      | Some stepIndex \<Rightarrow>
          (case agentChainActiveRun k w chain status of
             Inl e \<Rightarrow>
               (Inr (False, agentChainPollInterval,
                  chain_blocked k chain now (if is_provenance_error e then ''StepProvenanceMismatch'' else ''MissingStepRun'')
                    (''cannot resolve exact AgentRun for active instance '' @ instanceID @ '' step '' @
                     chst_ActiveStep status @ '': '' @ error_text e) status), w)
           | Inr current \<Rightarrow>
               (let status = status\<lparr>chst_StepRuns := agentChainUpsertStepRun (chst_StepRuns status)
                      (step_status instanceID (chst_ActiveStep status) current (chst_ActiveSourceGeneration status)
                        (chst_ActiveWorkflowDigest status))\<rparr> in
                if \<not> agentRunPhaseTerminal (run_Phase current) then
                  (Inr (False, agentChainPollInterval,
                     chain_ready k chain now ConditionFalse ''StepRunning''
                       (''Instance '' @ instanceID @ '' step '' @ Quote (chst_ActiveStep status) @ '' is '' @
                        phase_text (run_Phase current) @ '' on AgentRun '' @ run_path current @ ''.'')
                       (status\<lparr>chst_Phase := AgentChainPhaseRunning, chst_LastError := []\<rparr>)), w)
                else active_terminal k w chain status applicationName now stepIndex current)))"

subsubsection \<open>Starting an instance\<close>

definition chain_start_token :: "AgentChain \<Rightarrow> string" where
  "chain_start_token obj = TrimSpace (map_get (om_Annotations (chain_Meta obj)) AgentChainStartNowAnnotation)"

definition chain_manual_pending :: "AgentChain \<Rightarrow> AgentChainStatus \<Rightarrow> bool" where
  "chain_manual_pending obj status \<longleftrightarrow> chain_start_token obj \<noteq> [] \<and> chain_start_token obj \<noteq> chst_LastStartToken status"

definition started_status ::
  "AgentChain \<Rightarrow> AgentChainStatus \<Rightarrow> instant \<Rightarrow> bool \<Rightarrow> instant \<Rightarrow> string \<Rightarrow> string \<Rightarrow> AgentChainStepSpec \<Rightarrow> AgentRun \<Rightarrow> AgentChainStatus" where
  "started_status obj status now manual dueAt instanceID digest first run =
     status\<lparr>
       chst_Phase := AgentChainPhaseRunning,
       chst_ActiveInstanceID := instanceID,
       chst_ActiveSourceGeneration := chain_Generation obj,
       chst_ActiveWorkflowDigest := digest,
       chst_LastInstanceID := instanceID,
       chst_ActiveStep := step_Name first,
       chst_ActiveRunRef := Some (run_ref run),
       chst_ActiveRunUID := run_UID run,
       chst_StepRuns := [step_status instanceID (step_Name first) run (chain_Generation obj) digest],
       chst_LastError := [],
       chst_LastStartToken := (if manual then chain_start_token obj else chst_LastStartToken status),
       chst_NextStartAt :=
         (if ch_StartIntervalSeconds (chain_Spec obj) > 0
          then Some ((if manual then now else dueAt) + seconds (ch_StartIntervalSeconds (chain_Spec obj)))
          else if \<not> manual then None else chst_NextStartAt status)\<rparr>"

text \<open>Create the first step's run, then record the instance.\<close>

definition chain_create ::
  "'w kube \<Rightarrow> 'w \<Rightarrow> AgentChain \<Rightarrow> instant \<Rightarrow> AgentChainStatus \<Rightarrow> string \<Rightarrow> bool \<Rightarrow> instant \<Rightarrow> string \<Rightarrow> string \<Rightarrow> 'w reconciled" where
  "chain_create k w obj now status applicationName manual dueAt instanceID digest =
     (let first = hd (ch_Steps (chain_Spec obj)) in
      case createChainedAgentRun k w obj applicationName instanceID (chain_Generation obj) digest first None
             (if manual then None else Some dueAt) ''AgentChainStart''
             (''instance='' @ instanceID @ '' step='' @ step_Name first) of
        (Inl e, w') \<Rightarrow> (Inl e, w')
      | (Inr run, w') \<Rightarrow>
          (let status = started_status obj status now manual dueAt instanceID digest first run in
           case agentChainRuns k w' obj now of
             (Inl e, w'') \<Rightarrow> (Inl e, w'')
           | (Inr (runs, instancesToday), w'') \<Rightarrow>
               patchAgentChainStatus k w'' obj
                 (chain_ready k obj now ConditionFalse ''InstanceStarted''
                   (''Started chain instance '' @ instanceID @ '' with step '' @ Quote (step_Name first) @ '' as AgentRun '' @
                    run_path run @ ''.'')
                   (status\<lparr>chst_InstancesToday := instancesToday\<rparr>)) agentChainPollInterval))"

definition collides :: "AgentChain \<Rightarrow> string \<Rightarrow> string \<Rightarrow> AgentRun \<Rightarrow> bool" where
  "collides obj instanceID digest existing \<longleftrightarrow>
     map_get (run_Labels existing) agentRunChainInstLabel = sanitizeLabelValue instanceID \<and>
     (spec_SourceGeneration (run_Spec existing) \<noteq> chain_Generation obj \<or> spec_SourceDigest (run_Spec existing) \<noteq> digest)"

definition collision_message :: "AgentChain \<Rightarrow> string \<Rightarrow> string \<Rightarrow> AgentRun \<Rightarrow> string" where
  "collision_message obj instanceID digest existing =
     ''existing AgentRun '' @ run_path existing @ '' for instance '' @ instanceID @ '' belongs to source generation '' @
     Itoa (spec_SourceGeneration (run_Spec existing)) @ '' digest '' @ Quote (spec_SourceDigest (run_Spec existing)) @
     '', not generation '' @ Itoa (chain_Generation obj) @ '' digest '' @ Quote digest"

text \<open>The identity of the instance, and a check against runs of the same identity.\<close>

definition chain_identify ::
  "'w kube \<Rightarrow> 'w \<Rightarrow> AgentChain \<Rightarrow> instant \<Rightarrow> AgentChainStatus \<Rightarrow> string \<Rightarrow> AgentRun list \<Rightarrow> bool \<Rightarrow> instant option \<Rightarrow>
     'w reconciled" where
  "chain_identify k w obj now status applicationName runs manual nextStart =
     (case agentChainStartDueAt obj manual nextStart now of
        Inl e \<Rightarrow> (Inl e, w)
      | Inr dueAt \<Rightarrow>
          (let instanceID = agentChainInstanceID obj manual (chain_start_token obj) dueAt;
               digest = agentChainWorkflowDigest k obj in
           if digest = [] then (Inl (Errorf ''digest AgentChain workflow''), w)
           else case find (collides obj instanceID digest) runs of
             Some existing \<Rightarrow>
               patchAgentChainStatus k w obj
                 (chain_blocked k obj now ''InstanceSnapshotCollision'' (collision_message obj instanceID digest existing) status)
                 agentChainPollInterval
           | None \<Rightarrow> chain_create k w obj now status applicationName manual dueAt instanceID digest))"

text \<open>The decision to start: the due time, the daily budget and the terminal backoff.\<close>

definition chain_idle_message :: "AgentChainStatus \<Rightarrow> string" where
  "chain_idle_message status =
     (case chst_NextStartAt status of
        None \<Rightarrow> ''AgentChain is idle.''
      | Some t \<Rightarrow> ''Next automatic instance start is scheduled for '' @ RFC3339 t @ ''.'')"

definition chain_budget_spent :: "AgentChain \<Rightarrow> int \<Rightarrow> bool" where
  "chain_budget_spent obj instancesToday \<longleftrightarrow>
     ch_MaxInstancesPerDay (chain_Spec obj) > 0 \<and> instancesToday \<ge> ch_MaxInstancesPerDay (chain_Spec obj)"

definition chain_decide ::
  "'w kube \<Rightarrow> 'w \<Rightarrow> AgentChain \<Rightarrow> instant \<Rightarrow> AgentChainStatus \<Rightarrow> string \<Rightarrow> AgentRun list \<Rightarrow> int \<Rightarrow> 'w reconciled" where
  "chain_decide k w obj now status applicationName runs instancesToday =
     (let manual = chain_manual_pending obj status in
      case agentChainNextStartTime obj status now of
        Inl e \<Rightarrow> (Inl e, w)
      | Inr nextStart \<Rightarrow>
          (let status = status\<lparr>chst_NextStartAt := (case nextStart of Some t \<Rightarrow> Some t | None \<Rightarrow> chst_NextStartAt status)\<rparr> in
           if \<not> manual \<and> (case nextStart of None \<Rightarrow> True | Some t \<Rightarrow> t > now) then
             patchAgentChainStatus k w obj
               (chain_ready k obj now ConditionTrue ''Idle'' (chain_idle_message status)
                 (status\<lparr>chst_Phase := AgentChainPhaseIdle, chst_LastError := []\<rparr>))
               (case chst_NextStartAt status of
                  Some t \<Rightarrow> if t > now then time_sub t now else agentChainPollInterval
                | None \<Rightarrow> agentChainPollInterval)
           else if chain_budget_spent obj instancesToday \<and> \<not> manual then
             patchAgentChainStatus k w obj
               (chain_ready k obj now ConditionTrue ''DailyBudgetExhausted''
                 (''maxInstancesPerDay='' @ Itoa (ch_MaxInstancesPerDay (chain_Spec obj)) @
                  '' already reached for the current UTC day.'')
                 (status\<lparr>chst_Phase := AgentChainPhaseIdle, chst_LastError := []\<rparr>)) agentChainPollInterval
           else case (if manual then None else agentChainTerminalBackoffUntil obj status runs now) of
             Some until \<Rightarrow>
               patchAgentChainStatus k w obj
                 (chain_ready k obj now ConditionTrue ''TerminalBackoff''
                   (''Automatic starts are backed off until '' @ RFC3339 until @ ''.'')
                   (status\<lparr>chst_Phase := AgentChainPhaseIdle, chst_NextStartAt := Some until, chst_LastError := []\<rparr>))
                 (time_sub until now)
           | None \<Rightarrow> chain_identify k w obj now status applicationName runs manual nextStart))"

text \<open>The active instance, if there is one. A stopped instance was patched by its stage.\<close>

definition chain_active ::
  "'w kube \<Rightarrow> 'w \<Rightarrow> AgentChain \<Rightarrow> instant \<Rightarrow> AgentChainStatus \<Rightarrow> string \<Rightarrow> AgentRun list \<Rightarrow> int \<Rightarrow> 'w reconciled" where
  "chain_active k w obj now status applicationName runs instancesToday =
     (if chst_ActiveInstanceID status = [] then chain_decide k w obj now status applicationName runs instancesToday
      else case reconcileActiveInstance k w obj status applicationName now of
        (Inl e, w') \<Rightarrow> (Inl e, w')
      | (Inr (advanced, requeue, status), w') \<Rightarrow>
          if advanced \<or> requeue > 0 then patchAgentChainStatus k w' obj status requeue
          else if chst_ActiveInstanceID status \<noteq> [] then patchAgentChainStatus k w' obj status agentChainPollInterval
          else chain_decide k w' obj now status applicationName runs instancesToday)"

subsubsection \<open>Cancellation\<close>

definition chain_cancelling ::
  "'w kube \<Rightarrow> 'w \<Rightarrow> AgentChain \<Rightarrow> instant \<Rightarrow> AgentChainStatus \<Rightarrow> 'w reconciled" where
  "chain_cancelling k w obj now status =
     (let instanceID = chst_ActiveInstanceID status in
      case agentChainActiveRun k w obj status of
        Inl e \<Rightarrow>
          patchAgentChainStatus k w obj
            (chain_blocked k obj now ''MissingCancellationRun''
              (''cannot resolve exact AgentRun while cancelling instance '' @ instanceID @ '' step '' @
               chst_ActiveStep status @ '': '' @ error_text e) status) agentChainPollInterval
      | Inr current \<Rightarrow>
          if \<not> agentRunPhaseTerminal (run_Phase current) then
            patchAgentChainStatus k w obj
              (status\<lparr>chst_Phase := AgentChainPhaseCancelling, chst_LastError := []\<rparr>) agentChainPollInterval
          else
            patchAgentChainStatus k w obj
              (chain_ready k obj now ConditionTrue ''InstanceCancelled''
                (''Stopped chain instance '' @ Quote instanceID @
                 '' after its active AgentRun became terminal; no successor was created.'')
                ((agentChainClearActive (status\<lparr>chst_LastInstanceID := instanceID\<rparr>))\<lparr>
                   chst_Phase := AgentChainPhaseIdle, chst_LastError := []\<rparr>)) agentChainPollInterval)"

definition chain_cancel_token :: "AgentChain \<Rightarrow> string" where
  "chain_cancel_token obj = TrimSpace (map_get (om_Annotations (chain_Meta obj)) AgentChainCancelInstanceAnnotation)"

definition chain_cancel ::
  "'w kube \<Rightarrow> 'w \<Rightarrow> AgentChain \<Rightarrow> instant \<Rightarrow> AgentChainStatus \<Rightarrow> string \<Rightarrow> AgentRun list \<Rightarrow> int \<Rightarrow> 'w reconciled" where
  "chain_cancel k w obj now status applicationName runs instancesToday =
     (let token = chain_cancel_token obj; instanceID = chst_ActiveInstanceID status;
          fresh = (token \<noteq> [] \<and> token \<noteq> chst_LastCancelToken status) in
      if fresh \<and> instanceID \<noteq> [] \<and> (token = instanceID \<or> token = ''*'') then
        patchAgentChainStatus k w obj
          (chain_ready k obj now ConditionFalse ''CancellationPending''
            (''Chain instance '' @ Quote instanceID @
             '' will not advance; waiting for its active AgentRun to become terminal without deleting its Job.'')
            (status\<lparr>chst_CancelRequestedInstanceID := instanceID, chst_Phase := AgentChainPhaseCancelling,
               chst_LastError := [], chst_LastCancelToken := token\<rparr>)) agentChainPollInterval
      else
        let status = (if fresh then status\<lparr>chst_LastCancelToken := token\<rparr> else status) in
        if instanceID \<noteq> [] \<and> chst_CancelRequestedInstanceID status = instanceID then chain_cancelling k w obj now status
        else chain_active k w obj now status applicationName runs instancesToday)"

subsubsection \<open>Recovery\<close>

text \<open>The status rebuilt from the labels and provenance of the one nonterminal run.\<close>

definition recovered_status :: "AgentChain \<Rightarrow> AgentChainStatus \<Rightarrow> instant \<Rightarrow> AgentRun \<Rightarrow> AgentChainStatus" where
  "recovered_status obj status now active =
     (let instanceID = map_get (run_Labels active) agentRunChainInstLabel;
          step = map_get (run_Labels active) agentRunChainStepLabel;
          generation = spec_SourceGeneration (run_Spec active); digest = spec_SourceDigest (run_Spec active);
          startToken = chain_start_token obj;
          base = (case trig_DetectedAt (spec_Trigger (run_Spec active)) of
                    Some t \<Rightarrow> if HasPrefix instanceID ''i-'' \<and> t \<noteq> 0 then t else run_CreationTimestamp active
                  | None \<Rightarrow> run_CreationTimestamp active)
      in status\<lparr>
           chst_Phase := AgentChainPhaseRunning,
           chst_ActiveInstanceID := instanceID,
           chst_ActiveStep := step,
           chst_ActiveRunRef := Some (run_ref active),
           chst_ActiveRunUID := run_UID active,
           chst_ActiveSourceGeneration := generation,
           chst_ActiveWorkflowDigest := digest,
           chst_LastInstanceID := instanceID,
           chst_LastStartToken :=
             (if HasPrefix instanceID ''m-'' \<and> startToken \<noteq> [] \<and> agentChainInstanceID obj True startToken now = instanceID
              then startToken else chst_LastStartToken status),
           chst_NextStartAt :=
             (if ch_StartIntervalSeconds (chain_Spec obj) > 0
              then Some (agentChainNextCadenceAfter base (seconds (ch_StartIntervalSeconds (chain_Spec obj))) now)
              else chst_NextStartAt status),
           chst_StepRuns := [step_status instanceID step active generation digest],
           chst_LastError := []\<rparr>)"

definition recovered_message :: "AgentRun \<Rightarrow> string" where
  "recovered_message active =
     ''Recovered Forbid ownership of nonterminal AgentRun '' @ run_path active @ '' for instance '' @
     map_get (run_Labels active) agentRunChainInstLabel @ '' step '' @ map_get (run_Labels active) agentRunChainStepLabel @
     '' after missing status.''"

definition chain_recover ::
  "'w kube \<Rightarrow> 'w \<Rightarrow> AgentChain \<Rightarrow> instant \<Rightarrow> AgentChainStatus \<Rightarrow> string \<Rightarrow> AgentRun list \<Rightarrow> int \<Rightarrow> 'w reconciled" where
  "chain_recover k w obj now status applicationName runs instancesToday =
     (if chst_ActiveInstanceID status \<noteq> [] then chain_cancel k w obj now status applicationName runs instancesToday
      else case agentChainOwnedNonterminalRuns k w obj of
        Inl e \<Rightarrow> (Inl e, w)
      | Inr [] \<Rightarrow> chain_cancel k w obj now status applicationName runs instancesToday
      | Inr [active] \<Rightarrow>
          (case validateAgentChainRecoverableRun obj active of
             Some e \<Rightarrow>
               patchAgentChainStatus k w obj
                 (chain_blocked k obj now ''UnrecoveredActiveRun''
                   (''provenance-valid nonterminal AgentRun '' @ run_path active @ '' cannot be safely recovered: '' @
                    error_text e) status) agentChainPollInterval
           | None \<Rightarrow>
               patchAgentChainStatus k w obj
                 (chain_ready k obj now ConditionFalse ''ActiveRunRecovered'' (recovered_message active)
                   (recovered_status obj status now active)) agentChainPollInterval)
      | Inr activeRuns \<Rightarrow>
          patchAgentChainStatus k w obj
            (chain_blocked k obj now ''UnrecoveredActiveRun''
              (''found '' @ Itoa (int (length activeRuns)) @
               '' provenance-valid nonterminal AgentRuns without one frozen active status reference'') status)
            agentChainPollInterval)"

subsubsection \<open>The reconciler\<close>

definition chain_hold ::
  "'w kube \<Rightarrow> 'w \<Rightarrow> AgentChain \<Rightarrow> instant \<Rightarrow> AgentChainStatus \<Rightarrow> string \<Rightarrow> 'w reconciled" where
  "chain_hold k w obj now status applicationName =
     (case activeAgentRunPauseForApplication k w applicationName now of
        Inl e \<Rightarrow> (Inl e, w)
      | Inr (Some pause) \<Rightarrow>
          patchAgentChainStatus k w obj
            (chain_ready k obj now ConditionFalse ''ApplicationPaused'' (pause_message applicationName pause)
              (status\<lparr>chst_Phase := AgentChainPhaseSuspended, chst_LastError := []\<rparr>)) agentChainPollInterval
      | Inr None \<Rightarrow>
          (case agentChainRuns k w obj now of
             (Inl e, w') \<Rightarrow> (Inl e, w')
           | (Inr (runs, instancesToday), w') \<Rightarrow>
               chain_recover k w' obj now (status\<lparr>chst_InstancesToday := instancesToday\<rparr>) applicationName runs instancesToday))"

definition chain_validate :: "'w kube \<Rightarrow> 'w \<Rightarrow> AgentChain \<Rightarrow> instant \<Rightarrow> 'w reconciled" where
  "chain_validate k w obj now =
     (let status = (chain_Status obj)\<lparr>chst_ObservedGeneration := chain_Generation obj\<rparr> in
      case validateAgentChainSpec obj of
        Some e \<Rightarrow>
          patchAgentChainStatus k w obj
            (chain_blocked k obj now ''InvalidSpec'' (error_text e) (status\<lparr>chst_NextStartAt := None\<rparr>)) 0
      | None \<Rightarrow>
          if ch_Suspend (chain_Spec obj) then
            patchAgentChainStatus k w obj
              (chain_ready k obj now ConditionFalse ''Suspended'' ''AgentChain is suspended.''
                (status\<lparr>chst_Phase := AgentChainPhaseSuspended, chst_LastError := []\<rparr>)) 0
          else case resolveAgentChainApplicationName obj of
            Inl e \<Rightarrow>
              patchAgentChainStatus k w obj
                (chain_blocked k obj now ''InvalidApplicationIdentity'' (error_text e) (status\<lparr>chst_NextStartAt := None\<rparr>))
                agentChainPollInterval
          | Inr applicationName \<Rightarrow> chain_hold k w obj now status applicationName)"

definition set_finalizers :: "AgentChain \<Rightarrow> string list \<Rightarrow> AgentChain" where
  "set_finalizers chain fs = chain\<lparr>chain_Meta := (chain_Meta chain)\<lparr>om_Finalizers := fs\<rparr>\<rparr>"

definition has_drain :: "'w kube \<Rightarrow> AgentChain \<Rightarrow> bool" where
  "has_drain k chain \<longleftrightarrow> k_ContainsFinalizer k (om_Finalizers (chain_Meta chain)) agentChainDrainFinalizer"

definition removeAgentChainDrainFinalizer :: "'w kube \<Rightarrow> 'w \<Rightarrow> string \<Rightarrow> string \<Rightarrow> 'w reconciled" where
  "removeAgentChainDrainFinalizer k w ns name =
     (case k_GetChain k w ns name of
        Inl e \<Rightarrow> (IgnoreNotFound e, w)
      | Inr chain \<Rightarrow>
          if \<not> has_drain k chain then (Inr no_requeue, w)
          else case k_PatchChain k w chain (set_finalizers chain
                      (k_RemoveFinalizer k (om_Finalizers (chain_Meta chain)) agentChainDrainFinalizer)) of
            (Some e, w') \<Rightarrow>
              (if IsConflict e then (Inr requeue_now, w')
               else (Inl (Wrapf ''remove AgentChain active-drain finalizer'' e), w'))
          | (None, w') \<Rightarrow> (Inr no_requeue, w'))"

definition chain_install_finalizer :: "'w kube \<Rightarrow> 'w \<Rightarrow> AgentChain \<Rightarrow> 'w reconciled" where
  "chain_install_finalizer k w obj =
     (case k_PatchChain k w obj (set_finalizers obj
             (k_AddFinalizer k (om_Finalizers (chain_Meta obj)) agentChainDrainFinalizer)) of
        (Some e, w') \<Rightarrow>
          (if IsConflict e then (Inr requeue_now, w')
           else (Inl (Wrapf ''install AgentChain active-drain finalizer'' e), w'))
      | (None, w') \<Rightarrow> (Inr requeue_now, w'))"

definition chain_drain :: "'w kube \<Rightarrow> 'w \<Rightarrow> AgentChain \<Rightarrow> 'w reconciled" where
  "chain_drain k w obj =
     (if \<not> has_drain k obj then (Inr no_requeue, w)
      else case agentChainOwnedNonterminalRuns k w obj of
        Inl e \<Rightarrow> (Inl e, w)
      | Inr activeRuns \<Rightarrow>
          if activeRuns \<noteq> [] then (Inr (requeue_after agentChainPollInterval), w)
          else removeAgentChainDrainFinalizer k w (chain_Namespace obj) (chain_Name obj))"

definition AgentChainReconcile :: "'w kube \<Rightarrow> 'w \<Rightarrow> string \<Rightarrow> string \<Rightarrow> instant \<Rightarrow> 'w reconciled" where
  "AgentChainReconcile k w ns name now =
     (case k_GetChain k w ns name of
        Inl e \<Rightarrow> (IgnoreNotFound e, w)
      | Inr obj \<Rightarrow>
          if being_deleted (chain_Meta obj) then chain_drain k w obj
          else if \<not> has_drain k obj then chain_install_finalizer k w obj
          else chain_validate k w obj now)"

subsection \<open>The Create calls of each stage\<close>

lemma observe_chain_ready [simp]:
  "chain_ready (observe k) chain now st reason message status = chain_ready k chain now st reason message status"
  "chain_blocked (observe k) chain now reason message status = chain_blocked k chain now reason message status"
  "has_drain (observe k) chain = has_drain k chain"
  unfolding chain_ready_def chain_blocked_def has_drain_def observe_reads by (rule refl)+

lemma creates_patchAgentChainStatus [simp]: "creates (patchAgentChainStatus (observe k) w obj st d) = snd w"
  by (simp add: patchAgentChainStatus_def)

lemma observe_handoff_priors [simp]:
  "handoff_priors (observe k) (w, l) chain status inst prior stepRuns = handoff_priors k w chain status inst prior stepRuns"
proof (induction stepRuns arbitrary: prior)
  case (Cons s ss)
  show ?case unfolding handoff_priors.simps observe_chain_reads Cons.IH by (rule refl)
qed simp

text \<open>The run of the next step, for the exact terminal run of the current one.\<close>

definition successor_of ::
  "'w kube \<Rightarrow> 'w \<Rightarrow> AgentChain \<Rightarrow> AgentChainStatus \<Rightarrow> string \<Rightarrow> AgentRun \<Rightarrow> bool" where
  "successor_of k w obj status app run \<longleftrightarrow>
     (\<exists>i current prior reason message.
        agentChainStepIndex obj (chst_ActiveStep status) = Some i \<and> Suc i < length (ch_Steps (chain_Spec obj)) \<and>
        agentChainActiveRun k w obj status = Inr current \<and>
        agentRunPhaseTerminal (run_Phase current) \<and> run_Phase current \<noteq> AgentRunPhaseNeedsHuman \<and>
        agentChainWhenMatches (step_When (ch_Steps (chain_Spec obj) ! Suc i)) (step_Name (ch_Steps (chain_Spec obj) ! i)) current \<and>
        [run] = chained_expected obj app (chst_ActiveInstanceID status) (chst_ActiveSourceGeneration status)
          (chst_ActiveWorkflowDigest status) (ch_Steps (chain_Spec obj) ! Suc i) prior (Some (run_terminal_at current)) reason message)"

lemma expected_cases:
  "chained_expected chain app inst gen digest step prior detected reason message = [] \<or>
   (\<exists>run. chained_expected chain app inst gen digest step prior detected reason message = [run])"
  by (simp add: chained_expected_def split: sum.splits)

lemma advance_stage:
  assumes "active_advance (observe k) (w, l) chain status app now thisStep nextStep current = r" "creates r \<noteq> l"
  shows "\<exists>run prior reason message. creates r = l @ [run] \<and>
    [run] = chained_expected chain app (chst_ActiveInstanceID status) (chst_ActiveSourceGeneration status)
      (chst_ActiveWorkflowDigest status) nextStep prior (Some (run_terminal_at current)) reason message"
proof -
  obtain prior where prior: "handoff_priors k w chain status (chst_ActiveInstanceID status) [] (chst_StepRuns status) = Inr prior"
    using assms by (auto simp: active_advance_def Let_def split: sum.splits)
  define message where "message = ''instance='' @ chst_ActiveInstanceID status @ '' step='' @ step_Name nextStep @
    '' previousRun='' @ run_path current @ '' previousPhase='' @ phase_text (run_Phase current)"
  define ex where "ex = chained_expected chain app (chst_ActiveInstanceID status) (chst_ActiveSourceGeneration status)
      (chst_ActiveWorkflowDigest status) nextStep (Some ((step_Name thisStep, current) # prior))
      (Some (run_terminal_at current)) ''AgentChainStep'' message"
  have "creates r = l @ ex"
    using assms(1) prior unfolding ex_def message_def
    by (auto simp: active_advance_def Let_def observe_createChained split: sum.splits prod.splits)
  moreover from this assms(2) have "ex \<noteq> []" by auto
  ultimately show ?thesis using expected_cases unfolding ex_def by metis
qed

lemma terminal_stage:
  assumes "active_terminal (observe k) (w, l) chain status app now i current = r" "creates r \<noteq> l"
  shows "run_Phase current \<noteq> AgentRunPhaseNeedsHuman \<and> Suc i < length (ch_Steps (chain_Spec chain)) \<and>
    agentChainWhenMatches (step_When (ch_Steps (chain_Spec chain) ! Suc i)) (step_Name (ch_Steps (chain_Spec chain) ! i)) current \<and>
    active_advance (observe k) (w, l) chain status app now (ch_Steps (chain_Spec chain) ! i)
      (ch_Steps (chain_Spec chain) ! Suc i) current = r"
  using assms by (auto simp: active_terminal_def Let_def split: if_splits)

lemma active_instance_stage:
  assumes "reconcileActiveInstance (observe k) (w, l) chain status app now = r" "creates r \<noteq> l"
  shows "chst_ActiveWorkflowDigest status = agentChainWorkflowDigest k chain \<and> chst_ActiveSourceGeneration status \<noteq> 0 \<and>
    (\<exists>run. creates r = l @ [run] \<and> successor_of k w chain status app run)"
proof -
  obtain i current status' where st:
    "chst_ActiveWorkflowDigest status = agentChainWorkflowDigest k chain" "chst_ActiveSourceGeneration status \<noteq> 0"
    "agentChainStepIndex chain (chst_ActiveStep status) = Some i" "agentChainActiveRun k w chain status = Inr current"
    "agentRunPhaseTerminal (run_Phase current)"
    "status' = status\<lparr>chst_StepRuns := agentChainUpsertStepRun (chst_StepRuns status)
      (step_status (chst_ActiveInstanceID status) (chst_ActiveStep status) current (chst_ActiveSourceGeneration status)
        (chst_ActiveWorkflowDigest status))\<rparr>"
    "active_terminal (observe k) (w, l) chain status' app now i current = r"
    using assms by (auto simp: reconcileActiveInstance_def Let_def split: if_splits option.splits sum.splits)
  note t = terminal_stage [OF st(7) assms(2)]
  then have adv: "active_advance (observe k) (w, l) chain status' app now (ch_Steps (chain_Spec chain) ! i)
      (ch_Steps (chain_Spec chain) ! Suc i) current = r" by blast
  from advance_stage [OF adv assms(2)] show ?thesis
    using st(1-5) t unfolding successor_of_def by (force simp: st(6))
qed

text \<open>The run of the first step of a new instance.\<close>

definition first_of ::
  "'w kube \<Rightarrow> AgentChain \<Rightarrow> string \<Rightarrow> bool \<Rightarrow> instant \<Rightarrow> AgentRun \<Rightarrow> bool" where
  "first_of k obj app manual dueAt run \<longleftrightarrow>
     (\<exists>reason message. [run] = chained_expected obj app (agentChainInstanceID obj manual (chain_start_token obj) dueAt)
        (chain_Generation obj) (agentChainWorkflowDigest k obj) (hd (ch_Steps (chain_Spec obj))) None
        (if manual then None else Some dueAt) reason message)"

lemma chain_create_stage:
  assumes "chain_create (observe k) (w, l) obj now status app manual dueAt
      (agentChainInstanceID obj manual (chain_start_token obj) dueAt) (agentChainWorkflowDigest k obj) = r" "creates r \<noteq> l"
  shows "\<exists>run. creates r = l @ [run] \<and> first_of k obj app manual dueAt run"
proof -
  define inst where "inst = agentChainInstanceID obj manual (chain_start_token obj) dueAt"
  define ex where "ex = chained_expected obj app inst
        (chain_Generation obj) (agentChainWorkflowDigest k obj) (hd (ch_Steps (chain_Spec obj))) None
        (if manual then None else Some dueAt) ''AgentChainStart''
        (''instance='' @ inst @ '' step='' @ step_Name (hd (ch_Steps (chain_Spec obj))))"
  have "creates r = l @ ex"
    using assms(1) unfolding ex_def inst_def [symmetric]
    by (auto simp: chain_create_def Let_def observe_createChained observe_agentChainRuns
        split: sum.splits prod.splits)
  moreover from this assms(2) have "ex \<noteq> []" by auto
  ultimately show ?thesis using expected_cases unfolding ex_def first_of_def inst_def by metis
qed

lemma identify_stage:
  assumes "chain_identify (observe k) (w, l) obj now status app runs manual nextStart = r" "creates r \<noteq> l"
  shows "\<exists>dueAt run. agentChainStartDueAt obj manual nextStart now = Inr dueAt \<and>
    (\<forall>existing \<in> set runs. \<not> collides obj (agentChainInstanceID obj manual (chain_start_token obj) dueAt)
       (agentChainWorkflowDigest k obj) existing) \<and>
    creates r = l @ [run] \<and> first_of k obj app manual dueAt run"
proof -
  obtain dueAt where due: "agentChainStartDueAt obj manual nextStart now = Inr dueAt"
      "find (collides obj (agentChainInstanceID obj manual (chain_start_token obj) dueAt)
        (agentChainWorkflowDigest k obj)) runs = None"
      "chain_create (observe k) (w, l) obj now status app manual dueAt
        (agentChainInstanceID obj manual (chain_start_token obj) dueAt) (agentChainWorkflowDigest k obj) = r"
    using assms by (auto simp: chain_identify_def Let_def split: sum.splits if_splits option.splits)
  from chain_create_stage [OF due(3) assms(2)] due(1,2) show ?thesis
    by (auto simp: find_None_iff)
qed

text \<open>What allows a start: a manual token, or a due time, a budget and no backoff.\<close>

definition start_allowed ::
  "AgentChain \<Rightarrow> AgentChainStatus \<Rightarrow> instant \<Rightarrow> AgentRun list \<Rightarrow> int \<Rightarrow> instant option \<Rightarrow> bool" where
  "start_allowed obj status now runs today nextStart \<longleftrightarrow>
     chain_manual_pending obj status \<or>
     (case nextStart of None \<Rightarrow> False | Some t \<Rightarrow> t \<le> now) \<and> \<not> chain_budget_spent obj today \<and>
     agentChainTerminalBackoffUntil obj (status\<lparr>chst_NextStartAt := nextStart\<rparr>) runs now = None"

lemma decide_stage:
  assumes "chain_decide (observe k) (w, l) obj now status app runs today = r" "creates r \<noteq> l"
  shows "\<exists>nextStart status'. agentChainNextStartTime obj status now = Inr nextStart \<and>
    start_allowed obj status now runs today nextStart \<and>
    chain_identify (observe k) (w, l) obj now status' app runs (chain_manual_pending obj status) nextStart = r"
  using assms by (auto simp: chain_decide_def start_allowed_def Let_def split: sum.splits if_splits option.splits)

lemma clear_active_id [simp]:
  "chst_ActiveInstanceID (agentChainClearActive st) = []" "chst_ActiveInstanceID (chain_ready k c now cs r m st) = chst_ActiveInstanceID st"
  "chst_ActiveInstanceID (chain_blocked k c now r m st) = chst_ActiveInstanceID st"
  by (simp_all add: agentChainClearActive_def chain_ready_def chain_blocked_def)

lemma waiting_keeps_instance:
  assumes "reconcileActiveInstance k w chain status app now = (Inr (False, d, status'), w')"
  shows "chst_ActiveInstanceID status' = chst_ActiveInstanceID status"
proof -
  have adv: "chst_ActiveInstanceID st' = chst_ActiveInstanceID st"
    if "active_advance k w chain st app now a b current = (Inr (False, d, st'), w')" for st a b current st'
    using that by (auto simp: active_advance_def Let_def split: sum.splits prod.splits)
  have final: "chst_ActiveInstanceID st' = chst_ActiveInstanceID st"
    if "active_terminal k w chain st app now i current = (Inr (False, d, st'), w')" for st i current st'
    using that adv by (auto simp: active_terminal_def Let_def split: if_splits)
  show ?thesis
    using assms by (auto simp: reconcileActiveInstance_def Let_def dest!: final split: if_splits option.splits sum.splits)
qed

lemma active_stage:
  assumes "chain_active (observe k) (w, l) obj now status app runs today = r" "creates r \<noteq> l"
  shows "(if chst_ActiveInstanceID status = [] then chain_decide (observe k) (w, l) obj now status app runs today = r
    else chst_ActiveWorkflowDigest status = agentChainWorkflowDigest k obj \<and> chst_ActiveSourceGeneration status \<noteq> 0 \<and>
      (\<exists>run. creates r = l @ [run] \<and> successor_of k w obj status app run))"
proof (cases "chst_ActiveInstanceID status = []")
  case True
  then show ?thesis using assms by (simp add: chain_active_def)
next
  case False
  obtain a w' l' where ra: "reconcileActiveInstance (observe k) (w, l) obj status app now = (a, (w', l'))"
    by (metis surj_pair)
  have "creates r = l'"
    using assms(1) False ra
    by (auto simp: chain_active_def dest: waiting_keeps_instance split: sum.splits prod.splits if_splits)
  then show ?thesis
    using active_instance_stage [OF ra] assms(2) False by auto
qed

text \<open>A cancellation that applies to the active instance: requested earlier or by the token.\<close>

definition cancel_applies :: "AgentChain \<Rightarrow> AgentChainStatus \<Rightarrow> bool" where
  "cancel_applies obj status \<longleftrightarrow>
     chst_ActiveInstanceID status \<noteq> [] \<and>
     (chst_CancelRequestedInstanceID status = chst_ActiveInstanceID status \<or>
      chain_cancel_token obj \<noteq> [] \<and> chain_cancel_token obj \<noteq> chst_LastCancelToken status \<and>
      chain_cancel_token obj \<in> {chst_ActiveInstanceID status, ''*''})"

lemma creates_cancelling [simp]: "creates (chain_cancelling (observe k) (w, l) obj now status) = l"
  by (simp add: chain_cancelling_def Let_def split: sum.splits)

lemma cancel_stage:
  assumes "chain_cancel (observe k) (w, l) obj now status app runs today = r" "creates r \<noteq> l"
  shows "\<not> cancel_applies obj status \<and> (\<exists>t. chain_active (observe k) (w, l) obj now
    (status\<lparr>chst_LastCancelToken := t\<rparr>) app runs today = r)"
proof -
  have same: "status = status\<lparr>chst_LastCancelToken := chst_LastCancelToken status\<rparr>" by simp
  let ?token = "chain_cancel_token obj" and ?inst = "chst_ActiveInstanceID status"
  let ?fresh = "?token \<noteq> [] \<and> ?token \<noteq> chst_LastCancelToken status"
  have no: "\<not> (?fresh \<and> ?inst \<noteq> [] \<and> (?token = ?inst \<or> ?token = ''*''))"
    using assms unfolding chain_cancel_def Let_def by auto
  define st where "st = status\<lparr>chst_LastCancelToken := (if ?fresh then ?token else chst_LastCancelToken status)\<rparr>"
  have st: "(if ?fresh then status\<lparr>chst_LastCancelToken := ?token\<rparr> else status) = st"
    using same by (simp add: st_def)
  have fields: "chst_CancelRequestedInstanceID st = chst_CancelRequestedInstanceID status"
    by (simp add: st_def)
  have eq: "(if ?inst \<noteq> [] \<and> chst_CancelRequestedInstanceID st = ?inst then chain_cancelling (observe k) (w, l) obj now st
      else chain_active (observe k) (w, l) obj now st app runs today) = r"
    using assms(1) no unfolding chain_cancel_def Let_def st by (simp only: if_False)
  have nc: "\<not> (?inst \<noteq> [] \<and> chst_CancelRequestedInstanceID status = ?inst)"
  proof
    assume "?inst \<noteq> [] \<and> chst_CancelRequestedInstanceID status = ?inst"
    with eq have "chain_cancelling (observe k) (w, l) obj now st = r" by (simp add: fields)
    then show False using assms(2) creates_cancelling [of k w l obj now st] by simp
  qed
  then have "chain_active (observe k) (w, l) obj now st app runs today = r"
    using eq unfolding fields by (simp only: if_False)
  then show ?thesis
    using no nc unfolding cancel_applies_def st_def by blast
qed

lemma recover_stage:
  assumes "chain_recover (observe k) (w, l) obj now status app runs today = r" "creates r \<noteq> l"
  shows "(chst_ActiveInstanceID status = [] \<longrightarrow> agentChainOwnedNonterminalRuns k w obj = Inr []) \<and>
    chain_cancel (observe k) (w, l) obj now status app runs today = r"
  using assms by (auto simp: chain_recover_def split: if_splits sum.splits list.splits option.splits)

lemma hold_stage:
  assumes "chain_hold (observe k) (w, l) obj now status app = r" "creates r \<noteq> l"
  shows "activeAgentRunPauseForApplication k w app now = Inr None \<and>
    (\<exists>runs today w1. agentChainRuns k w obj now = (Inr (runs, today), w1) \<and>
      chain_recover (observe k) (w1, l) obj now (status\<lparr>chst_InstancesToday := today\<rparr>) app runs today = r)"
  using assms by (auto simp: chain_hold_def observe_agentChainRuns split: sum.splits prod.splits option.splits)

lemma chain_validate_stage:
  assumes "chain_validate (observe k) (w, l) obj now = r" "creates r \<noteq> l"
  shows "validateAgentChainSpec obj = None \<and> \<not> ch_Suspend (chain_Spec obj) \<and>
    (\<exists>app. resolveAgentChainApplicationName obj = Inr app \<and>
      chain_hold (observe k) (w, l) obj now ((chain_Status obj)\<lparr>chst_ObservedGeneration := chain_Generation obj\<rparr>) app = r)"
  using assms by (auto simp: chain_validate_def Let_def split: sum.splits option.splits if_splits)

lemma log_PatchChain: "k_PatchChain (observe k) (w, l) a b = (e, (w', l')) \<Longrightarrow> l' = l"
  by (auto simp: observe_def split: prod.splits)

lemma creates_drain [simp]:
  "creates (chain_drain (observe k) (w, l) obj) = l" "creates (chain_install_finalizer (observe k) (w, l) obj) = l"
proof -
  have "creates (removeAgentChainDrainFinalizer (observe k) (w, l) ns name) = l" for ns name
    by (auto simp: removeAgentChainDrainFinalizer_def creates_def dest: log_PatchChain split: sum.splits prod.splits option.splits)
  then show "creates (chain_drain (observe k) (w, l) obj) = l"
    by (auto simp: chain_drain_def split: sum.splits)
  show "creates (chain_install_finalizer (observe k) (w, l) obj) = l"
    by (auto simp: chain_install_finalizer_def creates_def dest: log_PatchChain split: prod.splits option.splits)
qed

subsection \<open>Status fields a stage does not read\<close>

lemma run_by_ref_irrelevant [simp]:
  "agentChainRunByRef k w obj (st\<lparr>chst_LastCancelToken := t\<rparr>) step ref uid = agentChainRunByRef k w obj st step ref uid"
  "agentChainRunByRef k w obj (st\<lparr>chst_InstancesToday := n\<rparr>) step ref uid = agentChainRunByRef k w obj st step ref uid"
  "agentChainRunByRef k w obj (st\<lparr>chst_ObservedGeneration := g\<rparr>) step ref uid = agentChainRunByRef k w obj st step ref uid"
  by (simp_all add: agentChainRunByRef_def frozen_identity_def Let_def cong: if_cong sum.case_cong option.case_cong)

lemma successor_irrelevant [simp]:
  "successor_of k w obj (st\<lparr>chst_LastCancelToken := t\<rparr>) app run = successor_of k w obj st app run"
  "successor_of k w obj (st\<lparr>chst_InstancesToday := n\<rparr>) app run = successor_of k w obj st app run"
  "successor_of k w obj (st\<lparr>chst_ObservedGeneration := g\<rparr>) app run = successor_of k w obj st app run"
  by (simp_all add: successor_of_def agentChainActiveRun_def cong: option.case_cong)

lemma start_irrelevant [simp]:
  "agentChainNextStartTime obj (st\<lparr>chst_LastCancelToken := t\<rparr>) now = agentChainNextStartTime obj st now"
  "agentChainNextStartTime obj (st\<lparr>chst_InstancesToday := n\<rparr>) now = agentChainNextStartTime obj st now"
  "agentChainNextStartTime obj (st\<lparr>chst_ObservedGeneration := g\<rparr>) now = agentChainNextStartTime obj st now"
  "chain_manual_pending obj (st\<lparr>chst_LastCancelToken := t\<rparr>) = chain_manual_pending obj st"
  "chain_manual_pending obj (st\<lparr>chst_InstancesToday := n\<rparr>) = chain_manual_pending obj st"
  "chain_manual_pending obj (st\<lparr>chst_ObservedGeneration := g\<rparr>) = chain_manual_pending obj st"
  "start_allowed obj (st\<lparr>chst_LastCancelToken := t\<rparr>) now runs today nxt = start_allowed obj st now runs today nxt"
  "start_allowed obj (st\<lparr>chst_InstancesToday := n\<rparr>) now runs today nxt = start_allowed obj st now runs today nxt"
  "start_allowed obj (st\<lparr>chst_ObservedGeneration := g\<rparr>) now runs today nxt = start_allowed obj st now runs today nxt"
  by (simp_all add: agentChainNextStartTime_def chain_manual_pending_def start_allowed_def agentChainTerminalBackoffUntil_def
      cong: if_cong option.case_cong)

lemma cancel_irrelevant [simp]:
  "cancel_applies obj (st\<lparr>chst_InstancesToday := n\<rparr>) = cancel_applies obj st"
  "cancel_applies obj (st\<lparr>chst_ObservedGeneration := g\<rparr>) = cancel_applies obj st"
  by (simp_all add: cancel_applies_def)

lemma chain_create_guards:
  assumes "AgentChainReconcile (observe k) (w, []) ns name now = r" "creates r \<noteq> []"
  obtains obj app runs today w1 run where
    "k_GetChain k w ns name = Inr obj" "\<not> being_deleted (chain_Meta obj)" "has_drain k obj"
    "validateAgentChainSpec obj = None" "\<not> ch_Suspend (chain_Spec obj)" "resolveAgentChainApplicationName obj = Inr app"
    "activeAgentRunPauseForApplication k w app now = Inr None" "agentChainRuns k w obj now = (Inr (runs, today), w1)"
    "creates r = [run]" "\<not> cancel_applies obj (chain_Status obj)"
    "if chst_ActiveInstanceID (chain_Status obj) = []
     then agentChainOwnedNonterminalRuns k w1 obj = Inr [] \<and>
       (\<exists>nextStart dueAt. agentChainNextStartTime obj (chain_Status obj) now = Inr nextStart \<and>
          start_allowed obj (chain_Status obj) now runs today nextStart \<and>
          agentChainStartDueAt obj (chain_manual_pending obj (chain_Status obj)) nextStart now = Inr dueAt \<and>
          first_of k obj app (chain_manual_pending obj (chain_Status obj)) dueAt run)
     else chst_ActiveWorkflowDigest (chain_Status obj) = agentChainWorkflowDigest k obj \<and>
       successor_of k w1 obj (chain_Status obj) app run"
proof -
  obtain obj where obj: "k_GetChain k w ns name = Inr obj" "\<not> being_deleted (chain_Meta obj)" "has_drain k obj"
      and v: "chain_validate (observe k) (w, []) obj now = r"
    using assms by (auto simp: AgentChainReconcile_def split: sum.splits if_splits)
  from chain_validate_stage [OF v assms(2)] obtain app where app: "validateAgentChainSpec obj = None"
      "\<not> ch_Suspend (chain_Spec obj)" "resolveAgentChainApplicationName obj = Inr app"
      and h: "chain_hold (observe k) (w, []) obj now
        ((chain_Status obj)\<lparr>chst_ObservedGeneration := chain_Generation obj\<rparr>) app = r" by blast
  from hold_stage [OF h assms(2)] obtain runs today w1 where
      runs: "activeAgentRunPauseForApplication k w app now = Inr None" "agentChainRuns k w obj now = (Inr (runs, today), w1)"
      and rc: "chain_recover (observe k) (w1, []) obj now
        ((chain_Status obj)\<lparr>chst_ObservedGeneration := chain_Generation obj, chst_InstancesToday := today\<rparr>) app runs today = r"
    by auto
  from recover_stage [OF rc assms(2)] have
      owned: "chst_ActiveInstanceID (chain_Status obj) = [] \<longrightarrow> agentChainOwnedNonterminalRuns k w1 obj = Inr []"
      and c: "chain_cancel (observe k) (w1, []) obj now
        ((chain_Status obj)\<lparr>chst_ObservedGeneration := chain_Generation obj, chst_InstancesToday := today\<rparr>) app runs today = r"
    by auto
  from cancel_stage [OF c assms(2)] obtain t where nc: "\<not> cancel_applies obj (chain_Status obj)"
      and a: "chain_active (observe k) (w1, []) obj now ((chain_Status obj)\<lparr>chst_ObservedGeneration := chain_Generation obj,
        chst_InstancesToday := today, chst_LastCancelToken := t\<rparr>) app runs today = r"
    by auto
  note act = active_stage [OF a assms(2), simplified]
  show thesis
  proof (cases "chst_ActiveInstanceID (chain_Status obj) = []")
    case True
    with act have d: "chain_decide (observe k) (w1, []) obj now ((chain_Status obj)\<lparr>chst_ObservedGeneration := chain_Generation obj,
        chst_InstancesToday := today, chst_LastCancelToken := t\<rparr>) app runs today = r" by simp
    from decide_stage [OF d assms(2)] obtain nextStart status' where
        nx: "agentChainNextStartTime obj (chain_Status obj) now = Inr nextStart"
          "start_allowed obj (chain_Status obj) now runs today nextStart"
        and i: "chain_identify (observe k) (w1, []) obj now status' app runs
          (chain_manual_pending obj (chain_Status obj)) nextStart = r"
      by auto
    from identify_stage [OF i assms(2)] obtain dueAt run where
        "agentChainStartDueAt obj (chain_manual_pending obj (chain_Status obj)) nextStart now = Inr dueAt"
        "creates r = [run]" "first_of k obj app (chain_manual_pending obj (chain_Status obj)) dueAt run"
      by auto
    with True nx owned that [OF obj app runs _ nc] show thesis by auto
  next
    case False
    with act obtain run where "creates r = [run]" "successor_of k w1 obj (chain_Status obj) app run"
        "chst_ActiveWorkflowDigest (chain_Status obj) = agentChainWorkflowDigest k obj"
      by auto
    with False that [OF obj app runs _ nc] show thesis by auto
  qed
qed

end
