(* ===== verification/ChainMachine.thy ===== *)
theory ChainMachine
  imports Chain
begin

text \<open>
  The chain controller as a state machine. An instance is nowhere, at a step, or at a step
  the spec does not have; \<open>chain_step\<close> is the abstract machine that a chain promises. The
  refinement shows that every status the reconciler writes is one step of that machine and
  that runs are created on the starting and advancing steps only.
\<close>

subsection \<open>The abstract machine\<close>

datatype chain_position = Idle | At string nat | Lost string

datatype chain_move = Stay | Start | Advance | Stop | Recover

inductive chain_step :: "nat \<Rightarrow> chain_position \<Rightarrow> chain_move \<Rightarrow> chain_position \<Rightarrow> bool" for n where
  stay: "chain_step n s Stay s"
| start: "0 < n \<Longrightarrow> chain_step n Idle Start (At inst 0)"
| advance: "Suc i < n \<Longrightarrow> chain_step n (At inst i) Advance (At inst (Suc i))"
| stop: "s \<noteq> Idle \<Longrightarrow> chain_step n s Stop Idle"
| recover: "chain_step n Idle Recover s"

inductive_cases chain_advance_cases: "chain_step n s Advance t"
inductive_cases chain_stay_cases: "chain_step n s Stay t"
inductive_simps chain_step_simps: "chain_step n s m t"

fun chain_path :: "nat \<Rightarrow> chain_position \<Rightarrow> chain_move list \<Rightarrow> chain_position \<Rightarrow> bool" where
  "chain_path n s [] t \<longleftrightarrow> s = t"
| "chain_path n s (m # ms) t \<longleftrightarrow> (\<exists>u. chain_step n s m u \<and> chain_path n u ms t)"

text \<open>While an instance neither stops nor is recovered it stays the same instance and counts its steps.\<close>

lemma path_counts:
  assumes "chain_path n (At inst i) ms t" "set ms \<subseteq> {Stay, Advance}"
  shows "t = At inst (i + count_list ms Advance) \<and> (i < n \<longrightarrow> i + count_list ms Advance < n)"
  using assms
proof (induction ms arbitrary: i)
  case (Cons m ms)
  then obtain u where u: "chain_step n (At inst i) m u" "chain_path n u ms t" "set ms \<subseteq> {Stay, Advance}" by auto
  show ?case
  proof (cases m)
    case Stay
    with u have "u = At inst i" by (auto elim: chain_stay_cases)
    with Cons.IH u Stay show ?thesis by simp
  next
    case Advance
    with u have "u = At inst (Suc i)" "Suc i < n" by (auto elim: chain_advance_cases)
    with Cons.IH [of "Suc i"] u Advance show ?thesis by simp
  qed (use Cons.prems in auto)
qed simp

subsection \<open>The position of a chain\<close>

definition position :: "AgentChain \<Rightarrow> AgentChainStatus \<Rightarrow> chain_position" where
  "position obj status =
     (if chst_ActiveInstanceID status = [] then Idle
      else case agentChainStepIndex obj (chst_ActiveStep status) of
        None \<Rightarrow> Lost (chst_ActiveInstanceID status)
      | Some i \<Rightarrow> At (chst_ActiveInstanceID status) i)"

lemma position_cong:
  "chst_ActiveInstanceID a = chst_ActiveInstanceID b \<Longrightarrow> chst_ActiveStep a = chst_ActiveStep b \<Longrightarrow> position obj a = position obj b"
  by (simp add: position_def split: option.splits)

lemma position_simps [simp]:
  "position obj (chain_ready k c now cs r m st) = position obj st"
  "position obj (chain_blocked k c now r m st) = position obj st"
  "position obj (st\<lparr>chst_Phase := p\<rparr>) = position obj st"
  "position obj (st\<lparr>chst_LastError := e\<rparr>) = position obj st"
  "position obj (st\<lparr>chst_NextStartAt := t\<rparr>) = position obj st"
  "position obj (st\<lparr>chst_LastCancelToken := tok\<rparr>) = position obj st"
  "position obj (st\<lparr>chst_InstancesToday := d\<rparr>) = position obj st"
  "position obj (st\<lparr>chst_ObservedGeneration := g\<rparr>) = position obj st"
  "position obj (st\<lparr>chst_StepRuns := rs\<rparr>) = position obj st"
  "position obj (st\<lparr>chst_CancelRequestedInstanceID := c'\<rparr>) = position obj st"
  by (rule position_cong; simp add: chain_ready_def chain_blocked_def)+

lemma position_clear [simp]: "position obj (agentChainClearActive st) = Idle"
  by (simp add: position_def)

lemma position_backoff [simp]: "position obj (agentChainApplyTerminalBackoffDeadline chain st run now) = position obj st"
  by (auto simp: agentChainApplyTerminalBackoffDeadline_def Let_def split: option.splits)

lemma position_stopped [simp]: "position obj (stopped_status chain run now phase b st) = Idle"
  by (simp add: stopped_status_def Let_def)

definition trimmed :: "AgentChain \<Rightarrow> bool" where
  "trimmed obj \<longleftrightarrow> (\<forall>s \<in> set (ch_Steps (chain_Spec obj)). TrimSpace (step_Name s) = step_Name s)"

lemma step_index_nth:
  assumes "distinct (map step_Name steps)" "i < length steps"
  shows "step_index_from (step_Name (steps ! i)) n steps = Some (n + i)"
  using assms
proof (induction steps arbitrary: i n)
  case (Cons s ss)
  show ?case
  proof (cases i)
    case (Suc j)
    then have "step_Name s \<noteq> step_Name (ss ! j)" using Cons.prems by auto
    then show ?thesis using Cons Suc by simp
  qed simp
qed simp

lemma validated_steps:
  assumes "validateAgentChainSpec obj = None"
  shows "ch_Steps (chain_Spec obj) \<noteq> [] \<and> distinct (step_names (ch_Steps (chain_Spec obj)))"
proof (cases "ch_Steps (chain_Spec obj)")
  case (Cons s ss)
  have "validate_steps 0 [] [] (s # ss) = None"
    using assms Cons by (auto simp: validateAgentChainSpec_def Let_def simp del: validate_steps.simps
        split: if_splits option.splits prod.splits)
  then show ?thesis using validate_steps_first [of s ss] Cons by simp
qed (use assms in \<open>simp add: validateAgentChainSpec_def\<close>)

lemma chain_step_index:
  assumes "validateAgentChainSpec obj = None" "trimmed obj" "i < length (ch_Steps (chain_Spec obj))"
  shows "agentChainStepIndex obj (step_Name (ch_Steps (chain_Spec obj) ! i)) = Some i"
proof -
  have "map step_Name (ch_Steps (chain_Spec obj)) = step_names (ch_Steps (chain_Spec obj))"
    using assms(2) by (simp add: trimmed_def)
  then have "distinct (map step_Name (ch_Steps (chain_Spec obj)))" using validated_steps [OF assms(1)] by argo
  with step_index_nth assms(2,3) show ?thesis by (simp add: agentChainStepIndex_def trimmed_def)
qed

subsection \<open>Refinement\<close>

text \<open>
  A result of the reconciler for \<open>obj\<close> that is an error, or the status write of a status one
  abstract step away; a run is created on a start or an advance only.
\<close>

definition refined ::
  "'w kube \<Rightarrow> AgentChain \<Rightarrow> chain_position \<Rightarrow> AgentRun list \<Rightarrow> ('w \<times> AgentRun list) reconciled \<Rightarrow> bool" where
  "refined k obj s l r \<longleftrightarrow>
     (\<exists>e. fst r = Inl e) \<or>
     (\<exists>w' status' d m. r = patchAgentChainStatus (observe k) w' obj status' d \<and>
        chain_step (length (ch_Steps (chain_Spec obj))) s m (position obj status') \<and>
        (creates r \<noteq> l \<longrightarrow> m = Start \<or> m = Advance))"

lemma refined_error [intro]: "refined k obj s l (Inl e, w)"
  by (simp add: refined_def)

lemma refined_patch:
  assumes "chain_step (length (ch_Steps (chain_Spec obj))) s m (position obj status')" "snd w = l \<or> m = Start \<or> m = Advance"
  shows "refined k obj s l (patchAgentChainStatus (observe k) w obj status' d)"
  unfolding refined_def
  by (rule disjI2, rule exI [of _ w], rule exI [of _ status'], rule exI [of _ d], rule exI [of _ m])
    (use assms in auto)

lemma refined_stay: "position obj status' = s \<Longrightarrow> refined k obj s l (patchAgentChainStatus (observe k) (w, l) obj status' d)"
  by (rule refined_patch [where m = Stay]) (auto intro: chain_step.intros)

lemma refined_stop:
  "position obj status' = Idle \<Longrightarrow> s \<noteq> Idle \<Longrightarrow> refined k obj s l (patchAgentChainStatus (observe k) (w, l) obj status' d)"
  by (rule refined_patch [where m = Stop]) (auto intro: chain_step.intros)

lemma refined_recovered: "refined k obj Idle l (patchAgentChainStatus (observe k) (w, l) obj status' d)"
  by (rule refined_patch [where m = Recover]) (auto intro: chain_step.intros)

lemma refined_create:
  assumes "validateAgentChainSpec obj = None" "trimmed obj" "inst \<noteq> []"
  shows "refined k obj Idle l (chain_create (observe k) (w, l) obj now status app manual dueAt inst digest)"
proof -
  have steps: "0 < length (ch_Steps (chain_Spec obj))" using validated_steps [OF assms(1)] by simp
  have "agentChainStepIndex obj (step_Name (hd (ch_Steps (chain_Spec obj)))) = Some 0"
    using chain_step_index [OF assms(1,2) steps] steps by (simp add: hd_conv_nth)
  then have "position obj (started_status obj status now manual dueAt inst digest (hd (ch_Steps (chain_Spec obj))) run) = At inst 0" for run
    using assms(3) by (simp add: position_def started_status_def)
  then show ?thesis
    using steps by (auto simp: chain_create_def Let_def intro!: refined_patch [where m = Start] chain_step.start
        split: sum.splits prod.splits)
qed

lemma instance_id_nonempty [simp]: "agentChainInstanceID obj manual token dueAt \<noteq> []"
  by (simp add: agentChainInstanceID_def Let_def)

lemma refined_decide:
  assumes "validateAgentChainSpec obj = None" "trimmed obj" "position obj status = Idle"
  shows "refined k obj Idle l (chain_decide (observe k) (w, l) obj now status app runs today)"
proof -
  have i: "refined k obj Idle l (chain_identify (observe k) (w, l) obj now st app runs manual nextStart)"
    if "position obj st = Idle" for st manual nextStart
    using that by (auto simp: chain_identify_def Let_def intro!: refined_stay refined_create [OF assms(1,2)]
        split: sum.splits option.splits)
  show ?thesis
    using assms(3) by (auto simp: chain_decide_def Let_def intro!: refined_stay i split: sum.splits option.splits)
qed

lemma some_move:
  "\<exists>m. chain_step n s m s"
  "\<exists>m. chain_step n (At inst i) m Idle"
  "\<not> n \<le> Suc i \<Longrightarrow> \<exists>m. chain_step n (At inst i) m (At inst (Suc i)) \<and> (c \<longrightarrow> m = Advance)"
  by (auto intro: chain_step.intros simp: not_le)

lemma active_instance_steps:
  assumes valid: "validateAgentChainSpec obj = None" "trimmed obj" and act: "chst_ActiveInstanceID status \<noteq> []"
    and r: "reconcileActiveInstance k w obj status app now = (Inr (adv, d, status'), w')"
  shows "\<exists>m. chain_step (length (ch_Steps (chain_Spec obj))) (position obj status) m (position obj status') \<and>
    (w' \<noteq> w \<longrightarrow> m = Advance)"
proof -
  have adv_pos: "position obj (advanced_status inst (ch_Steps (chain_Spec obj) ! Suc i) run st) = At (chst_ActiveInstanceID st) (Suc i)"
    if "Suc i < length (ch_Steps (chain_Spec obj))" "chst_ActiveInstanceID st \<noteq> []" for inst i run st
    using that chain_step_index [OF valid, of "Suc i"] by (simp add: position_def advanced_status_def)
  have final: "\<exists>m. chain_step (length (ch_Steps (chain_Spec obj))) (position obj st) m (position obj st') \<and>
      (w' \<noteq> w \<longrightarrow> m = Advance)"
    if i: "agentChainStepIndex obj (chst_ActiveStep st) = Some i" "chst_ActiveInstanceID st \<noteq> []"
      and t: "active_terminal k w obj st app now i current = (Inr (adv, d, st'), w')" for st i current st'
  proof -
    have at: "position obj st = At (chst_ActiveInstanceID st) i" using i by (simp add: position_def)
    show ?thesis
      using t adv_pos [of i st] i(2)
      by (auto simp: active_terminal_def active_final_def active_advance_def Let_def at
          intro: some_move split: if_splits sum.splits prod.splits)
  qed
  consider (same) "position obj status' = position obj status" "w' = w"
    | (ended) st i current where "position obj st = position obj status" "chst_ActiveInstanceID st \<noteq> []"
      "agentChainStepIndex obj (chst_ActiveStep st) = Some i" "active_terminal k w obj st app now i current = (Inr (adv, d, status'), w')"
  proof -
    have upd: "position obj (status\<lparr>chst_StepRuns := x\<rparr>) = position obj status"
      "chst_ActiveInstanceID (status\<lparr>chst_StepRuns := x\<rparr>) = chst_ActiveInstanceID status"
      "chst_ActiveStep (status\<lparr>chst_StepRuns := x\<rparr>) = chst_ActiveStep status" for x by simp_all
    show thesis
      using r act same ended [of "status\<lparr>chst_StepRuns := _\<rparr>", unfolded upd]
      by (auto simp: reconcileActiveInstance_def Let_def split: if_splits option.splits sum.splits)
  qed
  then show ?thesis
  proof cases
    case same
    then show ?thesis using some_move(1) by metis
  next
    case ended
    from final [OF ended(3,2,4)] ended(1) show ?thesis by simp
  qed
qed

lemma position_idle [simp]: "chst_ActiveInstanceID status = [] \<Longrightarrow> position obj status = Idle"
  by (simp add: position_def)

lemma position_busy: "chst_ActiveInstanceID status \<noteq> [] \<Longrightarrow> position obj status \<noteq> Idle"
  by (simp add: position_def split: option.splits)

lemma refined_active:
  assumes valid: "validateAgentChainSpec obj = None" "trimmed obj"
  shows "refined k obj (position obj status) l (chain_active (observe k) (w, l) obj now status app runs today)"
proof (cases "chst_ActiveInstanceID status = []")
  case True
  then show ?thesis using refined_decide [OF valid, of status] by (simp add: chain_active_def)
next
  case False
  obtain a w' l' where ra: "reconcileActiveInstance (observe k) (w, l) obj status app now = (a, (w', l'))"
    by (metis surj_pair)
  show ?thesis
  proof (cases a)
    case (Inl e)
    then show ?thesis using False ra by (auto simp: chain_active_def)
  next
    case (Inr x)
    then obtain adv d status' where x: "a = Inr (adv, d, status')" by (cases x) auto
    obtain m where m: "chain_step (length (ch_Steps (chain_Spec obj))) (position obj status) m (position obj status')"
        "l' \<noteq> l \<longrightarrow> m = Advance"
      using active_instance_steps [OF valid False ra [unfolded x]] by auto
    have "\<not> adv \<Longrightarrow> chst_ActiveInstanceID status' \<noteq> []"
      using waiting_keeps_instance [of "observe k" "(w, l)" obj status app now d status' "(w', l')"] ra x False by simp
    then show ?thesis
      using False ra x m by (auto simp: chain_active_def intro!: refined_patch)
  qed
qed

lemma refined_cancel:
  assumes valid: "validateAgentChainSpec obj = None" "trimmed obj"
  shows "refined k obj (position obj status) l (chain_cancel (observe k) (w, l) obj now status app runs today)"
proof -
  have c: "refined k obj (position obj st) l (chain_cancelling (observe k) (w, l) obj now st)"
    if "chst_ActiveInstanceID st \<noteq> []" for st
  proof (cases "agentChainActiveRun k w obj st")
    case (Inr current)
    then show ?thesis
      using position_busy [OF that, of obj]
      by (cases "agentRunPhaseTerminal (run_Phase current)")
        (simp_all add: chain_cancelling_def Let_def refined_stop refined_stay)
  qed (auto simp: chain_cancelling_def Let_def intro!: refined_stay)
  define fresh where "fresh \<longleftrightarrow> chain_cancel_token obj \<noteq> [] \<and> chain_cancel_token obj \<noteq> chst_LastCancelToken status"
  define st where "st = (if fresh then status\<lparr>chst_LastCancelToken := chain_cancel_token obj\<rparr> else status)"
  have st: "position obj st = position obj status" "chst_ActiveInstanceID st = chst_ActiveInstanceID status"
    by (simp_all add: st_def)
  show ?thesis
    unfolding chain_cancel_def Let_def fresh_def [symmetric] st_def [symmetric]
    using c [of st] refined_active [OF valid, of k st l w now app runs today] st by (auto intro!: refined_stay)
qed

lemma refined_recover:
  assumes valid: "validateAgentChainSpec obj = None" "trimmed obj"
  shows "refined k obj (position obj status) l (chain_recover (observe k) (w, l) obj now status app runs today)"
proof (cases "chst_ActiveInstanceID status = []")
  case True
  with refined_cancel [OF valid, of k status l w now app runs today] show ?thesis
    by (auto simp: chain_recover_def intro!: refined_recovered
        split: sum.splits list.splits option.splits)
qed (use refined_cancel [OF valid] in \<open>simp add: chain_recover_def\<close>)

lemma refined_hold:
  assumes valid: "validateAgentChainSpec obj = None" "trimmed obj"
  shows "refined k obj (position obj status) l (chain_hold (observe k) (w, l) obj now status app)"
  using refined_recover [OF valid, of k "status\<lparr>chst_InstancesToday := _\<rparr>"]
  by (auto simp: chain_hold_def observe_agentChainRuns intro!: refined_stay split: sum.splits option.splits prod.splits)

subsection \<open>A permitted chain starts\<close>

lemma chain_create_forward:
  assumes "chained_scope app (hd (ch_Steps (chain_Spec obj))) = Inr scoped"
  shows "\<exists>run. creates (chain_create (observe k) (w, l) obj now status app manual dueAt
      (agentChainInstanceID obj manual (chain_start_token obj) dueAt) (agentChainWorkflowDigest k obj)) = l @ [run] \<and>
    first_of k obj app manual dueAt run"
proof -
  let ?inst = "agentChainInstanceID obj manual (chain_start_token obj) dueAt"
  let ?first = "hd (ch_Steps (chain_Spec obj))"
  let ?message = "''instance='' @ ?inst @ '' step='' @ step_Name ?first"
  obtain a w' where c: "createChainedAgentRun k w obj app ?inst (chain_Generation obj) (agentChainWorkflowDigest k obj) ?first None
      (if manual then None else Some dueAt) ''AgentChainStart'' ?message = (a, w')" by fastforce
  obtain run where run: "chained_expected obj app ?inst (chain_Generation obj) (agentChainWorkflowDigest k obj) ?first None
      (if manual then None else Some dueAt) ''AgentChainStart'' ?message = [run]"
    using assms by (simp add: chained_expected_def)
  have "first_of k obj app manual dueAt run" unfolding first_of_def using run by metis
  moreover have "creates (chain_create (observe k) (w, l) obj now status app manual dueAt ?inst (agentChainWorkflowDigest k obj)) = l @ [run]"
    using c run
    by (cases a) (auto simp: chain_create_def Let_def observe_createChained observe_agentChainRuns split: sum.splits prod.splits)
  ultimately show ?thesis by blast
qed

lemma chain_decide_forward:
  assumes "agentChainNextStartTime obj status now = Inr nextStart" "start_allowed obj status now runs today nextStart"
    and "agentChainStartDueAt obj (chain_manual_pending obj status) nextStart now = Inr dueAt"
    and "agentChainWorkflowDigest k obj \<noteq> []"
    and "\<forall>existing \<in> set runs. \<not> collides obj (agentChainInstanceID obj (chain_manual_pending obj status) (chain_start_token obj) dueAt)
       (agentChainWorkflowDigest k obj) existing"
    and "chained_scope app (hd (ch_Steps (chain_Spec obj))) = Inr scoped"
  shows "\<exists>run. creates (chain_decide (observe k) (w, l) obj now status app runs today) = l @ [run] \<and>
    first_of k obj app (chain_manual_pending obj status) dueAt run"
proof -
  have "find (collides obj (agentChainInstanceID obj (chain_manual_pending obj status) (chain_start_token obj) dueAt)
      (agentChainWorkflowDigest k obj)) runs = None"
    using assms(5) by (auto simp: find_None_iff)
  then have "\<exists>st. chain_decide (observe k) (w, l) obj now status app runs today =
      chain_create (observe k) (w, l) obj now st app (chain_manual_pending obj status) dueAt
        (agentChainInstanceID obj (chain_manual_pending obj status) (chain_start_token obj) dueAt) (agentChainWorkflowDigest k obj)"
    using assms(1-4)
    by (auto simp: chain_decide_def chain_identify_def start_allowed_def Let_def split: option.splits)
  then show ?thesis using chain_create_forward [OF assms(6)] by metis
qed

subsection \<open>Properties\<close>

text \<open>
  C7. The chain controller refines the step machine. For a live chain whose step names carry no
  surrounding white space, every reconciliation ends in an error without a status write or
  writes exactly one status, and that status is one move away from the stored one: the
  instance stays, starts at the first step, advances by exactly one step of the same
  instance, stops, or is recovered when none was recorded. A run is created on a start or
  an advance only.
\<close>

theorem chain_reconcile_refines:
  assumes "k_GetChain k w ns name = Inr obj" "\<not> being_deleted (chain_Meta obj)" "has_drain k obj" "trimmed obj"
    and "AgentChainReconcile (observe k) (w, []) ns name now = r"
  shows "(\<exists>e. fst r = Inl e) \<or>
    (\<exists>w' status' d m. r = patchAgentChainStatus (observe k) w' obj status' d \<and>
       chain_step (length (ch_Steps (chain_Spec obj))) (position obj (chain_Status obj)) m (position obj status') \<and>
       (creates r \<noteq> [] \<longrightarrow> m = Start \<or> m = Advance))"
proof -
  let ?st = "(chain_Status obj)\<lparr>chst_ObservedGeneration := chain_Generation obj\<rparr>"
  have r: "chain_validate (observe k) (w, []) obj now = r"
    using assms by (simp add: AgentChainReconcile_def)
  have hold: "refined k obj (position obj (chain_Status obj)) [] (chain_hold (observe k) (w, []) obj now ?st app)"
    if "validateAgentChainSpec obj = None" for app
    using refined_hold [OF that assms(4), of k ?st "[]" w now app] by simp
  have "refined k obj (position obj (chain_Status obj)) [] r"
    unfolding r [symmetric]
    using hold by (auto simp: chain_validate_def Let_def intro!: refined_stay split: sum.splits option.splits)
  then show ?thesis by (simp add: refined_def)
qed

definition demo_chain_cluster :: mem where
  "demo_chain_cluster = mem_empty\<lparr>mem_Chains := [demo_chain]\<rparr>"

lemma demo_chain_get:
  "k_GetChain mem_kube demo_chain_cluster ''agents'' ''release'' = Inr demo_chain"
  "\<not> being_deleted (chain_Meta demo_chain)" "has_drain mem_kube demo_chain" "trimmed demo_chain"
proof -
  show "k_GetChain mem_kube demo_chain_cluster ''agents'' ''release'' = Inr demo_chain"
    by (simp add: demo_chain_cluster_def keyed_def demo_chain_def)
  show "\<not> being_deleted (chain_Meta demo_chain)"
    by (simp add: being_deleted_def demo_chain_def zero_ObjectMeta_def)
  show "has_drain mem_kube demo_chain"
    by (simp add: has_drain_def mem_kube_def demo_chain_def)
  show "trimmed demo_chain" by code_simp
qed

theorem chain_reconcile_refines_witness:
  "\<exists>r. AgentChainReconcile (observe mem_kube) (demo_chain_cluster, []) ''agents'' ''release'' (150 * Second) = r \<and>
     ((\<exists>e. fst r = Inl e) \<or> (\<exists>w' status' d. r = patchAgentChainStatus (observe mem_kube) w' demo_chain status' d))"
  using chain_reconcile_refines [OF demo_chain_get refl, of "150 * Second"] by blast

text \<open>
  C4. What a chain needs to create a run. One reconciliation creates at most one run. If it
  creates one, the chain is live and valid, not suspended and not held by its application,
  no cancellation applies, and either no instance is active, no nonterminal run of the
  chain exists anywhere in the namespace, a start is allowed and the run is the first step
  of the due instance; or the active instance is unchanged since it was frozen and the run
  is the next step of it, after the exact run of the current step has ended.
\<close>

theorem chain_create_guarded:
  assumes "AgentChainReconcile (observe k) (w, []) ns name now = r" "creates r \<noteq> []"
  shows "\<exists>obj app runs today w1 run.
    k_GetChain k w ns name = Inr obj \<and> \<not> being_deleted (chain_Meta obj) \<and> has_drain k obj \<and>
    validateAgentChainSpec obj = None \<and> \<not> ch_Suspend (chain_Spec obj) \<and> resolveAgentChainApplicationName obj = Inr app \<and>
    activeAgentRunPauseForApplication k w app now = Inr None \<and> agentChainRuns k w obj now = (Inr (runs, today), w1) \<and>
    creates r = [run] \<and> \<not> cancel_applies obj (chain_Status obj) \<and>
    (if chst_ActiveInstanceID (chain_Status obj) = []
     then agentChainOwnedNonterminalRuns k w1 obj = Inr [] \<and>
       (\<exists>nextStart dueAt. agentChainNextStartTime obj (chain_Status obj) now = Inr nextStart \<and>
          start_allowed obj (chain_Status obj) now runs today nextStart \<and>
          agentChainStartDueAt obj (chain_manual_pending obj (chain_Status obj)) nextStart now = Inr dueAt \<and>
          first_of k obj app (chain_manual_pending obj (chain_Status obj)) dueAt run)
     else chst_ActiveWorkflowDigest (chain_Status obj) = agentChainWorkflowDigest k obj \<and>
       successor_of k w1 obj (chain_Status obj) app run)"
  using chain_create_guards [OF assms] by metis

text \<open>
  A cancelled instance gets no successor: while a cancellation applies to the active
  instance, by a token or by an earlier request, no reconciliation creates a run.
\<close>

theorem cancelled_instance_creates_nothing:
  assumes "k_GetChain k w ns name = Inr obj" "cancel_applies obj (chain_Status obj)"
  shows "creates (AgentChainReconcile (observe k) (w, []) ns name now) = []"
proof (rule ccontr)
  assume "creates (AgentChainReconcile (observe k) (w, []) ns name now) \<noteq> []"
  from chain_create_guards [OF refl this] assms show False by (metis sum.inject(2))
qed

definition demo_cancelled :: AgentChain where
  "demo_cancelled = demo_chain\<lparr>chain_Status := zero_ChainStatus\<lparr>chst_ActiveInstanceID := ''i-1'',
     chst_CancelRequestedInstanceID := ''i-1''\<rparr>\<rparr>"

theorem cancelled_instance_creates_nothing_witness:
  "cancel_applies demo_cancelled (chain_Status demo_cancelled) \<and>
   creates (AgentChainReconcile (observe mem_kube) (mem_empty\<lparr>mem_Chains := [demo_cancelled]\<rparr>, [])
     ''agents'' ''release'' (150 * Second)) = []"
proof -
  have get: "k_GetChain mem_kube (mem_empty\<lparr>mem_Chains := [demo_cancelled]\<rparr>) ''agents'' ''release'' = Inr demo_cancelled"
    by (simp add: demo_cancelled_def demo_chain_def keyed_def)
  have c: "cancel_applies demo_cancelled (chain_Status demo_cancelled)"
    by (simp add: cancel_applies_def demo_cancelled_def)
  from cancelled_instance_creates_nothing [OF get c] c show ?thesis by simp
qed

text \<open>
  Deletion drains: a chain that is being deleted keeps its finalizer, and the cluster is
  not written at all, as long as a nonterminal run of it exists; the reconciler comes back
  after the poll interval.
\<close>

theorem deletion_waits_for_runs:
  assumes "k_GetChain k w ns name = Inr obj" "being_deleted (chain_Meta obj)" "has_drain k obj"
    and "agentChainOwnedNonterminalRuns k w obj = Inr active" "active \<noteq> []"
  shows "AgentChainReconcile k w ns name now = (Inr (requeue_after agentChainPollInterval), w)"
  using assms by (simp add: AgentChainReconcile_def chain_drain_def)

definition demo_deleted :: AgentChain where
  "demo_deleted = demo_chain\<lparr>chain_Meta := (chain_Meta demo_chain)\<lparr>om_DeletionTimestamp := Some 5\<rparr>\<rparr>"

definition demo_chain_owned :: AgentRun where
  "demo_chain_owned = (demo_chain_run ''a'' ''i-1'' ''plan'')\<lparr>run_Spec := zero_RunSpec\<lparr>
     spec_Purpose := AgentRunPurposeChained, spec_SourceRef := chain_source demo_chain, spec_SourceUID := ''c1''\<rparr>\<rparr>"

theorem deletion_waits_for_runs_witness:
  "AgentChainReconcile mem_kube (mem_empty\<lparr>mem_Chains := [demo_deleted], mem_Runs := [demo_chain_owned]\<rparr>)
     ''agents'' ''release'' 9 =
   (Inr (requeue_after agentChainPollInterval), mem_empty\<lparr>mem_Chains := [demo_deleted], mem_Runs := [demo_chain_owned]\<rparr>)"
proof (rule deletion_waits_for_runs)
  let ?w = "mem_empty\<lparr>mem_Chains := [demo_deleted], mem_Runs := [demo_chain_owned]\<rparr>"
  show "k_GetChain mem_kube ?w ''agents'' ''release'' = Inr demo_deleted"
    by (simp add: demo_deleted_def demo_chain_def keyed_def)
  show "being_deleted (chain_Meta demo_deleted)" by (simp add: being_deleted_def demo_deleted_def)
  show "has_drain mem_kube demo_deleted" by (simp add: has_drain_def mem_kube_def demo_deleted_def demo_chain_def)
  have "owned_nonterminal demo_deleted demo_chain_owned" by code_simp
  moreover have "mem_list_runs ?w (Some ''agents'') [] = [demo_chain_owned]"
    by (simp add: mem_list_runs_def matches_labels_def demo_chain_owned_def demo_chain_run_def demo_run_def)
  ultimately show "agentChainOwnedNonterminalRuns mem_kube ?w demo_deleted = Inr [demo_chain_owned]"
    by (simp add: agentChainOwnedNonterminalRuns_def demo_deleted_def demo_chain_def)
qed simp

text \<open>
  C34. An idle chain that may start does start: when no guard holds it back and the first step
  is compatible with the chain's application, one reconciliation creates exactly one run,
  the first step of the due instance.
\<close>

theorem idle_chain_starts:
  assumes "k_GetChain k w ns name = Inr obj" "\<not> being_deleted (chain_Meta obj)" "has_drain k obj"
    and "validateAgentChainSpec obj = None" "\<not> ch_Suspend (chain_Spec obj)" "resolveAgentChainApplicationName obj = Inr app"
    and "activeAgentRunPauseForApplication k w app now = Inr None" "agentChainRuns k w obj now = (Inr (runs, today), w1)"
    and "chst_ActiveInstanceID (chain_Status obj) = []" "agentChainOwnedNonterminalRuns k w1 obj = Inr []"
    and "agentChainNextStartTime obj (chain_Status obj) now = Inr nextStart"
    and "start_allowed obj (chain_Status obj) now runs today nextStart"
    and "agentChainStartDueAt obj (chain_manual_pending obj (chain_Status obj)) nextStart now = Inr dueAt"
    and "agentChainWorkflowDigest k obj \<noteq> []"
    and "\<forall>existing \<in> set runs. \<not> collides obj (agentChainInstanceID obj (chain_manual_pending obj (chain_Status obj))
       (chain_start_token obj) dueAt) (agentChainWorkflowDigest k obj) existing"
    and "chained_scope app (hd (ch_Steps (chain_Spec obj))) = Inr scoped"
  shows "\<exists>run. creates (AgentChainReconcile (observe k) (w, []) ns name now) = [run] \<and>
    first_of k obj app (chain_manual_pending obj (chain_Status obj)) dueAt run"
proof -
  let ?st = "(chain_Status obj)\<lparr>chst_ObservedGeneration := chain_Generation obj, chst_InstancesToday := today\<rparr>"
  have "\<exists>st. (st = ?st \<or> (\<exists>t. st = ?st\<lparr>chst_LastCancelToken := t\<rparr>)) \<and>
      AgentChainReconcile (observe k) (w, []) ns name now = chain_decide (observe k) (w1, []) obj now st app runs today"
    using assms(1-10)
    by (auto simp: AgentChainReconcile_def chain_validate_def chain_hold_def chain_recover_def chain_cancel_def
        chain_active_def observe_agentChainRuns Let_def)
  then obtain st where st: "AgentChainReconcile (observe k) (w, []) ns name now = chain_decide (observe k) (w1, []) obj now st app runs today"
      "agentChainNextStartTime obj st now = Inr nextStart" "start_allowed obj st now runs today nextStart"
      "chain_manual_pending obj st = chain_manual_pending obj (chain_Status obj)"
    using assms(11,12) by auto
  from chain_decide_forward [OF st(2,3) _ assms(14), unfolded st(4), OF assms(13,15,16), of w1 "[]"] show ?thesis
    by (simp add: st(1))
qed

lemma demo_chain_guards:
  "validateAgentChainSpec demo_chain = None" "\<not> ch_Suspend (chain_Spec demo_chain)"
  "resolveAgentChainApplicationName demo_chain = Inr ''shop''"
  "activeAgentRunPauseForApplication mem_kube demo_chain_cluster ''shop'' (150 * Second) = Inr None"
  "agentChainRuns mem_kube demo_chain_cluster demo_chain (150 * Second) = (Inr ([], 0), demo_chain_cluster)"
  "chst_ActiveInstanceID (chain_Status demo_chain) = []"
  "agentChainOwnedNonterminalRuns mem_kube demo_chain_cluster demo_chain = Inr []"
  "agentChainNextStartTime demo_chain (chain_Status demo_chain) (150 * Second) = Inr (Some (120 * Second))"
  "start_allowed demo_chain (chain_Status demo_chain) (150 * Second) [] 0 (Some (120 * Second))"
  "agentChainStartDueAt demo_chain (chain_manual_pending demo_chain (chain_Status demo_chain)) (Some (120 * Second)) (150 * Second) =
     Inr (120 * Second)"
  "agentChainWorkflowDigest mem_kube demo_chain \<noteq> []"
proof -
  show "validateAgentChainSpec demo_chain = None" "resolveAgentChainApplicationName demo_chain = Inr ''shop''" by code_simp+
  show "\<not> ch_Suspend (chain_Spec demo_chain)" "chst_ActiveInstanceID (chain_Status demo_chain) = []"
    by (simp_all add: demo_chain_def zero_ChainSpec_def zero_ChainStatus_def)
  show "activeAgentRunPauseForApplication mem_kube demo_chain_cluster ''shop'' (150 * Second) = Inr None" by code_simp
  show "agentChainRuns mem_kube demo_chain_cluster demo_chain (150 * Second) = (Inr ([], 0), demo_chain_cluster)"
    "agentChainOwnedNonterminalRuns mem_kube demo_chain_cluster demo_chain = Inr []"
    by (simp_all add: agentChainRuns_def agentChainOwnedNonterminalRuns_def demo_chain_cluster_def mem_empty_def mem_list_runs_def)
  show "agentChainNextStartTime demo_chain (chain_Status demo_chain) (150 * Second) = Inr (Some (120 * Second))" by code_simp
  show "start_allowed demo_chain (chain_Status demo_chain) (150 * Second) [] 0 (Some (120 * Second))" by code_simp
  show "agentChainStartDueAt demo_chain (chain_manual_pending demo_chain (chain_Status demo_chain)) (Some (120 * Second)) (150 * Second) =
     Inr (120 * Second)" by code_simp
  show "agentChainWorkflowDigest mem_kube demo_chain \<noteq> []"
    by (simp add: agentChainWorkflowDigest_def digestJSON_def Let_def)
qed

lemma demo_chain_scope:
  "chained_scope ''shop'' (hd (ch_Steps (chain_Spec demo_chain))) =
     Inr (zero_RunSpec\<lparr>spec_Scope := zero_Scope\<lparr>scope_ApplicationRef := Some \<lparr>app_Name = ''shop''\<rparr>\<rparr>\<rparr>)"
  by (simp add: chained_scope_def demo_chain_def demo_step_def zero_RunSpec_def zero_Scope_def)

theorem idle_chain_starts_witness:
  "\<exists>run. creates (AgentChainReconcile (observe mem_kube) (demo_chain_cluster, []) ''agents'' ''release'' (150 * Second)) = [run]"
  using idle_chain_starts [OF demo_chain_get(1-3) demo_chain_guards _ demo_chain_scope] by auto

lemma demo_chain_creates:
  "creates (AgentChainReconcile (observe mem_kube) (demo_chain_cluster, []) ''agents'' ''release'' (150 * Second)) \<noteq> []"
proof -
  have "chain_cancel_token demo_chain = []" by code_simp
  then have "AgentChainReconcile (observe mem_kube) (demo_chain_cluster, []) ''agents'' ''release'' (150 * Second) =
      chain_decide (observe mem_kube) (demo_chain_cluster, []) demo_chain (150 * Second)
        ((chain_Status demo_chain)\<lparr>chst_ObservedGeneration := chain_Generation demo_chain, chst_InstancesToday := 0\<rparr>) ''shop'' [] 0"
    using demo_chain_get(1-3) demo_chain_guards(1-7)
    by (simp add: AgentChainReconcile_def chain_validate_def chain_hold_def chain_recover_def chain_cancel_def
        chain_active_def observe_agentChainRuns Let_def)
  then show ?thesis
    using chain_decide_forward [where obj = demo_chain and now = "150 * Second" and nextStart = "Some (120 * Second)"
        and status = "(chain_Status demo_chain)\<lparr>chst_ObservedGeneration := chain_Generation demo_chain, chst_InstancesToday := 0\<rparr>"
        and runs = "[]" and today = 0 and dueAt = "120 * Second" and k = mem_kube and w = demo_chain_cluster and l = "[]",
        OF _ _ _ _ _ demo_chain_scope]
      demo_chain_guards(8-11) by auto
qed

theorem chain_create_guarded_witness:
  "\<exists>obj app. k_GetChain mem_kube demo_chain_cluster ''agents'' ''release'' = Inr obj \<and>
     validateAgentChainSpec obj = None \<and> resolveAgentChainApplicationName obj = Inr app"
  using chain_create_guarded [OF refl demo_chain_creates] by blast

subsection \<open>Two observations\<close>

text \<open>
  Missed slots are replayed. An automatic start that follows a stored deadline moves the
  deadline by one interval only, so when it lies more than an interval back (after a
  suspension or a pause) the next start is due at once, for the next missed slot.
\<close>

lemma missed_slots_replayed:
  assumes "0 < ch_StartIntervalSeconds (chain_Spec obj)" "ch_StartIntervalSeconds (chain_Spec obj) \<le> max_seconds"
    and "t mod Second = 0" "t + ch_StartIntervalSeconds (chain_Spec obj) * Second \<le> now"
    and "agentChainStartDueAt obj False (Some t) now = Inr dueAt"
  shows "\<exists>u. agentChainNextStartTime obj (started_status obj status now False dueAt inst digest first run) now = Inr (Some u) \<and>
    u = t + ch_StartIntervalSeconds (chain_Spec obj) * Second \<and> u \<le> now"
  using assms by (simp add: agentChainStartDueAt_def time_trunc_def agentChainNextStartTime_def started_status_def seconds_exact)

text \<open>
  Recovery takes the step from a label, which is sanitized. A step whose name changes under
  sanitizing, such as \<^verbatim>\<open>a--b\<close>, which the schema of the resource admits, is recovered to a
  step the chain does not have.
\<close>

definition demo_dashed :: AgentChain where
  "demo_dashed = demo_chain\<lparr>chain_Spec := (chain_Spec demo_chain)\<lparr>ch_Steps := [demo_step ''a--b'' []]\<rparr>\<rparr>"

definition demo_dashed_run :: AgentRun where
  "demo_dashed_run = chained_run demo_dashed ''shop'' ''i-1'' ''sha256:0'' ''a--b''
     (chained_spec demo_dashed 1 ''sha256:0'' (demo_step ''a--b'' []) None None ''AgentChainStart'' []
       (zero_RunSpec\<lparr>spec_Scope := zero_Scope\<lparr>scope_ApplicationRef := Some \<lparr>app_Name = ''shop''\<rparr>\<rparr>\<rparr>))"

lemma recovered_step_lost:
  "validateAgentChainSpec demo_dashed = None" "validateAgentChainRecoverableRun demo_dashed demo_dashed_run = None"
  "position demo_dashed (recovered_status demo_dashed zero_ChainStatus 20 demo_dashed_run) = Lost ''i-1''"
proof -
  have label: "sanitizeLabelValue ''a--b'' = ''a-b''" "sanitizeLabelValue ''i-1'' = ''i-1''"
    "\<not> blank ''a-b''" "\<not> blank ''i-1''" "\<not> blank ''sha256:0''" "TrimSpace ''shop'' = ''shop''"
    by code_simp+
  show "validateAgentChainSpec demo_dashed = None" by code_simp
  show "validateAgentChainRecoverableRun demo_dashed demo_dashed_run = None"
    by (simp add: validateAgentChainRecoverableRun_def demo_dashed_run_def label Let_def app_ref_name_def map_get_def [of "[_]"])
  have "agentChainStepIndex demo_dashed ''a-b'' = None" by code_simp
  then show "position demo_dashed (recovered_status demo_dashed zero_ChainStatus 20 demo_dashed_run) = Lost ''i-1''"
    by (simp add: position_def recovered_status_def Let_def demo_dashed_run_def label)
qed

end
