(* ===== verification/Options.thy ===== *)
theory Options
  imports LaunchGate
begin

text \<open>
  \<^verbatim>\<open>internal/controller/options.go\<close>: the operator's options and their defaults from the process
  environment. \<^verbatim>\<open>os.Getenv\<close> is the argument \<open>Getenv\<close>, which is the empty string for an unset
  variable, and \<^verbatim>\<open>time.ParseDuration\<close> the argument \<open>parse_duration\<close>. The lemmas characterise the
  values an operator gets from any environment, malformed ones included.
\<close>

subsection \<open>Definitions\<close>

definition defaultMetricsBindAddress :: string where "defaultMetricsBindAddress = '':8080''"
definition defaultHealthProbeBindAddress :: string where "defaultHealthProbeBindAddress = '':8081''"
definition defaultLeaderElectionID :: string where "defaultLeaderElectionID = ''anvil-agents.control.anvil.hazyforge.io''"
definition defaultPlatformRepository :: string where "defaultPlatformRepository = ''HazyForge/anvil-agents''"
definition defaultPlatformRepositoryURL :: string where "defaultPlatformRepositoryURL = ''https://github.com/HazyForge/anvil-agents.git''"
definition archiveDatabaseURLEnv :: string where "archiveDatabaseURLEnv = ''ANVIL_AGENTS_ARCHIVE_DATABASE_URL''"
definition terminalRetentionEnv :: string where "terminalRetentionEnv = ''ANVIL_AGENTS_TERMINAL_RETENTION''"
definition platformRepositoryEnv :: string where "platformRepositoryEnv = ''ANVIL_AGENTS_PLATFORM_REPOSITORY''"
definition platformRepositoryURLEnv :: string where "platformRepositoryURLEnv = ''ANVIL_AGENTS_PLATFORM_REPOSITORY_URL''"
definition platformDocsEnv :: string where "platformDocsEnv = ''ANVIL_AGENTS_PLATFORM_DOCS''"
definition applicationMaxConcurrentRunsEnv :: string where "applicationMaxConcurrentRunsEnv = ''ANVIL_AGENTS_APPLICATION_MAX_CONCURRENT_RUNS''"
definition defaultStorageClassEnv :: string where "defaultStorageClassEnv = ''ANVIL_AGENTS_DEFAULT_STORAGE_CLASS''"
definition githubAPIAllowedHostsEnv :: string where "githubAPIAllowedHostsEnv = ''ANVIL_AGENTS_GITHUB_API_ALLOWED_HOSTS''"
definition allowInsecureGitHubAPIEnv :: string where "allowInsecureGitHubAPIEnv = ''ANVIL_AGENTS_ALLOW_INSECURE_GITHUB_API''"
definition codexRunnerImageEnv :: string where "codexRunnerImageEnv = ''ANVIL_AGENTS_RUNNER_IMAGE_CODEX''"
definition openCodeRunnerImageEnv :: string where "openCodeRunnerImageEnv = ''ANVIL_AGENTS_RUNNER_IMAGE_OPENCODE''"
definition hermesAgentRunnerImageEnv :: string where "hermesAgentRunnerImageEnv = ''ANVIL_AGENTS_RUNNER_IMAGE_HERMES_AGENT''"
definition openClawRunnerImageEnv :: string where "openClawRunnerImageEnv = ''ANVIL_AGENTS_RUNNER_IMAGE_OPENCLAW''"
definition grokBuildRunnerImageEnv :: string where "grokBuildRunnerImageEnv = ''ANVIL_AGENTS_RUNNER_IMAGE_GROK_BUILD''"
definition piAgentRunnerImageEnv :: string where "piAgentRunnerImageEnv = ''ANVIL_AGENTS_RUNNER_IMAGE_PI_AGENT''"
definition primeAgentRunnerImageEnv :: string where "primeAgentRunnerImageEnv = ''ANVIL_AGENTS_RUNNER_IMAGE_PRIME_AGENT''"
definition agyRunnerImageEnv :: string where "agyRunnerImageEnv = ''ANVIL_AGENTS_RUNNER_IMAGE_AGY''"
definition substrateActorsEnabledEnv :: string where "substrateActorsEnabledEnv = ''ANVIL_AGENTS_SUBSTRATE_ACTORS_ENABLED''"
definition substrateEndpointEnv :: string where "substrateEndpointEnv = ''ANVIL_AGENTS_SUBSTRATE_ENDPOINT''"
definition substrateTokenEnv :: string where "substrateTokenEnv = ''ANVIL_AGENTS_SUBSTRATE_TOKEN''"
definition substrateTokenFileEnv :: string where "substrateTokenFileEnv = ''ANVIL_AGENTS_SUBSTRATE_TOKEN_FILE''"
definition substrateAtespaceEnv :: string where "substrateAtespaceEnv = ''ANVIL_AGENTS_SUBSTRATE_ATESPACE''"
definition substrateTemplateEnv :: string where "substrateTemplateEnv = ''ANVIL_AGENTS_SUBSTRATE_TEMPLATE''"
definition substrateInsecureEnv :: string where "substrateInsecureEnv = ''ANVIL_AGENTS_SUBSTRATE_INSECURE''"
definition substrateCAFileEnv :: string where "substrateCAFileEnv = ''ANVIL_AGENTS_SUBSTRATE_CA_FILE''"
definition substrateCAConfigMapEnv :: string where "substrateCAConfigMapEnv = ''ANVIL_AGENTS_SUBSTRATE_CA_CONFIGMAP''"
definition substrateCAConfigMapNamespaceEnv :: string where "substrateCAConfigMapNamespaceEnv = ''ANVIL_AGENTS_SUBSTRATE_CA_CONFIGMAP_NAMESPACE''"
definition substrateCAConfigMapKeyEnv :: string where "substrateCAConfigMapKeyEnv = ''ANVIL_AGENTS_SUBSTRATE_CA_CONFIGMAP_KEY''"
definition substrateTLSServerNameEnv :: string where "substrateTLSServerNameEnv = ''ANVIL_AGENTS_SUBSTRATE_TLS_SERVER_NAME''"
definition substrateGenerateOnActorEnv :: string where "substrateGenerateOnActorEnv = ''ANVIL_AGENTS_SUBSTRATE_GENERATE_ON_ACTOR''"
definition substrateGenerateActorClassesEnv :: string where "substrateGenerateActorClassesEnv = ''ANVIL_AGENTS_SUBSTRATE_GENERATE_ACTOR_CLASSES''"
definition substrateAtenetEndpointEnv :: string where "substrateAtenetEndpointEnv = ''ANVIL_AGENTS_SUBSTRATE_ATENET_ENDPOINT''"

definition agentRunDefaultCodexImage :: string where "agentRunDefaultCodexImage = ''anvil-agent-run-codex:dev''"
definition agentRunDefaultOpenCodeImage :: string where "agentRunDefaultOpenCodeImage = ''anvil-agent-run-opencode:dev''"
definition agentRunDefaultHermesAgentImage :: string where "agentRunDefaultHermesAgentImage = ''anvil-agent-run-hermes:dev''"
definition agentRunDefaultOpenClawImage :: string where "agentRunDefaultOpenClawImage = ''anvil-agent-run-openclaw:dev''"
definition agentRunDefaultGrokBuildImage :: string where "agentRunDefaultGrokBuildImage = ''anvil-agent-run-grok-build:dev''"
definition agentRunDefaultPiAgentImage :: string where "agentRunDefaultPiAgentImage = ''anvil-agent-run-pi:dev''"
definition agentRunDefaultPrimeAgentImage :: string where "agentRunDefaultPrimeAgentImage = ''anvil-agent-run-prime:dev''"
definition agentRunDefaultAgyImage :: string where "agentRunDefaultAgyImage = ''anvil-agent-run-agy:dev''"

definition defaultGitHubAPIAllowedHosts :: "string list" where
  "defaultGitHubAPIAllowedHosts = [''api.github.com'']"

definition defaultPlatformDocs :: "string list" where
  "defaultPlatformDocs = [''docs/agent-run.md'', ''internal/controller/prompts/agent-run-system.md'',
     ''internal/controller/agent_run_controller.go'']"

record Options =
  opt_MetricsBindAddress :: string
  opt_HealthProbeBindAddress :: string
  opt_LeaderElection :: bool
  opt_LeaderElectionID :: string
  opt_WatchNamespaces :: string
  opt_AgentRunArchiveDatabaseURL :: string
  opt_AgentRunTerminalRetention :: duration
  opt_PlatformRepository :: string
  opt_PlatformRepositoryURL :: string
  opt_PlatformDocs :: "string list"
  opt_ApplicationMaxConcurrentRuns :: int
  opt_DefaultStorageClass :: string
  opt_AdverseSourceGVKs :: "string list"
  opt_AdverseSources :: "opaque list"
  opt_GitHubAPIAllowedHosts :: "string list"
  opt_AllowInsecureGitHubAPI :: bool
  opt_CodexRunnerImage :: string
  opt_OpenCodeRunnerImage :: string
  opt_HermesAgentRunnerImage :: string
  opt_OpenClawRunnerImage :: string
  opt_GrokBuildRunnerImage :: string
  opt_PiAgentRunnerImage :: string
  opt_PrimeAgentRunnerImage :: string
  opt_AgyRunnerImage :: string
  opt_ExternalTriggersEnabled :: bool
  opt_ExternalTriggerHTTPRoute :: opaque
  opt_SubstrateActorsEnabled :: bool
  opt_SubstrateEndpoint :: string
  opt_SubstrateToken :: string
  opt_SubstrateTokenFile :: string
  opt_SubstrateAtespace :: string
  opt_SubstrateTemplate :: string
  opt_SubstrateInsecure :: bool
  opt_SubstrateCAFile :: string
  opt_SubstrateCAConfigMapName :: string
  opt_SubstrateCAConfigMapNamespace :: string
  opt_SubstrateCAConfigMapKey :: string
  opt_SubstrateTLSServerName :: string
  opt_SubstrateGenerateOnActor :: bool
  opt_SubstrateGenerateActorClasses :: "string list"
  opt_SubstrateAtenetEndpoint :: string

text \<open>\<^verbatim>\<open>strconv.Atoi\<close>: an optional sign and decimal digits, within 64 bits.\<close>

definition is_digit :: "char \<Rightarrow> bool" where
  "is_digit c \<longleftrightarrow> (let n = (of_char c :: nat) in 48 \<le> n \<and> n \<le> 57)"

definition digits_value :: "string \<Rightarrow> int" where
  "digits_value ds = foldl (\<lambda>v d. 10 * v + (of_char d - 48)) 0 ds"

definition parse_int :: "nat \<Rightarrow> string \<Rightarrow> int option" where
  "parse_int bits s =
     (let neg = HasPrefix s ''-'';
          ds = (if neg \<or> HasPrefix s ''+'' then tl s else s);
          v = (if neg then - digits_value ds else digits_value ds) in
      if ds = [] \<or> \<not> list_all is_digit ds then None
      else if v < - (2 ^ (bits - 1)) \<or> 2 ^ (bits - 1) \<le> v then None else Some v)"

definition Atoi :: "string \<Rightarrow> int option" where
  "Atoi s = parse_int 64 s"

definition ParseBool :: "string \<Rightarrow> bool option" where
  "ParseBool s =
     (if s \<in> {''1'', ''t'', ''T'', ''true'', ''TRUE'', ''True''} then Some True
      else if s \<in> {''0'', ''f'', ''F'', ''false'', ''FALSE'', ''False''} then Some False else None)"

fun csv_loop :: "string set \<Rightarrow> string list \<Rightarrow> string list" where
  "csv_loop seen [] = []"
| "csv_loop seen (raw # items) =
     (let item = TrimSpace raw in
      if item = [] then csv_loop seen items
      else if item \<in> seen then csv_loop seen items
      else item # csv_loop (insert item seen) items)"

definition uniqueCSV :: "string \<Rightarrow> string list" where
  "uniqueCSV raw = csv_loop {} (Split raw (CHR '',''))"

definition ParseWatchNamespaces :: "string \<Rightarrow> string list" where
  "ParseWatchNamespaces raw = uniqueCSV raw"

definition csvOrDefault :: "string \<Rightarrow> string list \<Rightarrow> string list" where
  "csvOrDefault raw fallback = (let values = uniqueCSV raw in if values \<noteq> [] then values else fallback)"

definition durationEnv :: "(string \<Rightarrow> duration option) \<Rightarrow> (string \<Rightarrow> string) \<Rightarrow> string \<Rightarrow> duration" where
  "durationEnv parse_duration Getenv name =
     (case parse_duration (TrimSpace (Getenv name)) of None \<Rightarrow> 0 | Some d \<Rightarrow> d)"

definition positiveIntEnv :: "(string \<Rightarrow> string) \<Rightarrow> string \<Rightarrow> int \<Rightarrow> int" where
  "positiveIntEnv Getenv name fallback =
     (case Atoi (TrimSpace (Getenv name)) of None \<Rightarrow> fallback | Some v \<Rightarrow> if v < 1 then fallback else v)"

definition boolEnv :: "(string \<Rightarrow> string) \<Rightarrow> string \<Rightarrow> bool" where
  "boolEnv Getenv name \<longleftrightarrow> ParseBool (TrimSpace (Getenv name)) = Some True"

definition substrateBoolEnv :: "(string \<Rightarrow> string) \<Rightarrow> string \<Rightarrow> bool" where
  "substrateBoolEnv Getenv name =
     (let raw = ToLower (TrimSpace (Getenv name)) in
      if raw = [] then False
      else (case ParseBool raw of Some enabled \<Rightarrow> enabled | None \<Rightarrow> raw = ''on'' \<or> raw = ''yes''))"

definition DefaultOptions :: "(string \<Rightarrow> duration option) \<Rightarrow> (string \<Rightarrow> string) \<Rightarrow> Options" where
  "DefaultOptions parse_duration Getenv = \<lparr>
     opt_MetricsBindAddress = defaultMetricsBindAddress,
     opt_HealthProbeBindAddress = defaultHealthProbeBindAddress,
     opt_LeaderElection = False,
     opt_LeaderElectionID = defaultLeaderElectionID,
     opt_WatchNamespaces = [],
     opt_AgentRunArchiveDatabaseURL = [],
     opt_AgentRunTerminalRetention = durationEnv parse_duration Getenv terminalRetentionEnv,
     opt_PlatformRepository = firstNonEmpty (TrimSpace (Getenv platformRepositoryEnv)) defaultPlatformRepository,
     opt_PlatformRepositoryURL = firstNonEmpty (TrimSpace (Getenv platformRepositoryURLEnv)) defaultPlatformRepositoryURL,
     opt_PlatformDocs = csvOrDefault (Getenv platformDocsEnv) defaultPlatformDocs,
     opt_ApplicationMaxConcurrentRuns = positiveIntEnv Getenv applicationMaxConcurrentRunsEnv defaultApplicationConcurrency,
     opt_DefaultStorageClass = TrimSpace (Getenv defaultStorageClassEnv),
     opt_AdverseSourceGVKs = [],
     opt_AdverseSources = [],
     opt_GitHubAPIAllowedHosts = csvOrDefault (Getenv githubAPIAllowedHostsEnv) defaultGitHubAPIAllowedHosts,
     opt_AllowInsecureGitHubAPI = boolEnv Getenv allowInsecureGitHubAPIEnv,
     opt_CodexRunnerImage = firstNonEmpty (TrimSpace (Getenv codexRunnerImageEnv)) agentRunDefaultCodexImage,
     opt_OpenCodeRunnerImage = firstNonEmpty (TrimSpace (Getenv openCodeRunnerImageEnv)) agentRunDefaultOpenCodeImage,
     opt_HermesAgentRunnerImage = firstNonEmpty (TrimSpace (Getenv hermesAgentRunnerImageEnv)) agentRunDefaultHermesAgentImage,
     opt_OpenClawRunnerImage = firstNonEmpty (TrimSpace (Getenv openClawRunnerImageEnv)) agentRunDefaultOpenClawImage,
     opt_GrokBuildRunnerImage = firstNonEmpty (TrimSpace (Getenv grokBuildRunnerImageEnv)) agentRunDefaultGrokBuildImage,
     opt_PiAgentRunnerImage = firstNonEmpty (TrimSpace (Getenv piAgentRunnerImageEnv)) agentRunDefaultPiAgentImage,
     opt_PrimeAgentRunnerImage = firstNonEmpty (TrimSpace (Getenv primeAgentRunnerImageEnv)) agentRunDefaultPrimeAgentImage,
     opt_AgyRunnerImage = firstNonEmpty (TrimSpace (Getenv agyRunnerImageEnv)) agentRunDefaultAgyImage,
     opt_ExternalTriggersEnabled = False,
     opt_ExternalTriggerHTTPRoute = [],
     opt_SubstrateActorsEnabled = substrateBoolEnv Getenv substrateActorsEnabledEnv,
     opt_SubstrateEndpoint = TrimSpace (Getenv substrateEndpointEnv),
     opt_SubstrateToken = TrimSpace (Getenv substrateTokenEnv),
     opt_SubstrateTokenFile = TrimSpace (Getenv substrateTokenFileEnv),
     opt_SubstrateAtespace = TrimSpace (Getenv substrateAtespaceEnv),
     opt_SubstrateTemplate = TrimSpace (Getenv substrateTemplateEnv),
     opt_SubstrateInsecure = substrateBoolEnv Getenv substrateInsecureEnv,
     opt_SubstrateCAFile = TrimSpace (Getenv substrateCAFileEnv),
     opt_SubstrateCAConfigMapName = TrimSpace (Getenv substrateCAConfigMapEnv),
     opt_SubstrateCAConfigMapNamespace = TrimSpace (Getenv substrateCAConfigMapNamespaceEnv),
     opt_SubstrateCAConfigMapKey = TrimSpace (Getenv substrateCAConfigMapKeyEnv),
     opt_SubstrateTLSServerName = TrimSpace (Getenv substrateTLSServerNameEnv),
     opt_SubstrateGenerateOnActor = substrateBoolEnv Getenv substrateGenerateOnActorEnv,
     opt_SubstrateGenerateActorClasses = uniqueCSV (Getenv substrateGenerateActorClassesEnv),
     opt_SubstrateAtenetEndpoint = TrimSpace (Getenv substrateAtenetEndpointEnv)\<rparr>"

definition applySensitiveEnvironment :: "(string \<Rightarrow> string) \<Rightarrow> Options \<Rightarrow> Options" where
  "applySensitiveEnvironment Getenv options =
     (if TrimSpace (opt_AgentRunArchiveDatabaseURL options) \<noteq> [] then options
      else options\<lparr>opt_AgentRunArchiveDatabaseURL := TrimSpace (Getenv archiveDatabaseURLEnv)\<rparr>)"

subsection \<open>Lists and defaults\<close>

lemma csv_loop_set: "set (csv_loop seen items) = {TrimSpace i |i. i \<in> set items \<and> TrimSpace i \<noteq> []} - seen"
  by (induction items arbitrary: seen) (auto simp: Let_def)

lemma csv_loop_distinct: "distinct (csv_loop seen items)"
  by (induction items arbitrary: seen) (auto simp: Let_def csv_loop_set)

lemma uniqueCSV_spec:
  "distinct (uniqueCSV raw)"
  "set (uniqueCSV raw) = {TrimSpace i |i. i \<in> set (Split raw (CHR '','')) \<and> TrimSpace i \<noteq> []}"
  by (simp_all add: uniqueCSV_def csv_loop_distinct csv_loop_set)

lemma firstNonEmpty_not_blank: "TrimSpace b \<noteq> [] \<Longrightarrow> TrimSpace (firstNonEmpty a b) \<noteq> []"
  by (simp add: firstNonEmpty_def)

lemma default_limit: "1 \<le> positiveIntEnv Getenv name fallback" if "1 \<le> fallback"
  using that by (auto simp: positiveIntEnv_def split: option.splits)

lemma csvOrDefault_not_Nil: "fallback \<noteq> [] \<Longrightarrow> csvOrDefault raw fallback \<noteq> []"
  by (simp add: csvOrDefault_def Let_def)

end
