(* ===== verification/ProfileMerge.thy ===== *)
theory ProfileMerge
  imports WorkloadTypes Names
begin

text \<open>
  How an agent run inherits from its profile: the merge functions of
  \<^verbatim>\<open>internal/controller/agent_run_controller.go\<close> (\<^verbatim>\<open>agentRunApplyProfile\<close> and the functions it
  calls) and the two composition merges of \<^verbatim>\<open>agent_run_composition.go\<close>. A merge takes the
  inherited value first and the overriding one second. \<open>DeepCopy\<close> is the identity of the
  model's values.

  The lemmas show that layers may be grouped in any way (locale \<open>layer\<close>), that a merge of
  named entries looks up as override-then-inherit (locale \<open>keyed_override\<close>), and what
  normalisation guarantees of a repository scope.
\<close>

subsection \<open>The steps the merge functions share\<close>

text \<open>\<^verbatim>\<open>if strings.TrimSpace(run.F) != "" { out.F = run.F }\<close>, and the same for a pointer.\<close>

definition override_text :: "string \<Rightarrow> string \<Rightarrow> string" where
  "override_text old new = (if TrimSpace new \<noteq> [] then new else old)"

definition override_value :: "'a \<Rightarrow> 'a \<Rightarrow> 'a \<Rightarrow> 'a" where
  "override_value unset old new = (if new \<noteq> unset then new else old)"

definition override_pointer :: "'a option \<Rightarrow> 'a option \<Rightarrow> 'a option" where
  "override_pointer old new = (case new of None \<Rightarrow> old | Some v \<Rightarrow> Some v)"

definition override_list :: "'a list \<Rightarrow> 'a list \<Rightarrow> 'a list" where
  "override_list old new = (if new \<noteq> [] then new else old)"

text \<open>
  The frame of a merge of two pointers: nil when both are nil, else the profile's value (or
  the zero value) with the run's fields laid over it when there is a run value.
\<close>

definition merge_pointers :: "'a \<Rightarrow> ('a \<Rightarrow> 'a \<Rightarrow> 'a) \<Rightarrow> 'a option \<Rightarrow> 'a option \<Rightarrow> 'a option" where
  "merge_pointers zero overlay profile run =
     (if profile = None \<and> run = None then None
      else let out = (case profile of Some p \<Rightarrow> p | None \<Rightarrow> zero) in
        (case run of None \<Rightarrow> Some out | Some r \<Rightarrow> Some (overlay out r)))"

text \<open>\<^verbatim>\<open>appendUniqueStrings\<close>: the loop over base and additions with its set of seen values.\<close>

fun unique_strings :: "string set \<Rightarrow> string list \<Rightarrow> string list" where
  "unique_strings seen [] = []"
| "unique_strings seen (v # vs) =
     (let value = TrimSpace v in
      if value = [] then unique_strings seen vs
      else if value \<in> seen then unique_strings seen vs
      else value # unique_strings (insert value seen) vs)"

definition appendUniqueStrings :: "string list \<Rightarrow> string list \<Rightarrow> string list" where
  "appendUniqueStrings base additions = unique_strings {} (base @ additions)"

definition mergePromptText :: "string \<Rightarrow> string \<Rightarrow> string" where
  "mergePromptText profile run =
     (let profile = TrimSpace profile; run = TrimSpace run in
      if profile = [] then run
      else if run = [] then profile
      else profile @ [CHR 0x0A, CHR 0x0A] @ run)"

text \<open>
  The loop of \<^verbatim>\<open>mergeNamespacedRefs\<close>, \<^verbatim>\<open>mergeEnvVars\<close>, \<^verbatim>\<open>mergeAgentRunDataVolumeRefs\<close> and
  \<^verbatim>\<open>mergeLocalObjectRefs\<close>, which differ in the key and in the base entries they index:
  \<open>key_positions\<close> is the index of the base (a later entry overwrites an earlier one),
  \<open>place\<close> one addition, \<open>merge_loop\<close> all of them.
\<close>

fun key_positions :: "('a \<Rightarrow> bool) \<Rightarrow> ('a \<Rightarrow> string) \<Rightarrow> nat \<Rightarrow> 'a list \<Rightarrow> (string \<Rightarrow> nat option) \<Rightarrow> (string \<Rightarrow> nat option)" where
  "key_positions indexed key i [] pos = pos"
| "key_positions indexed key i (x # xs) pos =
     key_positions indexed key (Suc i) xs (if indexed x then pos(key x \<mapsto> i) else pos)"

definition place :: "('a \<Rightarrow> bool) \<Rightarrow> ('a \<Rightarrow> string) \<Rightarrow> 'a list \<times> (string \<Rightarrow> nat option) \<Rightarrow> 'a \<Rightarrow> 'a list \<times> (string \<Rightarrow> nat option)" where
  "place named key st x =
     (case st of (out, pos) \<Rightarrow>
        if \<not> named x then (out @ [x], pos)
        else (case pos (key x) of
                Some i \<Rightarrow> (out[i := x], pos)
              | None \<Rightarrow> (out @ [x], pos(key x \<mapsto> length out))))"

definition merge_loop :: "('a \<Rightarrow> bool) \<Rightarrow> ('a \<Rightarrow> bool) \<Rightarrow> ('a \<Rightarrow> string) \<Rightarrow> 'a list \<Rightarrow> 'a list \<Rightarrow> 'a list" where
  "merge_loop indexed named key base additions =
     fst (foldl (place named key) (base, key_positions indexed key 0 base Map.empty) additions)"

definition namespacedRefKey :: "string \<Rightarrow> string \<Rightarrow> string" where
  "namespacedRefKey namespace name = TrimSpace namespace @ ''/'' @ TrimSpace name"

definition mergeNamespacedRefs :: "NamespacedObjectReference list \<Rightarrow> NamespacedObjectReference list \<Rightarrow> NamespacedObjectReference list" where
  "mergeNamespacedRefs = merge_loop (\<lambda>_. True) (\<lambda>ref. TrimSpace (nor_Name ref) \<noteq> [])
     (\<lambda>ref. namespacedRefKey (nor_Namespace ref) (nor_Name ref))"

definition mergeEnvVars :: "EnvVar list \<Rightarrow> EnvVar list \<Rightarrow> EnvVar list" where
  "mergeEnvVars = merge_loop (\<lambda>env. TrimSpace (env_Name env) \<noteq> [])
     (\<lambda>env. TrimSpace (env_Name env) \<noteq> []) env_Name"

definition mergeAgentRunDataVolumeRefs :: "AgentRunDataVolumeRef list \<Rightarrow> AgentRunDataVolumeRef list \<Rightarrow> AgentRunDataVolumeRef list" where
  "mergeAgentRunDataVolumeRefs = merge_loop (\<lambda>_. True) (\<lambda>ref. TrimSpace (dvr_Name ref) \<noteq> [])
     (\<lambda>ref. namespacedRefKey (dvr_Namespace ref) (dvr_Name ref))"

definition mergeLocalObjectRefs :: "LocalObjectReference list \<Rightarrow> LocalObjectReference list \<Rightarrow> LocalObjectReference list" where
  "mergeLocalObjectRefs = merge_loop (\<lambda>ref. TrimSpace (lor_Name ref) \<noteq> [])
     (\<lambda>ref. TrimSpace (lor_Name ref) \<noteq> []) lor_Name"

definition mergeAgentRunSkillSourceCredentials :: "AgentRunGitHubSkillCredential list \<Rightarrow> AgentRunGitHubSkillCredential list \<Rightarrow> AgentRunGitHubSkillCredential list" where
  "mergeAgentRunSkillSourceCredentials base additions =
     fst (foldl (\<lambda>st credential.
        let key = ToLower (TrimSpace (ghc_APIHost credential)) in
        place (\<lambda>_. True) ghc_APIHost st (credential\<lparr>ghc_APIHost := key\<rparr>))
      ([], Map.empty) (base @ additions))"

definition refresh_ref_key :: "AgentRunExternalSecretRefreshRef \<Rightarrow> string" where
  "refresh_ref_key ref = TrimSpace (esr_Name ref) @ [CHR 0x00] @
     TrimSpace (nor_Namespace (esr_TargetSecretRef ref)) @ [CHR 0x00] @
     TrimSpace (nor_Name (esr_TargetSecretRef ref))"

fun unseen_refresh_refs :: "string set \<Rightarrow> AgentRunExternalSecretRefreshRef list \<Rightarrow> AgentRunExternalSecretRefreshRef list" where
  "unseen_refresh_refs seen [] = []"
| "unseen_refresh_refs seen (ref # refs) =
     (if refresh_ref_key ref \<in> seen then unseen_refresh_refs seen refs
      else ref # unseen_refresh_refs (insert (refresh_ref_key ref) seen) refs)"

definition mergeAgentRunExternalSecretRefreshRefs :: "AgentRunExternalSecretRefreshRef list \<Rightarrow> AgentRunExternalSecretRefreshRef list \<Rightarrow> AgentRunExternalSecretRefreshRef list" where
  "mergeAgentRunExternalSecretRefreshRefs profile run = unseen_refresh_refs {} (profile @ run)"

definition cloneStringMap :: "strmap \<Rightarrow> strmap" where
  "cloneStringMap values = values"

definition mergeStringMap :: "strmap \<Rightarrow> strmap \<Rightarrow> strmap" where
  "mergeStringMap base additions =
     (let out = cloneStringMap base in if additions = [] then out else map_union out additions)"

subsection \<open>Scope, documentation, issue tracking, notifications\<close>

definition zero_Repository :: AgentRunRepositorySpec where
  "zero_Repository = \<lparr>repo_Name = [], repo_URL = [], repo_Ref = [], repo_DestinationBranch = [],
     repo_AllowedBranches = []\<rparr>"

definition trim_repository :: "AgentRunRepositorySpec \<Rightarrow> AgentRunRepositorySpec" where
  "trim_repository repo = \<lparr>repo_Name = TrimSpace (repo_Name repo), repo_URL = TrimSpace (repo_URL repo),
     repo_Ref = TrimSpace (repo_Ref repo),
     repo_DestinationBranch = TrimSpace (repo_DestinationBranch repo),
     repo_AllowedBranches = appendUniqueStrings [] (repo_AllowedBranches repo)\<rparr>"

definition complete_repository :: "AgentRunRepositorySpec \<Rightarrow> AgentRunRepositorySpec" where
  "complete_repository out =
     (let out = (if repo_URL out = [] \<and> repo_Name out \<noteq> []
                 then out\<lparr>repo_URL := ''https://github.com/'' @ repo_Name out @ ''.git''\<rparr> else out);
          out = (if repo_Ref out = [] \<and> repo_DestinationBranch out \<noteq> []
                 then out\<lparr>repo_Ref := repo_DestinationBranch out\<rparr> else out)
      in if repo_DestinationBranch out \<noteq> []
         then out\<lparr>repo_AllowedBranches :=
                appendUniqueStrings (repo_AllowedBranches out) [repo_DestinationBranch out]\<rparr>
         else out)"

definition normalizeAgentRunRepository :: "AgentRunRepositorySpec option \<Rightarrow> AgentRunRepositorySpec option" where
  "normalizeAgentRunRepository repo =
     (case repo of
        None \<Rightarrow> None
      | Some repo \<Rightarrow>
          let out = complete_repository (trim_repository repo) in
          if repo_Name out = [] \<and> repo_URL out = [] \<and> repo_Ref out = [] \<and>
             repo_DestinationBranch out = [] \<and> repo_AllowedBranches out = []
          then None else Some out)"

definition overlay_repository :: "AgentRunRepositorySpec \<Rightarrow> AgentRunRepositorySpec \<Rightarrow> AgentRunRepositorySpec" where
  "overlay_repository out run = \<lparr>
     repo_Name = override_text (repo_Name out) (repo_Name run),
     repo_URL = override_text (repo_URL out) (repo_URL run),
     repo_Ref = override_text (repo_Ref out) (repo_Ref run),
     repo_DestinationBranch = override_text (repo_DestinationBranch out) (repo_DestinationBranch run),
     repo_AllowedBranches =
       (if repo_AllowedBranches run \<noteq> [] then appendUniqueStrings [] (repo_AllowedBranches run)
        else repo_AllowedBranches out)\<rparr>"

definition agentRunMergeRepository :: "AgentRunRepositorySpec option \<Rightarrow> AgentRunRepositorySpec option \<Rightarrow> AgentRunRepositorySpec option" where
  "agentRunMergeRepository profile run =
     normalizeAgentRunRepository (merge_pointers zero_Repository overlay_repository profile run)"

definition agentRunMergeScope :: "AgentRunScopeSpec \<Rightarrow> AgentRunScopeSpec \<Rightarrow> AgentRunScopeSpec" where
  "agentRunMergeScope profile run = \<lparr>
     scope_Summary = override_text (scope_Summary profile) (scope_Summary run),
     scope_ApplicationRef = override_pointer (scope_ApplicationRef profile) (scope_ApplicationRef run),
     scope_ApplicationTargetRef =
       override_pointer (scope_ApplicationTargetRef profile) (scope_ApplicationTargetRef run),
     scope_Namespaces = appendUniqueStrings (scope_Namespaces profile) (scope_Namespaces run),
     scope_ResourceKinds = appendUniqueStrings (scope_ResourceKinds profile) (scope_ResourceKinds run),
     scope_Repository = agentRunMergeRepository (scope_Repository profile) (scope_Repository run)\<rparr>"

definition zero_Docs :: AgentRunDocsSpec where
  "zero_Docs = \<lparr>docs_Policy = AgentRunDocsPolicyUnset, docs_Paths = [], docs_RuntimePaths = [],
     docs_Notes = []\<rparr>"

definition overlay_docs :: "AgentRunDocsSpec \<Rightarrow> AgentRunDocsSpec \<Rightarrow> AgentRunDocsSpec" where
  "overlay_docs out run = \<lparr>
     docs_Policy = override_value AgentRunDocsPolicyUnset (docs_Policy out) (docs_Policy run),
     docs_Paths = appendUniqueStrings (docs_Paths out) (docs_Paths run),
     docs_RuntimePaths = appendUniqueStrings (docs_RuntimePaths out) (docs_RuntimePaths run),
     docs_Notes = mergePromptText (docs_Notes out) (docs_Notes run)\<rparr>"

definition agentRunMergeDocs :: "AgentRunDocsSpec option \<Rightarrow> AgentRunDocsSpec option \<Rightarrow> AgentRunDocsSpec option" where
  "agentRunMergeDocs = merge_pointers zero_Docs overlay_docs"

definition zero_IssueTracking :: AgentRunIssueTrackingSpec where
  "zero_IssueTracking = \<lparr>it_Provider = AgentRunIssueTrackingProviderUnset, it_Repository = [],
     it_Issues = [], it_SearchQuery = [], it_UpdatePolicy = AgentRunIssueUpdatePolicyUnset\<rparr>"

definition overlay_issue_tracking :: "AgentRunIssueTrackingSpec \<Rightarrow> AgentRunIssueTrackingSpec \<Rightarrow> AgentRunIssueTrackingSpec" where
  "overlay_issue_tracking out run = \<lparr>
     it_Provider = override_value AgentRunIssueTrackingProviderUnset (it_Provider out) (it_Provider run),
     it_Repository = override_text (it_Repository out) (it_Repository run),
     it_Issues = it_Issues out @ it_Issues run,
     it_SearchQuery = override_text (it_SearchQuery out) (it_SearchQuery run),
     it_UpdatePolicy =
       override_value AgentRunIssueUpdatePolicyUnset (it_UpdatePolicy out) (it_UpdatePolicy run)\<rparr>"

definition agentRunMergeIssueTracking :: "AgentRunIssueTrackingSpec option \<Rightarrow> AgentRunIssueTrackingSpec option \<Rightarrow> AgentRunIssueTrackingSpec option" where
  "agentRunMergeIssueTracking = merge_pointers zero_IssueTracking overlay_issue_tracking"

definition zero_Notifications :: AgentRunNotificationSpec where
  "zero_Notifications = \<lparr>notif_MobileOps = False, notif_Telegram = None, notif_Discord = None\<rparr>"

definition overlay_notifications :: "AgentRunNotificationSpec \<Rightarrow> AgentRunNotificationSpec \<Rightarrow> AgentRunNotificationSpec" where
  "overlay_notifications out run = \<lparr>
     notif_MobileOps = (notif_MobileOps out \<or> notif_MobileOps run),
     notif_Telegram = override_pointer (notif_Telegram out) (notif_Telegram run),
     notif_Discord = override_pointer (notif_Discord out) (notif_Discord run)\<rparr>"

definition agentRunMergeNotifications :: "AgentRunNotificationSpec option \<Rightarrow> AgentRunNotificationSpec option \<Rightarrow> AgentRunNotificationSpec option" where
  "agentRunMergeNotifications = merge_pointers zero_Notifications overlay_notifications"

subsection \<open>Harness backends\<close>

definition zero_Codex :: AgentRunCodexBackendSpec where
  "zero_Codex = \<lparr>codex_Model = [], codex_ReasoningEffort = [], codex_Verbosity = [],
     codex_ServiceTier = [], codex_GoalMode = False, codex_Goal = [], codex_Sandbox = [],
     codex_AdditionalArgs = []\<rparr>"

definition overlay_codex :: "AgentRunCodexBackendSpec \<Rightarrow> AgentRunCodexBackendSpec \<Rightarrow> AgentRunCodexBackendSpec" where
  "overlay_codex out run = \<lparr>
     codex_Model = override_text (codex_Model out) (codex_Model run),
     codex_ReasoningEffort = override_text (codex_ReasoningEffort out) (codex_ReasoningEffort run),
     codex_Verbosity = override_text (codex_Verbosity out) (codex_Verbosity run),
     codex_ServiceTier = override_text (codex_ServiceTier out) (codex_ServiceTier run),
     codex_GoalMode = (codex_GoalMode out \<or> codex_GoalMode run),
     codex_Goal = override_text (codex_Goal out) (codex_Goal run),
     codex_Sandbox = override_text (codex_Sandbox out) (codex_Sandbox run),
     codex_AdditionalArgs = codex_AdditionalArgs out @ codex_AdditionalArgs run\<rparr>"

definition agentRunMergeCodexBackend :: "AgentRunCodexBackendSpec option \<Rightarrow> AgentRunCodexBackendSpec option \<Rightarrow> AgentRunCodexBackendSpec option" where
  "agentRunMergeCodexBackend = merge_pointers zero_Codex overlay_codex"

definition zero_OpenCode :: AgentRunOpenCodeBackendSpec where
  "zero_OpenCode = \<lparr>oc_Model = [], oc_Agent = [], oc_Variant = [], oc_Format = [], oc_Auto = None,
     oc_Pure = None, oc_AdditionalArgs = []\<rparr>"

definition overlay_oc :: "AgentRunOpenCodeBackendSpec \<Rightarrow> AgentRunOpenCodeBackendSpec \<Rightarrow> AgentRunOpenCodeBackendSpec" where
  "overlay_oc out run = \<lparr>
     oc_Model = override_text (oc_Model out) (oc_Model run),
     oc_Agent = override_text (oc_Agent out) (oc_Agent run),
     oc_Variant = override_text (oc_Variant out) (oc_Variant run),
     oc_Format = override_text (oc_Format out) (oc_Format run),
     oc_Auto = override_pointer (oc_Auto out) (oc_Auto run),
     oc_Pure = override_pointer (oc_Pure out) (oc_Pure run),
     oc_AdditionalArgs = oc_AdditionalArgs out @ oc_AdditionalArgs run\<rparr>"

definition agentRunMergeOpenCodeBackend :: "AgentRunOpenCodeBackendSpec option \<Rightarrow> AgentRunOpenCodeBackendSpec option \<Rightarrow> AgentRunOpenCodeBackendSpec option" where
  "agentRunMergeOpenCodeBackend = merge_pointers zero_OpenCode overlay_oc"

definition zero_Hermes :: AgentRunHermesBackendSpec where
  "zero_Hermes = \<lparr>hermes_Model = [], hermes_ReasoningEffort = [], hermes_ServiceTier = [],
     hermes_Profile = [], hermes_UseCodexAppServer = False, hermes_AdditionalArgs = []\<rparr>"

definition overlay_hermes :: "AgentRunHermesBackendSpec \<Rightarrow> AgentRunHermesBackendSpec \<Rightarrow> AgentRunHermesBackendSpec" where
  "overlay_hermes out run = \<lparr>
     hermes_Model = override_text (hermes_Model out) (hermes_Model run),
     hermes_ReasoningEffort = override_text (hermes_ReasoningEffort out) (hermes_ReasoningEffort run),
     hermes_ServiceTier = override_text (hermes_ServiceTier out) (hermes_ServiceTier run),
     hermes_Profile = override_text (hermes_Profile out) (hermes_Profile run),
     hermes_UseCodexAppServer = (hermes_UseCodexAppServer out \<or> hermes_UseCodexAppServer run),
     hermes_AdditionalArgs = hermes_AdditionalArgs out @ hermes_AdditionalArgs run\<rparr>"

definition agentRunMergeHermesBackend :: "AgentRunHermesBackendSpec option \<Rightarrow> AgentRunHermesBackendSpec option \<Rightarrow> AgentRunHermesBackendSpec option" where
  "agentRunMergeHermesBackend = merge_pointers zero_Hermes overlay_hermes"

definition zero_OpenClaw :: AgentRunOpenClawBackendSpec where
  "zero_OpenClaw = \<lparr>claw_AgentID = [], claw_Model = [], claw_Thinking = [], claw_ServiceTier = [],
     claw_Local = None, claw_AdditionalArgs = []\<rparr>"

definition overlay_claw :: "AgentRunOpenClawBackendSpec \<Rightarrow> AgentRunOpenClawBackendSpec \<Rightarrow> AgentRunOpenClawBackendSpec" where
  "overlay_claw out run = \<lparr>
     claw_AgentID = override_text (claw_AgentID out) (claw_AgentID run),
     claw_Model = override_text (claw_Model out) (claw_Model run),
     claw_Thinking = override_text (claw_Thinking out) (claw_Thinking run),
     claw_ServiceTier = override_text (claw_ServiceTier out) (claw_ServiceTier run),
     claw_Local = override_pointer (claw_Local out) (claw_Local run),
     claw_AdditionalArgs = claw_AdditionalArgs out @ claw_AdditionalArgs run\<rparr>"

definition agentRunMergeOpenClawBackend :: "AgentRunOpenClawBackendSpec option \<Rightarrow> AgentRunOpenClawBackendSpec option \<Rightarrow> AgentRunOpenClawBackendSpec option" where
  "agentRunMergeOpenClawBackend = merge_pointers zero_OpenClaw overlay_claw"

definition zero_GrokBuild :: AgentRunGrokBuildBackendSpec where
  "zero_GrokBuild = \<lparr>grok_Model = [], grok_ReasoningEffort = [], grok_ServiceTier = [], grok_Profile = [],
     grok_Command = [], grok_AdditionalArgs = []\<rparr>"

definition overlay_grok :: "AgentRunGrokBuildBackendSpec \<Rightarrow> AgentRunGrokBuildBackendSpec \<Rightarrow> AgentRunGrokBuildBackendSpec" where
  "overlay_grok out run = \<lparr>
     grok_Model = override_text (grok_Model out) (grok_Model run),
     grok_ReasoningEffort = override_text (grok_ReasoningEffort out) (grok_ReasoningEffort run),
     grok_ServiceTier = override_text (grok_ServiceTier out) (grok_ServiceTier run),
     grok_Profile = override_text (grok_Profile out) (grok_Profile run),
     grok_Command = override_text (grok_Command out) (grok_Command run),
     grok_AdditionalArgs = grok_AdditionalArgs out @ grok_AdditionalArgs run\<rparr>"

definition agentRunMergeGrokBuildBackend :: "AgentRunGrokBuildBackendSpec option \<Rightarrow> AgentRunGrokBuildBackendSpec option \<Rightarrow> AgentRunGrokBuildBackendSpec option" where
  "agentRunMergeGrokBuildBackend = merge_pointers zero_GrokBuild overlay_grok"

definition zero_Pi :: AgentRunPiBackendSpec where
  "zero_Pi = \<lparr>pi_Provider = [], pi_Model = [], pi_Thinking = [], pi_Mode = [], pi_NoSession = False,
     pi_AdditionalArgs = []\<rparr>"

definition overlay_pi :: "AgentRunPiBackendSpec \<Rightarrow> AgentRunPiBackendSpec \<Rightarrow> AgentRunPiBackendSpec" where
  "overlay_pi out run = \<lparr>
     pi_Provider = override_text (pi_Provider out) (pi_Provider run),
     pi_Model = override_text (pi_Model out) (pi_Model run),
     pi_Thinking = override_text (pi_Thinking out) (pi_Thinking run),
     pi_Mode = override_text (pi_Mode out) (pi_Mode run),
     pi_NoSession = (pi_NoSession out \<or> pi_NoSession run),
     pi_AdditionalArgs = pi_AdditionalArgs out @ pi_AdditionalArgs run\<rparr>"

definition agentRunMergePiBackend :: "AgentRunPiBackendSpec option \<Rightarrow> AgentRunPiBackendSpec option \<Rightarrow> AgentRunPiBackendSpec option" where
  "agentRunMergePiBackend = merge_pointers zero_Pi overlay_pi"

definition zero_Prime :: AgentRunPrimeBackendSpec where
  "zero_Prime = \<lparr>prime_Provider = [], prime_Model = [], prime_Thinking = [], prime_Mode = [],
     prime_NoSession = False, prime_AdditionalArgs = []\<rparr>"

definition overlay_prime :: "AgentRunPrimeBackendSpec \<Rightarrow> AgentRunPrimeBackendSpec \<Rightarrow> AgentRunPrimeBackendSpec" where
  "overlay_prime out run = \<lparr>
     prime_Provider = override_text (prime_Provider out) (prime_Provider run),
     prime_Model = override_text (prime_Model out) (prime_Model run),
     prime_Thinking = override_text (prime_Thinking out) (prime_Thinking run),
     prime_Mode = override_text (prime_Mode out) (prime_Mode run),
     prime_NoSession = (prime_NoSession out \<or> prime_NoSession run),
     prime_AdditionalArgs = prime_AdditionalArgs out @ prime_AdditionalArgs run\<rparr>"

definition agentRunMergePrimeBackend :: "AgentRunPrimeBackendSpec option \<Rightarrow> AgentRunPrimeBackendSpec option \<Rightarrow> AgentRunPrimeBackendSpec option" where
  "agentRunMergePrimeBackend = merge_pointers zero_Prime overlay_prime"

definition zero_Agy :: AgentRunAgyBackendSpec where
  "zero_Agy = \<lparr>agy_Model = [], agy_Mode = [], agy_Thinking = [], agy_AdditionalArgs = []\<rparr>"

definition overlay_agy :: "AgentRunAgyBackendSpec \<Rightarrow> AgentRunAgyBackendSpec \<Rightarrow> AgentRunAgyBackendSpec" where
  "overlay_agy out run = \<lparr>
     agy_Model = override_text (agy_Model out) (agy_Model run),
     agy_Mode = override_text (agy_Mode out) (agy_Mode run),
     agy_Thinking = override_text (agy_Thinking out) (agy_Thinking run),
     agy_AdditionalArgs = agy_AdditionalArgs out @ agy_AdditionalArgs run\<rparr>"

definition agentRunMergeAgyBackend :: "AgentRunAgyBackendSpec option \<Rightarrow> AgentRunAgyBackendSpec option \<Rightarrow> AgentRunAgyBackendSpec option" where
  "agentRunMergeAgyBackend = merge_pointers zero_Agy overlay_agy"

definition zero_Custom :: AgentRunCustomBackendSpec where
  "zero_Custom = \<lparr>custom_Command = [], custom_Args = []\<rparr>"

definition overlay_custom :: "AgentRunCustomBackendSpec \<Rightarrow> AgentRunCustomBackendSpec \<Rightarrow> AgentRunCustomBackendSpec" where
  "overlay_custom out run = \<lparr>
     custom_Command = override_list (custom_Command out) (custom_Command run),
     custom_Args = override_list (custom_Args out) (custom_Args run)\<rparr>"

definition agentRunMergeCustomBackend :: "AgentRunCustomBackendSpec option \<Rightarrow> AgentRunCustomBackendSpec option \<Rightarrow> AgentRunCustomBackendSpec option" where
  "agentRunMergeCustomBackend = merge_pointers zero_Custom overlay_custom"

definition agentRunMergeBackend :: "AgentRunHarnessBackendSpec \<Rightarrow> AgentRunHarnessBackendSpec \<Rightarrow> AgentRunHarnessBackendSpec" where
  "agentRunMergeBackend profile run = \<lparr>
     be_Kind = override_value AgentRunHarnessBackendUnset (be_Kind profile) (be_Kind run),
     be_Image = override_text (be_Image profile) (be_Image run),
     be_ModelProvider =
       override_value AgentRunModelProviderUnset (be_ModelProvider profile) (be_ModelProvider run),
     be_ProviderAuthMode =
       override_value AgentRunProviderAuthModeUnset (be_ProviderAuthMode profile) (be_ProviderAuthMode run),
     be_ImagePullPolicy = override_value [] (be_ImagePullPolicy profile) (be_ImagePullPolicy run),
     be_Codex = agentRunMergeCodexBackend (be_Codex profile) (be_Codex run),
     be_OpenCode = agentRunMergeOpenCodeBackend (be_OpenCode profile) (be_OpenCode run),
     be_HermesAgent = agentRunMergeHermesBackend (be_HermesAgent profile) (be_HermesAgent run),
     be_OpenClaw = agentRunMergeOpenClawBackend (be_OpenClaw profile) (be_OpenClaw run),
     be_GrokBuild = agentRunMergeGrokBuildBackend (be_GrokBuild profile) (be_GrokBuild run),
     be_PiAgent = agentRunMergePiBackend (be_PiAgent profile) (be_PiAgent run),
     be_PrimeAgent = agentRunMergePrimeBackend (be_PrimeAgent profile) (be_PrimeAgent run),
     be_Agy = agentRunMergeAgyBackend (be_Agy profile) (be_Agy run),
     be_Custom = agentRunMergeCustomBackend (be_Custom profile) (be_Custom run)\<rparr>"

subsection \<open>Execution and harness\<close>

definition override_spiffe :: "AgentRunSpiffeWorkloadAPISpec \<Rightarrow> AgentRunSpiffeWorkloadAPISpec \<Rightarrow> AgentRunSpiffeWorkloadAPISpec" where
  "override_spiffe out run =
     (if spiffe_Enabled run \<or> TrimSpace (spiffe_SPIFFEID run) \<noteq> [] then run else out)"

definition override_resources :: "ResourceRequirements \<Rightarrow> ResourceRequirements \<Rightarrow> ResourceRequirements" where
  "override_resources out run =
     (if res_Requests run \<noteq> [] \<or> res_Limits run \<noteq> [] \<or> res_Claims run \<noteq> [] then run else out)"

definition agentRunMergeExecution :: "AgentRunHarnessExecutionSpec \<Rightarrow> AgentRunHarnessExecutionSpec \<Rightarrow> AgentRunHarnessExecutionSpec" where
  "agentRunMergeExecution profile run = \<lparr>
     ex_ServiceAccountName = override_text (ex_ServiceAccountName profile) (ex_ServiceAccountName run),
     ex_EnvSecretRefs = mergeNamespacedRefs (ex_EnvSecretRefs profile) (ex_EnvSecretRefs run),
     ex_SkillSourceCredentials =
       mergeAgentRunSkillSourceCredentials (ex_SkillSourceCredentials profile) (ex_SkillSourceCredentials run),
     ex_ExternalSecretRefreshRefs =
       mergeAgentRunExternalSecretRefreshRefs (ex_ExternalSecretRefreshRefs profile)
         (ex_ExternalSecretRefreshRefs run),
     ex_ExtraEnv = mergeEnvVars (ex_ExtraEnv profile) (ex_ExtraEnv run),
     ex_DataVolumeRefs = mergeAgentRunDataVolumeRefs (ex_DataVolumeRefs profile) (ex_DataVolumeRefs run),
     ex_SpiffeWorkloadAPI = override_spiffe (ex_SpiffeWorkloadAPI profile) (ex_SpiffeWorkloadAPI run),
     ex_Resources = override_resources (ex_Resources profile) (ex_Resources run),
     ex_NodeSelector = mergeStringMap (ex_NodeSelector profile) (ex_NodeSelector run),
     ex_Affinity = override_pointer (ex_Affinity profile) (ex_Affinity run),
     ex_Tolerations = ex_Tolerations profile @ ex_Tolerations run,
     ex_ImagePullSecrets = mergeLocalObjectRefs (ex_ImagePullSecrets profile) (ex_ImagePullSecrets run),
     ex_PodSecurityContext = override_pointer (ex_PodSecurityContext profile) (ex_PodSecurityContext run),
     ex_SecurityContext = override_pointer (ex_SecurityContext profile) (ex_SecurityContext run),
     ex_Workdir = override_text (ex_Workdir profile) (ex_Workdir run),
     ex_Runtime = override_value [] (ex_Runtime profile) (ex_Runtime run),
     ex_Substrate = override_pointer (ex_Substrate profile) (ex_Substrate run),
     ex_TimeoutSeconds = override_value 0 (ex_TimeoutSeconds profile) (ex_TimeoutSeconds run),
     ex_TTLSecondsAfterFinished =
       override_pointer (ex_TTLSecondsAfterFinished profile) (ex_TTLSecondsAfterFinished run)\<rparr>"

definition agentRunMergeHarness :: "AgentRunHarnessSpec \<Rightarrow> AgentRunHarnessSpec \<Rightarrow> AgentRunHarnessSpec" where
  "agentRunMergeHarness profile run = \<lparr>
     har_Intent = override_value AgentRunIntentUnset (har_Intent profile) (har_Intent run),
     har_Backend = agentRunMergeBackend (har_Backend profile) (har_Backend run),
     har_Execution = agentRunMergeExecution (har_Execution profile) (har_Execution run),
     har_SkillInjections = har_SkillInjections profile @ har_SkillInjections run,
     har_Subagents = har_Subagents profile @ har_Subagents run,
     har_Tools = har_Tools profile @ har_Tools run,
     har_SystemPrompt = mergePromptText (har_SystemPrompt profile) (har_SystemPrompt run)\<rparr>"

subsection \<open>Skill and tool compositions, and the profile as a whole\<close>

definition zero_SkillComposition :: AgentSkillCompositionSpec where
  "zero_SkillComposition = \<lparr>sc_Mode = AgentSkillCompositionUnset, sc_Refs = [], sc_Overrides = [],
     sc_ExcludeGlobal = False\<rparr>"

definition agentRunMergeSkillComposition :: "AgentSkillCompositionSpec option \<Rightarrow> AgentSkillCompositionSpec option \<Rightarrow> AgentSkillCompositionSpec option" where
  "agentRunMergeSkillComposition profile run =
     (let excluded = (case profile of None \<Rightarrow> False | Some p \<Rightarrow> sc_ExcludeGlobal p) in
      case run of
        Some r \<Rightarrow>
          if sc_Mode r = AgentSkillCompositionReplace
          then Some (r\<lparr>sc_ExcludeGlobal := sc_ExcludeGlobal r \<or> excluded\<rparr>)
          else let out = (case profile of Some p \<Rightarrow> p | None \<Rightarrow> zero_SkillComposition) in
            Some \<lparr>sc_Mode = override_value AgentSkillCompositionUnset (sc_Mode out) (sc_Mode r),
                  sc_Refs = sc_Refs out @ sc_Refs r,
                  sc_Overrides = sc_Overrides out @ sc_Overrides r,
                  sc_ExcludeGlobal = (sc_ExcludeGlobal out \<or> sc_ExcludeGlobal r)\<rparr>
      | None \<Rightarrow> profile)"

definition zero_ToolComposition :: AgentToolCompositionSpec where
  "zero_ToolComposition = \<lparr>tc_Mode = AgentToolCompositionUnset, tc_Refs = [], tc_ExcludeGlobal = False\<rparr>"

definition agentRunMergeToolComposition :: "AgentToolCompositionSpec option \<Rightarrow> AgentToolCompositionSpec option \<Rightarrow> AgentToolCompositionSpec option" where
  "agentRunMergeToolComposition profile run =
     (let excluded = (case profile of None \<Rightarrow> False | Some p \<Rightarrow> tc_ExcludeGlobal p) in
      case run of
        Some r \<Rightarrow>
          if tc_Mode r = AgentToolCompositionReplace
          then Some (r\<lparr>tc_ExcludeGlobal := tc_ExcludeGlobal r \<or> excluded\<rparr>)
          else let out = (case profile of Some p \<Rightarrow> p | None \<Rightarrow> zero_ToolComposition) in
            Some \<lparr>tc_Mode = override_value AgentToolCompositionUnset (tc_Mode out) (tc_Mode r),
                  tc_Refs = tc_Refs out @ tc_Refs r,
                  tc_ExcludeGlobal = (tc_ExcludeGlobal out \<or> tc_ExcludeGlobal r)\<rparr>
      | None \<Rightarrow> profile)"

definition agentRunApplyProfile :: "AgentRun \<Rightarrow> AgentRunProfile \<Rightarrow> AgentRun" where
  "agentRunApplyProfile obj profile =
     (let p = profile_Spec profile; r = run_Spec obj in
      obj\<lparr>run_Spec := r\<lparr>
        spec_Scope := agentRunMergeScope (prof_Scope p) (spec_Scope r),
        spec_Docs := agentRunMergeDocs (prof_Docs p) (spec_Docs r),
        spec_IssueTracking := agentRunMergeIssueTracking (prof_IssueTracking p) (spec_IssueTracking r),
        spec_Harness := agentRunMergeHarness (prof_Harness p) (spec_Harness r),
        spec_HarnessProfileRef := override_pointer (prof_HarnessProfileRef p) (spec_HarnessProfileRef r),
        spec_SkillSets := agentRunMergeSkillComposition (prof_SkillSets p) (spec_SkillSets r),
        spec_ToolSets := agentRunMergeToolComposition (prof_ToolSets p) (spec_ToolSets r),
        spec_CouncilRef := override_pointer (prof_CouncilRef p) (spec_CouncilRef r),
        spec_Notifications := agentRunMergeNotifications (prof_Notifications p) (spec_Notifications r)\<rparr>\<rparr>)"

subsection \<open>Layers can be grouped in any way\<close>

text \<open>
  An effective value is built from up to three layers: harness profile, profile, run. The
  contract of an overlay is that it is associative and that the zero value, laid under a
  layer, does not show through it. The merge of pointers is then associative as well.
\<close>

locale layer =
  fixes zero :: 'a and overlay :: "'a \<Rightarrow> 'a \<Rightarrow> 'a"
  assumes overlay_assoc: "overlay (overlay a b) c = overlay a (overlay b c)"
    and overlay_zero: "overlay a (overlay zero c) = overlay a c"
begin

lemma merge_assoc:
  "merge_pointers zero overlay (merge_pointers zero overlay a b) c =
   merge_pointers zero overlay a (merge_pointers zero overlay b c)"
  by (cases a; cases b; cases c) (simp_all add: merge_pointers_def overlay_assoc overlay_zero)

lemma merge_None: "merge_pointers zero overlay a None = a"
  by (cases a) (simp_all add: merge_pointers_def)

end

lemma override_assoc [simp]:
  "override_text (override_text a b) c = override_text a (override_text b c)"
  "override_value u (override_value u x y) z = override_value u x (override_value u y z)"
  "override_pointer (override_pointer p q) r = override_pointer p (override_pointer q r)"
  "override_list (override_list k l) m = override_list k (override_list l m)"
  by (simp_all add: override_text_def override_value_def override_pointer_def override_list_def
      split: option.splits)

lemma override_zero [simp]:
  "override_text a (override_text [] c) = override_text a c"
  "override_value u x (override_value u u z) = override_value u x z"
  "override_pointer p (override_pointer None r) = override_pointer p r"
  "override_list k (override_list [] m) = override_list k m"
  by (simp_all add: override_text_def override_value_def override_pointer_def override_list_def
      split: option.splits)

lemma unique_strings_append:
  "unique_strings seen (xs @ ys) =
   unique_strings seen xs @ unique_strings (seen \<union> set (unique_strings seen xs)) ys"
  by (induction seen xs rule: unique_strings.induct) (simp_all add: Let_def insert_commute Un_commute)

text \<open>The loop of \<^verbatim>\<open>appendUniqueStrings\<close> against its meaning: trim, drop blanks, keep first occurrences.\<close>

definition first_occurrences :: "'a list \<Rightarrow> 'a list" where
  "first_occurrences xs = rev (remdups (rev xs))"

lemma first_occurrences_Cons:
  "first_occurrences (x # xs) = x # filter (\<lambda>y. y \<noteq> x) (first_occurrences xs)"
proof -
  have "remdups (ys @ [x]) = filter (\<lambda>y. y \<noteq> x) (remdups ys) @ [x]" for ys :: "'a list"
    by (induction ys) auto
  then show ?thesis by (simp add: first_occurrences_def rev_filter)
qed

lemma unique_strings_reference:
  "unique_strings seen xs =
   filter (\<lambda>v. v \<notin> seen) (first_occurrences (filter (\<lambda>v. v \<noteq> []) (map TrimSpace xs)))"
proof (induction seen xs rule: unique_strings.induct)
  case (1 seen)
  then show ?case by (simp add: first_occurrences_def)
next
  case (2 seen v vs)
  then show ?case by (auto simp: Let_def first_occurrences_Cons intro: filter_cong)
qed

lemma appendUnique_reference:
  "appendUniqueStrings base additions =
   first_occurrences (filter (\<lambda>v. v \<noteq> []) (map TrimSpace (base @ additions)))"
  unfolding appendUniqueStrings_def unique_strings_reference by simp

lemma set_appendUnique:
  "set (appendUniqueStrings b a) = {v \<in> TrimSpace ` (set b \<union> set a). v \<noteq> []}"
  unfolding appendUnique_reference first_occurrences_def by auto

lemma distinct_appendUnique [simp]: "distinct (appendUniqueStrings b a)"
  unfolding appendUnique_reference first_occurrences_def by simp

lemma first_occurrences_distinct: "distinct xs \<Longrightarrow> first_occurrences xs = xs"
  by (simp add: first_occurrences_def distinct_remdups_id)

lemma appendUnique_fixed:
  assumes "distinct xs" and "\<And>v. v \<in> set xs \<Longrightarrow> v \<noteq> [] \<and> TrimSpace v = v"
  shows "appendUniqueStrings [] xs = xs" "appendUniqueStrings xs [] = xs"
proof -
  have "filter (\<lambda>v. v \<noteq> []) (map TrimSpace xs) = xs"
    using assms(2) by (induction xs) auto
  then show "appendUniqueStrings [] xs = xs" "appendUniqueStrings xs [] = xs"
    using assms(1) by (simp_all add: appendUnique_reference first_occurrences_distinct)
qed

lemma appendUnique_values: "v \<in> set (appendUniqueStrings b a) \<Longrightarrow> v \<noteq> [] \<and> TrimSpace v = v"
  by (auto simp: set_appendUnique)

lemma appendUnique_idem [simp]:
  "appendUniqueStrings [] (appendUniqueStrings b a) = appendUniqueStrings b a"
  by (rule appendUnique_fixed) (simp_all add: appendUnique_values)

lemma first_occurrences_append:
  "first_occurrences (first_occurrences xs @ ys) = first_occurrences (xs @ ys)"
  "first_occurrences (xs @ first_occurrences ys) = first_occurrences (xs @ ys)"
proof -
  have "remdups (remdups us @ vs) = remdups (us @ vs)" for us vs :: "'a list"
    by (induction us) auto
  then show "first_occurrences (xs @ first_occurrences ys) = first_occurrences (xs @ ys)"
    by (simp add: first_occurrences_def)
  show "first_occurrences (first_occurrences xs @ ys) = first_occurrences (xs @ ys)"
    by (simp add: first_occurrences_def remdups_append2)
qed

lemma cleaned_appendUnique [simp]:
  "filter (\<lambda>v. v \<noteq> []) (map TrimSpace (appendUniqueStrings b a)) = appendUniqueStrings b a"
proof -
  have "filter (\<lambda>v. v \<noteq> []) (map TrimSpace vs) = vs" if "\<And>v. v \<in> set vs \<Longrightarrow> v \<noteq> [] \<and> TrimSpace v = v"
    for vs using that by (induction vs) auto
  then show ?thesis using appendUnique_values by blast
qed

lemma appendUnique_assoc [simp]:
  "appendUniqueStrings (appendUniqueStrings a b) c = appendUniqueStrings a (appendUniqueStrings b c)"
proof -
  have "appendUniqueStrings (appendUniqueStrings a b) c =
    first_occurrences (appendUniqueStrings a b @ filter (\<lambda>v. v \<noteq> []) (map TrimSpace c))"
    by (subst appendUnique_reference) simp
  also have "\<dots> = first_occurrences (filter (\<lambda>v. v \<noteq> []) (map TrimSpace a) @ appendUniqueStrings b c)"
    by (simp add: appendUnique_reference first_occurrences_append)
  also have "\<dots> = appendUniqueStrings a (appendUniqueStrings b c)"
    by (subst (2) appendUnique_reference) simp
  finally show ?thesis .
qed

lemma TrimSpace_joined:
  assumes "TrimSpace a = a" "TrimSpace b = b" "a \<noteq> []" "b \<noteq> []"
  shows "TrimSpace (a @ s @ b) = a @ s @ b"
proof -
  have "\<not> is_space (hd a)" "\<not> is_space (last b)"
    using hd_dropWhile_rev [of is_space a] hd_dropWhile_rev [of is_space b] assms
    by (auto simp: TrimSpace_def)
  then show ?thesis unfolding TrimSpace_def using assms(3,4) by (intro trim_by_ends) simp
qed

lemma mergePromptText_assoc [simp]:
  "mergePromptText (mergePromptText a b) c = mergePromptText a (mergePromptText b c)"
proof -
  have joined: "TrimSpace (TrimSpace x @ CHR 0x0A # CHR 0x0A # TrimSpace y) =
      TrimSpace x @ CHR 0x0A # CHR 0x0A # TrimSpace y"
    if "TrimSpace x \<noteq> []" "TrimSpace y \<noteq> []" for x y
    using TrimSpace_joined [of "TrimSpace x" "TrimSpace y" "[CHR 0x0A, CHR 0x0A]"] that by simp
  show ?thesis by (auto simp: mergePromptText_def Let_def joined)
qed

lemma appendUnique_zero [simp]:
  "appendUniqueStrings a (appendUniqueStrings [] c) = appendUniqueStrings a c"
proof -
  have "appendUniqueStrings a (appendUniqueStrings [] c) =
    first_occurrences (filter (\<lambda>v. v \<noteq> []) (map TrimSpace a) @ appendUniqueStrings [] c)"
    unfolding appendUnique_reference [of a "appendUniqueStrings [] c"] by simp
  also have "\<dots> = appendUniqueStrings a c"
    by (simp add: appendUnique_reference first_occurrences_append)
  finally show ?thesis .
qed

lemma mergePromptText_zero [simp]: "mergePromptText a (mergePromptText [] c) = mergePromptText a c"
  by (simp add: mergePromptText_def)

interpretation docs_layer: layer zero_Docs overlay_docs
  by unfold_locales (simp_all add: overlay_docs_def zero_Docs_def)

interpretation issue_layer: layer zero_IssueTracking overlay_issue_tracking
  by unfold_locales (simp_all add: overlay_issue_tracking_def zero_IssueTracking_def)

interpretation notification_layer: layer zero_Notifications overlay_notifications
  by unfold_locales (auto simp: overlay_notifications_def zero_Notifications_def)

interpretation codex_layer: layer zero_Codex overlay_codex
  by unfold_locales (simp_all add: overlay_codex_def zero_Codex_def)

interpretation oc_layer: layer zero_OpenCode overlay_oc
  by unfold_locales (simp_all add: overlay_oc_def zero_OpenCode_def)

interpretation hermes_layer: layer zero_Hermes overlay_hermes
  by unfold_locales (simp_all add: overlay_hermes_def zero_Hermes_def)

interpretation claw_layer: layer zero_OpenClaw overlay_claw
  by unfold_locales (simp_all add: overlay_claw_def zero_OpenClaw_def)

interpretation grok_layer: layer zero_GrokBuild overlay_grok
  by unfold_locales (simp_all add: overlay_grok_def zero_GrokBuild_def)

interpretation pi_layer: layer zero_Pi overlay_pi
  by unfold_locales (simp_all add: overlay_pi_def zero_Pi_def)

interpretation prime_layer: layer zero_Prime overlay_prime
  by unfold_locales (simp_all add: overlay_prime_def zero_Prime_def)

interpretation agy_layer: layer zero_Agy overlay_agy
  by unfold_locales (simp_all add: overlay_agy_def zero_Agy_def)

interpretation custom_layer: layer zero_Custom overlay_custom
  by unfold_locales (simp_all add: overlay_custom_def zero_Custom_def)

lemmas backend_merge_defs =
  agentRunMergeCodexBackend_def agentRunMergeOpenCodeBackend_def agentRunMergeHermesBackend_def
  agentRunMergeOpenClawBackend_def agentRunMergeGrokBuildBackend_def agentRunMergePiBackend_def
  agentRunMergePrimeBackend_def agentRunMergeAgyBackend_def agentRunMergeCustomBackend_def

lemmas backend_merge_assoc =
  codex_layer.merge_assoc oc_layer.merge_assoc hermes_layer.merge_assoc claw_layer.merge_assoc
  grok_layer.merge_assoc pi_layer.merge_assoc prime_layer.merge_assoc agy_layer.merge_assoc
  custom_layer.merge_assoc


subsection \<open>The repository of a scope\<close>

lemma appendUnique_member:
  assumes "d \<in> set (appendUniqueStrings b a)"
  shows "appendUniqueStrings (appendUniqueStrings b a) [d] = appendUniqueStrings b a"
proof -
  have "first_occurrences (xs @ [d]) = xs" if "distinct xs" "d \<in> set xs" for xs
    using that by (simp add: first_occurrences_def distinct_remdups_id)
  moreover have "appendUniqueStrings (appendUniqueStrings b a) [d] =
    first_occurrences (appendUniqueStrings b a @ [d])"
    unfolding appendUnique_reference [of "appendUniqueStrings b a" "[d]"]
    using appendUnique_values [OF assms] by simp
  ultimately show ?thesis using assms by simp
qed

text \<open>What normalisation establishes: every text trimmed, and the defaults filled in.\<close>

definition repository_normal :: "AgentRunRepositorySpec \<Rightarrow> bool" where
  "repository_normal repo \<longleftrightarrow>
     TrimSpace (repo_Name repo) = repo_Name repo \<and> TrimSpace (repo_URL repo) = repo_URL repo \<and>
     TrimSpace (repo_Ref repo) = repo_Ref repo \<and>
     TrimSpace (repo_DestinationBranch repo) = repo_DestinationBranch repo \<and>
     appendUniqueStrings [] (repo_AllowedBranches repo) = repo_AllowedBranches repo \<and>
     (repo_Name repo \<noteq> [] \<longrightarrow> repo_URL repo \<noteq> []) \<and>
     (repo_DestinationBranch repo \<noteq> [] \<longrightarrow> repo_Ref repo \<noteq> [] \<and>
        repo_DestinationBranch repo \<in> set (repo_AllowedBranches repo))"

lemma github_url_trimmed [simp]:
  "TrimSpace (''https://github.com/'' @ name @ ''.git'') = ''https://github.com/'' @ name @ ''.git''"
proof -
  have "TrimSpace ''https://github.com/'' = ''https://github.com/''" "TrimSpace ''.git'' = ''.git''"
    by (simp_all add: TrimSpace_def trim_by_def is_space_def)
  then show ?thesis using TrimSpace_joined [of "''https://github.com/''" "''.git''" name] by simp
qed

lemma complete_repository_fields:
  "repo_Name (complete_repository r) = repo_Name r"
  "repo_DestinationBranch (complete_repository r) = repo_DestinationBranch r"
  "repo_URL (complete_repository r) = (if repo_URL r = [] \<and> repo_Name r \<noteq> []
     then ''https://github.com/'' @ repo_Name r @ ''.git'' else repo_URL r)"
  "repo_Ref (complete_repository r) =
     (if repo_Ref r = [] then repo_DestinationBranch r else repo_Ref r)"
  "repo_AllowedBranches (complete_repository r) = (if repo_DestinationBranch r \<noteq> []
     then appendUniqueStrings (repo_AllowedBranches r) [repo_DestinationBranch r]
     else repo_AllowedBranches r)"
  by (simp_all add: complete_repository_def Let_def)

lemma trim_repository_fields [simp]:
  "repo_Name (trim_repository r) = TrimSpace (repo_Name r)"
  "repo_URL (trim_repository r) = TrimSpace (repo_URL r)"
  "repo_Ref (trim_repository r) = TrimSpace (repo_Ref r)"
  "repo_DestinationBranch (trim_repository r) = TrimSpace (repo_DestinationBranch r)"
  "repo_AllowedBranches (trim_repository r) = appendUniqueStrings [] (repo_AllowedBranches r)"
  by (simp_all add: trim_repository_def)

lemma completed_normal: "repository_normal (complete_repository (trim_repository r))"
  using github_url_trimmed [of "TrimSpace (repo_Name r)"]
  by (auto simp: repository_normal_def complete_repository_fields set_appendUnique
      simp del: appendUnique_assoc github_url_trimmed)

lemma normal_repository_fixed:
  assumes "repository_normal r"
  shows "complete_repository (trim_repository r) = r"
proof (rule AgentRunRepositorySpec.equality)
  have "appendUniqueStrings (repo_AllowedBranches r) [repo_DestinationBranch r] = repo_AllowedBranches r"
    if "repo_DestinationBranch r \<noteq> []"
    using assms that appendUnique_member [of "repo_DestinationBranch r" "[]" "repo_AllowedBranches r"]
    by (simp add: repository_normal_def)
  then show "repo_AllowedBranches (complete_repository (trim_repository r)) = repo_AllowedBranches r"
    using assms by (simp add: repository_normal_def complete_repository_fields)
qed (use assms in \<open>auto simp: repository_normal_def complete_repository_fields\<close>)

lemma normalize_idempotent:
  "normalizeAgentRunRepository (normalizeAgentRunRepository r) = normalizeAgentRunRepository r"
  by (simp add: normalizeAgentRunRepository_def Let_def normal_repository_fixed [OF completed_normal]
      split: option.splits)

text \<open>
  The repository scope a run is given after inheritance is in normal form, whatever the
  profile and the run say: its texts are trimmed, the branch list has no blanks and no
  duplicates, a named repository has a clone URL, and a destination branch is both a usable
  reference and one of the allowed branches. Normalising it again, as the status does, changes
  nothing, and a branch list of the run replaces the one of the profile.
\<close>

theorem merged_repository_normal:
  assumes "agentRunMergeRepository profile run = Some repo"
  shows "repository_normal repo \<and> normalizeAgentRunRepository (Some repo) = Some repo \<and>
    distinct (repo_AllowedBranches repo) \<and> [] \<notin> set (repo_AllowedBranches repo) \<and>
    (\<forall>r. run = Some r \<and> repo_AllowedBranches r \<noteq> [] \<longrightarrow>
       set (repo_AllowedBranches repo) \<subseteq>
         TrimSpace ` set (repo_AllowedBranches r) \<union> {repo_DestinationBranch repo})"
proof (intro conjI allI impI)
  let ?m = "merge_pointers zero_Repository overlay_repository profile run"
  obtain m where m: "?m = Some m" and repo: "repo = complete_repository (trim_repository m)"
    using assms by (auto simp: agentRunMergeRepository_def normalizeAgentRunRepository_def Let_def
        split: option.splits if_splits)
  show normal: "repository_normal repo" unfolding repo by (rule completed_normal)
  show "normalizeAgentRunRepository (Some repo) = Some repo"
    using normalize_idempotent [of ?m] assms by (simp add: agentRunMergeRepository_def)
  have allowed: "appendUniqueStrings [] (repo_AllowedBranches repo) = repo_AllowedBranches repo"
    using normal by (simp add: repository_normal_def)
  show "distinct (repo_AllowedBranches repo)" by (subst allowed [symmetric]) simp
  show "[] \<notin> set (repo_AllowedBranches repo)"
    by (subst allowed [symmetric]) (simp add: set_appendUnique)
  fix r assume r: "run = Some r \<and> repo_AllowedBranches r \<noteq> []"
  then have "repo_AllowedBranches m = appendUniqueStrings [] (repo_AllowedBranches r)"
    using m by (auto simp: merge_pointers_def overlay_repository_def Let_def)
  then show "set (repo_AllowedBranches repo) \<subseteq>
      TrimSpace ` set (repo_AllowedBranches r) \<union> {repo_DestinationBranch repo}"
    unfolding repo by (auto simp: complete_repository_fields set_appendUnique)
qed

definition demo_repository :: AgentRunRepositorySpec where
  "demo_repository = \<lparr>repo_Name = ''acme/shop'', repo_URL = ''https://github.com/acme/shop.git'',
     repo_Ref = ''main'', repo_DestinationBranch = '' main '', repo_AllowedBranches = [''dev'', '' dev'']\<rparr>"

theorem merged_repository_normal_witness:
  "agentRunMergeRepository (Some (zero_Repository\<lparr>repo_Name := ''acme/shop''\<rparr>)) (Some demo_repository) =
     Some (complete_repository (trim_repository demo_repository)) \<and>
   repo_AllowedBranches (complete_repository (trim_repository demo_repository)) = [''dev'', ''main''] \<and>
   repository_normal (complete_repository (trim_repository demo_repository))"
proof -
  have "agentRunMergeRepository (Some (zero_Repository\<lparr>repo_Name := ''acme/shop''\<rparr>)) (Some demo_repository) =
     Some (complete_repository (trim_repository demo_repository))"
    by code_simp
  moreover have "repo_AllowedBranches (complete_repository (trim_repository demo_repository)) = [''dev'', ''main'']"
    by code_simp
  ultimately show ?thesis using merged_repository_normal by blast
qed

subsection \<open>Merging named entries\<close>

text \<open>
  The entry in force for a key is the last one that carries it, which is how Kubernetes reads
  a list of environment variables.
\<close>

fun last_entry :: "('a \<Rightarrow> bool) \<Rightarrow> 'a list \<Rightarrow> 'a option" where
  "last_entry P [] = None"
| "last_entry P (x # xs) =
     (case last_entry P xs of Some y \<Rightarrow> Some y | None \<Rightarrow> if P x then Some x else None)"

lemma last_entry_append:
  "last_entry P (xs @ ys) = (case last_entry P ys of Some y \<Rightarrow> Some y | None \<Rightarrow> last_entry P xs)"
  by (induction xs) (auto split: option.splits)

lemma last_entry_None: "last_entry P xs = None \<longleftrightarrow> (\<forall>x \<in> set xs. \<not> P x)"
  by (induction xs) (auto split: option.splits)

lemma last_entry_Some: "last_entry P xs = Some x \<Longrightarrow> x \<in> set xs \<and> P x"
  by (induction xs) (auto split: option.splits if_splits)

lemma last_entry_update:
  assumes "i < length xs" and "\<forall>j. i < j \<and> j < length xs \<longrightarrow> \<not> P (xs ! j)"
  shows "last_entry P (xs[i := x]) =
    (if P x then Some x else last_entry P (take i xs))"
proof -
  have "last_entry P (drop (Suc i) xs) = None"
    using assms by (auto simp: last_entry_None in_set_conv_nth)
  then show ?thesis
    using assms(1) by (simp add: upd_conv_take_nth_drop last_entry_append)
qed

text \<open>The contract of a merge of named entries, and what its callers conclude from it.\<close>

locale keyed_override =
  fixes merge :: "'a list \<Rightarrow> 'a list \<Rightarrow> 'a list" and named :: "'a \<Rightarrow> bool" and key :: "'a \<Rightarrow> string"
  assumes merge_lookup:
    "last_entry (\<lambda>x. named x \<and> key x = k) (merge base additions) =
     (case last_entry (\<lambda>x. named x \<and> key x = k) additions of
        Some x \<Rightarrow> Some x
      | None \<Rightarrow> last_entry (\<lambda>x. named x \<and> key x = k) base)"
    and merge_subset: "set (merge base additions) \<subseteq> set base \<union> set additions"
begin

lemma merge_inherits:
  assumes "\<And>x. x \<in> set additions \<Longrightarrow> named x \<Longrightarrow> key x \<noteq> k"
  shows "last_entry (\<lambda>x. named x \<and> key x = k) (merge base additions) =
    last_entry (\<lambda>x. named x \<and> key x = k) base"
proof -
  have "last_entry (\<lambda>x. named x \<and> key x = k) additions = None"
    using assms by (auto simp: last_entry_None)
  then show ?thesis by (simp add: merge_lookup)
qed

lemma merge_lookup_assoc:
  "last_entry (\<lambda>x. named x \<and> key x = k) (merge (merge a b) c) =
   last_entry (\<lambda>x. named x \<and> key x = k) (merge a (merge b c))"
  by (simp add: merge_lookup split: option.splits)

end

definition positions_ok :: "('a \<Rightarrow> bool) \<Rightarrow> ('a \<Rightarrow> string) \<Rightarrow> 'a list \<Rightarrow> (string \<Rightarrow> nat option) \<Rightarrow> bool" where
  "positions_ok named key out pos \<longleftrightarrow>
     (\<forall>k i. pos k = Some i \<longrightarrow> i < length out \<and> key (out ! i) = k \<and>
        (\<forall>j. i < j \<and> j < length out \<longrightarrow> named (out ! j) \<longrightarrow> key (out ! j) \<noteq> k)) \<and>
     (\<forall>k. pos k = None \<longrightarrow> (\<forall>x \<in> set out. named x \<longrightarrow> key x \<noteq> k))"

lemma positions_ok_append:
  assumes "positions_ok named key out pos" and "named x \<longrightarrow> pos (key x) = None"
  shows "positions_ok named key (out @ [x]) (if named x then pos(key x \<mapsto> length out) else pos)"
  using assms unfolding positions_ok_def
  by (auto simp: nth_append less_Suc_eq)

lemma positions_ok_update:
  assumes ok: "positions_ok named key out pos" and i: "pos (key x) = Some i"
  shows "positions_ok named key (out[i := x]) pos"
proof -
  have at: "key (out ! i) = key x" "i < length out" using ok i by (auto simp: positions_ok_def)
  have "y \<in> set out \<or> y = x" if "y \<in> set (out[i := x])" for y
    using that set_update_subset_insert by fastforce
  moreover have "named y \<Longrightarrow> key y \<noteq> k" if "pos k = None" "y \<in> set out \<or> y = x" for k y
    using ok i that unfolding positions_ok_def by auto
  ultimately have "\<forall>k. pos k = None \<longrightarrow> (\<forall>y \<in> set (out[i := x]). named y \<longrightarrow> key y \<noteq> k)"
    by blast
  moreover have "key (out[i := x] ! j) = key (out ! j)" for j
    using at by (cases "j = i") simp_all
  moreover have "key (out ! l) \<noteq> k"
    if "pos k = Some j" "j < l" "l < length out" "named (out[i := x] ! l)" for j k l
  proof (cases "l = i")
    case True
    then show ?thesis using that i at by auto
  next
    case False
    then have "named (out ! l)" using that(4) by simp
    then show ?thesis using ok that(1,2,3) unfolding positions_ok_def by blast
  qed
  ultimately show ?thesis
    using ok unfolding positions_ok_def by simp
qed

lemma place_lookup:
  assumes ok: "positions_ok named key out pos" and st: "place named key (out, pos) x = (out', pos')"
  shows "positions_ok named key out' pos'"
    and "last_entry (\<lambda>y. named y \<and> key y = k) out' =
      (if named x \<and> key x = k then Some x else last_entry (\<lambda>y. named y \<and> key y = k) out)"
    and "set out' \<subseteq> insert x (set out)"
proof -
  have "positions_ok named key out' pos' \<and>
    last_entry (\<lambda>y. named y \<and> key y = k) out' =
      (if named x \<and> key x = k then Some x else last_entry (\<lambda>y. named y \<and> key y = k) out) \<and>
    set out' \<subseteq> insert x (set out)"
  proof (cases "named x \<and> pos (key x) \<noteq> None")
    case True
    then obtain i where i: "pos (key x) = Some i" and res: "out' = out[i := x]" "pos' = pos"
      using st by (auto simp: place_def)
    have at: "i < length out" "key (out ! i) = key x"
      "\<And>j. i < j \<Longrightarrow> j < length out \<Longrightarrow> named (out ! j) \<Longrightarrow> key (out ! j) \<noteq> key x"
      using ok i by (auto simp: positions_ok_def)
    have split_at: "last_entry P out =
        (case last_entry P (drop (Suc i) out) of Some y \<Rightarrow> Some y
         | None \<Rightarrow> if P (out ! i) then Some (out ! i) else last_entry P (take i out))" for P
      by (subst id_take_nth_drop [OF at(1)])
        (simp only: last_entry_append last_entry.simps append_Cons split: option.splits, auto)
    have "last_entry (\<lambda>y. named y \<and> key y = k) (out[i := x]) =
      (if named x \<and> key x = k then Some x else last_entry (\<lambda>y. named y \<and> key y = k) out)"
    proof (cases "key x = k")
      case True
      then show ?thesis
        using last_entry_update [of i out "\<lambda>y. named y \<and> key y = k" x] at \<open>named x \<and> _\<close> by auto
    next
      case False
      have "last_entry (\<lambda>y. named y \<and> key y = k) (out[i := x]) =
         (case last_entry (\<lambda>y. named y \<and> key y = k) (drop (Suc i) out) of Some y \<Rightarrow> Some y
          | None \<Rightarrow> last_entry (\<lambda>y. named y \<and> key y = k) (take i out))"
        using at(1) False by (simp add: upd_conv_take_nth_drop last_entry_append split: option.splits)
      then show ?thesis using split_at [of "\<lambda>y. named y \<and> key y = k"] at(2) False by simp
    qed
    then show ?thesis
      using positions_ok_update [OF ok i] res set_update_subset_insert [of out i x] by simp
  next
    case False
    then have "out' = out @ [x]" "pos' = (if named x then pos(key x \<mapsto> length out) else pos)"
      using st by (auto simp: place_def split: if_splits)
    then show ?thesis
      using positions_ok_append [OF ok, of x] False by (auto simp: last_entry_append)
  qed
  then show "positions_ok named key out' pos'"
    and "last_entry (\<lambda>y. named y \<and> key y = k) out' =
      (if named x \<and> key x = k then Some x else last_entry (\<lambda>y. named y \<and> key y = k) out)"
    and "set out' \<subseteq> insert x (set out)" by simp_all
qed

lemma foldl_place_lookup:
  assumes "positions_ok named key out pos"
  shows "last_entry (\<lambda>x. named x \<and> key x = k) (fst (foldl (place named key) (out, pos) xs)) =
      (case last_entry (\<lambda>x. named x \<and> key x = k) xs of
         Some x \<Rightarrow> Some x
       | None \<Rightarrow> last_entry (\<lambda>x. named x \<and> key x = k) out) \<and>
    set (fst (foldl (place named key) (out, pos) xs)) \<subseteq> set out \<union> set xs"
  using assms
proof (induction xs arbitrary: out pos)
  case (Cons x xs)
  obtain out' pos' where st: "place named key (out, pos) x = (out', pos')" by fastforce
  note step = place_lookup [OF Cons.prems st]
  show ?case
    using Cons.IH [OF step(1)] step(2) [of k] step(3) by (auto simp: st split: option.splits)
qed simp

lemma positions_ok_index:
  assumes "\<And>x. named x \<Longrightarrow> indexed x" and "positions_ok named key out pos"
  shows "positions_ok named key (out @ xs) (key_positions indexed key (length out) xs pos)"
  using assms(2)
proof (induction xs arbitrary: out pos)
  case (Cons x xs)
  have "positions_ok named key (out @ [x]) (if indexed x then pos(key x \<mapsto> length out) else pos)"
    using Cons.prems assms(1) [of x] unfolding positions_ok_def
    by (auto simp: nth_append less_Suc_eq)
  from Cons.IH [OF this] show ?case by (simp add: if_distrib)
qed simp

lemma merge_loop_keyed:
  assumes "\<And>x. named x \<Longrightarrow> indexed x"
  shows "keyed_override (merge_loop indexed named key) named key"
proof -
  have "positions_ok named key base (key_positions indexed key 0 base Map.empty)" for base
    using positions_ok_index [OF assms, where out = "[]" and pos = Map.empty]
    by (simp add: positions_ok_def)
  note loop = foldl_place_lookup [OF this]
  show ?thesis
    by unfold_locales (simp_all add: merge_loop_def loop)
qed

interpretation env_merge: keyed_override mergeEnvVars "\<lambda>env. TrimSpace (env_Name env) \<noteq> []" env_Name
  unfolding mergeEnvVars_def by (rule merge_loop_keyed)

interpretation ref_merge: keyed_override mergeNamespacedRefs "\<lambda>ref. TrimSpace (nor_Name ref) \<noteq> []"
    "\<lambda>ref. namespacedRefKey (nor_Namespace ref) (nor_Name ref)"
  unfolding mergeNamespacedRefs_def by (rule merge_loop_keyed) simp

interpretation volume_merge: keyed_override mergeAgentRunDataVolumeRefs
    "\<lambda>ref. TrimSpace (dvr_Name ref) \<noteq> []" "\<lambda>ref. namespacedRefKey (dvr_Namespace ref) (dvr_Name ref)"
  unfolding mergeAgentRunDataVolumeRefs_def by (rule merge_loop_keyed) simp

interpretation local_ref_merge: keyed_override mergeLocalObjectRefs
    "\<lambda>ref. TrimSpace (lor_Name ref) \<noteq> []" lor_Name
  unfolding mergeLocalObjectRefs_def by (rule merge_loop_keyed)

text \<open>The environment variable in force for a name.\<close>

definition env_in_force :: "EnvVar list \<Rightarrow> string \<Rightarrow> EnvVar option" where
  "env_in_force env name = last_entry (\<lambda>e. TrimSpace (env_Name e) \<noteq> [] \<and> env_Name e = name) env"

lemma env_in_force_merge:
  "env_in_force (mergeEnvVars base additions) name =
   (case env_in_force additions name of Some e \<Rightarrow> Some e | None \<Rightarrow> env_in_force base name)"
  unfolding env_in_force_def by (rule env_merge.merge_lookup)

definition entry_in_force :: "('a \<Rightarrow> bool) \<Rightarrow> ('a \<Rightarrow> string) \<Rightarrow> 'a list \<Rightarrow> string \<Rightarrow> 'a option" where
  "entry_in_force named key xs k = last_entry (\<lambda>x. named x \<and> key x = k) xs"

definition merges_as_maps :: "('a \<Rightarrow> bool) \<Rightarrow> ('a \<Rightarrow> string) \<Rightarrow> ('a list \<Rightarrow> 'a list \<Rightarrow> 'a list) \<Rightarrow> bool" where
  "merges_as_maps named key merge \<longleftrightarrow>
     (\<forall>base additions. entry_in_force named key (merge base additions) = entry_in_force named key base ++ entry_in_force named key additions \<and>
        set (merge base additions) \<subseteq> set base \<union> set additions)"

text \<open>
  C38. The more specific layer wins, entry by entry. In a merge of environment variables, namespaced
  references, volume references or image pull secrets, the entry in force for a key (the last named
  one that carries it) is the entry in force of the additions if they have one, and the entry in
  force of the base otherwise, and the merged list has no other entries than those of the two
  lists. So the loops over a table of positions compute the override of the two lists read as maps,
  also when a list has duplicate or blank names.
\<close>

theorem specific_entries_win:
  "merges_as_maps (\<lambda>e. TrimSpace (env_Name e) \<noteq> []) env_Name mergeEnvVars \<and>
   merges_as_maps (\<lambda>ref. TrimSpace (nor_Name ref) \<noteq> []) (\<lambda>ref. namespacedRefKey (nor_Namespace ref) (nor_Name ref)) mergeNamespacedRefs \<and>
   merges_as_maps (\<lambda>ref. TrimSpace (dvr_Name ref) \<noteq> []) (\<lambda>ref. namespacedRefKey (dvr_Namespace ref) (dvr_Name ref)) mergeAgentRunDataVolumeRefs \<and>
   merges_as_maps (\<lambda>ref. TrimSpace (lor_Name ref) \<noteq> []) lor_Name mergeLocalObjectRefs"
  unfolding merges_as_maps_def entry_in_force_def fun_eq_iff map_add_def
  using env_merge.merge_lookup env_merge.merge_subset ref_merge.merge_lookup ref_merge.merge_subset
    volume_merge.merge_lookup volume_merge.merge_subset local_ref_merge.merge_lookup local_ref_merge.merge_subset
  by (simp split: option.split)

end
