(* ===== verification/Capabilities.thy ===== *)
theory Capabilities
  imports ProfileMerge
begin

text \<open>
  The capabilities of a run: the skills, tools and subagents that the selected sets, the
  overrides, the inline entries, the council and the built-in skill contribute
  (\<^verbatim>\<open>agentRunCapabilities\<close> in \<^verbatim>\<open>agent_run_composition.go\<close>, and \<^verbatim>\<open>create_agent.go\<close>). Each table is
  a list in declaration order with a map from trimmed names to positions. An operation
  that refuses returns its reason and message; the caller then abandons the capabilities,
  so the partly filled tables are not part of the result.

  \<open>caps_ok\<close> says that the position maps agree with the lists; every operation keeps it, and
  under it the tables refine maps from names to entries (locale \<open>capability_table\<close>).
\<close>

record agentRunCapabilities =
  cap_skills :: "AgentRunSkillInjectionSpec list"
  cap_tools :: "AgentRunToolSpec list"
  cap_subagents :: "AgentRunSubagentSpec list"
  cap_skillIndexes :: "string \<Rightarrow> nat option"
  cap_toolIndexes :: "string \<Rightarrow> nat option"
  cap_subagentIndexes :: "string \<Rightarrow> nat option"

type_synonym refusal = "string \<times> string"

definition newAgentRunCapabilities :: agentRunCapabilities where
  "newAgentRunCapabilities = \<lparr>cap_skills = [], cap_tools = [], cap_subagents = [],
     cap_skillIndexes = Map.empty, cap_toolIndexes = Map.empty, cap_subagentIndexes = Map.empty\<rparr>"

abbreviation skill_key :: "AgentRunSkillInjectionSpec \<Rightarrow> string" where
  "skill_key s \<equiv> TrimSpace (skill_Name s)"
abbreviation tool_key :: "AgentRunToolSpec \<Rightarrow> string" where
  "tool_key t \<equiv> TrimSpace (tool_Name t)"
abbreviation subagent_key :: "AgentRunSubagentSpec \<Rightarrow> string" where
  "subagent_key a \<equiv> TrimSpace (sub_Name a)"

text \<open>The body that the three upserts share: overwrite in place, or append and index.\<close>

definition upsert_entry :: "string \<Rightarrow> 'a \<Rightarrow> 'a list \<Rightarrow> (string \<Rightarrow> nat option) \<Rightarrow> 'a list \<times> (string \<Rightarrow> nat option)" where
  "upsert_entry name x entries indexes =
     (case indexes name of
        Some index \<Rightarrow> (entries[index := x], indexes)
      | None \<Rightarrow> (entries @ [x], indexes(name \<mapsto> length entries)))"

definition upsertSkill :: "agentRunCapabilities \<Rightarrow> AgentRunSkillInjectionSpec \<Rightarrow> agentRunCapabilities" where
  "upsertSkill c skill =
     (case upsert_entry (TrimSpace (skill_Name skill)) skill (cap_skills c) (cap_skillIndexes c) of
        (entries, indexes) \<Rightarrow> c\<lparr>cap_skills := entries, cap_skillIndexes := indexes\<rparr>)"

definition upsertTool :: "agentRunCapabilities \<Rightarrow> AgentRunToolSpec \<Rightarrow> agentRunCapabilities" where
  "upsertTool c tool =
     (case upsert_entry (TrimSpace (tool_Name tool)) tool (cap_tools c) (cap_toolIndexes c) of
        (entries, indexes) \<Rightarrow> c\<lparr>cap_tools := entries, cap_toolIndexes := indexes\<rparr>)"

definition upsertSubagent :: "agentRunCapabilities \<Rightarrow> AgentRunSubagentSpec \<Rightarrow> agentRunCapabilities" where
  "upsertSubagent c subagent =
     (case upsert_entry (TrimSpace (sub_Name subagent)) subagent (cap_subagents c) (cap_subagentIndexes c) of
        (entries, indexes) \<Rightarrow> c\<lparr>cap_subagents := entries, cap_subagentIndexes := indexes\<rparr>)"

definition removeSkill :: "agentRunCapabilities \<Rightarrow> nat \<Rightarrow> agentRunCapabilities" where
  "removeSkill c index =
     (let skills = take index (cap_skills c) @ drop (Suc index) (cap_skills c) in
      c\<lparr>cap_skills := skills,
        cap_skillIndexes := key_positions (\<lambda>_. True) (\<lambda>s. TrimSpace (skill_Name s)) 0 skills Map.empty\<rparr>)"

subsection \<open>Skill sets and tool sets\<close>

fun apply_set_skills :: "string \<Rightarrow> string set \<Rightarrow> AgentRunSkillInjectionSpec list \<Rightarrow> agentRunCapabilities \<Rightarrow> refusal + agentRunCapabilities" where
  "apply_set_skills set_name seen [] c = Inr c"
| "apply_set_skills set_name seen (skill # skills) c =
     (let name = TrimSpace (skill_Name skill) in
      if name = [] then
        Inl (''InvalidSkillName'', ''AgentSkillSet '' @ set_name @ '' contains an empty skill name.'')
      else if name \<in> seen then
        Inl (''DuplicateSkillName'',
          ''AgentSkillSet '' @ set_name @ '' contains duplicate skill '' @ Quote name @ ''.'')
      else apply_set_skills set_name (insert name seen) skills (upsertSkill c skill))"

text \<open>
  The tools of a skill set and of a tool set go through the same loop with other texts:
  \<open>kind\<close> is the kind of the set, \<open>selected\<close> the sets named in the conflict message.
\<close>

fun apply_set_tools :: "string \<Rightarrow> string \<Rightarrow> string \<Rightarrow> string set \<Rightarrow> AgentRunToolSpec list \<Rightarrow> agentRunCapabilities \<Rightarrow> refusal + agentRunCapabilities" where
  "apply_set_tools kind selected set_name seen [] c = Inr c"
| "apply_set_tools kind selected set_name seen (tool # tools) c =
     (let name = TrimSpace (tool_Name tool) in
      if name = [] then
        Inl (''InvalidToolName'', kind @ '' '' @ set_name @ '' contains an empty tool name.'')
      else if name \<in> seen then
        Inl (''DuplicateToolName'',
          kind @ '' '' @ set_name @ '' contains duplicate tool '' @ Quote name @ ''.'')
      else if (case cap_toolIndexes c name of Some index \<Rightarrow> cap_tools c ! index \<noteq> tool | None \<Rightarrow> False) then
        Inl (''ConflictingToolName'',
          ''Selected '' @ selected @ '' define conflicting tool '' @ Quote name @ '' contracts.'')
      else apply_set_tools kind selected set_name (insert name seen) tools (upsertTool c tool))"

fun apply_set_subagents :: "string \<Rightarrow> string set \<Rightarrow> AgentRunSubagentSpec list \<Rightarrow> agentRunCapabilities \<Rightarrow> refusal + agentRunCapabilities" where
  "apply_set_subagents set_name seen [] c = Inr c"
| "apply_set_subagents set_name seen (subagent # subagents) c =
     (let name = TrimSpace (sub_Name subagent) in
      if name = [] then
        Inl (''InvalidSubagentName'', ''AgentSkillSet '' @ set_name @ '' contains an empty subagent name.'')
      else if name \<in> seen then
        Inl (''DuplicateSubagentName'',
          ''AgentSkillSet '' @ set_name @ '' contains duplicate subagent '' @ Quote name @ ''.'')
      else if (case cap_subagentIndexes c name of Some index \<Rightarrow> cap_subagents c ! index \<noteq> subagent | None \<Rightarrow> False) then
        Inl (''ConflictingSubagentName'',
          ''Selected AgentSkillSets define conflicting subagent '' @ Quote name @ '' personas.'')
      else apply_set_subagents set_name (insert name seen) subagents (upsertSubagent c subagent))"

definition applySkillSet :: "agentRunCapabilities \<Rightarrow> AgentSkillSet \<Rightarrow> refusal + agentRunCapabilities" where
  "applySkillSet c skillSet =
     (let set_name = om_Namespace (skillset_Meta skillSet) @ ''/'' @ om_Name (skillset_Meta skillSet);
          spec = skillset_Spec skillSet in
      case apply_set_skills set_name {} (sset_Skills spec) c of
        Inl refused \<Rightarrow> Inl refused
      | Inr c \<Rightarrow>
          (case apply_set_tools ''AgentSkillSet'' ''AgentSkillSets'' set_name {} (sset_Tools spec) c of
             Inl refused \<Rightarrow> Inl refused
           | Inr c \<Rightarrow> apply_set_subagents set_name {} (sset_Subagents spec) c))"

definition applyToolSet :: "agentRunCapabilities \<Rightarrow> AgentToolSet \<Rightarrow> refusal + agentRunCapabilities" where
  "applyToolSet c toolSet =
     apply_set_tools ''AgentToolSet'' ''AgentSkillSets and AgentToolSets''
       (om_Namespace (toolset_Meta toolSet) @ ''/'' @ om_Name (toolset_Meta toolSet)) {}
       (tset_Tools (toolset_Spec toolSet)) c"

subsection \<open>Overrides\<close>

definition skillFromOverride :: "AgentSkillOverrideSpec \<Rightarrow> AgentRunSkillInjectionSpec" where
  "skillFromOverride override = \<lparr>
     skill_Name = TrimSpace (ovr_Name override), skill_Description = ovr_Description override,
     skill_Content = ovr_Content override, skill_SourceRefs = ovr_SourceRefs override,
     skill_Paths = ovr_Paths override\<rparr>"

definition augment_skill :: "AgentRunSkillInjectionSpec \<Rightarrow> AgentSkillOverrideSpec \<Rightarrow> AgentRunSkillInjectionSpec" where
  "augment_skill skill override = \<lparr>
     skill_Name = skill_Name skill,
     skill_Description = override_text (skill_Description skill) (ovr_Description override),
     skill_Content =
       (if TrimSpace (ovr_Content override) \<noteq> []
        then mergePromptText (skill_Content skill)
               (''Local override:'' @ [CHR 0x0A] @ TrimSpace (ovr_Content override))
        else skill_Content skill),
     skill_SourceRefs = skill_SourceRefs skill @ ovr_SourceRefs override,
     skill_Paths = appendUniqueStrings (skill_Paths skill) (ovr_Paths override)\<rparr>"

fun operation_text :: "AgentSkillOverrideOperation \<Rightarrow> string" where
  "operation_text AgentSkillOverrideAdd = ''Add''"
| "operation_text AgentSkillOverrideAugment = ''Augment''"
| "operation_text AgentSkillOverrideReplace = ''Replace''"
| "operation_text AgentSkillOverrideDisable = ''Disable''"
| "operation_text (AgentSkillOverrideOther s) = s"

text \<open>One round of the loop of \<^verbatim>\<open>applyOverrides\<close>, after the checks of the name.\<close>

definition apply_override :: "agentRunCapabilities \<Rightarrow> string \<Rightarrow> AgentSkillOverrideSpec \<Rightarrow> refusal + agentRunCapabilities" where
  "apply_override c name override =
     (case ovr_Operation override of
        AgentSkillOverrideAdd \<Rightarrow>
          (case cap_skillIndexes c name of
             Some index \<Rightarrow> Inl (''InvalidSkillOverride'',
               ''Add override for skill '' @ Quote name @ '' requires the skill not to exist.'')
           | None \<Rightarrow> Inr (upsertSkill c (skillFromOverride override)))
      | AgentSkillOverrideAugment \<Rightarrow>
          (case cap_skillIndexes c name of
             None \<Rightarrow> Inl (''UnknownSkillOverride'',
               ''Augment override targets unknown skill '' @ Quote name @ ''.'')
           | Some index \<Rightarrow> Inr (c\<lparr>cap_skills :=
               (cap_skills c)[index := augment_skill (cap_skills c ! index) override]\<rparr>))
      | AgentSkillOverrideReplace \<Rightarrow>
          (case cap_skillIndexes c name of
             None \<Rightarrow> Inl (''UnknownSkillOverride'',
               ''Replace override targets unknown skill '' @ Quote name @ ''.'')
           | Some index \<Rightarrow> Inr (c\<lparr>cap_skills := (cap_skills c)[index := skillFromOverride override]\<rparr>))
      | AgentSkillOverrideDisable \<Rightarrow>
          (case cap_skillIndexes c name of
             None \<Rightarrow> Inl (''UnknownSkillOverride'',
               ''Disable override targets unknown skill '' @ Quote name @ ''.'')
           | Some index \<Rightarrow>
               if TrimSpace (ovr_Description override) \<noteq> [] \<or> TrimSpace (ovr_Content override) \<noteq> [] \<or>
                  ovr_SourceRefs override \<noteq> [] \<or> ovr_Paths override \<noteq> []
               then Inl (''InvalidSkillOverride'',
                 ''Disable override for skill '' @ Quote name @ '' cannot include content fields.'')
               else Inr (removeSkill c index))
      | AgentSkillOverrideOther s \<Rightarrow> Inl (''InvalidSkillOverride'',
          ''Skill override '' @ Quote name @ '' has unsupported operation '' @
          Quote (operation_text (ovr_Operation override)) @ ''.''))"

fun override_loop :: "string set \<Rightarrow> AgentSkillOverrideSpec list \<Rightarrow> agentRunCapabilities \<Rightarrow> refusal + agentRunCapabilities" where
  "override_loop seen [] c = Inr c"
| "override_loop seen (override # overrides) c =
     (let name = TrimSpace (ovr_Name override) in
      if name = [] then Inl (''InvalidSkillOverride'', ''skillSets.overrides[].name must be set.'')
      else if name \<in> seen then
        Inl (''DuplicateSkillOverride'', ''Skill override '' @ Quote name @
          '' appears more than once in the same composition layer.'')
      else (case apply_override c name override of
              Inl refused \<Rightarrow> Inl refused
            | Inr c \<Rightarrow> override_loop (insert name seen) overrides c))"

definition applyOverrides :: "agentRunCapabilities \<Rightarrow> AgentSkillOverrideSpec list \<Rightarrow> refusal + agentRunCapabilities" where
  "applyOverrides c overrides = override_loop {} overrides c"

subsection \<open>Council guidance and the built-in skill\<close>

definition applyCouncilPrompt :: "agentRunCapabilities \<Rightarrow> AgentCouncil option \<Rightarrow> refusal + agentRunCapabilities" where
  "applyCouncilPrompt c council =
     (case council of
        None \<Rightarrow> Inr c
      | Some council \<Rightarrow>
          let prompt = TrimSpace (council_Prompt (council_Spec council));
              council_name = om_Name (council_Meta council);
              name = ''council-'' @ council_name in
          if prompt = [] then Inr c
          else if cap_skillIndexes c name \<noteq> None then
            Inl (''CouncilSkillNameConflict'', ''Skill name '' @ Quote name @ '' is reserved for AgentCouncil '' @
              om_Namespace (council_Meta council) @ ''/'' @ council_name @ '' guidance.'')
          else Inr (upsertSkill c \<lparr>skill_Name = name,
            skill_Description = ''Multi-agent interaction guidance for AgentCouncil '' @ council_name @ ''.'',
            skill_Content = prompt, skill_SourceRefs = [], skill_Paths = []\<rparr>))"

definition createAgentSkillName :: string where "createAgentSkillName = ''create-agent''"
definition createAgentRoleLabel :: string where
  "createAgentRoleLabel = ''control.anvil.hazyforge.io/role''"
definition createAgentAllowLabel :: string where
  "createAgentAllowLabel = ''control.anvil.hazyforge.io/create-agent''"
definition createAgentWrapperName :: string where
  "createAgentWrapperName = ''anvil-desktop-wrapper''"

definition json_pair :: "string \<Rightarrow> string \<Rightarrow> string" where
  "json_pair k v = [CHR 0x22] @ k @ [CHR 0x22] @ '':'' @ [CHR 0x22] @ v @ [CHR 0x22]"

definition createAgentSkillWhen :: string where
  "createAgentSkillWhen =
     ''Create a named teammate (AgentRunProfile + standing-chat thread when chat is '' @
     ''enabled). Wrapper and manager only; peers request via requestPeer.''"

definition createAgentSkillContent :: string where
  "createAgentSkillContent =
     ''You have the baked-in create-agent tool. Only the Desktop Wrapper or a project '' @
     ''manager may create AgentRunProfiles.'' @
     [CHR 0x0A, CHR 0x0A] @
     ''When the operator wants a new teammate, call create-agent with a DNS-1123 name, a '' @
     ''description or title, and optional systemPrompt or harnessProfileName. Desktop '' @
     ''fulfills the POST (composition write). You do not receive OIDC tokens.'' @
     [CHR 0x0A, CHR 0x0A] @
     ''After success, tell peers the new profile name so they can address it.'' @
     [CHR 0x0A, CHR 0x0A] @
     ''If you are not Wrapper/manager, do not call create-agent. Emit requestPeer '' @
     ''STATUS_JSON instead:'' @
     [CHR 0x0A, CHR 0x0A] @
     ''ANVIL_AGENT_RUN_STATUS_JSON={'' @
       json_pair ''type'' ''decision'' @ '','' @
       json_pair ''action'' ''requestPeer'' @ '','' @
       json_pair ''request'' ''create-agent'' @ '','' @
       json_pair ''name'' ''<dns-label>'' @ '','' @
       json_pair ''description'' ''<why>'' @ '','' @
       json_pair ''peerProfileName'' ''desktop-manager'' @
     ''}'' @ [CHR 0x0A, CHR 0x0A] @
     ''Peers who call create-agent themselves are refused.''"

definition createAgentManagerNames :: "string list" where
  "createAgentManagerNames = [''desktop-manager'', ''manager-hazy-trade'', ''anvil-primaris-agent-manager'',
     ''hazy-trade-agent-manager'', createAgentWrapperName, ''wrapper'']"

definition profileMayCreateAgent :: "AgentRunProfile option \<Rightarrow> bool" where
  "profileMayCreateAgent profile =
     (case profile of
        None \<Rightarrow> False
      | Some profile \<Rightarrow>
          let name = ToLower (TrimSpace (om_Name (profile_Meta profile)));
              labels = om_Labels (profile_Meta profile);
              role = ToLower (TrimSpace (map_get labels createAgentRoleLabel)) in
          if name \<in> set createAgentManagerNames then True
          else if HasSuffix name ''-agent-manager'' then True
          else if role = ''wrapper'' \<or> role = ''manager'' then True
          else ToLower (TrimSpace (map_get labels createAgentAllowLabel)) = ''allow'')"

definition create_agent_skill :: AgentRunSkillInjectionSpec where
  "create_agent_skill = \<lparr>skill_Name = createAgentSkillName, skill_Description = createAgentSkillWhen,
     skill_Content = createAgentSkillContent, skill_SourceRefs = [], skill_Paths = []\<rparr>"

definition applyCreateAgentSkill :: "agentRunCapabilities \<Rightarrow> AgentRunProfile option \<Rightarrow> agentRunCapabilities" where
  "applyCreateAgentSkill c profile =
     (if profileMayCreateAgent profile then upsertSkill c create_agent_skill
      else case cap_skillIndexes c createAgentSkillName of
        Some index \<Rightarrow> removeSkill c index
      | None \<Rightarrow> c)"

subsection \<open>The position maps\<close>

lemma option_eqI: "(\<And>x. a = Some x \<longleftrightarrow> b = Some x) \<Longrightarrow> a = b"
  by (cases a; cases b) auto

definition indexed_by :: "('a \<Rightarrow> string) \<Rightarrow> 'a list \<Rightarrow> (string \<Rightarrow> nat option) \<Rightarrow> bool" where
  "indexed_by key xs indexes \<longleftrightarrow> (\<forall>n i. indexes n = Some i \<longleftrightarrow> i < length xs \<and> key (xs ! i) = n)"

lemma indexed_byD:
  assumes "indexed_by key xs indexes"
  shows "indexes n = Some i \<longleftrightarrow> i < length xs \<and> key (xs ! i) = n"
    and "indexes n = None \<longleftrightarrow> n \<notin> key ` set xs"
proof -
  show some: "indexes n = Some i \<longleftrightarrow> i < length xs \<and> key (xs ! i) = n" for i
    using assms by (simp add: indexed_by_def)
  have "(\<exists>i. indexes n = Some i) \<longleftrightarrow> (\<exists>i < length xs. key (xs ! i) = n)"
    using some by auto
  also have "\<dots> \<longleftrightarrow> n \<in> key ` set xs"
    by (metis (no_types, lifting) image_iff in_set_conv_nth)
  finally show "indexes n = None \<longleftrightarrow> n \<notin> key ` set xs"
    by (cases "indexes n") auto
qed

lemma indexed_by_distinct: "indexed_by key xs indexes \<Longrightarrow> distinct (map key xs)"
proof -
  assume ok: "indexed_by key xs indexes"
  have "i = j" if "i < length xs" "j < length xs" "key (xs ! i) = key (xs ! j)" for i j
  proof -
    have "indexes (key (xs ! j)) = Some i" "indexes (key (xs ! j)) = Some j"
      using ok that by (simp_all add: indexed_by_def)
    then show ?thesis by simp
  qed
  then show ?thesis by (auto simp: distinct_conv_nth)
qed

lemma indexed_by_Nil [simp]: "indexed_by key [] Map.empty"
  by (simp add: indexed_by_def)

lemma indexed_by_update:
  assumes "indexed_by key xs indexes" and "indexes (key x) = Some i"
  shows "indexed_by key (xs[i := x]) indexes"
proof -
  have "key (xs[i := x] ! j) = key (xs ! j)" for j
    using assms by (cases "j = i") (auto simp: indexed_by_def)
  then show ?thesis using assms(1) by (simp add: indexed_by_def)
qed

lemma indexed_by_append:
  assumes "indexed_by key xs indexes" and "key x \<notin> key ` set xs"
  shows "indexed_by key (xs @ [x]) (indexes(key x \<mapsto> length xs))"
proof -
  have "key (xs ! i) \<noteq> key x" if "i < length xs" for i
    using assms(2) that by (metis image_eqI nth_mem)
  then show ?thesis
    using assms(1) by (auto simp: indexed_by_def nth_append less_Suc_eq)
qed

lemma indexed_by_rebuild:
  assumes "indexed_by key out indexes" and "distinct (map key (out @ xs))"
  shows "indexed_by key (out @ xs) (key_positions (\<lambda>_. True) key (length out) xs indexes)"
  using assms
proof (induction xs arbitrary: out indexes)
  case (Cons x xs)
  have "indexed_by key (out @ [x]) (indexes(key x \<mapsto> length out))"
    using Cons.prems by (intro indexed_by_append) auto
  from Cons.IH [OF this] show ?case using Cons.prems(2) by (simp add: fun_upd_def)
qed simp

text \<open>The map from names to entries that a list and its positions stand for.\<close>

definition entry_named :: "'a list \<Rightarrow> (string \<Rightarrow> nat option) \<Rightarrow> string \<Rightarrow> 'a option" where
  "entry_named xs indexes n = map_option (\<lambda>i. xs ! i) (indexes n)"

lemma entry_named_iff:
  assumes "indexed_by key xs indexes"
  shows "entry_named xs indexes n = Some x \<longleftrightarrow> x \<in> set xs \<and> key x = n"
proof
  assume "entry_named xs indexes n = Some x"
  then show "x \<in> set xs \<and> key x = n"
    using indexed_byD(1) [OF assms] by (auto simp: entry_named_def)
next
  assume x: "x \<in> set xs \<and> key x = n"
  then obtain i where "i < length xs" "xs ! i = x" by (auto simp: in_set_conv_nth)
  then show "entry_named xs indexes n = Some x"
    using indexed_byD(1) [OF assms, of n i] x by (simp add: entry_named_def)
qed

lemma entry_named_None:
  assumes "indexed_by key xs indexes"
  shows "entry_named xs indexes n = None \<longleftrightarrow> indexes n = None"
  by (simp add: entry_named_def)

lemma entry_named_update:
  assumes "indexed_by key xs indexes" and "indexes (key x) = Some i"
  shows "entry_named (xs[i := x]) indexes = (entry_named xs indexes)(key x \<mapsto> x)"
proof
  fix n
  have "i < length xs" using assms by (simp add: indexed_by_def)
  moreover have "indexes n \<noteq> Some i" if "n \<noteq> key x"
    using assms that by (auto simp: indexed_by_def)
  ultimately show "entry_named (xs[i := x]) indexes n = ((entry_named xs indexes)(key x \<mapsto> x)) n"
    using assms by (cases "indexes n") (auto simp: entry_named_def nth_list_update)
qed

lemma upsert_entry_law:
  assumes ok: "indexed_by key xs indexes" and up: "upsert_entry (key x) x xs indexes = (xs', indexes')"
  shows "indexed_by key xs' indexes' \<and> entry_named xs' indexes' = (entry_named xs indexes)(key x \<mapsto> x)"
proof (cases "indexes (key x)")
  case None
  then have new: "key x \<notin> key ` set xs" using indexed_byD(2) [OF ok] by simp
  have res: "xs' = xs @ [x]" "indexes' = indexes(key x \<mapsto> length xs)"
    using up None by (auto simp: upsert_entry_def)
  have "entry_named xs' indexes' n = ((entry_named xs indexes)(key x \<mapsto> x)) n" for n
  proof (cases "indexes n")
    case (Some i)
    then have "i < length xs" using indexed_byD(1) [OF ok] by blast
    then show ?thesis unfolding res using Some by (auto simp: entry_named_def nth_append)
  qed (simp add: res entry_named_def)
  then show ?thesis using indexed_by_append [OF ok new] res by auto
next
  case (Some i)
  then show ?thesis
    using up indexed_by_update [OF ok Some] entry_named_update [OF ok Some]
    by (auto simp: upsert_entry_def)
qed

subsection \<open>Capabilities as tables\<close>

definition caps_ok :: "agentRunCapabilities \<Rightarrow> bool" where
  "caps_ok c \<longleftrightarrow>
     indexed_by skill_key (cap_skills c) (cap_skillIndexes c) \<and>
     indexed_by tool_key (cap_tools c) (cap_toolIndexes c) \<and>
     indexed_by subagent_key (cap_subagents c) (cap_subagentIndexes c)"

definition skill_named :: "agentRunCapabilities \<Rightarrow> string \<Rightarrow> AgentRunSkillInjectionSpec option" where
  "skill_named c = entry_named (cap_skills c) (cap_skillIndexes c)"

definition tool_named :: "agentRunCapabilities \<Rightarrow> string \<Rightarrow> AgentRunToolSpec option" where
  "tool_named c = entry_named (cap_tools c) (cap_toolIndexes c)"

definition subagent_named :: "agentRunCapabilities \<Rightarrow> string \<Rightarrow> AgentRunSubagentSpec option" where
  "subagent_named c = entry_named (cap_subagents c) (cap_subagentIndexes c)"

lemmas named_defs = skill_named_def tool_named_def subagent_named_def

lemma caps_ok_new [simp]: "caps_ok newAgentRunCapabilities"
  by (simp add: caps_ok_def newAgentRunCapabilities_def)

text \<open>
  What the composition relies on: an upsert sets the entry of its name and no other, and the
  entries are exactly those found by name, each name once.
\<close>

locale capability_table =
  fixes upsert :: "agentRunCapabilities \<Rightarrow> 'a \<Rightarrow> agentRunCapabilities"
    and entries :: "agentRunCapabilities \<Rightarrow> 'a list"
    and named :: "agentRunCapabilities \<Rightarrow> string \<Rightarrow> 'a option"
    and key :: "'a \<Rightarrow> string"
  assumes upsert_ok: "caps_ok c \<Longrightarrow> caps_ok (upsert c x)"
    and upsert_named: "caps_ok c \<Longrightarrow> named (upsert c x) = (named c)(key x \<mapsto> x)"
    and named_iff: "caps_ok c \<Longrightarrow> named c n = Some x \<longleftrightarrow> x \<in> set (entries c) \<and> key x = n"
    and entries_distinct: "caps_ok c \<Longrightarrow> distinct (map key (entries c))"
begin

lemma overlay_ok: "caps_ok c \<Longrightarrow> caps_ok (foldl upsert c xs)"
  by (induction xs arbitrary: c) (simp_all add: upsert_ok)

lemma overlay_named:
  "caps_ok c \<Longrightarrow> named (foldl upsert c xs) n =
     (case last_entry (\<lambda>x. key x = n) xs of Some x \<Rightarrow> Some x | None \<Rightarrow> named c n)"
  by (induction xs arbitrary: c) (simp_all add: upsert_ok upsert_named split: option.splits)

lemma named_None: "caps_ok c \<Longrightarrow> named c n = None \<longleftrightarrow> n \<notin> key ` set (entries c)"
  using named_iff by (metis (no_types, lifting) image_iff not_None_eq)

end

interpretation skill_table: capability_table upsertSkill cap_skills skill_named skill_key
proof
  fix c x n y assume ok: "caps_ok c"
  obtain xs' is' where up: "upsert_entry (skill_key x) x (cap_skills c) (cap_skillIndexes c) = (xs', is')"
    by fastforce
  note law = upsert_entry_law [where key = skill_key, OF _ up]
  show "caps_ok (upsertSkill c x)" "skill_named (upsertSkill c x) = (skill_named c)(skill_key x \<mapsto> x)"
    using ok law up by (simp_all add: caps_ok_def upsertSkill_def skill_named_def)
  show "skill_named c n = Some y \<longleftrightarrow> y \<in> set (cap_skills c) \<and> skill_key y = n"
    using ok entry_named_iff [of skill_key] by (simp add: caps_ok_def skill_named_def)
  show "distinct (map skill_key (cap_skills c))"
    using ok by (intro indexed_by_distinct [of skill_key _ "cap_skillIndexes c"]) (simp add: caps_ok_def)
qed

interpretation tool_table: capability_table upsertTool cap_tools tool_named tool_key
proof
  fix c x n y assume ok: "caps_ok c"
  obtain xs' is' where up: "upsert_entry (tool_key x) x (cap_tools c) (cap_toolIndexes c) = (xs', is')"
    by fastforce
  note law = upsert_entry_law [where key = tool_key, OF _ up]
  show "caps_ok (upsertTool c x)" "tool_named (upsertTool c x) = (tool_named c)(tool_key x \<mapsto> x)"
    using ok law up by (simp_all add: caps_ok_def upsertTool_def tool_named_def)
  show "tool_named c n = Some y \<longleftrightarrow> y \<in> set (cap_tools c) \<and> tool_key y = n"
    using ok entry_named_iff [of tool_key] by (simp add: caps_ok_def tool_named_def)
  show "distinct (map tool_key (cap_tools c))"
    using ok by (intro indexed_by_distinct [of tool_key _ "cap_toolIndexes c"]) (simp add: caps_ok_def)
qed

interpretation subagent_table: capability_table upsertSubagent cap_subagents subagent_named subagent_key
proof
  fix c x n y assume ok: "caps_ok c"
  obtain xs' is' where up: "upsert_entry (subagent_key x) x (cap_subagents c) (cap_subagentIndexes c) = (xs', is')"
    by fastforce
  note law = upsert_entry_law [where key = subagent_key, OF _ up]
  show "caps_ok (upsertSubagent c x)"
    "subagent_named (upsertSubagent c x) = (subagent_named c)(subagent_key x \<mapsto> x)"
    using ok law up by (simp_all add: caps_ok_def upsertSubagent_def subagent_named_def)
  show "subagent_named c n = Some y \<longleftrightarrow> y \<in> set (cap_subagents c) \<and> subagent_key y = n"
    using ok entry_named_iff [of subagent_key] by (simp add: caps_ok_def subagent_named_def)
  show "distinct (map subagent_key (cap_subagents c))"
    using ok by (intro indexed_by_distinct [of subagent_key _ "cap_subagentIndexes c"]) (simp add: caps_ok_def)
qed

text \<open>An upsert leaves the other two tables alone.\<close>

lemma upsert_frames [simp]:
  "tool_named (upsertSkill c s) = tool_named c" "subagent_named (upsertSkill c s) = subagent_named c"
  "skill_named (upsertTool c t) = skill_named c" "subagent_named (upsertTool c t) = subagent_named c"
  "skill_named (upsertSubagent c a) = skill_named c" "tool_named (upsertSubagent c a) = tool_named c"
  by (simp_all add: named_defs upsertSkill_def upsertTool_def upsertSubagent_def split: prod.split)

lemma skill_named_index: "caps_ok c \<Longrightarrow> cap_skillIndexes c n = None \<longleftrightarrow> skill_named c n = None"
  by (simp add: skill_named_def entry_named_def)

lemma remove_skill:
  assumes ok: "caps_ok c" and i: "cap_skillIndexes c n = Some i"
  shows "caps_ok (removeSkill c i)" and "skill_named (removeSkill c i) = (skill_named c)(n := None)"
    and "tool_named (removeSkill c i) = tool_named c"
    and "subagent_named (removeSkill c i) = subagent_named c"
proof -
  let ?skills = "take i (cap_skills c) @ drop (Suc i) (cap_skills c)"
  have at: "i < length (cap_skills c)" "skill_key (cap_skills c ! i) = n"
    using ok i by (auto simp: caps_ok_def indexed_by_def)
  have whole: "cap_skills c = take i (cap_skills c) @ cap_skills c ! i # drop (Suc i) (cap_skills c)"
    by (rule id_take_nth_drop [OF at(1)])
  have distinct_all: "distinct (map skill_key (take i (cap_skills c) @ cap_skills c ! i # drop (Suc i) (cap_skills c)))"
    using skill_table.entries_distinct [OF ok] whole by simp
  then have "indexed_by skill_key ?skills
      (key_positions (\<lambda>_. True) skill_key 0 ?skills Map.empty)"
    using indexed_by_rebuild [of skill_key "[]" Map.empty ?skills] by simp
  then show ok': "caps_ok (removeSkill c i)"
    using ok by (simp add: caps_ok_def removeSkill_def Let_def)
  show "tool_named (removeSkill c i) = tool_named c"
    "subagent_named (removeSkill c i) = subagent_named c"
    by (simp_all add: removeSkill_def named_defs Let_def)
  have "set (cap_skills c) = insert (cap_skills c ! i) (set ?skills)"
    using arg_cong [OF whole, of set] by simp
  moreover have "n \<notin> skill_key ` set ?skills"
    using distinct_all at(2) by auto
  then have "skill_key x \<noteq> n" if "x \<in> set ?skills" for x
    using that by blast
  ultimately have "set ?skills = {x \<in> set (cap_skills c). skill_key x \<noteq> n}"
    using at(2) by auto
  then have "set (cap_skills (removeSkill c i)) = {x \<in> set (cap_skills c). skill_key x \<noteq> n}"
    by (simp add: removeSkill_def Let_def)
  then have "skill_named (removeSkill c i) m = Some x \<longleftrightarrow> ((skill_named c)(n := None)) m = Some x" for m x
    using skill_table.named_iff [OF ok'] skill_table.named_iff [OF ok] by auto
  then show "skill_named (removeSkill c i) = (skill_named c)(n := None)"
    by (intro ext option_eqI)
qed

subsection \<open>Every operation keeps the tables\<close>

lemma set_skills_ok: "caps_ok c \<Longrightarrow> apply_set_skills nm seen skills c = Inr c' \<Longrightarrow> caps_ok c'"
  by (induction nm seen skills c rule: apply_set_skills.induct)
    (auto simp: Let_def skill_table.upsert_ok split: if_splits)

lemma set_tools_ok: "caps_ok c \<Longrightarrow> apply_set_tools kind sel nm seen tools c = Inr c' \<Longrightarrow> caps_ok c'"
  by (induction kind sel nm seen tools c rule: apply_set_tools.induct)
    (auto simp: Let_def tool_table.upsert_ok split: if_splits option.splits)

lemma set_subagents_ok: "caps_ok c \<Longrightarrow> apply_set_subagents nm seen subs c = Inr c' \<Longrightarrow> caps_ok c'"
  by (induction nm seen subs c rule: apply_set_subagents.induct)
    (auto simp: Let_def subagent_table.upsert_ok split: if_splits option.splits)

lemma skill_set_ok:
  assumes ok: "caps_ok c" and applied: "applySkillSet c skillSet = Inr c'"
  shows "caps_ok c'"
proof -
  obtain nm c1 c2 where
      skills: "apply_set_skills nm {} (sset_Skills (skillset_Spec skillSet)) c = Inr c1" and
      tools: "apply_set_tools ''AgentSkillSet'' ''AgentSkillSets'' nm {} (sset_Tools (skillset_Spec skillSet)) c1 = Inr c2" and
      subs: "apply_set_subagents nm {} (sset_Subagents (skillset_Spec skillSet)) c2 = Inr c'"
    using applied unfolding applySkillSet_def Let_def by (auto split: sum.splits)
  show ?thesis
    by (rule set_subagents_ok [OF set_tools_ok [OF set_skills_ok [OF ok skills] tools] subs])
qed

lemma tool_set_ok: "caps_ok c \<Longrightarrow> applyToolSet c toolSet = Inr c' \<Longrightarrow> caps_ok c'"
  unfolding applyToolSet_def by (rule set_tools_ok)

lemma rewrite_skill:
  assumes ok: "caps_ok c" and i: "cap_skillIndexes c (skill_key s) = Some i"
  shows "caps_ok (c\<lparr>cap_skills := (cap_skills c)[i := s]\<rparr>)"
    and "skill_named (c\<lparr>cap_skills := (cap_skills c)[i := s]\<rparr>) = (skill_named c)(skill_key s \<mapsto> s)"
proof -
  have "upsertSkill c s = c\<lparr>cap_skills := (cap_skills c)[i := s]\<rparr>"
    using i by (simp add: upsertSkill_def upsert_entry_def)
  then show "caps_ok (c\<lparr>cap_skills := (cap_skills c)[i := s]\<rparr>)"
    "skill_named (c\<lparr>cap_skills := (cap_skills c)[i := s]\<rparr>) = (skill_named c)(skill_key s \<mapsto> s)"
    using skill_table.upsert_ok [OF ok, of s] skill_table.upsert_named [OF ok, of s] by simp_all
qed

lemma override_keys [simp]:
  "skill_key (skillFromOverride override) = TrimSpace (ovr_Name override)"
  "skill_key (augment_skill skill override) = skill_key skill"
  by (simp_all add: skillFromOverride_def augment_skill_def)

subsection \<open>Overrides refine updates of a map\<close>

text \<open>
  What an override means, on the map from names to skills: \<open>None\<close> where it is refused. A layer
  is a list of overrides with distinct non-blank names.
\<close>

definition spec_override :: "(string \<Rightarrow> AgentRunSkillInjectionSpec option) \<Rightarrow> AgentSkillOverrideSpec \<Rightarrow> (string \<Rightarrow> AgentRunSkillInjectionSpec option) option" where
  "spec_override m override =
     (let name = TrimSpace (ovr_Name override) in
      case (ovr_Operation override, m name) of
        (AgentSkillOverrideAdd, None) \<Rightarrow> Some (m(name \<mapsto> skillFromOverride override))
      | (AgentSkillOverrideAugment, Some skill) \<Rightarrow> Some (m(name \<mapsto> augment_skill skill override))
      | (AgentSkillOverrideReplace, Some _) \<Rightarrow> Some (m(name \<mapsto> skillFromOverride override))
      | (AgentSkillOverrideDisable, Some _) \<Rightarrow>
          if TrimSpace (ovr_Description override) = [] \<and> TrimSpace (ovr_Content override) = [] \<and>
             ovr_SourceRefs override = [] \<and> ovr_Paths override = []
          then Some (m(name := None)) else None
      | _ \<Rightarrow> None)"

fun spec_overrides :: "(string \<Rightarrow> AgentRunSkillInjectionSpec option) \<Rightarrow> AgentSkillOverrideSpec list \<Rightarrow> (string \<Rightarrow> AgentRunSkillInjectionSpec option) option" where
  "spec_overrides m [] = Some m"
| "spec_overrides m (override # overrides) =
     (case spec_override m override of None \<Rightarrow> None | Some m' \<Rightarrow> spec_overrides m' overrides)"

definition layer_names_ok :: "AgentSkillOverrideSpec list \<Rightarrow> bool" where
  "layer_names_ok overrides \<longleftrightarrow>
     [] \<notin> set (map (\<lambda>o1. TrimSpace (ovr_Name o1)) overrides) \<and>
     distinct (map (\<lambda>o1. TrimSpace (ovr_Name o1)) overrides)"

text \<open>The relation between an outcome of the code and one of the specification.\<close>

definition refines_skills :: "agentRunCapabilities \<Rightarrow> refusal + agentRunCapabilities \<Rightarrow> (string \<Rightarrow> AgentRunSkillInjectionSpec option) option \<Rightarrow> bool" where
  "refines_skills c outcome spec \<longleftrightarrow>
     (case outcome of
        Inl _ \<Rightarrow> spec = None
      | Inr c' \<Rightarrow> caps_ok c' \<and> spec = Some (skill_named c') \<and>
          tool_named c' = tool_named c \<and> subagent_named c' = subagent_named c)"

lemma refines_skills_frame:
  "refines_skills c' outcome spec \<Longrightarrow> tool_named c' = tool_named c \<Longrightarrow>
   subagent_named c' = subagent_named c \<Longrightarrow> refines_skills c outcome spec"
  by (simp add: refines_skills_def split: sum.splits)

lemma apply_override_refines:
  assumes ok: "caps_ok c"
  shows "refines_skills c (apply_override c (TrimSpace (ovr_Name override)) override)
    (spec_override (skill_named c) override)"
proof -
  let ?n = "TrimSpace (ovr_Name override)"
  have frame: "tool_named (c\<lparr>cap_skills := xs\<rparr>) = tool_named c"
    "subagent_named (c\<lparr>cap_skills := xs\<rparr>) = subagent_named c" for xs
    by (simp_all add: named_defs)
  show ?thesis
  proof (cases "cap_skillIndexes c ?n")
    case None
    moreover have "skill_named c ?n = None" using None skill_named_index [OF ok] by simp
    ultimately show ?thesis
      using skill_table.upsert_ok [OF ok] skill_table.upsert_named [OF ok]
      by (cases "ovr_Operation override")
        (simp_all add: refines_skills_def apply_override_def spec_override_def)
  next
    case (Some i)
    let ?skill = "cap_skills c ! i"
    have found: "skill_named c ?n = Some ?skill" "skill_key ?skill = ?n"
      using Some ok by (auto simp: skill_named_def entry_named_def caps_ok_def indexed_by_def)
    note rewrite = rewrite_skill [OF ok, where i = i]
    have "cap_skillIndexes c (skill_key (augment_skill ?skill override)) = Some i"
      "cap_skillIndexes c (skill_key (skillFromOverride override)) = Some i"
      using Some found by simp_all
    note augment = rewrite [OF this(1)] and replace = rewrite [OF this(2)]
    note outcome = refines_skills_def apply_override_def spec_override_def Let_def
    show ?thesis
    proof (cases "ovr_Operation override")
      case AgentSkillOverrideAugment
      then show ?thesis using Some found(1) augment found(2) by (simp add: outcome frame)
    next
      case AgentSkillOverrideReplace
      then show ?thesis using Some found(1) replace by (simp add: outcome frame)
    next
      case AgentSkillOverrideDisable
      then show ?thesis using Some found(1) remove_skill [OF ok Some] by (simp add: outcome)
    qed (use Some found(1) in \<open>simp_all add: outcome\<close>)
  qed
qed

lemma override_loop_refines:
  assumes "caps_ok c"
  shows "refines_skills c (override_loop seen overrides c)
    (if layer_names_ok overrides \<and> seen \<inter> set (map (\<lambda>o1. TrimSpace (ovr_Name o1)) overrides) = {}
     then spec_overrides (skill_named c) overrides else None)"
  using assms
proof (induction seen overrides c rule: override_loop.induct)
  case (1 seen c)
  then show ?case by (simp add: refines_skills_def layer_names_ok_def)
next
  case (2 seen override overrides c)
  let ?n = "TrimSpace (ovr_Name override)"
  note step = apply_override_refines [OF "2.prems", of override]
  show ?case
  proof (cases "?n = [] \<or> ?n \<in> seen")
    case True
    then show ?thesis by (auto simp: refines_skills_def layer_names_ok_def Let_def)
  next
    case fresh: False
    show ?thesis
    proof (cases "apply_override c ?n override")
      case (Inl r)
      then show ?thesis using step fresh by (simp add: refines_skills_def Let_def)
    next
      case (Inr c')
      have c': "caps_ok c'" "spec_override (skill_named c) override = Some (skill_named c')"
        "tool_named c' = tool_named c" "subagent_named c' = subagent_named c"
        using step Inr by (simp_all add: refines_skills_def)
      have names: "layer_names_ok (override # overrides) \<and>
          seen \<inter> set (map (\<lambda>o1. TrimSpace (ovr_Name o1)) (override # overrides)) = {} \<longleftrightarrow>
        layer_names_ok overrides \<and>
          insert ?n seen \<inter> set (map (\<lambda>o1. TrimSpace (ovr_Name o1)) overrides) = {}"
        using fresh by (auto simp: layer_names_ok_def)
      have loop: "override_loop seen (override # overrides) c = override_loop (insert ?n seen) overrides c'"
        using fresh Inr by (simp add: Let_def)
      have spec: "spec_overrides (skill_named c) (override # overrides) = spec_overrides (skill_named c') overrides"
        using c'(2) by simp
      have "refines_skills c' (override_loop (insert ?n seen) overrides c')
         (if layer_names_ok overrides \<and> insert ?n seen \<inter> set (map (\<lambda>o1. TrimSpace (ovr_Name o1)) overrides) = {}
          then spec_overrides (skill_named c') overrides else None)"
        using "2.IH" [OF refl _ _ Inr c'(1)] fresh by simp
      then show ?thesis
        unfolding names loop spec by (rule refines_skills_frame) (rule c'(3) c'(4))+
    qed
  qed
qed

text \<open>
  C37. One layer of skill overrides refines the corresponding updates of the map from skill
  names to skills: the code accepts the layer exactly when its names are non-blank and
  distinct and each operation applies (Add to an absent skill, the others to a present
  one), the positions and the list it keeps then denote exactly the updated map, and tools
  and subagents do not change.
\<close>

theorem overrides_refine_map_updates:
  assumes "caps_ok c"
  shows "refines_skills c (applyOverrides c overrides)
    (if layer_names_ok overrides then spec_overrides (skill_named c) overrides else None)"
  using override_loop_refines [OF assms, of "{}" overrides] by (simp add: applyOverrides_def)

definition demo_skill :: "string \<Rightarrow> string \<Rightarrow> AgentRunSkillInjectionSpec" where
  "demo_skill name content = \<lparr>skill_Name = name, skill_Description = [], skill_Content = content,
     skill_SourceRefs = [], skill_Paths = []\<rparr>"

definition demo_override :: "AgentSkillOverrideOperation \<Rightarrow> string \<Rightarrow> string \<Rightarrow> AgentSkillOverrideSpec" where
  "demo_override operation name content = \<lparr>ovr_Name = name, ovr_Operation = operation,
     ovr_Description = [], ovr_Content = content, ovr_SourceRefs = [], ovr_Paths = []\<rparr>"

definition demo_caps :: agentRunCapabilities where
  "demo_caps = upsertSkill (upsertSkill newAgentRunCapabilities (demo_skill ''kb'' ''read'')) (demo_skill ''ops'' ''watch'')"

lemma demo_caps_ok: "caps_ok demo_caps"
  by (simp add: demo_caps_def skill_table.upsert_ok)

theorem overrides_refine_map_updates_witness:
  "refines_skills demo_caps
     (applyOverrides demo_caps [demo_override AgentSkillOverrideDisable ''kb'' [],
        demo_override AgentSkillOverrideAugment '' ops'' ''page''])
     (spec_overrides (skill_named demo_caps) [demo_override AgentSkillOverrideDisable ''kb'' [],
        demo_override AgentSkillOverrideAugment '' ops'' ''page'']) \<and>
   \<not> isl (applyOverrides demo_caps [demo_override AgentSkillOverrideDisable ''kb'' [],
        demo_override AgentSkillOverrideAugment '' ops'' ''page''])"
proof -
  have "layer_names_ok [demo_override AgentSkillOverrideDisable ''kb'' [],
        demo_override AgentSkillOverrideAugment '' ops'' ''page'']"
    by code_simp
  moreover have "\<not> isl (applyOverrides demo_caps [demo_override AgentSkillOverrideDisable ''kb'' [],
        demo_override AgentSkillOverrideAugment '' ops'' ''page''])"
    by code_simp
  ultimately show ?thesis
    using overrides_refine_map_updates [OF demo_caps_ok, of "[demo_override AgentSkillOverrideDisable ''kb'' [],
        demo_override AgentSkillOverrideAugment '' ops'' ''page'']"] by simp
qed

end
