(* ===== verification/Composition.thy ===== *)
theory Composition
  imports Capabilities Runes
begin

text \<open>
  \<^verbatim>\<open>internal/controller/agent_run_composition.go\<close>: how the effective specification of a run is
  resolved from its profile, harness profile, skill sets, tool sets and council. The API
  server is a parameter: \<open>composition_reader\<close> holds the reads of the one reader that the
  resolution uses, as functions of namespace and name, and the JSON encodings of the
  specifications it digests. Two reads of the same object give the same answer, so the model
  is of a resolution during which these objects do not change.

  Go's \<^verbatim>\<open>phase, reason, message, err\<close> results are the type \<open>resolution\<close>. A list of global sets is
  sorted by name; names are unique in a namespace, so the order of equal names does not arise.
\<close>

record composition_reader =
  rd_GetProfile :: "string \<Rightarrow> string \<Rightarrow> AgentRunProfile result"
  rd_GetHarnessProfile :: "string \<Rightarrow> string \<Rightarrow> AgentHarnessProfile result"
  rd_GetSkillSet :: "string \<Rightarrow> string \<Rightarrow> AgentSkillSet result"
  rd_ListSkillSets :: "string \<Rightarrow> AgentSkillSet list result"
  rd_GetToolSet :: "string \<Rightarrow> string \<Rightarrow> AgentToolSet result"
  rd_ListToolSets :: "string \<Rightarrow> AgentToolSet list result"
  rd_GetCouncil :: "string \<Rightarrow> string \<Rightarrow> AgentCouncil result"
  rd_MarshalProfileSpec :: "AgentRunProfileSpec \<Rightarrow> string option"
  rd_MarshalHarnessProfileSpec :: "AgentHarnessProfileSpec \<Rightarrow> string option"
  rd_MarshalSkillSetSpec :: "AgentSkillSetSpec \<Rightarrow> string option"
  rd_MarshalToolSetSpec :: "AgentToolSetSpec \<Rightarrow> string option"
  rd_MarshalCouncilSpec :: "AgentCouncilSpec \<Rightarrow> string option"
  rd_MarshalRunSpec :: "AgentRunSpec \<Rightarrow> string option"

datatype 'a resolution = Resolved 'a | Held AgentRunPhase string string | Broken go_error

definition refuse :: "refusal \<Rightarrow> 'a resolution" where
  "refuse r = Held AgentRunPhaseFailed (fst r) (snd r)"

subsection \<open>Credential bootstrap environment\<close>

definition agentRunReservedCredentialBootstrapEnvironment :: "string list" where
  "agentRunReservedCredentialBootstrapEnvironment = [
     ''ANVIL_AGENT_RUN_GH_CONFIG_DIR'', ''ANVIL_AGENT_RUN_TIMEOUT_SECONDS'',
     ''ANVIL_GITHUB_APP_PERMISSIONS_JSON'', ''ANVIL_GITHUB_APP_REPOSITORY'',
     ''ANVIL_GITHUB_APP_REPOSITORY_ID'', ''ANVIL_GITHUB_HOST'', ''GH_CONFIG_DIR'', ''GH_HOST'',
     ''GH_TOKEN'', ''GITHUB_APP_ID'', ''GITHUB_APP_INSTALLATION_ID'', ''GITHUB_APP_PRIVATE_KEY'',
     ''GITHUB_TOKEN'']"

fun reserved_env :: "EnvVar list \<Rightarrow> refusal option" where
  "reserved_env [] = None"
| "reserved_env (item # items) =
     (let name = TrimSpace (env_Name item) in
      if name \<in> set agentRunReservedCredentialBootstrapEnvironment then
        Some (''ReservedCredentialBootstrapEnvironment'',
          ''spec.harness.execution.extraEnv must not set reserved credential bootstrap variable '' @ Quote name @
          ''; configure it in a policy-reviewed profile or Secret.'')
      else reserved_env items)"

definition validateAgentRunCredentialBootstrapEnvironment :: "AgentRun \<Rightarrow> refusal option" where
  "validateAgentRunCredentialBootstrapEnvironment obj =
     reserved_env (ex_ExtraEnv (har_Execution (spec_Harness (run_Spec obj))))"

definition agentRunResolvedScopeStatus :: "AgentRunScopeSpec \<Rightarrow> AgentRunResolvedScopeStatus option" where
  "agentRunResolvedScopeStatus scope =
     (let repo = normalizeAgentRunRepository (scope_Repository scope);
          status = \<lparr>
            rsc_Application = (case scope_ApplicationRef scope of None \<Rightarrow> [] | Some r \<Rightarrow> TrimSpace (app_Name r)),
            rsc_ApplicationTarget =
              (case scope_ApplicationTargetRef scope of None \<Rightarrow> [] | Some r \<Rightarrow> TrimSpace (apptarget_Name r)),
            rsc_Repository = (case repo of None \<Rightarrow> [] | Some r \<Rightarrow> repo_Name r),
            rsc_RepositoryRef = (case repo of None \<Rightarrow> [] | Some r \<Rightarrow> repo_Ref r),
            rsc_DestinationBranch = (case repo of None \<Rightarrow> [] | Some r \<Rightarrow> repo_DestinationBranch r),
            rsc_AllowedBranches = (case repo of None \<Rightarrow> [] | Some r \<Rightarrow> repo_AllowedBranches r)\<rparr>
      in if rsc_Application status = [] \<and> rsc_ApplicationTarget status = [] \<and> rsc_Repository status = [] \<and>
            rsc_RepositoryRef status = [] \<and> rsc_DestinationBranch status = [] \<and>
            rsc_AllowedBranches status = []
         then None else Some status)"

subsection \<open>Profile and harness profile\<close>

definition resolveAgentRunProfileObject :: "composition_reader \<Rightarrow> AgentRun \<Rightarrow> AgentRunProfile option resolution" where
  "resolveAgentRunProfileObject rd obj =
     (case spec_ProfileRef (run_Spec obj) of
        None \<Rightarrow> Resolved None
      | Some ref \<Rightarrow>
          let name = TrimSpace (nor_Name ref);
              namespace = firstNonEmpty (TrimSpace (nor_Namespace ref)) (run_Namespace obj) in
          if name = [] then
            Held AgentRunPhaseFailed ''InvalidProfileRef'' ''spec.profileRef.name is required when profileRef is set.''
          else if namespace \<noteq> run_Namespace obj then
            Held AgentRunPhaseFailed ''CrossNamespaceProfileRef''
              ''AgentRun profileRef must reference an AgentRunProfile in the AgentRun namespace.''
          else (case rd_GetProfile rd namespace name of
                  Inl e \<Rightarrow> if IsNotFound e
                    then Held AgentRunPhaseNeedsHuman ''ProfileNotFound''
                      (''AgentRunProfile '' @ namespace @ ''/'' @ name @ '' was not found.'')
                    else Broken e
                | Inr profile \<Rightarrow> Resolved (Some profile)))"

definition selectedAgentHarnessProfileRef :: "AgentRunProfile option \<Rightarrow> AgentRun \<Rightarrow> NamespacedObjectReference option" where
  "selectedAgentHarnessProfileRef profile obj =
     (case spec_HarnessProfileRef (run_Spec obj) of
        Some ref \<Rightarrow> Some ref
      | None \<Rightarrow> (case profile of Some p \<Rightarrow> prof_HarnessProfileRef (profile_Spec p) | None \<Rightarrow> None))"

definition resolveAgentHarnessProfileObject :: "composition_reader \<Rightarrow> string \<Rightarrow> NamespacedObjectReference option \<Rightarrow> AgentHarnessProfile option resolution" where
  "resolveAgentHarnessProfileObject rd namespace ref =
     (case ref of
        None \<Rightarrow> Resolved None
      | Some ref \<Rightarrow>
          let name = TrimSpace (nor_Name ref);
              refNamespace = firstNonEmpty (TrimSpace (nor_Namespace ref)) namespace in
          if name = [] then
            Held AgentRunPhaseFailed ''InvalidHarnessProfileRef''
              ''spec.harnessProfileRef.name is required when harnessProfileRef is set.''
          else if refNamespace \<noteq> namespace then
            Held AgentRunPhaseFailed ''CrossNamespaceHarnessProfileRef''
              ''AgentRun harnessProfileRef must reference an AgentHarnessProfile in the AgentRun namespace.''
          else (case rd_GetHarnessProfile rd namespace name of
                  Inl e \<Rightarrow> if IsNotFound e
                    then Held AgentRunPhaseNeedsHuman ''HarnessProfileNotFound''
                      (''AgentHarnessProfile '' @ namespace @ ''/'' @ name @ '' was not found.'')
                    else Broken e
                | Inr profile \<Rightarrow> Resolved (Some profile)))"

definition agentRunHarnessWithProfile :: "AgentRunProfile option \<Rightarrow> AgentRun \<Rightarrow> AgentHarnessProfile \<Rightarrow> AgentRunHarnessSpec" where
  "agentRunHarnessWithProfile profile obj harnessProfile =
     (let profileHarness = (case profile of None \<Rightarrow> zero_Harness | Some p \<Rightarrow> prof_Harness (profile_Spec p));
          run = spec_Harness (run_Spec obj);
          out = agentRunMergeHarness profileHarness run;
          backend = hp_Backend (hprofile_Spec harnessProfile);
          execution = hp_Execution (hprofile_Spec harnessProfile);
          swap = (spec_HarnessProfileRef (run_Spec obj) \<noteq> None);
          backend = (if swap then backend else agentRunMergeBackend backend (har_Backend profileHarness));
          execution = (if swap then execution else agentRunMergeExecution execution (har_Execution profileHarness))
      in out\<lparr>har_Backend := agentRunMergeBackend backend (har_Backend run),
             har_Execution := agentRunMergeExecution execution (har_Execution run)\<rparr>)"

subsection \<open>Skill sets and tool sets\<close>

definition agentRunExcludeGlobalSkills :: "AgentSkillCompositionSpec option \<Rightarrow> AgentSkillCompositionSpec option \<Rightarrow> bool" where
  "agentRunExcludeGlobalSkills profile run \<longleftrightarrow>
     (case profile of Some p \<Rightarrow> sc_ExcludeGlobal p | None \<Rightarrow> False) \<or>
     (case run of Some r \<Rightarrow> sc_ExcludeGlobal r | None \<Rightarrow> False)"

definition agentRunExcludeGlobalTools :: "AgentToolCompositionSpec option \<Rightarrow> AgentToolCompositionSpec option \<Rightarrow> bool" where
  "agentRunExcludeGlobalTools profile run \<longleftrightarrow>
     (case profile of Some p \<Rightarrow> tc_ExcludeGlobal p | None \<Rightarrow> False) \<or>
     (case run of Some r \<Rightarrow> tc_ExcludeGlobal r | None \<Rightarrow> False)"

text \<open>
  The variables that the closures of the two resolutions share: \<^verbatim>\<open>seenFromGlobal\<close>, the
  capabilities and the sets resolved so far.
\<close>

record 's selection =
  sel_seenFromGlobal :: "string \<Rightarrow> bool option"
  sel_capabilities :: agentRunCapabilities
  sel_resolved :: "'s list"

definition object_key :: "ObjectMeta \<Rightarrow> string" where
  "object_key meta = om_Namespace meta @ ''/'' @ om_Name meta"

text \<open>The closures \<^verbatim>\<open>applySkillSet\<close> and \<^verbatim>\<open>applyToolSet\<close>, which differ in the texts and in the operation.\<close>

definition attach_set :: "string \<Rightarrow> string \<Rightarrow> ('s \<Rightarrow> ObjectMeta) \<Rightarrow> (agentRunCapabilities \<Rightarrow> 's \<Rightarrow> refusal + agentRunCapabilities) \<Rightarrow> bool \<Rightarrow> 's \<Rightarrow> 's selection \<Rightarrow> 's selection resolution" where
  "attach_set reason kind meta apply_set fromGlobal s sel =
     (let key = object_key (meta s) in
      case sel_seenFromGlobal sel key of
        Some fromGlobalFlag \<Rightarrow>
          if fromGlobalFlag \<and> \<not> fromGlobal then Resolved sel
          else Held AgentRunPhaseFailed reason (kind @ '' '' @ key @ '' is selected more than once.'')
      | None \<Rightarrow>
          (case apply_set (sel_capabilities sel) s of
             Inl refused \<Rightarrow> refuse refused
           | Inr c \<Rightarrow> Resolved \<lparr>sel_seenFromGlobal = (sel_seenFromGlobal sel)(key \<mapsto> fromGlobal),
               sel_capabilities = c, sel_resolved = sel_resolved sel @ [s]\<rparr>))"

definition attach_skill_set :: "bool \<Rightarrow> AgentSkillSet \<Rightarrow> AgentSkillSet selection \<Rightarrow> AgentSkillSet selection resolution" where
  "attach_skill_set = attach_set ''DuplicateSkillSetRef'' ''AgentSkillSet'' skillset_Meta applySkillSet"

definition attach_tool_set :: "bool \<Rightarrow> AgentToolSet \<Rightarrow> AgentToolSet selection \<Rightarrow> AgentToolSet selection resolution" where
  "attach_tool_set = attach_set ''DuplicateToolSetRef'' ''AgentToolSet'' toolset_Meta applyToolSet"

fun attach_globals :: "(bool \<Rightarrow> 's \<Rightarrow> 's selection \<Rightarrow> 's selection resolution) \<Rightarrow> 's list \<Rightarrow> 's selection \<Rightarrow> 's selection resolution" where
  "attach_globals attach [] sel = Resolved sel"
| "attach_globals attach (s # sets) sel =
     (case attach True s sel of
        Resolved sel \<Rightarrow> attach_globals attach sets sel
      | Held p r m \<Rightarrow> Held p r m
      | Broken e \<Rightarrow> Broken e)"

fun attach_skill_refs :: "composition_reader \<Rightarrow> string \<Rightarrow> NamespacedObjectReference list \<Rightarrow> AgentSkillSet selection \<Rightarrow> AgentSkillSet selection resolution" where
  "attach_skill_refs rd obj_namespace [] sel = Resolved sel"
| "attach_skill_refs rd obj_namespace (ref # refs) sel =
     (let name = TrimSpace (nor_Name ref);
          namespace = firstNonEmpty (TrimSpace (nor_Namespace ref)) obj_namespace in
      if name = [] then
        Held AgentRunPhaseFailed ''InvalidSkillSetRef'' ''skillSets.refs[].name must be set.''
      else if namespace \<noteq> obj_namespace then
        Held AgentRunPhaseFailed ''CrossNamespaceSkillSetRef''
          ''AgentSkillSet refs must stay in the AgentRun namespace.''
      else (case rd_GetSkillSet rd namespace name of
              Inl e \<Rightarrow> if IsNotFound e
                then Held AgentRunPhaseNeedsHuman ''SkillSetNotFound''
                  (''AgentSkillSet '' @ namespace @ ''/'' @ name @ '' was not found.'')
                else Broken e
            | Inr skillSet \<Rightarrow>
                (case attach_skill_set False skillSet sel of
                   Resolved sel \<Rightarrow> attach_skill_refs rd obj_namespace refs sel
                 | Held p r m \<Rightarrow> Held p r m
                 | Broken e \<Rightarrow> Broken e)))"

definition apply_skill_layer :: "composition_reader \<Rightarrow> string \<Rightarrow> AgentSkillCompositionSpec option \<Rightarrow> AgentSkillSet selection \<Rightarrow> AgentSkillSet selection resolution" where
  "apply_skill_layer rd obj_namespace composition sel =
     (case composition of
        None \<Rightarrow> Resolved sel
      | Some composition \<Rightarrow>
          (case attach_skill_refs rd obj_namespace (sc_Refs composition) sel of
             Resolved sel \<Rightarrow>
               (case applyOverrides (sel_capabilities sel) (sc_Overrides composition) of
                  Inl refused \<Rightarrow> refuse refused
                | Inr c \<Rightarrow> Resolved (sel\<lparr>sel_capabilities := c\<rparr>))
           | Held p r m \<Rightarrow> Held p r m
           | Broken e \<Rightarrow> Broken e))"

definition listGlobalAgentSkillSets :: "composition_reader \<Rightarrow> string \<Rightarrow> AgentSkillSet list result" where
  "listGlobalAgentSkillSets rd namespace =
     (case rd_ListSkillSets rd namespace of
        Inl e \<Rightarrow> Inl e
      | Inr items \<Rightarrow>
          Inr (sort_key (\<lambda>s. om_Name (skillset_Meta s)) (filter (\<lambda>s. sset_Global (skillset_Spec s)) items)))"

definition listGlobalAgentToolSets :: "composition_reader \<Rightarrow> string \<Rightarrow> AgentToolSet list result" where
  "listGlobalAgentToolSets rd namespace =
     (case rd_ListToolSets rd namespace of
        Inl e \<Rightarrow> Inl e
      | Inr items \<Rightarrow>
          Inr (sort_key (\<lambda>s. om_Name (toolset_Meta s)) (filter (\<lambda>s. tset_Global (toolset_Spec s)) items)))"

definition then_resolve :: "'a resolution \<Rightarrow> ('a \<Rightarrow> 'b resolution) \<Rightarrow> 'b resolution" where
  "then_resolve r f = (case r of Resolved x \<Rightarrow> f x | Held p m n \<Rightarrow> Held p m n | Broken e \<Rightarrow> Broken e)"

definition of_result :: "'a result \<Rightarrow> 'a resolution" where
  "of_result r = (case r of Inl e \<Rightarrow> Broken e | Inr x \<Rightarrow> Resolved x)"

definition empty_selection :: "agentRunCapabilities \<Rightarrow> 's selection" where
  "empty_selection c = \<lparr>sel_seenFromGlobal = Map.empty, sel_capabilities = c, sel_resolved = []\<rparr>"

text \<open>
  The resolution writes the merged composition into the effective run first; the caller
  returns that run also when the resolution stops.
\<close>

definition effective_skill_sets :: "AgentRun \<Rightarrow> AgentRunProfile option \<Rightarrow> AgentRun \<Rightarrow> AgentRun" where
  "effective_skill_sets obj profile effective =
     effective\<lparr>run_Spec := (run_Spec effective)\<lparr>spec_SkillSets :=
       agentRunMergeSkillComposition
         (case profile of Some p \<Rightarrow> prof_SkillSets (profile_Spec p) | None \<Rightarrow> None)
         (spec_SkillSets (run_Spec obj))\<rparr>\<rparr>"

definition resolveAgentSkillComposition :: "composition_reader \<Rightarrow> AgentRun \<Rightarrow> AgentRunProfile option \<Rightarrow> agentRunCapabilities \<Rightarrow> AgentSkillSet selection resolution" where
  "resolveAgentSkillComposition rd obj profile capabilities =
     (let profileComposition = (case profile of Some p \<Rightarrow> prof_SkillSets (profile_Spec p) | None \<Rightarrow> None);
          runComposition = spec_SkillSets (run_Spec obj);
          namespace = run_Namespace obj in
      then_resolve
        (if \<not> agentRunExcludeGlobalSkills profileComposition runComposition
         then then_resolve (of_result (listGlobalAgentSkillSets rd namespace))
                (\<lambda>globals. attach_globals attach_skill_set globals (empty_selection capabilities))
         else Resolved (empty_selection capabilities))
        (\<lambda>sel. then_resolve
          (if (case runComposition of None \<Rightarrow> True | Some r \<Rightarrow> sc_Mode r \<noteq> AgentSkillCompositionReplace)
           then apply_skill_layer rd namespace profileComposition sel
           else Resolved sel)
          (\<lambda>sel. apply_skill_layer rd namespace runComposition sel)))"

fun attach_tool_refs :: "composition_reader \<Rightarrow> string \<Rightarrow> NamespacedObjectReference list \<Rightarrow> AgentToolSet selection \<Rightarrow> AgentToolSet selection resolution" where
  "attach_tool_refs rd obj_namespace [] sel = Resolved sel"
| "attach_tool_refs rd obj_namespace (ref # refs) sel =
     (let name = TrimSpace (nor_Name ref);
          namespace = firstNonEmpty (TrimSpace (nor_Namespace ref)) obj_namespace in
      if name = [] then
        Held AgentRunPhaseFailed ''InvalidToolSetRef'' ''toolSets.refs[].name must be set.''
      else if namespace \<noteq> obj_namespace then
        Held AgentRunPhaseFailed ''CrossNamespaceToolSetRef''
          ''AgentToolSet refs must stay in the AgentRun namespace.''
      else (case rd_GetToolSet rd namespace name of
              Inl e \<Rightarrow> if IsNotFound e
                then Held AgentRunPhaseNeedsHuman ''ToolSetNotFound''
                  (''AgentToolSet '' @ namespace @ ''/'' @ name @ '' was not found.'')
                else Broken e
            | Inr toolSet \<Rightarrow>
                (case attach_tool_set False toolSet sel of
                   Resolved sel \<Rightarrow> attach_tool_refs rd obj_namespace refs sel
                 | Held p r m \<Rightarrow> Held p r m
                 | Broken e \<Rightarrow> Broken e)))"

definition apply_tool_layer :: "composition_reader \<Rightarrow> string \<Rightarrow> AgentToolCompositionSpec option \<Rightarrow> AgentToolSet selection \<Rightarrow> AgentToolSet selection resolution" where
  "apply_tool_layer rd obj_namespace composition sel =
     (case composition of
        None \<Rightarrow> Resolved sel
      | Some composition \<Rightarrow> attach_tool_refs rd obj_namespace (tc_Refs composition) sel)"

definition effective_tool_sets :: "AgentRun \<Rightarrow> AgentRunProfile option \<Rightarrow> AgentRun \<Rightarrow> AgentRun" where
  "effective_tool_sets obj profile effective =
     effective\<lparr>run_Spec := (run_Spec effective)\<lparr>spec_ToolSets :=
       agentRunMergeToolComposition
         (case profile of Some p \<Rightarrow> prof_ToolSets (profile_Spec p) | None \<Rightarrow> None)
         (spec_ToolSets (run_Spec obj))\<rparr>\<rparr>"

definition resolveAgentToolComposition :: "composition_reader \<Rightarrow> AgentRun \<Rightarrow> AgentRunProfile option \<Rightarrow> agentRunCapabilities \<Rightarrow> AgentToolSet selection resolution" where
  "resolveAgentToolComposition rd obj profile capabilities =
     (let profileComposition = (case profile of Some p \<Rightarrow> prof_ToolSets (profile_Spec p) | None \<Rightarrow> None);
          runComposition = spec_ToolSets (run_Spec obj);
          namespace = run_Namespace obj in
      then_resolve
        (if \<not> agentRunExcludeGlobalTools profileComposition runComposition
         then then_resolve (of_result (listGlobalAgentToolSets rd namespace))
                (\<lambda>globals. attach_globals attach_tool_set globals (empty_selection capabilities))
         else Resolved (empty_selection capabilities))
        (\<lambda>sel. then_resolve
          (if (case runComposition of None \<Rightarrow> True | Some r \<Rightarrow> tc_Mode r \<noteq> AgentToolCompositionReplace)
           then apply_tool_layer rd namespace profileComposition sel
           else Resolved sel)
          (\<lambda>sel. apply_tool_layer rd namespace runComposition sel)))"

subsection \<open>Council\<close>

definition selectedAgentCouncilRef :: "AgentRunProfile option \<Rightarrow> AgentRun \<Rightarrow> NamespacedObjectReference option" where
  "selectedAgentCouncilRef profile obj =
     (case spec_CouncilRef (run_Spec obj) of
        Some ref \<Rightarrow> Some ref
      | None \<Rightarrow> (case profile of Some p \<Rightarrow> prof_CouncilRef (profile_Spec p) | None \<Rightarrow> None))"

fun council_members :: "string \<Rightarrow> string \<Rightarrow> string set \<Rightarrow> nat \<Rightarrow> AgentCouncilMemberSpec list \<Rightarrow> refusal option" where
  "council_members council namespace seen i [] = None"
| "council_members council namespace seen i (member # members) =
     (let profileName = TrimSpace (nor_Name (member_ProfileRef member));
          memberNamespace = TrimSpace (nor_Namespace (member_ProfileRef member));
          at = ''AgentCouncil '' @ council @ '' members['' @ Itoa (int i) @ '']'' in
      if TrimSpace (member_Role member) = [] then
        Some (''InvalidCouncilMemberRole'', at @ ''.role is required.'')
      else if profileName = [] then
        Some (''InvalidCouncilMemberProfileRef'', at @ ''.profileRef.name is required.'')
      else if memberNamespace \<noteq> [] \<and> memberNamespace \<noteq> namespace then
        Some (''CrossNamespaceCouncilMemberProfileRef'', at @ ''.profileRef must stay in the council namespace.'')
      else if profileName \<in> seen then
        Some (''DuplicateCouncilMemberProfile'',
          ''AgentCouncil '' @ council @ '' lists profile '' @ Quote profileName @ '' more than once.'')
      else council_members council namespace (insert profileName seen) (Suc i) members)"

definition validateAgentCouncilShape :: "AgentCouncil \<Rightarrow> refusal option" where
  "validateAgentCouncilShape council =
     (let key = object_key (council_Meta council); spec = council_Spec council in
      if length (council_Members spec) < 1 \<or> length (council_Members spec) > 32 then
        Some (''InvalidCouncilMembers'', ''AgentCouncil '' @ key @ '' must list between 1 and 32 members.'')
      else (case council_members key (om_Namespace (council_Meta council)) {} 0 (council_Members spec) of
              Some refused \<Rightarrow> Some refused
            | None \<Rightarrow>
                if int (length (runes (council_Prompt spec))) > 65536 then
                  Some (''CouncilPromptTooLarge'', ''AgentCouncil '' @ key @ '' councilPrompt exceeds 65536 characters.'')
                else None))"

fun council_profiles :: "composition_reader \<Rightarrow> AgentCouncil \<Rightarrow> nat \<Rightarrow> AgentCouncilMemberSpec list \<Rightarrow> AgentCouncil option resolution" where
  "council_profiles rd council i [] = Resolved (Some council)"
| "council_profiles rd council i (member # members) =
     (let profileName = TrimSpace (nor_Name (member_ProfileRef member));
          namespace = om_Namespace (council_Meta council) in
      case rd_GetProfile rd namespace profileName of
        Inl e \<Rightarrow> if IsNotFound e
          then Held AgentRunPhaseNeedsHuman ''CouncilMemberProfileNotFound''
            (''AgentCouncil '' @ object_key (council_Meta council) @ '' members['' @ Itoa (int i) @
             ''] references missing AgentRunProfile '' @ namespace @ ''/'' @ profileName @ ''.'')
          else Broken e
      | Inr memberProfile \<Rightarrow> council_profiles rd council (Suc i) members)"

definition effective_council :: "AgentRun \<Rightarrow> AgentRunProfile option \<Rightarrow> AgentRun \<Rightarrow> AgentRun" where
  "effective_council obj profile effective =
     effective\<lparr>run_Spec := (run_Spec effective)\<lparr>spec_CouncilRef := selectedAgentCouncilRef profile obj\<rparr>\<rparr>"

definition resolveAgentCouncilObject :: "composition_reader \<Rightarrow> AgentRun \<Rightarrow> AgentRunProfile option \<Rightarrow> AgentCouncil option resolution" where
  "resolveAgentCouncilObject rd obj profile =
     (case selectedAgentCouncilRef profile obj of
        None \<Rightarrow> Resolved None
      | Some ref \<Rightarrow>
          let name = TrimSpace (nor_Name ref);
              namespace = firstNonEmpty (TrimSpace (nor_Namespace ref)) (run_Namespace obj) in
          if name = [] then
            Held AgentRunPhaseFailed ''InvalidCouncilRef'' ''spec.councilRef.name is required when councilRef is set.''
          else if namespace \<noteq> run_Namespace obj then
            Held AgentRunPhaseFailed ''CrossNamespaceCouncilRef''
              ''AgentRun councilRef must reference an AgentCouncil in the AgentRun namespace.''
          else (case rd_GetCouncil rd namespace name of
                  Inl e \<Rightarrow> if IsNotFound e
                    then Held AgentRunPhaseNeedsHuman ''CouncilNotFound''
                      (''AgentCouncil '' @ namespace @ ''/'' @ name @ '' was not found.'')
                    else Broken e
                | Inr council \<Rightarrow>
                    (case validateAgentCouncilShape council of
                       Some refused \<Rightarrow> refuse refused
                     | None \<Rightarrow> council_profiles rd council 0 (council_Members (council_Spec council)))))"

subsection \<open>The whole resolution\<close>

definition resolvedObjectReferenceStatus :: "ObjectMeta \<Rightarrow> string \<Rightarrow> AgentRunResolvedObjectReferenceStatus" where
  "resolvedObjectReferenceStatus meta digest = \<lparr>
     ror_Name = om_Name meta, ror_Namespace = om_Namespace meta, ror_UID = om_UID meta,
     ror_Generation = om_Generation meta, ror_ResourceVersion = om_ResourceVersion meta,
     ror_Digest = digest, ror_Global = False\<rparr>"

definition resolved_status :: "composition_reader \<Rightarrow> AgentRunProfile option \<Rightarrow> AgentHarnessProfile option \<Rightarrow> AgentCouncil option \<Rightarrow> AgentSkillSet list \<Rightarrow> AgentToolSet list \<Rightarrow> AgentRun \<Rightarrow> AgentRunResolvedCompositionStatus" where
  "resolved_status rd profile harnessProfile council skillSets toolSets effective = \<lparr>
     rcs_ResolvedAt = None,
     rcs_ProfileRef = map_option (\<lambda>p. resolvedObjectReferenceStatus (profile_Meta p)
       (digestJSON (rd_MarshalProfileSpec rd) (profile_Spec p))) profile,
     rcs_HarnessProfileRef = map_option (\<lambda>h. resolvedObjectReferenceStatus (hprofile_Meta h)
       (digestJSON (rd_MarshalHarnessProfileSpec rd) (hprofile_Spec h))) harnessProfile,
     rcs_CouncilRef = map_option (\<lambda>c. resolvedObjectReferenceStatus (council_Meta c)
       (digestJSON (rd_MarshalCouncilSpec rd) (council_Spec c))) council,
     rcs_SkillSetRefs = map (\<lambda>s. (resolvedObjectReferenceStatus (skillset_Meta s)
       (digestJSON (rd_MarshalSkillSetSpec rd) (skillset_Spec s)))\<lparr>ror_Global := sset_Global (skillset_Spec s)\<rparr>) skillSets,
     rcs_ToolSetRefs = map (\<lambda>s. (resolvedObjectReferenceStatus (toolset_Meta s)
       (digestJSON (rd_MarshalToolSetSpec rd) (toolset_Spec s)))\<lparr>ror_Global := tset_Global (toolset_Spec s)\<rparr>) toolSets,
     rcs_Scope = agentRunResolvedScopeStatus (spec_Scope (run_Spec effective)),
     rcs_EffectiveDigest = digestJSON (rd_MarshalRunSpec rd) (run_Spec effective),
     rcs_PayloadDigest = []\<rparr>"

definition effective_base :: "AgentRun \<Rightarrow> AgentRunProfile option \<Rightarrow> AgentRun" where
  "effective_base obj profile =
     (case profile of Some p \<Rightarrow> agentRunApplyProfile obj p | None \<Rightarrow> obj)"

definition effective_harness :: "AgentRun \<Rightarrow> AgentRunProfile option \<Rightarrow> AgentHarnessProfile option \<Rightarrow> AgentRun \<Rightarrow> AgentRun" where
  "effective_harness obj profile harnessProfile effective =
     (let effective = effective\<lparr>run_Spec := (run_Spec effective)\<lparr>spec_HarnessProfileRef :=
            selectedAgentHarnessProfileRef profile obj\<rparr>\<rparr> in
      case harnessProfile of
        Some h \<Rightarrow> effective\<lparr>run_Spec := (run_Spec effective)\<lparr>spec_Harness :=
          agentRunHarnessWithProfile profile obj h\<rparr>\<rparr>
      | None \<Rightarrow> effective)"

text \<open>The inline entries of the effective harness as the final overlay.\<close>

definition inline_overlay :: "AgentRunHarnessSpec \<Rightarrow> agentRunCapabilities \<Rightarrow> agentRunCapabilities" where
  "inline_overlay harness c =
     foldl upsertSubagent
       (foldl upsertTool (foldl upsertSkill c (har_SkillInjections harness)) (har_Tools harness))
       (har_Subagents harness)"

definition with_capabilities :: "agentRunCapabilities \<Rightarrow> AgentRun \<Rightarrow> AgentRun" where
  "with_capabilities c effective =
     effective\<lparr>run_Spec := (run_Spec effective)\<lparr>spec_Harness := (spec_Harness (run_Spec effective))\<lparr>
       har_SkillInjections := cap_skills c, har_Tools := cap_tools c, har_Subagents := cap_subagents c\<rparr>\<rparr>\<rparr>"

text \<open>
  The steps of \<^verbatim>\<open>resolveAgentRunComposition\<close> after the harness profile is known. Each returns the
  effective run as far as it has been built, and the outcome.
\<close>

definition composition_finish :: "composition_reader \<Rightarrow> AgentRunProfile option \<Rightarrow> AgentHarnessProfile option \<Rightarrow> AgentCouncil option \<Rightarrow> AgentSkillSet list \<Rightarrow> AgentToolSet list \<Rightarrow> agentRunCapabilities \<Rightarrow> AgentRun \<Rightarrow> AgentRun \<times> AgentRunResolvedCompositionStatus resolution" where
  "composition_finish rd profile harnessProfile council skillSets toolSets capabilities effective =
     (case applyCouncilPrompt (inline_overlay (spec_Harness (run_Spec effective)) capabilities) council of
        Inl refused \<Rightarrow> (effective, refuse refused)
      | Inr c \<Rightarrow>
          let effective = with_capabilities (applyCreateAgentSkill c profile) effective;
              status = resolved_status rd profile harnessProfile council skillSets toolSets effective in
          (effective\<lparr>run_Status := (run_Status effective)\<lparr>rs_ResolvedComposition := Some status\<rparr>\<rparr>,
           Resolved status))"

definition composition_sets :: "composition_reader \<Rightarrow> AgentRun \<Rightarrow> AgentRunProfile option \<Rightarrow> AgentHarnessProfile option \<Rightarrow> AgentRun \<Rightarrow> AgentRun \<times> AgentRunResolvedCompositionStatus resolution" where
  "composition_sets rd obj profile harnessProfile effective =
     (let effective = effective_skill_sets obj profile effective in
      case resolveAgentSkillComposition rd obj profile newAgentRunCapabilities of
        Held p r m \<Rightarrow> (effective, Held p r m)
      | Broken e \<Rightarrow> (effective, Broken e)
      | Resolved skills \<Rightarrow>
          let effective = effective_tool_sets obj profile effective in
          (case resolveAgentToolComposition rd obj profile (sel_capabilities skills) of
             Held p r m \<Rightarrow> (effective, Held p r m)
           | Broken e \<Rightarrow> (effective, Broken e)
           | Resolved tools \<Rightarrow>
               let effective = effective_council obj profile effective in
               (case resolveAgentCouncilObject rd obj profile of
                  Held p r m \<Rightarrow> (effective, Held p r m)
                | Broken e \<Rightarrow> (effective, Broken e)
                | Resolved council \<Rightarrow>
                    composition_finish rd profile harnessProfile council (sel_resolved skills)
                      (sel_resolved tools) (sel_capabilities tools) effective)))"

definition resolveAgentRunComposition :: "composition_reader \<Rightarrow> AgentRun \<Rightarrow> AgentRun \<times> AgentRunResolvedCompositionStatus resolution" where
  "resolveAgentRunComposition rd obj =
     (case validateAgentRunCredentialBootstrapEnvironment obj of
        Some refused \<Rightarrow> (obj, refuse refused)
      | None \<Rightarrow>
          (case resolveAgentRunProfileObject rd obj of
             Held p r m \<Rightarrow> (obj, Held p r m)
           | Broken e \<Rightarrow> (obj, Broken e)
           | Resolved profile \<Rightarrow>
               let effective = effective_base obj profile in
               (case resolveAgentHarnessProfileObject rd (run_Namespace obj)
                       (selectedAgentHarnessProfileRef profile obj) of
                  Held p r m \<Rightarrow> (effective, Held p r m)
                | Broken e \<Rightarrow> (effective, Broken e)
                | Resolved harnessProfile \<Rightarrow>
                    composition_sets rd obj profile harnessProfile
                      (effective_harness obj profile harnessProfile effective))))"

definition resolveAgentRunProfile :: "composition_reader \<Rightarrow> AgentRun \<Rightarrow> AgentRun \<times> unit resolution" where
  "resolveAgentRunProfile rd obj =
     (case resolveAgentRunComposition rd obj of (effective, outcome) \<Rightarrow>
        (effective, then_resolve outcome (\<lambda>_. Resolved ())))"

subsection \<open>The capabilities of a resolution\<close>

lemma then_resolve_Resolved:
  "then_resolve r f = Resolved y \<longleftrightarrow> (\<exists>x. r = Resolved x \<and> f x = Resolved y)"
  by (simp add: then_resolve_def split: resolution.splits)

lemma refuse_not_Resolved [simp]: "refuse r \<noteq> Resolved x"
  by (simp add: refuse_def)

text \<open>Attaching a set keeps the tables when the operation does.\<close>

lemma attach_set_ok:
  assumes "attach_set reason kind meta apply_set fromGlobal s sel = Resolved sel'"
    and "caps_ok (sel_capabilities sel)"
    and "\<And>c c'. caps_ok c \<Longrightarrow> apply_set c s = Inr c' \<Longrightarrow> caps_ok c'"
  shows "caps_ok (sel_capabilities sel')"
  using assms unfolding attach_set_def
  by (auto simp: Let_def split: option.splits if_splits sum.splits)

lemma attach_skill_set_ok:
  "attach_skill_set g s sel = Resolved sel' \<Longrightarrow> caps_ok (sel_capabilities sel) \<Longrightarrow> caps_ok (sel_capabilities sel')"
  unfolding attach_skill_set_def by (erule attach_set_ok) (auto intro: skill_set_ok)

lemma attach_tool_set_ok:
  "attach_tool_set g s sel = Resolved sel' \<Longrightarrow> caps_ok (sel_capabilities sel) \<Longrightarrow> caps_ok (sel_capabilities sel')"
  unfolding attach_tool_set_def by (erule attach_set_ok) (auto intro: tool_set_ok)

lemma attach_globals_ok:
  assumes "\<And>s sel sel'. attach True s sel = Resolved sel' \<Longrightarrow> caps_ok (sel_capabilities sel) \<Longrightarrow>
      caps_ok (sel_capabilities sel')"
    and "attach_globals attach sets sel = Resolved sel'" and "caps_ok (sel_capabilities sel)"
  shows "caps_ok (sel_capabilities sel')"
  using assms(2,3)
  by (induction sets arbitrary: sel) (auto dest: assms(1) split: resolution.splits)

lemma attach_skill_refs_ok:
  "attach_skill_refs rd ns refs sel = Resolved sel' \<Longrightarrow> caps_ok (sel_capabilities sel) \<Longrightarrow>
   caps_ok (sel_capabilities sel')"
  by (induction refs arbitrary: sel)
    (auto simp: Let_def dest: attach_skill_set_ok split: if_splits sum.splits resolution.splits)

lemma attach_tool_refs_ok:
  "attach_tool_refs rd ns refs sel = Resolved sel' \<Longrightarrow> caps_ok (sel_capabilities sel) \<Longrightarrow>
   caps_ok (sel_capabilities sel')"
  by (induction refs arbitrary: sel)
    (auto simp: Let_def dest: attach_tool_set_ok split: if_splits sum.splits resolution.splits)

lemma overrides_ok: "applyOverrides c overrides = Inr c' \<Longrightarrow> caps_ok c \<Longrightarrow> caps_ok c'"
  using override_loop_refines [of c "{}" overrides] by (simp add: applyOverrides_def refines_skills_def)

lemma apply_skill_layer_ok:
  "apply_skill_layer rd ns lay sel = Resolved sel' \<Longrightarrow> caps_ok (sel_capabilities sel) \<Longrightarrow>
   caps_ok (sel_capabilities sel')"
  unfolding apply_skill_layer_def
  by (auto split: option.splits resolution.splits sum.splits intro: attach_skill_refs_ok overrides_ok)

lemma apply_tool_layer_ok:
  "apply_tool_layer rd ns lay sel = Resolved sel' \<Longrightarrow> caps_ok (sel_capabilities sel) \<Longrightarrow>
   caps_ok (sel_capabilities sel')"
  unfolding apply_tool_layer_def by (auto split: option.splits dest: attach_tool_refs_ok)

lemma skill_globals_ok:
  "attach_globals attach_skill_set sets sel = Resolved sel' \<Longrightarrow> caps_ok (sel_capabilities sel) \<Longrightarrow>
   caps_ok (sel_capabilities sel')"
  by (rule attach_globals_ok [where attach = attach_skill_set]) (auto intro: attach_skill_set_ok)

lemma resolve_skills_ok:
  assumes "resolveAgentSkillComposition rd obj profile c = Resolved sel" and "caps_ok c"
  shows "caps_ok (sel_capabilities sel)"
proof -
  have start: "caps_ok (sel_capabilities (empty_selection c))"
    using assms(2) by (simp add: empty_selection_def)
  let ?p = "case profile of Some p \<Rightarrow> prof_SkillSets (profile_Spec p) | None \<Rightarrow> None"
  let ?r = "spec_SkillSets (run_Spec obj)"
  obtain sel0 sel1 where
      s0: "(if \<not> agentRunExcludeGlobalSkills ?p ?r
         then then_resolve (of_result (listGlobalAgentSkillSets rd (run_Namespace obj)))
                (\<lambda>globals. attach_globals attach_skill_set globals (empty_selection c))
         else Resolved (empty_selection c)) = Resolved sel0" and
      s1: "(if (case ?r of None \<Rightarrow> True | Some r \<Rightarrow> sc_Mode r \<noteq> AgentSkillCompositionReplace)
         then apply_skill_layer rd (run_Namespace obj) ?p sel0 else Resolved sel0) = Resolved sel1" and
      s2: "apply_skill_layer rd (run_Namespace obj) ?r sel1 = Resolved sel"
    using assms(1) unfolding resolveAgentSkillComposition_def Let_def then_resolve_Resolved by blast
  have "caps_ok (sel_capabilities sel0)"
    using s0 start by (auto simp: then_resolve_Resolved split: if_splits intro: skill_globals_ok)
  then have "caps_ok (sel_capabilities sel1)"
    using s1 by (auto split: if_splits intro: apply_skill_layer_ok)
  then show ?thesis by (rule apply_skill_layer_ok [OF s2])
qed

lemma tool_globals_ok:
  "attach_globals attach_tool_set sets sel = Resolved sel' \<Longrightarrow> caps_ok (sel_capabilities sel) \<Longrightarrow>
   caps_ok (sel_capabilities sel')"
  by (rule attach_globals_ok [where attach = attach_tool_set]) (auto intro: attach_tool_set_ok)

lemma resolve_tools_ok:
  assumes "resolveAgentToolComposition rd obj profile c = Resolved sel" and "caps_ok c"
  shows "caps_ok (sel_capabilities sel)"
proof -
  have start: "caps_ok (sel_capabilities (empty_selection c))"
    using assms(2) by (simp add: empty_selection_def)
  let ?p = "case profile of Some p \<Rightarrow> prof_ToolSets (profile_Spec p) | None \<Rightarrow> None"
  let ?r = "spec_ToolSets (run_Spec obj)"
  obtain sel0 sel1 where
      s0: "(if \<not> agentRunExcludeGlobalTools ?p ?r
         then then_resolve (of_result (listGlobalAgentToolSets rd (run_Namespace obj)))
                (\<lambda>globals. attach_globals attach_tool_set globals (empty_selection c))
         else Resolved (empty_selection c)) = Resolved sel0" and
      s1: "(if (case ?r of None \<Rightarrow> True | Some r \<Rightarrow> tc_Mode r \<noteq> AgentToolCompositionReplace)
         then apply_tool_layer rd (run_Namespace obj) ?p sel0 else Resolved sel0) = Resolved sel1" and
      s2: "apply_tool_layer rd (run_Namespace obj) ?r sel1 = Resolved sel"
    using assms(1) unfolding resolveAgentToolComposition_def Let_def then_resolve_Resolved by blast
  have "caps_ok (sel_capabilities sel0)"
    using s0 start by (auto simp: then_resolve_Resolved split: if_splits intro: tool_globals_ok)
  then have "caps_ok (sel_capabilities sel1)"
    using s1 by (auto split: if_splits intro: apply_tool_layer_ok)
  then show ?thesis by (rule apply_tool_layer_ok [OF s2])
qed

lemma inline_overlay_ok: "caps_ok c \<Longrightarrow> caps_ok (inline_overlay harness c)"
  by (simp add: inline_overlay_def skill_table.overlay_ok tool_table.overlay_ok subagent_table.overlay_ok)

lemma council_prompt_ok: "applyCouncilPrompt c council = Inr c' \<Longrightarrow> caps_ok c \<Longrightarrow> caps_ok c'"
  by (auto simp: applyCouncilPrompt_def Let_def skill_table.upsert_ok split: option.splits if_splits)

lemma create_agent_ok: "caps_ok c \<Longrightarrow> caps_ok (applyCreateAgentSkill c profile)"
  by (simp add: applyCreateAgentSkill_def skill_table.upsert_ok remove_skill(1) split: option.splits)

text \<open>What a completed resolution has gone through.\<close>

definition composed :: "composition_reader \<Rightarrow> AgentRun \<Rightarrow> AgentRunProfile option \<Rightarrow> AgentHarnessProfile option \<Rightarrow> AgentCouncil option \<Rightarrow> agentRunCapabilities \<Rightarrow> AgentRun \<Rightarrow> bool" where
  "composed rd obj profile harness council c effective \<longleftrightarrow>
     validateAgentRunCredentialBootstrapEnvironment obj = None \<and>
     resolveAgentRunProfileObject rd obj = Resolved profile \<and>
     resolveAgentHarnessProfileObject rd (run_Namespace obj) (selectedAgentHarnessProfileRef profile obj) =
       Resolved harness \<and>
     resolveAgentCouncilObject rd obj profile = Resolved council \<and>
     (\<exists>c0. caps_ok c0 \<and> applyCouncilPrompt c0 council = Inr c) \<and>
     spec_Harness (run_Spec effective) = (spec_Harness (run_Spec (effective_harness obj profile harness
         (effective_base obj profile))))\<lparr>
       har_SkillInjections := cap_skills (applyCreateAgentSkill c profile),
       har_Tools := cap_tools (applyCreateAgentSkill c profile),
       har_Subagents := cap_subagents (applyCreateAgentSkill c profile)\<rparr>"

lemma resolution_composed:
  assumes "resolveAgentRunComposition rd obj = (effective, Resolved status)"
  obtains profile harness council c where "composed rd obj profile harness council c effective"
proof -
  obtain profile harness where front:
      "validateAgentRunCredentialBootstrapEnvironment obj = None"
      "resolveAgentRunProfileObject rd obj = Resolved profile"
      "resolveAgentHarnessProfileObject rd (run_Namespace obj) (selectedAgentHarnessProfileRef profile obj) =
         Resolved harness"
      "composition_sets rd obj profile harness (effective_harness obj profile harness (effective_base obj profile)) =
         (effective, Resolved status)"
    using assms unfolding resolveAgentRunComposition_def
    by (auto simp: Let_def split: option.splits resolution.splits)
  then obtain skills tools council e where sets:
      "resolveAgentSkillComposition rd obj profile newAgentRunCapabilities = Resolved skills"
      "resolveAgentToolComposition rd obj profile (sel_capabilities skills) = Resolved tools"
      "resolveAgentCouncilObject rd obj profile = Resolved council"
      "e = effective_council obj profile (effective_tool_sets obj profile (effective_skill_sets obj profile
         (effective_harness obj profile harness (effective_base obj profile))))"
      "composition_finish rd profile harness council (sel_resolved skills) (sel_resolved tools)
         (sel_capabilities tools) e = (effective, Resolved status)"
    unfolding composition_sets_def by (auto simp: Let_def split: resolution.splits)
  have ok: "caps_ok (inline_overlay (spec_Harness (run_Spec e)) (sel_capabilities tools))"
    using resolve_tools_ok [OF sets(2) resolve_skills_ok [OF sets(1) caps_ok_new]]
    by (rule inline_overlay_ok)
  obtain c where c: "applyCouncilPrompt (inline_overlay (spec_Harness (run_Spec e)) (sel_capabilities tools)) council = Inr c"
    "run_Spec effective = run_Spec (with_capabilities (applyCreateAgentSkill c profile) e)"
    using sets(5) unfolding composition_finish_def by (auto simp: Let_def split: sum.splits)
  have "spec_Harness (run_Spec e) = spec_Harness (run_Spec (effective_harness obj profile harness (effective_base obj profile)))"
    by (simp add: sets(4) effective_council_def effective_tool_sets_def effective_skill_sets_def)
  then have "composed rd obj profile harness council c effective"
    unfolding composed_def using front(1-3) sets(3) ok c by (auto simp: with_capabilities_def)
  then show ?thesis by (rule that)
qed

subsection \<open>Unique names and reserved skills\<close>

lemma composed_ok: "composed rd obj profile harness council c effective \<Longrightarrow> caps_ok c"
  unfolding composed_def using council_prompt_ok by blast

lemma create_agent_named:
  assumes ok: "caps_ok c"
  shows "skill_named (applyCreateAgentSkill c profile) = (skill_named c)(createAgentSkillName :=
    (if profileMayCreateAgent profile then Some create_agent_skill else None))"
proof -
  have key: "skill_key create_agent_skill = createAgentSkillName"
    by (simp add: create_agent_skill_def createAgentSkillName_def TrimSpace_def trim_by_def is_space_def)
  show ?thesis
  proof (cases "profileMayCreateAgent profile")
    case True
    then show ?thesis
      using skill_table.upsert_named [OF ok, of create_agent_skill] by (simp add: applyCreateAgentSkill_def key)
  next
    case False
    show ?thesis
    proof (cases "cap_skillIndexes c createAgentSkillName")
      case None
      then have "skill_named c createAgentSkillName = None" using skill_named_index [OF ok] by simp
      then show ?thesis using False None by (auto simp: applyCreateAgentSkill_def)
    next
      case (Some i)
      then show ?thesis using False remove_skill(2) [OF ok Some] by (simp add: applyCreateAgentSkill_def)
    qed
  qed
qed

lemma composed_skills:
  assumes "composed rd obj profile harness council c effective"
  shows "s \<in> set (har_SkillInjections (spec_Harness (run_Spec effective))) \<longleftrightarrow>
    skill_named (applyCreateAgentSkill c profile) (skill_key s) = Some s"
  using assms skill_table.named_iff [OF create_agent_ok [OF composed_ok [OF assms]]]
  by (simp add: composed_def)

text \<open>
  Every skill, tool and subagent name of a resolved run is unique, whatever sets, globals,
  overrides and inline entries contributed to it: names are compared after trimming, and the
  runner never receives two entries for one name.
\<close>

theorem resolved_names_unique:
  assumes "resolveAgentRunComposition rd obj = (effective, Resolved status)"
  shows "distinct (map (\<lambda>s. TrimSpace (skill_Name s)) (har_SkillInjections (spec_Harness (run_Spec effective)))) \<and>
    distinct (map (\<lambda>t. TrimSpace (tool_Name t)) (har_Tools (spec_Harness (run_Spec effective)))) \<and>
    distinct (map (\<lambda>a. TrimSpace (sub_Name a)) (har_Subagents (spec_Harness (run_Spec effective))))"
proof -
  obtain profile harness council c where c: "composed rd obj profile harness council c effective"
    using resolution_composed [OF assms] .
  have ok: "caps_ok (applyCreateAgentSkill c profile)"
    by (rule create_agent_ok [OF composed_ok [OF c]])
  show ?thesis
    using c skill_table.entries_distinct [OF ok] tool_table.entries_distinct [OF ok]
      subagent_table.entries_distinct [OF ok]
    by (simp add: composed_def)
qed


text \<open>
  C10. Credential bootstrap variables come only from reviewed objects: an entry of the resolved
  environment that carries a reserved name is an entry of the profile or of the harness
  profile that the run selected, never one of the run itself.
\<close>

theorem credential_environment_inherited:
  assumes "resolveAgentRunComposition rd obj = (effective, Resolved status)"
    and "e \<in> set (ex_ExtraEnv (har_Execution (spec_Harness (run_Spec effective))))"
    and "TrimSpace (env_Name e) \<in> set agentRunReservedCredentialBootstrapEnvironment"
  shows "\<exists>profile harness. resolveAgentRunProfileObject rd obj = Resolved profile \<and>
    resolveAgentHarnessProfileObject rd (run_Namespace obj) (selectedAgentHarnessProfileRef profile obj) =
      Resolved harness \<and>
    ((\<exists>p. profile = Some p \<and> e \<in> set (ex_ExtraEnv (har_Execution (prof_Harness (profile_Spec p))))) \<or>
     (\<exists>h. harness = Some h \<and> e \<in> set (ex_ExtraEnv (hp_Execution (hprofile_Spec h)))))"
proof -
  obtain profile harness council c where c: "composed rd obj profile harness council c effective"
    using resolution_composed [OF assms(1)] .
  have merged: "e \<in> set (mergeEnvVars a b) \<Longrightarrow> e \<in> set a \<or> e \<in> set b" for a b
    using env_merge.merge_subset by blast
  have "reserved_env env = None \<Longrightarrow> e \<notin> set env" for env
    using assms(3) by (induction env) (auto simp: Let_def split: if_splits)
  then have own: "e \<notin> set (ex_ExtraEnv (har_Execution (spec_Harness (run_Spec obj))))"
    using c by (simp add: composed_def validateAgentRunCredentialBootstrapEnvironment_def)
  have "e \<in> set (ex_ExtraEnv (har_Execution (spec_Harness (run_Spec
      (effective_harness obj profile harness (effective_base obj profile))))))"
    using assms(2) c by (simp add: composed_def)
  then have "(\<exists>p. profile = Some p \<and> e \<in> set (ex_ExtraEnv (har_Execution (prof_Harness (profile_Spec p))))) \<or>
     (\<exists>h. harness = Some h \<and> e \<in> set (ex_ExtraEnv (hp_Execution (hprofile_Spec h))))"
    using own
    by (auto simp: effective_harness_def effective_base_def agentRunApplyProfile_def Let_def
        agentRunMergeHarness_def agentRunMergeExecution_def agentRunHarnessWithProfile_def
        zero_Harness_def zero_Execution_def split: option.splits if_splits dest!: merged)
  then show ?thesis using c unfolding composed_def by blast
qed

text \<open>
  A run that names a harness profile swaps the runtime as a whole: backend and execution
  are those of the named harness profile with the run's own fields over them, and nothing of
  the profile's inline runtime settings shows through.
\<close>

theorem harness_swap_atomic:
  assumes "resolveAgentRunComposition rd obj = (effective, Resolved status)"
    and "spec_HarnessProfileRef (run_Spec obj) = Some ref"
  shows "\<exists>h. rd_GetHarnessProfile rd (run_Namespace obj) (TrimSpace (nor_Name ref)) = Inr h \<and>
    har_Backend (spec_Harness (run_Spec effective)) =
      agentRunMergeBackend (hp_Backend (hprofile_Spec h)) (har_Backend (spec_Harness (run_Spec obj))) \<and>
    har_Execution (spec_Harness (run_Spec effective)) =
      agentRunMergeExecution (hp_Execution (hprofile_Spec h)) (har_Execution (spec_Harness (run_Spec obj)))"
proof -
  obtain profile harness council c where c: "composed rd obj profile harness council c effective"
    using resolution_composed [OF assms(1)] .
  then obtain h where h: "harness = Some h"
      "rd_GetHarnessProfile rd (run_Namespace obj) (TrimSpace (nor_Name ref)) = Inr h"
    using assms(2) by (auto simp: composed_def selectedAgentHarnessProfileRef_def
        resolveAgentHarnessProfileObject_def Let_def split: if_splits sum.splits)
  then show ?thesis
    using c assms(2) by (simp add: composed_def effective_harness_def agentRunHarnessWithProfile_def Let_def)
qed

subsection \<open>One namespace\<close>

definition same_in_namespace :: "string \<Rightarrow> composition_reader \<Rightarrow> composition_reader \<Rightarrow> bool" where
  "same_in_namespace ns rd rd' \<longleftrightarrow>
     rd_GetProfile rd ns = rd_GetProfile rd' ns \<and>
     rd_GetHarnessProfile rd ns = rd_GetHarnessProfile rd' ns \<and>
     rd_GetSkillSet rd ns = rd_GetSkillSet rd' ns \<and> rd_ListSkillSets rd ns = rd_ListSkillSets rd' ns \<and>
     rd_GetToolSet rd ns = rd_GetToolSet rd' ns \<and> rd_ListToolSets rd ns = rd_ListToolSets rd' ns \<and>
     rd_GetCouncil rd ns = rd_GetCouncil rd' ns \<and>
     rd_MarshalProfileSpec rd = rd_MarshalProfileSpec rd' \<and>
     rd_MarshalHarnessProfileSpec rd = rd_MarshalHarnessProfileSpec rd' \<and>
     rd_MarshalSkillSetSpec rd = rd_MarshalSkillSetSpec rd' \<and>
     rd_MarshalToolSetSpec rd = rd_MarshalToolSetSpec rd' \<and>
     rd_MarshalCouncilSpec rd = rd_MarshalCouncilSpec rd' \<and> rd_MarshalRunSpec rd = rd_MarshalRunSpec rd'"

lemma same_skill_refs:
  "same_in_namespace ns rd rd' \<Longrightarrow> attach_skill_refs rd ns refs sel = attach_skill_refs rd' ns refs sel"
  by (induction refs arbitrary: sel)
    (auto simp: same_in_namespace_def Let_def split: sum.split resolution.split)

lemma same_tool_refs:
  "same_in_namespace ns rd rd' \<Longrightarrow> attach_tool_refs rd ns refs sel = attach_tool_refs rd' ns refs sel"
  by (induction refs arbitrary: sel)
    (auto simp: same_in_namespace_def Let_def split: sum.split resolution.split)

lemma same_skills:
  assumes "same_in_namespace (run_Namespace obj) rd rd'"
  shows "resolveAgentSkillComposition rd obj profile c = resolveAgentSkillComposition rd' obj profile c"
proof -
  have globals: "listGlobalAgentSkillSets rd (run_Namespace obj) = listGlobalAgentSkillSets rd' (run_Namespace obj)"
    using assms by (simp add: listGlobalAgentSkillSets_def same_in_namespace_def)
  have layers: "apply_skill_layer rd (run_Namespace obj) = apply_skill_layer rd' (run_Namespace obj)"
    by (intro ext) (simp add: apply_skill_layer_def same_skill_refs [OF assms] split: option.split)
  show ?thesis
    unfolding resolveAgentSkillComposition_def Let_def globals layers by (rule refl)
qed

lemma same_tools:
  assumes "same_in_namespace (run_Namespace obj) rd rd'"
  shows "resolveAgentToolComposition rd obj profile c = resolveAgentToolComposition rd' obj profile c"
proof -
  have globals: "listGlobalAgentToolSets rd (run_Namespace obj) = listGlobalAgentToolSets rd' (run_Namespace obj)"
    using assms by (simp add: listGlobalAgentToolSets_def same_in_namespace_def)
  have layers: "apply_tool_layer rd (run_Namespace obj) = apply_tool_layer rd' (run_Namespace obj)"
    by (intro ext) (simp add: apply_tool_layer_def same_tool_refs [OF assms] split: option.split)
  show ?thesis
    unfolding resolveAgentToolComposition_def Let_def globals layers by (rule refl)
qed

lemma same_council_profiles:
  "same_in_namespace (om_Namespace (council_Meta council)) rd rd' \<Longrightarrow>
   council_profiles rd council i members = council_profiles rd' council i members"
  by (induction members arbitrary: i) (simp_all add: same_in_namespace_def Let_def split: sum.split)

lemma same_council:
  assumes "same_in_namespace (run_Namespace obj) rd rd'"
    and "\<And>n council. rd_GetCouncil rd (run_Namespace obj) n = Inr council \<Longrightarrow>
      om_Namespace (council_Meta council) = run_Namespace obj"
  shows "resolveAgentCouncilObject rd obj profile = resolveAgentCouncilObject rd' obj profile"
proof -
  have get: "rd_GetCouncil rd' (run_Namespace obj) = rd_GetCouncil rd (run_Namespace obj)"
    using assms(1) by (simp add: same_in_namespace_def)
  have "council_profiles rd council i members = council_profiles rd' council i members"
    if "rd_GetCouncil rd (run_Namespace obj) n = Inr council" for council n i members
    using same_council_profiles assms(1) assms(2) [OF that] by simp
  then show ?thesis
    unfolding resolveAgentCouncilObject_def Let_def by (auto simp: get split: option.split sum.split)
qed

lemma same_profiles:
  assumes "same_in_namespace (run_Namespace obj) rd rd'"
  shows "resolveAgentRunProfileObject rd obj = resolveAgentRunProfileObject rd' obj"
    and "resolveAgentHarnessProfileObject rd (run_Namespace obj) ref =
      resolveAgentHarnessProfileObject rd' (run_Namespace obj) ref"
  using assms
  by (auto simp: resolveAgentRunProfileObject_def resolveAgentHarnessProfileObject_def Let_def
      same_in_namespace_def split: option.split)

lemma same_finish:
  assumes "same_in_namespace ns rd rd'"
  shows "composition_finish rd = composition_finish rd'"
proof -
  have status: "resolved_status rd = resolved_status rd'"
    using assms by (intro ext) (simp add: resolved_status_def same_in_namespace_def)
  show ?thesis unfolding composition_finish_def status by (rule refl)
qed

text \<open>
  C11. A run is composed from its own namespace only: two API servers that agree on the objects
  of the run's namespace (and encode alike) give the same effective run and the same outcome,
  so no object of another namespace can influence or be observed through a resolution. The
  hypothesis is that an object read from a namespace says that it is there.
\<close>

theorem composition_stays_in_namespace:
  assumes "same_in_namespace (run_Namespace obj) rd rd'"
    and "\<And>n council. rd_GetCouncil rd (run_Namespace obj) n = Inr council \<Longrightarrow>
      om_Namespace (council_Meta council) = run_Namespace obj"
  shows "resolveAgentRunComposition rd obj = resolveAgentRunComposition rd' obj"
proof -
  have council: "resolveAgentCouncilObject rd obj profile = resolveAgentCouncilObject rd' obj profile" for profile
    by (rule same_council [OF assms(1)]) (rule assms(2))
  have sets: "composition_sets rd obj profile harness effective = composition_sets rd' obj profile harness effective"
    for profile harness effective
    unfolding composition_sets_def same_skills [OF assms(1)] same_tools [OF assms(1)]
      council same_finish [OF assms(1)] by (rule refl)
  show ?thesis
    unfolding resolveAgentRunComposition_def same_profiles [OF assms(1)] sets by (rule refl)
qed

subsection \<open>A concrete resolution\<close>

text \<open>
  A run of the profile \<open>builder\<close> that swaps the harness, spoofs the reserved skill inline and
  inherits a credential variable; one global skill set; a council.
\<close>

definition demo_meta :: "string \<Rightarrow> ObjectMeta" where
  "demo_meta name = zero_ObjectMeta\<lparr>om_Name := name, om_Namespace := ''apps''\<rparr>"

definition demo_ref :: "string \<Rightarrow> NamespacedObjectReference" where
  "demo_ref name = \<lparr>nor_Name = name, nor_Namespace = []\<rparr>"

definition demo_env :: EnvVar where
  "demo_env = \<lparr>env_Name = ''GH_HOST'', env_Value = ''github.example'', env_ValueFrom = None\<rparr>"

definition demo_builder :: AgentRunProfile where
  "demo_builder = \<lparr>profile_Meta = demo_meta ''builder'', profile_Spec = \<lparr>
     prof_Description = [], prof_Scope = zero_Scope, prof_Docs = None, prof_IssueTracking = None,
     prof_Harness = zero_Harness, prof_HarnessProfileRef = None, prof_SkillSets = None,
     prof_ToolSets = None, prof_CouncilRef = Some (demo_ref ''guild''), prof_Notifications = None\<rparr>\<rparr>"

definition demo_hprofile :: AgentHarnessProfile where
  "demo_hprofile = \<lparr>hprofile_Meta = demo_meta ''fast'', hprofile_Spec = \<lparr>hp_Description = [],
     hp_Backend = zero_Backend\<lparr>be_Kind := AgentRunHarnessBackendCodex\<rparr>,
     hp_Execution = zero_Execution\<lparr>ex_ExtraEnv := [demo_env]\<rparr>\<rparr>\<rparr>"

definition demo_skillset :: AgentSkillSet where
  "demo_skillset = \<lparr>skillset_Meta = demo_meta ''shared'', skillset_Spec = \<lparr>sset_Description = [],
     sset_Global = True, sset_Skills = [demo_skill ''kb'' ''read''], sset_Tools = [], sset_Subagents = []\<rparr>\<rparr>"

definition demo_council :: AgentCouncil where
  "demo_council = \<lparr>council_Meta = demo_meta ''guild'', council_Spec = \<lparr>council_Description = [],
     council_Members = [\<lparr>member_Role = ''lead'', member_ProfileRef = demo_ref ''builder'', member_Description = []\<rparr>],
     council_Prompt = ''agree first''\<rparr>\<rparr>"

definition demo_missing :: "'a result" where
  "demo_missing = Inl (ApiError NotFound ''missing'')"

definition demo_reader :: composition_reader where
  "demo_reader = \<lparr>
     rd_GetProfile = (\<lambda>ns n. if ns = ''apps'' \<and> n = ''builder'' then Inr demo_builder else demo_missing),
     rd_GetHarnessProfile = (\<lambda>ns n. if ns = ''apps'' \<and> n = ''fast'' then Inr demo_hprofile else demo_missing),
     rd_GetSkillSet = (\<lambda>ns n. demo_missing),
     rd_ListSkillSets = (\<lambda>ns. Inr (if ns = ''apps'' then [demo_skillset] else [])),
     rd_GetToolSet = (\<lambda>ns n. demo_missing), rd_ListToolSets = (\<lambda>ns. Inr []),
     rd_GetCouncil = (\<lambda>ns n. if ns = ''apps'' \<and> n = ''guild'' then Inr demo_council else demo_missing),
     rd_MarshalProfileSpec = (\<lambda>_. None), rd_MarshalHarnessProfileSpec = (\<lambda>_. None),
     rd_MarshalSkillSetSpec = (\<lambda>_. None), rd_MarshalToolSetSpec = (\<lambda>_. None),
     rd_MarshalCouncilSpec = (\<lambda>_. None), rd_MarshalRunSpec = (\<lambda>_. None)\<rparr>"

definition demo_composed_run :: AgentRun where
  "demo_composed_run = zero_Run\<lparr>run_Meta := demo_meta ''job'', run_Spec := zero_RunSpec\<lparr>
     spec_ProfileRef := Some (demo_ref ''builder''), spec_HarnessProfileRef := Some (demo_ref ''fast''),
     spec_Harness := zero_Harness\<lparr>har_SkillInjections := [demo_skill '' create-agent'' ''do it'',
       demo_skill ''kb '' ''write'']\<rparr>\<rparr>\<rparr>"

definition demo_resolved :: "AgentRun \<times> AgentRunResolvedCompositionStatus resolution \<Rightarrow> bool" where
  "demo_resolved r = (case snd r of Resolved _ \<Rightarrow> True | _ \<Rightarrow> False)"

lemma demo_resolution:
  obtains status where "resolveAgentRunComposition demo_reader demo_composed_run =
    (fst (resolveAgentRunComposition demo_reader demo_composed_run), Resolved status)"
proof -
  have "demo_resolved (resolveAgentRunComposition demo_reader demo_composed_run)"
    by code_simp
  then show ?thesis
    using that by (cases "resolveAgentRunComposition demo_reader demo_composed_run")
      (auto simp: demo_resolved_def split: resolution.splits)
qed

lemma demo_profile_resolved:
  "resolveAgentRunProfileObject demo_reader demo_composed_run = Resolved (Some demo_builder)"
  "\<not> profileMayCreateAgent (Some demo_builder)"
  by code_simp+

theorem resolved_names_unique_witness:
  "map skill_Name (har_SkillInjections (spec_Harness (run_Spec
     (fst (resolveAgentRunComposition demo_reader demo_composed_run))))) = [''kb '', ''council-guild''] \<and>
   distinct (map (\<lambda>s. TrimSpace (skill_Name s)) (har_SkillInjections (spec_Harness (run_Spec
     (fst (resolveAgentRunComposition demo_reader demo_composed_run))))))"
proof -
  obtain status where r: "resolveAgentRunComposition demo_reader demo_composed_run =
    (fst (resolveAgentRunComposition demo_reader demo_composed_run), Resolved status)"
    by (rule demo_resolution)
  have "map skill_Name (har_SkillInjections (spec_Harness (run_Spec
     (fst (resolveAgentRunComposition demo_reader demo_composed_run))))) = [''kb '', ''council-guild'']"
    by code_simp
  then show ?thesis using resolved_names_unique [OF r] by blast
qed


theorem credential_environment_inherited_witness:
  "\<exists>profile harness. resolveAgentRunProfileObject demo_reader demo_composed_run = Resolved profile \<and>
    resolveAgentHarnessProfileObject demo_reader (run_Namespace demo_composed_run)
      (selectedAgentHarnessProfileRef profile demo_composed_run) = Resolved harness \<and>
    ((\<exists>p. profile = Some p \<and> demo_env \<in> set (ex_ExtraEnv (har_Execution (prof_Harness (profile_Spec p))))) \<or>
     (\<exists>h. harness = Some h \<and> demo_env \<in> set (ex_ExtraEnv (hp_Execution (hprofile_Spec h)))))"
proof -
  obtain status where r: "resolveAgentRunComposition demo_reader demo_composed_run =
    (fst (resolveAgentRunComposition demo_reader demo_composed_run), Resolved status)"
    by (rule demo_resolution)
  have "demo_env \<in> set (ex_ExtraEnv (har_Execution (spec_Harness (run_Spec
       (fst (resolveAgentRunComposition demo_reader demo_composed_run))))))"
    by code_simp
  moreover have "TrimSpace (env_Name demo_env) \<in> set agentRunReservedCredentialBootstrapEnvironment"
    by code_simp
  ultimately show ?thesis using credential_environment_inherited [OF r] by blast
qed

theorem harness_swap_atomic_witness:
  "har_Backend (spec_Harness (run_Spec (fst (resolveAgentRunComposition demo_reader demo_composed_run)))) =
     agentRunMergeBackend (hp_Backend (hprofile_Spec demo_hprofile)) zero_Backend"
proof -
  obtain status where r: "resolveAgentRunComposition demo_reader demo_composed_run =
    (fst (resolveAgentRunComposition demo_reader demo_composed_run), Resolved status)"
    by (rule demo_resolution)
  have ref: "spec_HarnessProfileRef (run_Spec demo_composed_run) = Some (demo_ref ''fast'')"
    by (simp add: demo_composed_run_def)
  have "rd_GetHarnessProfile demo_reader (run_Namespace demo_composed_run)
      (TrimSpace (nor_Name (demo_ref ''fast''))) = Inr demo_hprofile"
    by code_simp
  moreover have "har_Backend (spec_Harness (run_Spec demo_composed_run)) = zero_Backend"
    by code_simp
  ultimately show ?thesis using harness_swap_atomic [OF r ref] by auto
qed

definition demo_other_reader :: composition_reader where
  "demo_other_reader = demo_reader\<lparr>rd_GetProfile :=
     (\<lambda>ns n. if ns = ''apps'' then rd_GetProfile demo_reader ns n else Inr demo_builder)\<rparr>"

theorem composition_stays_in_namespace_witness:
  "resolveAgentRunComposition demo_reader demo_composed_run =
   resolveAgentRunComposition demo_other_reader demo_composed_run"
proof (rule composition_stays_in_namespace)
  show "same_in_namespace (run_Namespace demo_composed_run) demo_reader demo_other_reader"
    by (simp add: same_in_namespace_def demo_composed_run_def demo_meta_def demo_other_reader_def fun_eq_iff)
  show "om_Namespace (council_Meta council) = run_Namespace demo_composed_run"
    if "rd_GetCouncil demo_reader (run_Namespace demo_composed_run) n = Inr council" for n council
    using that by (auto simp: demo_reader_def demo_composed_run_def demo_meta_def demo_council_def
        demo_missing_def split: if_splits)
qed

end
