(* ===== verification/RunReports.thy ===== *)
theory RunReports
  imports ProfileMerge RunControl
begin

text \<open>
  What a runner reports: the status lines in its log and what the AgentRun controller makes of
  them (\<^verbatim>\<open>agentRunStatusReportsFromOutput\<close> and the functions around it in
  \<^verbatim>\<open>internal/controller/agent_run_controller.go\<close>). Strings are bytes, and limits count bytes as
  the code does. The decoding of a JSON object into a report is a parameter \<open>decode\<close>, \<open>None\<close>
  where \<^verbatim>\<open>json.Unmarshal\<close> fails.
\<close>

subsection \<open>Lines of a log\<close>

abbreviation newline :: char where "newline \<equiv> CHR 0x0A"

text \<open>
  The lines a \<^verbatim>\<open>bufio.Scanner\<close> with a buffer of at most 1 MiB yields: it stops at a line that
  does not fit. The trailing carriage return it drops is white space to the callers, and so is
  the empty line after a final newline.
\<close>

definition agentRunScannerBuffer :: int where "agentRunScannerBuffer = 1024 * 1024"

definition scanned_lines :: "string \<Rightarrow> string list" where
  "scanned_lines output = takeWhile (\<lambda>l. int (length l) < agentRunScannerBuffer) (Split output newline)"

definition agentRunStatusLinePrefix :: string where
  "agentRunStatusLinePrefix = ''ANVIL_AGENT_RUN_STATUS_JSON=''"

definition status_payload :: "string \<Rightarrow> string option" where
  "status_payload text =
     (let line = TrimSpace text in
      case Index line agentRunStatusLinePrefix of
        None \<Rightarrow> None
      | Some i \<Rightarrow> Some (TrimSpace (drop (i + length agentRunStatusLinePrefix) line)))"

subsection \<open>Normalising and keeping reports\<close>

definition agentRunLimitString :: "string \<Rightarrow> int \<Rightarrow> string" where
  "agentRunLimitString value limit =
     (if limit \<le> 0 \<or> int (length value) \<le> limit then value else take (nat limit) value)"

definition zero_Report :: AgentRunStatusReport where
  "zero_Report = \<lparr>rep_Type = [], rep_ObservedAt = None, rep_Level = [], rep_Stage = [],
     rep_Classification = [], rep_Action = [], rep_Summary = [], rep_Detail = [],
     rep_PullRequestURL = [], rep_ResidualRisk = [], rep_NeedsHuman = False, rep_HumanFollowUp = []\<rparr>"

definition agentRunNormalizeStatusReport :: "AgentRunStatusReport \<Rightarrow> AgentRunStatusReport" where
  "agentRunNormalizeStatusReport report =
     (let r = report\<lparr>
        rep_Type := agentRunLimitString (TrimSpace (rep_Type report)) 64,
        rep_Level := agentRunLimitString (TrimSpace (rep_Level report)) 32,
        rep_Stage := agentRunLimitString (TrimSpace (rep_Stage report)) 96,
        rep_Classification := agentRunLimitString (TrimSpace (rep_Classification report)) 128,
        rep_Action := agentRunLimitString (TrimSpace (rep_Action report)) 128,
        rep_Summary := agentRunLimitString (TrimSpace (rep_Summary report)) 1000,
        rep_Detail := agentRunLimitString (TrimSpace (rep_Detail report)) 4000,
        rep_PullRequestURL := agentRunLimitString (TrimSpace (rep_PullRequestURL report)) 500,
        rep_ResidualRisk := agentRunLimitString (TrimSpace (rep_ResidualRisk report)) 1000,
        rep_HumanFollowUp := agentRunLimitString (TrimSpace (rep_HumanFollowUp report)) 1000\<rparr> in
      if rep_Type r = [] \<and> rep_Level r = [] \<and> rep_Stage r = [] \<and> rep_Classification r = [] \<and>
         rep_Action r = [] \<and> rep_Summary r = [] \<and> rep_Detail r = [] \<and> rep_PullRequestURL r = [] \<and>
         rep_ResidualRisk r = [] \<and> rep_HumanFollowUp r = [] \<and> \<not> rep_NeedsHuman r
      then zero_Report else r)"

definition agentRunReportHasDecision :: "AgentRunStatusReport \<Rightarrow> bool" where
  "agentRunReportHasDecision report \<longleftrightarrow>
     EqualFold (TrimSpace (rep_Type report)) ''decision'' \<or>
     TrimSpace (rep_Classification report) \<noteq> [] \<or> TrimSpace (rep_Action report) \<noteq> [] \<or>
     TrimSpace (rep_ResidualRisk report) \<noteq> [] \<or> rep_NeedsHuman report"

definition maxReports :: nat where "maxReports = 25"

definition agentRunTrimStatusReports :: "AgentRunStatusReport list \<Rightarrow> AgentRunStatusReport list" where
  "agentRunTrimStatusReports reports =
     (if length reports \<le> maxReports then reports
      else
        let trimmed = drop (length reports - maxReports) reports in
        if \<exists>report \<in> set trimmed. agentRunReportHasDecision report then trimmed
        else (case last_entry agentRunReportHasDecision (take (length reports - maxReports) reports) of
                Some report \<Rightarrow> trimmed[0 := report]
              | None \<Rightarrow> trimmed))"

fun reports_of_lines :: "(string \<Rightarrow> AgentRunStatusReport option) \<Rightarrow> string list \<Rightarrow> AgentRunStatusReport list" where
  "reports_of_lines decode [] = []"
| "reports_of_lines decode (line # lines) =
     (case status_payload line of
        None \<Rightarrow> reports_of_lines decode lines
      | Some raw \<Rightarrow>
          if raw = [] then reports_of_lines decode lines
          else (case decode raw of
                  None \<Rightarrow> reports_of_lines decode lines
                | Some report \<Rightarrow>
                    let report = agentRunNormalizeStatusReport report in
                    if report = zero_Report then reports_of_lines decode lines
                    else report # reports_of_lines decode lines))"

definition agentRunStatusReportsFromOutput :: "(string \<Rightarrow> AgentRunStatusReport option) \<Rightarrow> string \<Rightarrow> AgentRunStatusReport list" where
  "agentRunStatusReportsFromOutput decode output =
     agentRunTrimStatusReports (reports_of_lines decode (scanned_lines output))"

subsection \<open>What the status takes from the reports\<close>

definition report_decision :: "AgentRunStatusReport \<Rightarrow> AgentRunDecisionStatus" where
  "report_decision report = \<lparr>
     dec_Classification = TrimSpace (rep_Classification report), dec_Action = TrimSpace (rep_Action report),
     dec_Summary = TrimSpace (rep_Summary report), dec_ResidualRisk = TrimSpace (rep_ResidualRisk report)\<rparr>"

definition apply_report :: "AgentRunStatus \<Rightarrow> AgentRunStatusReport \<Rightarrow> AgentRunStatus" where
  "apply_report status report =
     (let status = (if TrimSpace (rep_PullRequestURL report) \<noteq> []
                    then status\<lparr>rs_PullRequestURL := TrimSpace (rep_PullRequestURL report)\<rparr> else status) in
      if agentRunReportHasDecision report then status\<lparr>rs_Decision := Some (report_decision report)\<rparr>
      else status)"

definition agentRunApplyStatusReports :: "AgentRunStatus \<Rightarrow> AgentRunStatusReport list \<Rightarrow> AgentRunStatus" where
  "agentRunApplyStatusReports status reports =
     (if reports = [] then status else foldl apply_report (status\<lparr>rs_Reports := reports\<rparr>) reports)"

definition agentRunReportsNeedHuman :: "AgentRunStatusReport list \<Rightarrow> bool" where
  "agentRunReportsNeedHuman reports \<longleftrightarrow>
     (\<exists>report \<in> set reports. rep_NeedsHuman report \<or> EqualFold (TrimSpace (rep_Type report)) ''needsHuman'')"

definition agentRunLatestHumanFollowUp :: "AgentRunStatusReport list \<Rightarrow> string" where
  "agentRunLatestHumanFollowUp reports =
     (case last_entry (\<lambda>r. TrimSpace (rep_HumanFollowUp r) \<noteq> []) reports of
        Some r \<Rightarrow> TrimSpace (rep_HumanFollowUp r) | None \<Rightarrow> [])"

text \<open>The last at most four non-blank lines, in order, cut to 300 bytes.\<close>

fun last_lines :: "nat \<Rightarrow> string list \<Rightarrow> string list \<Rightarrow> string list" where
  "last_lines n [] compact = compact"
| "last_lines n (l # ls) compact =
     (if n \<le> length compact then compact
      else let line = TrimSpace l in last_lines n ls (if line \<noteq> [] then line # compact else compact))"

definition agentRunOutputSummary :: "string \<Rightarrow> string" where
  "agentRunOutputSummary output =
     (let output = TrimSpace output in
      if output = [] then ''Agent run harness completed.''
      else let summary = Join (last_lines 4 (rev (Split output newline)) []) '' '' in
        if length summary > 300 then take 300 summary else summary)"

definition agentRunTrimOutput :: "string \<Rightarrow> string" where
  "agentRunTrimOutput output =
     (let output = TrimSpace output; maxOutputBytes = 32 * 1024 in
      if int (length output) \<le> maxOutputBytes then output
      else drop (length output - nat maxOutputBytes) output)"

subsection \<open>Keeping reports within bounds keeps the decision\<close>

lemma trimmed_length: "length (agentRunTrimStatusReports reports) \<le> maxReports"
  by (simp add: agentRunTrimStatusReports_def Let_def split: option.splits)

lemma trimmed_decision:
  "last_entry agentRunReportHasDecision (agentRunTrimStatusReports reports) =
   last_entry agentRunReportHasDecision reports"
proof (cases "length reports \<le> maxReports")
  case False
  let ?n = "length reports - maxReports"
  have parts: "last_entry agentRunReportHasDecision reports =
      (case last_entry agentRunReportHasDecision (drop ?n reports) of Some r \<Rightarrow> Some r
       | None \<Rightarrow> last_entry agentRunReportHasDecision (take ?n reports))"
    using last_entry_append [of agentRunReportHasDecision "take ?n reports" "drop ?n reports"] by simp
  show ?thesis
  proof (cases "\<exists>r \<in> set (drop ?n reports). agentRunReportHasDecision r")
    case True
    then have "last_entry agentRunReportHasDecision (drop ?n reports) \<noteq> None"
      by (simp add: last_entry_None)
    then show ?thesis using False True parts by (auto simp: agentRunTrimStatusReports_def Let_def)
  next
    case none: False
    then have late: "last_entry agentRunReportHasDecision (drop ?n reports) = None"
      by (simp add: last_entry_None)
    have len: "0 < length (drop ?n reports)" using False by (simp add: maxReports_def)
    have later: "\<forall>j. 0 < j \<and> j < length (drop ?n reports) \<longrightarrow>
        \<not> agentRunReportHasDecision (drop ?n reports ! j)"
      using none nth_mem by blast
    show ?thesis
    proof (cases "last_entry agentRunReportHasDecision (take ?n reports)")
      case None
      then show ?thesis using False none late parts by (simp add: agentRunTrimStatusReports_def Let_def)
    next
      case (Some r)
      have "last_entry agentRunReportHasDecision ((drop ?n reports)[0 := r]) = Some r"
        using last_entry_update [OF len later, of r] last_entry_Some [OF Some] by simp
      then show ?thesis using False none late parts Some by (simp add: agentRunTrimStatusReports_def Let_def)
    qed
  qed
qed (simp add: agentRunTrimStatusReports_def)

lemma foldl_apply_report_decision:
  "rs_Decision (foldl apply_report status reports) =
   (case last_entry agentRunReportHasDecision reports of
      Some r \<Rightarrow> Some (report_decision r) | None \<Rightarrow> rs_Decision status)"
  by (induction reports arbitrary: status) (auto simp: apply_report_def Let_def split: option.splits)

lemma applied_decision:
  "rs_Decision (agentRunApplyStatusReports status reports) =
   (case last_entry agentRunReportHasDecision reports of
      Some r \<Rightarrow> Some (report_decision r) | None \<Rightarrow> rs_Decision status)"
  by (simp add: agentRunApplyStatusReports_def foldl_apply_report_decision split: option.split)

text \<open>
  A runner may print any number of status lines: the status keeps at most 25 of them, and the
  decision it records is that of the last line that carries one, no matter how many reports
  without a decision follow it; trimming never loses it.
\<close>

theorem decision_survives_trimming:
  "length (agentRunStatusReportsFromOutput decode output) \<le> 25 \<and>
   rs_Decision (agentRunApplyStatusReports status (agentRunStatusReportsFromOutput decode output)) =
     (case last_entry agentRunReportHasDecision (reports_of_lines decode (scanned_lines output)) of
        Some report \<Rightarrow> Some (report_decision report)
      | None \<Rightarrow> rs_Decision status)"
  using trimmed_length [of "reports_of_lines decode (scanned_lines output)"]
  by (simp add: agentRunStatusReportsFromOutput_def applied_decision trimmed_decision maxReports_def)

text \<open>
  Trimming can lose a request for a human, though: a report of type \<open>needsHuman\<close> is not a decision,
  so twenty-five later progress lines push it out and a completed run is reported as succeeded.
\<close>

definition demo_progress :: AgentRunStatusReport where
  "demo_progress = zero_Report\<lparr>rep_Type := ''progress'', rep_Summary := ''working''\<rparr>"

definition demo_needs_human :: AgentRunStatusReport where
  "demo_needs_human = zero_Report\<lparr>rep_Type := ''needsHuman'', rep_Summary := ''approve the migration''\<rparr>"

lemma human_request_lost:
  "agentRunReportsNeedHuman (demo_needs_human # replicate 25 demo_progress) \<and>
   \<not> agentRunReportsNeedHuman (agentRunTrimStatusReports (demo_needs_human # replicate 25 demo_progress))"
  by code_simp

lemma limit_string_length: "0 < limit \<Longrightarrow> length (agentRunLimitString v limit) \<le> nat limit"
  by (auto simp: agentRunLimitString_def)

lemma normalized_report_bounds:
  "length (rep_Summary (agentRunNormalizeStatusReport report)) \<le> 1000"
  "length (rep_Detail (agentRunNormalizeStatusReport report)) \<le> 4000"
  "length (rep_HumanFollowUp (agentRunNormalizeStatusReport report)) \<le> 1000"
  using limit_string_length [of 1000] limit_string_length [of 4000]
  by (simp_all add: agentRunNormalizeStatusReport_def Let_def zero_Report_def)

end
