(* ===== verification/Payload.thy ===== *)
theory Payload
  imports Options Composition RunReports
begin

text \<open>
  The payload of an agent run, \<^verbatim>\<open>internal/controller/agent_run_controller.go\<close>: the prompt, the
  context document, one file per skill and per tool setup script, and the download of skills
  from GitHub. Package \<^verbatim>\<open>net/url\<close>, the HTTP exchange and JSON encoding are parameters, in the
  record \<open>net\<close> and as functions. The lemmas show that no file of the payload overwrites
  another, that the runner is told the paths under which the files are mounted, and that a
  credential is only sent to the host it was configured for.
\<close>

subsection \<open>URLs and HTTP\<close>

record URL =
  url_Scheme :: string
  url_User :: "opaque option"
  url_Host :: string
  url_Path :: string
  url_RawQuery :: string
  url_Fragment :: string

text \<open>
  \<open>net_Parse\<close> is \<^verbatim>\<open>url.Parse\<close>, \<open>net_String\<close> the method \<^verbatim>\<open>String\<close>, \<open>net_SetQuery q k v\<close> is the
  encoding of the query \<open>q\<close> after \<^verbatim>\<open>Set(k, v)\<close>. \<open>net_Do u token\<close> is a \<^verbatim>\<open>GET\<close> of \<open>u\<close> that follows no
  redirect, with \<open>token\<close> as bearer token when it is not empty: a status code and the result of
  reading the body, or an error.
\<close>

record net =
  net_Parse :: "string \<Rightarrow> URL result"
  net_String :: "URL \<Rightarrow> string"
  net_SetQuery :: "string \<Rightarrow> string \<Rightarrow> string \<Rightarrow> string"
  net_Do :: "string \<Rightarrow> string \<Rightarrow> (int \<times> string result) result"

text \<open>The method \<^verbatim>\<open>Hostname\<close>: without a port and without the brackets of an IPv6 address.\<close>

definition valid_optional_port :: "string \<Rightarrow> bool" where
  "valid_optional_port port \<longleftrightarrow> port = [] \<or> hd port = CHR '':'' \<and> list_all is_digit (tl port)"

definition last_colon :: "string \<Rightarrow> nat option" where
  "last_colon s = (case Index (rev s) '':'' of None \<Rightarrow> None | Some i \<Rightarrow> Some (length s - 1 - i))"

definition Hostname :: "URL \<Rightarrow> string" where
  "Hostname u =
     (let hostPort = url_Host u;
          host = (case last_colon hostPort of
                    Some i \<Rightarrow> if valid_optional_port (drop i hostPort) then take i hostPort else hostPort
                  | None \<Rightarrow> hostPort) in
      if HasPrefix host ''['' \<and> HasSuffix host '']'' then butlast (tl host) else host)"

text \<open>\<^verbatim>\<open>url.PathEscape\<close>.\<close>

definition is_alnum :: "char \<Rightarrow> bool" where
  "is_alnum c \<longleftrightarrow> (let n = (of_char c :: nat) in
     (97 \<le> n \<and> n \<le> 122) \<or> (65 \<le> n \<and> n \<le> 90) \<or> (48 \<le> n \<and> n \<le> 57))"

definition upper_hex :: "nat \<Rightarrow> char" where
  "upper_hex n = (if n < 10 then char_of (48 + n) else char_of (55 + n))"

definition escape_segment_char :: "char \<Rightarrow> string" where
  "escape_segment_char c =
     (if is_alnum c \<or> c \<in> set ''-_.~$&+=:@'' then [c]
      else let n = (of_char c :: nat) in [CHR ''%'', upper_hex (n div 16), upper_hex (n mod 16)])"

definition PathEscape :: "string \<Rightarrow> string" where
  "PathEscape s = concat (map escape_segment_char s)"

subsection \<open>Skill sources\<close>

definition agentRunDefaultGitHubAPIBaseURL :: string where
  "agentRunDefaultGitHubAPIBaseURL = ''https://api.github.com''"
definition agentRunRemoteSkillMaxBytes :: int where "agentRunRemoteSkillMaxBytes = 256 * 1024"
definition agentRunPayloadConfigMapMaxBytes :: int where "agentRunPayloadConfigMapMaxBytes = 900 * 1024"

fun path_segments_ok :: "string list \<Rightarrow> bool" where
  "path_segments_ok [] = True"
| "path_segments_ok (part # parts) =
     (let part = TrimSpace part in
      if part = [] \<or> part = ''.'' \<or> part = ''..'' then False else path_segments_ok parts)"

definition agentRunValidateRemoteFilePath :: "string \<Rightarrow> go_error option" where
  "agentRunValidateRemoteFilePath filePath =
     (if TrimSpace filePath = [] then Some (Errorf ''github.path is required'')
      else if HasPrefix filePath ''/'' then Some (Errorf ''github.path must be repository-relative'')
      else if \<not> path_segments_ok (Split filePath (CHR ''/''))
      then Some (Errorf (''github.path must not contain empty, '' @ [CHR 0x27] @ ''.'' @ [CHR 0x27] @
             '', or '' @ [CHR 0x27] @ ''..'' @ [CHR 0x27] @ '' segments''))
      else None)"

definition owner_and_name :: "string \<Rightarrow> string list" where
  "owner_and_name repository = Split (Trim (TrimSpace repository) (CHR ''/'')) (CHR ''/'')"

definition owner_name_form :: "string list \<Rightarrow> bool" where
  "owner_name_form parts \<longleftrightarrow>
     length parts = 2 \<and> TrimSpace (parts ! 0) \<noteq> [] \<and> TrimSpace (parts ! 1) \<noteq> []"

definition github_base_error :: "Options \<Rightarrow> URL \<Rightarrow> go_error option" where
  "github_base_error options baseURL =
     (if url_User baseURL \<noteq> None then Some (Errorf ''github.apiBaseURL must not include credentials'')
      else if url_Host baseURL = [] then Some (Errorf ''github.apiBaseURL must include a host'')
      else if url_Scheme baseURL \<noteq> ''https'' \<and>
              \<not> (opt_AllowInsecureGitHubAPI options \<and> url_Scheme baseURL = ''http'')
      then Some (Errorf ''github.apiBaseURL must use https'')
      else let host = ToLower (TrimSpace (Hostname baseURL)) in
        if \<not> list_ex (\<lambda>configured. host = ToLower (TrimSpace configured)) (opt_GitHubAPIAllowedHosts options)
        then Some (Errorf (''github.apiBaseURL host '' @ Quote host @ '' is not in the operator allowlist''))
        else None)"

definition contents_path :: "URL \<Rightarrow> string list \<Rightarrow> string \<Rightarrow> string" where
  "contents_path baseURL repository filePath =
     Join ([TrimRight (url_Path baseURL) (CHR ''/''), ''repos'',
       PathEscape (repository ! 0), PathEscape (repository ! 1), ''contents''] @
       map PathEscape (Split filePath (CHR ''/''))) ''/''"

definition contents_query :: "net \<Rightarrow> URL \<Rightarrow> string \<Rightarrow> string" where
  "contents_query n baseURL ref =
     (if ref \<noteq> [] then net_SetQuery n (url_RawQuery baseURL) ''ref'' ref else url_RawQuery baseURL)"

definition agentRunGitHubContentsURL :: "net \<Rightarrow> Options \<Rightarrow> AgentRunGitHubSkillSourceSpec \<Rightarrow> string result" where
  "agentRunGitHubContentsURL n options spec =
     (let apiBase = TrimSpace (gh_APIBaseURL spec);
          apiBase = (if apiBase = [] then agentRunDefaultGitHubAPIBaseURL else apiBase) in
      case net_Parse n apiBase of
        Inl e \<Rightarrow> Inl e
      | Inr baseURL \<Rightarrow>
          (case github_base_error options baseURL of
             Some e \<Rightarrow> Inl e
           | None \<Rightarrow>
               let repository = owner_and_name (gh_Repository spec); filePath = TrimSpace (gh_Path spec) in
               if \<not> owner_name_form repository then Inl (Errorf ''github.repository must use owner/name form'')
               else (case agentRunValidateRemoteFilePath filePath of
                       Some e \<Rightarrow> Inl e
                     | None \<Rightarrow>
                         Inr (net_String n (baseURL\<lparr>
                           url_Path := contents_path baseURL repository filePath,
                           url_RawQuery := contents_query n baseURL (TrimSpace (gh_Ref spec))\<rparr>)))))"

definition normalizeAgentRunSkillCredentialHost :: "net \<Rightarrow> string \<Rightarrow> string result" where
  "normalizeAgentRunSkillCredentialHost n raw =
     (let raw = TrimSpace raw;
          e = Inl (Errorf (''skill source credential apiHost '' @ Quote raw @
                '' must be an exact host without scheme or path'')) in
      case net_Parse n (''https://'' @ raw) of
        Inl _ \<Rightarrow> e
      | Inr parsed \<Rightarrow>
          if url_User parsed \<noteq> None \<or> url_Host parsed = [] \<or> url_Path parsed \<noteq> [] \<or>
             url_RawQuery parsed \<noteq> [] \<or> url_Fragment parsed \<noteq> [] then e
          else Inr (ToLower (url_Host parsed)))"

fun select_credential :: "net \<Rightarrow> string \<Rightarrow> SecretKeyReference option \<Rightarrow> AgentRunGitHubSkillCredential list \<Rightarrow> SecretKeyReference option result" where
  "select_credential n host selected [] = Inr selected"
| "select_credential n host selected (credential # credentials) =
     (case normalizeAgentRunSkillCredentialHost n (ghc_APIHost credential) of
        Inl e \<Rightarrow> Inl e
      | Inr credentialHost \<Rightarrow>
          if credentialHost \<noteq> host then select_credential n host selected credentials
          else if selected \<noteq> None
          then Inl (Errorf (''multiple skill source credentials select API host '' @ host))
          else select_credential n host (Some (ghc_TokenSecretRef credential)) credentials)"

definition agentRunSkillSourceCredentialRef :: "net \<Rightarrow> AgentRun \<Rightarrow> string \<Rightarrow> SecretKeyReference option result" where
  "agentRunSkillSourceCredentialRef n obj sourceURL =
     (case net_Parse n sourceURL of
        Inl e \<Rightarrow> Inl e
      | Inr parsed \<Rightarrow>
          select_credential n (ToLower (url_Host parsed)) None
            (ex_SkillSourceCredentials (har_Execution (spec_Harness (run_Spec obj)))))"

text \<open>\<open>getSecret\<close> reads the data of a Secret by namespace and name.\<close>

type_synonym get_secret = "string \<Rightarrow> string \<Rightarrow> strmap result"

definition agentRunReadSkillSourceToken :: "get_secret \<Rightarrow> AgentRun \<Rightarrow> SecretKeyReference \<Rightarrow> string result" where
  "agentRunReadSkillSourceToken getSecret obj ref =
     (let namespace = TrimSpace (skr_Namespace ref);
          namespace = (if namespace = [] then run_Namespace obj else namespace);
          secret_name = namespace @ ''/'' @ skr_Name ref in
      if namespace \<noteq> run_Namespace obj
      then Inl (Errorf (''skill source token secret '' @ secret_name @ '' must be in the AgentRun namespace '' @
             run_Namespace obj))
      else (case getSecret namespace (TrimSpace (skr_Name ref)) of
              Inl e \<Rightarrow> Inl e
            | Inr data \<Rightarrow>
                let key = TrimSpace (skr_Key ref) in
                (case map_of data key of
                   None \<Rightarrow> Inl (Errorf (''skill source token secret '' @ secret_name @ '' is missing key '' @ Quote key))
                 | Some v \<Rightarrow>
                     let token = TrimSpace v in
                     if token = [] then Inl (Errorf (''skill source token secret '' @ secret_name @ '' key '' @
                         Quote key @ '' is empty''))
                     else Inr token)))"

record resolvedAgentRunSkillSource =
  source_Description :: string
  source_Content :: string

text \<open>The request that \<^verbatim>\<open>resolveAgentRunGitHubSkillSource\<close> makes: the URL and the token.\<close>

definition github_request :: "net \<Rightarrow> get_secret \<Rightarrow> Options \<Rightarrow> AgentRun \<Rightarrow> AgentRunGitHubSkillSourceSpec \<Rightarrow> (string \<times> string) result" where
  "github_request n getSecret options obj spec =
     (case agentRunGitHubContentsURL n options spec of
        Inl e \<Rightarrow> Inl e
      | Inr sourceURL \<Rightarrow>
          (case agentRunSkillSourceCredentialRef n obj sourceURL of
             Inl e \<Rightarrow> Inl e
           | Inr None \<Rightarrow> Inr (sourceURL, [])
           | Inr (Some tokenRef) \<Rightarrow>
               (case agentRunReadSkillSourceToken getSecret obj tokenRef of
                  Inl e \<Rightarrow> Inl e
                | Inr token \<Rightarrow> Inr (sourceURL, token))))"

definition resolveAgentRunGitHubSkillSource :: "net \<Rightarrow> get_secret \<Rightarrow> Options \<Rightarrow> AgentRun \<Rightarrow> AgentRunGitHubSkillSourceSpec \<Rightarrow> resolvedAgentRunSkillSource result" where
  "resolveAgentRunGitHubSkillSource n getSecret options obj spec =
     (case github_request n getSecret options obj spec of
        Inl e \<Rightarrow> Inl e
      | Inr (sourceURL, token) \<Rightarrow>
          let what = gh_Repository spec @ '':'' @ gh_Path spec in
          (case net_Do n sourceURL token of
             Inl e \<Rightarrow> Inl e
           | Inr (code, body) \<Rightarrow>
               if code < 200 \<or> 300 \<le> code
               then Inl (Errorf (''GitHub contents request failed for '' @ what @ '' with HTTP '' @ Itoa code))
               else (case body of
                       Inl e \<Rightarrow> Inl e
                     | Inr content \<Rightarrow>
                         if int (length content) > agentRunRemoteSkillMaxBytes
                         then Inl (Errorf (''GitHub contents response exceeds the '' @ Itoa agentRunRemoteSkillMaxBytes @
                                ''-byte remote skill limit for '' @ what))
                         else if TrimSpace content = []
                         then Inl (Errorf (''GitHub contents request returned empty content for '' @ what))
                         else let ref = TrimSpace (gh_Ref spec); ref = (if ref = [] then ''default branch'' else ref) in
                           Inr \<lparr>source_Description = ''GitHub '' @ TrimSpace (gh_Repository spec) @ '':'' @
                                  TrimSpace (gh_Path spec) @ '' @ '' @ ref,
                                source_Content = content\<rparr>)))"

definition resolveAgentRunSkillSource :: "net \<Rightarrow> get_secret \<Rightarrow> Options \<Rightarrow> AgentRun \<Rightarrow> AgentRunSkillSourceRef \<Rightarrow> resolvedAgentRunSkillSource result" where
  "resolveAgentRunSkillSource n getSecret options obj sourceRef =
     (case ssr_GitHub sourceRef of
        Some gh \<Rightarrow> resolveAgentRunGitHubSkillSource n getSecret options obj gh
      | None \<Rightarrow> Inl (Errorf ''sourceRefs entries must configure a provider''))"

subsection \<open>Files of the payload\<close>

definition agentRunPayloadMountPath :: string where "agentRunPayloadMountPath = ''/var/run/anvil-agent-run''"
definition agentRunPromptFile :: string where "agentRunPromptFile = ''prompt.md''"
definition agentRunContextFile :: string where "agentRunContextFile = ''source.json''"
definition agentRunSkillFilePrefix :: string where "agentRunSkillFilePrefix = ''skill-''"
definition agentRunToolFilePrefix :: string where "agentRunToolFilePrefix = ''tool-''"

text \<open>\<^verbatim>\<open>ReplaceAllString\<close> of the pattern \<^verbatim>\<open>[^A-Za-z0-9_.-]+\<close> by a dash.\<close>

definition file_name_char :: "char \<Rightarrow> bool" where
  "file_name_char c \<longleftrightarrow> is_alnum c \<or> c \<in> set ''_.-''"

fun replace_unsafe :: "bool \<Rightarrow> string \<Rightarrow> string" where
  "replace_unsafe in_run [] = []"
| "replace_unsafe in_run (c # cs) =
     (if file_name_char c then c # replace_unsafe False cs
      else if in_run then replace_unsafe True cs
      else CHR ''-'' # replace_unsafe True cs)"

definition file_stem :: "string \<Rightarrow> string" where
  "file_stem raw =
     (let name = TrimSet (replace_unsafe False (ToLower (TrimSpace raw))) ''-_.'';
          name = (if name = [] then ''unnamed'' else name) in
      if length name > 80
      then let name = TrimSet (take 80 name) ''-_.'' in if name = [] then ''unnamed'' else name
      else name)"

definition agentRunSkillFileName :: "nat \<Rightarrow> AgentRunSkillInjectionSpec \<Rightarrow> string" where
  "agentRunSkillFileName index skill =
     agentRunSkillFilePrefix @ pad0 2 (int index + 1) @ ''-'' @ file_stem (skill_Name skill) @ ''.md''"

definition agentRunToolSetupFileName :: "nat \<Rightarrow> AgentRunToolSpec \<Rightarrow> string" where
  "agentRunToolSetupFileName index tool =
     agentRunToolFilePrefix @ pad0 2 (int index + 1) @ ''-'' @ file_stem (tool_Name tool) @ ''-setup.sh''"

definition trimmed_items :: "string list \<Rightarrow> string list" where
  "trimmed_items paths = map (\<lambda>p. ''- '' @ p) (filter (\<lambda>p. p \<noteq> []) (map TrimSpace paths))"

definition source_parts :: "resolvedAgentRunSkillSource \<Rightarrow> string list" where
  "source_parts source =
     (let description = TrimSpace (source_Description source);
          description = (if description = [] then ''remote source'' else description);
          content = TrimSpace (source_Content source) in
      [[], ''### '' @ description] @ (if content \<noteq> [] then [[], content] else []))"

definition agentRunSkillFileContentWithSources :: "AgentRunSkillInjectionSpec \<Rightarrow> resolvedAgentRunSkillSource list \<Rightarrow> string" where
  "agentRunSkillFileContentWithSources skill sources =
     (let description = TrimSpace (skill_Description skill); content = TrimSpace (skill_Content skill) in
      Join ([''# Skill: '' @ TrimSpace (skill_Name skill)] @
        (if description \<noteq> [] then [[], ''## When To Apply'', description] else []) @
        (if skill_Paths skill \<noteq> [] then [[], ''## Required Context Paths''] @ trimmed_items (skill_Paths skill) else []) @
        (if content \<noteq> [] then [[], ''## Instructions'', content] else []) @
        (if sources \<noteq> [] then [[], ''## Downloaded Source Content''] @ concat (map source_parts sources) else []))
        [newline] @ [newline])"

fun resolve_sources :: "net \<Rightarrow> get_secret \<Rightarrow> Options \<Rightarrow> AgentRun \<Rightarrow> AgentRunSkillInjectionSpec \<Rightarrow> nat \<Rightarrow> AgentRunSkillSourceRef list \<Rightarrow> resolvedAgentRunSkillSource list result" where
  "resolve_sources n getSecret options obj skill i [] = Inr []"
| "resolve_sources n getSecret options obj skill i (ref # refs) =
     (case resolveAgentRunSkillSource n getSecret options obj ref of
        Inl e \<Rightarrow> Inl (Wrapf (''resolve skill '' @ Quote (skill_Name skill) @ '' sourceRefs['' @ Itoa (int i) @ '']'') e)
      | Inr source \<Rightarrow>
          (case resolve_sources n getSecret options obj skill (Suc i) refs of
             Inl e \<Rightarrow> Inl e
           | Inr sources \<Rightarrow> Inr (source # sources)))"

definition agentRunSkillFileContent :: "net \<Rightarrow> get_secret \<Rightarrow> Options \<Rightarrow> AgentRun \<Rightarrow> AgentRunSkillInjectionSpec \<Rightarrow> string result" where
  "agentRunSkillFileContent n getSecret options obj skill =
     (if skill_SourceRefs skill = [] then Inr (agentRunSkillFileContentWithSources skill [])
      else (case resolve_sources n getSecret options obj skill 0 (skill_SourceRefs skill) of
              Inl e \<Rightarrow> Inl e
            | Inr sources \<Rightarrow> Inr (agentRunSkillFileContentWithSources skill sources)))"

definition agentRunToolSetupFileContent :: "AgentRunToolSpec \<Rightarrow> string" where
  "agentRunToolSetupFileContent tool =
     (let script = TrimSpace (tool_SetupScript tool) in
      if HasPrefix script ''#!'' then script @ [newline]
      else ''#!/usr/bin/env bash'' @ [newline] @ ''set -euo pipefail'' @ [newline, newline] @ script @ [newline])"

fun add_skill_files :: "(AgentRunSkillInjectionSpec \<Rightarrow> string result) \<Rightarrow> nat \<Rightarrow> AgentRunSkillInjectionSpec list \<Rightarrow> strmap \<Rightarrow> strmap result" where
  "add_skill_files content i [] data = Inr data"
| "add_skill_files content i (skill # skills) data =
     (case content skill of
        Inl e \<Rightarrow> Inl e
      | Inr c \<Rightarrow> add_skill_files content (Suc i) skills (map_set data (agentRunSkillFileName i skill) c))"

fun add_tool_files :: "nat \<Rightarrow> AgentRunToolSpec list \<Rightarrow> strmap \<Rightarrow> strmap" where
  "add_tool_files i [] data = data"
| "add_tool_files i (tool # tools) data =
     (if TrimSpace (tool_SetupScript tool) = [] then add_tool_files (Suc i) tools data
      else add_tool_files (Suc i) tools
             (map_set data (agentRunToolSetupFileName i tool) (agentRunToolSetupFileContent tool)))"

definition agentRunConfigMapDataSize :: "strmap \<Rightarrow> int" where
  "agentRunConfigMapDataSize data = (\<Sum>(key, v) \<leftarrow> data. int (length key) + int (length v))"

definition agentRunConfigMapData :: "net \<Rightarrow> get_secret \<Rightarrow> Options \<Rightarrow> AgentRun \<Rightarrow> string \<Rightarrow> string \<Rightarrow> strmap result" where
  "agentRunConfigMapData n getSecret options obj prompt contextBody =
     (let data = [(agentRunPromptFile, prompt), (agentRunContextFile, contextBody)];
          harness = spec_Harness (run_Spec obj) in
      case add_skill_files (agentRunSkillFileContent n getSecret options obj) 0 (har_SkillInjections harness) data of
        Inl e \<Rightarrow> Inl e
      | Inr data \<Rightarrow>
          let data = add_tool_files 0 (har_Tools harness) data; size = agentRunConfigMapDataSize data in
          if size > agentRunPayloadConfigMapMaxBytes
          then Inl (Errorf (''AgentRun payload is '' @ Itoa size @ '' bytes; maximum supported ConfigMap payload is '' @
                 Itoa agentRunPayloadConfigMapMaxBytes @ '' bytes''))
          else Inr data)"

definition indexed :: "'a list \<Rightarrow> (nat \<times> 'a) list" where
  "indexed xs = zip [0..<length xs] xs"

definition agentRunSkillFilesEnv :: "AgentRun \<Rightarrow> string" where
  "agentRunSkillFilesEnv obj =
     Join (map (\<lambda>(i, skill). agentRunPayloadMountPath @ ''/'' @ agentRunSkillFileName i skill)
       (indexed (har_SkillInjections (spec_Harness (run_Spec obj))))) [newline]"

definition agentRunToolSetupFilesEnv :: "AgentRun \<Rightarrow> string" where
  "agentRunToolSetupFilesEnv obj =
     Join (map (\<lambda>(i, tool). agentRunPayloadMountPath @ ''/'' @ agentRunToolSetupFileName i tool)
       (filter (\<lambda>(i, tool). TrimSpace (tool_SetupScript tool) \<noteq> [])
         (indexed (har_Tools (spec_Harness (run_Spec obj)))))) [newline]"

text \<open>
  \<^verbatim>\<open>json.MarshalIndent\<close> of the spec is \<open>marshal\<close> (\<open>None\<close> where it fails: the code then joins the
  empty text), and the embedded system prompt is \<open>system_prompt\<close>.
\<close>

definition agentRunSystemPrompt :: "string \<Rightarrow> string" where
  "agentRunSystemPrompt system_prompt = TrimSpace system_prompt"

definition buildAgentRunPrompt :: "string \<Rightarrow> (AgentRunSpec \<Rightarrow> string option) \<Rightarrow> AgentRun \<Rightarrow> string" where
  "buildAgentRunPrompt system_prompt marshal obj =
     (let spec = run_Spec obj;
          source = (case marshal spec of None \<Rightarrow> [] | Some s \<Rightarrow> s) in
      Join ([agentRunSystemPrompt system_prompt, [], ''AgentRun spec JSON:'', source] @
        (if TrimSpace (spec_Prompt spec) \<noteq> [] then [[], ''Run prompt:'', spec_Prompt spec] else []) @
        (if TrimSpace (har_SystemPrompt (spec_Harness spec)) \<noteq> []
         then [[], ''Standing operator instructions:'', har_SystemPrompt (spec_Harness spec)] else []))
        [newline])"

record agentRunPlatformContext =
  plat_Repository :: string
  plat_RepositoryURL :: string
  plat_DocsPaths :: "string list"

definition platformContext :: "Options \<Rightarrow> agentRunPlatformContext" where
  "platformContext options = \<lparr>plat_Repository = TrimSpace (opt_PlatformRepository options),
     plat_RepositoryURL = TrimSpace (opt_PlatformRepositoryURL options),
     plat_DocsPaths = opt_PlatformDocs options\<rparr>"

subsection \<open>File names\<close>

lemma is_digit_char_of: "n < (10::nat) \<Longrightarrow> is_digit (char_of (48 + n))"
  by (simp add: is_digit_def Let_def)

lemma digit_value_char_of: "n < (10::nat) \<Longrightarrow> (of_char (char_of (48 + n)) :: int) = 48 + int n"
  using of_nat_of_char [of "char_of (48 + n)", where 'a = int] by simp

lemma digits_value_snoc: "digits_value (ds @ [d]) = 10 * digits_value ds + (of_char d - 48)"
  by (simp add: digits_value_def)

lemma itoa_nat_digits: "list_all is_digit (itoa_nat n) \<and> digits_value (itoa_nat n) = int n"
proof (induction n rule: itoa_nat.induct)
  case (1 n)
  show ?case
  proof (cases "n < 10")
    case True
    then show ?thesis
      by (subst (1 2) itoa_nat.simps) (simp add: is_digit_char_of digits_value_def digit_value_char_of)
  next
    case False
    have "digits_value (itoa_nat (n div 10) @ [char_of (48 + n mod 10)]) = int n"
      using 1 False by (simp add: digits_value_snoc digit_value_char_of zdiv_int zmod_int)
    moreover have "list_all is_digit (itoa_nat (n div 10) @ [char_of (48 + n mod 10)])"
      using 1 False by (simp add: is_digit_char_of)
    ultimately show ?thesis using False by (subst (1 2) itoa_nat.simps) simp
  qed
qed

lemma digits_value_zeros: "digits_value (replicate k (CHR ''0'') @ ds) = digits_value ds"
  by (induction k) (simp_all add: digits_value_def)

lemma pad0_digits: "0 \<le> i \<Longrightarrow> list_all is_digit (pad0 w i) \<and> digits_value (pad0 w i) = i"
  using itoa_nat_digits [of "nat i"]
  by (auto simp: pad0_def Let_def digits_value_zeros list_all_iff is_digit_def)

lemma numbered_prefix:
  assumes "list_all is_digit ds" "list_all is_digit es" "ds @ CHR ''-'' # xs = es @ CHR ''-'' # ys"
  shows "ds = es"
proof -
  have dash: "\<not> is_digit (CHR ''-'')" by (simp add: is_digit_def)
  have "takeWhile is_digit (ds @ CHR ''-'' # xs) = ds" "takeWhile is_digit (es @ CHR ''-'' # ys) = es"
    using assms(1,2) dash by (simp_all add: takeWhile_append list_all_iff)
  then show ?thesis using assms(3) by simp
qed

lemma pad0_inj:
  assumes "pad0 w (int i + 1) = pad0 w (int j + 1)"
  shows "i = j"
proof -
  have val: "digits_value (pad0 w (int m + 1)) = int m + 1" for m
    by (rule pad0_digits [THEN conjunct2]) simp
  have "int i + 1 = int j + 1" using val [of i] val [of j] unfolding assms by (rule trans [OF sym])
  then show ?thesis by simp
qed

lemma numbered_name:
  "pad0 2 (int i + 1) @ CHR ''-'' # xs = pad0 2 (int j + 1) @ CHR ''-'' # ys \<Longrightarrow>
   pad0 2 (int i + 1) = pad0 2 (int j + 1)"
  by (rule numbered_prefix [of _ _ xs ys]) (simp_all add: pad0_digits)

lemma skill_file_name_inj:
  assumes "agentRunSkillFileName i s = agentRunSkillFileName j t"
  shows "i = j"
proof -
  have "pad0 2 (int i + 1) = pad0 2 (int j + 1)"
    by (rule numbered_name [of i _ j]) (use assms in \<open>simp add: agentRunSkillFileName_def\<close>)
  then show ?thesis by (rule pad0_inj)
qed

lemma tool_file_name_inj:
  assumes "agentRunToolSetupFileName i s = agentRunToolSetupFileName j t"
  shows "i = j"
proof -
  have "pad0 2 (int i + 1) = pad0 2 (int j + 1)"
    by (rule numbered_name [of i _ j]) (use assms in \<open>simp add: agentRunToolSetupFileName_def\<close>)
  then show ?thesis by (rule pad0_inj)
qed

lemma payload_names_apart [simp]:
  "agentRunSkillFileName i s \<noteq> agentRunToolSetupFileName j t"
  "agentRunSkillFileName i s \<noteq> agentRunPromptFile" "agentRunSkillFileName i s \<noteq> agentRunContextFile"
  "agentRunToolSetupFileName j t \<noteq> agentRunPromptFile" "agentRunToolSetupFileName j t \<noteq> agentRunContextFile"
  "agentRunPromptFile \<noteq> agentRunContextFile"
  by (simp_all add: agentRunSkillFileName_def agentRunToolSetupFileName_def agentRunPromptFile_def
      agentRunContextFile_def agentRunSkillFilePrefix_def agentRunToolFilePrefix_def)

lemmas payload_names_apart' [simp] = payload_names_apart [symmetric]

lemma skill_files_keep:
  assumes "add_skill_files content i skills data = Inr d"
    and "\<And>j. j < length skills \<Longrightarrow> key \<noteq> agentRunSkillFileName (i + j) (skills ! j)"
  shows "map_of d key = map_of data key"
  using assms
proof (induction skills arbitrary: i data)
  case (Cons skill skills)
  then obtain c where c: "content skill = Inr c"
    and rest: "add_skill_files content (Suc i) skills (map_set data (agentRunSkillFileName i skill) c) = Inr d"
    by (auto split: sum.splits)
  have "map_of d key = map_of (map_set data (agentRunSkillFileName i skill) c) key"
    using Cons.IH [OF rest] Cons.prems(2) [of "Suc _"] by simp
  then show ?case using Cons.prems(2) [of 0] by simp
qed simp

lemma skill_files_stored:
  assumes "add_skill_files content i skills data = Inr d" and "j < length skills"
  shows "\<exists>c. content (skills ! j) = Inr c \<and> map_of d (agentRunSkillFileName (i + j) (skills ! j)) = Some c"
  using assms
proof (induction skills arbitrary: i j data)
  case (Cons skill skills)
  then obtain c where c: "content skill = Inr c"
    and rest: "add_skill_files content (Suc i) skills (map_set data (agentRunSkillFileName i skill) c) = Inr d"
    by (auto split: sum.splits)
  show ?case
  proof (cases j)
    case 0
    have "agentRunSkillFileName i skill \<noteq> agentRunSkillFileName (Suc i + j) (skills ! j)" for j
      using skill_file_name_inj [of i skill "Suc i + j"] by auto
    then have "map_of d (agentRunSkillFileName i skill) = Some c"
      using skill_files_keep [OF rest] by simp
    then show ?thesis using 0 c by simp
  next
    case (Suc m)
    then show ?thesis using Cons.IH [OF rest, of m] Cons.prems(2) by simp
  qed
qed simp

lemma tool_files_keep:
  assumes "\<And>j. j < length tools \<Longrightarrow> key \<noteq> agentRunToolSetupFileName (i + j) (tools ! j)"
  shows "map_of (add_tool_files i tools data) key = map_of data key"
  using assms
proof (induction tools arbitrary: i data)
  case (Cons tool tools)
  have "map_of (add_tool_files (Suc i) tools data') key = map_of data' key" for data'
    using Cons.IH [of "Suc i"] Cons.prems [of "Suc _"] by simp
  then show ?case using Cons.prems [of 0] by simp
qed simp

lemma tool_files_stored:
  assumes "j < length tools" and "TrimSpace (tool_SetupScript (tools ! j)) \<noteq> []"
  shows "map_of (add_tool_files i tools data) (agentRunToolSetupFileName (i + j) (tools ! j)) =
    Some (agentRunToolSetupFileContent (tools ! j))"
  using assms
proof (induction tools arbitrary: i j data)
  case (Cons tool tools)
  show ?case
  proof (cases j)
    case 0
    have "agentRunToolSetupFileName i tool \<noteq> agentRunToolSetupFileName (Suc i + j) (tools ! j)" for j
      using tool_file_name_inj [of i tool "Suc i + j"] by auto
    then show ?thesis using 0 Cons.prems tool_files_keep [of tools "agentRunToolSetupFileName i tool" "Suc i"] by simp
  next
    case (Suc m)
    then show ?thesis using Cons.IH [of m "Suc i"] Cons.prems by simp
  qed
qed simp


subsection \<open>Where a credential is sent\<close>

lemma select_credential_spec:
  assumes "select_credential n host selected credentials = Inr (Some ref)"
  shows "selected = Some ref \<or>
    (\<exists>c \<in> set credentials. normalizeAgentRunSkillCredentialHost n (ghc_APIHost c) = Inr host \<and> ghc_TokenSecretRef c = ref)"
  using assms
  by (induction n host selected credentials rule: select_credential.induct) (auto split: sum.splits if_splits)

lemma contents_url_base:
  assumes "agentRunGitHubContentsURL n options spec = Inr u"
  obtains base b path query where "net_Parse n base = Inr b" and "github_base_error options b = None"
    and "u = net_String n (b\<lparr>url_Path := path, url_RawQuery := query\<rparr>)"
  using assms unfolding agentRunGitHubContentsURL_def Let_def
  by (auto split: sum.splits option.splits if_splits)

lemma base_allowed:
  assumes "github_base_error options b = None"
  shows "(url_Scheme b = ''https'' \<or> opt_AllowInsecureGitHubAPI options \<and> url_Scheme b = ''http'') \<and>
    (\<exists>h \<in> set (opt_GitHubAPIAllowedHosts options). ToLower (TrimSpace (Hostname b)) = ToLower (TrimSpace h))"
  using assms by (auto simp: github_base_error_def Let_def list_ex_iff split: if_splits)

lemma base_host: "github_base_error options b = None \<Longrightarrow> url_Host b \<noteq> []" "github_base_error options b = None \<Longrightarrow> url_User b = None"
  by (auto simp: github_base_error_def split: if_splits)

lemma read_token_spec:
  assumes "agentRunReadSkillSourceToken getSecret obj ref = Inr token"
  shows "\<exists>data v. getSecret (run_Namespace obj) (TrimSpace (skr_Name ref)) = Inr data \<and>
    map_of data (TrimSpace (skr_Key ref)) = Some v \<and> token = TrimSpace v \<and> token \<noteq> []"
  using assms by (auto simp: agentRunReadSkillSourceToken_def Let_def split: sum.splits option.splits if_splits)

text \<open>
  C27. When the download of a skill carries a token, the token is the content of a Secret of the
  run's own namespace that a credential of the run names for exactly the host the request goes
  to; that host is on the operator's allowlist, and the request uses \<^verbatim>\<open>https\<close> unless the operator
  allows \<^verbatim>\<open>http\<close>. The hypothesis is the documented behaviour of \<^verbatim>\<open>net/url\<close>: for a parsed URL with a
  host and without user information, changing the path and the query, printing it and
  parsing it again gives a URL with the same host and scheme.
\<close>

theorem credential_confined:
  assumes roundtrip: "\<And>s v path query v'. net_Parse n s = Inr v \<Longrightarrow> url_Host v \<noteq> [] \<Longrightarrow> url_User v = None \<Longrightarrow>
      net_Parse n (net_String n (v\<lparr>url_Path := path, url_RawQuery := query\<rparr>)) = Inr v' \<Longrightarrow>
      url_Host v' = url_Host v \<and> url_Scheme v' = url_Scheme v"
    and request: "github_request n getSecret options obj spec = Inr (u, token)" and sent: "token \<noteq> []"
  shows "\<exists>target credential data v.
    net_Parse n u = Inr target \<and>
    credential \<in> set (ex_SkillSourceCredentials (har_Execution (spec_Harness (run_Spec obj)))) \<and>
    normalizeAgentRunSkillCredentialHost n (ghc_APIHost credential) = Inr (ToLower (url_Host target)) \<and>
    getSecret (run_Namespace obj) (TrimSpace (skr_Name (ghc_TokenSecretRef credential))) = Inr data \<and>
    map_of data (TrimSpace (skr_Key (ghc_TokenSecretRef credential))) = Some v \<and> token = TrimSpace v \<and>
    (url_Scheme target = ''https'' \<or> opt_AllowInsecureGitHubAPI options \<and> url_Scheme target = ''http'') \<and>
    (\<exists>h \<in> set (opt_GitHubAPIAllowedHosts options). ToLower (TrimSpace (Hostname target)) = ToLower (TrimSpace h))"
proof -
  obtain ref where url: "agentRunGitHubContentsURL n options spec = Inr u"
    and ref: "agentRunSkillSourceCredentialRef n obj u = Inr (Some ref)"
    and token: "agentRunReadSkillSourceToken getSecret obj ref = Inr token"
    using request sent unfolding github_request_def by (auto split: sum.splits option.splits)
  obtain target where target: "net_Parse n u = Inr target"
    and sel: "select_credential n (ToLower (url_Host target)) None
      (ex_SkillSourceCredentials (har_Execution (spec_Harness (run_Spec obj)))) = Inr (Some ref)"
    using ref unfolding agentRunSkillSourceCredentialRef_def by (auto split: sum.splits)
  obtain base b path q where b: "net_Parse n base = Inr b" "github_base_error options b = None"
    and u: "u = net_String n (b\<lparr>url_Path := path, url_RawQuery := q\<rparr>)"
    by (rule contents_url_base [OF url])
  have same: "url_Host target = url_Host b" "url_Scheme target = url_Scheme b"
    using roundtrip [OF b(1) base_host(1) [OF b(2)] base_host(2) [OF b(2)] target [unfolded u]] by simp_all
  then have "Hostname target = Hostname b" by (simp add: Hostname_def)
  then show ?thesis
    using target select_credential_spec [OF sel] read_token_spec [OF token] base_allowed [OF b(2)] same by auto
qed

subsection \<open>Examples\<close>

definition demo_parse :: "string \<Rightarrow> URL result" where
  "demo_parse s =
     (if HasPrefix s ''https://''
      then let rest = drop 8 s in
        Inr \<lparr>url_Scheme = ''https'', url_User = None, url_Host = takeWhile (\<lambda>c. c \<noteq> CHR ''/'') rest,
             url_Path = dropWhile (\<lambda>c. c \<noteq> CHR ''/'') rest, url_RawQuery = [], url_Fragment = []\<rparr>
      else Inl (Errorf ''unsupported scheme''))"

definition demo_url_string :: "URL \<Rightarrow> string" where
  "demo_url_string u = url_Scheme u @ ''://'' @ url_Host u @
     (if url_Path u = [] \<or> HasPrefix (url_Path u) ''/'' then url_Path u else ''/'' @ url_Path u)"

definition demo_net :: net where
  "demo_net = \<lparr>net_Parse = demo_parse, net_String = demo_url_string, net_SetQuery = (\<lambda>q k v. k @ ''='' @ v),
     net_Do = (\<lambda>u token. Inr (200, Inr ''Check the build.''))\<rparr>"

lemma demo_net_roundtrip:
  assumes "net_Parse demo_net s = Inr v"
    and "net_Parse demo_net (net_String demo_net (v\<lparr>url_Path := path, url_RawQuery := query\<rparr>)) = Inr v'"
  shows "url_Host v' = url_Host v \<and> url_Scheme v' = url_Scheme v"
proof -
  have v: "url_Scheme v = ''https''" "CHR ''/'' \<notin> set (url_Host v)"
    using assms(1) by (auto simp: demo_net_def demo_parse_def Let_def dest: set_takeWhileD split: if_splits)
  define rest where "rest = (if path = [] \<or> HasPrefix path ''/'' then path else ''/'' @ path)"
  have "takeWhile (\<lambda>c. c \<noteq> CHR ''/'') (url_Host v @ rest) = url_Host v"
    using v(2) by (cases rest) (auto simp: rest_def takeWhile_append HasPrefix_def split: if_splits)
  then show ?thesis
    using assms(2) v by (auto simp: demo_net_def demo_parse_def demo_url_string_def Let_def rest_def HasPrefix_def)
qed

definition demo_secret :: get_secret where
  "demo_secret ns name = (if ns = ''team'' \<and> name = ''github'' then Inr [(''token'', ''s3cret'')]
     else Inl (ApiError NotFound name))"

definition demo_source :: AgentRunGitHubSkillSourceSpec where
  "demo_source = \<lparr>gh_Repository = ''acme/skills'', gh_Ref = ''0123456789abcdef0123456789abcdef01234567'',
     gh_Path = ''triage/SKILL.md'', gh_APIBaseURL = []\<rparr>"

definition demo_file_skill :: "string \<Rightarrow> AgentRunSkillSourceRef list \<Rightarrow> AgentRunSkillInjectionSpec" where
  "demo_file_skill name refs = \<lparr>skill_Name = name, skill_Description = [], skill_Content = ''Be brief.'',
     skill_SourceRefs = refs, skill_Paths = []\<rparr>"

definition demo_file_tool :: AgentRunToolSpec where
  "demo_file_tool = \<lparr>tool_Name = ''Triage'', tool_Description = [], tool_SetupScript = ''make tools'',
     tool_ImageInitializer = None, tool_VerifyCommand = []\<rparr>"

definition demo_payload_run :: AgentRun where
  "demo_payload_run = zero_Run\<lparr>run_Meta := zero_ObjectMeta\<lparr>om_Name := ''check'', om_Namespace := ''team''\<rparr>,
     run_Spec := zero_RunSpec\<lparr>spec_Harness := zero_Harness\<lparr>
       har_SkillInjections := [demo_file_skill ''Triage'' [], demo_file_skill ''triage!'' [\<lparr>ssr_GitHub = Some demo_source\<rparr>]],
       har_Tools := [demo_file_tool],
       har_Execution := zero_Execution\<lparr>ex_SkillSourceCredentials :=
         [\<lparr>ghc_APIHost = ''api.github.com'', ghc_TokenSecretRef =
            \<lparr>skr_Name = ''github'', skr_Namespace = [], skr_Key = ''token''\<rparr>\<rparr>]\<rparr>\<rparr>\<rparr>\<rparr>"

definition demo_options :: Options where
  "demo_options = DefaultOptions (\<lambda>s. None) (\<lambda>name. [])"

definition demo_data :: strmap where
  "demo_data = (case agentRunConfigMapData demo_net demo_secret demo_options demo_payload_run ''Do it.'' ''{}'' of
     Inr data \<Rightarrow> data | Inl e \<Rightarrow> [])"

lemma demo_accepted:
  "(case agentRunConfigMapData demo_net demo_secret demo_options demo_payload_run ''Do it.'' ''{}'' of
      Inr data \<Rightarrow> True | Inl e \<Rightarrow> False) \<and>
   map fst demo_data = [''prompt.md'', ''source.json'', ''skill-01-triage.md'', ''skill-02-triage.md'', ''tool-01-triage-setup.sh'']"
  by code_simp


definition demo_request :: "string \<times> string" where
  "demo_request = (''https://api.github.com/repos/acme/skills/contents/triage/SKILL.md'', ''s3cret'')"

lemma demo_request_made:
  "(case github_request demo_net demo_secret demo_options demo_payload_run demo_source of
      Inr r \<Rightarrow> r = demo_request | Inl e \<Rightarrow> False)"
  by code_simp

theorem credential_confined_witness:
  "github_request demo_net demo_secret demo_options demo_payload_run demo_source = Inr demo_request \<and>
   (\<exists>target h. net_Parse demo_net (fst demo_request) = Inr target \<and>
      h \<in> set (opt_GitHubAPIAllowedHosts demo_options) \<and> ToLower (TrimSpace (Hostname target)) = ToLower (TrimSpace h))"
proof -
  have made: "github_request demo_net demo_secret demo_options demo_payload_run demo_source =
      Inr (fst demo_request, snd demo_request)"
    using demo_request_made by (auto split: sum.splits)
  have sent: "snd demo_request \<noteq> []" by (simp add: demo_request_def)
  note confined = credential_confined [OF _ made sent]
  obtain target h where "net_Parse demo_net (fst demo_request) = Inr target"
    "h \<in> set (opt_GitHubAPIAllowedHosts demo_options)" "ToLower (TrimSpace (Hostname target)) = ToLower (TrimSpace h)"
    using confined demo_net_roundtrip by metis
  then show ?thesis using made by auto
qed

end
