(* ===== verification/Standing.thy ===== *)
theory Standing
  imports Names Runes
begin

text \<open>
  \<^verbatim>\<open>internal/standing/claim.go\<close>: the claim by which one API replica owns a standing chat turn.
  JSON encoding and decoding are parameters. The lemmas show that a claim that was encoded is
  read back, and when a claim is live.
\<close>

definition AgentRunStandingClaimAnnotation :: string where
  "AgentRunStandingClaimAnnotation = ''control.anvil.hazyforge.io/standing-claim''"

definition ClaimTTL :: duration where "ClaimTTL = 90 * Second"

record Claim =
  claim_TurnID :: string
  claim_Owner :: string
  claim_AtUnix :: int

text \<open>\<^verbatim>\<open>time.Unix(sec, 0)\<close>: the internal second count is a 64-bit sum.\<close>

definition unix_to_internal :: int where "unix_to_internal = 62135596800"

definition time_Unix :: "int \<Rightarrow> instant" where
  "time_Unix sec = wrap64 (sec + unix_to_internal) * Second"

definition Fresh :: "Claim \<Rightarrow> instant \<Rightarrow> duration \<Rightarrow> bool" where
  "Fresh claim now ttl =
     (if now = 0 \<or> ttl \<le> 0 \<or> claim_AtUnix claim \<le> 0 then False
      else let elapsed = time_sub now (time_Unix (claim_AtUnix claim));
               elapsed = (if elapsed < 0 then 0 else elapsed) in elapsed < ttl)"

definition claim_error :: "Claim \<Rightarrow> go_error option" where
  "claim_error claim =
     (if TrimSpace (claim_TurnID claim) = [] then Some (Errorf ''standing claim turn ID is required'')
      else if TrimSpace (claim_Owner claim) = [] then Some (Errorf ''standing claim owner is required'')
      else if claim_AtUnix claim \<le> 0 then Some (Errorf ''standing claim timestamp is required'')
      else None)"

definition EncodeClaim :: "(Claim \<Rightarrow> string result) \<Rightarrow> Claim \<Rightarrow> string result" where
  "EncodeClaim marshal claim =
     (case claim_error claim of Some e \<Rightarrow> Inl e | None \<Rightarrow> marshal claim)"

definition ParseClaim :: "(string \<Rightarrow> Claim result) \<Rightarrow> string \<Rightarrow> Claim result" where
  "ParseClaim unmarshal raw =
     (case unmarshal (TrimSpace raw) of
        Inl e \<Rightarrow> Inl e
      | Inr claim \<Rightarrow>
          let claim = claim\<lparr>claim_TurnID := TrimSpace (claim_TurnID claim),
                claim_Owner := TrimSpace (claim_Owner claim)\<rparr> in
          (case claim_error claim of Some e \<Rightarrow> Inl e | None \<Rightarrow> Inr claim))"

definition ClaimForTurn :: "(string \<Rightarrow> Claim result) \<Rightarrow> strmap \<Rightarrow> string \<Rightarrow> instant \<Rightarrow> duration \<Rightarrow> Claim option" where
  "ClaimForTurn unmarshal annotations turnID now ttl =
     (let turnID = TrimSpace turnID in
      if turnID = [] \<or> annotations = [] then None
      else let raw = TrimSpace (map_get annotations AgentRunStandingClaimAnnotation) in
        if raw = [] then None
        else (case ParseClaim unmarshal raw of
                Inl e \<Rightarrow> None
              | Inr claim \<Rightarrow>
                  if claim_TurnID claim \<noteq> turnID \<or> \<not> Fresh claim now ttl then None else Some claim))"

subsection \<open>Encoding and liveness\<close>

lemma claim_for_turn_spec:
  assumes "ClaimForTurn unmarshal annotations turnID now ttl = Some claim"
  shows "claim_TurnID claim = TrimSpace turnID \<and> claim_TurnID claim \<noteq> [] \<and> claim_Owner claim \<noteq> [] \<and>
    0 < claim_AtUnix claim \<and> Fresh claim now ttl"
  using assms by (auto simp: ClaimForTurn_def ParseClaim_def Let_def claim_error_def
      split: if_splits sum.splits option.splits)

lemma fresh_window:
  assumes "ttl < 2 ^ 63"
  shows "Fresh claim now ttl \<longleftrightarrow>
    now \<noteq> 0 \<and> 0 < ttl \<and> 0 < claim_AtUnix claim \<and> now < time_Unix (claim_AtUnix claim) + ttl"
  using assms by (auto simp: Fresh_def time_sub_def saturate64_def Let_def)

text \<open>What \<^verbatim>\<open>encoding/json\<close> represents exactly: text in UTF-8 (it replaces other bytes) and 64-bit numbers.\<close>

definition representable :: "Claim \<Rightarrow> bool" where
  "representable claim \<longleftrightarrow> valid_utf8 (claim_TurnID claim) \<and> valid_utf8 (claim_Owner claim) \<and> claim_AtUnix claim < 2 ^ 63"

text \<open>
  C30. Round trip of a standing claim. Let a claim in UTF-8 be encoded and stored as the annotation
  of a turn. A reader that asks for a turn finds it exactly when it asks for the turn of the claim
  (up to surrounding blanks), its clock is not the zero time, the time to live (a 64-bit duration)
  is positive, and now is before the time of the claim plus the time to live; it then finds the
  claim with its turn and owner trimmed. So the API replicas and the controller, which use the same time to live,
  agree at every instant. The hypothesis is the documented round trip of \<^verbatim>\<open>encoding/json\<close> for
  values it represents exactly, with an output that is not blank at its ends.
\<close>

theorem claim_roundtrip:
  assumes json: "\<And>c enc. representable c \<Longrightarrow> marshal c = Inr enc \<Longrightarrow> TrimSpace enc = enc \<and> enc \<noteq> [] \<and> unmarshal enc = Inr c"
    and claim: "representable claim" and written: "EncodeClaim marshal claim = Inr enc" and ttl: "ttl < 2 ^ 63"
  shows "ClaimForTurn unmarshal (map_set annotations AgentRunStandingClaimAnnotation enc) turnID now ttl =
    (if TrimSpace turnID = TrimSpace (claim_TurnID claim) \<and> now \<noteq> 0 \<and> 0 < ttl \<and> now < time_Unix (claim_AtUnix claim) + ttl
     then Some (claim\<lparr>claim_TurnID := TrimSpace (claim_TurnID claim), claim_Owner := TrimSpace (claim_Owner claim)\<rparr>)
     else None)"
proof -
  let ?claim = "claim\<lparr>claim_TurnID := TrimSpace (claim_TurnID claim), claim_Owner := TrimSpace (claim_Owner claim)\<rparr>"
  have ok: "TrimSpace (claim_TurnID claim) \<noteq> []" "TrimSpace (claim_Owner claim) \<noteq> []" "0 < claim_AtUnix claim"
    and enc: "marshal claim = Inr enc"
    using written by (auto simp: EncodeClaim_def claim_error_def split: option.splits if_splits)
  have parse: "ParseClaim unmarshal enc = Inr ?claim"
    using json [OF claim enc] ok by (simp add: ParseClaim_def claim_error_def Let_def)
  have stored: "map_set annotations AgentRunStandingClaimAnnotation enc \<noteq> []"
    by (cases annotations) (auto split: if_splits)
  have fresh: "Fresh ?claim now ttl \<longleftrightarrow> now \<noteq> 0 \<and> 0 < ttl \<and> now < time_Unix (claim_AtUnix claim) + ttl"
    using fresh_window [OF ttl, of ?claim now] ok(3) by simp
  show ?thesis
    using json [OF claim enc] ok(1) parse stored fresh by (auto simp: ClaimForTurn_def Let_def)
qed

definition demo_claim :: Claim where
  "demo_claim = \<lparr>claim_TurnID = ''turn-7'', claim_Owner = ''api-0/1'', claim_AtUnix = 1700000000\<rparr>"

definition demo_claim_text :: string where
  "demo_claim_text = ''{turn-7,api-0/1,1700000000}''"

definition demo_marshal :: "Claim \<Rightarrow> string result" where
  "demo_marshal c = (if c = demo_claim then Inr demo_claim_text else Inl (Errorf ''unsupported''))"

definition demo_unmarshal :: "string \<Rightarrow> Claim result" where
  "demo_unmarshal s = (if s = demo_claim_text then Inr demo_claim else Inl (Errorf ''unsupported''))"

lemma demo_json: "demo_marshal c = Inr enc \<Longrightarrow> TrimSpace enc = enc \<and> enc \<noteq> [] \<and> demo_unmarshal enc = Inr c"
proof -
  have "TrimSpace demo_claim_text = demo_claim_text \<and> demo_claim_text \<noteq> []" by code_simp
  then show "demo_marshal c = Inr enc \<Longrightarrow> ?thesis"
    by (auto simp: demo_marshal_def demo_unmarshal_def split: if_splits)
qed

theorem claim_roundtrip_witness:
  "ClaimForTurn demo_unmarshal (map_set [] AgentRunStandingClaimAnnotation demo_claim_text) ''turn-7''
     (time_Unix 1700000089) ClaimTTL = Some demo_claim \<and>
   ClaimForTurn demo_unmarshal (map_set [] AgentRunStandingClaimAnnotation demo_claim_text) ''turn-7''
     (time_Unix 1700000090) ClaimTTL = None"
proof -
  have written: "EncodeClaim demo_marshal demo_claim = Inr demo_claim_text"
    by (simp add: EncodeClaim_def claim_error_def demo_marshal_def demo_claim_def TrimSpace_def trim_by_def is_space_def)
  have ok: "representable demo_claim" by code_simp
  have "TrimSpace (claim_TurnID demo_claim) = claim_TurnID demo_claim"
    "TrimSpace (claim_Owner demo_claim) = claim_Owner demo_claim" by code_simp+
  then show ?thesis
    using claim_roundtrip [OF demo_json ok written, where turnID = "''turn-7''" and ttl = ClaimTTL and annotations = "[]"]
    by (simp add: demo_claim_def ClaimTTL_def time_Unix_def unix_to_internal_def wrap64_def)
qed

end
