(* ===== verification/RunBackend.thy ===== *)
theory RunBackend
  imports Payload Standing
begin

text \<open>
  The harness backend of a run and the validation before a launch:
  \<^verbatim>\<open>agentRunBlockingValidation\<close> and the functions around it in
  \<^verbatim>\<open>internal/controller/agent_run_controller.go\<close>, the execution planes of
  \<^verbatim>\<open>api/v1alpha1/agent_substrate_types.go\<close> and the opt-in of
  \<^verbatim>\<open>internal/controller/agent_run_substrate_live.go\<close>. A refusal is the phase, the reason and the
  message that the status receives. The validation of a SPIFFE identifier is third-party code
  and a parameter. The lemmas show what a run that passes the validation satisfies.
\<close>

type_synonym blocking = "AgentRunPhase \<times> string \<times> string"

text \<open>What the reconciler is configured with.\<close>

record run_setup =
  setup_Options :: Options
  setup_Net :: net
  setup_SpiffeID :: "string \<Rightarrow> bool"
  setup_UnmarshalClaim :: "string \<Rightarrow> Claim result"
  setup_SubstrateClient :: bool
  setup_SubstrateGenerate :: bool

subsection \<open>Execution planes\<close>

datatype AgentRunExecutionRuntime =
    AgentRunExecutionRuntimeJob
  | AgentRunExecutionRuntimeSubstrateActor
  | AgentRunExecutionRuntimeInProcess

fun runtime_text :: "AgentRunExecutionRuntime \<Rightarrow> string" where
  "runtime_text AgentRunExecutionRuntimeJob = ''Job''"
| "runtime_text AgentRunExecutionRuntimeSubstrateActor = ''SubstrateActor''"
| "runtime_text AgentRunExecutionRuntimeInProcess = ''InProcess''"

definition EffectiveRuntime :: "AgentRunHarnessExecutionSpec \<Rightarrow> AgentRunExecutionRuntime" where
  "EffectiveRuntime s =
     (let runtime = TrimSpace (ex_Runtime s) in
      if runtime = ''SubstrateActor'' then AgentRunExecutionRuntimeSubstrateActor
      else if runtime = ''InProcess'' then AgentRunExecutionRuntimeInProcess
      else AgentRunExecutionRuntimeJob)"

definition UsesSubstrateActors :: "AgentRunHarnessExecutionSpec \<Rightarrow> bool" where
  "UsesSubstrateActors s \<longleftrightarrow> EffectiveRuntime s = AgentRunExecutionRuntimeSubstrateActor"

definition UsesInProcess :: "AgentRunHarnessExecutionSpec \<Rightarrow> bool" where
  "UsesInProcess s \<longleftrightarrow> EffectiveRuntime s = AgentRunExecutionRuntimeInProcess"

definition UsesStandingChat :: "AgentRunHarnessExecutionSpec \<Rightarrow> bool" where
  "UsesStandingChat s \<longleftrightarrow> UsesInProcess s \<or> UsesSubstrateActors s"

definition inner_blank :: "string \<Rightarrow> bool" where
  "inner_blank s \<longleftrightarrow> TrimSpace s \<noteq> s \<or> ContainsAny s [CHR 0x20, CHR 0x09, CHR 0x0A, CHR 0x0D]"

definition substrate_validate :: "AgentRunSubstrateActorSpec \<Rightarrow> (string \<times> string) option" where
  "substrate_validate s =
     (if inner_blank (sas_ActorClass s)
      then Some (''InvalidSubstrateSpec'', ''spec.harness.execution.substrate.actorClass must not contain surrounding or inner whitespace.'')
      else if inner_blank (sas_Pool s)
      then Some (''InvalidSubstrateSpec'', ''spec.harness.execution.substrate.pool must not contain surrounding or inner whitespace.'')
      else None)"

definition ValidateSubstrateExecution :: "AgentRunHarnessExecutionSpec \<Rightarrow> (string \<times> string) option" where
  "ValidateSubstrateExecution spec =
     (if TrimSpace (ex_Runtime spec) = ''SubstrateActor''
      then (case ex_Substrate spec of
              None \<Rightarrow> Some (''InvalidSubstrateSpec'', ''spec.harness.execution.substrate is required when execution.runtime is SubstrateActor.'')
            | Some s \<Rightarrow> substrate_validate s)
      else if ex_Substrate spec \<noteq> None
      then Some (''InvalidSubstrateSpec'', ''spec.harness.execution.substrate must only be set when execution.runtime is SubstrateActor.'')
      else None)"

abbreviation run_execution :: "AgentRun \<Rightarrow> AgentRunHarnessExecutionSpec" where
  "run_execution obj \<equiv> har_Execution (spec_Harness (run_Spec obj))"

abbreviation run_backend :: "AgentRun \<Rightarrow> AgentRunHarnessBackendSpec" where
  "run_backend obj \<equiv> har_Backend (spec_Harness (run_Spec obj))"

subsection \<open>Backend, model, image\<close>

definition agentRunBackendKind :: "AgentRun \<Rightarrow> AgentRunHarnessBackendKind" where
  "agentRunBackendKind obj =
     (let kind = be_Kind (run_backend obj) in
      if TrimSpace (backend_text kind) = [] then AgentRunHarnessBackendCodex else kind)"

definition agentRunBackendModel :: "AgentRun \<Rightarrow> string" where
  "agentRunBackendModel obj =
     (let backend = run_backend obj in
      case agentRunBackendKind obj of
        AgentRunHarnessBackendCodex \<Rightarrow> (case be_Codex backend of Some c \<Rightarrow> TrimSpace (codex_Model c) | None \<Rightarrow> [])
      | AgentRunHarnessBackendOpenCode \<Rightarrow> (case be_OpenCode backend of Some c \<Rightarrow> TrimSpace (oc_Model c) | None \<Rightarrow> [])
      | AgentRunHarnessBackendHermesAgent \<Rightarrow> (case be_HermesAgent backend of Some c \<Rightarrow> TrimSpace (hermes_Model c) | None \<Rightarrow> [])
      | AgentRunHarnessBackendOpenClaw \<Rightarrow> (case be_OpenClaw backend of Some c \<Rightarrow> TrimSpace (claw_Model c) | None \<Rightarrow> [])
      | AgentRunHarnessBackendGrokBuild \<Rightarrow> (case be_GrokBuild backend of Some c \<Rightarrow> TrimSpace (grok_Model c) | None \<Rightarrow> [])
      | AgentRunHarnessBackendPiAgent \<Rightarrow> (case be_PiAgent backend of Some c \<Rightarrow> TrimSpace (pi_Model c) | None \<Rightarrow> [])
      | AgentRunHarnessBackendPrimeAgent \<Rightarrow> (case be_PrimeAgent backend of Some c \<Rightarrow> TrimSpace (prime_Model c) | None \<Rightarrow> [])
      | AgentRunHarnessBackendAgy \<Rightarrow> (case be_Agy backend of Some c \<Rightarrow> TrimSpace (agy_Model c) | None \<Rightarrow> [])
      | _ \<Rightarrow> [])"

definition agentRunModelProvider :: "AgentRun \<Rightarrow> AgentRunModelProvider" where
  "agentRunModelProvider obj =
     (let provider = be_ModelProvider (run_backend obj) in
      if TrimSpace (provider_text provider) \<noteq> [] then provider
      else if agentRunBackendKind obj = AgentRunHarnessBackendGrokBuild \<or>
              agentRunBackendKind obj = AgentRunHarnessBackendPiAgent
      then AgentRunModelProviderXAI else AgentRunModelProviderUnset)"

definition agentRunProviderAuthMode :: "AgentRun \<Rightarrow> AgentRunProviderAuthMode" where
  "agentRunProviderAuthMode obj =
     (let authMode = be_ProviderAuthMode (run_backend obj) in
      if TrimSpace (auth_mode_text authMode) \<noteq> [] then authMode else AgentRunProviderAuthModeUnset)"

definition agentRunHermesModelProvider :: "AgentRun \<Rightarrow> string" where
  "agentRunHermesModelProvider obj =
     (let provider = agentRunModelProvider obj in
      if provider = AgentRunModelProviderXAI \<and> agentRunProviderAuthMode obj = AgentRunProviderAuthModeOAuth
      then ''xai-oauth'' else provider_text provider)"

definition agentRunPiProvider :: "AgentRun \<Rightarrow> AgentRunPiBackendSpec \<Rightarrow> string" where
  "agentRunPiProvider obj piAgent =
     (if TrimSpace (pi_Provider piAgent) \<noteq> [] then TrimSpace (pi_Provider piAgent)
      else let provider = agentRunModelProvider obj in
        if provider = AgentRunModelProviderXAI \<and> agentRunProviderAuthMode obj = AgentRunProviderAuthModeOAuth
        then ''xai-auth'' else provider_text provider)"

definition agentRunPrimeProvider :: "AgentRun \<Rightarrow> AgentRunPrimeBackendSpec \<Rightarrow> string" where
  "agentRunPrimeProvider obj primeAgent =
     (if TrimSpace (prime_Provider primeAgent) \<noteq> [] then TrimSpace (prime_Provider primeAgent)
      else provider_text (agentRunModelProvider obj))"

definition agentRunIntent :: "AgentRun \<Rightarrow> AgentRunIntent" where
  "agentRunIntent obj =
     (let intent = har_Intent (spec_Harness (run_Spec obj)) in
      if TrimSpace (intent_text intent) = [] then AgentRunIntentObserve else intent)"

definition agentRunImageWithOptions :: "AgentRun \<Rightarrow> Options \<Rightarrow> string" where
  "agentRunImageWithOptions obj options =
     (let image = TrimSpace (be_Image (run_backend obj)) in
      if image \<noteq> [] then image
      else (case agentRunBackendKind obj of
           AgentRunHarnessBackendCodex \<Rightarrow> TrimSpace (opt_CodexRunnerImage options)
         | AgentRunHarnessBackendOpenCode \<Rightarrow> TrimSpace (opt_OpenCodeRunnerImage options)
         | AgentRunHarnessBackendHermesAgent \<Rightarrow> TrimSpace (opt_HermesAgentRunnerImage options)
         | AgentRunHarnessBackendOpenClaw \<Rightarrow> TrimSpace (opt_OpenClawRunnerImage options)
         | AgentRunHarnessBackendGrokBuild \<Rightarrow> TrimSpace (opt_GrokBuildRunnerImage options)
         | AgentRunHarnessBackendPiAgent \<Rightarrow> TrimSpace (opt_PiAgentRunnerImage options)
         | AgentRunHarnessBackendPrimeAgent \<Rightarrow> TrimSpace (opt_PrimeAgentRunnerImage options)
         | AgentRunHarnessBackendAgy \<Rightarrow> TrimSpace (opt_AgyRunnerImage options)
         | _ \<Rightarrow> []))"

definition agentRunImage :: "run_setup \<Rightarrow> AgentRun \<Rightarrow> string" where
  "agentRunImage r obj = agentRunImageWithOptions obj (setup_Options r)"

definition agentRunOpenCodePure :: "AgentRunOpenCodeBackendSpec \<Rightarrow> bool" where
  "agentRunOpenCodePure openCode \<longleftrightarrow> (case oc_Pure openCode of None \<Rightarrow> True | Some b \<Rightarrow> b)"

definition agentRunOpenCodeAuto :: "AgentRunOpenCodeBackendSpec \<Rightarrow> bool" where
  "agentRunOpenCodeAuto openCode \<longleftrightarrow> (case oc_Auto openCode of None \<Rightarrow> False | Some b \<Rightarrow> b)"

definition agentRunImagePullPolicy :: "AgentRun \<Rightarrow> string" where
  "agentRunImagePullPolicy obj =
     (if be_ImagePullPolicy (run_backend obj) \<noteq> [] then be_ImagePullPolicy (run_backend obj) else ''IfNotPresent'')"

definition agentRunCodexSandbox :: "AgentRun \<Rightarrow> AgentRunCodexBackendSpec \<Rightarrow> string" where
  "agentRunCodexSandbox obj codex =
     (let sandbox = TrimSpace (codex_Sandbox codex) in
      if sandbox \<noteq> [] then sandbox
      else if agentRunIntent obj = AgentRunIntentObserve then ''read-only'' else ''workspace-write'')"

subsection \<open>Generate on actor\<close>

definition substrateLiveClient :: "run_setup \<Rightarrow> bool" where
  "substrateLiveClient r \<longleftrightarrow>
     opt_SubstrateActorsEnabled (setup_Options r) \<and> TrimSpace (opt_SubstrateEndpoint (setup_Options r)) \<noteq> [] \<and>
     setup_SubstrateClient r"

definition substrateActorClass :: "AgentRun \<Rightarrow> string" where
  "substrateActorClass obj =
     (case ex_Substrate (run_execution obj) of None \<Rightarrow> [] | Some s \<Rightarrow> TrimSpace (sas_ActorClass s))"

definition GenerateEnabled :: "bool \<Rightarrow> string list \<Rightarrow> string \<Rightarrow> bool" where
  "GenerateEnabled generateOnActor classes actorClass =
     (if \<not> generateOnActor then False
      else let class = TrimSpace actorClass in
        if class = [] \<or> class = ''standing-chat'' then False
        else list_ex (\<lambda>allowed. TrimSpace allowed = class) classes)"

definition shouldGenerateOnActor :: "run_setup \<Rightarrow> AgentRun \<Rightarrow> bool" where
  "shouldGenerateOnActor r obj =
     (if \<not> UsesSubstrateActors (run_execution obj) then False
      else if \<not> substrateLiveClient r \<or> \<not> setup_SubstrateGenerate r then False
      else GenerateEnabled (opt_SubstrateGenerateOnActor (setup_Options r))
             (opt_SubstrateGenerateActorClasses (setup_Options r)) (substrateActorClass obj))"

subsection \<open>Validation\<close>

definition or_block :: "blocking option \<Rightarrow> blocking option \<Rightarrow> blocking option" where
  "or_block a b = (case a of None \<Rightarrow> b | Some x \<Rightarrow> Some x)"

definition fails :: "string \<Rightarrow> string \<Rightarrow> blocking option" where
  "fails reason message = Some (AgentRunPhaseFailed, reason, message)"

definition needs_human :: "string \<Rightarrow> string \<Rightarrow> blocking option" where
  "needs_human reason message = Some (AgentRunPhaseNeedsHuman, reason, message)"

text \<open>A reference that is written with a namespace other than the run's.\<close>

definition foreign_namespace :: "AgentRun \<Rightarrow> string \<Rightarrow> bool" where
  "foreign_namespace obj raw \<longleftrightarrow> TrimSpace raw \<noteq> [] \<and> TrimSpace raw \<noteq> run_Namespace obj"

definition is_hex_digit :: "char \<Rightarrow> bool" where
  "is_hex_digit c \<longleftrightarrow> (let n = (of_char c :: nat) in
     (48 \<le> n \<and> n \<le> 57) \<or> (97 \<le> n \<and> n \<le> 102) \<or> (65 \<le> n \<and> n \<le> 70))"

definition is_lower_hex :: "char \<Rightarrow> bool" where
  "is_lower_hex c \<longleftrightarrow> (let n = (of_char c :: nat) in (48 \<le> n \<and> n \<le> 57) \<or> (97 \<le> n \<and> n \<le> 102))"

text \<open>The patterns \<^verbatim>\<open>^([0-9a-fA-F]{40}|[0-9a-fA-F]{64})$\<close> and \<^verbatim>\<open>^[^[:space:]@]+@sha256:[0-9a-f]{64}$\<close>.\<close>

definition agentRunImmutableGitRefPattern :: "string \<Rightarrow> bool" where
  "agentRunImmutableGitRefPattern s \<longleftrightarrow> (length s = 40 \<or> length s = 64) \<and> list_all is_hex_digit s"

definition agentRunImmutableToolImagePattern :: "string \<Rightarrow> bool" where
  "agentRunImmutableToolImagePattern s \<longleftrightarrow>
     (let n = length s - 72 in
      72 < length s \<and> list_all (\<lambda>c. \<not> is_space c \<and> c \<noteq> CHR ''@'') (take n s) \<and>
      take 8 (drop n s) = ''@sha256:'' \<and> list_all is_lower_hex (drop (n + 8) s))"

definition identity_check :: "AgentRun \<Rightarrow> blocking option" where
  "identity_check obj =
     (let spec = run_Spec obj in
      if TrimSpace (src_Kind (spec_SourceRef spec)) = [] then fails ''MissingSourceKind'' ''spec.sourceRef.kind is required.''
      else if TrimSpace (src_Name (spec_SourceRef spec)) = [] then fails ''MissingSourceName'' ''spec.sourceRef.name is required.''
      else if (case spec_SituationRef spec of Some ref \<Rightarrow> foreign_namespace obj (nor_Namespace ref) | None \<Rightarrow> False)
      then fails ''CrossNamespaceSituationRef'' ''AgentRun situationRef must be in the agent run namespace.''
      else if (case spec_ScheduleRef spec of Some ref \<Rightarrow> foreign_namespace obj (nor_Namespace ref) | None \<Rightarrow> False)
      then fails ''CrossNamespaceScheduleRef'' ''AgentRun scheduleRef must be in the agent run namespace.''
      else None)"

definition limits_check :: "run_setup \<Rightarrow> AgentRun \<Rightarrow> blocking option" where
  "limits_check r obj =
     (let execution = run_execution obj; spiffe = ex_SpiffeWorkloadAPI execution in
      if ex_TimeoutSeconds execution < 0
      then fails ''InvalidTimeout'' ''spec.harness.execution.timeoutSeconds cannot be negative.''
      else if (case ex_TTLSecondsAfterFinished execution of Some ttl \<Rightarrow> ttl < 0 | None \<Rightarrow> False)
      then fails ''InvalidTTL'' ''spec.harness.execution.ttlSecondsAfterFinished cannot be negative.''
      else if \<not> spiffe_Enabled spiffe \<and> TrimSpace (spiffe_SPIFFEID spiffe) \<noteq> []
      then fails ''InvalidSPIFFEWorkloadAPI'' ''spec.harness.execution.spiffeWorkloadAPI.spiffeId requires enabled=true.''
      else if spiffe_Enabled spiffe \<and> TrimSpace (spiffe_SPIFFEID spiffe) = []
      then fails ''InvalidSPIFFEWorkloadAPI'' ''spec.harness.execution.spiffeWorkloadAPI.spiffeId is required when enabled.''
      else if spiffe_Enabled spiffe \<and> \<not> setup_SpiffeID r (TrimSpace (spiffe_SPIFFEID spiffe))
      then fails ''InvalidSPIFFEWorkloadAPI'' ''spec.harness.execution.spiffeWorkloadAPI.spiffeId must be a valid SPIFFE ID.''
      else None)"

fun env_secrets_check :: "AgentRun \<Rightarrow> NamespacedObjectReference list \<Rightarrow> blocking option" where
  "env_secrets_check obj [] = None"
| "env_secrets_check obj (ref # refs) =
     (if TrimSpace (nor_Name ref) = []
      then fails ''InvalidEnvSecretRef'' ''spec.harness.execution.envSecretRefs entries must set name.''
      else if foreign_namespace obj (nor_Namespace ref)
      then fails ''CrossNamespaceEnvSecretRef'' ''Kubernetes envFrom secret refs must be in the agent run namespace.''
      else env_secrets_check obj refs)"

fun credentials_check :: "run_setup \<Rightarrow> AgentRun \<Rightarrow> string set \<Rightarrow> AgentRunGitHubSkillCredential list \<Rightarrow> blocking option" where
  "credentials_check r obj hosts [] = None"
| "credentials_check r obj hosts (credential # credentials) =
     (case normalizeAgentRunSkillCredentialHost (setup_Net r) (ghc_APIHost credential) of
        Inl e \<Rightarrow> fails ''InvalidSkillSourceCredential'' (error_text e)
      | Inr host \<Rightarrow>
          let ref = ghc_TokenSecretRef credential in
          if host \<in> hosts
          then fails ''DuplicateSkillSourceCredential''
                 (''spec.harness.execution.skillSourceCredentials contains duplicate API host '' @ Quote host @ ''.'')
          else if TrimSpace (skr_Name ref) = [] \<or> TrimSpace (skr_Key ref) = []
          then fails ''InvalidSkillSourceCredential'' ''skill source credential tokenSecretRef name and key are required.''
          else if foreign_namespace obj (skr_Namespace ref)
          then fails ''CrossNamespaceSkillSourceToken'' ''Skill source credential Secret refs must be in the agent run namespace.''
          else credentials_check r obj (insert host hosts) credentials)"

fun refresh_refs_check :: "AgentRun \<Rightarrow> string set \<Rightarrow> AgentRunExternalSecretRefreshRef list \<Rightarrow> blocking option" where
  "refresh_refs_check obj injected [] = None"
| "refresh_refs_check obj injected (ref # refs) =
     (let targetSecret = TrimSpace (nor_Name (esr_TargetSecretRef ref)) in
      if TrimSpace (esr_Name ref) = []
      then fails ''InvalidExternalSecretRefreshRef'' ''spec.harness.execution.externalSecretRefreshRefs entries must set name.''
      else if targetSecret = []
      then fails ''InvalidExternalSecretRefreshTarget'' ''spec.harness.execution.externalSecretRefreshRefs entries must set targetSecretRef.name.''
      else if foreign_namespace obj (nor_Namespace (esr_TargetSecretRef ref))
      then fails ''CrossNamespaceExternalSecretRefreshTarget'' ''ExternalSecret refresh target Secret refs must be in the agent run namespace.''
      else if targetSecret \<notin> injected
      then fails ''ExternalSecretRefreshNotInjected'' (''ExternalSecret refresh target Secret '' @ Quote targetSecret @
             '' must also appear in spec.harness.execution.envSecretRefs.'')
      else refresh_refs_check obj injected refs)"

fun volume_refs_check :: "AgentRun \<Rightarrow> AgentRunDataVolumeRef list \<Rightarrow> blocking option" where
  "volume_refs_check obj [] = None"
| "volume_refs_check obj (ref # refs) =
     (if TrimSpace (dvr_Name ref) = []
      then fails ''InvalidDataVolumeRef'' ''spec.harness.execution.dataVolumeRefs entries must set name.''
      else if foreign_namespace obj (dvr_Namespace ref)
      then fails ''CrossNamespaceDataVolumeRef'' ''AgentRun dataVolumeRefs must be in the agent run namespace.''
      else volume_refs_check obj refs)"

definition agentRunValidateGitHubSkillSource :: "run_setup \<Rightarrow> AgentRunGitHubSkillSourceSpec \<Rightarrow> blocking option" where
  "agentRunValidateGitHubSkillSource r source =
     (if \<not> owner_name_form (owner_and_name (gh_Repository source))
      then fails ''InvalidSkillSource'' ''spec.harness.skillInjections sourceRefs.github.repository must use owner/name form.''
      else if agentRunValidateRemoteFilePath (TrimSpace (gh_Path source)) \<noteq> None
      then fails ''InvalidSkillSource'' (''spec.harness.skillInjections sourceRefs.github.path must be a repository-relative file path without '' @
             [CHR 0x27] @ ''..'' @ [CHR 0x27] @ '' segments.'')
      else (case agentRunGitHubContentsURL (setup_Net r) (setup_Options r) source of
              Inl e \<Rightarrow> fails ''InvalidSkillSource'' (''spec.harness.skillInjections sourceRefs.github is invalid: '' @ error_text e)
            | Inr u \<Rightarrow>
                if \<not> agentRunImmutableGitRefPattern (TrimSpace (gh_Ref source))
                then fails ''MutableSkillSourceRef'' ''spec.harness.skillInjections sourceRefs.github.ref must be a full immutable Git commit object ID.''
                else None))"

fun source_refs_check :: "run_setup \<Rightarrow> AgentRunSkillSourceRef list \<Rightarrow> blocking option" where
  "source_refs_check r [] = None"
| "source_refs_check r (sourceRef # refs) =
     (case ssr_GitHub sourceRef of
        None \<Rightarrow> fails ''InvalidSkillSource'' ''spec.harness.skillInjections sourceRefs entries must configure a supported provider.''
      | Some gh \<Rightarrow> or_block (agentRunValidateGitHubSkillSource r gh) (source_refs_check r refs))"

fun skills_check :: "run_setup \<Rightarrow> AgentRunSkillInjectionSpec list \<Rightarrow> blocking option" where
  "skills_check r [] = None"
| "skills_check r (skill # skills) =
     (if TrimSpace (skill_Name skill) = []
      then fails ''InvalidSkillInjection'' ''spec.harness.skillInjections entries must set name.''
      else or_block (source_refs_check r (skill_SourceRefs skill)) (skills_check r skills))"

definition subagents_check :: "AgentRunSubagentSpec list \<Rightarrow> blocking option" where
  "subagents_check subagents =
     (if \<exists>subagent \<in> set subagents. TrimSpace (sub_Name subagent) = []
      then fails ''InvalidSubagent'' ''spec.harness.subagents entries must set name.'' else None)"

fun tools_check :: "AgentRunToolSpec list \<Rightarrow> blocking option" where
  "tools_check [] = None"
| "tools_check (tool # tools) =
     (if TrimSpace (tool_Name tool) = [] then fails ''InvalidTool'' ''spec.harness.tools entries must set name.''
      else if tool_VerifyCommand tool \<noteq> [] \<and> TrimSpace (hd (tool_VerifyCommand tool)) = []
      then fails ''InvalidToolVerifyCommand'' ''spec.harness.tools verifyCommand entries must start with a command.''
      else (case tool_ImageInitializer tool of
              None \<Rightarrow> tools_check tools
            | Some initializer \<Rightarrow>
                if \<not> agentRunImmutableToolImagePattern (TrimSpace (tii_Image initializer))
                then fails ''MutableToolInitializerImage'' ''spec.harness.tools imageInitializer.image must be an OCI image reference pinned as image@sha256:<64 lowercase hex>.''
                else if \<exists>command \<in> set (tii_Command initializer). TrimSpace command = []
                then fails ''InvalidToolInitializerCommand'' ''spec.harness.tools imageInitializer.command entries must not be empty.''
                else tools_check tools))"

definition agentRunBackendValidation :: "run_setup \<Rightarrow> AgentRun \<Rightarrow> blocking option" where
  "agentRunBackendValidation r obj =
     (let image_check = (\<lambda>reason message.
            if TrimSpace (agentRunImage r obj) = [] then needs_human reason message else None) in
      case agentRunBackendKind obj of
        AgentRunHarnessBackendCodex \<Rightarrow> image_check ''CodexImageNotConfigured'' ''A Codex agent run container image is required.''
      | AgentRunHarnessBackendOpenCode \<Rightarrow> image_check ''OpenCodeImageNotConfigured'' ''An OpenCode AgentRun container image is required.''
      | AgentRunHarnessBackendHermesAgent \<Rightarrow> image_check ''HermesAgentImageNotConfigured'' ''A Hermes AgentRun container image is required.''
      | AgentRunHarnessBackendOpenClaw \<Rightarrow> image_check ''OpenClawImageNotConfigured'' ''An OpenClaw AgentRun container image is required.''
      | AgentRunHarnessBackendGrokBuild \<Rightarrow> image_check ''GrokBuildImageNotConfigured'' ''A Grok Build AgentRun container image is required.''
      | AgentRunHarnessBackendPiAgent \<Rightarrow> image_check ''PiAgentImageNotConfigured'' ''A Pi AgentRun container image is required.''
      | AgentRunHarnessBackendPrimeAgent \<Rightarrow> image_check ''PrimeAgentImageNotConfigured'' ''A Prime AgentRun container image is required.''
      | AgentRunHarnessBackendAgy \<Rightarrow> image_check ''AgyImageNotConfigured'' ''An Agy AgentRun container image is required.''
      | AgentRunHarnessBackendCustom \<Rightarrow>
          if TrimSpace (be_Image (run_backend obj)) = []
          then needs_human ''CustomImageNotConfigured'' ''spec.harness.backend.image is required when backend.kind is custom.''
          else None
      | _ \<Rightarrow> fails ''UnsupportedBackend'' (''Unsupported agent run harness backend '' @
             Quote (backend_text (be_Kind (run_backend obj))) @ ''.''))"

definition AgentRunChatTurnLabel :: string where "AgentRunChatTurnLabel = ''control.anvil.hazyforge.io/chat-turn''"
definition AgentRunChatThreadLabel :: string where "AgentRunChatThreadLabel = ''control.anvil.hazyforge.io/chat-thread''"

definition run_claim :: "run_setup \<Rightarrow> AgentRun \<Rightarrow> instant \<Rightarrow> Claim option" where
  "run_claim r obj now = ClaimForTurn (setup_UnmarshalClaim r) (run_Annotations obj)
     (TrimSpace (map_get (run_Labels obj) AgentRunChatTurnLabel)) now ClaimTTL"

definition standing_claimed :: "string \<Rightarrow> Claim \<Rightarrow> blocking option" where
  "standing_claimed runtime claim = needs_human ''StandingClaimed''
     (''execution.runtime '' @ runtime @ '' standing turn '' @ Quote (claim_TurnID claim) @ '' is owned by API replica '' @
      Quote (claim_Owner claim) @ ''; the controller yields and created no Kubernetes Job. See docs/standing-inprocess-harness.md (slice 4).'')"

definition agentRunSubstrateHold :: "run_setup \<Rightarrow> AgentRun \<Rightarrow> instant \<Rightarrow> blocking option" where
  "agentRunSubstrateHold r obj now =
     (if \<not> UsesSubstrateActors (run_execution obj) then None
      else (case run_claim r obj now of
              Some claim \<Rightarrow> standing_claimed ''SubstrateActor'' claim
            | None \<Rightarrow>
                if shouldGenerateOnActor r obj then None
                else needs_human ''SubstrateActorNotWired''
                  ''execution.runtime SubstrateActor is an API-first spike surface; live Substrate dispatch is not enabled in this build, so no Kubernetes Job was created. See docs/substrate-spike.md for the Kind e2e follow-up.''))"

definition agentRunInProcessHold :: "run_setup \<Rightarrow> AgentRun \<Rightarrow> instant \<Rightarrow> blocking option" where
  "agentRunInProcessHold r obj now =
     (if \<not> UsesInProcess (run_execution obj) then None
      else (case run_claim r obj now of
              Some claim \<Rightarrow> standing_claimed ''InProcess'' claim
            | None \<Rightarrow> needs_human ''InProcessNotWired''
                ''execution.runtime InProcess is an API-first slice-1 surface; no standing in-process harness backend is wired in this build, so no Kubernetes Job was created. See docs/standing-inprocess-harness.md for the live-backend follow-up.''))"

definition execution_checks :: "run_setup \<Rightarrow> AgentRun \<Rightarrow> blocking option" where
  "execution_checks r obj =
     (let execution = run_execution obj in
      or_block (limits_check r obj)
     (or_block (env_secrets_check obj (ex_EnvSecretRefs execution))
     (or_block (credentials_check r obj {} (ex_SkillSourceCredentials execution))
     (or_block (refresh_refs_check obj (set (map (\<lambda>ref. TrimSpace (nor_Name ref)) (ex_EnvSecretRefs execution)))
                  (ex_ExternalSecretRefreshRefs execution))
     (or_block (volume_refs_check obj (ex_DataVolumeRefs execution))
     (case ValidateSubstrateExecution execution of None \<Rightarrow> None | Some (reason, message) \<Rightarrow> fails reason message))))))"

definition harness_checks :: "run_setup \<Rightarrow> AgentRun \<Rightarrow> blocking option" where
  "harness_checks r obj =
     (let harness = spec_Harness (run_Spec obj) in
      or_block (skills_check r (har_SkillInjections harness))
     (or_block (subagents_check (har_Subagents harness)) (tools_check (har_Tools harness))))"

definition agentRunBlockingValidation :: "run_setup \<Rightarrow> AgentRun \<Rightarrow> instant \<Rightarrow> blocking option" where
  "agentRunBlockingValidation r obj now =
     or_block (identity_check obj)
    (or_block (execution_checks r obj)
    (or_block (harness_checks r obj)
    (or_block (agentRunBackendValidation r obj)
    (or_block (agentRunSubstrateHold r obj now) (agentRunInProcessHold r obj now)))))"

subsection \<open>What a validated run satisfies\<close>

lemma or_block_None [simp]: "or_block a b = None \<longleftrightarrow> a = None \<and> b = None"
  by (auto simp: or_block_def split: option.splits)

lemma or_block_Some: "or_block a b = Some x \<longleftrightarrow> a = Some x \<or> a = None \<and> b = Some x"
  by (auto simp: or_block_def split: option.splits)

lemma refusals_not_None [simp]: "fails reason message \<noteq> None" "needs_human reason message \<noteq> None"
  by (simp_all add: fails_def needs_human_def)

lemma env_secrets_ok: "env_secrets_check obj refs = None \<Longrightarrow> ref \<in> set refs \<Longrightarrow> \<not> foreign_namespace obj (nor_Namespace ref)"
  by (induction refs) (auto split: if_splits)

lemma refresh_refs_ok:
  "refresh_refs_check obj injected refs = None \<Longrightarrow> ref \<in> set refs \<Longrightarrow>
   \<not> foreign_namespace obj (nor_Namespace (esr_TargetSecretRef ref)) \<and> TrimSpace (nor_Name (esr_TargetSecretRef ref)) \<in> injected"
  by (induction refs) (auto simp: Let_def split: if_splits)

lemma volume_refs_ok: "volume_refs_check obj refs = None \<Longrightarrow> ref \<in> set refs \<Longrightarrow> \<not> foreign_namespace obj (dvr_Namespace ref)"
  by (induction refs) (auto split: if_splits)

lemma credentials_ok:
  "credentials_check r obj hosts credentials = None \<Longrightarrow> c \<in> set credentials \<Longrightarrow>
   \<not> foreign_namespace obj (skr_Namespace (ghc_TokenSecretRef c)) \<and>
   (\<exists>h. normalizeAgentRunSkillCredentialHost (setup_Net r) (ghc_APIHost c) = Inr h \<and> h \<notin> hosts)"
  by (induction r obj hosts credentials rule: credentials_check.induct)
    (auto simp: Let_def split: sum.splits if_splits)

lemma select_credential_total:
  "credentials_check r obj hosts credentials = None \<Longrightarrow> selected = None \<or> host \<in> hosts \<Longrightarrow>
   \<exists>ref. select_credential (setup_Net r) host selected credentials = Inr ref"
proof (induction r obj hosts credentials arbitrary: selected rule: credentials_check.induct)
  case (2 r obj hosts credential credentials)
  obtain h where h: "normalizeAgentRunSkillCredentialHost (setup_Net r) (ghc_APIHost credential) = Inr h" "h \<notin> hosts"
    and rest: "credentials_check r obj (insert h hosts) credentials = None"
    using 2(2) by (auto simp: Let_def split: sum.splits if_splits)
  note IH = 2(1) [OF h(1) refl h(2) _ _ rest]
  show ?case
  proof (cases "h = host")
    case True
    then have "selected = None" using 2(3) h(2) by auto
    then show ?thesis
      using IH [of "Some (ghc_TokenSecretRef credential)"] True h rest 2(2) by (auto simp: Let_def split: if_splits)
  next
    case False
    then show ?thesis using IH [of selected] h rest 2(2,3) by (auto simp: Let_def split: if_splits)
  qed
qed simp

lemma source_refs_ok:
  "source_refs_check r refs = None \<Longrightarrow> ref \<in> set refs \<Longrightarrow>
   \<exists>gh u. ssr_GitHub ref = Some gh \<and> agentRunImmutableGitRefPattern (TrimSpace (gh_Ref gh)) \<and>
     agentRunGitHubContentsURL (setup_Net r) (setup_Options r) gh = Inr u"
  by (induction refs)
    (auto simp: agentRunValidateGitHubSkillSource_def split: option.splits sum.splits if_splits)

lemma skills_ok:
  "skills_check r skills = None \<Longrightarrow> skill \<in> set skills \<Longrightarrow> source_refs_check r (skill_SourceRefs skill) = None"
  by (induction skills) (auto split: if_splits)

lemma tools_ok:
  "tools_check tools = None \<Longrightarrow> tool \<in> set tools \<Longrightarrow> tool_ImageInitializer tool = Some i \<Longrightarrow>
   agentRunImmutableToolImagePattern (TrimSpace (tii_Image i))"
  by (induction tools) (auto split: option.splits if_splits)

lemma pinned_image:
  assumes "agentRunImmutableToolImagePattern s"
  shows "\<exists>name digest. s = name @ ''@sha256:'' @ digest \<and> name \<noteq> [] \<and> CHR ''@'' \<notin> set name \<and>
    length digest = 64 \<and> list_all is_lower_hex digest"
proof -
  define n where "n = length s - 72"
  have n: "72 < length s" "take 8 (drop n s) = ''@sha256:''" "list_all is_lower_hex (drop (n + 8) s)"
    "list_all (\<lambda>c. \<not> is_space c \<and> c \<noteq> CHR ''@'') (take n s)"
    using assms by (auto simp: agentRunImmutableToolImagePattern_def Let_def n_def)
  have "drop n s = take 8 (drop n s) @ drop 8 (drop n s)" by (rule append_take_drop_id [symmetric])
  then have "s = take n s @ ''@sha256:'' @ drop (n + 8) s"
    using n(2) by (metis append_take_drop_id drop_drop add.commute)
  moreover have "length (drop (n + 8) s) = 64" "take n s \<noteq> []" using n(1) by (auto simp: n_def)
  moreover have "CHR ''@'' \<notin> set (take n s)" using n(4) by (auto simp: list_all_iff)
  ultimately show ?thesis using n(3) by blast
qed

lemma validation_stages:
  "agentRunBlockingValidation r obj now = None \<longleftrightarrow>
     identity_check obj = None \<and> execution_checks r obj = None \<and> harness_checks r obj = None \<and>
     agentRunBackendValidation r obj = None \<and> agentRunSubstrateHold r obj now = None \<and> agentRunInProcessHold r obj now = None"
  by (simp add: agentRunBlockingValidation_def)


text \<open>
  Only two kinds of run pass the validation: those of the Job plane, and those of the
  Substrate plane that the operator opted in by actor class while no API replica owns the
  turn. A standing in-process run never passes, so no Job is created for it.
\<close>

theorem only_wired_planes_pass:
  assumes "agentRunBlockingValidation r obj now = None"
  shows "EffectiveRuntime (run_execution obj) = AgentRunExecutionRuntimeJob \<or>
    EffectiveRuntime (run_execution obj) = AgentRunExecutionRuntimeSubstrateActor \<and> shouldGenerateOnActor r obj \<and>
    run_claim r obj now = None"
proof (cases "EffectiveRuntime (run_execution obj)")
  case AgentRunExecutionRuntimeSubstrateActor
  then show ?thesis using assms
    by (auto simp: validation_stages agentRunSubstrateHold_def UsesSubstrateActors_def standing_claimed_def
        split: option.splits if_splits)
next
  case AgentRunExecutionRuntimeInProcess
  then show ?thesis using assms
    by (auto simp: validation_stages agentRunInProcessHold_def UsesInProcess_def standing_claimed_def
        split: option.splits if_splits)
qed simp

text \<open>Every refusal is terminal and names a reason.\<close>

definition proper_refusal :: "blocking option \<Rightarrow> bool" where
  "proper_refusal b \<longleftrightarrow> (case b of None \<Rightarrow> True | Some (phase, reason, message) \<Rightarrow> agentRunPhaseTerminal phase \<and> reason \<noteq> [])"

lemma proper_simps [simp]:
  "proper_refusal None" "proper_refusal (fails reason message) \<longleftrightarrow> reason \<noteq> []"
  "proper_refusal (needs_human reason message) \<longleftrightarrow> reason \<noteq> []"
  by (simp_all add: proper_refusal_def fails_def needs_human_def agentRunPhaseTerminal_def)

lemma proper_or_block [intro!]: "proper_refusal a \<Longrightarrow> proper_refusal b \<Longrightarrow> proper_refusal (or_block a b)"
  by (cases a) (simp_all add: or_block_def)

lemma proper_loops [simp]:
  "proper_refusal (env_secrets_check obj refs)" "proper_refusal (credentials_check r obj hosts credentials)"
  "proper_refusal (refresh_refs_check obj injected refreshes)" "proper_refusal (volume_refs_check obj volumes)"
  "proper_refusal (source_refs_check r sources)" "proper_refusal (skills_check r skills)" "proper_refusal (tools_check tools)"
proof -
  show "proper_refusal (env_secrets_check obj refs)" by (induction refs) auto
  show "proper_refusal (credentials_check r obj hosts credentials)"
    by (induction r obj hosts credentials rule: credentials_check.induct) (auto simp: Let_def split: sum.split)
  show "proper_refusal (refresh_refs_check obj injected refreshes)" by (induction refreshes) (auto simp: Let_def)
  show "proper_refusal (volume_refs_check obj volumes)" by (induction volumes) auto
  have sources: "proper_refusal (source_refs_check r sources)" for sources
    by (induction sources) (auto simp: agentRunValidateGitHubSkillSource_def split: option.split sum.split)
  then show "proper_refusal (source_refs_check r sources)" .
  show "proper_refusal (skills_check r skills)" using sources by (induction skills) auto
  show "proper_refusal (tools_check tools)" by (induction tools) (auto split: option.split)
qed

lemma substrate_reason: "ValidateSubstrateExecution e = Some (reason, message) \<Longrightarrow> reason \<noteq> []"
  by (auto simp: ValidateSubstrateExecution_def substrate_validate_def split: option.splits if_splits)

lemma proper_checks [simp]:
  "proper_refusal (identity_check obj)" "proper_refusal (limits_check r obj)" "proper_refusal (subagents_check subagents)"
  "proper_refusal (agentRunBackendValidation r obj)" "proper_refusal (agentRunSubstrateHold r obj now)"
  "proper_refusal (agentRunInProcessHold r obj now)" "proper_refusal (execution_checks r obj)" "proper_refusal (harness_checks r obj)"
  by (auto simp: identity_check_def limits_check_def subagents_check_def agentRunBackendValidation_def
      agentRunSubstrateHold_def agentRunInProcessHold_def standing_claimed_def execution_checks_def harness_checks_def
      Let_def dest: substrate_reason split: option.split AgentRunHarnessBackendKind.split prod.split)

text \<open>
  A refusal of the validation always carries a terminal phase (failed or needs human) and a
  reason, whichever of its checks refuses; the reconciler tests the phase for emptiness, so no
  refusal is mistaken for an acceptance.
\<close>

theorem refusal_terminal:
  "proper_refusal (agentRunBlockingValidation r obj now)"
  unfolding agentRunBlockingValidation_def by auto

subsection \<open>Examples\<close>

definition demo_setup :: run_setup where
  "demo_setup = \<lparr>setup_Options = demo_options, setup_Net = demo_net, setup_SpiffeID = (\<lambda>s. True),
     setup_UnmarshalClaim = demo_unmarshal, setup_SubstrateClient = False, setup_SubstrateGenerate = False\<rparr>"

definition demo_digest :: string where
  "demo_digest = concat (replicate 8 ''0123abcd'')"

definition demo_initializer :: AgentRunToolImageInitializerSpec where
  "demo_initializer = \<lparr>tii_Image = ''registry.local/tools@sha256:'' @ demo_digest, tii_Command = [''/install''], tii_Args = []\<rparr>"

definition demo_valid_run :: AgentRun where
  "demo_valid_run = demo_payload_run\<lparr>run_Spec := (run_Spec demo_payload_run)\<lparr>
     spec_SourceRef := \<lparr>src_APIVersion = [], src_Kind = ''Manual'', src_Namespace = [], src_Name = ''check''\<rparr>,
     spec_Harness := (spec_Harness (run_Spec demo_payload_run))\<lparr>
       har_Tools := [demo_file_tool\<lparr>tool_ImageInitializer := Some demo_initializer\<rparr>]\<rparr>\<rparr>\<rparr>"

lemma demo_valid: "agentRunBlockingValidation demo_setup demo_valid_run 1 = None"
  by code_simp


theorem only_wired_planes_pass_witness:
  "agentRunBlockingValidation demo_setup demo_valid_run 1 = None \<and>
   EffectiveRuntime (run_execution demo_valid_run) = AgentRunExecutionRuntimeJob"
proof -
  have "\<not> shouldGenerateOnActor demo_setup demo_valid_run" by code_simp
  then show ?thesis using only_wired_planes_pass [OF demo_valid] demo_valid by blast
qed

end
