(* ===== verification/RunJob.thy ===== *)
theory RunJob
  imports RunBackend
begin

text \<open>
  The Kubernetes Job of a run: \<^verbatim>\<open>agentRunJob\<close>, \<^verbatim>\<open>agentRunEnv\<close>, the security contexts, labels and
  annotations of \<^verbatim>\<open>internal/controller/agent_run_controller.go\<close>. The Kubernetes structs keep the
  fields the repository reads or writes; the other fields of a struct are one opaque field
  (\<open>js_Other\<close> also holds the annotations of the pod template). JSON encodings are the fields of \<open>json_lib\<close>. The lemmas show how every
  container of the Job is confined and that the volumes a container mounts are declared.
\<close>

subsection \<open>Jobs and pods\<close>

record VolumeMount =
  vm_Name :: string
  vm_MountPath :: string
  vm_SubPath :: string
  vm_ReadOnly :: bool

text \<open>A source with a file mode: the part that identifies it and \<^verbatim>\<open>DefaultMode\<close>.\<close>

record ModeVolumeSource =
  mvs_Ref :: string
  mvs_DefaultMode :: "int option"
  mvs_Other :: opaque

record Volume =
  vol_Name :: string
  vol_ConfigMap :: "ModeVolumeSource option"
  vol_Secret :: "ModeVolumeSource option"
  vol_DownwardAPI :: "ModeVolumeSource option"
  vol_Projected :: "ModeVolumeSource option"
  vol_EmptyDir :: bool
  vol_Claim :: "(string \<times> bool) option"
  vol_CSI :: "(string \<times> bool option) option"
  vol_Other :: opaque

definition zero_Volume :: Volume where
  "zero_Volume = \<lparr>vol_Name = [], vol_ConfigMap = None, vol_Secret = None, vol_DownwardAPI = None,
     vol_Projected = None, vol_EmptyDir = False, vol_Claim = None, vol_CSI = None, vol_Other = []\<rparr>"

record EnvFromSource =
  ef_SecretRef :: "LocalObjectReference option"
  ef_Other :: opaque

record Container =
  ctr_Name :: string
  ctr_Image :: string
  ctr_ImagePullPolicy :: string
  ctr_Command :: "string list"
  ctr_Args :: "string list"
  ctr_WorkingDir :: string
  ctr_Env :: "EnvVar list"
  ctr_EnvFrom :: "EnvFromSource list"
  ctr_Resources :: ResourceRequirements
  ctr_VolumeMounts :: "VolumeMount list"
  ctr_SecurityContext :: "SecurityContext option"
  ctr_TerminationMessagePath :: string
  ctr_TerminationMessagePolicy :: string
  ctr_Other :: opaque

record PodSpec =
  pod_ServiceAccountName :: string
  pod_DeprecatedServiceAccount :: string
  pod_RestartPolicy :: string
  pod_NodeSelector :: strmap
  pod_Affinity :: "opaque option"
  pod_Tolerations :: "opaque list"
  pod_ImagePullSecrets :: "LocalObjectReference list"
  pod_SecurityContext :: "PodSecurityContext option"
  pod_InitContainers :: "Container list"
  pod_Containers :: "Container list"
  pod_Volumes :: "Volume list"
  pod_EnableServiceLinks :: "bool option"
  pod_PreemptionPolicy :: "string option"
  pod_DNSPolicy :: string
  pod_SchedulerName :: string
  pod_TerminationGracePeriodSeconds :: "int option"
  pod_Other :: opaque

record LabelSelector =
  ls_MatchLabels :: strmap
  ls_MatchExpressions :: "opaque list"

record JobSpec =
  js_BackoffLimit :: "int option"
  js_ActiveDeadlineSeconds :: "int option"
  js_TTLSecondsAfterFinished :: "int option"
  js_Selector :: "LabelSelector option"
  js_ManualSelector :: "bool option"
  js_Parallelism :: "int option"
  js_Completions :: "int option"
  js_CompletionMode :: "string option"
  js_Suspend :: "bool option"
  js_PodReplacementPolicy :: "string option"
  js_TemplateLabels :: strmap
  js_Pod :: PodSpec
  js_Other :: opaque

record JobCondition =
  jc_Type :: string
  jc_Status :: ConditionStatus
  jc_Message :: string

record Job =
  job_Meta :: ObjectMeta
  job_Spec :: JobSpec
  job_Succeeded :: int
  job_Failed :: int
  job_Conditions :: "JobCondition list"

abbreviation "job_Name j \<equiv> om_Name (job_Meta j)"
abbreviation "job_Namespace j \<equiv> om_Namespace (job_Meta j)"
abbreviation "job_UID j \<equiv> om_UID (job_Meta j)"
abbreviation "job_Labels j \<equiv> om_Labels (job_Meta j)"
abbreviation "job_Annotations j \<equiv> om_Annotations (job_Meta j)"

record agentRunJobSnapshot =
  snap_Labels :: strmap
  snap_Annotations :: strmap
  snap_Spec :: JobSpec

record resolvedAgentRunDataVolume =
  rdv_Name :: string
  rdv_Namespace :: string
  rdv_ClaimName :: string
  rdv_MountPath :: string
  rdv_SubPath :: string
  rdv_ReadOnly :: bool
  rdv_ExtraEnv :: "EnvVar list"
  rdv_NodeSelector :: strmap

text \<open>One entry of \<^verbatim>\<open>ANVIL_AGENT_RUN_TOOLS_JSON\<close>.\<close>

record tool_entry =
  te_Name :: string
  te_Description :: string
  te_SetupFile :: "string option"
  te_VerifyCommand :: "string list"

text \<open>
  \<^verbatim>\<open>json.Marshal\<close> and \<^verbatim>\<open>json.Unmarshal\<close> on the types the reconciler encodes; \<open>None\<close> is an error.
  A map is encoded in the order of its keys, so a map argument is passed in that order.
  \<open>json_ReadFields\<close> decodes an object and gives the value of each field that is a string.
\<close>

record json_lib =
  json_Strings :: "string list \<Rightarrow> string option"
  json_Volumes :: "AgentRunDataVolumeStatus list \<Rightarrow> string option"
  json_ReadVolumes :: "string \<Rightarrow> AgentRunDataVolumeStatus list option"
  json_Tools :: "tool_entry list \<Rightarrow> string option"
  json_Composition :: "AgentRunResolvedCompositionStatus \<Rightarrow> string option"
  json_ReadComposition :: "string \<Rightarrow> AgentRunResolvedCompositionStatus option"
  json_Snapshot :: "agentRunJobSnapshot \<Rightarrow> string option"
  json_Data :: "strmap \<Rightarrow> string option"
  json_Spec :: "AgentRunSpec \<Rightarrow> string option"
  json_Result :: "string \<times> string \<times> AgentRunDecisionStatus option \<times> AgentRunStatusReport list \<Rightarrow> string option"
  json_ReadReport :: "string \<Rightarrow> AgentRunStatusReport option"
  json_ReadFields :: "string \<Rightarrow> (string \<Rightarrow> string option) option"

subsection \<open>Constants\<close>

definition agentRunContainerName :: string where "agentRunContainerName = ''agent''"
definition agentRunPayloadVolume :: string where "agentRunPayloadVolume = ''agent-run-payload''"
definition agentRunToolsVolume :: string where "agentRunToolsVolume = ''agent-run-tools''"
definition agentRunToolsMountPath :: string where "agentRunToolsMountPath = ''/opt/anvil/tools''"
definition agentRunToolsDefaultFSGroup :: int where "agentRunToolsDefaultFSGroup = 10001"
definition agentRunDataVolumePrefix :: string where "agentRunDataVolumePrefix = ''agent-data-''"
definition agentRunSpiffeWorkloadAPIVolume :: string where "agentRunSpiffeWorkloadAPIVolume = ''spiffe-workload-api''"
definition agentRunSpiffeWorkloadAPIMountPath :: string where "agentRunSpiffeWorkloadAPIMountPath = ''/spiffe-workload-api''"
definition agentRunSpiffeWorkloadAPISocket :: string where "agentRunSpiffeWorkloadAPISocket = ''/spiffe-workload-api/spire-agent.sock''"
definition agentRunSpiffeCSIDriver :: string where "agentRunSpiffeCSIDriver = ''csi.spiffe.io''"
definition agentRunStatusFile :: string where "agentRunStatusFile = ''/tmp/anvil-agent-run-status/status.jsonl''"
definition agentRunLabel :: string where "agentRunLabel = ''control.anvil.hazyforge.io/agent-run''"
definition agentRunJobLabel :: string where "agentRunJobLabel = ''control.anvil.hazyforge.io/agent-run-job''"
definition agentRunLabelBackend :: string where "agentRunLabelBackend = ''control.anvil.hazyforge.io/agent-run-backend''"
definition agentRunLabelIntent :: string where "agentRunLabelIntent = ''control.anvil.hazyforge.io/agent-run-intent''"
definition agentRunLabelSourceKind :: string where "agentRunLabelSourceKind = ''control.anvil.hazyforge.io/agent-run-source-kind''"
definition agentRunLabelSourceName :: string where "agentRunLabelSourceName = ''control.anvil.hazyforge.io/agent-run-source-name''"
definition agentRunLabelSpiffeWorkloadAPI :: string where "agentRunLabelSpiffeWorkloadAPI = ''control.anvil.hazyforge.io/spiffe-workload-api''"
definition agentRunLabelServiceAccount :: string where "agentRunLabelServiceAccount = ''control.anvil.hazyforge.io/agent-run-service-account''"
definition agentRunAnnotationComposition :: string where "agentRunAnnotationComposition = ''control.anvil.hazyforge.io/resolved-composition''"
definition agentRunAnnotationRequestedTTL :: string where "agentRunAnnotationRequestedTTL = ''control.anvil.hazyforge.io/requested-ttl-seconds-after-finished''"
definition adverseSituationLabel :: string where "adverseSituationLabel = ''control.anvil.hazyforge.io/adverse-situation''"

subsection \<open>Security contexts\<close>

definition agentRunHasToolImageInitializers :: "AgentRun \<Rightarrow> bool" where
  "agentRunHasToolImageInitializers obj \<longleftrightarrow>
     (\<exists>tool \<in> set (har_Tools (spec_Harness (run_Spec obj))). tool_ImageInitializer tool \<noteq> None)"

definition agentRunPodSecurityContext :: "AgentRun \<Rightarrow> PodSecurityContext" where
  "agentRunPodSecurityContext obj =
     (let out = (case ex_PodSecurityContext (run_execution obj) of
            None \<Rightarrow> \<lparr>psc_RunAsNonRoot = None, psc_SeccompProfile = None, psc_FSGroup = None, psc_Other = []\<rparr>
          | Some c \<Rightarrow> c);
          out = (if psc_RunAsNonRoot out = None then out\<lparr>psc_RunAsNonRoot := Some True\<rparr> else out);
          out = (if psc_SeccompProfile out = None then out\<lparr>psc_SeccompProfile := Some ''RuntimeDefault''\<rparr> else out) in
      if psc_FSGroup out = None \<and> agentRunHasToolImageInitializers obj
      then out\<lparr>psc_FSGroup := Some agentRunToolsDefaultFSGroup\<rparr> else out)"

definition agentRunDropsCapability :: "string list \<Rightarrow> string \<Rightarrow> bool" where
  "agentRunDropsCapability values want \<longleftrightarrow> (\<exists>v \<in> set values. v = want)"

definition agentRunContainerSecurityContext :: "AgentRun \<Rightarrow> SecurityContext" where
  "agentRunContainerSecurityContext obj =
     (let out = (case ex_SecurityContext (run_execution obj) of
            None \<Rightarrow> \<lparr>sec_AllowPrivilegeEscalation = None, sec_RunAsNonRoot = None, sec_Capabilities = None, sec_Other = []\<rparr>
          | Some c \<Rightarrow> c);
          out = (if sec_AllowPrivilegeEscalation out = None then out\<lparr>sec_AllowPrivilegeEscalation := Some False\<rparr> else out);
          out = (if sec_RunAsNonRoot out = None then out\<lparr>sec_RunAsNonRoot := Some True\<rparr> else out);
          caps = (case sec_Capabilities out of None \<Rightarrow> \<lparr>cap_Add = [], cap_Drop = []\<rparr> | Some c \<Rightarrow> c);
          caps = (if \<not> agentRunDropsCapability (cap_Drop caps) ''ALL''
                  then caps\<lparr>cap_Drop := cap_Drop caps @ [''ALL'']\<rparr> else caps) in
      out\<lparr>sec_Capabilities := Some caps\<rparr>)"

subsection \<open>Labels and annotations\<close>

definition agentRunLabels :: "AgentRun \<Rightarrow> string \<Rightarrow> strmap" where
  "agentRunLabels obj jobName =
     (let spec = run_Spec obj; execution = run_execution obj;
          labels = [(agentRunLabel, sanitizeLabelValue (run_Name obj)),
            (agentRunLabelSourceKind, sanitizeLabelValue (src_Kind (spec_SourceRef spec))),
            (agentRunLabelSourceName, sanitizeLabelValue (src_Name (spec_SourceRef spec)))];
          labels = (case spec_SituationRef spec of None \<Rightarrow> labels
            | Some ref \<Rightarrow> map_set labels adverseSituationLabel (sanitizeLabelValue (nor_Name ref)));
          labels = (case spec_ScheduleRef spec of None \<Rightarrow> labels
            | Some ref \<Rightarrow> map_set labels agentRunScheduleLabel (sanitizeLabelValue (nor_Name ref)));
          labels = (if TrimSpace jobName \<noteq> [] then map_set labels agentRunJobLabel (sanitizeLabelValue jobName) else labels) in
      if spiffe_Enabled (ex_SpiffeWorkloadAPI execution)
      then let labels = map_set labels agentRunLabelSpiffeWorkloadAPI ''true'';
               serviceAccountName = TrimSpace (ex_ServiceAccountName execution) in
        if serviceAccountName \<noteq> [] then map_set labels agentRunLabelServiceAccount (sanitizeLabelValue serviceAccountName)
        else labels
      else labels)"

definition agentRunWorkloadLabels :: "AgentRun \<Rightarrow> string \<Rightarrow> strmap" where
  "agentRunWorkloadLabels obj jobName =
     map_set (map_set (agentRunLabels obj jobName)
       agentRunLabelBackend (sanitizeLabelValue (backend_text (agentRunBackendKind obj))))
       agentRunLabelIntent (sanitizeLabelValue (intent_text (agentRunIntent obj)))"

definition agentRunCompositionAnnotations :: "json_lib \<Rightarrow> AgentRun \<Rightarrow> strmap" where
  "agentRunCompositionAnnotations j obj =
     (case rs_ResolvedComposition (run_Status obj) of
        None \<Rightarrow> []
      | Some c \<Rightarrow> (case json_Composition j c of None \<Rightarrow> [] | Some contents \<Rightarrow> [(agentRunAnnotationComposition, contents)]))"

definition agentRunJobAnnotations :: "json_lib \<Rightarrow> AgentRun \<Rightarrow> strmap" where
  "agentRunJobAnnotations j obj =
     (case ex_TTLSecondsAfterFinished (run_execution obj) of
        None \<Rightarrow> agentRunCompositionAnnotations j obj
      | Some ttl \<Rightarrow> map_set (agentRunCompositionAnnotations j obj) agentRunAnnotationRequestedTTL (Itoa ttl))"

subsection \<open>Environment\<close>

definition env_var :: "string \<Rightarrow> string \<Rightarrow> EnvVar" where
  "env_var name v = \<lparr>env_Name = name, env_Value = v, env_ValueFrom = None\<rparr>"

definition args_env :: "json_lib \<Rightarrow> string \<Rightarrow> string list \<Rightarrow> EnvVar list" where
  "args_env j name args =
     (if args = [] then [] else (case json_Strings j args of Some raw \<Rightarrow> [env_var name raw] | None \<Rightarrow> []))"

definition base_env :: "run_setup \<Rightarrow> AgentRun \<Rightarrow> EnvVar list" where
  "base_env r obj =
     (let platform = platformContext (setup_Options r) in
      [env_var ''ANVIL_AGENT_RUN'' (run_Name obj),
       env_var ''ANVIL_AGENT_RUN_NAMESPACE'' (run_Namespace obj),
       env_var ''ANVIL_AGENT_RUN_BACKEND'' (backend_text (agentRunBackendKind obj)),
       env_var ''ANVIL_AGENT_RUN_INTENT'' (intent_text (agentRunIntent obj)),
       env_var ''ANVIL_AGENT_RUN_SOURCE_KIND'' (TrimSpace (src_Kind (spec_SourceRef (run_Spec obj)))),
       env_var ''ANVIL_AGENT_RUN_SOURCE_NAME'' (TrimSpace (src_Name (spec_SourceRef (run_Spec obj)))),
       env_var ''ANVIL_AGENT_RUN_PROMPT_FILE'' (agentRunPayloadMountPath @ ''/'' @ agentRunPromptFile),
       env_var ''ANVIL_AGENT_RUN_CONTEXT_FILE'' (agentRunPayloadMountPath @ ''/'' @ agentRunContextFile),
       env_var ''ANVIL_AGENT_RUN_STATUS_FILE'' agentRunStatusFile,
       env_var ''ANVIL_AGENT_RUN_STATUS_LOG_PREFIX'' agentRunStatusLinePrefix,
       env_var ''ANVIL_AGENT_RUN_STATUS_TOOL'' ''anvil-agent-status'',
       env_var ''ANVIL_AGENT_FEEDBACK_TOOL'' ''anvil-hotline'',
       env_var ''ANVIL_HOTLINE_TOOL'' ''anvil-hotline'',
       env_var ''ANVIL_AGENT_RUN_PLATFORM_REPOSITORY'' (plat_Repository platform),
       env_var ''ANVIL_AGENT_RUN_PLATFORM_REPOSITORY_URL'' (plat_RepositoryURL platform),
       env_var ''ANVIL_AGENT_RUN_PLATFORM_DOCS'' (Join (plat_DocsPaths platform) '','')])"

definition repository_env :: "AgentRun \<Rightarrow> EnvVar list" where
  "repository_env obj =
     (case normalizeAgentRunRepository (scope_Repository (spec_Scope (run_Spec obj))) of
        None \<Rightarrow> []
      | Some repo \<Rightarrow>
          (if repo_Name repo \<noteq> [] then [env_var ''ANVIL_AGENT_RUN_REPOSITORY'' (repo_Name repo)] else []) @
          (if repo_URL repo \<noteq> [] then [env_var ''ANVIL_AGENT_RUN_REPOSITORY_URL'' (repo_URL repo)] else []) @
          (if repo_Ref repo \<noteq> [] then [env_var ''ANVIL_AGENT_RUN_REPOSITORY_REF'' (repo_Ref repo)] else []) @
          (if repo_DestinationBranch repo \<noteq> []
           then [env_var ''ANVIL_AGENT_RUN_DESTINATION_BRANCH'' (repo_DestinationBranch repo)] else []) @
          (if repo_AllowedBranches repo \<noteq> []
           then [env_var ''ANVIL_AGENT_RUN_ALLOWED_BRANCHES'' (Join (repo_AllowedBranches repo) '','')] else []))"

definition identity_env :: "AgentRun \<Rightarrow> EnvVar list" where
  "identity_env obj =
     (let execution = run_execution obj; provider = provider_text (agentRunModelProvider obj);
          authMode = auth_mode_text (agentRunProviderAuthMode obj) in
      (if spiffe_Enabled (ex_SpiffeWorkloadAPI execution)
       then [env_var ''SPIFFE_ENDPOINT_SOCKET'' (''unix://'' @ agentRunSpiffeWorkloadAPISocket),
             env_var ''ANVIL_AGENT_RUN_SPIFFE_ID'' (TrimSpace (spiffe_SPIFFEID (ex_SpiffeWorkloadAPI execution)))] else []) @
      (if provider \<noteq> [] then [env_var ''ANVIL_AGENT_RUN_MODEL_PROVIDER'' provider] else []) @
      (if authMode \<noteq> [] then [env_var ''ANVIL_AGENT_RUN_PROVIDER_AUTH_MODE'' authMode] else []))"

definition ref_env :: "AgentRun \<Rightarrow> string \<Rightarrow> string \<Rightarrow> NamespacedObjectReference option \<Rightarrow> EnvVar list" where
  "ref_env obj nameKey namespaceKey ref =
     (case ref of
        None \<Rightarrow> []
      | Some r \<Rightarrow> [env_var nameKey (TrimSpace (nor_Name r)),
                 env_var namespaceKey (firstNonEmpty (TrimSpace (nor_Namespace r)) (run_Namespace obj))])"

definition tool_entries :: "AgentRun \<Rightarrow> tool_entry list" where
  "tool_entries obj =
     map (\<lambda>(i, tool). \<lparr>te_Name = TrimSpace (tool_Name tool), te_Description = TrimSpace (tool_Description tool),
            te_SetupFile = (if TrimSpace (tool_SetupScript tool) \<noteq> []
              then Some (agentRunPayloadMountPath @ ''/'' @ agentRunToolSetupFileName i tool) else None),
            te_VerifyCommand = tool_VerifyCommand tool\<rparr>)
       (indexed (har_Tools (spec_Harness (run_Spec obj))))"

definition agentRunToolsJSONEnv :: "json_lib \<Rightarrow> AgentRun \<Rightarrow> string" where
  "agentRunToolsJSONEnv j obj =
     (if har_Tools (spec_Harness (run_Spec obj)) = [] then []
      else (case json_Tools j (tool_entries obj) of None \<Rightarrow> [] | Some raw \<Rightarrow> raw))"

definition files_env :: "json_lib \<Rightarrow> AgentRun \<Rightarrow> EnvVar list" where
  "files_env j obj =
     (let skillFiles = agentRunSkillFilesEnv obj; setupFiles = agentRunToolSetupFilesEnv obj;
          toolsJSON = agentRunToolsJSONEnv j obj in
      (if skillFiles \<noteq> [] then [env_var ''ANVIL_AGENT_RUN_SKILL_FILES'' skillFiles] else []) @
      (if setupFiles \<noteq> [] then [env_var ''ANVIL_AGENT_RUN_TOOL_SETUP_FILES'' setupFiles] else []) @
      (if toolsJSON \<noteq> [] then [env_var ''ANVIL_AGENT_RUN_TOOLS_JSON'' toolsJSON] else []))"

definition agentRunDataVolumeStatuses :: "resolvedAgentRunDataVolume list \<Rightarrow> AgentRunDataVolumeStatus list" where
  "agentRunDataVolumeStatuses dataVolumes =
     map (\<lambda>item. \<lparr>dvs_Name = rdv_Name item, dvs_Namespace = rdv_Namespace item, dvs_ClaimName = rdv_ClaimName item,
       dvs_MountPath = rdv_MountPath item, dvs_ReadOnly = rdv_ReadOnly item\<rparr>) dataVolumes"

definition volumes_env :: "json_lib \<Rightarrow> resolvedAgentRunDataVolume list \<Rightarrow> EnvVar list" where
  "volumes_env j dataVolumes =
     (if dataVolumes = [] then []
      else concat (map rdv_ExtraEnv dataVolumes) @
        (case json_Volumes j (agentRunDataVolumeStatuses dataVolumes) of
           Some raw \<Rightarrow> [env_var ''ANVIL_AGENT_RUN_DATA_VOLUMES_JSON'' raw] | None \<Rightarrow> []))"

definition codex_env :: "json_lib \<Rightarrow> AgentRun \<Rightarrow> EnvVar list" where
  "codex_env j obj =
     (let codex = (case be_Codex (run_backend obj) of None \<Rightarrow> zero_Codex | Some c \<Rightarrow> c) in
      [env_var ''ANVIL_CODEX_MODEL'' (TrimSpace (codex_Model codex)),
      env_var ''ANVIL_CODEX_REASONING_EFFORT'' (TrimSpace (codex_ReasoningEffort codex)),
      env_var ''ANVIL_CODEX_VERBOSITY'' (TrimSpace (codex_Verbosity codex)),
      env_var ''ANVIL_CODEX_SERVICE_TIER'' (TrimSpace (codex_ServiceTier codex)),
      env_var ''ANVIL_CODEX_GOAL_MODE'' (FormatBool (codex_GoalMode codex)),
      env_var ''ANVIL_CODEX_SANDBOX'' (agentRunCodexSandbox obj codex),
      env_var ''ANVIL_CODEX_APPROVAL_POLICY'' (''never'')] @
      (if TrimSpace (codex_Goal codex) \<noteq> [] then [env_var ''ANVIL_CODEX_GOAL'' (TrimSpace (codex_Goal codex))] else []) @
      args_env j ''ANVIL_CODEX_ADDITIONAL_ARGS_JSON'' (codex_AdditionalArgs codex))"

definition opencode_env :: "json_lib \<Rightarrow> AgentRun \<Rightarrow> EnvVar list" where
  "opencode_env j obj =
     (let openCode = (case be_OpenCode (run_backend obj) of None \<Rightarrow> zero_OpenCode | Some c \<Rightarrow> c) in
      [env_var ''ANVIL_OPENCODE_MODEL'' (TrimSpace (oc_Model openCode)),
      env_var ''ANVIL_OPENCODE_AGENT'' (TrimSpace (oc_Agent openCode)),
      env_var ''ANVIL_OPENCODE_VARIANT'' (TrimSpace (oc_Variant openCode)),
      env_var ''ANVIL_OPENCODE_FORMAT'' (TrimSpace (oc_Format openCode)),
      env_var ''ANVIL_OPENCODE_AUTO'' (FormatBool (agentRunOpenCodeAuto openCode)),
      env_var ''ANVIL_OPENCODE_PURE'' (FormatBool (agentRunOpenCodePure openCode))] @
      args_env j ''ANVIL_OPENCODE_ADDITIONAL_ARGS_JSON'' (oc_AdditionalArgs openCode))"

definition hermes_env :: "json_lib \<Rightarrow> AgentRun \<Rightarrow> EnvVar list" where
  "hermes_env j obj =
     (let hermes = (case be_HermesAgent (run_backend obj) of None \<Rightarrow> zero_Hermes | Some c \<Rightarrow> c) in
      [env_var ''ANVIL_HERMES_MODEL_PROVIDER'' (agentRunHermesModelProvider obj),
      env_var ''ANVIL_HERMES_PROVIDER_AUTH_MODE'' (auth_mode_text (agentRunProviderAuthMode obj)),
      env_var ''ANVIL_HERMES_MODEL'' (TrimSpace (hermes_Model hermes)),
      env_var ''ANVIL_HERMES_REASONING_EFFORT'' (TrimSpace (hermes_ReasoningEffort hermes)),
      env_var ''ANVIL_HERMES_SERVICE_TIER'' (TrimSpace (hermes_ServiceTier hermes)),
      env_var ''ANVIL_HERMES_PROFILE'' (TrimSpace (hermes_Profile hermes)),
      env_var ''ANVIL_HERMES_USE_CODEX_APP_SERVER'' (FormatBool (hermes_UseCodexAppServer hermes))] @
      args_env j ''ANVIL_HERMES_ADDITIONAL_ARGS_JSON'' (hermes_AdditionalArgs hermes))"

definition openclaw_env :: "json_lib \<Rightarrow> AgentRun \<Rightarrow> EnvVar list" where
  "openclaw_env j obj =
     (let openClaw = (case be_OpenClaw (run_backend obj) of None \<Rightarrow> zero_OpenClaw | Some c \<Rightarrow> c) in
      [env_var ''ANVIL_OPENCLAW_PROVIDER'' (provider_text (agentRunModelProvider obj)),
      env_var ''ANVIL_OPENCLAW_PROVIDER_AUTH_MODE'' (auth_mode_text (agentRunProviderAuthMode obj)),
      env_var ''ANVIL_OPENCLAW_AGENT_ID'' (TrimSpace (claw_AgentID openClaw)),
      env_var ''ANVIL_OPENCLAW_MODEL'' (TrimSpace (claw_Model openClaw)),
      env_var ''ANVIL_OPENCLAW_THINKING'' (TrimSpace (claw_Thinking openClaw)),
      env_var ''ANVIL_OPENCLAW_SERVICE_TIER'' (TrimSpace (claw_ServiceTier openClaw))] @
      (case claw_Local openClaw of Some b \<Rightarrow> [env_var ''ANVIL_OPENCLAW_LOCAL'' (FormatBool b)] | None \<Rightarrow> []) @
      args_env j ''ANVIL_OPENCLAW_ADDITIONAL_ARGS_JSON'' (claw_AdditionalArgs openClaw))"

definition grokbuild_env :: "json_lib \<Rightarrow> AgentRun \<Rightarrow> EnvVar list" where
  "grokbuild_env j obj =
     (let grokBuild = (case be_GrokBuild (run_backend obj) of None \<Rightarrow> zero_GrokBuild | Some c \<Rightarrow> c) in
      [env_var ''ANVIL_GROK_BUILD_MODEL_PROVIDER'' (provider_text (agentRunModelProvider obj)),
      env_var ''ANVIL_GROK_BUILD_PROVIDER_AUTH_MODE'' (auth_mode_text (agentRunProviderAuthMode obj)),
      env_var ''ANVIL_GROK_BUILD_MODEL'' (TrimSpace (grok_Model grokBuild)),
      env_var ''ANVIL_GROK_BUILD_REASONING_EFFORT'' (TrimSpace (grok_ReasoningEffort grokBuild)),
      env_var ''ANVIL_GROK_BUILD_SERVICE_TIER'' (TrimSpace (grok_ServiceTier grokBuild)),
      env_var ''ANVIL_GROK_BUILD_PROFILE'' (TrimSpace (grok_Profile grokBuild)),
      env_var ''ANVIL_GROK_BUILD_COMMAND'' (TrimSpace (grok_Command grokBuild))] @
      args_env j ''ANVIL_GROK_BUILD_ADDITIONAL_ARGS_JSON'' (grok_AdditionalArgs grokBuild))"

definition pi_env :: "json_lib \<Rightarrow> AgentRun \<Rightarrow> EnvVar list" where
  "pi_env j obj =
     (let piAgent = (case be_PiAgent (run_backend obj) of None \<Rightarrow> zero_Pi | Some c \<Rightarrow> c) in
      [env_var ''ANVIL_PI_MODEL_PROVIDER'' (provider_text (agentRunModelProvider obj)),
      env_var ''ANVIL_PI_PROVIDER_AUTH_MODE'' (auth_mode_text (agentRunProviderAuthMode obj)),
      env_var ''ANVIL_PI_PROVIDER'' (agentRunPiProvider obj piAgent),
      env_var ''ANVIL_PI_MODEL'' (TrimSpace (pi_Model piAgent)),
      env_var ''ANVIL_PI_THINKING'' (TrimSpace (pi_Thinking piAgent)),
      env_var ''ANVIL_PI_MODE'' (TrimSpace (pi_Mode piAgent)),
      env_var ''ANVIL_PI_NO_SESSION'' (FormatBool (pi_NoSession piAgent))] @
      args_env j ''ANVIL_PI_ADDITIONAL_ARGS_JSON'' (pi_AdditionalArgs piAgent))"

definition prime_env :: "json_lib \<Rightarrow> AgentRun \<Rightarrow> EnvVar list" where
  "prime_env j obj =
     (let primeAgent = (case be_PrimeAgent (run_backend obj) of None \<Rightarrow> zero_Prime | Some c \<Rightarrow> c) in
      [env_var ''ANVIL_PRIME_MODEL_PROVIDER'' (provider_text (agentRunModelProvider obj)),
      env_var ''ANVIL_PRIME_PROVIDER_AUTH_MODE'' (auth_mode_text (agentRunProviderAuthMode obj)),
      env_var ''ANVIL_PRIME_PROVIDER'' (agentRunPrimeProvider obj primeAgent),
      env_var ''ANVIL_PRIME_MODEL'' (TrimSpace (prime_Model primeAgent)),
      env_var ''ANVIL_PRIME_THINKING'' (TrimSpace (prime_Thinking primeAgent)),
      env_var ''ANVIL_PRIME_MODE'' (TrimSpace (prime_Mode primeAgent)),
      env_var ''ANVIL_PRIME_NO_SESSION'' (FormatBool (prime_NoSession primeAgent))] @
      args_env j ''ANVIL_PRIME_ADDITIONAL_ARGS_JSON'' (prime_AdditionalArgs primeAgent))"

definition agy_env :: "json_lib \<Rightarrow> AgentRun \<Rightarrow> EnvVar list" where
  "agy_env j obj =
     (let agy = (case be_Agy (run_backend obj) of None \<Rightarrow> zero_Agy | Some c \<Rightarrow> c) in
      [env_var ''ANVIL_AGY_MODEL'' (TrimSpace (agy_Model agy)),
      env_var ''ANVIL_AGY_MODE'' (TrimSpace (agy_Mode agy)),
      env_var ''ANVIL_AGY_THINKING'' (TrimSpace (agy_Thinking agy))] @
      args_env j ''ANVIL_AGY_ADDITIONAL_ARGS_JSON'' (agy_AdditionalArgs agy))"

definition backend_env :: "json_lib \<Rightarrow> AgentRun \<Rightarrow> EnvVar list" where
  "backend_env j obj =
     (case agentRunBackendKind obj of
        AgentRunHarnessBackendCodex \<Rightarrow> codex_env j obj
      | AgentRunHarnessBackendOpenCode \<Rightarrow> opencode_env j obj
      | AgentRunHarnessBackendHermesAgent \<Rightarrow> hermes_env j obj
      | AgentRunHarnessBackendOpenClaw \<Rightarrow> openclaw_env j obj
      | AgentRunHarnessBackendGrokBuild \<Rightarrow> grokbuild_env j obj
      | AgentRunHarnessBackendPiAgent \<Rightarrow> pi_env j obj
      | AgentRunHarnessBackendPrimeAgent \<Rightarrow> prime_env j obj
      | AgentRunHarnessBackendAgy \<Rightarrow> agy_env j obj
      | _ \<Rightarrow> [])"

definition agentRunEnv :: "run_setup \<Rightarrow> json_lib \<Rightarrow> AgentRun \<Rightarrow> resolvedAgentRunDataVolume list \<Rightarrow> EnvVar list" where
  "agentRunEnv r j obj dataVolumes =
     (let spec = run_Spec obj; execution = run_execution obj in
      base_env r obj @
      (if ex_TimeoutSeconds execution > 0
       then [env_var ''ANVIL_AGENT_RUN_TIMEOUT_SECONDS'' (Itoa (ex_TimeoutSeconds execution))] else []) @
      repository_env obj @ identity_env obj @
      ref_env obj ''ANVIL_ADVERSE_SITUATION_NAME'' ''ANVIL_ADVERSE_SITUATION_NAMESPACE'' (spec_SituationRef spec) @
      ref_env obj ''ANVIL_AGENT_SCHEDULE_NAME'' ''ANVIL_AGENT_SCHEDULE_NAMESPACE'' (spec_ScheduleRef spec) @
      ref_env obj ''ANVIL_AGENT_RUN_PROFILE_NAME'' ''ANVIL_AGENT_RUN_PROFILE_NAMESPACE'' (spec_ProfileRef spec) @
      files_env j obj @ volumes_env j dataVolumes @ backend_env j obj @ ex_ExtraEnv execution)"

definition agentRunEnvFrom :: "AgentRun \<Rightarrow> EnvFromSource list" where
  "agentRunEnvFrom obj =
     map (\<lambda>name. \<lparr>ef_SecretRef = Some \<lparr>lor_Name = name\<rparr>, ef_Other = []\<rparr>)
       (filter (\<lambda>name. name \<noteq> []) (map (\<lambda>ref. TrimSpace (nor_Name ref)) (ex_EnvSecretRefs (run_execution obj))))"

subsection \<open>The Job\<close>

definition agentRunToolImageInitializerName :: "nat \<Rightarrow> AgentRunToolSpec \<Rightarrow> string" where
  "agentRunToolImageInitializerName index tool =
     agentRunChildName [''tool-init'', Itoa (int index + 1), tool_Name tool]"

definition tool_initializer :: "AgentRun \<Rightarrow> nat \<times> AgentRunToolSpec \<Rightarrow> Container list" where
  "tool_initializer obj indexed_tool =
     (case indexed_tool of (index, tool) \<Rightarrow>
        (case tool_ImageInitializer tool of
           None \<Rightarrow> []
         | Some initializer \<Rightarrow>
             [\<lparr>ctr_Name = agentRunToolImageInitializerName index tool, ctr_Image = TrimSpace (tii_Image initializer),
               ctr_ImagePullPolicy = ''IfNotPresent'', ctr_Command = tii_Command initializer, ctr_Args = tii_Args initializer,
               ctr_WorkingDir = agentRunToolsMountPath, ctr_Env = [], ctr_EnvFrom = [],
               ctr_Resources = ex_Resources (run_execution obj),
               ctr_VolumeMounts = [\<lparr>vm_Name = agentRunToolsVolume, vm_MountPath = agentRunToolsMountPath, vm_SubPath = [], vm_ReadOnly = False\<rparr>],
               ctr_SecurityContext = Some (agentRunContainerSecurityContext obj),
               ctr_TerminationMessagePath = [], ctr_TerminationMessagePolicy = [], ctr_Other = []\<rparr>]))"

definition agentRunToolImageInitializerContainers :: "AgentRun \<Rightarrow> Container list" where
  "agentRunToolImageInitializerContainers obj =
     concat (map (tool_initializer obj) (indexed (har_Tools (spec_Harness (run_Spec obj)))))"

definition agentRunDataVolumeName :: "nat \<Rightarrow> resolvedAgentRunDataVolume \<Rightarrow> string" where
  "agentRunDataVolumeName index item = agentRunChildName [agentRunDataVolumePrefix, Itoa (int index + 1), rdv_Name item]"

definition agentRunNodeSelector :: "AgentRun \<Rightarrow> resolvedAgentRunDataVolume list \<Rightarrow> strmap" where
  "agentRunNodeSelector obj dataVolumes =
     map_union (foldl (\<lambda>out item. map_union out (rdv_NodeSelector item)) [] dataVolumes)
       (ex_NodeSelector (run_execution obj))"

definition payload_mount :: VolumeMount where
  "payload_mount = \<lparr>vm_Name = agentRunPayloadVolume, vm_MountPath = agentRunPayloadMountPath, vm_SubPath = [], vm_ReadOnly = True\<rparr>"

definition job_mounts :: "AgentRun \<Rightarrow> resolvedAgentRunDataVolume list \<Rightarrow> VolumeMount list" where
  "job_mounts obj dataVolumes =
     [payload_mount] @
     (if agentRunToolImageInitializerContainers obj \<noteq> []
      then [\<lparr>vm_Name = agentRunToolsVolume, vm_MountPath = agentRunToolsMountPath, vm_SubPath = [], vm_ReadOnly = True\<rparr>] else []) @
     map (\<lambda>(index, item). \<lparr>vm_Name = agentRunDataVolumeName index item, vm_MountPath = rdv_MountPath item,
        vm_SubPath = rdv_SubPath item, vm_ReadOnly = rdv_ReadOnly item\<rparr>) (indexed dataVolumes) @
     (if spiffe_Enabled (ex_SpiffeWorkloadAPI (run_execution obj))
      then [\<lparr>vm_Name = agentRunSpiffeWorkloadAPIVolume, vm_MountPath = agentRunSpiffeWorkloadAPIMountPath, vm_SubPath = [],
             vm_ReadOnly = True\<rparr>] else [])"

definition job_volumes :: "AgentRun \<Rightarrow> string \<Rightarrow> resolvedAgentRunDataVolume list \<Rightarrow> Volume list" where
  "job_volumes obj configMapName dataVolumes =
     [zero_Volume\<lparr>vol_Name := agentRunPayloadVolume, vol_ConfigMap := Some \<lparr>mvs_Ref = configMapName, mvs_DefaultMode = None, mvs_Other = []\<rparr>\<rparr>] @
     (if agentRunToolImageInitializerContainers obj \<noteq> []
      then [zero_Volume\<lparr>vol_Name := agentRunToolsVolume, vol_EmptyDir := True\<rparr>] else []) @
     map (\<lambda>(index, item). zero_Volume\<lparr>vol_Name := agentRunDataVolumeName index item,
        vol_Claim := Some (rdv_ClaimName item, rdv_ReadOnly item)\<rparr>) (indexed dataVolumes) @
     (if spiffe_Enabled (ex_SpiffeWorkloadAPI (run_execution obj))
      then [zero_Volume\<lparr>vol_Name := agentRunSpiffeWorkloadAPIVolume, vol_CSI := Some (agentRunSpiffeCSIDriver, Some True)\<rparr>] else [])"

definition job_container :: "run_setup \<Rightarrow> json_lib \<Rightarrow> AgentRun \<Rightarrow> resolvedAgentRunDataVolume list \<Rightarrow> Container" where
  "job_container r j obj dataVolumes =
     (let execution = run_execution obj;
          custom = (if agentRunBackendKind obj = AgentRunHarnessBackendCustom then be_Custom (run_backend obj) else None) in
      \<lparr>ctr_Name = agentRunContainerName, ctr_Image = agentRunImage r obj, ctr_ImagePullPolicy = agentRunImagePullPolicy obj,
       ctr_Command = (case custom of None \<Rightarrow> [] | Some c \<Rightarrow> custom_Command c),
       ctr_Args = (case custom of None \<Rightarrow> [] | Some c \<Rightarrow> custom_Args c),
       ctr_WorkingDir = TrimSpace (ex_Workdir execution), ctr_Env = agentRunEnv r j obj dataVolumes,
       ctr_EnvFrom = agentRunEnvFrom obj, ctr_Resources = ex_Resources execution,
       ctr_VolumeMounts = job_mounts obj dataVolumes,
       ctr_SecurityContext = Some (agentRunContainerSecurityContext obj),
       ctr_TerminationMessagePath = [], ctr_TerminationMessagePolicy = [], ctr_Other = []\<rparr>)"

definition job_pod :: "run_setup \<Rightarrow> json_lib \<Rightarrow> AgentRun \<Rightarrow> string \<Rightarrow> resolvedAgentRunDataVolume list \<Rightarrow> PodSpec" where
  "job_pod r j obj configMapName dataVolumes =
     (let execution = run_execution obj in
      \<lparr>pod_ServiceAccountName = firstNonEmpty (TrimSpace (ex_ServiceAccountName execution)) ''default'',
       pod_DeprecatedServiceAccount = [], pod_RestartPolicy = ''Never'',
       pod_NodeSelector = agentRunNodeSelector obj dataVolumes, pod_Affinity = ex_Affinity execution,
       pod_Tolerations = ex_Tolerations execution, pod_ImagePullSecrets = ex_ImagePullSecrets execution,
       pod_SecurityContext = Some (agentRunPodSecurityContext obj),
       pod_InitContainers = agentRunToolImageInitializerContainers obj,
       pod_Containers = [job_container r j obj dataVolumes], pod_Volumes = job_volumes obj configMapName dataVolumes,
       pod_EnableServiceLinks = None, pod_PreemptionPolicy = None, pod_DNSPolicy = [], pod_SchedulerName = [],
       pod_TerminationGracePeriodSeconds = None, pod_Other = []\<rparr>)"

definition agentRunJob :: "run_setup \<Rightarrow> json_lib \<Rightarrow> AgentRun \<Rightarrow> string \<Rightarrow> string \<Rightarrow> resolvedAgentRunDataVolume list \<Rightarrow> Job" where
  "agentRunJob r j obj jobName configMapName dataVolumes =
     (let timeout = ex_TimeoutSeconds (run_execution obj) in
      \<lparr>job_Meta = zero_ObjectMeta\<lparr>om_Name := jobName, om_Namespace := run_Namespace obj,
         om_Labels := agentRunWorkloadLabels obj jobName, om_Annotations := agentRunJobAnnotations j obj\<rparr>,
       job_Spec = \<lparr>js_BackoffLimit = Some 0, js_ActiveDeadlineSeconds = (if timeout > 0 then Some timeout else None),
         js_TTLSecondsAfterFinished = None, js_Selector = None, js_ManualSelector = None, js_Parallelism = None,
         js_Completions = None, js_CompletionMode = None, js_Suspend = None, js_PodReplacementPolicy = None,
         js_TemplateLabels = agentRunWorkloadLabels obj jobName,
         js_Pod = job_pod r j obj configMapName dataVolumes, js_Other = []\<rparr>,
       job_Succeeded = 0, job_Failed = 0, job_Conditions = []\<rparr>)"

subsection \<open>Reading a Job back\<close>

definition agentRunJobContainerImage :: "Job \<Rightarrow> string" where
  "agentRunJobContainerImage job =
     (case pod_Containers (js_Pod (job_Spec job)) of [] \<Rightarrow> [] | c # cs \<Rightarrow> TrimSpace (ctr_Image c))"

definition agentRunJobEnvValue :: "Job \<Rightarrow> string \<Rightarrow> string" where
  "agentRunJobEnvValue job name =
     (case pod_Containers (js_Pod (job_Spec job)) of
        [] \<Rightarrow> []
      | c # cs \<Rightarrow> (case find (\<lambda>item. env_Name item = name) (ctr_Env c) of
                    None \<Rightarrow> [] | Some item \<Rightarrow> TrimSpace (env_Value item)))"

definition agentRunModelFromJob :: "Job \<Rightarrow> string" where
  "agentRunModelFromJob job =
     (case filter (\<lambda>v. v \<noteq> []) (map (\<lambda>key. TrimSpace (agentRunJobEnvValue job key))
        [''ANVIL_CODEX_MODEL'', ''ANVIL_OPENCODE_MODEL'', ''ANVIL_HERMES_MODEL'', ''ANVIL_OPENCLAW_MODEL'',
         ''ANVIL_GROK_BUILD_MODEL'', ''ANVIL_PI_MODEL'', ''ANVIL_PRIME_MODEL'', ''ANVIL_AGY_MODEL'']) of
        [] \<Rightarrow> [] | v # vs \<Rightarrow> v)"

definition agentRunResolvedCompositionFromJob :: "json_lib \<Rightarrow> Job \<Rightarrow> AgentRunResolvedCompositionStatus option" where
  "agentRunResolvedCompositionFromJob j job =
     (let contents = TrimSpace (map_get (job_Annotations job) agentRunAnnotationComposition) in
      if contents = [] then None else json_ReadComposition j contents)"

definition agentRunDataVolumeStatusesFromJob :: "json_lib \<Rightarrow> Job \<Rightarrow> AgentRunDataVolumeStatus list" where
  "agentRunDataVolumeStatusesFromJob j job =
     (let raw = agentRunJobEnvValue job ''ANVIL_AGENT_RUN_DATA_VOLUMES_JSON'' in
      if raw = [] then [] else (case json_ReadVolumes j raw of None \<Rightarrow> [] | Some statuses \<Rightarrow> statuses))"

definition agentRunJobComplete :: "Job \<Rightarrow> bool" where
  "agentRunJobComplete job \<longleftrightarrow> job_Succeeded job > 0 \<or>
     (\<exists>c \<in> set (job_Conditions job). jc_Type c = ''Complete'' \<and> jc_Status c = ConditionTrue)"

definition agentRunJobFailed :: "Job \<Rightarrow> bool" where
  "agentRunJobFailed job \<longleftrightarrow> (\<exists>c \<in> set (job_Conditions job). jc_Type c = ''Failed'' \<and> jc_Status c = ConditionTrue)"

definition jobFailureMessage :: "Job \<Rightarrow> string" where
  "jobFailureMessage job =
     (case find (\<lambda>c. jc_Type c = ''Failed'' \<and> TrimSpace (jc_Message c) \<noteq> []) (job_Conditions job) of
        None \<Rightarrow> [] | Some c \<Rightarrow> TrimSpace (jc_Message c))"

subsection \<open>Confinement\<close>

text \<open>What a security context grants, once the operator has filled it in.\<close>

definition confined :: "AgentRun \<Rightarrow> Container \<Rightarrow> bool" where
  "confined obj c \<longleftrightarrow>
     (case ctr_SecurityContext c of
        None \<Rightarrow> False
      | Some sc \<Rightarrow>
          (\<exists>caps. sec_Capabilities sc = Some caps \<and> ''ALL'' \<in> set (cap_Drop caps)) \<and>
          (let asked = ex_SecurityContext (run_execution obj) in
           (Option.bind asked sec_AllowPrivilegeEscalation \<noteq> Some True \<longrightarrow> sec_AllowPrivilegeEscalation sc = Some False) \<and>
           (Option.bind asked sec_RunAsNonRoot \<noteq> Some False \<longrightarrow> sec_RunAsNonRoot sc = Some True)))"

definition job_containers :: "Job \<Rightarrow> Container list" where
  "job_containers job = pod_InitContainers (js_Pod (job_Spec job)) @ pod_Containers (js_Pod (job_Spec job))"

lemma security_context_confines:
  "\<exists>caps. sec_Capabilities (agentRunContainerSecurityContext obj) = Some caps \<and> ''ALL'' \<in> set (cap_Drop caps)"
  "Option.bind (ex_SecurityContext (run_execution obj)) sec_AllowPrivilegeEscalation \<noteq> Some True \<Longrightarrow>
    sec_AllowPrivilegeEscalation (agentRunContainerSecurityContext obj) = Some False"
  "Option.bind (ex_SecurityContext (run_execution obj)) sec_RunAsNonRoot \<noteq> Some False \<Longrightarrow>
    sec_RunAsNonRoot (agentRunContainerSecurityContext obj) = Some True"
  by (auto simp: agentRunContainerSecurityContext_def agentRunDropsCapability_def Let_def split: option.split)

lemma confined_iff:
  "ctr_SecurityContext c = Some (agentRunContainerSecurityContext obj) \<Longrightarrow> confined obj c"
  using security_context_confines [of obj] by (simp add: confined_def Let_def)

lemma initializer_shape:
  assumes "c \<in> set (agentRunToolImageInitializerContainers obj)"
  shows "ctr_SecurityContext c = Some (agentRunContainerSecurityContext obj) \<and>
    ctr_VolumeMounts c = [\<lparr>vm_Name = agentRunToolsVolume, vm_MountPath = agentRunToolsMountPath, vm_SubPath = [], vm_ReadOnly = False\<rparr>]
    \<and> ctr_Env c = [] \<and> ctr_EnvFrom c = []"
  using assms
  by (auto simp: agentRunToolImageInitializerContainers_def tool_initializer_def split: option.splits prod.splits)

lemma mounts_are_volumes:
  "map vol_Name (job_volumes obj configMapName dataVolumes) = map vm_Name (job_mounts obj dataVolumes)"
  by (simp add: job_volumes_def job_mounts_def payload_mount_def split: prod.split)

lemma job_containers_job:
  "job_containers (agentRunJob r j obj jobName configMapName dataVolumes) =
     agentRunToolImageInitializerContainers obj @ [job_container r j obj dataVolumes]"
  by (simp add: job_containers_def agentRunJob_def job_pod_def Let_def)

text \<open>
  C18. The Job of a run confines what it executes, whatever the profile asked for. It is attempted
  once and its pod is never restarted; a positive timeout becomes its deadline. Every container,
  the tool initializers included, drops all capabilities, cannot gain privileges and does not run
  as root unless the execution spec says so in as many words. The payload, the tools directory and
  the SPIFFE socket are mounted read-only in the agent container, no initializer sees the payload
  or an environment variable, and every mount of every container names a volume of the pod.
\<close>

theorem job_confined:
  "let job = agentRunJob r j obj jobName configMapName dataVolumes; pod = js_Pod (job_Spec job) in
     js_BackoffLimit (job_Spec job) = Some 0 \<and> pod_RestartPolicy pod = ''Never''
     \<and> js_ActiveDeadlineSeconds (job_Spec job) =
         (if ex_TimeoutSeconds (run_execution obj) > 0 then Some (ex_TimeoutSeconds (run_execution obj)) else None)
     \<and> list_all (confined obj) (job_containers job)
     \<and> list_all (\<lambda>c. list_all (\<lambda>m. vm_Name m \<in> vol_Name ` set (pod_Volumes pod)) (ctr_VolumeMounts c)) (job_containers job)
     \<and> list_all (\<lambda>c. ctr_Env c = [] \<and> ctr_EnvFrom c = [] \<and> agentRunPayloadVolume \<notin> vm_Name ` set (ctr_VolumeMounts c))
         (pod_InitContainers pod)
     \<and> (\<exists>c. pod_Containers pod = [c] \<and> payload_mount \<in> set (ctr_VolumeMounts c) \<and>
         list_all (\<lambda>m. vm_ReadOnly m \<or> (\<exists>index item. (index, item) \<in> set (indexed dataVolumes) \<and>
            vm_Name m = agentRunDataVolumeName index item \<and> \<not> rdv_ReadOnly item)) (ctr_VolumeMounts c))"
proof -
  let ?job = "agentRunJob r j obj jobName configMapName dataVolumes"
  let ?pod = "job_pod r j obj configMapName dataVolumes"
  have pod: "js_Pod (job_Spec ?job) = ?pod" by (simp add: agentRunJob_def Let_def)
  have vols: "pod_Volumes ?pod = job_volumes obj configMapName dataVolumes"
    and inits: "pod_InitContainers ?pod = agentRunToolImageInitializerContainers obj"
    and main: "pod_Containers ?pod = [job_container r j obj dataVolumes]"
    and mounts: "ctr_VolumeMounts (job_container r j obj dataVolumes) = job_mounts obj dataVolumes"
    by (simp_all add: job_pod_def job_container_def Let_def)
  have tools: "agentRunToolsVolume \<in> vol_Name ` set (job_volumes obj configMapName dataVolumes)"
    if "c \<in> set (agentRunToolImageInitializerContainers obj)" for c
  proof -
    from that have "agentRunToolImageInitializerContainers obj \<noteq> []" by auto
    then show ?thesis by (simp add: job_volumes_def)
  qed
  have init_mounts: "list_all (\<lambda>c. list_all (\<lambda>m. vm_Name m \<in> vol_Name ` set (pod_Volumes ?pod)) (ctr_VolumeMounts c))
      (agentRunToolImageInitializerContainers obj)"
    unfolding list_all_iff vols
  proof (intro ballI)
    fix c m
    assume "c \<in> set (agentRunToolImageInitializerContainers obj)" and "m \<in> set (ctr_VolumeMounts c)"
    then show "vm_Name m \<in> vol_Name ` set (job_volumes obj configMapName dataVolumes)"
      using initializer_shape [of c obj] tools [of c] by simp
  qed
  have main_mounts: "list_all (\<lambda>m. vm_Name m \<in> vol_Name ` set (pod_Volumes ?pod)) (job_mounts obj dataVolumes)"
  proof -
    have "vol_Name ` set (job_volumes obj configMapName dataVolumes) = vm_Name ` set (job_mounts obj dataVolumes)"
      using mounts_are_volumes [THEN arg_cong, of set] by (simp only: set_map)
    then show ?thesis by (simp add: vols list_all_iff)
  qed
  have conf: "list_all (confined obj) (job_containers ?job)"
    unfolding job_containers_job list_all_iff
  proof
    fix c
    assume "c \<in> set (agentRunToolImageInitializerContainers obj @ [job_container r j obj dataVolumes])"
    then have "ctr_SecurityContext c = Some (agentRunContainerSecurityContext obj)"
      using initializer_shape [of c obj] by (auto simp: job_container_def Let_def)
    then show "confined obj c" by (rule confined_iff)
  qed
  have blind: "list_all (\<lambda>c. ctr_Env c = [] \<and> ctr_EnvFrom c = [] \<and> agentRunPayloadVolume \<notin> vm_Name ` set (ctr_VolumeMounts c))
      (agentRunToolImageInitializerContainers obj)"
    unfolding list_all_iff
  proof
    fix c
    assume "c \<in> set (agentRunToolImageInitializerContainers obj)"
    then show "ctr_Env c = [] \<and> ctr_EnvFrom c = [] \<and> agentRunPayloadVolume \<notin> vm_Name ` set (ctr_VolumeMounts c)"
      using initializer_shape [of c obj] by (simp add: agentRunPayloadVolume_def agentRunToolsVolume_def)
  qed
  have ro: "list_all (\<lambda>m. vm_ReadOnly m \<or> (\<exists>index item. (index, item) \<in> set (indexed dataVolumes) \<and>
      vm_Name m = agentRunDataVolumeName index item \<and> \<not> rdv_ReadOnly item)) (job_mounts obj dataVolumes)"
    by (auto simp: job_mounts_def payload_mount_def list_all_iff)
  show ?thesis
    unfolding Let_def pod
    using init_mounts main_mounts conf blind ro
    by (simp add: inits main mounts job_containers_job)
      (simp add: agentRunJob_def job_pod_def job_mounts_def Let_def)
qed

end
