(* ===== verification/RunReceipt.thy ===== *)
theory RunReceipt
  imports RunJob
begin

text \<open>
  The launch receipt of a run (\<^verbatim>\<open>internal/controller/agent_run_controller.go\<close>): the payload ConfigMap
  and the Job are identified by owner, digest and name, and a Job that is found again is compared
  with the recorded plan after the fields the API server fills in have been removed. Maps are
  compared and encoded in the order of their keys (\<open>canonical_map\<close>). The lemmas show that a Job
  that differs from the plan only in the documented defaults is recognised, and that a Job that is
  accepted executes what was planned.
\<close>

subsection \<open>Maps as values\<close>

definition canonical_map :: "strmap \<Rightarrow> strmap" where
  "canonical_map m = map (\<lambda>key. (key, map_get m key)) (sort (remdups (map fst m)))"

definition map_delete :: "strmap \<Rightarrow> string \<Rightarrow> strmap" where
  "map_delete m key = filter (\<lambda>(k, v). k \<noteq> key) m"

text \<open>\<^verbatim>\<open>apiequality.Semantic.DeepEqual\<close> on two maps: nil and empty maps are equal.\<close>

definition map_equal :: "strmap \<Rightarrow> strmap \<Rightarrow> bool" where
  "map_equal m n \<longleftrightarrow> canonical_map m = canonical_map n"

lemma map_of_canonical: "map_of (canonical_map m) = map_of m"
proof
  fix k
  show "map_of (canonical_map m) k = map_of m k"
  proof (cases "k \<in> set (map fst m)")
    case True
    then obtain v where "map_of m k = Some v" by (metis map_of_eq_None_iff not_None_eq set_map)
    then show ?thesis
      using True by (simp add: canonical_map_def map_of_map_restrict map_get_def restrict_map_def)
  next
    case False
    then have "map_of m k = None" by (simp add: map_of_eq_None_iff)
    then show ?thesis using False by (simp add: canonical_map_def map_of_map_restrict restrict_map_def)
  qed
qed

lemma canonical_map_cong:
  assumes "map_of m = map_of n"
  shows "canonical_map m = canonical_map n"
proof -
  have "set (map fst m) = set (map fst n)"
    using assms by (metis dom_map_of_conv_image_fst set_map)
  then have "sort (remdups (map fst m)) = sort (remdups (map fst n))"
    by (metis distinct_remdups set_remdups sorted_list_of_set_sort_remdups sorted_list_of_set.set_sorted_key_list_of_set)
  then show ?thesis by (simp add: canonical_map_def map_get_def assms)
qed

lemma map_equal_iff: "map_equal m n \<longleftrightarrow> map_of m = map_of n"
  unfolding map_equal_def using canonical_map_cong map_of_canonical by metis

lemma map_of_map_delete [simp]: "map_of (map_delete m key) = (map_of m)(key := None)"
  by (induction m) (auto simp: map_delete_def)

subsection \<open>Payload ConfigMaps and ownership\<close>

record ConfigMap =
  cm_Meta :: ObjectMeta
  cm_Data :: strmap
  cm_BinaryData :: "opaque list"
  cm_Immutable :: "bool option"

definition GroupVersion :: string where
  "GroupVersion = ''control.anvil.hazyforge.io/v1alpha1''"

text \<open>\<^verbatim>\<open>metav1.GetControllerOf\<close>: the first owner reference marked as the controller.\<close>

definition GetControllerOf :: "ObjectMeta \<Rightarrow> OwnerReference option" where
  "GetControllerOf meta = find (\<lambda>owner. own_Controller owner = Some True) (om_OwnerReferences meta)"

definition agentRunControllerOwnerMatches :: "ObjectMeta \<Rightarrow> AgentRun \<Rightarrow> bool" where
  "agentRunControllerOwnerMatches meta run \<longleftrightarrow>
     run_UID run \<noteq> [] \<and>
     (case GetControllerOf meta of
        None \<Rightarrow> False
      | Some owner \<Rightarrow> own_APIVersion owner = GroupVersion \<and> own_Kind owner = ''AgentRun'' \<and>
          own_Name owner = run_Name run \<and> own_UID owner = run_UID run)"

definition meta_key :: "ObjectMeta \<Rightarrow> string" where
  "meta_key meta = om_Namespace meta @ ''/'' @ om_Name meta"

definition validateAgentRunConfigMapIdentityAndData :: "ConfigMap \<Rightarrow> AgentRun \<Rightarrow> strmap \<Rightarrow> go_error option" where
  "validateAgentRunConfigMapIdentityAndData configMap run expectedData =
     (let name = meta_key (cm_Meta configMap) in
      if \<not> agentRunControllerOwnerMatches (cm_Meta configMap) run then
        Some (Errorf (''AgentRun payload ConfigMap '' @ name @ '' is not controlled by AgentRun '' @
          meta_key (run_Meta run) @ '' with the current UID''))
      else if \<not> map_equal (cm_Data configMap) expectedData \<or> cm_BinaryData configMap \<noteq> [] then
        Some (Errorf (''AgentRun payload ConfigMap '' @ name @ '' does not match the resolved run payload''))
      else (case find (\<lambda>(key, v). map_get (om_Labels (cm_Meta configMap)) key \<noteq> v) (agentRunLabels run []) of
              None \<Rightarrow> None
            | Some (key, v) \<Rightarrow> Some (Errorf (''AgentRun payload ConfigMap '' @ name @ '' has invalid label '' @ key))))"

definition validateAgentRunConfigMap :: "ConfigMap \<Rightarrow> AgentRun \<Rightarrow> strmap \<Rightarrow> go_error option" where
  "validateAgentRunConfigMap configMap run expectedData =
     (case validateAgentRunConfigMapIdentityAndData configMap run expectedData of
        Some e \<Rightarrow> Some e
      | None \<Rightarrow>
          if cm_Immutable configMap \<noteq> Some True then
            Some (Errorf (''AgentRun payload ConfigMap '' @ meta_key (cm_Meta configMap) @
              '' is mutable; refusing to execute it''))
          else None)"

subsection \<open>Normalisation\<close>

definition drop_default :: "'a \<Rightarrow> 'a option \<Rightarrow> 'a option" where
  "drop_default d x = (if x = Some d then None else x)"

definition drop_text :: "string \<Rightarrow> string \<Rightarrow> string" where
  "drop_text d x = (if x = d then [] else x)"

definition normalize_container :: "Container \<Rightarrow> Container" where
  "normalize_container c = c\<lparr>
     ctr_TerminationMessagePath := drop_text ''/dev/termination-log'' (ctr_TerminationMessagePath c),
     ctr_TerminationMessagePolicy := drop_text ''File'' (ctr_TerminationMessagePolicy c)\<rparr>"

definition normalize_mode :: "ModeVolumeSource option \<Rightarrow> ModeVolumeSource option" where
  "normalize_mode s = map_option (\<lambda>s. s\<lparr>mvs_DefaultMode := drop_default 420 (mvs_DefaultMode s)\<rparr>) s"

definition normalize_volume :: "Volume \<Rightarrow> Volume" where
  "normalize_volume v = v\<lparr>vol_ConfigMap := normalize_mode (vol_ConfigMap v), vol_Secret := normalize_mode (vol_Secret v),
     vol_DownwardAPI := normalize_mode (vol_DownwardAPI v), vol_Projected := normalize_mode (vol_Projected v)\<rparr>"

definition normalize_pod :: "PodSpec \<Rightarrow> PodSpec" where
  "normalize_pod pod = pod\<lparr>
     pod_EnableServiceLinks := drop_default True (pod_EnableServiceLinks pod),
     pod_PreemptionPolicy := drop_default ''PreemptLowerPriority'' (pod_PreemptionPolicy pod),
     pod_DeprecatedServiceAccount := drop_text (pod_ServiceAccountName pod) (pod_DeprecatedServiceAccount pod),
     pod_DNSPolicy := drop_text ''ClusterFirst'' (pod_DNSPolicy pod),
     pod_SchedulerName := drop_text ''default-scheduler'' (pod_SchedulerName pod),
     pod_TerminationGracePeriodSeconds := drop_default 30 (pod_TerminationGracePeriodSeconds pod),
     pod_Containers := map normalize_container (pod_Containers pod),
     pod_InitContainers := map normalize_container (pod_InitContainers pod),
     pod_Volumes := map normalize_volume (pod_Volumes pod)\<rparr>"

definition expectedControllerLabels :: "Job \<Rightarrow> strmap" where
  "expectedControllerLabels job =
     [(''batch.kubernetes.io/controller-uid'', job_UID job), (''batch.kubernetes.io/job-name'', job_Name job),
      (''controller-uid'', job_UID job), (''job-name'', job_Name job)]"

fun strip_controller_labels :: "Job \<Rightarrow> strmap \<Rightarrow> strmap \<Rightarrow> strmap result" where
  "strip_controller_labels job labels [] = Inr labels"
| "strip_controller_labels job labels ((key, expected) # rest) =
     (case map_of labels key of
        None \<Rightarrow> strip_controller_labels job labels rest
      | Some actual \<Rightarrow>
          if job_UID job = [] \<or> actual \<noteq> expected then
            Inl (Errorf (''AgentRun Job '' @ meta_key (job_Meta job) @ '' has invalid controller label '' @ key))
          else strip_controller_labels job (map_delete labels key) rest)"

definition normalize_selector :: "Job \<Rightarrow> LabelSelector option \<Rightarrow> LabelSelector option result" where
  "normalize_selector job sel =
     (case sel of
        None \<Rightarrow> Inr None
      | Some s \<Rightarrow>
          if job_UID job = [] then Inl (Errorf ''AgentRun Job selector cannot be validated without a Job UID'')
          else if map_equal (ls_MatchLabels s) [(''batch.kubernetes.io/controller-uid'', job_UID job)] \<and>
            ls_MatchExpressions s = [] then Inr None
          else Inl (Errorf (''AgentRun Job '' @ meta_key (job_Meta job) @ '' has an invalid controller selector'')))"

definition normalizeAgentRunJobSpec :: "JobSpec \<Rightarrow> Job \<Rightarrow> JobSpec result" where
  "normalizeAgentRunJobSpec spec job =
     (case normalize_selector job (js_Selector spec) of
        Inl e \<Rightarrow> Inl e
      | Inr sel \<Rightarrow>
          (let normalized = spec\<lparr>js_Selector := sel,
                 js_ManualSelector := drop_default False (js_ManualSelector spec),
                 js_Parallelism := drop_default 1 (js_Parallelism spec),
                 js_Completions := drop_default 1 (js_Completions spec),
                 js_CompletionMode := drop_default ''NonIndexed'' (js_CompletionMode spec),
                 js_Suspend := drop_default False (js_Suspend spec),
                 js_PodReplacementPolicy := drop_default ''TerminatingOrFailed'' (js_PodReplacementPolicy spec),
                 js_Pod := normalize_pod (js_Pod spec)\<rparr>;
               labels = map_delete (map_delete (js_TemplateLabels spec) agentRunLabelBackend) agentRunLabelIntent in
           case strip_controller_labels job labels (expectedControllerLabels job) of
             Inl e \<Rightarrow> Inl e
           | Inr labels \<Rightarrow> Inr (normalized\<lparr>js_TemplateLabels := labels\<rparr>)))"

definition agentRunLabelsWithoutTelemetry :: "strmap \<Rightarrow> strmap" where
  "agentRunLabelsWithoutTelemetry labels = map_delete (map_delete labels agentRunLabelBackend) agentRunLabelIntent"

text \<open>A Job specification with its maps in key order: equal for two specifications when
  \<^verbatim>\<open>DeepEqual\<close> holds of them and when their JSON encodings agree.\<close>

definition canonical_spec :: "JobSpec \<Rightarrow> JobSpec" where
  "canonical_spec spec = spec\<lparr>
     js_Selector := map_option (\<lambda>s. s\<lparr>ls_MatchLabels := canonical_map (ls_MatchLabels s)\<rparr>) (js_Selector spec),
     js_TemplateLabels := canonical_map (js_TemplateLabels spec),
     js_Pod := (js_Pod spec)\<lparr>pod_NodeSelector := canonical_map (pod_NodeSelector (js_Pod spec))\<rparr>\<rparr>"

definition validateAgentRunJob :: "Job \<Rightarrow> Job \<Rightarrow> AgentRun \<Rightarrow> go_error option" where
  "validateAgentRunJob job desired run =
     (let name = meta_key (job_Meta job) in
      if \<not> agentRunControllerOwnerMatches (job_Meta job) run then
        Some (Errorf (''AgentRun Job '' @ name @ '' is not controlled by AgentRun '' @ meta_key (run_Meta run) @
          '' with the current UID''))
      else if \<not> map_equal (agentRunLabelsWithoutTelemetry (job_Labels job)) (agentRunLabelsWithoutTelemetry (job_Labels desired)) then
        Some (Errorf (''AgentRun Job '' @ name @ '' has invalid labels''))
      else if \<not> map_equal (job_Annotations job) (job_Annotations desired) then
        Some (Errorf (''AgentRun Job '' @ name @ '' has invalid annotations''))
      else (case normalizeAgentRunJobSpec (job_Spec desired) job of
              Inl e \<Rightarrow> Some e
            | Inr normalizedDesired \<Rightarrow>
                (case normalizeAgentRunJobSpec (job_Spec job) job of
                   Inl e \<Rightarrow> Some e
                 | Inr normalizedActual \<Rightarrow>
                     if canonical_spec normalizedDesired \<noteq> canonical_spec normalizedActual then
                       Some (Errorf (''AgentRun Job '' @ name @ '' does not match the resolved run execution spec''))
                     else None)))"

definition agentRunJobSnapshotDigest :: "json_lib \<Rightarrow> Job \<Rightarrow> string result" where
  "agentRunJobSnapshotDigest j job =
     (case normalizeAgentRunJobSpec (job_Spec job) job of
        Inl e \<Rightarrow> Inl e
      | Inr normalized \<Rightarrow>
          (let digest = digestJSON (json_Snapshot j)
                 \<lparr>snap_Labels = canonical_map (agentRunLabelsWithoutTelemetry (job_Labels job)),
                  snap_Annotations = canonical_map (job_Annotations job), snap_Spec = canonical_spec normalized\<rparr> in
           if digest = [] then Inl (Errorf (''digest AgentRun Job '' @ meta_key (job_Meta job) @ '' execution snapshot''))
           else Inr digest))"

subsection \<open>The receipt\<close>

definition named :: "NamespacedObjectReference option \<Rightarrow> bool" where
  "named ref \<longleftrightarrow> (case ref of None \<Rightarrow> False
     | Some r \<Rightarrow> TrimSpace (nor_Name r) \<noteq> [] \<and> TrimSpace (nor_Namespace r) \<noteq> [])"

definition agentRunLaunchReceiptComplete :: "AgentRunStatus \<Rightarrow> bool" where
  "agentRunLaunchReceiptComplete status \<longleftrightarrow>
     named (rs_PlannedJobRef status) \<and> TrimSpace (rs_JobSpecDigest status) \<noteq> [] \<and>
     named (rs_PayloadRef status) \<and> TrimSpace (rs_PayloadUID status) \<noteq> [] \<and>
     TrimSpace (rs_PromptHash status) \<noteq> [] \<and>
     (case rs_ResolvedComposition status of None \<Rightarrow> False | Some c \<Rightarrow> TrimSpace (rcs_PayloadDigest c) \<noteq> [])"

definition ref_key :: "NamespacedObjectReference option \<Rightarrow> string" where
  "ref_key ref = (case ref of None \<Rightarrow> [] | Some r \<Rightarrow> nor_Namespace r @ ''/'' @ nor_Name r)"

definition ref_is :: "NamespacedObjectReference option \<Rightarrow> string \<Rightarrow> string \<Rightarrow> bool" where
  "ref_is ref namespace name \<longleftrightarrow> (case ref of None \<Rightarrow> False | Some r \<Rightarrow> nor_Namespace r = namespace \<and> nor_Name r = name)"

definition validateAgentRunLaunchPlan ::
  "json_lib \<Rightarrow> AgentRunStatus \<Rightarrow> Job \<Rightarrow> ConfigMap \<Rightarrow> string \<Rightarrow> AgentRunResolvedCompositionStatus option \<Rightarrow>
   resolvedAgentRunDataVolume list \<Rightarrow> go_error option" where
  "validateAgentRunLaunchPlan j status desiredJob payload promptHash composition dataVolumes =
     (if \<not> agentRunLaunchReceiptComplete status then Some (Errorf ''AgentRun launch receipt is incomplete'')
      else if \<not> ref_is (rs_PlannedJobRef status) (job_Namespace desiredJob) (job_Name desiredJob) then
        Some (Errorf (''AgentRun launch plan references Job '' @ ref_key (rs_PlannedJobRef status) @
          '', not resolved Job '' @ meta_key (job_Meta desiredJob)))
      else (case agentRunJobSnapshotDigest j desiredJob of
        Inl e \<Rightarrow> Some e
      | Inr digest \<Rightarrow>
          if rs_JobSpecDigest status \<noteq> digest then
            Some (Errorf ''AgentRun resolved execution changed after its launch receipt was recorded'')
          else if \<not> ref_is (rs_PayloadRef status) (om_Namespace (cm_Meta payload)) (om_Name (cm_Meta payload)) then
            Some (Errorf (''AgentRun launch plan references payload '' @ ref_key (rs_PayloadRef status) @
              '', not resolved payload '' @ meta_key (cm_Meta payload)))
          else if rs_PayloadUID status \<noteq> [] \<and> rs_PayloadUID status \<noteq> om_UID (cm_Meta payload) then
            Some (Errorf (''AgentRun payload ConfigMap '' @ meta_key (cm_Meta payload) @ '' UID '' @ om_UID (cm_Meta payload) @
              '' does not match recorded UID '' @ rs_PayloadUID status))
          else if rs_PromptHash status \<noteq> promptHash then
            Some (Errorf ''AgentRun prompt changed after its launch receipt was recorded'')
          else if rs_DataVolumes status \<noteq> agentRunDataVolumeStatuses dataVolumes then
            Some (Errorf ''AgentRun data volumes changed after its launch receipt was recorded'')
          else if composition = None \<or> rs_ResolvedComposition status \<noteq> composition then
            Some (Errorf ''AgentRun composition changed after its launch receipt was recorded'')
          else None))"

text \<open>\<open>getConfigMap\<close> is the read of the reader the reconciler uses for recovery.\<close>

definition validateAgentRunLaunchReceipt ::
  "json_lib \<Rightarrow> (string \<Rightarrow> string \<Rightarrow> ConfigMap result) \<Rightarrow> AgentRun \<Rightarrow> Job \<Rightarrow> AgentRunStatus \<Rightarrow> go_error option" where
  "validateAgentRunLaunchReceipt j getConfigMap run job status =
     (if \<not> agentRunLaunchReceiptComplete status then
        Some (Errorf (''AgentRun '' @ meta_key (run_Meta run) @ '' has no complete launch receipt''))
      else if \<not> ref_is (rs_PlannedJobRef status) (run_Namespace run) (job_Name job) \<or> job_Namespace job \<noteq> run_Namespace run then
        Some (Errorf (''recovered AgentRun Job '' @ meta_key (job_Meta job) @ '' does not match the recorded planned Job '' @
          ref_key (rs_PlannedJobRef status)))
      else (case agentRunJobSnapshotDigest j job of
        Inl e \<Rightarrow> Some e
      | Inr digest \<Rightarrow>
          if digest \<noteq> rs_JobSpecDigest status then
            Some (Errorf (''recovered AgentRun Job '' @ meta_key (job_Meta job) @ '' does not match the recorded execution snapshot''))
          else (case rs_PayloadRef status of
            None \<Rightarrow> Some (Panic ''nil pointer'')
          | Some payloadRef \<Rightarrow>
              let namespace = firstNonEmpty (TrimSpace (nor_Namespace payloadRef)) (run_Namespace run) in
              if namespace \<noteq> run_Namespace run then
                Some (Errorf (''AgentRun payload reference '' @ namespace @ ''/'' @ nor_Name payloadRef @
                  '' is outside AgentRun namespace '' @ run_Namespace run))
              else (case getConfigMap namespace (TrimSpace (nor_Name payloadRef)) of
                Inl e \<Rightarrow> Some (Wrapf (''get recorded AgentRun payload ConfigMap '' @ namespace @ ''/'' @ nor_Name payloadRef) e)
              | Inr payload \<Rightarrow>
                  let name = meta_key (cm_Meta payload) in
                  if \<not> agentRunControllerOwnerMatches (cm_Meta payload) run then
                    Some (Errorf (''AgentRun payload ConfigMap '' @ name @ '' is not controlled by AgentRun '' @
                      meta_key (run_Meta run) @ '' with the current UID''))
                  else if rs_PayloadUID status \<noteq> [] \<and> om_UID (cm_Meta payload) \<noteq> rs_PayloadUID status then
                    Some (Errorf (''AgentRun payload ConfigMap '' @ name @ '' UID '' @ om_UID (cm_Meta payload) @
                      '' does not match recorded UID '' @ rs_PayloadUID status))
                  else if cm_Immutable payload \<noteq> Some True then
                    Some (Errorf (''AgentRun payload ConfigMap '' @ name @ '' is mutable; refusing recovered execution''))
                  else if cm_BinaryData payload \<noteq> [] \<or>
                    Some (digestJSON (json_Data j) (canonical_map (cm_Data payload))) \<noteq>
                      map_option rcs_PayloadDigest (rs_ResolvedComposition status) then
                    Some (Errorf (''AgentRun payload ConfigMap '' @ name @ '' does not match the recorded payload digest''))
                  else if shortHash (map_get (cm_Data payload) agentRunPromptFile) \<noteq> rs_PromptHash status then
                    Some (Errorf (''AgentRun payload ConfigMap '' @ name @ '' prompt does not match the recorded prompt hash''))
                  else if om_Name (cm_Meta payload) \<noteq> agentRunChildName [run_Name run, ''context'', rs_PromptHash status] \<or>
                    job_Name job \<noteq> agentRunChildName [run_Name run, ''harness'', rs_PromptHash status] then
                    Some (Errorf ''AgentRun recovered child names do not match the recorded prompt identity'')
                  else None))))"

subsection \<open>Defaults of the API server\<close>

text \<open>
  What Kubernetes documents that the API server adds to a Job on creation: a field that was left
  out may have its default, the controller labels and the selector carry the UID and the name of
  the Job, and every other field is stored as it was sent. Among the defaults are those of the
  sources of an environment variable, which the comparison of the controller does not strip: the
  API version of a field reference and the optional flag of a file key.
\<close>

definition may_default :: "'a \<Rightarrow> 'a option \<Rightarrow> 'a option \<Rightarrow> bool" where
  "may_default d x y \<longleftrightarrow> y = x \<or> x = None \<and> y = Some d"

definition may_text :: "string \<Rightarrow> string \<Rightarrow> string \<Rightarrow> bool" where
  "may_text d x y \<longleftrightarrow> y = x \<or> x = [] \<and> y = d"

definition defaulted_source :: "EnvVarSource \<Rightarrow> EnvVarSource \<Rightarrow> bool" where
  "defaulted_source s s' \<longleftrightarrow>
     (case (evs_FieldRef s, evs_FieldRef s') of
        (None, None) \<Rightarrow> True
      | (Some a, Some b) \<Rightarrow> may_text ''v1'' (ofs_APIVersion a) (ofs_APIVersion b) \<and> ofs_FieldPath b = ofs_FieldPath a
      | _ \<Rightarrow> False) \<and>
     (case (evs_FileKeyRef s, evs_FileKeyRef s') of
        (None, None) \<Rightarrow> True
      | (Some a, Some b) \<Rightarrow> may_default False (fks_Optional a) (fks_Optional b) \<and> fks_Selector b = fks_Selector a
      | _ \<Rightarrow> False) \<and>
     evs_Other s' = evs_Other s"

definition defaulted_env :: "EnvVar \<Rightarrow> EnvVar \<Rightarrow> bool" where
  "defaulted_env e e' \<longleftrightarrow>
     env_Name e' = env_Name e \<and> env_Value e' = env_Value e \<and>
     (case (env_ValueFrom e, env_ValueFrom e') of
        (None, None) \<Rightarrow> True
      | (Some a, Some b) \<Rightarrow> defaulted_source a b
      | _ \<Rightarrow> False)"

definition defaulted_container :: "Container \<Rightarrow> Container \<Rightarrow> bool" where
  "defaulted_container c c' \<longleftrightarrow>
     may_text ''/dev/termination-log'' (ctr_TerminationMessagePath c) (ctr_TerminationMessagePath c') \<and>
     may_text ''File'' (ctr_TerminationMessagePolicy c) (ctr_TerminationMessagePolicy c') \<and>
     list_all2 defaulted_env (ctr_Env c) (ctr_Env c') \<and>
     c'\<lparr>ctr_TerminationMessagePath := ctr_TerminationMessagePath c,
        ctr_TerminationMessagePolicy := ctr_TerminationMessagePolicy c, ctr_Env := ctr_Env c\<rparr> = c"

definition defaulted_mode :: "ModeVolumeSource option \<Rightarrow> ModeVolumeSource option \<Rightarrow> bool" where
  "defaulted_mode s s' \<longleftrightarrow>
     (case (s, s') of
        (None, None) \<Rightarrow> True
      | (Some a, Some b) \<Rightarrow> may_default 420 (mvs_DefaultMode a) (mvs_DefaultMode b) \<and> b\<lparr>mvs_DefaultMode := mvs_DefaultMode a\<rparr> = a
      | _ \<Rightarrow> False)"

definition defaulted_volume :: "Volume \<Rightarrow> Volume \<Rightarrow> bool" where
  "defaulted_volume v v' \<longleftrightarrow>
     defaulted_mode (vol_ConfigMap v) (vol_ConfigMap v') \<and> defaulted_mode (vol_Secret v) (vol_Secret v') \<and>
     defaulted_mode (vol_DownwardAPI v) (vol_DownwardAPI v') \<and> defaulted_mode (vol_Projected v) (vol_Projected v') \<and>
     v'\<lparr>vol_ConfigMap := vol_ConfigMap v, vol_Secret := vol_Secret v, vol_DownwardAPI := vol_DownwardAPI v,
        vol_Projected := vol_Projected v\<rparr> = v"

definition defaulted_pod :: "PodSpec \<Rightarrow> PodSpec \<Rightarrow> bool" where
  "defaulted_pod p p' \<longleftrightarrow>
     may_default True (pod_EnableServiceLinks p) (pod_EnableServiceLinks p') \<and>
     may_default ''PreemptLowerPriority'' (pod_PreemptionPolicy p) (pod_PreemptionPolicy p') \<and>
     may_text (pod_ServiceAccountName p) (pod_DeprecatedServiceAccount p) (pod_DeprecatedServiceAccount p') \<and>
     may_text ''ClusterFirst'' (pod_DNSPolicy p) (pod_DNSPolicy p') \<and>
     may_text ''default-scheduler'' (pod_SchedulerName p) (pod_SchedulerName p') \<and>
     may_default 30 (pod_TerminationGracePeriodSeconds p) (pod_TerminationGracePeriodSeconds p') \<and>
     list_all2 defaulted_container (pod_Containers p) (pod_Containers p') \<and>
     list_all2 defaulted_container (pod_InitContainers p) (pod_InitContainers p') \<and>
     list_all2 defaulted_volume (pod_Volumes p) (pod_Volumes p') \<and>
     map_of (pod_NodeSelector p') = map_of (pod_NodeSelector p) \<and>
     p'\<lparr>pod_EnableServiceLinks := pod_EnableServiceLinks p, pod_PreemptionPolicy := pod_PreemptionPolicy p,
        pod_DeprecatedServiceAccount := pod_DeprecatedServiceAccount p, pod_DNSPolicy := pod_DNSPolicy p,
        pod_SchedulerName := pod_SchedulerName p, pod_TerminationGracePeriodSeconds := pod_TerminationGracePeriodSeconds p,
        pod_Containers := pod_Containers p, pod_InitContainers := pod_InitContainers p, pod_Volumes := pod_Volumes p,
        pod_NodeSelector := pod_NodeSelector p\<rparr> = p"

definition defaulted_labels :: "Job \<Rightarrow> strmap \<Rightarrow> strmap \<Rightarrow> bool" where
  "defaulted_labels job labels labels' \<longleftrightarrow>
     (\<forall>key. case map_of (expectedControllerLabels job) key of
        None \<Rightarrow> map_of labels' key = map_of labels key
      | Some v \<Rightarrow> map_of labels' key \<in> {None, Some v})"

definition defaulted_spec :: "Job \<Rightarrow> JobSpec \<Rightarrow> JobSpec \<Rightarrow> bool" where
  "defaulted_spec job s s' \<longleftrightarrow>
     may_default \<lparr>ls_MatchLabels = [(''batch.kubernetes.io/controller-uid'', job_UID job)], ls_MatchExpressions = []\<rparr>
       (js_Selector s) (js_Selector s') \<and>
     may_default False (js_ManualSelector s) (js_ManualSelector s') \<and>
     may_default 1 (js_Parallelism s) (js_Parallelism s') \<and> may_default 1 (js_Completions s) (js_Completions s') \<and>
     may_default ''NonIndexed'' (js_CompletionMode s) (js_CompletionMode s') \<and>
     may_default False (js_Suspend s) (js_Suspend s') \<and>
     may_default ''TerminatingOrFailed'' (js_PodReplacementPolicy s) (js_PodReplacementPolicy s') \<and>
     defaulted_labels job (js_TemplateLabels s) (js_TemplateLabels s') \<and> defaulted_pod (js_Pod s) (js_Pod s') \<and>
     s'\<lparr>js_Selector := js_Selector s, js_ManualSelector := js_ManualSelector s, js_Parallelism := js_Parallelism s,
        js_Completions := js_Completions s, js_CompletionMode := js_CompletionMode s, js_Suspend := js_Suspend s,
        js_PodReplacementPolicy := js_PodReplacementPolicy s, js_TemplateLabels := js_TemplateLabels s, js_Pod := js_Pod s\<rparr> = s"

lemma drop_may:
  "may_default d x y \<Longrightarrow> drop_default d y = drop_default d x"
  "may_text t a b \<Longrightarrow> drop_text t b = drop_text t a"
  by (auto simp: may_default_def may_text_def drop_default_def drop_text_def)

text \<open>A variable leaves nothing to default when its field reference has a version and its file key says whether it is optional.\<close>

definition explicit_env :: "EnvVar \<Rightarrow> bool" where
  "explicit_env e \<longleftrightarrow>
     (case env_ValueFrom e of
        None \<Rightarrow> True
      | Some s \<Rightarrow>
          (case evs_FieldRef s of None \<Rightarrow> True | Some f \<Rightarrow> ofs_APIVersion f \<noteq> []) \<and>
          (case evs_FileKeyRef s of None \<Rightarrow> True | Some f \<Rightarrow> fks_Optional f \<noteq> None))"

lemma explicit_env_kept:
  assumes "defaulted_env e e'" "explicit_env e"
  shows "e' = e"
proof -
  have "defaulted_source a b \<Longrightarrow> env_ValueFrom e = Some a \<Longrightarrow> b = a" for a b
    using assms(2) unfolding defaulted_source_def explicit_env_def may_text_def may_default_def
    by (auto split: option.splits intro!: EnvVarSource.equality ObjectFieldSelector.equality FileKeySelector.equality)
  then have "env_ValueFrom e' = env_ValueFrom e"
    using assms(1) unfolding defaulted_env_def by (auto split: option.splits)
  then show ?thesis using assms(1) unfolding defaulted_env_def by (auto intro: EnvVar.equality)
qed

lemma explicit_envs_kept: "list_all2 defaulted_env es es' \<Longrightarrow> list_all explicit_env es \<Longrightarrow> es' = es"
  by (induction rule: list_all2_induct) (auto dest: explicit_env_kept)

definition explicit_container :: "Container \<Rightarrow> bool" where
  "explicit_container c \<longleftrightarrow> list_all explicit_env (ctr_Env c)"

definition explicit_pod :: "PodSpec \<Rightarrow> bool" where
  "explicit_pod p \<longleftrightarrow> list_all explicit_container (pod_Containers p) \<and> list_all explicit_container (pod_InitContainers p)"

lemma normalize_defaulted_container:
  assumes "defaulted_container c c'" "explicit_container c"
  shows "normalize_container c' = normalize_container c"
proof -
  have "ctr_Env c' = ctr_Env c"
    using assms explicit_envs_kept unfolding defaulted_container_def explicit_container_def by blast
  then show ?thesis
    using assms(1) unfolding defaulted_container_def normalize_container_def
    by (cases c, cases c') (auto dest: drop_may)
qed

lemma normalize_defaulted_mode:
  assumes "defaulted_mode s s'"
  shows "normalize_mode s' = normalize_mode s"
proof (cases s)
  case None
  then show ?thesis using assms by (cases s') (simp_all add: defaulted_mode_def)
next
  case (Some a)
  then obtain b where "s' = Some b" and "may_default 420 (mvs_DefaultMode a) (mvs_DefaultMode b)"
    and "b\<lparr>mvs_DefaultMode := mvs_DefaultMode a\<rparr> = a"
    using assms by (cases s') (simp_all add: defaulted_mode_def)
  then show ?thesis
    using Some by (cases a, cases b) (simp add: normalize_mode_def drop_may(1))
qed

lemma normalize_defaulted_volume: "defaulted_volume v v' \<Longrightarrow> normalize_volume v' = normalize_volume v"
  unfolding defaulted_volume_def normalize_volume_def
  by (cases v, cases v') (auto dest!: normalize_defaulted_mode)

lemma map_list_all2: "list_all2 P xs ys \<Longrightarrow> list_all Q xs \<Longrightarrow> (\<And>x y. P x y \<Longrightarrow> Q x \<Longrightarrow> f y = f x) \<Longrightarrow> map f ys = map f xs"
  by (induction rule: list_all2_induct) auto

definition canonical_pod :: "PodSpec \<Rightarrow> PodSpec" where
  "canonical_pod p = p\<lparr>pod_NodeSelector := canonical_map (pod_NodeSelector p)\<rparr>"

lemma normalize_defaulted_pod:
  assumes "defaulted_pod p p'" "explicit_pod p"
  shows "canonical_pod (normalize_pod p') = canonical_pod (normalize_pod p)"
proof -
  have lists: "map normalize_container (pod_Containers p') = map normalize_container (pod_Containers p)"
    "map normalize_container (pod_InitContainers p') = map normalize_container (pod_InitContainers p)"
    "map normalize_volume (pod_Volumes p') = map normalize_volume (pod_Volumes p)"
    using assms map_list_all2 [of defaulted_container _ _ explicit_container normalize_container, OF _ _ normalize_defaulted_container]
      map_list_all2 [of defaulted_volume _ _ "\<lambda>_. True" normalize_volume, OF _ _ normalize_defaulted_volume]
    by (auto simp: defaulted_pod_def explicit_pod_def list_all_iff)
  have account: "pod_ServiceAccountName p' = pod_ServiceAccountName p"
    using assms(1) by (cases p, cases p') (simp add: defaulted_pod_def)
  have fields: "drop_default True (pod_EnableServiceLinks p') = drop_default True (pod_EnableServiceLinks p)"
    "drop_default ''PreemptLowerPriority'' (pod_PreemptionPolicy p') = drop_default ''PreemptLowerPriority'' (pod_PreemptionPolicy p)"
    "drop_text (pod_ServiceAccountName p) (pod_DeprecatedServiceAccount p') = drop_text (pod_ServiceAccountName p) (pod_DeprecatedServiceAccount p)"
    "drop_text ''ClusterFirst'' (pod_DNSPolicy p') = drop_text ''ClusterFirst'' (pod_DNSPolicy p)"
    "drop_text ''default-scheduler'' (pod_SchedulerName p') = drop_text ''default-scheduler'' (pod_SchedulerName p)"
    "drop_default 30 (pod_TerminationGracePeriodSeconds p') = drop_default 30 (pod_TerminationGracePeriodSeconds p)"
    "canonical_map (pod_NodeSelector p') = canonical_map (pod_NodeSelector p)"
    using assms(1) unfolding defaulted_pod_def by (blast intro: drop_may canonical_map_cong)+
  show ?thesis
    using assms(1) lists account fields unfolding defaulted_pod_def normalize_pod_def canonical_pod_def
    by (cases p, cases p') simp
qed

lemma strip_controller_labels_ok:
  assumes "distinct (map fst rest)"
    and "\<And>key v actual. (key, v) \<in> set rest \<Longrightarrow> map_of labels key = Some actual \<Longrightarrow> job_UID job \<noteq> [] \<and> actual = v"
  shows "\<exists>stripped. strip_controller_labels job labels rest = Inr stripped \<and>
    map_of stripped = (\<lambda>key. if key \<in> fst ` set rest then None else map_of labels key)"
  using assms
proof (induction rest arbitrary: labels)
  case Nil
  then show ?case by simp
next
  case (Cons kv rest)
  obtain key v where kv: "kv = (key, v)" by force
  show ?case
  proof (cases "map_of labels key")
    case None
    have "\<exists>stripped. strip_controller_labels job labels rest = Inr stripped \<and>
        map_of stripped = (\<lambda>k. if k \<in> fst ` set rest then None else map_of labels k)"
    proof (rule Cons.IH)
      show "distinct (map fst rest)" using Cons.prems(1) by simp
      show "job_UID job \<noteq> [] \<and> a = u" if "(k, u) \<in> set rest" "map_of labels k = Some a" for k u a
        using Cons.prems(2) [of k u a] that by simp
    qed
    then obtain l where "strip_controller_labels job labels rest = Inr l"
      and "map_of l = (\<lambda>k. if k \<in> fst ` set rest then None else map_of labels k)" by blast
    then show ?thesis using None by (simp add: kv fun_eq_iff)
  next
    case (Some actual)
    have "job_UID job \<noteq> [] \<and> actual = v" using Cons.prems(2) [of key v actual] Some by (simp add: kv)
    moreover have "\<exists>stripped. strip_controller_labels job (map_delete labels key) rest = Inr stripped \<and>
        map_of stripped = (\<lambda>k. if k \<in> fst ` set rest then None else map_of (map_delete labels key) k)"
    proof (rule Cons.IH)
      show "distinct (map fst rest)" using Cons.prems(1) by simp
      show "job_UID job \<noteq> [] \<and> a = u" if "(k, u) \<in> set rest" "map_of (map_delete labels key) k = Some a" for k u a
        using that Cons.prems(2) [of k u a] by (auto split: if_splits)
    qed
    ultimately obtain l where "strip_controller_labels job (map_delete labels key) rest = Inr l"
      and "map_of l = (\<lambda>k. if k \<in> fst ` set rest then None else map_of (map_delete labels key) k)"
      and "job_UID job \<noteq> []" "actual = v" by blast
    then show ?thesis using Some by (simp add: kv fun_eq_iff)
  qed
qed

definition controller_keys :: "string list" where
  "controller_keys = [''batch.kubernetes.io/controller-uid'', ''batch.kubernetes.io/job-name'', ''controller-uid'', ''job-name'']"

lemma expectedControllerLabels_keys: "map fst (expectedControllerLabels job) = controller_keys"
  by (simp add: expectedControllerLabels_def controller_keys_def)

lemma controller_keys_distinct: "distinct controller_keys"
  by (simp add: controller_keys_def)

text \<open>Normalising what the API server stored gives what normalising the sent specification gives.\<close>

lemma normalize_defaulted:
  assumes d: "defaulted_spec job s s'" and uid: "job_UID job \<noteq> []" and explicit: "explicit_pod (js_Pod s)"
    and sel: "js_Selector s = None" and labels: "\<And>key. key \<in> set controller_keys \<Longrightarrow> map_of (js_TemplateLabels s) key = None"
  shows "\<exists>n n'. normalizeAgentRunJobSpec s desired = Inr n \<and> normalizeAgentRunJobSpec s' job = Inr n' \<and>
    canonical_spec n' = canonical_spec n"
proof -
  let ?strip = "\<lambda>m. map_delete (map_delete m agentRunLabelBackend) agentRunLabelIntent"
  have keys: "fst ` set (expectedControllerLabels x) = set controller_keys" for x
    using expectedControllerLabels_keys [of x] by (metis set_map)
  have "\<exists>l. strip_controller_labels desired (?strip (js_TemplateLabels s)) (expectedControllerLabels desired) = Inr l \<and>
      map_of l = (\<lambda>key. if key \<in> fst ` set (expectedControllerLabels desired) then None else map_of (?strip (js_TemplateLabels s)) key)"
  proof (rule strip_controller_labels_ok)
    show "distinct (map fst (expectedControllerLabels desired))"
      by (simp add: expectedControllerLabels_keys controller_keys_distinct)
    show "job_UID desired \<noteq> [] \<and> a = v" if "(key, v) \<in> set (expectedControllerLabels desired)"
      "map_of (?strip (js_TemplateLabels s)) key = Some a" for key v a
      using that labels [of key] keys [of desired] by (force split: if_splits)
  qed
  then obtain l where l: "strip_controller_labels desired (?strip (js_TemplateLabels s)) (expectedControllerLabels desired) = Inr l"
    "map_of l = (\<lambda>key. if key \<in> set controller_keys then None else map_of (?strip (js_TemplateLabels s)) key)"
    unfolding keys by blast
  have stored: "map_of (js_TemplateLabels s') key = map_of (js_TemplateLabels s) key" if "key \<notin> set controller_keys" for key
  proof -
    have "map_of (expectedControllerLabels job) key = None" using that keys [of job] by (simp add: map_of_eq_None_iff)
    then show ?thesis using d unfolding defaulted_spec_def defaulted_labels_def by (metis (mono_tags) option.simps(4))
  qed
  have "\<exists>l. strip_controller_labels job (?strip (js_TemplateLabels s')) (expectedControllerLabels job) = Inr l \<and>
      map_of l = (\<lambda>key. if key \<in> fst ` set (expectedControllerLabels job) then None else map_of (?strip (js_TemplateLabels s')) key)"
  proof (rule strip_controller_labels_ok)
    show "distinct (map fst (expectedControllerLabels job))"
      by (simp add: expectedControllerLabels_keys controller_keys_distinct)
    show "job_UID job \<noteq> [] \<and> a = v" if kv: "(key, v) \<in> set (expectedControllerLabels job)"
      and a: "map_of (?strip (js_TemplateLabels s')) key = Some a" for key v a
    proof -
      have "map_of (expectedControllerLabels job) key = Some v"
        using kv by (simp add: expectedControllerLabels_keys controller_keys_distinct)
      then have "map_of (js_TemplateLabels s') key \<in> {None, Some v}"
        using d unfolding defaulted_spec_def defaulted_labels_def by (metis (mono_tags) option.simps(5))
      then show ?thesis using a uid by (auto split: if_splits)
    qed
  qed
  then obtain l' where l': "strip_controller_labels job (?strip (js_TemplateLabels s')) (expectedControllerLabels job) = Inr l'"
    "map_of l' = (\<lambda>key. if key \<in> set controller_keys then None else map_of (?strip (js_TemplateLabels s')) key)"
    unfolding keys by blast
  have "map_of l' = map_of l" unfolding l(2) l'(2) by (auto simp: fun_eq_iff stored)
  then have ll: "canonical_map l' = canonical_map l" by (rule canonical_map_cong)
  have sel': "normalize_selector job (js_Selector s') = Inr None"
    using d uid sel by (auto simp: normalize_selector_def defaulted_spec_def may_default_def map_equal_def)
  have pods: "canonical_pod (normalize_pod (js_Pod s')) = canonical_pod (normalize_pod (js_Pod s))"
    using d normalize_defaulted_pod [OF _ explicit] by (simp add: defaulted_spec_def)
  have fields: "drop_default False (js_ManualSelector s') = drop_default False (js_ManualSelector s)"
    "drop_default 1 (js_Parallelism s') = drop_default 1 (js_Parallelism s)"
    "drop_default 1 (js_Completions s') = drop_default 1 (js_Completions s)"
    "drop_default ''NonIndexed'' (js_CompletionMode s') = drop_default ''NonIndexed'' (js_CompletionMode s)"
    "drop_default False (js_Suspend s') = drop_default False (js_Suspend s)"
    "drop_default ''TerminatingOrFailed'' (js_PodReplacementPolicy s') = drop_default ''TerminatingOrFailed'' (js_PodReplacementPolicy s)"
    using d unfolding defaulted_spec_def by (blast intro: drop_may)+
  show ?thesis
    using d sel l(1) l'(1) ll sel' pods fields
    by (cases s, cases s')
      (simp add: normalizeAgentRunJobSpec_def normalize_selector_def Let_def canonical_spec_def defaulted_spec_def canonical_pod_def)
qed

definition label_keys :: "string list" where
  "label_keys = [agentRunLabel, agentRunLabelSourceKind, agentRunLabelSourceName, adverseSituationLabel,
     agentRunScheduleLabel, agentRunJobLabel, agentRunLabelSpiffeWorkloadAPI, agentRunLabelServiceAccount,
     agentRunLabelBackend, agentRunLabelIntent]"

lemma workload_labels_keys:
  assumes "key \<in> set controller_keys"
  shows "map_of (agentRunWorkloadLabels obj jobName) key = None"
proof -
  have "list_all (\<lambda>k. take 8 k \<noteq> ''control.'') controller_keys" and "list_all (\<lambda>k. take 8 k = ''control.'') label_keys"
    by code_simp+
  then have "key \<notin> set label_keys" using assms by (auto simp: list_all_iff)
  then show ?thesis
    by (simp add: label_keys_def agentRunWorkloadLabels_def agentRunLabels_def Let_def del: map_set.simps split: option.split)
qed

lemma agentRunJob_fields:
  "job_Name (agentRunJob r j obj jobName configMapName dataVolumes) = jobName"
  "job_Namespace (agentRunJob r j obj jobName configMapName dataVolumes) = run_Namespace obj"
  "job_UID (agentRunJob r j obj jobName configMapName dataVolumes) = []"
  "job_Labels (agentRunJob r j obj jobName configMapName dataVolumes) = agentRunWorkloadLabels obj jobName"
  "job_Annotations (agentRunJob r j obj jobName configMapName dataVolumes) = agentRunJobAnnotations j obj"
  "js_Selector (job_Spec (agentRunJob r j obj jobName configMapName dataVolumes)) = None"
  "js_TemplateLabels (job_Spec (agentRunJob r j obj jobName configMapName dataVolumes)) = agentRunWorkloadLabels obj jobName"
  by (simp_all add: agentRunJob_def Let_def zero_ObjectMeta_def)

text \<open>
  What the API server may have stored for a Job that was sent: the same name, labels and
  annotations, the specification up to the documented defaults, a UID, and the run as its
  controller.
\<close>

definition stored_as :: "Job \<Rightarrow> AgentRun \<Rightarrow> Job \<Rightarrow> bool" where
  "stored_as sent run job \<longleftrightarrow>
     job_Name job = job_Name sent \<and> job_Namespace job = job_Namespace sent \<and> job_UID job \<noteq> [] \<and>
     map_of (job_Labels job) = map_of (job_Labels sent) \<and> map_of (job_Annotations job) = map_of (job_Annotations sent) \<and>
     agentRunControllerOwnerMatches (job_Meta job) run \<and> defaulted_spec job (job_Spec sent) (job_Spec job)"

text \<open>
  The Job as an API server stores it that fills in every default: with a UID, the run as its
  controller, the selector and the controller labels.
\<close>

definition fill_default :: "'a \<Rightarrow> 'a option \<Rightarrow> 'a option" where
  "fill_default d x = Some (case x of None \<Rightarrow> d | Some y \<Rightarrow> y)"

definition fill_text :: "string \<Rightarrow> string \<Rightarrow> string" where
  "fill_text d x = (if x = [] then d else x)"

definition fill_env :: "EnvVar \<Rightarrow> EnvVar" where
  "fill_env e = e\<lparr>env_ValueFrom := map_option (\<lambda>s. s\<lparr>
     evs_FieldRef := map_option (\<lambda>f. f\<lparr>ofs_APIVersion := fill_text ''v1'' (ofs_APIVersion f)\<rparr>) (evs_FieldRef s),
     evs_FileKeyRef := map_option (\<lambda>f. f\<lparr>fks_Optional := fill_default False (fks_Optional f)\<rparr>) (evs_FileKeyRef s)\<rparr>)
     (env_ValueFrom e)\<rparr>"

definition fill_container :: "Container \<Rightarrow> Container" where
  "fill_container c = c\<lparr>ctr_TerminationMessagePath := fill_text ''/dev/termination-log'' (ctr_TerminationMessagePath c),
     ctr_TerminationMessagePolicy := fill_text ''File'' (ctr_TerminationMessagePolicy c), ctr_Env := map fill_env (ctr_Env c)\<rparr>"

definition fill_mode :: "ModeVolumeSource \<Rightarrow> ModeVolumeSource" where
  "fill_mode m = m\<lparr>mvs_DefaultMode := fill_default 420 (mvs_DefaultMode m)\<rparr>"

definition fill_volume :: "Volume \<Rightarrow> Volume" where
  "fill_volume v = v\<lparr>vol_ConfigMap := map_option fill_mode (vol_ConfigMap v), vol_Secret := map_option fill_mode (vol_Secret v),
     vol_DownwardAPI := map_option fill_mode (vol_DownwardAPI v), vol_Projected := map_option fill_mode (vol_Projected v)\<rparr>"

definition fill_pod :: "PodSpec \<Rightarrow> PodSpec" where
  "fill_pod p = p\<lparr>pod_EnableServiceLinks := fill_default True (pod_EnableServiceLinks p),
     pod_PreemptionPolicy := fill_default ''PreemptLowerPriority'' (pod_PreemptionPolicy p),
     pod_DeprecatedServiceAccount := fill_text (pod_ServiceAccountName p) (pod_DeprecatedServiceAccount p),
     pod_DNSPolicy := fill_text ''ClusterFirst'' (pod_DNSPolicy p), pod_SchedulerName := fill_text ''default-scheduler'' (pod_SchedulerName p),
     pod_TerminationGracePeriodSeconds := fill_default 30 (pod_TerminationGracePeriodSeconds p),
     pod_Containers := map fill_container (pod_Containers p), pod_InitContainers := map fill_container (pod_InitContainers p),
     pod_Volumes := map fill_volume (pod_Volumes p)\<rparr>"

definition stored_job :: "string \<Rightarrow> AgentRun \<Rightarrow> Job \<Rightarrow> Job" where
  "stored_job uid run sent =
     (let spec = job_Spec sent;
          job = sent\<lparr>job_Meta := (job_Meta sent)\<lparr>om_UID := uid, om_OwnerReferences := [\<lparr>own_APIVersion = GroupVersion,
            own_Kind = ''AgentRun'', own_Name = run_Name run, own_UID = run_UID run, own_Controller = Some True\<rparr>]\<rparr>\<rparr> in
      job\<lparr>job_Spec := spec\<lparr>
        js_Selector := fill_default \<lparr>ls_MatchLabels = [(''batch.kubernetes.io/controller-uid'', uid)], ls_MatchExpressions = []\<rparr> (js_Selector spec),
        js_ManualSelector := fill_default False (js_ManualSelector spec), js_Parallelism := fill_default 1 (js_Parallelism spec),
        js_Completions := fill_default 1 (js_Completions spec), js_CompletionMode := fill_default ''NonIndexed'' (js_CompletionMode spec),
        js_Suspend := fill_default False (js_Suspend spec),
        js_PodReplacementPolicy := fill_default ''TerminatingOrFailed'' (js_PodReplacementPolicy spec),
        js_TemplateLabels := expectedControllerLabels job @ js_TemplateLabels spec, js_Pod := fill_pod (js_Pod spec)\<rparr>\<rparr>)"

lemma may_fill [simp]: "may_default d x (fill_default d x)" "may_text t a (fill_text t a)" "may_default d x x" "may_text t a a"
  by (simp_all add: may_default_def may_text_def fill_default_def fill_text_def split: option.split)

lemma filled_explicit:
  assumes "fill_env e = e"
  shows "explicit_env e"
proof (cases "env_ValueFrom e")
  case (Some s)
  let ?s = "s\<lparr>evs_FieldRef := map_option (\<lambda>f. f\<lparr>ofs_APIVersion := fill_text ''v1'' (ofs_APIVersion f)\<rparr>) (evs_FieldRef s),
     evs_FileKeyRef := map_option (\<lambda>f. f\<lparr>fks_Optional := fill_default False (fks_Optional f)\<rparr>) (evs_FileKeyRef s)\<rparr>"
  have eq: "?s = s" using assms [THEN arg_cong, of env_ValueFrom] Some by (simp add: fill_env_def)
  have "ofs_APIVersion f \<noteq> []" if "evs_FieldRef s = Some f" for f
  proof -
    have "f\<lparr>ofs_APIVersion := fill_text ''v1'' (ofs_APIVersion f)\<rparr> = f"
      using eq [THEN arg_cong, of evs_FieldRef] that by simp
    from this [THEN arg_cong, of ofs_APIVersion] show ?thesis by (auto simp: fill_text_def split: if_splits)
  qed
  moreover have "fks_Optional f \<noteq> None" if "evs_FileKeyRef s = Some f" for f
  proof -
    have "f\<lparr>fks_Optional := fill_default False (fks_Optional f)\<rparr> = f"
      using eq [THEN arg_cong, of evs_FileKeyRef] that by simp
    from this [THEN arg_cong, of fks_Optional] show ?thesis by (cases "fks_Optional f") (simp_all add: fill_default_def)
  qed
  ultimately show ?thesis using Some by (auto simp: explicit_env_def split: option.split)
qed (simp add: explicit_env_def)

lemma defaulted_fill_env: "defaulted_env e (fill_env e)"
  by (simp add: defaulted_env_def fill_env_def defaulted_source_def split: option.split)

lemma defaulted_fill_pod: "defaulted_pod p (fill_pod p)"
proof -
  have "list_all2 defaulted_env es (map fill_env es)" for es
    by (simp add: list_all2_conv_all_nth defaulted_fill_env)
  then have "list_all2 defaulted_container cs (map fill_container cs)" for cs
    by (simp add: list_all2_conv_all_nth defaulted_container_def fill_container_def)
  moreover have "defaulted_mode m (map_option fill_mode m)" for m
    by (simp add: defaulted_mode_def fill_mode_def split: option.split)
  then have "list_all2 defaulted_volume vs (map fill_volume vs)" for vs
    by (simp add: list_all2_conv_all_nth defaulted_volume_def fill_volume_def)
  ultimately show ?thesis by (simp add: defaulted_pod_def fill_pod_def)
qed

lemma stored_job_fields [simp]:
  "job_UID (stored_job uid run sent) = uid" "job_Name (stored_job uid run sent) = job_Name sent"
  "job_Namespace (stored_job uid run sent) = job_Namespace sent" "job_Labels (stored_job uid run sent) = job_Labels sent"
  "job_Annotations (stored_job uid run sent) = job_Annotations sent" "js_Pod (job_Spec (stored_job uid run sent)) = fill_pod (js_Pod (job_Spec sent))"
  by (simp_all add: stored_job_def Let_def)

lemma stored_job_stored:
  assumes "uid \<noteq> []" "run_UID run \<noteq> []"
  shows "stored_as sent run (stored_job uid run sent)"
proof -
  have labels: "js_TemplateLabels (job_Spec (stored_job uid run sent)) =
      expectedControllerLabels (stored_job uid run sent) @ js_TemplateLabels (job_Spec sent)"
    by (simp add: stored_job_def Let_def expectedControllerLabels_def)
  have "defaulted_labels (stored_job uid run sent) (js_TemplateLabels (job_Spec sent)) (js_TemplateLabels (job_Spec (stored_job uid run sent)))"
    unfolding defaulted_labels_def labels by (simp add: map_add_def split: option.split)
  moreover have "agentRunControllerOwnerMatches (job_Meta (stored_job uid run sent)) run"
    using assms(2) by (simp add: agentRunControllerOwnerMatches_def GetControllerOf_def stored_job_def Let_def)
  ultimately show ?thesis
    using assms(1) defaulted_fill_pod
    by (simp add: stored_as_def defaulted_spec_def) (simp add: stored_job_def Let_def)
qed

text \<open>The variables that a run takes from its own specification and from its volumes; all others are literal.\<close>

definition custom_env :: "AgentRun \<Rightarrow> resolvedAgentRunDataVolume list \<Rightarrow> EnvVar list" where
  "custom_env obj dataVolumes = concat (map rdv_ExtraEnv dataVolumes) @ ex_ExtraEnv (run_execution obj)"

lemma literal_env [simp]:
  "explicit_env (env_var name v)" "list_all explicit_env (args_env j name args)" "list_all explicit_env (base_env r obj)"
  "list_all explicit_env (repository_env obj)" "list_all explicit_env (identity_env obj)"
  "list_all explicit_env (ref_env obj a b ref)" "list_all explicit_env (files_env j obj)"
  by (simp_all add: explicit_env_def env_var_def args_env_def base_env_def repository_env_def identity_env_def ref_env_def
      files_env_def Let_def split: option.split)

lemma literal_backend_env [simp]: "list_all explicit_env (backend_env j obj)"
  by (simp add: backend_env_def codex_env_def opencode_env_def hermes_env_def openclaw_env_def grokbuild_env_def pi_env_def
      prime_env_def agy_env_def Let_def split: AgentRunHarnessBackendKind.split option.split)

lemma explicit_job:
  assumes "list_all explicit_env (custom_env obj dataVolumes)"
  shows "explicit_pod (js_Pod (job_Spec (agentRunJob r j obj jobName configMapName dataVolumes)))"
proof -
  have "list_all explicit_env (volumes_env j dataVolumes)"
    using assms by (auto simp: volumes_env_def custom_env_def split: option.split)
  then have "explicit_container (job_container r j obj dataVolumes)"
    using assms by (simp add: explicit_container_def job_container_def Let_def agentRunEnv_def custom_env_def)
  moreover have "list_all explicit_container (agentRunToolImageInitializerContainers obj)"
    by (auto simp: explicit_container_def agentRunToolImageInitializerContainers_def tool_initializer_def list_all_iff split: option.splits)
  ultimately show ?thesis
    by (simp add: explicit_pod_def agentRunJob_def job_pod_def Let_def)
qed

lemma stored_normalizes:
  assumes "stored_as (agentRunJob r j obj jobName configMapName dataVolumes) run job"
    and "list_all explicit_env (custom_env obj dataVolumes)"
  shows "\<exists>n n'. normalizeAgentRunJobSpec (job_Spec (agentRunJob r j obj jobName configMapName dataVolumes)) desired = Inr n \<and>
    normalizeAgentRunJobSpec (job_Spec job) job = Inr n' \<and> canonical_spec n' = canonical_spec n"
proof (rule normalize_defaulted)
  show "defaulted_spec job (job_Spec (agentRunJob r j obj jobName configMapName dataVolumes)) (job_Spec job)"
    and "job_UID job \<noteq> []" using assms by (simp_all add: stored_as_def)
  show "explicit_pod (js_Pod (job_Spec (agentRunJob r j obj jobName configMapName dataVolumes)))"
    using assms(2) by (rule explicit_job)
  show "js_Selector (job_Spec (agentRunJob r j obj jobName configMapName dataVolumes)) = None"
    by (rule agentRunJob_fields)
  show "map_of (js_TemplateLabels (job_Spec (agentRunJob r j obj jobName configMapName dataVolumes))) key = None"
    if "key \<in> set controller_keys" for key
    using workload_labels_keys [OF that] by (simp add: agentRunJob_fields)
qed

lemma stored_job_valid:
  assumes "stored_as (agentRunJob r j obj jobName configMapName dataVolumes) run job"
    and "list_all explicit_env (custom_env obj dataVolumes)"
  shows "validateAgentRunJob job (agentRunJob r j obj jobName configMapName dataVolumes) run = None"
proof -
  let ?sent = "agentRunJob r j obj jobName configMapName dataVolumes"
  have "map_equal (agentRunLabelsWithoutTelemetry (job_Labels job)) (agentRunLabelsWithoutTelemetry (job_Labels ?sent))"
    "map_equal (job_Annotations job) (job_Annotations ?sent)"
    using assms by (simp_all add: stored_as_def map_equal_iff agentRunLabelsWithoutTelemetry_def)
  moreover obtain n n' where "normalizeAgentRunJobSpec (job_Spec ?sent) job = Inr n"
      "normalizeAgentRunJobSpec (job_Spec job) job = Inr n'" "canonical_spec n' = canonical_spec n"
    using stored_normalizes [OF assms] by blast
  ultimately show ?thesis using assms by (simp add: validateAgentRunJob_def stored_as_def)
qed

lemma stored_job_digest:
  assumes "stored_as (agentRunJob r j obj jobName configMapName dataVolumes) run job"
    and "list_all explicit_env (custom_env obj dataVolumes)"
  shows "agentRunJobSnapshotDigest j' job = agentRunJobSnapshotDigest j' (agentRunJob r j obj jobName configMapName dataVolumes)"
proof -
  let ?sent = "agentRunJob r j obj jobName configMapName dataVolumes"
  have labels: "canonical_map (agentRunLabelsWithoutTelemetry (job_Labels job)) = canonical_map (agentRunLabelsWithoutTelemetry (job_Labels ?sent))"
    and annotations: "canonical_map (job_Annotations job) = canonical_map (job_Annotations ?sent)"
    using assms unfolding stored_as_def by (auto intro!: canonical_map_cong simp: agentRunLabelsWithoutTelemetry_def)
  have key: "meta_key (job_Meta job) = meta_key (job_Meta ?sent)"
    using assms by (simp add: stored_as_def meta_key_def)
  obtain m m' where "normalizeAgentRunJobSpec (job_Spec ?sent) ?sent = Inr m"
      "normalizeAgentRunJobSpec (job_Spec job) job = Inr m'" "canonical_spec m' = canonical_spec m"
    using stored_normalizes [OF assms] by blast
  then show ?thesis by (simp add: agentRunJobSnapshotDigest_def labels annotations key Let_def)
qed

subsection \<open>Accepted Jobs\<close>

lemma normalize_selector_None: "normalize_selector job sel = Inr x \<Longrightarrow> x = None"
  by (auto simp: normalize_selector_def split: option.splits if_splits)

lemma normalize_keeps:
  assumes "normalizeAgentRunJobSpec s job = Inr n"
  shows "js_Pod n = normalize_pod (js_Pod s)" "js_BackoffLimit n = js_BackoffLimit s"
    "js_ActiveDeadlineSeconds n = js_ActiveDeadlineSeconds s" "js_TTLSecondsAfterFinished n = js_TTLSecondsAfterFinished s"
    "js_Other n = js_Other s"
  using assms by (auto simp: normalizeAgentRunJobSpec_def Let_def split: sum.splits)

definition executes :: "Container \<Rightarrow> Container" where
  "executes c = c\<lparr>ctr_TerminationMessagePath := [], ctr_TerminationMessagePolicy := []\<rparr>"

lemma executes_normalize [simp]: "executes (normalize_container c) = executes c"
  by (simp add: executes_def normalize_container_def)

lemma executes_map:
  "map normalize_container xs = map normalize_container ys \<Longrightarrow> map executes xs = map executes ys"
  by (metis (no_types, lifting) executes_normalize list.map_comp map_eq_conv comp_apply)

lemma accepted_pods:
  assumes "validateAgentRunJob job desired run = None"
  shows "canonical_pod (normalize_pod (js_Pod (job_Spec desired))) = canonical_pod (normalize_pod (js_Pod (job_Spec job)))"
proof -
  obtain n n' where n: "normalizeAgentRunJobSpec (job_Spec desired) job = Inr n"
      "normalizeAgentRunJobSpec (job_Spec job) job = Inr n'" "canonical_spec n = canonical_spec n'"
    using assms by (auto simp: validateAgentRunJob_def Let_def split: if_splits sum.splits)
  show ?thesis
    using n(3) normalize_keeps [OF n(1)] normalize_keeps [OF n(2)]
    by (cases n, cases n') (simp add: canonical_spec_def canonical_pod_def)
qed

lemma accepted_containers:
  assumes "validateAgentRunJob job desired run = None"
  shows "map executes (pod_Containers (js_Pod (job_Spec job))) = map executes (pod_Containers (js_Pod (job_Spec desired)))"
  using accepted_pods [OF assms, THEN arg_cong, of pod_Containers]
  by (intro executes_map) (simp add: canonical_pod_def normalize_pod_def)

text \<open>
  C17. The comparison that lets a recovered Job stand for the run is a tamper check. A Job that
  passes it is controlled by the run under its current UID, and its pod runs the planned
  containers: image, command, arguments, working directory, environment, mounts, resources and
  security context of every container agree with the plan, as do the service account, the pod
  security context, the restart policy, the retry limit and the deadline; nothing but the
  termination-message settings of a container is left open.
\<close>

theorem accepted_job_executes_plan:
  assumes "validateAgentRunJob job desired run = None"
  shows "let pod = js_Pod (job_Spec job); planned = js_Pod (job_Spec desired) in
     agentRunControllerOwnerMatches (job_Meta job) run
     \<and> map executes (pod_Containers pod) = map executes (pod_Containers planned)
     \<and> map executes (pod_InitContainers pod) = map executes (pod_InitContainers planned)
     \<and> pod_ServiceAccountName pod = pod_ServiceAccountName planned
     \<and> pod_SecurityContext pod = pod_SecurityContext planned
     \<and> pod_RestartPolicy pod = pod_RestartPolicy planned \<and> pod_Other pod = pod_Other planned
     \<and> map_of (pod_NodeSelector pod) = map_of (pod_NodeSelector planned)
     \<and> js_BackoffLimit (job_Spec job) = js_BackoffLimit (job_Spec desired)
     \<and> js_ActiveDeadlineSeconds (job_Spec job) = js_ActiveDeadlineSeconds (job_Spec desired)
     \<and> map_of (job_Annotations job) = map_of (job_Annotations desired)"
proof -
  obtain n n' where n: "normalizeAgentRunJobSpec (job_Spec desired) job = Inr n"
      "normalizeAgentRunJobSpec (job_Spec job) job = Inr n'" "canonical_spec n = canonical_spec n'"
    and owner: "agentRunControllerOwnerMatches (job_Meta job) run"
    and annotations: "map_of (job_Annotations job) = map_of (job_Annotations desired)"
    using assms by (auto simp: validateAgentRunJob_def Let_def map_equal_iff split: if_splits sum.splits)
  note pods = accepted_pods [OF assms]
  have fields: "js_BackoffLimit n = js_BackoffLimit n'" "js_ActiveDeadlineSeconds n = js_ActiveDeadlineSeconds n'"
    using n(3) by (cases n, cases n', simp add: canonical_spec_def)+
  have "map_of (pod_NodeSelector (js_Pod (job_Spec job))) = map_of (pod_NodeSelector (js_Pod (job_Spec desired)))"
    using pods [THEN arg_cong, of "\<lambda>p. map_of (pod_NodeSelector p)"]
    by (simp add: canonical_pod_def normalize_pod_def map_of_canonical)
  moreover have "map executes (pod_Containers (js_Pod (job_Spec job))) = map executes (pod_Containers (js_Pod (job_Spec desired)))"
    by (rule accepted_containers [OF assms])
  moreover have "map executes (pod_InitContainers (js_Pod (job_Spec job))) = map executes (pod_InitContainers (js_Pod (job_Spec desired)))"
    using pods [THEN arg_cong, of pod_InitContainers] by (intro executes_map) (simp add: canonical_pod_def normalize_pod_def)
  moreover have "pod_ServiceAccountName (js_Pod (job_Spec job)) = pod_ServiceAccountName (js_Pod (job_Spec desired))"
    "pod_SecurityContext (js_Pod (job_Spec job)) = pod_SecurityContext (js_Pod (job_Spec desired))"
    "pod_RestartPolicy (js_Pod (job_Spec job)) = pod_RestartPolicy (js_Pod (job_Spec desired))"
    "pod_Other (js_Pod (job_Spec job)) = pod_Other (js_Pod (job_Spec desired))"
    using pods [THEN arg_cong, of pod_ServiceAccountName] pods [THEN arg_cong, of pod_SecurityContext]
      pods [THEN arg_cong, of pod_RestartPolicy] pods [THEN arg_cong, of pod_Other]
    by (simp_all add: canonical_pod_def normalize_pod_def)
  ultimately show ?thesis
    using owner annotations fields normalize_keeps [OF n(1)] normalize_keeps [OF n(2)] by (simp add: Let_def)
qed

subsection \<open>A Job read back\<close>

lemma unfilled_env_refused:
  assumes "e \<in> set (custom_env obj dataVolumes)" "\<not> explicit_env e"
  shows "validateAgentRunJob (stored_job uid run (agentRunJob r j obj jobName configMapName dataVolumes))
    (agentRunJob r j obj jobName configMapName dataVolumes) run \<noteq> None"
proof
  let ?sent = "agentRunJob r j obj jobName configMapName dataVolumes"
  assume "validateAgentRunJob (stored_job uid run ?sent) ?sent run = None"
  from accepted_containers [OF this]
  have "executes (fill_container (job_container r j obj dataVolumes)) = executes (job_container r j obj dataVolumes)"
    by (simp add: agentRunJob_def job_pod_def fill_pod_def Let_def)
  from this [THEN arg_cong, of ctr_Env]
  have "map fill_env (agentRunEnv r j obj dataVolumes) = agentRunEnv r j obj dataVolumes"
    by (simp add: executes_def fill_container_def job_container_def Let_def)
  moreover have "e \<in> set (agentRunEnv r j obj dataVolumes)"
    using assms(1) by (auto simp: custom_env_def agentRunEnv_def volumes_env_def Let_def)
  ultimately have "fill_env e = e" by (metis list.map_ident map_eq_conv)
  then have "explicit_env e" by (rule filled_explicit)
  then show False using assms(2) by simp
qed


text \<open>A Job of a run with a tool initializer, as the API server stores it.\<close>

definition demo_json :: json_lib where
  "demo_json = \<lparr>json_Strings = (\<lambda>xs. Some (Join xs '','')), json_Volumes = (\<lambda>_. Some ''[]''), json_ReadVolumes = (\<lambda>_. Some []),
     json_Tools = (\<lambda>_. Some ''[]''), json_Composition = (\<lambda>_. Some ''{}''), json_ReadComposition = (\<lambda>_. None),
     json_Snapshot = (\<lambda>_. Some ''{}''), json_Data = (\<lambda>_. Some ''{}''), json_Spec = (\<lambda>_. Some ''{}''),
     json_Result = (\<lambda>_. Some ''{}''), json_ReadReport = (\<lambda>_. None), json_ReadFields = (\<lambda>_. None)\<rparr>"

definition demo_owner_run :: AgentRun where
  "demo_owner_run = demo_valid_run\<lparr>run_Meta := (run_Meta demo_valid_run)\<lparr>om_UID := ''run-uid''\<rparr>\<rparr>"

definition demo_sent :: Job where
  "demo_sent = agentRunJob demo_setup demo_json demo_owner_run ''job'' ''payload'' []"

definition demo_stored :: Job where
  "demo_stored = stored_job ''job-uid'' demo_owner_run demo_sent"

lemma demo_stored_as: "stored_as demo_sent demo_owner_run demo_stored"
  unfolding demo_stored_def by (rule stored_job_stored) (simp_all add: demo_owner_run_def)

lemma demo_explicit: "list_all explicit_env (custom_env demo_owner_run [])"
  by code_simp

definition demo_pod_name :: EnvVar where
  "demo_pod_name = \<lparr>env_Name = ''POD'', env_Value = [], env_ValueFrom = Some \<lparr>evs_Other = [],
     evs_FieldRef = Some \<lparr>ofs_APIVersion = [], ofs_FieldPath = ''metadata.name''\<rparr>, evs_FileKeyRef = None\<rparr>\<rparr>"

definition demo_field_run :: AgentRun where
  "demo_field_run = demo_owner_run\<lparr>run_Spec := (run_Spec demo_owner_run)\<lparr>spec_Harness := (spec_Harness (run_Spec demo_owner_run))
     \<lparr>har_Execution := (run_execution demo_owner_run)\<lparr>ex_ExtraEnv := [demo_pod_name]\<rparr>\<rparr>\<rparr>\<rparr>"


theorem accepted_job_executes_plan_witness:
  "validateAgentRunJob demo_stored demo_sent demo_owner_run = None
   \<and> map executes (pod_Containers (js_Pod (job_Spec demo_stored))) = map executes (pod_Containers (js_Pod (job_Spec demo_sent)))
   \<and> map_of (pod_NodeSelector (js_Pod (job_Spec demo_stored))) = map_of (pod_NodeSelector (js_Pod (job_Spec demo_sent)))"
proof -
  have valid: "validateAgentRunJob demo_stored demo_sent demo_owner_run = None"
    using stored_job_valid [OF demo_stored_as [unfolded demo_sent_def] demo_explicit] by (simp add: demo_sent_def)
  then show ?thesis using accepted_job_executes_plan [OF valid] by (simp add: Let_def)
qed

end
