(* ===== verification/VolumeTypes.thy ===== *)
theory VolumeTypes
  imports RunReceipt
begin

text \<open>
  The API objects of the volume plane (\<^verbatim>\<open>agent_data_volume_types.go\<close>, \<^verbatim>\<open>volume_profile_types.go\<close>,
  \<^verbatim>\<open>agent_auth_session_types.go\<close>, \<^verbatim>\<open>agent_data_volume_copy_types.go\<close>) and the Kubernetes objects the
  remaining controllers use, in the form of \<open>ApiTypes\<close>. A quantity is its amount, in
  multiples of the smallest unit, with its canonical text.
\<close>

subsection \<open>Quantities\<close>

record Quantity =
  q_Amount :: int
  q_Text :: string

definition zero_Quantity :: Quantity where
  "zero_Quantity = \<lparr>q_Amount = 0, q_Text = ''0''\<rparr>"

text \<open>\<^verbatim>\<open>resource.Quantity\<close>: \<^verbatim>\<open>IsZero\<close>, \<^verbatim>\<open>Sign\<close> and \<^verbatim>\<open>Cmp\<close> look at the amount.\<close>

definition q_IsZero :: "Quantity \<Rightarrow> bool" where
  "q_IsZero q \<longleftrightarrow> q_Amount q = 0"

definition q_Less :: "Quantity \<Rightarrow> Quantity \<Rightarrow> bool" where
  "q_Less a b \<longleftrightarrow> q_Amount a < q_Amount b"

subsection \<open>Data volumes and volume profiles\<close>

datatype AgentDataVolumePhase =
    AgentDataVolumePhaseUnset
  | AgentDataVolumePhasePending
  | AgentDataVolumePhaseReady
  | AgentDataVolumePhaseBlocked
  | AgentDataVolumePhaseOther string

fun volume_phase_text :: "AgentDataVolumePhase \<Rightarrow> string" where
  "volume_phase_text AgentDataVolumePhaseUnset = []"
| "volume_phase_text AgentDataVolumePhasePending = ''Pending''"
| "volume_phase_text AgentDataVolumePhaseReady = ''Ready''"
| "volume_phase_text AgentDataVolumePhaseBlocked = ''Blocked''"
| "volume_phase_text (AgentDataVolumePhaseOther s) = s"

record AgentDataVolumePathEnvVar =
  pe_Name :: string
  pe_Value :: string

datatype ExternalVolumeSyncPhase = ExternalVolumeSyncPhaseDisabled | ExternalVolumeSyncPhaseStubOnly

record ExternalVolumeSyncSpec =
  sync_Disabled :: bool
  sync_Provider :: string
  sync_Direction :: string
  sync_SeedOnCreate :: bool
  sync_SyncBack :: bool
  sync_Schedule :: string
  sync_CredentialsSecretRef :: "LocalObjectReference option"
  sync_S3 :: "opaque option"
  sync_Notes :: string

record ExternalVolumeSyncStatus =
  syncs_Phase :: ExternalVolumeSyncPhase
  syncs_Provider :: string
  syncs_Direction :: string
  syncs_LastAttemptTime :: "instant option"
  syncs_LastSuccessTime :: "instant option"
  syncs_LastError :: string
  syncs_Message :: string
  syncs_Conditions :: "Condition list"

record AgentDataVolumeSpec =
  dv_ApplicationRef :: "ApplicationReferenceSpec option"
  dv_AgentName :: string
  dv_Backend :: AgentRunHarnessBackendKind
  dv_ProfileRef :: "LocalObjectReference option"
  dv_ProfileVolumeName :: string
  dv_ClaimName :: string
  dv_MountPath :: string
  dv_SubPath :: string
  dv_StorageClassName :: string
  dv_Size :: Quantity
  dv_AccessModes :: "string list"
  dv_NodeSelector :: strmap
  dv_ExtraEnv :: "AgentDataVolumePathEnvVar list"
  dv_ExternalSync :: "ExternalVolumeSyncSpec option"
  dv_Notes :: string

record AgentDataVolumeStatus =
  dst_ObservedGeneration :: int
  dst_Conditions :: "Condition list"
  dst_Phase :: AgentDataVolumePhase
  dst_ProfileRef :: "NamespacedObjectReference option"
  dst_ProfileVolumeName :: string
  dst_ClaimRef :: "NamespacedObjectReference option"
  dst_ClaimUID :: string
  dst_StorageClassName :: string
  dst_VolumeName :: string
  dst_Capacity :: string
  dst_MountPath :: string
  dst_SubPath :: string
  dst_NodeSelector :: strmap
  dst_ExtraEnv :: "AgentDataVolumePathEnvVar list"
  dst_ExternalSync :: "ExternalVolumeSyncStatus option"
  dst_LastError :: string

record AgentDataVolume =
  volume_Meta :: ObjectMeta
  volume_Spec :: AgentDataVolumeSpec
  volume_Status :: AgentDataVolumeStatus

abbreviation "volume_Name v \<equiv> om_Name (volume_Meta v)"
abbreviation "volume_Namespace v \<equiv> om_Namespace (volume_Meta v)"
abbreviation "volume_UID v \<equiv> om_UID (volume_Meta v)"
abbreviation "volume_Generation v \<equiv> om_Generation (volume_Meta v)"

datatype VolumeProfilePhase = VolumeProfilePhaseUnset | VolumeProfilePhaseReady | VolumeProfilePhaseBlocked

record VolumeProfileVolumeSpec =
  pv_Name :: string
  pv_Purpose :: string
  pv_MountPath :: string
  pv_SubPath :: string
  pv_StorageClassName :: string
  pv_SizeRequest :: Quantity
  pv_SizePercent :: "int option"
  pv_AccessModes :: "string list"
  pv_NodeSelector :: strmap
  pv_ExtraEnv :: "AgentDataVolumePathEnvVar list"
  pv_ExternalSync :: "ExternalVolumeSyncSpec option"
  pv_Notes :: string

record VolumeProfileSpec =
  vps_ApplicationRef :: "ApplicationReferenceSpec option"
  vps_Description :: string
  vps_CapacityPercent :: "int option"
  vps_Volumes :: "VolumeProfileVolumeSpec list"
  vps_Notes :: string

record VolumeProfileVolumeStatus =
  vpv_Name :: string
  vpv_Purpose :: string
  vpv_RequestedStorage :: string
  vpv_ExternalSync :: "ExternalVolumeSyncStatus option"

record VolumeProfileStatus =
  vpt_ObservedGeneration :: int
  vpt_Phase :: VolumeProfilePhase
  vpt_Conditions :: "Condition list"
  vpt_VolumeCount :: int
  vpt_TotalRequestedStorage :: string
  vpt_Volumes :: "VolumeProfileVolumeStatus list"
  vpt_LastError :: string

record VolumeProfile =
  vprofile_Meta :: ObjectMeta
  vprofile_Spec :: VolumeProfileSpec
  vprofile_Status :: VolumeProfileStatus

subsection \<open>Maintenance sessions and copies\<close>

datatype AgentAuthSessionProvider =
    AgentAuthSessionProviderCodex
  | AgentAuthSessionProviderGrokBuild
  | AgentAuthSessionProviderOther string

fun provider_text :: "AgentAuthSessionProvider \<Rightarrow> string" where
  "provider_text AgentAuthSessionProviderCodex = ''codex''"
| "provider_text AgentAuthSessionProviderGrokBuild = ''grokBuild''"
| "provider_text (AgentAuthSessionProviderOther s) = s"

datatype AgentAuthSessionAction =
    AgentAuthSessionActionReauth
  | AgentAuthSessionActionLogout
  | AgentAuthSessionActionOther string

fun action_text :: "AgentAuthSessionAction \<Rightarrow> string" where
  "action_text AgentAuthSessionActionReauth = ''reauth''"
| "action_text AgentAuthSessionActionLogout = ''logout''"
| "action_text (AgentAuthSessionActionOther s) = s"

datatype AgentAuthSessionPhase =
    AgentAuthSessionPhaseUnset
  | AgentAuthSessionPhasePending
  | AgentAuthSessionPhaseWaitingForIdle
  | AgentAuthSessionPhaseRunning
  | AgentAuthSessionPhaseSucceeded
  | AgentAuthSessionPhaseFailed
  | AgentAuthSessionPhaseOther string

record AgentAuthSessionSpec =
  au_Provider :: AgentAuthSessionProvider
  au_Action :: AgentAuthSessionAction
  au_DataVolumeRef :: LocalObjectReference
  au_StagingSecretRef :: "LocalObjectReference option"
  au_BootstrapSecretRef :: "LocalObjectReference option"
  au_BootstrapSecretKey :: string
  au_SeedID :: string
  au_TimeoutSeconds :: int

record AgentAuthSessionStatus =
  aus_ObservedGeneration :: int
  aus_Conditions :: "Condition list"
  aus_Phase :: AgentAuthSessionPhase
  aus_DataVolumeRef :: "NamespacedObjectReference option"
  aus_DataVolumeUID :: string
  aus_ClaimRef :: "NamespacedObjectReference option"
  aus_ClaimUID :: string
  aus_MountPath :: string
  aus_SeedID :: string
  aus_JobRef :: "NamespacedObjectReference option"
  aus_JobUID :: string
  aus_ActiveConsumerRuns :: "string list"
  aus_StartedAt :: "instant option"
  aus_CompletedAt :: "instant option"
  aus_LastError :: string

record AgentAuthSession =
  session_Meta :: ObjectMeta
  session_Spec :: AgentAuthSessionSpec
  session_Status :: AgentAuthSessionStatus

abbreviation "session_Name s \<equiv> om_Name (session_Meta s)"
abbreviation "session_Namespace s \<equiv> om_Namespace (session_Meta s)"

definition AgentAuthSessionIsTerminal :: "AgentAuthSessionPhase \<Rightarrow> bool" where
  "AgentAuthSessionIsTerminal phase \<longleftrightarrow> phase \<in> {AgentAuthSessionPhaseSucceeded, AgentAuthSessionPhaseFailed}"

datatype AgentDataVolumeCopyPhase =
    AgentDataVolumeCopyPhaseUnset
  | AgentDataVolumeCopyPhasePending
  | AgentDataVolumeCopyPhaseWaitingForIdle
  | AgentDataVolumeCopyPhasePreparingDestination
  | AgentDataVolumeCopyPhaseStreaming
  | AgentDataVolumeCopyPhaseVerifying
  | AgentDataVolumeCopyPhaseSucceeded
  | AgentDataVolumeCopyPhaseFailed
  | AgentDataVolumeCopyPhaseOther string

record AgentDataVolumeCopyDestination =
  cd_Name :: string
  cd_NodeSelector :: strmap
  cd_StorageClassName :: string
  cd_Size :: "Quantity option"
  cd_Backend :: AgentRunHarnessBackendKind
  cd_Notes :: string

record AgentDataVolumeCopySpec =
  cp_SourceRef :: LocalObjectReference
  cp_Destination :: AgentDataVolumeCopyDestination
  cp_Method :: string
  cp_AllowNonEmptyDestination :: bool
  cp_Verify :: "bool option"
  cp_TimeoutSeconds :: int

record AgentDataVolumeCopyStatus =
  cps_ObservedGeneration :: int
  cps_Conditions :: "Condition list"
  cps_Phase :: AgentDataVolumeCopyPhase
  cps_SourceRef :: "NamespacedObjectReference option"
  cps_SourceUID :: string
  cps_SourceClaimRef :: "NamespacedObjectReference option"
  cps_SourceClaimUID :: string
  cps_SourceNode :: string
  cps_DestinationRef :: "NamespacedObjectReference option"
  cps_DestinationUID :: string
  cps_DestinationClaimRef :: "NamespacedObjectReference option"
  cps_DestinationClaimUID :: string
  cps_DestinationNode :: string
  cps_SourceJobRef :: "NamespacedObjectReference option"
  cps_SourceJobUID :: string
  cps_DestinationJobRef :: "NamespacedObjectReference option"
  cps_DestinationJobUID :: string
  cps_ServiceRef :: "NamespacedObjectReference option"
  cps_ActiveConsumerRuns :: "string list"
  cps_StartedAt :: "instant option"
  cps_CompletedAt :: "instant option"
  cps_LastError :: string

record AgentDataVolumeCopy =
  copy_Meta :: ObjectMeta
  copy_Spec :: AgentDataVolumeCopySpec
  copy_Status :: AgentDataVolumeCopyStatus

abbreviation "copy_Name c \<equiv> om_Name (copy_Meta c)"
abbreviation "copy_Namespace c \<equiv> om_Namespace (copy_Meta c)"

definition AgentDataVolumeCopyIsTerminal :: "AgentDataVolumeCopyPhase \<Rightarrow> bool" where
  "AgentDataVolumeCopyIsTerminal phase \<longleftrightarrow> phase \<in> {AgentDataVolumeCopyPhaseSucceeded, AgentDataVolumeCopyPhaseFailed}"

definition AgentDataVolumeCopyVerifyEnabled :: "AgentDataVolumeCopySpec \<Rightarrow> bool" where
  "AgentDataVolumeCopyVerifyEnabled spec = (case cp_Verify spec of None \<Rightarrow> True | Some b \<Rightarrow> b)"

subsection \<open>Kubernetes objects\<close>

record PersistentVolumeClaim =
  pvc_Meta :: ObjectMeta
  pvc_AccessModes :: "string list"
  pvc_StorageClassName :: "string option"
  pvc_Request :: Quantity
  pvc_VolumeName :: string
  pvc_Selector :: "opaque option"
  pvc_DataSource :: "opaque option"
  pvc_DataSourceRef :: "opaque option"
  pvc_VolumeMode :: "string option"
  pvc_Phase :: string
  pvc_Capacity :: "Quantity option"

abbreviation "pvc_Name p \<equiv> om_Name (pvc_Meta p)"
abbreviation "pvc_Namespace p \<equiv> om_Namespace (pvc_Meta p)"
abbreviation "pvc_UID p \<equiv> om_UID (pvc_Meta p)"

record NodeSelectorRequirement =
  nsr_Key :: string
  nsr_Values :: "string list"

record NodeSelectorTerm =
  nst_MatchExpressions :: "NodeSelectorRequirement list"
  nst_MatchFields :: "NodeSelectorRequirement list"

text \<open>A persistent volume: the terms of its required node affinity, if it has one.\<close>

record PersistentVolume =
  persist_Terms :: "NodeSelectorTerm list option"

record Secret =
  secret_Meta :: ObjectMeta
  secret_Data :: strmap
  secret_Type :: string

record Service =
  svc_Meta :: ObjectMeta
  svc_Selector :: strmap
  svc_Ports :: "(string \<times> int \<times> int \<times> string) list"

record ContainerStatus =
  cst_Name :: string
  cst_Waiting :: "(string \<times> string) option"
  cst_Terminated :: "(string \<times> string) option"

record Pod =
  pod_Meta :: ObjectMeta
  pod_NodeName :: string
  pod_InitContainerStatuses :: "ContainerStatus list"
  pod_ContainerStatuses :: "ContainerStatus list"

abbreviation "pod_Name p \<equiv> om_Name (pod_Meta p)"
abbreviation "pod_Namespace p \<equiv> om_Namespace (pod_Meta p)"
abbreviation "pod_UID p \<equiv> om_UID (pod_Meta p)"

text \<open>
  The parts of an \<^verbatim>\<open>ExternalSecret\<close> the preflight reads from the untyped object: the entries of
  \<^verbatim>\<open>status.conditions\<close> that are objects, as type, status and message if it is a string, and the
  string values of \<^verbatim>\<open>status.refreshTime\<close>, \<^verbatim>\<open>status.binding.name\<close> and \<^verbatim>\<open>spec.target.name\<close>.
\<close>

record ExternalSecret =
  xs_Meta :: ObjectMeta
  xs_Conditions :: "(string \<times> string \<times> string option) list"
  xs_RefreshTime :: "string option"
  xs_BindingName :: "string option"
  xs_TargetName :: "string option"

end
