(* ===== verification/SituationTypes.thy ===== *)
theory SituationTypes
  imports ApiTypes
begin

text \<open>
  The objects of the adverse streams (\<^verbatim>\<open>adverse_situation_types.go\<close>, \<^verbatim>\<open>adverse_signal_types.go\<close>): an
  \<open>AdverseSituation\<close> buffers adverse events of its group and may start one responder run, an
  \<open>AdverseSignal\<close> is one immutable report to a situation.
\<close>

datatype AdverseSituationPhase =
    AdverseSituationPhaseUnset
  | AdverseSituationPhasePending
  | AdverseSituationPhaseOpen
  | AdverseSituationPhaseQuieting
  | AdverseSituationPhaseResolved
  | AdverseSituationPhaseOther string

record AdverseSituationBufferSpec =
  buf_QuietPeriodSeconds :: int
  buf_DedupeWindowSeconds :: int
  buf_PullRequestQuietPeriodSeconds :: int
  buf_MaxEvents :: int

record AdverseSituationAgentRunResponderSpec =
  rsp_Enabled :: "bool option"
  rsp_ProfileRef :: "NamespacedObjectReference option"
  rsp_HarnessProfileRef :: "NamespacedObjectReference option"
  rsp_SkillSets :: "AgentSkillCompositionSpec option"
  rsp_ToolSets :: "AgentToolCompositionSpec option"
  rsp_Prompt :: string
  rsp_Harness :: AgentRunHarnessSpec
  rsp_Scope :: AgentRunScopeSpec
  rsp_Docs :: "AgentRunDocsSpec option"
  rsp_IssueTracking :: "AgentRunIssueTrackingSpec option"
  rsp_Notifications :: "AgentRunNotificationSpec option"

record AdverseSituationSpec =
  sit_GroupKey :: string
  sit_Buffer :: AdverseSituationBufferSpec
  sit_AgentRun :: "AdverseSituationAgentRunResponderSpec option"

text \<open>\<open>sit_AgentRun\<close> is \<^verbatim>\<open>spec.responders.agentRun\<close>, the only responder.\<close>

record AdverseSituationEvent =
  ev_ID :: string
  ev_ReportIDs :: "string list"
  ev_SignalRef :: "NamespacedObjectReference option"
  ev_SourceRef :: AgentRunSourceRef
  ev_SourceUID :: string
  ev_SourceURL :: string
  ev_SourceGeneration :: int
  ev_Phase :: string
  ev_ConditionType :: string
  ev_ConditionStatus :: string
  ev_Reason :: string
  ev_Message :: string
  ev_ResourceVersion :: string
  ev_ObservedAt :: "instant option"
  ev_FirstSeenAt :: "instant option"
  ev_LastSeenAt :: "instant option"
  ev_Count :: int

record AdverseSituationStatus =
  sits_ObservedGeneration :: int
  sits_Conditions :: "Condition list"
  sits_Phase :: AdverseSituationPhase
  sits_Sequence :: int
  sits_Events :: "AdverseSituationEvent list"
  sits_EventCount :: int
  sits_DuplicateCount :: int
  sits_LastEventAt :: "instant option"
  sits_QuietUntil :: "instant option"
  sits_ResolvedAt :: "instant option"
  sits_PullRequestObservedAt :: "instant option"
  sits_PullRequestQuietUntil :: "instant option"
  sits_ActiveResponderRef :: "NamespacedObjectReference option"
  sits_ActiveResponderUID :: string
  sits_ActiveResponderDigest :: string
  sits_PullRequestURL :: string
  sits_Summary :: string

record AdverseSituation =
  situation_Meta :: ObjectMeta
  situation_Spec :: AdverseSituationSpec
  situation_Status :: AdverseSituationStatus

abbreviation "situation_Name s \<equiv> om_Name (situation_Meta s)"
abbreviation "situation_Namespace s \<equiv> om_Namespace (situation_Meta s)"

datatype AdverseSignalPhase =
    AdverseSignalPhaseUnset
  | AdverseSignalPhasePending
  | AdverseSignalPhaseAccepted
  | AdverseSignalPhaseRejected
  | AdverseSignalPhaseOther string

record AdverseSignalTriggerSpec =
  st_Phase :: string
  st_ConditionType :: string
  st_ConditionStatus :: string
  st_Reason :: string
  st_Message :: string
  st_ObservedGeneration :: int
  st_ResourceVersion :: string
  st_ObservedAt :: "instant option"

record AdverseSignalSpec =
  sg_SituationRef :: LocalObjectReference
  sg_SourceRef :: AgentRunSourceRef
  sg_SourceUID :: string
  sg_SourceURL :: string
  sg_DedupeKey :: string
  sg_Trigger :: AdverseSignalTriggerSpec

record AdverseSignalStatus =
  sgs_ObservedGeneration :: int
  sgs_Conditions :: "Condition list"
  sgs_Phase :: AdverseSignalPhase
  sgs_SituationRef :: "NamespacedObjectReference option"
  sgs_SituationUID :: string
  sgs_EventID :: string
  sgs_SituationSequence :: int
  sgs_AcceptedAt :: "instant option"

record AdverseSignal =
  signal_Meta :: ObjectMeta
  signal_Spec :: AdverseSignalSpec
  signal_Status :: AdverseSignalStatus

abbreviation "signal_Name s \<equiv> om_Name (signal_Meta s)"
abbreviation "signal_Namespace s \<equiv> om_Namespace (signal_Meta s)"

end
