(* ===== verification/Substrate.thy ===== *)
theory Substrate
  imports RunBackend Runes
begin

text \<open>
  The actor plane of \<^verbatim>\<open>internal/substrate\<close>: the lifecycle interface (\<^verbatim>\<open>substrate.go\<close>), actor names
  (\<^verbatim>\<open>naming.go\<close>), binding a turn to its actor (\<^verbatim>\<open>dispatch.go\<close>), the gate (\<^verbatim>\<open>gate.go\<close>), the in-memory
  client (\<^verbatim>\<open>fake.go\<close>) and the client of the ATE service (\<^verbatim>\<open>live.go\<close>). A client is a record of
  functions over its state; the ATE service behind the live client is a parameter. Calls are made
  with a context that is not cancelled; \<open>ToLower\<close> maps the ASCII letters. The locale \<open>actor_plane\<close> states what the code expects of a
  client; the in-memory client satisfies it.
\<close>

subsection \<open>The lifecycle interface\<close>

datatype ActorState = ActorStateActive | ActorStateSuspended | ActorStatePaused

fun actor_state_text :: "ActorState \<Rightarrow> string" where
  "actor_state_text ActorStateActive = ''Active''"
| "actor_state_text ActorStateSuspended = ''Suspended''"
| "actor_state_text ActorStatePaused = ''Paused''"

record ActorSpec =
  as_Namespace :: string
  as_Name :: string
  as_HarnessKind :: string
  as_ActorClass :: string
  as_Pool :: string
  as_Labels :: strmap

record ActorHandle =
  ah_Namespace :: string
  ah_Name :: string
  ah_ID :: string
  ah_State :: ActorState
  ah_Resumes :: int

datatype actor_error = ErrActorNotFound string | ActorFailure go_error

record 's actor_client =
  ac_CreateActor :: "'s \<Rightarrow> ActorSpec \<Rightarrow> (actor_error + ActorHandle) \<times> 's"
  ac_ResumeActor :: "'s \<Rightarrow> string \<Rightarrow> string \<Rightarrow> (actor_error + ActorHandle) \<times> 's"
  ac_SuspendActor :: "'s \<Rightarrow> string \<Rightarrow> string \<Rightarrow> (actor_error + ActorHandle) \<times> 's"
  ac_PauseActor :: "'s \<Rightarrow> string \<Rightarrow> string \<Rightarrow> (actor_error + ActorHandle) \<times> 's"
  ac_DescribeActor :: "'s \<Rightarrow> string \<Rightarrow> string \<Rightarrow> (actor_error + ActorHandle) \<times> 's"

definition ValidateSpec :: "ActorSpec \<Rightarrow> go_error option" where
  "ValidateSpec spec =
     (if TrimSpace (as_Namespace spec) = [] then Some (Errorf ''substrate actor namespace is required'')
      else if TrimSpace (as_Name spec) = [] then Some (Errorf ''substrate actor name is required'')
      else if inner_blank (as_ActorClass spec) then
        Some (Errorf ''substrate actor class must not contain surrounding or inner whitespace'')
      else if inner_blank (as_Pool spec) then
        Some (Errorf ''substrate actor pool must not contain surrounding or inner whitespace'')
      else None)"

definition ActorKey :: "string \<Rightarrow> string \<Rightarrow> string" where
  "ActorKey namespace name = TrimSpace namespace @ ''/'' @ TrimSpace name"

subsection \<open>Names\<close>

definition actorNamePrefix :: string where "actorNamePrefix = ''chat-''"
definition maxActorNameLen :: nat where "maxActorNameLen = 253"

definition actor_name_char :: "char \<Rightarrow> bool" where
  "actor_name_char c \<longleftrightarrow> byte_in 97 122 c \<or> byte_in 48 57 c \<or> c = CHR ''-'' \<or> c = CHR ''.''"

definition sanitizeActorNameSegment :: "string \<Rightarrow> string" where
  "sanitizeActorNameSegment raw =
     TrimSet (map (\<lambda>r. case r of [c] \<Rightarrow> if actor_name_char c then c else CHR ''-'' | _ \<Rightarrow> CHR ''-'') (runes raw)) ''-.''"

definition ActorNameForThread :: "string \<Rightarrow> string" where
  "ActorNameForThread threadID =
     (let sanitized = sanitizeActorNameSegment (ToLower (TrimSpace threadID));
          sanitized = (if sanitized = [] then ''unknown'' else sanitized);
          name = actorNamePrefix @ sanitized in
      if length name \<le> maxActorNameLen then name
      else (let suffix = take 12 (EncodeToString (Sum256 threadID));
                keep = maxActorNameLen - length actorNamePrefix - length suffix - 1 in
            actorNamePrefix @ take keep sanitized @ ''-'' @ suffix))"

definition ThreadIDForRun :: "string \<Rightarrow> string \<Rightarrow> string \<Rightarrow> string" where
  "ThreadIDForRun sourceKind sourceName runName =
     (if TrimSpace sourceKind = ''ChatThread'' \<and> TrimSpace sourceName \<noteq> [] then TrimSpace sourceName
      else TrimSpace runName)"

definition ActorSpecForRun :: "string \<Rightarrow> string \<Rightarrow> string \<Rightarrow> string \<Rightarrow> string \<Rightarrow> strmap \<Rightarrow> ActorSpec" where
  "ActorSpecForRun namespace actorName harnessKind actorClass pool extraLabels =
     \<lparr>as_Namespace = TrimSpace namespace, as_Name = TrimSpace actorName, as_HarnessKind = TrimSpace harnessKind,
      as_ActorClass = TrimSpace actorClass, as_Pool = TrimSpace pool,
      as_Labels = filter (\<lambda>(key, v). TrimSpace key \<noteq> []) extraLabels\<rparr>"

definition ShouldSuspendOnIdle :: "bool option \<Rightarrow> bool" where
  "ShouldSuspendOnIdle suspendOnIdle = (case suspendOnIdle of None \<Rightarrow> True | Some b \<Rightarrow> b)"

subsection \<open>The gate\<close>

fun class_list_loop :: "string list \<Rightarrow> string list \<Rightarrow> string list" where
  "class_list_loop out [] = out"
| "class_list_loop out (part # parts) =
     (let part = TrimSpace part in
      if part = [] \<or> part \<in> set out then class_list_loop out parts else class_list_loop (out @ [part]) parts)"

definition ParseActorClassList :: "string \<Rightarrow> string list" where
  "ParseActorClassList raw = class_list_loop [] (Split raw (CHR '',''))"

record GateConfig =
  gate_Enabled :: bool
  gate_Endpoint :: string
  gate_Token :: string
  gate_TokenFile :: string
  gate_Atespace :: string
  gate_Template :: string
  gate_Insecure :: bool
  gate_CAFile :: string
  gate_CAConfigMapName :: string
  gate_CAConfigMapNamespace :: string
  gate_CAConfigMapKey :: string
  gate_TLSServerName :: string
  gate_GenerateOnActor :: bool
  gate_GenerateActorClasses :: "string list"
  gate_AtenetEndpoint :: string

definition gateBoolEnv :: "(string \<Rightarrow> string) \<Rightarrow> string \<Rightarrow> bool" where
  "gateBoolEnv getenv name =
     (let raw = ToLower (TrimSpace (getenv name)) in
      if raw = [] then False
      else (case ParseBool raw of Some enabled \<Rightarrow> enabled | None \<Rightarrow> raw = ''on'' \<or> raw = ''yes''))"

definition GateConfigFromEnv :: "(string \<Rightarrow> string) \<Rightarrow> GateConfig" where
  "GateConfigFromEnv getenv =
     \<lparr>gate_Enabled = gateBoolEnv getenv ''ANVIL_AGENTS_SUBSTRATE_ACTORS_ENABLED'',
      gate_Endpoint = TrimSpace (getenv ''ANVIL_AGENTS_SUBSTRATE_ENDPOINT''),
      gate_Token = TrimSpace (getenv ''ANVIL_AGENTS_SUBSTRATE_TOKEN''),
      gate_TokenFile = TrimSpace (getenv ''ANVIL_AGENTS_SUBSTRATE_TOKEN_FILE''),
      gate_Atespace = TrimSpace (getenv ''ANVIL_AGENTS_SUBSTRATE_ATESPACE''),
      gate_Template = TrimSpace (getenv ''ANVIL_AGENTS_SUBSTRATE_TEMPLATE''),
      gate_Insecure = gateBoolEnv getenv ''ANVIL_AGENTS_SUBSTRATE_INSECURE'',
      gate_CAFile = TrimSpace (getenv ''ANVIL_AGENTS_SUBSTRATE_CA_FILE''),
      gate_CAConfigMapName = TrimSpace (getenv ''ANVIL_AGENTS_SUBSTRATE_CA_CONFIGMAP''),
      gate_CAConfigMapNamespace = TrimSpace (getenv ''ANVIL_AGENTS_SUBSTRATE_CA_CONFIGMAP_NAMESPACE''),
      gate_CAConfigMapKey = TrimSpace (getenv ''ANVIL_AGENTS_SUBSTRATE_CA_CONFIGMAP_KEY''),
      gate_TLSServerName = TrimSpace (getenv ''ANVIL_AGENTS_SUBSTRATE_TLS_SERVER_NAME''),
      gate_GenerateOnActor = gateBoolEnv getenv ''ANVIL_AGENTS_SUBSTRATE_GENERATE_ON_ACTOR'',
      gate_GenerateActorClasses = ParseActorClassList (getenv ''ANVIL_AGENTS_SUBSTRATE_GENERATE_ACTOR_CLASSES''),
      gate_AtenetEndpoint = TrimSpace (getenv ''ANVIL_AGENTS_SUBSTRATE_ATENET_ENDPOINT'')\<rparr>"

definition LiveEnabled :: "GateConfig \<Rightarrow> bool" where
  "LiveEnabled g \<longleftrightarrow> gate_Enabled g \<and> TrimSpace (gate_Endpoint g) \<noteq> []"

definition GenerateForClass :: "GateConfig \<Rightarrow> string \<Rightarrow> bool" where
  "GenerateForClass g actorClass = GenerateEnabled (gate_GenerateOnActor g) (gate_GenerateActorClasses g) actorClass"

subsection \<open>Binding a turn\<close>

definition create_cold :: "'s actor_client \<Rightarrow> 's \<Rightarrow> ActorSpec \<Rightarrow> (actor_error + ActorHandle \<times> bool) \<times> 's" where
  "create_cold client s spec =
     (case ac_CreateActor client s spec of
        (Inl e, s) \<Rightarrow> (Inl e, s)
      | (Inr created, s) \<Rightarrow> (Inr (created, False), s))"

definition EnsureTurnActor :: "'s actor_client \<Rightarrow> 's \<Rightarrow> ActorSpec \<Rightarrow> (actor_error + ActorHandle \<times> bool) \<times> 's" where
  "EnsureTurnActor client s spec =
     (case ValidateSpec spec of
        Some e \<Rightarrow> (Inl (ActorFailure e), s)
      | None \<Rightarrow>
          (case ac_DescribeActor client s (as_Namespace spec) (as_Name spec) of
             (Inr described, s) \<Rightarrow>
               (case ac_ResumeActor client s (as_Namespace spec) (as_Name spec) of
                  (Inr resumed, s) \<Rightarrow> (Inr (resumed, True), s)
                | (Inl (ErrActorNotFound m), s) \<Rightarrow> create_cold client s spec
                | (Inl e, s) \<Rightarrow> (Inl e, s))
           | (Inl (ErrActorNotFound m), s) \<Rightarrow> create_cold client s spec
           | (Inl e, s) \<Rightarrow> (Inl e, s)))"

definition SuspendIdleActor :: "'s actor_client \<Rightarrow> 's \<Rightarrow> string \<Rightarrow> string \<Rightarrow> bool option \<Rightarrow> (actor_error + bool) \<times> 's" where
  "SuspendIdleActor client s namespace name suspendOnIdle =
     (if \<not> ShouldSuspendOnIdle suspendOnIdle then (Inr False, s)
      else (case ac_SuspendActor client s namespace name of
              (Inr h, s) \<Rightarrow> (Inr True, s)
            | (Inl (ErrActorNotFound m), s) \<Rightarrow> (Inr False, s)
            | (Inl e, s) \<Rightarrow> (Inl e, s)))"

subsection \<open>The in-memory client\<close>

record fakeActor =
  fa_spec :: ActorSpec
  fa_handle :: ActorHandle
  fa_created :: int

record FakeClient =
  fc_actors :: "(string \<times> fakeActor) list"
  fc_Calls :: "string list"

definition NewFakeClient :: FakeClient where
  "NewFakeClient = \<lparr>fc_actors = [], fc_Calls = []\<rparr>"

definition fakeID :: "string \<Rightarrow> string \<Rightarrow> string" where
  "fakeID namespace name = ''fake-'' @ ActorKey namespace name"

definition fake_store :: "FakeClient \<Rightarrow> string \<Rightarrow> fakeActor \<Rightarrow> string \<Rightarrow> FakeClient" where
  "fake_store f key actor call =
     f\<lparr>fc_actors := (key, actor) # filter (\<lambda>(k, a). k \<noteq> key) (fc_actors f), fc_Calls := fc_Calls f @ [call]\<rparr>"

definition fake_CreateActor :: "FakeClient \<Rightarrow> ActorSpec \<Rightarrow> (actor_error + ActorHandle) \<times> FakeClient" where
  "fake_CreateActor f spec =
     (case ValidateSpec spec of
        Some e \<Rightarrow> (Inl (ActorFailure e), f)
      | None \<Rightarrow>
          (let key = ActorKey (as_Namespace spec) (as_Name spec) in
           case map_of (fc_actors f) key of
             Some existing \<Rightarrow>
               (let handle = (fa_handle existing)\<lparr>ah_State := ActorStateActive\<rparr> in
                (Inr handle, fake_store f key (existing\<lparr>fa_handle := handle\<rparr>) (''create-reuse:'' @ key)))
           | None \<Rightarrow>
               (let handle = \<lparr>ah_Namespace = as_Namespace spec, ah_Name = as_Name spec,
                      ah_ID = fakeID (as_Namespace spec) (as_Name spec), ah_State = ActorStateActive, ah_Resumes = 0\<rparr> in
                (Inr handle, fake_store f key \<lparr>fa_spec = spec, fa_handle = handle, fa_created = 1\<rparr> (''create:'' @ key)))))"

definition fake_transition ::
  "string \<Rightarrow> (ActorHandle \<Rightarrow> ActorHandle) \<Rightarrow> FakeClient \<Rightarrow> string \<Rightarrow> string \<Rightarrow> (actor_error + ActorHandle) \<times> FakeClient" where
  "fake_transition call change f namespace name =
     (let key = ActorKey namespace name in
      case map_of (fc_actors f) key of
        None \<Rightarrow> (Inl (ErrActorNotFound key), f)
      | Some actor \<Rightarrow>
          (let handle = change (fa_handle actor) in
           (Inr handle, fake_store f key (actor\<lparr>fa_handle := handle\<rparr>) (call @ key))))"

definition fake_ResumeActor :: "FakeClient \<Rightarrow> string \<Rightarrow> string \<Rightarrow> (actor_error + ActorHandle) \<times> FakeClient" where
  "fake_ResumeActor = fake_transition ''resume:'' (\<lambda>h. h\<lparr>ah_State := ActorStateActive, ah_Resumes := ah_Resumes h + 1\<rparr>)"

definition fake_SuspendActor :: "FakeClient \<Rightarrow> string \<Rightarrow> string \<Rightarrow> (actor_error + ActorHandle) \<times> FakeClient" where
  "fake_SuspendActor = fake_transition ''suspend:'' (\<lambda>h. h\<lparr>ah_State := ActorStateSuspended\<rparr>)"

definition fake_PauseActor :: "FakeClient \<Rightarrow> string \<Rightarrow> string \<Rightarrow> (actor_error + ActorHandle) \<times> FakeClient" where
  "fake_PauseActor = fake_transition ''pause:'' (\<lambda>h. h\<lparr>ah_State := ActorStatePaused\<rparr>)"

definition fake_DescribeActor :: "FakeClient \<Rightarrow> string \<Rightarrow> string \<Rightarrow> (actor_error + ActorHandle) \<times> FakeClient" where
  "fake_DescribeActor f namespace name =
     (let key = ActorKey namespace name in
      case map_of (fc_actors f) key of
        None \<Rightarrow> (Inl (ErrActorNotFound key), f)
      | Some actor \<Rightarrow> (Inr (fa_handle actor), f))"

definition fake_Created :: "FakeClient \<Rightarrow> int" where
  "fake_Created f = int (length (fc_actors f))"

definition fake_client :: "FakeClient actor_client" where
  "fake_client = \<lparr>ac_CreateActor = fake_CreateActor, ac_ResumeActor = fake_ResumeActor, ac_SuspendActor = fake_SuspendActor,
     ac_PauseActor = fake_PauseActor, ac_DescribeActor = fake_DescribeActor\<rparr>"

subsection \<open>The client of the ATE service\<close>

datatype ATEActorState =
    ATEActorStateUnspecified | ATEActorStateResuming | ATEActorStateRunning | ATEActorStateSuspending
  | ATEActorStateSuspended | ATEActorStatePausing | ATEActorStatePaused | ATEActorStateCrashed
  | ATEActorStateDeleting | ATEActorStateReverting | ATEActorStateOther string

record ATEObjectRef =
  ref_Atespace :: string
  ref_Name :: string

record ATEActor =
  ate_Atespace :: string
  ate_Name :: string
  ate_UID :: string
  ate_TemplateAtespace :: string
  ate_TemplateName :: string
  ate_WorkerSelector :: strmap
  ate_State :: ATEActorState

record ATECreateSpec =
  cs_Atespace :: string
  cs_Name :: string
  cs_TemplateAtespace :: string
  cs_TemplateName :: string
  cs_WorkerSelector :: strmap

datatype ATECode = ATECodeNotFound | ATECodeAlreadyExists | ATECodeOther

record ATEError =
  ate_Code :: ATECode
  ate_Err :: string

record 'w ATEControl =
  ctl_GetActor :: "'w \<Rightarrow> ATEObjectRef \<Rightarrow> (ATEError + ATEActor) \<times> 'w"
  ctl_CreateActor :: "'w \<Rightarrow> ATECreateSpec \<Rightarrow> (ATEError + ATEActor) \<times> 'w"
  ctl_ResumeActor :: "'w \<Rightarrow> ATEObjectRef \<Rightarrow> (ATEError + ATEActor \<times> bool) \<times> 'w"
  ctl_SuspendActor :: "'w \<Rightarrow> ATEObjectRef \<Rightarrow> (ATEError + ATEActor) \<times> 'w"
  ctl_PauseActor :: "'w \<Rightarrow> ATEObjectRef \<Rightarrow> (ATEError + ATEActor) \<times> 'w"

record ATEClientConfig =
  ate_Address :: string
  ate_CfgAtespace :: string
  ate_Template :: string
  ate_TokenFile :: string
  ate_Token :: string
  ate_Insecure :: bool
  ate_CAFile :: string
  ate_CAConfigMapName :: string
  ate_CAConfigMapNamespace :: string
  ate_CAConfigMapKey :: string
  ate_TLSServerName :: string

definition ATEClientConfigFromGate :: "GateConfig \<Rightarrow> ATEClientConfig" where
  "ATEClientConfigFromGate gate =
     \<lparr>ate_Address = TrimSpace (gate_Endpoint gate), ate_CfgAtespace = TrimSpace (gate_Atespace gate),
      ate_Template = TrimSpace (gate_Template gate), ate_TokenFile = TrimSpace (gate_TokenFile gate),
      ate_Token = TrimSpace (gate_Token gate), ate_Insecure = gate_Insecure gate, ate_CAFile = TrimSpace (gate_CAFile gate),
      ate_CAConfigMapName = TrimSpace (gate_CAConfigMapName gate),
      ate_CAConfigMapNamespace = TrimSpace (gate_CAConfigMapNamespace gate),
      ate_CAConfigMapKey = TrimSpace (gate_CAConfigMapKey gate), ate_TLSServerName = TrimSpace (gate_TLSServerName gate)\<rparr>"

definition ATEClientConfig_Validate :: "ATEClientConfig \<Rightarrow> go_error option" where
  "ATEClientConfig_Validate c =
     (if ate_Address c = [] then
        Some (Errorf ''substrate ATE address is required (see ANVIL_AGENTS_SUBSTRATE_ENDPOINT)'')
      else if ate_Template c = [] then
        Some (Errorf ''substrate ATE template is required (see ANVIL_AGENTS_SUBSTRATE_TEMPLATE)'')
      else None)"

text \<open>The state of a live client: the resume counts and the service behind it.\<close>

record 'w ATEClient =
  acl_resumes :: "(string \<times> int) list"
  acl_service :: 'w

definition ate_ref :: "ATEClientConfig \<Rightarrow> string \<Rightarrow> string \<Rightarrow> ATEObjectRef" where
  "ate_ref cfg namespace name =
     \<lparr>ref_Atespace = (if ate_CfgAtespace cfg = [] then TrimSpace namespace else ate_CfgAtespace cfg), ref_Name = TrimSpace name\<rparr>"

definition WorkerSelectorPoolLabel :: string where
  "WorkerSelectorPoolLabel = ''anvil.hazyforge.io/worker-pool''"

definition selectorForPool :: "string \<Rightarrow> strmap" where
  "selectorForPool pool = (if TrimSpace pool = [] then [] else [(WorkerSelectorPoolLabel, TrimSpace pool)])"

definition createSpec :: "ATEClientConfig \<Rightarrow> ActorSpec \<Rightarrow> ATECreateSpec" where
  "createSpec cfg spec =
     (let ref = ate_ref cfg (as_Namespace spec) (as_Name spec); template = TrimSpace (as_ActorClass spec);
          template = (if template = [] then ate_Template cfg else template) in
      \<lparr>cs_Atespace = ref_Atespace ref, cs_Name = ref_Name ref, cs_TemplateAtespace = ref_Atespace ref,
       cs_TemplateName = template, cs_WorkerSelector = selectorForPool (as_Pool spec)\<rparr>)"

fun MapATEState :: "ATEActorState \<Rightarrow> ActorState" where
  "MapATEState ATEActorStateRunning = ActorStateActive"
| "MapATEState ATEActorStateResuming = ActorStateActive"
| "MapATEState ATEActorStateSuspended = ActorStateSuspended"
| "MapATEState ATEActorStateSuspending = ActorStateSuspended"
| "MapATEState ATEActorStateCrashed = ActorStateSuspended"
| "MapATEState ATEActorStateReverting = ActorStateSuspended"
| "MapATEState ATEActorStatePaused = ActorStatePaused"
| "MapATEState ATEActorStatePausing = ActorStatePaused"
| "MapATEState _ = ActorStateActive"

definition resume_count :: "(string \<times> int) list \<Rightarrow> string \<Rightarrow> int" where
  "resume_count resumes key = (case map_of resumes key of None \<Rightarrow> 0 | Some n \<Rightarrow> n)"

definition ate_handle :: "'w ATEClient \<Rightarrow> ATEActor \<Rightarrow> ActorHandle" where
  "ate_handle c actor =
     \<lparr>ah_Namespace = ate_Atespace actor, ah_Name = ate_Name actor, ah_ID = ate_UID actor,
      ah_State = MapATEState (ate_State actor),
      ah_Resumes = resume_count (acl_resumes c) (ActorKey (ate_Atespace actor) (ate_Name actor))\<rparr>"

definition noteResumed :: "'w ATEClient \<Rightarrow> ATEActor \<Rightarrow> 'w ATEClient" where
  "noteResumed c actor =
     (let key = ActorKey (ate_Atespace actor) (ate_Name actor) in
      c\<lparr>acl_resumes := (key, resume_count (acl_resumes c) key + 1) # filter (\<lambda>(k, n). k \<noteq> key) (acl_resumes c)\<rparr>)"

definition notFoundAsClient :: "ATEObjectRef \<Rightarrow> ATEError \<Rightarrow> actor_error" where
  "notFoundAsClient ref e =
     (if ate_Code e = ATECodeNotFound then ErrActorNotFound (ref_Atespace ref @ ''/'' @ ref_Name ref)
      else ActorFailure (Errorf (ate_Err e)))"

definition ate_answer ::
  "'w ATEClient \<Rightarrow> ATEObjectRef \<Rightarrow> (ATEError + ATEActor) \<times> 'w \<Rightarrow> (actor_error + ActorHandle) \<times> 'w ATEClient" where
  "ate_answer c ref r =
     (case r of
        (Inl e, w) \<Rightarrow> (Inl (notFoundAsClient ref e), c\<lparr>acl_service := w\<rparr>)
      | (Inr actor, w) \<Rightarrow> (let c = c\<lparr>acl_service := w\<rparr> in (Inr (ate_handle c actor), c)))"

definition ate_resumed ::
  "'w ATEClient \<Rightarrow> ATEObjectRef \<Rightarrow> (ATEError + ATEActor \<times> bool) \<times> 'w \<Rightarrow> (actor_error + ActorHandle) \<times> 'w ATEClient" where
  "ate_resumed c ref r =
     (case r of
        (Inl e, w) \<Rightarrow> (Inl (notFoundAsClient ref e), c\<lparr>acl_service := w\<rparr>)
      | (Inr (actor, resumed), w) \<Rightarrow>
          (let c = c\<lparr>acl_service := w\<rparr>; c = (if resumed then noteResumed c actor else c) in
           (Inr (ate_handle c actor), c)))"

definition maxATEActorNameLen :: nat where "maxATEActorNameLen = 63"

definition ate_CreateActor ::
  "ATEClientConfig \<Rightarrow> 'w ATEControl \<Rightarrow> 'w ATEClient \<Rightarrow> ActorSpec \<Rightarrow> (actor_error + ActorHandle) \<times> 'w ATEClient" where
  "ate_CreateActor cfg control c spec =
     (case ValidateSpec spec of
        Some e \<Rightarrow> (Inl (ActorFailure e), c)
      | None \<Rightarrow>
          if length (TrimSpace (as_Name spec)) > maxATEActorNameLen then
            (Inl (ActorFailure (Errorf (''substrate actor name '' @ Quote (TrimSpace (as_Name spec)) @
              '' exceeds the ATE short-name bound of 63 characters''))), c)
          else
            (let create = createSpec cfg spec; ref = \<lparr>ref_Atespace = cs_Atespace create, ref_Name = cs_Name create\<rparr> in
             case ctl_GetActor control (acl_service c) ref of
               (Inr existing, w) \<Rightarrow> (let c = c\<lparr>acl_service := w\<rparr> in (Inr (ate_handle c existing), c))
             | (Inl e, w) \<Rightarrow>
                 if ate_Code e \<noteq> ATECodeNotFound then (Inl (ActorFailure (Errorf (ate_Err e))), c\<lparr>acl_service := w\<rparr>)
                 else (case ctl_CreateActor control w create of
                   (Inl e, w) \<Rightarrow>
                     if ate_Code e = ATECodeAlreadyExists then ate_answer c ref (ctl_GetActor control w ref)
                     else (Inl (ActorFailure (Errorf (ate_Err e))), c\<lparr>acl_service := w\<rparr>)
                 | (Inr created, w) \<Rightarrow>
                     if MapATEState (ate_State created) = ActorStateActive
                     then (let c = c\<lparr>acl_service := w\<rparr> in (Inr (ate_handle c created), c))
                     else ate_resumed c ref (ctl_ResumeActor control w ref))))"

definition ate_client :: "ATEClientConfig \<Rightarrow> 'w ATEControl \<Rightarrow> 'w ATEClient actor_client" where
  "ate_client cfg control = \<lparr>
     ac_CreateActor = ate_CreateActor cfg control,
     ac_ResumeActor = (\<lambda>c namespace name. let ref = ate_ref cfg namespace name in
       ate_resumed c ref (ctl_ResumeActor control (acl_service c) ref)),
     ac_SuspendActor = (\<lambda>c namespace name. let ref = ate_ref cfg namespace name in
       ate_answer c ref (ctl_SuspendActor control (acl_service c) ref)),
     ac_PauseActor = (\<lambda>c namespace name. let ref = ate_ref cfg namespace name in
       ate_answer c ref (ctl_PauseActor control (acl_service c) ref)),
     ac_DescribeActor = (\<lambda>c namespace name. let ref = ate_ref cfg namespace name in
       ate_answer c ref (ctl_GetActor control (acl_service c) ref))\<rparr>"

subsection \<open>A busy recipient\<close>

text \<open>
  \<^verbatim>\<open>busy_wait.go\<close>, one call at a time: \<open>br_wait\<close> says that the channel of the recipient is closed. A
  waiter that would block is \<open>None\<close>. \<open>counting_client\<close> is the wrapper that counts creates.
\<close>

record BusyRecipient =
  br_spec :: ActorSpec
  br_handle :: "ActorHandle option"
  br_busy :: bool
  br_wait :: bool

definition NewBusyRecipient :: "ActorSpec \<Rightarrow> BusyRecipient" where
  "NewBusyRecipient spec = \<lparr>br_spec = spec, br_handle = None, br_busy = False, br_wait = True\<rparr>"

definition Occupy ::
  "'s actor_client \<Rightarrow> BusyRecipient \<Rightarrow> 's \<Rightarrow> (actor_error + ActorHandle \<times> bool) \<times> BusyRecipient \<times> 's" where
  "Occupy client b s =
     (if br_busy b then
        (Inl (ActorFailure (Errorf (''substrate busy recipient '' @ ActorKey (as_Namespace (br_spec b)) (as_Name (br_spec b)) @
          '' is already occupied''))), b, s)
      else (case EnsureTurnActor client s (br_spec b) of
              (Inl e, s) \<Rightarrow> (Inl e, b, s)
            | (Inr (handle, warm), s) \<Rightarrow>
                (Inr (handle, warm), b\<lparr>br_handle := Some handle, br_busy := True, br_wait := False\<rparr>, s)))"

definition Release :: "'s actor_client \<Rightarrow> BusyRecipient \<Rightarrow> 's \<Rightarrow> actor_error option \<times> BusyRecipient \<times> 's" where
  "Release client b s =
     (if \<not> br_busy b then (None, b, s)
      else (case SuspendIdleActor client s (as_Namespace (br_spec b)) (as_Name (br_spec b)) None of
              (r, s) \<Rightarrow> ((case r of Inl e \<Rightarrow> Some e | Inr _ \<Rightarrow> None), b\<lparr>br_busy := False, br_wait := True\<rparr>, s)))"

definition handle_id :: "ActorHandle option \<Rightarrow> string" where
  "handle_id h = (case h of None \<Rightarrow> [] | Some h \<Rightarrow> ah_ID h)"

definition WaitThenEnsure ::
  "'s actor_client \<Rightarrow> BusyRecipient \<Rightarrow> 's \<Rightarrow> ((actor_error + ActorHandle \<times> bool) \<times> BusyRecipient \<times> 's) option" where
  "WaitThenEnsure client b s =
     (if \<not> br_wait b then None
      else Some (case EnsureTurnActor client s (br_spec b) of
              (Inl e, s) \<Rightarrow> (Inl e, b, s)
            | (Inr (handle, warm), s) \<Rightarrow>
                if handle_id (br_handle b) \<noteq> [] \<and> ah_ID handle \<noteq> handle_id (br_handle b) then
                  (Inl (ActorFailure (Errorf (''busy-wait resume identity '' @ Quote (ah_ID handle) @ '' != occupied '' @
                    Quote (handle_id (br_handle b))))), b, s)
                else (Inr (handle, warm), b\<lparr>br_handle := Some handle\<rparr>, s)))"

definition counting_client :: "'s actor_client \<Rightarrow> ('s \<times> int) actor_client" where
  "counting_client client =
     (let pass = (\<lambda>call (s, n) namespace name. case call s namespace name of (r, s) \<Rightarrow> (r, (s, n))) in
      \<lparr>ac_CreateActor = (\<lambda>(s, n) spec. case ac_CreateActor client s spec of
          (Inl e, s) \<Rightarrow> (Inl e, (s, n))
        | (Inr handle, s) \<Rightarrow> (Inr handle, (s, n + 1))),
       ac_ResumeActor = pass (ac_ResumeActor client), ac_SuspendActor = pass (ac_SuspendActor client),
       ac_PauseActor = pass (ac_PauseActor client), ac_DescribeActor = pass (ac_DescribeActor client)\<rparr>)"

subsection \<open>What a turn relies on\<close>

text \<open>
  The contract of a lifecycle client. \<open>actors\<close> gives the actors of a state by key: describing does
  not change them, resuming and suspending an actor keep its identity and touch no other, and
  creating makes the actor or reuses the one of that name, active in both cases.
\<close>

locale actor_plane =
  fixes client :: "'s actor_client"
    and actors :: "'s \<Rightarrow> string \<Rightarrow> ActorHandle option"
  assumes describe: "\<And>s ns n. ac_DescribeActor client s ns n =
      ((case actors s (ActorKey ns n) of None \<Rightarrow> Inl (ErrActorNotFound (ActorKey ns n)) | Some h \<Rightarrow> Inr h), s)"
    and resume_known: "\<And>s ns n h. actors s (ActorKey ns n) = Some h \<Longrightarrow>
      \<exists>h' s'. ac_ResumeActor client s ns n = (Inr h', s') \<and> ah_ID h' = ah_ID h \<and> ah_State h' = ActorStateActive \<and>
        actors s' = (actors s)(ActorKey ns n \<mapsto> h')"
    and suspend_known: "\<And>s ns n h. actors s (ActorKey ns n) = Some h \<Longrightarrow>
      \<exists>h' s'. ac_SuspendActor client s ns n = (Inr h', s') \<and> ah_ID h' = ah_ID h \<and> ah_State h' = ActorStateSuspended \<and>
        actors s' = (actors s)(ActorKey ns n \<mapsto> h')"
    and suspend_unknown: "\<And>s ns n. actors s (ActorKey ns n) = None \<Longrightarrow>
      ac_SuspendActor client s ns n = (Inl (ErrActorNotFound (ActorKey ns n)), s)"
    and create: "\<And>s spec. ValidateSpec spec = None \<Longrightarrow>
      \<exists>h s'. ac_CreateActor client s spec = (Inr h, s') \<and> ah_State h = ActorStateActive \<and>
        actors s' = (actors s)(ActorKey (as_Namespace spec) (as_Name spec) \<mapsto> h) \<and>
        (\<forall>old. actors s (ActorKey (as_Namespace spec) (as_Name spec)) = Some old \<longrightarrow> ah_ID h = ah_ID old)"
begin

text \<open>Binding resumes the actor of the name if there is one and otherwise makes it, and touches no
  other actor.\<close>

lemma ensure_binds:
  assumes "ValidateSpec spec = None"
  defines "key \<equiv> ActorKey (as_Namespace spec) (as_Name spec)"
  shows "\<exists>h s'. EnsureTurnActor client s spec = (Inr (h, actors s key \<noteq> None), s') \<and> ah_State h = ActorStateActive \<and>
    actors s' = (actors s)(key \<mapsto> h) \<and> (\<forall>old. actors s key = Some old \<longrightarrow> ah_ID h = ah_ID old)"
proof (cases "actors s key")
  case None
  obtain h s' where "ac_CreateActor client s spec = (Inr h, s')" "ah_State h = ActorStateActive"
      "actors s' = (actors s)(key \<mapsto> h)"
    using create [OF assms(1)] unfolding key_def by blast
  then show ?thesis
    using None assms(1) describe unfolding EnsureTurnActor_def create_cold_def key_def by auto
next
  case (Some old)
  obtain h s' where "ac_ResumeActor client s (as_Namespace spec) (as_Name spec) = (Inr h, s')" "ah_ID h = ah_ID old"
      "ah_State h = ActorStateActive" "actors s' = (actors s)(key \<mapsto> h)"
    using resume_known Some unfolding key_def by blast
  then show ?thesis
    using Some assms(1) describe unfolding EnsureTurnActor_def key_def by auto
qed

lemma suspend_keeps:
  "\<exists>r s'. SuspendIdleActor client s ns n b = (Inr r, s') \<and> dom (actors s') = dom (actors s) \<and>
    (\<forall>key h. actors s key = Some h \<longrightarrow> (\<exists>h'. actors s' key = Some h' \<and> ah_ID h' = ah_ID h))"
proof (cases "ShouldSuspendOnIdle b")
  case False
  then show ?thesis unfolding SuspendIdleActor_def by auto
next
  case should: True
  show ?thesis
  proof (cases "actors s (ActorKey ns n)")
    case None
    then show ?thesis using suspend_unknown should unfolding SuspendIdleActor_def by auto
  next
    case (Some h)
    obtain h' s' where "ac_SuspendActor client s ns n = (Inr h', s')" "ah_ID h' = ah_ID h"
        "actors s' = (actors s)(ActorKey ns n \<mapsto> h')"
      using suspend_known Some by blast
    then show ?thesis using should Some unfolding SuspendIdleActor_def by auto
  qed
qed

text \<open>A wrapped client is a client, and its count moves only when an actor is missing.\<close>

lemma counting_ensure:
  assumes "EnsureTurnActor client s spec = (r, s')"
  shows "\<exists>m. EnsureTurnActor (counting_client client) (s, n) spec = (r, (s', m)) \<and> n \<le> m \<and> m \<le> n + 1 \<and>
    (actors s (ActorKey (as_Namespace spec) (as_Name spec)) \<noteq> None \<longrightarrow> m = n)"
proof (cases "actors s (ActorKey (as_Namespace spec) (as_Name spec))")
  case None
  then show ?thesis
    using assms describe unfolding EnsureTurnActor_def create_cold_def counting_client_def Let_def
    by (auto split: option.splits sum.splits prod.splits)
next
  case (Some old)
  obtain h t where "ac_ResumeActor client s (as_Namespace spec) (as_Name spec) = (Inr h, t)"
    using resume_known Some by blast
  then show ?thesis
    using assms Some describe unfolding EnsureTurnActor_def create_cold_def counting_client_def Let_def
    by (auto split: option.splits)
qed

lemma counting_suspend:
  "SuspendIdleActor (counting_client client) (s, n) ns m b =
     (case SuspendIdleActor client s ns m b of (r, s') \<Rightarrow> (r, (s', n)))"
  unfolding SuspendIdleActor_def counting_client_def Let_def
  by (auto split: sum.splits prod.splits actor_error.splits)

text \<open>Occupying, releasing and waiting: the waiter resumes the actor that was occupied, and at most
  one actor was created on the way.\<close>

lemma busy_cycle:
  assumes valid: "ValidateSpec (br_spec b) = None" and free: "\<not> br_busy b"
  shows "\<exists>h warm b1 s1 b2 s2 h' b3 s3 m.
    Occupy (counting_client client) b (s, n) = (Inr (h, warm), b1, s1) \<and> ah_State h = ActorStateActive \<and>
    WaitThenEnsure (counting_client client) b1 s1 = None \<and>
    Release (counting_client client) b1 s1 = (None, b2, s2) \<and>
    WaitThenEnsure (counting_client client) b2 s2 = Some (Inr (h', True), b3, (s3, m)) \<and>
    ah_ID h' = ah_ID h \<and> ah_State h' = ActorStateActive \<and> m \<le> n + 1 \<and> (warm \<longrightarrow> m = n)"
proof -
  define key where "key = ActorKey (as_Namespace (br_spec b)) (as_Name (br_spec b))"
  obtain h t where e1: "EnsureTurnActor client s (br_spec b) = (Inr (h, actors s key \<noteq> None), t)" "ah_State h = ActorStateActive"
      "actors t = (actors s)(key \<mapsto> h)"
    using ensure_binds [OF valid, of s] unfolding key_def by blast
  obtain k where k: "EnsureTurnActor (counting_client client) (s, n) (br_spec b) = (Inr (h, actors s key \<noteq> None), (t, k))"
      "k \<le> n + 1" "actors s key \<noteq> None \<longrightarrow> k = n"
    using counting_ensure [OF e1(1), of n] unfolding key_def by blast
  obtain hs t' where sus: "ac_SuspendActor client t (as_Namespace (br_spec b)) (as_Name (br_spec b)) = (Inr hs, t')"
      "ah_ID hs = ah_ID h" "actors t' = (actors t)(key \<mapsto> hs)"
    using suspend_known [of t "as_Namespace (br_spec b)" "as_Name (br_spec b)" h] e1(3) unfolding key_def by auto
  have sus': "SuspendIdleActor (counting_client client) (t, k) (as_Namespace (br_spec b)) (as_Name (br_spec b)) None = (Inr True, (t', k))"
    using sus(1) unfolding counting_suspend by (simp add: SuspendIdleActor_def ShouldSuspendOnIdle_def)
  have known: "actors t' key = Some hs" using sus(3) by simp
  obtain h' t'' where e2: "EnsureTurnActor client t' (br_spec b) = (Inr (h', True), t'')" "ah_State h' = ActorStateActive"
      "ah_ID h' = ah_ID hs"
    using ensure_binds [OF valid, of t'] known unfolding key_def by auto
  have k2: "EnsureTurnActor (counting_client client) (t', k) (br_spec b) = (Inr (h', True), (t'', k))"
    using counting_ensure [OF e2(1), of k] known unfolding key_def by auto
  show ?thesis
    using free e1(2) k sus' e2(2,3) sus(2) k2
    by (auto simp: Occupy_def Release_def WaitThenEnsure_def handle_id_def)
qed

end

definition fake_actors :: "FakeClient \<Rightarrow> string \<Rightarrow> ActorHandle option" where
  "fake_actors f key = map_option fa_handle (map_of (fc_actors f) key)"

lemma fake_store_actors: "fake_actors (fake_store f key actor call) = (fake_actors f)(key \<mapsto> fa_handle actor)"
proof -
  have "map_of (filter (\<lambda>(k, a). k \<noteq> key) xs) k' = (if k' = key then None else map_of xs k')" for xs :: "(string \<times> fakeActor) list" and k'
    by (induction xs) auto
  then show ?thesis by (auto simp: fake_actors_def fake_store_def fun_eq_iff)
qed

lemma fake_actors_Some: "fake_actors f key = Some h \<longleftrightarrow> (\<exists>a. map_of (fc_actors f) key = Some a \<and> h = fa_handle a)"
  by (auto simp: fake_actors_def)

lemma fake_actors_None: "fake_actors f key = None \<longleftrightarrow> map_of (fc_actors f) key = None"
  by (simp add: fake_actors_def)

interpretation fake_plane: actor_plane fake_client fake_actors
proof
  show "ac_DescribeActor fake_client s ns n =
      ((case fake_actors s (ActorKey ns n) of None \<Rightarrow> Inl (ErrActorNotFound (ActorKey ns n)) | Some h \<Rightarrow> Inr h), s)" for s ns n
    by (simp add: fake_client_def fake_DescribeActor_def fake_actors_def Let_def split: option.split)
  show "\<exists>h' s'. ac_ResumeActor fake_client s ns n = (Inr h', s') \<and> ah_ID h' = ah_ID h \<and> ah_State h' = ActorStateActive \<and>
      fake_actors s' = (fake_actors s)(ActorKey ns n \<mapsto> h')" if "fake_actors s (ActorKey ns n) = Some h" for s ns n h
    using that by (auto simp: fake_actors_Some fake_client_def fake_ResumeActor_def fake_transition_def Let_def fake_store_actors)
  show "\<exists>h' s'. ac_SuspendActor fake_client s ns n = (Inr h', s') \<and> ah_ID h' = ah_ID h \<and> ah_State h' = ActorStateSuspended \<and>
      fake_actors s' = (fake_actors s)(ActorKey ns n \<mapsto> h')" if "fake_actors s (ActorKey ns n) = Some h" for s ns n h
    using that by (auto simp: fake_actors_Some fake_client_def fake_SuspendActor_def fake_transition_def Let_def fake_store_actors)
  show "ac_SuspendActor fake_client s ns n = (Inl (ErrActorNotFound (ActorKey ns n)), s)"
    if "fake_actors s (ActorKey ns n) = None" for s ns n
    using that by (simp add: fake_client_def fake_SuspendActor_def fake_transition_def Let_def fake_actors_None)
  show "\<exists>h s'. ac_CreateActor fake_client s spec = (Inr h, s') \<and> ah_State h = ActorStateActive \<and>
      fake_actors s' = (fake_actors s)(ActorKey (as_Namespace spec) (as_Name spec) \<mapsto> h) \<and>
      (\<forall>old. fake_actors s (ActorKey (as_Namespace spec) (as_Name spec)) = Some old \<longrightarrow> ah_ID h = ah_ID old)"
    if "ValidateSpec spec = None" for s spec
    using that by (cases "map_of (fc_actors s) (ActorKey (as_Namespace spec) (as_Name spec))")
      (simp_all add: fake_client_def fake_CreateActor_def Let_def fake_store_actors fake_actors_Some)
qed

subsection \<open>Binding through the in-memory client\<close>

text \<open>With the in-memory client a turn with a well-formed specification binds exactly one active actor.\<close>

lemma fake_turn_binds:
  assumes "ValidateSpec spec = None"
  shows "\<exists>h s'. EnsureTurnActor fake_client s spec =
      (Inr (h, fake_actors s (ActorKey (as_Namespace spec) (as_Name spec)) \<noteq> None), s') \<and> ah_State h = ActorStateActive \<and>
    fake_actors s' = (fake_actors s)(ActorKey (as_Namespace spec) (as_Name spec) \<mapsto> h) \<and>
    (\<forall>old. fake_actors s (ActorKey (as_Namespace spec) (as_Name spec)) = Some old \<longrightarrow> ah_ID h = ah_ID old)"
  using fake_plane.ensure_binds [OF assms] .

text \<open>
  A delivery to a busy recipient waits and is then warm: it blocks while the recipient is occupied,
  and after the release it resumes the occupied actor under the same identity; the whole exchange
  creates at most one actor, and none if the recipient was already known.
\<close>

theorem busy_wait_resumes_same_actor:
  assumes "ValidateSpec (br_spec b) = None" "\<not> br_busy b"
  shows "\<exists>h warm b1 s1 b2 s2 h' b3 s3 m.
    Occupy (counting_client fake_client) b (s, n) = (Inr (h, warm), b1, s1) \<and> ah_State h = ActorStateActive \<and>
    WaitThenEnsure (counting_client fake_client) b1 s1 = None \<and>
    Release (counting_client fake_client) b1 s1 = (None, b2, s2) \<and>
    WaitThenEnsure (counting_client fake_client) b2 s2 = Some (Inr (h', True), b3, (s3, m)) \<and>
    ah_ID h' = ah_ID h \<and> ah_State h' = ActorStateActive \<and> m \<le> n + 1 \<and> (warm \<longrightarrow> m = n)"
  using fake_plane.busy_cycle [OF assms] .

subsection \<open>Witnesses\<close>

definition demo_actor_spec :: ActorSpec where
  "demo_actor_spec = \<lparr>as_Namespace = ''team'', as_Name = ''chat-1'', as_HarnessKind = ''codex'', as_ActorClass = ''live'',
     as_Pool = [], as_Labels = []\<rparr>"

lemma demo_actor_spec_valid: "ValidateSpec demo_actor_spec = None"
  by code_simp

theorem busy_wait_resumes_same_actor_witness:
  "ValidateSpec (br_spec (NewBusyRecipient demo_actor_spec)) = None \<and> \<not> br_busy (NewBusyRecipient demo_actor_spec) \<and>
   (\<exists>h warm b1 s1. Occupy (counting_client fake_client) (NewBusyRecipient demo_actor_spec) (NewFakeClient, 0) =
      (Inr (h, warm), b1, s1) \<and> WaitThenEnsure (counting_client fake_client) b1 s1 = None)"
proof -
  have v: "ValidateSpec (br_spec (NewBusyRecipient demo_actor_spec)) = None" "\<not> br_busy (NewBusyRecipient demo_actor_spec)"
    by (simp_all add: NewBusyRecipient_def demo_actor_spec_valid)
  show ?thesis using busy_wait_resumes_same_actor [OF v, of NewFakeClient 0] v by blast
qed

subsection \<open>Names and the live client\<close>

lemma hex_digit_actor: "n < 16 \<Longrightarrow> actor_name_char (hex_digit n)"
  by (auto simp: hex_digit_def actor_name_char_def byte_in_def Let_def)

lemma actor_suffix_chars: "c \<in> set (take 12 (EncodeToString (Sum256 s))) \<Longrightarrow> actor_name_char c"
proof -
  assume "c \<in> set (take 12 (EncodeToString (Sum256 s)))"
  then have "c \<in> set (EncodeToString (Sum256 s))" by (rule in_set_takeD)
  then have "is_hex_char c" using EncodeToString_hex Sum256_byte by blast
  then show ?thesis by (auto simp: is_hex_char_def hex_digit_actor)
qed

lemma sanitized_chars: "c \<in> set (sanitizeActorNameSegment raw) \<Longrightarrow> actor_name_char c"
proof -
  assume "c \<in> set (sanitizeActorNameSegment raw)"
  then obtain r where "c = (case r of [c] \<Rightarrow> if actor_name_char c then c else CHR ''-'' | _ \<Rightarrow> CHR ''-'')"
    using set_trim_by unfolding sanitizeActorNameSegment_def TrimSet_def by fastforce
  then show ?thesis by (auto simp: actor_name_char_def split: list.splits if_splits)
qed

text \<open>Every thread has an actor name: bounded, with the prefix of the chat plane, and made of the
  characters a name may have.\<close>

theorem actor_name_shape:
  "length (ActorNameForThread thread) \<le> 253 \<and> take 5 (ActorNameForThread thread) = ''chat-'' \<and>
   list_all actor_name_char (ActorNameForThread thread)"
proof -
  define base where "base = sanitizeActorNameSegment (ToLower (TrimSpace thread))"
  define name where "name = (if base = [] then ''unknown'' else base)"
  have chars: "list_all actor_name_char name"
    using sanitized_chars unfolding name_def base_def by (auto simp: list_all_iff actor_name_char_def byte_in_def)
  have cut: "list_all actor_name_char (take n name)" for n
    using chars by (meson in_set_takeD list_all_iff)
  have suffix: "list_all actor_name_char (take 12 (EncodeToString (Sum256 thread)))"
    using actor_suffix_chars by (auto simp: list_all_iff)
  have prefix: "list_all actor_name_char ''chat-''" by code_simp
  have "ActorNameForThread thread =
    (if length (''chat-'' @ name) \<le> 253 then ''chat-'' @ name
     else ''chat-'' @ take 235 name @ ''-'' @ take 12 (EncodeToString (Sum256 thread)))"
    unfolding ActorNameForThread_def Let_def name_def base_def by (simp add: actorNamePrefix_def maxActorNameLen_def)
  then show ?thesis using chars cut [of 235] suffix prefix by (auto simp: actor_name_char_def)
qed

text \<open>
  What \<^verbatim>\<open>live.go\<close> documents of the service, for calls that nothing else interleaves with. \<open>acts\<close> gives
  the actors of the service by reference. A read returns the actor of the reference and changes
  nothing; a resume keeps the identity of the actor, reports it running and touches no other; a
  create makes the actor of a new name; a missing actor is the only reason for not-found, an
  existing one the only reason for already-exists. Any call may fail for another reason.
\<close>

definition create_ref :: "ATECreateSpec \<Rightarrow> ATEObjectRef" where
  "create_ref spec = \<lparr>ref_Atespace = cs_Atespace spec, ref_Name = cs_Name spec\<rparr>"

definition ate_contract :: "'w ATEControl \<Rightarrow> ('w \<Rightarrow> ATEObjectRef \<Rightarrow> ATEActor option) \<Rightarrow> bool" where
  "ate_contract control acts \<longleftrightarrow>
     (\<forall>w ref. case ctl_GetActor control w ref of
        (Inr a, w') \<Rightarrow> acts w ref = Some a \<and> acts w' = acts w
      | (Inl e, w') \<Rightarrow> (ate_Code e = ATECodeNotFound \<longrightarrow> acts w ref = None) \<and> acts w' = acts w) \<and>
     (\<forall>w ref. case ctl_ResumeActor control w ref of
        (Inr (a, resumed), w') \<Rightarrow> (\<exists>old. acts w ref = Some old \<and> ate_UID a = ate_UID old) \<and>
          MapATEState (ate_State a) = ActorStateActive \<and> acts w' = (acts w)(ref \<mapsto> a)
      | (Inl e, w') \<Rightarrow> ate_Code e = ATECodeNotFound \<longrightarrow> acts w ref = None) \<and>
     (\<forall>w spec. case ctl_CreateActor control w spec of
        (Inr a, w') \<Rightarrow> acts w (create_ref spec) = None \<and> acts w' = (acts w)(create_ref spec \<mapsto> a)
      | (Inl e, w') \<Rightarrow> ate_Code e = ATECodeAlreadyExists \<longrightarrow> acts w (create_ref spec) \<noteq> None)"

definition ate_answers :: "'w ATEControl \<Rightarrow> ('w \<Rightarrow> ATEObjectRef \<Rightarrow> ATEActor option) \<Rightarrow> bool" where
  "ate_answers control acts \<longleftrightarrow>
     (\<forall>w ref e w'. ctl_GetActor control w ref = (Inl e, w') \<longrightarrow> ate_Code e = ATECodeNotFound) \<and>
     (\<forall>w ref e w'. ctl_ResumeActor control w ref = (Inl e, w') \<longrightarrow> acts w ref = None) \<and>
     (\<forall>w spec e w'. ctl_CreateActor control w spec = (Inl e, w') \<longrightarrow> acts w (create_ref spec) \<noteq> None)"

definition bound_turn ::
  "('w \<Rightarrow> ATEObjectRef \<Rightarrow> ATEActor option) \<Rightarrow> 'w \<Rightarrow> ATEObjectRef \<Rightarrow> ActorHandle \<Rightarrow> bool \<Rightarrow> 'w \<Rightarrow> bool" where
  "bound_turn acts w ref h warm w' \<longleftrightarrow>
     (warm \<longleftrightarrow> acts w ref \<noteq> None) \<and> ah_State h = ActorStateActive \<and>
     (\<exists>a. acts w' = (acts w)(ref \<mapsto> a) \<and> ah_ID h = ate_UID a \<and> (\<forall>old. acts w ref = Some old \<longrightarrow> ate_UID a = ate_UID old))"

lemma contract_get:
  assumes "ate_contract control acts" "ctl_GetActor control w ref = (r, w')"
  shows "acts w' = acts w" "r = Inr a \<Longrightarrow> acts w ref = Some a" "r = Inl e \<Longrightarrow> ate_Code e = ATECodeNotFound \<Longrightarrow> acts w ref = None"
proof -
  have "case (r, w') of (Inr a, w') \<Rightarrow> acts w ref = Some a \<and> acts w' = acts w
      | (Inl e, w') \<Rightarrow> (ate_Code e = ATECodeNotFound \<longrightarrow> acts w ref = None) \<and> acts w' = acts w"
    using spec [OF spec [OF conjunct1 [OF assms(1) [unfolded ate_contract_def]], of w], of ref] assms(2) by simp
  then show "acts w' = acts w" "r = Inr a \<Longrightarrow> acts w ref = Some a"
    "r = Inl e \<Longrightarrow> ate_Code e = ATECodeNotFound \<Longrightarrow> acts w ref = None"
    by (auto split: sum.splits)
qed

lemma contract_resume:
  assumes "ate_contract control acts" "ctl_ResumeActor control w ref = (r, w')"
  shows "r = Inr (a, resumed) \<Longrightarrow> (\<exists>old. acts w ref = Some old \<and> ate_UID a = ate_UID old) \<and>
      MapATEState (ate_State a) = ActorStateActive \<and> acts w' = (acts w)(ref \<mapsto> a)"
    and "r = Inl e \<Longrightarrow> ate_Code e = ATECodeNotFound \<Longrightarrow> acts w ref = None"
proof -
  have "case (r, w') of (Inr (a, resumed), w') \<Rightarrow> (\<exists>old. acts w ref = Some old \<and> ate_UID a = ate_UID old) \<and>
        MapATEState (ate_State a) = ActorStateActive \<and> acts w' = (acts w)(ref \<mapsto> a)
      | (Inl e, w') \<Rightarrow> ate_Code e = ATECodeNotFound \<longrightarrow> acts w ref = None"
    using spec [OF spec [OF conjunct1 [OF conjunct2 [OF assms(1) [unfolded ate_contract_def]]], of w], of ref] assms(2) by simp
  then show "r = Inr (a, resumed) \<Longrightarrow> (\<exists>old. acts w ref = Some old \<and> ate_UID a = ate_UID old) \<and>
      MapATEState (ate_State a) = ActorStateActive \<and> acts w' = (acts w)(ref \<mapsto> a)"
    "r = Inl e \<Longrightarrow> ate_Code e = ATECodeNotFound \<Longrightarrow> acts w ref = None"
    by (auto split: sum.splits)
qed

lemma contract_create:
  assumes "ate_contract control acts" "ctl_CreateActor control w spec = (r, w')"
  shows "r = Inr a \<Longrightarrow> acts w (create_ref spec) = None \<and> acts w' = (acts w)(create_ref spec \<mapsto> a)"
    and "r = Inl e \<Longrightarrow> ate_Code e = ATECodeAlreadyExists \<Longrightarrow> acts w (create_ref spec) \<noteq> None"
proof -
  have "case (r, w') of (Inr a, w') \<Rightarrow> acts w (create_ref spec) = None \<and> acts w' = (acts w)(create_ref spec \<mapsto> a)
      | (Inl e, w') \<Rightarrow> ate_Code e = ATECodeAlreadyExists \<longrightarrow> acts w (create_ref spec) \<noteq> None"
    using spec [OF spec [OF conjunct2 [OF conjunct2 [OF assms(1) [unfolded ate_contract_def]]], of w], of spec] assms(2) by simp
  then show "r = Inr a \<Longrightarrow> acts w (create_ref spec) = None \<and> acts w' = (acts w)(create_ref spec \<mapsto> a)"
    "r = Inl e \<Longrightarrow> ate_Code e = ATECodeAlreadyExists \<Longrightarrow> acts w (create_ref spec) \<noteq> None"
    by (auto split: sum.splits)
qed

lemma ate_describe:
  "ac_DescribeActor (ate_client cfg control) c ns n = ate_answer c (ate_ref cfg ns n) (ctl_GetActor control (acl_service c) (ate_ref cfg ns n))"
  "ac_ResumeActor (ate_client cfg control) c ns n = ate_resumed c (ate_ref cfg ns n) (ctl_ResumeActor control (acl_service c) (ate_ref cfg ns n))"
  "ac_CreateActor (ate_client cfg control) = ate_CreateActor cfg control"
  by (simp_all add: ate_client_def Let_def)

lemma service_noted [simp]: "acl_service (noteResumed c a) = acl_service c"
  by (simp add: noteResumed_def Let_def)

lemma resumed_binds:
  assumes "ate_contract control acts" "ate_resumed c ref (ctl_ResumeActor control w ref) = (Inr h, c')"
  shows "\<exists>a old. acts w ref = Some old \<and> ate_UID a = ate_UID old \<and> ah_ID h = ate_UID a \<and> ah_State h = ActorStateActive \<and>
    acts (acl_service c') = (acts w)(ref \<mapsto> a)"
proof -
  obtain r w' where call: "ctl_ResumeActor control w ref = (r, w')" by (cases "ctl_ResumeActor control w ref")
  then obtain a resumed where r: "r = Inr (a, resumed)" using assms(2) by (cases r) (auto simp: ate_resumed_def)
  have c: "(\<exists>old. acts w ref = Some old \<and> ate_UID a = ate_UID old) \<and> MapATEState (ate_State a) = ActorStateActive \<and>
      acts w' = (acts w)(ref \<mapsto> a)"
    by (rule contract_resume(1) [OF assms(1) call r])
  have "acl_service c' = w'" "ah_ID h = ate_UID a" "ah_State h = MapATEState (ate_State a)"
    using assms(2) call r by (auto simp: ate_resumed_def ate_handle_def Let_def split: if_splits)
  then show ?thesis using c by auto
qed

lemma create_spec_ref: "create_ref (createSpec cfg spec) = ate_ref cfg (as_Namespace spec) (as_Name spec)"
  by (simp add: create_ref_def createSpec_def Let_def)

lemma ate_create_cases:
  fixes cfg
  assumes "ValidateSpec spec = None" "length (TrimSpace (as_Name spec)) \<le> 63"
  defines "ref \<equiv> ate_ref cfg (as_Namespace spec) (as_Name spec)"
  shows "ate_CreateActor cfg control c spec =
    (case ctl_GetActor control (acl_service c) ref of
       (Inr existing, w) \<Rightarrow> (let c = c\<lparr>acl_service := w\<rparr> in (Inr (ate_handle c existing), c))
     | (Inl e, w) \<Rightarrow>
         if ate_Code e \<noteq> ATECodeNotFound then (Inl (ActorFailure (Errorf (ate_Err e))), c\<lparr>acl_service := w\<rparr>)
         else (case ctl_CreateActor control w (createSpec cfg spec) of
           (Inl e, w) \<Rightarrow>
             if ate_Code e = ATECodeAlreadyExists then ate_answer c ref (ctl_GetActor control w ref)
             else (Inl (ActorFailure (Errorf (ate_Err e))), c\<lparr>acl_service := w\<rparr>)
         | (Inr created, w) \<Rightarrow>
             if MapATEState (ate_State created) = ActorStateActive
             then (let c = c\<lparr>acl_service := w\<rparr> in (Inr (ate_handle c created), c))
             else ate_resumed c ref (ctl_ResumeActor control w ref)))"
proof -
  have eq: "\<lparr>ref_Atespace = cs_Atespace (createSpec cfg spec), ref_Name = cs_Name (createSpec cfg spec)\<rparr> = ref"
    using create_spec_ref [of cfg spec] by (simp add: create_ref_def ref_def)
  show ?thesis
    using assms(1,2) unfolding ate_CreateActor_def Let_def eq by (simp add: maxATEActorNameLen_def)
qed

lemma ate_create_binds:
  assumes contract: "ate_contract control acts" and "ValidateSpec spec = None"
    and made: "ate_CreateActor cfg control c spec = (Inr h, c')"
    and missing: "acts (acl_service c) (ate_ref cfg (as_Namespace spec) (as_Name spec)) = None"
  shows "bound_turn acts (acl_service c) (ate_ref cfg (as_Namespace spec) (as_Name spec)) h False (acl_service c')"
proof -
  define ref where "ref = ate_ref cfg (as_Namespace spec) (as_Name spec)"
  have len: "length (TrimSpace (as_Name spec)) \<le> 63"
    using made assms(2) by (auto simp: ate_CreateActor_def maxATEActorNameLen_def not_less split: if_splits)
  note made = made [unfolded ate_create_cases [OF assms(2) len], folded ref_def]
  obtain r w where get: "ctl_GetActor control (acl_service c) ref = (r, w)" by (cases "ctl_GetActor control (acl_service c) ref")
  note g = contract_get [OF contract get]
  obtain e where e: "r = Inl e" using g(2) missing unfolding ref_def by (cases r) auto
  obtain r2 w2 where cr: "ctl_CreateActor control w (createSpec cfg spec) = (r2, w2)" by (cases "ctl_CreateActor control w (createSpec cfg spec)")
  note c2 = contract_create [OF contract cr, unfolded create_spec_ref, folded ref_def]
  have exists: "acts w ref = None" using g(1) missing unfolding ref_def by simp
  obtain created where r2: "r2 = Inr created"
    using made get e cr c2(2) exists by (cases r2) (auto split: if_splits)
  have acts2: "acts w2 = (acts (acl_service c))(ref \<mapsto> created)" using c2(1) [OF r2] g(1) by simp
  show ?thesis
  proof (cases "MapATEState (ate_State created) = ActorStateActive")
    case True
    then have "h = ate_handle (c\<lparr>acl_service := w2\<rparr>) created" "acl_service c' = w2"
      using made get e cr r2 by (auto simp: Let_def split: if_splits)
    then show ?thesis
      using True acts2 missing unfolding bound_turn_def ref_def by (auto simp: ate_handle_def)
  next
    case False
    then have "ate_resumed c ref (ctl_ResumeActor control w2 ref) = (Inr h, c')"
      using made get e cr r2 by (auto split: if_splits)
    from resumed_binds [OF contract this] acts2 show ?thesis
      using missing unfolding bound_turn_def ref_def by auto
  qed
qed

lemma live_turn_bound:
  assumes contract: "ate_contract control acts" and bound: "EnsureTurnActor (ate_client cfg control) c spec = (Inr (h, warm), c')"
  shows "bound_turn acts (acl_service c) (ate_ref cfg (as_Namespace spec) (as_Name spec)) h warm (acl_service c')"
proof -
  define ref where "ref = ate_ref cfg (as_Namespace spec) (as_Name spec)"
  have valid: "ValidateSpec spec = None" using bound by (auto simp: EnsureTurnActor_def split: option.splits)
  obtain r w where get: "ctl_GetActor control (acl_service c) ref = (r, w)" by (cases "ctl_GetActor control (acl_service c) ref")
  note g = contract_get [OF contract get]
  define c1 where "c1 = c\<lparr>acl_service := w\<rparr>"
  have c1: "acts (acl_service c1) = acts (acl_service c)" using g(1) by (simp add: c1_def)
  show ?thesis
  proof (cases r)
    case (Inr a)
    obtain r2 w2 where res: "ctl_ResumeActor control w ref = (r2, w2)" by (cases "ctl_ResumeActor control w ref")
    have "acts w ref \<noteq> None" using g(1) g(2) [OF Inr] by simp
    then have "ate_resumed c1 ref (ctl_ResumeActor control w ref) = (Inr h, c') \<and> warm"
      using bound valid get Inr contract_resume(2) [OF contract res] res
      by (cases r2) (auto simp: EnsureTurnActor_def ate_describe ref_def [symmetric] ate_answer_def Let_def c1_def
          ate_resumed_def notFoundAsClient_def split: if_splits)
    then show ?thesis
      using resumed_binds [OF contract, of c1 ref w h c'] g(1) unfolding bound_turn_def ref_def by auto
  next
    case (Inl e)
    then have nf: "ate_Code e = ATECodeNotFound" and "create_cold (ate_client cfg control) c1 spec = (Inr (h, warm), c')"
      using bound valid get
      by (auto simp: EnsureTurnActor_def ate_describe ref_def [symmetric] ate_answer_def Let_def c1_def notFoundAsClient_def split: if_splits)
    then have made: "ate_CreateActor cfg control c1 spec = (Inr h, c')" and warm: "\<not> warm"
      by (auto simp: create_cold_def ate_describe split: prod.splits sum.splits)
    have missing: "acts (acl_service c1) (ate_ref cfg (as_Namespace spec) (as_Name spec)) = None"
      using g(3) [OF Inl nf] c1 unfolding ref_def by simp
    have "bound_turn acts (acl_service c1) (ate_ref cfg (as_Namespace spec) (as_Name spec)) h False (acl_service c')"
      by (rule ate_create_binds [OF contract valid made missing])
    then show ?thesis using warm unfolding bound_turn_def c1 by auto
  qed
qed

lemma answers_calls:
  assumes "ate_answers control acts"
  shows "ctl_GetActor control w ref = (Inl e, w') \<Longrightarrow> ate_Code e = ATECodeNotFound"
    and "ctl_ResumeActor control w ref = (Inl e, w') \<Longrightarrow> acts w ref = None"
    and "ctl_CreateActor control w spec = (Inl e, w') \<Longrightarrow> acts w (create_ref spec) \<noteq> None"
  using assms unfolding ate_answers_def by blast+

lemma resumed_answers:
  assumes "ate_answers control acts" "acts w ref \<noteq> None"
  shows "\<exists>h c'. ate_resumed c ref (ctl_ResumeActor control w ref) = (Inr h, c')"
proof -
  obtain r w' where call: "ctl_ResumeActor control w ref = (r, w')" by (cases "ctl_ResumeActor control w ref")
  then obtain x where "r = Inr x" using answers_calls(2) [OF assms(1)] assms(2) by (cases r) auto
  then show ?thesis using call by (cases x) (simp add: ate_resumed_def Let_def)
qed

lemma live_turn_returns:
  assumes contract: "ate_contract control acts" and answers: "ate_answers control acts"
    and valid: "ValidateSpec spec = None" and len: "length (TrimSpace (as_Name spec)) \<le> 63"
  shows "\<exists>h warm c'. EnsureTurnActor (ate_client cfg control) c spec = (Inr (h, warm), c')"
proof -
  define ref where "ref = ate_ref cfg (as_Namespace spec) (as_Name spec)"
  obtain r w where get: "ctl_GetActor control (acl_service c) ref = (r, w)" by (cases "ctl_GetActor control (acl_service c) ref")
  note g = contract_get [OF contract get]
  define c1 where "c1 = c\<lparr>acl_service := w\<rparr>"
  show ?thesis
  proof (cases r)
    case (Inr a)
    then have "acts w ref \<noteq> None" using g(1,2) by simp
    from resumed_answers [OF answers this, of c1] show ?thesis
      using valid get Inr
      by (auto simp: EnsureTurnActor_def ate_describe ref_def [symmetric] ate_answer_def Let_def c1_def)
  next
    case (Inl e)
    then have nf: "ate_Code e = ATECodeNotFound" using answers_calls(1) [OF answers] get by blast
    have missing: "acts w ref = None" using g(1) g(3) [OF Inl nf] by simp
    obtain r1 w1 where get1: "ctl_GetActor control w ref = (r1, w1)" by (cases "ctl_GetActor control w ref")
    note g1 = contract_get [OF contract get1]
    obtain e1 where e1: "r1 = Inl e1" using g1(2) missing by (cases r1) auto
    then have nf1: "ate_Code e1 = ATECodeNotFound" using answers_calls(1) [OF answers] get1 by blast
    obtain r2 w2 where cr: "ctl_CreateActor control w1 (createSpec cfg spec) = (r2, w2)" by (cases "ctl_CreateActor control w1 (createSpec cfg spec)")
    have "acts w1 (create_ref (createSpec cfg spec)) = None" using g1(1) missing by (simp add: create_spec_ref ref_def)
    then obtain created where r2: "r2 = Inr created" using answers_calls(3) [OF answers] cr by (cases r2) auto
    have "acts w2 ref \<noteq> None" using contract_create(1) [OF contract cr r2] by (simp add: create_spec_ref ref_def)
    then have "\<exists>h c'. ate_CreateActor cfg control c1 spec = (Inr h, c')"
      using resumed_answers [OF answers, of w2 ref c1] unfolding ate_create_cases [OF valid len] ref_def [symmetric]
      by (simp add: c1_def get1 e1 nf1 cr r2 Let_def)
    then show ?thesis
      using valid get Inl nf
      by (auto simp: EnsureTurnActor_def ate_describe ref_def [symmetric] ate_answer_def Let_def c1_def notFoundAsClient_def create_cold_def)
  qed
qed


text \<open>A service that keeps its actors in a map.\<close>

definition demo_not_found :: ATEError where
  "demo_not_found = \<lparr>ate_Code = ATECodeNotFound, ate_Err = ''not found''\<rparr>"

definition demo_ate :: "(ATEObjectRef \<Rightarrow> ATEActor option) ATEControl" where
  "demo_ate =
     (let change = (\<lambda>state w ref. case w ref of
            None \<Rightarrow> (Inl demo_not_found, w)
          | Some a \<Rightarrow> (Inr (a\<lparr>ate_State := state\<rparr>), w(ref \<mapsto> a\<lparr>ate_State := state\<rparr>))) in
      \<lparr>ctl_GetActor = (\<lambda>w ref. (case w ref of None \<Rightarrow> Inl demo_not_found | Some a \<Rightarrow> Inr a, w)),
       ctl_CreateActor = (\<lambda>w spec. case w (create_ref spec) of
          Some a \<Rightarrow> (Inl \<lparr>ate_Code = ATECodeAlreadyExists, ate_Err = ''exists''\<rparr>, w)
        | None \<Rightarrow> (let a = \<lparr>ate_Atespace = cs_Atespace spec, ate_Name = cs_Name spec, ate_UID = ''uid-'' @ cs_Name spec,
              ate_TemplateAtespace = cs_TemplateAtespace spec, ate_TemplateName = cs_TemplateName spec,
              ate_WorkerSelector = cs_WorkerSelector spec, ate_State = ATEActorStateSuspended\<rparr> in (Inr a, w(create_ref spec \<mapsto> a)))),
       ctl_ResumeActor = (\<lambda>w ref. case change ATEActorStateRunning w ref of (Inl e, w) \<Rightarrow> (Inl e, w) | (Inr a, w) \<Rightarrow> (Inr (a, True), w)),
       ctl_SuspendActor = change ATEActorStateSuspended, ctl_PauseActor = change ATEActorStatePaused\<rparr>)"

lemma demo_ate_contract: "ate_contract demo_ate (\<lambda>w. w)" "ate_answers demo_ate (\<lambda>w. w)"
  by (auto simp: ate_contract_def ate_answers_def demo_ate_def demo_not_found_def Let_def split: option.splits)


text \<open>An actor that appears between the read and the create is returned as the service has it, so a
  turn may be bound to a suspended actor.\<close>

lemma ate_race_binds_suspended:
  assumes "ValidateSpec spec = None" "length (TrimSpace (as_Name spec)) \<le> 63"
    and "ctl_GetActor control (acl_service c) (ate_ref cfg (as_Namespace spec) (as_Name spec)) =
      (Inl \<lparr>ate_Code = ATECodeNotFound, ate_Err = e\<rparr>, w1)"
    and "ctl_GetActor control w1 (ate_ref cfg (as_Namespace spec) (as_Name spec)) =
      (Inl \<lparr>ate_Code = ATECodeNotFound, ate_Err = e\<rparr>, w2)"
    and "ctl_CreateActor control w2 (createSpec cfg spec) = (Inl \<lparr>ate_Code = ATECodeAlreadyExists, ate_Err = e'\<rparr>, w3)"
    and "ctl_GetActor control w3 (ate_ref cfg (as_Namespace spec) (as_Name spec)) = (Inr actor, w4)"
    and "ate_State actor = ATEActorStateSuspended"
  shows "\<exists>h c'. EnsureTurnActor (ate_client cfg control) c spec = (Inr (h, False), c') \<and> ah_State h = ActorStateSuspended"
  using assms
  by (simp add: EnsureTurnActor_def create_cold_def ate_client_def ate_CreateActor_def ate_answer_def ate_handle_def
      notFoundAsClient_def createSpec_def Let_def maxATEActorNameLen_def ate_ref_def)

end
