(* ===== verification/Archive.thy ===== *)
theory Archive
  imports RunJob
begin

text \<open>
  The archive of finished runs, \<^verbatim>\<open>internal/archive/store.go\<close>: the record of a run
  (\<^verbatim>\<open>NewAgentRunArchiveRecord\<close>), its normal form and digest, and the table of the Postgres store as
  a list of rows with the primary key of the schema; \<^verbatim>\<open>INSERT ... ON CONFLICT DO UPDATE\<close> replaces the
  row of the key. The JSON encodings are parameters, and the zero time is 0.
\<close>

record archive_json =
  aj_Spec :: "AgentRunSpec \<Rightarrow> string option"
  aj_Status :: "AgentRunStatus \<Rightarrow> string option"
  aj_Map :: "strmap \<Rightarrow> string option"
  aj_Decision :: "AgentRunDecisionStatus \<Rightarrow> string option"
  aj_Reports :: "AgentRunStatusReport list \<Rightarrow> string option"
  aj_Digest :: "string \<Rightarrow> string \<Rightarrow> string \<Rightarrow> string \<Rightarrow> string \<Rightarrow> string \<Rightarrow> string \<Rightarrow> string option"

definition AgentRunArchiveStorePostgres :: string where
  "AgentRunArchiveStorePostgres = ''anvilhub-postgres''"

record AgentRunArchiveRecord =
  ark_Namespace :: string
  ark_Name :: string
  ark_UID :: string
  ark_ResourceVersion :: string
  ark_Phase :: string
  ark_Backend :: string
  ark_Intent :: string
  ark_Image :: string
  ark_SourceKind :: string
  ark_SourceNamespace :: string
  ark_SourceName :: string
  ark_ScheduleNamespace :: string
  ark_ScheduleName :: string
  ark_SituationNamespace :: string
  ark_SituationName :: string
  ark_RunnerNode :: string
  ark_PullRequestURL :: string
  ark_Error :: string
  ark_CreatedAt :: instant
  ark_StartedAt :: instant
  ark_CompletedAt :: instant
  ark_ArchivedAt :: instant
  ark_Digest :: string
  ark_Labels :: string
  ark_Annotations :: string
  ark_Spec :: string
  ark_Status :: string
  ark_Decision :: string
  ark_Reports :: string
  ark_Result :: string
  ark_Output :: string

record AgentRunArchiveResult =
  ar_Store :: string
  ar_ArchivedAt :: instant
  ar_Digest :: string

definition agentRunArchiveDigest :: "archive_json \<Rightarrow> AgentRunArchiveRecord \<Rightarrow> string result" where
  "agentRunArchiveDigest aj r =
     (case aj_Digest aj (ark_Namespace r) (ark_Name r) (ark_UID r) (ark_ResourceVersion r) (ark_Phase r) (ark_Spec r)
         (ark_Status r) of
        None \<Rightarrow> Inl (Errorf ''marshal AgentRun archive digest body'')
      | Some body \<Rightarrow> Inr (''sha256:'' @ EncodeToString (Sum256 body)))"

definition trim_record :: "AgentRunArchiveRecord \<Rightarrow> AgentRunArchiveRecord" where
  "trim_record r = r\<lparr>
     ark_Namespace := TrimSpace (ark_Namespace r), ark_Name := TrimSpace (ark_Name r), ark_UID := TrimSpace (ark_UID r),
     ark_ResourceVersion := TrimSpace (ark_ResourceVersion r), ark_Phase := TrimSpace (ark_Phase r),
     ark_Backend := TrimSpace (ark_Backend r), ark_Intent := TrimSpace (ark_Intent r), ark_Image := TrimSpace (ark_Image r),
     ark_SourceKind := TrimSpace (ark_SourceKind r), ark_SourceNamespace := TrimSpace (ark_SourceNamespace r),
     ark_SourceName := TrimSpace (ark_SourceName r), ark_ScheduleNamespace := TrimSpace (ark_ScheduleNamespace r),
     ark_ScheduleName := TrimSpace (ark_ScheduleName r), ark_SituationNamespace := TrimSpace (ark_SituationNamespace r),
     ark_SituationName := TrimSpace (ark_SituationName r), ark_RunnerNode := TrimSpace (ark_RunnerNode r),
     ark_PullRequestURL := TrimSpace (ark_PullRequestURL r), ark_Error := TrimSpace (ark_Error r),
     ark_Output := TrimSpace (ark_Output r)\<rparr>"

definition default_json :: "string \<Rightarrow> string \<Rightarrow> string" where
  "default_json d s = (if s = [] then d else s)"

definition NormalizeAgentRunArchiveRecord :: "archive_json \<Rightarrow> instant \<Rightarrow> AgentRunArchiveRecord \<Rightarrow> AgentRunArchiveRecord result" where
  "NormalizeAgentRunArchiveRecord aj now r0 =
     (let r = trim_record r0 in
      if ark_Namespace r = [] then Inl (Errorf ''AgentRun namespace is required'')
      else if ark_Name r = [] then Inl (Errorf ''AgentRun name is required'')
      else if ark_UID r = [] then Inl (Errorf ''AgentRun UID is required'')
      else if ark_Phase r = [] then Inl (Errorf ''AgentRun phase is required'')
      else
        (let r = r\<lparr>ark_ArchivedAt := (if ark_ArchivedAt r = 0 then now else ark_ArchivedAt r),
               ark_Labels := default_json ''{}'' (ark_Labels r), ark_Annotations := default_json ''{}'' (ark_Annotations r)\<rparr> in
         if ark_Spec r = [] then Inl (Errorf ''AgentRun spec archive is required'')
         else if ark_Status r = [] then Inl (Errorf ''AgentRun status archive is required'')
         else
           (let r = r\<lparr>ark_Reports := default_json ''[]'' (ark_Reports r)\<rparr> in
            case agentRunArchiveDigest aj r of
              Inl e \<Rightarrow> Inl e
            | Inr digest \<Rightarrow> Inr (r\<lparr>ark_Digest := digest\<rparr>))))"

definition marshalled :: "string \<Rightarrow> string option \<Rightarrow> string result" where
  "marshalled what s = (case s of None \<Rightarrow> Inl (Errorf (''marshal AgentRun '' @ what)) | Some text \<Rightarrow> Inr text)"

definition time_value :: "instant option \<Rightarrow> instant" where
  "time_value t = (case t of None \<Rightarrow> 0 | Some t \<Rightarrow> t)"

definition ref_parts :: "NamespacedObjectReference option \<Rightarrow> string \<times> string" where
  "ref_parts ref = (case ref of None \<Rightarrow> ([], []) | Some x \<Rightarrow> (TrimSpace (nor_Namespace x), TrimSpace (nor_Name x)))"

definition archive_fields ::
  "AgentRun \<Rightarrow> instant \<Rightarrow> string \<Rightarrow> string \<Rightarrow> string \<Rightarrow> string \<Rightarrow> string \<Rightarrow> string \<Rightarrow> AgentRunArchiveRecord" where
  "archive_fields run archivedAt spec status labels annotations decision reports =
     (let st = run_Status run; source = spec_SourceRef (run_Spec run) in
      \<lparr>ark_Namespace = TrimSpace (run_Namespace run), ark_Name = TrimSpace (run_Name run), ark_UID = run_UID run,
       ark_ResourceVersion = TrimSpace (om_ResourceVersion (run_Meta run)), ark_Phase = phase_text (rs_Phase st),
       ark_Backend = TrimSpace (rs_Backend st), ark_Intent = TrimSpace (rs_Intent st), ark_Image = TrimSpace (rs_Image st),
       ark_SourceKind = TrimSpace (src_Kind source), ark_SourceNamespace = TrimSpace (src_Namespace source),
       ark_SourceName = TrimSpace (src_Name source),
       ark_ScheduleNamespace = fst (ref_parts (spec_ScheduleRef (run_Spec run))),
       ark_ScheduleName = snd (ref_parts (spec_ScheduleRef (run_Spec run))),
       ark_SituationNamespace = fst (ref_parts (spec_SituationRef (run_Spec run))),
       ark_SituationName = snd (ref_parts (spec_SituationRef (run_Spec run))),
       ark_RunnerNode = TrimSpace (rs_RunnerNode st), ark_PullRequestURL = TrimSpace (rs_PullRequestURL st),
       ark_Error = TrimSpace (rs_Error st), ark_CreatedAt = om_CreationTimestamp (run_Meta run),
       ark_StartedAt = time_value (rs_StartedAt st), ark_CompletedAt = time_value (rs_CompletedAt st),
       ark_ArchivedAt = archivedAt, ark_Digest = [], ark_Labels = labels, ark_Annotations = annotations,
       ark_Spec = spec, ark_Status = status, ark_Decision = decision, ark_Reports = reports,
       ark_Result = rs_Result st, ark_Output = TrimSpace (rs_Output st)\<rparr>)"

definition NewAgentRunArchiveRecord :: "archive_json \<Rightarrow> instant \<Rightarrow> AgentRun \<Rightarrow> instant \<Rightarrow> AgentRunArchiveRecord result" where
  "NewAgentRunArchiveRecord aj now run archivedAt0 =
     (let archivedAt = (if archivedAt0 = 0 then now else archivedAt0); st = run_Status run in
      case marshalled ''spec'' (aj_Spec aj (run_Spec run)) of Inl e \<Rightarrow> Inl e | Inr spec \<Rightarrow>
      (case marshalled ''status'' (aj_Status aj st) of Inl e \<Rightarrow> Inl e | Inr status \<Rightarrow>
      (case marshalled ''labels'' (aj_Map aj (run_Labels run)) of Inl e \<Rightarrow> Inl e | Inr labels \<Rightarrow>
      (case marshalled ''annotations'' (aj_Map aj (run_Annotations run)) of Inl e \<Rightarrow> Inl e | Inr annotations \<Rightarrow>
      (case (case rs_Decision st of None \<Rightarrow> Inr [] | Some d \<Rightarrow> marshalled ''decision'' (aj_Decision aj d)) of
         Inl e \<Rightarrow> Inl e | Inr decision \<Rightarrow>
      (case marshalled ''reports'' (aj_Reports aj (rs_Reports st)) of Inl e \<Rightarrow> Inl e | Inr reports \<Rightarrow>
         NormalizeAgentRunArchiveRecord aj now
           (archive_fields run archivedAt spec status labels annotations decision reports)))))))"

subsection \<open>The table\<close>

type_synonym archive_key = "string \<times> string \<times> string"

definition archive_key :: "AgentRunArchiveRecord \<Rightarrow> archive_key" where
  "archive_key r = (ark_Namespace r, ark_Name r, ark_UID r)"

type_synonym archive_table = "AgentRunArchiveRecord list"

definition upsert :: "AgentRunArchiveRecord \<Rightarrow> archive_table \<Rightarrow> archive_table" where
  "upsert r table = (if archive_key r \<in> archive_key ` set table
     then map (\<lambda>row. if archive_key row = archive_key r then r else row) table else table @ [r])"

definition postgres_ArchiveAgentRun ::
  "archive_json \<Rightarrow> instant \<Rightarrow> archive_table \<Rightarrow> AgentRunArchiveRecord \<Rightarrow> AgentRunArchiveResult result \<times> archive_table" where
  "postgres_ArchiveAgentRun aj now table record0 =
     (case NormalizeAgentRunArchiveRecord aj now record0 of
        Inl e \<Rightarrow> (Inl e, table)
      | Inr r \<Rightarrow> (Inr \<lparr>ar_Store = AgentRunArchiveStorePostgres, ar_ArchivedAt = ark_ArchivedAt r, ar_Digest = ark_Digest r\<rparr>,
          upsert r table))"

subsection \<open>The normal form and the row of a run\<close>

definition row_of :: "archive_table \<Rightarrow> archive_key \<Rightarrow> AgentRunArchiveRecord option" where
  "row_of table key = find (\<lambda>row. archive_key row = key) table"

lemma trim_record_idem [simp]: "trim_record (trim_record r) = trim_record r"
  by (simp add: trim_record_def)

lemma default_json_idem [simp]: "default_json d (default_json d s) = default_json d s"
  by (simp add: default_json_def)

lemma Normalize_shape:
  assumes "NormalizeAgentRunArchiveRecord aj now r0 = Inr r"
  obtains d where "r = (trim_record r0)\<lparr>ark_ArchivedAt := (if ark_ArchivedAt r0 = 0 then now else ark_ArchivedAt r0),
      ark_Labels := default_json ''{}'' (ark_Labels r0), ark_Annotations := default_json ''{}'' (ark_Annotations r0),
      ark_Reports := default_json ''[]'' (ark_Reports r0), ark_Digest := d\<rparr>"
    and "agentRunArchiveDigest aj r = Inr d"
    and "ark_Namespace r \<noteq> []" "ark_Name r \<noteq> []" "ark_UID r \<noteq> []" "ark_Phase r \<noteq> []" "ark_Spec r \<noteq> []" "ark_Status r \<noteq> []"
  using assms unfolding NormalizeAgentRunArchiveRecord_def Let_def
  by (auto simp: agentRunArchiveDigest_def trim_record_def split: if_splits sum.splits option.splits)

lemma Normalize_idem:
  assumes "NormalizeAgentRunArchiveRecord aj now r0 = Inr r" "ark_ArchivedAt r \<noteq> 0"
  shows "NormalizeAgentRunArchiveRecord aj now' r = Inr r"
proof -
  obtain d where r: "r = (trim_record r0)\<lparr>ark_ArchivedAt := (if ark_ArchivedAt r0 = 0 then now else ark_ArchivedAt r0),
      ark_Labels := default_json ''{}'' (ark_Labels r0), ark_Annotations := default_json ''{}'' (ark_Annotations r0),
      ark_Reports := default_json ''[]'' (ark_Reports r0), ark_Digest := d\<rparr>" (is "r = ?n")
    and d: "agentRunArchiveDigest aj r = Inr d"
    and req: "ark_Namespace r \<noteq> []" "ark_Name r \<noteq> []" "ark_UID r \<noteq> []" "ark_Phase r \<noteq> []" "ark_Spec r \<noteq> []" "ark_Status r \<noteq> []"
    by (rule Normalize_shape [OF assms(1)])
  have trimmed: "trim_record r = r" unfolding r by (simp add: trim_record_def)
  have fixed: "default_json ''{}'' (ark_Labels r) = ark_Labels r" "default_json ''{}'' (ark_Annotations r) = ark_Annotations r"
      "default_json ''[]'' (ark_Reports r) = ark_Reports r" "ark_Digest r = d"
    unfolding r by (simp_all add: default_json_def)
  have same: "r\<lparr>ark_ArchivedAt := ark_ArchivedAt r, ark_Labels := ark_Labels r, ark_Annotations := ark_Annotations r\<rparr> = r"
      "r\<lparr>ark_Reports := ark_Reports r\<rparr> = r" "r\<lparr>ark_Digest := ark_Digest r\<rparr> = r" by simp_all
  show ?thesis
    unfolding NormalizeAgentRunArchiveRecord_def Let_def trimmed
    using assms(2) req d fixed same by simp
qed

lemma upsert_keys: "distinct (map archive_key table) \<Longrightarrow> distinct (map archive_key (upsert r table))"
proof -
  assume d: "distinct (map archive_key table)"
  have m: "map archive_key (map (\<lambda>row. if archive_key row = archive_key r then r else row) table) = map archive_key table"
    unfolding map_map by (rule map_cong) auto
  show ?thesis
  proof (cases "archive_key r \<in> archive_key ` set table")
    case True
    then show ?thesis using d unfolding upsert_def by (simp only: if_True m)
  next
    case False
    then show ?thesis using d unfolding upsert_def by auto
  qed
qed

lemma find_filter_map:
  assumes "k \<noteq> archive_key r"
  shows "find (\<lambda>row. archive_key row = k) (map (\<lambda>row. if archive_key row = archive_key r then r else row) xs) =
    find (\<lambda>row. archive_key row = k) xs"
  using assms by (induction xs) auto

lemma row_of_upsert: "row_of (upsert r table) k = (if k = archive_key r then Some r else row_of table k)"
proof (cases "k = archive_key r")
  case True
  have hit: "find (\<lambda>row. archive_key row = archive_key r)
      (map (\<lambda>row. if archive_key row = archive_key r then r else row) xs) = Some r" if "archive_key r \<in> archive_key ` set xs" for xs
    using that by (induction xs) auto
  have miss: "find (\<lambda>row. archive_key row = archive_key r) (xs @ [r]) = Some r" if "archive_key r \<notin> archive_key ` set xs" for xs
    using that by (induction xs) auto
  show ?thesis using True hit miss unfolding row_of_def upsert_def by auto
next
  case False
  have "find (\<lambda>row. archive_key row = k) (xs @ [r]) = find (\<lambda>row. archive_key row = k) xs" for xs
    using False by (induction xs) auto
  then show ?thesis using False find_filter_map unfolding row_of_def upsert_def by simp
qed

lemma upsert_again: "upsert r (upsert r table) = upsert r table"
  unfolding upsert_def by (auto simp: image_iff intro!: map_idI)

text \<open>
  Archiving is an idempotent write of one row: the record made of a run is already in normal form, so
  the store keeps it under the run's namespace, name and UID with the digest it reports, every other
  row stays as it was, the table keeps one row per key, and archiving the record again changes
  nothing.
\<close>

theorem archived_run_has_one_row:
  assumes "distinct (map archive_key table)" and "NewAgentRunArchiveRecord aj now run archivedAt = Inr r" and "archivedAt \<noteq> 0"
  shows "\<exists>table'. postgres_ArchiveAgentRun aj now' table r =
      (Inr \<lparr>ar_Store = AgentRunArchiveStorePostgres, ar_ArchivedAt = archivedAt, ar_Digest = ark_Digest r\<rparr>, table') \<and>
    archive_key r = (TrimSpace (run_Namespace run), TrimSpace (run_Name run), TrimSpace (run_UID run)) \<and>
    distinct (map archive_key table') \<and> row_of table' = (row_of table)(archive_key r \<mapsto> r) \<and>
    snd (postgres_ArchiveAgentRun aj now'' table' r) = table'"
proof -
  obtain a b c d e f where n: "NormalizeAgentRunArchiveRecord aj now (archive_fields run archivedAt a b c d e f) = Inr r"
    using assms(2,3) unfolding NewAgentRunArchiveRecord_def Let_def by (auto split: sum.splits)
  obtain dg where r: "r = (trim_record (archive_fields run archivedAt a b c d e f))
      \<lparr>ark_ArchivedAt := (if ark_ArchivedAt (archive_fields run archivedAt a b c d e f) = 0 then now
          else ark_ArchivedAt (archive_fields run archivedAt a b c d e f)),
       ark_Labels := default_json ''{}'' (ark_Labels (archive_fields run archivedAt a b c d e f)),
       ark_Annotations := default_json ''{}'' (ark_Annotations (archive_fields run archivedAt a b c d e f)),
       ark_Reports := default_json ''[]'' (ark_Reports (archive_fields run archivedAt a b c d e f)), ark_Digest := dg\<rparr>"
    by (rule Normalize_shape [OF n])
  have at: "ark_ArchivedAt r = archivedAt" using assms(3) unfolding r by (simp add: archive_fields_def Let_def)
  have key: "archive_key r = (TrimSpace (run_Namespace run), TrimSpace (run_Name run), TrimSpace (run_UID run))"
    unfolding r by (simp add: archive_key_def trim_record_def archive_fields_def Let_def)
  have norm: "NormalizeAgentRunArchiveRecord aj t r = Inr r" for t
    by (rule Normalize_idem [OF n]) (simp add: at assms(3))
  have rows: "row_of (upsert r table) = (row_of table)(archive_key r \<mapsto> r)"
    by (rule ext) (simp add: row_of_upsert)
  show ?thesis
    using key rows upsert_keys [OF assms(1), of r] upsert_again at
    unfolding postgres_ArchiveAgentRun_def norm by (simp add: norm)
qed

definition demo_archive_json :: archive_json where
  "demo_archive_json = \<lparr>aj_Spec = (\<lambda>_. Some ''{}''), aj_Status = (\<lambda>_. Some ''{}''), aj_Map = (\<lambda>_. Some ''{}''),
     aj_Decision = (\<lambda>_. Some ''{}''), aj_Reports = (\<lambda>_. Some ''[]''), aj_Digest = (\<lambda>_ _ _ _ _ _ _. Some ''{}'')\<rparr>"

definition demo_finished_run :: AgentRun where
  "demo_finished_run = demo_valid_run\<lparr>run_Meta := zero_ObjectMeta\<lparr>om_Name := ''r'', om_Namespace := ''team'', om_UID := ''u''\<rparr>,
     run_Status := (run_Status demo_valid_run)\<lparr>rs_Phase := AgentRunPhaseSucceeded\<rparr>\<rparr>"

lemma demo_archive_record: "\<exists>r. NewAgentRunArchiveRecord demo_archive_json now demo_finished_run 9 = Inr r"
proof -
  have "TrimSpace ''team'' \<noteq> []" "TrimSpace ''r'' \<noteq> []" "TrimSpace ''u'' \<noteq> []" "TrimSpace ''Succeeded'' \<noteq> []" by code_simp+
  then show ?thesis
    by (simp add: NewAgentRunArchiveRecord_def NormalizeAgentRunArchiveRecord_def agentRunArchiveDigest_def archive_fields_def
        trim_record_def marshalled_def demo_archive_json_def demo_finished_run_def Let_def split: option.split)
qed

theorem archived_run_has_one_row_witness:
  "\<exists>r table'. NewAgentRunArchiveRecord demo_archive_json 7 demo_finished_run 9 = Inr r \<and>
     postgres_ArchiveAgentRun demo_archive_json 8 [] r =
       (Inr \<lparr>ar_Store = AgentRunArchiveStorePostgres, ar_ArchivedAt = 9, ar_Digest = ark_Digest r\<rparr>, table') \<and>
     row_of table' (archive_key r) = Some r"
proof -
  obtain r where r: "NewAgentRunArchiveRecord demo_archive_json 7 demo_finished_run 9 = Inr r"
    using demo_archive_record by blast
  have "distinct (map archive_key [])" by simp
  from archived_run_has_one_row [OF this r, of 8] obtain table' where
      "postgres_ArchiveAgentRun demo_archive_json 8 [] r =
         (Inr \<lparr>ar_Store = AgentRunArchiveStorePostgres, ar_ArchivedAt = 9, ar_Digest = ark_Digest r\<rparr>, table')"
      "row_of table' = (row_of [])(archive_key r \<mapsto> r)" by fastforce
  with r show ?thesis by (metis fun_upd_same)
qed

end
