(* ===== verification/Cluster.thy ===== *)
theory Cluster
  imports VolumeTypes SituationTypes Substrate Archive
begin

text \<open>
  The cluster as the run controller and the volume controllers use it: \<open>reader\<close> is the reading
  side of a client (\<open>cl_cache\<close> the cached client, \<open>cl_api\<close> the uncached \<^verbatim>\<open>APIReader\<close>, which is the
  cached one where the operator has none), and \<open>cluster\<close> adds the writes, the pod logs, the archive
  and the actor plane. As in \<open>Kube\<close>, nothing is assumed of it in the definitions of the
  controllers: a read does not change the cluster, a write returns the server's answer and the
  next cluster.
\<close>

record 'w reader =
  rd_Kube :: "'w kube"
  rd_Composition :: "'w \<Rightarrow> composition_reader"
  rd_GetVolume :: "'w \<Rightarrow> string \<Rightarrow> string \<Rightarrow> AgentDataVolume result"
  rd_ListVolumes :: "'w \<Rightarrow> string \<Rightarrow> AgentDataVolume list result"
  rd_GetVolumeProfile :: "'w \<Rightarrow> string \<Rightarrow> string \<Rightarrow> VolumeProfile result"
  rd_GetClaim :: "'w \<Rightarrow> string \<Rightarrow> string \<Rightarrow> PersistentVolumeClaim result"
  rd_GetStorageClass :: "'w \<Rightarrow> string \<Rightarrow> string option result"
  rd_GetPersistentVolume :: "'w \<Rightarrow> string \<Rightarrow> PersistentVolume result"
  rd_GetSession :: "'w \<Rightarrow> string \<Rightarrow> string \<Rightarrow> AgentAuthSession result"
  rd_ListSessions :: "'w \<Rightarrow> string \<Rightarrow> AgentAuthSession list result"
  rd_GetCopy :: "'w \<Rightarrow> string \<Rightarrow> string \<Rightarrow> AgentDataVolumeCopy result"
  rd_ListCopies :: "'w \<Rightarrow> string \<Rightarrow> AgentDataVolumeCopy list result"
  rd_GetJob :: "'w \<Rightarrow> string \<Rightarrow> string \<Rightarrow> Job result"
  rd_ListJobs :: "'w \<Rightarrow> string \<Rightarrow> strmap \<Rightarrow> Job list result"
  rd_GetConfigMap :: "'w \<Rightarrow> string \<Rightarrow> string \<Rightarrow> ConfigMap result"
  rd_ListPods :: "'w \<Rightarrow> string \<Rightarrow> strmap \<Rightarrow> Pod list result"
  rd_GetSecret :: "'w \<Rightarrow> string \<Rightarrow> string \<Rightarrow> Secret result"
  rd_GetService :: "'w \<Rightarrow> string \<Rightarrow> string \<Rightarrow> Service result"
  rd_GetExternalSecret :: "'w \<Rightarrow> string \<Rightarrow> string \<Rightarrow> ExternalSecret result"
  rd_GetSituation :: "'w \<Rightarrow> string \<Rightarrow> string \<Rightarrow> AdverseSituation result"

text \<open>\<open>rd_GetStorageClass\<close> gives the binding mode of the class.\<close>

datatype generate_error = GenerateTransient go_error | GenerateFailed go_error

record GenerateRequest =
  gr_ActorName :: string
  gr_Atespace :: string
  gr_SessionID :: string
  gr_Prompt :: string

record 'w cluster =
  cl_cache :: "'w reader"
  cl_api :: "'w reader"
  cl_PatchRunStatus :: "'w \<Rightarrow> bool \<Rightarrow> AgentRun \<Rightarrow> AgentRun \<Rightarrow> AgentRun result \<times> 'w"
  cl_PatchRun :: "'w \<Rightarrow> AgentRun \<Rightarrow> AgentRun \<Rightarrow> AgentRun result \<times> 'w"
  cl_CreateRun :: "'w \<Rightarrow> string \<Rightarrow> AgentRun \<Rightarrow> AgentRun result \<times> 'w"
  cl_DeleteRun :: "'w \<Rightarrow> AgentRun \<Rightarrow> go_error option \<times> 'w"
  cl_CreateJob :: "'w \<Rightarrow> Job \<Rightarrow> Job result \<times> 'w"
  cl_PatchJob :: "'w \<Rightarrow> Job \<Rightarrow> Job \<Rightarrow> go_error option \<times> 'w"
  cl_DeleteJob :: "'w \<Rightarrow> Job \<Rightarrow> go_error option \<times> 'w"
  cl_CreateConfigMap :: "'w \<Rightarrow> ConfigMap \<Rightarrow> ConfigMap result \<times> 'w"
  cl_UpdateConfigMap :: "'w \<Rightarrow> ConfigMap \<Rightarrow> ConfigMap result \<times> 'w"
  cl_UpdateExternalSecret :: "'w \<Rightarrow> ExternalSecret \<Rightarrow> go_error option \<times> 'w"
  cl_CreateVolume :: "'w \<Rightarrow> AgentDataVolume \<Rightarrow> AgentDataVolume result \<times> 'w"
  cl_PatchVolumeStatus :: "'w \<Rightarrow> AgentDataVolume \<Rightarrow> AgentDataVolume \<Rightarrow> go_error option \<times> 'w"
  cl_PatchVolumeProfileStatus :: "'w \<Rightarrow> VolumeProfile \<Rightarrow> VolumeProfile \<Rightarrow> go_error option \<times> 'w"
  cl_CreateClaim :: "'w \<Rightarrow> PersistentVolumeClaim \<Rightarrow> go_error option \<times> 'w"
  cl_PatchClaim :: "'w \<Rightarrow> PersistentVolumeClaim \<Rightarrow> PersistentVolumeClaim \<Rightarrow> PersistentVolumeClaim result \<times> 'w"
  cl_PatchSessionStatus :: "'w \<Rightarrow> AgentAuthSession \<Rightarrow> AgentAuthSession \<Rightarrow> go_error option \<times> 'w"
  cl_PatchCopyStatus :: "'w \<Rightarrow> AgentDataVolumeCopy \<Rightarrow> AgentDataVolumeCopy \<Rightarrow> go_error option \<times> 'w"
  cl_CreateSecret :: "'w \<Rightarrow> Secret \<Rightarrow> go_error option \<times> 'w"
  cl_PatchSecret :: "'w \<Rightarrow> Secret \<Rightarrow> Secret \<Rightarrow> go_error option \<times> 'w"
  cl_DeleteSecret :: "'w \<Rightarrow> Secret \<Rightarrow> go_error option \<times> 'w"
  cl_CreateService :: "'w \<Rightarrow> Service \<Rightarrow> Service result \<times> 'w"
  cl_ReadPodLogs :: "'w \<Rightarrow> string \<Rightarrow> string \<Rightarrow> string result"
  cl_ArchiveAgentRun :: "('w \<Rightarrow> AgentRunArchiveRecord \<Rightarrow> AgentRunArchiveResult result \<times> 'w) option"
  cl_Actors :: "'w actor_client"
  cl_Generate :: "'w \<Rightarrow> GenerateRequest \<Rightarrow> (generate_error + string) \<times> 'w"
  cl_SetStatusCondition :: "Condition list \<Rightarrow> Condition \<Rightarrow> Condition list"
  cl_RemoveStatusCondition :: "Condition list \<Rightarrow> string \<Rightarrow> Condition list"
  cl_SetControllerReference :: "OwnerReference list \<Rightarrow> OwnerReference \<Rightarrow> OwnerReference list result"
  cl_ParseQuantity :: "string \<Rightarrow> Quantity option"

text \<open>
  \<open>cl_PatchRunStatus\<close> takes the flag of the optimistic lock; \<open>cl_CreateRun\<close> takes
  \<^verbatim>\<open>metadata.generateName\<close> (empty where the name is given); \<open>cl_SetControllerReference\<close> is
  \<^verbatim>\<open>controllerutil.SetControllerReference\<close> on the owners of an object, \<open>cl_ParseQuantity\<close> is
  \<^verbatim>\<open>resource.ParseQuantity\<close>.
\<close>

definition owner_ref :: "string \<Rightarrow> ObjectMeta \<Rightarrow> OwnerReference" where
  "owner_ref kind meta = \<lparr>own_APIVersion = GroupVersion, own_Kind = kind, own_Name = om_Name meta,
     own_UID = om_UID meta, own_Controller = Some True\<rparr>"

definition own :: "'w cluster \<Rightarrow> string \<Rightarrow> ObjectMeta \<Rightarrow> ObjectMeta \<Rightarrow> ObjectMeta result" where
  "own cl kind owner meta =
     (case cl_SetControllerReference cl (om_OwnerReferences meta) (owner_ref kind owner) of
        Inl e \<Rightarrow> Inl e
      | Inr owners \<Rightarrow> Inr (meta\<lparr>om_OwnerReferences := owners\<rparr>))"

text \<open>\<^verbatim>\<open>metav1.GetControllerOf(x)\<close> compared with an object: the guard against foreign objects.\<close>

definition controlled_by :: "string \<Rightarrow> ObjectMeta \<Rightarrow> ObjectMeta \<Rightarrow> bool" where
  "controlled_by kind meta owner \<longleftrightarrow>
     (case GetControllerOf meta of
        None \<Rightarrow> False
      | Some o' \<Rightarrow> own_APIVersion o' = GroupVersion \<and> own_Kind o' = kind \<and> own_Name o' = om_Name owner \<and> own_UID o' = om_UID owner)"

definition condition :: "string \<Rightarrow> ConditionStatus \<Rightarrow> int \<Rightarrow> instant \<Rightarrow> string \<Rightarrow> string \<Rightarrow> Condition" where
  "condition type status generation now reason message =
     \<lparr>cond_Type = type, cond_Status = status, cond_ObservedGeneration = generation, cond_LastTransitionTime = now,
      cond_Reason = reason, cond_Message = message\<rparr>"

definition local_ref :: "string \<Rightarrow> string \<Rightarrow> NamespacedObjectReference" where
  "local_ref name namespace = \<lparr>nor_Name = name, nor_Namespace = namespace\<rparr>"

end
