(* ===== verification/Observed.thy ===== *)
theory Observed
  imports Cluster
begin

text \<open>
  The writes of a controller: \<open>logged cl\<close> is the cluster \<open>cl\<close> with a log of the writes made through it,
  with the server's answers. It answers every call as \<open>cl\<close> does, so a statement about the log of a
  controller on \<open>logged cl\<close> is a statement about the writes it makes on \<open>cl\<close>, whatever the API server
  answers and whatever other clients do between two calls.
\<close>

datatype cluster_event =
    PatchedRunStatus bool AgentRun AgentRun "AgentRun result"
  | PatchedRun AgentRun AgentRun "AgentRun result"
  | CreatedRun string AgentRun "AgentRun result"
  | DeletedRun AgentRun "go_error option"
  | CreatedJob Job "Job result"
  | PatchedJob Job Job "go_error option"
  | DeletedJob Job "go_error option"
  | CreatedConfigMap ConfigMap "ConfigMap result"
  | UpdatedConfigMap ConfigMap "ConfigMap result"
  | UpdatedExternalSecret ExternalSecret "go_error option"
  | CreatedVolume AgentDataVolume "AgentDataVolume result"
  | PatchedVolumeStatus AgentDataVolume AgentDataVolume "go_error option"
  | PatchedVolumeProfileStatus VolumeProfile VolumeProfile "go_error option"
  | CreatedClaim PersistentVolumeClaim "go_error option"
  | PatchedClaim PersistentVolumeClaim PersistentVolumeClaim "PersistentVolumeClaim result"
  | PatchedSessionStatus AgentAuthSession AgentAuthSession "go_error option"
  | PatchedCopyStatus AgentDataVolumeCopy AgentDataVolumeCopy "go_error option"
  | CreatedSecret Secret "go_error option"
  | PatchedSecret Secret Secret "go_error option"
  | DeletedSecret Secret "go_error option"
  | CreatedService Service "Service result"
  | ArchivedRun AgentRunArchiveRecord "AgentRunArchiveResult result"
  | CreatedActor ActorSpec "actor_error + ActorHandle"
  | ResumedActor string string "actor_error + ActorHandle"
  | SuspendedActor string string "actor_error + ActorHandle"
  | PausedActor string string "actor_error + ActorHandle"
  | Generated GenerateRequest "generate_error + string"

type_synonym 'w seen = "'w \<times> cluster_event list"

text \<open>A write that logs the event made of the server's answer.\<close>

definition noted :: "('a \<Rightarrow> cluster_event) \<Rightarrow> 'a \<times> 'w \<Rightarrow> cluster_event list \<Rightarrow> 'a \<times> 'w seen" where
  "noted ev r l = (case r of (a, w') \<Rightarrow> (a, (w', l @ [ev a])))"

definition quiet :: "'a \<times> 'w \<Rightarrow> cluster_event list \<Rightarrow> 'a \<times> 'w seen" where
  "quiet r l = (case r of (a, w') \<Rightarrow> (a, (w', l)))"

definition logged_kube :: "'w kube \<Rightarrow> 'w seen kube" where
  "logged_kube k = \<lparr>
     k_GetRun = (\<lambda>(w, l). k_GetRun k w),
     k_ListRuns = (\<lambda>(w, l). k_ListRuns k w),
     k_CreateRun = (\<lambda>(w, l) a. quiet (k_CreateRun k w a) l),
     k_PatchRun = (\<lambda>(w, l) a b. quiet (k_PatchRun k w a b) l),
     k_GetProfile = (\<lambda>(w, l). k_GetProfile k w),
     k_GetControl = (\<lambda>(w, l). k_GetControl k w),
     k_ListControls = (\<lambda>(w, l). k_ListControls k w),
     k_PatchControlStatus = (\<lambda>(w, l) a b. quiet (k_PatchControlStatus k w a b) l),
     k_GetSchedule = (\<lambda>(w, l). k_GetSchedule k w),
     k_ListSchedules = (\<lambda>(w, l). k_ListSchedules k w),
     k_PatchScheduleStatus = (\<lambda>(w, l) a b. quiet (k_PatchScheduleStatus k w a b) l),
     k_GetChain = (\<lambda>(w, l). k_GetChain k w),
     k_PatchChain = (\<lambda>(w, l) a b. quiet (k_PatchChain k w a b) l),
     k_PatchChainStatus = (\<lambda>(w, l) a b. quiet (k_PatchChainStatus k w a b) l),
     k_SetStatusCondition = k_SetStatusCondition k,
     k_ContainsFinalizer = k_ContainsFinalizer k,
     k_AddFinalizer = k_AddFinalizer k,
     k_RemoveFinalizer = k_RemoveFinalizer k,
     k_MarshalRunSpec = k_MarshalRunSpec k,
     k_MarshalWorkflow = k_MarshalWorkflow k,
     k_TZOffset = k_TZOffset k,
     k_TimeParse = k_TimeParse k\<rparr>"

definition logged_reader :: "'w reader \<Rightarrow> 'w seen reader" where
  "logged_reader rd = \<lparr>
     rd_Kube = logged_kube (rd_Kube rd),
     rd_Composition = (\<lambda>(w, l). rd_Composition rd w),
     rd_GetVolume = (\<lambda>(w, l). rd_GetVolume rd w),
     rd_ListVolumes = (\<lambda>(w, l). rd_ListVolumes rd w),
     rd_GetVolumeProfile = (\<lambda>(w, l). rd_GetVolumeProfile rd w),
     rd_GetClaim = (\<lambda>(w, l). rd_GetClaim rd w),
     rd_GetStorageClass = (\<lambda>(w, l). rd_GetStorageClass rd w),
     rd_GetPersistentVolume = (\<lambda>(w, l). rd_GetPersistentVolume rd w),
     rd_GetSession = (\<lambda>(w, l). rd_GetSession rd w),
     rd_ListSessions = (\<lambda>(w, l). rd_ListSessions rd w),
     rd_GetCopy = (\<lambda>(w, l). rd_GetCopy rd w),
     rd_ListCopies = (\<lambda>(w, l). rd_ListCopies rd w),
     rd_GetJob = (\<lambda>(w, l). rd_GetJob rd w),
     rd_ListJobs = (\<lambda>(w, l). rd_ListJobs rd w),
     rd_GetConfigMap = (\<lambda>(w, l). rd_GetConfigMap rd w),
     rd_ListPods = (\<lambda>(w, l). rd_ListPods rd w),
     rd_GetSecret = (\<lambda>(w, l). rd_GetSecret rd w),
     rd_GetService = (\<lambda>(w, l). rd_GetService rd w),
     rd_GetExternalSecret = (\<lambda>(w, l). rd_GetExternalSecret rd w),
     rd_GetSituation = (\<lambda>(w, l). rd_GetSituation rd w)\<rparr>"

definition logged_actors :: "'w actor_client \<Rightarrow> 'w seen actor_client" where
  "logged_actors a = \<lparr>
     ac_CreateActor = (\<lambda>(w, l) spec. noted (CreatedActor spec) (ac_CreateActor a w spec) l),
     ac_ResumeActor = (\<lambda>(w, l) ns n. noted (ResumedActor ns n) (ac_ResumeActor a w ns n) l),
     ac_SuspendActor = (\<lambda>(w, l) ns n. noted (SuspendedActor ns n) (ac_SuspendActor a w ns n) l),
     ac_PauseActor = (\<lambda>(w, l) ns n. noted (PausedActor ns n) (ac_PauseActor a w ns n) l),
     ac_DescribeActor = (\<lambda>(w, l) ns n. quiet (ac_DescribeActor a w ns n) l)\<rparr>"

definition logged :: "'w cluster \<Rightarrow> 'w seen cluster" where
  "logged cl = \<lparr>
     cl_cache = logged_reader (cl_cache cl),
     cl_api = logged_reader (cl_api cl),
     cl_PatchRunStatus = (\<lambda>(w, l) a b c. noted (PatchedRunStatus a b c) (cl_PatchRunStatus cl w a b c) l),
     cl_PatchRun = (\<lambda>(w, l) a b. noted (PatchedRun a b) (cl_PatchRun cl w a b) l),
     cl_CreateRun = (\<lambda>(w, l) a b. noted (CreatedRun a b) (cl_CreateRun cl w a b) l),
     cl_DeleteRun = (\<lambda>(w, l) a. noted (DeletedRun a) (cl_DeleteRun cl w a) l),
     cl_CreateJob = (\<lambda>(w, l) a. noted (CreatedJob a) (cl_CreateJob cl w a) l),
     cl_PatchJob = (\<lambda>(w, l) a b. noted (PatchedJob a b) (cl_PatchJob cl w a b) l),
     cl_DeleteJob = (\<lambda>(w, l) a. noted (DeletedJob a) (cl_DeleteJob cl w a) l),
     cl_CreateConfigMap = (\<lambda>(w, l) a. noted (CreatedConfigMap a) (cl_CreateConfigMap cl w a) l),
     cl_UpdateConfigMap = (\<lambda>(w, l) a. noted (UpdatedConfigMap a) (cl_UpdateConfigMap cl w a) l),
     cl_UpdateExternalSecret = (\<lambda>(w, l) a. noted (UpdatedExternalSecret a) (cl_UpdateExternalSecret cl w a) l),
     cl_CreateVolume = (\<lambda>(w, l) a. noted (CreatedVolume a) (cl_CreateVolume cl w a) l),
     cl_PatchVolumeStatus = (\<lambda>(w, l) a b. noted (PatchedVolumeStatus a b) (cl_PatchVolumeStatus cl w a b) l),
     cl_PatchVolumeProfileStatus = (\<lambda>(w, l) a b. noted (PatchedVolumeProfileStatus a b) (cl_PatchVolumeProfileStatus cl w a b) l),
     cl_CreateClaim = (\<lambda>(w, l) a. noted (CreatedClaim a) (cl_CreateClaim cl w a) l),
     cl_PatchClaim = (\<lambda>(w, l) a b. noted (PatchedClaim a b) (cl_PatchClaim cl w a b) l),
     cl_PatchSessionStatus = (\<lambda>(w, l) a b. noted (PatchedSessionStatus a b) (cl_PatchSessionStatus cl w a b) l),
     cl_PatchCopyStatus = (\<lambda>(w, l) a b. noted (PatchedCopyStatus a b) (cl_PatchCopyStatus cl w a b) l),
     cl_CreateSecret = (\<lambda>(w, l) a. noted (CreatedSecret a) (cl_CreateSecret cl w a) l),
     cl_PatchSecret = (\<lambda>(w, l) a b. noted (PatchedSecret a b) (cl_PatchSecret cl w a b) l),
     cl_DeleteSecret = (\<lambda>(w, l) a. noted (DeletedSecret a) (cl_DeleteSecret cl w a) l),
     cl_CreateService = (\<lambda>(w, l) a. noted (CreatedService a) (cl_CreateService cl w a) l),
     cl_ReadPodLogs = (\<lambda>(w, l). cl_ReadPodLogs cl w),
     cl_ArchiveAgentRun = map_option (\<lambda>archive (w, l) r. noted (ArchivedRun r) (archive w r) l) (cl_ArchiveAgentRun cl),
     cl_Actors = logged_actors (cl_Actors cl),
     cl_Generate = (\<lambda>(w, l) a. noted (Generated a) (cl_Generate cl w a) l),
     cl_SetStatusCondition = cl_SetStatusCondition cl,
     cl_RemoveStatusCondition = cl_RemoveStatusCondition cl,
     cl_SetControllerReference = cl_SetControllerReference cl,
     cl_ParseQuantity = cl_ParseQuantity cl\<rparr>"

lemma logged_reads [simp]:
  "cl_cache (logged cl) = logged_reader (cl_cache cl)"
  "cl_api (logged cl) = logged_reader (cl_api cl)"
  "cl_ReadPodLogs (logged cl) (w, l) = cl_ReadPodLogs cl w"
  "cl_Actors (logged cl) = logged_actors (cl_Actors cl)"
  "cl_SetStatusCondition (logged cl) = cl_SetStatusCondition cl"
  "cl_RemoveStatusCondition (logged cl) = cl_RemoveStatusCondition cl"
  "cl_SetControllerReference (logged cl) = cl_SetControllerReference cl"
  "cl_ParseQuantity (logged cl) = cl_ParseQuantity cl"
  by (simp_all add: logged_def)

lemma logged_writes [simp]:
  "cl_PatchRunStatus (logged cl) (w, l) a1 b1 c1 = noted (PatchedRunStatus a1 b1 c1) (cl_PatchRunStatus cl w a1 b1 c1) l"
  "cl_PatchRun (logged cl) (w, l) a2 b2 = noted (PatchedRun a2 b2) (cl_PatchRun cl w a2 b2) l"
  "cl_CreateRun (logged cl) (w, l) a3 b3 = noted (CreatedRun a3 b3) (cl_CreateRun cl w a3 b3) l"
  "cl_DeleteRun (logged cl) (w, l) a4 = noted (DeletedRun a4) (cl_DeleteRun cl w a4) l"
  "cl_CreateJob (logged cl) (w, l) a5 = noted (CreatedJob a5) (cl_CreateJob cl w a5) l"
  "cl_PatchJob (logged cl) (w, l) a6 b6 = noted (PatchedJob a6 b6) (cl_PatchJob cl w a6 b6) l"
  "cl_DeleteJob (logged cl) (w, l) a7 = noted (DeletedJob a7) (cl_DeleteJob cl w a7) l"
  "cl_CreateConfigMap (logged cl) (w, l) a8 = noted (CreatedConfigMap a8) (cl_CreateConfigMap cl w a8) l"
  "cl_UpdateConfigMap (logged cl) (w, l) a9 = noted (UpdatedConfigMap a9) (cl_UpdateConfigMap cl w a9) l"
  "cl_UpdateExternalSecret (logged cl) (w, l) a10 = noted (UpdatedExternalSecret a10) (cl_UpdateExternalSecret cl w a10) l"
  "cl_CreateVolume (logged cl) (w, l) a11 = noted (CreatedVolume a11) (cl_CreateVolume cl w a11) l"
  "cl_PatchVolumeStatus (logged cl) (w, l) a12 b12 = noted (PatchedVolumeStatus a12 b12) (cl_PatchVolumeStatus cl w a12 b12) l"
  "cl_PatchVolumeProfileStatus (logged cl) (w, l) a13 b13 = noted (PatchedVolumeProfileStatus a13 b13) (cl_PatchVolumeProfileStatus cl w a13 b13) l"
  "cl_CreateClaim (logged cl) (w, l) a14 = noted (CreatedClaim a14) (cl_CreateClaim cl w a14) l"
  "cl_PatchClaim (logged cl) (w, l) a15 b15 = noted (PatchedClaim a15 b15) (cl_PatchClaim cl w a15 b15) l"
  "cl_PatchSessionStatus (logged cl) (w, l) a16 b16 = noted (PatchedSessionStatus a16 b16) (cl_PatchSessionStatus cl w a16 b16) l"
  "cl_PatchCopyStatus (logged cl) (w, l) a17 b17 = noted (PatchedCopyStatus a17 b17) (cl_PatchCopyStatus cl w a17 b17) l"
  "cl_CreateSecret (logged cl) (w, l) a18 = noted (CreatedSecret a18) (cl_CreateSecret cl w a18) l"
  "cl_PatchSecret (logged cl) (w, l) a19 b19 = noted (PatchedSecret a19 b19) (cl_PatchSecret cl w a19 b19) l"
  "cl_DeleteSecret (logged cl) (w, l) a20 = noted (DeletedSecret a20) (cl_DeleteSecret cl w a20) l"
  "cl_CreateService (logged cl) (w, l) a21 = noted (CreatedService a21) (cl_CreateService cl w a21) l"
  "cl_ArchiveAgentRun (logged cl) = map_option (\<lambda>archive (w, l) r. noted (ArchivedRun r) (archive w r) l) (cl_ArchiveAgentRun cl)"
  "cl_Generate (logged cl) (w, l) a23 = noted (Generated a23) (cl_Generate cl w a23) l"
  by (simp_all add: logged_def)

lemma logged_reader_reads [simp]:
  "rd_Kube (logged_reader rd) = logged_kube (rd_Kube rd)"
  "rd_Composition (logged_reader rd) (w, l) = rd_Composition rd w"
  "rd_GetVolume (logged_reader rd) (w, l) = rd_GetVolume rd w"
  "rd_ListVolumes (logged_reader rd) (w, l) = rd_ListVolumes rd w"
  "rd_GetVolumeProfile (logged_reader rd) (w, l) = rd_GetVolumeProfile rd w"
  "rd_GetClaim (logged_reader rd) (w, l) = rd_GetClaim rd w"
  "rd_GetStorageClass (logged_reader rd) (w, l) = rd_GetStorageClass rd w"
  "rd_GetPersistentVolume (logged_reader rd) (w, l) = rd_GetPersistentVolume rd w"
  "rd_GetSession (logged_reader rd) (w, l) = rd_GetSession rd w"
  "rd_ListSessions (logged_reader rd) (w, l) = rd_ListSessions rd w"
  "rd_GetCopy (logged_reader rd) (w, l) = rd_GetCopy rd w"
  "rd_ListCopies (logged_reader rd) (w, l) = rd_ListCopies rd w"
  "rd_GetJob (logged_reader rd) (w, l) = rd_GetJob rd w"
  "rd_ListJobs (logged_reader rd) (w, l) = rd_ListJobs rd w"
  "rd_GetConfigMap (logged_reader rd) (w, l) = rd_GetConfigMap rd w"
  "rd_ListPods (logged_reader rd) (w, l) = rd_ListPods rd w"
  "rd_GetSecret (logged_reader rd) (w, l) = rd_GetSecret rd w"
  "rd_GetService (logged_reader rd) (w, l) = rd_GetService rd w"
  "rd_GetExternalSecret (logged_reader rd) (w, l) = rd_GetExternalSecret rd w"
  "rd_GetSituation (logged_reader rd) (w, l) = rd_GetSituation rd w"
  by (simp_all add: logged_reader_def)

lemma logged_kube_reads [simp]:
  "k_GetRun (logged_kube k) (w, l) = k_GetRun k w"
  "k_ListRuns (logged_kube k) (w, l) = k_ListRuns k w"
  "k_GetProfile (logged_kube k) (w, l) = k_GetProfile k w"
  "k_GetControl (logged_kube k) (w, l) = k_GetControl k w"
  "k_ListControls (logged_kube k) (w, l) = k_ListControls k w"
  "k_GetSchedule (logged_kube k) (w, l) = k_GetSchedule k w"
  "k_ListSchedules (logged_kube k) (w, l) = k_ListSchedules k w"
  "k_GetChain (logged_kube k) (w, l) = k_GetChain k w"
  "k_SetStatusCondition (logged_kube k) = k_SetStatusCondition k"
  "k_ContainsFinalizer (logged_kube k) = k_ContainsFinalizer k"
  "k_AddFinalizer (logged_kube k) = k_AddFinalizer k"
  "k_RemoveFinalizer (logged_kube k) = k_RemoveFinalizer k"
  "k_MarshalRunSpec (logged_kube k) = k_MarshalRunSpec k"
  "k_MarshalWorkflow (logged_kube k) = k_MarshalWorkflow k"
  "k_TZOffset (logged_kube k) = k_TZOffset k"
  "k_TimeParse (logged_kube k) = k_TimeParse k"
  by (simp_all add: logged_kube_def)

lemma noted_pair [simp]: "noted ev (a, w) l = (a, (w, l @ [ev a]))"
  by (simp add: noted_def)

lemma quiet_pair [simp]: "quiet (a, w) l = (a, (w, l))"
  by (simp add: quiet_def)

text \<open>The log after a result.\<close>

definition writes :: "'a \<times> 'w seen \<Rightarrow> cluster_event list" where
  "writes x = snd (snd x)"

lemma writes_pair [simp]: "writes (a, (w, l)) = l"
  by (simp add: writes_def)

lemma writes_noted [simp]: "writes (noted ev r l) = l @ [ev (fst r)]"
  by (cases r) simp

lemma writes_quiet [simp]: "writes (quiet r l) = l"
  by (cases r) simp

text \<open>The Jobs and the runs a log asks the server to create.\<close>

definition created_jobs :: "cluster_event list \<Rightarrow> Job list" where
  "created_jobs l = List.map_filter (\<lambda>ev. case ev of CreatedJob job r \<Rightarrow> Some job | _ \<Rightarrow> None) l"

lemma created_jobs_simps [simp]:
  "created_jobs [] = []"
  "created_jobs (ev # l) = (case ev of CreatedJob job r \<Rightarrow> [job] | _ \<Rightarrow> []) @ created_jobs l"
  "created_jobs (l1 @ l2) = created_jobs l1 @ created_jobs l2"
  by (simp_all add: created_jobs_def map_filter_def split: cluster_event.splits)

definition created_runs :: "cluster_event list \<Rightarrow> (string \<times> AgentRun) list" where
  "created_runs l = List.map_filter (\<lambda>ev. case ev of CreatedRun g run r \<Rightarrow> Some (g, run) | _ \<Rightarrow> None) l"

lemma created_runs_simps [simp]:
  "created_runs [] = []"
  "created_runs (ev # l) = (case ev of CreatedRun g run r \<Rightarrow> [(g, run)] | _ \<Rightarrow> []) @ created_runs l"
  "created_runs (l1 @ l2) = created_runs l1 @ created_runs l2"
  by (simp_all add: created_runs_def map_filter_def split: cluster_event.splits)

lemma created_jobs_iff: "job \<in> set (created_jobs l) \<longleftrightarrow> (\<exists>r. CreatedJob job r \<in> set l)"
  by (induction l) (auto split: cluster_event.splits)

subsection \<open>What a step adds to the log\<close>

text \<open>The same equations for a cluster that is not given as a pair.\<close>

lemma logged_step:
  "cl_PatchRunStatus (logged cl) x a1 b1 c1 = noted (PatchedRunStatus a1 b1 c1) (cl_PatchRunStatus cl (fst x) a1 b1 c1) (snd x)"
  "cl_PatchRun (logged cl) x a2 b2 = noted (PatchedRun a2 b2) (cl_PatchRun cl (fst x) a2 b2) (snd x)"
  "cl_CreateRun (logged cl) x a3 b3 = noted (CreatedRun a3 b3) (cl_CreateRun cl (fst x) a3 b3) (snd x)"
  "cl_DeleteRun (logged cl) x a4 = noted (DeletedRun a4) (cl_DeleteRun cl (fst x) a4) (snd x)"
  "cl_CreateJob (logged cl) x a5 = noted (CreatedJob a5) (cl_CreateJob cl (fst x) a5) (snd x)"
  "cl_PatchJob (logged cl) x a6 b6 = noted (PatchedJob a6 b6) (cl_PatchJob cl (fst x) a6 b6) (snd x)"
  "cl_DeleteJob (logged cl) x a7 = noted (DeletedJob a7) (cl_DeleteJob cl (fst x) a7) (snd x)"
  "cl_CreateConfigMap (logged cl) x a8 = noted (CreatedConfigMap a8) (cl_CreateConfigMap cl (fst x) a8) (snd x)"
  "cl_UpdateConfigMap (logged cl) x a9 = noted (UpdatedConfigMap a9) (cl_UpdateConfigMap cl (fst x) a9) (snd x)"
  "cl_UpdateExternalSecret (logged cl) x a10 = noted (UpdatedExternalSecret a10) (cl_UpdateExternalSecret cl (fst x) a10) (snd x)"
  "cl_Generate (logged cl) x a11 = noted (Generated a11) (cl_Generate cl (fst x) a11) (snd x)"
  "cl_ReadPodLogs (logged cl) x = cl_ReadPodLogs cl (fst x)"
  "ac_CreateActor (logged_actors ac) x spec = noted (CreatedActor spec) (ac_CreateActor ac (fst x) spec) (snd x)"
  "ac_ResumeActor (logged_actors ac) x ns n = noted (ResumedActor ns n) (ac_ResumeActor ac (fst x) ns n) (snd x)"
  "ac_SuspendActor (logged_actors ac) x ns n = noted (SuspendedActor ns n) (ac_SuspendActor ac (fst x) ns n) (snd x)"
  "ac_DescribeActor (logged_actors ac) x ns n = quiet (ac_DescribeActor ac (fst x) ns n) (snd x)"
  by (cases x; simp add: logged_def logged_actors_def)+

lemma logged_read:
  "rd_Composition (logged_reader rd) x = rd_Composition rd (fst x)"
  "rd_GetVolume (logged_reader rd) x = rd_GetVolume rd (fst x)"
  "rd_GetClaim (logged_reader rd) x = rd_GetClaim rd (fst x)"
  "rd_GetStorageClass (logged_reader rd) x = rd_GetStorageClass rd (fst x)"
  "rd_GetPersistentVolume (logged_reader rd) x = rd_GetPersistentVolume rd (fst x)"
  "rd_ListSessions (logged_reader rd) x = rd_ListSessions rd (fst x)"
  "rd_ListCopies (logged_reader rd) x = rd_ListCopies rd (fst x)"
  "rd_GetJob (logged_reader rd) x = rd_GetJob rd (fst x)"
  "rd_ListJobs (logged_reader rd) x = rd_ListJobs rd (fst x)"
  "rd_GetConfigMap (logged_reader rd) x = rd_GetConfigMap rd (fst x)"
  "rd_ListPods (logged_reader rd) x = rd_ListPods rd (fst x)"
  "rd_GetSecret (logged_reader rd) x = rd_GetSecret rd (fst x)"
  "rd_GetExternalSecret (logged_reader rd) x = rd_GetExternalSecret rd (fst x)"
  "rd_GetSituation (logged_reader rd) x = rd_GetSituation rd (fst x)"
  "k_GetRun (logged_kube k) x = k_GetRun k (fst x)"
  "k_ListRuns (logged_kube k) x = k_ListRuns k (fst x)"
  "k_GetProfile (logged_kube k) x = k_GetProfile k (fst x)"
  "k_GetControl (logged_kube k) x = k_GetControl k (fst x)"
  "k_ListControls (logged_kube k) x = k_ListControls k (fst x)"
  "k_GetSchedule (logged_kube k) x = k_GetSchedule k (fst x)"
  "k_ListSchedules (logged_kube k) x = k_ListSchedules k (fst x)"
  by (cases x; simp)+

text \<open>\<open>extends P x y\<close>: between \<open>x\<close> and \<open>y\<close> only writes that satisfy \<open>P\<close> were made.\<close>

definition extends :: "(cluster_event \<Rightarrow> bool) \<Rightarrow> 'w seen \<Rightarrow> 'w seen \<Rightarrow> bool" where
  "extends P x y \<longleftrightarrow> (\<exists>t. snd y = snd x @ t \<and> list_all P t)"

lemma extends_refl [simp, intro]: "extends P x x"
  by (simp add: extends_def)

lemma extends_trans [trans]: "extends P x y \<Longrightarrow> extends P y z \<Longrightarrow> extends P x z"
  by (auto simp: extends_def)

lemma extends_mono: "extends P x y \<Longrightarrow> (\<And>ev. P ev \<Longrightarrow> Q ev) \<Longrightarrow> extends Q x y"
  by (auto simp: extends_def list_all_iff)

lemma extends_log: "extends P (w, l) y \<Longrightarrow> ev \<in> set (snd y) \<Longrightarrow> ev \<in> set l \<or> P ev"
  by (auto simp: extends_def list_all_iff)

lemma extends_writes: "extends P (w, []) (snd y) \<Longrightarrow> ev \<in> set (writes y) \<Longrightarrow> P ev"
  by (auto simp: extends_def list_all_iff writes_def)

lemma noted_step:
  assumes "noted ev r (snd x) = (a, y)" "P (ev a)"
  shows "extends P x y"
  using assms by (cases r) (auto simp: extends_def)

lemma noted_extends: "extends P x (snd (noted ev r (snd x))) \<longleftrightarrow> P (ev (fst r))"
  by (cases r) (auto simp: extends_def)

lemma quiet_step: "quiet r (snd x) = (a, y) \<Longrightarrow> extends P x y"
  by (cases r) (auto simp: extends_def)

end
