(* ===== verification/MemCluster.thy ===== *)
theory MemCluster
  imports Observed MemKube
begin

text \<open>
  One concrete cluster: an in-memory API server with all the objects of \<open>Cluster\<close>, the in-memory
  actor client and the archive's table. Its cache is always fresh. A status patch changes the fields
  the caller changed and fails with a conflict if the optimistic lock is asked for and the object
  has another resource version; a create fails if the name is taken and gives a fresh UID.
\<close>

subsection \<open>State\<close>

record mem_cluster_state =
  mc_Kube :: mem
  mc_Next :: int
  mc_Composition :: composition_reader
  mc_Volumes :: "AgentDataVolume list"
  mc_VolumeProfiles :: "VolumeProfile list"
  mc_Claims :: "PersistentVolumeClaim list"
  mc_StorageClasses :: "(string \<times> string option) list"
  mc_PersistentVolumes :: "(string \<times> PersistentVolume) list"
  mc_Sessions :: "AgentAuthSession list"
  mc_Copies :: "AgentDataVolumeCopy list"
  mc_Jobs :: "Job list"
  mc_ConfigMaps :: "ConfigMap list"
  mc_Pods :: "Pod list"
  mc_Secrets :: "Secret list"
  mc_Services :: "Service list"
  mc_ExternalSecrets :: "ExternalSecret list"
  mc_Situations :: "AdverseSituation list"
  mc_Logs :: "(string \<times> string) list"
  mc_Archive :: archive_table
  mc_Actors :: FakeClient
  mc_Reply :: "generate_error + string"

text \<open>A client of a part of a state.\<close>

definition part_kube :: "('v \<Rightarrow> 'w) \<Rightarrow> ('w \<Rightarrow> 'v \<Rightarrow> 'v) \<Rightarrow> 'w kube \<Rightarrow> 'v kube" where
  "part_kube get put k = \<lparr>
     k_GetRun = (\<lambda>v. k_GetRun k (get v)),
     k_ListRuns = (\<lambda>v. k_ListRuns k (get v)),
     k_CreateRun = (\<lambda>v a. case k_CreateRun k (get v) a of (r, w) \<Rightarrow> (r, put w v)),
     k_PatchRun = (\<lambda>v a b. case k_PatchRun k (get v) a b of (r, w) \<Rightarrow> (r, put w v)),
     k_GetProfile = (\<lambda>v. k_GetProfile k (get v)),
     k_GetControl = (\<lambda>v. k_GetControl k (get v)),
     k_ListControls = (\<lambda>v. k_ListControls k (get v)),
     k_PatchControlStatus = (\<lambda>v a b. case k_PatchControlStatus k (get v) a b of (r, w) \<Rightarrow> (r, put w v)),
     k_GetSchedule = (\<lambda>v. k_GetSchedule k (get v)),
     k_ListSchedules = (\<lambda>v. k_ListSchedules k (get v)),
     k_PatchScheduleStatus = (\<lambda>v a b. case k_PatchScheduleStatus k (get v) a b of (r, w) \<Rightarrow> (r, put w v)),
     k_GetChain = (\<lambda>v. k_GetChain k (get v)),
     k_PatchChain = (\<lambda>v a b. case k_PatchChain k (get v) a b of (r, w) \<Rightarrow> (r, put w v)),
     k_PatchChainStatus = (\<lambda>v a b. case k_PatchChainStatus k (get v) a b of (r, w) \<Rightarrow> (r, put w v)),
     k_SetStatusCondition = k_SetStatusCondition k,
     k_ContainsFinalizer = k_ContainsFinalizer k,
     k_AddFinalizer = k_AddFinalizer k,
     k_RemoveFinalizer = k_RemoveFinalizer k,
     k_MarshalRunSpec = k_MarshalRunSpec k,
     k_MarshalWorkflow = k_MarshalWorkflow k,
     k_TZOffset = k_TZOffset k,
     k_TimeParse = k_TimeParse k\<rparr>"

subsection \<open>Writes\<close>

definition merged :: "('s \<Rightarrow> 'f) \<Rightarrow> 's \<Rightarrow> 's \<Rightarrow> 's \<Rightarrow> 'f" where
  "merged f stored old new = (if f old = f new then f stored else f new)"

text \<open>A merge patch of a status: the fields that differ between the two versions the caller has.\<close>

definition merge_status :: "AgentRunStatus \<Rightarrow> AgentRunStatus \<Rightarrow> AgentRunStatus \<Rightarrow> AgentRunStatus" where
  "merge_status stored old new = \<lparr>
     rs_ObservedGeneration = merged rs_ObservedGeneration stored old new,
     rs_Conditions = merged rs_Conditions stored old new,
     rs_Phase = merged rs_Phase stored old new,
     rs_Backend = merged rs_Backend stored old new,
     rs_Model = merged rs_Model stored old new,
     rs_Intent = merged rs_Intent stored old new,
     rs_Image = merged rs_Image stored old new,
     rs_ExecutionRuntime = merged rs_ExecutionRuntime stored old new,
     rs_SubstrateActor = merged rs_SubstrateActor stored old new,
     rs_PlannedJobRef = merged rs_PlannedJobRef stored old new,
     rs_JobCreateAttemptedAt = merged rs_JobCreateAttemptedAt stored old new,
     rs_JobRef = merged rs_JobRef stored old new,
     rs_JobUID = merged rs_JobUID stored old new,
     rs_JobSpecDigest = merged rs_JobSpecDigest stored old new,
     rs_PayloadRef = merged rs_PayloadRef stored old new,
     rs_PayloadUID = merged rs_PayloadUID stored old new,
     rs_RunnerPodRef = merged rs_RunnerPodRef stored old new,
     rs_RunnerPodUID = merged rs_RunnerPodUID stored old new,
     rs_RunnerNode = merged rs_RunnerNode stored old new,
     rs_DataVolumes = merged rs_DataVolumes stored old new,
     rs_ExternalSecretRefreshes = merged rs_ExternalSecretRefreshes stored old new,
     rs_Archive = merged rs_Archive stored old new,
     rs_ResolvedComposition = merged rs_ResolvedComposition stored old new,
     rs_StartedAt = merged rs_StartedAt stored old new,
     rs_CompletedAt = merged rs_CompletedAt stored old new,
     rs_PromptHash = merged rs_PromptHash stored old new,
     rs_Decision = merged rs_Decision stored old new,
     rs_Reports = merged rs_Reports stored old new,
     rs_Result = merged rs_Result stored old new,
     rs_Output = merged rs_Output stored old new,
     rs_PullRequestURL = merged rs_PullRequestURL stored old new,
     rs_Error = merged rs_Error stored old new\<rparr>"

definition born :: "int \<Rightarrow> ObjectMeta \<Rightarrow> ObjectMeta" where
  "born n meta = meta\<lparr>om_UID := ''uid-'' @ Itoa n, om_ResourceVersion := Itoa n\<rparr>"

definition taken :: "('a \<Rightarrow> ObjectMeta) \<Rightarrow> 'a \<Rightarrow> 'a list \<Rightarrow> bool" where
  "taken meta x xs \<longleftrightarrow> list_ex (keyed meta (om_Namespace (meta x)) (om_Name (meta x))) xs"

definition mem_add ::
  "('a \<Rightarrow> ObjectMeta) \<Rightarrow> ((ObjectMeta \<Rightarrow> ObjectMeta) \<Rightarrow> 'a \<Rightarrow> 'a) \<Rightarrow> (mem_cluster_state \<Rightarrow> 'a list) \<Rightarrow>
     (('a list \<Rightarrow> 'a list) \<Rightarrow> mem_cluster_state \<Rightarrow> mem_cluster_state) \<Rightarrow> mem_cluster_state \<Rightarrow> 'a \<Rightarrow> 'a result \<times> mem_cluster_state" where
  "mem_add meta meta_update get update w x =
     (if taken meta x (get w) then (Inl (ApiError AlreadyExists (om_Name (meta x))), w)
      else (let y = meta_update (born (mc_Next w)) x in
            (Inr y, update (\<lambda>ys. ys @ [y]) (w\<lparr>mc_Next := mc_Next w + 1\<rparr>))))"

definition error_of :: "'a result \<times> 'w \<Rightarrow> go_error option \<times> 'w" where
  "error_of r = (case r of (Inl e, w) \<Rightarrow> (Some e, w) | (Inr _, w) \<Rightarrow> (None, w))"

definition mem_put ::
  "('a \<Rightarrow> ObjectMeta) \<Rightarrow> (mem_cluster_state \<Rightarrow> 'a list) \<Rightarrow> (('a list \<Rightarrow> 'a list) \<Rightarrow> mem_cluster_state \<Rightarrow> mem_cluster_state) \<Rightarrow>
     mem_cluster_state \<Rightarrow> 'a \<Rightarrow> 'a result \<times> mem_cluster_state" where
  "mem_put meta get update w x =
     (if taken meta x (get w) then (Inr x, update (replace_by meta x) w)
      else (Inl (ApiError NotFound (om_Name (meta x))), w))"

definition mem_drop ::
  "('a \<Rightarrow> ObjectMeta) \<Rightarrow> (mem_cluster_state \<Rightarrow> 'a list) \<Rightarrow> (('a list \<Rightarrow> 'a list) \<Rightarrow> mem_cluster_state \<Rightarrow> mem_cluster_state) \<Rightarrow>
     mem_cluster_state \<Rightarrow> 'a \<Rightarrow> go_error option \<times> mem_cluster_state" where
  "mem_drop meta get update w x =
     (if taken meta x (get w)
      then (None, update (filter (\<lambda>y. \<not> keyed meta (om_Namespace (meta x)) (om_Name (meta x)) y)) w)
      else (Some (ApiError NotFound (om_Name (meta x))), w))"

definition mem_patch_run_status ::
  "mem_cluster_state \<Rightarrow> bool \<Rightarrow> AgentRun \<Rightarrow> AgentRun \<Rightarrow> AgentRun result \<times> mem_cluster_state" where
  "mem_patch_run_status w lock old new =
     (case find (keyed run_Meta (run_Namespace old) (run_Name old)) (mem_Runs (mc_Kube w)) of
        None \<Rightarrow> (Inl (ApiError NotFound (run_Name old)), w)
      | Some stored \<Rightarrow>
          if lock \<and> om_ResourceVersion (run_Meta stored) \<noteq> om_ResourceVersion (run_Meta old)
          then (Inl (ApiError Conflict (run_Name old)), w)
          else (let run = stored\<lparr>run_Meta := (run_Meta stored)\<lparr>om_ResourceVersion := Itoa (mc_Next w)\<rparr>,
                      run_Status := merge_status (run_Status stored) (run_Status old) (run_Status new)\<rparr> in
                (Inr run, w\<lparr>mc_Next := mc_Next w + 1, mc_Kube := (mc_Kube w)\<lparr>mem_Runs := replace_by run_Meta run (mem_Runs (mc_Kube w))\<rparr>\<rparr>)))"

definition mem_patch_run :: "mem_cluster_state \<Rightarrow> AgentRun \<Rightarrow> AgentRun \<Rightarrow> AgentRun result \<times> mem_cluster_state" where
  "mem_patch_run w old new =
     (case find (keyed run_Meta (run_Namespace old) (run_Name old)) (mem_Runs (mc_Kube w)) of
        None \<Rightarrow> (Inl (ApiError NotFound (run_Name old)), w)
      | Some stored \<Rightarrow>
          (let run = stored\<lparr>run_Meta := (run_Meta stored)\<lparr>om_ResourceVersion := Itoa (mc_Next w),
                 om_Labels := om_Labels (run_Meta new), om_Annotations := om_Annotations (run_Meta new)\<rparr>\<rparr> in
           (Inr run, w\<lparr>mc_Next := mc_Next w + 1, mc_Kube := (mc_Kube w)\<lparr>mem_Runs := replace_by run_Meta run (mem_Runs (mc_Kube w))\<rparr>\<rparr>)))"

definition mem_create_run :: "mem_cluster_state \<Rightarrow> string \<Rightarrow> AgentRun \<Rightarrow> AgentRun result \<times> mem_cluster_state" where
  "mem_create_run w generateName run =
     (let meta = born (mc_Next w) (run_Meta run);
          meta = (if om_Name meta = [] then meta\<lparr>om_Name := generateName @ Itoa (mc_Next w)\<rparr> else meta) in
      case mem_create (mc_Kube w) (run\<lparr>run_Meta := meta\<rparr>) of
        (Inl e, k) \<Rightarrow> (Inl e, w)
      | (Inr created, k) \<Rightarrow> (Inr created, w\<lparr>mc_Kube := k, mc_Next := mc_Next w + 1\<rparr>))"

definition runs_update :: "(AgentRun list \<Rightarrow> AgentRun list) \<Rightarrow> mem_cluster_state \<Rightarrow> mem_cluster_state" where
  "runs_update f w = w\<lparr>mc_Kube := (mc_Kube w)\<lparr>mem_Runs := f (mem_Runs (mc_Kube w))\<rparr>\<rparr>"

definition mem_set_controller :: "OwnerReference list \<Rightarrow> OwnerReference \<Rightarrow> OwnerReference list result" where
  "mem_set_controller owners owner =
     (case find (\<lambda>r. own_Controller r = Some True) owners of
        None \<Rightarrow> Inr (owners @ [owner])
      | Some r \<Rightarrow> if own_UID r = own_UID owner then Inr owners else Inl (Errorf ''Object is already owned by another controller''))"

subsection \<open>The cluster\<close>

definition mem_reader :: "mem_cluster_state reader" where
  "mem_reader = \<lparr>
     rd_Kube = part_kube mc_Kube (\<lambda>k w. w\<lparr>mc_Kube := k\<rparr>) mem_kube,
     rd_Composition = mc_Composition,
     rd_GetVolume = (\<lambda>w ns n. found n (find (keyed volume_Meta ns n) (mc_Volumes w))),
     rd_ListVolumes = (\<lambda>w ns. Inr (filter (\<lambda>x. volume_Namespace x = ns) (mc_Volumes w))),
     rd_GetVolumeProfile = (\<lambda>w ns n. found n (find (keyed vprofile_Meta ns n) (mc_VolumeProfiles w))),
     rd_GetClaim = (\<lambda>w ns n. found n (find (keyed pvc_Meta ns n) (mc_Claims w))),
     rd_GetStorageClass = (\<lambda>w n. found n (map_of (mc_StorageClasses w) n)),
     rd_GetPersistentVolume = (\<lambda>w n. found n (map_of (mc_PersistentVolumes w) n)),
     rd_GetSession = (\<lambda>w ns n. found n (find (keyed session_Meta ns n) (mc_Sessions w))),
     rd_ListSessions = (\<lambda>w ns. Inr (filter (\<lambda>x. session_Namespace x = ns) (mc_Sessions w))),
     rd_GetCopy = (\<lambda>w ns n. found n (find (keyed copy_Meta ns n) (mc_Copies w))),
     rd_ListCopies = (\<lambda>w ns. Inr (filter (\<lambda>x. copy_Namespace x = ns) (mc_Copies w))),
     rd_GetJob = (\<lambda>w ns n. found n (find (keyed job_Meta ns n) (mc_Jobs w))),
     rd_ListJobs = (\<lambda>w ns sel. Inr (filter (\<lambda>x. job_Namespace x = ns \<and> matches_labels sel (job_Labels x)) (mc_Jobs w))),
     rd_GetConfigMap = (\<lambda>w ns n. found n (find (keyed cm_Meta ns n) (mc_ConfigMaps w))),
     rd_ListPods = (\<lambda>w ns sel. Inr (filter (\<lambda>x. pod_Namespace x = ns \<and> matches_labels sel (om_Labels (pod_Meta x))) (mc_Pods w))),
     rd_GetSecret = (\<lambda>w ns n. found n (find (keyed secret_Meta ns n) (mc_Secrets w))),
     rd_GetService = (\<lambda>w ns n. found n (find (keyed svc_Meta ns n) (mc_Services w))),
     rd_GetExternalSecret = (\<lambda>w ns n. found n (find (keyed xs_Meta ns n) (mc_ExternalSecrets w))),
     rd_GetSituation = (\<lambda>w ns n. found n (find (keyed situation_Meta ns n) (mc_Situations w)))\<rparr>"

definition part_actors :: "mem_cluster_state actor_client" where
  "part_actors =
     (let part = (\<lambda>call w ns n. case call (mc_Actors w) ns n of (r, f) \<Rightarrow> (r, w\<lparr>mc_Actors := f\<rparr>)) in
      \<lparr>ac_CreateActor = (\<lambda>w spec. case fake_CreateActor (mc_Actors w) spec of (r, f) \<Rightarrow> (r, w\<lparr>mc_Actors := f\<rparr>)),
       ac_ResumeActor = part fake_ResumeActor, ac_SuspendActor = part fake_SuspendActor,
       ac_PauseActor = part fake_PauseActor, ac_DescribeActor = part fake_DescribeActor\<rparr>)"

definition mem_cluster :: "archive_json \<Rightarrow> mem_cluster_state cluster" where
  "mem_cluster aj = \<lparr>
     cl_cache = mem_reader, cl_api = mem_reader,
     cl_PatchRunStatus = mem_patch_run_status, cl_PatchRun = mem_patch_run, cl_CreateRun = mem_create_run,
     cl_DeleteRun = mem_drop run_Meta (\<lambda>w. mem_Runs (mc_Kube w)) runs_update,
     cl_CreateJob = mem_add job_Meta job_Meta_update mc_Jobs mc_Jobs_update,
     cl_PatchJob = (\<lambda>w a b. error_of (mem_put job_Meta mc_Jobs mc_Jobs_update w b)),
     cl_DeleteJob = mem_drop job_Meta mc_Jobs mc_Jobs_update,
     cl_CreateConfigMap = mem_add cm_Meta cm_Meta_update mc_ConfigMaps mc_ConfigMaps_update,
     cl_UpdateConfigMap = mem_put cm_Meta mc_ConfigMaps mc_ConfigMaps_update,
     cl_UpdateExternalSecret = (\<lambda>w x. error_of (mem_put xs_Meta mc_ExternalSecrets mc_ExternalSecrets_update w x)),
     cl_CreateVolume = mem_add volume_Meta volume_Meta_update mc_Volumes mc_Volumes_update,
     cl_PatchVolumeStatus = (\<lambda>w a b. error_of (mem_put volume_Meta mc_Volumes mc_Volumes_update w b)),
     cl_PatchVolumeProfileStatus = (\<lambda>w a b. error_of (mem_put vprofile_Meta mc_VolumeProfiles mc_VolumeProfiles_update w b)),
     cl_CreateClaim = (\<lambda>w x. error_of (mem_add pvc_Meta pvc_Meta_update mc_Claims mc_Claims_update w x)),
     cl_PatchClaim = (\<lambda>w a b. mem_put pvc_Meta mc_Claims mc_Claims_update w b),
     cl_PatchSessionStatus = (\<lambda>w a b. error_of (mem_put session_Meta mc_Sessions mc_Sessions_update w b)),
     cl_PatchCopyStatus = (\<lambda>w a b. error_of (mem_put copy_Meta mc_Copies mc_Copies_update w b)),
     cl_CreateSecret = (\<lambda>w x. error_of (mem_add secret_Meta secret_Meta_update mc_Secrets mc_Secrets_update w x)),
     cl_PatchSecret = (\<lambda>w a b. error_of (mem_put secret_Meta mc_Secrets mc_Secrets_update w b)),
     cl_DeleteSecret = mem_drop secret_Meta mc_Secrets mc_Secrets_update,
     cl_CreateService = mem_add svc_Meta svc_Meta_update mc_Services mc_Services_update,
     cl_ReadPodLogs = (\<lambda>w ns pod. found pod (map_of (mc_Logs w) pod)),
     cl_ArchiveAgentRun = Some (\<lambda>w r. case postgres_ArchiveAgentRun aj 1 (mc_Archive w) r of
       (x, table) \<Rightarrow> (x, w\<lparr>mc_Archive := table\<rparr>)),
     cl_Actors = part_actors,
     cl_Generate = (\<lambda>w req. (mc_Reply w, w)),
     cl_SetStatusCondition = set_condition,
     cl_RemoveStatusCondition = (\<lambda>cs t. filter (\<lambda>c. cond_Type c \<noteq> t) cs),
     cl_SetControllerReference = mem_set_controller,
     cl_ParseQuantity = (\<lambda>s. None)\<rparr>"

lemma mem_cluster_simps [simp]:
  "cl_cache (mem_cluster aj) = mem_reader" "cl_api (mem_cluster aj) = mem_reader"
  "cl_PatchRunStatus (mem_cluster aj) = mem_patch_run_status"
  "cl_CreateJob (mem_cluster aj) = mem_add job_Meta job_Meta_update mc_Jobs mc_Jobs_update"
  "cl_PatchClaim (mem_cluster aj) w a b = mem_put pvc_Meta mc_Claims mc_Claims_update w b"
  by (simp_all add: mem_cluster_def)

lemma found_keyed: "found n (find (keyed meta ns n) xs) = Inr x \<Longrightarrow> om_Name (meta x) = n \<and> om_Namespace (meta x) = ns"
  by (cases "find (keyed meta ns n) xs") (auto simp: keyed_def find_Some_iff)

end
