(* ===== verification/DataVolume.thy ===== *)
theory DataVolume
  imports MemCluster
begin

text \<open>
  Volume profiles and data volumes: \<^verbatim>\<open>volume_profile_controller.go\<close> and
  \<^verbatim>\<open>agent_data_volume_controller.go\<close>. A data volume resolves its defaults from a profile, keeps one
  claim and reports it in its status. The lemmas show which claim a volume accepts: a status never
  forgets or replaces the claim it recorded, and a volume is only ready on a bound claim that it
  controls, whose UID it recorded and whose storage class and access modes are the ones asked for.
\<close>

subsection \<open>Paths\<close>

text \<open>\<^verbatim>\<open>path.Clean\<close>: the elements between slashes, with \<^verbatim>\<open>.\<close> dropped and \<^verbatim>\<open>..\<close> taking back an element.
  The elements kept so far are in reverse order.\<close>

fun clean_elements :: "bool \<Rightarrow> string list \<Rightarrow> string list \<Rightarrow> string list" where
  "clean_elements rooted kept [] = rev kept"
| "clean_elements rooted kept (e # es) =
     (if e = [] \<or> e = ''.'' then clean_elements rooted kept es
      else if e = ''..'' then
        (case kept of
           k # ks \<Rightarrow> if k = ''..'' then clean_elements rooted (e # kept) es else clean_elements rooted ks es
         | [] \<Rightarrow> if rooted then clean_elements rooted [] es else clean_elements rooted [e] es)
      else clean_elements rooted (e # kept) es)"

definition path_IsAbs :: "string \<Rightarrow> bool" where
  "path_IsAbs p \<longleftrightarrow> p \<noteq> [] \<and> hd p = CHR ''/''"

definition path_Clean :: "string \<Rightarrow> string" where
  "path_Clean p =
     (if p = [] then ''.''
      else (let kept = Join (clean_elements (path_IsAbs p) [] (Split p (CHR ''/''))) ''/'' in
            if path_IsAbs p then CHR ''/'' # kept else if kept = [] then ''.'' else kept))"

subsection \<open>Path environments\<close>

definition path_env_suffixes :: "string list" where
  "path_env_suffixes = [''HOME'', ''STATE_DIR'', ''CACHE_DIR'', ''CONFIG_DIR'', ''DATA_DIR'']"

definition upper_char :: "char \<Rightarrow> bool" where
  "upper_char c \<longleftrightarrow> byte_in 65 90 c"

definition path_env_prefix :: "string \<Rightarrow> bool" where
  "path_env_prefix p \<longleftrightarrow> 2 \<le> length p \<and> upper_char (hd p) \<and> last p = CHR ''_'' \<and>
     list_all (\<lambda>c. upper_char c \<or> byte_in 48 57 c \<or> c = CHR ''_'') p"

text \<open>The regular expression of the names: an optional prefix and one of the suffixes.\<close>

definition agentDataVolumePathEnvNamePattern :: "string \<Rightarrow> bool" where
  "agentDataVolumePathEnvNamePattern name \<longleftrightarrow>
     (\<exists>suffix \<in> set path_env_suffixes. HasSuffix name suffix \<and>
        (let p = take (length name - length suffix) name in p = [] \<or> path_env_prefix p))"

fun validateAgentDataVolumePathEnv :: "AgentDataVolumePathEnvVar list \<Rightarrow> string \<Rightarrow> go_error option" where
  "validateAgentDataVolumePathEnv [] mountPath0 = None"
| "validateAgentDataVolumePathEnv (item # items) mountPath0 =
     (let mountPath = path_Clean (TrimSpace mountPath0); name = TrimSpace (pe_Name item);
          v = path_Clean (TrimSpace (pe_Value item)) in
      if \<not> agentDataVolumePathEnvNamePattern name then
        Some (Errorf (''extraEnv name '' @ Quote name @ '' must identify a backend HOME, STATE_DIR, CACHE_DIR, CONFIG_DIR, or DATA_DIR''))
      else if \<not> path_IsAbs v \<or> (v \<noteq> mountPath \<and> \<not> HasPrefix v (mountPath @ ''/'')) then
        Some (Errorf (''extraEnv '' @ name @ '' value must be an absolute path under mountPath '' @ mountPath))
      else validateAgentDataVolumePathEnv items mountPath0)"

fun path_env_put :: "AgentDataVolumePathEnvVar list \<Rightarrow> AgentDataVolumePathEnvVar \<Rightarrow> AgentDataVolumePathEnvVar list" where
  "path_env_put [] item = [item]"
| "path_env_put (x # xs) item = (if pe_Name x = pe_Name item then item # xs else x # path_env_put xs item)"

definition mergeAgentDataVolumePathEnv ::
  "AgentDataVolumePathEnvVar list \<Rightarrow> AgentDataVolumePathEnvVar list \<Rightarrow> AgentDataVolumePathEnvVar list" where
  "mergeAgentDataVolumePathEnv base additions =
     foldl (\<lambda>merged item. path_env_put merged \<lparr>pe_Name = TrimSpace (pe_Name item), pe_Value = TrimSpace (pe_Value item)\<rparr>)
       [] (base @ additions)"

subsection \<open>External synchronisation\<close>

definition externalVolumeSyncReady :: string where "externalVolumeSyncReady = ''Ready''"

definition externalVolumeSyncStatus ::
  "'w cluster \<Rightarrow> ExternalVolumeSyncSpec option \<Rightarrow> ExternalVolumeSyncStatus option \<Rightarrow> instant \<Rightarrow> ExternalVolumeSyncStatus option" where
  "externalVolumeSyncStatus cl spec existing now =
     (case spec of
        None \<Rightarrow> None
      | Some s \<Rightarrow>
          (let base = \<lparr>syncs_Phase = ExternalVolumeSyncPhaseStubOnly, syncs_Provider = sync_Provider s,
                 syncs_Direction = sync_Direction s, syncs_LastAttemptTime = None, syncs_LastSuccessTime = None,
                 syncs_LastError = [], syncs_Message = [], syncs_Conditions = []\<rparr>;
               base = (case existing of None \<Rightarrow> base | Some e \<Rightarrow> base\<lparr>syncs_LastAttemptTime := syncs_LastAttemptTime e,
                 syncs_LastSuccessTime := syncs_LastSuccessTime e, syncs_LastError := syncs_LastError e,
                 syncs_Conditions := syncs_Conditions e\<rparr>);
               finish = (\<lambda>phase cs reason message. base\<lparr>syncs_Phase := phase, syncs_Message := message,
                 syncs_Conditions := cl_SetStatusCondition cl (syncs_Conditions base)
                   (condition externalVolumeSyncReady cs 0 now reason message)\<rparr>) in
           Some (if sync_Disabled s
                 then finish ExternalVolumeSyncPhaseDisabled ConditionTrue ''Disabled''
                        ''external volume sync is disabled for this volume.''
                 else finish ExternalVolumeSyncPhaseStubOnly ConditionFalse ''StubOnly''
                        ''external volume sync is declared but sync execution is not implemented yet.'')))"

subsection \<open>The volume profile controller\<close>

definition volumeProfileReady :: string where "volumeProfileReady = ''Ready''"
definition volumeProfileCapacityPolicySatisfied :: string where
  "volumeProfileCapacityPolicySatisfied = ''CapacityPolicySatisfied''"

text \<open>The loop over the entries: the total, the names seen, the first reason to block and the entries' statuses.\<close>

record profile_scan =
  ps_total :: int
  ps_seen :: "string list"
  ps_block :: "(string \<times> string) option"
  ps_statuses :: "VolumeProfileVolumeStatus list"

definition first_block :: "(string \<times> string) option \<Rightarrow> bool \<Rightarrow> string \<times> string \<Rightarrow> (string \<times> string) option" where
  "first_block block bad why = (case block of Some b \<Rightarrow> Some b | None \<Rightarrow> if bad then Some why else None)"

definition profile_entry ::
  "'w cluster \<Rightarrow> (string \<Rightarrow> ExternalVolumeSyncStatus option) \<Rightarrow> instant \<Rightarrow> profile_scan \<Rightarrow> VolumeProfileVolumeSpec \<Rightarrow> profile_scan" where
  "profile_entry cl existingSync now s v =
     (let name = TrimSpace (pv_Name v);
          b = first_block (ps_block s) (name = []) (''InvalidVolumeName'', ''spec.volumes entries must set name.'');
          b = first_block b (name \<noteq> [] \<and> name \<in> set (ps_seen s))
                (''DuplicateVolumeName'', ''spec.volumes contains duplicate entry '' @ Quote name @ ''.'');
          b = first_block b (q_Amount (pv_SizeRequest v) < 0)
                (''InvalidVolumeSize'', ''spec.volumes['' @ Quote name @ ''].size.request cannot be negative.'');
          env = validateAgentDataVolumePathEnv (pv_ExtraEnv v) (firstNonEmpty (TrimSpace (pv_MountPath v)) ''/agent-state'');
          b = (case env of None \<Rightarrow> b | Some e \<Rightarrow> first_block b True
                (''InvalidPathEnvironment'', ''spec.volumes['' @ Quote name @ ''] '' @ error_text e)) in
      \<lparr>ps_total = ps_total s + q_Amount (pv_SizeRequest v),
       ps_seen = (if name = [] then ps_seen s else name # ps_seen s), ps_block = b,
       ps_statuses = ps_statuses s @ [\<lparr>vpv_Name = name, vpv_Purpose = TrimSpace (pv_Purpose v),
         vpv_RequestedStorage = (if q_IsZero (pv_SizeRequest v) then [] else q_Text (pv_SizeRequest v)),
         vpv_ExternalSync = externalVolumeSyncStatus cl (pv_ExternalSync v) (existingSync name) now\<rparr>]\<rparr>)"

text \<open>\<open>total_text\<close> is the canonical text of an amount.\<close>

definition VolumeProfileReconciler_Reconcile ::
  "'w cluster \<Rightarrow> (int \<Rightarrow> string) \<Rightarrow> 'w \<Rightarrow> string \<Rightarrow> string \<Rightarrow> instant \<Rightarrow> 'w reconciled" where
  "VolumeProfileReconciler_Reconcile cl total_text w namespace name now =
     (case rd_GetVolumeProfile (cl_cache cl) w namespace name of
        Inl e \<Rightarrow> (IgnoreNotFound e, w)
      | Inr obj \<Rightarrow>
          if being_deleted (vprofile_Meta obj) then (Inr no_requeue, w)
          else
            (let st = vprofile_Status obj; spec = vprofile_Spec obj; gen = om_Generation (vprofile_Meta obj);
                 existingSync = (\<lambda>n. map_of (concat (map (\<lambda>v. case vpv_ExternalSync v of None \<Rightarrow> [] | Some e \<Rightarrow> [(vpv_Name v, e)])
                   (rev (vpt_Volumes st)))) n);
                 scan = foldl (profile_entry cl existingSync now)
                   \<lparr>ps_total = 0, ps_seen = [], ps_block = None, ps_statuses = []\<rparr> (vps_Volumes spec);
                 block = first_block (ps_block scan) (vps_Volumes spec = [])
                   (''NoVolumes'', ''spec.volumes must contain at least one reusable volume entry.'');
                 conds = (if vps_CapacityPercent spec \<noteq> None
                   then cl_SetStatusCondition cl (vpt_Conditions st)
                     (condition volumeProfileCapacityPolicySatisfied ConditionUnknown gen now ''NotEvaluated''
                       ''capacity percentage policy is recorded as intent; node capacity resolution is not implemented in this slice.'')
                   else cl_RemoveStatusCondition cl (vpt_Conditions st) volumeProfileCapacityPolicySatisfied);
                 st = st\<lparr>vpt_ObservedGeneration := gen, vpt_VolumeCount := int (length (vps_Volumes spec)), vpt_LastError := [],
                   vpt_Volumes := ps_statuses scan, vpt_TotalRequestedStorage := total_text (ps_total scan),
                   vpt_Conditions := conds\<rparr>;
                 st = (case block of
                     Some (reason, message) \<Rightarrow> st\<lparr>vpt_Phase := VolumeProfilePhaseBlocked, vpt_LastError := message,
                       vpt_Conditions := cl_SetStatusCondition cl conds
                         (condition volumeProfileReady ConditionFalse gen now reason message)\<rparr>
                   | None \<Rightarrow> st\<lparr>vpt_Phase := VolumeProfilePhaseReady,
                       vpt_Conditions := cl_SetStatusCondition cl conds
                         (condition volumeProfileReady ConditionTrue gen now ''ProfileAccepted''
                           (''VolumeProfile declares '' @ Itoa (int (length (vps_Volumes spec))) @ '' reusable volume entries.''))\<rparr>) in
             patch_status (cl_PatchVolumeProfileStatus cl) w obj (obj\<lparr>vprofile_Status := st\<rparr>) 0))"

subsection \<open>What a volume resolves to\<close>

definition agentDataVolumeReady :: string where "agentDataVolumeReady = ''Ready''"
definition agentDataVolumeLabel :: string where "agentDataVolumeLabel = ''control.anvil.hazyforge.io/agent-data-volume''"

text \<open>\<^verbatim>\<open>resource.MustParse("10Gi")\<close>.\<close>

definition agentDataVolumeDefaultSize :: Quantity where
  "agentDataVolumeDefaultSize = \<lparr>q_Amount = 10737418240, q_Text = ''10Gi''\<rparr>"

definition agentDataVolumeClaimName :: "AgentDataVolume \<Rightarrow> string" where
  "agentDataVolumeClaimName obj =
     (let claimName = TrimSpace (dv_ClaimName (volume_Spec obj)) in
      if claimName \<noteq> [] then claimName else agentRunChildName [''agent-data'', volume_Name obj])"

definition agentDataVolumeStorageClassName :: "string \<Rightarrow> AgentDataVolume \<Rightarrow> string" where
  "agentDataVolumeStorageClassName defaultStorageClass obj =
     (let c = TrimSpace (dv_StorageClassName (volume_Spec obj)) in if c \<noteq> [] then c else TrimSpace defaultStorageClass)"

definition agentDataVolumeSize :: "AgentDataVolume \<Rightarrow> Quantity" where
  "agentDataVolumeSize obj =
     (if \<not> q_IsZero (dv_Size (volume_Spec obj)) then dv_Size (volume_Spec obj) else agentDataVolumeDefaultSize)"

definition agentDataVolumeAccessModes :: "AgentDataVolume \<Rightarrow> string list" where
  "agentDataVolumeAccessModes obj =
     (if dv_AccessModes (volume_Spec obj) \<noteq> [] then dv_AccessModes (volume_Spec obj) else [''ReadWriteOnce''])"

definition agentDataVolumeMountPath :: "AgentDataVolume \<Rightarrow> string" where
  "agentDataVolumeMountPath obj =
     (let mountPath = TrimSpace (dv_MountPath (volume_Spec obj)) in
      if mountPath \<noteq> [] then mountPath
      else (case dv_Backend (volume_Spec obj) of
              AgentRunHarnessBackendCodex \<Rightarrow> ''/codex-home''
            | AgentRunHarnessBackendOpenCode \<Rightarrow> ''/opt/anvil/opencode''
            | AgentRunHarnessBackendHermesAgent \<Rightarrow> ''/opt/anvil/hermes''
            | AgentRunHarnessBackendOpenClaw \<Rightarrow> ''/opt/anvil/openclaw''
            | AgentRunHarnessBackendGrokBuild \<Rightarrow> ''/opt/anvil/grok-build''
            | AgentRunHarnessBackendPiAgent \<Rightarrow> ''/opt/anvil/pi''
            | AgentRunHarnessBackendPrimeAgent \<Rightarrow> ''/opt/anvil/prime''
            | AgentRunHarnessBackendAgy \<Rightarrow> ''/opt/anvil/agy''
            | _ \<Rightarrow> ''/agent-state''))"

definition agentDataVolumeStatusCurrent :: "AgentDataVolume \<Rightarrow> bool" where
  "agentDataVolumeStatusCurrent obj \<longleftrightarrow>
     dst_ObservedGeneration (volume_Status obj) \<noteq> 0 \<and> dst_ObservedGeneration (volume_Status obj) = volume_Generation obj"

definition agentDataVolumeResolvedMountPath :: "AgentDataVolume \<Rightarrow> string" where
  "agentDataVolumeResolvedMountPath obj =
     (let mountPath = TrimSpace (dst_MountPath (volume_Status obj)) in
      if agentDataVolumeStatusCurrent obj \<and> mountPath \<noteq> [] then mountPath else agentDataVolumeMountPath obj)"

definition agentDataVolumeResolvedSubPath :: "AgentDataVolume \<Rightarrow> string" where
  "agentDataVolumeResolvedSubPath obj =
     (if agentDataVolumeStatusCurrent obj then TrimSpace (dst_SubPath (volume_Status obj))
      else TrimSpace (dv_SubPath (volume_Spec obj)))"

definition agentDataVolumeResolvedNodeSelector :: "AgentDataVolume \<Rightarrow> strmap" where
  "agentDataVolumeResolvedNodeSelector obj =
     (if agentDataVolumeStatusCurrent obj \<and> dst_NodeSelector (volume_Status obj) \<noteq> []
      then dst_NodeSelector (volume_Status obj) else dv_NodeSelector (volume_Spec obj))"

definition agentDataVolumeResolvedExtraEnv :: "AgentDataVolume \<Rightarrow> EnvVar list" where
  "agentDataVolumeResolvedExtraEnv obj =
     map (\<lambda>item. env_var (pe_Name item) (pe_Value item))
       (if agentDataVolumeStatusCurrent obj \<and> dst_ExtraEnv (volume_Status obj) \<noteq> []
        then dst_ExtraEnv (volume_Status obj) else dv_ExtraEnv (volume_Spec obj))"

definition put_nonempty :: "string \<Rightarrow> string \<Rightarrow> strmap \<Rightarrow> strmap" where
  "put_nonempty key v m = (if TrimSpace v = [] then m else map_set m key (sanitizeLabelValue (TrimSpace v)))"

definition agentDataVolumeLabels :: "AgentDataVolume \<Rightarrow> strmap" where
  "agentDataVolumeLabels obj =
     (let spec = volume_Spec obj;
          labels = [(agentDataVolumeLabel, sanitizeLabelValue (volume_Name obj))];
          labels = put_nonempty ''control.anvil.hazyforge.io/agent-data-backend'' (backend_text (dv_Backend spec)) labels;
          labels = put_nonempty ''control.anvil.hazyforge.io/agent-data-agent'' (dv_AgentName spec) labels;
          labels = (case dv_ProfileRef spec of None \<Rightarrow> labels
            | Some ref \<Rightarrow> put_nonempty ''control.anvil.hazyforge.io/volume-profile'' (lor_Name ref) labels) in
      put_nonempty ''control.anvil.hazyforge.io/volume-profile-entry'' (dv_ProfileVolumeName spec) labels)"

definition agentDataVolumeAccessModesEqual :: "string list \<Rightarrow> string list \<Rightarrow> bool" where
  "agentDataVolumeAccessModesEqual left right \<longleftrightarrow>
     length left = length right \<and> list_all (\<lambda>m. count_list left m = count_list right m) (left @ right)"

subsection \<open>Profiles\<close>

definition resolveVolumeProfileVolume ::
  "VolumeProfile \<Rightarrow> string \<Rightarrow> VolumeProfileVolumeSpec option \<times> string \<times> string \<times> string" where
  "resolveVolumeProfileVolume profile selectedName =
     (let name = TrimSpace selectedName; volumes = vps_Volumes (vprofile_Spec profile);
          key = meta_key (vprofile_Meta profile) in
      if name = [] then
        (case volumes of
           [v] \<Rightarrow> (Some v, TrimSpace (pv_Name v), [], [])
         | _ \<Rightarrow> (None, [], ''ProfileVolumeRequired'', ''VolumeProfile '' @ key @ '' has '' @ Itoa (int (length volumes)) @
             '' volume entries; spec.profileVolumeName must select one.''))
      else (case find (\<lambda>v. TrimSpace (pv_Name v) = name) volumes of
              Some v \<Rightarrow> (Some v, name, [], [])
            | None \<Rightarrow> (None, name, ''ProfileVolumeNotFound'', ''VolumeProfile '' @ key @ '' does not contain volume entry '' @
                Quote name @ ''.'')))"

definition applyVolumeProfileDefaults :: "AgentDataVolume \<Rightarrow> VolumeProfileVolumeSpec \<Rightarrow> AgentDataVolume" where
  "applyVolumeProfileDefaults obj p =
     (let spec = volume_Spec obj;
          pick = (\<lambda>own inherited. if TrimSpace own = [] then TrimSpace inherited else own) in
      obj\<lparr>volume_Spec := spec\<lparr>
        dv_StorageClassName := pick (dv_StorageClassName spec) (pv_StorageClassName p),
        dv_Size := (if q_IsZero (dv_Size spec) \<and> \<not> q_IsZero (pv_SizeRequest p) then pv_SizeRequest p else dv_Size spec),
        dv_AccessModes := (if dv_AccessModes spec = [] then pv_AccessModes p else dv_AccessModes spec),
        dv_MountPath := pick (dv_MountPath spec) (pv_MountPath p),
        dv_SubPath := pick (dv_SubPath spec) (pv_SubPath p),
        dv_NodeSelector := map_union (pv_NodeSelector p) (dv_NodeSelector spec),
        dv_ExtraEnv := mergeAgentDataVolumePathEnv (pv_ExtraEnv p) (dv_ExtraEnv spec),
        dv_ExternalSync := (case dv_ExternalSync spec of None \<Rightarrow> pv_ExternalSync p | Some e \<Rightarrow> Some e)\<rparr>\<rparr>)"

text \<open>The result: the effective volume, the profile's reference, the entry's name and why the profile blocks the volume.\<close>

definition resolveAgentDataVolumeProfile ::
  "'w reader \<Rightarrow> 'w \<Rightarrow> AgentDataVolume \<Rightarrow>
     (AgentDataVolume \<times> NamespacedObjectReference option \<times> string \<times> (string \<times> string) option) result" where
  "resolveAgentDataVolumeProfile rd w obj =
     (case dv_ProfileRef (volume_Spec obj) of
        None \<Rightarrow> Inr (obj, None, [], None)
      | Some ref \<Rightarrow>
          (let profileName = TrimSpace (lor_Name ref); ns = volume_Namespace obj; profileRef = local_ref profileName ns in
           if profileName = [] then
             Inr (obj, None, [], Some (''InvalidProfileRef'', ''spec.profileRef.name must be set when profileRef is declared.''))
           else (case rd_GetVolumeProfile rd w ns profileName of
             Inl e \<Rightarrow> if IsNotFound e
               then Inr (obj, Some profileRef, [], Some (''ProfileNotFound'',
                 ''VolumeProfile '' @ ns @ ''/'' @ profileName @ '' was not found.''))
               else Inl e
           | Inr profile \<Rightarrow>
               (let app = (\<lambda>ref. case ref of None \<Rightarrow> [] | Some a \<Rightarrow> TrimSpace (app_Name a));
                    pa = app (vps_ApplicationRef (vprofile_Spec profile)); va = app (dv_ApplicationRef (volume_Spec obj)) in
                if pa \<noteq> [] \<and> va \<noteq> [] \<and> pa \<noteq> va then
                  Inr (obj, Some profileRef, [], Some (''ProfileApplicationMismatch'',
                    ''VolumeProfile '' @ ns @ ''/'' @ profileName @ '' is scoped to Application '' @ Quote pa @
                    '', but AgentDataVolume '' @ ns @ ''/'' @ volume_Name obj @ '' is scoped to '' @ Quote va @ ''.''))
                else (case resolveVolumeProfileVolume profile (dv_ProfileVolumeName (volume_Spec obj)) of
                  (None, volumeName, reason, message) \<Rightarrow> Inr (obj, Some profileRef, volumeName, Some (reason, message))
                | (Some p, volumeName, _, _) \<Rightarrow>
                    Inr (applyVolumeProfileDefaults obj p, Some profileRef, volumeName, None))))))"

definition agentDataVolumesForVolumeProfile :: "'w reader \<Rightarrow> 'w \<Rightarrow> ObjectMeta \<Rightarrow> (string \<times> string) list" where
  "agentDataVolumesForVolumeProfile rd w profile =
     (case rd_ListVolumes rd w (om_Namespace profile) of
        Inl e \<Rightarrow> []
      | Inr volumes \<Rightarrow> map (\<lambda>v. (volume_Namespace v, volume_Name v))
          (filter (\<lambda>v. case dv_ProfileRef (volume_Spec v) of None \<Rightarrow> False
             | Some ref \<Rightarrow> TrimSpace (lor_Name ref) = om_Name profile) volumes))"

subsection \<open>The claim\<close>

definition desired_claim :: "'w cluster \<Rightarrow> string \<Rightarrow> AgentDataVolume \<Rightarrow> AgentDataVolume \<Rightarrow> PersistentVolumeClaim result" where
  "desired_claim cl defaultStorageClass owner effective =
     (let sc = agentDataVolumeStorageClassName defaultStorageClass effective in
      case own cl ''AgentDataVolume'' (volume_Meta owner)
        (zero_ObjectMeta\<lparr>om_Name := agentDataVolumeClaimName effective, om_Namespace := volume_Namespace owner,
           om_Labels := agentDataVolumeLabels effective\<rparr>) of
        Inl e \<Rightarrow> Inl e
      | Inr meta \<Rightarrow> Inr \<lparr>pvc_Meta = meta, pvc_AccessModes = agentDataVolumeAccessModes effective,
          pvc_StorageClassName = (if sc = [] then None else Some sc), pvc_Request = agentDataVolumeSize effective,
          pvc_VolumeName = [], pvc_Selector = None, pvc_DataSource = None, pvc_DataSourceRef = None,
          pvc_VolumeMode = None, pvc_Phase = [], pvc_Capacity = None\<rparr>)"

definition ensureAgentDataVolumePVC ::
  "'w cluster \<Rightarrow> string \<Rightarrow> 'w \<Rightarrow> AgentDataVolume \<Rightarrow> AgentDataVolume \<Rightarrow> (PersistentVolumeClaim \<times> bool) result \<times> 'w" where
  "ensureAgentDataVolumePVC cl defaultStorageClass w owner effective =
     (let name = agentDataVolumeClaimName effective; get = (\<lambda>w. rd_GetClaim (cl_cache cl) w (volume_Namespace owner) name) in
      case get w of
        Inr pvc \<Rightarrow> (Inr (pvc, False), w)
      | Inl e \<Rightarrow>
          if \<not> IsNotFound e then (Inl e, w)
          else (case desired_claim cl defaultStorageClass owner effective of
            Inl e \<Rightarrow> (Inl e, w)
          | Inr claim \<Rightarrow>
              (case cl_CreateClaim cl w claim of
                 (Some e, w) \<Rightarrow>
                   if \<not> IsAlreadyExists e then (Inl e, w)
                   else ((case get w of Inl e \<Rightarrow> Inl e | Inr pvc \<Rightarrow> Inr (pvc, False)), w)
               | (None, w) \<Rightarrow> ((case get w of Inl e \<Rightarrow> Inl e | Inr pvc \<Rightarrow> Inr (pvc, True)), w))))"

definition show_list :: "string list \<Rightarrow> string" where
  "show_list xs = ''['' @ Join xs '' '' @ '']''"

definition claim_drift :: "string \<Rightarrow> AgentDataVolume \<Rightarrow> PersistentVolumeClaim \<Rightarrow> (string \<times> string) option" where
  "claim_drift defaultStorageClass obj pvc =
     (let desired = agentDataVolumeStorageClassName defaultStorageClass obj; key = meta_key (pvc_Meta pvc);
          actual = (case pvc_StorageClassName pvc of None \<Rightarrow> [] | Some c \<Rightarrow> TrimSpace c);
          modes = agentDataVolumeAccessModes obj in
      if desired \<noteq> [] \<and> actual \<noteq> desired then
        Some (''ImmutableStorageClassDrift'', ''spec.storageClassName resolves to '' @ Quote desired @
          '', but PersistentVolumeClaim '' @ key @ '' uses immutable storageClassName '' @ Quote actual @ ''.'')
      else if \<not> agentDataVolumeAccessModesEqual modes (pvc_AccessModes pvc) then
        Some (''ImmutableAccessModesDrift'', ''spec.accessModes '' @ show_list modes @
          '' do not match immutable PersistentVolumeClaim '' @ key @ '' accessModes '' @ show_list (pvc_AccessModes pvc) @ ''.'')
      else if pvc_Selector pvc \<noteq> None \<or> pvc_DataSource pvc \<noteq> None \<or> pvc_DataSourceRef pvc \<noteq> None \<or>
          (case pvc_VolumeMode pvc of None \<Rightarrow> False | Some m \<Rightarrow> m \<noteq> ''Filesystem'') then
        Some (''UnsupportedClaimProvenance'', ''PersistentVolumeClaim '' @ key @
          '' contains selector, data source, or volume mode fields not created by AgentDataVolume.'')
      else None)"

definition capacity_below :: "PersistentVolumeClaim \<Rightarrow> Quantity \<Rightarrow> bool" where
  "capacity_below pvc desired = (case pvc_Capacity pvc of None \<Rightarrow> 0 < q_Amount desired | Some c \<Rightarrow> q_Less c desired)"

text \<open>The result: the claim as the server has it, whether an expansion is pending, and a drift.\<close>

definition reconcileAgentDataVolumePVC ::
  "'w cluster \<Rightarrow> string \<Rightarrow> 'w \<Rightarrow> AgentDataVolume \<Rightarrow> PersistentVolumeClaim \<Rightarrow>
     (PersistentVolumeClaim \<times> bool \<times> (string \<times> string) option) result \<times> 'w" where
  "reconcileAgentDataVolumePVC cl defaultStorageClass w obj pvc =
     (case claim_drift defaultStorageClass obj pvc of
        Some drift \<Rightarrow> (Inr (pvc, False, Some drift), w)
      | None \<Rightarrow>
          (let desired = dv_Size (volume_Spec obj); current = pvc_Request pvc in
           if q_IsZero desired then (Inr (pvc, False, None), w)
           else if q_Less desired current then
             (Inr (pvc, False, Some (''SizeReductionNotAllowed'', ''spec.size '' @ q_Text desired @
               '' is smaller than the existing PersistentVolumeClaim request '' @ q_Text current @
               ''; AgentDataVolume size may only increase.'')), w)
           else if q_Less current desired then
             (case cl_PatchClaim cl w pvc (pvc\<lparr>pvc_Request := desired\<rparr>) of
                (Inl e, w) \<Rightarrow> (Inl (Wrapf (''expand PersistentVolumeClaim '' @ meta_key (pvc_Meta pvc) @ '' to '' @ q_Text desired) e), w)
              | (Inr pvc, w) \<Rightarrow> (Inr (pvc, capacity_below pvc desired, None), w))
           else (Inr (pvc, capacity_below pvc desired, None), w)))"

subsection \<open>The controller\<close>

definition volume_condition ::
  "'w cluster \<Rightarrow> AgentDataVolume \<Rightarrow> instant \<Rightarrow> ConditionStatus \<Rightarrow> string \<Rightarrow> string \<Rightarrow> AgentDataVolumeStatus \<Rightarrow> AgentDataVolumeStatus" where
  "volume_condition cl obj now cs reason message st = st\<lparr>dst_Conditions := cl_SetStatusCondition cl (dst_Conditions st)
     (condition agentDataVolumeReady cs (volume_Generation obj) now reason message)\<rparr>"

definition volume_blocked ::
  "'w cluster \<Rightarrow> AgentDataVolume \<Rightarrow> instant \<Rightarrow> string \<Rightarrow> string \<Rightarrow> AgentDataVolumeStatus \<Rightarrow> AgentDataVolumeStatus" where
  "volume_blocked cl obj now reason message st =
     volume_condition cl obj now ConditionFalse reason message
       (st\<lparr>dst_Phase := AgentDataVolumePhaseBlocked, dst_LastError := message\<rparr>)"

definition patchAgentDataVolumeStatus :: "'w cluster \<Rightarrow> 'w \<Rightarrow> AgentDataVolume \<Rightarrow> AgentDataVolumeStatus \<Rightarrow> 'w reconciled" where
  "patchAgentDataVolumeStatus cl w obj st = patch_status (cl_PatchVolumeStatus cl) w obj (obj\<lparr>volume_Status := st\<rparr>) 0"

text \<open>The status before the claim is looked at.\<close>

definition volume_resolved_status ::
  "'w cluster \<Rightarrow> AgentDataVolume \<Rightarrow> AgentDataVolume \<Rightarrow> NamespacedObjectReference option \<Rightarrow> string \<Rightarrow> instant \<Rightarrow> AgentDataVolumeStatus" where
  "volume_resolved_status cl obj effective profileRef profileVolumeName now =
     (volume_Status obj)\<lparr>dst_ObservedGeneration := volume_Generation obj, dst_ProfileRef := profileRef,
       dst_ProfileVolumeName := profileVolumeName, dst_MountPath := agentDataVolumeMountPath effective,
       dst_SubPath := TrimSpace (dv_SubPath (volume_Spec effective)), dst_NodeSelector := dv_NodeSelector (volume_Spec effective),
       dst_ExtraEnv := [],
       dst_ExternalSync := externalVolumeSyncStatus cl (dv_ExternalSync (volume_Spec effective))
         (dst_ExternalSync (volume_Status obj)) now\<rparr>"

text \<open>Why the volume is blocked before its claim is looked at: by its profile or its path environment, or
  by its size or a drift of its claim's name.\<close>

definition volume_refusal :: "AgentDataVolume \<Rightarrow> AgentDataVolumeStatus \<Rightarrow> (string \<times> string) option \<Rightarrow> (string \<times> string) option" where
  "volume_refusal effective st profileBlock =
     (case profileBlock of
        Some b \<Rightarrow> Some b
      | None \<Rightarrow>
          (case validateAgentDataVolumePathEnv (dv_ExtraEnv (volume_Spec effective)) (dst_MountPath st) of
             Some e \<Rightarrow> Some (''InvalidPathEnvironment'', error_text e)
           | None \<Rightarrow> None))"

definition claim_name_refusal :: "AgentDataVolume \<Rightarrow> AgentDataVolumeStatus \<Rightarrow> (string \<times> string) option" where
  "claim_name_refusal effective st =
     (let recorded = (case dst_ClaimRef st of None \<Rightarrow> [] | Some ref \<Rightarrow> TrimSpace (nor_Name ref)) in
      if q_Amount (dv_Size (volume_Spec effective)) < 0 then Some (''InvalidSize'', ''spec.size cannot be negative.'')
      else if recorded \<noteq> [] \<and> recorded \<noteq> agentDataVolumeClaimName effective then
        Some (''ImmutableClaimDrift'', ''spec.claimName resolves to '' @ Quote (agentDataVolumeClaimName effective) @
          '', but this AgentDataVolume already resolved immutable claim '' @ Quote recorded @ ''.'')
      else None)"

text \<open>Why the claim is not accepted.\<close>

definition claim_refusal :: "AgentDataVolume \<Rightarrow> AgentDataVolumeStatus \<Rightarrow> PersistentVolumeClaim \<Rightarrow> bool \<Rightarrow> (string \<times> string) option" where
  "claim_refusal obj st pvc created =
     (let key = meta_key (pvc_Meta pvc) in
      if \<not> controlled_by ''AgentDataVolume'' (pvc_Meta pvc) (volume_Meta obj) then
        Some (''ForeignClaimCollision'', ''PersistentVolumeClaim '' @ key @
          '' is not controller-owned by this AgentDataVolume; automatic claim adoption is forbidden.'')
      else if dst_ClaimUID st \<noteq> [] \<and> dst_ClaimUID st \<noteq> pvc_UID pvc then
        Some (''ClaimIdentityChanged'', ''PersistentVolumeClaim '' @ key @ '' UID changed from '' @ dst_ClaimUID st @ '' to '' @
          pvc_UID pvc @ ''; refusing replacement claim.'')
      else if dst_ClaimUID st = [] \<and> \<not> created \<and> TrimSpace (pvc_VolumeName pvc) \<noteq> [] then
        Some (''UnverifiedBoundClaim'', ''PersistentVolumeClaim '' @ key @
          '' is already bound before this AgentDataVolume recorded its UID; refusing unsafe crash-gap adoption.'')
      else None)"

definition claim_status :: "PersistentVolumeClaim \<Rightarrow> AgentDataVolumeStatus \<Rightarrow> AgentDataVolumeStatus" where
  "claim_status pvc st = st\<lparr>dst_ClaimRef := Some (local_ref (pvc_Name pvc) (pvc_Namespace pvc)), dst_ClaimUID := pvc_UID pvc,
     dst_StorageClassName := (case pvc_StorageClassName pvc of None \<Rightarrow> [] | Some c \<Rightarrow> TrimSpace c),
     dst_VolumeName := pvc_VolumeName pvc,
     dst_Capacity := (case pvc_Capacity pvc of None \<Rightarrow> [] | Some c \<Rightarrow> q_Text c), dst_LastError := []\<rparr>"

definition claim_phase_status ::
  "'w cluster \<Rightarrow> AgentDataVolume \<Rightarrow> AgentDataVolume \<Rightarrow> instant \<Rightarrow> PersistentVolumeClaim \<Rightarrow> bool \<Rightarrow>
     AgentDataVolumeStatus \<Rightarrow> AgentDataVolumeStatus" where
  "claim_phase_status cl obj effective now pvc expanding st =
     (let key = meta_key (pvc_Meta pvc) in
      if pvc_Phase pvc = ''Lost'' then
        volume_blocked cl obj now ''ClaimLost'' (''PersistentVolumeClaim '' @ key @ '' is Lost.'') st
      else if pvc_Phase pvc = ''Bound'' then
        (if expanding then
           volume_condition cl obj now ConditionFalse ''ExpansionPending''
             (''PersistentVolumeClaim '' @ key @ '' is expanding to '' @ q_Text (agentDataVolumeSize effective) @ ''.'')
             (st\<lparr>dst_Phase := AgentDataVolumePhasePending\<rparr>)
         else
           volume_condition cl obj now ConditionTrue ''ClaimBound''
             (''PersistentVolumeClaim '' @ key @ '' is bound to '' @ pvc_VolumeName pvc @ ''.'')
             (st\<lparr>dst_Phase := AgentDataVolumePhaseReady\<rparr>))
      else
        volume_condition cl obj now ConditionFalse ''ClaimPending''
          (''PersistentVolumeClaim '' @ key @ '' is '' @ firstNonEmpty (pvc_Phase pvc) ''Pending'' @ '' and is not bound yet.'')
          (st\<lparr>dst_Phase := AgentDataVolumePhasePending\<rparr>))"

definition volume_with_claim ::
  "'w cluster \<Rightarrow> string \<Rightarrow> 'w \<Rightarrow> AgentDataVolume \<Rightarrow> AgentDataVolume \<Rightarrow> instant \<Rightarrow> AgentDataVolumeStatus \<Rightarrow> 'w reconciled" where
  "volume_with_claim cl defaultStorageClass w obj effective now st =
     (case ensureAgentDataVolumePVC cl defaultStorageClass w obj effective of
        (Inl e, w) \<Rightarrow> (Inl e, w)
      | (Inr (pvc, created), w) \<Rightarrow>
          (case claim_refusal obj st pvc created of
             Some (reason, message) \<Rightarrow> patchAgentDataVolumeStatus cl w obj (volume_blocked cl obj now reason message st)
           | None \<Rightarrow>
               (case reconcileAgentDataVolumePVC cl defaultStorageClass w effective pvc of
                  (Inl e, w) \<Rightarrow> (Inl e, w)
                | (Inr (pvc, expanding, Some (reason, message)), w) \<Rightarrow>
                    patchAgentDataVolumeStatus cl w obj (volume_blocked cl obj now reason message (claim_status pvc st))
                | (Inr (pvc, expanding, None), w) \<Rightarrow>
                    patchAgentDataVolumeStatus cl w obj
                      (claim_phase_status cl obj effective now pvc expanding (claim_status pvc st)))))"

definition AgentDataVolumeReconciler_Reconcile ::
  "'w cluster \<Rightarrow> string \<Rightarrow> 'w \<Rightarrow> string \<Rightarrow> string \<Rightarrow> instant \<Rightarrow> 'w reconciled" where
  "AgentDataVolumeReconciler_Reconcile cl defaultStorageClass w namespace name now =
     (case rd_GetVolume (cl_cache cl) w namespace name of
        Inl e \<Rightarrow> (IgnoreNotFound e, w)
      | Inr obj \<Rightarrow>
          if being_deleted (volume_Meta obj) then (Inr no_requeue, w)
          else (case resolveAgentDataVolumeProfile (cl_cache cl) w obj of
            Inl e \<Rightarrow> (Inl e, w)
          | Inr (effective, profileRef, profileVolumeName, profileBlock) \<Rightarrow>
              (let st = volume_resolved_status cl obj effective profileRef profileVolumeName now in
               case volume_refusal effective st profileBlock of
                 Some (reason, message) \<Rightarrow> patchAgentDataVolumeStatus cl w obj (volume_blocked cl obj now reason message st)
               | None \<Rightarrow>
                   (let st = st\<lparr>dst_ExtraEnv := dv_ExtraEnv (volume_Spec effective)\<rparr> in
                    case claim_name_refusal effective st of
                      Some (reason, message) \<Rightarrow> patchAgentDataVolumeStatus cl w obj (volume_blocked cl obj now reason message st)
                    | None \<Rightarrow> volume_with_claim cl defaultStorageClass w obj effective now st))))"

subsection \<open>Merging and validating environments\<close>

lemma path_env_put_names:
  "distinct (map pe_Name xs) \<Longrightarrow> distinct (map pe_Name (path_env_put xs item)) \<and>
   set (map pe_Name (path_env_put xs item)) = insert (pe_Name item) (set (map pe_Name xs))"
  by (induction xs) auto

lemma mergeAgentDataVolumePathEnv_distinct: "distinct (map pe_Name (mergeAgentDataVolumePathEnv base additions))"
proof -
  have "distinct (map pe_Name acc) \<Longrightarrow> distinct (map pe_Name (foldl (\<lambda>merged item. path_env_put merged
      \<lparr>pe_Name = TrimSpace (pe_Name item), pe_Value = TrimSpace (pe_Value item)\<rparr>) acc xs))" for acc xs
    by (induction xs arbitrary: acc) (simp_all add: path_env_put_names)
  from this [of "[]" "base @ additions"] show ?thesis
    unfolding mergeAgentDataVolumePathEnv_def by (simp del: foldl_append)
qed

lemma validated_path_env:
  "validateAgentDataVolumePathEnv items mountPath = None \<Longrightarrow> item \<in> set items \<Longrightarrow>
   agentDataVolumePathEnvNamePattern (TrimSpace (pe_Name item)) \<and> path_IsAbs (path_Clean (TrimSpace (pe_Value item))) \<and>
   (path_Clean (TrimSpace (pe_Value item)) = path_Clean (TrimSpace mountPath) \<or>
    HasPrefix (path_Clean (TrimSpace (pe_Value item))) (path_Clean (TrimSpace mountPath) @ ''/''))"
  by (induction items) (auto simp: Let_def split: if_splits)

subsection \<open>The claim of a volume\<close>

text \<open>\<open>claim_kept\<close>: a recorded claim stays recorded, by UID and by name. \<open>claim_seen\<close>: the claim that the
  reconciliation read under the claim name, at its start or after its own create. \<open>ready_claim\<close>: the status
  names that claim, controlled by the volume, with the storage class, access modes and provenance asked
  for.\<close>

definition recorded_claim :: "AgentDataVolumeStatus \<Rightarrow> string" where
  "recorded_claim st = (case dst_ClaimRef st of None \<Rightarrow> [] | Some ref \<Rightarrow> TrimSpace (nor_Name ref))"

definition claim_kept :: "AgentDataVolumeStatus \<Rightarrow> AgentDataVolumeStatus \<Rightarrow> bool" where
  "claim_kept old new \<longleftrightarrow> (dst_ClaimUID old \<noteq> [] \<longrightarrow> dst_ClaimUID new = dst_ClaimUID old) \<and>
     (recorded_claim old \<noteq> [] \<longrightarrow> recorded_claim new = recorded_claim old)"

definition claim_seen :: "'w cluster \<Rightarrow> string \<Rightarrow> 'w \<Rightarrow> AgentDataVolume \<Rightarrow> AgentDataVolume \<Rightarrow> PersistentVolumeClaim \<Rightarrow> bool" where
  "claim_seen cl dsc w obj effective pvc \<longleftrightarrow>
     (let get = (\<lambda>u. rd_GetClaim (cl_cache cl) u (volume_Namespace obj) (agentDataVolumeClaimName effective)) in
      get w = Inr pvc \<or>
      (\<exists>e claim r u. get w = Inl e \<and> IsNotFound e \<and> desired_claim cl dsc obj effective = Inr claim \<and>
         cl_CreateClaim cl w claim = (r, u) \<and> get u = Inr pvc))"

definition ready_claim :: "'w cluster \<Rightarrow> string \<Rightarrow> 'w \<Rightarrow> AgentDataVolume \<Rightarrow> AgentDataVolume \<Rightarrow> AgentDataVolumeStatus \<Rightarrow> bool" where
  "ready_claim cl dsc w obj effective st \<longleftrightarrow>
     (\<exists>pvc. claim_seen cl dsc w obj effective pvc \<and>
        controlled_by ''AgentDataVolume'' (pvc_Meta pvc) (volume_Meta obj) \<and> dst_ClaimUID st = pvc_UID pvc \<and>
        claim_drift dsc effective pvc = None)"

lemma claim_kept_refl [simp]: "claim_kept st st"
  by (simp add: claim_kept_def)

lemma claim_kept_blocked [simp]: "claim_kept old (volume_blocked cl obj now reason message st) = claim_kept old st"
  by (simp add: claim_kept_def recorded_claim_def volume_blocked_def volume_condition_def)

lemma claim_kept_phase [simp]: "claim_kept old (claim_phase_status cl obj effective now pvc expanding st) = claim_kept old st"
  by (simp add: claim_kept_def recorded_claim_def claim_phase_status_def volume_blocked_def volume_condition_def Let_def)

lemma blocked_phase [simp]: "dst_Phase (volume_blocked cl obj now reason message st) = AgentDataVolumePhaseBlocked"
  by (simp add: volume_blocked_def volume_condition_def)

lemma ready_claim_phase [simp]:
  "ready_claim cl dsc w obj effective (claim_phase_status cl' obj' effective' now pvc expanding st) = ready_claim cl dsc w obj effective st"
  by (simp add: ready_claim_def claim_phase_status_def volume_blocked_def volume_condition_def Let_def)

lemma writes_patch_status:
  assumes "\<And>w l a b. patch (w, l) a b = noted (ev a b) (p w a b) l"
  shows "writes (patch_status patch (w, l) original obj d) = l @ [ev original obj (fst (p w original obj))]"
  unfolding patch_status_def assms
  by (cases "p w original obj") (auto split: option.splits)

lemma writes_patch_volume [simp]:
  "writes (patch_status (cl_PatchVolumeStatus (logged cl)) (w, l) original obj d) =
     l @ [PatchedVolumeStatus original obj (fst (cl_PatchVolumeStatus cl w original obj))]"
  by (rule writes_patch_status) simp

lemma logged_own [simp]: "own (logged cl) kind owner meta = own cl kind owner meta"
  by (simp add: own_def)

lemma desired_claim_logged [simp]: "desired_claim (logged cl) dsc owner effective = desired_claim cl dsc owner effective"
  by (simp add: desired_claim_def)

lemma resolve_logged:
  "resolveAgentDataVolumeProfile (logged_reader (cl_cache cl)) (w, l) obj = resolveAgentDataVolumeProfile (cl_cache cl) w obj"
proof -
  have get: "rd_GetVolumeProfile (logged_reader (cl_cache cl)) (w, l) ns n = rd_GetVolumeProfile (cl_cache cl) w ns n" for ns n
    by simp
  show ?thesis unfolding resolveAgentDataVolumeProfile_def get ..
qed

text \<open>What the controller relies on: a read returns the claim of the name it asked for, and a patch keeps
  a claim's identity.\<close>

locale claim_api =
  fixes cl :: "'w cluster"
  assumes get_named: "\<And>w ns n pvc. rd_GetClaim (cl_cache cl) w ns n = Inr pvc \<Longrightarrow> pvc_Name pvc = n \<and> pvc_Namespace pvc = ns"
    and patch_keeps: "\<And>w a b c w'. cl_PatchClaim cl w a b = (Inr c, w') \<Longrightarrow>
      pvc_Name c = pvc_Name b \<and> pvc_Namespace c = pvc_Namespace b \<and> pvc_UID c = pvc_UID b"
begin

lemma ensure_claim:
  assumes "ensureAgentDataVolumePVC (logged cl) dsc (w, l) obj effective = (Inr (pvc, created), (w', l'))"
  shows "claim_seen cl dsc w obj effective pvc"
    and "pvc_Name pvc = agentDataVolumeClaimName effective" "pvc_Namespace pvc = volume_Namespace obj"
    and "\<forall>a b e. PatchedVolumeStatus a b e \<in> set l' \<longrightarrow> PatchedVolumeStatus a b e \<in> set l"
proof -
  show seen: "claim_seen cl dsc w obj effective pvc"
    using assms unfolding ensureAgentDataVolumePVC_def claim_seen_def Let_def
    by (auto simp: noted_def split: sum.splits if_splits option.splits prod.splits)
  have "\<exists>u. rd_GetClaim (cl_cache cl) u (volume_Namespace obj) (agentDataVolumeClaimName effective) = Inr pvc"
    using seen unfolding claim_seen_def Let_def by blast
  then show "pvc_Name pvc = agentDataVolumeClaimName effective" "pvc_Namespace pvc = volume_Namespace obj"
    using get_named by auto
  show "\<forall>a b e. PatchedVolumeStatus a b e \<in> set l' \<longrightarrow> PatchedVolumeStatus a b e \<in> set l"
    using assms unfolding ensureAgentDataVolumePVC_def Let_def
    by (auto simp: noted_def split: sum.splits if_splits option.splits prod.splits)
qed

lemma ensure_claim_failed:
  assumes "ensureAgentDataVolumePVC (logged cl) dsc (w, l) obj effective = (Inl err, (w', l'))"
  shows "\<forall>a b e. PatchedVolumeStatus a b e \<in> set l' \<longrightarrow> PatchedVolumeStatus a b e \<in> set l"
  using assms unfolding ensureAgentDataVolumePVC_def Let_def
  by (auto simp: noted_def split: sum.splits if_splits option.splits prod.splits)

lemma reconcile_claim:
  assumes "reconcileAgentDataVolumePVC (logged cl) dsc (w, l) effective pvc0 = (r, (w', l'))"
  shows "\<forall>a b e. PatchedVolumeStatus a b e \<in> set l' \<longrightarrow> PatchedVolumeStatus a b e \<in> set l"
    and "r = Inr (pvc, expanding, drift) \<Longrightarrow>
      pvc_Name pvc = pvc_Name pvc0 \<and> pvc_Namespace pvc = pvc_Namespace pvc0 \<and> pvc_UID pvc = pvc_UID pvc0"
    and "r = Inr (pvc, expanding, None) \<Longrightarrow> claim_drift dsc effective pvc0 = None \<and>
      \<not> q_Amount (dv_Size (volume_Spec effective)) < q_Amount (pvc_Request pvc0) \<or> q_IsZero (dv_Size (volume_Spec effective))"
proof -
  show "\<forall>a b e. PatchedVolumeStatus a b e \<in> set l' \<longrightarrow> PatchedVolumeStatus a b e \<in> set l"
    using assms unfolding reconcileAgentDataVolumePVC_def Let_def
    by (auto simp: noted_def split: sum.splits if_splits option.splits prod.splits)
  show "r = Inr (pvc, expanding, drift) \<Longrightarrow>
      pvc_Name pvc = pvc_Name pvc0 \<and> pvc_Namespace pvc = pvc_Namespace pvc0 \<and> pvc_UID pvc = pvc_UID pvc0"
    using assms unfolding reconcileAgentDataVolumePVC_def Let_def
    by (auto simp: noted_def dest!: patch_keeps split: sum.splits if_splits option.splits prod.splits)
  show "r = Inr (pvc, expanding, None) \<Longrightarrow> claim_drift dsc effective pvc0 = None \<and>
      \<not> q_Amount (dv_Size (volume_Spec effective)) < q_Amount (pvc_Request pvc0) \<or> q_IsZero (dv_Size (volume_Spec effective))"
    using assms unfolding reconcileAgentDataVolumePVC_def Let_def
    by (auto simp: noted_def q_Less_def split: sum.splits if_splits option.splits prod.splits)
qed

lemma with_claim_patch:
  assumes "PatchedVolumeStatus a b e \<in> set (writes (volume_with_claim (logged cl) dsc (w, l) obj effective now st))"
    and "\<forall>a b e. PatchedVolumeStatus a b e \<notin> set l" and named: "claim_name_refusal effective st = None"
  shows "a = obj \<and> b = obj\<lparr>volume_Status := volume_Status b\<rparr>"
    and "claim_kept st (volume_Status b)"
    and "dst_Phase (volume_Status b) = AgentDataVolumePhaseReady \<Longrightarrow> ready_claim cl dsc w obj effective (volume_Status b)"
proof -
  obtain r w1 l1 where ens: "ensureAgentDataVolumePVC (logged cl) dsc (w, l) obj effective = (r, (w1, l1))"
    by (metis prod.exhaust)
  have "a = obj \<and> b = obj\<lparr>volume_Status := volume_Status b\<rparr> \<and> claim_kept st (volume_Status b) \<and>
      (dst_Phase (volume_Status b) = AgentDataVolumePhaseReady \<longrightarrow> ready_claim cl dsc w obj effective (volume_Status b))"
  proof (cases r)
    case (Inl err)
    then show ?thesis using assms(1,2) ens ensure_claim_failed unfolding volume_with_claim_def by fastforce
  next
    case (Inr pc)
    obtain pvc created where pc: "pc = (pvc, created)" by (cases pc)
    note ens' = ens [unfolded Inr pc]
    have clean: "\<forall>a b e. PatchedVolumeStatus a b e \<notin> set l1" using ensure_claim(4) [OF ens'] assms(2) by blast
    have name: "pvc_Name pvc = agentDataVolumeClaimName effective" using ensure_claim(2) [OF ens'] .
    show ?thesis
    proof (cases "claim_refusal obj st pvc created")
      case (Some why)
      then show ?thesis using assms(1) ens' clean unfolding volume_with_claim_def
        by (cases why) (auto simp: patchAgentDataVolumeStatus_def)
    next
      case None
      have accepted: "controlled_by ''AgentDataVolume'' (pvc_Meta pvc) (volume_Meta obj)"
          "dst_ClaimUID st \<noteq> [] \<Longrightarrow> dst_ClaimUID st = pvc_UID pvc"
        using None unfolding claim_refusal_def Let_def by (auto split: if_splits)
      obtain r2 w2 l2 where rec: "reconcileAgentDataVolumePVC (logged cl) dsc (w1, l1) effective pvc = (r2, (w2, l2))"
        by (metis prod.exhaust)
      have clean2: "\<forall>a b e. PatchedVolumeStatus a b e \<notin> set l2" using reconcile_claim(1) [OF rec] clean by blast
      show ?thesis
      proof (cases r2)
        case (Inl err)
        then show ?thesis using assms(1) ens' None rec clean2 unfolding volume_with_claim_def by auto
      next
        case (Inr x)
        obtain pvc' expanding drift where x: "x = (pvc', expanding, drift)" by (cases x)
        have same: "pvc_Name pvc' = pvc_Name pvc" "pvc_UID pvc' = pvc_UID pvc"
          using reconcile_claim(2) [OF rec, of pvc' expanding drift] Inr x by auto
        have kept: "claim_kept st (claim_status pvc' st)"
          using named name same accepted(2) unfolding claim_kept_def claim_name_refusal_def claim_status_def recorded_claim_def local_ref_def
          by (auto simp: Let_def split: if_splits option.splits) (metis TrimSpace_def trim_by_idem)
        show ?thesis
        proof (cases drift)
          case (Some why)
          then show ?thesis using assms(1) ens' None rec clean2 Inr x kept unfolding volume_with_claim_def
            by (cases why) (auto simp: patchAgentDataVolumeStatus_def)
        next
          case nodrift: None
          have "claim_drift dsc effective pvc = None"
            using rec Inr x nodrift unfolding reconcileAgentDataVolumePVC_def by (auto split: option.splits)
          then have "ready_claim cl dsc w obj effective (claim_status pvc' st)"
            using ensure_claim(1) [OF ens'] accepted(1) same unfolding ready_claim_def claim_status_def by auto
          then show ?thesis using assms(1) ens' None rec clean2 Inr x nodrift kept unfolding volume_with_claim_def
            by (auto simp: patchAgentDataVolumeStatus_def)
        qed
      qed
    qed
  qed
  then show "a = obj \<and> b = obj\<lparr>volume_Status := volume_Status b\<rparr>" "claim_kept st (volume_Status b)"
    "dst_Phase (volume_Status b) = AgentDataVolumePhaseReady \<Longrightarrow> ready_claim cl dsc w obj effective (volume_Status b)" by auto
qed

text \<open>Every status the controller writes is a status of the volume it read, keeps the recorded claim, and
  says ready only of an accepted claim.\<close>

lemma volume_reconcile_patch:
  assumes got: "rd_GetVolume (cl_cache cl) w ns name = Inr obj"
    and ev: "PatchedVolumeStatus a b e \<in> set (writes (AgentDataVolumeReconciler_Reconcile (logged cl) dsc (w, []) ns name now))"
  shows "a = obj \<and> b = obj\<lparr>volume_Status := volume_Status b\<rparr> \<and> claim_kept (volume_Status obj) (volume_Status b) \<and>
    (dst_Phase (volume_Status b) = AgentDataVolumePhaseReady \<longrightarrow>
      (\<exists>effective profile. resolveAgentDataVolumeProfile (cl_cache cl) w obj = Inr (effective, profile) \<and>
        ready_claim cl dsc w obj effective (volume_Status b)))"
proof -
  have alive: "\<not> being_deleted (volume_Meta obj)"
    using got ev unfolding AgentDataVolumeReconciler_Reconcile_def by (auto split: if_splits)
  obtain r where res: "resolveAgentDataVolumeProfile (logged_reader (cl_cache cl)) (w, []) obj = r" by simp
  show ?thesis
  proof (cases r)
    case (Inl err)
    then show ?thesis using got ev alive res unfolding AgentDataVolumeReconciler_Reconcile_def by simp
  next
    case (Inr x)
    obtain effective pref pname block where x: "x = (effective, pref, pname, block)" by (cases x)
    define st where "st = volume_resolved_status (logged cl) obj effective pref pname now"
    have kept: "claim_kept (volume_Status obj) st" "claim_kept (volume_Status obj) (st\<lparr>dst_ExtraEnv := env\<rparr>)" for env
      by (simp_all add: claim_kept_def recorded_claim_def st_def volume_resolved_status_def)
    note unf = AgentDataVolumeReconciler_Reconcile_def [of "logged cl" dsc "(w, [])" ns name now]
    show ?thesis
    proof (cases "volume_refusal effective st block")
      case (Some why)
      then show ?thesis using got ev alive res Inr x kept(1) unfolding unf st_def
        by (cases why) (auto simp: patchAgentDataVolumeStatus_def)
    next
      case None
      define st' where "st' = st\<lparr>dst_ExtraEnv := dv_ExtraEnv (volume_Spec effective)\<rparr>"
      show ?thesis
      proof (cases "claim_name_refusal effective st'")
        case (Some why)
        then show ?thesis using got ev alive res Inr x None kept(2) unfolding unf st_def st'_def
          by (cases why) (auto simp: patchAgentDataVolumeStatus_def)
      next
        case named: None
        have ev': "PatchedVolumeStatus a b e \<in> set (writes (volume_with_claim (logged cl) dsc (w, []) obj effective now st'))"
          using got ev alive res Inr x None named unfolding unf st_def st'_def by simp
        have trans: "claim_kept (volume_Status obj) (volume_Status b)" if "claim_kept st' (volume_Status b)"
          using that unfolding claim_kept_def recorded_claim_def st'_def st_def volume_resolved_status_def by simp
        show ?thesis using with_claim_patch [OF ev' _ named] trans res Inr x resolve_logged [of cl w "[]" obj] by auto
      qed
    qed
  qed
qed

end

interpretation mem_claims: claim_api "mem_cluster aj" for aj
  by unfold_locales (auto simp: mem_reader_def mem_put_def dest!: found_keyed split: if_splits)

text \<open>
  C22. The claim of a data volume is pinned. Every status the controller writes is for the volume it
  read and keeps the UID and the name of a claim once recorded. It reports the volume ready only with
  the claim that the reconciliation itself read under the claim name of the effective volume (the
  volume with its profile, as it resolved it), at its start or after its own create; that claim is
  controlled by this very volume, its UID is the one the status records, and its storage class,
  access modes and provenance are those the effective volume asks for.
\<close>

theorem volume_claim_pinned:
  assumes "claim_api cl" and "rd_GetVolume (cl_cache cl) w ns name = Inr obj"
    and "PatchedVolumeStatus a b e \<in> set (writes (AgentDataVolumeReconciler_Reconcile (logged cl) dsc (w, []) ns name now))"
  shows "a = obj \<and> b = obj\<lparr>volume_Status := volume_Status b\<rparr> \<and> claim_kept (volume_Status obj) (volume_Status b) \<and>
    (dst_Phase (volume_Status b) = AgentDataVolumePhaseReady \<longrightarrow>
      (\<exists>effective profile pvc. resolveAgentDataVolumeProfile (cl_cache cl) w obj = Inr (effective, profile) \<and>
        claim_seen cl dsc w obj effective pvc \<and> controlled_by ''AgentDataVolume'' (pvc_Meta pvc) (volume_Meta obj) \<and>
        dst_ClaimUID (volume_Status b) = pvc_UID pvc \<and> claim_drift dsc effective pvc = None))"
  using claim_api.volume_reconcile_patch [OF assms] unfolding ready_claim_def by blast

definition demo_claim :: PersistentVolumeClaim where
  "demo_claim = \<lparr>pvc_Meta = zero_ObjectMeta\<lparr>om_Name := ''home'', om_Namespace := ''team'', om_UID := ''c1'',
       om_OwnerReferences := [owner_ref ''AgentDataVolume'' (zero_ObjectMeta\<lparr>om_Name := ''v'', om_UID := ''u1''\<rparr>)]\<rparr>,
     pvc_AccessModes = [''ReadWriteOnce''], pvc_StorageClassName = None, pvc_Request = agentDataVolumeDefaultSize,
     pvc_VolumeName = ''pv1'', pvc_Selector = None, pvc_DataSource = None, pvc_DataSourceRef = None, pvc_VolumeMode = None,
     pvc_Phase = ''Bound'', pvc_Capacity = Some agentDataVolumeDefaultSize\<rparr>"

definition demo_volume :: AgentDataVolume where
  "demo_volume = \<lparr>volume_Meta = zero_ObjectMeta\<lparr>om_Name := ''v'', om_Namespace := ''team'', om_UID := ''u1'', om_Generation := 1\<rparr>,
     volume_Spec = \<lparr>dv_ApplicationRef = None, dv_AgentName = [], dv_Backend = AgentRunHarnessBackendCodex, dv_ProfileRef = None,
       dv_ProfileVolumeName = [], dv_ClaimName = ''home'', dv_MountPath = [], dv_SubPath = [], dv_StorageClassName = [],
       dv_Size = zero_Quantity, dv_AccessModes = [], dv_NodeSelector = [], dv_ExtraEnv = [], dv_ExternalSync = None, dv_Notes = []\<rparr>,
     volume_Status = \<lparr>dst_ObservedGeneration = 0, dst_Conditions = [], dst_Phase = AgentDataVolumePhaseUnset, dst_ProfileRef = None,
       dst_ProfileVolumeName = [], dst_ClaimRef = Some (local_ref ''home'' ''team''), dst_ClaimUID = ''c1'', dst_StorageClassName = [],
       dst_VolumeName = [], dst_Capacity = [], dst_MountPath = [], dst_SubPath = [], dst_NodeSelector = [], dst_ExtraEnv = [],
       dst_ExternalSync = None, dst_LastError = []\<rparr>\<rparr>"

definition demo_volume_state :: mem_cluster_state where
  "demo_volume_state = \<lparr>mc_Kube = mem_empty, mc_Next = 1, mc_Composition = demo_reader, mc_Volumes = [demo_volume],
     mc_VolumeProfiles = [], mc_Claims = [demo_claim], mc_StorageClasses = [], mc_PersistentVolumes = [], mc_Sessions = [],
     mc_Copies = [], mc_Jobs = [], mc_ConfigMaps = [], mc_Pods = [], mc_Secrets = [], mc_Services = [], mc_ExternalSecrets = [], mc_Situations = [],
     mc_Logs = [], mc_Archive = [], mc_Actors = NewFakeClient, mc_Reply = Inr []\<rparr>"

definition demo_volume_writes :: "cluster_event list" where
  "demo_volume_writes = writes (AgentDataVolumeReconciler_Reconcile (logged (mem_cluster demo_archive_json)) []
     (demo_volume_state, []) ''team'' ''v'' 5)"

fun patched_phases :: "cluster_event list \<Rightarrow> AgentDataVolumePhase list" where
  "patched_phases (PatchedVolumeStatus a b e # l) = dst_Phase (volume_Status b) # patched_phases l"
| "patched_phases (_ # l) = patched_phases l"
| "patched_phases [] = []"

lemma patched_phases_event:
  "p \<in> set (patched_phases l) \<Longrightarrow> \<exists>a b e. PatchedVolumeStatus a b e \<in> set l \<and> dst_Phase (volume_Status b) = p"
  by (induction l rule: patched_phases.induct) auto

lemma demo_volume_phase: "patched_phases demo_volume_writes = [AgentDataVolumePhaseReady]"
  by code_simp

theorem volume_claim_pinned_witness:
  "\<exists>b e. PatchedVolumeStatus demo_volume b e \<in> set demo_volume_writes \<and>
     dst_Phase (volume_Status b) = AgentDataVolumePhaseReady \<and> dst_ClaimUID (volume_Status b) = ''c1''"
proof -
  obtain a b e where ev: "PatchedVolumeStatus a b e \<in> set demo_volume_writes"
      and ready: "dst_Phase (volume_Status b) = AgentDataVolumePhaseReady"
    using patched_phases_event [of AgentDataVolumePhaseReady demo_volume_writes] demo_volume_phase by auto
  have got: "rd_GetVolume (cl_cache (mem_cluster demo_archive_json)) demo_volume_state ''team'' ''v'' = Inr demo_volume"
    by (simp add: mem_reader_def demo_volume_state_def keyed_def demo_volume_def zero_ObjectMeta_def)
  have "a = demo_volume \<and> claim_kept (volume_Status demo_volume) (volume_Status b)"
    using volume_claim_pinned [OF mem_claims.claim_api_axioms got ev [unfolded demo_volume_writes_def]] by blast
  then show ?thesis using ev ready by (auto simp: claim_kept_def demo_volume_def)
qed

end
