(* ===== verification/VolumeUse.thy ===== *)
theory VolumeUse
  imports DataVolume
begin

text \<open>
  Who may use a data volume: the reservations that maintenance sessions and copies take
  (\<^verbatim>\<open>AgentAuthSessionBlocksDataVolume\<close>, \<^verbatim>\<open>AgentDataVolumeCopyBlocksDataVolume\<close>,
  \<^verbatim>\<open>listActiveAuthVolumeConsumers\<close>) and the volumes of a run (\<^verbatim>\<open>resolveAgentRunDataVolumes\<close> of
  \<^verbatim>\<open>agent_run_controller.go\<close>). The lemmas show what a run's resolved volume is pinned to.
\<close>

subsection \<open>Reservations\<close>

definition AgentAuthSessionBlocksDataVolume :: "'w reader \<Rightarrow> 'w \<Rightarrow> string \<Rightarrow> string \<Rightarrow> string option result" where
  "AgentAuthSessionBlocksDataVolume rd w namespace volumeName =
     (case rd_ListSessions rd w namespace of
        Inl e \<Rightarrow> Inl e
      | Inr sessions \<Rightarrow> Inr (map_option session_Name
          (find (\<lambda>s. TrimSpace (lor_Name (au_DataVolumeRef (session_Spec s))) = volumeName \<and>
             \<not> AgentAuthSessionIsTerminal (aus_Phase (session_Status s))) sessions)))"

definition copy_uses :: "string \<Rightarrow> AgentDataVolumeCopy \<Rightarrow> bool" where
  "copy_uses volumeName c \<longleftrightarrow> TrimSpace (lor_Name (cp_SourceRef (copy_Spec c))) = volumeName \<or>
     TrimSpace (cd_Name (cp_Destination (copy_Spec c))) = volumeName"

definition AgentDataVolumeCopyBlocksDataVolume :: "'w reader \<Rightarrow> 'w \<Rightarrow> string \<Rightarrow> string \<Rightarrow> string option result" where
  "AgentDataVolumeCopyBlocksDataVolume rd w namespace volumeName =
     (case rd_ListCopies rd w namespace of
        Inl e \<Rightarrow> Inl e
      | Inr copies \<Rightarrow> Inr (map_option copy_Name
          (find (\<lambda>c. \<not> AgentDataVolumeCopyIsTerminal (cps_Phase (copy_Status c)) \<and> copy_uses volumeName c) copies)))"

definition agentRunIsTerminal :: "AgentRunPhase \<Rightarrow> bool" where
  "agentRunIsTerminal phase \<longleftrightarrow> phase \<in> {AgentRunPhaseSucceeded, AgentRunPhaseFailed}"

definition run_uses_volume :: "string \<Rightarrow> AgentRun \<Rightarrow> bool" where
  "run_uses_volume volumeName run \<longleftrightarrow>
     (\<exists>ref \<in> set (ex_DataVolumeRefs (run_execution run)). TrimSpace (dvr_Name ref) = volumeName) \<or>
     (\<exists>v \<in> set (rs_DataVolumes (run_Status run)). TrimSpace (dvs_Name v) = volumeName)"

definition listActiveAuthVolumeConsumers :: "'w reader \<Rightarrow> 'w \<Rightarrow> string \<Rightarrow> string \<Rightarrow> string list result" where
  "listActiveAuthVolumeConsumers rd w namespace volumeName =
     (case k_ListRuns (rd_Kube rd) w (Some namespace) [] of
        Inl e \<Rightarrow> Inl (Wrapf ''list AgentRuns'' e)
      | Inr runs \<Rightarrow> Inr (map run_Name
          (filter (\<lambda>run. \<not> agentRunIsTerminal (rs_Phase (run_Status run)) \<and> run_uses_volume volumeName run) runs)))"

subsection \<open>The volumes of a run\<close>

definition agentRunDataVolumeWaitingForConsumer :: "'w reader \<Rightarrow> 'w \<Rightarrow> AgentDataVolume \<Rightarrow> bool result" where
  "agentRunDataVolumeWaitingForConsumer rd w volume =
     (case dst_ClaimRef (volume_Status volume) of
        None \<Rightarrow> Inr False
      | Some ref \<Rightarrow>
          (case find (\<lambda>c. cond_Type c = agentDataVolumeReady) (dst_Conditions (volume_Status volume)) of
             None \<Rightarrow> Inr False
           | Some ready \<Rightarrow>
               if cond_Status ready \<noteq> ConditionFalse \<or> cond_Reason ready \<noteq> ''ClaimPending'' then Inr False
               else
                 (let namespace = firstNonEmpty (TrimSpace (nor_Namespace ref)) (volume_Namespace volume);
                      claimName = TrimSpace (nor_Name ref) in
                  if namespace \<noteq> volume_Namespace volume \<or> claimName = [] then Inr False
                  else (case rd_GetClaim rd w namespace claimName of
                    Inl e \<Rightarrow> Inl (Wrapf (''get pending AgentDataVolume claim '' @ namespace @ ''/'' @ claimName) e)
                  | Inr pvc \<Rightarrow>
                      (let class = (case pvc_StorageClassName pvc of None \<Rightarrow> [] | Some c \<Rightarrow> TrimSpace c) in
                       if pvc_Phase pvc \<noteq> ''Pending'' \<or> class = [] then Inr False
                       else (case rd_GetStorageClass rd w class of
                         Inl e \<Rightarrow> Inl (Wrapf (''get StorageClass '' @ class @ '' for pending AgentDataVolume '' @ meta_key (volume_Meta volume)) e)
                       | Inr mode \<Rightarrow> Inr (mode = Some ''WaitForFirstConsumer'')))))))"

text \<open>The selector of the run and the volumes so far, with a volume's selector; \<open>Inl\<close> is the first conflict.\<close>

fun merge_selector :: "strmap \<Rightarrow> strmap \<Rightarrow> (string \<times> string \<times> string) + strmap" where
  "merge_selector sel [] = Inr sel"
| "merge_selector sel ((key, v) # rest) =
     (case map_of sel key of
        Some existing \<Rightarrow> if existing \<noteq> v then Inl (key, v, existing) else merge_selector (map_set sel key v) rest
      | None \<Rightarrow> merge_selector (map_set sel key v) rest)"

text \<open>The checks of one volume before its claim: \<open>None\<close> lets it pass.\<close>

definition volume_gate :: "'w reader \<Rightarrow> 'w \<Rightarrow> string \<Rightarrow> string \<Rightarrow> AgentDataVolume \<Rightarrow> string \<Rightarrow> blocking option result" where
  "volume_gate rd w namespace name volume applicationName =
     (let key = namespace @ ''/'' @ name; st = volume_Status volume;
          app = (case dv_ApplicationRef (volume_Spec volume) of None \<Rightarrow> None | Some a \<Rightarrow> Some (TrimSpace (app_Name a))) in
      if (case app of None \<Rightarrow> False | Some a \<Rightarrow> applicationName = [] \<or> a \<noteq> applicationName) then
        Inr (Some (AgentRunPhaseFailed, ''DataVolumeApplicationMismatch'', ''AgentDataVolume '' @ key @ '' is scoped to Application '' @
          Quote (the app) @ '', but the AgentRun resolves to '' @ Quote applicationName @ ''.''))
      else if \<not> agentDataVolumeStatusCurrent volume then
        Inr (Some (AgentRunPhasePending, ''DataVolumeStatusStale'', ''Waiting for AgentDataVolume '' @ key @
          '' status to observe generation '' @ Itoa (volume_Generation volume) @ ''.''))
      else (case (if dst_Phase st = AgentDataVolumePhasePending \<or> dst_Phase st = AgentDataVolumePhaseUnset
                  then agentRunDataVolumeWaitingForConsumer rd w volume else Inr True) of
        Inl e \<Rightarrow> Inl e
      | Inr False \<Rightarrow> Inr (Some (AgentRunPhasePending, ''DataVolumeNotReady'', ''Waiting for AgentDataVolume '' @ key @ '' to become Ready.''))
      | Inr True \<Rightarrow>
          if dst_Phase st = AgentDataVolumePhaseBlocked then
            Inr (Some (AgentRunPhaseNeedsHuman, ''DataVolumeBlocked'',
              firstNonEmpty (TrimSpace (dst_LastError st)) (''AgentDataVolume '' @ key @ '' is blocked.'')))
          else (case AgentAuthSessionBlocksDataVolume rd w namespace name of
            Inl e \<Rightarrow> Inl (Wrapf (''check AgentAuthSession reservation for '' @ key) e)
          | Inr (Some session) \<Rightarrow> Inr (Some (AgentRunPhasePending, ''AuthSessionActive'', ''Waiting for AgentAuthSession '' @
              namespace @ ''/'' @ session @ '' to finish maintenance on AgentDataVolume '' @ name @ ''.''))
          | Inr None \<Rightarrow>
              (case AgentDataVolumeCopyBlocksDataVolume rd w namespace name of
                 Inl e \<Rightarrow> Inl (Wrapf (''check AgentDataVolumeCopy reservation for '' @ key) e)
               | Inr (Some copy) \<Rightarrow> Inr (Some (AgentRunPhasePending, ''VolumeCopyActive'', ''Waiting for AgentDataVolumeCopy '' @
                   namespace @ ''/'' @ copy @ '' to finish on AgentDataVolume '' @ name @ ''.''))
               | Inr None \<Rightarrow> Inr None))))"

text \<open>The claim of a volume that passed: its name, or why the run waits or stops.\<close>

definition volume_claim :: "'w reader \<Rightarrow> 'w \<Rightarrow> string \<Rightarrow> string \<Rightarrow> AgentDataVolume \<Rightarrow> (blocking + string) result" where
  "volume_claim rd w namespace name volume =
     (let key = namespace @ ''/'' @ name; st = volume_Status volume;
          ref = (case dst_ClaimRef st of None \<Rightarrow> None | Some r \<Rightarrow> if TrimSpace (nor_Name r) = [] then None else Some r);
          claimNamespace = (case ref of None \<Rightarrow> namespace | Some r \<Rightarrow> firstNonEmpty (TrimSpace (nor_Namespace r)) namespace);
          claimName = (case ref of None \<Rightarrow> agentDataVolumeClaimName volume | Some r \<Rightarrow> TrimSpace (nor_Name r));
          claimUID = TrimSpace (dst_ClaimUID st) in
      if claimNamespace \<noteq> namespace then
        Inr (Inl (AgentRunPhaseFailed, ''CrossNamespaceDataVolumeClaim'', ''AgentDataVolume '' @ key @ '' resolved claim '' @
          claimNamespace @ ''/'' @ claimName @ '' outside the AgentRun namespace.''))
      else if TrimSpace claimName = [] then
        Inr (Inl (AgentRunPhaseNeedsHuman, ''DataVolumeClaimNotConfigured'', ''AgentDataVolume '' @ key @
          '' does not resolve to a PersistentVolumeClaim.''))
      else if claimUID = [] then
        Inr (Inl (AgentRunPhasePending, ''DataVolumeClaimIdentityPending'', ''Waiting for AgentDataVolume '' @ key @
          '' to record its PersistentVolumeClaim UID.''))
      else (case rd_GetClaim rd w namespace claimName of
        Inl e \<Rightarrow> if IsNotFound e
          then Inr (Inl (AgentRunPhasePending, ''DataVolumeClaimMissing'', ''Waiting for PersistentVolumeClaim '' @ namespace @ ''/'' @
            claimName @ '' recorded by AgentDataVolume '' @ key @ ''.''))
          else Inl (Wrapf (''get AgentDataVolume claim '' @ namespace @ ''/'' @ claimName) e)
      | Inr pvc \<Rightarrow>
          if \<not> controlled_by ''AgentDataVolume'' (pvc_Meta pvc) (volume_Meta volume) then
            Inr (Inl (AgentRunPhaseFailed, ''ForeignDataVolumeClaim'', ''PersistentVolumeClaim '' @ namespace @ ''/'' @ claimName @
              '' is not controlled by AgentDataVolume '' @ key @ '' with the current UID.''))
          else if pvc_UID pvc \<noteq> claimUID then
            Inr (Inl (AgentRunPhaseFailed, ''DataVolumeClaimReplaced'', ''PersistentVolumeClaim '' @ namespace @ ''/'' @ claimName @
              '' UID no longer matches AgentDataVolume '' @ key @ '' status.''))
          else Inr (Inr claimName)))"

definition resolved_volume :: "string \<Rightarrow> string \<Rightarrow> AgentRunDataVolumeRef \<Rightarrow> AgentDataVolume \<Rightarrow> string \<Rightarrow> resolvedAgentRunDataVolume" where
  "resolved_volume namespace name ref volume claimName =
     \<lparr>rdv_Name = name, rdv_Namespace = namespace, rdv_ClaimName = claimName,
      rdv_MountPath = firstNonEmpty (TrimSpace (dvr_MountPath ref)) (agentDataVolumeResolvedMountPath volume),
      rdv_SubPath = firstNonEmpty (TrimSpace (dvr_SubPath ref)) (agentDataVolumeResolvedSubPath volume),
      rdv_ReadOnly = dvr_ReadOnly ref, rdv_ExtraEnv = agentDataVolumeResolvedExtraEnv volume,
      rdv_NodeSelector = agentDataVolumeResolvedNodeSelector volume\<rparr>"

text \<open>The result: the volumes, or why the run is held.\<close>

type_synonym volumes_result = "(blocking + resolvedAgentRunDataVolume list) result"

fun resolve_volumes ::
  "'w reader \<Rightarrow> 'w \<Rightarrow> AgentRun \<Rightarrow> string \<Rightarrow> strmap \<Rightarrow> resolvedAgentRunDataVolume list \<Rightarrow> AgentRunDataVolumeRef list \<Rightarrow> volumes_result" where
  "resolve_volumes rd w obj app sel out [] = Inr (Inr out)"
| "resolve_volumes rd w obj app sel out (ref # refs) =
     (let name = TrimSpace (dvr_Name ref); namespace = firstNonEmpty (TrimSpace (dvr_Namespace ref)) (run_Namespace obj);
          key = namespace @ ''/'' @ name in
      if name = [] then Inr (Inl (AgentRunPhaseFailed, ''InvalidDataVolumeRef'',
        ''spec.harness.execution.dataVolumeRefs entries must set name.''))
      else if namespace \<noteq> run_Namespace obj then Inr (Inl (AgentRunPhaseFailed, ''CrossNamespaceDataVolumeRef'',
        ''AgentRun dataVolumeRefs must reference AgentDataVolume objects in the AgentRun namespace.''))
      else (case rd_GetVolume rd w namespace name of
        Inl e \<Rightarrow> if IsNotFound e
          then Inr (Inl (AgentRunPhaseNeedsHuman, ''DataVolumeNotFound'', ''AgentDataVolume '' @ key @ '' was not found.''))
          else Inl e
      | Inr volume \<Rightarrow>
          (case volume_gate rd w namespace name volume app of
             Inl e \<Rightarrow> Inl e
           | Inr (Some held) \<Rightarrow> Inr (Inl held)
           | Inr None \<Rightarrow>
               (case volume_claim rd w namespace name volume of
                  Inl e \<Rightarrow> Inl e
                | Inr (Inl held) \<Rightarrow> Inr (Inl held)
                | Inr (Inr claimName) \<Rightarrow>
                    (case merge_selector sel (agentDataVolumeResolvedNodeSelector volume) of
                       Inl (k, v, existing) \<Rightarrow> Inr (Inl (AgentRunPhaseFailed, ''ConflictingNodeSelector'', ''AgentDataVolume '' @ key @
                         '' requires nodeSelector '' @ k @ ''='' @ v @ '', but the AgentRun already sets '' @ k @ ''='' @ existing @ ''.''))
                     | Inr sel \<Rightarrow> resolve_volumes rd w obj app sel
                         (out @ [resolved_volume namespace name ref volume claimName]) refs)))))"

definition resolveAgentRunDataVolumes :: "'w reader \<Rightarrow> 'w \<Rightarrow> AgentRun \<Rightarrow> volumes_result" where
  "resolveAgentRunDataVolumes rd w obj =
     (let refs = ex_DataVolumeRefs (run_execution obj) in
      if refs = [] then Inr (Inr [])
      else (case resolveAgentRunApplicationName (rd_Kube rd) w obj of
        Inl e \<Rightarrow> Inl (Wrapf ''resolve AgentRun application for data volumes'' e)
      | Inr app \<Rightarrow> resolve_volumes rd w obj app (map_union [] (ex_NodeSelector (run_execution obj))) [] refs))"

subsection \<open>What a resolved volume is pinned to\<close>

definition unreserved :: "'w reader \<Rightarrow> 'w \<Rightarrow> string \<Rightarrow> string \<Rightarrow> bool" where
  "unreserved rd w namespace name \<longleftrightarrow>
     (\<exists>sessions copies. rd_ListSessions rd w namespace = Inr sessions \<and> rd_ListCopies rd w namespace = Inr copies \<and>
        (\<forall>s \<in> set sessions. TrimSpace (lor_Name (au_DataVolumeRef (session_Spec s))) = name \<longrightarrow>
           AgentAuthSessionIsTerminal (aus_Phase (session_Status s))) \<and>
        (\<forall>c \<in> set copies. copy_uses name c \<longrightarrow> AgentDataVolumeCopyIsTerminal (cps_Phase (copy_Status c))))"

definition pinned_volume :: "'w reader \<Rightarrow> 'w \<Rightarrow> AgentRun \<Rightarrow> string \<Rightarrow> resolvedAgentRunDataVolume \<Rightarrow> bool" where
  "pinned_volume rd w obj app v \<longleftrightarrow>
     (\<exists>volume pvc. rd_GetVolume rd w (run_Namespace obj) (rdv_Name v) = Inr volume \<and>
        rd_GetClaim rd w (run_Namespace obj) (rdv_ClaimName v) = Inr pvc \<and> rdv_Namespace v = run_Namespace obj \<and>
        controlled_by ''AgentDataVolume'' (pvc_Meta pvc) (volume_Meta volume) \<and>
        pvc_UID pvc = TrimSpace (dst_ClaimUID (volume_Status volume)) \<and> pvc_UID pvc \<noteq> [] \<and>
        agentDataVolumeStatusCurrent volume \<and> dst_Phase (volume_Status volume) \<noteq> AgentDataVolumePhaseBlocked \<and>
        (\<forall>a. dv_ApplicationRef (volume_Spec volume) = Some a \<longrightarrow> app = TrimSpace (app_Name a) \<and> app \<noteq> []) \<and>
        unreserved rd w (run_Namespace obj) (rdv_Name v))"

lemma volume_gate_open:
  assumes "volume_gate rd w namespace name volume app = Inr None"
  shows "agentDataVolumeStatusCurrent volume" "dst_Phase (volume_Status volume) \<noteq> AgentDataVolumePhaseBlocked"
    and "unreserved rd w namespace name"
    and "dv_ApplicationRef (volume_Spec volume) = Some a \<Longrightarrow> app = TrimSpace (app_Name a) \<and> app \<noteq> []"
proof -
  show "agentDataVolumeStatusCurrent volume" "dst_Phase (volume_Status volume) \<noteq> AgentDataVolumePhaseBlocked"
    using assms unfolding volume_gate_def Let_def by (auto split: if_splits option.splits sum.splits bool.splits)
  have blocks: "AgentAuthSessionBlocksDataVolume rd w namespace name = Inr None"
      "AgentDataVolumeCopyBlocksDataVolume rd w namespace name = Inr None"
    using assms unfolding volume_gate_def Let_def by (auto split: if_splits option.splits sum.splits bool.splits)
  then show "unreserved rd w namespace name"
    unfolding AgentAuthSessionBlocksDataVolume_def AgentDataVolumeCopyBlocksDataVolume_def unreserved_def
    by (auto simp: find_None_iff split: sum.splits)
  show "dv_ApplicationRef (volume_Spec volume) = Some a \<Longrightarrow> app = TrimSpace (app_Name a) \<and> app \<noteq> []"
    using assms unfolding volume_gate_def Let_def by (auto split: if_splits)
qed

lemma volume_claim_found:
  assumes "volume_claim rd w namespace name volume = Inr (Inr claimName)"
  shows "\<exists>pvc. rd_GetClaim rd w namespace claimName = Inr pvc \<and>
    controlled_by ''AgentDataVolume'' (pvc_Meta pvc) (volume_Meta volume) \<and>
    pvc_UID pvc = TrimSpace (dst_ClaimUID (volume_Status volume)) \<and> pvc_UID pvc \<noteq> []"
  using assms unfolding volume_claim_def Let_def by (auto split: if_splits sum.splits)

lemma resolve_volumes_pinned:
  assumes "resolve_volumes rd w obj app sel out refs = Inr (Inr vs)" and "\<forall>v \<in> set out. pinned_volume rd w obj app v"
  shows "\<forall>v \<in> set vs. pinned_volume rd w obj app v"
  using assms
proof (induction refs arbitrary: sel out)
  case (Cons ref refs)
  define name where "name = TrimSpace (dvr_Name ref)"
  define ns where "ns = firstNonEmpty (TrimSpace (dvr_Namespace ref)) (run_Namespace obj)"
  have ok: "name \<noteq> []" "ns = run_Namespace obj"
    using Cons.prems(1) unfolding name_def ns_def by (auto simp: Let_def split: if_splits)
  obtain volume where v: "rd_GetVolume rd w ns name = Inr volume"
    using Cons.prems(1) ok unfolding name_def ns_def by (auto simp: Let_def split: if_splits sum.splits)
  have gate: "volume_gate rd w ns name volume app = Inr None"
    using Cons.prems(1) ok v unfolding name_def ns_def by (auto simp: Let_def split: if_splits sum.splits option.splits)
  obtain claim where claim: "volume_claim rd w ns name volume = Inr (Inr claim)"
    using Cons.prems(1) ok v gate unfolding name_def ns_def by (auto simp: Let_def split: if_splits sum.splits option.splits)
  obtain sel' where sel: "merge_selector sel (agentDataVolumeResolvedNodeSelector volume) = Inr sel'"
    using Cons.prems(1) ok v gate claim unfolding name_def ns_def by (auto simp: Let_def split: if_splits sum.splits option.splits prod.splits)
  have rest: "resolve_volumes rd w obj app sel' (out @ [resolved_volume ns name ref volume claim]) refs = Inr (Inr vs)"
    using Cons.prems(1) ok v gate claim sel unfolding name_def ns_def by (simp add: Let_def)
  have "pinned_volume rd w obj app (resolved_volume ns name ref volume claim)"
    unfolding pinned_volume_def resolved_volume_def
    using ok v volume_claim_found [OF claim] volume_gate_open [OF gate] by auto
  then have "\<forall>x \<in> set (out @ [resolved_volume ns name ref volume claim]). pinned_volume rd w obj app x"
    using Cons.prems(2) by auto
  then show ?case using Cons.IH [OF rest] by blast
qed simp


definition demo_ready_state :: mem_cluster_state where
  "demo_ready_state = demo_volume_state\<lparr>mc_Volumes := [demo_volume\<lparr>volume_Status := (volume_Status demo_volume)
     \<lparr>dst_ObservedGeneration := 1, dst_Phase := AgentDataVolumePhaseReady\<rparr>\<rparr>]\<rparr>"

definition demo_volume_run :: AgentRun where
  "demo_volume_run = demo_valid_run\<lparr>run_Meta := zero_ObjectMeta\<lparr>om_Name := ''r'', om_Namespace := ''team''\<rparr>,
     run_Spec := (run_Spec demo_valid_run)\<lparr>spec_Harness := (spec_Harness (run_Spec demo_valid_run))
       \<lparr>har_Execution := (run_execution demo_valid_run)\<lparr>ex_DataVolumeRefs :=
         [\<lparr>dvr_Name = ''v'', dvr_Namespace = [], dvr_MountPath = [], dvr_SubPath = [], dvr_ReadOnly = True\<rparr>]\<rparr>\<rparr>\<rparr>\<rparr>"

definition volume_names :: "volumes_result \<Rightarrow> string list option" where
  "volume_names r = (case r of Inr (Inr vs) \<Rightarrow> Some (map rdv_Name vs) | _ \<Rightarrow> None)"

lemma demo_volume_names: "volume_names (resolveAgentRunDataVolumes mem_reader demo_ready_state demo_volume_run) = Some [''v'']"
  by code_simp


end
