(* ===== verification/AuthSession.thy ===== *)
theory AuthSession
  imports VolumeUse
begin

text \<open>
  Maintenance sessions for a backend's stored login, \<^verbatim>\<open>agent_auth_session_controller.go\<close>: the checks,
  the maintenance Job with its script, the bootstrap and staging Secrets, and the controller. The
  field \<open>ef_Other\<close> of the Job's environment source holds \<^verbatim>\<open>optional: false\<close>. The lemmas show when
  a session starts its Job and what it waits for.
\<close>

subsection \<open>Constants and layouts\<close>

definition agentAuthSessionReady :: string where "agentAuthSessionReady = ''Ready''"
definition agentAuthSessionLabel :: string where "agentAuthSessionLabel = ''control.anvil.hazyforge.io/agent-auth-session''"
definition agentAuthSessionActionLabel :: string where "agentAuthSessionActionLabel = ''control.anvil.hazyforge.io/agent-auth-action''"
definition agentAuthSessionProviderLabel :: string where "agentAuthSessionProviderLabel = ''control.anvil.hazyforge.io/agent-auth-provider''"
definition agentAuthSessionVolumeLabel :: string where "agentAuthSessionVolumeLabel = ''control.anvil.hazyforge.io/agent-auth-volume''"
definition agentAuthSessionManagedByLabel :: string where "agentAuthSessionManagedByLabel = ''app.kubernetes.io/managed-by''"
definition agentAuthSessionManagedByValue :: string where "agentAuthSessionManagedByValue = ''anvil-agents''"
definition agentAuthSessionComponentLabel :: string where "agentAuthSessionComponentLabel = ''app.kubernetes.io/component''"
definition agentAuthSessionComponentValue :: string where "agentAuthSessionComponentValue = ''agent-auth-session''"
definition agentAuthStagingOwnerLabel :: string where "agentAuthStagingOwnerLabel = ''control.anvil.hazyforge.io/agent-auth-staging-for''"
definition agentAuthDefaultTimeoutSeconds :: int where "agentAuthDefaultTimeoutSeconds = 300"
definition agentAuthContainerName :: string where "agentAuthContainerName = ''auth''"

record agentAuthProviderLayout =
  lay_Provider :: AgentAuthSessionProvider
  lay_AuthEnvKey :: string
  lay_SeedEnvKey :: string
  lay_SeedSecretKey :: string
  lay_DefaultBootstrapKey :: string
  lay_AuthRelPath :: string
  lay_SeedFileName :: string
  lay_LogoutFileName :: string
  lay_ComponentLabel :: string

fun agentAuthLayout :: "AgentAuthSessionProvider \<Rightarrow> agentAuthProviderLayout result" where
  "agentAuthLayout AgentAuthSessionProviderCodex = Inr
     \<lparr>lay_Provider = AgentAuthSessionProviderCodex, lay_AuthEnvKey = ''CODEX_AUTH_JSON'', lay_SeedEnvKey = ''ANVIL_CODEX_AUTH_SEED_ID'',
      lay_SeedSecretKey = ''CODEX_AUTH_SEED_ID'', lay_DefaultBootstrapKey = ''CODEX_AUTH_JSON'', lay_AuthRelPath = ''auth.json'',
      lay_SeedFileName = ''.anvil-codex-auth-seed-id'', lay_LogoutFileName = ''.anvil-codex-auth-logged-out'',
      lay_ComponentLabel = ''codex-auth-seed''\<rparr>"
| "agentAuthLayout AgentAuthSessionProviderGrokBuild = Inr
     \<lparr>lay_Provider = AgentAuthSessionProviderGrokBuild, lay_AuthEnvKey = ''GROK_AUTH_JSON'', lay_SeedEnvKey = ''ANVIL_GROK_AUTH_SEED_ID'',
      lay_SeedSecretKey = ''GROK_AUTH_SEED_ID'', lay_DefaultBootstrapKey = ''GROK_AUTH_JSON'', lay_AuthRelPath = ''.grok/auth.json'',
      lay_SeedFileName = ''.anvil-grok-auth-seed-id'', lay_LogoutFileName = ''.anvil-grok-auth-logged-out'',
      lay_ComponentLabel = ''grok-auth-seed''\<rparr>"
| "agentAuthLayout (AgentAuthSessionProviderOther p) = Inl (Errorf (''unsupported provider '' @ Quote p))"

subsection \<open>Checks\<close>

definition staging_name :: "AgentAuthSession \<Rightarrow> string" where
  "staging_name obj = (case au_StagingSecretRef (session_Spec obj) of None \<Rightarrow> [] | Some ref \<Rightarrow> TrimSpace (lor_Name ref))"

definition bootstrap_name :: "AgentAuthSession \<Rightarrow> string" where
  "bootstrap_name obj = (case au_BootstrapSecretRef (session_Spec obj) of None \<Rightarrow> [] | Some ref \<Rightarrow> TrimSpace (lor_Name ref))"

definition session_volume :: "AgentAuthSession \<Rightarrow> string" where
  "session_volume obj = TrimSpace (lor_Name (au_DataVolumeRef (session_Spec obj)))"

definition validateAgentAuthSessionSpec :: "AgentAuthSession \<Rightarrow> go_error option" where
  "validateAgentAuthSessionSpec obj =
     (let spec = session_Spec obj in
      case agentAuthLayout (au_Provider spec) of
        Inl e \<Rightarrow> Some e
      | Inr _ \<Rightarrow>
          (case au_Action spec of
             AgentAuthSessionActionOther a \<Rightarrow> Some (Errorf (''unsupported action '' @ Quote a))
           | action \<Rightarrow>
               if session_volume obj = [] then Some (Errorf ''spec.dataVolumeRef.name is required'')
               else if action = AgentAuthSessionActionReauth \<and> staging_name obj = [] then
                 Some (Errorf ''spec.stagingSecretRef.name is required for reauth'')
               else if action = AgentAuthSessionActionReauth \<and> TrimSpace (au_SeedID spec) = [] then
                 Some (Errorf ''spec.seedID is required for reauth'')
               else None))"

text \<open>The volume of a session: what was resolved, and whether the session fails (\<open>True\<close>) or waits.\<close>

type_synonym session_hold = "(bool \<times> string \<times> string) option"

definition resolveAuthSessionVolume ::
  "'w reader \<Rightarrow> 'w \<Rightarrow> AgentAuthSession \<Rightarrow> (AgentDataVolume option \<times> string \<times> string \<times> string \<times> session_hold) result" where
  "resolveAuthSessionVolume rd w obj =
     (let ns = session_Namespace obj in
      case rd_GetVolume rd w ns (session_volume obj) of
        Inl e \<Rightarrow> if IsNotFound e
          then Inr (None, [], [], [], Some (True, ''DataVolumeNotFound'',
            ''AgentDataVolume '' @ ns @ ''/'' @ session_volume obj @ '' was not found.''))
          else Inl e
      | Inr volume \<Rightarrow>
          (let st = volume_Status volume; key = meta_key (volume_Meta volume);
               hold = (\<lambda>claim uid failed reason message. Inr (Some volume, claim, uid, [], Some (failed, reason, message)));
               claimName = (case dst_ClaimRef st of
                   Some ref \<Rightarrow> if TrimSpace (nor_Name ref) \<noteq> [] then TrimSpace (nor_Name ref) else agentDataVolumeClaimName volume
                 | None \<Rightarrow> agentDataVolumeClaimName volume);
               claimUID = TrimSpace (dst_ClaimUID st) in
           if \<not> agentDataVolumeStatusCurrent volume then
             hold [] [] False ''DataVolumeStatusStale'' (''Waiting for AgentDataVolume '' @ key @
               '' status to observe generation '' @ Itoa (volume_Generation volume) @ ''.'')
           else if dst_Phase st = AgentDataVolumePhaseBlocked then
             hold [] [] True ''DataVolumeBlocked'' (firstNonEmpty (dst_LastError st) ''AgentDataVolume is blocked'')
           else if dst_Phase st \<noteq> AgentDataVolumePhaseReady \<and> dst_Phase st \<noteq> AgentDataVolumePhaseUnset then
             hold [] [] False ''DataVolumeNotReady'' (''Waiting for AgentDataVolume '' @ key @ '' to become Ready.'')
           else if claimName = [] \<or> claimUID = [] then
             hold claimName claimUID False ''DataVolumeClaimIdentityPending'' (''Waiting for AgentDataVolume '' @ key @
               '' to record its claim identity.'')
           else (case rd_GetClaim rd w (volume_Namespace volume) claimName of
             Inl e \<Rightarrow> if IsNotFound e
               then hold claimName claimUID False ''DataVolumeClaimMissing'' (''Waiting for PersistentVolumeClaim '' @
                 volume_Namespace volume @ ''/'' @ claimName @ ''.'')
               else Inl e
           | Inr pvc \<Rightarrow>
               if \<not> controlled_by ''AgentDataVolume'' (pvc_Meta pvc) (volume_Meta volume) then
                 hold claimName claimUID True ''ForeignDataVolumeClaim'' (''PersistentVolumeClaim '' @ volume_Namespace volume @ ''/'' @
                   claimName @ '' is not controlled by AgentDataVolume '' @ key @ ''.'')
               else if pvc_UID pvc \<noteq> claimUID then
                 hold claimName claimUID True ''DataVolumeClaimReplaced'' (''PersistentVolumeClaim '' @ volume_Namespace volume @ ''/'' @
                   claimName @ '' UID no longer matches AgentDataVolume status.'')
               else Inr (Some volume, claimName, claimUID, agentDataVolumeResolvedMountPath volume, None))))"

definition validateStagingSecret :: "'w reader \<Rightarrow> 'w \<Rightarrow> AgentAuthSession \<Rightarrow> go_error option" where
  "validateStagingSecret rd w obj =
     (case agentAuthLayout (au_Provider (session_Spec obj)) of
        Inl e \<Rightarrow> Some e
      | Inr layout \<Rightarrow>
          (let key = session_Namespace obj @ ''/'' @ staging_name obj in
           case rd_GetSecret rd w (session_Namespace obj) (staging_name obj) of
             Inl e \<Rightarrow> Some (if IsNotFound e then Errorf (''staging Secret '' @ key @ '' was not found'') else e)
           | Inr secret \<Rightarrow>
               if map_get (secret_Data secret) (lay_AuthEnvKey layout) = [] then
                 Some (Errorf (''staging Secret '' @ key @ '' is missing non-empty key '' @ lay_AuthEnvKey layout))
               else None))"

definition contains_text :: "string \<Rightarrow> string \<Rightarrow> bool" where
  "contains_text s sub \<longleftrightarrow> Index s sub \<noteq> None"

definition secretManagedByExternalSecret :: "Secret \<Rightarrow> bool" where
  "secretManagedByExternalSecret secret \<longleftrightarrow>
     (case GetControllerOf (secret_Meta secret) of
        None \<Rightarrow> False
      | Some owner \<Rightarrow> contains_text (ToLower (own_Kind owner)) ''externalsecret'' \<or>
          contains_text (own_APIVersion owner) ''external-secrets'') \<or>
     (\<exists>(key, v) \<in> set (om_Labels (secret_Meta secret)). contains_text (ToLower key) ''external-secrets'' \<or>
        contains_text (ToLower v) ''external-secrets'') \<or>
     (\<exists>(key, v) \<in> set (om_Annotations (secret_Meta secret)). contains_text (ToLower key) ''external-secrets'')"

definition validateBootstrapSecretWritable :: "'w reader \<Rightarrow> 'w \<Rightarrow> string \<Rightarrow> string \<Rightarrow> go_error option" where
  "validateBootstrapSecretWritable rd w namespace name =
     (case rd_GetSecret rd w namespace name of
        Inl e \<Rightarrow> if IsNotFound e then None else Some e
      | Inr secret \<Rightarrow>
          if secretManagedByExternalSecret secret then
            Some (Errorf (''bootstrap Secret '' @ namespace @ ''/'' @ name @
              '' is managed by External Secrets Operator; refuse to race its writer. Point AgentAuthSession at a CLI-owned seed Secret instead''))
          else None)"

text \<open>An older session of the same volume holds it; sessions of one instant are ordered by name.\<close>

definition session_before :: "AgentAuthSession \<Rightarrow> AgentAuthSession \<Rightarrow> bool" where
  "session_before s obj \<longleftrightarrow>
     om_CreationTimestamp (session_Meta s) < om_CreationTimestamp (session_Meta obj) \<or>
     (om_CreationTimestamp (session_Meta s) = om_CreationTimestamp (session_Meta obj) \<and> session_Name s < session_Name obj)"

definition otherActiveSessionForVolume :: "'w reader \<Rightarrow> 'w \<Rightarrow> AgentAuthSession \<Rightarrow> string \<Rightarrow> string option result" where
  "otherActiveSessionForVolume rd w obj volumeName =
     (case rd_ListSessions rd w (session_Namespace obj) of
        Inl e \<Rightarrow> Inl e
      | Inr sessions \<Rightarrow> Inr (map_option session_Name
          (find (\<lambda>s. om_UID (session_Meta s) \<noteq> om_UID (session_Meta obj) \<and> session_volume s = volumeName \<and>
             \<not> AgentAuthSessionIsTerminal (aus_Phase (session_Status s)) \<and> session_before s obj) sessions)))"

subsection \<open>The Job\<close>

definition path_Join :: "string list \<Rightarrow> string" where
  "path_Join elements = (let kept = filter (\<lambda>e. e \<noteq> []) elements in if kept = [] then [] else path_Clean (Join kept ''/''))"

definition path_Dir :: "string \<Rightarrow> string" where
  "path_Dir p = path_Clean (rev (dropWhile (\<lambda>c. c \<noteq> CHR ''/'') (rev p)))"

definition line :: "string \<Rightarrow> string" where
  "line s = s @ [CHR 0x0A]"

definition script_head :: "string \<Rightarrow> agentAuthProviderLayout \<Rightarrow> string" where
  "script_head mountPath layout =
     (let authPath = path_Join [mountPath, lay_AuthRelPath layout] in
      line ''set -euo pipefail'' @ line (''mount='' @ Quote mountPath) @ line (''auth='' @ Quote authPath) @
      line (''auth_dir='' @ Quote (path_Dir authPath)) @ line (''seed='' @ Quote (path_Join [mountPath, lay_SeedFileName layout])) @
      line (''logout='' @ Quote (path_Join [mountPath, lay_LogoutFileName layout])))"

definition agentAuthSessionScript :: "AgentAuthSessionAction \<Rightarrow> string \<Rightarrow> agentAuthProviderLayout \<Rightarrow> string" where
  "agentAuthSessionScript action mountPath layout =
     (let provider = provider_text (lay_Provider layout); auth = lay_AuthEnvKey layout; seed = lay_SeedEnvKey layout;
          q = [CHR 0x22]; bn = [CHR 0x5C, CHR ''n'']; sq = [CHR 0x27] in
      case action of
        AgentAuthSessionActionLogout \<Rightarrow>
          script_head mountPath layout @ line (''mkdir -p '' @ q @ ''$mount'' @ q @ '' '' @ q @ ''$auth_dir'' @ q) @
          line (''rm -f '' @ q @ ''$auth'' @ q @ '' '' @ q @ ''$seed'' @ q) @ line ''umask 077'' @
          line (''printf '' @ sq @ ''logged-out'' @ bn @ sq @ '' > '' @ q @ ''$logout'' @ q) @ line ''sync'' @
          line (''echo '' @ q @ ''ANVIL_AUTH_SESSION_COMPLETE action=logout provider='' @ provider @ '' mount=$mount'' @ q)
      | _ \<Rightarrow>
          script_head mountPath layout @
          line ('': '' @ q @ ''${'' @ auth @ '':?'' @ auth @ '' is required}'' @ q) @
          line ('': '' @ q @ ''${'' @ seed @ '':?'' @ seed @ '' is required}'' @ q) @
          line (''mkdir -p '' @ q @ ''$mount'' @ q @ '' '' @ q @ ''$auth_dir'' @ q) @ line ''umask 077'' @
          line (''tmp='' @ q @ ''$(mktemp '' @ q @ ''$auth_dir/.auth.json.XXXXXX'' @ q @ '')'' @ q) @
          line (''printf '' @ sq @ ''%s'' @ sq @ '' '' @ q @ ''${'' @ auth @ ''}'' @ q @ '' > '' @ q @ ''$tmp'' @ q) @
          line (''chmod 600 '' @ q @ ''$tmp'' @ q) @
          line (''seed_tmp='' @ q @ ''$(mktemp '' @ q @ ''$mount/.seed.XXXXXX'' @ q @ '')'' @ q) @
          line (''printf '' @ sq @ ''%s'' @ bn @ sq @ '' '' @ q @ ''${'' @ seed @ ''}'' @ q @ '' > '' @ q @ ''$seed_tmp'' @ q) @
          line (''chmod 600 '' @ q @ ''$seed_tmp'' @ q) @ line (''mv '' @ q @ ''$seed_tmp'' @ q @ '' '' @ q @ ''$seed'' @ q) @
          line (''rm -f '' @ q @ ''$logout'' @ q) @ line (''mv '' @ q @ ''$tmp'' @ q @ '' '' @ q @ ''$auth'' @ q) @ line ''sync'' @
          line ''# Never print credentials.'' @
          line (''echo '' @ q @ ''ANVIL_AUTH_SESSION_COMPLETE action=reauth provider='' @ provider @ '' mount=$mount seed_written=true'' @ q))"

definition authSessionImage :: "Options \<Rightarrow> AgentAuthSessionProvider \<Rightarrow> string" where
  "authSessionImage options provider =
     (case provider of
        AgentAuthSessionProviderGrokBuild \<Rightarrow>
          (let image = TrimSpace (opt_GrokBuildRunnerImage options) in if image \<noteq> [] then image else agentRunDefaultGrokBuildImage)
      | _ \<Rightarrow> (let image = TrimSpace (opt_CodexRunnerImage options) in if image \<noteq> [] then image else agentRunDefaultCodexImage))"

definition agentAuthSessionEnv :: "AgentAuthSession \<Rightarrow> EnvVar list" where
  "agentAuthSessionEnv obj =
     (let spec = session_Spec obj;
          base = [env_var ''ANVIL_AUTH_ACTION'' (action_text (au_Action spec)), env_var ''ANVIL_AUTH_PROVIDER'' (provider_text (au_Provider spec))];
          seed = TrimSpace (au_SeedID spec) in
      case agentAuthLayout (au_Provider spec) of
        Inl e \<Rightarrow> base
      | Inr layout \<Rightarrow> if seed \<noteq> [] then base @ [env_var (lay_SeedEnvKey layout) seed] else base)"

definition agentAuthSessionEnvFrom :: "AgentAuthSession \<Rightarrow> EnvFromSource list" where
  "agentAuthSessionEnvFrom obj =
     (if au_Action (session_Spec obj) \<noteq> AgentAuthSessionActionReauth \<or> au_StagingSecretRef (session_Spec obj) = None then []
      else [\<lparr>ef_SecretRef = Some \<lparr>lor_Name = staging_name obj\<rparr>, ef_Other = ''optional: false''\<rparr>])"

definition session_labels :: "AgentAuthSession \<Rightarrow> AgentDataVolume \<Rightarrow> strmap" where
  "session_labels obj volume =
     [(agentAuthSessionLabel, sanitizeLabelValue (session_Name obj)),
      (agentAuthSessionActionLabel, sanitizeLabelValue (action_text (au_Action (session_Spec obj)))),
      (agentAuthSessionProviderLabel, sanitizeLabelValue (provider_text (au_Provider (session_Spec obj)))),
      (agentAuthSessionVolumeLabel, sanitizeLabelValue (volume_Name volume)),
      (agentAuthSessionManagedByLabel, agentAuthSessionManagedByValue),
      (agentAuthSessionComponentLabel, agentAuthSessionComponentValue)]"

definition maintenance_pod :: "strmap \<Rightarrow> PodSecurityContext \<Rightarrow> Container \<Rightarrow> Volume \<Rightarrow> PodSpec" where
  "maintenance_pod nodeSelector security container volume =
     \<lparr>pod_ServiceAccountName = [], pod_DeprecatedServiceAccount = [], pod_RestartPolicy = ''Never'', pod_NodeSelector = nodeSelector,
      pod_Affinity = None, pod_Tolerations = [], pod_ImagePullSecrets = [], pod_SecurityContext = Some security,
      pod_InitContainers = [], pod_Containers = [container], pod_Volumes = [volume], pod_EnableServiceLinks = None,
      pod_PreemptionPolicy = None, pod_DNSPolicy = [], pod_SchedulerName = [], pod_TerminationGracePeriodSeconds = None,
      pod_Other = ''automountServiceAccountToken: false''\<rparr>"

definition maintenance_job :: "ObjectMeta \<Rightarrow> int \<Rightarrow> int \<Rightarrow> strmap \<Rightarrow> PodSpec \<Rightarrow> Job" where
  "maintenance_job meta ttl deadline labels pod =
     \<lparr>job_Meta = meta, job_Spec = \<lparr>js_BackoffLimit = Some 0, js_ActiveDeadlineSeconds = Some deadline,
        js_TTLSecondsAfterFinished = Some ttl, js_Selector = None, js_ManualSelector = None, js_Parallelism = None,
        js_Completions = None, js_CompletionMode = None, js_Suspend = None, js_PodReplacementPolicy = None,
        js_TemplateLabels = labels, js_Pod = pod, js_Other = []\<rparr>,
      job_Succeeded = 0, job_Failed = 0, job_Conditions = []\<rparr>"

definition session_container :: "Options \<Rightarrow> AgentAuthSession \<Rightarrow> agentAuthProviderLayout \<Rightarrow> string \<Rightarrow> Container" where
  "session_container options obj layout mountPath =
     \<lparr>ctr_Name = agentAuthContainerName, ctr_Image = authSessionImage options (au_Provider (session_Spec obj)),
      ctr_ImagePullPolicy = ''IfNotPresent'',
      ctr_Command = [''/bin/bash'', ''-lc'', agentAuthSessionScript (au_Action (session_Spec obj)) mountPath layout],
      ctr_Args = [], ctr_WorkingDir = [], ctr_Env = agentAuthSessionEnv obj, ctr_EnvFrom = agentAuthSessionEnvFrom obj,
      ctr_Resources = \<lparr>res_Requests = [], res_Limits = [], res_Claims = []\<rparr>,
      ctr_VolumeMounts = [\<lparr>vm_Name = ''agent-home'', vm_MountPath = mountPath, vm_SubPath = [], vm_ReadOnly = False\<rparr>],
      ctr_SecurityContext = Some \<lparr>sec_AllowPrivilegeEscalation = Some False, sec_RunAsNonRoot = Some True,
        sec_Capabilities = Some \<lparr>cap_Add = [], cap_Drop = [''ALL'']\<rparr>, sec_Other = []\<rparr>,
      ctr_TerminationMessagePath = [], ctr_TerminationMessagePolicy = [], ctr_Other = []\<rparr>"

definition session_job :: "Options \<Rightarrow> AgentAuthSession \<Rightarrow> AgentDataVolume \<Rightarrow> agentAuthProviderLayout \<Rightarrow> string \<Rightarrow> string \<Rightarrow> ObjectMeta \<Rightarrow> Job" where
  "session_job options obj volume layout claimName mountPath meta =
     (let timeout = (if au_TimeoutSeconds (session_Spec obj) \<le> 0 then agentAuthDefaultTimeoutSeconds else au_TimeoutSeconds (session_Spec obj)) in
      maintenance_job meta 600 timeout (session_labels obj volume)
        (maintenance_pod (agentDataVolumeResolvedNodeSelector volume)
          \<lparr>psc_RunAsNonRoot = Some True, psc_SeccompProfile = None, psc_FSGroup = Some 10001, psc_Other = []\<rparr>
          (session_container options obj layout mountPath)
          (zero_Volume\<lparr>vol_Name := ''agent-home'', vol_Claim := Some (claimName, False)\<rparr>)))"

definition ensureAuthSessionJob ::
  "'w cluster \<Rightarrow> Options \<Rightarrow> 'w \<Rightarrow> AgentAuthSession \<Rightarrow> AgentDataVolume \<Rightarrow> string \<Rightarrow> string \<Rightarrow> Job result \<times> 'w" where
  "ensureAuthSessionJob cl options w obj volume claimName mountPath =
     (let jobName = agentRunChildName [''auth'', session_Name obj]; ns = session_Namespace obj in
      case rd_GetJob (cl_cache cl) w ns jobName of
        Inr existing \<Rightarrow> (Inr existing, w)
      | Inl e \<Rightarrow>
          if \<not> IsNotFound e then (Inl e, w)
          else (case agentAuthLayout (au_Provider (session_Spec obj)) of
            Inl e \<Rightarrow> (Inl e, w)
          | Inr layout \<Rightarrow>
              (case own cl ''AgentAuthSession'' (session_Meta obj)
                  (zero_ObjectMeta\<lparr>om_Name := jobName, om_Namespace := ns, om_Labels := session_labels obj volume\<rparr>) of
                 Inl e \<Rightarrow> (Inl (Wrapf ''set Job owner'' e), w)
               | Inr meta \<Rightarrow>
                   (case cl_CreateJob cl w (session_job options obj volume layout claimName mountPath meta) of
                      (Inr job, w) \<Rightarrow> (Inr job, w)
                    | (Inl e, w) \<Rightarrow>
                        if IsAlreadyExists e then (rd_GetJob (cl_cache cl) w ns jobName, w)
                        else (Inl (Wrapf ''create auth Job'' e), w)))))"

subsection \<open>The Secrets\<close>

text \<open>The bootstrap Secret with the login and the seed of the session.\<close>

definition bootstrap_secret :: "AgentAuthSession \<Rightarrow> agentAuthProviderLayout \<Rightarrow> string \<Rightarrow> Secret \<Rightarrow> Secret" where
  "bootstrap_secret obj layout authBytes secret =
     (let key = firstNonEmpty (TrimSpace (au_BootstrapSecretKey (session_Spec obj))) (lay_DefaultBootstrapKey layout) in
      secret\<lparr>secret_Data := map_set (map_set (secret_Data secret) key authBytes) (lay_SeedSecretKey layout) (TrimSpace (au_SeedID (session_Spec obj))),
        secret_Meta := (secret_Meta secret)\<lparr>om_Labels := map_set (map_set (om_Labels (secret_Meta secret))
          agentAuthSessionManagedByLabel agentAuthSessionManagedByValue) agentAuthSessionComponentLabel (lay_ComponentLabel layout)\<rparr>\<rparr>)"

definition applyBootstrapSecret :: "'w cluster \<Rightarrow> 'w \<Rightarrow> AgentAuthSession \<Rightarrow> go_error option \<times> 'w" where
  "applyBootstrapSecret cl w obj =
     (let ns = session_Namespace obj in
      if bootstrap_name obj = [] then (None, w)
      else (case agentAuthLayout (au_Provider (session_Spec obj)) of
        Inl e \<Rightarrow> (Some e, w)
      | Inr layout \<Rightarrow>
          (case rd_GetSecret (cl_cache cl) w ns (staging_name obj) of
             Inl e \<Rightarrow> (Some (Wrapf ''get staging Secret'' e), w)
           | Inr staging \<Rightarrow>
               (let authBytes = map_get (secret_Data staging) (lay_AuthEnvKey layout) in
                if authBytes = [] then (Some (Errorf (''staging Secret missing '' @ lay_AuthEnvKey layout)), w)
                else (case rd_GetSecret (cl_cache cl) w ns (bootstrap_name obj) of
                  Inl e \<Rightarrow>
                    if \<not> IsNotFound e then (Some e, w)
                    else (case cl_CreateSecret cl w (bootstrap_secret obj layout authBytes
                        \<lparr>secret_Meta = zero_ObjectMeta\<lparr>om_Name := bootstrap_name obj, om_Namespace := ns\<rparr>, secret_Data = [], secret_Type = ''Opaque''\<rparr>) of
                      (Some e, w) \<Rightarrow> (Some (Wrapf ''create bootstrap Secret'' e), w)
                    | (None, w) \<Rightarrow> (None, w))
                | Inr existing \<Rightarrow>
                    if secretManagedByExternalSecret existing then
                      (Some (Errorf (''bootstrap Secret '' @ ns @ ''/'' @ bootstrap_name obj @
                        '' became ExternalSecret-managed during the session'')), w)
                    else (case cl_PatchSecret cl w existing (bootstrap_secret obj layout authBytes existing) of
                      (Some e, w) \<Rightarrow> (Some (Wrapf ''patch bootstrap Secret'' e), w)
                    | (None, w) \<Rightarrow> (None, w)))))))"

definition deleteOwnedStagingSecret :: "'w cluster \<Rightarrow> 'w \<Rightarrow> AgentAuthSession \<Rightarrow> go_error option \<times> 'w" where
  "deleteOwnedStagingSecret cl w obj =
     (if au_StagingSecretRef (session_Spec obj) = None then (None, w)
      else (case rd_GetSecret (cl_cache cl) w (session_Namespace obj) (staging_name obj) of
        Inl e \<Rightarrow> ((if IsNotFound e then None else Some e), w)
      | Inr secret \<Rightarrow>
          if map_get (om_Labels (secret_Meta secret)) agentAuthStagingOwnerLabel \<noteq> sanitizeLabelValue (session_Name obj) then (None, w)
          else (case cl_DeleteSecret cl w secret of
            (Some e, w) \<Rightarrow> ((if IsNotFound e then None else Some (Wrapf ''delete staging Secret'' e)), w)
          | (None, w) \<Rightarrow> (None, w))))"

subsection \<open>The controller\<close>

definition session_condition ::
  "'w cluster \<Rightarrow> AgentAuthSession \<Rightarrow> instant \<Rightarrow> ConditionStatus \<Rightarrow> string \<Rightarrow> string \<Rightarrow> AgentAuthSessionStatus \<Rightarrow> AgentAuthSessionStatus" where
  "session_condition cl obj now cs reason message st = st\<lparr>aus_Conditions := cl_SetStatusCondition cl (aus_Conditions st)
     (condition agentAuthSessionReady cs (om_Generation (session_Meta obj)) now reason message)\<rparr>"

definition patch_session :: "'w cluster \<Rightarrow> 'w \<Rightarrow> AgentAuthSession \<Rightarrow> AgentAuthSessionStatus \<Rightarrow> Result \<Rightarrow> 'w reconciled" where
  "patch_session cl w obj st result =
     (case cl_PatchSessionStatus cl w obj (obj\<lparr>session_Status := st\<rparr>) of
        (Some e, w) \<Rightarrow> (Inl (Wrapf ''patch AgentAuthSession status'' e), w)
      | (None, w) \<Rightarrow> (Inr result, w))"

definition failSession ::
  "'w cluster \<Rightarrow> 'w \<Rightarrow> AgentAuthSession \<Rightarrow> AgentAuthSessionStatus \<Rightarrow> instant \<Rightarrow> string \<Rightarrow> string \<Rightarrow> 'w reconciled" where
  "failSession cl w obj st now reason message =
     patch_session cl w obj (session_condition cl obj now ConditionFalse reason message
       (st\<lparr>aus_Phase := AgentAuthSessionPhaseFailed, aus_LastError := message, aus_CompletedAt := Some now\<rparr>)) no_requeue"

definition session_identity :: "AgentDataVolume \<Rightarrow> string \<Rightarrow> string \<Rightarrow> string \<Rightarrow> AgentAuthSessionStatus \<Rightarrow> AgentAuthSessionStatus" where
  "session_identity volume claimName claimUID mountPath st = st\<lparr>
     aus_DataVolumeRef := Some (local_ref (volume_Name volume) (volume_Namespace volume)), aus_DataVolumeUID := volume_UID volume,
     aus_ClaimRef := Some (local_ref claimName (volume_Namespace volume)), aus_ClaimUID := claimUID, aus_MountPath := mountPath\<rparr>"

definition session_secrets_error :: "'w reader \<Rightarrow> 'w \<Rightarrow> AgentAuthSession \<Rightarrow> (string \<times> string) option" where
  "session_secrets_error rd w obj =
     (if au_Action (session_Spec obj) \<noteq> AgentAuthSessionActionReauth then None
      else (case validateStagingSecret rd w obj of
        Some e \<Rightarrow> Some (''InvalidStagingSecret'', error_text e)
      | None \<Rightarrow>
          if bootstrap_name obj = [] then None
          else (case validateBootstrapSecretWritable rd w (session_Namespace obj) (bootstrap_name obj) of
            Some e \<Rightarrow> Some (''BootstrapSecretNotWritable'', error_text e)
          | None \<Rightarrow> None)))"

text \<open>The end of a session whose Job succeeded; \<open>completed\<close> is the time it is recorded.\<close>

definition session_succeeded ::
  "'w cluster \<Rightarrow> 'w \<Rightarrow> AgentAuthSession \<Rightarrow> AgentDataVolume \<Rightarrow> AgentAuthSessionStatus \<Rightarrow> instant \<Rightarrow> 'w reconciled" where
  "session_succeeded cl w obj volume st completed =
     patch_session cl w obj (session_condition cl obj completed ConditionTrue ''Succeeded''
       (''Auth session '' @ action_text (au_Action (session_Spec obj)) @ '' completed for AgentDataVolume '' @ meta_key (volume_Meta volume) @ ''.'')
       (st\<lparr>aus_Phase := AgentAuthSessionPhaseSucceeded, aus_LastError := [], aus_ActiveConsumerRuns := [],
           aus_CompletedAt := Some completed\<rparr>)) no_requeue"

definition session_with_job ::
  "'w cluster \<Rightarrow> Options \<Rightarrow> 'w \<Rightarrow> AgentAuthSession \<Rightarrow> AgentDataVolume \<Rightarrow> string \<Rightarrow> string \<Rightarrow> AgentAuthSessionStatus \<Rightarrow>
     instant \<Rightarrow> instant \<Rightarrow> 'w reconciled" where
  "session_with_job cl options w obj volume claimName mountPath st now completed =
     (case ensureAuthSessionJob cl options w obj volume claimName mountPath of
        (Inl e, w) \<Rightarrow> (Inl e, w)
      | (Inr job, w) \<Rightarrow>
          (let st = st\<lparr>aus_JobRef := Some (local_ref (job_Name job) (job_Namespace job)), aus_JobUID := job_UID job,
                 aus_StartedAt := (case aus_StartedAt st of None \<Rightarrow> Some now | Some t \<Rightarrow> Some t)\<rparr> in
           if job_Succeeded job > 0 then
             (if au_Action (session_Spec obj) = AgentAuthSessionActionReauth then
                (case applyBootstrapSecret cl w obj of
                   (Some e, w) \<Rightarrow> failSession cl w obj st now ''BootstrapSecretUpdateFailed'' (error_text e)
                 | (None, w) \<Rightarrow>
                     (case deleteOwnedStagingSecret cl w obj of
                        (Some e, w) \<Rightarrow> (Inl e, w)
                      | (None, w) \<Rightarrow> session_succeeded cl w obj volume st completed))
              else session_succeeded cl w obj volume st completed)
           else if job_Failed job > 0 then
             failSession cl w obj st now ''JobFailed'' (firstNonEmpty (jobFailureMessage job) ''auth maintenance Job failed'')
           else patch_session cl w obj (session_condition cl obj now ConditionFalse ''Running''
                  (''Auth maintenance Job '' @ meta_key (job_Meta job) @ '' is running.'')
                  (st\<lparr>aus_Phase := AgentAuthSessionPhaseRunning, aus_LastError := []\<rparr>)) (requeue_after (5 * Second))))"

definition session_waits ::
  "'w cluster \<Rightarrow> Options \<Rightarrow> 'w \<Rightarrow> AgentAuthSession \<Rightarrow> AgentDataVolume \<Rightarrow> string \<Rightarrow> string \<Rightarrow> AgentAuthSessionStatus \<Rightarrow>
     instant \<Rightarrow> instant \<Rightarrow> 'w reconciled" where
  "session_waits cl options w obj volume claimName mountPath st now completed =
     (case listActiveAuthVolumeConsumers (cl_api cl) w (session_Namespace obj) (volume_Name volume) of
        Inl e \<Rightarrow> (Inl e, w)
      | Inr active \<Rightarrow>
          (let st = st\<lparr>aus_ActiveConsumerRuns := active\<rparr> in
           if active \<noteq> [] then
             patch_session cl w obj (session_condition cl obj now ConditionFalse ''WaitingForIdle''
               (''Waiting for active AgentRuns using AgentDataVolume '' @ meta_key (volume_Meta volume) @ '' to finish: '' @ Join active '', '')
               (st\<lparr>aus_Phase := AgentAuthSessionPhaseWaitingForIdle, aus_LastError := []\<rparr>)) (requeue_after (10 * Second))
           else (case otherActiveSessionForVolume (cl_api cl) w obj (volume_Name volume) of
             Inl e \<Rightarrow> (Inl e, w)
           | Inr (Some peer) \<Rightarrow>
               patch_session cl w obj (session_condition cl obj now ConditionFalse ''VolumeReserved''
                 (''Waiting for AgentAuthSession '' @ session_Namespace obj @ ''/'' @ peer @ '' that already holds AgentDataVolume '' @
                  volume_Name volume @ ''.'')
                 (st\<lparr>aus_Phase := AgentAuthSessionPhaseWaitingForIdle\<rparr>)) (requeue_after (5 * Second))
           | Inr None \<Rightarrow> session_with_job cl options w obj volume claimName mountPath st now completed)))"

definition AgentAuthSessionReconciler_Reconcile ::
  "'w cluster \<Rightarrow> Options \<Rightarrow> 'w \<Rightarrow> string \<Rightarrow> string \<Rightarrow> instant \<Rightarrow> instant \<Rightarrow> 'w reconciled" where
  "AgentAuthSessionReconciler_Reconcile cl options w namespace name now completed =
     (case rd_GetSession (cl_cache cl) w namespace name of
        Inl e \<Rightarrow> (IgnoreNotFound e, w)
      | Inr obj \<Rightarrow>
          (let st = session_Status obj; gen = om_Generation (session_Meta obj) in
           if being_deleted (session_Meta obj) then (Inr no_requeue, w)
           else if AgentAuthSessionIsTerminal (aus_Phase st) \<and> aus_ObservedGeneration st = gen then (Inr no_requeue, w)
           else
             (let st = st\<lparr>aus_ObservedGeneration := gen\<rparr> in
              case validateAgentAuthSessionSpec obj of
                Some e \<Rightarrow> failSession cl w obj st now ''InvalidSpec'' (error_text e)
              | None \<Rightarrow>
                  (case resolveAuthSessionVolume (cl_api cl) w obj of
                     Inl e \<Rightarrow> (Inl e, w)
                   | Inr (volume, claimName, claimUID, mountPath, Some (True, reason, message)) \<Rightarrow>
                       failSession cl w obj st now reason message
                   | Inr (Some volume, claimName, claimUID, mountPath, Some (False, reason, message)) \<Rightarrow>
                       patch_session cl w obj (session_condition cl obj now ConditionFalse reason message
                         (session_identity volume claimName claimUID mountPath
                           (st\<lparr>aus_Phase := AgentAuthSessionPhasePending, aus_LastError := message\<rparr>))) (requeue_after (5 * Second))
                   | Inr (Some volume, claimName, claimUID, mountPath, None) \<Rightarrow>
                       (let st = (session_identity volume claimName claimUID mountPath st)\<lparr>aus_SeedID := TrimSpace (au_SeedID (session_Spec obj))\<rparr> in
                        case session_secrets_error (cl_api cl) w obj of
                          Some (reason, message) \<Rightarrow> failSession cl w obj st now reason message
                        | None \<Rightarrow> session_waits cl options w obj volume claimName mountPath st now completed)
                   | Inr (None, _, _, _, _) \<Rightarrow> (Inl (Panic ''nil AgentDataVolume''), w)))))"

subsection \<open>When a session starts its Job\<close>

lemma patch_session_writes [simp]:
  "writes (patch_session (logged cl) (w, l) obj st result) =
     l @ [PatchedSessionStatus obj (obj\<lparr>session_Status := st\<rparr>) (fst (cl_PatchSessionStatus cl w obj (obj\<lparr>session_Status := st\<rparr>)))]"
  unfolding patch_session_def
  by (cases "cl_PatchSessionStatus cl w obj (obj\<lparr>session_Status := st\<rparr>)") (simp split: option.splits)

lemma patch_session_jobs [simp]: "created_jobs (writes (patch_session (logged cl) s obj st result)) = created_jobs (snd s)"
  by (cases s) simp

lemma failSession_jobs [simp]: "created_jobs (writes (failSession (logged cl) s obj st now reason message)) = created_jobs (snd s)"
  by (simp add: failSession_def)

lemma applyBootstrapSecret_jobs: "created_jobs (writes (applyBootstrapSecret (logged cl) (w, l) obj)) = created_jobs l"
  unfolding applyBootstrapSecret_def Let_def
  by (auto simp: noted_def split: sum.splits option.splits prod.splits)

lemma deleteOwnedStagingSecret_jobs: "created_jobs (writes (deleteOwnedStagingSecret (logged cl) (w, l) obj)) = created_jobs l"
  unfolding deleteOwnedStagingSecret_def by (auto simp: noted_def split: sum.splits option.splits prod.splits)

lemma ensureAuthSessionJob_jobs:
  "created_jobs (writes (ensureAuthSessionJob (logged cl) options (w, []) obj volume claimName mountPath)) = [] \<or>
   (\<exists>layout meta. agentAuthLayout (au_Provider (session_Spec obj)) = Inr layout \<and>
      created_jobs (writes (ensureAuthSessionJob (logged cl) options (w, []) obj volume claimName mountPath)) =
        [session_job options obj volume layout claimName mountPath meta])"
  unfolding ensureAuthSessionJob_def Let_def own_def by (auto simp: noted_def split: sum.splits prod.splits)

lemma session_with_job_jobs:
  "created_jobs (writes (session_with_job (logged cl) options s obj volume claimName mountPath st now completed)) =
   created_jobs (writes (ensureAuthSessionJob (logged cl) options s obj volume claimName mountPath))"
proof -
  obtain r w1 l1 where e: "ensureAuthSessionJob (logged cl) options s obj volume claimName mountPath = (r, (w1, l1))"
    by (metis prod.exhaust)
  obtain b w2 l2 where b: "applyBootstrapSecret (logged cl) (w1, l1) obj = (b, (w2, l2))" by (metis prod.exhaust)
  have b': "created_jobs l2 = created_jobs l1" using applyBootstrapSecret_jobs [of cl w1 l1 obj] b by simp
  obtain d w3 l3 where d: "deleteOwnedStagingSecret (logged cl) (w2, l2) obj = (d, (w3, l3))" by (metis prod.exhaust)
  have d': "created_jobs l3 = created_jobs l2" using deleteOwnedStagingSecret_jobs [of cl w2 l2 obj] d by simp
  show ?thesis unfolding session_with_job_def e Let_def
    by (auto simp: b b' d d' session_succeeded_def split: sum.splits option.splits)
qed

text \<open>What a session found when it asked for its Job.\<close>

definition session_alone :: "'w reader \<Rightarrow> 'w \<Rightarrow> AgentAuthSession \<Rightarrow> AgentDataVolume \<Rightarrow> bool" where
  "session_alone rd w obj volume \<longleftrightarrow>
     (\<exists>runs sessions. k_ListRuns (rd_Kube rd) w (Some (session_Namespace obj)) [] = Inr runs \<and>
        (\<forall>r \<in> set runs. run_uses_volume (volume_Name volume) r \<longrightarrow> agentRunIsTerminal (rs_Phase (run_Status r))) \<and>
        rd_ListSessions rd w (session_Namespace obj) = Inr sessions \<and>
        (\<forall>s \<in> set sessions. om_UID (session_Meta s) \<noteq> om_UID (session_Meta obj) \<and> session_volume s = volume_Name volume \<and>
           session_before s obj \<longrightarrow> AgentAuthSessionIsTerminal (aus_Phase (session_Status s))))"

definition session_pinned :: "'w reader \<Rightarrow> 'w \<Rightarrow> AgentAuthSession \<Rightarrow> AgentDataVolume \<Rightarrow> string \<Rightarrow> bool" where
  "session_pinned rd w obj volume claimName \<longleftrightarrow>
     rd_GetVolume rd w (session_Namespace obj) (session_volume obj) = Inr volume \<and> agentDataVolumeStatusCurrent volume \<and>
     dst_Phase (volume_Status volume) \<in> {AgentDataVolumePhaseReady, AgentDataVolumePhaseUnset} \<and>
     (\<exists>pvc. rd_GetClaim rd w (volume_Namespace volume) claimName = Inr pvc \<and>
        controlled_by ''AgentDataVolume'' (pvc_Meta pvc) (volume_Meta volume) \<and>
        pvc_UID pvc = TrimSpace (dst_ClaimUID (volume_Status volume)) \<and> pvc_UID pvc \<noteq> [])"

lemma listActive_none:
  assumes "listActiveAuthVolumeConsumers rd w ns volumeName = Inr []"
  shows "\<exists>runs. k_ListRuns (rd_Kube rd) w (Some ns) [] = Inr runs \<and>
    (\<forall>r \<in> set runs. run_uses_volume volumeName r \<longrightarrow> agentRunIsTerminal (rs_Phase (run_Status r)))"
  using assms unfolding listActiveAuthVolumeConsumers_def by (auto simp: filter_empty_conv split: sum.splits)

lemma otherActiveSession_none:
  assumes "otherActiveSessionForVolume rd w obj volumeName = Inr None"
  shows "\<exists>sessions. rd_ListSessions rd w (session_Namespace obj) = Inr sessions \<and>
    (\<forall>s \<in> set sessions. om_UID (session_Meta s) \<noteq> om_UID (session_Meta obj) \<and> session_volume s = volumeName \<and>
       session_before s obj \<longrightarrow> AgentAuthSessionIsTerminal (aus_Phase (session_Status s)))"
  using assms unfolding otherActiveSessionForVolume_def by (auto simp: find_None_iff split: sum.splits)

lemma resolveAuthSessionVolume_pinned:
  assumes "resolveAuthSessionVolume rd w obj = Inr (Some volume, claimName, claimUID, mountPath, None)"
  shows "session_pinned rd w obj volume claimName" "mountPath = agentDataVolumeResolvedMountPath volume"
  using assms unfolding resolveAuthSessionVolume_def session_pinned_def Let_def
  by (auto split: sum.splits if_splits)

lemma logged_session_reads [simp]:
  "resolveAuthSessionVolume (logged_reader rd) (w, l) obj = resolveAuthSessionVolume rd w obj"
  "listActiveAuthVolumeConsumers (logged_reader rd) (w, l) ns volumeName = listActiveAuthVolumeConsumers rd w ns volumeName"
  "otherActiveSessionForVolume (logged_reader rd) (w, l) obj volumeName = otherActiveSessionForVolume rd w obj volumeName"
  "validateStagingSecret (logged_reader rd) (w, l) obj = validateStagingSecret rd w obj"
  "validateBootstrapSecretWritable (logged_reader rd) (w, l) ns bootstrap = validateBootstrapSecretWritable rd w ns bootstrap"
  unfolding resolveAuthSessionVolume_def validateStagingSecret_def Let_def
    validateBootstrapSecretWritable_def listActiveAuthVolumeConsumers_def otherActiveSessionForVolume_def
  by (simp_all cong: sum.case_cong if_cong)

lemma logged_secrets_error [simp]: "session_secrets_error (logged_reader rd) (w, l) obj = session_secrets_error rd w obj"
  by (simp add: session_secrets_error_def cong: option.case_cong if_cong)

lemma session_waits_jobs:
  "created_jobs (writes (session_waits (logged cl) options (w, []) obj volume claimName mountPath st now completed)) = [] \<or>
   (\<exists>layout meta. agentAuthLayout (au_Provider (session_Spec obj)) = Inr layout \<and> session_alone (cl_api cl) w obj volume \<and>
      created_jobs (writes (session_waits (logged cl) options (w, []) obj volume claimName mountPath st now completed)) =
        [session_job options obj volume layout claimName mountPath meta])"
proof (cases "listActiveAuthVolumeConsumers (cl_api cl) w (session_Namespace obj) (volume_Name volume) = Inr [] \<and>
    otherActiveSessionForVolume (cl_api cl) w obj (volume_Name volume) = Inr None")
  case True
  then have "session_alone (cl_api cl) w obj volume"
    unfolding session_alone_def using listActive_none [of "cl_api cl" w "session_Namespace obj" "volume_Name volume"]
      otherActiveSession_none [of "cl_api cl" w obj "volume_Name volume"] by metis
  moreover have "session_waits (logged cl) options (w, []) obj volume claimName mountPath st now completed =
      session_with_job (logged cl) options (w, []) obj volume claimName mountPath (st\<lparr>aus_ActiveConsumerRuns := []\<rparr>) now completed"
    using True unfolding session_waits_def by simp
  ultimately show ?thesis
    using ensureAuthSessionJob_jobs [of cl options w obj volume claimName mountPath] by (simp add: session_with_job_jobs)
next
  case False
  then show ?thesis unfolding session_waits_def by (auto simp: Let_def split: sum.splits option.splits)
qed

lemma session_reconcile_jobs:
  "created_jobs (writes (AgentAuthSessionReconciler_Reconcile (logged cl) options (w, []) ns name now completed)) = [] \<or>
   (\<exists>obj volume claimName layout meta. rd_GetSession (cl_cache cl) w ns name = Inr obj \<and> validateAgentAuthSessionSpec obj = None \<and>
      \<not> being_deleted (session_Meta obj) \<and> session_pinned (cl_api cl) w obj volume claimName \<and> session_alone (cl_api cl) w obj volume \<and>
      created_jobs (writes (AgentAuthSessionReconciler_Reconcile (logged cl) options (w, []) ns name now completed)) =
        [session_job options obj volume layout claimName (agentDataVolumeResolvedMountPath volume) meta])"
proof (cases "rd_GetSession (cl_cache cl) w ns name")
  case (Inr obj)
  let ?st = "(session_Status obj)\<lparr>aus_ObservedGeneration := om_Generation (session_Meta obj)\<rparr>"
  let ?R = "AgentAuthSessionReconciler_Reconcile (logged cl) options (w, []) ns name now completed"
  note unf = AgentAuthSessionReconciler_Reconcile_def [of "logged cl" options "(w, [])" ns name now completed]
  show ?thesis
  proof (cases "\<exists>volume claimName claimUID mountPath. resolveAuthSessionVolume (cl_api cl) w obj =
      Inr (Some volume, claimName, claimUID, mountPath, None) \<and> \<not> being_deleted (session_Meta obj) \<and>
      validateAgentAuthSessionSpec obj = None \<and> session_secrets_error (cl_api cl) w obj = None \<and>
      \<not> (AgentAuthSessionIsTerminal (aus_Phase (session_Status obj)) \<and> aus_ObservedGeneration (session_Status obj) = om_Generation (session_Meta obj))")
    case True
    then obtain volume claimName claimUID mountPath where
        r: "resolveAuthSessionVolume (cl_api cl) w obj = Inr (Some volume, claimName, claimUID, mountPath, None)"
      and ok: "\<not> being_deleted (session_Meta obj)" "validateAgentAuthSessionSpec obj = None" "session_secrets_error (cl_api cl) w obj = None"
        "\<not> (AgentAuthSessionIsTerminal (aus_Phase (session_Status obj)) \<and> aus_ObservedGeneration (session_Status obj) = om_Generation (session_Meta obj))"
      by blast
    have "?R = session_waits (logged cl) options (w, []) obj volume claimName mountPath
        ((session_identity volume claimName claimUID mountPath ?st)\<lparr>aus_SeedID := TrimSpace (au_SeedID (session_Spec obj))\<rparr>) now completed"
      unfolding unf using Inr r ok by (auto simp: Let_def)
    then show ?thesis using session_waits_jobs [of cl options w obj volume claimName mountPath] Inr ok
        resolveAuthSessionVolume_pinned [OF r] by metis
  next
    case False
    then have "created_jobs (writes ?R) = []"
      unfolding unf using Inr by (auto simp: Let_def split: sum.splits option.splits prod.splits bool.splits)
    then show ?thesis by simp
  qed
qed (simp add: AgentAuthSessionReconciler_Reconcile_def)


text \<open>Reads return the object of the key that was asked for.\<close>

locale session_api =
  fixes cl :: "'w cluster"
  assumes session_key: "rd_GetSession (cl_cache cl) w ns n = Inr s \<Longrightarrow> session_Name s = n \<and> session_Namespace s = ns"
    and volume_key: "rd_GetVolume (cl_api cl) w ns n = Inr v \<Longrightarrow> volume_Name v = n \<and> volume_Namespace v = ns"
begin

lemma job_session_first:
  assumes "created_jobs (writes (AgentAuthSessionReconciler_Reconcile (logged cl) options (w, []) ns name now completed)) \<noteq> []"
    and "rd_GetSession (cl_cache cl) w ns name = Inr obj" and "rd_ListSessions (cl_api cl) w ns = Inr sessions"
    and "s \<in> set sessions" "session_volume s = session_volume obj" "om_UID (session_Meta s) \<noteq> om_UID (session_Meta obj)"
    and "\<not> AgentAuthSessionIsTerminal (aus_Phase (session_Status s))"
  shows "\<not> session_before s obj"
proof -
  obtain volume claimName where p: "session_pinned (cl_api cl) w obj volume claimName" and a: "session_alone (cl_api cl) w obj volume"
    using session_reconcile_jobs [of cl options w ns name now completed] assms(1,2) by auto
  have "volume_Name volume = session_volume obj" using p volume_key unfolding session_pinned_def by blast
  then show ?thesis using a assms(3-) session_key [OF assms(2)] unfolding session_alone_def by auto
qed

lemma job_runs_ended:
  assumes "created_jobs (writes (AgentAuthSessionReconciler_Reconcile (logged cl) options (w, []) ns name now completed)) \<noteq> []"
    and "rd_GetSession (cl_cache cl) w ns name = Inr obj" and "k_ListRuns (rd_Kube (cl_api cl)) w (Some ns) [] = Inr runs"
    and "run \<in> set runs" "run_uses_volume (session_volume obj) run"
  shows "agentRunIsTerminal (rs_Phase (run_Status run))"
proof -
  obtain volume claimName where p: "session_pinned (cl_api cl) w obj volume claimName" and a: "session_alone (cl_api cl) w obj volume"
    using session_reconcile_jobs [of cl options w ns name now completed] assms(1,2) by auto
  have "volume_Name volume = session_volume obj" using p volume_key unfolding session_pinned_def by blast
  then show ?thesis using a assms(3-) session_key [OF assms(2)] unfolding session_alone_def by auto
qed

end

interpretation mem_sessions: session_api "mem_cluster aj" for aj
  by unfold_locales (auto simp: mem_reader_def dest!: found_keyed)

text \<open>
  Sessions take turns: of two unfinished sessions of one volume that see the same cluster, at most
  one asks for its maintenance Job, whatever their ages.
\<close>

theorem sessions_take_turns:
  assumes "session_api cl" and "rd_ListSessions (cl_api cl) w ns = Inr sessions"
    and "s1 \<in> set sessions" "s2 \<in> set sessions" "om_UID (session_Meta s1) \<noteq> om_UID (session_Meta s2)" "session_volume s1 = session_volume s2"
    and "\<not> AgentAuthSessionIsTerminal (aus_Phase (session_Status s1))" "\<not> AgentAuthSessionIsTerminal (aus_Phase (session_Status s2))"
    and "n1 \<noteq> n2" "rd_GetSession (cl_cache cl) w ns n1 = Inr s1" "rd_GetSession (cl_cache cl) w ns n2 = Inr s2"
  shows "created_jobs (writes (AgentAuthSessionReconciler_Reconcile (logged cl) options (w, []) ns n1 now1 completed1)) = [] \<or>
    created_jobs (writes (AgentAuthSessionReconciler_Reconcile (logged cl) options (w, []) ns n2 now2 completed2)) = []"
proof -
  have "session_Name s1 \<noteq> session_Name s2" using assms session_api.session_key [OF assms(1)] by metis
  then have "session_before s1 s2 \<or> session_before s2 s1" unfolding session_before_def by auto
  then show ?thesis
    using session_api.job_session_first [OF assms(1) _ assms(10,2), where s = s2] session_api.job_session_first [OF assms(1) _ assms(11,2), where s = s1]
      assms(3-8) by metis
qed

text \<open>The way to the Job of a session that nothing holds back.\<close>

lemma session_reaches_job:
  assumes "rd_GetSession (cl_cache cl) w ns name = Inr obj" "\<not> being_deleted (session_Meta obj)"
    and "\<not> AgentAuthSessionIsTerminal (aus_Phase (session_Status obj))" "validateAgentAuthSessionSpec obj = None"
    and "resolveAuthSessionVolume (cl_api cl) w obj = Inr (Some volume, claimName, claimUID, mountPath, None)"
    and "session_secrets_error (cl_api cl) w obj = None"
  shows "\<exists>st. AgentAuthSessionReconciler_Reconcile (logged cl) options (w, []) ns name now completed =
    session_waits (logged cl) options (w, []) obj volume claimName mountPath st now completed"
  unfolding AgentAuthSessionReconciler_Reconcile_def using assms by (auto simp: Let_def)

lemma ensureAuthSessionJob_creates:
  assumes "rd_GetJob (cl_cache cl) w (session_Namespace obj) (agentRunChildName [''auth'', session_Name obj]) = Inl e" "IsNotFound e"
    and "agentAuthLayout (au_Provider (session_Spec obj)) = Inr layout"
    and "cl_SetControllerReference cl [] (owner_ref ''AgentAuthSession'' (session_Meta obj)) = Inr [owner_ref ''AgentAuthSession'' (session_Meta obj)]"
  shows "length (created_jobs (writes (ensureAuthSessionJob (logged cl) options (w, []) obj volume claimName mountPath))) = 1"
  using assms unfolding ensureAuthSessionJob_def Let_def own_def
  by (auto simp: noted_def zero_ObjectMeta_def split: sum.splits prod.splits)

lemma session_starts:
  assumes "rd_GetSession (cl_cache cl) w ns name = Inr obj" "\<not> being_deleted (session_Meta obj)"
    and "\<not> AgentAuthSessionIsTerminal (aus_Phase (session_Status obj))" "validateAgentAuthSessionSpec obj = None"
    and "resolveAuthSessionVolume (cl_api cl) w obj = Inr (Some volume, claimName, claimUID, mountPath, None)"
    and "session_secrets_error (cl_api cl) w obj = None"
    and "listActiveAuthVolumeConsumers (cl_api cl) w (session_Namespace obj) (volume_Name volume) = Inr []"
    and "otherActiveSessionForVolume (cl_api cl) w obj (volume_Name volume) = Inr None"
    and "rd_GetJob (cl_cache cl) w (session_Namespace obj) (agentRunChildName [''auth'', session_Name obj]) = Inl e" "IsNotFound e"
    and "cl_SetControllerReference cl [] (owner_ref ''AgentAuthSession'' (session_Meta obj)) = Inr [owner_ref ''AgentAuthSession'' (session_Meta obj)]"
  shows "length (created_jobs (writes (AgentAuthSessionReconciler_Reconcile (logged cl) options (w, []) ns name now completed))) = 1"
proof -
  obtain layout where "agentAuthLayout (au_Provider (session_Spec obj)) = Inr layout"
    using assms(4) unfolding validateAgentAuthSessionSpec_def by (auto simp: Let_def split: sum.splits)
  moreover obtain st where "AgentAuthSessionReconciler_Reconcile (logged cl) options (w, []) ns name now completed =
      session_waits (logged cl) options (w, []) obj volume claimName mountPath st now completed"
    using session_reaches_job [OF assms(1-6)] by blast
  ultimately show ?thesis using assms(7-11)
    by (simp add: session_waits_def session_with_job_jobs ensureAuthSessionJob_creates)
qed

text \<open>
  C35. A session starts: a valid session of a resolved volume that no unfinished run uses and no older
  session holds creates exactly one Job when it has none yet.
\<close>

theorem idle_session_starts:
  assumes "rd_GetSession (cl_cache cl) w ns name = Inr obj" "\<not> being_deleted (session_Meta obj)"
    and "\<not> AgentAuthSessionIsTerminal (aus_Phase (session_Status obj))" "validateAgentAuthSessionSpec obj = None"
    and "resolveAuthSessionVolume (cl_api cl) w obj = Inr (Some volume, claimName, claimUID, mountPath, None)"
    and "session_secrets_error (cl_api cl) w obj = None"
    and "listActiveAuthVolumeConsumers (cl_api cl) w (session_Namespace obj) (volume_Name volume) = Inr []"
    and "otherActiveSessionForVolume (cl_api cl) w obj (volume_Name volume) = Inr None"
    and "rd_GetJob (cl_cache cl) w (session_Namespace obj) (agentRunChildName [''auth'', session_Name obj]) = Inl e" "IsNotFound e"
    and "cl_SetControllerReference cl [] (owner_ref ''AgentAuthSession'' (session_Meta obj)) = Inr [owner_ref ''AgentAuthSession'' (session_Meta obj)]"
  shows "length (created_jobs (writes (AgentAuthSessionReconciler_Reconcile (logged cl) options (w, []) ns name now completed))) = 1"
  by (rule session_starts [OF assms])

definition demo_session :: "string \<Rightarrow> AgentAuthSession" where
  "demo_session name = \<lparr>session_Meta = zero_ObjectMeta\<lparr>om_Name := name, om_Namespace := ''team'', om_UID := name, om_Generation := 1\<rparr>,
     session_Spec = \<lparr>au_Provider = AgentAuthSessionProviderCodex, au_Action = AgentAuthSessionActionLogout,
       au_DataVolumeRef = \<lparr>lor_Name = ''v''\<rparr>, au_StagingSecretRef = None, au_BootstrapSecretRef = None, au_BootstrapSecretKey = [],
       au_SeedID = [], au_TimeoutSeconds = 0\<rparr>,
     session_Status = \<lparr>aus_ObservedGeneration = 0, aus_Conditions = [], aus_Phase = AgentAuthSessionPhaseUnset, aus_DataVolumeRef = None,
       aus_DataVolumeUID = [], aus_ClaimRef = None, aus_ClaimUID = [], aus_MountPath = [], aus_SeedID = [], aus_JobRef = None,
       aus_JobUID = [], aus_ActiveConsumerRuns = [], aus_StartedAt = None, aus_CompletedAt = None, aus_LastError = []\<rparr>\<rparr>"

definition demo_session_state :: mem_cluster_state where
  "demo_session_state = demo_ready_state\<lparr>mc_Sessions := [demo_session ''a'', demo_session ''b'']\<rparr>"

abbreviation "demo_cluster \<equiv> mem_cluster demo_archive_json"

lemma demo_session_ready:
  "(case resolveAuthSessionVolume mem_reader demo_session_state (demo_session ''a'') of
      Inr (Some v, c, u, m, None) \<Rightarrow> volume_Name v = ''v'' | _ \<Rightarrow> False)"
  "validateAgentAuthSessionSpec (demo_session ''a'') = None"
  "listActiveAuthVolumeConsumers mem_reader demo_session_state ''team'' ''v'' = Inr []"
  "otherActiveSessionForVolume mem_reader demo_session_state (demo_session ''a'') ''v'' = Inr None"
  by code_simp+

lemma demo_session_open:
  "session_Namespace (demo_session n) = ''team''" "session_Name (demo_session n) = n" "\<not> being_deleted (session_Meta (demo_session n))"
  "\<not> AgentAuthSessionIsTerminal (aus_Phase (session_Status (demo_session n)))"
  "om_UID (session_Meta (demo_session n)) = n" "session_volume (demo_session n) = TrimSpace ''v''"
  "session_secrets_error rd w (demo_session n) = None"
  by (simp_all add: demo_session_def AgentAuthSessionIsTerminal_def session_volume_def session_secrets_error_def being_deleted_def zero_ObjectMeta_def)

lemma demo_session_found:
  "rd_GetSession mem_reader demo_session_state ''team'' ''a'' = Inr (demo_session ''a'')"
  "rd_GetSession mem_reader demo_session_state ''team'' ''b'' = Inr (demo_session ''b'')"
  "rd_ListSessions mem_reader demo_session_state ''team'' = Inr [demo_session ''a'', demo_session ''b'']"
  "\<exists>e. rd_GetJob mem_reader demo_session_state ''team'' n = Inl e \<and> IsNotFound e"
  by (simp_all add: mem_reader_def demo_session_state_def demo_ready_state_def demo_volume_state_def keyed_def demo_session_def zero_ObjectMeta_def
    IsNotFound_def)

lemma demo_session_creates:
  "length (created_jobs (writes (AgentAuthSessionReconciler_Reconcile (logged demo_cluster) demo_options (demo_session_state, []) ''team'' ''a'' 5 6))) = 1"
proof -
  obtain v c u m where r: "resolveAuthSessionVolume mem_reader demo_session_state (demo_session ''a'') = Inr (Some v, c, u, m, None)" "volume_Name v = ''v''"
    using demo_session_ready(1) by (auto split: sum.splits option.splits)
  obtain e where e: "rd_GetJob mem_reader demo_session_state ''team'' (agentRunChildName [''auth'', ''a'']) = Inl e" "IsNotFound e"
    using demo_session_found(4) by blast
  show ?thesis
    by (rule session_starts [of _ _ _ _ "demo_session ''a''" v c u m e])
      (use demo_session_ready demo_session_found r e demo_session_open in \<open>simp_all add: mem_cluster_def mem_set_controller_def\<close>)
qed

theorem idle_session_starts_witness:
  "length (created_jobs (writes (AgentAuthSessionReconciler_Reconcile (logged demo_cluster) demo_options (demo_session_state, []) ''team'' ''a'' 5 6))) = 1"
proof -
  obtain v c u m where r: "resolveAuthSessionVolume mem_reader demo_session_state (demo_session ''a'') = Inr (Some v, c, u, m, None)" "volume_Name v = ''v''"
    using demo_session_ready(1) by (auto split: sum.splits option.splits)
  obtain e where e: "rd_GetJob mem_reader demo_session_state ''team'' (agentRunChildName [''auth'', ''a'']) = Inl e" "IsNotFound e"
    using demo_session_found(4) by blast
  show ?thesis
    by (rule idle_session_starts [of _ _ _ _ "demo_session ''a''" v c u m e])
      (use demo_session_ready demo_session_found r e demo_session_open in \<open>simp_all add: mem_cluster_def mem_set_controller_def\<close>)
qed


theorem sessions_take_turns_witness:
  "created_jobs (writes (AgentAuthSessionReconciler_Reconcile (logged demo_cluster) demo_options (demo_session_state, []) ''team'' ''b'' 7 8)) = []"
proof -
  have "created_jobs (writes (AgentAuthSessionReconciler_Reconcile (logged demo_cluster) demo_options (demo_session_state, []) ''team'' ''a'' 5 6)) = [] \<or>
      created_jobs (writes (AgentAuthSessionReconciler_Reconcile (logged demo_cluster) demo_options (demo_session_state, []) ''team'' ''b'' 7 8)) = []"
    by (rule sessions_take_turns [OF mem_sessions.session_api_axioms [of demo_archive_json], of demo_session_state "''team''"
        "[demo_session ''a'', demo_session ''b'']" "demo_session ''a''" "demo_session ''b''"])
      (use demo_session_found demo_session_open in \<open>simp_all\<close>)
  then show ?thesis using demo_session_creates by auto
qed

lemma resolve_volumes_unreserved:
  assumes "resolve_volumes rd w obj app sel out refs = Inr (Inr vs)" and "ref \<in> set refs"
  shows "unreserved rd w (run_Namespace obj) (TrimSpace (dvr_Name ref))"
  using assms
proof (induction refs arbitrary: sel out)
  case (Cons r refs)
  have ns: "firstNonEmpty (TrimSpace (dvr_Namespace r)) (run_Namespace obj) = run_Namespace obj"
    using Cons.prems(1) by (auto simp: Let_def split: if_splits)
  obtain volume where gate: "volume_gate rd w (run_Namespace obj) (TrimSpace (dvr_Name r)) volume app = Inr None"
      and rest: "\<exists>sel' out'. resolve_volumes rd w obj app sel' out' refs = Inr (Inr vs)"
    using Cons.prems(1) ns by (auto simp: Let_def split: if_splits sum.splits option.splits prod.splits)
  show ?case using Cons.IH rest volume_gate_open(3) [OF gate] Cons.prems(2) by auto
qed simp

lemma resolved_refs_unreserved:
  assumes "resolveAgentRunDataVolumes rd w obj = Inr (Inr vs)" and "ref \<in> set (ex_DataVolumeRefs (run_execution obj))"
  shows "unreserved rd w (run_Namespace obj) (TrimSpace (dvr_Name ref))"
  using assms resolve_volumes_unreserved unfolding resolveAgentRunDataVolumes_def
  by (auto simp: Let_def split: if_splits sum.splits)

text \<open>
  C40. A waiting run and a session hold each other up: while an unfinished run names the volume of an
  unfinished session, the run is held until the session has finished, and the session only reports
  that it waits for the run; it neither starts nor observes a Job.
\<close>

theorem session_and_run_deadlock:
  assumes "session_api cl" and "rd_GetSession (cl_cache cl) w ns name = Inr obj" "\<not> being_deleted (session_Meta obj)"
    and "\<not> AgentAuthSessionIsTerminal (aus_Phase (session_Status obj))" "validateAgentAuthSessionSpec obj = None"
    and "rd_ListSessions (cl_api cl) w ns = Inr sessions" "obj \<in> set sessions"
    and "resolveAuthSessionVolume (cl_api cl) w obj = Inr (Some volume, claimName, claimUID, mountPath, None)"
    and "session_secrets_error (cl_api cl) w obj = None"
    and "k_ListRuns (rd_Kube (cl_api cl)) w (Some ns) [] = Inr runs" "run \<in> set runs" "run_Namespace run = ns"
    and "\<not> agentRunIsTerminal (rs_Phase (run_Status run))"
    and "ref \<in> set (ex_DataVolumeRefs (run_execution run))" "TrimSpace (dvr_Name ref) = session_volume obj"
  shows "(\<forall>vs. resolveAgentRunDataVolumes (cl_api cl) w run \<noteq> Inr (Inr vs)) \<and>
    (\<exists>b e. writes (AgentAuthSessionReconciler_Reconcile (logged cl) options (w, []) ns name now completed) = [PatchedSessionStatus obj b e] \<and>
      aus_Phase (session_Status b) = AgentAuthSessionPhaseWaitingForIdle \<and> run_Name run \<in> set (aus_ActiveConsumerRuns (session_Status b)))"
proof
  have key: "session_Namespace obj = ns" using session_api.session_key [OF assms(1,2)] by simp
  have vn: "volume_Name volume = session_volume obj"
    using resolveAuthSessionVolume_pinned(1) [OF assms(8)] session_api.volume_key [OF assms(1)] unfolding session_pinned_def by blast
  show "\<forall>vs. resolveAgentRunDataVolumes (cl_api cl) w run \<noteq> Inr (Inr vs)"
    using resolved_refs_unreserved [of "cl_api cl" w run] assms(4,6,7,12,14,15) unfolding unreserved_def session_volume_def
    by fastforce
  obtain active where active: "listActiveAuthVolumeConsumers (cl_api cl) w ns (session_volume obj) = Inr active" "run_Name run \<in> set active"
    unfolding listActiveAuthVolumeConsumers_def run_uses_volume_def using assms(10,11,13-15) by auto
  then have "active \<noteq> []" by auto
  then show "\<exists>b e. writes (AgentAuthSessionReconciler_Reconcile (logged cl) options (w, []) ns name now completed) = [PatchedSessionStatus obj b e] \<and>
      aus_Phase (session_Status b) = AgentAuthSessionPhaseWaitingForIdle \<and> run_Name run \<in> set (aus_ActiveConsumerRuns (session_Status b))"
    using session_reaches_job [OF assms(2-5,8,9), of options now completed] active key vn
    by (auto simp: session_waits_def Let_def session_condition_def)
qed

definition demo_deadlock_state :: mem_cluster_state where
  "demo_deadlock_state = demo_session_state\<lparr>mc_Kube := (mc_Kube demo_session_state)\<lparr>mem_Runs := [demo_volume_run]\<rparr>\<rparr>"

lemma runs_update_reads [simp]:
  "rd_GetVolume mem_reader (w\<lparr>mc_Kube := k\<rparr>) = rd_GetVolume mem_reader w"
  "rd_GetClaim mem_reader (w\<lparr>mc_Kube := k\<rparr>) = rd_GetClaim mem_reader w"
  "rd_GetSession mem_reader (w\<lparr>mc_Kube := k\<rparr>) = rd_GetSession mem_reader w"
  "rd_ListSessions mem_reader (w\<lparr>mc_Kube := k\<rparr>) = rd_ListSessions mem_reader w"
  by (simp_all add: mem_reader_def)

lemma runs_update_session [simp]:
  "resolveAuthSessionVolume mem_reader (w\<lparr>mc_Kube := k\<rparr>) obj = resolveAuthSessionVolume mem_reader w obj"
  unfolding resolveAuthSessionVolume_def runs_update_reads by (rule refl)

theorem session_and_run_deadlock_witness:
  "(\<forall>vs. resolveAgentRunDataVolumes mem_reader demo_deadlock_state demo_volume_run \<noteq> Inr (Inr vs)) \<and>
   (\<exists>b e. writes (AgentAuthSessionReconciler_Reconcile (logged demo_cluster) demo_options (demo_deadlock_state, []) ''team'' ''a'' 5 6) =
      [PatchedSessionStatus (demo_session ''a'') b e] \<and> aus_Phase (session_Status b) = AgentAuthSessionPhaseWaitingForIdle)"
proof -
  obtain v c u m where r: "resolveAuthSessionVolume mem_reader demo_deadlock_state (demo_session ''a'') = Inr (Some v, c, u, m, None)"
    using demo_session_ready(1) unfolding demo_deadlock_state_def by (auto split: sum.splits option.splits)
  have runs: "k_ListRuns (rd_Kube mem_reader) demo_deadlock_state (Some ''team'') [] = Inr [demo_volume_run]"
    by (simp add: mem_reader_def part_kube_def mem_kube_def mem_list_runs_def matches_labels_def demo_deadlock_state_def demo_volume_run_def)
  have run: "run_Namespace demo_volume_run = ''team''" "\<not> agentRunIsTerminal (rs_Phase (run_Status demo_volume_run))"
    "\<exists>ref \<in> set (ex_DataVolumeRefs (run_execution demo_volume_run)). TrimSpace (dvr_Name ref) = TrimSpace ''v''"
    by code_simp+
  then obtain ref where ref: "ref \<in> set (ex_DataVolumeRefs (run_execution demo_volume_run))" "TrimSpace (dvr_Name ref) = TrimSpace ''v''" by blast
  have "(\<forall>vs. resolveAgentRunDataVolumes (cl_api demo_cluster) demo_deadlock_state demo_volume_run \<noteq> Inr (Inr vs)) \<and>
    (\<exists>b e. writes (AgentAuthSessionReconciler_Reconcile (logged demo_cluster) demo_options (demo_deadlock_state, []) ''team'' ''a'' 5 6) =
      [PatchedSessionStatus (demo_session ''a'') b e] \<and> aus_Phase (session_Status b) = AgentAuthSessionPhaseWaitingForIdle \<and>
      run_Name demo_volume_run \<in> set (aus_ActiveConsumerRuns (session_Status b)))"
    by (rule session_and_run_deadlock [OF mem_sessions.session_api_axioms [of demo_archive_json], where sessions = "[demo_session ''a'', demo_session ''b'']"
        and volume = v and claimName = c and claimUID = u and mountPath = m and runs = "[demo_volume_run]" and ref = ref])
      (use r runs run ref demo_session_ready(2) demo_session_open demo_session_found in \<open>simp_all add: demo_deadlock_state_def\<close>)
  then show ?thesis by auto
qed

end
