(* ===== verification/VolumeCopy.thy ===== *)
theory VolumeCopy
  imports AuthSession
begin

text \<open>
  Copies of data volumes, \<^verbatim>\<open>agent_data_volume_copy_controller.go\<close>: the checks, the destination volume, the
  stream Service, the source and destination Jobs with their scripts, and the controller. A resource
  list of a container is the list of its entries as text. The lemmas show when a copy starts its Jobs
  and what the Jobs mount, and that two copies that share a volume hold each other up.
\<close>

subsection \<open>Constants and checks\<close>

definition agentDataVolumeCopyReady :: string where "agentDataVolumeCopyReady = ''Ready''"
definition agentDataVolumeCopyLabel :: string where "agentDataVolumeCopyLabel = ''control.anvil.hazyforge.io/agent-data-volume-copy''"
definition agentDataVolumeCopyRoleLabel :: string where "agentDataVolumeCopyRoleLabel = ''control.anvil.hazyforge.io/agent-data-volume-copy-role''"
definition agentDataVolumeCopyManagedByLabel :: string where "agentDataVolumeCopyManagedByLabel = ''app.kubernetes.io/managed-by''"
definition agentDataVolumeCopyManagedByValue :: string where "agentDataVolumeCopyManagedByValue = ''anvil-agents''"
definition agentDataVolumeCopyComponentLabel :: string where "agentDataVolumeCopyComponentLabel = ''app.kubernetes.io/component''"
definition agentDataVolumeCopyComponentValue :: string where "agentDataVolumeCopyComponentValue = ''agent-data-volume-copy''"
definition agentDataVolumeCopyDefaultTimeout :: int where "agentDataVolumeCopyDefaultTimeout = 1800"
definition agentDataVolumeCopyDefaultImage :: string where "agentDataVolumeCopyDefaultImage = ''public.ecr.aws/docker/library/alpine:3.20''"
definition agentDataVolumeCopyStreamPort :: int where "agentDataVolumeCopyStreamPort = 9876"
definition agentDataVolumeCopySourceRole :: string where "agentDataVolumeCopySourceRole = ''source''"
definition agentDataVolumeCopyDestinationRole :: string where "agentDataVolumeCopyDestinationRole = ''destination''"
definition AgentDataVolumeCopyMethodStream :: string where "AgentDataVolumeCopyMethodStream = ''Stream''"

definition copy_source :: "AgentDataVolumeCopy \<Rightarrow> string" where
  "copy_source obj = TrimSpace (lor_Name (cp_SourceRef (copy_Spec obj)))"

definition copy_destination :: "AgentDataVolumeCopy \<Rightarrow> string" where
  "copy_destination obj = TrimSpace (cd_Name (cp_Destination (copy_Spec obj)))"

definition validateAgentDataVolumeCopySpec :: "AgentDataVolumeCopy \<Rightarrow> go_error option" where
  "validateAgentDataVolumeCopySpec obj =
     (let method = (if cp_Method (copy_Spec obj) = [] then AgentDataVolumeCopyMethodStream else cp_Method (copy_Spec obj)) in
      if copy_source obj = [] then Some (Errorf ''spec.sourceRef.name is required'')
      else if copy_destination obj = [] then Some (Errorf ''spec.destination.name is required'')
      else if copy_source obj = copy_destination obj then Some (Errorf ''source and destination names must differ'')
      else if cd_NodeSelector (cp_Destination (copy_Spec obj)) = [] then Some (Errorf ''spec.destination.nodeSelector is required'')
      else if method \<noteq> AgentDataVolumeCopyMethodStream then Some (Errorf (''unsupported method '' @ Quote method))
      else None)"

definition AgentDataVolumeCopyVerifyEnabled :: "AgentDataVolumeCopySpec \<Rightarrow> bool" where
  "AgentDataVolumeCopyVerifyEnabled spec = (case cp_Verify spec of None \<Rightarrow> True | Some v \<Rightarrow> v)"

definition term_node :: "NodeSelectorTerm \<Rightarrow> string option" where
  "term_node t =
     (case find (\<lambda>e. nsr_Key e = ''kubernetes.io/hostname'' \<and> nsr_Values e \<noteq> []) (nst_MatchExpressions t) of
        Some e \<Rightarrow> Some (hd (nsr_Values e))
      | None \<Rightarrow> map_option (\<lambda>e. hd (nsr_Values e))
          (find (\<lambda>e. nsr_Key e = ''metadata.name'' \<and> nsr_Values e \<noteq> []) (nst_MatchFields t)))"

fun terms_node :: "NodeSelectorTerm list \<Rightarrow> string" where
  "terms_node [] = []"
| "terms_node (t # ts) = (case term_node t of Some n \<Rightarrow> n | None \<Rightarrow> terms_node ts)"

definition persistentVolumeNodeName :: "'w reader \<Rightarrow> 'w \<Rightarrow> string \<Rightarrow> string result" where
  "persistentVolumeNodeName rd w volumeName =
     (if TrimSpace volumeName = [] then Inr []
      else (case rd_GetPersistentVolume rd w (TrimSpace volumeName) of
        Inl e \<Rightarrow> Inl e
      | Inr pv \<Rightarrow> Inr (case persist_Terms pv of None \<Rightarrow> [] | Some ts \<Rightarrow> terms_node ts)))"

fun unique_strings :: "string list \<Rightarrow> string list \<Rightarrow> string list" where
  "unique_strings out [] = out"
| "unique_strings out (v # vs) =
     (let v = TrimSpace v in if v = [] \<or> v \<in> set out then unique_strings out vs else unique_strings (out @ [v]) vs)"

definition uniqueStrings :: "string list \<Rightarrow> string list" where
  "uniqueStrings values = unique_strings [] values"

definition otherActiveCopyForVolumes :: "'w reader \<Rightarrow> 'w \<Rightarrow> AgentDataVolumeCopy \<Rightarrow> string \<Rightarrow> string \<Rightarrow> string option result" where
  "otherActiveCopyForVolumes rd w obj sourceName destName =
     (case rd_ListCopies rd w (copy_Namespace obj) of
        Inl e \<Rightarrow> Inl e
      | Inr copies \<Rightarrow> Inr (map_option copy_Name
          (find (\<lambda>c. copy_Name c \<noteq> copy_Name obj \<and> \<not> AgentDataVolumeCopyIsTerminal (cps_Phase (copy_Status c)) \<and>
             (copy_source c = sourceName \<or> copy_source c = destName \<or> copy_destination c = sourceName \<or> copy_destination c = destName)) copies)))"

subsection \<open>The destination volume and the Service\<close>

definition copy_labels :: "AgentDataVolumeCopy \<Rightarrow> strmap" where
  "copy_labels obj =
     [(agentDataVolumeCopyLabel, sanitizeLabelValue (copy_Name obj)),
      (agentDataVolumeCopyManagedByLabel, agentDataVolumeCopyManagedByValue),
      (agentDataVolumeCopyComponentLabel, agentDataVolumeCopyComponentValue)]"

definition destination_size :: "'w cluster \<Rightarrow> AgentDataVolumeCopy \<Rightarrow> AgentDataVolume \<Rightarrow> Quantity" where
  "destination_size cl obj source =
     (let size = dv_Size (volume_Spec source); capacity = TrimSpace (dst_Capacity (volume_Status source));
          size = (case cd_Size (cp_Destination (copy_Spec obj)) of
              Some s \<Rightarrow> s
            | None \<Rightarrow> if q_IsZero size \<and> capacity \<noteq> [] then (case cl_ParseQuantity cl capacity of Some s \<Rightarrow> s | None \<Rightarrow> size) else size) in
      if q_IsZero size then \<lparr>q_Amount = 10737418240, q_Text = ''10Gi''\<rparr> else size)"

definition zero_volume_status :: AgentDataVolumeStatus where
  "zero_volume_status = \<lparr>dst_ObservedGeneration = 0, dst_Conditions = [], dst_Phase = AgentDataVolumePhaseUnset, dst_ProfileRef = None,
     dst_ProfileVolumeName = [], dst_ClaimRef = None, dst_ClaimUID = [], dst_StorageClassName = [], dst_VolumeName = [], dst_Capacity = [],
     dst_MountPath = [], dst_SubPath = [], dst_NodeSelector = [], dst_ExtraEnv = [], dst_ExternalSync = None, dst_LastError = []\<rparr>"

definition destination_volume :: "'w cluster \<Rightarrow> AgentDataVolumeCopy \<Rightarrow> AgentDataVolume \<Rightarrow> AgentDataVolume" where
  "destination_volume cl obj source =
     (let dest = cp_Destination (copy_Spec obj); spec = volume_Spec source; st = volume_Status source in
      \<lparr>volume_Meta = zero_ObjectMeta\<lparr>om_Name := copy_destination obj, om_Namespace := copy_Namespace obj, om_Labels := copy_labels obj,
         om_Annotations := [(''control.anvil.hazyforge.io/copied-from'', volume_Name source)]\<rparr>,
       volume_Spec = \<lparr>
         dv_ApplicationRef = (case dv_ApplicationRef spec of
             Some a \<Rightarrow> if TrimSpace (app_Name a) \<noteq> [] then Some \<lparr>app_Name = TrimSpace (app_Name a)\<rparr> else None
           | None \<Rightarrow> None),
         dv_AgentName = dv_AgentName spec,
         dv_Backend = (if cd_Backend dest = AgentRunHarnessBackendUnset then dv_Backend spec else cd_Backend dest),
         dv_ProfileRef = None, dv_ProfileVolumeName = [], dv_ClaimName = [],
         dv_MountPath = firstNonEmpty (TrimSpace (dv_MountPath spec)) (firstNonEmpty (TrimSpace (dst_MountPath st)) ''/opt/anvil''),
         dv_SubPath = dv_SubPath spec,
         dv_StorageClassName = firstNonEmpty (TrimSpace (cd_StorageClassName dest))
           (firstNonEmpty (TrimSpace (dv_StorageClassName spec)) (TrimSpace (dst_StorageClassName st))),
         dv_Size = destination_size cl obj source,
         dv_AccessModes = dv_AccessModes spec,
         dv_NodeSelector = cloneStringMap (cd_NodeSelector dest),
         dv_ExtraEnv = dv_ExtraEnv spec,
         dv_ExternalSync = None,
         dv_Notes = (if TrimSpace (cd_Notes dest) = [] then ''Created by AgentDataVolumeCopy '' @ copy_Name obj @ '' from source '' @
           volume_Name source @ ''.'' else TrimSpace (cd_Notes dest))\<rparr>,
       volume_Status = zero_volume_status\<rparr>)"

definition ensureDestinationVolume ::
  "'w cluster \<Rightarrow> 'w \<Rightarrow> AgentDataVolumeCopy \<Rightarrow> AgentDataVolume \<Rightarrow> (AgentDataVolume \<times> bool) result \<times> 'w" where
  "ensureDestinationVolume cl w obj source =
     (let ns = copy_Namespace obj; name = copy_destination obj; got = (\<lambda>w. case rd_GetVolume (cl_cache cl) w ns name of
          Inl e \<Rightarrow> (Inl e, w) | Inr existing \<Rightarrow> (Inr (existing, False), w)) in
      case rd_GetVolume (cl_cache cl) w ns name of
        Inr existing \<Rightarrow> (Inr (existing, False), w)
      | Inl e \<Rightarrow>
          if \<not> IsNotFound e then (Inl e, w)
          else (case cl_CreateVolume cl w (destination_volume cl obj source) of
            (Inr dest, w) \<Rightarrow> (Inr (dest, True), w)
          | (Inl e, w) \<Rightarrow> if IsAlreadyExists e then got w else (Inl (Wrapf ''create destination AgentDataVolume'' e), w)))"

definition ensureStreamService :: "'w cluster \<Rightarrow> 'w \<Rightarrow> AgentDataVolumeCopy \<Rightarrow> Service result \<times> 'w" where
  "ensureStreamService cl w obj =
     (let ns = copy_Namespace obj; name = agentRunChildName [''vcopy-svc'', copy_Name obj] in
      case rd_GetService (cl_cache cl) w ns name of
        Inr existing \<Rightarrow> (Inr existing, w)
      | Inl e \<Rightarrow>
          if \<not> IsNotFound e then (Inl e, w)
          else (case own cl ''AgentDataVolumeCopy'' (copy_Meta obj)
              (zero_ObjectMeta\<lparr>om_Name := name, om_Namespace := ns, om_Labels := copy_labels obj\<rparr>) of
            Inl e \<Rightarrow> (Inl (Wrapf ''set Service owner'' e), w)
          | Inr meta \<Rightarrow>
              (case cl_CreateService cl w \<lparr>svc_Meta = meta,
                  svc_Selector = [(agentDataVolumeCopyLabel, sanitizeLabelValue (copy_Name obj)),
                    (agentDataVolumeCopyRoleLabel, agentDataVolumeCopySourceRole)],
                  svc_Ports = [(''tar-stream'', agentDataVolumeCopyStreamPort, agentDataVolumeCopyStreamPort, ''TCP'')]\<rparr> of
                 (Inr svc, w) \<Rightarrow> (Inr svc, w)
               | (Inl e, w) \<Rightarrow> if IsAlreadyExists e then (rd_GetService (cl_cache cl) w ns name, w)
                   else (Inl (Wrapf ''create stream Service'' e), w))))"

subsection \<open>The Jobs\<close>

definition copy_source_script :: string where
  \<open>copy_source_script = concat (map line
      [[],
       ''set -euo pipefail'',
       ''apk add --no-cache netcat-openbsd tar gzip >/dev/null'',
       ''echo "source stream ready on :9876"'',
       ''# Serve one tar stream then exit when the client disconnects.'',
       ''tar -C /source -czf - . | nc -l -p 9876 -N'',
       ''echo "source stream finished"''])\<close>

definition copy_destination_script :: "string \<Rightarrow> string \<Rightarrow> string \<Rightarrow> string" where
  \<open>copy_destination_script serviceName allowNonEmpty verify = concat (map line
      [[],
       ''set -euo pipefail'',
       ''apk add --no-cache netcat-openbsd tar gzip findutils coreutils >/dev/null'',
       ''SRC_HOST='' @ Quote serviceName,
       ''ALLOW_NONEMPTY='' @ Quote allowNonEmpty,
       ''VERIFY='' @ Quote verify,
       ''mkdir -p /dest'',
       ''# Wait for source stream.'',
       ''for i in $(seq 1 120); do'',
       ''  if nc -z -w 2 "$SRC_HOST" 9876 2>/dev/null; then'',
       ''    break'',
       ''  fi'',
       ''  sleep 2'',
       ''done'',
       ''if ! nc -z -w 2 "$SRC_HOST" 9876 2>/dev/null; then'',
       ''  echo "source stream never became ready at ${SRC_HOST}:9876" >&2'',
       ''  exit 1'',
       ''fi'',
       ''# Refuse clobber unless allowed.'',
       ''entries="$(find /dest -mindepth 1 -maxdepth 1 ! -name lost+found | wc -l | tr -d ' ')"'',
       ''if [ "$entries" != "0" ] && [ "$ALLOW_NONEMPTY" != "1" ]; then'',
       ''  echo "destination is not empty; set allowNonEmptyDestination=true to overwrite" >&2'',
       ''  find /dest -mindepth 1 -maxdepth 1 | head'',
       ''  exit 2'',
       ''fi'',
       ''if [ "$ALLOW_NONEMPTY" = "1" ]; then'',
       ''  find /dest -mindepth 1 -maxdepth 1 ! -name lost+found -exec rm -rf {} +'',
       ''fi'',
       ''echo "receiving stream from ${SRC_HOST}:9876"'',
       ''nc -w 30 "$SRC_HOST" 9876 | tar -C /dest -xzf -'',
       ''sync'',
       ''if [ "$VERIFY" = "1" ]; then'',
       ''  count="$(find /dest -type f | wc -l | tr -d ' ')"'',
       ''  echo "destination file count=${count}"'',
       ''fi'',
       ''echo "destination copy finished"''])\<close>

definition copy_container :: "string \<Rightarrow> string \<Rightarrow> string \<Rightarrow> bool \<Rightarrow> Container" where
  "copy_container mountPath img script readOnly =
     \<lparr>ctr_Name = ''copy'', ctr_Image = img, ctr_ImagePullPolicy = ''IfNotPresent'', ctr_Command = [''/bin/sh'', ''-lc'', script],
      ctr_Args = [], ctr_WorkingDir = [], ctr_Env = [], ctr_EnvFrom = [],
      ctr_Resources = \<lparr>res_Requests = [''cpu: 10m'', ''memory: 64Mi''], res_Limits = [''cpu: 1'', ''memory: 512Mi''], res_Claims = []\<rparr>,
      ctr_VolumeMounts = [\<lparr>vm_Name = ''volume'', vm_MountPath = mountPath, vm_SubPath = [], vm_ReadOnly = readOnly\<rparr>],
      ctr_SecurityContext = Some \<lparr>sec_AllowPrivilegeEscalation = Some False, sec_RunAsNonRoot = None,
        sec_Capabilities = Some \<lparr>cap_Add = [''NET_BIND_SERVICE''], cap_Drop = [''ALL'']\<rparr>, sec_Other = []\<rparr>,
      ctr_TerminationMessagePath = [], ctr_TerminationMessagePolicy = [], ctr_Other = []\<rparr>"

definition role_labels :: "AgentDataVolumeCopy \<Rightarrow> string \<Rightarrow> strmap" where
  "role_labels obj role =
     [(agentDataVolumeCopyLabel, sanitizeLabelValue (copy_Name obj)),
      (agentDataVolumeCopyRoleLabel, role),
      (agentDataVolumeCopyManagedByLabel, agentDataVolumeCopyManagedByValue),
      (agentDataVolumeCopyComponentLabel, agentDataVolumeCopyComponentValue)]"

definition copy_job ::
  "AgentDataVolumeCopy \<Rightarrow> ObjectMeta \<Rightarrow> string \<Rightarrow> string \<Rightarrow> string \<Rightarrow> string \<Rightarrow> int \<Rightarrow> string \<Rightarrow> strmap \<Rightarrow> bool \<Rightarrow> Job" where
  "copy_job obj meta role claimName mountPath img timeout script nodeSelector readWrite =
     maintenance_job meta 1800 timeout (role_labels obj role)
       (maintenance_pod nodeSelector \<lparr>psc_RunAsNonRoot = None, psc_SeccompProfile = None, psc_FSGroup = Some 0, psc_Other = []\<rparr>
         (copy_container mountPath img script (\<not> readWrite))
         (zero_Volume\<lparr>vol_Name := ''volume'', vol_Claim := Some (claimName, \<not> readWrite)\<rparr>))"

definition createCopyJob ::
  "'w cluster \<Rightarrow> 'w \<Rightarrow> AgentDataVolumeCopy \<Rightarrow> string \<Rightarrow> string \<Rightarrow> string \<Rightarrow> string \<Rightarrow> string \<Rightarrow> int \<Rightarrow> string \<Rightarrow> strmap \<Rightarrow> bool \<Rightarrow>
     Job result \<times> 'w" where
  "createCopyJob cl w obj jobName role claimName mountPath img timeout script nodeSelector readWrite =
     (case own cl ''AgentDataVolumeCopy'' (copy_Meta obj)
         (zero_ObjectMeta\<lparr>om_Name := jobName, om_Namespace := copy_Namespace obj, om_Labels := role_labels obj role\<rparr>) of
        Inl e \<Rightarrow> (Inl (Wrapf ''set Job owner'' e), w)
      | Inr meta \<Rightarrow>
          (case cl_CreateJob cl w (copy_job obj meta role claimName mountPath img timeout script nodeSelector readWrite) of
             (Inr job, w) \<Rightarrow> (Inr job, w)
           | (Inl e, w) \<Rightarrow> if IsAlreadyExists e then (rd_GetJob (cl_cache cl) w (copy_Namespace obj) jobName, w)
               else (Inl (Wrapf (''create copy Job '' @ jobName) e), w)))"

definition ensureSourceJob ::
  "'w cluster \<Rightarrow> 'w \<Rightarrow> AgentDataVolumeCopy \<Rightarrow> string \<Rightarrow> string \<Rightarrow> string \<Rightarrow> int \<Rightarrow> Job result \<times> 'w" where
  "ensureSourceJob cl w obj claimName sourceNode img timeout =
     (let jobName = agentRunChildName [''vcopy-src'', copy_Name obj] in
      case rd_GetJob (cl_cache cl) w (copy_Namespace obj) jobName of
        Inr existing \<Rightarrow> (Inr existing, w)
      | Inl e \<Rightarrow>
          if \<not> IsNotFound e then (Inl e, w)
          else createCopyJob cl w obj jobName agentDataVolumeCopySourceRole claimName ''/source'' img timeout copy_source_script
            [(''kubernetes.io/hostname'', sourceNode)] False)"

definition ensureDestinationJob ::
  "'w cluster \<Rightarrow> 'w \<Rightarrow> AgentDataVolumeCopy \<Rightarrow> string \<Rightarrow> string \<Rightarrow> int \<Rightarrow> string \<Rightarrow> Job result \<times> 'w" where
  "ensureDestinationJob cl w obj claimName img timeout serviceName =
     (let jobName = agentRunChildName [''vcopy-dst'', copy_Name obj] in
      case rd_GetJob (cl_cache cl) w (copy_Namespace obj) jobName of
        Inr existing \<Rightarrow> (Inr existing, w)
      | Inl e \<Rightarrow>
          if \<not> IsNotFound e then (Inl e, w)
          else createCopyJob cl w obj jobName agentDataVolumeCopyDestinationRole claimName ''/dest'' img timeout
            (copy_destination_script serviceName (if cp_AllowNonEmptyDestination (copy_Spec obj) then ''1'' else ''0'')
              (if \<not> AgentDataVolumeCopyVerifyEnabled (copy_Spec obj) then ''0'' else ''1''))
            (cloneStringMap (cd_NodeSelector (cp_Destination (copy_Spec obj)))) True)"

definition copyImage :: string where
  "copyImage = agentDataVolumeCopyDefaultImage"

subsection \<open>The controller\<close>

definition copy_condition ::
  "'w cluster \<Rightarrow> AgentDataVolumeCopy \<Rightarrow> instant \<Rightarrow> ConditionStatus \<Rightarrow> string \<Rightarrow> string \<Rightarrow> AgentDataVolumeCopyStatus \<Rightarrow> AgentDataVolumeCopyStatus" where
  "copy_condition cl obj now cs reason message st = st\<lparr>cps_Conditions := cl_SetStatusCondition cl (cps_Conditions st)
     (condition agentDataVolumeCopyReady cs (om_Generation (copy_Meta obj)) now reason message)\<rparr>"

definition patch_copy :: "'w cluster \<Rightarrow> 'w \<Rightarrow> AgentDataVolumeCopy \<Rightarrow> AgentDataVolumeCopyStatus \<Rightarrow> Result \<Rightarrow> 'w reconciled" where
  "patch_copy cl w obj st result =
     (case cl_PatchCopyStatus cl w obj (obj\<lparr>copy_Status := st\<rparr>) of
        (Some e, w) \<Rightarrow> (Inl (Wrapf ''patch AgentDataVolumeCopy status'' e), w)
      | (None, w) \<Rightarrow> (Inr result, w))"

definition failCopy ::
  "'w cluster \<Rightarrow> 'w \<Rightarrow> AgentDataVolumeCopy \<Rightarrow> AgentDataVolumeCopyStatus \<Rightarrow> instant \<Rightarrow> string \<Rightarrow> string \<Rightarrow> 'w reconciled" where
  "failCopy cl w obj st now reason message =
     patch_copy cl w obj (copy_condition cl obj now ConditionFalse reason message
       (st\<lparr>cps_Phase := AgentDataVolumeCopyPhaseFailed, cps_LastError := message, cps_CompletedAt := Some now\<rparr>)) no_requeue"

definition recorded_claim_name :: "AgentDataVolume \<Rightarrow> string" where
  "recorded_claim_name volume =
     (case dst_ClaimRef (volume_Status volume) of
        Some ref \<Rightarrow> if TrimSpace (nor_Name ref) \<noteq> [] then TrimSpace (nor_Name ref) else agentDataVolumeClaimName volume
      | None \<Rightarrow> agentDataVolumeClaimName volume)"

text \<open>The end of a reconcile with both Jobs; \<open>completed\<close> is the time success is recorded.\<close>

definition copy_outcome ::
  "'w cluster \<Rightarrow> 'w \<Rightarrow> AgentDataVolumeCopy \<Rightarrow> AgentDataVolume \<Rightarrow> AgentDataVolume \<Rightarrow> Job \<Rightarrow> Job \<Rightarrow> AgentDataVolumeCopyStatus \<Rightarrow>
     instant \<Rightarrow> instant \<Rightarrow> 'w reconciled" where
  "copy_outcome cl w obj source dest sourceJob destJob st now completed =
     (if job_Failed sourceJob > 0 \<or> job_Failed destJob > 0 then
        failCopy cl w obj st now ''JobFailed'' (firstNonEmpty (jobFailureMessage sourceJob)
          (firstNonEmpty (jobFailureMessage destJob) ''volume copy Job failed''))
      else if job_Succeeded destJob > 0 \<and> job_Succeeded sourceJob > 0 then
        (let st = (case persistentVolumeNodeName (cl_api cl) w (dst_VolumeName (volume_Status dest)) of
             Inr node \<Rightarrow> st\<lparr>cps_DestinationNode := node\<rparr> | Inl e \<Rightarrow> st) in
         patch_copy cl w obj (copy_condition cl obj completed ConditionTrue ''Succeeded''
           (''Copied AgentDataVolume '' @ meta_key (volume_Meta source) @ '' to '' @ meta_key (volume_Meta dest) @ ''.'')
           (st\<lparr>cps_Phase := AgentDataVolumeCopyPhaseSucceeded, cps_LastError := [], cps_ActiveConsumerRuns := [],
               cps_CompletedAt := Some completed\<rparr>)) no_requeue)
      else patch_copy cl w obj (copy_condition cl obj now ConditionFalse ''Streaming''
             (''Streaming copy Jobs source='' @ job_Name sourceJob @ '' destination='' @ job_Name destJob @ ''.'')
             (st\<lparr>cps_Phase := AgentDataVolumeCopyPhaseStreaming, cps_LastError := []\<rparr>)) (requeue_after (5 * Second)))"

definition copy_with_destination ::
  "'w cluster \<Rightarrow> 'w \<Rightarrow> AgentDataVolumeCopy \<Rightarrow> AgentDataVolume \<Rightarrow> string \<Rightarrow> AgentDataVolume \<Rightarrow> AgentDataVolumeCopyStatus \<Rightarrow>
     instant \<Rightarrow> instant \<Rightarrow> 'w reconciled" where
  "copy_with_destination cl w obj source sourceNode dest st now completed =
     (let destClaimName = recorded_claim_name dest;
          st = st\<lparr>cps_DestinationRef := Some (local_ref (volume_Name dest) (volume_Namespace dest)), cps_DestinationUID := volume_UID dest,
            cps_DestinationClaimRef := Some (local_ref destClaimName (volume_Namespace dest)),
            cps_DestinationClaimUID := TrimSpace (dst_ClaimUID (volume_Status dest)),
            cps_StartedAt := (case cps_StartedAt st of None \<Rightarrow> Some now | Some t \<Rightarrow> Some t)\<rparr>;
          timeout = (if cp_TimeoutSeconds (copy_Spec obj) \<le> 0 then agentDataVolumeCopyDefaultTimeout else cp_TimeoutSeconds (copy_Spec obj)) in
      case ensureStreamService cl w obj of
        (Inl e, w) \<Rightarrow> (Inl e, w)
      | (Inr svc, w) \<Rightarrow>
          (case ensureSourceJob cl w obj (recorded_claim_name source) sourceNode copyImage timeout of
             (Inl e, w) \<Rightarrow> (Inl e, w)
           | (Inr sourceJob, w) \<Rightarrow>
               (case ensureDestinationJob cl w obj destClaimName copyImage timeout (om_Name (svc_Meta svc)) of
                  (Inl e, w) \<Rightarrow> (Inl e, w)
                | (Inr destJob, w) \<Rightarrow>
                    copy_outcome cl w obj source dest sourceJob destJob
                      (st\<lparr>cps_ServiceRef := Some (local_ref (om_Name (svc_Meta svc)) (om_Namespace (svc_Meta svc))),
                          cps_SourceJobRef := Some (local_ref (job_Name sourceJob) (job_Namespace sourceJob)), cps_SourceJobUID := job_UID sourceJob,
                          cps_DestinationJobRef := Some (local_ref (job_Name destJob) (job_Namespace destJob)),
                          cps_DestinationJobUID := job_UID destJob\<rparr>) now completed)))"

definition copy_from_source ::
  "'w cluster \<Rightarrow> 'w \<Rightarrow> AgentDataVolumeCopy \<Rightarrow> AgentDataVolume \<Rightarrow> string \<Rightarrow> AgentDataVolumeCopyStatus \<Rightarrow> instant \<Rightarrow> instant \<Rightarrow> 'w reconciled" where
  "copy_from_source cl w obj source sourceNode st now completed =
     (case listActiveAuthVolumeConsumers (cl_api cl) w (copy_Namespace obj) (volume_Name source) of
        Inl e \<Rightarrow> (Inl e, w)
      | Inr active \<Rightarrow>
          (case listActiveAuthVolumeConsumers (cl_api cl) w (copy_Namespace obj) (copy_destination obj) of
             Inl e \<Rightarrow> (Inl e, w)
           | Inr destActive \<Rightarrow>
               (let runs = uniqueStrings (active @ destActive); st = st\<lparr>cps_ActiveConsumerRuns := runs\<rparr> in
                if runs \<noteq> [] then
                  patch_copy cl w obj (copy_condition cl obj now ConditionFalse ''WaitingForIdle''
                    (''Waiting for active AgentRuns using source/destination volumes to finish: '' @ Join runs '', '')
                    (st\<lparr>cps_Phase := AgentDataVolumeCopyPhaseWaitingForIdle, cps_LastError := []\<rparr>)) (requeue_after (10 * Second))
                else (case otherActiveCopyForVolumes (cl_api cl) w obj (volume_Name source) (copy_destination obj) of
                  Inl e \<Rightarrow> (Inl e, w)
                | Inr (Some peer) \<Rightarrow>
                    patch_copy cl w obj (copy_condition cl obj now ConditionFalse ''VolumeReserved''
                      (''Waiting for AgentDataVolumeCopy '' @ copy_Namespace obj @ ''/'' @ peer @ '' that already holds one of the volumes.'')
                      (st\<lparr>cps_Phase := AgentDataVolumeCopyPhaseWaitingForIdle\<rparr>)) (requeue_after (5 * Second))
                | Inr None \<Rightarrow>
                    (let st = st\<lparr>cps_Phase := AgentDataVolumeCopyPhasePreparingDestination\<rparr> in
                     case ensureDestinationVolume cl w obj source of
                       (Inl e, w) \<Rightarrow> failCopy cl w obj st now ''DestinationPrepareFailed'' (error_text e)
                     | (Inr (dest, created), w) \<Rightarrow> copy_with_destination cl w obj source sourceNode dest st now completed)))))"

definition AgentDataVolumeCopyReconciler_Reconcile ::
  "'w cluster \<Rightarrow> 'w \<Rightarrow> string \<Rightarrow> string \<Rightarrow> instant \<Rightarrow> instant \<Rightarrow> 'w reconciled" where
  "AgentDataVolumeCopyReconciler_Reconcile cl w namespace name now completed =
     (case rd_GetCopy (cl_cache cl) w namespace name of
        Inl e \<Rightarrow> (IgnoreNotFound e, w)
      | Inr obj \<Rightarrow>
          (let st = copy_Status obj; gen = om_Generation (copy_Meta obj) in
           if being_deleted (copy_Meta obj) then (Inr no_requeue, w)
           else if AgentDataVolumeCopyIsTerminal (cps_Phase st) \<and> cps_ObservedGeneration st = gen then (Inr no_requeue, w)
           else
             (let st = st\<lparr>cps_ObservedGeneration := gen,
                cps_Phase := (if cps_Phase st = AgentDataVolumeCopyPhaseUnset then AgentDataVolumeCopyPhasePending else cps_Phase st)\<rparr> in
              case validateAgentDataVolumeCopySpec obj of
                Some e \<Rightarrow> failCopy cl w obj st now ''InvalidSpec'' (error_text e)
              | None \<Rightarrow>
                  (case rd_GetVolume (cl_api cl) w (copy_Namespace obj) (copy_source obj) of
                     Inl e \<Rightarrow>
                       if IsNotFound e then failCopy cl w obj st now ''SourceNotFound''
                         (''source AgentDataVolume '' @ copy_Namespace obj @ ''/'' @ lor_Name (cp_SourceRef (copy_Spec obj)) @ '' was not found'')
                       else (Inl e, w)
                   | Inr source \<Rightarrow>
                       if dst_Phase (volume_Status source) \<noteq> AgentDataVolumePhaseReady then
                         patch_copy cl w obj (copy_condition cl obj now ConditionFalse ''SourceNotReady''
                           (''Waiting for source AgentDataVolume '' @ meta_key (volume_Meta source) @ '' to become Ready (phase='' @
                            volume_phase_text (dst_Phase (volume_Status source)) @ '').'')
                           (st\<lparr>cps_Phase := AgentDataVolumeCopyPhasePending\<rparr>)) (requeue_after (10 * Second))
                       else if TrimSpace (dst_ClaimUID (volume_Status source)) = [] then
                         failCopy cl w obj st now ''SourceClaimIdentityMissing'' ''source AgentDataVolume has no claim UID''
                       else (case persistentVolumeNodeName (cl_api cl) w (dst_VolumeName (volume_Status source)) of
                         Inl e \<Rightarrow> (Inl e, w)
                       | Inr sourceNode \<Rightarrow>
                           if TrimSpace sourceNode = [] then
                             failCopy cl w obj st now ''SourceNodeUnknown'' ''source PersistentVolume has no kubernetes.io/hostname affinity''
                           else copy_from_source cl w obj source sourceNode
                             (st\<lparr>cps_SourceRef := Some (local_ref (volume_Name source) (volume_Namespace source)), cps_SourceUID := volume_UID source,
                                 cps_SourceClaimRef := Some (local_ref (recorded_claim_name source) (volume_Namespace source)),
                                 cps_SourceClaimUID := TrimSpace (dst_ClaimUID (volume_Status source)), cps_SourceNode := sourceNode\<rparr>)
                             now completed)))))"

subsection \<open>When a copy starts its Jobs\<close>

definition job_claims :: "Job \<Rightarrow> (string \<times> bool) option list" where
  "job_claims job = map vol_Claim (pod_Volumes (js_Pod (job_Spec job)))"

lemma copy_job_claims [simp]:
  "job_claims (copy_job obj meta role claimName mountPath img timeout script nodeSelector readWrite) = [Some (claimName, \<not> readWrite)]"
  by (simp add: job_claims_def copy_job_def maintenance_job_def maintenance_pod_def)

lemma patch_copy_writes [simp]:
  "writes (patch_copy (logged cl) (w, l) obj st result) =
     l @ [PatchedCopyStatus obj (obj\<lparr>copy_Status := st\<rparr>) (fst (cl_PatchCopyStatus cl w obj (obj\<lparr>copy_Status := st\<rparr>)))]"
  unfolding patch_copy_def
  by (cases "cl_PatchCopyStatus cl w obj (obj\<lparr>copy_Status := st\<rparr>)") (simp split: option.splits)

lemma patch_copy_jobs [simp]: "created_jobs (writes (patch_copy (logged cl) s obj st result)) = created_jobs (snd s)"
  by (cases s) simp

lemma failCopy_jobs [simp]: "created_jobs (writes (failCopy (logged cl) s obj st now reason message)) = created_jobs (snd s)"
  by (simp add: failCopy_def)

lemma copy_outcome_jobs [simp]:
  "created_jobs (writes (copy_outcome (logged cl) s obj source dest sourceJob destJob st now completed)) = created_jobs (snd s)"
  by (simp add: copy_outcome_def Let_def)

lemma ensureDestinationVolume_jobs: "created_jobs (writes (ensureDestinationVolume (logged cl) (w, l) obj source)) = created_jobs l"
  unfolding ensureDestinationVolume_def Let_def by (auto simp: noted_def split: sum.splits prod.splits)

lemma ensureStreamService_jobs: "created_jobs (writes (ensureStreamService (logged cl) (w, l) obj)) = created_jobs l"
  unfolding ensureStreamService_def Let_def by (auto simp: noted_def own_def split: sum.splits prod.splits)

text \<open>At most one more Job, with this claim.\<close>

definition one_more :: "Job list \<Rightarrow> Job list \<Rightarrow> string \<times> bool \<Rightarrow> bool" where
  "one_more before after claim \<longleftrightarrow> after = before \<or> (\<exists>job. after = before @ [job] \<and> job_claims job = [Some claim])"

lemma one_more_refl [simp]: "one_more js js claim"
  by (simp add: one_more_def)

lemma createCopyJob_jobs:
  "one_more (created_jobs l) (created_jobs (writes (createCopyJob (logged cl) (w, l) obj jobName role claimName mountPath img timeout
     script nodeSelector readWrite))) (claimName, \<not> readWrite)"
  unfolding createCopyJob_def one_more_def by (auto simp: noted_def own_def split: sum.splits prod.splits)

lemma ensureSourceJob_jobs:
  "one_more (created_jobs l) (created_jobs (writes (ensureSourceJob (logged cl) (w, l) obj claimName sourceNode img timeout))) (claimName, True)"
  using createCopyJob_jobs [where readWrite = False] unfolding ensureSourceJob_def
  by (auto simp: Let_def split: sum.splits)

lemma ensureDestinationJob_jobs:
  "one_more (created_jobs l) (created_jobs (writes (ensureDestinationJob (logged cl) (w, l) obj claimName img timeout serviceName))) (claimName, False)"
  using createCopyJob_jobs [where readWrite = True] unfolding ensureDestinationJob_def
  by (auto simp: Let_def split: sum.splits)

text \<open>The Jobs of a copy: the source read-only, then the destination read-write, each at most once.\<close>

definition copy_jobs_of :: "string \<Rightarrow> string \<Rightarrow> Job list \<Rightarrow> bool" where
  "copy_jobs_of sourceClaim destClaim jobs \<longleftrightarrow>
     map job_claims jobs \<in> {[], [[Some (sourceClaim, True)]], [[Some (destClaim, False)]], [[Some (sourceClaim, True)], [Some (destClaim, False)]]}"

lemma copy_with_destination_jobs:
  "copy_jobs_of (recorded_claim_name source) (recorded_claim_name dest)
     (drop (length (created_jobs l)) (created_jobs (writes (copy_with_destination (logged cl) (w, l) obj source sourceNode dest st now completed)))) \<and>
   take (length (created_jobs l)) (created_jobs (writes (copy_with_destination (logged cl) (w, l) obj source sourceNode dest st now completed))) =
     created_jobs l"
proof -
  let ?timeout = "if cp_TimeoutSeconds (copy_Spec obj) \<le> 0 then agentDataVolumeCopyDefaultTimeout else cp_TimeoutSeconds (copy_Spec obj)"
  obtain svc w1 l1 where e1: "ensureStreamService (logged cl) (w, l) obj = (svc, (w1, l1))" by (metis prod.exhaust)
  have j1: "created_jobs l1 = created_jobs l" using ensureStreamService_jobs [of cl w l obj] e1 by simp
  obtain sj w2 l2 where e2: "ensureSourceJob (logged cl) (w1, l1) obj (recorded_claim_name source) sourceNode copyImage ?timeout = (sj, (w2, l2))"
    by (metis prod.exhaust)
  have j2: "one_more (created_jobs l) (created_jobs l2) (recorded_claim_name source, True)"
    using ensureSourceJob_jobs [of l1 cl w1 obj "recorded_claim_name source" sourceNode copyImage ?timeout] e2 j1 by simp
  have j3: "one_more (created_jobs l2) (created_jobs l3) (recorded_claim_name dest, False)"
    if "ensureDestinationJob (logged cl) (w2, l2) obj (recorded_claim_name dest) copyImage ?timeout n = (r, (w3, l3))" for n r w3 l3
    using ensureDestinationJob_jobs [of l2 cl w2 obj "recorded_claim_name dest" copyImage ?timeout n] that by simp
  show ?thesis
  proof (cases svc)
    case (Inl e)
    then show ?thesis unfolding copy_with_destination_def Let_def e1 by (simp add: j1 copy_jobs_of_def)
  next
    case svc: (Inr v)
    show ?thesis
    proof (cases sj)
      case (Inl e)
      then show ?thesis unfolding copy_with_destination_def Let_def e1 using j2
        by (auto simp: svc e2 one_more_def copy_jobs_of_def)
    next
      case sj: (Inr sourceJob)
      obtain dj w3 l3 where e3: "ensureDestinationJob (logged cl) (w2, l2) obj (recorded_claim_name dest) copyImage ?timeout (om_Name (svc_Meta v)) =
          (dj, (w3, l3))" by (metis prod.exhaust)
      then show ?thesis unfolding copy_with_destination_def Let_def e1 using j2 j3 [OF e3]
        by (cases dj) (auto simp: svc sj e2 one_more_def copy_jobs_of_def)
    qed
  qed
qed

text \<open>What a copy found when it asked for its Jobs.\<close>

definition runs_named :: "'w reader \<Rightarrow> 'w \<Rightarrow> string \<Rightarrow> bool" where
  "runs_named rd w ns \<longleftrightarrow> (\<forall>runs. k_ListRuns (rd_Kube rd) w (Some ns) [] = Inr runs \<longrightarrow> (\<forall>r \<in> set runs. TrimSpace (run_Name r) \<noteq> []))"

definition copy_alone :: "'w reader \<Rightarrow> 'w \<Rightarrow> AgentDataVolumeCopy \<Rightarrow> string \<Rightarrow> bool" where
  "copy_alone rd w obj sourceName \<longleftrightarrow>
     (\<exists>runs copies. k_ListRuns (rd_Kube rd) w (Some (copy_Namespace obj)) [] = Inr runs \<and>
        (\<forall>r \<in> set runs. run_uses_volume sourceName r \<or> run_uses_volume (copy_destination obj) r \<longrightarrow> agentRunIsTerminal (rs_Phase (run_Status r))) \<and>
        rd_ListCopies rd w (copy_Namespace obj) = Inr copies \<and>
        (\<forall>c \<in> set copies. copy_Name c \<noteq> copy_Name obj \<and> (copy_uses sourceName c \<or> copy_uses (copy_destination obj) c) \<longrightarrow>
           AgentDataVolumeCopyIsTerminal (cps_Phase (copy_Status c))))"

lemma unique_strings_mono: "set out \<subseteq> set (unique_strings out vs)"
  by (induction vs arbitrary: out) (auto simp: Let_def, fastforce+)

lemma unique_strings_all: "v \<in> set vs \<Longrightarrow> TrimSpace v \<noteq> [] \<Longrightarrow> TrimSpace v \<in> set (unique_strings out vs)"
proof (induction vs arbitrary: out)
  case (Cons x vs)
  then show ?case using unique_strings_mono [of "out @ [TrimSpace x]" vs] unique_strings_mono [of out vs]
    by (auto simp: Let_def)
qed simp

lemma uniqueStrings_none: "uniqueStrings vs = [] \<Longrightarrow> v \<in> set vs \<Longrightarrow> TrimSpace v = []"
  using unique_strings_all [of v vs "[]"] unfolding uniqueStrings_def by auto

lemma otherActiveCopy_none:
  assumes "otherActiveCopyForVolumes rd w obj sourceName destName = Inr None"
  shows "\<exists>copies. rd_ListCopies rd w (copy_Namespace obj) = Inr copies \<and>
    (\<forall>c \<in> set copies. copy_Name c \<noteq> copy_Name obj \<and> (copy_uses sourceName c \<or> copy_uses destName c) \<longrightarrow>
       AgentDataVolumeCopyIsTerminal (cps_Phase (copy_Status c)))"
  using assms unfolding otherActiveCopyForVolumes_def copy_uses_def copy_source_def copy_destination_def
  by (auto simp: find_None_iff split: sum.splits)

lemma active_unique_none:
  assumes "listActiveAuthVolumeConsumers rd w ns a = Inr as" "listActiveAuthVolumeConsumers rd w ns b = Inr bs"
    and "uniqueStrings (as @ bs) = []" "runs_named rd w ns"
  shows "\<exists>runs. k_ListRuns (rd_Kube rd) w (Some ns) [] = Inr runs \<and>
    (\<forall>r \<in> set runs. run_uses_volume a r \<or> run_uses_volume b r \<longrightarrow> agentRunIsTerminal (rs_Phase (run_Status r)))"
proof -
  obtain runs where runs: "k_ListRuns (rd_Kube rd) w (Some ns) [] = Inr runs"
    using assms(1) unfolding listActiveAuthVolumeConsumers_def by (auto split: sum.splits)
  have names: "run_Name r \<in> set (as @ bs)"
    if "r \<in> set runs" "run_uses_volume a r \<or> run_uses_volume b r" "\<not> agentRunIsTerminal (rs_Phase (run_Status r))" for r
    using that assms(1,2) runs unfolding listActiveAuthVolumeConsumers_def by auto
  have "agentRunIsTerminal (rs_Phase (run_Status r))" if "r \<in> set runs" "run_uses_volume a r \<or> run_uses_volume b r" for r
    using names [OF that] uniqueStrings_none [OF assms(3)] assms(4) runs that unfolding runs_named_def by blast
  then show ?thesis using runs by blast
qed

lemma logged_copy_reads [simp]:
  "otherActiveCopyForVolumes (logged_reader rd) (w, l) obj a b = otherActiveCopyForVolumes rd w obj a b"
  "persistentVolumeNodeName (logged_reader rd) (w, l) n = persistentVolumeNodeName rd w n"
  unfolding otherActiveCopyForVolumes_def persistentVolumeNodeName_def by (simp_all cong: sum.case_cong if_cong)

lemma copy_from_source_jobs:
  assumes "created_jobs (writes (copy_from_source (logged cl) (w, []) obj source sourceNode st now completed)) \<noteq> []"
    and "runs_named (cl_api cl) w (copy_Namespace obj)"
  shows "copy_alone (cl_api cl) w obj (volume_Name source) \<and>
    (\<exists>dest. copy_jobs_of (recorded_claim_name source) (recorded_claim_name dest)
      (created_jobs (writes (copy_from_source (logged cl) (w, []) obj source sourceNode st now completed))))"
proof -
  obtain as where a: "listActiveAuthVolumeConsumers (cl_api cl) w (copy_Namespace obj) (volume_Name source) = Inr as"
    using assms(1) unfolding copy_from_source_def by (auto split: sum.splits)
  obtain bs where b: "listActiveAuthVolumeConsumers (cl_api cl) w (copy_Namespace obj) (copy_destination obj) = Inr bs"
    using assms(1) unfolding copy_from_source_def by (auto simp: a split: sum.splits)
  have u: "uniqueStrings (as @ bs) = []"
    using assms(1) unfolding copy_from_source_def by (auto simp: a b Let_def split: sum.splits if_splits)
  have none: "otherActiveCopyForVolumes (cl_api cl) w obj (volume_Name source) (copy_destination obj) = Inr None"
    using assms(1) unfolding copy_from_source_def by (auto simp: a b u Let_def split: sum.splits option.splits)
  have "copy_alone (cl_api cl) w obj (volume_Name source)"
    unfolding copy_alone_def using active_unique_none [OF a b u assms(2)] otherActiveCopy_none [OF none] by metis
  moreover obtain r w1 l1 where e: "ensureDestinationVolume (logged cl) (w, []) obj source = (r, (w1, l1))" by (metis prod.exhaust)
  have l1: "created_jobs l1 = []" using ensureDestinationVolume_jobs [of cl w "[]" obj source] e by simp
  obtain dest c where "r = Inr (dest, c)"
    using assms(1) unfolding copy_from_source_def by (cases r) (auto simp: a b u none e l1 Let_def)
  then have "\<exists>st. copy_from_source (logged cl) (w, []) obj source sourceNode st' now completed =
      copy_with_destination (logged cl) (w1, l1) obj source sourceNode dest st now completed" for st'
    unfolding copy_from_source_def by (intro exI) (simp add: a b u none e Let_def)
  then have "copy_jobs_of (recorded_claim_name source) (recorded_claim_name dest)
      (created_jobs (writes (copy_from_source (logged cl) (w, []) obj source sourceNode st now completed)))"
    using copy_with_destination_jobs [of source dest l1 cl w1 obj sourceNode] l1 by (metis drop0 list.size(3))
  ultimately show ?thesis by blast
qed

lemma created_job_event: "CreatedJob job r \<in> set l \<Longrightarrow> created_jobs l \<noteq> []"
  using created_jobs_iff [of job l] by auto

lemma copy_reconcile_jobs:
  assumes "created_jobs (writes (AgentDataVolumeCopyReconciler_Reconcile (logged cl) (w, []) ns name now completed)) \<noteq> []"
  shows "\<exists>obj source sourceNode st. rd_GetCopy (cl_cache cl) w ns name = Inr obj \<and> validateAgentDataVolumeCopySpec obj = None \<and>
    \<not> being_deleted (copy_Meta obj) \<and> rd_GetVolume (cl_api cl) w (copy_Namespace obj) (copy_source obj) = Inr source \<and>
    dst_Phase (volume_Status source) = AgentDataVolumePhaseReady \<and> TrimSpace (dst_ClaimUID (volume_Status source)) \<noteq> [] \<and>
    AgentDataVolumeCopyReconciler_Reconcile (logged cl) (w, []) ns name now completed =
      copy_from_source (logged cl) (w, []) obj source sourceNode st now completed"
proof -
  note unf = AgentDataVolumeCopyReconciler_Reconcile_def
  obtain obj where got: "rd_GetCopy (cl_cache cl) w ns name = Inr obj"
    using assms unfolding unf by (cases "rd_GetCopy (cl_cache cl) w ns name") auto
  have alive: "\<not> being_deleted (copy_Meta obj)"
      "\<not> (AgentDataVolumeCopyIsTerminal (cps_Phase (copy_Status obj)) \<and> cps_ObservedGeneration (copy_Status obj) = om_Generation (copy_Meta obj))"
    using assms got unfolding unf by (auto simp: Let_def)
  have valid: "validateAgentDataVolumeCopySpec obj = None"
    using assms got alive unfolding unf by (cases "validateAgentDataVolumeCopySpec obj") (auto simp: Let_def)
  obtain source where source: "rd_GetVolume (cl_api cl) w (copy_Namespace obj) (copy_source obj) = Inr source"
    using assms got alive valid unfolding unf
    by (cases "rd_GetVolume (cl_api cl) w (copy_Namespace obj) (copy_source obj)") (auto simp: Let_def)
  have ready: "dst_Phase (volume_Status source) = AgentDataVolumePhaseReady" "TrimSpace (dst_ClaimUID (volume_Status source)) \<noteq> []"
    using assms got alive valid source unfolding unf by (auto simp: Let_def split: if_splits)
  obtain node where node: "persistentVolumeNodeName (cl_api cl) w (dst_VolumeName (volume_Status source)) = Inr node"
    using assms got alive valid source ready unfolding unf
    by (cases "persistentVolumeNodeName (cl_api cl) w (dst_VolumeName (volume_Status source))") (auto simp: Let_def)
  have known: "TrimSpace node \<noteq> []"
    using assms got alive valid source ready node unfolding unf by (auto simp: Let_def split: if_splits)
  have "\<exists>st. AgentDataVolumeCopyReconciler_Reconcile (logged cl) (w, []) ns name now completed =
      copy_from_source (logged cl) (w, []) obj source node st now completed"
    unfolding unf using alive by (intro exI) (simp add: Let_def got valid source ready node known del: de_Morgan_conj)
  then show ?thesis using got alive valid source ready by blast
qed

locale copy_api = session_api cl for cl :: "'w cluster" +
  assumes copy_key: "rd_GetCopy (cl_cache cl) w ns n = Inr c \<Longrightarrow> copy_Name c = n \<and> copy_Namespace c = ns"
begin

lemma shared_copy_creates_nothing:
  assumes "rd_GetCopy (cl_cache cl) w ns name = Inr obj" and "rd_ListCopies (cl_api cl) w ns = Inr copies"
    and "c \<in> set copies" "copy_Name c \<noteq> name" "\<not> AgentDataVolumeCopyIsTerminal (cps_Phase (copy_Status c))"
    and "copy_uses (copy_source obj) c \<or> copy_uses (copy_destination obj) c"
  shows "created_jobs (writes (AgentDataVolumeCopyReconciler_Reconcile (logged cl) (w, []) ns name now completed)) = []"
proof (rule ccontr)
  assume ne: "\<not> ?thesis"
  then obtain source sourceNode st where source: "rd_GetVolume (cl_api cl) w ns (copy_source obj) = Inr source"
      and eq: "AgentDataVolumeCopyReconciler_Reconcile (logged cl) (w, []) ns name now completed =
        copy_from_source (logged cl) (w, []) obj source sourceNode st now completed"
    using copy_reconcile_jobs [of cl w ns name now completed] assms(1) copy_key [OF assms(1)] by auto
  have "otherActiveCopyForVolumes (cl_api cl) w obj (volume_Name source) (copy_destination obj) \<noteq> Inr None"
    using otherActiveCopy_none [of "cl_api cl" w obj "volume_Name source" "copy_destination obj"] assms copy_key [OF assms(1)]
      volume_key [OF source] by auto
  then have "created_jobs (writes (copy_from_source (logged cl) (w, []) obj source sourceNode st now completed)) = []"
    unfolding copy_from_source_def by (auto simp: Let_def split: sum.splits option.splits)
  then show False using ne eq by simp
qed

end

interpretation mem_copies: copy_api "mem_cluster aj" for aj
  by unfold_locales (auto simp: mem_reader_def dest!: found_keyed)

text \<open>
  C13. A copy has its volumes to itself: a reconcile asks for at most the source Job and the destination
  Job, in this order, for a valid copy of a ready source whose claim is recorded, when no unfinished
  run uses the source or the destination and no other unfinished copy shares a volume with it. The
  source Job mounts the source's recorded claim read-only.
\<close>

theorem copy_jobs_alone:
  assumes "copy_api cl" and "CreatedJob job r \<in> set (writes (AgentDataVolumeCopyReconciler_Reconcile (logged cl) (w, []) ns name now completed))"
    and "runs_named (cl_api cl) w ns"
  shows "\<exists>obj source dest. rd_GetCopy (cl_cache cl) w ns name = Inr obj \<and> validateAgentDataVolumeCopySpec obj = None \<and>
    \<not> being_deleted (copy_Meta obj) \<and> rd_GetVolume (cl_api cl) w ns (copy_source obj) = Inr source \<and>
    dst_Phase (volume_Status source) = AgentDataVolumePhaseReady \<and> TrimSpace (dst_ClaimUID (volume_Status source)) \<noteq> [] \<and>
    copy_alone (cl_api cl) w obj (volume_Name source) \<and>
    copy_jobs_of (recorded_claim_name source) (recorded_claim_name dest)
      (created_jobs (writes (AgentDataVolumeCopyReconciler_Reconcile (logged cl) (w, []) ns name now completed)))"
proof -
  have ne: "created_jobs (writes (AgentDataVolumeCopyReconciler_Reconcile (logged cl) (w, []) ns name now completed)) \<noteq> []"
    using assms(2) created_job_event by blast
  obtain obj source sourceNode st where o: "rd_GetCopy (cl_cache cl) w ns name = Inr obj" "validateAgentDataVolumeCopySpec obj = None"
      "\<not> being_deleted (copy_Meta obj)" "rd_GetVolume (cl_api cl) w (copy_Namespace obj) (copy_source obj) = Inr source"
      "dst_Phase (volume_Status source) = AgentDataVolumePhaseReady" "TrimSpace (dst_ClaimUID (volume_Status source)) \<noteq> []"
      and eq: "AgentDataVolumeCopyReconciler_Reconcile (logged cl) (w, []) ns name now completed =
        copy_from_source (logged cl) (w, []) obj source sourceNode st now completed"
    using copy_reconcile_jobs [OF ne] by blast
  have ns: "copy_Namespace obj = ns" using copy_api.copy_key [OF assms(1) o(1)] by simp
  show ?thesis using o ns copy_from_source_jobs [of cl w obj source sourceNode st now completed] ne assms(3) unfolding eq by auto
qed

text \<open>
  Two copies that share a volume hold each other up: while both are unfinished, neither asks for a
  Job, whichever is older and whichever has already started.
\<close>

theorem sharing_copies_deadlock:
  assumes "copy_api cl" and "rd_ListCopies (cl_api cl) w ns = Inr copies" "c1 \<in> set copies" "c2 \<in> set copies" "n1 \<noteq> n2"
    and "rd_GetCopy (cl_cache cl) w ns n1 = Inr c1" "rd_GetCopy (cl_cache cl) w ns n2 = Inr c2"
    and "\<not> AgentDataVolumeCopyIsTerminal (cps_Phase (copy_Status c1))" "\<not> AgentDataVolumeCopyIsTerminal (cps_Phase (copy_Status c2))"
    and "copy_uses (copy_source c1) c2 \<or> copy_uses (copy_destination c1) c2"
  shows "created_jobs (writes (AgentDataVolumeCopyReconciler_Reconcile (logged cl) (w, []) ns n1 now1 completed1)) = [] \<and>
    created_jobs (writes (AgentDataVolumeCopyReconciler_Reconcile (logged cl) (w, []) ns n2 now2 completed2)) = []"
proof -
  have "copy_uses (copy_source c2) c1 \<or> copy_uses (copy_destination c2) c1"
    using assms(10) unfolding copy_uses_def copy_source_def copy_destination_def by auto
  moreover have "copy_Name c1 = n1" "copy_Name c2 = n2" using copy_api.copy_key [OF assms(1)] assms(6,7) by auto
  ultimately show ?thesis
    using copy_api.shared_copy_creates_nothing [OF assms(1,6,2,4)] copy_api.shared_copy_creates_nothing [OF assms(1,7,2,3)] assms(5,8,9,10)
    by auto
qed

definition demo_copy :: "string \<Rightarrow> AgentDataVolumeCopy" where
  "demo_copy name = \<lparr>copy_Meta = zero_ObjectMeta\<lparr>om_Name := name, om_Namespace := ''team'', om_UID := name, om_Generation := 1\<rparr>,
     copy_Spec = \<lparr>cp_SourceRef = \<lparr>lor_Name = ''v''\<rparr>, cp_Destination = \<lparr>cd_Name = ''v2'', cd_NodeSelector = [(''zone'', ''b'')],
       cd_StorageClassName = [], cd_Size = None, cd_Backend = AgentRunHarnessBackendUnset, cd_Notes = []\<rparr>, cp_Method = [],
       cp_AllowNonEmptyDestination = False, cp_Verify = None, cp_TimeoutSeconds = 0\<rparr>,
     copy_Status = \<lparr>cps_ObservedGeneration = 0, cps_Conditions = [], cps_Phase = AgentDataVolumeCopyPhaseUnset, cps_SourceRef = None,
       cps_SourceUID = [], cps_SourceClaimRef = None, cps_SourceClaimUID = [], cps_SourceNode = [], cps_DestinationRef = None,
       cps_DestinationUID = [], cps_DestinationClaimRef = None, cps_DestinationClaimUID = [], cps_DestinationNode = [], cps_SourceJobRef = None,
       cps_SourceJobUID = [], cps_DestinationJobRef = None, cps_DestinationJobUID = [], cps_ServiceRef = None, cps_ActiveConsumerRuns = [],
       cps_StartedAt = None, cps_CompletedAt = None, cps_LastError = []\<rparr>\<rparr>"

definition demo_copies_state :: mem_cluster_state where
  "demo_copies_state = demo_ready_state\<lparr>mc_Copies := [demo_copy ''a'', demo_copy ''b'']\<rparr>"

theorem sharing_copies_deadlock_witness:
  "created_jobs (writes (AgentDataVolumeCopyReconciler_Reconcile (logged demo_cluster) (demo_copies_state, []) ''team'' ''a'' 5 6)) = [] \<and>
   created_jobs (writes (AgentDataVolumeCopyReconciler_Reconcile (logged demo_cluster) (demo_copies_state, []) ''team'' ''b'' 7 8)) = []"
  by (rule sharing_copies_deadlock [OF mem_copies.copy_api_axioms [of demo_archive_json], where copies = "[demo_copy ''a'', demo_copy ''b'']"
      and ?c1.0 = "demo_copy ''a''" and ?c2.0 = "demo_copy ''b''"])
    (simp_all add: mem_reader_def demo_copies_state_def demo_copy_def keyed_def AgentDataVolumeCopyIsTerminal_def copy_uses_def copy_source_def)

definition demo_copy_state :: mem_cluster_state where
  "demo_copy_state = demo_ready_state\<lparr>mc_Copies := [demo_copy ''a''],
     mc_Volumes := map (\<lambda>v. v\<lparr>volume_Status := (volume_Status v)\<lparr>dst_VolumeName := ''pv''\<rparr>\<rparr>) (mc_Volumes demo_ready_state),
     mc_PersistentVolumes := [(''pv'', \<lparr>persist_Terms = Some [\<lparr>nst_MatchExpressions = [\<lparr>nsr_Key = ''kubernetes.io/hostname'',
       nsr_Values = [''node1'']\<rparr>], nst_MatchFields = []\<rparr>]\<rparr>)]\<rparr>"

lemma demo_copy_ready:
  "validateAgentDataVolumeCopySpec (demo_copy ''a'') = None"
  "(case rd_GetVolume mem_reader demo_copy_state ''team'' (copy_source (demo_copy ''a'')) of Inr v \<Rightarrow>
      dst_Phase (volume_Status v) = AgentDataVolumePhaseReady \<and> TrimSpace (dst_ClaimUID (volume_Status v)) = ''c1'' \<and> volume_Name v = ''v'' \<and>
      persistentVolumeNodeName mem_reader demo_copy_state (dst_VolumeName (volume_Status v)) = Inr ''node1'' | _ \<Rightarrow> False)"
  "TrimSpace ''node1'' = ''node1''" "copy_destination (demo_copy ''a'') = ''v2''"
  "listActiveAuthVolumeConsumers mem_reader demo_copy_state ''team'' ''v'' = Inr []"
  "listActiveAuthVolumeConsumers mem_reader demo_copy_state ''team'' ''v2'' = Inr []"
  "otherActiveCopyForVolumes mem_reader demo_copy_state (demo_copy ''a'') ''v'' ''v2'' = Inr None"
  by code_simp+

lemma mem_own: "own demo_cluster kind owner (zero_ObjectMeta\<lparr>om_Name := n, om_Namespace := ns, om_Labels := ls\<rparr>) =
    Inr (zero_ObjectMeta\<lparr>om_Name := n, om_Namespace := ns, om_Labels := ls, om_OwnerReferences := [owner_ref kind owner]\<rparr>)"
  by (simp add: own_def mem_cluster_def mem_set_controller_def zero_ObjectMeta_def)

lemma mem_service_created:
  "mc_Services w = [] \<Longrightarrow> \<exists>svc w' l'. ensureStreamService (logged demo_cluster) (w, l) obj = (Inr svc, (w', l')) \<and> mc_Jobs w' = mc_Jobs w"
  unfolding ensureStreamService_def Let_def
  by (simp add: mem_own mem_reader_def IsNotFound_def) (simp add: mem_cluster_def mem_add_def taken_def Let_def)

lemma mem_source_job_created:
  "mc_Jobs w = [] \<Longrightarrow> \<exists>job w' l'. ensureSourceJob (logged demo_cluster) (w, l) obj claimName node img timeout = (Inr job, (w', l')) \<and> created_jobs l' \<noteq> []"
  unfolding ensureSourceJob_def Let_def createCopyJob_def
  by (simp add: mem_own mem_reader_def IsNotFound_def) (simp add: mem_add_def taken_def Let_def)

lemma mem_destination_created:
  "find (keyed volume_Meta (copy_Namespace obj) (copy_destination obj)) (mc_Volumes w) = None \<Longrightarrow>
   \<exists>dest w' l'. ensureDestinationVolume (logged demo_cluster) (w, l) obj source = (Inr (dest, True), (w', l')) \<and>
     mc_Services w' = mc_Services w \<and> mc_Jobs w' = mc_Jobs w"
  unfolding ensureDestinationVolume_def Let_def
  by (simp add: mem_reader_def IsNotFound_def)
    (auto simp: mem_cluster_def mem_add_def taken_def Let_def destination_volume_def find_None_iff list_ex_iff)

lemma demo_copy_creates:
  "created_jobs (writes (AgentDataVolumeCopyReconciler_Reconcile (logged demo_cluster) (demo_copy_state, []) ''team'' ''a'' 5 6)) \<noteq> []"
proof -
  let ?obj = "demo_copy ''a''"
  have got: "rd_GetCopy mem_reader demo_copy_state ''team'' ''a'' = Inr ?obj" "copy_Namespace ?obj = ''team''" "copy_Name ?obj = ''a''"
      "\<not> being_deleted (copy_Meta ?obj)" "\<not> AgentDataVolumeCopyIsTerminal (cps_Phase (copy_Status ?obj))"
    by (simp_all add: mem_reader_def demo_copy_state_def keyed_def demo_copy_def AgentDataVolumeCopyIsTerminal_def being_deleted_def zero_ObjectMeta_def)
  obtain v where v: "rd_GetVolume mem_reader demo_copy_state ''team'' (copy_source ?obj) = Inr v" "dst_Phase (volume_Status v) = AgentDataVolumePhaseReady"
      "TrimSpace (dst_ClaimUID (volume_Status v)) = ''c1''" "volume_Name v = ''v''"
      "persistentVolumeNodeName mem_reader demo_copy_state (dst_VolumeName (volume_Status v)) = Inr ''node1''"
    using demo_copy_ready(2) by (auto split: sum.splits)
  have "find (keyed volume_Meta ''team'' ''v2'') (mc_Volumes demo_copy_state) = None" by code_simp
  then obtain dest w1 l1 where d: "ensureDestinationVolume (logged demo_cluster) (demo_copy_state, []) ?obj v = (Inr (dest, True), (w1, l1))"
      "mc_Services w1 = []" "mc_Jobs w1 = []"
    using mem_destination_created [of ?obj demo_copy_state "[]" v] got demo_copy_ready(4)
    by (auto simp: demo_copy_state_def demo_ready_state_def demo_volume_state_def)
  obtain svc w2 l2 where s: "ensureStreamService (logged demo_cluster) (w1, l1) ?obj = (Inr svc, (w2, l2))" "mc_Jobs w2 = []"
    using mem_service_created d by metis
  let ?timeout = "if cp_TimeoutSeconds (copy_Spec ?obj) \<le> 0 then agentDataVolumeCopyDefaultTimeout else cp_TimeoutSeconds (copy_Spec ?obj)"
  obtain job w3 l3 where j: "ensureSourceJob (logged demo_cluster) (w2, l2) ?obj (recorded_claim_name v) ''node1'' copyImage ?timeout = (Inr job, (w3, l3))"
      "created_jobs l3 \<noteq> []"
    using mem_source_job_created s(2) by metis
  obtain r w4 l4 where k: "ensureDestinationJob (logged demo_cluster) (w3, l3) ?obj (recorded_claim_name dest) copyImage ?timeout (om_Name (svc_Meta svc)) =
      (r, (w4, l4))" by (metis prod.exhaust)
  have "created_jobs l4 \<noteq> []"
    using ensureDestinationJob_jobs [of l3 demo_cluster w3 ?obj "recorded_claim_name dest" copyImage ?timeout "om_Name (svc_Meta svc)"] k j(2)
    by (auto simp: one_more_def)
  then have "created_jobs (writes (copy_with_destination (logged demo_cluster) (w1, l1) ?obj v ''node1'' dest st 5 6)) \<noteq> []" for st
    unfolding copy_with_destination_def Let_def s(1) by (cases r) (simp_all add: j(1) k)
  then show ?thesis
    unfolding AgentDataVolumeCopyReconciler_Reconcile_def copy_from_source_def Let_def
    using got v demo_copy_ready(1,3-) by (simp add: d(1) uniqueStrings_def)
qed

theorem copy_jobs_alone_witness:
  "\<exists>job r source dest. CreatedJob job r \<in> set (writes (AgentDataVolumeCopyReconciler_Reconcile (logged demo_cluster) (demo_copy_state, []) ''team'' ''a'' 5 6)) \<and>
     copy_alone mem_reader demo_copy_state (demo_copy ''a'') (volume_Name source) \<and>
     copy_jobs_of (recorded_claim_name source) (recorded_claim_name dest)
       (created_jobs (writes (AgentDataVolumeCopyReconciler_Reconcile (logged demo_cluster) (demo_copy_state, []) ''team'' ''a'' 5 6)))"
proof -
  obtain job r where ev: "CreatedJob job r \<in> set (writes (AgentDataVolumeCopyReconciler_Reconcile (logged demo_cluster) (demo_copy_state, []) ''team'' ''a'' 5 6))"
    using demo_copy_creates created_jobs_iff by (metis hd_in_set)
  have "runs_named (cl_api demo_cluster) demo_copy_state ''team''"
    by (simp add: runs_named_def mem_reader_def part_kube_def mem_kube_def mem_list_runs_def demo_copy_state_def demo_ready_state_def
      demo_volume_state_def mem_empty_def)
  moreover have "rd_GetCopy (cl_cache demo_cluster) demo_copy_state ''team'' ''a'' = Inr (demo_copy ''a'')"
    by (simp add: mem_reader_def demo_copy_state_def keyed_def demo_copy_def)
  ultimately show ?thesis using ev copy_jobs_alone [OF mem_copies.copy_api_axioms [of demo_archive_json] ev] by auto
qed

end
