(* ===== verification/RunTerminal.thy ===== *)
theory RunTerminal
  imports AuthSession
begin

text \<open>
  What the run controller does with a run that has ended, \<^verbatim>\<open>agent_run_archive.go\<close> and the status
  helpers of \<^verbatim>\<open>agent_run_controller.go\<close>: it releases the actor, arms the Job's garbage collection,
  writes the run to the archive and deletes it after the retention. \<open>clk n\<close> is the \<open>n\<close>-th reading of
  the clock in a reconciliation. The lemmas show that a run is deleted only when the archive has it.
\<close>

subsection \<open>The environment of the reconciler\<close>

record agentRunContext =
  ctx_Meta :: "string \<times> string \<times> int \<times> string"
  ctx_Spec :: AgentRunSpec
  ctx_ResolvedComposition :: "AgentRunResolvedCompositionStatus option"
  ctx_Platform :: agentRunPlatformContext
  ctx_AdverseSituation :: "AdverseSituation option"
  ctx_AgentSchedule :: "AgentSchedule option"

text \<open>
  \<open>env_Context\<close> is \<^verbatim>\<open>json.MarshalIndent\<close> of the context document, \<open>env_ValidLabel\<close> is
  \<^verbatim>\<open>validation.IsValidLabelValue\<close> without a complaint, \<open>env_TimeParse\<close> is \<^verbatim>\<open>time.Parse\<close> with the layout
  \<^verbatim>\<open>RFC3339\<close>.
\<close>

record run_env =
  env_Setup :: run_setup
  env_JSON :: json_lib
  env_ArchiveJSON :: archive_json
  env_SystemPrompt :: string
  env_Context :: "agentRunContext \<Rightarrow> string result"
  env_ValidLabel :: "string \<Rightarrow> bool"
  env_TimeParse :: "string \<Rightarrow> instant option"

abbreviation env_Options :: "run_env \<Rightarrow> Options" where
  "env_Options r \<equiv> setup_Options (env_Setup r)"

subsection \<open>Status\<close>

definition agentRunReady :: string where "agentRunReady = ''Ready''"

text \<open>\<^verbatim>\<open>apimeta.SetStatusCondition\<close> with the condition \<^verbatim>\<open>Ready\<close> of the run.\<close>

definition ready_condition ::
  "'w cluster \<Rightarrow> AgentRun \<Rightarrow> ConditionStatus \<Rightarrow> instant \<Rightarrow> string \<Rightarrow> string \<Rightarrow> AgentRunStatus \<Rightarrow> AgentRunStatus" where
  "ready_condition cl obj st now reason message status =
     status\<lparr>rs_Conditions := cl_SetStatusCondition cl (rs_Conditions status)
       (condition agentRunReady st (om_Generation (run_Meta obj)) now reason message)\<rparr>"

definition agentRunRawResult ::
  "json_lib \<Rightarrow> string \<Rightarrow> string \<Rightarrow> AgentRunDecisionStatus option \<Rightarrow> AgentRunStatusReport list \<Rightarrow> string" where
  "agentRunRawResult j output pullRequestURL decision reports =
     (case json_Result j (TrimSpace output, TrimSpace pullRequestURL, decision, reports) of None \<Rightarrow> [] | Some raw \<Rightarrow> raw)"

definition with_result :: "run_env \<Rightarrow> AgentRunStatus \<Rightarrow> AgentRunStatus" where
  "with_result r status = status\<lparr>rs_Result :=
     agentRunRawResult (env_JSON r) (rs_Output status) (rs_PullRequestURL status) (rs_Decision status) (rs_Reports status)\<rparr>"

text \<open>
  A status patch updates the caller's object with the server's answer; \<open>patch_run\<close> gives the object
  with the result.
\<close>

definition patch_run :: "'w cluster \<Rightarrow> 'w \<Rightarrow> AgentRun \<Rightarrow> AgentRun \<Rightarrow> Result \<Rightarrow> Result result \<times> AgentRun \<times> 'w" where
  "patch_run cl w original obj done_result =
     (case cl_PatchRunStatus cl w False original obj of
        (Inl e, w) \<Rightarrow> (if IsConflict e then Inr requeue_now else Inl e, obj, w)
      | (Inr patched, w) \<Rightarrow> (Inr done_result, patched, w))"

definition patchAgentRunStatus :: "'w cluster \<Rightarrow> 'w \<Rightarrow> AgentRun \<Rightarrow> AgentRun \<Rightarrow> bool \<Rightarrow> 'w reconciled" where
  "patchAgentRunStatus cl w original obj requeue =
     (case patch_run cl w original obj (if requeue then requeue_after agentRunPollInterval else no_requeue) of
        (res, obj, w) \<Rightarrow> (res, w))"

definition patchAgentRunLaunchPausedStatus ::
  "'w cluster \<Rightarrow> 'w \<Rightarrow> instant \<Rightarrow> AgentRun \<Rightarrow> AgentRun \<Rightarrow> AgentRunStatus \<Rightarrow> string \<Rightarrow> string \<Rightarrow> duration \<Rightarrow> 'w reconciled" where
  "patchAgentRunLaunchPausedStatus cl w now original obj status reason message requeueAfter =
     (let status = ready_condition cl obj ConditionFalse now reason message
            (status\<lparr>rs_Phase := AgentRunPhasePending, rs_CompletedAt := None, rs_Error := []\<rparr>) in
      case patch_run cl w original (obj\<lparr>run_Status := status\<rparr>) (requeue_after requeueAfter) of (res, obj, w) \<Rightarrow> (res, w))"

subsection \<open>The actor of an ended run\<close>

definition substrateThreadID :: "AgentRun \<Rightarrow> string" where
  "substrateThreadID effective =
     ThreadIDForRun (src_Kind (spec_SourceRef (run_Spec effective))) (src_Name (spec_SourceRef (run_Spec effective))) (run_Name effective)"

definition suspendSubstrateActorOnTerminal :: "'w cluster \<Rightarrow> run_env \<Rightarrow> 'w \<Rightarrow> AgentRun \<Rightarrow> 'w" where
  "suspendSubstrateActorOnTerminal cl r w run =
     (if \<not> UsesSubstrateActors (run_execution run) then w
      else if \<not> substrateLiveClient (env_Setup r) then w
      else snd (SuspendIdleActor (cl_Actors cl) w (run_Namespace run) (ActorNameForThread (substrateThreadID run))
                  (case ex_Substrate (run_execution run) of None \<Rightarrow> None | Some s \<Rightarrow> sas_SuspendOnIdle s)))"

subsection \<open>The Job of an ended run\<close>

definition ensureTerminalAgentRunJobTTL :: "'w cluster \<Rightarrow> 'w \<Rightarrow> AgentRun \<Rightarrow> go_error option \<times> 'w" where
  "ensureTerminalAgentRunJobTTL cl w run =
     (case rs_JobRef (run_Status run) of
        None \<Rightarrow> (None, w)
      | Some ref \<Rightarrow>
          if TrimSpace (nor_Name ref) = [] then (None, w)
          else (let namespace = firstNonEmpty (TrimSpace (nor_Namespace ref)) (run_Namespace run) in
            if namespace \<noteq> run_Namespace run
            then (Some (Errorf (''terminal AgentRun job reference '' @ namespace @ ''/'' @ nor_Name ref @
                    '' is outside AgentRun namespace '' @ run_Namespace run)), w)
            else (case rd_GetJob (cl_cache cl) w namespace (TrimSpace (nor_Name ref)) of
              Inl e \<Rightarrow> (if IsNotFound e then None else Some e, w)
            | Inr job \<Rightarrow>
                if rs_JobUID (run_Status run) \<noteq> [] \<and> job_UID job \<noteq> rs_JobUID (run_Status run)
                then (Some (Errorf (''terminal AgentRun Job '' @ job_Namespace job @ ''/'' @ job_Name job @ '' UID '' @ job_UID job @
                        '' does not match recorded UID '' @ rs_JobUID (run_Status run))), w)
                else if js_TTLSecondsAfterFinished (job_Spec job) \<noteq> None then (None, w)
                else (let raw = TrimSpace (map_get (job_Annotations job) agentRunAnnotationRequestedTTL) in
                  if raw = [] then (None, w)
                  else (case parse_int 32 raw of
                    Some ttl \<Rightarrow>
                      if ttl < 0
                      then (Some (Errorf (''Job '' @ job_Namespace job @ ''/'' @ job_Name job @
                              '' has invalid requested TTL annotation '' @ Quote raw)), w)
                      else cl_PatchJob cl w job (job\<lparr>job_Spec := (job_Spec job)\<lparr>js_TTLSecondsAfterFinished := Some ttl\<rparr>\<rparr>)
                  | None \<Rightarrow> (Some (Errorf (''Job '' @ job_Namespace job @ ''/'' @ job_Name job @
                              '' has invalid requested TTL annotation '' @ Quote raw)), w))))))"

subsection \<open>The archive\<close>

definition agentRunArchiveRetryInterval :: duration where "agentRunArchiveRetryInterval = 300 * Second"

definition agentRunArchived :: "AgentRun \<Rightarrow> bool" where
  "agentRunArchived run \<longleftrightarrow>
     (case rs_Archive (run_Status run) of
        None \<Rightarrow> False
      | Some a \<Rightarrow> TrimSpace (arc_Store a) \<noteq> [] \<and> arc_ArchivedAt a \<noteq> None \<and> TrimSpace (arc_Digest a) \<noteq> [] \<and>
          TrimSpace (arc_Error a) = [])"

definition terminalRetentionWindow :: "run_env \<Rightarrow> instant \<Rightarrow> AgentRun \<Rightarrow> bool \<times> duration" where
  "terminalRetentionWindow r now run =
     (if \<not> agentRunPhaseTerminal (run_Phase run) \<or> \<not> agentRunArchived run then (False, 0)
      else if spec_SituationRef (run_Spec run) \<noteq> None then (False, 0)
      else if opt_AgentRunTerminalRetention (env_Options r) \<le> 0 then (False, 0)
      else (case rs_CompletedAt (run_Status run) of
              None \<Rightarrow> (False, 0)
            | Some completedAt \<Rightarrow>
                if completedAt = 0 then (False, 0)
                else (let requeueAfter = time_sub (completedAt + opt_AgentRunTerminalRetention (env_Options r)) now in
                      if requeueAfter \<le> 0 then (True, 0) else (False, requeueAfter))))"

definition terminalRetentionElapsed :: "run_env \<Rightarrow> instant \<Rightarrow> AgentRun \<Rightarrow> bool" where
  "terminalRetentionElapsed r now run = fst (terminalRetentionWindow r now run)"

definition terminalRetentionRequeueAfter :: "run_env \<Rightarrow> instant \<Rightarrow> AgentRun \<Rightarrow> duration" where
  "terminalRetentionRequeueAfter r now run = snd (terminalRetentionWindow r now run)"

definition agentRunArchiveErrorMessage :: "go_error \<Rightarrow> string" where
  "agentRunArchiveErrorMessage e = take 1000 (TrimSpace (error_text e))"

definition with_archive :: "AgentRun \<Rightarrow> AgentRunArchiveStatus \<Rightarrow> AgentRun" where
  "with_archive run a = run\<lparr>run_Status := (run_Status run)\<lparr>rs_Archive := Some a\<rparr>\<rparr>"

definition archive_failed :: "'w cluster \<Rightarrow> 'w \<Rightarrow> AgentRun \<Rightarrow> go_error \<Rightarrow> 'w reconciled" where
  "archive_failed cl w run e =
     (case patch_run cl w run
        (with_archive run \<lparr>arc_Store = AgentRunArchiveStorePostgres, arc_ArchivedAt = None, arc_Digest = [],
           arc_Error = agentRunArchiveErrorMessage e\<rparr>)
        (requeue_after agentRunArchiveRetryInterval) of (res, run, w) \<Rightarrow> (res, w))"

definition retention_result :: "run_env \<Rightarrow> instant \<Rightarrow> AgentRun \<Rightarrow> Result" where
  "retention_result r now run =
     (let requeueAfter = terminalRetentionRequeueAfter r now run in
      if 0 < requeueAfter then requeue_after requeueAfter else no_requeue)"

definition archiveTerminalAgentRun ::
  "'w cluster \<Rightarrow> run_env \<Rightarrow> ('w \<Rightarrow> AgentRunArchiveRecord \<Rightarrow> AgentRunArchiveResult result \<times> 'w) \<Rightarrow> (nat \<Rightarrow> instant) \<Rightarrow> 'w \<Rightarrow> AgentRun \<Rightarrow>
     'w reconciled" where
  "archiveTerminalAgentRun cl r store clk w run =
     (case NewAgentRunArchiveRecord (env_ArchiveJSON r) (clk 0) run (clk 0) of
        Inl e \<Rightarrow> archive_failed cl w run e
      | Inr record \<Rightarrow>
          (case store w record of
             (Inl e, w) \<Rightarrow> archive_failed cl w run e
           | (Inr result, w) \<Rightarrow>
               (case cl_PatchRunStatus cl w False run
                   (with_archive run \<lparr>arc_Store = ar_Store result, arc_ArchivedAt = Some (ar_ArchivedAt result),
                      arc_Digest = ar_Digest result, arc_Error = []\<rparr>) of
                  (Inl e, w) \<Rightarrow> (if IsConflict e then Inr requeue_now else Inl e, w)
                | (Inr run, w) \<Rightarrow>
                    if terminalRetentionElapsed r (clk 1) run then (Inr requeue_now, w)
                    else (Inr (retention_result r (clk 2) run), w))))"

definition reconcileTerminalAgentRun :: "'w cluster \<Rightarrow> run_env \<Rightarrow> (nat \<Rightarrow> instant) \<Rightarrow> 'w \<Rightarrow> AgentRun \<Rightarrow> 'w reconciled" where
  "reconcileTerminalAgentRun cl r clk w run =
     (let w = suspendSubstrateActorOnTerminal cl r w run in
      case ensureTerminalAgentRunJobTTL cl w run of
        (Some e, w) \<Rightarrow> (Inl e, w)
      | (None, w) \<Rightarrow>
          (case (if agentRunArchived run then None else cl_ArchiveAgentRun cl) of
             Some store \<Rightarrow> archiveTerminalAgentRun cl r store clk w run
           | None \<Rightarrow>
               if terminalRetentionElapsed r (clk 1) run
               then (case cl_DeleteRun cl w run of
                       (Some e, w) \<Rightarrow> (IgnoreNotFound e, w)
                     | (None, w) \<Rightarrow> (Inr no_requeue, w))
               else (Inr (retention_result r (clk 2) run), w)))"

subsection \<open>What is written for an ended run\<close>

fun terminal_write :: "run_env \<Rightarrow> instant \<Rightarrow> AgentRun \<Rightarrow> cluster_event \<Rightarrow> bool" where
  "terminal_write r now run (SuspendedActor ns n ans) \<longleftrightarrow> True"
| "terminal_write r now run (PatchedJob old new ans) \<longleftrightarrow>
     (\<exists>ttl. new = old\<lparr>job_Spec := (job_Spec old)\<lparr>js_TTLSecondsAfterFinished := Some ttl\<rparr>\<rparr>)"
| "terminal_write r now run (ArchivedRun record ans) \<longleftrightarrow> \<not> agentRunArchived run"
| "terminal_write r now run (PatchedRunStatus lock old new ans) \<longleftrightarrow>
     old = run \<and> (\<exists>a. new = with_archive run a) \<and> \<not> agentRunArchived run"
| "terminal_write r now run (DeletedRun x ans) \<longleftrightarrow> x = run \<and> terminalRetentionElapsed r now run"
| "terminal_write r now run ev \<longleftrightarrow> False"

lemma suspend_writes:
  "extends (\<lambda>ev. \<exists>ns n ans. ev = SuspendedActor ns n ans) x (suspendSubstrateActorOnTerminal (logged cl) r x run)"
  by (auto simp: suspendSubstrateActorOnTerminal_def SuspendIdleActor_def logged_step split: prod.splits sum.splits actor_error.splits
      intro: noted_step)

lemma ttl_writes:
  "ensureTerminalAgentRunJobTTL (logged cl) x run = (res, y) \<Longrightarrow>
     extends (\<lambda>ev. \<exists>old ttl ans. ev = PatchedJob old (old\<lparr>job_Spec := (job_Spec old)\<lparr>js_TTLSecondsAfterFinished := Some ttl\<rparr>\<rparr>) ans) x y"
  by (auto simp: ensureTerminalAgentRunJobTTL_def logged_step Let_def split: option.splits sum.splits if_splits intro: noted_step)

lemma patch_run_step:
  assumes "patch_run (logged cl) x original obj d = (res, obj', y)" "\<And>ans. P (PatchedRunStatus False original obj ans)"
  shows "extends P x y"
  using assms by (auto simp: patch_run_def logged_step split: prod.splits sum.splits intro: noted_step)

lemma archive_failed_step:
  assumes "archive_failed (logged cl) x run e = (res, y)" "\<not> agentRunArchived run"
  shows "extends (terminal_write r now run) x y"
  using assms by (auto simp: archive_failed_def split: prod.splits intro!: patch_run_step)

lemma archive_step:
  assumes step: "archiveTerminalAgentRun (logged cl) r store clk x run = (res, y)" and fresh: "\<not> agentRunArchived run"
    and stored: "\<And>row ans z. store x row = (ans, z) \<Longrightarrow> extends (terminal_write r now run) x z"
  shows "extends (terminal_write r now run) x y"
proof (cases "NewAgentRunArchiveRecord (env_ArchiveJSON r) (clk 0) run (clk 0)")
  case (Inl e)
  then show ?thesis
    using step by (simp add: archiveTerminalAgentRun_def archive_failed_step [OF _ fresh])
next
  case (Inr row)
  obtain ans z where z: "store x row = (ans, z)"
    by (cases "store x row")
  have patched: "extends (terminal_write r now run) z y'"
    if "cl_PatchRunStatus (logged cl) z False run (with_archive run a) = (ans', y')" for a ans' y'
    using that fresh by (auto simp: logged_step intro!: noted_step)
  have "extends (terminal_write r now run) z y"
    using step Inr z
    by (auto simp: archiveTerminalAgentRun_def archive_failed_step [OF _ fresh] split: sum.splits prod.splits if_splits dest: patched)
  then show ?thesis
    using stored [OF z] extends_trans by blast
qed

lemma terminal_writes:
  assumes "reconcileTerminalAgentRun (logged cl) r clk x run = (res, y)"
  shows "extends (terminal_write r (clk 1) run) x y"
proof -
  let ?P = "terminal_write r (clk 1) run"
  define z where "z = suspendSubstrateActorOnTerminal (logged cl) r x run"
  have xz: "extends ?P x z"
    unfolding z_def by (rule extends_mono [OF suspend_writes]) auto
  obtain e u where u: "ensureTerminalAgentRunJobTTL (logged cl) z run = (e, u)"
    by (cases "ensureTerminalAgentRunJobTTL (logged cl) z run")
  have "extends ?P z u"
    by (rule extends_mono [OF ttl_writes [OF u]]) auto
  then have xu: "extends ?P x u"
    using xz extends_trans by blast
  have archived: "extends ?P u y'"
    if "archiveTerminalAgentRun (logged cl) r (\<lambda>(w, l) row. noted (ArchivedRun row) (store w row) l) clk u run = (res', y')"
      "\<not> agentRunArchived run" for store res' y'
    by (rule archive_step [OF that]) (use that(2) in \<open>cases u, auto intro: noted_step\<close>)
  have deleted: "extends ?P u y'"
    if "cl_DeleteRun (logged cl) u run = (a, y')" "terminalRetentionElapsed r (clk 1) run" for a y'
    using that by (auto simp: logged_step intro!: noted_step)
  have "extends ?P u y"
    using assms u
    by (auto simp: reconcileTerminalAgentRun_def z_def [symmetric] Let_def split: option.splits if_splits prod.splits
        dest: archived deleted)
  then show ?thesis
    using xu extends_trans by blast
qed

lemma elapsed_archived:
  assumes "terminalRetentionElapsed r now run"
  shows "agentRunPhaseTerminal (run_Phase run)" "agentRunArchived run" "spec_SituationRef (run_Spec run) = None"
    "\<exists>t. rs_CompletedAt (run_Status run) = Some t \<and> t + opt_AgentRunTerminalRetention (env_Options r) \<le> now"
  using assms
  by (auto simp: terminalRetentionElapsed_def terminalRetentionWindow_def Let_def time_sub_def saturate64_def
      split: if_splits option.splits)

subsection \<open>The receipt of the archive\<close>

text \<open>A status patch that makes a run archived comes after the store's answer, and has its content.\<close>

definition earned :: "run_env \<Rightarrow> (nat \<Rightarrow> instant) \<Rightarrow> AgentRun \<Rightarrow> cluster_event list \<Rightarrow> cluster_event \<Rightarrow> bool" where
  "earned r clk run l ev \<longleftrightarrow>
     (\<forall>lock old new ans. ev = PatchedRunStatus lock old new ans \<longrightarrow> agentRunArchived new \<longrightarrow>
        (\<exists>row result. NewAgentRunArchiveRecord (env_ArchiveJSON r) (clk 0) run (clk 0) = Inr row \<and>
           ArchivedRun row (Inr result) \<in> set l \<and>
           rs_Archive (run_Status new) = Some \<lparr>arc_Store = ar_Store result, arc_ArchivedAt = Some (ar_ArchivedAt result),
             arc_Digest = ar_Digest result, arc_Error = []\<rparr>))"

lemma archived_with_archive:
  "agentRunArchived (with_archive run a) \<Longrightarrow> arc_ArchivedAt a \<noteq> None"
  by (simp add: agentRunArchived_def with_archive_def)

lemma archive_failed_earned:
  "archive_failed (logged cl) x run e = (res, y) \<Longrightarrow> extends (earned r clk run l) x y"
  by (auto simp: archive_failed_def earned_def split: prod.splits intro!: patch_run_step dest!: archived_with_archive)

lemma archive_earned:
  assumes step: "archiveTerminalAgentRun (logged cl) r (\<lambda>(w, l) row. noted (ArchivedRun row) (store w row) l) clk x run = (res, y)"
    and l: "set (snd y) \<subseteq> set l"
  shows "extends (earned r clk run l) x y"
proof (cases "NewAgentRunArchiveRecord (env_ArchiveJSON r) (clk 0) run (clk 0)")
  case (Inl e)
  then show ?thesis
    using step by (simp add: archiveTerminalAgentRun_def archive_failed_earned)
next
  case (Inr row)
  obtain ans w where w: "store (fst x) row = (ans, w)"
    by (cases "store (fst x) row")
  let ?z = "(w, snd x @ [ArchivedRun row ans])"
  have z: "(case x of (w, l) \<Rightarrow> \<lambda>row. noted (ArchivedRun row) (store w row) l) row = (ans, ?z)"
    using w by (cases x) simp
  have xz: "extends (earned r clk run l) x ?z"
    by (simp add: extends_def earned_def)
  show ?thesis
  proof (cases ans)
    case (Inl e)
    then have "archive_failed (logged cl) ?z run e = (res, y)"
      using step Inr z by (simp add: archiveTerminalAgentRun_def)
    then show ?thesis
      using xz archive_failed_earned extends_trans by blast
  next
    case (Inr result)
    let ?new = "with_archive run \<lparr>arc_Store = ar_Store result, arc_ArchivedAt = Some (ar_ArchivedAt result),
                      arc_Digest = ar_Digest result, arc_Error = []\<rparr>"
    obtain ans' y' where y': "cl_PatchRunStatus (logged cl) ?z False run ?new = (ans', y')"
      by (cases "cl_PatchRunStatus (logged cl) ?z False run ?new")
    have "y' = y"
      using step Inr z y' \<open>NewAgentRunArchiveRecord _ _ run _ = Inr row\<close>
      by (auto simp: archiveTerminalAgentRun_def split: sum.splits if_splits)
    moreover have "snd y' = snd x @ [ArchivedRun row (Inr result), PatchedRunStatus False run ?new ans']"
      using y' Inr by (cases "cl_PatchRunStatus cl w False run ?new") auto
    ultimately have "ArchivedRun row (Inr result) \<in> set l"
      using l by auto
    then have "earned r clk run l (PatchedRunStatus False run ?new ans')"
      using \<open>NewAgentRunArchiveRecord _ _ run _ = Inr row\<close> by (auto simp: earned_def with_archive_def)
    moreover have "noted (PatchedRunStatus False run ?new) (cl_PatchRunStatus cl w False run ?new) (snd ?z) = (ans', y)"
      using y' \<open>y' = y\<close> by (simp add: logged_step)
    ultimately have "extends (earned r clk run l) ?z y"
      by (rule noted_step [rotated])
    then show ?thesis
      using xz extends_trans by blast
  qed
qed

lemma terminal_earned:
  assumes "reconcileTerminalAgentRun (logged cl) r clk x run = (res, y)" "set (snd y) \<subseteq> set l"
  shows "extends (earned r clk run l) x y"
proof -
  define z where "z = suspendSubstrateActorOnTerminal (logged cl) r x run"
  have "extends (earned r clk run l) x z"
    unfolding z_def by (rule extends_mono [OF suspend_writes]) (auto simp: earned_def)
  moreover obtain e u where u: "ensureTerminalAgentRunJobTTL (logged cl) z run = (e, u)"
    by (cases "ensureTerminalAgentRunJobTTL (logged cl) z run")
  have "extends (earned r clk run l) z u"
    by (rule extends_mono [OF ttl_writes [OF u]]) (auto simp: earned_def)
  moreover have deleted: "extends (earned r clk run l) u y'"
    if "cl_DeleteRun (logged cl) u run = (a, y')" for a y'
    using that by (auto simp: logged_step earned_def intro!: noted_step)
  have "extends (earned r clk run l) u y"
    using assms u
    by (auto simp: reconcileTerminalAgentRun_def z_def [symmetric] Let_def split: option.splits if_splits prod.splits
        dest: archive_earned deleted)
  ultimately show ?thesis
    using extends_trans by blast
qed

text \<open>
  C23. The controller marks a run as archived only after the archive has stored the run's record, and the receipt
  has the store, the time and the digest the archive answered with.
\<close>

theorem archive_receipt_is_earned:
  assumes "PatchedRunStatus lock old new ans \<in> set (writes (reconcileTerminalAgentRun (logged cl) r clk (w, []) run))"
    and "agentRunArchived new"
  shows "\<exists>row result. NewAgentRunArchiveRecord (env_ArchiveJSON r) (clk 0) run (clk 0) = Inr row \<and>
    ArchivedRun row (Inr result) \<in> set (writes (reconcileTerminalAgentRun (logged cl) r clk (w, []) run)) \<and>
    rs_Archive (run_Status new) = Some \<lparr>arc_Store = ar_Store result, arc_ArchivedAt = Some (ar_ArchivedAt result),
      arc_Digest = ar_Digest result, arc_Error = []\<rparr>"
proof -
  have "earned r clk run (writes (reconcileTerminalAgentRun (logged cl) r clk (w, []) run)) (PatchedRunStatus lock old new ans)"
    by (rule extends_writes [OF terminal_earned [OF prod.collapse [symmetric]] assms(1)]) (simp add: writes_def)
  then show ?thesis
    using assms(2) by (simp add: earned_def)
qed

subsection \<open>Deletion\<close>


definition demo_run_env :: run_env where
  "demo_run_env = \<lparr>env_Setup = demo_setup\<lparr>setup_Options := demo_options\<lparr>opt_AgentRunTerminalRetention := 100\<rparr>\<rparr>,
     env_JSON = demo_json, env_ArchiveJSON = demo_archive_json, env_SystemPrompt = ''Work in the scope.'',
     env_Context = (\<lambda>_. Inr ''{}''), env_ValidLabel = (\<lambda>_. True), env_TimeParse = (\<lambda>_. Some 5)\<rparr>"

definition demo_kept_run :: AgentRun where
  "demo_kept_run = demo_finished_run\<lparr>run_Status := (run_Status demo_finished_run)\<lparr>rs_CompletedAt := Some 10,
     rs_Archive := Some \<lparr>arc_Store = ''s'', arc_ArchivedAt = Some 11, arc_Digest = ''d'', arc_Error = []\<rparr>\<rparr>\<rparr>"

definition demo_retention_log :: "cluster_event list" where
  "demo_retention_log = writes (reconcileTerminalAgentRun (logged demo_cluster) demo_run_env (\<lambda>n. 200)
     (runs_update (\<lambda>_. [demo_kept_run]) demo_ready_state, []) demo_kept_run)"

lemma retention_deletes:
  assumes "rs_JobRef (run_Status run) = None" "\<not> UsesSubstrateActors (run_execution run)" "terminalRetentionElapsed r (clk 1) run"
  shows "\<exists>ans. DeletedRun run ans \<in> set (writes (reconcileTerminalAgentRun (logged cl) r clk (w, []) run))"
  using assms elapsed_archived(2) [OF assms(3)]
  by (cases "cl_DeleteRun cl w run")
    (auto simp: reconcileTerminalAgentRun_def suspendSubstrateActorOnTerminal_def ensureTerminalAgentRunJobTTL_def split: option.splits)

lemma demo_retention_deletes: "\<exists>ans. DeletedRun demo_kept_run ans \<in> set demo_retention_log"
proof -
  have trims: "TrimSpace ''s'' \<noteq> []" "TrimSpace ''d'' \<noteq> []" "TrimSpace [] = []"
    by code_simp+
  have "rs_JobRef (run_Status demo_kept_run) = None" "\<not> UsesSubstrateActors (run_execution demo_kept_run)"
    by code_simp+
  moreover have "spec_SituationRef (run_Spec demo_kept_run) = None" "run_Phase demo_kept_run = AgentRunPhaseSucceeded"
    by code_simp+
  then have "terminalRetentionElapsed demo_run_env 200 demo_kept_run"
    by (simp add: terminalRetentionElapsed_def terminalRetentionWindow_def agentRunArchived_def demo_run_env_def
        agentRunPhaseTerminal_def demo_kept_run_def trims time_sub_def saturate64_def)
  ultimately show ?thesis
    unfolding demo_retention_log_def by (rule retention_deletes)
qed


definition demo_storing :: "mem_cluster_state cluster" where
  "demo_storing = demo_cluster\<lparr>cl_ArchiveAgentRun := Some (\<lambda>w row. (Inr \<lparr>ar_Store = ''s'', ar_ArchivedAt = 12, ar_Digest = ''d''\<rparr>, w))\<rparr>"

definition demo_archive_log :: "cluster_event list" where
  "demo_archive_log = writes (reconcileTerminalAgentRun (logged demo_storing) demo_run_env (\<lambda>n. if n = 0 then 9 else 20)
     (demo_ready_state, []) demo_finished_run)"

lemma archive_marks:
  assumes "rs_JobRef (run_Status run) = None" "\<not> UsesSubstrateActors (run_execution run)" "\<not> agentRunArchived run"
    and "cl_ArchiveAgentRun cl = Some store" "NewAgentRunArchiveRecord (env_ArchiveJSON r) (clk 0) run (clk 0) = Inr row"
    and "store w row = (Inr result, w')" "TrimSpace (ar_Store result) \<noteq> []" "TrimSpace (ar_Digest result) \<noteq> []"
  shows "\<exists>new ans. PatchedRunStatus False run new ans \<in> set (writes (reconcileTerminalAgentRun (logged cl) r clk (w, []) run)) \<and>
    agentRunArchived new"
proof -
  have "TrimSpace [] = []"
    by code_simp
  then have "agentRunArchived (with_archive run \<lparr>arc_Store = ar_Store result, arc_ArchivedAt = Some (ar_ArchivedAt result),
      arc_Digest = ar_Digest result, arc_Error = []\<rparr>)" (is "agentRunArchived ?new")
    using assms by (simp add: agentRunArchived_def with_archive_def)
  moreover obtain ans w'' where "cl_PatchRunStatus cl w' False run ?new = (ans, w'')"
    by (cases "cl_PatchRunStatus cl w' False run ?new")
  then have "PatchedRunStatus False run ?new ans \<in> set (writes (reconcileTerminalAgentRun (logged cl) r clk (w, []) run))"
    using assms
    by (cases ans) (auto simp: reconcileTerminalAgentRun_def suspendSubstrateActorOnTerminal_def ensureTerminalAgentRunJobTTL_def
        archiveTerminalAgentRun_def)
  ultimately show ?thesis
    by blast
qed

lemma demo_archive_patches: "\<exists>new ans. PatchedRunStatus False demo_finished_run new ans \<in> set demo_archive_log \<and> agentRunArchived new"
proof -
  obtain row where row: "NewAgentRunArchiveRecord demo_archive_json 9 demo_finished_run 9 = Inr row"
    using demo_archive_record by blast
  have trims: "TrimSpace ''s'' \<noteq> []" "TrimSpace ''d'' \<noteq> []"
    by code_simp+
  have "rs_JobRef (run_Status demo_finished_run) = None" "\<not> UsesSubstrateActors (run_execution demo_finished_run)"
    "\<not> agentRunArchived demo_finished_run"
    by code_simp+
  then show ?thesis
    unfolding demo_archive_log_def
    by (rule archive_marks [where row = row and result = "\<lparr>ar_Store = ''s'', ar_ArchivedAt = 12, ar_Digest = ''d''\<rparr>"]) (simp_all add: demo_storing_def demo_run_env_def row trims)
qed

theorem archive_receipt_is_earned_witness:
  "\<exists>row result. ArchivedRun row (Inr result) \<in> set demo_archive_log"
proof -
  obtain new ans where ev: "PatchedRunStatus False demo_finished_run new ans \<in> set demo_archive_log" "agentRunArchived new"
    using demo_archive_patches by blast
  from archive_receipt_is_earned [OF ev [unfolded demo_archive_log_def]] show ?thesis
    unfolding demo_archive_log_def by blast
qed

end
