(* ===== verification/RunPeers.thy ===== *)
theory RunPeers
  imports RunTerminal
begin

text \<open>
  What a running agent can ask of the controller through its status lines (\<^verbatim>\<open>agent_run_controller.go\<close>,
  the mid-run decisions): a peer run with another profile, or the end of the runs that do the same work.
  The second half holds an interrupted run at \<^verbatim>\<open>Failed\<close>. The lemmas bound what the two requests can do.
\<close>

definition agentRunAnnotationPeerRun :: string where "agentRunAnnotationPeerRun = ''control.anvil.hazyforge.io/peer-run''"
definition agentRunAnnotationPeerOf :: string where "agentRunAnnotationPeerOf = ''control.anvil.hazyforge.io/peer-of''"
definition agentRunAnnotationInterruptDuplicate :: string where
  "agentRunAnnotationInterruptDuplicate = ''control.anvil.hazyforge.io/interrupt-duplicate''"
definition agentRunLabelPeerOf :: string where "agentRunLabelPeerOf = ''control.anvil.hazyforge.io/peer-of''"
definition agentRunDecisionRequestPeer :: string where "agentRunDecisionRequestPeer = ''requestPeer''"
definition agentRunDecisionInterruptDuplicate :: string where "agentRunDecisionInterruptDuplicate = ''interruptDuplicate''"

subsection \<open>Fields of the status lines\<close>

text \<open>A non-blank string field, trimmed.\<close>

definition text_field :: "(string \<Rightarrow> string option) \<Rightarrow> string \<Rightarrow> string" where
  "text_field payload key = (case payload key of None \<Rightarrow> [] | Some v \<Rightarrow> TrimSpace v)"

text \<open>The last key with a non-blank value wins, on the last line with the action.\<close>

definition decision_line :: "json_lib \<Rightarrow> string \<Rightarrow> string list \<Rightarrow> string \<Rightarrow> string \<Rightarrow> string" where
  "decision_line j action keys got text =
     (case status_payload text of
        None \<Rightarrow> got
      | Some raw \<Rightarrow>
          (case json_ReadFields j raw of
             None \<Rightarrow> got
           | Some payload \<Rightarrow>
               if text_field payload ''action'' \<noteq> action then got
               else foldl (\<lambda>got key. if text_field payload key \<noteq> [] then text_field payload key else got) got keys))"

definition agentRunDecisionFieldFromOutput :: "json_lib \<Rightarrow> string \<Rightarrow> string \<Rightarrow> string list \<Rightarrow> string" where
  "agentRunDecisionFieldFromOutput j output action keys = foldl (decision_line j action keys) [] (scanned_lines output)"

definition field_separator :: "char \<Rightarrow> bool" where
  "field_separator c \<longleftrightarrow> c = CHR '','' \<or> c = CHR '';'' \<or> c = newline"

text \<open>The first of \<^verbatim>\<open>strings.FieldsFunc\<close>, if there is one.\<close>

definition first_field :: "string \<Rightarrow> string option" where
  "first_field s =
     (let rest = dropWhile field_separator s in
      if rest = [] then None else Some (takeWhile (\<lambda>c. \<not> field_separator c) rest))"

fun prefixed_profile :: "string \<Rightarrow> string list \<Rightarrow> string" where
  "prefixed_profile raw [] = []"
| "prefixed_profile raw (p # ps) =
     (case Index raw p of
        None \<Rightarrow> prefixed_profile raw ps
      | Some i \<Rightarrow>
          (case first_field (TrimSpace (drop (i + length p) raw)) of
             None \<Rightarrow> prefixed_profile raw ps
           | Some field \<Rightarrow> TrimSpace field))"

definition profile_keys :: "string list" where
  "profile_keys = [''profile'', ''profileName'', ''peerProfile'']"

definition agentRunParsePeerProfile :: "json_lib \<Rightarrow> string \<Rightarrow> string" where
  "agentRunParsePeerProfile j text =
     (let raw = TrimSpace text in
      if raw = [] then []
      else (let from_json = (case json_ReadFields j raw of
                  None \<Rightarrow> None
                | Some payload \<Rightarrow> find (\<lambda>v. v \<noteq> []) (map (text_field payload) profile_keys)) in
            case from_json of
              Some name \<Rightarrow> name
            | None \<Rightarrow> prefixed_profile raw [''profile='', ''profileName='', ''peerProfile='']))"

fun reported_profile :: "json_lib \<Rightarrow> AgentRunStatusReport list \<Rightarrow> string" where
  "reported_profile j [] = []"
| "reported_profile j (report # reports) =
     (if agentRunParsePeerProfile j (rep_Detail report) \<noteq> [] then agentRunParsePeerProfile j (rep_Detail report)
      else if agentRunParsePeerProfile j (rep_Summary report) \<noteq> [] then agentRunParsePeerProfile j (rep_Summary report)
      else reported_profile j reports)"

definition agentRunPeerProfileName :: "json_lib \<Rightarrow> AgentRunStatus \<Rightarrow> string" where
  "agentRunPeerProfileName j status =
     (let name = agentRunDecisionFieldFromOutput j (rs_Output status) agentRunDecisionRequestPeer
            [''peerProfileName'', ''profile'', ''profileName'', ''peerProfile''] in
      if name \<noteq> [] then name else reported_profile j (rev (rs_Reports status)))"

subsection \<open>A requested peer\<close>

definition decision_summary :: "AgentRunStatus \<Rightarrow> string" where
  "decision_summary status = (case rs_Decision status of None \<Rightarrow> [] | Some d \<Rightarrow> TrimSpace (dec_Summary d))"

definition peer_profile :: "json_lib \<Rightarrow> AgentRun \<Rightarrow> AgentRunStatus \<Rightarrow> string" where
  "peer_profile j obj status =
     (let profile = agentRunPeerProfileName j status in
      if profile \<noteq> [] then profile
      else (case spec_ProfileRef (run_Spec obj) of None \<Rightarrow> [] | Some ref \<Rightarrow> TrimSpace (nor_Name ref)))"

definition peer_prompt :: "json_lib \<Rightarrow> AgentRun \<Rightarrow> AgentRunStatus \<Rightarrow> string" where
  "peer_prompt j obj status =
     (let prompt = agentRunDecisionFieldFromOutput j (rs_Output status) agentRunDecisionRequestPeer [''peerPrompt''];
          prompt = (if prompt = [] then decision_summary status else prompt) in
      if prompt = [] then TrimSpace (spec_Prompt (run_Spec obj)) else prompt)"

definition peer_run :: "AgentRun \<Rightarrow> string \<Rightarrow> string \<Rightarrow> AgentRun" where
  "peer_run obj profile prompt = \<lparr>
     run_Meta = zero_ObjectMeta\<lparr>om_Namespace := run_Namespace obj,
       om_Labels := [(agentRunLabelPeerOf, sanitizeLabelValue (run_Name obj)),
         (agentRunLabelSourceKind, sanitizeLabelValue (src_Kind (spec_SourceRef (run_Spec obj)))),
         (agentRunLabelSourceName, sanitizeLabelValue (src_Name (spec_SourceRef (run_Spec obj)))),
         (agentRunLabelIntent, sanitizeLabelValue (intent_text (har_Intent (spec_Harness (run_Spec obj)))))],
       om_Annotations := [(agentRunAnnotationPeerOf, run_Name obj)]\<rparr>,
     run_Spec = zero_RunSpec\<lparr>spec_Purpose := spec_Purpose (run_Spec obj), spec_SourceRef := spec_SourceRef (run_Spec obj),
       spec_SourceUID := spec_SourceUID (run_Spec obj), spec_Prompt := prompt,
       spec_ProfileRef := Some \<lparr>nor_Name = profile, nor_Namespace = []\<rparr>,
       spec_Scope := spec_Scope (run_Spec obj), spec_CouncilRef := spec_CouncilRef (run_Spec obj)\<rparr>,
     run_Status = zero_RunStatus\<rparr>"

definition annotate :: "AgentRun \<Rightarrow> string \<Rightarrow> string \<Rightarrow> AgentRun" where
  "annotate run key v = run\<lparr>run_Meta := (run_Meta run)\<lparr>om_Annotations := map_set (run_Annotations run) key v\<rparr>\<rparr>"

text \<open>The patch updates the caller's object with the server's answer.\<close>

definition ensureRequestedPeerAgentRun ::
  "'w cluster \<Rightarrow> run_env \<Rightarrow> 'w \<Rightarrow> AgentRun \<Rightarrow> AgentRunStatus \<Rightarrow> go_error option \<times> AgentRun \<times> 'w" where
  "ensureRequestedPeerAgentRun cl r w obj status =
     (if TrimSpace (map_get (run_Annotations obj) agentRunAnnotationPeerRun) \<noteq> [] then (None, obj, w)
      else (let profile = peer_profile (env_JSON r) obj status in
        if profile = [] then (None, obj, w)
        else (case cl_CreateRun cl w (sanitizeLabelValue (run_Name obj) @ ''-peer-'')
                (peer_run obj profile (peer_prompt (env_JSON r) obj status)) of
          (Inl e, w) \<Rightarrow>
            (Some (Wrapf (''create peer AgentRun for '' @ run_Namespace obj @ ''/'' @ run_Name obj) e), obj, w)
        | (Inr peer, w) \<Rightarrow>
            (let new = annotate obj agentRunAnnotationPeerRun (run_Name peer) in
             case cl_PatchRun cl w obj new of
               (Inl e, w) \<Rightarrow>
                 (Some (Wrapf (''record peer AgentRun '' @ run_Name peer @ '' on '' @ run_Namespace obj @ ''/'' @ run_Name obj) e), new, w)
             | (Inr patched, w) \<Rightarrow> (None, patched, w)))))"

subsection \<open>Duplicates\<close>

definition is_duplicate :: "AgentRun \<Rightarrow> string \<Rightarrow> AgentRun \<Rightarrow> bool" where
  "is_duplicate obj target peer =
     (if run_Name peer = run_Name obj then False
      else if target \<noteq> [] \<and> run_Name peer \<noteq> target then False
      else if target = [] \<and> TrimSpace (src_Name (spec_SourceRef (run_Spec peer))) \<noteq> TrimSpace (src_Name (spec_SourceRef (run_Spec obj))) then False
      else run_Phase peer = AgentRunPhaseRunning \<or> run_Phase peer = AgentRunPhasePending)"

definition interrupted :: "'w cluster \<Rightarrow> instant \<Rightarrow> string \<Rightarrow> AgentRun \<Rightarrow> AgentRun" where
  "interrupted cl now summary peer =
     (let error = ''interruptDuplicate: '' @ summary in
      peer\<lparr>run_Status := ready_condition cl peer ConditionFalse now ''InterruptDuplicate'' error
        ((run_Status peer)\<lparr>rs_Phase := AgentRunPhaseFailed, rs_CompletedAt := Some now, rs_Error := error,
           rs_Decision := Some \<lparr>dec_Classification = ''duplicate work'', dec_Action = agentRunDecisionInterruptDuplicate,
             dec_Summary = summary, dec_ResidualRisk = []\<rparr>\<rparr>)\<rparr>)"

fun interrupt_peers :: "'w cluster \<Rightarrow> instant \<Rightarrow> AgentRun \<Rightarrow> string \<Rightarrow> string \<Rightarrow> AgentRun list \<Rightarrow> 'w \<Rightarrow> go_error option \<times> 'w" where
  "interrupt_peers cl now obj target summary [] w = (None, w)"
| "interrupt_peers cl now obj target summary (peer # peers) w =
     (if \<not> is_duplicate obj target peer then interrupt_peers cl now obj target summary peers w
      else (case cl_PatchRun cl w peer (annotate peer agentRunAnnotationInterruptDuplicate (run_Name obj)) of
        (Inl e, w) \<Rightarrow>
          if IsConflict e then interrupt_peers cl now obj target summary peers w
          else (Some (Wrapf (''record interrupt-duplicate on AgentRun '' @ run_Namespace peer @ ''/'' @ run_Name peer) e), w)
      | (Inr patched, w) \<Rightarrow>
          (case k_GetRun (rd_Kube (cl_cache cl)) w (run_Namespace patched) (run_Name patched) of
             Inl e \<Rightarrow> (Some (Wrapf (''reload interrupted AgentRun '' @ run_Namespace patched @ ''/'' @ run_Name patched) e), w)
           | Inr current \<Rightarrow>
               (case cl_PatchRunStatus cl w False current (interrupted cl now summary current) of
                  (Inl e, w) \<Rightarrow>
                    if IsConflict e then interrupt_peers cl now obj target summary peers w
                    else (Some (Wrapf (''interrupt duplicate AgentRun '' @ run_Namespace current @ ''/'' @ run_Name current) e), w)
                | (Inr _, w) \<Rightarrow> interrupt_peers cl now obj target summary peers w))))"

definition interruptDuplicatePeerRuns ::
  "'w cluster \<Rightarrow> run_env \<Rightarrow> instant \<Rightarrow> 'w \<Rightarrow> AgentRun \<Rightarrow> AgentRunStatus \<Rightarrow> go_error option \<times> 'w" where
  "interruptDuplicatePeerRuns cl r now w obj status =
     (let target = agentRunDecisionFieldFromOutput (env_JSON r) (rs_Output status) agentRunDecisionInterruptDuplicate [''duplicateRunName''] in
      case k_ListRuns (rd_Kube (cl_cache cl)) w (Some (run_Namespace obj)) [] of
        Inl e \<Rightarrow> (Some (Wrapf ''list AgentRuns to interrupt duplicates'' e), w)
      | Inr runs \<Rightarrow>
          interrupt_peers cl now obj target
            (if decision_summary status = [] then ''duplicate work'' else decision_summary status) runs w)"

definition reconcileMidRunPeerDecisions ::
  "'w cluster \<Rightarrow> run_env \<Rightarrow> instant \<Rightarrow> 'w \<Rightarrow> AgentRun \<Rightarrow> AgentRunStatus \<Rightarrow> go_error option \<times> AgentRun \<times> 'w" where
  "reconcileMidRunPeerDecisions cl r now w obj status =
     (case rs_Decision status of
        None \<Rightarrow> (None, obj, w)
      | Some decision \<Rightarrow>
          if TrimSpace (dec_Action decision) = agentRunDecisionRequestPeer then ensureRequestedPeerAgentRun cl r w obj status
          else if TrimSpace (dec_Action decision) = agentRunDecisionInterruptDuplicate
          then (case interruptDuplicatePeerRuns cl r now w obj status of (e, w) \<Rightarrow> (e, obj, w))
          else (None, obj, w))"

subsection \<open>An interrupted run\<close>

definition agentRunInterruptDuplicateRequester :: "AgentRun \<Rightarrow> string" where
  "agentRunInterruptDuplicateRequester obj = TrimSpace (map_get (run_Annotations obj) agentRunAnnotationInterruptDuplicate)"

definition agentRunStatusShowsInterruptDuplicate :: "AgentRunStatus \<Rightarrow> bool" where
  "agentRunStatusShowsInterruptDuplicate status \<longleftrightarrow>
     HasPrefix (TrimSpace (rs_Error status)) ''interruptDuplicate:'' \<or>
     list_ex (\<lambda>c. cond_Type c = agentRunReady \<and> cond_Reason c = ''InterruptDuplicate'') (rs_Conditions status)"

text \<open>The requester of the interruption, \<open>Some []\<close> where only the status shows it.\<close>

definition agentRunInterruptDuplicateHold :: "AgentRun \<Rightarrow> string option" where
  "agentRunInterruptDuplicateHold obj =
     (if agentRunInterruptDuplicateRequester obj \<noteq> [] then Some (agentRunInterruptDuplicateRequester obj)
      else if agentRunStatusShowsInterruptDuplicate (run_Status obj) then Some []
      else None)"

definition hold_message :: "AgentRun \<Rightarrow> string \<Rightarrow> string" where
  "hold_message obj requester =
     (let message = TrimSpace (rs_Error (run_Status obj)) in
      if HasPrefix message ''interruptDuplicate:'' then message
      else if requester \<noteq> []
      then ''interruptDuplicate: duplicate work requested by AgentRun '' @ run_Namespace obj @ ''/'' @ requester
      else ''interruptDuplicate: duplicate work'')"

definition hold_decision :: "string \<Rightarrow> AgentRunDecisionStatus option \<Rightarrow> AgentRunDecisionStatus" where
  "hold_decision message decision =
     (let summary = TrimSpace (TrimPrefix message ''interruptDuplicate:'');
          fresh = \<lparr>dec_Classification = ''duplicate work'', dec_Action = agentRunDecisionInterruptDuplicate,
            dec_Summary = (if summary = [] then ''duplicate work'' else summary), dec_ResidualRisk = []\<rparr> in
      case decision of
        None \<Rightarrow> fresh
      | Some d \<Rightarrow> if TrimSpace (dec_Action d) \<noteq> agentRunDecisionInterruptDuplicate then fresh else d)"

definition held_run :: "'w cluster \<Rightarrow> instant \<Rightarrow> AgentRun \<Rightarrow> string \<Rightarrow> AgentRun" where
  "held_run cl now obj requester =
     (let message = hold_message obj requester in
      obj\<lparr>run_Status := ready_condition cl obj ConditionFalse now ''InterruptDuplicate'' message
        ((run_Status obj)\<lparr>rs_Phase := AgentRunPhaseFailed, rs_CompletedAt := Some now, rs_Error := message,
           rs_Decision := Some (hold_decision message (rs_Decision (run_Status obj)))\<rparr>)\<rparr>)"

definition reconcileAgentRunInterruptDuplicateHold ::
  "'w cluster \<Rightarrow> run_env \<Rightarrow> instant \<Rightarrow> (nat \<Rightarrow> instant) \<Rightarrow> 'w \<Rightarrow> AgentRun \<Rightarrow> string \<Rightarrow> 'w reconciled" where
  "reconcileAgentRunInterruptDuplicateHold cl r now clk w obj requester =
     (case patch_run cl w obj (held_run cl now obj requester) no_requeue of
        (Inl e, obj, w) \<Rightarrow> (Inl e, w)
      | (Inr result, obj, w) \<Rightarrow>
          (case k_GetRun (rd_Kube (cl_cache cl)) w (run_Namespace obj) (run_Name obj) of
             Inl e \<Rightarrow> (Inl e, w)
           | Inr current \<Rightarrow>
               (case reconcileTerminalAgentRun cl r clk w current of
                  (Inl e, w) \<Rightarrow> (Inl e, w)
                | (Inr _, w) \<Rightarrow> (Inr result, w))))"

subsection \<open>What a request can do\<close>

text \<open>\<open>listed\<close>: the runs of a namespace that the cache lists. \<open>keyed_runs\<close>: a read returns the run of the key that was asked for,
  and a patched run keeps its key.\<close>

definition listed :: "'w cluster \<Rightarrow> 'w \<Rightarrow> string \<Rightarrow> AgentRun \<Rightarrow> bool" where
  "listed cl w ns run \<longleftrightarrow> (\<exists>runs. k_ListRuns (rd_Kube (cl_cache cl)) w (Some ns) [] = Inr runs \<and> run \<in> set runs)"

definition keyed_runs :: "'w cluster \<Rightarrow> bool" where
  "keyed_runs cl \<longleftrightarrow>
     (\<forall>w ns n run. k_GetRun (rd_Kube (cl_cache cl)) w ns n = Inr run \<longrightarrow> run_Namespace run = ns \<and> run_Name run = n) \<and>
     (\<forall>w a b c w'. cl_PatchRun cl w a b = (Inr c, w') \<longrightarrow> run_Namespace c = run_Namespace b \<and> run_Name c = run_Name b)"

fun interrupt_write :: "'w cluster \<Rightarrow> (AgentRun \<Rightarrow> bool) \<Rightarrow> AgentRun \<Rightarrow> cluster_event \<Rightarrow> bool" where
  "interrupt_write cl L obj (PatchedRun old new ans) \<longleftrightarrow>
     L old \<and> (\<exists>target. is_duplicate obj target old) \<and> new = annotate old agentRunAnnotationInterruptDuplicate (run_Name obj)"
| "interrupt_write cl L obj (PatchedRunStatus lock old new ans) \<longleftrightarrow> (\<exists>now summary. new = interrupted cl now summary old) \<and>
     (keyed_runs cl \<longrightarrow> (\<exists>peer target. L peer \<and> is_duplicate obj target peer \<and>
        run_Namespace peer = run_Namespace old \<and> run_Name peer = run_Name old))"
| "interrupt_write cl L obj ev \<longleftrightarrow> False"

lemma interrupted_logged [simp]: "interrupted (logged cl) now summary peer = interrupted cl now summary peer"
  by (simp add: interrupted_def ready_condition_def)

lemma annotate_key [simp]: "run_Name (annotate run key v) = run_Name run" "run_Namespace (annotate run key v) = run_Namespace run"
  by (simp_all add: annotate_def)

lemma reloaded_key:
  assumes "keyed_runs cl" "cl_PatchRun cl w peer (annotate peer key v) = (Inr patched, u)"
    and "k_GetRun (rd_Kube (cl_cache cl)) u' (run_Namespace patched) (run_Name patched) = Inr current"
  shows "run_Namespace peer = run_Namespace current" "run_Name peer = run_Name current"
proof -
  have "run_Namespace patched = run_Namespace (annotate peer key v)" "run_Name patched = run_Name (annotate peer key v)"
    "run_Namespace current = run_Namespace patched" "run_Name current = run_Name patched"
    using assms unfolding keyed_runs_def by blast+
  then show "run_Namespace peer = run_Namespace current" "run_Name peer = run_Name current" by simp_all
qed

lemma interrupt_peers_writes:
  "interrupt_peers (logged cl) now obj target summary peers x = (e, y) \<Longrightarrow> \<forall>peer \<in> set peers. L peer \<Longrightarrow>
    extends (interrupt_write cl L obj) x y"
proof (induction peers arbitrary: x)
  case Nil
  then show ?case by simp
next
  case (Cons peer peers)
  let ?P = "interrupt_write cl L obj"
  have IH: "interrupt_peers (logged cl) now obj target summary peers u = (e, y) \<Longrightarrow> extends ?P u y" for u
    using Cons by simp
  show ?case
  proof (cases "is_duplicate obj target peer")
    case False
    then show ?thesis using Cons by simp
  next
    case True
    let ?new = "annotate peer agentRunAnnotationInterruptDuplicate (run_Name obj)"
    obtain w l where x: "x = (w, l)" by (cases x)
    obtain ans u where u: "cl_PatchRun cl w peer ?new = (ans, u)"
      by (cases "cl_PatchRun cl w peer ?new")
    define z where "z = (u, l @ [PatchedRun peer ?new ans])"
    have z: "cl_PatchRun (logged cl) x peer ?new = (ans, z)"
      by (simp add: x u noted_def z_def)
    have xz: "extends ?P x z"
      using z True Cons.prems(2) by (auto simp: logged_step intro!: noted_step)
    have status: "extends ?P z v"
      if "ans = Inr patched" "k_GetRun (rd_Kube (cl_cache (logged cl))) z (run_Namespace patched) (run_Name patched) = Inr current"
        "cl_PatchRunStatus (logged cl) z False current (interrupted cl now summary current) = (ans', v)" for patched current ans' v
    proof -
      have "k_GetRun (rd_Kube (cl_cache cl)) u (run_Namespace patched) (run_Name patched) = Inr current"
        using that(2) by (simp add: z_def)
      then have "keyed_runs cl \<Longrightarrow> run_Namespace peer = run_Namespace current \<and> run_Name peer = run_Name current"
        using reloaded_key [OF _ u [unfolded that(1)]] by blast
      then have "?P (PatchedRunStatus False current (interrupted cl now summary current) a)" for a
        using True Cons.prems(2) by auto
      then show ?thesis
        using noted_step [OF that(3) [unfolded logged_step]] by blast
    qed
    have "extends ?P z y"
      using Cons.prems(1) True z
      by (auto split: sum.splits prod.splits if_splits dest: IH status intro: extends_trans [OF status IH])
    then show ?thesis
      using xz extends_trans by blast
  qed
qed

lemma interrupt_writes:
  assumes "interruptDuplicatePeerRuns (logged cl) r now x obj status = (e, y)"
  shows "extends (interrupt_write cl (listed cl (fst x) (run_Namespace obj)) obj) x y"
proof (cases "k_ListRuns (rd_Kube (cl_cache cl)) (fst x) (Some (run_Namespace obj)) []")
  case (Inl err)
  then show ?thesis using assms by (cases x) (simp add: interruptDuplicatePeerRuns_def Let_def)
next
  case (Inr runs)
  then show ?thesis
    using assms by (cases x) (auto simp: interruptDuplicatePeerRuns_def Let_def listed_def intro: interrupt_peers_writes)
qed

definition request_log :: "'w cluster \<Rightarrow> run_env \<Rightarrow> instant \<Rightarrow> 'w \<Rightarrow> AgentRun \<Rightarrow> AgentRunStatus \<Rightarrow> cluster_event list" where
  "request_log cl r now w obj status = snd (snd (snd (reconcileMidRunPeerDecisions (logged cl) r now (w, []) obj status)))"

fun peer_write :: "'w cluster \<Rightarrow> (AgentRun \<Rightarrow> bool) \<Rightarrow> AgentRun \<Rightarrow> cluster_event \<Rightarrow> bool" where
  "peer_write cl L obj (CreatedRun g run ans) \<longleftrightarrow>
     TrimSpace (map_get (run_Annotations obj) agentRunAnnotationPeerRun) = [] \<and>
     (\<exists>profile prompt. profile \<noteq> [] \<and> run = peer_run obj profile prompt)"
| "peer_write cl L obj (PatchedRun old new ans) \<longleftrightarrow>
     interrupt_write cl L obj (PatchedRun old new ans) \<or> old = obj \<and> (\<exists>name. new = annotate obj agentRunAnnotationPeerRun name)"
| "peer_write cl L obj ev \<longleftrightarrow> interrupt_write cl L obj ev"

lemma peer_write_interrupt: "interrupt_write cl L obj ev \<Longrightarrow> peer_write cl L obj ev"
  by (cases ev) auto

lemma peer_writes:
  assumes "ensureRequestedPeerAgentRun (logged cl) r x obj status = (e, obj', y)"
  shows "extends (peer_write cl L obj) x y"
proof (cases "TrimSpace (map_get (run_Annotations obj) agentRunAnnotationPeerRun) = [] \<and> peer_profile (env_JSON r) obj status \<noteq> []")
  case False
  then show ?thesis
    using assms by (auto simp: ensureRequestedPeerAgentRun_def Let_def split: if_splits)
next
  case True
  let ?peer = "peer_run obj (peer_profile (env_JSON r) obj status) (peer_prompt (env_JSON r) obj status)"
  obtain ans z where z: "cl_CreateRun (logged cl) x (sanitizeLabelValue (run_Name obj) @ ''-peer-'') ?peer = (ans, z)"
    by (cases "cl_CreateRun (logged cl) x (sanitizeLabelValue (run_Name obj) @ ''-peer-'') ?peer")
  have xz: "extends (peer_write cl L obj) x z"
    using z True by (auto simp: logged_step intro!: noted_step) blast
  have patched: "extends (peer_write cl L obj) z u"
    if "cl_PatchRun (logged cl) z obj (annotate obj agentRunAnnotationPeerRun name) = (ans', u)" for name ans' u
    using that by (auto simp: logged_step intro!: noted_step)
  have "extends (peer_write cl L obj) z y"
    using assms True z
    by (auto simp: ensureRequestedPeerAgentRun_def Let_def split: sum.splits prod.splits dest: patched)
  then show ?thesis
    using xz extends_trans by blast
qed

lemma request_writes:
  assumes "reconcileMidRunPeerDecisions (logged cl) r now x obj status = (e, obj', y)"
  shows "extends (peer_write cl (listed cl (fst x) (run_Namespace obj)) obj) x y"
  using assms
  by (auto simp: reconcileMidRunPeerDecisions_def split: option.splits if_splits prod.splits
      intro: peer_writes extends_mono [OF interrupt_writes peer_write_interrupt])

lemma no_run_created: "list_all (interrupt_write cl L obj) t \<Longrightarrow> created_runs t = []"
  by (induction t) (auto split: cluster_event.splits)

lemma no_job_created: "list_all (peer_write cl L obj) t \<Longrightarrow> created_jobs t = []"
  by (induction t) (auto split: cluster_event.splits)

lemma peer_created_once:
  assumes "ensureRequestedPeerAgentRun (logged cl) r (w, []) obj status = (e, obj', y)"
  shows "length (created_runs (snd y)) \<le> 1"
  using assms
  by (auto simp: ensureRequestedPeerAgentRun_def Let_def noted_def split: if_splits sum.splits prod.splits)

lemma request_creates_once: "length (created_runs (request_log cl r now w obj status)) \<le> 1"
proof -
  obtain e obj' y where y: "reconcileMidRunPeerDecisions (logged cl) r now (w, []) obj status = (e, obj', y)"
    by (metis prod.collapse)
  have "length (created_runs (snd y')) \<le> 1"
    if "interruptDuplicatePeerRuns (logged cl) r now (w, []) obj status = (e', y')" for e' y'
    using interrupt_writes [OF that] no_run_created by (fastforce simp: extends_def)
  then show ?thesis
    using y by (auto simp: request_log_def reconcileMidRunPeerDecisions_def
        split: option.splits if_splits prod.splits dest!: peer_created_once)
qed


definition demo_asking :: AgentRunStatus where
  "demo_asking = zero_RunStatus\<lparr>rs_Decision := Some \<lparr>dec_Classification = [], dec_Action = ''requestPeer'', dec_Summary = ''look'', dec_ResidualRisk = []\<rparr>,
     rs_Reports := [demo_progress\<lparr>rep_Detail := ''profile=fix; now''\<rparr>]\<rparr>"

lemma demo_peer_profile: "peer_profile demo_json demo_volume_run demo_asking = ''fix''"
  by code_simp

lemma request_creates:
  assumes "TrimSpace (map_get (run_Annotations obj) agentRunAnnotationPeerRun) = []" "rs_Decision status = Some d"
    and "TrimSpace (dec_Action d) = agentRunDecisionRequestPeer" "peer_profile (env_JSON r) obj status \<noteq> []"
  shows "\<exists>g run ans. CreatedRun g run ans \<in> set (request_log cl r now w obj status)"
proof -
  let ?g = "sanitizeLabelValue (run_Name obj) @ ''-peer-''"
  let ?peer = "peer_run obj (peer_profile (env_JSON r) obj status) (peer_prompt (env_JSON r) obj status)"
  obtain ans z where "cl_CreateRun cl w ?g ?peer = (ans, z)"
    by fastforce
  then have "CreatedRun ?g ?peer ans \<in> set (request_log cl r now w obj status)"
    using assms
    by (cases ans) (auto simp: request_log_def reconcileMidRunPeerDecisions_def ensureRequestedPeerAgentRun_def noted_def Let_def
        split: sum.splits prod.splits)
  then show ?thesis
    by blast
qed

lemma demo_asking_creates: "\<exists>g run ans. CreatedRun g run ans \<in> set (request_log demo_cluster demo_run_env 5 demo_ready_state demo_volume_run demo_asking)"
proof (rule request_creates)
  show "TrimSpace (map_get (run_Annotations demo_volume_run) agentRunAnnotationPeerRun) = []"
    by code_simp
  show "rs_Decision demo_asking = Some \<lparr>dec_Classification = [], dec_Action = ''requestPeer'', dec_Summary = ''look'', dec_ResidualRisk = []\<rparr>"
    by (simp add: demo_asking_def)
  show "TrimSpace (dec_Action \<lparr>dec_Classification = [], dec_Action = ''requestPeer'', dec_Summary = ''look'', dec_ResidualRisk = []\<rparr>) =
      agentRunDecisionRequestPeer"
    by code_simp
  show "peer_profile (env_JSON demo_run_env) demo_volume_run demo_asking \<noteq> []"
    by (simp add: demo_run_env_def demo_peer_profile)
qed


subsection \<open>A held run\<close>

text \<open>Holding a run ends it again at every reconciliation: the completion time is always the present.\<close>

lemma held_run_fields:
  "run_Phase (held_run cl now obj requester) = AgentRunPhaseFailed"
  "rs_CompletedAt (run_Status (held_run cl now obj requester)) = Some now"
  "rs_Archive (run_Status (held_run cl now obj requester)) = rs_Archive (run_Status obj)"
  "run_Spec (held_run cl now obj requester) = run_Spec obj"
  "run_Meta (held_run cl now obj requester) = run_Meta obj"
  by (simp_all add: held_run_def ready_condition_def Let_def)

lemma held_run_logged [simp]: "held_run (logged cl) now obj q = held_run cl now obj q"
  by (simp add: held_run_def ready_condition_def)

lemma hold_writes:
  assumes "reconcileAgentRunInterruptDuplicateHold (logged cl) r now clk x obj q = (res, y)"
  shows "extends (\<lambda>ev. (\<exists>ans. ev = PatchedRunStatus False obj (held_run cl now obj q) ans) \<or>
    (\<exists>run. terminal_write r (clk 1) run ev)) x y"
proof -
  let ?P = "\<lambda>ev. (\<exists>ans. ev = PatchedRunStatus False obj (held_run cl now obj q) ans) \<or> (\<exists>run. terminal_write r (clk 1) run ev)"
  obtain result obj' z where z: "patch_run (logged cl) x obj (held_run cl now obj q) no_requeue = (result, obj', z)"
    by (metis prod.collapse)
  have xz: "extends ?P x z"
    by (rule patch_run_step [OF z]) blast
  have terminal: "extends ?P z u" if "reconcileTerminalAgentRun (logged cl) r clk z current = (res', u)" for current res' u
    by (rule extends_mono [OF terminal_writes [OF that]]) blast
  have "extends ?P z y"
    using assms z
    by (auto simp: reconcileAgentRunInterruptDuplicateHold_def split: sum.splits prod.splits dest: terminal)
  then show ?thesis
    using xz extends_trans by blast
qed

lemma record_phase:
  "NewAgentRunArchiveRecord aj now run at = Inr row \<Longrightarrow> ark_Phase row = TrimSpace (phase_text (run_Phase run))"
  by (auto simp: NewAgentRunArchiveRecord_def NormalizeAgentRunArchiveRecord_def trim_record_def archive_fields_def Let_def
      split: sum.splits if_splits)

text \<open>
  C39. A held run can be archived before it has ended. A run that is held as a duplicate is read back from the cache after the
  patch that ends it. Suppose the cache still has the unfinished run, without a complete archive receipt, an archive is configured,
  the preparation of the Job of the run does not fail, and the record of the run as read can be built. Then the archive is asked to
  store that record, which has the unfinished phase although the status just written says Failed; and when the archive stores it, its
  receipt is written to the status of the run.
\<close>

theorem stale_hold_archives_unfinished_run:
  assumes patch: "cl_PatchRunStatus cl w False obj (held_run cl now obj q) = (Inr patched, w1)"
    and stale: "k_GetRun (rd_Kube (cl_cache cl)) w1 (run_Namespace patched) (run_Name patched) = Inr obj"
    and open_run: "\<not> agentRunPhaseTerminal (run_Phase obj)" "\<not> agentRunArchived obj"
    and prepared: "ensureTerminalAgentRunJobTTL (logged cl) (suspendSubstrateActorOnTerminal (logged cl) r
      (w1, [PatchedRunStatus False obj (held_run cl now obj q) (Inr patched)]) obj) obj = (None, x)"
    and archive: "cl_ArchiveAgentRun cl = Some store" and row: "NewAgentRunArchiveRecord (env_ArchiveJSON r) (clk 0) obj (clk 0) = Inr row"
  shows "let log = writes (reconcileAgentRunInterruptDuplicateHold (logged cl) r now clk (w, []) obj q) in
    \<exists>ans. ArchivedRun row ans \<in> set log \<and> ark_Phase row = TrimSpace (phase_text (run_Phase obj)) \<and>
      run_Phase (held_run cl now obj q) = AgentRunPhaseFailed \<and>
      (\<forall>result. ans = Inr result \<longrightarrow> (\<exists>a. PatchedRunStatus False obj (with_archive obj \<lparr>arc_Store = ar_Store result,
         arc_ArchivedAt = Some (ar_ArchivedAt result), arc_Digest = ar_Digest result, arc_Error = []\<rparr>) a \<in> set log))"
proof -
  obtain w2 l where x: "x = (w2, l)" by (cases x)
  obtain ans w3 where ans: "store w2 row = (ans, w3)" by (cases "store w2 row")
  define y where "y = archiveTerminalAgentRun (logged cl) r (\<lambda>(w, l) row. noted (ArchivedRun row) (store w row) l) clk (w2, l) obj"
  have "reconcileTerminalAgentRun (logged cl) r clk (w1, [PatchedRunStatus False obj (held_run cl now obj q) (Inr patched)]) obj = y"
    using open_run(2) prepared x archive by (simp add: reconcileTerminalAgentRun_def y_def)
  then have "writes (reconcileAgentRunInterruptDuplicateHold (logged cl) r now clk (w, []) obj q) = writes y"
    using patch stale
    by (cases y) (auto simp: reconcileAgentRunInterruptDuplicateHold_def patch_run_def writes_def split: sum.splits)
  moreover have "ArchivedRun row ans \<in> set (writes y) \<and>
      (\<forall>result. ans = Inr result \<longrightarrow> (\<exists>a. PatchedRunStatus False obj (with_archive obj \<lparr>arc_Store = ar_Store result,
         arc_ArchivedAt = Some (ar_ArchivedAt result), arc_Digest = ar_Digest result, arc_Error = []\<rparr>) a \<in> set (writes y)))"
    unfolding y_def using row ans
    by (auto simp: archiveTerminalAgentRun_def archive_failed_def patch_run_def noted_def writes_def split: sum.splits prod.splits)
  ultimately show ?thesis
    unfolding Let_def by (intro exI [of _ ans]) (simp add: record_phase [OF row] held_run_fields(1))
qed

definition demo_unfinished :: AgentRun where
  "demo_unfinished = demo_finished_run\<lparr>run_Status := (run_Status demo_finished_run)\<lparr>rs_Phase := AgentRunPhaseRunning\<rparr>\<rparr>"

text \<open>A cluster whose cache has not seen the patch yet.\<close>

definition demo_lagging :: "mem_cluster_state cluster" where
  "demo_lagging = demo_cluster\<lparr>cl_cache := mem_reader\<lparr>rd_Kube := (rd_Kube mem_reader)\<lparr>k_GetRun := (\<lambda>w ns n. Inr demo_unfinished)\<rparr>\<rparr>\<rparr>"

definition demo_held_state :: mem_cluster_state where
  "demo_held_state = runs_update (\<lambda>_. [demo_unfinished]) demo_ready_state"

lemma demo_unfinished_record: "\<exists>row. NewAgentRunArchiveRecord demo_archive_json now demo_unfinished 9 = Inr row"
proof -
  have "TrimSpace ''team'' \<noteq> []" "TrimSpace ''r'' \<noteq> []" "TrimSpace ''u'' \<noteq> []" "TrimSpace ''Running'' \<noteq> []" by code_simp+
  then show ?thesis
    by (simp add: NewAgentRunArchiveRecord_def NormalizeAgentRunArchiveRecord_def agentRunArchiveDigest_def archive_fields_def
        trim_record_def marshalled_def demo_archive_json_def demo_finished_run_def demo_unfinished_def Let_def split: option.split)
qed

theorem stale_hold_archives_unfinished_run_witness:
  "\<exists>row ans. ArchivedRun row ans \<in> set (writes (reconcileAgentRunInterruptDuplicateHold (logged demo_lagging) demo_run_env 7 (\<lambda>_. 9)
       (demo_held_state, []) demo_unfinished ''other'')) \<and> ark_Phase row = ''Running''"
proof -
  obtain row where row: "NewAgentRunArchiveRecord demo_archive_json 9 demo_unfinished 9 = Inr row"
    using demo_unfinished_record by blast
  obtain patched w1 where patched: "cl_PatchRunStatus demo_lagging demo_held_state False demo_unfinished (held_run demo_lagging 7 demo_unfinished ''other'') =
      (Inr patched, w1)"
    by (simp add: demo_lagging_def mem_patch_run_status_def demo_held_state_def runs_update_def keyed_def Let_def)
  have reads: "k_GetRun (rd_Kube (cl_cache demo_lagging)) w1 (run_Namespace patched) (run_Name patched) = Inr demo_unfinished"
    by (simp add: demo_lagging_def)
  have facts: "\<not> agentRunPhaseTerminal (run_Phase demo_unfinished)" "rs_JobRef (run_Status demo_unfinished) = None"
    "\<not> UsesSubstrateActors (run_execution demo_unfinished)" "\<not> agentRunArchived demo_unfinished"
    "TrimSpace (phase_text (run_Phase demo_unfinished)) = ''Running''"
    by code_simp+
  have store: "\<exists>store. cl_ArchiveAgentRun demo_lagging = Some store"
    by (simp add: demo_lagging_def mem_cluster_def)
  then obtain store where store: "cl_ArchiveAgentRun demo_lagging = Some store"
    by blast
  have "NewAgentRunArchiveRecord (env_ArchiveJSON demo_run_env) 9 demo_unfinished 9 = Inr row"
    using row by (simp add: demo_run_env_def)
  moreover have "ensureTerminalAgentRunJobTTL (logged demo_lagging) (suspendSubstrateActorOnTerminal (logged demo_lagging) demo_run_env x demo_unfinished)
      demo_unfinished = (None, x)" for x
    using facts(2,3) by (simp add: suspendSubstrateActorOnTerminal_def ensureTerminalAgentRunJobTTL_def)
  ultimately show ?thesis
    using stale_hold_archives_unfinished_run [OF patched reads facts(1,4) _ store, where r = demo_run_env and clk = "\<lambda>_. 9"] facts(5)
    by (metis (no_types, lifting))
qed

end
