(* ===== verification/SecretRefresh.thy ===== *)
theory SecretRefresh
  imports RunPeers
begin

text \<open>
  The credential preflight of a run, \<^verbatim>\<open>ensureAgentRunExternalSecretFreshness\<close> of \<^verbatim>\<open>agent_run_controller.go\<close>:
  every \<^verbatim>\<open>ExternalSecret\<close> the run names is asked once for a provider refresh, and the Job waits until the
  refresh is seen, or until a recent one has stayed healthy for a grace period. The four
  readings of the clock for the \<open>n\<close>-th reference are \<open>clk (4 * n)\<close> to \<open>clk (4 * n + 3)\<close>.
\<close>

definition agentRunExternalSecretRefreshPollInterval :: duration where "agentRunExternalSecretRefreshPollInterval = 2 * Second"
definition agentRunExternalSecretRefreshTimeout :: duration where "agentRunExternalSecretRefreshTimeout = 120 * Second"
definition agentRunExternalSecretHealthyMaxAge :: duration where "agentRunExternalSecretHealthyMaxAge = 900 * Second"
definition agentRunExternalSecretHealthyAcceptAfter :: duration where "agentRunExternalSecretHealthyAcceptAfter = 10 * Second"

text \<open>\<^verbatim>\<open>t.UnixNano()\<close>: the instants of the model count from the year 1.\<close>

definition UnixNano :: "instant \<Rightarrow> int" where
  "UnixNano t = wrap64 (t - 62135596800 * Second)"

subsection \<open>The external secret\<close>

definition agentRunExternalSecretReady :: "ExternalSecret \<Rightarrow> bool \<times> string" where
  "agentRunExternalSecretReady obj =
     (case find (\<lambda>(type, status, message). type = ''Ready'') (xs_Conditions obj) of
        None \<Rightarrow> (False, [])
      | Some (type, status, message) \<Rightarrow>
          if status = ''True'' then (True, [])
          else (case message of Some m \<Rightarrow> (False, TrimSpace m) | None \<Rightarrow> (False, ''ExternalSecret Ready condition is not true'')))"

definition agentRunExternalSecretRefreshTime :: "run_env \<Rightarrow> ExternalSecret \<Rightarrow> instant option" where
  "agentRunExternalSecretRefreshTime r obj =
     (case xs_RefreshTime obj of
        None \<Rightarrow> None
      | Some v \<Rightarrow> if TrimSpace v = [] then None else env_TimeParse r v)"

definition nonblank :: "string option \<Rightarrow> string" where
  "nonblank v = (case v of None \<Rightarrow> [] | Some s \<Rightarrow> TrimSpace s)"

definition agentRunExternalSecretTargetName :: "ExternalSecret \<Rightarrow> string \<Rightarrow> string" where
  "agentRunExternalSecretTargetName obj fallback =
     (if nonblank (xs_BindingName obj) \<noteq> [] then nonblank (xs_BindingName obj)
      else if nonblank (xs_TargetName obj) \<noteq> [] then nonblank (xs_TargetName obj)
      else fallback)"

definition agentRunExternalSecretRefreshDetail :: "string \<Rightarrow> string" where
  "agentRunExternalSecretRefreshDetail message = (let m = TrimSpace message in if m \<noteq> [] then '': '' @ m else [])"

subsection \<open>The request a run has recorded\<close>

definition same_refresh :: "string \<Rightarrow> string \<Rightarrow> string \<Rightarrow> AgentRunExternalSecretRefreshStatus \<Rightarrow> bool" where
  "same_refresh name namespace targetSecret entry \<longleftrightarrow>
     ess_Name entry = name \<and> ess_Namespace entry = namespace \<and> ess_TargetSecret entry = targetSecret"

definition agentRunExternalSecretRefreshStatus ::
  "AgentRunStatus \<Rightarrow> string \<Rightarrow> string \<Rightarrow> string \<Rightarrow> AgentRunExternalSecretRefreshStatus option" where
  "agentRunExternalSecretRefreshStatus status name namespace targetSecret =
     find (same_refresh name namespace targetSecret) (rs_ExternalSecretRefreshes status)"

text \<open>\<^verbatim>\<open>entry.RefreshedAt = &observedAt\<close> on the first entry of the secret.\<close>

fun mark_refreshed ::
  "string \<Rightarrow> string \<Rightarrow> string \<Rightarrow> instant \<Rightarrow> AgentRunExternalSecretRefreshStatus list \<Rightarrow> AgentRunExternalSecretRefreshStatus list" where
  "mark_refreshed name namespace targetSecret t [] = []"
| "mark_refreshed name namespace targetSecret t (entry # entries) =
     (if same_refresh name namespace targetSecret entry then entry\<lparr>ess_RefreshedAt := Some t\<rparr> # entries
      else entry # mark_refreshed name namespace targetSecret t entries)"

definition agentRunExternalSecretRefreshTimedOut :: "AgentRunExternalSecretRefreshStatus \<Rightarrow> instant \<Rightarrow> bool" where
  "agentRunExternalSecretRefreshTimedOut entry now \<longleftrightarrow>
     ess_RefreshedAt entry = None \<and>
     (case ess_RequestedAt entry of None \<Rightarrow> False | Some t \<Rightarrow> time_sub now t \<ge> agentRunExternalSecretRefreshTimeout)"

definition agentRunExternalSecretRefreshChanged :: "AgentRunExternalSecretRefreshStatus \<Rightarrow> instant \<Rightarrow> bool" where
  "agentRunExternalSecretRefreshChanged entry refreshTime =
     (case ess_PreviousRefreshTime entry of
        Some previous \<Rightarrow> previous < refreshTime
      | None \<Rightarrow> (case ess_RequestedAt entry of None \<Rightarrow> False | Some t \<Rightarrow> \<not> refreshTime < time_trunc t Second))"

definition agentRunExternalSecretRefreshStale :: "instant \<Rightarrow> instant \<Rightarrow> bool" where
  "agentRunExternalSecretRefreshStale refreshTime now =
     (if refreshTime = 0 \<or> now = 0 then True else time_sub now refreshTime > agentRunExternalSecretHealthyMaxAge)"

definition agentRunExternalSecretAcceptHealthyStable :: "AgentRunExternalSecretRefreshStatus \<Rightarrow> instant \<Rightarrow> instant \<Rightarrow> bool" where
  "agentRunExternalSecretAcceptHealthyStable entry refreshTime now =
     (case ess_RequestedAt entry of
        None \<Rightarrow> False
      | Some t \<Rightarrow>
          if refreshTime = 0 then False
          else if agentRunExternalSecretRefreshStale refreshTime now then False
          else \<not> now < t + agentRunExternalSecretHealthyAcceptAfter)"

subsection \<open>The preflight\<close>

type_synonym freshness = "(bool \<times> AgentRunPhase \<times> string \<times> string) result"

definition force_sync :: "AgentRun \<Rightarrow> instant \<Rightarrow> ExternalSecret \<Rightarrow> ExternalSecret" where
  "force_sync obj now x =
     x\<lparr>xs_Meta := (xs_Meta x)\<lparr>om_Annotations := map_set (om_Annotations (xs_Meta x)) ''force-sync''
        (''agentrun-'' @ run_UID obj @ ''-'' @ Itoa (UnixNano now))\<rparr>\<rparr>"

definition refresh_request ::
  "'w cluster \<Rightarrow> run_env \<Rightarrow> AgentRun \<Rightarrow> instant \<Rightarrow> AgentRunStatus \<Rightarrow> string \<Rightarrow> string \<Rightarrow> ExternalSecret \<Rightarrow> 'w \<Rightarrow>
     freshness \<times> AgentRunStatus \<times> 'w" where
  "refresh_request cl r obj now status name targetSecret x w =
     (let namespace = run_Namespace obj in
      case cl_UpdateExternalSecret cl w (force_sync obj now x) of
        (Some e, w) \<Rightarrow> (Inl (Wrapf (''request ExternalSecret refresh '' @ namespace @ ''/'' @ name) e), status, w)
      | (None, w) \<Rightarrow>
          (Inr (False, AgentRunPhasePending, ''ExternalSecretRefreshRequested'',
             ''Requested a fresh provider reconciliation for ExternalSecret '' @ namespace @ ''/'' @ name @
             '' before creating the AgentRun Job.''),
           status\<lparr>rs_ExternalSecretRefreshes := rs_ExternalSecretRefreshes status @
             [\<lparr>ess_Name = name, ess_Namespace = namespace, ess_TargetSecret = targetSecret, ess_RequestedAt = Some now,
               ess_PreviousRefreshTime = agentRunExternalSecretRefreshTime r x, ess_RefreshedAt = None\<rparr>]\<rparr>, w))"

definition waiting :: "string \<Rightarrow> string \<Rightarrow> freshness" where
  "waiting reason message = Inr (False, AgentRunPhasePending, reason, message)"

definition refused :: "string \<Rightarrow> string \<Rightarrow> freshness" where
  "refused reason message = Inr (False, AgentRunPhaseFailed, reason, message)"

text \<open>What the preflight answers while the refresh has not been seen.\<close>

definition refresh_pending ::
  "(nat \<Rightarrow> instant) \<Rightarrow> nat \<Rightarrow> string \<Rightarrow> AgentRunExternalSecretRefreshStatus \<Rightarrow> bool \<Rightarrow> string \<Rightarrow> bool \<Rightarrow> instant option \<Rightarrow> string \<Rightarrow>
     freshness" where
  "refresh_pending clk n targetKey entry ready readyMessage secretExists refreshTime text =
     (if agentRunExternalSecretRefreshTimedOut entry (clk (4 * n + 2))
      then refused ''ExternalSecretRefreshTimedOut'' (text @ '' did not report a fresh target Secret within 2m0s.'')
      else if \<not> ready
      then waiting ''WaitingForExternalSecretRefresh'' (''Waiting for '' @ text @ '' to finish its provider reconciliation'' @
             agentRunExternalSecretRefreshDetail readyMessage @ ''.'')
      else if \<not> secretExists
      then waiting ''WaitingForExternalSecretTarget'' (''Waiting for '' @ text @ '' to create target Secret '' @ targetKey @ ''.'')
      else (case refreshTime of
              None \<Rightarrow> waiting ''WaitingForExternalSecretRefresh'' (''Waiting for '' @ text @ '' to report a refresh after the AgentRun request.'')
            | Some t \<Rightarrow>
                if agentRunExternalSecretRefreshStale t (clk (4 * n + 3))
                then waiting ''WaitingForExternalSecretRefresh''
                       (''Waiting for '' @ text @ '' to refresh; last Ready refreshTime is older than 15m0s.'')
                else waiting ''WaitingForExternalSecretRefresh'' (''Waiting for '' @ text @ '' to report a refresh after the AgentRun request.'')))"

definition refresh_seen ::
  "(nat \<Rightarrow> instant) \<Rightarrow> nat \<Rightarrow> AgentRunExternalSecretRefreshStatus \<Rightarrow> bool \<Rightarrow> bool \<Rightarrow> instant option \<Rightarrow> instant option" where
  "refresh_seen clk n entry ready secretExists refreshTime =
     (case refreshTime of
        None \<Rightarrow> None
      | Some t \<Rightarrow>
          if ready \<and> secretExists \<and>
             (agentRunExternalSecretRefreshChanged entry t \<or> agentRunExternalSecretAcceptHealthyStable entry t (clk (4 * n + 1)))
          then Some t else None)"

fun refresh_loop ::
  "'w cluster \<Rightarrow> run_env \<Rightarrow> (nat \<Rightarrow> instant) \<Rightarrow> AgentRun \<Rightarrow> nat \<Rightarrow> AgentRunExternalSecretRefreshRef list \<Rightarrow> AgentRunStatus \<Rightarrow> 'w \<Rightarrow>
     freshness \<times> AgentRunStatus \<times> 'w" where
  "refresh_loop cl r clk obj n [] status w = (Inr (True, AgentRunPhaseUnset, [], []), status, w)"
| "refresh_loop cl r clk obj n (ref # refs) status w =
     (let name = TrimSpace (esr_Name ref); namespace = run_Namespace obj;
          targetSecret = TrimSpace (nor_Name (esr_TargetSecretRef ref));
          key = namespace @ ''/'' @ name in
      case rd_GetExternalSecret (cl_api cl) w namespace name of
        Inl e \<Rightarrow>
          (if IsNotFound e
           then refused ''ExternalSecretNotFound'' (''ExternalSecret '' @ key @ '' was not found for the AgentRun credential preflight.'')
           else Inl (Wrapf (''get ExternalSecret '' @ key) e), status, w)
      | Inr x \<Rightarrow>
          if agentRunExternalSecretTargetName x name \<noteq> targetSecret
          then (refused ''ExternalSecretTargetMismatch'' (''ExternalSecret '' @ key @ '' targets Secret '' @
                  Quote (agentRunExternalSecretTargetName x name) @ '', but the AgentRun freshness ref declares '' @ Quote targetSecret @ ''.''),
                status, w)
          else (case agentRunExternalSecretRefreshStatus status name namespace targetSecret of
            None \<Rightarrow> refresh_request cl r obj (clk (4 * n)) status name targetSecret x w
          | Some entry \<Rightarrow>
              (let refreshTime = agentRunExternalSecretRefreshTime r x; ready = agentRunExternalSecretReady x in
               case (case rd_GetSecret (cl_api cl) w namespace targetSecret of
                       Inr _ \<Rightarrow> Inr True
                     | Inl e \<Rightarrow> if IsNotFound e then Inr False
                         else Inl (Wrapf (''get ExternalSecret target Secret '' @ namespace @ ''/'' @ targetSecret) e)) of
                 Inl e \<Rightarrow> (Inl e, status, w)
               | Inr secretExists \<Rightarrow>
                   (case refresh_seen clk n entry (fst ready) secretExists refreshTime of
                      Some t \<Rightarrow>
                        refresh_loop cl r clk obj (Suc n) refs
                          (status\<lparr>rs_ExternalSecretRefreshes := mark_refreshed name namespace targetSecret t (rs_ExternalSecretRefreshes status)\<rparr>) w
                    | None \<Rightarrow>
                        (refresh_pending clk n (namespace @ ''/'' @ targetSecret) entry (fst ready) (snd ready) secretExists refreshTime
                           (''ExternalSecret '' @ key), status, w)))))"

definition ensureAgentRunExternalSecretFreshness ::
  "'w cluster \<Rightarrow> run_env \<Rightarrow> (nat \<Rightarrow> instant) \<Rightarrow> 'w \<Rightarrow> AgentRun \<Rightarrow> AgentRunStatus \<Rightarrow> freshness \<times> AgentRunStatus \<times> 'w" where
  "ensureAgentRunExternalSecretFreshness cl r clk w obj status =
     refresh_loop cl r clk obj 0 (ex_ExternalSecretRefreshRefs (run_execution obj)) status w"

subsection \<open>What the preflight guarantees\<close>

lemma mark_refreshed_mem:
  "entry \<in> set (mark_refreshed name namespace target t entries) \<Longrightarrow>
     \<exists>e \<in> set entries. entry = e \<or> entry = e\<lparr>ess_RefreshedAt := Some t\<rparr>"
  by (induction entries) (auto split: if_splits)

lemma refreshed_at_irrelevant [simp]:
  "agentRunExternalSecretRefreshChanged (e\<lparr>ess_RefreshedAt := x\<rparr>) t = agentRunExternalSecretRefreshChanged e t"
  "agentRunExternalSecretAcceptHealthyStable (e\<lparr>ess_RefreshedAt := x\<rparr>) t now = agentRunExternalSecretAcceptHealthyStable e t now"
  "same_refresh name namespace target (e\<lparr>ess_RefreshedAt := x\<rparr>) = same_refresh name namespace target e"
  by (simp_all add: agentRunExternalSecretRefreshChanged_def agentRunExternalSecretAcceptHealthyStable_def same_refresh_def split: option.split)

lemma pending_not_fresh: "refresh_pending clk n tk entry ready m ex t text = Inr (fresh, phase, reason, msg) \<Longrightarrow>
    \<not> fresh \<and> phase \<in> {AgentRunPhasePending, AgentRunPhaseFailed}"
  by (auto simp: refresh_pending_def waiting_def refused_def split: if_splits option.splits)

lemma request_not_fresh: "refresh_request cl r obj now status name target x w = (Inr (fresh, phase, reason, msg), status', w') \<Longrightarrow>
    \<not> fresh \<and> phase = AgentRunPhasePending"
  by (auto simp: refresh_request_def Let_def split: prod.splits option.splits)

text \<open>The preflight either holds the run in a phase or lets it pass.\<close>

lemma fresh_or_held:
  "refresh_loop cl r clk obj n refs status w = (Inr (fresh, phase, reason, msg), status', w') \<Longrightarrow>
     fresh \<and> phase = AgentRunPhaseUnset \<or> \<not> fresh \<and> phase \<in> {AgentRunPhasePending, AgentRunPhaseFailed}"
proof (induction refs arbitrary: n status)
  case (Cons ref refs)
  then show ?case
    by (auto simp: Let_def refused_def split: sum.splits option.splits if_splits prod.splits
        dest: pending_not_fresh request_not_fresh dest!: Cons.IH)
qed simp

definition secret_is_fresh ::
  "'w cluster \<Rightarrow> run_env \<Rightarrow> 'w \<Rightarrow> string \<Rightarrow> AgentRunExternalSecretRefreshStatus list \<Rightarrow> instant \<Rightarrow> AgentRunExternalSecretRefreshRef \<Rightarrow> bool" where
  "secret_is_fresh cl r w namespace entries now ref \<longleftrightarrow>
     (\<exists>x secret t entry.
        rd_GetExternalSecret (cl_api cl) w namespace (TrimSpace (esr_Name ref)) = Inr x \<and>
        rd_GetSecret (cl_api cl) w namespace (TrimSpace (nor_Name (esr_TargetSecretRef ref))) = Inr secret \<and>
        agentRunExternalSecretTargetName x (TrimSpace (esr_Name ref)) = TrimSpace (nor_Name (esr_TargetSecretRef ref)) \<and>
        fst (agentRunExternalSecretReady x) \<and> agentRunExternalSecretRefreshTime r x = Some t \<and>
        entry \<in> set entries \<and> same_refresh (TrimSpace (esr_Name ref)) namespace (TrimSpace (nor_Name (esr_TargetSecretRef ref))) entry \<and>
        (agentRunExternalSecretRefreshChanged entry t \<or> agentRunExternalSecretAcceptHealthyStable entry t now))"

lemma secret_is_fresh_marked:
  "secret_is_fresh cl r w namespace (mark_refreshed a b c t entries) now ref \<Longrightarrow> secret_is_fresh cl r w namespace entries now ref"
  unfolding secret_is_fresh_def by (metis mark_refreshed_mem refreshed_at_irrelevant)

lemma refresh_loop_fresh:
  "refresh_loop cl r clk obj n refs status w = (Inr (True, phase, reason, msg), status', w') \<Longrightarrow>
     w' = w \<and> (\<forall>i < length refs. secret_is_fresh cl r w (run_Namespace obj) (rs_ExternalSecretRefreshes status) (clk (4 * (n + i) + 1)) (refs ! i))"
proof (induction refs arbitrary: n status)
  case (Cons ref refs)
  let ?name = "TrimSpace (esr_Name ref)" and ?target = "TrimSpace (nor_Name (esr_TargetSecretRef ref))"
  obtain x entry secret t where step:
    "rd_GetExternalSecret (cl_api cl) w (run_Namespace obj) ?name = Inr x" "agentRunExternalSecretTargetName x ?name = ?target"
    "agentRunExternalSecretRefreshStatus status ?name (run_Namespace obj) ?target = Some entry"
    "rd_GetSecret (cl_api cl) w (run_Namespace obj) ?target = Inr secret"
    "refresh_seen clk n entry (fst (agentRunExternalSecretReady x)) True (agentRunExternalSecretRefreshTime r x) = Some t"
    "refresh_loop cl r clk obj (Suc n) refs
       (status\<lparr>rs_ExternalSecretRefreshes := mark_refreshed ?name (run_Namespace obj) ?target t (rs_ExternalSecretRefreshes status)\<rparr>) w =
       (Inr (True, phase, reason, msg), status', w')"
    using Cons.prems
    by (auto simp: Let_def refused_def refresh_seen_def split: sum.splits option.splits if_splits
        dest: pending_not_fresh request_not_fresh)
  have head: "secret_is_fresh cl r w (run_Namespace obj) (rs_ExternalSecretRefreshes status) (clk (4 * n + 1)) ref"
  proof -
    have "entry \<in> set (rs_ExternalSecretRefreshes status)" "same_refresh ?name (run_Namespace obj) ?target entry"
      using step(3) by (auto simp: agentRunExternalSecretRefreshStatus_def find_Some_iff)
    moreover have "agentRunExternalSecretRefreshTime r x = Some t" "fst (agentRunExternalSecretReady x)"
      "agentRunExternalSecretRefreshChanged entry t \<or> agentRunExternalSecretAcceptHealthyStable entry t (clk (4 * n + 1))"
      using step(5) by (auto simp: refresh_seen_def split: option.splits if_splits)
    ultimately show ?thesis
      unfolding secret_is_fresh_def using step(1,2,4) by blast
  qed
  have "secret_is_fresh cl r w (run_Namespace obj) (rs_ExternalSecretRefreshes status) (clk (4 * (n + i) + 1)) ((ref # refs) ! i)"
    if "i < length (ref # refs)" for i
    using that head Cons.IH [OF step(6)] by (cases i) (auto dest: secret_is_fresh_marked)
  then show ?case
    using Cons.IH [OF step(6)] by blast
qed simp

lemma refresh_loop_writes:
  "refresh_loop (logged cl) r clk obj n refs status x = (res, status', y) \<Longrightarrow>
     extends (\<lambda>ev. \<exists>secret ans. ev = UpdatedExternalSecret secret ans) x y"
proof (induction refs arbitrary: n status)
  case (Cons ref refs)
  have request: "extends (\<lambda>ev. \<exists>secret ans. ev = UpdatedExternalSecret secret ans) x z"
    if "refresh_request (logged cl) r obj now status name target xs x = (res', status'', z)" for now name target xs res' status'' z
    using that
    by (auto simp: refresh_request_def logged_step Let_def split: prod.splits option.splits intro!: noted_step)
  show ?case
    using Cons.prems
    by (auto simp: Let_def split: sum.splits option.splits if_splits dest: request Cons.IH)
qed simp

text \<open>
  C20. When the preflight lets a run pass, every external secret it names exists and is ready, writes the declared target Secret,
  which exists, and its last refresh is later than the one before the run's recorded request, not before the request, or at
  most fifteen minutes old and still there ten seconds after the request.
\<close>

theorem credentials_are_fresh:
  assumes "ensureAgentRunExternalSecretFreshness cl r clk w obj status = (Inr (True, phase, reason, message), status', w')"
    and "ref \<in> set (ex_ExternalSecretRefreshRefs (run_execution obj))"
  shows "\<exists>now \<in> range clk. secret_is_fresh cl r w (run_Namespace obj) (rs_ExternalSecretRefreshes status) now ref"
proof -
  obtain i where "i < length (ex_ExternalSecretRefreshRefs (run_execution obj))" "ref = ex_ExternalSecretRefreshRefs (run_execution obj) ! i"
    using assms(2) by (metis in_set_conv_nth)
  then show ?thesis
    using refresh_loop_fresh [OF assms(1) [unfolded ensureAgentRunExternalSecretFreshness_def]] by blast
qed

definition demo_secret_ref :: AgentRunExternalSecretRefreshRef where
  "demo_secret_ref = \<lparr>esr_Name = ''vault'', esr_TargetSecretRef = local_ref ''token'' []\<rparr>"

definition demo_secret_run :: AgentRun where
  "demo_secret_run = demo_finished_run\<lparr>run_Spec := (run_Spec demo_finished_run)\<lparr>spec_Harness := (spec_Harness (run_Spec demo_finished_run))
     \<lparr>har_Execution := (run_execution demo_finished_run)\<lparr>ex_ExternalSecretRefreshRefs := [demo_secret_ref]\<rparr>\<rparr>\<rparr>\<rparr>"

definition demo_secret_state :: mem_cluster_state where
  "demo_secret_state = demo_ready_state\<lparr>
     mc_ExternalSecrets := [\<lparr>xs_Meta = zero_ObjectMeta\<lparr>om_Name := ''vault'', om_Namespace := ''team''\<rparr>, xs_Conditions = [(''Ready'', ''True'', None)],
       xs_RefreshTime = Some ''2026-01-01T00:00:00Z'', xs_BindingName = None, xs_TargetName = Some ''token''\<rparr>],
     mc_Secrets := [\<lparr>secret_Meta = zero_ObjectMeta\<lparr>om_Name := ''token'', om_Namespace := ''team''\<rparr>, secret_Data = [], secret_Type = []\<rparr>]\<rparr>"

definition demo_requested :: AgentRunStatus where
  "demo_requested = zero_RunStatus\<lparr>rs_ExternalSecretRefreshes := [\<lparr>ess_Name = ''vault'', ess_Namespace = ''team'', ess_TargetSecret = ''token'',
     ess_RequestedAt = Some 1, ess_PreviousRefreshTime = None, ess_RefreshedAt = None\<rparr>]\<rparr>"

lemma demo_secret_fresh:
  "fst (ensureAgentRunExternalSecretFreshness demo_cluster demo_run_env (\<lambda>_. 9) demo_secret_state demo_secret_run demo_requested) =
     Inr (True, AgentRunPhaseUnset, [], [])"
proof -
  have trims: "TrimSpace ''vault'' = ''vault''" "TrimSpace ''token'' = ''token''" "TrimSpace ''2026-01-01T00:00:00Z'' \<noteq> []"
    "time_trunc 1 Second = 0"
    by code_simp+
  show ?thesis
    by (simp add: ensureAgentRunExternalSecretFreshness_def demo_secret_run_def demo_secret_ref_def local_ref_def trims mem_reader_def
        demo_secret_state_def keyed_def zero_ObjectMeta_def agentRunExternalSecretTargetName_def nonblank_def
        agentRunExternalSecretRefreshStatus_def same_refresh_def demo_requested_def agentRunExternalSecretRefreshTime_def
        agentRunExternalSecretReady_def refresh_seen_def agentRunExternalSecretRefreshChanged_def demo_run_env_def demo_finished_run_def Let_def)
qed

theorem credentials_are_fresh_witness:
  "\<exists>now. secret_is_fresh demo_cluster demo_run_env demo_secret_state (run_Namespace demo_secret_run)
     (rs_ExternalSecretRefreshes demo_requested) now demo_secret_ref"
proof -
  obtain status' w' where step: "ensureAgentRunExternalSecretFreshness demo_cluster demo_run_env (\<lambda>_. 9) demo_secret_state demo_secret_run
      demo_requested = (Inr (True, AgentRunPhaseUnset, [], []), status', w')"
    using demo_secret_fresh by (metis prod.collapse)
  have "demo_secret_ref \<in> set (ex_ExternalSecretRefreshRefs (run_execution demo_secret_run))"
    by (simp add: demo_secret_run_def)
  from credentials_are_fresh [OF step this] show ?thesis
    by blast
qed

end
