(* ===== verification/RunLaunch.thy ===== *)
theory RunLaunch
  imports SecretRefresh
begin

text \<open>
  The parts of a run's execution (\<^verbatim>\<open>agent_run_controller.go\<close>, \<^verbatim>\<open>agent_run_chat_startup.go\<close> and
  \<^verbatim>\<open>agent_run_substrate_live.go\<close>): finding the Job it already has, the deadline of a chat turn, the
  payload and the Job, the turn on a warm actor, and the runner Pod.
\<close>

subsection \<open>The Job a run already has\<close>

fun select_owned :: "AgentRun \<Rightarrow> Job option \<Rightarrow> Job list \<Rightarrow> Job option result" where
  "select_owned obj owned [] = Inr owned"
| "select_owned obj owned (job # jobs) =
     (if being_deleted (job_Meta job) then select_owned obj owned jobs
      else if \<not> agentRunControllerOwnerMatches (job_Meta job) obj then select_owned obj owned jobs
      else (case owned of
              Some first \<Rightarrow> Inl (Errorf (''AgentRun '' @ meta_key (run_Meta obj) @ '' owns multiple harness Jobs ('' @ job_Name first @
                '' and '' @ job_Name job @ ''); refusing to select one''))
            | None \<Rightarrow> select_owned obj (Some job) jobs))"

text \<open>The Job or a message that says why the recorded one cannot be used.\<close>

type_synonym job_lookup = "(Job option \<times> string) result"

definition blank_ref :: "NamespacedObjectReference option \<Rightarrow> bool" where
  "blank_ref ref = (case ref of None \<Rightarrow> True | Some r \<Rightarrow> TrimSpace (nor_Name r) = [])"

definition existingAgentRunJob ::
  "'w reader \<Rightarrow> 'w \<Rightarrow> AgentRun \<Rightarrow> NamespacedObjectReference option \<Rightarrow> string \<Rightarrow> bool \<Rightarrow> job_lookup" where
  "existingAgentRunJob rd w obj ref expectedUID allowPlannedMissing =
     (if blank_ref ref
      then (case rd_ListJobs rd w (run_Namespace obj) [(agentRunLabel, sanitizeLabelValue (run_Name obj))] of
              Inl e \<Rightarrow> Inl (Wrapf (''list Jobs owned by AgentRun '' @ meta_key (run_Meta obj)) e)
            | Inr jobs \<Rightarrow> (case select_owned obj None jobs of Inl e \<Rightarrow> Inl e | Inr owned \<Rightarrow> Inr (owned, [])))
      else (case ref of
              None \<Rightarrow> Inl (Panic ''nil pointer'')
            | Some r \<Rightarrow>
                let namespace = firstNonEmpty (TrimSpace (nor_Namespace r)) (run_Namespace obj); name = TrimSpace (nor_Name r) in
                if namespace \<noteq> run_Namespace obj
                then Inr (None, ''Agent run job reference '' @ namespace @ ''/'' @ name @ '' is outside AgentRun namespace '' @ run_Namespace obj @ ''.'')
                else (case rd_GetJob rd w namespace name of
                  Inl e \<Rightarrow>
                    if IsNotFound e
                    then (if allowPlannedMissing \<and> expectedUID = [] then Inr (None, [])
                          else Inr (None, ''Agent run job '' @ namespace @ ''/'' @ name @ '' no longer exists.''))
                    else Inl (Wrapf (''get agent run job '' @ namespace @ ''/'' @ name) e)
                | Inr job \<Rightarrow>
                    if \<not> agentRunControllerOwnerMatches (job_Meta job) obj
                    then Inr (None, ''Agent run job '' @ namespace @ ''/'' @ name @ '' is not controller-owned by AgentRun '' @
                      meta_key (run_Meta obj) @ '' with the current UID.'')
                    else if expectedUID \<noteq> [] \<and> job_UID job \<noteq> expectedUID
                    then Inr (None, ''Agent run job '' @ namespace @ ''/'' @ name @ '' UID '' @ job_UID job @
                      '' does not match recorded UID '' @ expectedUID @ ''.'')
                    else Inr (Some job, []))))"

subsection \<open>The deadline of a chat turn\<close>

definition agentRunChatStartupBudget :: duration where "agentRunChatStartupBudget = 300 * Second"
definition agentRunChatStartupReason :: string where "agentRunChatStartupReason = ''ChatStartupDeadlineExceeded''"
definition agentRunChatStartupMessage :: string where
  "agentRunChatStartupMessage =
     ''This chat turn did not start within 5 minutes. No runner Job was found. Send a new message to try again.''"

definition agentRunChatStartupExpired :: "run_env \<Rightarrow> AgentRun \<Rightarrow> AgentRunStatus \<Rightarrow> instant \<Rightarrow> bool" where
  "agentRunChatStartupExpired r run status now =
     (let source = spec_SourceRef (run_Spec run);
          thread = map_get (run_Labels run) AgentRunChatThreadLabel; turn = map_get (run_Labels run) AgentRunChatTurnLabel in
      if src_Kind source \<noteq> ''ChatThread'' \<or> run_CreationTimestamp run = 0 \<or> agentRunPhaseTerminal (rs_Phase status) \<or>
         rs_Phase status = AgentRunPhaseRunning \<or> rs_StartedAt status \<noteq> None \<or> rs_JobRef status \<noteq> None \<or> rs_JobUID status \<noteq> [] \<or>
         rs_JobCreateAttemptedAt status \<noteq> None \<or> rs_RunnerPodRef status \<noteq> None then False
      else if thread = [] \<or> turn = [] \<or> thread \<noteq> src_Name source \<or> \<not> env_ValidLabel r thread \<or> \<not> env_ValidLabel r turn then False
      else if src_Namespace source \<noteq> [] \<and> src_Namespace source \<noteq> run_Namespace run then False
      else \<not> now < run_CreationTimestamp run + agentRunChatStartupBudget)"

text \<open>\<open>None\<close> where the deadline does not apply.\<close>

definition reconcileAgentRunChatStartupDeadline ::
  "'w cluster \<Rightarrow> run_env \<Rightarrow> instant \<Rightarrow> 'w \<Rightarrow> AgentRun \<Rightarrow> AgentRun \<Rightarrow> AgentRunStatus \<Rightarrow> ('w reconciled) option" where
  "reconcileAgentRunChatStartupDeadline cl r now w original run status =
     (if \<not> agentRunChatStartupExpired r run status now then None
      else Some (case rd_ListJobs (cl_api cl) w (run_Namespace run) [] of
        Inl e \<Rightarrow> (Inl (Wrapf ''confirm chat startup Job absence'' e), w)
      | Inr jobs \<Rightarrow>
          if list_ex (\<lambda>job. agentRunControllerOwnerMatches (job_Meta job) run) jobs
          then (Inr (requeue_after agentRunPollInterval), w)
          else (let status = ready_condition cl run ConditionFalse now agentRunChatStartupReason agentRunChatStartupMessage
                      (with_result r (status\<lparr>rs_Phase := AgentRunPhaseFailed, rs_CompletedAt := Some now,
                         rs_Error := agentRunChatStartupMessage\<rparr>)) in
                case cl_PatchRunStatus cl w True original (run\<lparr>run_Status := status\<rparr>) of
                  (Inl e, w) \<Rightarrow> (if IsConflict e then Inr requeue_now else Inl e, w)
                | (Inr _, w) \<Rightarrow> (Inr no_requeue, w))))"

subsection \<open>The payload\<close>

definition sanitized_situation :: "AdverseSituation \<Rightarrow> AdverseSituation" where
  "sanitized_situation s = s\<lparr>situation_Spec := (situation_Spec s)\<lparr>sit_AgentRun := None\<rparr>,
     situation_Status := (situation_Status s)\<lparr>sits_Events := map (\<lambda>ev. ev\<lparr>ev_ReportIDs := []\<rparr>) (sits_Events (situation_Status s))\<rparr>\<rparr>"

definition sanitized_schedule :: "AgentSchedule \<Rightarrow> AgentSchedule" where
  "sanitized_schedule s = s\<lparr>sched_Spec := (sched_Spec s)\<lparr>ss_RunTemplate := zero_RunSpec, ss_RunTemplates := []\<rparr>\<rparr>"

text \<open>A referenced object that cannot be read is left out; one in another namespace is refused.\<close>

definition context_ref :: "AgentRun \<Rightarrow> string \<Rightarrow> NamespacedObjectReference option \<Rightarrow> (string \<Rightarrow> string \<Rightarrow> 'a result) \<Rightarrow> 'a option result" where
  "context_ref obj what ref get =
     (case ref of
        None \<Rightarrow> Inr None
      | Some r \<Rightarrow>
          if TrimSpace (nor_Name r) = [] then Inr None
          else (let namespace = firstNonEmpty (TrimSpace (nor_Namespace r)) (run_Namespace obj) in
            if namespace \<noteq> run_Namespace obj then Inl (Errorf (''AgentRun '' @ what @ '' must be in namespace '' @ run_Namespace obj))
            else (case get namespace (TrimSpace (nor_Name r)) of Inl e \<Rightarrow> Inr None | Inr x \<Rightarrow> Inr (Some x))))"

definition agentRunContextJSON :: "'w cluster \<Rightarrow> run_env \<Rightarrow> 'w \<Rightarrow> AgentRun \<Rightarrow> string result" where
  "agentRunContextJSON cl r w obj =
     (case context_ref obj ''situationRef'' (spec_SituationRef (run_Spec obj)) (rd_GetSituation (cl_cache cl) w) of
        Inl e \<Rightarrow> Inl e
      | Inr situation \<Rightarrow>
          (case context_ref obj ''scheduleRef'' (spec_ScheduleRef (run_Spec obj)) (k_GetSchedule (rd_Kube (cl_cache cl)) w) of
             Inl e \<Rightarrow> Inl e
           | Inr schedule \<Rightarrow>
               env_Context r \<lparr>ctx_Meta = (run_Name obj, run_Namespace obj, om_Generation (run_Meta obj), run_UID obj),
                 ctx_Spec = run_Spec obj, ctx_ResolvedComposition = rs_ResolvedComposition (run_Status obj),
                 ctx_Platform = platformContext (env_Options r), ctx_AdverseSituation = map_option sanitized_situation situation,
                 ctx_AgentSchedule = map_option sanitized_schedule schedule\<rparr>))"

definition secret_reader :: "'w cluster \<Rightarrow> 'w \<Rightarrow> get_secret" where
  "secret_reader cl w namespace name = (case rd_GetSecret (cl_cache cl) w namespace name of Inl e \<Rightarrow> Inl e | Inr s \<Rightarrow> Inr (secret_Data s))"

definition payload_digest :: "run_env \<Rightarrow> ConfigMap \<Rightarrow> string" where
  "payload_digest r configMap = digestJSON (json_Data (env_JSON r)) (canonical_map (cm_Data configMap))"

definition adopt_payload :: "'w cluster \<Rightarrow> 'w \<Rightarrow> AgentRun \<Rightarrow> strmap \<Rightarrow> ConfigMap \<Rightarrow> ConfigMap result \<times> 'w" where
  "adopt_payload cl w obj data configMap =
     (case validateAgentRunConfigMapIdentityAndData configMap obj data of
        Some e \<Rightarrow> (Inl e, w)
      | None \<Rightarrow>
          (case (if cm_Immutable configMap = Some True then (Inr configMap, w)
                 else (case cl_UpdateConfigMap cl w (configMap\<lparr>cm_Immutable := Some True\<rparr>) of
                         (Inl e, w) \<Rightarrow>
                           (Inl (Wrapf (''make AgentRun payload ConfigMap '' @ meta_key (cm_Meta configMap) @ '' immutable'') e), w)
                       | (Inr updated, w) \<Rightarrow> (Inr updated, w))) of
             (Inl e, w) \<Rightarrow> (Inl e, w)
           | (Inr configMap, w) \<Rightarrow>
               (case validateAgentRunConfigMap configMap obj data of Some e \<Rightarrow> (Inl e, w) | None \<Rightarrow> (Inr configMap, w))))"

definition ensureAgentRunConfigMap ::
  "'w cluster \<Rightarrow> run_env \<Rightarrow> 'w \<Rightarrow> AgentRun \<Rightarrow> string \<Rightarrow> string \<Rightarrow> (ConfigMap \<times> string) result \<times> 'w" where
  "ensureAgentRunConfigMap cl r w obj prompt promptHash =
     (case agentRunContextJSON cl r w obj of
        Inl e \<Rightarrow> (Inl e, w)
      | Inr contextBody \<Rightarrow>
          (let name = agentRunChildName [run_Name obj, ''context'', promptHash] in
           case agentRunConfigMapData (setup_Net (env_Setup r)) (secret_reader cl w) (env_Options r) obj prompt contextBody of
             Inl e \<Rightarrow> (Inl e, w)
           | Inr data \<Rightarrow>
               (case (case rd_GetConfigMap (cl_cache cl) w (run_Namespace obj) name of
                        Inl e \<Rightarrow>
                          if \<not> IsNotFound e then (Inl e, w)
                          else (case own cl ''AgentRun'' (run_Meta obj) (zero_ObjectMeta\<lparr>om_Name := name, om_Namespace := run_Namespace obj,
                                    om_Labels := agentRunLabels obj []\<rparr>) of
                                  Inl e \<Rightarrow> (Inl e, w)
                                | Inr meta \<Rightarrow>
                                    cl_CreateConfigMap cl w \<lparr>cm_Meta = meta, cm_Data = data, cm_BinaryData = [], cm_Immutable = Some True\<rparr>)
                      | Inr configMap \<Rightarrow> adopt_payload cl w obj data configMap) of
                  (Inl e, w) \<Rightarrow> (Inl e, w)
                | (Inr configMap, w) \<Rightarrow> (Inr (configMap, payload_digest r configMap), w))))"

subsection \<open>The Job\<close>

definition desired_job :: "run_env \<Rightarrow> AgentRun \<Rightarrow> string \<Rightarrow> string \<Rightarrow> resolvedAgentRunDataVolume list \<Rightarrow> Job" where
  "desired_job r obj promptHash payload dataVolumes =
     agentRunJob (env_Setup r) (env_JSON r) obj (agentRunChildName [run_Name obj, ''harness'', promptHash]) payload dataVolumes"

definition ensureAgentRunJob ::
  "'w cluster \<Rightarrow> run_env \<Rightarrow> 'w \<Rightarrow> AgentRun \<Rightarrow> string \<Rightarrow> resolvedAgentRunDataVolume list \<Rightarrow> Job result \<times> 'w" where
  "ensureAgentRunJob cl r w obj promptHash dataVolumes =
     (let desired = desired_job r obj promptHash (agentRunChildName [run_Name obj, ''context'', promptHash]) dataVolumes in
      case rd_GetJob (cl_cache cl) w (run_Namespace obj) (job_Name desired) of
        Inl e \<Rightarrow>
          if \<not> IsNotFound e then (Inl e, w)
          else (case own cl ''AgentRun'' (run_Meta obj) (job_Meta desired) of
                  Inl e \<Rightarrow> (Inl e, w)
                | Inr meta \<Rightarrow> cl_CreateJob cl w (desired\<lparr>job_Meta := meta\<rparr>))
      | Inr job \<Rightarrow>
          if being_deleted (job_Meta job)
          then (Inl (Errorf (''AgentRun Job '' @ meta_key (job_Meta job) @ '' is still terminating; retry after deletion completes'')), w)
          else (case validateAgentRunJob job desired obj of Some e \<Rightarrow> (Inl e, w) | None \<Rightarrow> (Inr job, w)))"

definition deleteAgentRunJobAfterLaunchFailure :: "'w cluster \<Rightarrow> 'w \<Rightarrow> Job \<Rightarrow> go_error option \<times> 'w" where
  "deleteAgentRunJobAfterLaunchFailure cl w job =
     (if being_deleted (job_Meta job) then (None, w)
      else (case cl_DeleteJob cl w job of
              (Some e, w) \<Rightarrow> (if IsNotFound e then None else Some e, w)
            | (None, w) \<Rightarrow> (None, w)))"

subsection \<open>The runner Pod\<close>

definition runs_job :: "Job \<Rightarrow> Pod \<Rightarrow> bool" where
  "runs_job job pod \<longleftrightarrow>
     (case GetControllerOf (pod_Meta pod) of
        None \<Rightarrow> False
      | Some owner \<Rightarrow> own_APIVersion owner = ''batch/v1'' \<and> own_Kind owner = ''Job'' \<and> own_Name owner = job_Name job \<and>
          own_UID owner = job_UID job)"

fun newest_pod :: "Job \<Rightarrow> Pod option \<Rightarrow> Pod list \<Rightarrow> Pod option" where
  "newest_pod job selected [] = selected"
| "newest_pod job selected (pod # pods) =
     (if \<not> runs_job job pod then newest_pod job selected pods
      else (case selected of
              None \<Rightarrow> newest_pod job (Some pod) pods
            | Some s \<Rightarrow>
                if om_CreationTimestamp (pod_Meta s) < om_CreationTimestamp (pod_Meta pod) then newest_pod job (Some pod) pods
                else newest_pod job selected pods))"

definition findAgentRunRunnerPod :: "'w reader \<Rightarrow> 'w \<Rightarrow> Job \<Rightarrow> Pod option result" where
  "findAgentRunRunnerPod rd w job =
     (if job_UID job = [] then Inr None
      else (case rd_ListPods rd w (job_Namespace job) [(agentRunJobLabel, job_Name job)] of
              Inl e \<Rightarrow> Inl (Wrapf ''list agent run pods'' e)
            | Inr pods \<Rightarrow> Inr (newest_pod job None pods)))"

definition agentRunContainerWaitingIsLaunchFailure :: "string \<Rightarrow> bool" where
  "agentRunContainerWaitingIsLaunchFailure reason \<longleftrightarrow> TrimSpace reason \<in> {''ErrImagePull'', ''ImagePullBackOff'', ''InvalidImageName''}"

definition launch_failure :: "ContainerStatus \<Rightarrow> bool" where
  "launch_failure status \<longleftrightarrow>
     (case cst_Waiting status of None \<Rightarrow> False | Some (reason, message) \<Rightarrow> agentRunContainerWaitingIsLaunchFailure reason)"

definition agentRunPodLaunchFailureMessage :: "Pod option \<Rightarrow> string" where
  "agentRunPodLaunchFailureMessage pod =
     (case pod of
        None \<Rightarrow> []
      | Some pod \<Rightarrow>
          (case find launch_failure (pod_InitContainerStatuses pod @ pod_ContainerStatuses pod) of
             None \<Rightarrow> []
           | Some status \<Rightarrow>
               (let (reason, message) = the (cst_Waiting status);
                    detail = (if TrimSpace message = [] then TrimSpace reason else TrimSpace message) in
                ''Agent run harness pod '' @ pod_Namespace pod @ ''/'' @ pod_Name pod @ '' cannot start container '' @
                  Quote (cst_Name status) @ '': '' @ detail)))"

definition podTerminationMessage :: "Pod option \<Rightarrow> string" where
  "podTerminationMessage pod =
     (case pod of
        None \<Rightarrow> []
      | Some pod \<Rightarrow>
          (case find (\<lambda>status. cst_Terminated status \<noteq> None) (pod_ContainerStatuses pod) of
             None \<Rightarrow> []
           | Some status \<Rightarrow> (let (reason, message) = the (cst_Terminated status) in firstNonEmpty (TrimSpace message) (TrimSpace reason))))"

end
