(* ===== verification/ActorTurn.thy ===== *)
theory ActorTurn
  imports RunLaunch
begin

text \<open>
  A chat turn on a warm actor (\<^verbatim>\<open>agent_run_substrate_live.go\<close>): the run is bound to the actor of its
  thread, the prompt is streamed through it, and the reply ends the run. The lemmas show that this
  plane never creates a Job and what it does with each answer of the actor.
\<close>

definition actor_fault :: "actor_error \<Rightarrow> go_error" where
  "actor_fault e = (case e of ErrActorNotFound m \<Rightarrow> Errorf m | ActorFailure e \<Rightarrow> e)"

definition substrateActorSpecForRun :: "AgentRun \<Rightarrow> string \<Rightarrow> ActorSpec" where
  "substrateActorSpecForRun effective actorName =
     (let substrate = ex_Substrate (run_execution effective) in
      ActorSpecForRun (run_Namespace effective) actorName (backend_text (agentRunBackendKind effective))
        (case substrate of None \<Rightarrow> [] | Some s \<Rightarrow> sas_ActorClass s) (case substrate of None \<Rightarrow> [] | Some s \<Rightarrow> sas_Pool s)
        [(agentRunLabel, sanitizeLabelValue (run_Name effective)),
         (AgentRunChatThreadLabel, sanitizeLabelValue (substrateThreadID effective))])"

definition substrateGenerateAtespace :: "run_env \<Rightarrow> ActorHandle \<Rightarrow> string" where
  "substrateGenerateAtespace r handle =
     (let forced = TrimSpace (opt_SubstrateAtespace (env_Options r)) in
      if forced \<noteq> [] then forced else TrimSpace (ah_Namespace handle))"

definition patch_and_suspend :: "'w cluster \<Rightarrow> run_env \<Rightarrow> 'w \<Rightarrow> AgentRun \<Rightarrow> AgentRun \<Rightarrow> 'w reconciled" where
  "patch_and_suspend cl r w original obj =
     (case patch_run cl w original obj no_requeue of
        (Inl e, obj, w) \<Rightarrow> (Inl e, w)
      | (Inr res, obj, w) \<Rightarrow> (Inr res, suspendSubstrateActorOnTerminal cl r w obj))"

definition failSubstrateGenerate ::
  "'w cluster \<Rightarrow> run_env \<Rightarrow> 'w \<Rightarrow> AgentRun \<Rightarrow> AgentRun \<Rightarrow> AgentRunStatus \<Rightarrow> instant \<Rightarrow> string \<Rightarrow> 'w reconciled" where
  "failSubstrateGenerate cl r w original obj status now message =
     (let status = ready_condition cl obj ConditionFalse now ''SubstrateActorGenerateFailed'' message
            (with_result r (status\<lparr>rs_Phase := AgentRunPhaseFailed, rs_CompletedAt := Some now, rs_Error := message\<rparr>)) in
      patch_and_suspend cl r w original (obj\<lparr>run_Status := status\<rparr>))"

definition bound_status :: "AgentRun \<Rightarrow> AgentRunStatus \<Rightarrow> instant \<Rightarrow> ActorHandle \<Rightarrow> AgentRunStatus" where
  "bound_status effective status now handle = status\<lparr>
     rs_ExecutionRuntime := runtime_text AgentRunExecutionRuntimeSubstrateActor,
     rs_SubstrateActor := Some \<lparr>sact_ActorName = ah_Name handle, sact_ActorID = ah_ID handle, sact_State = actor_state_text (ah_State handle)\<rparr>,
     rs_StartedAt := (case rs_StartedAt status of None \<Rightarrow> Some now | Some t \<Rightarrow> Some t),
     rs_Backend := backend_text (agentRunBackendKind effective)\<rparr>"

definition retry_generate ::
  "'w cluster \<Rightarrow> 'w \<Rightarrow> AgentRun \<Rightarrow> AgentRun \<Rightarrow> AgentRunStatus \<Rightarrow> instant \<Rightarrow> ActorHandle \<Rightarrow> bool \<Rightarrow> go_error \<Rightarrow> 'w reconciled" where
  "retry_generate cl w original obj status now handle warm e =
     (let binding = (if warm then ''resumed a warm Substrate actor'' else ''created a cold Substrate actor'');
          status = ready_condition cl obj ConditionFalse now ''SubstrateActorBound''
            (''Generate-on-actor '' @ binding @ '' '' @ ah_Name handle @ ''; retrying atenet stream. No Kubernetes Job was created.'')
            (status\<lparr>rs_CompletedAt := None, rs_Phase := AgentRunPhaseRunning, rs_Error := []\<rparr>);
          obj = obj\<lparr>run_Status := status\<rparr> in
      case cl_PatchRunStatus cl w False original obj of
        (Inl _, w) \<Rightarrow> patchAgentRunStatus cl w original obj True
      | (Inr _, w) \<Rightarrow> (Inl e, w))"

definition finish_generate ::
  "'w cluster \<Rightarrow> run_env \<Rightarrow> 'w \<Rightarrow> AgentRun \<Rightarrow> AgentRun \<Rightarrow> AgentRun \<Rightarrow> AgentRunStatus \<Rightarrow> instant \<Rightarrow> string \<Rightarrow> string \<Rightarrow> 'w reconciled" where
  "finish_generate cl r w original obj effective status now prompt output =
     (let status = status\<lparr>rs_Output := output, rs_PromptHash := shortHash prompt, rs_CompletedAt := Some now, rs_Error := [],
            rs_Decision := Some \<lparr>dec_Classification = ''completed'',
              dec_Action = firstNonEmpty (TrimSpace (rs_Intent status)) (intent_text (agentRunIntent effective)),
              dec_Summary = agentRunOutputSummary output, dec_ResidualRisk = []\<rparr>\<rparr>;
          status = ready_condition cl obj ConditionTrue now ''SubstrateActorGenerated''
            ''Generate-on-actor streamed the frozen prompt through atenet; no Kubernetes Job was created.''
            ((with_result r status)\<lparr>rs_Phase := AgentRunPhaseSucceeded\<rparr>) in
      patch_and_suspend cl r w original (obj\<lparr>run_Status := status\<rparr>))"

definition generate_turn ::
  "'w cluster \<Rightarrow> run_env \<Rightarrow> 'w \<Rightarrow> AgentRun \<Rightarrow> AgentRun \<Rightarrow> AgentRun \<Rightarrow> AgentRunStatus \<Rightarrow> instant \<Rightarrow> ActorHandle \<Rightarrow> bool \<Rightarrow> 'w reconciled" where
  "generate_turn cl r w original obj effective status now handle warm =
     (let prompt = TrimSpace (spec_Prompt (run_Spec effective)) in
      if prompt = []
      then failSubstrateGenerate cl r w original obj status now
             ''AgentRun spec.prompt is empty; generate-on-actor cannot complete this turn.''
      else (case cl_Generate cl w \<lparr>gr_ActorName = ah_Name handle, gr_Atespace = substrateGenerateAtespace r handle,
                   gr_SessionID = substrateThreadID effective, gr_Prompt = prompt\<rparr> of
        (Inl (GenerateTransient e), w) \<Rightarrow> retry_generate cl w original obj status now handle warm e
      | (Inl (GenerateFailed e), w) \<Rightarrow>
          failSubstrateGenerate cl r w original obj status now ''generate-on-actor failed; no Kubernetes Job was created.''
      | (Inr reply, w) \<Rightarrow>
          (let output = agentRunTrimOutput reply in
           if TrimSpace output = []
           then failSubstrateGenerate cl r w original obj status now
                  ''generate-on-actor returned an empty reply; no Kubernetes Job was created.''
           else finish_generate cl r w original obj effective status now prompt output)))"

definition reconcileSubstrateActorRun ::
  "'w cluster \<Rightarrow> run_env \<Rightarrow> 'w \<Rightarrow> AgentRun \<Rightarrow> AgentRun \<Rightarrow> AgentRunStatus \<Rightarrow> AgentRun \<Rightarrow> instant \<Rightarrow> 'w reconciled" where
  "reconcileSubstrateActorRun cl r w original obj status effective now =
     (if agentRunPhaseTerminal (run_Phase obj) \<or> agentRunPhaseTerminal (rs_Phase status) then (Inr no_requeue, w)
      else if \<not> shouldGenerateOnActor (env_Setup r) effective then (Inr no_requeue, w)
      else (case EnsureTurnActor (cl_Actors cl) w
              (substrateActorSpecForRun effective (ActorNameForThread (substrateThreadID effective))) of
        (Inl e, w) \<Rightarrow> (Inl (actor_fault e), w)
      | (Inr (handle, warm), w) \<Rightarrow>
          generate_turn cl r w original obj effective (bound_status effective status now handle) now handle warm))"

subsection \<open>What an actor turn writes\<close>

text \<open>The part of a status that says which execution a run has.\<close>

definition same_receipt :: "AgentRunStatus \<Rightarrow> AgentRunStatus \<Rightarrow> bool" where
  "same_receipt a b \<longleftrightarrow>
     rs_PlannedJobRef b = rs_PlannedJobRef a \<and> rs_JobCreateAttemptedAt b = rs_JobCreateAttemptedAt a \<and>
     rs_JobRef b = rs_JobRef a \<and> rs_JobUID b = rs_JobUID a"

lemma same_receipt_simps [simp]:
  "same_receipt a a"
  "same_receipt a (ready_condition cl obj st now reason message b) = same_receipt a b"
  "same_receipt a (with_result r b) = same_receipt a b"
  "same_receipt a (b\<lparr>rs_Phase := p\<rparr>) = same_receipt a b"
  "same_receipt a (b\<lparr>rs_CompletedAt := t\<rparr>) = same_receipt a b"
  "same_receipt a (b\<lparr>rs_StartedAt := t\<rparr>) = same_receipt a b"
  "same_receipt a (b\<lparr>rs_Error := e\<rparr>) = same_receipt a b"
  "same_receipt a (b\<lparr>rs_Decision := d\<rparr>) = same_receipt a b"
  "same_receipt a (b\<lparr>rs_Output := out\<rparr>) = same_receipt a b"
  "same_receipt a (b\<lparr>rs_PromptHash := h\<rparr>) = same_receipt a b"
  "same_receipt a (b\<lparr>rs_DataVolumes := vs\<rparr>) = same_receipt a b"
  "same_receipt a (b\<lparr>rs_Archive := ar\<rparr>) = same_receipt a b"
  by (simp_all add: same_receipt_def ready_condition_def with_result_def)

text \<open>Only calls of the actor plane and patches of the run's status that leave the execution receipt alone.\<close>

fun actor_write :: "AgentRun \<Rightarrow> AgentRunStatus \<Rightarrow> cluster_event \<Rightarrow> bool" where
  "actor_write original status (CreatedActor spec ans) \<longleftrightarrow> True"
| "actor_write original status (ResumedActor ns n ans) \<longleftrightarrow> True"
| "actor_write original status (SuspendedActor ns n ans) \<longleftrightarrow> True"
| "actor_write original status (Generated req ans) \<longleftrightarrow> True"
| "actor_write original status (PatchedRunStatus lock old new ans) \<longleftrightarrow> old = original \<and> same_receipt status (run_Status new)"
| "actor_write original status ev \<longleftrightarrow> False"

lemma patch_and_suspend_writes:
  assumes "patch_and_suspend (logged cl) r x original obj = (res, y)" "same_receipt status (run_Status obj)"
  shows "extends (actor_write original status) x y"
proof -
  obtain result obj' z where z: "patch_run (logged cl) x original obj no_requeue = (result, obj', z)"
    by (metis prod.collapse)
  have "extends (actor_write original status) x z"
    by (rule patch_run_step [OF z]) (simp add: assms(2))
  moreover have "extends (actor_write original status) z (suspendSubstrateActorOnTerminal (logged cl) r z obj')"
    by (rule extends_mono [OF suspend_writes]) auto
  ultimately show ?thesis
    using assms(1) z by (auto simp: patch_and_suspend_def split: sum.splits intro: extends_trans)
qed

lemma fail_generate_writes:
  "failSubstrateGenerate (logged cl) r x original obj status' now message = (res, y) \<Longrightarrow> same_receipt status status' \<Longrightarrow>
     extends (actor_write original status) x y"
  by (auto simp: failSubstrateGenerate_def Let_def intro!: patch_and_suspend_writes)

lemma finish_generate_writes:
  "finish_generate (logged cl) r x original obj effective status' now prompt output = (res, y) \<Longrightarrow> same_receipt status status' \<Longrightarrow>
     extends (actor_write original status) x y"
  by (auto simp: finish_generate_def Let_def intro!: patch_and_suspend_writes)

lemma retry_generate_writes:
  assumes "retry_generate (logged cl) x original obj status' now handle warm e = (res, y)" "same_receipt status status'"
  shows "extends (actor_write original status) x y"
proof -
  have patched: "extends (actor_write original status) u v"
    if "cl_PatchRunStatus (logged cl) u False original new = (ans, v)" "same_receipt status (run_Status new)" for u new ans v
    using that by (auto simp: logged_step intro!: noted_step)
  have again: "extends (actor_write original status) u v"
    if "patchAgentRunStatus (logged cl) u original new True = (ans, v)" "same_receipt status (run_Status new)" for u new ans v
    using that by (auto simp: patchAgentRunStatus_def split: prod.splits intro!: patch_run_step)
  show ?thesis
    using assms
    by (auto simp: retry_generate_def Let_def split: prod.splits sum.splits
        intro: patched extends_trans [OF patched again])
qed

lemma ensure_actor_writes:
  assumes "EnsureTurnActor (logged_actors ac) x spec = (res, y)"
  shows "extends (actor_write original status) x y"
proof -
  have resumed: "extends (actor_write original status) u v" if "ac_ResumeActor (logged_actors ac) u ns n = (ans, v)" for u v ns n ans
    using that by (auto simp: logged_step intro!: noted_step)
  have described: "extends (actor_write original status) u v" if "ac_DescribeActor (logged_actors ac) u ns n = (ans, v)" for u v ns n ans
    using that by (auto simp: logged_step intro: quiet_step)
  have created: "extends (actor_write original status) u v" if "create_cold (logged_actors ac) u spec = (ans, v)" for u v ans
    using that by (auto simp: create_cold_def logged_step split: prod.splits sum.splits intro!: noted_step)
  show ?thesis
    using assms
    by (auto simp: EnsureTurnActor_def split: option.splits prod.splits sum.splits actor_error.splits
        dest!: described resumed created intro: extends_trans)
qed

lemma generate_turn_writes:
  assumes "generate_turn (logged cl) r x original obj effective status' now handle warm = (res, y)" "same_receipt status status'"
  shows "extends (actor_write original status) x y"
proof -
  let ?req = "\<lparr>gr_ActorName = ah_Name handle, gr_Atespace = substrateGenerateAtespace r handle,
     gr_SessionID = substrateThreadID effective, gr_Prompt = TrimSpace (spec_Prompt (run_Spec effective))\<rparr>"
  obtain reply z where z: "cl_Generate (logged cl) x ?req = (reply, z)"
    by (metis prod.collapse)
  have "extends (actor_write original status) x z"
    using z by (auto simp: logged_step intro!: noted_step)
  then show ?thesis
    using assms z
    by (auto simp: generate_turn_def Let_def split: if_splits sum.splits generate_error.splits
        dest!: fail_generate_writes [of _ _ _ _ _ _ _ _ _ _ status] finish_generate_writes [of _ _ _ _ _ _ _ _ _ _ _ _ status]
          retry_generate_writes [of _ _ _ _ _ _ _ _ _ _ _ status]
        intro: extends_trans)
qed

lemma actor_run_writes:
  assumes "reconcileSubstrateActorRun (logged cl) r x original obj status effective now = (res, y)"
  shows "extends (actor_write original status) x y"
proof -
  have "same_receipt status (bound_status effective status now handle)" for handle
    by (simp add: bound_status_def same_receipt_def)
  then show ?thesis
    using assms
    by (auto simp: reconcileSubstrateActorRun_def split: if_splits prod.splits sum.splits
        dest!: ensure_actor_writes [of _ _ _ _ _ original status] generate_turn_writes [of _ _ _ _ _ _ _ _ _ _ _ _ status]
        intro: extends_trans)
qed

end
