(* ===== verification/RunReconcile.thy ===== *)
theory RunReconcile
  imports ActorTurn
begin

text \<open>
  The reconciliation of an \<open>AgentRun\<close>, \<^verbatim>\<open>AgentRunReconciler.Reconcile\<close> of \<^verbatim>\<open>agent_run_controller.go\<close>, in the
  order of the code: the run is read; a held or ended run is handed on; the Job it already has is
  recovered; otherwise the composition is resolved and checked, the gates, the volumes and the
  credentials are passed, the launch is planned, the create attempt is recorded and the Job is
  created; a run with a Job takes its status from the Job, its Pod and its log.
  The readings of the clock have fixed numbers: \<open>clk 0\<close> is \<^verbatim>\<open>now\<close>.
\<close>

subsection \<open>Recovery\<close>

definition job_ref_named :: "AgentRunStatus \<Rightarrow> bool" where
  "job_ref_named status \<longleftrightarrow> \<not> blank_ref (rs_JobRef status)"

definition reset_status :: "AgentRun \<Rightarrow> AgentRunStatus" where
  "reset_status obj =
     (let status = run_Status obj; generation = om_Generation (run_Meta obj);
          preserveExecution = (\<not> agentRunPhaseTerminal (rs_Phase status) \<and>
            (job_ref_named status \<or> agentRunLaunchReceiptComplete status \<or> rs_JobCreateAttemptedAt status \<noteq> None));
          status = (if rs_ObservedGeneration status \<noteq> 0 \<and> rs_ObservedGeneration status \<noteq> generation \<and> \<not> preserveExecution
                    then zero_RunStatus else status) in
      status\<lparr>rs_ObservedGeneration := generation\<rparr>)"

definition planned_launch :: "AgentRunStatus \<Rightarrow> bool" where
  "planned_launch status \<longleftrightarrow> agentRunLaunchReceiptComplete status \<and> rs_JobRef status = None \<and> rs_JobUID status = []"

definition lookup_ref :: "AgentRunStatus \<Rightarrow> NamespacedObjectReference option" where
  "lookup_ref status = (if planned_launch status then rs_PlannedJobRef status else rs_JobRef status)"

definition recover_job :: "'w cluster \<Rightarrow> 'w \<Rightarrow> AgentRun \<Rightarrow> AgentRunStatus \<Rightarrow> job_lookup" where
  "recover_job cl w obj status =
     (case existingAgentRunJob (cl_api cl) w obj (lookup_ref status) (rs_JobUID status)
        (planned_launch status \<and> rs_JobCreateAttemptedAt status = None) of
        Inl e \<Rightarrow> Inl e
      | Inr (job, message) \<Rightarrow>
          Inr (job, if message \<noteq> [] \<and> planned_launch status \<and> rs_JobCreateAttemptedAt status \<noteq> None
                    then ''Agent run job '' @ ref_key (lookup_ref status) @
                      '' is absent after a recorded create attempt; refusing to create a replacement execution.''
                    else message))"

definition job_missing ::
  "'w cluster \<Rightarrow> run_env \<Rightarrow> instant \<Rightarrow> 'w \<Rightarrow> AgentRun \<Rightarrow> AgentRun \<Rightarrow> AgentRunStatus \<Rightarrow> string \<Rightarrow> 'w reconciled" where
  "job_missing cl r now w original obj status message =
     patchAgentRunStatus cl w original (obj\<lparr>run_Status := ready_condition cl obj ConditionFalse now ''HarnessJobMissing'' message
       (with_result r (status\<lparr>rs_Phase := AgentRunPhaseFailed, rs_CompletedAt := Some now, rs_Error := message\<rparr>))\<rparr>) False"

definition job_ref :: "Job \<Rightarrow> NamespacedObjectReference" where
  "job_ref job = \<lparr>nor_Name = job_Name job, nor_Namespace = job_Namespace job\<rparr>"

definition resolved_now :: "instant \<Rightarrow> AgentRunResolvedCompositionStatus \<Rightarrow> AgentRunResolvedCompositionStatus" where
  "resolved_now now c = c\<lparr>rcs_ResolvedAt := (case rcs_ResolvedAt c of None \<Rightarrow> Some now | Some t \<Rightarrow> Some t)\<rparr>"

text \<open>The status for a recovered Job, and whether the Job still has to be compared with what the run would create.\<close>

definition adopt_job ::
  "'w cluster \<Rightarrow> run_env \<Rightarrow> instant \<Rightarrow> 'w \<Rightarrow> AgentRun \<Rightarrow> AgentRunStatus \<Rightarrow> Job \<Rightarrow> (AgentRunStatus \<times> bool) result" where
  "adopt_job cl r now w obj status job =
     (case (if rs_JobUID status = [] \<and> agentRunLaunchReceiptComplete status
            then (if rs_JobCreateAttemptedAt status = None
                  then Inl (Errorf (''AgentRun Job '' @ meta_key (job_Meta job) @ '' exists without the required create-attempt receipt''))
                  else (case validateAgentRunLaunchReceipt (env_JSON r) (rd_GetConfigMap (cl_api cl) w) obj job status of
                          Some e \<Rightarrow> Inl e
                        | None \<Rightarrow> Inr (status\<lparr>rs_JobUID := job_UID job, rs_JobRef := Some (job_ref job),
                            rs_ResolvedComposition := map_option (resolved_now now) (rs_ResolvedComposition status)\<rparr>, False)))
            else Inr (status, rs_JobRef status = None)) of
        Inl e \<Rightarrow> Inl e
      | Inr (status, True) \<Rightarrow> Inr (status, True)
      | Inr (status, False) \<Rightarrow>
          Inr (status\<lparr>rs_JobUID := (if rs_JobUID status = [] then job_UID job else rs_JobUID status),
                 rs_ResolvedComposition := (case rs_ResolvedComposition status of
                     None \<Rightarrow> agentRunResolvedCompositionFromJob (env_JSON r) job | Some c \<Rightarrow> Some c),
                 rs_DataVolumes := (if rs_DataVolumes status = [] then agentRunDataVolumeStatusesFromJob (env_JSON r) job
                   else rs_DataVolumes status)\<rparr>, False))"

subsection \<open>A run with a Job\<close>

definition outcome_patch ::
  "'w cluster \<Rightarrow> 'w \<Rightarrow> AgentRun \<Rightarrow> AgentRun \<Rightarrow> instant \<Rightarrow> ConditionStatus \<Rightarrow> string \<Rightarrow> string \<Rightarrow> AgentRunStatus \<Rightarrow> bool \<Rightarrow> 'w reconciled" where
  "outcome_patch cl w original obj now st reason message status requeue =
     patchAgentRunStatus cl w original (obj\<lparr>run_Status := ready_condition cl obj st now reason message status\<rparr>) requeue"

definition completed_decision :: "AgentRun \<Rightarrow> AgentRunStatus \<Rightarrow> AgentRunDecisionStatus" where
  "completed_decision effective status =
     (case rs_Decision status of
        None \<Rightarrow> \<lparr>dec_Classification = ''completed'',
          dec_Action = firstNonEmpty (TrimSpace (rs_Intent status)) (intent_text (agentRunIntent effective)),
          dec_Summary = agentRunOutputSummary (rs_Output status), dec_ResidualRisk = []\<rparr>
      | Some d \<Rightarrow> if TrimSpace (dec_Summary d) = [] then d\<lparr>dec_Summary := agentRunOutputSummary (rs_Output status)\<rparr> else d)"

definition job_completed ::
  "'w cluster \<Rightarrow> run_env \<Rightarrow> instant \<Rightarrow> 'w \<Rightarrow> AgentRun \<Rightarrow> AgentRun \<Rightarrow> AgentRun \<Rightarrow> AgentRunStatus \<Rightarrow> 'w reconciled" where
  "job_completed cl r now w original obj effective status =
     (let decision = completed_decision effective status;
          status = with_result r (status\<lparr>rs_CompletedAt := Some now, rs_Error := [], rs_Decision := Some decision\<rparr>) in
      if agentRunReportsNeedHuman (rs_Reports status)
      then outcome_patch cl w original obj now ConditionFalse ''HarnessNeedsHuman''
             (firstNonEmpty (dec_Summary decision) (firstNonEmpty (agentRunLatestHumanFollowUp (rs_Reports status))
                ''Agent run reported that human follow-up is required.''))
             (status\<lparr>rs_Phase := AgentRunPhaseNeedsHuman\<rparr>) False
      else outcome_patch cl w original obj now ConditionTrue ''HarnessSucceeded''
             (firstNonEmpty (dec_Summary decision) ''Agent run harness completed successfully.'')
             (status\<lparr>rs_Phase := AgentRunPhaseSucceeded\<rparr>) False)"

definition job_failed ::
  "'w cluster \<Rightarrow> run_env \<Rightarrow> instant \<Rightarrow> 'w \<Rightarrow> AgentRun \<Rightarrow> AgentRun \<Rightarrow> AgentRunStatus \<Rightarrow> string \<Rightarrow> string \<Rightarrow> 'w reconciled" where
  "job_failed cl r now w original obj status reason message =
     outcome_patch cl w original obj now ConditionFalse reason message
       (with_result r (status\<lparr>rs_Phase := AgentRunPhaseFailed, rs_CompletedAt := Some now, rs_Error := message\<rparr>)) False"

definition job_running ::
  "'w cluster \<Rightarrow> run_env \<Rightarrow> (nat \<Rightarrow> instant) \<Rightarrow> 'w \<Rightarrow> AgentRun \<Rightarrow> AgentRun \<Rightarrow> Job \<Rightarrow> AgentRunStatus \<Rightarrow> 'w reconciled" where
  "job_running cl r clk w original obj job status =
     (case agentRunInterruptDuplicateHold obj of
        Some requester \<Rightarrow> reconcileAgentRunInterruptDuplicateHold cl r (clk 10) (\<lambda>n. clk (11 + n)) w obj requester
      | None \<Rightarrow>
          if agentRunStatusShowsInterruptDuplicate status
          then reconcileAgentRunInterruptDuplicateHold cl r (clk 10) (\<lambda>n. clk (11 + n)) w obj (agentRunInterruptDuplicateRequester obj)
          else outcome_patch cl w original obj (clk 0) ConditionFalse ''HarnessRunning''
                 (''Agent run job '' @ job_Namespace job @ ''/'' @ job_Name job @ '' is running or pending.'')
                 (status\<lparr>rs_Phase := AgentRunPhaseRunning, rs_CompletedAt := None, rs_Error := []\<rparr>) True)"

definition pod_status :: "AgentRunStatus \<Rightarrow> Pod option \<Rightarrow> AgentRunStatus" where
  "pod_status status pod =
     (case pod of
        None \<Rightarrow> status\<lparr>rs_RunnerPodRef := None, rs_RunnerPodUID := []\<rparr>
      | Some p \<Rightarrow> status\<lparr>rs_RunnerPodRef := Some \<lparr>nor_Name = pod_Name p, nor_Namespace = pod_Namespace p\<rparr>,
          rs_RunnerPodUID := pod_UID p, rs_RunnerNode := pod_NodeName p\<rparr>)"

definition log_status :: "run_env \<Rightarrow> AgentRunStatus \<Rightarrow> string \<Rightarrow> AgentRunStatus" where
  "log_status r status logs =
     with_result r ((agentRunApplyStatusReports status (agentRunStatusReportsFromOutput (json_ReadReport (env_JSON r)) logs))
       \<lparr>rs_Output := agentRunTrimOutput logs\<rparr>)"

text \<open>The status with the log, the object and the cluster after the requests in the log.\<close>

definition read_runner ::
  "'w cluster \<Rightarrow> run_env \<Rightarrow> instant \<Rightarrow> 'w \<Rightarrow> AgentRun \<Rightarrow> AgentRunStatus \<Rightarrow> Pod option \<Rightarrow> (AgentRunStatus \<times> AgentRun) result \<times> 'w" where
  "read_runner cl r now w obj status pod =
     (case pod of
        None \<Rightarrow> (Inr (status, obj), w)
      | Some p \<Rightarrow>
          (case cl_ReadPodLogs cl w (pod_Namespace p) (pod_Name p) of
             Inl _ \<Rightarrow> (Inr (status, obj), w)
           | Inr logs \<Rightarrow>
               (let status = log_status r status logs in
                case reconcileMidRunPeerDecisions cl r now w obj status of
                  (Some e, obj, w) \<Rightarrow> (Inl e, w)
                | (None, obj, w) \<Rightarrow> (Inr (status, obj), w))))"

definition job_outcome ::
  "'w cluster \<Rightarrow> run_env \<Rightarrow> (nat \<Rightarrow> instant) \<Rightarrow> 'w \<Rightarrow> AgentRun \<Rightarrow> AgentRun \<Rightarrow> AgentRun \<Rightarrow> Job \<Rightarrow> AgentRunStatus \<Rightarrow> Pod option \<Rightarrow> 'w reconciled" where
  "job_outcome cl r clk w original obj effective job status pod =
     (let message = agentRunPodLaunchFailureMessage pod in
      if message \<noteq> []
      then (case deleteAgentRunJobAfterLaunchFailure cl w job of
              (Some e, w) \<Rightarrow> (Inl e, w)
            | (None, w) \<Rightarrow> job_failed cl r (clk 0) w original obj status ''HarnessLaunchFailed'' message)
      else if agentRunJobComplete job then job_completed cl r (clk 0) w original obj effective status
      else if agentRunJobFailed job
      then job_failed cl r (clk 0) w original obj status ''HarnessFailed''
             (firstNonEmpty (jobFailureMessage job) (firstNonEmpty (podTerminationMessage pod) ''Agent run harness failed.''))
      else job_running cl r clk w original obj job status)"

definition observe_job ::
  "'w cluster \<Rightarrow> run_env \<Rightarrow> (nat \<Rightarrow> instant) \<Rightarrow> 'w \<Rightarrow> AgentRun \<Rightarrow> AgentRun \<Rightarrow> AgentRun \<Rightarrow> Job \<Rightarrow> AgentRunStatus \<Rightarrow> 'w reconciled" where
  "observe_job cl r clk w original obj effective job status =
     (let status = status\<lparr>rs_StartedAt := (case rs_StartedAt status of None \<Rightarrow> Some (clk 0) | Some t \<Rightarrow> Some t),
            rs_Image := firstNonEmpty (agentRunJobContainerImage job) (agentRunImage (env_Setup r) effective)\<rparr> in
      case findAgentRunRunnerPod (cl_cache cl) w job of
        Inl e \<Rightarrow> (Inl e, w)
      | Inr pod \<Rightarrow>
          (case read_runner cl r (clk 9) w obj (pod_status status pod) pod of
             (Inl e, w) \<Rightarrow> (Inl e, w)
           | (Inr (status, obj), w) \<Rightarrow> job_outcome cl r clk w original obj effective job status pod))"

definition job_env_status :: "AgentRunStatus \<Rightarrow> Job \<Rightarrow> AgentRunStatus" where
  "job_env_status status job = status\<lparr>
     rs_Backend := firstNonEmpty (rs_Backend status) (agentRunJobEnvValue job ''ANVIL_AGENT_RUN_BACKEND''),
     rs_Model := firstNonEmpty (rs_Model status) (agentRunModelFromJob job),
     rs_Intent := firstNonEmpty (rs_Intent status) (agentRunJobEnvValue job ''ANVIL_AGENT_RUN_INTENT''),
     rs_Image := firstNonEmpty (agentRunJobContainerImage job) (rs_Image status),
     rs_ExecutionRuntime := firstNonEmpty (rs_ExecutionRuntime status) (runtime_text AgentRunExecutionRuntimeJob)\<rparr>"

subsection \<open>Composition, gates and volumes\<close>

definition effective_status :: "run_env \<Rightarrow> AgentRun \<Rightarrow> AgentRunStatus \<Rightarrow> AgentRunStatus" where
  "effective_status r effective status = status\<lparr>
     rs_Backend := backend_text (agentRunBackendKind effective), rs_Model := agentRunBackendModel effective,
     rs_Intent := intent_text (agentRunIntent effective), rs_Image := agentRunImage (env_Setup r) effective,
     rs_ExecutionRuntime := runtime_text (EffectiveRuntime (run_execution effective))\<rparr>"

definition started :: "instant \<Rightarrow> AgentRunStatus \<Rightarrow> AgentRunStatus" where
  "started now status = status\<lparr>rs_StartedAt := (case rs_StartedAt status of None \<Rightarrow> Some now | Some t \<Rightarrow> Some t)\<rparr>"

definition block_run ::
  "'w cluster \<Rightarrow> instant \<Rightarrow> 'w \<Rightarrow> AgentRun \<Rightarrow> AgentRun \<Rightarrow> AgentRunStatus \<Rightarrow> blocking \<Rightarrow> 'w reconciled" where
  "block_run cl now w original obj status refusal =
     (case refusal of (phase, reason, message) \<Rightarrow>
        outcome_patch cl w original obj now ConditionFalse reason message
          ((started now status)\<lparr>rs_Phase := phase, rs_CompletedAt := Some now, rs_Error := message\<rparr>) False)"

text \<open>The effective run and its composition, or the end of the reconciliation.\<close>

definition compose_run ::
  "'w cluster \<Rightarrow> run_env \<Rightarrow> (nat \<Rightarrow> instant) \<Rightarrow> 'w \<Rightarrow> AgentRun \<Rightarrow> AgentRun \<Rightarrow> AgentRunStatus \<Rightarrow> Job option \<Rightarrow>
     'w reconciled + (AgentRun \<times> AgentRunResolvedCompositionStatus \<times> AgentRunStatus)" where
  "compose_run cl r clk w original obj status job =
     (case resolveAgentRunComposition (rd_Composition (cl_api cl) w) obj of
        (effective, Broken e) \<Rightarrow> Inl (Inl e, w)
      | (effective, Held phase reason message) \<Rightarrow>
          (case job of
             Some j \<Rightarrow> Inl (Inl (Errorf (''cannot validate recovered AgentRun Job '' @ meta_key (job_Meta j) @
               '' without its original resolved composition: '' @ message)), w)
           | None \<Rightarrow> Inl (block_run cl (clk 0) w original obj (effective_status r effective status) (phase, reason, message)))
      | (effective, Resolved composition) \<Rightarrow>
          (let status = effective_status r effective status in
           case agentRunBlockingValidation (env_Setup r) effective (clk 14) of
             Some refusal \<Rightarrow> Inl (block_run cl (clk 0) w original obj status refusal)
           | None \<Rightarrow> Inr (effective, composition, status)))"

definition waiting_behind :: "AgentRun \<Rightarrow> string \<Rightarrow> string" where
  "waiting_behind ahead reason =
     (if reason = ''QueuedBehindApplicationRun'' then ''Waiting behind application AgentRun '' else ''Waiting behind scheduled AgentRun '') @
     meta_key (run_Meta ahead) @ ''.''"

definition pending :: "AgentRunStatus \<Rightarrow> AgentRunStatus" where
  "pending status = status\<lparr>rs_Phase := AgentRunPhasePending, rs_CompletedAt := None, rs_Error := []\<rparr>"

text \<open>\<open>None\<close> where the gates let the run pass.\<close>

definition launch_gates ::
  "'w cluster \<Rightarrow> run_env \<Rightarrow> (nat \<Rightarrow> instant) \<Rightarrow> 'w \<Rightarrow> AgentRun \<Rightarrow> AgentRun \<Rightarrow> AgentRun \<Rightarrow> AgentRunStatus \<Rightarrow> ('w reconciled) option" where
  "launch_gates cl r clk w original obj effective status =
     (case agentRunLaunchPaused (rd_Kube (cl_cache cl)) w effective (clk 1) (clk 2) of
        Inl e \<Rightarrow> Some (Inl e, w)
      | Inr (True, reason, message, requeueAfter) \<Rightarrow>
          Some (patchAgentRunLaunchPausedStatus cl w (clk 3) original obj status reason message requeueAfter)
      | Inr (False, _, _, _) \<Rightarrow>
          (case agentRunQueuedBehind (rd_Kube (cl_cache cl)) w (Some (opt_ApplicationMaxConcurrentRuns (env_Options r))) effective of
             Inl e \<Rightarrow> Some (Inl e, w)
           | Inr (None, _) \<Rightarrow> None
           | Inr (Some ahead, reason) \<Rightarrow>
               Some (outcome_patch cl w original obj (clk 4) ConditionFalse reason (waiting_behind ahead reason) (pending status) True)))"

definition run_volumes ::
  "'w cluster \<Rightarrow> instant \<Rightarrow> 'w \<Rightarrow> AgentRun \<Rightarrow> AgentRun \<Rightarrow> AgentRun \<Rightarrow> AgentRunStatus \<Rightarrow> Job option \<Rightarrow>
     'w reconciled + (resolvedAgentRunDataVolume list \<times> AgentRunStatus)" where
  "run_volumes cl now w original obj effective status job =
     (case resolveAgentRunDataVolumes (cl_api cl) w effective of
        Inl e \<Rightarrow> Inl (Inl e, w)
      | Inr (Inr dataVolumes) \<Rightarrow> Inr (dataVolumes, status\<lparr>rs_DataVolumes := agentRunDataVolumeStatuses dataVolumes\<rparr>)
      | Inr (Inl (phase, reason, message)) \<Rightarrow>
          (case job of
             Some j \<Rightarrow> Inl (Inl (Errorf (''cannot validate recovered AgentRun Job '' @ meta_key (job_Meta j) @
               '' without its original resolved data volumes: '' @ message)), w)
           | None \<Rightarrow>
               (let status = status\<lparr>rs_DataVolumes := [], rs_Phase := phase\<rparr>;
                    status = (if phase = AgentRunPhasePending then status\<lparr>rs_CompletedAt := None, rs_Error := []\<rparr>
                              else (started now status)\<lparr>rs_CompletedAt := Some now, rs_Error := message\<rparr>) in
                Inl (outcome_patch cl w original obj now ConditionFalse reason message status (phase = AgentRunPhasePending)))))"

subsection \<open>Validation of a recovered Job\<close>

definition run_prompt :: "run_env \<Rightarrow> AgentRun \<Rightarrow> string" where
  "run_prompt r effective = buildAgentRunPrompt (env_SystemPrompt r) (json_Spec (env_JSON r)) effective"

definition with_composition :: "AgentRun \<Rightarrow> AgentRunResolvedCompositionStatus \<Rightarrow> AgentRun" where
  "with_composition effective c = effective\<lparr>run_Status := (run_Status effective)\<lparr>rs_ResolvedComposition := Some c\<rparr>\<rparr>"

definition payload_ref :: "ConfigMap \<Rightarrow> NamespacedObjectReference" where
  "payload_ref payload = \<lparr>nor_Name = om_Name (cm_Meta payload), nor_Namespace = om_Namespace (cm_Meta payload)\<rparr>"

definition validate_recovered ::
  "'w cluster \<Rightarrow> run_env \<Rightarrow> (nat \<Rightarrow> instant) \<Rightarrow> 'w \<Rightarrow> AgentRun \<Rightarrow> AgentRun \<Rightarrow> AgentRun \<Rightarrow> AgentRunResolvedCompositionStatus \<Rightarrow>
     resolvedAgentRunDataVolume list \<Rightarrow> Job \<Rightarrow> AgentRunStatus \<Rightarrow> 'w reconciled" where
  "validate_recovered cl r clk w original obj effective composition dataVolumes job status =
     (let prompt = run_prompt r effective; promptHash = shortHash prompt;
          expectedJobName = agentRunChildName [run_Name effective, ''harness'', promptHash] in
      if job_Name job \<noteq> expectedJobName
      then (Inl (Errorf (''recovered AgentRun Job '' @ meta_key (job_Meta job) @ '' does not match expected identity '' @
              run_Namespace effective @ ''/'' @ expectedJobName)), w)
      else (let effective = with_composition effective composition in
        case ensureAgentRunConfigMap cl r w effective prompt promptHash of
          (Inl e, w) \<Rightarrow> (Inl e, w)
        | (Inr (payload, payloadDigest), w) \<Rightarrow>
            (let composition = composition\<lparr>rcs_PayloadDigest := payloadDigest\<rparr>; effective = with_composition effective composition in
             case ensureAgentRunJob cl r w effective promptHash dataVolumes of
               (Inl e, w) \<Rightarrow> (Inl e, w)
             | (Inr validatedJob, w) \<Rightarrow>
                 if job_UID job \<noteq> [] \<and> job_UID validatedJob \<noteq> job_UID job
                 then (Inl (Errorf (''recovered AgentRun Job '' @ meta_key (job_Meta job) @ '' changed UID during validation'')), w)
                 else (case agentRunJobSnapshotDigest (env_JSON r) validatedJob of
                         Inl e \<Rightarrow> (Inl e, w)
                       | Inr digest \<Rightarrow>
                           observe_job cl r clk w original obj effective validatedJob
                             (status\<lparr>rs_PromptHash := promptHash, rs_JobRef := Some (job_ref validatedJob), rs_JobUID := job_UID validatedJob,
                                rs_PayloadRef := Some (payload_ref payload), rs_PayloadUID := om_UID (cm_Meta payload),
                                rs_JobSpecDigest := digest, rs_DataVolumes := agentRunDataVolumeStatuses dataVolumes,
                                rs_ResolvedComposition := Some (composition\<lparr>rcs_ResolvedAt := Some (clk 0)\<rparr>)\<rparr>)))))"

subsection \<open>Launch\<close>

definition hold_for_secrets ::
  "'w cluster \<Rightarrow> instant \<Rightarrow> 'w \<Rightarrow> AgentRun \<Rightarrow> AgentRun \<Rightarrow> AgentRunStatus \<Rightarrow> AgentRunPhase \<Rightarrow> string \<Rightarrow> string \<Rightarrow> 'w reconciled" where
  "hold_for_secrets cl now w original obj status phase reason message =
     (let status = ready_condition cl obj ConditionFalse now reason message
            (status\<lparr>rs_Phase := phase, rs_CompletedAt := (if phase = AgentRunPhasePending then None else Some now), rs_Error := message\<rparr>);
          obj = obj\<lparr>run_Status := status\<rparr> in
      if phase = AgentRunPhasePending
      then (case patch_run cl w original obj (requeue_after agentRunExternalSecretRefreshPollInterval) of (res, obj, w) \<Rightarrow> (res, w))
      else patchAgentRunStatus cl w original obj False)"

text \<open>The plan of a launch is recorded before anything is created; the next reconciliation carries it out.\<close>

definition record_plan ::
  "'w cluster \<Rightarrow> 'w \<Rightarrow> AgentRun \<Rightarrow> AgentRun \<Rightarrow> AgentRunStatus \<Rightarrow> AgentRunResolvedCompositionStatus \<Rightarrow> resolvedAgentRunDataVolume list \<Rightarrow>
     string \<Rightarrow> Job \<Rightarrow> string \<Rightarrow> ConfigMap \<Rightarrow> 'w reconciled" where
  "record_plan cl w original obj status composition dataVolumes promptHash desired digest payload =
     patchAgentRunStatus cl w original (obj\<lparr>run_Status := status\<lparr>rs_PromptHash := promptHash,
       rs_PlannedJobRef := Some (job_ref desired), rs_JobSpecDigest := digest, rs_PayloadRef := Some (payload_ref payload),
       rs_PayloadUID := om_UID (cm_Meta payload), rs_DataVolumes := agentRunDataVolumeStatuses dataVolumes,
       rs_ResolvedComposition := Some composition\<rparr>\<rparr>) True"

definition create_and_observe ::
  "'w cluster \<Rightarrow> run_env \<Rightarrow> (nat \<Rightarrow> instant) \<Rightarrow> 'w \<Rightarrow> AgentRun \<Rightarrow> AgentRun \<Rightarrow> AgentRun \<Rightarrow> AgentRunResolvedCompositionStatus \<Rightarrow>
     resolvedAgentRunDataVolume list \<Rightarrow> string \<Rightarrow> AgentRunStatus \<Rightarrow> 'w reconciled" where
  "create_and_observe cl r clk w original obj effective composition dataVolumes promptHash status =
     (case ensureAgentRunJob cl r w effective promptHash dataVolumes of
        (Inl e, w) \<Rightarrow> (Inl e, w)
      | (Inr job, w) \<Rightarrow>
          observe_job cl r clk w original obj effective job
            (status\<lparr>rs_PromptHash := promptHash, rs_JobRef := Some (job_ref job), rs_JobUID := job_UID job,
               rs_ResolvedComposition := Some (composition\<lparr>rcs_ResolvedAt := Some (clk 0)\<rparr>)\<rparr>))"

text \<open>The create attempt is recorded with the optimistic lock before the Job is created.\<close>

definition attempt_launch ::
  "'w cluster \<Rightarrow> run_env \<Rightarrow> (nat \<Rightarrow> instant) \<Rightarrow> 'w \<Rightarrow> AgentRun \<Rightarrow> AgentRun \<Rightarrow> AgentRun \<Rightarrow> AgentRunResolvedCompositionStatus \<Rightarrow>
     resolvedAgentRunDataVolume list \<Rightarrow> string \<Rightarrow> AgentRunStatus \<Rightarrow> 'w reconciled" where
  "attempt_launch cl r clk w original obj effective composition dataVolumes promptHash status =
     (if rs_JobCreateAttemptedAt status \<noteq> None
      then create_and_observe cl r clk w original obj effective composition dataVolumes promptHash status
      else (let status = status\<lparr>rs_JobCreateAttemptedAt := Some (clk 0)\<rparr> in
            case cl_PatchRunStatus cl w True original (obj\<lparr>run_Status := status\<rparr>) of
              (Inl e, w) \<Rightarrow> (if IsConflict e then Inr requeue_now else Inl e, w)
            | (Inr patched, w) \<Rightarrow> create_and_observe cl r clk w patched patched effective composition dataVolumes promptHash status))"

definition plan_launch ::
  "'w cluster \<Rightarrow> run_env \<Rightarrow> (nat \<Rightarrow> instant) \<Rightarrow> 'w \<Rightarrow> AgentRun \<Rightarrow> AgentRun \<Rightarrow> AgentRun \<Rightarrow> AgentRunResolvedCompositionStatus \<Rightarrow>
     resolvedAgentRunDataVolume list \<Rightarrow> AgentRunStatus \<Rightarrow> 'w reconciled" where
  "plan_launch cl r clk w original obj effective composition dataVolumes status =
     (let prompt = run_prompt r effective; promptHash = shortHash prompt in
      case ensureAgentRunConfigMap cl r w effective prompt promptHash of
        (Inl e, w) \<Rightarrow> (Inl e, w)
      | (Inr (payload, payloadDigest), w) \<Rightarrow>
          (let composition = composition\<lparr>rcs_PayloadDigest := payloadDigest\<rparr>; effective = with_composition effective composition;
               desired = desired_job r effective promptHash (om_Name (cm_Meta payload)) dataVolumes in
           case agentRunJobSnapshotDigest (env_JSON r) desired of
             Inl e \<Rightarrow> (Inl e, w)
           | Inr digest \<Rightarrow>
               if \<not> agentRunLaunchReceiptComplete status
               then record_plan cl w original obj status composition dataVolumes promptHash desired digest payload
               else (case validateAgentRunLaunchPlan (env_JSON r) status desired payload promptHash (Some composition) dataVolumes of
                       Some e \<Rightarrow> (Inl e, w)
                     | None \<Rightarrow>
                         if agentRunChatStartupExpired r obj status (clk 8) then (Inr requeue_now, w)
                         else attempt_launch cl r clk w original obj effective composition dataVolumes promptHash status)))"

definition launch_run ::
  "'w cluster \<Rightarrow> run_env \<Rightarrow> (nat \<Rightarrow> instant) \<Rightarrow> 'w \<Rightarrow> AgentRun \<Rightarrow> AgentRun \<Rightarrow> AgentRun \<Rightarrow> AgentRunResolvedCompositionStatus \<Rightarrow>
     resolvedAgentRunDataVolume list \<Rightarrow> AgentRunStatus \<Rightarrow> 'w reconciled" where
  "launch_run cl r clk w original obj effective composition dataVolumes status =
     (case ensureAgentRunExternalSecretFreshness cl r (\<lambda>n. clk (20 + n)) w effective status of
        (Inl e, status, w) \<Rightarrow> (Inl e, w)
      | (Inr (fresh, phase, reason, message), status, w) \<Rightarrow>
          if phase \<noteq> AgentRunPhaseUnset then hold_for_secrets cl (clk 0) w original obj status phase reason message
          else if \<not> fresh then (Inr (requeue_after agentRunExternalSecretRefreshPollInterval), w)
          else (case agentRunLaunchPausedAuthoritative (rd_Kube (cl_cache cl)) (Some (rd_Kube (cl_api cl))) w effective (clk 5) (clk 6) of
            Inl e \<Rightarrow> (Inl e, w)
          | Inr (True, reason, message, requeueAfter) \<Rightarrow>
              patchAgentRunLaunchPausedStatus cl w (clk 7) original obj status reason message requeueAfter
          | Inr (False, _, _, _) \<Rightarrow>
              if shouldGenerateOnActor (env_Setup r) effective
              then reconcileSubstrateActorRun cl r w original obj status effective (clk 0)
              else plan_launch cl r clk w original obj effective composition dataVolumes status))"

subsection \<open>Reconcile\<close>

definition reconcile_unlaunched ::
  "'w cluster \<Rightarrow> run_env \<Rightarrow> (nat \<Rightarrow> instant) \<Rightarrow> 'w \<Rightarrow> AgentRun \<Rightarrow> AgentRun \<Rightarrow> AgentRunStatus \<Rightarrow> 'w reconciled" where
  "reconcile_unlaunched cl r clk w original obj status =
     (case compose_run cl r clk w original obj status None of
        Inl res \<Rightarrow> res
      | Inr (effective, composition, status) \<Rightarrow>
          (case launch_gates cl r clk w original obj effective status of
             Some res \<Rightarrow> res
           | None \<Rightarrow>
               (case run_volumes cl (clk 0) w original obj effective status None of
                  Inl res \<Rightarrow> res
                | Inr (dataVolumes, status) \<Rightarrow> launch_run cl r clk w original obj effective composition dataVolumes status)))"

definition reconcile_unvalidated ::
  "'w cluster \<Rightarrow> run_env \<Rightarrow> (nat \<Rightarrow> instant) \<Rightarrow> 'w \<Rightarrow> AgentRun \<Rightarrow> AgentRun \<Rightarrow> AgentRunStatus \<Rightarrow> Job \<Rightarrow> 'w reconciled" where
  "reconcile_unvalidated cl r clk w original obj status job =
     (case compose_run cl r clk w original obj status (Some job) of
        Inl res \<Rightarrow> res
      | Inr (effective, composition, status) \<Rightarrow>
          (case run_volumes cl (clk 0) w original obj effective status (Some job) of
             Inl res \<Rightarrow> res
           | Inr (dataVolumes, status) \<Rightarrow> validate_recovered cl r clk w original obj effective composition dataVolumes job status))"

definition reconcile_active :: "'w cluster \<Rightarrow> run_env \<Rightarrow> (nat \<Rightarrow> instant) \<Rightarrow> 'w \<Rightarrow> AgentRun \<Rightarrow> 'w reconciled" where
  "reconcile_active cl r clk w obj =
     (let status = reset_status obj in
      case recover_job cl w obj status of
        Inl e \<Rightarrow> (Inl e, w)
      | Inr (job, missing) \<Rightarrow>
          if missing \<noteq> [] then job_missing cl r (clk 0) w obj obj status missing
          else (case job of
            None \<Rightarrow>
              (case reconcileAgentRunChatStartupDeadline cl r (clk 0) w obj obj status of
                 Some res \<Rightarrow> res
               | None \<Rightarrow> reconcile_unlaunched cl r clk w obj obj status)
          | Some job \<Rightarrow>
              (case adopt_job cl r (clk 0) w obj status job of
                 Inl e \<Rightarrow> (Inl e, w)
               | Inr (status, True) \<Rightarrow> reconcile_unvalidated cl r clk w obj obj status job
               | Inr (status, False) \<Rightarrow> observe_job cl r clk w obj obj obj job (job_env_status status job))))"

definition AgentRunReconciler_Reconcile ::
  "'w cluster \<Rightarrow> run_env \<Rightarrow> (nat \<Rightarrow> instant) \<Rightarrow> 'w \<Rightarrow> string \<Rightarrow> string \<Rightarrow> 'w reconciled" where
  "AgentRunReconciler_Reconcile cl r clk w namespace name =
     (case k_GetRun (rd_Kube (cl_cache cl)) w namespace name of
        Inl e \<Rightarrow> (IgnoreNotFound e, w)
      | Inr obj \<Rightarrow>
          if being_deleted (run_Meta obj) then (Inr no_requeue, w)
          else (case agentRunInterruptDuplicateHold obj of
            Some requester \<Rightarrow> reconcileAgentRunInterruptDuplicateHold cl r (clk 10) (\<lambda>n. clk (11 + n)) w obj requester
          | None \<Rightarrow>
              if agentRunPhaseTerminal (run_Phase obj) then reconcileTerminalAgentRun cl r clk w obj
              else reconcile_active cl r clk w obj))"

end
