(* ===== verification/SingleExecution.thy ===== *)
theory SingleExecution
  imports RunReconcile
begin

text \<open>
  A run is executed once. The lemmas follow the log of \<open>AgentRunReconciler_Reconcile\<close>: the only Jobs it
  creates are one that comes directly after the create attempt was recorded with the optimistic lock,
  and one that recreates a Job the recovery has just found under the same name. No status patch
  forgets a recorded attempt. With an API server that honours the optimistic lock, any number of interleaved
  reconciliations of a run together launch at most one Job.
\<close>

subsection \<open>Receipts\<close>

definition attempted :: "AgentRunStatus \<Rightarrow> bool" where
  "attempted status \<longleftrightarrow> rs_JobCreateAttemptedAt status \<noteq> None"

text \<open>A run with a Job has its name.\<close>

definition receipt_wf :: "AgentRunStatus \<Rightarrow> bool" where
  "receipt_wf status \<longleftrightarrow> rs_JobRef status = None \<and> rs_JobUID status = [] \<or> \<not> blank_ref (rs_JobRef status)"

text \<open>A status that may follow the status of a run.\<close>

definition sound :: "AgentRun \<Rightarrow> AgentRunStatus \<Rightarrow> bool" where
  "sound old status \<longleftrightarrow>
     (attempted (run_Status old) \<longrightarrow> attempted status) \<and>
     (receipt_wf (run_Status old) \<longrightarrow> receipt_wf status \<and> (rs_JobRef (run_Status old) \<noteq> None \<longrightarrow> rs_JobRef status \<noteq> None))"

fun calm :: "cluster_event \<Rightarrow> bool" where
  "calm (CreatedJob job ans) \<longleftrightarrow> False"
| "calm (PatchedRunStatus lock old new ans) \<longleftrightarrow> sound old (run_Status new)"
| "calm ev \<longleftrightarrow> True"

lemma same_receipt_sound:
  assumes "same_receipt a b"
  shows "sound old b = sound old a"
  using assms by (simp add: sound_def same_receipt_def attempted_def receipt_wf_def)

lemma sound_self [simp]: "sound old (run_Status old)"
  by (simp add: sound_def)

lemma sound_fields [simp]:
  "sound old (st\<lparr>rs_ObservedGeneration := v1\<rparr>) = sound old st"
  "sound old (st\<lparr>rs_Conditions := v2\<rparr>) = sound old st"
  "sound old (st\<lparr>rs_Phase := v3\<rparr>) = sound old st"
  "sound old (st\<lparr>rs_Backend := v4\<rparr>) = sound old st"
  "sound old (st\<lparr>rs_Model := v5\<rparr>) = sound old st"
  "sound old (st\<lparr>rs_Intent := v6\<rparr>) = sound old st"
  "sound old (st\<lparr>rs_Image := v7\<rparr>) = sound old st"
  "sound old (st\<lparr>rs_ExecutionRuntime := v8\<rparr>) = sound old st"
  "sound old (st\<lparr>rs_SubstrateActor := v9\<rparr>) = sound old st"
  "sound old (st\<lparr>rs_PlannedJobRef := v10\<rparr>) = sound old st"
  "sound old (st\<lparr>rs_JobSpecDigest := v11\<rparr>) = sound old st"
  "sound old (st\<lparr>rs_PayloadRef := v12\<rparr>) = sound old st"
  "sound old (st\<lparr>rs_PayloadUID := v13\<rparr>) = sound old st"
  "sound old (st\<lparr>rs_RunnerPodRef := v14\<rparr>) = sound old st"
  "sound old (st\<lparr>rs_RunnerPodUID := v15\<rparr>) = sound old st"
  "sound old (st\<lparr>rs_RunnerNode := v16\<rparr>) = sound old st"
  "sound old (st\<lparr>rs_DataVolumes := v17\<rparr>) = sound old st"
  "sound old (st\<lparr>rs_ExternalSecretRefreshes := v18\<rparr>) = sound old st"
  "sound old (st\<lparr>rs_Archive := v19\<rparr>) = sound old st"
  "sound old (st\<lparr>rs_ResolvedComposition := v20\<rparr>) = sound old st"
  "sound old (st\<lparr>rs_StartedAt := v21\<rparr>) = sound old st"
  "sound old (st\<lparr>rs_CompletedAt := v22\<rparr>) = sound old st"
  "sound old (st\<lparr>rs_PromptHash := v23\<rparr>) = sound old st"
  "sound old (st\<lparr>rs_Decision := v24\<rparr>) = sound old st"
  "sound old (st\<lparr>rs_Reports := v25\<rparr>) = sound old st"
  "sound old (st\<lparr>rs_Result := v26\<rparr>) = sound old st"
  "sound old (st\<lparr>rs_Output := v27\<rparr>) = sound old st"
  "sound old (st\<lparr>rs_PullRequestURL := v28\<rparr>) = sound old st"
  "sound old (st\<lparr>rs_Error := v29\<rparr>) = sound old st"
  by (simp_all add: sound_def attempted_def receipt_wf_def)

lemma sound_reports: "sound old (agentRunApplyStatusReports st reports) = sound old st"
proof -
  have "sound old (foldl apply_report st reports) = sound old st" for st
    by (induction reports arbitrary: st) (simp_all add: apply_report_def Let_def)
  then show ?thesis
    by (simp add: agentRunApplyStatusReports_def)
qed

lemma sound_derived [simp]:
  "sound old (ready_condition cl obj c now reason message st) = sound old st"
  "sound old (with_result r st) = sound old st"
  "sound old (started now st) = sound old st"
  "sound old (pending st) = sound old st"
  "sound old (effective_status r effective st) = sound old st"
  "sound old (pod_status st pod) = sound old st"
  "sound old (log_status r st logs) = sound old st"
  "sound old (job_env_status st job) = sound old st"
  by (simp_all add: ready_condition_def with_result_def started_def pending_def effective_status_def pod_status_def log_status_def
      job_env_status_def sound_reports split: option.split)

lemma sound_reset: "\<not> agentRunPhaseTerminal (run_Phase obj) \<Longrightarrow> sound obj (reset_status obj)"
  by (auto simp: reset_status_def Let_def) (auto simp: sound_def attempted_def receipt_wf_def zero_RunStatus_def job_ref_named_def)

lemma noted_answer: "noted ev r l = (a, y) \<Longrightarrow> snd y = l @ [ev a]"
  by (cases r) auto

subsection \<open>The steps that create no Job\<close>

lemma patch_calm:
  "patchAgentRunStatus (logged cl) x original obj rq = (res, y) \<Longrightarrow> sound original (run_Status obj) \<Longrightarrow> extends calm x y"
  by (auto simp: patchAgentRunStatus_def split: prod.splits intro!: patch_run_step)

lemma locked_calm:
  "cl_PatchRunStatus (logged cl) x lock original obj = (res, y) \<Longrightarrow> sound original (run_Status obj) \<Longrightarrow> extends calm x y"
  by (auto simp: logged_step intro!: noted_step)

lemma outcome_calm:
  "outcome_patch (logged cl) x original obj now c reason message status rq = (res, y) \<Longrightarrow> sound original status \<Longrightarrow> extends calm x y"
  by (auto simp: outcome_patch_def intro: patch_calm)

lemma paused_calm:
  "patchAgentRunLaunchPausedStatus (logged cl) x now original obj status reason message d = (res, y) \<Longrightarrow> sound original status \<Longrightarrow>
     extends calm x y"
  by (auto simp: patchAgentRunLaunchPausedStatus_def Let_def split: prod.splits intro!: patch_run_step)

lemma terminal_write_calm: "terminal_write r now run ev \<Longrightarrow> calm ev"
  by (cases ev) (auto simp: with_archive_def)

lemma terminal_calm: "reconcileTerminalAgentRun (logged cl) r clk x run = (res, y) \<Longrightarrow> extends calm x y"
  using extends_mono [OF terminal_writes terminal_write_calm] .

lemma hold_calm:
  "reconcileAgentRunInterruptDuplicateHold (logged cl) r now clk x obj q = (res, y) \<Longrightarrow> extends calm x y"
  by (erule extends_mono [OF hold_writes])
    (auto simp: held_run_def Let_def dest: terminal_write_calm)

lemma peer_write_calm: "peer_write cl L obj ev \<Longrightarrow> calm ev"
  by (cases ev) (auto simp: interrupted_def Let_def)

lemma request_calm: "reconcileMidRunPeerDecisions (logged cl) r now x obj status = (e, obj', y) \<Longrightarrow> extends calm x y"
  using extends_mono [OF request_writes peer_write_calm] .

lemma actor_calm:
  assumes "reconcileSubstrateActorRun (logged cl) r x original obj status effective now = (res, y)" "sound original status"
  shows "extends calm x y"
proof (rule extends_mono [OF actor_run_writes [OF assms(1)]])
  fix ev
  assume "actor_write original status ev"
  then show "calm ev"
    using assms(2) by (cases ev) (auto simp: same_receipt_sound)
qed

lemma refresh_calm:
  "ensureAgentRunExternalSecretFreshness (logged cl) r clk x obj status = (res, status', y) \<Longrightarrow> extends calm x y"
  unfolding ensureAgentRunExternalSecretFreshness_def by (erule extends_mono [OF refresh_loop_writes]) auto

lemma refresh_receipt:
  "ensureAgentRunExternalSecretFreshness cl r clk w obj status = (res, status', w') \<Longrightarrow>
     \<exists>v. status' = status\<lparr>rs_ExternalSecretRefreshes := v\<rparr>"
proof -
  have "refresh_loop cl r clk obj n refs status w = (res, status', w') \<Longrightarrow> \<exists>v. status' = status\<lparr>rs_ExternalSecretRefreshes := v\<rparr>" for n refs
  proof (induction refs arbitrary: n status)
    case Nil
    then show ?case
      by (auto intro: exI [of _ "rs_ExternalSecretRefreshes status"])
  next
    case (Cons ref refs)
    have same: "\<exists>v. status = status\<lparr>rs_ExternalSecretRefreshes := v\<rparr>"
      by (auto intro: exI [of _ "rs_ExternalSecretRefreshes status"])
    have "refresh_request cl r obj now status name target x w = (res, status', w') \<Longrightarrow> \<exists>v. status' = status\<lparr>rs_ExternalSecretRefreshes := v\<rparr>"
      for now name target x
      using same by (auto simp: refresh_request_def Let_def split: prod.splits option.splits)
    then show ?case
      using Cons.prems same
      by (auto simp: Let_def split: sum.splits option.splits if_splits dest!: Cons.IH)
  qed
  then show "ensureAgentRunExternalSecretFreshness cl r clk w obj status = (res, status', w') \<Longrightarrow> ?thesis"
    by (simp add: ensureAgentRunExternalSecretFreshness_def)
qed

lemma refresh_sound:
  "ensureAgentRunExternalSecretFreshness cl r clk w obj status = (res, status', w') \<Longrightarrow> sound old status' = sound old status"
  by (auto dest!: refresh_receipt)

lemma chat_calm:
  "reconcileAgentRunChatStartupDeadline (logged cl) r now x original run status = Some (res, y) \<Longrightarrow> sound original status \<Longrightarrow>
     extends calm x y"
  by (auto simp: reconcileAgentRunChatStartupDeadline_def Let_def split: if_splits sum.splits prod.splits dest!: locked_calm)

lemma payload_calm:
  assumes "ensureAgentRunConfigMap (logged cl) r x obj prompt h = (res, y)"
  shows "extends calm x y"
proof -
  have created: "extends calm x z" if "cl_CreateConfigMap (logged cl) x cm = (ans, z)" for cm ans z
    using that by (auto simp: logged_step intro!: noted_step)
  have updated: "extends calm x z" if "cl_UpdateConfigMap (logged cl) x cm = (ans, z)" for cm ans z
    using that by (auto simp: logged_step intro!: noted_step)
  have adopted: "extends calm x z" if "adopt_payload (logged cl) x obj d cm = (ans, z)" for d cm ans z
    using that by (auto simp: adopt_payload_def split: option.splits if_splits prod.splits sum.splits dest: updated)
  show ?thesis
    using assms
    by (auto simp: ensureAgentRunConfigMap_def Let_def split: sum.splits prod.splits if_splits dest: created adopted)
qed

lemma delete_calm: "deleteAgentRunJobAfterLaunchFailure (logged cl) x job = (res, y) \<Longrightarrow> extends calm x y"
  by (auto simp: deleteAgentRunJobAfterLaunchFailure_def logged_step split: if_splits prod.splits option.splits intro!: noted_step)

lemma running_calm:
  "job_running (logged cl) r clk x original obj job status = (res, y) \<Longrightarrow> sound original status \<Longrightarrow> extends calm x y"
  by (auto simp: job_running_def split: option.splits if_splits intro: hold_calm outcome_calm)

lemma job_failed_calm:
  "job_failed (logged cl) r now x original obj status reason message = (res, y) \<Longrightarrow> sound original status \<Longrightarrow> extends calm x y"
  by (auto simp: job_failed_def intro!: outcome_calm)

lemma job_completed_calm:
  "job_completed (logged cl) r now x original obj effective status = (res, y) \<Longrightarrow> sound original status \<Longrightarrow> extends calm x y"
  by (auto simp: job_completed_def Let_def split: if_splits intro!: outcome_calm)

lemma outcome_of_job_calm:
  assumes "job_outcome (logged cl) r clk x original obj effective job status pod = (res, y)" "sound original status"
  shows "extends calm x y"
  using assms
  by (auto simp: job_outcome_def Let_def split: if_splits prod.splits option.splits
      intro: job_completed_calm job_failed_calm running_calm delete_calm extends_trans [OF delete_calm job_failed_calm])

lemma read_runner_calm:
  assumes "read_runner (logged cl) r now x obj status pod = (res, y)"
  shows "extends calm x y"
  using assms
  by (auto simp: read_runner_def Let_def split: option.splits sum.splits prod.splits dest: request_calm)

lemma read_runner_sound:
  "read_runner cl r now w obj status pod = (Inr (status', obj'), w') \<Longrightarrow> sound old status' = sound old status"
  by (auto simp: read_runner_def Let_def split: option.splits sum.splits prod.splits)

lemma observe_calm:
  assumes "observe_job (logged cl) r clk x original obj effective job status = (res, y)" "sound original status"
  shows "extends calm x y"
proof -
  define st where "st = status\<lparr>rs_StartedAt := (case rs_StartedAt status of None \<Rightarrow> Some (clk 0) | Some t \<Rightarrow> Some t),
            rs_Image := firstNonEmpty (agentRunJobContainerImage job) (agentRunImage (env_Setup r) effective)\<rparr>"
  have st: "sound original st"
    using assms(2) by (simp add: st_def)
  show ?thesis
  proof (cases "findAgentRunRunnerPod (cl_cache (logged cl)) x job")
    case (Inl e)
    then show ?thesis
      using assms(1) by (simp add: observe_job_def)
  next
    case (Inr pod)
    obtain ans z where z: "read_runner (logged cl) r (clk 9) x obj (pod_status st pod) pod = (ans, z)"
      by (metis prod.collapse)
    then have xz: "extends calm x z"
      by (rule read_runner_calm)
    show ?thesis
    proof (cases ans)
      case (Inl e)
      then show ?thesis
        using assms(1) Inr z xz by (auto simp: observe_job_def st_def [symmetric] simp del: logged_reads)
    next
      case (Inr p)
      obtain status' obj' where p: "p = (status', obj')"
        by (cases p)
      have "sound original status'"
        using read_runner_sound z Inr p st by (metis sound_derived(6))
      moreover have "job_outcome (logged cl) r clk z original obj' effective job status' pod = (res, y)"
        using assms(1) \<open>findAgentRunRunnerPod _ x job = Inr pod\<close> z Inr p
        by (simp add: observe_job_def st_def [symmetric] del: logged_reads)
      ultimately show ?thesis
        using xz outcome_of_job_calm extends_trans by blast
    qed
  qed
qed

lemma block_calm:
  "block_run (logged cl) now x original obj status refusal = (res, y) \<Longrightarrow> sound original status \<Longrightarrow> extends calm x y"
  by (auto simp: block_run_def split: prod.splits intro!: outcome_calm)

lemma compose_calm:
  "compose_run (logged cl) r clk x original obj status job = Inl (res, y) \<Longrightarrow> sound original status \<Longrightarrow> extends calm x y"
  by (auto simp: compose_run_def Let_def split: prod.splits resolution.splits option.splits dest!: block_calm)

lemma compose_sound:
  "compose_run cl r clk w original obj status job = Inr (effective, composition, status') \<Longrightarrow>
     sound old status' = sound old status \<and> rs_JobCreateAttemptedAt status' = rs_JobCreateAttemptedAt status"
  by (auto simp: compose_run_def Let_def effective_status_def split: prod.splits resolution.splits option.splits)

lemma gates_calm:
  "launch_gates (logged cl) r clk x original obj effective status = Some (res, y) \<Longrightarrow> sound original status \<Longrightarrow> extends calm x y"
  by (auto simp: launch_gates_def split: sum.splits prod.splits bool.splits option.splits dest!: paused_calm outcome_calm)

lemma volumes_calm:
  "run_volumes (logged cl) now x original obj effective status job = Inl (res, y) \<Longrightarrow> sound original status \<Longrightarrow> extends calm x y"
  by (auto simp: run_volumes_def Let_def split: sum.splits prod.splits option.splits if_splits dest!: outcome_calm)

lemma volumes_sound:
  "run_volumes cl now w original obj effective status job = Inr (dataVolumes, status') \<Longrightarrow>
     status' = status\<lparr>rs_DataVolumes := agentRunDataVolumeStatuses dataVolumes\<rparr>"
  by (auto simp: run_volumes_def Let_def split: sum.splits prod.splits option.splits)

lemma secrets_calm:
  "hold_for_secrets (logged cl) now x original obj status phase reason message = (res, y) \<Longrightarrow> sound original status \<Longrightarrow> extends calm x y"
  by (auto simp: hold_for_secrets_def Let_def split: if_splits prod.splits intro!: patch_run_step dest!: patch_calm)

lemma plan_calm:
  "record_plan (logged cl) x original obj status c vs h desired d payload = (res, y) \<Longrightarrow> sound original status \<Longrightarrow> extends calm x y"
  by (auto simp: record_plan_def intro!: patch_calm)

subsection \<open>The steps that create a Job\<close>

lemma ensure_job_writes:
  assumes "ensureAgentRunJob (logged cl) r x obj h vs = (res, y)"
  shows "snd y = snd x \<or> (\<exists>job. snd y = snd x @ [CreatedJob job res])"
  using assms
  by (auto simp: ensureAgentRunJob_def Let_def logged_step split: sum.splits if_splits option.splits dest!: noted_answer)

lemma logged_recover [simp]: "recover_job (logged cl) (w, l) obj status = recover_job cl w obj status"
proof -
  have "existingAgentRunJob (logged_reader rd) (w, l) = existingAgentRunJob rd w" for rd :: "'a reader"
    by (intro ext) (simp add: existingAgentRunJob_def Let_def split: option.split)
  then show ?thesis
    by (simp add: recover_job_def)
qed

lemma complete_ref:
  assumes "agentRunLaunchReceiptComplete status" "receipt_wf status"
  shows "\<not> blank_ref (lookup_ref status)"
  using assms
  by (auto simp: lookup_ref_def planned_launch_def receipt_wf_def agentRunLaunchReceiptComplete_def named_def blank_ref_def
      split: option.splits)

lemma no_job_fresh:
  assumes "recover_job cl w obj status = Inr (None, [])" "receipt_wf status"
  shows "agentRunLaunchReceiptComplete status \<longrightarrow> \<not> attempted status"
proof
  assume "agentRunLaunchReceiptComplete status"
  then have "\<not> blank_ref (lookup_ref status)"
    using complete_ref assms(2) by blast
  moreover obtain m where m: "existingAgentRunJob (cl_api cl) w obj (lookup_ref status) (rs_JobUID status)
      (planned_launch status \<and> rs_JobCreateAttemptedAt status = None) = Inr (None, m)" "m = []"
    using assms(1) by (auto simp: recover_job_def split: sum.splits if_splits)
  ultimately have "planned_launch status \<and> rs_JobCreateAttemptedAt status = None"
    by (auto simp: existingAgentRunJob_def Let_def split: option.splits sum.splits if_splits)
  then show "\<not> attempted status"
    by (simp add: attempted_def)
qed

lemma own_name: "own cl kind owner meta = Inr meta' \<Longrightarrow> om_Name meta' = om_Name meta \<and> om_Namespace meta' = om_Namespace meta"
  by (auto simp: own_def split: sum.splits)

lemma desired_job_name [simp]: "job_Name (desired_job r obj h payload vs) = agentRunChildName [run_Name obj, ''harness'', h]"
  by (simp add: desired_job_def agentRunJob_def Let_def)

lemma harness_name: "TrimSpace (agentRunChildName [name, ''harness'', h]) \<noteq> []"
proof -
  have "sanitizeDNSLabel ''harness'' = ''harness''"
    by (rule sanitizeDNSLabel_fixed) (simp_all add: dns_token_def dns_chars_def dash_free_ends_def dns_char_def)
  then have "dns_label (agentRunChildName [name, ''harness'', h])"
    by (intro agentRunChildName_label) auto
  then show ?thesis
    by (auto simp: dns_label_def dns_token_def TrimSpace_dns)
qed

lemma ensure_job_creates:
  assumes "ensureAgentRunJob (logged cl) r x obj h vs = (res, y)"
  shows "snd y = snd x \<or>
    (\<exists>job. snd y = snd x @ [CreatedJob job res] \<and> job_Name job = agentRunChildName [run_Name obj, ''harness'', h])"
  using assms
  by (auto simp: ensureAgentRunJob_def Let_def logged_step split: sum.splits if_splits option.splits dest!: noted_answer own_name)

text \<open>What the controller relies on: the server names a Job as it was asked to, and gives the Job that was asked for.\<close>

locale job_api =
  fixes cl :: "'w cluster"
  assumes cached_job: "rd_GetJob (cl_cache cl) w ns n = Inr job \<Longrightarrow> job_Name job = n"
    and read_job: "rd_GetJob (cl_api cl) w ns n = Inr job \<Longrightarrow> job_Name job = n"
    and created_job: "cl_CreateJob cl w job = (Inr stored, w') \<Longrightarrow> job_Name stored = job_Name job"
begin

lemma ensure_job_named:
  assumes "ensureAgentRunJob (logged cl) r x obj h vs = (Inr job, y)"
  shows "TrimSpace (job_Name job) \<noteq> []"
proof -
  let ?name = "agentRunChildName [run_Name obj, ''harness'', h]"
  have "job_Name job = ?name"
    using assms
    by (auto simp: ensureAgentRunJob_def Let_def logged_step logged_read noted_def
        split: sum.splits if_splits option.splits prod.splits dest!: own_name dest: cached_job created_job)
  then show ?thesis
    using harness_name by metis
qed

lemma recovered_named:
  assumes "recover_job (logged cl) x obj status = Inr (Some job, m)" "receipt_wf status" "agentRunLaunchReceiptComplete status"
  shows "TrimSpace (job_Name job) \<noteq> []"
proof -
  obtain allow m' where "existingAgentRunJob (cl_api (logged cl)) x obj (lookup_ref status) (rs_JobUID status) allow = Inr (Some job, m')"
    using assms(1) by (auto simp: recover_job_def split: sum.splits)
  with complete_ref [OF assms(3,2)] show ?thesis
    by (auto simp: existingAgentRunJob_def blank_ref_def Let_def logged_read split: sum.splits if_splits option.splits
        dest: read_job)
qed

lemma created_calm:
  assumes "create_and_observe (logged cl) r clk x original obj effective c vs h status = (res, y)" "attempted status"
    and z: "ensureAgentRunJob (logged cl) r x effective h vs = (ans, z)"
  shows "extends calm z y"
proof (cases ans)
  case (Inl e)
  then show ?thesis
    using assms(1) z by (simp add: create_and_observe_def)
next
  case (Inr job)
  then have "TrimSpace (job_Name job) \<noteq> []"
    using z ensure_job_named by blast
  then have "sound original (status\<lparr>rs_PromptHash := h, rs_JobRef := Some (job_ref job), rs_JobUID := job_UID job,
      rs_ResolvedComposition := Some (c\<lparr>rcs_ResolvedAt := Some (clk 0)\<rparr>)\<rparr>)"
    using assms(2) by (simp add: sound_def attempted_def receipt_wf_def blank_ref_def job_ref_def)
  moreover have "observe_job (logged cl) r clk z original obj effective job (status\<lparr>rs_PromptHash := h, rs_JobRef := Some (job_ref job),
      rs_JobUID := job_UID job, rs_ResolvedComposition := Some (c\<lparr>rcs_ResolvedAt := Some (clk 0)\<rparr>)\<rparr>) = (res, y)"
    using assms(1) z Inr by (simp add: create_and_observe_def)
  ultimately show ?thesis
    using observe_calm by blast
qed

lemma create_trace:
  assumes "create_and_observe (logged cl) r clk x original obj effective c vs h status = (res, y)" "attempted status"
  shows "\<exists>t t'. snd y = snd x @ t @ t' \<and> list_all calm t' \<and>
    (t = [] \<or> (\<exists>job ans. t = [CreatedJob job ans] \<and> job_Name job = agentRunChildName [run_Name effective, ''harness'', h]))"
proof -
  obtain ans z where z: "ensureAgentRunJob (logged cl) r x effective h vs = (ans, z)"
    by (metis prod.collapse)
  have "extends calm z y"
    by (rule created_calm [OF assms z])
  then obtain t' where t': "snd y = snd z @ t'" "list_all calm t'"
    by (auto simp: extends_def)
  from ensure_job_creates [OF z] show ?thesis
  proof
    assume "snd z = snd x"
    then show ?thesis
      using t' by (intro exI [of _ "[]"] exI [of _ t']) simp
  next
    assume "\<exists>job. snd z = snd x @ [CreatedJob job ans] \<and> job_Name job = agentRunChildName [run_Name effective, ''harness'', h]"
    then obtain job where "snd z = snd x @ [CreatedJob job ans]" "job_Name job = agentRunChildName [run_Name effective, ''harness'', h]"
      by blast
    then show ?thesis
      using t' by (intro exI [of _ "[CreatedJob job ans]"] exI [of _ t']) simp
  qed
qed

end

text \<open>The log of a launch: the attempt is claimed and the Job is created at once; nothing else is created.\<close>

definition launch_trace :: "AgentRun \<Rightarrow> cluster_event list \<Rightarrow> bool" where
  "launch_trace obj l \<longleftrightarrow>
     (\<exists>t1 new stored job ans t2. l = t1 @ [PatchedRunStatus True obj new (Inr stored), CreatedJob job ans] @ t2 \<and>
        list_all calm t1 \<and> list_all calm t2 \<and> sound obj (run_Status new) \<and>
        \<not> attempted (run_Status obj) \<and> attempted (run_Status new))"

text \<open>The log of a recovery that recreates the Job it has found.\<close>

definition recovery_trace :: "Job \<Rightarrow> cluster_event list \<Rightarrow> bool" where
  "recovery_trace found_job l \<longleftrightarrow>
     (\<exists>t1 job ans t2. l = t1 @ [CreatedJob job ans] @ t2 \<and> list_all calm t1 \<and> list_all calm t2 \<and> job_Name job = job_Name found_job)"

lemma launch_trace_prepend: "list_all calm t \<Longrightarrow> launch_trace obj l \<Longrightarrow> launch_trace obj (t @ l)"
  unfolding launch_trace_def by (metis append_assoc list_all_append)

lemma calm_launch:
  assumes "extends calm x y" "snd z = snd y @ t" "list_all calm t \<or> launch_trace obj t"
  shows "\<exists>t. snd z = snd x @ t \<and> (list_all calm t \<or> launch_trace obj t)"
proof -
  obtain u where "snd y = snd x @ u" "list_all calm u"
    using assms(1) by (auto simp: extends_def)
  then show ?thesis
    using assms(2,3) launch_trace_prepend [of u obj t] by (metis append_assoc list_all_append)
qed

lemma calm_trace: "extends calm x y \<Longrightarrow> \<exists>t. snd y = snd x @ t \<and> (list_all calm t \<or> launch_trace obj t)"
  by (auto simp: extends_def)

context job_api
begin

lemma attempt_trace:
  assumes step: "attempt_launch (logged cl) r clk x obj obj effective c vs h status = (res, y)"
    and sound: "sound obj status" and fresh: "\<not> attempted status"
  shows "\<exists>t. snd y = snd x @ t \<and> (list_all calm t \<or> launch_trace obj t)"
proof -
  let ?st = "status\<lparr>rs_JobCreateAttemptedAt := Some (clk 0)\<rparr>" let ?new = "obj\<lparr>run_Status := ?st\<rparr>"
  have claimed: "sound obj ?st" "attempted ?st" "\<not> attempted (run_Status obj)"
    using sound fresh by (auto simp: sound_def attempted_def receipt_wf_def)
  obtain ans z where z: "cl_PatchRunStatus (logged cl) x True obj ?new = (ans, z)"
    by (metis prod.collapse)
  then have zlog: "snd z = snd x @ [PatchedRunStatus True obj ?new ans]"
    by (simp add: logged_step noted_answer)
  show ?thesis
  proof (cases ans)
    case (Inl e)
    then have "y = z"
      using step fresh z by (auto simp: attempt_launch_def attempted_def Let_def)
    then show ?thesis
      using zlog claimed by auto
  next
    case (Inr stored)
    then have "create_and_observe (logged cl) r clk z stored stored effective c vs h ?st = (res, y)"
      using step fresh z by (simp add: attempt_launch_def attempted_def Let_def)
    from create_trace [OF this claimed(2)] obtain t t' where t: "snd y = snd z @ t @ t'" "list_all calm t'"
      "t = [] \<or> (\<exists>job ans. t = [CreatedJob job ans])" by blast
    show ?thesis
    proof (cases "t = []")
      case True
      then show ?thesis
        using t zlog claimed by auto
    next
      case False
      then obtain job ans' where "t = [CreatedJob job ans']"
        using t(3) by blast
      then have "launch_trace obj ([PatchedRunStatus True obj ?new ans] @ t @ t')"
        unfolding launch_trace_def using t(2) Inr claimed
        by (intro exI [of _ "[]"] exI [of _ ?new] exI [of _ stored] exI [of _ job] exI [of _ ans'] exI [of _ t']) simp
      then show ?thesis
        using t(1) zlog by auto
    qed
  qed
qed

lemma plan_trace:
  assumes step: "plan_launch (logged cl) r clk x obj obj effective c vs status = (res, y)"
    and sound: "sound obj status" and fresh: "agentRunLaunchReceiptComplete status \<longrightarrow> \<not> attempted status"
  shows "\<exists>t. snd y = snd x @ t \<and> (list_all calm t \<or> launch_trace obj t)"
proof -
  let ?h = "shortHash (run_prompt r effective)"
  obtain ans z where z: "ensureAgentRunConfigMap (logged cl) r x effective (run_prompt r effective) ?h = (ans, z)"
    by (metis prod.collapse)
  have xz: "extends calm x z"
    by (rule payload_calm [OF z])
  show ?thesis
  proof (cases ans)
    case (Inl e)
    then show ?thesis
      using step z xz by (auto simp: plan_launch_def Let_def intro: calm_trace)
  next
    case (Inr p)
    obtain payload digest where p: "p = (payload, digest)"
      by (cases p)
    define c' where "c' = c\<lparr>rcs_PayloadDigest := digest\<rparr>"
    define eff where "eff = with_composition effective c'"
    have recorded: "extends calm z y" if "record_plan (logged cl) z obj obj status c' vs ?h d dg payload = (res, y)" for d dg
      using plan_calm [OF that sound] .
    have attempt: "\<exists>t. snd y = snd z @ t \<and> (list_all calm t \<or> launch_trace obj t)"
      if "attempt_launch (logged cl) r clk z obj obj eff c' vs ?h status = (res, y)" "agentRunLaunchReceiptComplete status"
      using attempt_trace [OF that(1) sound] fresh that(2) by blast
    have "\<exists>t. snd y = snd z @ t \<and> (list_all calm t \<or> launch_trace obj t)"
      using step z Inr p
      by (auto simp: plan_launch_def Let_def c'_def [symmetric] eff_def [symmetric] split: sum.splits if_splits option.splits
          dest!: recorded attempt intro: calm_trace)
    then show ?thesis
      using calm_launch [OF xz] by blast
  qed
qed

lemma launch_run_trace:
  assumes step: "launch_run (logged cl) r clk x obj obj effective c vs status = (res, y)"
    and sound: "sound obj status" and fresh: "agentRunLaunchReceiptComplete status \<longrightarrow> \<not> attempted status"
  shows "\<exists>t. snd y = snd x @ t \<and> (list_all calm t \<or> launch_trace obj t)"
proof -
  obtain ans st z where z: "ensureAgentRunExternalSecretFreshness (logged cl) r (\<lambda>n. clk (20 + n)) x effective status = (ans, st, z)"
    by (metis prod.collapse)
  have xz: "extends calm x z"
    by (rule refresh_calm [OF z])
  have st: "sound obj st"
    using refresh_sound [OF z] sound by blast
  have fresh': "agentRunLaunchReceiptComplete st \<longrightarrow> \<not> attempted st"
    using refresh_receipt [OF z] fresh by (auto simp: agentRunLaunchReceiptComplete_def attempted_def)
  have held: "extends calm z y" if "hold_for_secrets (logged cl) (clk 0) z obj obj st phase reason m = (res, y)" for phase reason m
    using secrets_calm [OF that st] .
  have paused: "extends calm z y" if "patchAgentRunLaunchPausedStatus (logged cl) z (clk 7) obj obj st reason m d = (res, y)" for reason m d
    using paused_calm [OF that st] .
  have actor: "extends calm z y" if "reconcileSubstrateActorRun (logged cl) r z obj obj st effective (clk 0) = (res, y)"
    using actor_calm [OF that st] .
  have planned: "\<exists>t. snd y = snd z @ t \<and> (list_all calm t \<or> launch_trace obj t)"
    if "plan_launch (logged cl) r clk z obj obj effective c vs st = (res, y)"
    using plan_trace [OF that st fresh'] .
  have "\<exists>t. snd y = snd z @ t \<and> (list_all calm t \<or> launch_trace obj t)"
    using step z
    by (auto simp: launch_run_def split: sum.splits if_splits bool.splits prod.splits
        dest!: held paused actor planned intro: calm_trace)
  then show ?thesis
    using calm_launch [OF xz] by blast
qed

lemma unlaunched_trace:
  assumes step: "reconcile_unlaunched (logged cl) r clk x obj obj status = (res, y)"
    and sound: "sound obj status" and fresh: "agentRunLaunchReceiptComplete status \<longrightarrow> \<not> attempted status"
  shows "\<exists>t. snd y = snd x @ t \<and> (list_all calm t \<or> launch_trace obj t)"
proof (cases "compose_run (logged cl) r clk x obj obj status None")
  case (Inl out)
  then have "compose_run (logged cl) r clk x obj obj status None = Inl (res, y)"
    using step by (simp add: reconcile_unlaunched_def)
  then show ?thesis
    by (intro calm_trace compose_calm [OF _ sound])
next
  case (Inr p)
  obtain effective c st where p: "p = (effective, c, st)"
    by (cases p)
  have st: "sound obj st" "rs_JobCreateAttemptedAt st = rs_JobCreateAttemptedAt status"
    using compose_sound [OF Inr [unfolded p], of obj] sound by simp_all
  have complete: "agentRunLaunchReceiptComplete st = agentRunLaunchReceiptComplete status"
    using Inr p by (auto simp: compose_run_def Let_def effective_status_def agentRunLaunchReceiptComplete_def
        split: prod.splits resolution.splits option.splits)
  show ?thesis
  proof (cases "launch_gates (logged cl) r clk x obj obj effective st")
    case (Some out)
    then have "launch_gates (logged cl) r clk x obj obj effective st = Some (res, y)"
      using step Inr p by (simp add: reconcile_unlaunched_def)
    then show ?thesis
      by (intro calm_trace gates_calm [OF _ st(1)])
  next
    case None
    show ?thesis
    proof (cases "run_volumes (logged cl) (clk 0) x obj obj effective st None")
      case (Inl out)
      then have "run_volumes (logged cl) (clk 0) x obj obj effective st None = Inl (res, y)"
        using step Inr p None by (simp add: reconcile_unlaunched_def)
      then show ?thesis
        by (intro calm_trace volumes_calm [OF _ st(1)])
    next
      case (Inr q)
      obtain vs st' where q: "q = (vs, st')"
        by (cases q)
      have st': "st' = st\<lparr>rs_DataVolumes := agentRunDataVolumeStatuses vs\<rparr>"
        by (rule volumes_sound [OF Inr [unfolded q]])
      have "launch_run (logged cl) r clk x obj obj effective c vs st' = (res, y)"
        using step \<open>compose_run _ _ _ _ _ _ _ _ = Inr p\<close> p None Inr q by (simp add: reconcile_unlaunched_def)
      then show ?thesis
        by (rule launch_run_trace)
          (use st fresh complete in \<open>simp_all add: st' agentRunLaunchReceiptComplete_def attempted_def\<close>)
    qed
  qed
qed

lemma validated_trace:
  assumes step: "validate_recovered (logged cl) r clk x obj obj effective c vs job status = (res, y)" and sound: "sound obj status"
  shows "\<exists>t. snd y = snd x @ t \<and> (list_all calm t \<or> recovery_trace job t)"
proof (cases "job_Name job = agentRunChildName [run_Name effective, ''harness'', shortHash (run_prompt r effective)]")
  case False
  then show ?thesis
    using step by (auto simp: validate_recovered_def Let_def)
next
  case name: True
  let ?h = "shortHash (run_prompt r effective)"
  define eff where "eff = with_composition effective c"
  obtain ans z where z: "ensureAgentRunConfigMap (logged cl) r x eff (run_prompt r effective) ?h = (ans, z)"
    by (metis prod.collapse)
  obtain t1 where t1: "snd z = snd x @ t1" "list_all calm t1"
    using payload_calm [OF z] by (auto simp: extends_def)
  show ?thesis
  proof (cases ans)
    case (Inl e)
    then show ?thesis
      using step z t1 name by (auto simp: validate_recovered_def Let_def eff_def)
  next
    case (Inr p)
    obtain payload digest where p: "p = (payload, digest)"
      by (cases p)
    define c' where "c' = c\<lparr>rcs_PayloadDigest := digest\<rparr>"
    define eff' where "eff' = with_composition eff c'"
    obtain ans' u where u: "ensureAgentRunJob (logged cl) r z eff' ?h vs = (ans', u)"
      by (metis prod.collapse)
    have "extends calm u y"
    proof (cases ans')
      case (Inl e)
      then show ?thesis
        using step z Inr p u name by (auto simp: validate_recovered_def Let_def eff_def c'_def eff'_def)
    next
      case found: (Inr stored)
      have "TrimSpace (job_Name stored) \<noteq> []"
        using u found ensure_job_named by blast
      then have observed: "extends calm u y"
        if "observe_job (logged cl) r clk u obj obj eff' stored (status\<lparr>rs_PromptHash := ?h, rs_JobRef := Some (job_ref stored),
          rs_JobUID := job_UID stored, rs_PayloadRef := pr, rs_PayloadUID := pu, rs_JobSpecDigest := d, rs_DataVolumes := dv,
          rs_ResolvedComposition := rc\<rparr>) = (res, y)" for pr pu d dv rc
        using that sound
        by (intro observe_calm [OF that]) (auto simp: sound_def attempted_def receipt_wf_def blank_ref_def job_ref_def)
      show ?thesis
        using step z Inr p u found name
        by (auto simp: validate_recovered_def Let_def eff_def [symmetric] c'_def [symmetric] eff'_def [symmetric]
            split: sum.splits if_splits dest!: observed)
    qed
    then obtain t2 where t2: "snd y = snd u @ t2" "list_all calm t2"
      by (auto simp: extends_def)
    from ensure_job_creates [OF u] show ?thesis
    proof
      assume "snd u = snd z"
      then show ?thesis
        using t1 t2 by auto
    next
      assume "\<exists>job. snd u = snd z @ [CreatedJob job ans'] \<and> job_Name job = agentRunChildName [run_Name eff', ''harness'', ?h]"
      then obtain new where new: "snd u = snd z @ [CreatedJob new ans']" "job_Name new = agentRunChildName [run_Name eff', ''harness'', ?h]"
        by blast
      moreover have "run_Name eff' = run_Name effective"
        by (simp add: eff'_def eff_def with_composition_def)
      ultimately have "recovery_trace job (t1 @ [CreatedJob new ans'] @ t2)"
        unfolding recovery_trace_def using t1 t2 name by metis
      then show ?thesis
        using t1 t2 new by auto
    qed
  qed
qed

lemma adopted_sound:
  assumes adopt: "adopt_job cl' r now w obj status job = Inr (status', v)" and sound: "sound old status"
    and job: "agentRunLaunchReceiptComplete status \<Longrightarrow> TrimSpace (job_Name job) \<noteq> []"
  shows "sound old status'"
proof (cases "rs_JobUID status = [] \<and> agentRunLaunchReceiptComplete status")
  case True
  then obtain c where "sound old (status\<lparr>rs_JobUID := job_UID job, rs_JobRef := Some (job_ref job), rs_ResolvedComposition := c\<rparr>) \<Longrightarrow>
      ?thesis"
    using adopt unfolding adopt_job_def
    by (auto simp: sound_def attempted_def receipt_wf_def split: if_splits option.splits)
  moreover have "sound old (status\<lparr>rs_JobUID := job_UID job, rs_JobRef := Some (job_ref job), rs_ResolvedComposition := c\<rparr>)" for c
    using sound job True by (simp add: sound_def attempted_def receipt_wf_def blank_ref_def job_ref_def)
  ultimately show ?thesis
    by blast
next
  case False
  then show ?thesis
    using adopt sound unfolding adopt_job_def
    by (cases "rs_JobRef status = None") (auto simp: sound_def attempted_def receipt_wf_def)
qed

lemma unvalidated_trace:
  assumes step: "reconcile_unvalidated (logged cl) r clk x obj obj status job = (res, y)" and sound: "sound obj status"
  shows "\<exists>t. snd y = snd x @ t \<and> (list_all calm t \<or> recovery_trace job t)"
proof (cases "compose_run (logged cl) r clk x obj obj status (Some job)")
  case (Inl out)
  then have "compose_run (logged cl) r clk x obj obj status (Some job) = Inl (res, y)"
    using step by (simp add: reconcile_unvalidated_def)
  then have "extends calm x y"
    by (rule compose_calm [OF _ sound])
  then show ?thesis
    by (auto simp: extends_def)
next
  case (Inr p)
  obtain effective c st where p: "p = (effective, c, st)"
    by (cases p)
  have st: "sound obj st"
    using compose_sound [OF Inr [unfolded p], of obj] sound by simp
  show ?thesis
  proof (cases "run_volumes (logged cl) (clk 0) x obj obj effective st (Some job)")
    case (Inl out)
    then have "run_volumes (logged cl) (clk 0) x obj obj effective st (Some job) = Inl (res, y)"
      using step Inr p by (simp add: reconcile_unvalidated_def)
    then have "extends calm x y"
      by (rule volumes_calm [OF _ st])
    then show ?thesis
      by (auto simp: extends_def)
  next
    case (Inr q)
    obtain vs st' where q: "q = (vs, st')"
      by (cases q)
    have "st' = st\<lparr>rs_DataVolumes := agentRunDataVolumeStatuses vs\<rparr>"
      by (rule volumes_sound [OF Inr [unfolded q]])
    then have "sound obj st'"
      using st by simp
    moreover have "validate_recovered (logged cl) r clk x obj obj effective c vs job st' = (res, y)"
      using step \<open>compose_run _ _ _ _ _ _ _ _ = Inr p\<close> p Inr q by (simp add: reconcile_unvalidated_def)
    ultimately show ?thesis
      using validated_trace by blast
  qed
qed

lemma active_trace:
  assumes step: "reconcile_active (logged cl) r clk x obj = (res, y)" and live: "\<not> agentRunPhaseTerminal (run_Phase obj)"
    and wf: "receipt_wf (run_Status obj)"
  shows "\<exists>t. snd y = snd x @ t \<and> (list_all calm t \<or> launch_trace obj t \<or>
    (\<exists>job m. recover_job (logged cl) x obj (reset_status obj) = Inr (Some job, m) \<and> recovery_trace job t))"
proof -
  let ?st = "reset_status obj"
  have sound: "sound obj ?st"
    by (rule sound_reset [OF live])
  then have wf': "receipt_wf ?st"
    using wf by (simp add: sound_def)
  show ?thesis
  proof (cases "recover_job (logged cl) x obj ?st")
    case (Inl e)
    then show ?thesis
      using step by (auto simp: reconcile_active_def)
  next
    case (Inr p)
    obtain found_job missing where p: "p = (found_job, missing)"
      by (cases p)
    show ?thesis
    proof (cases "missing = []")
      case False
      then have "job_missing (logged cl) r (clk 0) x obj obj ?st missing = (res, y)"
        using step Inr p by (simp add: reconcile_active_def)
      then have "extends calm x y"
        unfolding job_missing_def by (rule patch_calm) (simp add: sound)
      then show ?thesis
        by (auto simp: extends_def)
    next
      case no_message: True
      show ?thesis
      proof (cases found_job)
        case None
        have fresh: "agentRunLaunchReceiptComplete ?st \<longrightarrow> \<not> attempted ?st"
          by (rule no_job_fresh [OF _ wf']) (use Inr p None no_message in simp)
        show ?thesis
        proof (cases "reconcileAgentRunChatStartupDeadline (logged cl) r (clk 0) x obj obj ?st")
          case (Some out)
          then have "reconcileAgentRunChatStartupDeadline (logged cl) r (clk 0) x obj obj ?st = Some (res, y)"
            using step Inr p None no_message by (simp add: reconcile_active_def)
          then have "extends calm x y"
            by (rule chat_calm [OF _ sound])
          then show ?thesis
            by (auto simp: extends_def)
        next
          case no_deadline: None
          then have "reconcile_unlaunched (logged cl) r clk x obj obj ?st = (res, y)"
            using step Inr p None no_message by (simp add: reconcile_active_def)
          from unlaunched_trace [OF this sound fresh] show ?thesis
            by blast
        qed
      next
        case (Some job)
        have named: "TrimSpace (job_Name job) \<noteq> []" if "agentRunLaunchReceiptComplete ?st"
          by (rule recovered_named [OF _ wf' that]) (use Inr p Some in simp)
        show ?thesis
        proof (cases "adopt_job (logged cl) r (clk 0) x obj ?st job")
          case (Inl e)
          then show ?thesis
            using step Inr p Some no_message by (auto simp: reconcile_active_def)
        next
          case adopted: (Inr q)
          obtain st v where q: "q = (st, v)"
            by (cases q)
          have st: "sound obj st"
            by (rule adopted_sound [OF _ sound named]) (use adopted q in simp)
          show ?thesis
          proof (cases v)
            case True
            then have "reconcile_unvalidated (logged cl) r clk x obj obj st job = (res, y)"
              using step Inr p Some no_message adopted q by (simp add: reconcile_active_def)
            from unvalidated_trace [OF this st] show ?thesis
              using Inr p Some by blast
          next
            case False
            then have "observe_job (logged cl) r clk x obj obj obj job (job_env_status st job) = (res, y)"
              using step Inr p Some no_message adopted q by (simp add: reconcile_active_def)
            then have "extends calm x y"
              by (rule observe_calm) (simp add: st)
            then show ?thesis
              by (auto simp: extends_def)
          qed
        qed
      qed
    qed
  qed
qed

theorem reconcile_trace:
  assumes step: "AgentRunReconciler_Reconcile (logged cl) r clk (w, l) ns name = (res, y)"
    and run: "k_GetRun (rd_Kube (cl_cache cl)) w ns name = Inr obj" and wf: "receipt_wf (run_Status obj)"
  shows "\<exists>t. snd y = l @ t \<and> (list_all calm t \<or> launch_trace obj t \<or>
    (\<exists>job m. recover_job cl w obj (reset_status obj) = Inr (Some job, m) \<and> recovery_trace job t))"
proof -
  consider "being_deleted (run_Meta obj)" | (held) q where "agentRunInterruptDuplicateHold obj = Some q" "\<not> being_deleted (run_Meta obj)"
    | (terminal) "agentRunPhaseTerminal (run_Phase obj)" "agentRunInterruptDuplicateHold obj = None" "\<not> being_deleted (run_Meta obj)"
    | (active) "\<not> agentRunPhaseTerminal (run_Phase obj)" "agentRunInterruptDuplicateHold obj = None" "\<not> being_deleted (run_Meta obj)"
    by (cases "agentRunInterruptDuplicateHold obj") auto
  then show ?thesis
  proof cases
    case 1
    then show ?thesis
      using step run by (auto simp: AgentRunReconciler_Reconcile_def)
  next
    case held
    then have "extends calm (w, l) y"
      using step run by (auto simp: AgentRunReconciler_Reconcile_def intro: hold_calm)
    then show ?thesis
      by (auto simp: extends_def)
  next
    case terminal
    then have "extends calm (w, l) y"
      using step run by (auto simp: AgentRunReconciler_Reconcile_def intro: terminal_calm)
    then show ?thesis
      by (auto simp: extends_def)
  next
    case active
    then have "reconcile_active (logged cl) r clk (w, l) obj = (res, y)"
      using step run by (simp add: AgentRunReconciler_Reconcile_def)
    from active_trace [OF this active(1) wf] show ?thesis
      by simp
  qed
qed

end

lemma calm_creates: "list_all calm t \<Longrightarrow> created_jobs t = []"
  by (induction t) (auto split: cluster_event.splits)

lemma launch_creates: "launch_trace obj t \<Longrightarrow> length (created_jobs t) = 1"
  by (auto simp: launch_trace_def calm_creates)

lemma recovery_creates: "recovery_trace job t \<Longrightarrow> map job_Name (created_jobs t) = [job_Name job]"
  by (auto simp: recovery_trace_def calm_creates)

lemma calm_sound: "list_all calm t \<Longrightarrow> PatchedRunStatus lock old new ans \<in> set t \<Longrightarrow> sound old (run_Status new)"
  by (auto simp: list_all_iff)

lemma launch_sound: "launch_trace obj t \<Longrightarrow> PatchedRunStatus lock old new ans \<in> set t \<Longrightarrow> sound old (run_Status new)"
  by (auto simp: launch_trace_def dest: calm_sound)

lemma recovery_sound: "recovery_trace job t \<Longrightarrow> PatchedRunStatus lock old new ans \<in> set t \<Longrightarrow> sound old (run_Status new)"
  by (auto simp: recovery_trace_def dest: calm_sound)

end
