(* ===== verification/LaunchOnce.thy ===== *)
theory LaunchOnce
  imports SingleExecution
begin

text \<open>
  Any number of reconciliations of one run, in any interleaving. The API server keeps one current version of the run.
  A status patch changes the fields the caller changed; with the optimistic lock it is accepted only if the
  caller's version is the current one. A cache gives some version the run has had. Under these rules the
  reconciliations together launch at most one Job, and the receipts in the status stay well-formed.
\<close>

subsection \<open>The server\<close>

datatype run_step = Reconciler nat cluster_event | OtherClient AgentRun

abbreviation run_version :: "AgentRun \<Rightarrow> string" where
  "run_version run \<equiv> om_ResourceVersion (run_Meta run)"

definition run_key :: "AgentRun \<Rightarrow> string \<times> string" where
  "run_key run = (run_Namespace run, run_Name run)"

text \<open>The versions of the run, the current one first.\<close>

definition accepts :: "AgentRun list \<Rightarrow> bool \<Rightarrow> AgentRun \<Rightarrow> AgentRun \<Rightarrow> AgentRun \<Rightarrow> bool" where
  "accepts h lock old new stored \<longleftrightarrow>
     old \<in> set h \<and> (lock \<longrightarrow> run_version old = run_version (hd h)) \<and>
     run_key stored = run_key (hd h) \<and> run_version stored \<notin> run_version ` set h \<and>
     run_Status stored = merge_status (run_Status (hd h)) (run_Status old) (run_Status new)"

text \<open>
  Reconciliation \<open>i\<close> has read the version \<open>seen i\<close> before its first write. It may also patch other runs, the
  duplicates it interrupts. The other clients write the spec, the metadata and, where another run interrupts
  this one, the outcome in the status; they do not write the receipts.
\<close>

fun serves :: "(nat \<Rightarrow> AgentRun) \<Rightarrow> AgentRun list \<Rightarrow> run_step list \<Rightarrow> bool" where
  "serves seen h [] \<longleftrightarrow> True"
| "serves seen h (OtherClient run # tr) \<longleftrightarrow>
     run_key run = run_key (hd h) \<and> run_version run \<notin> run_version ` set h \<and>
     rs_JobCreateAttemptedAt (run_Status run) = rs_JobCreateAttemptedAt (run_Status (hd h)) \<and>
     rs_JobRef (run_Status run) = rs_JobRef (run_Status (hd h)) \<and> rs_JobUID (run_Status run) = rs_JobUID (run_Status (hd h)) \<and>
     serves seen (run # h) tr"
| "serves seen h (Reconciler i (PatchedRunStatus lock old new (Inr stored)) # tr) \<longleftrightarrow>
     seen i \<in> set h \<and>
     (if run_key old = run_key (hd h) then accepts h lock old new stored \<and> serves seen (stored # h) tr else serves seen h tr)"
| "serves seen h (Reconciler i ev # tr) \<longleftrightarrow> seen i \<in> set h \<and> serves seen h tr"

text \<open>The log of one reconciliation, and the reconciliations of a trace.\<close>

definition log_of :: "nat \<Rightarrow> run_step list \<Rightarrow> cluster_event list" where
  "log_of i tr = List.map_filter (\<lambda>s. case s of Reconciler j ev \<Rightarrow> if j = i then Some ev else None | OtherClient _ \<Rightarrow> None) tr"

definition workers :: "run_step list \<Rightarrow> nat list" where
  "workers tr = remdups (List.map_filter (\<lambda>s. case s of Reconciler j ev \<Rightarrow> Some j | OtherClient _ \<Rightarrow> None) tr)"

lemma log_of_simps [simp]:
  "log_of i [] = []"
  "log_of i (Reconciler j ev # tr) = (if j = i then ev # log_of i tr else log_of i tr)"
  "log_of i (OtherClient run # tr) = log_of i tr"
  by (simp_all add: log_of_def map_filter_def)

lemma workers_iff: "i \<in> set (workers tr) \<longleftrightarrow> (\<exists>ev. Reconciler i ev \<in> set tr)"
  by (force simp: workers_def map_filter_def split: run_step.splits)

lemma log_of_iff: "ev \<in> set (log_of i tr) \<longleftrightarrow> Reconciler i ev \<in> set tr"
  by (force simp: log_of_def map_filter_def split: run_step.splits if_splits)

subsection \<open>Receipts on the server\<close>

definition receipts_kept :: "string \<times> string \<Rightarrow> AgentRun list \<Rightarrow> bool" where
  "receipts_kept key h \<longleftrightarrow> h \<noteq> [] \<and> distinct (map run_version h) \<and>
     (\<forall>run\<in>set h. receipt_wf (run_Status run) \<and> run_key run = key \<and>
        (rs_JobRef (run_Status run) \<noteq> None \<longrightarrow> rs_JobRef (run_Status (hd h)) \<noteq> None) \<and>
        (attempted (run_Status run) \<longrightarrow> attempted (run_Status (hd h))))"

lemma version_inj:
  assumes "receipts_kept key h" "run \<in> set h" "run_version run = run_version (hd h)"
  shows "run = hd h"
proof -
  have "inj_on run_version (set h)" "hd h \<in> set h"
    using assms(1) by (simp_all add: receipts_kept_def distinct_map)
  then show ?thesis
    using assms(2,3) inj_onD by fastforce
qed

lemma merged_attempt:
  assumes "attempted stored" "sound old new"
  shows "attempted (merge_status stored (run_Status old) new)"
  using assms by (cases "rs_JobCreateAttemptedAt new") (auto simp: attempted_def merge_status_def merged_def sound_def)

lemma merged_ref:
  assumes "receipt_wf (run_Status old)" "sound old new" "rs_JobRef stored \<noteq> None"
  shows "rs_JobRef (merge_status stored (run_Status old) new) \<noteq> None"
  using assms by (cases "rs_JobRef new") (auto simp: merge_status_def merged_def sound_def receipt_wf_def)

lemma merged_wf:
  assumes "receipt_wf (run_Status old)" "receipt_wf stored" "sound old new"
    and "rs_JobRef (run_Status old) \<noteq> None \<Longrightarrow> rs_JobRef stored \<noteq> None"
  shows "receipt_wf (merge_status stored (run_Status old) new)"
  using assms by (auto simp: merge_status_def merged_def sound_def receipt_wf_def blank_ref_def split: option.splits)

lemma accepts_kept:
  assumes h: "receipts_kept key h" and "accepts h lock old new stored" "sound old (run_Status new)"
  shows "receipts_kept key (stored # h)"
proof -
  have old: "old \<in> set h" and version: "run_version stored \<notin> run_version ` set h"
    and key: "run_key stored = run_key (hd h)"
    and st: "run_Status stored = merge_status (run_Status (hd h)) (run_Status old) (run_Status new)"
    using assms(2) by (auto simp: accepts_def)
  have hd: "hd h \<in> set h"
    using h by (simp add: receipts_kept_def)
  have wf: "receipt_wf (run_Status stored)"
    unfolding st by (rule merged_wf [OF _ _ assms(3)]) (use h old hd in \<open>auto simp: receipts_kept_def\<close>)
  have ref: "rs_JobRef (run_Status stored) \<noteq> None" if "rs_JobRef (run_Status (hd h)) \<noteq> None"
    unfolding st by (rule merged_ref [OF _ assms(3) that]) (use h old in \<open>auto simp: receipts_kept_def\<close>)
  have att: "attempted (run_Status stored)" if "attempted (run_Status (hd h))"
    unfolding st by (rule merged_attempt [OF that assms(3)])
  show ?thesis
    using h version wf ref att hd key by (auto simp: receipts_kept_def)
qed

lemma claim_first:
  assumes h: "receipts_kept key h" and "accepts h True old new stored" "\<not> attempted (run_Status old)" "attempted (run_Status new)"
  shows "\<not> attempted (run_Status (hd h))" "attempted (run_Status stored)"
proof -
  have "old = hd h"
    using version_inj [OF h] assms(2) by (auto simp: accepts_def)
  then show "\<not> attempted (run_Status (hd h))" "attempted (run_Status stored)"
    using assms by (auto simp: accepts_def attempted_def merge_status_def merged_def)
qed

subsection \<open>One claim\<close>

fun claims :: "string \<times> string \<Rightarrow> run_step list \<Rightarrow> nat list" where
  "claims key (Reconciler i (PatchedRunStatus True old new (Inr stored)) # tr) =
     (if run_key old = key \<and> \<not> attempted (run_Status old) \<and> attempted (run_Status new) then i # claims key tr else claims key tr)"
| "claims key (s # tr) = claims key tr"
| "claims key [] = []"

definition sound_steps :: "(nat \<Rightarrow> AgentRun) \<Rightarrow> run_step list \<Rightarrow> bool" where
  "sound_steps seen tr \<longleftrightarrow> (\<forall>i lock old new ans. Reconciler i (PatchedRunStatus lock old new ans) \<in> set tr \<longrightarrow>
     receipt_wf (run_Status (seen i)) \<longrightarrow> sound old (run_Status new))"

lemma sound_steps_Cons: "sound_steps seen (s # tr) \<Longrightarrow> sound_steps seen tr"
  by (auto simp: sound_steps_def)

lemma served_claims:
  assumes "receipts_kept key h" "serves seen h tr" "sound_steps seen tr"
  shows "length (claims key tr) \<le> (if attempted (run_Status (hd h)) then 0 else 1) \<and>
    (\<forall>i ev. Reconciler i ev \<in> set tr \<longrightarrow> run_key (seen i) = key \<and> receipt_wf (run_Status (seen i)))"
  using assms
proof (induction seen h tr rule: serves.induct)
  case (2 seen h run tr)
  have "receipts_kept key (run # h)"
    using 2(2,3) by (auto simp: receipts_kept_def receipt_wf_def attempted_def)
  with 2 show ?case
    using sound_steps_Cons [OF 2(4)] by (auto simp: attempted_def)
next
  case (3 seen h i lock old new stored tr)
  note tail = sound_steps_Cons [OF 3(5)]
  have seen: "seen i \<in> set h" "run_key (seen i) = key" "receipt_wf (run_Status (seen i))"
    using 3(3,4) by (auto simp: receipts_kept_def)
  show ?case
  proof (cases "run_key old = run_key (hd h)")
    case False
    moreover have "run_key (hd h) = key"
      using 3(3) by (auto simp: receipts_kept_def)
    ultimately have "claims key (Reconciler i (PatchedRunStatus lock old new (Inr stored)) # tr) = claims key tr"
      by (cases lock) auto
    with False 3(2) [OF _ 3(3) _ tail] 3(4) seen show ?thesis
      by auto
  next
    case own: True
    have key: "run_key old = key"
      using own 3(3) by (auto simp: receipts_kept_def)
    have acc: "accepts h lock old new stored" and sv: "serves seen (stored # h) tr"
      using 3(4) own by auto
    have snd: "sound old (run_Status new)"
      using 3(5) seen(3) unfolding sound_steps_def by (metis list.set_intros(1))
    have kept: "receipts_kept key (stored # h)"
      using accepts_kept [OF 3(3) acc snd] .
    note IH = 3(1) [OF own kept sv tail, unfolded list.sel]
    have att: "attempted (run_Status stored)" if "attempted (run_Status (hd h))"
      using kept 3(3) that by (auto simp: receipts_kept_def)
    show ?thesis
    proof (cases "lock \<and> \<not> attempted (run_Status old) \<and> attempted (run_Status new)")
      case True
      with claim_first [OF 3(3)] acc IH seen key show ?thesis
        by auto
    next
      case False
      then have "claims key (Reconciler i (PatchedRunStatus lock old new (Inr stored)) # tr) = claims key tr"
        by (cases lock) auto
      with IH att seen show ?thesis
        by (auto split: if_splits)
    qed
  qed
qed (auto simp: receipts_kept_def dest: sound_steps_Cons)

lemma claims_workers:
  assumes "PatchedRunStatus True old new (Inr stored) \<in> set (log_of i tr)" "\<not> attempted (run_Status old)" "attempted (run_Status new)"
    "run_key old = key"
  shows "i \<in> set (claims key tr)"
  using assms by (induction key tr rule: claims.induct) (auto split: if_splits)

subsection \<open>The in-memory server\<close>

interpretation mem_jobs: job_api "mem_cluster aj" for aj
proof unfold_locales
  show "rd_GetJob (cl_cache (mem_cluster aj)) w ns n = Inr job \<Longrightarrow> job_Name job = n" for w ns n job
    by (auto simp: mem_reader_def dest: found_keyed)
  show "rd_GetJob (cl_api (mem_cluster aj)) w ns n = Inr job \<Longrightarrow> job_Name job = n" for w ns n job
    by (auto simp: mem_reader_def dest: found_keyed)
  show "cl_CreateJob (mem_cluster aj) w job = (Inr stored, w') \<Longrightarrow> job_Name stored = job_Name job" for w job stored w'
    by (auto simp: mem_add_def born_def Let_def split: if_splits)
qed

subsection \<open>The properties of a reconciliation\<close>

definition recovers :: "'w cluster \<Rightarrow> 'w \<Rightarrow> AgentRun \<Rightarrow> Job option" where
  "recovers cl w obj = (case recover_job cl w obj (reset_status obj) of Inr (job, _) \<Rightarrow> job | Inl _ \<Rightarrow> None)"

text \<open>The Job that the operator renders for a run, with the run as its owner.\<close>

definition owned_job :: "run_env \<Rightarrow> AgentRun \<Rightarrow> string \<Rightarrow> resolvedAgentRunDataVolume list \<Rightarrow> OwnerReference list \<Rightarrow> Job" where
  "owned_job r obj h vs owners =
     (let desired = desired_job r obj h (agentRunChildName [run_Name obj, ''context'', h]) vs in
      desired\<lparr>job_Meta := (job_Meta desired)\<lparr>om_OwnerReferences := owners\<rparr>\<rparr>)"

lemma launched_job:
  assumes "ensureAgentRunJob (logged cl) r (w, l) obj h vs = (ans, z)"
    and "rd_GetJob (cl_cache cl) w (run_Namespace obj) (agentRunChildName [run_Name obj, ''harness'', h]) = Inl e" "IsNotFound e"
    and "cl_SetControllerReference cl [] (owner_ref ''AgentRun'' (run_Meta obj)) = Inr owners"
  shows "snd z = l @ [CreatedJob (owned_job r obj h vs owners) ans] \<and> ans = fst (cl_CreateJob cl w (owned_job r obj h vs owners))"
proof -
  let ?desired = "desired_job r obj h (agentRunChildName [run_Name obj, ''context'', h]) vs"
  have "om_OwnerReferences (job_Meta ?desired) = []" "job_Name ?desired = agentRunChildName [run_Name obj, ''harness'', h]"
    by (simp_all add: desired_job_def agentRunJob_def Let_def zero_ObjectMeta_def)
  then have "ensureAgentRunJob (logged cl) r (w, l) obj h vs = cl_CreateJob (logged cl) (w, l) (owned_job r obj h vs owners)"
    using assms(2-4) by (simp add: ensureAgentRunJob_def own_def owned_job_def Let_def)
  then have "noted (CreatedJob (owned_job r obj h vs owners)) (cl_CreateJob cl w (owned_job r obj h vs owners)) l = (ans, z)"
    using assms(1) by simp
  then show ?thesis
    by (cases "cl_CreateJob cl w (owned_job r obj h vs owners)") (auto simp: noted_def)
qed

lemma launch_claim:
  assumes "launch_trace obj l"
  shows "\<exists>before new stored job ans after. l = before @ [PatchedRunStatus True obj new (Inr stored), CreatedJob job ans] @ after \<and>
    rs_JobCreateAttemptedAt (run_Status obj) = None \<and> rs_JobCreateAttemptedAt (run_Status new) \<noteq> None"
proof -
  obtain t1 new stored job ans t2 where l: "l = t1 @ [PatchedRunStatus True obj new (Inr stored), CreatedJob job ans] @ t2"
      and "\<not> attempted (run_Status obj)" "attempted (run_Status new)"
    using assms unfolding launch_trace_def by metis
  then show ?thesis
    by (intro exI [of _ t1] exI [of _ new] exI [of _ stored] exI [of _ job] exI [of _ ans] exI [of _ t2]) (simp add: attempted_def)
qed

lemma reconcile_log:
  assumes "job_api cl" "k_GetRun (rd_Kube (cl_cache cl)) w ns name = Inr obj" "receipt_wf (run_Status obj)"
    "AgentRunReconciler_Reconcile (logged cl) r clk (w, []) ns name = (res, (w', l))"
  shows "list_all calm l \<or> launch_trace obj l \<or> (\<exists>job. recovers cl w obj = Some job \<and> recovery_trace job l)"
  using job_api.reconcile_trace [OF assms(1,4,2,3)] by (fastforce simp: recovers_def)

text \<open>
  C2. One reconciliation of a run creates at most one Job. It creates it directly after it has
  recorded the create attempt with the optimistic lock, on a run with no recorded attempt; or it has found a
  Job of the run and the Job it creates has the name of that Job.
\<close>

theorem launched_under_claim:
  assumes "job_api cl" "k_GetRun (rd_Kube (cl_cache cl)) w ns name = Inr obj" "receipt_wf (run_Status obj)"
    "AgentRunReconciler_Reconcile (logged cl) r clk (w, []) ns name = (res, (w', l))"
  shows "length (created_jobs l) \<le> 1 \<and>
    (created_jobs l = [] \<or>
     (\<exists>before new stored job ans after. l = before @ [PatchedRunStatus True obj new (Inr stored), CreatedJob job ans] @ after \<and>
        rs_JobCreateAttemptedAt (run_Status obj) = None \<and> rs_JobCreateAttemptedAt (run_Status new) \<noteq> None) \<or>
     (\<exists>job. recovers cl w obj = Some job \<and> map job_Name (created_jobs l) = [job_Name job]))"
  using reconcile_log [OF assms]
proof (elim disjE exE conjE)
  assume launch: "launch_trace obj l"
  then have "length (created_jobs l) \<le> 1"
    by (simp add: launch_creates)
  moreover have "\<exists>before new stored job ans after. l = before @ [PatchedRunStatus True obj new (Inr stored), CreatedJob job ans] @ after \<and>
      rs_JobCreateAttemptedAt (run_Status obj) = None \<and> rs_JobCreateAttemptedAt (run_Status new) \<noteq> None"
    by (rule launch_claim [OF launch])
  ultimately show ?thesis
    by (intro conjI disjI2 disjI1)
next
  fix job
  assume "recovers cl w obj = Some job" "recovery_trace job l"
  then show ?thesis
    using recovery_creates [of job l] arg_cong [where f = length, OF recovery_creates [of job l]] by auto
qed (simp add: calm_creates)

text \<open>
  C8. The receipts of a run keep their form: no status patch of a reconciliation forgets a recorded create attempt or a recorded
  Job, and a status with a Job's UID has the Job's name.
\<close>

theorem receipts_stay_wellformed:
  assumes "job_api cl" "k_GetRun (rd_Kube (cl_cache cl)) w ns name = Inr obj" "receipt_wf (run_Status obj)"
    "AgentRunReconciler_Reconcile (logged cl) r clk (w, []) ns name = (res, (w', l))"
    "PatchedRunStatus lock old new ans \<in> set l"
  shows "(rs_JobCreateAttemptedAt (run_Status old) \<noteq> None \<longrightarrow> rs_JobCreateAttemptedAt (run_Status new) \<noteq> None) \<and>
    (receipt_wf (run_Status old) \<longrightarrow> receipt_wf (run_Status new) \<and>
       (rs_JobRef (run_Status old) \<noteq> None \<longrightarrow> rs_JobRef (run_Status new) \<noteq> None))"
  using reconcile_log [OF assms(1-4)] calm_sound [OF _ assms(5)] launch_sound [OF _ assms(5)] recovery_sound [OF _ assms(5)]
  unfolding sound_def attempted_def by blast

text \<open>
  C1. Any number of reconciliations of a run, interleaved in any way on a server that honours the optimistic lock, together
  launch at most one Job: at most one of them creates a Job without having found one of the run.
\<close>

theorem interleaved_reconciles_launch_once:
  assumes run: "receipt_wf (run_Status run)" and server: "serves seen [run] tr"
    and api: "\<And>i. i \<in> set (workers tr) \<Longrightarrow> job_api (cl i)"
    and read: "\<And>i. i \<in> set (workers tr) \<Longrightarrow> k_GetRun (rd_Kube (cl_cache (cl i))) (w i) ns name = Inr (seen i)"
    and step: "\<And>i. i \<in> set (workers tr) \<Longrightarrow>
      AgentRunReconciler_Reconcile (logged (cl i)) (r i) (clk i) (w i, []) ns name = (res i, (w' i, log_of i tr))"
  shows "card {i \<in> set (workers tr). created_jobs (log_of i tr) \<noteq> [] \<and> recovers (cl i) (w i) (seen i) = None} \<le> 1"
proof -
  have log: "list_all calm (log_of i tr) \<or> launch_trace (seen i) (log_of i tr) \<or>
      (\<exists>job. recovers (cl i) (w i) (seen i) = Some job \<and> recovery_trace job (log_of i tr))"
    if "i \<in> set (workers tr)" "receipt_wf (run_Status (seen i))" for i
    by (rule reconcile_log [OF api read _ step]) (use that in auto)
  have "sound_steps seen tr"
    unfolding sound_steps_def
  proof (intro allI impI)
    fix i lock old new ans
    assume ev: "Reconciler i (PatchedRunStatus lock old new ans) \<in> set tr" and wf: "receipt_wf (run_Status (seen i))"
    have "i \<in> set (workers tr)" "PatchedRunStatus lock old new ans \<in> set (log_of i tr)"
      using ev by (auto simp: workers_iff log_of_iff)
    then show "sound old (run_Status new)"
      using log [OF _ wf] calm_sound launch_sound recovery_sound by blast
  qed
  moreover have "receipts_kept (run_key run) [run]"
    using run by (simp add: receipts_kept_def)
  ultimately have claims: "length (claims (run_key run) tr) \<le> 1" and wf: "\<And>i. i \<in> set (workers tr) \<Longrightarrow> receipt_wf (run_Status (seen i))"
      and key: "\<And>i. i \<in> set (workers tr) \<Longrightarrow> run_key (seen i) = run_key run"
    using served_claims [where key = "run_key run", OF _ server] by (auto simp: workers_iff split: if_splits)
  have "i \<in> set (claims (run_key run) tr)"
    if i: "i \<in> set (workers tr)" "created_jobs (log_of i tr) \<noteq> []" "recovers (cl i) (w i) (seen i) = None" for i
  proof -
    have "launch_trace (seen i) (log_of i tr)"
      using log [OF i(1) wf [OF i(1)]] i calm_creates by auto
    then show ?thesis
      using key [OF i(1)] by (auto simp: launch_trace_def intro: claims_workers)
  qed
  then have "{i \<in> set (workers tr). created_jobs (log_of i tr) \<noteq> [] \<and> recovers (cl i) (w i) (seen i) = None} \<subseteq> set (claims (run_key run) tr)"
    by blast
  then have "card {i \<in> set (workers tr). created_jobs (log_of i tr) \<noteq> [] \<and> recovers (cl i) (w i) (seen i) = None} \<le> card (set (claims (run_key run) tr))"
    by (simp add: card_mono)
  then show ?thesis
    using claims card_length [of "claims (run_key run) tr"] by linarith
qed



subsection \<open>A run whose Job is in another namespace\<close>

definition demo_lost_run :: AgentRun where
  "demo_lost_run = demo_owner_run\<lparr>run_Status := zero_RunStatus\<lparr>rs_Phase := AgentRunPhaseRunning,
     rs_JobRef := Some \<lparr>nor_Name = ''job'', nor_Namespace = ''other''\<rparr>\<rparr>\<rparr>"

definition demo_lost_state :: mem_cluster_state where
  "demo_lost_state = runs_update (\<lambda>_. [demo_lost_run]) demo_ready_state"

text \<open>A server that accepts no status patch of a run.\<close>

definition demo_refusing :: "mem_cluster_state cluster" where
  "demo_refusing = demo_cluster\<lparr>cl_PatchRunStatus := (\<lambda>w lock old new. (Inl (ApiError Conflict (run_Name old)), w))\<rparr>"

lemma demo_refusing_api: "job_api demo_refusing"
  using mem_jobs.job_api_axioms [of demo_archive_json] by (simp add: demo_refusing_def job_api_def)

lemma patch_log:
  "\<exists>res. patchAgentRunStatus (logged cl) (w, l) obj new rq =
    (res, snd (cl_PatchRunStatus cl w False obj new), l @ [PatchedRunStatus False obj new (fst (cl_PatchRunStatus cl w False obj new))])"
  by (cases "cl_PatchRunStatus cl w False obj new"; cases "fst (cl_PatchRunStatus cl w False obj new)")
    (simp_all add: patchAgentRunStatus_def patch_run_def)

lemma missing_job_log:
  assumes "k_GetRun (rd_Kube (cl_cache cl)) w ns name = Inr obj" "\<not> being_deleted (run_Meta obj)"
    "agentRunInterruptDuplicateHold obj = None" "\<not> agentRunPhaseTerminal (run_Phase obj)"
    "recover_job cl w obj (reset_status obj) = Inr (None, m)" "m \<noteq> []"
  shows "\<exists>res new. AgentRunReconciler_Reconcile (logged cl) r clk (w, []) ns name =
    (res, snd (cl_PatchRunStatus cl w False obj new), [PatchedRunStatus False obj new (fst (cl_PatchRunStatus cl w False obj new))])"
proof -
  obtain new where "AgentRunReconciler_Reconcile (logged cl) r clk (w, []) ns name = patchAgentRunStatus (logged cl) (w, []) obj new False"
    using assms by (simp add: AgentRunReconciler_Reconcile_def reconcile_active_def job_missing_def Let_def)
  then show ?thesis
    using patch_log [of cl w "[]" obj new False] by auto
qed

lemma demo_lost:
  "\<not> being_deleted (run_Meta demo_lost_run)" "agentRunInterruptDuplicateHold demo_lost_run = None"
  "\<not> agentRunPhaseTerminal (run_Phase demo_lost_run)" "receipt_wf (run_Status demo_lost_run)"
  "run_Namespace demo_lost_run = ''team''" "run_Name demo_lost_run = ''check''" "run_version demo_lost_run = []"
  by code_simp+

lemma demo_lost_read: "k_GetRun (rd_Kube mem_reader) demo_lost_state ''team'' ''check'' = Inr demo_lost_run"
  using demo_lost(5,6) by (simp add: mem_reader_def demo_lost_state_def runs_update_def keyed_def part_kube_def mem_kube_def)

lemma demo_lost_recover:
  "\<exists>m. recover_job cl w demo_lost_run (reset_status demo_lost_run) = Inr (None, m) \<and> m \<noteq> []"
proof -
  have trims: "TrimSpace ''job'' = ''job''" "TrimSpace ''other'' = ''other''"
    "firstNonEmpty ''other'' ''team'' = ''other''"
    by code_simp+
  have "rs_JobRef (reset_status demo_lost_run) = Some \<lparr>nor_Name = ''job'', nor_Namespace = ''other''\<rparr>"
    "\<not> planned_launch (reset_status demo_lost_run)"
    by code_simp+
  then have ref: "lookup_ref (reset_status demo_lost_run) = Some \<lparr>nor_Name = ''job'', nor_Namespace = ''other''\<rparr>"
    "\<not> planned_launch (reset_status demo_lost_run)"
    by (simp_all add: lookup_ref_def)
  define m where "m = ''Agent run job reference '' @ ''other'' @ ''/'' @ ''job'' @ '' is outside AgentRun namespace '' @ ''team'' @ ''.''"
  have ex: "existingAgentRunJob (cl_api cl) w demo_lost_run (Some \<lparr>nor_Name = ''job'', nor_Namespace = ''other''\<rparr>) uid allow = Inr (None, m)"
    for uid allow
    unfolding existingAgentRunJob_def blank_ref_def Let_def option.case NamespacedObjectReference.simps trims demo_lost(5) m_def
    by simp
  have "recover_job cl w demo_lost_run (reset_status demo_lost_run) = Inr (None, m)"
    unfolding recover_job_def ref(1) ex by (simp add: ref(2))
  moreover have "m \<noteq> []"
    by (simp add: m_def)
  ultimately show ?thesis
    by blast
qed

lemma demo_lost_log:
  assumes "cl_cache cl = mem_reader"
  shows "\<exists>res new. AgentRunReconciler_Reconcile (logged cl) r clk (demo_lost_state, []) ''team'' ''check'' =
    (res, snd (cl_PatchRunStatus cl demo_lost_state False demo_lost_run new),
      [PatchedRunStatus False demo_lost_run new (fst (cl_PatchRunStatus cl demo_lost_state False demo_lost_run new))])"
proof -
  obtain m where m: "recover_job cl demo_lost_state demo_lost_run (reset_status demo_lost_run) = Inr (None, m)" "m \<noteq> []"
    using demo_lost_recover [of cl demo_lost_state] by metis
  show ?thesis
    by (rule missing_job_log [OF _ demo_lost(1-3) m]) (simp only: assms demo_lost_read)
qed

lemma demo_lost_recovers: "recovers cl w demo_lost_run = None"
  using demo_lost_recover [of cl w] by (auto simp: recovers_def)

theorem launched_under_claim_witness:
  "\<exists>res w' l. AgentRunReconciler_Reconcile (logged demo_cluster) demo_run_env (\<lambda>n. 9) (demo_lost_state, []) ''team'' ''check'' = (res, w', l) \<and>
     length l = 1 \<and> length (created_jobs l) \<le> 1"
proof -
  obtain res w' new ans where step:
      "AgentRunReconciler_Reconcile (logged demo_cluster) demo_run_env (\<lambda>n. 9) (demo_lost_state, []) ''team'' ''check'' =
        (res, w', [PatchedRunStatus False demo_lost_run new ans])"
    using demo_lost_log [of demo_cluster] by force
  from launched_under_claim [OF mem_jobs.job_api_axioms _ demo_lost(4) step] step show ?thesis
    by (simp add: demo_lost_read)
qed

theorem receipts_stay_wellformed_witness:
  "\<exists>res w' l new ans. AgentRunReconciler_Reconcile (logged demo_cluster) demo_run_env (\<lambda>n. 9) (demo_lost_state, []) ''team'' ''check'' =
       (res, w', l) \<and>
     PatchedRunStatus False demo_lost_run new ans \<in> set l \<and> receipt_wf (run_Status new) \<and> rs_JobRef (run_Status new) \<noteq> None"
proof -
  obtain res w' new ans where step:
      "AgentRunReconciler_Reconcile (logged demo_cluster) demo_run_env (\<lambda>n. 9) (demo_lost_state, []) ''team'' ''check'' =
        (res, w', [PatchedRunStatus False demo_lost_run new ans])"
    using demo_lost_log [of demo_cluster] by force
  have ref: "rs_JobRef (run_Status demo_lost_run) \<noteq> None"
    by (simp add: demo_lost_run_def)
  have "receipt_wf (run_Status new) \<and> rs_JobRef (run_Status new) \<noteq> None"
    using receipts_stay_wellformed [OF mem_jobs.job_api_axioms _ demo_lost(4) step list.set_intros(1)] demo_lost(4) ref
    by (simp add: demo_lost_read)
  then show ?thesis
    using step by (intro exI) auto
qed

text \<open>Two reconciliations of the same version: one has its patch refused, the other has it accepted.\<close>

definition demo_server :: "nat \<Rightarrow> mem_cluster_state cluster" where
  "demo_server i = (if i = 0 then demo_refusing else demo_cluster)"

lemma demo_server_api: "job_api (demo_server i)" "cl_cache (demo_server i) = mem_reader"
  using demo_refusing_api mem_jobs.job_api_axioms by (simp_all add: demo_server_def demo_refusing_def)

lemma demo_lost_accepted:
  "\<exists>stored. fst (mem_patch_run_status demo_lost_state False demo_lost_run new) = Inr stored \<and>
     accepts [demo_lost_run] False demo_lost_run new stored"
proof -
  have "Itoa 1 \<noteq> []"
    by (simp add: Itoa_def itoa_nat.simps [of "Suc 0"])
  moreover have "mc_Next demo_lost_state = 1"
    by (simp add: demo_lost_state_def runs_update_def demo_ready_state_def demo_volume_state_def)
  moreover have "find (keyed run_Meta ''team'' ''check'') (mem_Runs (mc_Kube demo_lost_state)) = Some demo_lost_run"
    by (simp add: demo_lost_state_def runs_update_def keyed_def demo_lost)
  ultimately show ?thesis
    by (simp add: mem_patch_run_status_def demo_lost accepts_def run_key_def Let_def)
qed

theorem interleaved_reconciles_launch_once_witness:
  "\<exists>tr. serves (\<lambda>i. demo_lost_run) [demo_lost_run] tr \<and> set (workers tr) = {0, 1} \<and>
     card {i \<in> set (workers tr). created_jobs (log_of i tr) \<noteq> [] \<and> recovers (demo_server i) demo_lost_state demo_lost_run = None} \<le> 1"
proof -
  have "\<exists>res w' new. AgentRunReconciler_Reconcile (logged (demo_server i)) demo_run_env (\<lambda>n. 9) (demo_lost_state, []) ''team'' ''check'' =
      (res, w', [PatchedRunStatus False demo_lost_run new (fst (cl_PatchRunStatus (demo_server i) demo_lost_state False demo_lost_run new))])" for i
    using demo_lost_log [OF demo_server_api(2)] by blast
  then obtain res w' new where step:
      "AgentRunReconciler_Reconcile (logged (demo_server i)) demo_run_env (\<lambda>n. 9) (demo_lost_state, []) ''team'' ''check'' =
        (res i, w' i, [PatchedRunStatus False demo_lost_run (new i)
          (fst (cl_PatchRunStatus (demo_server i) demo_lost_state False demo_lost_run (new i)))])" for i
    by metis
  let ?ev = "\<lambda>i. PatchedRunStatus False demo_lost_run (new i)
    (fst (cl_PatchRunStatus (demo_server i) demo_lost_state False demo_lost_run (new i)))"
  let ?tr = "[Reconciler 0 (?ev 0), Reconciler 1 (?ev 1)]"
  obtain stored where "fst (cl_PatchRunStatus (demo_server 1) demo_lost_state False demo_lost_run (new 1)) = Inr stored"
      "accepts [demo_lost_run] False demo_lost_run (new 1) stored"
    using demo_lost_accepted [of "new 1"] by (auto simp: demo_server_def)
  then have serves: "serves (\<lambda>i. demo_lost_run) [demo_lost_run] ?tr"
    by (simp add: demo_server_def demo_refusing_def)
  have workers: "set (workers ?tr) = {0, 1}"
    by (auto simp: workers_iff)
  then have "log_of i ?tr = [?ev i]" if "i \<in> set (workers ?tr)" for i
    using that by auto
  then have "card {i \<in> set (workers ?tr). created_jobs (log_of i ?tr) \<noteq> [] \<and> recovers (demo_server i) demo_lost_state demo_lost_run = None} \<le> 1"
    using step
    by (intro interleaved_reconciles_launch_once [where cl = demo_server and w = "\<lambda>i. demo_lost_state" and ns = "''team''"
        and name = "''check''" and r = "\<lambda>i. demo_run_env" and clk = "\<lambda>i n. 9" and res = res and w' = w',
        OF demo_lost(4) serves demo_server_api(1)]) (simp_all only: demo_server_api(2) demo_lost_read)
  then show ?thesis
    using serves workers by blast
qed

text \<open>The archived run that is kept.\<close>

definition demo_kept_state :: mem_cluster_state where
  "demo_kept_state = runs_update (\<lambda>_. [demo_kept_run]) demo_ready_state"



end
