(* ===== verification/Spec2Isabelle.thy ===== *)
theory Spec2Isabelle
  imports Schedule ChainMachine VolumeCopy LaunchOnce
begin

text \<open>
  Verification of the anvil-agents operator, a Kubernetes operator written in Go that runs coding agents: \<^verbatim>\<open>src/api/v1alpha1\<close> has
  its API objects, \<^verbatim>\<open>src/internal/controller\<close> its controllers, \<^verbatim>\<open>src/internal/substrate\<close> the actor plane,
  \<^verbatim>\<open>src/internal/archive\<close> the archive of finished runs and \<^verbatim>\<open>src/internal/standing\<close> the claim of a chat turn.

  \<^bold>\<open>The parts and how they interact.\<close> An AgentRun is one execution of an agent. Users, the AgentSchedule controller and the
  AgentChain controller create runs. The AgentRun controller composes the effective specification of a run from
  profiles, skill sets, tool sets and a council, validates it, waits at the launch gates (holds of AgentRunControl, queues of the
  schedule and of the application), resolves data volumes and credentials, records a plan, records the create attempt and creates
  one Job, or runs the turn on a warm actor. It then follows the Job, carries out what the agent asks for, archives the ended run and
  deletes it after the retention. The volume controllers bind claims to data volumes; maintenance sessions and copies reserve volumes.

  \<^bold>\<open>Conventions.\<close> A Go struct is a record, a string enumeration a datatype with a case for the unset and one for any other value,
  a pointer an option. Nil and empty slices and maps are the empty list. A \<^verbatim>\<open>map[string]string\<close> is an association list. A
  string is a list of bytes. Instants are nanoseconds since year 1, the zero time is 0; durations wrap at 64 bits where the code multiplies them
  and \<^verbatim>\<open>time.Sub\<close> saturates. A fallible function returns \<open>go_error + 'a\<close>; a Go panic is an error value. A reconciler is a function of
  the cluster \<open>'w\<close> that returns its result and the next cluster. Reads are functions of the cluster; writes
  return the server's answer and the next cluster, in which other clients may have written too. \<open>clk n\<close> is the n-th reading of the clock.
  Loops are structural or measured recursion, so there is no fuel, with one exception: the loop of \<^verbatim>\<open>agentScheduleNextRunAfterCreation\<close>, which
  may not end, is a partial function with the value None for that case, and it is shown when it returns.

  \<^bold>\<open>Parameters.\<close> The API server and the cache (\<open>kube\<close>, \<open>cluster\<close>), JSON encoding (\<open>json_lib\<close>, \<open>archive_json\<close>), HTTP and URL parsing
  (\<open>net\<close>), the pod log reader, the actor service and its generate call are arguments of the definitions. What the code relies on
  is stated as locales (\<open>job_api\<close>, \<open>claim_api\<close>, \<open>session_api\<close>, \<open>copy_api\<close>, \<open>actor_plane\<close>) or as hypotheses of a lemma. \<open>MemKube\<close> and
  \<open>MemCluster\<close> are concrete servers on which these locales are interpreted and the witnesses run; the fake client of
  \<^verbatim>\<open>substrate/fake.go\<close> interprets \<open>actor_plane\<close>.

  \<^bold>\<open>Theories.\<close>
  \<^item> Prelude: \<open>GoLang\<close>, \<open>GoHash\<close> (SHA-256), \<open>Runes\<close> (UTF-8), \<open>Names\<close> (labels and child names).
  \<^item> Objects and clients: \<open>ApiTypes\<close>, \<open>WorkloadTypes\<close>, \<open>VolumeTypes\<close>, \<open>SituationTypes\<close>, \<open>Kube\<close>, \<open>Cluster\<close>, \<open>MemKube\<close>, \<open>MemCluster\<close>.
    \<open>Observed\<close> logs the writes of a controller; statements about a log are statements about what the controller writes.
  \<^item> \<open>RunControl\<close> (\<^verbatim>\<open>agent_run_control_controller.go\<close>), \<open>RunOrder\<close> and \<open>LaunchGate\<close>: holds and queues. The gates bound the number of
    runs that pass, the order has an unblocked head, and a hold that cannot be read stops the launch.
  \<^item> \<open>Cadence\<close>, \<open>ScheduleTiming\<close>, \<open>ScheduleRuns\<close>, \<open>Schedule\<close> (\<^verbatim>\<open>agent_schedule_controller.go\<close>): creation is guarded and happens
    once for a due time; an idle schedule starts.
  \<^item> \<open>ChainCore\<close>, \<open>ChainRuns\<close>, \<open>Chain\<close>, \<open>ChainMachine\<close> (\<^verbatim>\<open>agent_chain_controller.go\<close>): the reconciler refines an abstract
    step machine; creation, cancellation and deletion are guarded; an idle chain starts.
  \<^item> \<open>ProfileMerge\<close>, \<open>Capabilities\<close>, \<open>Composition\<close> (\<^verbatim>\<open>agent_run_composition.go\<close>, \<^verbatim>\<open>create_agent.go\<close>): layers associate, overrides are
    updates of a map, the composition stays in the namespace and credentials come from profiles only.
  \<^item> \<open>Options\<close> (\<^verbatim>\<open>options.go\<close>), \<open>Payload\<close>, \<open>RunBackend\<close>, \<open>RunJob\<close>, \<open>RunReceipt\<close>, \<open>RunReports\<close> (\<^verbatim>\<open>agent_run_controller.go\<close>): what a
    validated run executes, what its Job contains, and that the controller recognises its own Job and no other.
  \<^item> \<open>DataVolume\<close>, \<open>VolumeUse\<close>, \<open>AuthSession\<close>, \<open>VolumeCopy\<close> (the volume, session and copy controllers): claims are pinned, a
    maintenance Job or copy has its volume to itself, and the situations in which two of them block each other.
  \<^item> \<open>Substrate\<close>, \<open>ActorTurn\<close> (\<^verbatim>\<open>internal/substrate\<close>, \<^verbatim>\<open>agent_run_substrate_live.go\<close>), \<open>Standing\<close>, \<open>Archive\<close>.
  \<^item> \<open>RunTerminal\<close>, \<open>RunPeers\<close>, \<open>SecretRefresh\<close>, \<open>RunLaunch\<close>, \<open>RunReconcile\<close>: the rest of \<^verbatim>\<open>AgentRunReconciler.Reconcile\<close>, with its
    stages named after what they do; the definitions of one stage follow the order of the code.
  \<^item> \<open>SingleExecution\<close> and \<open>LaunchOnce\<close> put the run controller together: every reconciliation creates at most one Job, under a
    recorded claim, and does create it when the claim is accepted; any interleaving of reconciliations on a server that honours the
    optimistic lock launches at most one.

  \<^bold>\<open>Not modelled.\<close> The adverse situation and signal controllers (their objects are, since runs read them), the external trigger
  controller, the operator's wiring and the registration of controllers (calls of the framework), the chat store and the run API
  (SQL and HTTP), the streaming chat services, the desktop, command-line and probe programs (process and network I/O), the web
  interface, the charts and the generated DeepCopy functions, which are the identity on the values of the model. The API server's
  validation of objects by their schemas is not assumed anywhere.
\<close>

end
